(* ===== verification/Prelude.thy ===== *)
theory Prelude
  imports Main "HOL-Library.AList"
begin

section \<open>Prelude: Python values shared by all components\<close>

text \<open>
  What every component of the model uses of the Python language:
  \<^item> \<open>exc\<close>: the exception classes the code raises or catches, with their message;
    a fallible operation returns \<open>exc + 'a\<close>, a fallible operation on a state returns the
    state (mutations made before the raise are kept) together with such a sum;
  \<^item> dictionaries as association lists with insertion order, updated by
    \<^const>\<open>AList.update\<close> (an existing key keeps its place, a new one is appended);
  \<^item> strings as UTF-8 byte sequences (\<open>string\<close>), with the operations used on them
    (\<open>str(int)\<close>, hexadecimal formatting, \<open>split\<close>, \<open>join\<close>, \<open>len\<close>);
  \<^item> the lemma collections and generic lemmas on lists and dictionaries.
\<close>

named_theorems py_simps "evaluation of the string and dictionary operations of the model"

subsection \<open>Exceptions\<close>

datatype exc =
    ValueError string
  | TypeError string
  | KeyError string
  | RuntimeError string
  | OSError string
  | TimeoutErr string
  | SerialException string
  | SetpointValidationError string
  | HardwareFaultActiveError string
  | AeroControlUnavailableError string
  | GP8403Error string
  | HardwareWorkerError string
  | ModbusError string
  | UnsupportedMapVersion int int
  | AeroTelemetryError string
  | OtherException string

text \<open>
  \<open>except ValueError\<close> catches the class and its subclasses; in the code these are
  \<open>SetpointValidationError\<close>, \<open>UnsupportedMapVersion\<close> and \<open>AeroTelemetryError\<close>.
\<close>

fun is_value_error :: "exc \<Rightarrow> bool" where
  "is_value_error (ValueError _) = True"
| "is_value_error (SetpointValidationError _) = True"
| "is_value_error (UnsupportedMapVersion _ _) = True"
| "is_value_error (AeroTelemetryError _) = True"
| "is_value_error _ = False"

text \<open>\<open>type(exc).__name__\<close>, for the \<open>"Name: message"\<close> texts of the bus workers.\<close>

fun exc_name :: "exc \<Rightarrow> string" where
  "exc_name (ValueError _) = ''ValueError''"
| "exc_name (TypeError _) = ''TypeError''"
| "exc_name (KeyError _) = ''KeyError''"
| "exc_name (RuntimeError _) = ''RuntimeError''"
| "exc_name (OSError _) = ''OSError''"
| "exc_name (TimeoutErr _) = ''TimeoutError''"
| "exc_name (SerialException _) = ''SerialException''"
| "exc_name (SetpointValidationError _) = ''SetpointValidationError''"
| "exc_name (HardwareFaultActiveError _) = ''HardwareFaultActiveError''"
| "exc_name (AeroControlUnavailableError _) = ''AeroControlUnavailableError''"
| "exc_name (GP8403Error _) = ''GP8403Error''"
| "exc_name (HardwareWorkerError _) = ''HardwareWorkerError''"
| "exc_name (ModbusError _) = ''ModbusError''"
| "exc_name (UnsupportedMapVersion _ _) = ''UnsupportedMapVersion''"
| "exc_name (AeroTelemetryError _) = ''AeroTelemetryError''"
| "exc_name (OtherException _) = ''Exception''"

type_synonym 'a result = "exc + 'a"

definition is_ok :: "'a result \<Rightarrow> bool" where
  "is_ok r = (case r of Inl _ \<Rightarrow> False | Inr _ \<Rightarrow> True)"

lemma is_ok_simps [simp]: "is_ok (Inr x)" "\<not> is_ok (Inl e)"
  by (simp_all add: is_ok_def)

lemma is_ok_iff: "is_ok r \<longleftrightarrow> (\<exists>x. r = Inr x)"
  by (cases r) simp_all

text \<open>Sequencing of results: stop at the first exception.\<close>

definition rbind :: "'a result \<Rightarrow> ('a \<Rightarrow> 'b result) \<Rightarrow> 'b result" where
  "rbind r f = (case r of Inl e \<Rightarrow> Inl e | Inr x \<Rightarrow> f x)"

lemma rbind_simps [simp]: "rbind (Inl e) f = Inl e" "rbind (Inr x) f = f x"
  by (simp_all add: rbind_def)

lemma rbind_eq_Inr: "rbind r f = Inr y \<longleftrightarrow> (\<exists>x. r = Inr x \<and> f x = Inr y)"
  by (cases r) simp_all

text \<open>\<open>for x in xs: acc = f(acc, x)\<close> where the body may raise.\<close>

fun fold_result :: "('s \<Rightarrow> 'a \<Rightarrow> 's result) \<Rightarrow> 's \<Rightarrow> 'a list \<Rightarrow> 's result" where
  "fold_result f s [] = Inr s"
| "fold_result f s (x # xs) = (case f s x of Inl e \<Rightarrow> Inl e | Inr s' \<Rightarrow> fold_result f s' xs)"

lemma fold_result_inv:
  assumes "fold_result f s xs = Inr t" and "P s"
    and "\<And>a x b. x \<in> set xs \<Longrightarrow> P a \<Longrightarrow> f a x = Inr b \<Longrightarrow> P b"
  shows "P t"
  using assms
proof (induction xs arbitrary: s)
  case (Cons x xs)
  from Cons.prems(1) obtain u where u: "f s x = Inr u" "fold_result f u xs = Inr t"
    by (auto split: sum.splits)
  with Cons.prems(2,3) have "P u" by (meson list.set_intros(1))
  with u(2) Cons.prems(3) show ?case by (intro Cons.IH) (auto intro: list.set_intros(2))
qed simp

text \<open>\<open>[f(x) for x in xs]\<close> where \<open>f\<close> may raise.\<close>

fun map_result :: "('a \<Rightarrow> 'b result) \<Rightarrow> 'a list \<Rightarrow> 'b list result" where
  "map_result f [] = Inr []"
| "map_result f (x # xs) =
     (case f x of Inl e \<Rightarrow> Inl e
      | Inr y \<Rightarrow> (case map_result f xs of Inl e \<Rightarrow> Inl e | Inr ys \<Rightarrow> Inr (y # ys)))"

lemma map_result_Inr_iff:
  "(map_result f xs = Inr ys) \<longleftrightarrow> list_all2 (\<lambda>x y. f x = Inr y) xs ys"
proof (induction xs arbitrary: ys)
  case (Cons x xs)
  show ?case
  proof (cases "f x")
    case (Inr y)
    then show ?thesis
      using Cons.IH by (cases "map_result f xs") (auto simp: list_all2_Cons1)
  qed (simp add: list_all2_Cons1)
qed auto

subsection \<open>Operations on a state that may raise\<close>

text \<open>
  A method that mutates its object and may raise: the state it leaves (also when it raises)
  and the result. \<open>op_bind\<close> is sequencing, \<open>op_catch\<close> is \<open>try: ... except E: ...\<close> for the
  exceptions that satisfy a test.
\<close>

type_synonym ('s, 'a) op = "'s \<Rightarrow> 's \<times> 'a result"

definition op_return :: "'a \<Rightarrow> ('s, 'a) op" where
  "op_return x s = (s, Inr x)"

definition op_raise :: "exc \<Rightarrow> ('s, 'a) op" where
  "op_raise e s = (s, Inl e)"

definition op_bind :: "('s, 'a) op \<Rightarrow> ('a \<Rightarrow> ('s, 'b) op) \<Rightarrow> ('s, 'b) op" where
  "op_bind m f s = (case m s of (s', Inl e) \<Rightarrow> (s', Inl e) | (s', Inr x) \<Rightarrow> f x s')"

definition op_catch :: "('s, 'a) op \<Rightarrow> (exc \<Rightarrow> bool) \<Rightarrow> (exc \<Rightarrow> ('s, 'a) op) \<Rightarrow> ('s, 'a) op" where
  "op_catch m test h s =
     (case m s of (s', Inl e) \<Rightarrow> (if test e then h e s' else (s', Inl e)) | (s', Inr x) \<Rightarrow> (s', Inr x))"

text \<open>A call whose exception is logged and dropped.\<close>

definition op_ignore :: "('s, 'a) op \<Rightarrow> 's \<Rightarrow> 's" where
  "op_ignore m s = fst (m s)"

text \<open>\<open>try: m finally: n\<close>: an exception of \<open>n\<close> replaces one of \<open>m\<close>.\<close>

definition op_finally :: "('s, 'a) op \<Rightarrow> ('s, unit) op \<Rightarrow> ('s, 'a) op" where
  "op_finally m n s = (let (s1, r) = m s; (s2, r2) = n s1
     in (s2, case r2 of Inl e \<Rightarrow> Inl e | Inr _ \<Rightarrow> r))"

definition op_lift :: "'a result \<Rightarrow> ('s, 'a) op" where
  "op_lift r s = (s, r)"

lemma op_return_apply [simp]: "op_return x s = (s, Inr x)"
  by (simp add: op_return_def)

lemma op_raise_apply [simp]: "op_raise e s = (s, Inl e)"
  by (simp add: op_raise_def)

lemma op_lift_apply [simp]: "op_lift r s = (s, r)"
  by (simp add: op_lift_def)

lemma op_bind_Inr: "m s = (s', Inr x) \<Longrightarrow> op_bind m f s = f x s'"
  by (simp add: op_bind_def)

lemma op_bind_Inl: "m s = (s', Inl e) \<Longrightarrow> op_bind m f s = (s', Inl e)"
  by (simp add: op_bind_def)

lemma op_bind_eq_Inr:
  "op_bind m f s = (t, Inr y) \<longleftrightarrow> (\<exists>s' x. m s = (s', Inr x) \<and> f x s' = (t, Inr y))"
  by (cases "m s"; cases "snd (m s)") (auto simp: op_bind_def)

lemma op_bind_return [simp]: "op_bind (op_return x) f = f x"
  by (simp add: op_bind_def fun_eq_iff)

lemma op_bind_raise [simp]: "op_bind (op_raise e) f = op_raise e"
  by (simp add: op_bind_def fun_eq_iff)

lemma op_bind_if [simp]:
  "op_bind (if b then m else n) f = (if b then op_bind m f else op_bind n f)"
  by simp

text \<open>Running an operation for its outcome, exceptions included.\<close>

lemma op_catch_outcome: "op_catch m test h = op_bind (\<lambda>s. (fst (m s), Inr (snd (m s))))
    (\<lambda>r. case r of Inr x \<Rightarrow> op_return x | Inl e \<Rightarrow> if test e then h e else op_raise e)"
  by (auto simp: op_catch_def op_bind_def fun_eq_iff split: prod.split sum.split)

subsection \<open>Truth values and optional values\<close>

text \<open>\<open>value or default\<close> for an optional string: \<open>None\<close> and \<open>""\<close> are falsy.\<close>

definition str_or :: "string option \<Rightarrow> string \<Rightarrow> string" where
  "str_or v d = (case v of None \<Rightarrow> d | Some s \<Rightarrow> (if s = '''' then d else s))"

definition str_truthy :: "string option \<Rightarrow> bool" where
  "str_truthy v = (case v of None \<Rightarrow> False | Some s \<Rightarrow> s \<noteq> '''')"

lemma str_or_simps [simp]: "str_or None d = d" "s \<noteq> '''' \<Longrightarrow> str_or (Some s) d = s" "str_or (Some '''') d = d"
  by (simp_all add: str_or_def)

lemma str_truthy_simps [simp]: "\<not> str_truthy None" "str_truthy (Some s) \<longleftrightarrow> s \<noteq> ''''"
  by (simp_all add: str_truthy_def)

subsection \<open>Numbers as text\<close>

definition digit_char :: "nat \<Rightarrow> char" where
  "digit_char d = char_of (if d < 10 then 48 + d else 87 + d)"

definition upper_digit_char :: "nat \<Rightarrow> char" where
  "upper_digit_char d = char_of (if d < 10 then 48 + d else 55 + d)"

fun show_nat :: "nat \<Rightarrow> string" where
  "show_nat n = (if n < 10 then [digit_char n] else show_nat (n div 10) @ [digit_char (n mod 10)])"

declare show_nat.simps [simp del]

definition show_int :: "int \<Rightarrow> string" where
  "show_int i = (if i < 0 then ''-'' @ show_nat (nat (- i)) else show_nat (nat i))"

lemma show_nat_nonempty [simp]: "show_nat n \<noteq> []"
  by (subst show_nat.simps) simp

lemma show_int_nonempty [simp]: "show_int i \<noteq> []"
  by (simp add: show_int_def)

text \<open>\<open>str(exc)\<close>, the text that reaches \<open>last_error\<close> fields and alarms.\<close>

fun exc_str :: "exc \<Rightarrow> string" where
  "exc_str (ValueError m) = m"
| "exc_str (TypeError m) = m"
| "exc_str (KeyError m) = m"
| "exc_str (RuntimeError m) = m"
| "exc_str (OSError m) = m"
| "exc_str (TimeoutErr m) = m"
| "exc_str (SerialException m) = m"
| "exc_str (SetpointValidationError m) = m"
| "exc_str (HardwareFaultActiveError m) = m"
| "exc_str (AeroControlUnavailableError m) = m"
| "exc_str (GP8403Error m) = m"
| "exc_str (HardwareWorkerError m) = m"
| "exc_str (ModbusError m) = m"
| "exc_str (UnsupportedMapVersion received expected) =
     ''Unsupported register map '' @ show_int received @ ''; expected '' @ show_int expected"
| "exc_str (AeroTelemetryError m) = m"
| "exc_str (OtherException m) = m"

text \<open>The last \<open>w\<close> digits of \<open>n\<close> in base \<open>b\<close>: \<open>f"{n:02d}"\<close> and \<open>f"{n:04X}"\<close> for a number
  that fits in the width.\<close>

fun show_width :: "(nat \<Rightarrow> char) \<Rightarrow> nat \<Rightarrow> nat \<Rightarrow> nat \<Rightarrow> string" where
  "show_width dig b 0 n = []"
| "show_width dig b (Suc w) n = show_width dig b w (n div b) @ [dig (n mod b)]"

lemma length_show_width [simp]: "length (show_width dig b w n) = w"
  by (induction w arbitrary: n) simp_all

definition hex_upper :: "nat \<Rightarrow> int \<Rightarrow> string" where
  "hex_upper w n = show_width upper_digit_char 16 w (nat n)"

definition hex_lower :: "nat \<Rightarrow> int \<Rightarrow> string" where
  "hex_lower w n = show_width digit_char 16 w (nat n)"

text \<open>\<open>f"{n:x}"\<close> without padding.\<close>

fun show_hex :: "nat \<Rightarrow> string" where
  "show_hex n = (if n < 16 then [digit_char n] else show_hex (n div 16) @ [digit_char (n mod 16)])"

declare show_hex.simps [simp del]

fun join :: "string \<Rightarrow> string list \<Rightarrow> string" where
  "join sep [] = ''''"
| "join sep [s] = s"
| "join sep (s # t # ss) = s @ sep @ join sep (t # ss)"

text \<open>\<open>s.split(c)\<close> for a one-character separator: always at least one part.\<close>

fun split_on :: "char \<Rightarrow> string \<Rightarrow> string list" where
  "split_on c [] = [[]]"
| "split_on c (x # xs) =
     (if x = c then [] # split_on c xs
      else (case split_on c xs of [] \<Rightarrow> [[x]] | p # ps \<Rightarrow> (x # p) # ps))"

lemma split_on_nonempty [simp]: "split_on c xs \<noteq> []"
  by (induction xs) (auto split: list.splits)

lemma split_on_append_sep:
  "c \<notin> set xs \<Longrightarrow> split_on c (xs @ c # ys) = xs # split_on c ys"
  by (induction xs) auto

lemma split_on_no_sep: "c \<notin> set xs \<Longrightarrow> split_on c xs = [xs]"
  by (induction xs) auto

text \<open>
  \<open>len(s)\<close> counts code points: every byte of the UTF-8 form but the continuation bytes
  \<open>0x80..0xBF\<close>.
\<close>

definition is_continuation :: "char \<Rightarrow> bool" where
  "is_continuation c = (128 \<le> (of_char c :: nat) \<and> (of_char c :: nat) < 192)"

definition py_len :: "string \<Rightarrow> nat" where
  "py_len s = length (filter (\<lambda>c. \<not> is_continuation c) s)"

lemma py_len_append [simp]: "py_len (s @ t) = py_len s + py_len t"
  by (simp add: py_len_def)

lemma py_len_Nil [simp]: "py_len [] = 0"
  by (simp add: py_len_def)

definition is_digit_char :: "char \<Rightarrow> bool" where
  "is_digit_char c = (48 \<le> (of_char c :: nat) \<and> (of_char c :: nat) \<le> 57)"

definition digit_value :: "char \<Rightarrow> int" where
  "digit_value c = int (of_char c) - 48"

text \<open>\<open>int(s)\<close> of a string of decimal digits.\<close>

definition digits_value :: "string \<Rightarrow> int" where
  "digits_value s = foldl (\<lambda>acc c. 10 * acc + digit_value c) 0 s"

lemma of_char_digit_char: "d < 10 \<Longrightarrow> of_char (digit_char d) = 48 + d"
  by (simp add: digit_char_def)

lemma is_digit_digit_char [simp]: "d < 10 \<Longrightarrow> is_digit_char (digit_char d)"
  by (simp add: is_digit_char_def of_char_digit_char)

lemma digit_value_digit_char [simp]: "d < 10 \<Longrightarrow> digit_value (digit_char d) = int d"
  by (simp add: digit_value_def of_char_digit_char)

lemma digit_char_not_colon [simp]: "d < 10 \<Longrightarrow> digit_char d \<noteq> CHR '':''"
proof
  assume "d < 10" and "digit_char d = CHR '':''"
  then have "of_char (CHR '':'') = 48 + d" using of_char_digit_char by metis
  with \<open>d < 10\<close> show False by simp
qed

lemma digit_char_not_continuation [simp]: "d < 10 \<Longrightarrow> \<not> is_continuation (digit_char d)"
  by (simp add: is_continuation_def of_char_digit_char)

subsection \<open>Dictionaries in insertion order\<close>

text \<open>\<open>{f(x): g(x) for x in xs}\<close>: later entries overwrite the value, not the place.\<close>

definition dict_of :: "('a \<Rightarrow> 'k) \<Rightarrow> ('a \<Rightarrow> 'v) \<Rightarrow> 'a list \<Rightarrow> ('k \<times> 'v) list" where
  "dict_of f g xs = foldl (\<lambda>d x. AList.update (f x) (g x) d) [] xs"

lemma dict_of_snoc [simp]:
  "dict_of f g (xs @ [x]) = AList.update (f x) (g x) (dict_of f g xs)"
  by (simp add: dict_of_def)

lemma dict_of_Nil [simp]: "dict_of f g [] = []"
  by (simp add: dict_of_def)

lemma distinct_dict_of: "distinct (map fst (dict_of f g xs))"
  by (induction xs rule: rev_induct) (simp_all add: distinct_update)

lemma keys_dict_of: "fst ` set (dict_of f g xs) = f ` set xs"
  by (induction xs rule: rev_induct) (auto simp: dom_update)

lemma map_of_dict_of_None [simp]: "map_of (dict_of f g xs) k = None \<longleftrightarrow> k \<notin> f ` set xs"
  by (simp add: map_of_eq_None_iff keys_dict_of)

lemma map_of_dict_of_inj:
  "inj_on f (set xs) \<Longrightarrow> x \<in> set xs \<Longrightarrow> map_of (dict_of f g xs) (f x) = Some (g x)"
proof (induction xs rule: rev_induct)
  case (snoc y ys)
  then show ?case
    by (cases "x = y") (auto simp: update_conv inj_on_def)
qed simp

lemma map_of_dict_of_Some:
  "map_of (dict_of f g xs) k = Some v \<Longrightarrow> \<exists>x \<in> set xs. f x = k \<and> g x = v"
proof (induction xs rule: rev_induct)
  case (snoc y ys)
  then show ?case by (cases "f y = k") (auto simp: update_conv)
qed simp

text \<open>\<open>d.get(k, default)\<close>.\<close>

definition dict_get :: "('k \<times> 'v) list \<Rightarrow> 'k \<Rightarrow> 'v \<Rightarrow> 'v" where
  "dict_get d k v = (case map_of d k of None \<Rightarrow> v | Some x \<Rightarrow> x)"

lemma dict_get_update [simp]:
  "dict_get (AList.update k v d) k' w = (if k = k' then v else dict_get d k' w)"
  by (simp add: dict_get_def update_conv)

lemma dict_get_delete [simp]:
  "dict_get (AList.delete k d) k' w = (if k = k' then w else dict_get d k' w)"
  by (simp add: dict_get_def delete_conv)

subsection \<open>Lists\<close>

lemma find_Some_mem: "find P xs = Some x \<Longrightarrow> x \<in> set xs \<and> P x"
  by (induction xs) (auto split: if_splits)

lemma distinct_map_filter_keys: "distinct (map f xs) \<Longrightarrow> distinct (map f (filter P xs))"
  by (simp add: distinct_map inj_on_def)

lemma map_filter_index: "filter P (map f xs) = map f (filter (P \<circ> f) xs)"
  by (simp add: filter_map comp_def)

end
