(* ===== verification/Binary64.thy ===== *)
theory Binary64
  imports Complex_Main Prelude "HOL-Library.Log_Nat"
begin

section \<open>Python floats: IEEE binary64 values and rounding\<close>

text \<open>
  A Python \<open>float\<close> is a finite binary64 number, an infinity or NaN. Finite values are exact
  rationals; every arithmetic operation computes the exact result and rounds it to the
  nearest binary64 number, ties to even, with overflow to an infinity (\<open>to_float\<close>).
  Comparisons are exact and false on NaN. Not distinguished: the sign of zero, which no
  comparison of the code observes.
  The interface \<open>rounding\<close> states what the proofs use of rounding (monotone, exact on small
  dyadic rationals); it is interpreted by \<open>round64\<close>.
\<close>

named_theorems float_simps "comparison and arithmetic of binary64 values"

datatype py_float = Fin rat | PInf | MInf | NaN

subsection \<open>Comparisons\<close>

fun flt :: "py_float \<Rightarrow> py_float \<Rightarrow> bool" where
  "flt (Fin a) (Fin b) = (a < b)"
| "flt (Fin _) PInf = True"
| "flt MInf (Fin _) = True"
| "flt MInf PInf = True"
| "flt _ _ = False"

fun feq :: "py_float \<Rightarrow> py_float \<Rightarrow> bool" where
  "feq (Fin a) (Fin b) = (a = b)"
| "feq PInf PInf = True"
| "feq MInf MInf = True"
| "feq _ _ = False"

definition fle :: "py_float \<Rightarrow> py_float \<Rightarrow> bool" where
  "fle a b = (flt a b \<or> feq a b)"

lemma fle_simps [simp, float_simps]:
  "fle (Fin a) (Fin b) = (a \<le> b)" "fle (Fin a) PInf" "fle MInf (Fin a)" "\<not> fle (Fin a) MInf"
  "\<not> fle PInf (Fin a)" "\<not> fle NaN x" "\<not> fle x NaN"
  by (auto simp: fle_def)

lemma feq_refl [simp]: "feq x x \<longleftrightarrow> x \<noteq> NaN"
  by (cases x) simp_all

lemma feq_Fin: "feq x (Fin a) \<longleftrightarrow> x = Fin a" "feq (Fin a) x \<longleftrightarrow> x = Fin a"
  by (cases x; auto)+

lemma flt_NaN [simp]: "\<not> flt NaN x" "\<not> flt x NaN"
  by (cases x; simp)+

definition is_finite :: "py_float \<Rightarrow> bool" where
  "is_finite x = (case x of Fin _ \<Rightarrow> True | _ \<Rightarrow> False)"

lemma is_finite_simps [simp]: "is_finite (Fin a)" "\<not> is_finite PInf" "\<not> is_finite MInf" "\<not> is_finite NaN"
  by (simp_all add: is_finite_def)

lemma is_finite_iff: "is_finite x \<longleftrightarrow> (\<exists>a. x = Fin a)"
  by (cases x) simp_all

lemma fle_bounded_finite: "fle (Fin a) x \<Longrightarrow> fle x (Fin b) \<Longrightarrow> \<exists>r. x = Fin r \<and> a \<le> r \<and> r \<le> b"
  by (cases x) simp_all

subsection \<open>Round half to even\<close>

definition round_half_even :: "rat \<Rightarrow> int" where
  "round_half_even x =
     (let n = \<lfloor>x\<rfloor>; d = x - of_int n
      in if d < 1 / 2 then n else if d > 1 / 2 then n + 1 else if even n then n else n + 1)"

lemma round_half_even_of_int [simp]: "round_half_even (of_int n) = n"
  by (simp add: round_half_even_def)

lemma round_half_even_cases:
  "round_half_even x = \<lfloor>x\<rfloor> \<or> round_half_even x = \<lfloor>x\<rfloor> + 1"
  by (simp add: round_half_even_def Let_def)

lemma round_half_even_near: "\<bar>of_int (round_half_even x) - x\<bar> \<le> 1 / 2"
proof -
  have "of_int \<lfloor>x\<rfloor> \<le> x" "x < of_int \<lfloor>x\<rfloor> + 1" by linarith+
  then show ?thesis by (auto simp: round_half_even_def Let_def abs_le_iff)
qed

lemma round_half_even_mono:
  assumes "x \<le> y" shows "round_half_even x \<le> round_half_even y"
proof (cases "\<lfloor>x\<rfloor> = \<lfloor>y\<rfloor>")
  case True
  with assms show ?thesis by (auto simp: round_half_even_def Let_def)
next
  case False
  with floor_mono[OF assms] have "\<lfloor>x\<rfloor> + 1 \<le> \<lfloor>y\<rfloor>" by linarith
  with round_half_even_cases[of x] round_half_even_cases[of y] show ?thesis by linarith
qed

lemma round_half_even_bounds:
  "of_int a \<le> x \<Longrightarrow> a \<le> round_half_even x" "x \<le> of_int b \<Longrightarrow> round_half_even x \<le> b"
  using round_half_even_mono[of "of_int a" x] round_half_even_mono[of x "of_int b"] by simp_all

lemma round_half_even_minus: "round_half_even (- x) = - round_half_even x"
proof (cases "x = of_int \<lfloor>x\<rfloor>")
  case True
  then obtain n where "x = of_int n" by blast
  then show ?thesis by (metis of_int_minus round_half_even_of_int)
next
  case False
  then have f: "\<lfloor>- x\<rfloor> = - \<lfloor>x\<rfloor> - 1" by linarith
  have b: "of_int \<lfloor>x\<rfloor> \<le> x" "x < of_int \<lfloor>x\<rfloor> + 1" by linarith+
  show ?thesis
    unfolding round_half_even_def Let_def f
    using b by (auto simp: field_simps)
qed

subsection \<open>Binary exponent\<close>

text \<open>\<open>ilog2 x\<close> is the exponent with \<open>2 ^ e \<le> x < 2 ^ (e + 1)\<close>, for a positive \<open>x\<close>.\<close>

definition ilog2 :: "rat \<Rightarrow> int" where
  "ilog2 x =
     (if 1 \<le> x then int (floorlog 2 (nat \<lfloor>x\<rfloor>)) - 1
      else - int (floorlog 2 (nat (\<lceil>1 / x\<rceil> - 1))))"

lemma floorlog_two_bounds:
  assumes "0 < n" shows "2 ^ (floorlog 2 n - 1) \<le> n" "n < 2 ^ floorlog 2 n" "0 < floorlog 2 n"
  using floorlog_bounds[of n 2] assms floorlog_eq_zero_iff[of 2 n] by auto

lemma ilog2_bounds:
  assumes "0 < x" shows "2 powi ilog2 x \<le> x" "x < 2 powi (ilog2 x + 1)"
proof -
  have "2 powi ilog2 x \<le> x \<and> x < 2 powi (ilog2 x + 1)"
  proof (cases "1 \<le> x")
    case True
    define n where "n = nat \<lfloor>x\<rfloor>"
    define k where "k = floorlog 2 n"
    from True have "0 < n" by (simp add: n_def)
    note b = floorlog_two_bounds[OF this, folded k_def]
    have nx: "of_nat n \<le> x" "x < of_nat n + 1"
      using True by (simp_all add: n_def of_nat_nat) linarith
    have l: "(2::rat) ^ (k - 1) \<le> of_nat n"
      using b(1) by (metis of_nat_le_iff of_nat_numeral of_nat_power)
    have u: "of_nat n + 1 \<le> (2::rat) ^ k"
      using b(2) by (metis Suc_eq_plus1 Suc_leI of_nat_1 of_nat_add of_nat_le_iff of_nat_numeral of_nat_power)
    have "ilog2 x = int (k - 1)" "ilog2 x + 1 = int k"
      using True b(3) by (simp_all add: ilog2_def n_def k_def)
    then have "2 powi ilog2 x = (2::rat) ^ (k - 1)" "2 powi (ilog2 x + 1) = (2::rat) ^ k"
      by (simp_all only: power_int_of_nat)
    with l u nx show ?thesis by linarith
  next
    case False
    define n where "n = nat (\<lceil>1 / x\<rceil> - 1)"
    define k where "k = floorlog 2 n"
    from False assms have y: "1 < 1 / x" by simp
    then have "0 < n" by (simp add: n_def)
    note b = floorlog_two_bounds[OF this, folded k_def]
    have nx: "of_nat n < 1 / x" "1 / x \<le> of_nat n + 1"
      using y by (simp_all add: n_def of_nat_nat) linarith+
    have l: "(2::rat) ^ (k - 1) \<le> of_nat n"
      using b(1) by (metis of_nat_le_iff of_nat_numeral of_nat_power)
    have u: "of_nat n + 1 \<le> (2::rat) ^ k"
      using b(2) by (metis Suc_eq_plus1 Suc_leI of_nat_1 of_nat_add of_nat_le_iff of_nat_numeral of_nat_power)
    have k: "ilog2 x = - int k" "ilog2 x + 1 = - int (k - 1)"
      using False b(3) by (simp_all add: ilog2_def n_def k_def)
    from nx u have "1 / x \<le> 2 ^ k" by linarith
    with assms have "1 / 2 ^ k \<le> x" by (simp add: field_simps)
    moreover from nx l have "2 ^ (k - 1) < 1 / x" by linarith
    with assms have "x < 1 / 2 ^ (k - 1)" by (simp add: field_simps)
    moreover have "2 powi ilog2 x = 1 / (2::rat) ^ k"
      by (simp only: k(1) power_int_minus power_int_of_nat divide_inverse mult_1)
    moreover have "2 powi (ilog2 x + 1) = 1 / (2::rat) ^ (k - 1)"
      by (simp only: k(2) power_int_minus power_int_of_nat divide_inverse mult_1)
    ultimately show ?thesis by linarith
  qed
  then show "2 powi ilog2 x \<le> x" "x < 2 powi (ilog2 x + 1)" by blast+
qed

lemma two_powi_less: "a < b \<Longrightarrow> (2::rat) powi a < 2 powi b"
  by (rule power_int_strict_increasing) simp_all

lemma two_powi_less_iff: "(2::rat) powi a < 2 powi b \<longleftrightarrow> a < b"
  using two_powi_less[of a b] two_powi_less[of b a] by (cases a b rule: linorder_cases) auto

lemma two_powi_le_iff [simp]: "(2::rat) powi a \<le> 2 powi b \<longleftrightarrow> a \<le> b"
  using two_powi_less_iff[of b a] by linarith

lemma two_powi_pos [simp]: "0 < (2::rat) powi a"
  by (simp add: zero_less_power_int)

lemma ilog2_mono: "0 < x \<Longrightarrow> x \<le> y \<Longrightarrow> ilog2 x \<le> ilog2 y"
proof -
  assume a: "0 < x" "x \<le> y"
  then have "2 powi ilog2 x < (2::rat) powi (ilog2 y + 1)"
    using ilog2_bounds[of x] ilog2_bounds[of y] by linarith
  then show ?thesis by (simp add: two_powi_less_iff)
qed

lemma ilog2_ge: "2 powi e \<le> x \<Longrightarrow> e \<le> ilog2 x"
proof -
  assume a: "2 powi e \<le> x"
  then have "0 < x" using two_powi_pos[of e] by linarith
  from a ilog2_bounds(2)[OF this] have "2 powi e < (2::rat) powi (ilog2 x + 1)" by linarith
  then show ?thesis by (simp add: two_powi_less_iff)
qed

subsection \<open>Rounding to binary64\<close>

text \<open>
  The spacing of binary64 numbers around \<open>x\<close> is \<open>2 ^ ulp_exp x\<close>: 53 significant bits, and
  no exponent below the one of the subnormal numbers.
\<close>

definition ulp_exp :: "rat \<Rightarrow> int" where
  "ulp_exp x = max (ilog2 \<bar>x\<bar> - 52) (- 1074)"

definition round64 :: "rat \<Rightarrow> rat" where
  "round64 x =
     (if x = 0 then 0
      else of_int (round_half_even (x / 2 powi ulp_exp x)) * 2 powi ulp_exp x)"

text \<open>The interface of rounding: monotone, odd, exact on integer multiples of a power of two
  that fit in 53 bits.\<close>

locale rounding =
  fixes rnd :: "rat \<Rightarrow> rat"
  assumes mono: "x \<le> y \<Longrightarrow> rnd x \<le> rnd y"
    and exact: "\<bar>m\<bar> \<le> 2 ^ 53 \<Longrightarrow> k \<le> 1074 \<Longrightarrow> rnd (of_int m / 2 ^ k) = of_int m / 2 ^ k"
begin

lemma of_int_exact: "\<bar>m\<bar> \<le> 2 ^ 53 \<Longrightarrow> rnd (of_int m) = of_int m"
  using exact[of m 0] by simp

lemma zero [simp]: "rnd 0 = 0"
  using of_int_exact[of 0] by simp

lemma ge: "\<bar>m\<bar> \<le> 2 ^ 53 \<Longrightarrow> k \<le> 1074 \<Longrightarrow> of_int m / 2 ^ k \<le> x \<Longrightarrow> of_int m / 2 ^ k \<le> rnd x"
  using mono[of "of_int m / 2 ^ k" x] exact[of m k] by simp

lemma le: "\<bar>m\<bar> \<le> 2 ^ 53 \<Longrightarrow> k \<le> 1074 \<Longrightarrow> x \<le> of_int m / 2 ^ k \<Longrightarrow> rnd x \<le> of_int m / 2 ^ k"
  using mono[of x "of_int m / 2 ^ k"] exact[of m k] by simp

lemma nonneg: "0 \<le> x \<Longrightarrow> 0 \<le> rnd x"
  using mono[of 0 x] by simp

lemma nonpos: "x \<le> 0 \<Longrightarrow> rnd x \<le> 0"
  using mono[of x 0] by simp

lemma int_ge: "\<bar>m\<bar> \<le> 2 ^ 53 \<Longrightarrow> of_int m \<le> x \<Longrightarrow> of_int m \<le> rnd x"
  using ge[of m 0 x] by simp

lemma int_le: "\<bar>m\<bar> \<le> 2 ^ 53 \<Longrightarrow> x \<le> of_int m \<Longrightarrow> rnd x \<le> of_int m"
  using le[of m 0 x] by simp

end

lemma ulp_exp_mono: "0 < x \<Longrightarrow> x \<le> y \<Longrightarrow> ulp_exp x \<le> ulp_exp y"
  using ilog2_mono[of x y] by (auto simp: ulp_exp_def)

lemma two_powi_add: "(2::rat) powi (a + b) = 2 powi a * 2 powi b"
  by (simp add: power_int_add)

lemma round64_upper:
  assumes "0 < x" shows "round64 x \<le> 2 powi (ulp_exp x + 53)"
proof -
  let ?e = "ulp_exp x"
  have "ilog2 x + 1 \<le> ?e + 53" using assms by (auto simp: ulp_exp_def)
  then have "x \<le> 2 powi (?e + 53)"
    using ilog2_bounds(2)[OF assms] two_powi_le_iff[of "ilog2 x + 1" "?e + 53"] by linarith
  then have "x / 2 powi ?e \<le> of_int (2 ^ 53)"
    by (simp add: two_powi_add field_simps)
  then have "round_half_even (x / 2 powi ?e) \<le> 2 ^ 53" by (rule round_half_even_bounds)
  then have "rat_of_int (round_half_even (x / 2 powi ?e)) \<le> 2 ^ 53"
    by (metis of_int_le_iff of_int_numeral of_int_power)
  then show ?thesis using assms by (simp add: round64_def two_powi_add mult_right_mono)
qed

lemma round64_lower:
  assumes "0 < x" "- 1074 < ulp_exp x" shows "2 powi (ulp_exp x + 52) \<le> round64 x"
proof -
  let ?e = "ulp_exp x"
  have "?e + 52 = ilog2 x" using assms by (auto simp: ulp_exp_def)
  then have "2 powi (?e + 52) \<le> x" using ilog2_bounds(1)[OF assms(1)] by simp
  then have "of_int (2 ^ 52) \<le> x / 2 powi ?e"
    by (simp add: two_powi_add field_simps)
  then have "2 ^ 52 \<le> round_half_even (x / 2 powi ?e)" by (rule round_half_even_bounds)
  then have "2 ^ 52 \<le> rat_of_int (round_half_even (x / 2 powi ?e))"
    by (metis of_int_le_iff of_int_numeral of_int_power)
  then show ?thesis using assms by (simp add: round64_def two_powi_add mult_right_mono)
qed

lemma round64_minus: "round64 (- x) = - round64 x"
  by (simp add: round64_def ulp_exp_def round_half_even_minus)

lemma round64_nonneg: "0 \<le> x \<Longrightarrow> 0 \<le> round64 x"
  using round_half_even_bounds(1)[of 0 "x / 2 powi ulp_exp x"] two_powi_pos[of "ulp_exp x"]
  by (auto simp: round64_def)

lemma round64_mono_pos:
  assumes "0 < x" "x \<le> y" shows "round64 x \<le> round64 y"
proof (cases "ulp_exp x = ulp_exp y")
  case True
  have "x / 2 powi ulp_exp y \<le> y / 2 powi ulp_exp y"
    using assms by (simp add: divide_right_mono less_imp_le)
  then show ?thesis
    using assms True round_half_even_mono[of "x / 2 powi ulp_exp y" "y / 2 powi ulp_exp y"]
    by (simp add: round64_def mult_right_mono less_imp_le)
next
  case False
  with ulp_exp_mono[OF assms] have less: "ulp_exp x + 53 \<le> ulp_exp y + 52" by simp
  moreover have "- 1074 \<le> ulp_exp x" by (simp add: ulp_exp_def)
  ultimately have "2 powi (ulp_exp y + 52) \<le> round64 y" using assms by (intro round64_lower) auto
  with round64_upper[OF assms(1)] less two_powi_le_iff[of "ulp_exp x + 53" "ulp_exp y + 52"]
  show ?thesis by linarith
qed

lemma round64_mono:
  assumes le: "x \<le> y" shows "round64 x \<le> round64 y"
proof -
  consider "0 < x" | "x \<le> 0" "0 \<le> y" | "0 < - y" by linarith
  then show ?thesis
  proof cases
    case 1
    then show ?thesis using le by (rule round64_mono_pos)
  next
    case 2
    then show ?thesis using round64_nonneg[of "- x"] round64_nonneg[of y] by (simp add: round64_minus)
  next
    case 3
    then show ?thesis using le round64_mono_pos[of "- y" "- x"] by (simp add: round64_minus)
  qed
qed

lemma round64_multiple:
  assumes "x \<noteq> 0" and "x = of_int n * 2 powi ulp_exp x" shows "round64 x = x"
proof -
  have "x / 2 powi ulp_exp x = of_int n"
    using assms(2) two_powi_pos[of "ulp_exp x"] by (simp add: field_simps)
  then have "round64 x = of_int n * 2 powi ulp_exp x"
    using assms(1) by (simp add: round64_def)
  then show ?thesis using assms(2) by simp
qed

lemma round64_exact_pos:
  assumes "0 < m" "m \<le> 2 ^ 53" "k \<le> 1074"
  shows "round64 (of_int m / 2 ^ k) = of_int m / 2 ^ k"
proof -
  define x :: rat where "x = of_int m / 2 ^ k"
  define e where "e = ulp_exp x"
  have pos: "0 < x" using assms by (simp add: x_def)
  have x: "x = of_int m * 2 powi (- int k)"
    by (simp add: x_def power_int_minus divide_inverse)
  have "\<exists>n. x = of_int n * 2 powi e"
  proof (cases "e \<le> - int k")
    case True
    then have "2 powi (- int k) = (2::rat) ^ nat (- int k - e) * 2 powi e"
      by (metis diff_add_cancel diff_ge_0_iff_ge int_nat_eq power_int_of_nat two_powi_add)
    then have "x = of_int (m * 2 ^ nat (- int k - e)) * 2 powi e" by (simp add: x)
    then show ?thesis by blast
  next
    case False
    then have big: "- 1074 < e" using assms by simp
    then have "e + 52 = ilog2 x" using pos by (auto simp: e_def ulp_exp_def)
    then have lo: "2 powi (e + 52) \<le> x" using ilog2_bounds(1)[OF pos] by simp
    have "rat_of_int m \<le> of_int (2 ^ 53)" using assms(2) by (simp only: of_int_le_iff)
    then have "rat_of_int m \<le> 2 powi 53" by simp
    then have hi: "x \<le> 2 powi (53 - int k)"
      using two_powi_add[of 53 "- int k"] by (simp add: x mult_right_mono less_imp_le)
    from lo hi have "(2::rat) powi (e + 52) \<le> 2 powi (53 - int k)" by linarith
    with False have "e + 52 = 53 - int k" by simp
    with lo hi have "x = 2 powi (e + 52)" by simp
    then have "x = of_int (2 ^ 52) * 2 powi e" by (simp add: two_powi_add)
    then show ?thesis by blast
  qed
  then have "round64 x = x" using pos by (auto simp: e_def intro: round64_multiple)
  then show ?thesis by (simp add: x_def)
qed

interpretation r64: rounding round64
proof
  fix m :: int and k :: nat
  assume b: "\<bar>m\<bar> \<le> 2 ^ 53" "k \<le> 1074"
  consider "m = 0" | "0 < m" | "0 < - m" by linarith
  then show "round64 (of_int m / 2 ^ k) = of_int m / 2 ^ k"
  proof cases
    case 1
    then show ?thesis by (simp add: round64_def)
  next
    case 2
    with b show ?thesis by (intro round64_exact_pos) auto
  next
    case 3
    with b have "round64 (of_int (- m) / 2 ^ k) = of_int (- m) / 2 ^ k"
      by (intro round64_exact_pos) auto
    then show ?thesis using round64_minus[of "of_int m / 2 ^ k"] by simp
  qed
qed (rule round64_mono)

subsection \<open>Arithmetic\<close>

text \<open>The rounded result, or an infinity when it exceeds the largest finite number.\<close>

definition to_float :: "rat \<Rightarrow> py_float" where
  "to_float x =
     (let r = round64 x
      in if 1024 \<le> ilog2 \<bar>r\<bar> then (if 0 < r then PInf else MInf) else Fin r)"

lemma to_float_small:
  assumes "\<bar>x\<bar> \<le> 2 ^ 53" shows "to_float x = Fin (round64 x)"
proof (cases "round64 x = 0")
  case True
  then show ?thesis by (simp add: to_float_def ilog2_def floorlog_def)
next
  case False
  have "round64 x \<le> of_int (2 ^ 53)" "of_int (- (2 ^ 53)) \<le> round64 x"
    using assms by (intro r64.int_le r64.int_ge; simp)+
  then have "\<bar>round64 x\<bar> \<le> 2 powi 53" by simp
  moreover have "2 powi ilog2 \<bar>round64 x\<bar> \<le> \<bar>round64 x\<bar>" using False by (intro ilog2_bounds) simp
  ultimately have "2 powi ilog2 \<bar>round64 x\<bar> \<le> (2::rat) powi 53" by linarith
  then have "ilog2 \<bar>round64 x\<bar> \<le> 53" by (simp only: two_powi_le_iff)
  then show ?thesis by (simp add: to_float_def)
qed

fun fadd :: "py_float \<Rightarrow> py_float \<Rightarrow> py_float" where
  "fadd (Fin a) (Fin b) = to_float (a + b)"
| "fadd NaN _ = NaN"
| "fadd _ NaN = NaN"
| "fadd PInf MInf = NaN"
| "fadd MInf PInf = NaN"
| "fadd PInf _ = PInf"
| "fadd _ PInf = PInf"
| "fadd MInf _ = MInf"
| "fadd _ MInf = MInf"

fun fneg :: "py_float \<Rightarrow> py_float" where
  "fneg (Fin a) = Fin (- a)"
| "fneg PInf = MInf"
| "fneg MInf = PInf"
| "fneg NaN = NaN"

definition fsub :: "py_float \<Rightarrow> py_float \<Rightarrow> py_float" where
  "fsub a b = fadd a (fneg b)"

definition fabs :: "py_float \<Rightarrow> py_float" where
  "fabs x = (if flt x (Fin 0) then fneg x else x)"

text \<open>
  Multiplication and division by a positive finite number, the only forms the code uses:
  the divisors and factors are positive constants, counts, or periods.
\<close>

definition fmul_pos :: "py_float \<Rightarrow> rat \<Rightarrow> py_float" where
  "fmul_pos x c = (case x of Fin a \<Rightarrow> to_float (a * c) | _ \<Rightarrow> x)"

definition fdiv_pos :: "py_float \<Rightarrow> rat \<Rightarrow> py_float" where
  "fdiv_pos x c = (case x of Fin a \<Rightarrow> to_float (a / c) | _ \<Rightarrow> x)"

lemma fsub_Fin [simp]: "fsub (Fin a) (Fin b) = to_float (a - b)"
  by (simp add: fsub_def)

text \<open>\<open>min(a, b)\<close> keeps its first argument unless the second is smaller.\<close>

definition fmin :: "py_float \<Rightarrow> py_float \<Rightarrow> py_float" where
  "fmin a b = (if flt b a then b else a)"

text \<open>\<open>f"{x:.1f}"\<close> of a finite value: the exact decimal, rounded half to even.\<close>

definition show_fixed1 :: "rat \<Rightarrow> string" where
  "show_fixed1 x =
     (let n = round_half_even (\<bar>x\<bar> * 10)
      in (if x < 0 then ''-'' else '''') @ show_int (n div 10) @ ''.'' @ show_int (n mod 10))"

definition fmt_fixed1 :: "py_float \<Rightarrow> string" where
  "fmt_fixed1 x = (case x of Fin a \<Rightarrow> show_fixed1 a | PInf \<Rightarrow> ''inf'' | MInf \<Rightarrow> ''-inf'' | NaN \<Rightarrow> ''nan'')"

text \<open>\<open>f"{x:.0f}"\<close>.\<close>

definition fmt_fixed0 :: "py_float \<Rightarrow> string" where
  "fmt_fixed0 x =
     (case x of
        Fin a \<Rightarrow> (if a < 0 then ''-'' else '''') @ show_int (round_half_even \<bar>a\<bar>)
      | PInf \<Rightarrow> ''inf'' | MInf \<Rightarrow> ''-inf'' | NaN \<Rightarrow> ''nan'')"

end
