(* ===== verification/Modbus.thy ===== *)
theory Modbus
  imports Prelude Binary64 "HOL-Library.Word"
begin

unbundle bit_operations_syntax

section \<open>Modbus RTU over a serial port\<close>

text \<open>
  Models \<open>infrastructure/modbus_rtu.py\<close>: the CRC, the framing of the read functions 03/04 and
  of the write function 06, and the reading of a reply that arrives in pieces before a
  deadline. A byte is an \<open>int\<close> in \<open>0..255\<close>, as an element of Python's \<open>bytes\<close>.

  The serial port is the outside world: what successive blocking reads find
  (\<open>sp_arrivals\<close>, a \<open>SerialException\<close> among them where the driver raises), the bytes the
  driver accepts of each write (\<open>sp_accept\<close>) and the readings of \<open>time.monotonic()\<close>
  (\<open>sp_clock\<close>). A port whose arrivals are used up stays silent until the deadline.
\<close>

subsection \<open>CRC\<close>

definition crc_shift :: "int \<Rightarrow> int" where
  "crc_shift crc = (if crc AND 1 \<noteq> 0 then drop_bit 1 crc XOR 0xA001 else drop_bit 1 crc)"

definition crc_byte :: "int \<Rightarrow> int \<Rightarrow> int" where
  "crc_byte crc byte = (crc_shift ^^ 8) (crc XOR byte)"

definition crc16_modbus :: "int list \<Rightarrow> int" where
  "crc16_modbus data = foldl crc_byte 0xFFFF data AND 0xFFFF"

definition append_crc :: "int list \<Rightarrow> int list" where
  "append_crc frame =
     (let crc = crc16_modbus frame in frame @ [crc AND 0xFF, drop_bit 8 crc AND 0xFF])"

definition hex_bytes :: "int list \<Rightarrow> string" where
  "hex_bytes bs = join '' '' (map (hex_lower 2) bs)"

definition verify_crc :: "int list \<Rightarrow> unit result" where
  "verify_crc frame =
     (if length frame < 4
      then Inl (ModbusError (''Modbus frame is too short: '' @ hex_bytes frame))
      else
        let expected = crc16_modbus (take (length frame - 2) frame);
            received = frame ! (length frame - 2) OR push_bit 8 (frame ! (length frame - 1))
        in if received \<noteq> expected
           then Inl (ModbusError (''Invalid Modbus CRC: received=0x'' @ hex_upper 4 received
                       @ '', expected=0x'' @ hex_upper 4 expected))
           else Inr ())"

definition is_byte :: "int \<Rightarrow> bool" where
  "is_byte b = (0 \<le> b \<and> b < 256)"

definition is_u16 :: "int \<Rightarrow> bool" where
  "is_u16 v = (0 \<le> v \<and> v < 65536)"

lemma and_one_int: "(x::int) AND 1 \<noteq> 0 \<longleftrightarrow> odd x"
  by (simp add: and_one_eq odd_iff_mod_2_eq_one)

lemma crc_shift_arith:
  "crc_shift c = (if odd c then (c div 2) XOR 0xA001 else c div 2)"
  by (simp add: crc_shift_def and_one_int drop_bit_eq_div)

lemma xor_u16 [intro]: "is_u16 a \<Longrightarrow> is_u16 b \<Longrightarrow> is_u16 (a XOR b)"
  using XOR_upper[of a 16 b] by (simp add: is_u16_def)

lemma is_u16_byte: "is_byte b \<Longrightarrow> is_u16 b"
  by (simp add: is_u16_def is_byte_def)

lemma crc_shift_u16: "is_u16 c \<Longrightarrow> is_u16 (crc_shift c)"
  using xor_u16[of "c div 2" "0xA001"] by (auto simp: crc_shift_arith is_u16_def)

lemma bit_15_small: "0 \<le> (x::int) \<Longrightarrow> x < 32768 \<Longrightarrow> \<not> bit x 15"
  by (simp add: bit_iff_odd)

lemma bit_15_crc_shift: "is_u16 c \<Longrightarrow> bit (crc_shift c) 15 \<longleftrightarrow> odd c"
proof -
  assume "is_u16 c"
  then have "\<not> bit (c div 2) 15" by (intro bit_15_small) (auto simp: is_u16_def)
  then show ?thesis by (simp add: crc_shift_arith bit_xor_iff)
qed

lemma crc_shift_inj:
  assumes "is_u16 c" "is_u16 d" "crc_shift c = crc_shift d" shows "c = d"
proof -
  have par: "odd c \<longleftrightarrow> odd d"
    using bit_15_crc_shift[OF assms(1)] bit_15_crc_shift[OF assms(2)] assms(3) by simp
  have "c div 2 = d div 2"
  proof (cases "odd c")
    case True
    with par assms(3) have "(c div 2) XOR 0xA001 = (d div 2) XOR 0xA001"
      by (simp add: crc_shift_arith)
    then have "((c div 2) XOR 0xA001) XOR 0xA001 = ((d div 2) XOR 0xA001) XOR (0xA001::int)" by simp
    then show ?thesis by (simp only: xor.assoc xor_self_eq xor.right_neutral)
  next
    case False
    with par assms(3) show ?thesis by (simp add: crc_shift_arith)
  qed
  with par show ?thesis by presburger
qed

lemma crc_shifts:
  assumes "is_u16 c" shows "is_u16 ((crc_shift ^^ n) c)"
  by (induction n) (auto simp: assms crc_shift_u16)

lemma crc_shifts_inj:
  "is_u16 c \<Longrightarrow> is_u16 d \<Longrightarrow> (crc_shift ^^ n) c = (crc_shift ^^ n) d \<Longrightarrow> c = d"
proof (induction n)
  case (Suc n)
  have "crc_shift ((crc_shift ^^ n) c) = crc_shift ((crc_shift ^^ n) d)"
    using Suc.prems(3) by simp
  then have "(crc_shift ^^ n) c = (crc_shift ^^ n) d"
    by (rule crc_shift_inj[OF crc_shifts[OF Suc.prems(1)] crc_shifts[OF Suc.prems(2)]])
  then show ?case by (rule Suc.IH[OF Suc.prems(1,2)])
qed simp

lemma crc_byte_u16: "is_u16 c \<Longrightarrow> is_byte b \<Longrightarrow> is_u16 (crc_byte c b)"
  by (auto simp: crc_byte_def intro!: crc_shifts intro: is_u16_byte)

lemma xor_left_cancel_int: "(a::int) XOR b = a XOR c \<Longrightarrow> b = c"
proof -
  assume "a XOR b = a XOR c"
  then have "a XOR (a XOR b) = a XOR (a XOR c)" by simp
  then show ?thesis by (simp add: xor.assoc[symmetric])
qed

lemma crc_byte_inj_byte:
  assumes "is_u16 c" "is_byte b" "is_byte b'" "crc_byte c b = crc_byte c b'" shows "b = b'"
proof -
  note u = xor_u16[OF assms(1) is_u16_byte]
  have "c XOR b = c XOR b'"
    using assms(4) unfolding crc_byte_def by (rule crc_shifts_inj[OF u[OF assms(2)] u[OF assms(3)]])
  then show ?thesis by (rule xor_left_cancel_int)
qed

lemma crc_byte_inj_crc:
  assumes "is_u16 c" "is_u16 d" "is_byte b" "crc_byte c b = crc_byte d b" shows "c = d"
proof -
  note u = xor_u16[OF _ is_u16_byte[OF assms(3)]]
  have "c XOR b = d XOR b"
    using assms(4) unfolding crc_byte_def by (rule crc_shifts_inj[OF u[OF assms(1)] u[OF assms(2)]])
  then have "b XOR c = b XOR d" by (simp only: xor.commute)
  then show ?thesis by (rule xor_left_cancel_int)
qed

lemma crc_fold_u16: "is_u16 c \<Longrightarrow> list_all is_byte bs \<Longrightarrow> is_u16 (foldl crc_byte c bs)"
  by (induction bs arbitrary: c) (auto simp: crc_byte_u16)

lemma crc_fold_inj:
  "is_u16 c \<Longrightarrow> is_u16 d \<Longrightarrow> list_all is_byte bs \<Longrightarrow>
   foldl crc_byte c bs = foldl crc_byte d bs \<Longrightarrow> c = d"
proof (induction bs arbitrary: c d)
  case (Cons b bs)
  from Cons.prems(3) have b: "is_byte b" and bs: "list_all is_byte bs" by simp_all
  have "foldl crc_byte (crc_byte c b) bs = foldl crc_byte (crc_byte d b) bs"
    using Cons.prems(4) by simp
  then have "crc_byte c b = crc_byte d b"
    by (rule Cons.IH[OF crc_byte_u16[OF Cons.prems(1) b] crc_byte_u16[OF Cons.prems(2) b] bs])
  then show ?case by (rule crc_byte_inj_crc[OF Cons.prems(1,2) b])
qed simp

lemma mask_u16: "is_u16 c \<Longrightarrow> c AND 0xFFFF = c"
  using take_bit_eq_mask[of 16 c] by (simp add: take_bit_eq_mod is_u16_def mask_eq_exp_minus_1)

lemma byte_mask: "x AND 0xFF = x mod (256::int)"
  using take_bit_eq_mask[of 8 x] by (simp add: take_bit_eq_mod mask_eq_exp_minus_1)

lemma crc16_u16: "list_all is_byte bs \<Longrightarrow> is_u16 (crc16_modbus bs)"
  using crc_fold_u16[of "0xFFFF" bs] by (simp add: crc16_modbus_def mask_u16 is_u16_def)

lemma crc16_fold: "list_all is_byte bs \<Longrightarrow> crc16_modbus bs = foldl crc_byte 0xFFFF bs"
  using crc_fold_u16[of "0xFFFF" bs] by (simp add: crc16_modbus_def mask_u16 is_u16_def)

text \<open>Two frames that differ in exactly one byte have different CRCs.\<close>

lemma crc16_single_byte:
  assumes "list_all is_byte (xs @ b # ys)" "is_byte b'" "b \<noteq> b'"
  shows "crc16_modbus (xs @ b # ys) \<noteq> crc16_modbus (xs @ b' # ys)"
proof
  let ?c = "foldl crc_byte 0xFFFF xs"
  assume "crc16_modbus (xs @ b # ys) = crc16_modbus (xs @ b' # ys)"
  with assms have e: "foldl crc_byte (crc_byte ?c b) ys = foldl crc_byte (crc_byte ?c b') ys"
    by (simp add: crc16_fold)
  have c: "is_u16 ?c" using assms by (intro crc_fold_u16) (auto simp: is_u16_def)
  from assms(1) have b: "is_byte b" and ys: "list_all is_byte ys" by simp_all
  have "crc_byte ?c b = crc_byte ?c b'"
    by (rule crc_fold_inj[OF crc_byte_u16[OF c b] crc_byte_u16[OF c assms(2)] ys e])
  then have "b = b'" by (rule crc_byte_inj_byte[OF c b assms(2)])
  with assms(3) show False by simp
qed

lemma crc_bytes:
  assumes "is_u16 c"
  shows "is_byte (c AND 0xFF)" "is_byte (drop_bit 8 c AND 0xFF)"
    "(c AND 0xFF) OR push_bit 8 (drop_bit 8 c AND 0xFF) = c"
proof -
  have d: "drop_bit 8 c AND 0xFF = c div 256"
    using assms by (auto simp: byte_mask drop_bit_eq_div is_u16_def intro!: mod_pos_pos_trivial)
  show "is_byte (c AND 0xFF)" "is_byte (drop_bit 8 c AND 0xFF)"
    using assms d by (auto simp: byte_mask is_byte_def is_u16_def)
  have "(c AND 0xFF) OR push_bit 8 (drop_bit 8 c AND 0xFF) = take_bit 8 c OR push_bit 8 (drop_bit 8 c)"
    unfolding d unfolding byte_mask by (simp add: take_bit_eq_mod drop_bit_eq_div)
  also have "\<dots> = c"
  proof (rule bit_eqI)
    fix n
    show "bit (take_bit 8 c OR push_bit 8 (drop_bit 8 c)) n \<longleftrightarrow> bit c n"
      by (cases "n < 8") (auto simp: bit_simps)
  qed
  finally show "(c AND 0xFF) OR push_bit 8 (drop_bit 8 c AND 0xFF) = c" .
qed

lemma length_append_crc [simp]: "length (append_crc d) = length d + 2"
  by (simp add: append_crc_def Let_def)

lemma append_crc_bytes: "list_all is_byte d \<Longrightarrow> list_all is_byte (append_crc d)"
  using crc_bytes[OF crc16_u16] by (simp add: append_crc_def Let_def)

text \<open>What acceptance of a frame means: payload, then its CRC with the low byte first.\<close>

lemma verify_crc_iff:
  assumes "2 \<le> length d"
  shows "verify_crc (d @ [lo, hi]) = Inr () \<longleftrightarrow> lo OR push_bit 8 hi = crc16_modbus d"
  using assms by (simp add: verify_crc_def Let_def nth_append)

lemma verify_crc_short: "length f < 4 \<Longrightarrow> verify_crc f \<noteq> Inr ()"
  by (simp add: verify_crc_def)

lemma verify_crc_cases:
  assumes "verify_crc f = Inr ()"
  obtains d lo hi where "f = d @ [lo, hi]" "2 \<le> length d" "lo OR push_bit 8 hi = crc16_modbus d"
proof -
  have "4 \<le> length f" using assms verify_crc_short[of f] by force
  then have f: "f = take (length f - 2) f @ [f ! (length f - 2), f ! (length f - 1)]"
    by (intro nth_equalityI) (auto simp: nth_append nth_Cons' intro!: arg_cong[where f = "(!) f"])
  show thesis
    by (rule that[OF f]) (use \<open>4 \<le> length f\<close> assms in \<open>auto simp: verify_crc_def Let_def split: if_splits\<close>)
qed

lemma verify_append_crc:
  "list_all is_byte d \<Longrightarrow> 2 \<le> length d \<Longrightarrow> verify_crc (append_crc d) = Inr ()"
  using crc_bytes(3)[OF crc16_u16] by (simp add: append_crc_def Let_def verify_crc_iff)

lemma or_push_inj:
  assumes "is_byte a" "is_byte b" "is_byte c" "is_byte d"
    "a OR push_bit 8 b = c OR push_bit 8 (d::int)"
  shows "a = c" "b = d"
proof -
  have s: "x OR push_bit 8 y = x + 256 * y" if "is_byte x" for x y :: int
  proof -
    have "x AND push_bit 8 y = 0"
    proof (rule bit_eqI)
      fix n
      have "\<not> bit x n" if "8 \<le> n"
      proof -
        have "(256::int) \<le> 2 ^ n" using power_increasing[of 8 n "2::int"] that by simp
        then show ?thesis using \<open>is_byte x\<close> by (simp add: bit_iff_odd is_byte_def)
      qed
      then show "bit (x AND push_bit 8 y) n \<longleftrightarrow> bit 0 n"
        by (auto simp: bit_simps)
    qed
    then have "x OR push_bit 8 y = x + push_bit 8 y"
      using plus_and_or[of x "push_bit 8 y"] by simp
    then show ?thesis by (simp add: push_bit_eq_mult)
  qed
  have e: "a + 256 * b = c + 256 * d" using assms(5) by (simp only: s[OF assms(1)] s[OF assms(3)])
  have "a = (a + 256 * b) mod 256" "c = (c + 256 * d) mod 256"
    using assms(1,3) by (simp_all add: is_byte_def)
  with e show ac: "a = c" by metis
  from e show "b = d" unfolding ac by simp
qed

subsection \<open>The serial port\<close>

record serial_port =
  sp_pending :: "int list"
  sp_arrivals :: "int list result list"
  sp_clock :: "nat \<Rightarrow> py_float"
  sp_ticks :: nat
  sp_accept :: "nat \<Rightarrow> int result"
  sp_written :: "int list list"

definition reset_input_buffer :: "(serial_port, unit) op" where
  "reset_input_buffer p = (p\<lparr>sp_pending := []\<rparr>, Inr ())"

definition port_write :: "int list \<Rightarrow> (serial_port, int) op" where
  "port_write bs p = (p\<lparr>sp_written := sp_written p @ [bs]\<rparr>, sp_accept p (length (sp_written p)))"

text \<open>
  \<open>port.read(size)\<close>: at once when enough bytes are buffered; otherwise it blocks, and returns
  what there is after the next arrival or at the port timeout.
\<close>

definition port_read :: "nat \<Rightarrow> (serial_port, int list) op" where
  "port_read n p =
     (if n \<le> length (sp_pending p)
      then (p\<lparr>sp_pending := drop n (sp_pending p)\<rparr>, Inr (take n (sp_pending p)))
      else case sp_arrivals p of
        [] \<Rightarrow> (p\<lparr>sp_pending := []\<rparr>, Inr (sp_pending p))
      | Inl e # rest \<Rightarrow> (p\<lparr>sp_arrivals := rest\<rparr>, Inl e)
      | Inr bs # rest \<Rightarrow>
          (let buf = sp_pending p @ bs
           in (p\<lparr>sp_pending := drop n buf, sp_arrivals := rest\<rparr>, Inr (take n buf))))"

definition port_monotonic :: "serial_port \<Rightarrow> serial_port \<times> py_float" where
  "port_monotonic p = (p\<lparr>sp_ticks := Suc (sp_ticks p)\<rparr>, sp_clock p (sp_ticks p))"

text \<open>A port without buffered bytes or arrivals: reads return \<open>b""\<close> until the deadline.\<close>

definition port_silent :: "serial_port \<Rightarrow> bool" where
  "port_silent p = (sp_pending p = [] \<and> sp_arrivals p = [])"

function read_exact_loop :: "nat \<Rightarrow> py_float \<Rightarrow> int list \<Rightarrow> (serial_port, int list) op" where
  "read_exact_loop n deadline acc p =
     (if n \<le> length acc \<or> port_silent p then (p, Inr acc)
      else let (p1, now) = port_monotonic p
           in if \<not> flt now deadline then (p1, Inr acc)
              else case port_read (n - length acc) p1 of
                  (p2, Inl e) \<Rightarrow> (p2, Inl e)
                | (p2, Inr chunk) \<Rightarrow> read_exact_loop n deadline (acc @ chunk) p2)"
  by pat_completeness auto
termination
  by (relation "measures [\<lambda>(_, _, _, p). length (sp_arrivals p), \<lambda>(_, _, _, p). length (sp_pending p)]")
    (auto simp: port_read_def Let_def port_silent_def port_monotonic_def split: if_splits list.splits sum.splits)

declare read_exact_loop.simps [simp del]

definition read_exact :: "nat \<Rightarrow> py_float \<Rightarrow> (serial_port, int list) op" where
  "read_exact n timeout p =
     (let (p1, start) = port_monotonic p
      in read_exact_loop n (fadd start timeout) [] p1)"

subsection \<open>Requests and replies\<close>

definition FUNCTION_READ_HOLDING_REGISTERS :: int where "FUNCTION_READ_HOLDING_REGISTERS = 3"
definition FUNCTION_READ_INPUT_REGISTERS :: int where "FUNCTION_READ_INPUT_REGISTERS = 4"
definition FUNCTION_WRITE_SINGLE_REGISTER :: int where "FUNCTION_WRITE_SINGLE_REGISTER = 6"

lemmas function_codes = FUNCTION_READ_HOLDING_REGISTERS_def FUNCTION_READ_INPUT_REGISTERS_def
  FUNCTION_WRITE_SINGLE_REGISTER_def

text \<open>\<open>struct.pack(">H", v)\<close> and \<open>struct.unpack(f">{n}H", bytes)\<close>.\<close>

definition pack_u16 :: "int \<Rightarrow> int list" where
  "pack_u16 v = [v div 256, v mod 256]"

fun unpack_u16 :: "int list \<Rightarrow> int list" where
  "unpack_u16 (h # l # rest) = (256 * h + l) # unpack_u16 rest"
| "unpack_u16 _ = []"

definition validate_common_request :: "int \<Rightarrow> int \<Rightarrow> py_float \<Rightarrow> unit result" where
  "validate_common_request slave_address register_address timeout =
     (if \<not> (1 \<le> slave_address \<and> slave_address \<le> 247)
      then Inl (ValueError ''Modbus slave address must be in range 1..247'')
      else if \<not> (0 \<le> register_address \<and> register_address \<le> 0xFFFF)
      then Inl (ValueError ''Modbus register address must be in range 0..65535'')
      else if fle timeout (Fin 0)
      then Inl (ValueError ''Modbus timeout must be positive'')
      else Inr ())"

text \<open>Send a request: clear stale input, write, and insist on a complete write.\<close>

definition send_request :: "int list \<Rightarrow> (serial_port, unit) op" where
  "send_request request =
     op_bind reset_input_buffer (\<lambda>_.
     op_bind (port_write request) (\<lambda>written.
     if written \<noteq> int (length request)
     then op_raise (ModbusError (''Incomplete Modbus request write: '' @ show_int written @ ''/''
            @ show_int (int (length request)) @ '' bytes''))
     else op_return ()))"

text \<open>The part of \<open>_read_registers\<close> after the request was sent.\<close>

definition receive_registers :: "int \<Rightarrow> int \<Rightarrow> nat \<Rightarrow> py_float \<Rightarrow> (serial_port, int list) op" where
  "receive_registers function_code slave_address quantity timeout =
     op_bind (read_exact 3 timeout) (\<lambda>header.
     if length header \<noteq> 3
     then op_raise (ModbusError ''No response or incomplete Modbus header'')
     else
       let response_address = header ! 0; func = header ! 1; third = header ! 2
       in if response_address \<noteq> slave_address
          then op_raise (ModbusError (''Unexpected slave address '' @ show_int response_address
                 @ ''; expected '' @ show_int slave_address))
          else if func = function_code OR 0x80
          then op_bind (read_exact 2 timeout) (\<lambda>tail.
                 let frame = header @ tail
                 in if length frame \<noteq> 5
                    then op_raise (ModbusError ''Incomplete Modbus exception response'')
                    else op_bind (op_lift (verify_crc frame)) (\<lambda>_.
                           op_raise (ModbusError (''Modbus exception 0x'' @ hex_upper 2 third))))
          else if func \<noteq> function_code
          then op_raise (ModbusError (''Unexpected Modbus function 0x'' @ hex_upper 2 func))
          else if third \<noteq> int quantity * 2
          then op_raise (ModbusError (''Unexpected payload length '' @ show_int third
                 @ ''; expected '' @ show_int (int quantity * 2)))
          else op_bind (read_exact (nat third + 2) timeout) (\<lambda>tail.
                 let frame = header @ tail
                 in if length frame \<noteq> 3 + nat third + 2
                    then op_raise (ModbusError ''Incomplete Modbus response'')
                    else op_bind (op_lift (verify_crc frame)) (\<lambda>_.
                           op_return (unpack_u16 (drop 3 (take (length frame - 2) frame))))))"

definition read_request :: "int \<Rightarrow> int \<Rightarrow> int \<Rightarrow> int \<Rightarrow> int list" where
  "read_request function_code slave_address start_address quantity =
     append_crc ([slave_address, function_code] @ pack_u16 start_address @ pack_u16 quantity)"

definition read_registers :: "int \<Rightarrow> int \<Rightarrow> int \<Rightarrow> int \<Rightarrow> py_float \<Rightarrow> (serial_port, int list) op" where
  "read_registers function_code slave_address start_address quantity timeout =
     (if function_code \<noteq> FUNCTION_READ_HOLDING_REGISTERS
         \<and> function_code \<noteq> FUNCTION_READ_INPUT_REGISTERS
      then op_raise (ValueError (''Unsupported Modbus read function 0x'' @ hex_upper 2 function_code))
      else
        op_bind (op_lift (validate_common_request slave_address start_address timeout)) (\<lambda>_.
        if \<not> (1 \<le> quantity \<and> quantity \<le> 125)
        then op_raise (ValueError ''Modbus register quantity must be in range 1..125'')
        else if start_address + quantity > 0x10000
        then op_raise (ValueError ''Modbus register range exceeds address space'')
        else
          op_bind (send_request (read_request function_code slave_address start_address quantity))
            (\<lambda>_. receive_registers function_code slave_address (nat quantity) timeout)))"

definition read_holding_registers :: "int \<Rightarrow> int \<Rightarrow> int \<Rightarrow> py_float \<Rightarrow> (serial_port, int list) op" where
  "read_holding_registers = read_registers FUNCTION_READ_HOLDING_REGISTERS"

definition read_input_registers :: "int \<Rightarrow> int \<Rightarrow> int \<Rightarrow> py_float \<Rightarrow> (serial_port, int list) op" where
  "read_input_registers = read_registers FUNCTION_READ_INPUT_REGISTERS"

definition write_request :: "int \<Rightarrow> int \<Rightarrow> int \<Rightarrow> int list" where
  "write_request slave_address register_address value =
     append_crc ([slave_address, FUNCTION_WRITE_SINGLE_REGISTER]
       @ pack_u16 register_address @ pack_u16 value)"

text \<open>The part of \<open>write_single_register\<close> after the request was sent: the echo.\<close>

definition receive_echo :: "int \<Rightarrow> int \<Rightarrow> int \<Rightarrow> py_float \<Rightarrow> (serial_port, unit) op" where
  "receive_echo slave_address register_address value timeout =
     op_bind (read_exact 2 timeout) (\<lambda>header.
     if length header \<noteq> 2
     then op_raise (ModbusError ''No response or incomplete Modbus write header'')
     else
       let response_address = header ! 0; func = header ! 1
       in if response_address \<noteq> slave_address
          then op_raise (ModbusError (''Unexpected slave address '' @ show_int response_address
                 @ ''; expected '' @ show_int slave_address))
          else if func = FUNCTION_WRITE_SINGLE_REGISTER OR 0x80
          then op_bind (read_exact 3 timeout) (\<lambda>tail.
                 let frame = header @ tail
                 in if length frame \<noteq> 5
                    then op_raise (ModbusError ''Incomplete Modbus exception response'')
                    else op_bind (op_lift (verify_crc frame)) (\<lambda>_.
                           op_raise (ModbusError (''Modbus exception 0x'' @ hex_upper 2 (frame ! 2)))))
          else if func \<noteq> FUNCTION_WRITE_SINGLE_REGISTER
          then op_raise (ModbusError (''Unexpected Modbus function 0x'' @ hex_upper 2 func))
          else op_bind (read_exact 6 timeout) (\<lambda>tail.
                 let frame = header @ tail
                 in if length frame \<noteq> 8
                    then op_raise (ModbusError ''Incomplete Modbus FC06 echo response'')
                    else op_bind (op_lift (verify_crc frame)) (\<lambda>_.
                           if frame \<noteq> write_request slave_address register_address value
                           then let echoed = unpack_u16 (take 4 (drop 2 frame))
                                in op_raise (ModbusError (''FC06 echo mismatch: register=''
                                     @ show_int (echoed ! 0) @ '' value='' @ show_int (echoed ! 1)
                                     @ ''; expected register='' @ show_int register_address
                                     @ '' value='' @ show_int value))
                           else op_return ())))"

definition write_single_register :: "int \<Rightarrow> int \<Rightarrow> int \<Rightarrow> py_float \<Rightarrow> (serial_port, unit) op" where
  "write_single_register slave_address register_address value timeout =
     op_bind (op_lift (validate_common_request slave_address register_address timeout)) (\<lambda>_.
     if \<not> (0 \<le> value \<and> value \<le> 0xFFFF)
     then op_raise (ValueError ''Modbus register value must be in range 0..65535'')
     else
       op_bind (send_request (write_request slave_address register_address value))
         (\<lambda>_. receive_echo slave_address register_address value timeout))"

subsection \<open>Reading a reply that arrives in pieces\<close>

text \<open>
  \<open>port_stream p\<close>: the bytes the port will deliver, whatever the pieces they arrive in.
  \<open>port_prompt t p\<close>: no reading of the clock is past a deadline set \<open>t\<close> seconds after another.
\<close>

definition port_stream :: "serial_port \<Rightarrow> int list" where
  "port_stream p = sp_pending p @ concat (map (case_sum (\<lambda>_. []) id) (sp_arrivals p))"

definition port_healthy :: "serial_port \<Rightarrow> bool" where
  "port_healthy p = list_all is_ok (sp_arrivals p)"

definition port_prompt :: "py_float \<Rightarrow> serial_port \<Rightarrow> bool" where
  "port_prompt t p = (\<forall>i j. flt (sp_clock p j) (fadd (sp_clock p i) t))"

lemma port_read_stream:
  assumes "port_healthy p" "n \<noteq> 0"
  obtains p' k where "port_read n p = (p', Inr (take k (port_stream p)))" "k \<le> n"
    "port_stream p' = drop k (port_stream p)" "port_healthy p'" "sp_clock p' = sp_clock p"
    "sp_accept p' = sp_accept p" "sp_written p' = sp_written p"
proof (cases "n \<le> length (sp_pending p)")
  case True
  then show thesis
    by (intro that[of "p\<lparr>sp_pending := drop n (sp_pending p)\<rparr>" n])
      (use assms in \<open>simp_all add: port_read_def port_stream_def port_healthy_def\<close>)
next
  case False
  show thesis
  proof (cases "sp_arrivals p")
    case Nil
    with False show thesis
      by (intro that[of "p\<lparr>sp_pending := []\<rparr>" "length (sp_pending p)"])
        (simp_all add: port_read_def port_stream_def port_healthy_def)
  next
    case (Cons r rest)
    with assms obtain bs where r: "r = Inr bs" by (cases r) (auto simp: port_healthy_def)
    let ?buf = "sp_pending p @ bs"
    from False Cons assms r show thesis
      by (intro that[of "p\<lparr>sp_pending := drop n ?buf, sp_arrivals := rest\<rparr>" "min n (length ?buf)"])
        (simp_all add: port_read_def port_stream_def port_healthy_def Let_def min_def)
  qed
qed

lemma port_silent_stream: "port_silent p \<Longrightarrow> port_stream p = []"
  by (simp add: port_silent_def port_stream_def)

lemma read_exact_loop_stream:
  assumes "port_healthy p" "\<forall>i. flt (sp_clock p i) deadline"
    "length acc \<le> n" "n \<le> length acc + length (port_stream p)"
  shows "\<exists>p'. read_exact_loop n deadline acc p = (p', Inr (acc @ take (n - length acc) (port_stream p)))
    \<and> port_stream p' = drop (n - length acc) (port_stream p) \<and> port_healthy p'
    \<and> sp_clock p' = sp_clock p \<and> sp_accept p' = sp_accept p \<and> sp_written p' = sp_written p"
  using assms
proof (induction n deadline acc p rule: read_exact_loop.induct)
  case (1 n deadline acc p)
  show ?case
  proof (cases "n \<le> length acc \<or> port_silent p")
    case True
    with "1.prems" have "n = length acc" by (auto simp: port_silent_stream)
    with True "1.prems" show ?thesis by (subst read_exact_loop.simps) simp
  next
    case False
    let ?p1 = "p\<lparr>sp_ticks := Suc (sp_ticks p)\<rparr>"
    have m: "port_monotonic p = (?p1, sp_clock p (sp_ticks p))" by (simp add: port_monotonic_def)
    have st: "port_stream ?p1 = port_stream p" "port_healthy ?p1"
      using "1.prems" by (simp_all add: port_stream_def port_healthy_def)
    from False st(2) obtain p2 k where r: "port_read (n - length acc) ?p1 = (p2, Inr (take k (port_stream p)))"
      "k \<le> n - length acc" "port_stream p2 = drop k (port_stream p)" "port_healthy p2"
      "sp_clock p2 = sp_clock p" "sp_accept p2 = sp_accept p" "sp_written p2 = sp_written p"
      by (elim port_read_stream[of ?p1 "n - length acc"]) (auto simp: st)
    have lk: "length (take k (port_stream p)) = k" using r(2) "1.prems"(4) by simp
    have "\<exists>p'. read_exact_loop n deadline (acc @ take k (port_stream p)) p2
        = (p', Inr ((acc @ take k (port_stream p)) @ take (n - length (acc @ take k (port_stream p))) (port_stream p2)))
      \<and> port_stream p' = drop (n - length (acc @ take k (port_stream p))) (port_stream p2) \<and> port_healthy p'
      \<and> sp_clock p' = sp_clock p2 \<and> sp_accept p' = sp_accept p2 \<and> sp_written p' = sp_written p2"
      by (rule "1.IH"[OF False m[symmetric] refl _ r(1)[symmetric] refl]) (use "1.prems" r lk in auto)
    moreover have "read_exact_loop n deadline acc p = read_exact_loop n deadline (acc @ take k (port_stream p)) p2"
      using False "1.prems"(2) by (subst read_exact_loop.simps) (simp add: m r)
    moreover have "take k (port_stream p) @ take (n - length acc - k) (drop k (port_stream p))
        = take (n - length acc) (port_stream p)"
      using r(2) by (metis le_add_diff_inverse take_add)
    moreover have "k + (n - (k + length acc)) = n - length acc" using r(2) by simp
    ultimately show ?thesis using r lk by (auto simp: add.commute)
  qed
qed

lemma read_exact_stream:
  assumes "port_healthy p" "port_prompt t p" "n \<le> length (port_stream p)"
  obtains p' where "read_exact n t p = (p', Inr (take n (port_stream p)))"
    "port_stream p' = drop n (port_stream p)" "port_healthy p'" "port_prompt t p'"
    "sp_accept p' = sp_accept p" "sp_written p' = sp_written p"
proof -
  let ?p1 = "p\<lparr>sp_ticks := Suc (sp_ticks p)\<rparr>"
  have "port_healthy ?p1" "port_stream ?p1 = port_stream p"
    using assms by (simp_all add: port_healthy_def port_stream_def)
  with assms read_exact_loop_stream[of ?p1 "fadd (sp_clock p (sp_ticks p)) t" "[]" n]
  show thesis
    by (auto intro!: that simp: read_exact_def port_monotonic_def port_prompt_def)
qed

text \<open>Whatever the port does, a read never returns more bytes than asked for.\<close>

lemma port_read_length: "port_read n p = (p', Inr bs) \<Longrightarrow> length bs \<le> n"
  by (auto simp: port_read_def Let_def split: if_splits list.splits sum.splits)

lemma read_exact_loop_length:
  "read_exact_loop n d acc p = (p', Inr bs) \<Longrightarrow> length acc \<le> n \<Longrightarrow> length bs \<le> n"
proof (induction n d acc p rule: read_exact_loop.induct)
  case (1 n d acc p)
  show ?case
  proof (cases "n \<le> length acc \<or> port_silent p \<or> \<not> flt (sp_clock p (sp_ticks p)) d")
    case True
    with "1.prems" show ?thesis
      by (subst (asm) read_exact_loop.simps) (auto simp: port_monotonic_def split: if_splits)
  next
    case False
    let ?p1 = "p\<lparr>sp_ticks := Suc (sp_ticks p)\<rparr>"
    have m: "port_monotonic p = (?p1, sp_clock p (sp_ticks p))" by (simp add: port_monotonic_def)
    have e: "read_exact_loop n d acc p = (case port_read (n - length acc) ?p1 of
        (p2, Inl e) \<Rightarrow> (p2, Inl e) | (p2, Inr chunk) \<Rightarrow> read_exact_loop n d (acc @ chunk) p2)"
      using False by (subst read_exact_loop.simps) (simp add: m)
    with "1.prems"(1) obtain p2 chunk where r: "port_read (n - length acc) ?p1 = (p2, Inr chunk)"
      "read_exact_loop n d (acc @ chunk) p2 = (p', Inr bs)"
      by (auto split: prod.splits sum.splits)
    have "length (acc @ chunk) \<le> n" using port_read_length[OF r(1)] False by auto
    then show ?thesis
      by (rule "1.IH"[OF _ m[symmetric] refl _ r(1)[symmetric] refl r(2), rotated 2]) (use False in auto)
  qed
qed

lemma read_exact_length: "read_exact n t p = (p', Inr bs) \<Longrightarrow> length bs \<le> n"
  using read_exact_loop_length[of n _ "[]"] by (auto simp: read_exact_def Let_def split: prod.splits)

subsection \<open>Correctness of the exchange\<close>

text \<open>The reply a slave sends to a read request: its registers, framed and checksummed.\<close>

definition read_reply :: "int \<Rightarrow> int \<Rightarrow> int list \<Rightarrow> int list" where
  "read_reply function_code slave_address values =
     append_crc ([slave_address, function_code, int (length values) * 2] @ concat (map pack_u16 values))"

lemma unpack_pack [simp]: "unpack_u16 (concat (map pack_u16 vs)) = vs"
  by (induction vs) (simp_all add: pack_u16_def)

lemma length_packs [simp]: "length (concat (map pack_u16 vs)) = 2 * length vs"
  by (induction vs) (simp_all add: pack_u16_def)

lemma pack_bytes: "is_u16 v \<Longrightarrow> list_all is_byte (pack_u16 v)"
  by (auto simp: pack_u16_def is_u16_def is_byte_def)

lemma packs_bytes: "list_all is_u16 vs \<Longrightarrow> list_all is_byte (concat (map pack_u16 vs))"
  by (induction vs) (auto simp: pack_bytes)

lemma length_unpack: "length (unpack_u16 bs) = length bs div 2"
  by (induction bs rule: unpack_u16.induct) auto

lemma unpack_u16s: "list_all is_byte bs \<Longrightarrow> list_all is_u16 (unpack_u16 bs)"
  by (induction bs rule: unpack_u16.induct) (auto simp: is_byte_def is_u16_def)

lemma receive_registers_reply:
  assumes "port_healthy p" "port_prompt t p" "port_stream p = read_reply f addr vs"
    "f \<in> {3, 4}" "is_byte addr" "list_all is_u16 vs" "length vs \<le> 125"
  shows "\<exists>p'. receive_registers f addr (length vs) t p = (p', Inr vs)"
proof -
  let ?body = "concat (map pack_u16 vs)"
  let ?d = "[addr, f, int (length vs) * 2] @ ?body"
  obtain lo hi where crc: "append_crc ?d = ?d @ [lo, hi]" by (simp add: append_crc_def Let_def)
  have st: "port_stream p = [addr, f, int (length vs) * 2] @ (?body @ [lo, hi])"
    using assms(3) crc by (simp add: read_reply_def)
  have bytes: "list_all is_byte ?d"
    using assms packs_bytes[of vs] by (auto simp: is_byte_def)
  from read_exact_stream[OF assms(1,2), of 3] st obtain p1 where r1:
    "read_exact 3 t p = (p1, Inr [addr, f, int (length vs) * 2])"
    "port_stream p1 = ?body @ [lo, hi]" "port_healthy p1" "port_prompt t p1" by auto
  from read_exact_stream[OF r1(3,4), of "2 * length vs + 2"] r1(2) obtain p2 where r2:
    "read_exact (2 * length vs + 2) t p1 = (p2, Inr (?body @ [lo, hi]))" by auto
  have n: "nat (int (length vs) * 2) = 2 * length vs" by simp
  have v: "verify_crc (?d @ [lo, hi]) = Inr ()"
    using verify_append_crc[OF bytes] crc by simp
  have fn: "f OR 128 \<noteq> f" using assms(4) by auto
  have "receive_registers f addr (length vs) t p
      = (p2, Inr (unpack_u16 (drop 3 (take (length (?d @ [lo, hi]) - 2) (?d @ [lo, hi])))))"
    using fn v r2 by (simp add: receive_registers_def op_bind_def r1(1) Let_def n)
  moreover have "unpack_u16 (drop 3 (take (length (?d @ [lo, hi]) - 2) (?d @ [lo, hi]))) = vs" by simp
  ultimately show ?thesis by (simp only:) blast
qed

lemma port_after_send:
  assumes "sp_arrivals p = map Inr chunks" "sp_accept p (length (sp_written p)) = Inr (int (length req))"
  obtains p' where "send_request req p = (p', Inr ())" "port_healthy p'"
    "port_stream p' = concat chunks" "sp_clock p' = sp_clock p"
    "sp_written p' = sp_written p @ [req]"
proof -
  have "concat (map (case_sum (\<lambda>_. []) id) (map Inr chunks)) = concat chunks"
    by (simp add: comp_def)
  moreover have "list_all is_ok (map Inr chunks)" by (simp add: list_all_iff)
  ultimately show thesis using assms
    by (intro that[of "p\<lparr>sp_pending := [], sp_written := sp_written p @ [req]\<rparr>"])
      (simp_all add: send_request_def reset_input_buffer_def port_write_def op_bind_def
        port_healthy_def port_stream_def)
qed

text \<open>A claim's hypotheses on a request: the ranges the code checks.\<close>

definition valid_read :: "int \<Rightarrow> int \<Rightarrow> int \<Rightarrow> int \<Rightarrow> py_float \<Rightarrow> bool" where
  "valid_read f addr start quantity t =
     (f \<in> {3, 4} \<and> 1 \<le> addr \<and> addr \<le> 247 \<and> 0 \<le> start \<and> 1 \<le> quantity \<and> quantity \<le> 125
      \<and> start + quantity \<le> 65536 \<and> \<not> fle t (Fin 0))"

lemma read_registers_valid:
  "valid_read f addr start quantity t \<Longrightarrow>
   read_registers f addr start quantity t =
     op_bind (send_request (read_request f addr start quantity))
       (\<lambda>_. receive_registers f addr (nat quantity) t)"
  by (auto simp: valid_read_def read_registers_def function_codes validate_common_request_def
      op_bind_def fun_eq_iff)

lemma read_registers_invalid:
  assumes "\<not> valid_read f addr start quantity t"
  shows "\<exists>m. read_registers f addr start quantity t p = (p, Inl (ValueError m))"
  using assms
  by (auto simp: valid_read_def read_registers_def function_codes validate_common_request_def
      op_bind_def split: if_splits)

lemma length_read_request [simp]: "length (read_request f a s q) = 8"
  by (simp add: read_request_def pack_u16_def)

lemma length_write_request [simp]: "length (write_request a r v) = 8"
  by (simp add: write_request_def pack_u16_def)

subsection \<open>Properties\<close>

lemma read_registers_of_reply:
  assumes "valid_read f addr start (int (length vs)) t" and "list_all is_u16 vs"
    and "sp_arrivals p = map Inr chunks" and "concat chunks = read_reply f addr vs"
    and "port_prompt t p" and "sp_accept p (length (sp_written p)) = Inr 8"
  shows "\<exists>p'. read_registers f addr start (int (length vs)) t p = (p', Inr vs)"
proof -
  let ?req = "read_request f addr start (int (length vs))"
  from assms(6) have acc: "sp_accept p (length (sp_written p)) = Inr (int (length ?req))" by simp
  from port_after_send[OF assms(3) acc] obtain p1 where p1: "send_request ?req p = (p1, Inr ())"
    "port_healthy p1" "port_stream p1 = concat chunks" "sp_clock p1 = sp_clock p" by metis
  have pr: "port_prompt t p1" using p1(4) assms(5) by (simp add: port_prompt_def)
  have st: "port_stream p1 = read_reply f addr vs" using p1(3) assms(4) by simp
  from assms(1) have b: "f \<in> {3, 4}" "is_byte addr" "length vs \<le> 125"
    by (auto simp: valid_read_def is_byte_def)
  show ?thesis
    using receive_registers_reply[OF p1(2) pr st b(1,2) assms(2) b(3)] p1(1)
    by (simp add: read_registers_valid[OF assms(1)] op_bind_def)
qed

text \<open>C4: Round trip of a register read. If the slave answers a valid read request with the
  framed values and the bytes arrive in any pieces before the deadline, the read returns
  exactly these values.\<close>

theorem read_registers_roundtrip:
  assumes "valid_read f addr start (int (length vs)) t" and "list_all is_u16 vs"
    and "sp_arrivals p = map Inr chunks" and "concat chunks = read_reply f addr vs"
    and "port_prompt t p" and "sp_accept p (length (sp_written p)) = Inr 8"
  shows "\<exists>p'. read_registers f addr start (int (length vs)) t p = (p', Inr vs)"
  using assms by (rule read_registers_of_reply)

definition demo_port :: "int list list \<Rightarrow> serial_port" where
  "demo_port chunks = \<lparr>sp_pending = [7, 7], sp_arrivals = map Inr chunks, sp_clock = (\<lambda>_. Fin 0),
     sp_ticks = 0, sp_accept = (\<lambda>_. Inr 8), sp_written = []\<rparr>"

lemma demo_reply: "read_reply 4 1 [258, 3] = [1, 4, 4, 1, 2, 0, 3, 27, 185]"
  by code_simp

lemma demo_prompt: "port_prompt (Fin 1) (demo_port chunks)"
  using to_float_small[of 1] r64.of_int_exact[of 1]
  by (simp add: port_prompt_def demo_port_def)

theorem read_registers_roundtrip_witness:
  "\<exists>p'. read_registers 4 1 0 2 (Fin 1) (demo_port [[1, 4, 4], [1], [], [2, 0, 3, 27, 185]]) = (p', Inr [258, 3])"
proof -
  let ?cs = "[[1, 4, 4], [1], [], [2, 0, 3, 27, 185]]"
  have "\<exists>p'. read_registers 4 1 0 (int (length [258, 3 :: int])) (Fin 1) (demo_port ?cs) = (p', Inr [258, 3])"
    by (rule read_registers_roundtrip[where chunks = ?cs])
      (simp_all add: valid_read_def is_u16_def demo_reply demo_prompt, simp_all add: demo_port_def)
  then show ?thesis by simp
qed

text \<open>Any single corrupted byte of a checksummed frame, in the payload or in the CRC itself,
  makes the CRC check raise: no such frame is ever decoded.\<close>

theorem single_byte_corruption_rejected:
  assumes "list_all is_byte d" and "2 \<le> length d" and "i < length d + 2"
    and "is_byte b" and "b \<noteq> append_crc d ! i"
  shows "verify_crc ((append_crc d)[i := b]) \<noteq> Inr ()"
proof -
  let ?lo = "crc16_modbus d AND 0xFF" and ?hi = "drop_bit 8 (crc16_modbus d) AND 0xFF"
  note cb = crc_bytes[OF crc16_u16[OF assms(1)]]
  have f: "append_crc d = d @ [?lo, ?hi]" by (simp add: append_crc_def Let_def)
  consider "i < length d" | "i = length d" | "i = length d + 1" using assms(3) by linarith
  then show ?thesis
  proof cases
    case 1
    let ?xs = "take i d" and ?ys = "drop (Suc i) d"
    have d: "d = ?xs @ d ! i # ?ys" using 1 by (rule id_take_nth_drop)
    have d': "d[i := b] = ?xs @ b # ?ys" using 1 by (rule upd_conv_take_nth_drop)
    have "d ! i \<noteq> b" using assms(5) 1 f by (auto simp: nth_append)
    then have "crc16_modbus (?xs @ d ! i # ?ys) \<noteq> crc16_modbus (?xs @ b # ?ys)"
      using assms(1,4) d by (intro crc16_single_byte) auto
    then have "crc16_modbus d \<noteq> crc16_modbus (d[i := b])" using d d' by simp
    then show ?thesis
      using 1 cb(3) assms(2) verify_crc_iff[of "d[i := b]" ?lo ?hi] by (simp add: f list_update_append)
  next
    case 2
    then have "(append_crc d)[i := b] = d @ [b, ?hi]" "b \<noteq> ?lo"
      using assms(5) by (simp_all add: f list_update_append nth_append)
    then show ?thesis
      using or_push_inj(1)[OF assms(4) cb(2) cb(1) cb(2)] cb(3) assms(2)
      by (simp add: verify_crc_iff) metis
  next
    case 3
    then have "(append_crc d)[i := b] = d @ [?lo, b]" "b \<noteq> ?hi"
      using assms(5) by (simp_all add: f list_update_append nth_append)
    then show ?thesis
      using or_push_inj(2)[OF cb(1) assms(4) cb(1) cb(2)] cb(3) assms(2)
      by (simp add: verify_crc_iff) metis
  qed
qed

theorem single_byte_corruption_rejected_witness:
  "verify_crc ((append_crc [1, 4, 0, 0])[2 := 9]) \<noteq> Inr ()"
proof -
  have "append_crc [1, 4, 0, 0] ! 2 = 0" by (simp add: append_crc_def Let_def)
  then show ?thesis
    by (intro single_byte_corruption_rejected) (simp_all add: is_byte_def)
qed



lemma receive_echo_ok:
  assumes "port_healthy p" "port_prompt t p" "port_stream p = write_request addr reg v"
    "is_byte addr" "is_u16 reg" "is_u16 v"
  shows "\<exists>p'. receive_echo addr reg v t p = (p', Inr ())"
proof -
  let ?d = "[addr, 6] @ pack_u16 reg @ pack_u16 v"
  obtain lo hi where crc: "append_crc ?d = ?d @ [lo, hi]" by (simp add: append_crc_def Let_def)
  let ?rest = "pack_u16 reg @ pack_u16 v @ [lo, hi]"
  have w: "write_request addr reg v = [addr, 6] @ ?rest"
    using crc by (simp add: write_request_def function_codes)
  from read_exact_stream[OF assms(1,2), of 2] assms(3) w obtain p1 where r1:
    "read_exact 2 t p = (p1, Inr [addr, 6])" "port_stream p1 = ?rest" "port_healthy p1" "port_prompt t p1"
    by auto
  from read_exact_stream[OF r1(3,4), of 6] r1(2) obtain p2 where r2:
    "read_exact 6 t p1 = (p2, Inr ?rest)" by (auto simp: pack_u16_def)
  have bytes: "list_all is_byte ?d" using assms(4-6) pack_bytes by (auto simp: is_byte_def)
  have v: "verify_crc ([addr, 6] @ ?rest) = Inr ()"
    using verify_append_crc[OF bytes] crc by simp
  have l: "length ?rest = 6" by (simp add: pack_u16_def)
  show ?thesis
    using v l by (simp add: receive_echo_def op_bind_def r1(1) r2 Let_def function_codes w)
qed

text \<open>A register write succeeds exactly on the echo: when it returns, a frame equal to the
  request was read back, and a slave that echoes the request in time makes it return.\<close>

theorem write_single_register_echo:
  assumes "1 \<le> addr" "addr \<le> 247" "is_u16 reg" "is_u16 v" "\<not> fle t (Fin 0)"
  shows "(write_single_register addr reg v t p = (p', Inr ()) \<longrightarrow>
      (\<exists>p1 p2 p3 h tl. read_exact 2 t p1 = (p2, Inr h) \<and> read_exact 6 t p2 = (p3, Inr tl)
        \<and> h @ tl = write_request addr reg v))
    \<and> (sp_arrivals p = map Inr chunks \<and> concat chunks = write_request addr reg v \<and>
      port_prompt t p \<and> sp_accept p (length (sp_written p)) = Inr 8 \<longrightarrow>
      (\<exists>p''. write_single_register addr reg v t p = (p'', Inr ())))"
proof -
  let ?req = "write_request addr reg v"
  have eq: "write_single_register addr reg v t = op_bind (send_request ?req) (\<lambda>_. receive_echo addr reg v t)"
    using assms by (auto simp: write_single_register_def validate_common_request_def is_u16_def
        op_bind_def fun_eq_iff)
  show ?thesis
  proof (intro conjI impI)
    assume "write_single_register addr reg v t p = (p', Inr ())"
    then obtain p1 p2 h tl where "read_exact 2 t p1 = (p2, Inr h)"
      "read_exact 6 t p2 = (p', Inr tl)" "h @ tl = ?req"
      by (auto simp: eq op_bind_eq_Inr receive_echo_def Let_def split: if_splits)
    then show "\<exists>p1 p2 p3 h tl. read_exact 2 t p1 = (p2, Inr h) \<and> read_exact 6 t p2 = (p3, Inr tl)
        \<and> h @ tl = ?req" by blast
  next
    assume "sp_arrivals p = map Inr chunks \<and> concat chunks = ?req \<and> port_prompt t p
      \<and> sp_accept p (length (sp_written p)) = Inr 8"
    then have a: "sp_arrivals p = map Inr chunks" "concat chunks = ?req" "port_prompt t p"
      "sp_accept p (length (sp_written p)) = Inr 8" by simp_all
    have acc: "sp_accept p (length (sp_written p)) = Inr (int (length ?req))" using a(4) by simp
    from port_after_send[OF a(1) acc] obtain p1 where p1: "send_request ?req p = (p1, Inr ())"
      "port_healthy p1" "port_stream p1 = concat chunks" "sp_clock p1 = sp_clock p" by metis
    have "port_prompt t p1" "port_stream p1 = ?req"
      using p1 a by (simp_all add: port_prompt_def)
    from receive_echo_ok[OF p1(2) this _ assms(3,4)] assms(1,2)
    show "\<exists>p''. write_single_register addr reg v t p = (p'', Inr ())"
      using p1(1) by (auto simp: eq op_bind_def is_byte_def)
  qed
qed

theorem write_single_register_echo_witness:
  "\<exists>p''. write_single_register 44 1080 2 (Fin 1) (demo_port [[44, 6], [4, 56, 0, 2, 142, 139]]) = (p'', Inr ())"
proof -
  let ?cs = "[[44, 6], [4, 56, 0, 2, 142, 139 :: int]]"
  have w: "write_request 44 1080 2 = [44, 6, 4, 56, 0, 2, 142, 139]" by code_simp
  have a: "sp_arrivals (demo_port ?cs) = map Inr ?cs" "sp_accept (demo_port ?cs) n = Inr 8" for n
    by (simp_all add: demo_port_def)
  have "1 \<le> (44::int)" "(44::int) \<le> 247" "is_u16 1080" "is_u16 2" "\<not> fle (Fin 1) (Fin 0)"
    by (simp_all add: is_u16_def)
  from write_single_register_echo[OF this, where p = "demo_port ?cs" and chunks = ?cs] show ?thesis
    by (simp add: a w demo_prompt)
qed

end
