(* ===== verification/Sensors.thy ===== *)
theory Sensors
  imports Prelude Binary64 Modbus
begin

unbundle bit_operations_syntax

section \<open>SEN55 sensor nodes: domain state and register map\<close>

text \<open>
  Models \<open>domain/sensors.py\<close> (flags, readings, node and bus state) and
  \<open>infrastructure/sen55_modbus.py\<close> (decoding of the 19 input registers of a node).
  A flag of an \<open>IntFlag\<close> class is its bit number; \<open>has_flag\<close> is \<open>bool(mask & flag)\<close>.
\<close>

datatype sensor_availability =
  AVAIL_PM1_0 | AVAIL_PM2_5 | AVAIL_PM4_0 | AVAIL_PM10_0 | AVAIL_HUMIDITY | AVAIL_TEMPERATURE
  | AVAIL_VOC | AVAIL_NOX

fun availability_bit :: "sensor_availability \<Rightarrow> nat" where
  "availability_bit AVAIL_PM1_0 = 0"
| "availability_bit AVAIL_PM2_5 = 1"
| "availability_bit AVAIL_PM4_0 = 2"
| "availability_bit AVAIL_PM10_0 = 3"
| "availability_bit AVAIL_HUMIDITY = 4"
| "availability_bit AVAIL_TEMPERATURE = 5"
| "availability_bit AVAIL_VOC = 6"
| "availability_bit AVAIL_NOX = 7"

datatype sensor_node_status =
  MEASUREMENT_VALID | SENSOR_PRESENT | MEASUREMENT_STALE | I2C_ERROR | DATA_ERROR | INITIALIZING
  | SENSOR_OFFLINE | PLATFORM_FAULT | SEN55_DEVICE_STATUS_SUPPORTED | SEN55_DEVICE_STATUS_VALID
  | SEN55_FAN_SPEED_WARNING | SEN55_FAN_CLEANING | SEN55_GAS_SENSOR_ERROR | SEN55_RHT_ERROR
  | SEN55_LASER_ERROR | SEN55_FAN_ERROR

fun status_bit :: "sensor_node_status \<Rightarrow> nat" where
  "status_bit MEASUREMENT_VALID = 0"
| "status_bit SENSOR_PRESENT = 1"
| "status_bit MEASUREMENT_STALE = 2"
| "status_bit I2C_ERROR = 3"
| "status_bit DATA_ERROR = 4"
| "status_bit INITIALIZING = 5"
| "status_bit SENSOR_OFFLINE = 6"
| "status_bit PLATFORM_FAULT = 7"
| "status_bit SEN55_DEVICE_STATUS_SUPPORTED = 8"
| "status_bit SEN55_DEVICE_STATUS_VALID = 9"
| "status_bit SEN55_FAN_SPEED_WARNING = 10"
| "status_bit SEN55_FAN_CLEANING = 11"
| "status_bit SEN55_GAS_SENSOR_ERROR = 12"
| "status_bit SEN55_RHT_ERROR = 13"
| "status_bit SEN55_LASER_ERROR = 14"
| "status_bit SEN55_FAN_ERROR = 15"

definition has_flag :: "int \<Rightarrow> nat \<Rightarrow> bool" where
  "has_flag m n = (m AND push_bit n 1 \<noteq> 0)"

lemma has_flag_bit: "has_flag m n \<longleftrightarrow> bit m n"
  by (simp add: has_flag_def bit_iff_and_push_bit_not_eq_0)

record air_quality_reading =
  pm1_0_ug_m3 :: "py_float option"
  pm2_5_ug_m3 :: "py_float option"
  pm4_0_ug_m3 :: "py_float option"
  pm10_0_ug_m3 :: "py_float option"
  humidity_percent :: "py_float option"
  temperature_celsius :: "py_float option"
  voc_index :: "py_float option"
  nox_index :: "py_float option"

definition empty_reading :: air_quality_reading where
  "empty_reading = \<lparr>pm1_0_ug_m3 = None, pm2_5_ug_m3 = None, pm4_0_ug_m3 = None, pm10_0_ug_m3 = None,
     humidity_percent = None, temperature_celsius = None, voc_index = None, nox_index = None\<rparr>"

record sensor_node_state =
  slave_address :: int
  online :: bool
  usable :: bool
  measurement_valid :: bool
  measurement_stale :: bool
  sensor_present :: bool
  availability_mask :: int
  status_mask :: int
  reading :: air_quality_reading
  age_seconds :: "int option"
  sensor_errors :: int
  modbus_service_errors :: int
  uptime_seconds :: int
  firmware_version :: "string option"
  map_version :: "int option"
  sequence_no :: int
  last_success_at :: "string option"
  last_error :: "string option"
  polls :: int
  successful_polls :: int
  communication_errors :: int
  consecutive_failures :: int
  invalid_measurements :: int
  stale_measurements :: int
  map_version_errors :: int
  sen55_device_status_supported :: bool
  sen55_device_status_valid :: bool
  sen55_fan_speed_warning :: bool
  sen55_fan_cleaning :: bool
  sen55_gas_sensor_error :: bool
  sen55_rht_error :: bool
  sen55_laser_error :: bool
  sen55_fan_error :: bool
  sen55_diagnostics_failures :: int

text \<open>\<open>SensorNodeState(slave_address=address)\<close>: every other field at its default.\<close>

definition new_node :: "int \<Rightarrow> sensor_node_state" where
  "new_node address = \<lparr>slave_address = address, online = False, usable = False,
     measurement_valid = False, measurement_stale = True, sensor_present = False,
     availability_mask = 0, status_mask = 0, reading = empty_reading, age_seconds = None,
     sensor_errors = 0, modbus_service_errors = 0, uptime_seconds = 0, firmware_version = None,
     map_version = None, sequence_no = 0, last_success_at = None, last_error = None,
     polls = 0, successful_polls = 0, communication_errors = 0, consecutive_failures = 0,
     invalid_measurements = 0, stale_measurements = 0, map_version_errors = 0,
     sen55_device_status_supported = False, sen55_device_status_valid = False,
     sen55_fan_speed_warning = False, sen55_fan_cleaning = False, sen55_gas_sensor_error = False,
     sen55_rht_error = False, sen55_laser_error = False, sen55_fan_error = False,
     sen55_diagnostics_failures = 0\<rparr>"

record sensor_bus_state =
  sb_port :: string
  sb_baudrate :: int
  sb_addresses :: "int list"
  sb_ready :: bool
  sb_worker_alive :: bool
  sb_worker_restarts :: int
  sb_expected_map_version :: int
  sb_inter_node_delay_seconds :: py_float
  sb_poll_interval_seconds :: py_float
  sb_last_cycle_at :: "string option"
  sb_last_error :: "string option"
  sb_nodes :: "sensor_node_state list"

subsection \<open>Decoding the register map\<close>

definition REGISTER_COUNT :: nat where "REGISTER_COUNT = 19"
definition EXPECTED_MAP_VERSION :: int where "EXPECTED_MAP_VERSION = 1"

record decoded_sensor_sample =
  ds_reading :: air_quality_reading
  ds_availability_mask :: int
  ds_status_mask :: int
  ds_measurement_valid :: bool
  ds_measurement_stale :: bool
  ds_sensor_present :: bool
  ds_age_seconds :: "int option"
  ds_sensor_errors :: int
  ds_modbus_service_errors :: int
  ds_uptime_seconds :: int
  ds_firmware_version :: string
  ds_map_version :: int
  ds_sequence :: int
  ds_device_status_supported :: bool
  ds_device_status_valid :: bool
  ds_fan_speed_warning :: bool
  ds_fan_cleaning :: bool
  ds_gas_sensor_error :: bool
  ds_rht_error :: bool
  ds_laser_error :: bool
  ds_fan_error :: bool

definition signed_16 :: "int \<Rightarrow> int" where
  "signed_16 v = (if v AND 0x8000 \<noteq> 0 then v - 0x10000 else v)"

definition combine_u32 :: "int \<Rightarrow> int \<Rightarrow> int" where
  "combine_u32 high low = push_bit 16 (high AND 0xFFFF) OR (low AND 0xFFFF)"

definition optional_scaled :: "int list \<Rightarrow> nat \<Rightarrow> int \<Rightarrow> sensor_availability \<Rightarrow> rat \<Rightarrow> py_float option" where
  "optional_scaled registers index m field scale =
     (if has_flag m (availability_bit field)
      then Some (fdiv_pos (Fin (of_int (registers ! index))) scale) else None)"

definition decode_sensor_registers :: "int list \<Rightarrow> int \<Rightarrow> decoded_sensor_sample result" where
  "decode_sensor_registers registers expected_map_version =
     (if length registers \<noteq> REGISTER_COUNT
      then Inl (ValueError (''Expected '' @ show_nat REGISTER_COUNT @ '' registers, received ''
             @ show_nat (length registers)))
      else if registers ! 16 \<noteq> expected_map_version
      then Inl (UnsupportedMapVersion (registers ! 16) expected_map_version)
      else
        let availability = registers ! 8 AND 0xFF;
            status = registers ! 9 AND 0xFFFF;
            age = (if registers ! 10 = 0xFFFF then None else Some (registers ! 10));
            firmware = registers ! 15;
            stale = has_flag status (status_bit MEASUREMENT_STALE);
            valid = has_flag status (status_bit MEASUREMENT_VALID)
                      \<and> availability \<noteq> 0 \<and> age \<noteq> None \<and> \<not> stale
        in Inr \<lparr>
          ds_reading = \<lparr>
            pm1_0_ug_m3 = optional_scaled registers 0 availability AVAIL_PM1_0 10,
            pm2_5_ug_m3 = optional_scaled registers 1 availability AVAIL_PM2_5 10,
            pm4_0_ug_m3 = optional_scaled registers 2 availability AVAIL_PM4_0 10,
            pm10_0_ug_m3 = optional_scaled registers 3 availability AVAIL_PM10_0 10,
            humidity_percent = optional_scaled registers 4 availability AVAIL_HUMIDITY 100,
            temperature_celsius =
              (if has_flag availability (availability_bit AVAIL_TEMPERATURE)
               then Some (fdiv_pos (Fin (of_int (signed_16 (registers ! 5)))) 100) else None),
            voc_index = optional_scaled registers 6 availability AVAIL_VOC 10,
            nox_index = optional_scaled registers 7 availability AVAIL_NOX 10\<rparr>,
          ds_availability_mask = availability,
          ds_status_mask = status,
          ds_measurement_valid = valid,
          ds_measurement_stale = stale,
          ds_sensor_present = has_flag status (status_bit SENSOR_PRESENT),
          ds_age_seconds = age,
          ds_sensor_errors = registers ! 11,
          ds_modbus_service_errors = registers ! 12,
          ds_uptime_seconds = combine_u32 (registers ! 13) (registers ! 14),
          ds_firmware_version = show_int (drop_bit 8 firmware AND 0xFF) @ ''.'' @ show_int (firmware AND 0xFF),
          ds_map_version = registers ! 16,
          ds_sequence = combine_u32 (registers ! 17) (registers ! 18),
          ds_device_status_supported = has_flag status (status_bit SEN55_DEVICE_STATUS_SUPPORTED),
          ds_device_status_valid = has_flag status (status_bit SEN55_DEVICE_STATUS_VALID),
          ds_fan_speed_warning = has_flag status (status_bit SEN55_FAN_SPEED_WARNING),
          ds_fan_cleaning = has_flag status (status_bit SEN55_FAN_CLEANING),
          ds_gas_sensor_error = has_flag status (status_bit SEN55_GAS_SENSOR_ERROR),
          ds_rht_error = has_flag status (status_bit SEN55_RHT_ERROR),
          ds_laser_error = has_flag status (status_bit SEN55_LASER_ERROR),
          ds_fan_error = has_flag status (status_bit SEN55_FAN_ERROR)\<rparr>)"

lemma signed_16_arith:
  assumes "is_u16 v" shows "signed_16 v = (if 32768 \<le> v then v - 65536 else v)"
proof -
  have "(v AND 0x8000 \<noteq> 0) \<longleftrightarrow> bit v 15"
    using bit_iff_and_push_bit_not_eq_0[of v 15] by (simp add: push_bit_eq_mult)
  also have "bit v 15 \<longleftrightarrow> odd (v div 32768)" by (simp add: bit_iff_odd)
  also have "\<dots> \<longleftrightarrow> 32768 \<le> v"
  proof -
    have "v div 32768 = (if 32768 \<le> v then 1 else 0)" using assms by (auto simp: is_u16_def)
    then show ?thesis by simp
  qed
  finally show ?thesis by (simp add: signed_16_def)
qed

lemma signed_16_range: "is_u16 v \<Longrightarrow> -32768 \<le> signed_16 v \<and> signed_16 v < 32768"
  by (auto simp: signed_16_arith is_u16_def)

lemma combine_u32_arith:
  assumes "is_u16 h" "is_u16 l" shows "combine_u32 h l = 65536 * h + l"
proof -
  have "push_bit 16 h AND l = 0"
  proof (rule bit_eqI)
    fix n
    have "\<not> bit l n" if "16 \<le> n"
    proof -
      have "(65536::int) \<le> 2 ^ n" using power_increasing[of 16 n "2::int"] that by simp
      then show ?thesis using assms(2) by (simp add: bit_iff_odd is_u16_def)
    qed
    then show "bit (push_bit 16 h AND l) n \<longleftrightarrow> bit 0 n" by (auto simp: bit_simps)
  qed
  then have "push_bit 16 h OR l = push_bit 16 h + l" using plus_and_or[of "push_bit 16 h" l] by simp
  then show ?thesis using assms by (simp add: combine_u32_def mask_u16 push_bit_eq_mult)
qed

lemma combine_u32_inj:
  "is_u16 h \<Longrightarrow> is_u16 l \<Longrightarrow> is_u16 h' \<Longrightarrow> is_u16 l' \<Longrightarrow> combine_u32 h l = combine_u32 h' l' \<Longrightarrow>
   h = h' \<and> l = l'"
proof -
  assume r: "is_u16 h" "is_u16 l" "is_u16 h'" "is_u16 l'" "combine_u32 h l = combine_u32 h' l'"
  then have e: "65536 * h + l = 65536 * h' + l'" by (simp add: combine_u32_arith)
  have "(65536 * h + l) div 65536 = h" "(65536 * h' + l') div 65536 = h'"
    using r by (simp_all add: is_u16_def)
  with e have "h = h'" by metis
  with e show ?thesis by simp
qed

lemma decode_ok_iff:
  "is_ok (decode_sensor_registers regs v) \<longleftrightarrow> length regs = 19 \<and> regs ! 16 = v"
  by (simp add: decode_sensor_registers_def REGISTER_COUNT_def Let_def)

text \<open>A scaled register is the correctly rounded quotient.\<close>

lemma scaled_float:
  assumes "is_u16 v" "1 \<le> (c::rat)"
  shows "fdiv_pos (Fin (of_int v)) c = Fin (round64 (of_int v / c))"
proof -
  have "0 \<le> rat_of_int v / c" "rat_of_int v / c \<le> rat_of_int v"
    using assms mult_left_mono[of 1 c "rat_of_int v"] by (auto simp: is_u16_def divide_le_eq)
  moreover have "rat_of_int v < 65536" using assms by (simp add: is_u16_def)
  ultimately have "\<bar>rat_of_int v / c\<bar> \<le> 2 ^ 53" by simp
  then show ?thesis by (simp add: fdiv_pos_def to_float_small)
qed

end
