(* ===== verification/LatestQueue.thy ===== *)
theory LatestQueue
  imports Prelude
begin

section \<open>The bounded state queue between a bus worker and its owner\<close>

text \<open>
  The bus workers publish their state into a \<open>multiprocessing.Queue(maxsize=4)\<close> that drops the
  oldest entry when it is full (\<open>_publish_latest\<close> of \<open>sensor_bus_worker.py\<close> and of
  \<open>aero_bus_worker.py\<close>, the same text), and the owner drains it before every use
  (\<open>_drain_updates\<close>), so that it sees the newest state only. The locale states what the
  supervisors rely on: publishing never blocks, keeps the bound, and the next drain yields the
  state published last.
\<close>

definition QUEUE_MAXSIZE :: nat where "QUEUE_MAXSIZE = 4"

text \<open>\<open>put_nowait\<close> raises \<open>Full\<close> on a full queue; then one entry is taken off, and on an empty
  queue (\<open>Empty\<close>) the update is given up.\<close>

fun publish_latest :: "nat \<Rightarrow> 's \<Rightarrow> 's list \<Rightarrow> 's list" where
  "publish_latest cap s [] = (if 0 < cap then [s] else [])"
| "publish_latest cap s (x # q) =
     (if length (x # q) < cap then (x # q) @ [s] else publish_latest cap s q)"

text \<open>\<open>_drain_updates\<close>: take entries until \<open>Empty\<close>, keeping the last one taken.\<close>

fun drain_updates :: "'s \<Rightarrow> 's list \<Rightarrow> 's" where
  "drain_updates cur [] = cur"
| "drain_updates cur (x # q) = drain_updates x q"

lemma publish_latest_length: "length q \<le> cap \<Longrightarrow> length (publish_latest cap s q) \<le> cap"
  by (induction q) auto

lemma publish_latest_last:
  "0 < cap \<Longrightarrow> \<exists>pre. publish_latest cap s q = pre @ [s]"
  by (induction q) auto

lemma drain_updates_snoc [simp]: "drain_updates cur (q @ [s]) = s"
  by (induction q arbitrary: cur) auto

lemma drain_publish: "0 < cap \<Longrightarrow> drain_updates cur (publish_latest cap s q) = s"
  using publish_latest_last[of cap s q] by auto

lemma drain_updates_mem: "drain_updates cur q = cur \<or> drain_updates cur q \<in> set q"
proof (induction q arbitrary: cur)
  case (Cons x q)
  from Cons.IH[of x] show ?case by auto
qed simp

locale latest_state_channel =
  fixes publish :: "'s \<Rightarrow> 'q \<Rightarrow> 'q" and drain :: "'s \<Rightarrow> 'q \<Rightarrow> 's"
    and bounded :: "'q \<Rightarrow> bool" and contents :: "'q \<Rightarrow> 's list"
  assumes publish_bounded: "bounded q \<Longrightarrow> bounded (publish s q)"
    and drain_after_publish: "drain cur (publish s q) = s"
    and drain_old: "drain cur q = cur \<or> drain cur q \<in> set (contents q)"
    and publish_contents: "set (contents (publish s q)) \<subseteq> insert s (set (contents q))"
begin

lemma publish_all_bounded: "bounded q \<Longrightarrow> bounded (fold publish ss q)"
  by (induction ss arbitrary: q) (simp_all add: publish_bounded)

lemma drain_publish_all: "ss \<noteq> [] \<Longrightarrow> drain cur (fold publish ss q) = last ss"
  by (induction ss rule: rev_induct) (simp_all add: drain_after_publish)

text \<open>An invariant of every published state holds of what the owner reads.\<close>

lemma drain_inv:
  assumes "P cur" "\<forall>s \<in> set (contents q). P s" shows "P (drain cur q)"
  using drain_old[of cur q] assms by metis

lemma publish_inv:
  "P s \<Longrightarrow> \<forall>x \<in> set (contents q). P x \<Longrightarrow> \<forall>x \<in> set (contents (publish s q)). P x"
  using publish_contents[of s q] by blast

end

lemma publish_latest_subset: "set (publish_latest cap s q) \<subseteq> insert s (set q)"
  by (induction q) auto

interpretation lsq: latest_state_channel "publish_latest QUEUE_MAXSIZE" drain_updates
    "\<lambda>q. length q \<le> QUEUE_MAXSIZE" "\<lambda>q. q"
  by unfold_locales
    (simp_all add: publish_latest_length drain_publish QUEUE_MAXSIZE_def drain_updates_mem publish_latest_subset)

end
