(* ===== verification/SensorBus.thy ===== *)
theory SensorBus
  imports Sensors LatestQueue
begin

section \<open>The SENSOR BUS worker and its supervisor\<close>

text \<open>
  Models \<open>infrastructure/sensor_bus_worker.py\<close>: polling of one node, the polling cycle and the
  error path of the worker process, and the supervising \<open>ProcessSensorBus\<close>. The text of
  \<open>_now_iso()\<close> is an argument (\<open>now\<close>); \<open>waits i\<close> is the result of the \<open>stop_event.wait\<close>
  after node \<open>i\<close> of a cycle; opening the UART and the death of the process are events of the
  outside world.
\<close>

record sensor_bus_config =
  sc_port :: string
  sc_addresses :: "int list"
  sc_baudrate :: int
  sc_timeout_seconds :: py_float
  sc_poll_interval_seconds :: py_float
  sc_inter_node_delay_seconds :: py_float
  sc_reconnect_delay_seconds :: py_float
  sc_expected_map_version :: int

definition sensor_bus_config_check :: "sensor_bus_config \<Rightarrow> unit result" where
  "sensor_bus_config_check c =
     (if sc_port c = '''' then Inl (ValueError ''Sensor bus port cannot be empty'')
      else if sc_addresses c = [] \<or> \<not> distinct (sc_addresses c)
      then Inl (ValueError ''Sensor bus addresses must be non-empty and unique'')
      else if \<exists>a \<in> set (sc_addresses c). \<not> (1 \<le> a \<and> a \<le> 247)
      then Inl (ValueError ''Sensor bus addresses must be in range 1..247'')
      else if sc_baudrate c \<le> 0 then Inl (ValueError ''Sensor bus baudrate must be positive'')
      else if fle (sc_timeout_seconds c) (Fin 0) \<or> fle (sc_poll_interval_seconds c) (Fin 0)
      then Inl (ValueError ''Sensor bus timeout and poll interval must be positive'')
      else if flt (sc_inter_node_delay_seconds c) (Fin 0) \<or> fle (sc_reconnect_delay_seconds c) (Fin 0)
      then Inl (ValueError ''Invalid sensor bus delay configuration'')
      else Inr ())"

definition sensor_bus_initial_state :: "sensor_bus_config \<Rightarrow> sensor_bus_state" where
  "sensor_bus_initial_state c = \<lparr>sb_port = sc_port c, sb_baudrate = sc_baudrate c,
     sb_addresses = sc_addresses c, sb_ready = False, sb_worker_alive = False,
     sb_worker_restarts = 0, sb_expected_map_version = sc_expected_map_version c,
     sb_inter_node_delay_seconds = sc_inter_node_delay_seconds c,
     sb_poll_interval_seconds = sc_poll_interval_seconds c,
     sb_last_cycle_at = None, sb_last_error = None, sb_nodes = map new_node (sc_addresses c)\<rparr>"

subsection \<open>Polling one node\<close>

definition unsupported_map_state :: "string \<Rightarrow> sensor_node_state \<Rightarrow> int \<Rightarrow> int \<Rightarrow> int \<Rightarrow> sensor_node_state" where
  "unsupported_map_state now previous n_polls received expected =
     (new_node (slave_address previous))\<lparr>
       online := True,
       usable := False,
       measurement_valid := False,
       measurement_stale := True,
       sensor_present := False,
       reading := empty_reading,
       map_version := Some received,
       last_success_at := Some now,
       last_error := Some (exc_str (UnsupportedMapVersion received expected)),
       polls := n_polls,
       successful_polls := successful_polls previous + 1,
       communication_errors := communication_errors previous,
       consecutive_failures := 0,
       invalid_measurements := invalid_measurements previous,
       stale_measurements := stale_measurements previous,
       map_version_errors := map_version_errors previous + 1\<rparr>"

definition sampled_node_state :: "string \<Rightarrow> sensor_node_state \<Rightarrow> int \<Rightarrow> decoded_sensor_sample \<Rightarrow> sensor_node_state" where
  "sampled_node_state now previous n_polls sample =
     \<lparr>slave_address = slave_address previous,
      online = True,
      usable = ds_measurement_valid sample,
      measurement_valid = ds_measurement_valid sample,
      measurement_stale = ds_measurement_stale sample,
      sensor_present = ds_sensor_present sample,
      availability_mask = ds_availability_mask sample,
      status_mask = ds_status_mask sample,
      reading = ds_reading sample,
      age_seconds = ds_age_seconds sample,
      sensor_errors = ds_sensor_errors sample,
      modbus_service_errors = ds_modbus_service_errors sample,
      uptime_seconds = ds_uptime_seconds sample,
      firmware_version = Some (ds_firmware_version sample),
      map_version = Some (ds_map_version sample),
      sequence_no = ds_sequence sample,
      last_success_at = Some now,
      last_error = None,
      polls = n_polls,
      successful_polls = successful_polls previous + 1,
      communication_errors = communication_errors previous,
      consecutive_failures = 0,
      invalid_measurements =
        invalid_measurements previous + (if ds_measurement_valid sample then 0 else 1),
      stale_measurements =
        stale_measurements previous + (if ds_measurement_stale sample then 1 else 0),
      map_version_errors = map_version_errors previous,
      sen55_device_status_supported = ds_device_status_supported sample,
      sen55_device_status_valid = ds_device_status_valid sample,
      sen55_fan_speed_warning = ds_fan_speed_warning sample,
      sen55_fan_cleaning = ds_fan_cleaning sample,
      sen55_gas_sensor_error = ds_gas_sensor_error sample,
      sen55_rht_error = ds_rht_error sample,
      sen55_laser_error = ds_laser_error sample,
      sen55_fan_error = ds_fan_error sample,
      sen55_diagnostics_failures =
        (if \<not> ds_device_status_supported sample \<or> ds_device_status_valid sample
         then 0 else sen55_diagnostics_failures previous + 1)\<rparr>"

definition failed_node_state :: "sensor_node_state \<Rightarrow> int \<Rightarrow> exc \<Rightarrow> sensor_node_state" where
  "failed_node_state previous n_polls e =
     previous\<lparr>online := False,
       usable := False,
       last_error := Some (exc_str e),
       polls := n_polls,
       communication_errors := communication_errors previous + 1,
       consecutive_failures := consecutive_failures previous + 1\<rparr>"

fun is_modbus_error :: "exc \<Rightarrow> bool" where
  "is_modbus_error (ModbusError _) = True"
| "is_modbus_error _ = False"

text \<open>The outcome of the \<open>try\<close> block decides the new node state, or the exception escapes.\<close>

definition node_of_poll :: "string \<Rightarrow> sensor_node_state \<Rightarrow> decoded_sensor_sample result \<Rightarrow> sensor_node_state result" where
  "node_of_poll now previous r =
     (let n = polls previous + 1 in
      case r of
        Inr sample \<Rightarrow> Inr (sampled_node_state now previous n sample)
      | Inl (UnsupportedMapVersion received expected) \<Rightarrow>
          Inr (unsupported_map_state now previous n received expected)
      | Inl e \<Rightarrow>
          if is_modbus_error e \<or> is_value_error e then Inr (failed_node_state previous n e) else Inl e)"

definition poll_node :: "string \<Rightarrow> sensor_bus_config \<Rightarrow> sensor_node_state \<Rightarrow> (serial_port, sensor_node_state) op" where
  "poll_node now c previous p =
     (let (p', r) = op_bind
            (read_input_registers (slave_address previous) 0 (int REGISTER_COUNT) (sc_timeout_seconds c))
            (\<lambda>registers. op_lift (decode_sensor_registers registers (sc_expected_map_version c))) p
      in (p', node_of_poll now previous r))"

subsection \<open>The worker process\<close>

record sensor_worker =
  sw_port :: serial_port
  sw_nodes :: "(int \<times> sensor_node_state) list"
  sw_state :: sensor_bus_state
  sw_queue :: "sensor_bus_state list"

definition nodes_in_order :: "sensor_bus_config \<Rightarrow> (int \<times> sensor_node_state) list \<Rightarrow> sensor_node_state list" where
  "nodes_in_order c nodes = map (\<lambda>a. dict_get nodes a (new_node a)) (sc_addresses c)"

definition sensor_worker_start :: "sensor_bus_config \<Rightarrow> sensor_bus_state list \<Rightarrow> serial_port \<Rightarrow> sensor_worker" where
  "sensor_worker_start c q p =
     \<lparr>sw_port = p,
      sw_nodes = dict_of slave_address (\<lambda>n. n) (sb_nodes (sensor_bus_initial_state c)),
      sw_state = sensor_bus_initial_state c, sw_queue = q\<rparr>"

definition sw_publish :: "sensor_bus_state \<Rightarrow> sensor_worker \<Rightarrow> sensor_worker" where
  "sw_publish s w = w\<lparr>sw_state := s, sw_queue := publish_latest QUEUE_MAXSIZE s (sw_queue w)\<rparr>"

text \<open>The UART was opened: report ready.\<close>

definition sensor_worker_opened :: "sensor_bus_config \<Rightarrow> serial_port \<Rightarrow> sensor_worker \<Rightarrow> sensor_worker" where
  "sensor_worker_opened c p w =
     (let w1 = w\<lparr>sw_port := p\<rparr>
      in sw_publish ((sw_state w1)\<lparr>sb_ready := True, sb_worker_alive := True, sb_last_error := None,
           sb_nodes := nodes_in_order c (sw_nodes w1)\<rparr>) w1)"

text \<open>Poll the addresses from position \<open>i\<close> on; stop early when the stop event is set between
  two nodes. An exception that escapes leaves the nodes polled so far updated.\<close>

fun poll_addresses :: "string \<Rightarrow> sensor_bus_config \<Rightarrow> (nat \<Rightarrow> bool) \<Rightarrow> nat \<Rightarrow> int list \<Rightarrow> (sensor_worker, unit) op" where
  "poll_addresses now c waits i [] w = (w, Inr ())"
| "poll_addresses now c waits i (a # as) w =
     (case poll_node now c (dict_get (sw_nodes w) a (new_node a)) (sw_port w) of
        (p, Inl e) \<Rightarrow> (w\<lparr>sw_port := p\<rparr>, Inl e)
      | (p, Inr node) \<Rightarrow>
          (let w' = w\<lparr>sw_port := p, sw_nodes := AList.update a node (sw_nodes w)\<rparr>
           in if i + 1 < length (sc_addresses c) \<and> flt (Fin 0) (sc_inter_node_delay_seconds c) \<and> waits i
              then (w', Inr ())
              else poll_addresses now c waits (i + 1) as w'))"

definition sensor_worker_failed :: "sensor_bus_config \<Rightarrow> exc \<Rightarrow> sensor_worker \<Rightarrow> sensor_worker" where
  "sensor_worker_failed c e w =
     sw_publish ((sw_state w)\<lparr>sb_ready := False, sb_worker_alive := True,
       sb_last_error := Some (exc_name e @ '': '' @ exc_str e),
       sb_nodes := nodes_in_order c (sw_nodes w)\<rparr>) w"

definition sensor_worker_cycle :: "string \<Rightarrow> string \<Rightarrow> sensor_bus_config \<Rightarrow> (nat \<Rightarrow> bool) \<Rightarrow> sensor_worker \<Rightarrow> sensor_worker" where
  "sensor_worker_cycle now now_end c waits w =
     (case poll_addresses now c waits 0 (sc_addresses c) w of
        (w', Inl e) \<Rightarrow> sensor_worker_failed c e w'
      | (w', Inr _) \<Rightarrow>
          sw_publish ((sw_state w')\<lparr>sb_ready := True, sb_worker_alive := True,
            sb_last_cycle_at := Some now_end, sb_last_error := None,
            sb_nodes := nodes_in_order c (sw_nodes w')\<rparr>) w')"

subsection \<open>The supervisor\<close>

record sensor_bus_owner =
  so_config :: sensor_bus_config
  so_queue :: "sensor_bus_state list"
  so_process :: "bool option"  \<comment> \<open>None: no process object; Some alive\<close>
  so_stop_event :: bool
  so_state :: sensor_bus_state
  so_worker_restarts :: int

definition so_alive :: "sensor_bus_owner \<Rightarrow> bool" where
  "so_alive s = (so_process s = Some True)"

definition so_drain :: "sensor_bus_owner \<Rightarrow> sensor_bus_owner" where
  "so_drain s = s\<lparr>so_state := drain_updates (so_state s) (so_queue s), so_queue := []\<rparr>"

definition so_start_worker :: "sensor_bus_owner \<Rightarrow> sensor_bus_owner" where
  "so_start_worker s = s\<lparr>so_stop_event := False, so_process := Some True\<rparr>"

definition sensor_bus_new :: "sensor_bus_config \<Rightarrow> sensor_bus_owner" where
  "sensor_bus_new c = so_start_worker
     \<lparr>so_config = c, so_queue = [], so_process = None, so_stop_event = False,
      so_state = sensor_bus_initial_state c, so_worker_restarts = 0\<rparr>"

definition sensor_bus_read_state :: "sensor_bus_owner \<Rightarrow> sensor_bus_owner \<times> sensor_bus_state" where
  "sensor_bus_read_state s =
     (let s1 = so_drain s
      in (s1, (so_state s1)\<lparr>sb_worker_alive := so_alive s1, sb_worker_restarts := so_worker_restarts s1\<rparr>))"

definition show_exit_code :: "int option \<Rightarrow> string" where
  "show_exit_code c = (case c of None \<Rightarrow> ''None'' | Some i \<Rightarrow> show_int i)"

definition sensor_bus_health_check :: "int option \<Rightarrow> sensor_bus_owner \<Rightarrow> sensor_bus_owner" where
  "sensor_bus_health_check exitcode s =
     (let s1 = so_drain s in
      if so_alive s1 then s1
      else
        let code = (if so_process s1 = None then None else exitcode);
            s2 = s1\<lparr>so_state := (so_state s1)\<lparr>sb_ready := False, sb_worker_alive := False,
                     sb_last_error := Some (''Sensor bus worker exited with code '' @ show_exit_code code)\<rparr>\<rparr>;
            s3 = s2\<lparr>so_process := None, so_queue := []\<rparr>
        in so_start_worker (s3\<lparr>so_worker_restarts := so_worker_restarts s3 + 1\<rparr>))"

definition sensor_bus_close :: "sensor_bus_owner \<Rightarrow> sensor_bus_owner" where
  "sensor_bus_close s =
     s\<lparr>so_stop_event := True, so_process := None, so_queue := [],
       so_state := (so_state s)\<lparr>sb_ready := False, sb_worker_alive := False\<rparr>\<rparr>"

subsection \<open>The node invariant\<close>

text \<open>What the counters and flags of a node mean, after any sequence of polls.\<close>

definition node_ok :: "sensor_node_state \<Rightarrow> bool" where
  "node_ok n =
     (polls n = successful_polls n + communication_errors n
      \<and> 0 \<le> successful_polls n \<and> 0 \<le> consecutive_failures n
      \<and> consecutive_failures n \<le> communication_errors n
      \<and> 0 \<le> invalid_measurements n \<and> 0 \<le> stale_measurements n \<and> 0 \<le> sen55_diagnostics_failures n
      \<and> (usable n \<longrightarrow> online n \<and> measurement_valid n \<and> \<not> measurement_stale n)
      \<and> (0 < consecutive_failures n \<longrightarrow> \<not> online n \<and> \<not> usable n))"

lemma node_ok_new: "node_ok (new_node a)"
  by (simp add: node_ok_def new_node_def)

lemma decode_valid_fresh:
  "decode_sensor_registers regs v = Inr sample \<Longrightarrow> ds_measurement_valid sample \<Longrightarrow>
   \<not> ds_measurement_stale sample"
  by (auto simp: decode_sensor_registers_def Let_def split: if_splits)

lemma node_of_poll_ok:
  assumes "node_of_poll now previous r = Inr n" "node_ok previous"
    and "\<And>sample. r = Inr sample \<Longrightarrow> ds_measurement_valid sample \<Longrightarrow> \<not> ds_measurement_stale sample"
  shows "node_ok n \<and> slave_address n = slave_address previous \<and> polls n = polls previous + 1"
proof (cases r)
  case (Inr sample)
  with assms show ?thesis
    by (auto simp: node_of_poll_def Let_def sampled_node_state_def node_ok_def)
next
  case (Inl e)
  show ?thesis
  proof (cases e)
    case (UnsupportedMapVersion x y)
    with assms(1,2) Inl show ?thesis
      by (auto simp: node_of_poll_def Let_def unsupported_map_state_def node_ok_def new_node_def)
  qed (use assms(1,2) Inl in \<open>auto simp: node_of_poll_def Let_def failed_node_state_def node_ok_def
      split: if_splits\<close>)
qed

lemma poll_node_eq:
  "poll_node now c previous p = (p', r') \<Longrightarrow>
   \<exists>r. r' = node_of_poll now previous r
     \<and> (\<forall>sample. r = Inr sample \<longrightarrow> (\<exists>regs. decode_sensor_registers regs (sc_expected_map_version c) = Inr sample))"
  by (auto simp: poll_node_def Let_def op_bind_def split: prod.splits sum.splits)

lemma poll_node_ok:
  assumes "poll_node now c previous p = (p', Inr n)" "node_ok previous"
  shows "node_ok n" "slave_address n = slave_address previous" "polls n = polls previous + 1"
proof -
  from poll_node_eq[OF assms(1)] obtain r where r: "Inr n = node_of_poll now previous r"
    "\<forall>sample. r = Inr sample \<longrightarrow> (\<exists>regs. decode_sensor_registers regs (sc_expected_map_version c) = Inr sample)"
    by blast
  have "node_ok n \<and> slave_address n = slave_address previous \<and> polls n = polls previous + 1"
    by (rule node_of_poll_ok[OF r(1)[symmetric] assms(2)]) (use r(2) decode_valid_fresh in blast)
  then show "node_ok n" "slave_address n = slave_address previous" "polls n = polls previous + 1"
    by blast+
qed

subsection \<open>The worker invariant\<close>

definition nodes_ok :: "sensor_bus_config \<Rightarrow> (int \<times> sensor_node_state) list \<Rightarrow> bool" where
  "nodes_ok c nodes = list_all (\<lambda>(a, n). node_ok n \<and> slave_address n = a) nodes"

definition published_ok :: "sensor_bus_config \<Rightarrow> sensor_bus_state \<Rightarrow> bool" where
  "published_ok c s = (map slave_address (sb_nodes s) = sc_addresses c \<and> list_all node_ok (sb_nodes s))"

definition worker_ok :: "sensor_bus_config \<Rightarrow> sensor_worker \<Rightarrow> bool" where
  "worker_ok c w = (nodes_ok c (sw_nodes w) \<and> list_all (published_ok c) (sw_queue w)
     \<and> length (sw_queue w) \<le> QUEUE_MAXSIZE)"

lemma nodes_ok_get:
  assumes "nodes_ok c nodes"
  shows "node_ok (dict_get nodes a (new_node a))" "slave_address (dict_get nodes a (new_node a)) = a"
proof -
  have "node_ok (dict_get nodes a (new_node a)) \<and> slave_address (dict_get nodes a (new_node a)) = a"
  proof (cases "map_of nodes a")
    case None
    then show ?thesis by (simp add: dict_get_def node_ok_new) (simp add: new_node_def)
  next
    case (Some n)
    then have "(a, n) \<in> set nodes" by (rule map_of_SomeD)
    with assms Some show ?thesis by (auto simp: nodes_ok_def list_all_iff dict_get_def)
  qed
  then show "node_ok (dict_get nodes a (new_node a))" "slave_address (dict_get nodes a (new_node a)) = a"
    by blast+
qed

lemma nodes_ok_update:
  assumes "nodes_ok c nodes" "node_ok n" "slave_address n = a" shows "nodes_ok c (AList.update a n nodes)"
proof -
  have "set (AList.update a n nodes) \<subseteq> insert (a, n) (set nodes)"
    by (induction nodes) auto
  with assms show ?thesis by (auto simp: nodes_ok_def list_all_iff)
qed

lemma nodes_ok_start: "nodes_ok c (dict_of slave_address (\<lambda>n. n) (map new_node as))"
proof (induction as rule: rev_induct)
  case (snoc a as)
  then show ?case
    by (auto intro!: nodes_ok_update simp: node_ok_new) 
qed (simp add: nodes_ok_def)

lemma published_ok_nodes:
  "nodes_ok c nodes \<Longrightarrow> sb_nodes s = nodes_in_order c nodes \<Longrightarrow> published_ok c s"
  by (auto simp: published_ok_def nodes_in_order_def nodes_ok_get list_all_iff comp_def)

lemma worker_ok_publish:
  "worker_ok c w \<Longrightarrow> published_ok c s \<Longrightarrow> worker_ok c (sw_publish s w)"
  using lsq.publish_bounded[of "sw_queue w" s] lsq.publish_contents[of s "sw_queue w"]
  by (auto simp: worker_ok_def sw_publish_def list_all_iff)

lemma worker_ok_port [simp]: "worker_ok c (w\<lparr>sw_port := p\<rparr>) = worker_ok c w"
  by (simp add: worker_ok_def)

lemma worker_ok_opened: "worker_ok c w \<Longrightarrow> worker_ok c (sensor_worker_opened c p w)"
  unfolding sensor_worker_opened_def Let_def
  by (rule worker_ok_publish) (auto intro!: published_ok_nodes simp: worker_ok_def)

lemma worker_ok_failed: "worker_ok c w \<Longrightarrow> worker_ok c (sensor_worker_failed c e w)"
  unfolding sensor_worker_failed_def
  by (rule worker_ok_publish) (auto intro!: published_ok_nodes simp: worker_ok_def)

lemma worker_ok_poll_addresses:
  "poll_addresses now c waits i as w = (w', r) \<Longrightarrow> worker_ok c w \<Longrightarrow> worker_ok c w'"
proof (induction now c waits i as w rule: poll_addresses.induct)
  case (2 now c waits i a as w)
  obtain p r1 where poll: "poll_node now c (dict_get (sw_nodes w) a (new_node a)) (sw_port w) = (p, r1)"
    by force
  show ?case
  proof (cases r1)
    case (Inl e)
    with poll "2.prems" show ?thesis by auto
  next
    case (Inr node)
    let ?w = "w\<lparr>sw_port := p, sw_nodes := AList.update a node (sw_nodes w)\<rparr>"
    from "2.prems"(2) have "nodes_ok c (sw_nodes w)" by (simp add: worker_ok_def)
    with poll_node_ok[OF poll[unfolded Inr]] nodes_ok_get[of c "sw_nodes w" a]
    have "nodes_ok c (AList.update a node (sw_nodes w))" by (auto intro: nodes_ok_update)
    with "2.prems"(2) have ok: "worker_ok c ?w" by (simp add: worker_ok_def)
    show ?thesis
    proof (cases "i + 1 < length (sc_addresses c) \<and> flt (Fin 0) (sc_inter_node_delay_seconds c) \<and> waits i")
      case True
      with poll Inr ok "2.prems"(1) show ?thesis by auto
    next
      case False
      show ?thesis
        by (rule "2.IH"[OF poll[symmetric] Inr refl False _ ok])
          (use poll Inr False "2.prems"(1) in \<open>auto simp: Let_def split: if_splits\<close>)
    qed
  qed
qed simp

lemma worker_ok_cycle: "worker_ok c w \<Longrightarrow> worker_ok c (sensor_worker_cycle now now_end c waits w)"
proof -
  assume w: "worker_ok c w"
  obtain w' r where poll: "poll_addresses now c waits 0 (sc_addresses c) w = (w', r)" by force
  note w' = worker_ok_poll_addresses[OF poll w]
  have "worker_ok c (sw_publish ((sw_state w')\<lparr>sb_ready := True, sb_worker_alive := True,
      sb_last_cycle_at := Some now_end, sb_last_error := None,
      sb_nodes := nodes_in_order c (sw_nodes w')\<rparr>) w')"
    using w' by (intro worker_ok_publish) (auto intro!: published_ok_nodes simp: worker_ok_def)
  with w' worker_ok_failed show ?thesis
    by (cases r) (simp_all add: sensor_worker_cycle_def poll)
qed

lemma worker_ok_start: "worker_ok c (sensor_worker_start c [] p)"
  by (simp add: worker_ok_def sensor_worker_start_def sensor_bus_initial_state_def nodes_ok_start)

lemma published_ok_initial: "published_ok c (sensor_bus_initial_state c)"
  by (simp add: published_ok_def sensor_bus_initial_state_def comp_def list_all_iff node_ok_new)
    (simp add: new_node_def)

subsection \<open>Worker and supervisor together\<close>

text \<open>
  Every interleaving of the supervisor's calls with the steps of the worker process, which
  share the state queue. A dead worker can be replaced by \<open>health_check\<close> only.
\<close>

definition owner_ok :: "sensor_bus_config \<Rightarrow> sensor_bus_owner \<Rightarrow> bool" where
  "owner_ok c ow = (published_ok c (so_state ow) \<and> list_all (published_ok c) (so_queue ow)
     \<and> length (so_queue ow) \<le> QUEUE_MAXSIZE)"

inductive sensor_system :: "sensor_bus_config \<Rightarrow> sensor_bus_owner \<Rightarrow> sensor_worker \<Rightarrow> bool"
  for c :: sensor_bus_config where
  boot: "sensor_system c (sensor_bus_new c) (sensor_worker_start c [] p)"
| opened: "sensor_system c ow w \<Longrightarrow> so_alive ow \<Longrightarrow>
    w' = sensor_worker_opened c p (w\<lparr>sw_queue := so_queue ow\<rparr>) \<Longrightarrow>
    sensor_system c (ow\<lparr>so_queue := sw_queue w'\<rparr>) w'"
| cycled: "sensor_system c ow w \<Longrightarrow> so_alive ow \<Longrightarrow>
    w' = sensor_worker_cycle now now_end c waits (w\<lparr>sw_queue := so_queue ow\<rparr>) \<Longrightarrow>
    sensor_system c (ow\<lparr>so_queue := sw_queue w'\<rparr>) w'"
| open_failed: "sensor_system c ow w \<Longrightarrow> so_alive ow \<Longrightarrow>
    w' = sensor_worker_failed c e (w\<lparr>sw_queue := so_queue ow\<rparr>) \<Longrightarrow>
    sensor_system c (ow\<lparr>so_queue := sw_queue w'\<rparr>) w'"
| died: "sensor_system c ow w \<Longrightarrow> sensor_system c (ow\<lparr>so_process := Some False\<rparr>) w"
| read: "sensor_system c ow w \<Longrightarrow> sensor_system c (fst (sensor_bus_read_state ow)) w"
| healthy: "sensor_system c ow w \<Longrightarrow> so_alive ow \<Longrightarrow>
    sensor_system c (sensor_bus_health_check code ow) w"
| restarted: "sensor_system c ow w \<Longrightarrow> \<not> so_alive ow \<Longrightarrow>
    sensor_system c (sensor_bus_health_check code ow) (sensor_worker_start c [] p)"

lemma worker_ok_queue:
  "worker_ok c w \<Longrightarrow> owner_ok c ow \<Longrightarrow> worker_ok c (w\<lparr>sw_queue := so_queue ow\<rparr>)"
  by (simp add: worker_ok_def owner_ok_def)

lemma owner_ok_queue:
  "worker_ok c w \<Longrightarrow> owner_ok c ow \<Longrightarrow> owner_ok c (ow\<lparr>so_queue := sw_queue w\<rparr>)"
  by (simp add: worker_ok_def owner_ok_def)

lemma owner_ok_drain: "owner_ok c ow \<Longrightarrow> owner_ok c (so_drain ow)"
  using lsq.drain_inv[of "published_ok c" "so_state ow" "so_queue ow"]
  by (simp add: owner_ok_def so_drain_def list_all_iff)

lemma published_ok_flags [simp]:
  "published_ok c (s\<lparr>sb_ready := r\<rparr>) = published_ok c s"
  "published_ok c (s\<lparr>sb_worker_alive := r\<rparr>) = published_ok c s"
  "published_ok c (s\<lparr>sb_last_error := x\<rparr>) = published_ok c s"
  "published_ok c (s\<lparr>sb_worker_restarts := n\<rparr>) = published_ok c s"
  by (simp_all add: published_ok_def)

lemma so_drain_frame [simp]: "so_alive (so_drain s) = so_alive s" "so_process (so_drain s) = so_process s"
  "so_worker_restarts (so_drain s) = so_worker_restarts s"
  by (simp_all add: so_drain_def so_alive_def)

lemma owner_ok_health: "owner_ok c ow \<Longrightarrow> owner_ok c (sensor_bus_health_check code ow)"
  using owner_ok_drain[of c ow]
  by (auto simp: sensor_bus_health_check_def Let_def so_start_worker_def owner_ok_def)

lemma sensor_system_ok: "sensor_system c ow w \<Longrightarrow> owner_ok c ow \<and> worker_ok c w"
proof (induction rule: sensor_system.induct)
  case (boot p)
  then show ?case
    by (simp add: worker_ok_start owner_ok_def sensor_bus_new_def so_start_worker_def published_ok_initial)
next
  case (opened ow w w' p)
  then have "worker_ok c w'" by (auto intro: worker_ok_opened worker_ok_queue)
  with opened show ?case by (auto intro: owner_ok_queue)
next
  case (cycled ow w w' now now_end waits)
  then have "worker_ok c w'" by (auto intro: worker_ok_cycle worker_ok_queue)
  with cycled show ?case by (auto intro: owner_ok_queue)
next
  case (open_failed ow w w' e)
  then have "worker_ok c w'" by (auto intro: worker_ok_failed worker_ok_queue)
  with open_failed show ?case by (auto intro: owner_ok_queue)
next
  case (died ow w)
  then show ?case by (simp add: owner_ok_def)
next
  case (read ow w)
  then show ?case by (simp add: sensor_bus_read_state_def Let_def owner_ok_drain)
next
  case (healthy ow w code)
  then show ?case by (simp add: owner_ok_health)
next
  case (restarted ow w code p)
  then show ?case by (simp add: owner_ok_health worker_ok_start)
qed

subsection \<open>Properties\<close>

text \<open>C2: In every reachable state of worker and supervisor, whatever the UART, the nodes and the
  process do, the state the supervisor reports lists exactly the configured nodes in order, each
  with consistent counters (polls are successes plus communication errors, a node with a failed
  last poll is neither online nor usable, a usable node is online with a valid, fresh
  measurement), and at most four states are queued.\<close>

theorem sensor_bus_reported_state_ok:
  assumes "sensor_system c ow w"
  shows "map slave_address (sb_nodes (snd (sensor_bus_read_state ow))) = sc_addresses c
    \<and> list_all node_ok (sb_nodes (snd (sensor_bus_read_state ow)))
    \<and> length (so_queue ow) \<le> 4"
proof -
  from sensor_system_ok[OF assms] have ok: "owner_ok c ow" by simp
  with owner_ok_drain[OF ok] show ?thesis
    by (simp add: owner_ok_def published_ok_def sensor_bus_read_state_def Let_def QUEUE_MAXSIZE_def)
qed

definition default_sensor_bus_config :: sensor_bus_config where
  "default_sensor_bus_config = \<lparr>sc_port = ''/dev/ttyAMA0'', sc_addresses = [1, 2], sc_baudrate = 19200,
     sc_timeout_seconds = Fin (1 / 2), sc_poll_interval_seconds = Fin 1,
     sc_inter_node_delay_seconds = Fin (round64 (1 / 100)), sc_reconnect_delay_seconds = Fin 1,
     sc_expected_map_version = EXPECTED_MAP_VERSION\<rparr>"

theorem sensor_bus_reported_state_ok_witness:
  "\<exists>ow w. sensor_system default_sensor_bus_config ow w
    \<and> map slave_address (sb_nodes (snd (sensor_bus_read_state ow))) = [1, 2]"
proof -
  let ?p = "demo_port []"
  let ?w = "sensor_worker_failed default_sensor_bus_config (OSError ''no uart'')
    ((sensor_worker_start default_sensor_bus_config [] ?p)
       \<lparr>sw_queue := so_queue (sensor_bus_new default_sensor_bus_config)\<rparr>)"
  have "so_alive (sensor_bus_new default_sensor_bus_config)"
    by (simp add: sensor_bus_new_def so_start_worker_def so_alive_def)
  then have sys: "sensor_system default_sensor_bus_config
      ((sensor_bus_new default_sensor_bus_config)\<lparr>so_queue := sw_queue ?w\<rparr>) ?w"
    by (intro sensor_system.open_failed[OF sensor_system.boot _ refl])
  from sensor_bus_reported_state_ok[OF sys] sys show ?thesis
    by (auto simp: default_sensor_bus_config_def)
qed

text \<open>A supervisor whose worker process died is never left without one: the health check
  reports the bus not ready, discards what the dead worker queued, counts the restart and starts
  a new process; a live worker is left alone.\<close>

theorem sensor_bus_health_check_restarts:
  "so_alive (sensor_bus_health_check code ow)
   \<and> (if so_alive ow
      then sensor_bus_health_check code ow = so_drain ow
      else so_worker_restarts (sensor_bus_health_check code ow) = so_worker_restarts ow + 1
        \<and> so_queue (sensor_bus_health_check code ow) = []
        \<and> \<not> sb_ready (so_state (sensor_bus_health_check code ow))
        \<and> str_truthy (sb_last_error (so_state (sensor_bus_health_check code ow))))"
  by (auto simp: sensor_bus_health_check_def Let_def so_start_worker_def)
    (simp_all add: so_alive_def)

text \<open>A poll that gets no valid reply.\<close>

definition poll_fails :: "decoded_sensor_sample result \<Rightarrow> bool" where
  "poll_fails r = (case r of Inl (UnsupportedMapVersion _ _) \<Rightarrow> False
     | Inl e \<Rightarrow> is_modbus_error e \<or> is_value_error e | Inr _ \<Rightarrow> False)"

fun poll_results :: "string \<Rightarrow> sensor_node_state \<Rightarrow> decoded_sensor_sample result list \<Rightarrow> sensor_node_state result" where
  "poll_results now n [] = Inr n"
| "poll_results now n (r # rs) =
     (case node_of_poll now n r of Inl e \<Rightarrow> Inl e | Inr n' \<Rightarrow> poll_results now n' rs)"

lemma node_of_poll_failed:
  "poll_fails r \<Longrightarrow> \<exists>e. node_of_poll now n r = Inr (failed_node_state n (polls n + 1) e)"
  by (auto simp: poll_fails_def node_of_poll_def Let_def split: sum.splits exc.splits)

text \<open>Failed polls are counted exactly: after a run of \<open>k\<close> failed polls (\<open>k > 0\<close>) the node is
  offline and unusable with \<open>k\<close> more polls, communication errors and consecutive failures, the
  last reading kept; and the next reply with a valid sample makes it usable again with no
  consecutive failures.\<close>

theorem failed_polls_counted:
  assumes "list_all poll_fails rs" and "rs \<noteq> []" and "ds_measurement_valid sample"
  shows "\<exists>n' n''. poll_results now n rs = Inr n' \<and> \<not> online n' \<and> \<not> usable n'
    \<and> consecutive_failures n' = consecutive_failures n + int (length rs)
    \<and> communication_errors n' = communication_errors n + int (length rs)
    \<and> polls n' = polls n + int (length rs) \<and> reading n' = reading n
    \<and> poll_results now n (rs @ [Inr sample]) = Inr n'' \<and> online n'' \<and> usable n''
    \<and> consecutive_failures n'' = 0 \<and> reading n'' = ds_reading sample"
  using assms(1,2)
proof (induction rs arbitrary: n)
  case (Cons r rs)
  then obtain e where e: "node_of_poll now n r = Inr (failed_node_state n (polls n + 1) e)"
    using node_of_poll_failed[of r now n] by auto
  show ?case
  proof (cases "rs = []")
    case True
    with e assms(3) show ?thesis
      by (simp add: failed_node_state_def node_of_poll_def Let_def sampled_node_state_def)
  next
    case False
    with Cons.IH[of "failed_node_state n (polls n + 1) e"] Cons.prems e show ?thesis
      by (auto simp: failed_node_state_def)
  qed
qed simp

theorem failed_polls_counted_witness:
  "\<exists>n'. poll_results ''t'' (new_node 1) [Inl (ModbusError ''x''), Inl (ValueError ''y''), Inl (ModbusError ''z'')]
      = Inr n' \<and> consecutive_failures n' = 3 \<and> \<not> online n'"
proof -
  let ?rs = "[Inl (ModbusError ''x''), Inl (ValueError ''y''), Inl (ModbusError ''z'')] :: decoded_sensor_sample result list"
  have "list_all poll_fails ?rs" by (simp add: poll_fails_def)
  moreover have "\<exists>sample :: decoded_sensor_sample. ds_measurement_valid sample"
    by (meson decoded_sensor_sample.select_convs(4))
  ultimately show ?thesis
    using failed_polls_counted[of ?rs _ "''t''" "new_node 1"] by (auto simp: new_node_def)
qed

end
