(* ===== verification/Aero.thy ===== *)
theory Aero
  imports Sensors
begin

section \<open>AERO recuperator: commands, results, telemetry and bus state\<close>

text \<open>
  Models \<open>domain/aero_control.py\<close>, \<open>domain/aero.py\<close> and the telemetry decoder
  \<open>infrastructure/aero4a2.py\<close>. The kind of a command is a datatype with the two members of the
  enum, so the final \<open>raise\<close> for an unknown kind has no case.
\<close>

definition AERO_SPEED_REGISTER :: int where "AERO_SPEED_REGISTER = 1080"
definition AERO_AIRING_REGISTER :: int where "AERO_AIRING_REGISTER = 1081"
definition AERO_EXECUTION_TIMEOUT_SECONDS :: py_float where "AERO_EXECUTION_TIMEOUT_SECONDS = Fin 60"
definition AERO_CONFIRMATION_POLL_INTERVAL_SECONDS :: py_float where
  "AERO_CONFIRMATION_POLL_INTERVAL_SECONDS = Fin 2"

datatype aero_control_kind = AERO_SPEED | AERO_AIRING

datatype aero_execution_state =
  AERO_IDLE | AERO_WRITE_PENDING | AERO_WAITING_READBACK | AERO_WAITING_PHYSICAL_CONFIRMATION
  | AERO_SUCCEEDED | AERO_FAILED | AERO_RECOVERY_PENDING

record aero_control_command =
  ac_kind :: aero_control_kind
  ac_register_address :: int
  ac_value :: int

text \<open>\<open>AeroControlCommand.__post_init__\<close>: the object, or the \<open>ValueError\<close>.\<close>

definition new_aero_command :: "aero_control_kind \<Rightarrow> int \<Rightarrow> int \<Rightarrow> aero_control_command result" where
  "new_aero_command kind reg v =
     (case kind of
        AERO_SPEED \<Rightarrow>
          if reg \<noteq> AERO_SPEED_REGISTER
          then Inl (ValueError ''AERO speed command must target register 1080'')
          else if v \<notin> {0, 1, 2, 3} then Inl (ValueError ''AERO speed must be one of 0, 1, 2, 3'')
          else Inr \<lparr>ac_kind = kind, ac_register_address = reg, ac_value = v\<rparr>
      | AERO_AIRING \<Rightarrow>
          if reg \<noteq> AERO_AIRING_REGISTER
          then Inl (ValueError ''AERO airing command must target register 1081'')
          else if v \<notin> {0, 1} then Inl (ValueError ''AERO airing value must be 0 or 1'')
          else Inr \<lparr>ac_kind = kind, ac_register_address = reg, ac_value = v\<rparr>)"

definition aero_set_speed :: "int \<Rightarrow> aero_control_command result" where
  "aero_set_speed speed = new_aero_command AERO_SPEED AERO_SPEED_REGISTER speed"

definition aero_set_airing :: "bool \<Rightarrow> aero_control_command result" where
  "aero_set_airing enabled = new_aero_command AERO_AIRING AERO_AIRING_REGISTER (if enabled then 1 else 0)"

text \<open>The commands that can exist.\<close>

definition aero_command_ok :: "aero_control_command \<Rightarrow> bool" where
  "aero_command_ok cmd = (new_aero_command (ac_kind cmd) (ac_register_address cmd) (ac_value cmd) = Inr cmd)"

lemma new_aero_command_ok: "new_aero_command k r v = Inr cmd \<Longrightarrow> aero_command_ok cmd"
  by (auto simp: new_aero_command_def aero_command_ok_def split: aero_control_kind.splits if_splits)

lemma aero_command_ok_u16:
  "aero_command_ok cmd \<Longrightarrow> is_u16 (ac_register_address cmd) \<and> is_u16 (ac_value cmd)"
  by (auto simp: new_aero_command_def aero_command_ok_def is_u16_def AERO_SPEED_REGISTER_def
      AERO_AIRING_REGISTER_def split: aero_control_kind.splits if_splits)

record aero_fan_power =
  fp_fan_1_percent :: int
  fp_fan_2_percent :: int

definition new_aero_fan_power :: "int \<Rightarrow> int \<Rightarrow> aero_fan_power result" where
  "new_aero_fan_power f1 f2 =
     (if \<not> (0 \<le> f1 \<and> f1 \<le> 100) then Inl (ValueError ''AERO fan_1 power must be in range 0..100'')
      else if \<not> (0 \<le> f2 \<and> f2 \<le> 100) then Inl (ValueError ''AERO fan_2 power must be in range 0..100'')
      else Inr \<lparr>fp_fan_1_percent = f1, fp_fan_2_percent = f2\<rparr>)"

record aero_control_result =
  ar_command :: aero_control_command
  ar_state :: aero_execution_state
  ar_previous_value :: "int option"
  ar_readback_value :: "int option"
  ar_baseline_power :: "aero_fan_power option"
  ar_observed_power :: "aero_fan_power option"
  ar_recovered :: bool
  ar_physical_confirmation :: bool
  ar_error :: "string option"

definition aero_succeeded :: "aero_control_result \<Rightarrow> bool" where
  "aero_succeeded r = (ar_state r = AERO_SUCCEEDED)"

record aero_telemetry =
  at_humidity_percent :: "py_float option"
  at_supply_temperature_celsius :: "py_float option"
  at_extract_temperature_celsius :: "py_float option"
  at_outdoor_temperature_celsius :: "py_float option"
  at_fan_1_percent :: "int option"
  at_fan_2_percent :: "int option"

definition empty_telemetry :: aero_telemetry where
  "empty_telemetry = \<lparr>at_humidity_percent = None, at_supply_temperature_celsius = None,
     at_extract_temperature_celsius = None, at_outdoor_temperature_celsius = None,
     at_fan_1_percent = None, at_fan_2_percent = None\<rparr>"

record aero_bus_state =
  ab_port :: string
  ab_baudrate :: int
  ab_slave_address :: int
  ab_register_addresses :: "int list"
  ab_inter_register_delay_seconds :: py_float
  ab_poll_interval_seconds :: py_float
  ab_ready :: bool
  ab_worker_alive :: bool
  ab_worker_restarts :: int
  ab_online :: bool
  ab_usable :: bool
  ab_telemetry :: aero_telemetry
  ab_control_busy :: bool
  ab_last_control_result :: "aero_control_result option"
  ab_last_success_at :: "string option"
  ab_last_cycle_at :: "string option"
  ab_last_error :: "string option"
  ab_polls :: int
  ab_successful_polls :: int
  ab_communication_errors :: int
  ab_consecutive_failures :: int
  ab_invalid_samples :: int

subsection \<open>Decoding the confirmed registers\<close>

definition CONFIRMED_TELEMETRY_REGISTERS :: "int list" where
  "CONFIRMED_TELEMETRY_REGISTERS = [2016, 2021, 2022, 2023, 2033, 2034]"

definition decode_aero_telemetry :: "(int \<times> int) list \<Rightarrow> aero_telemetry result" where
  "decode_aero_telemetry registers =
     (let missing = filter (\<lambda>a. map_of registers a = None) CONFIRMED_TELEMETRY_REGISTERS;
          reg = (\<lambda>a. dict_get registers a 0)
      in if missing \<noteq> []
         then Inl (AeroTelemetryError (''Missing confirmed AERO registers: '' @ join '', '' (map show_int missing)))
         else if \<exists>a \<in> set CONFIRMED_TELEMETRY_REGISTERS. \<not> (0 \<le> reg a \<and> reg a \<le> 0xFFFF)
         then Inl (AeroTelemetryError ''AERO register value outside uint16 range'')
         else if reg 2016 > 1000
         then Inl (AeroTelemetryError (''AERO humidity outside expected range: raw='' @ show_int (reg 2016)))
         else if reg 2033 > 100 \<or> reg 2034 > 100
         then Inl (AeroTelemetryError (''AERO fan power outside expected range: fan_1='' @ show_int (reg 2033)
                @ '', fan_2='' @ show_int (reg 2034)))
         else
           let temperatures = map (\<lambda>a. fdiv_pos (Fin (of_int (signed_16 (reg a)))) 10) [2021, 2022, 2023]
           in if \<exists>t \<in> set temperatures. \<not> (fle (Fin (- 100)) t \<and> fle t (Fin 200))
              then Inl (AeroTelemetryError (''AERO temperature outside expected engineering range: ''
                     @ join '', '' (map fmt_fixed1 temperatures)))
              else Inr \<lparr>
                at_humidity_percent = Some (fdiv_pos (Fin (of_int (reg 2016))) 10),
                at_supply_temperature_celsius = Some (temperatures ! 0),
                at_extract_temperature_celsius = Some (temperatures ! 1),
                at_outdoor_temperature_celsius = Some (temperatures ! 2),
                at_fan_1_percent = Some (reg 2033),
                at_fan_2_percent = Some (reg 2034)\<rparr>)"

lemma scaled_signed:
  assumes "is_u16 v" shows "fdiv_pos (Fin (of_int (signed_16 v))) 10 = Fin (round64 (of_int (signed_16 v) / 10))"
proof -
  from signed_16_range[OF assms] have "rat_of_int (signed_16 v) < 32768" "- 32768 \<le> rat_of_int (signed_16 v)"
    by (metis of_int_less_iff of_int_numeral, metis of_int_le_iff of_int_minus of_int_numeral)
  then have "\<bar>rat_of_int (signed_16 v) / 10\<bar> \<le> 2 ^ 53" by (simp add: abs_le_iff)
  then show ?thesis by (simp add: fdiv_pos_def to_float_small)
qed

text \<open>The temperature test on rounded tenths is the test on the raw register value.\<close>

lemma scaled_temperature_range:
  assumes "is_u16 v"
  shows "(fle (Fin (- 100)) (fdiv_pos (Fin (of_int (signed_16 v))) 10)
      \<and> fle (fdiv_pos (Fin (of_int (signed_16 v))) 10) (Fin 200)) \<longleftrightarrow>
    - 1000 \<le> signed_16 v \<and> signed_16 v \<le> 2000"
proof -
  let ?s = "signed_16 v"
  let ?x = "rat_of_int ?s / 10"
  have lo: "- 100 \<le> round64 ?x \<longleftrightarrow> - 1000 \<le> ?s"
  proof
    assume s: "- 1000 \<le> ?s"
    have "of_int (- 1000) \<le> rat_of_int ?s" using s by (simp only: of_int_le_iff)
    then show "- 100 \<le> round64 ?x" using r64.int_ge[of "- 100" ?x] by simp
  next
    assume r: "- 100 \<le> round64 ?x"
    show "- 1000 \<le> ?s"
    proof (rule ccontr)
      assume "\<not> - 1000 \<le> ?s"
      then have "?s \<le> - 1001" by simp
      then have "rat_of_int ?s \<le> of_int (- 1001)" by (simp only: of_int_le_iff)
      then have "?x \<le> of_int (- 1601) / 2 ^ 4" by simp
      then have "round64 ?x \<le> of_int (- 1601) / 2 ^ 4" by (intro r64.le) simp_all
      with r show False by simp
    qed
  qed
  have hi: "round64 ?x \<le> 200 \<longleftrightarrow> ?s \<le> 2000"
  proof
    assume s: "?s \<le> 2000"
    have "rat_of_int ?s \<le> of_int 2000" using s by (simp only: of_int_le_iff)
    then show "round64 ?x \<le> 200" using r64.int_le[of 200 ?x] by simp
  next
    assume r: "round64 ?x \<le> 200"
    show "?s \<le> 2000"
    proof (rule ccontr)
      assume "\<not> ?s \<le> 2000"
      then have "2001 \<le> ?s" by simp
      then have "of_int 2001 \<le> rat_of_int ?s" by (simp only: of_int_le_iff)
      then have "of_int 3201 / 2 ^ 4 \<le> ?x" by simp
      then have "of_int 3201 / 2 ^ 4 \<le> round64 ?x" by (intro r64.ge) simp_all
      with r show False by simp
    qed
  qed
  show ?thesis by (simp add: scaled_signed[OF assms] lo hi)
qed

text \<open>The registers the decoder accepts, stated on the raw integers.\<close>

definition aero_registers_valid :: "(int \<times> int) list \<Rightarrow> bool" where
  "aero_registers_valid registers =
     ((\<forall>a \<in> set CONFIRMED_TELEMETRY_REGISTERS. \<exists>v. map_of registers a = Some v \<and> is_u16 v)
      \<and> dict_get registers 2016 0 \<le> 1000
      \<and> dict_get registers 2033 0 \<le> 100 \<and> dict_get registers 2034 0 \<le> 100
      \<and> (\<forall>a \<in> {2021, 2022, 2023}. - 1000 \<le> signed_16 (dict_get registers a 0)
            \<and> signed_16 (dict_get registers a 0) \<le> 2000))"

lemma decode_aero_ok_iff: "is_ok (decode_aero_telemetry registers) \<longleftrightarrow> aero_registers_valid registers"
proof (cases "\<forall>a \<in> set CONFIRMED_TELEMETRY_REGISTERS. \<exists>v. map_of registers a = Some v \<and> is_u16 v")
  case True
  then have u: "is_u16 (dict_get registers a 0)" "map_of registers a \<noteq> None"
    if "a \<in> set CONFIRMED_TELEMETRY_REGISTERS" for a
    using that by (auto simp: dict_get_def)
  have m: "filter (\<lambda>a. map_of registers a = None) CONFIRMED_TELEMETRY_REGISTERS = []"
    using u(2) by (simp add: filter_empty_conv)
  have r: "\<not> (\<exists>a \<in> set CONFIRMED_TELEMETRY_REGISTERS.
      \<not> (0 \<le> dict_get registers a 0 \<and> dict_get registers a 0 \<le> 0xFFFF))"
  proof
    assume "\<exists>a \<in> set CONFIRMED_TELEMETRY_REGISTERS.
      \<not> (0 \<le> dict_get registers a 0 \<and> dict_get registers a 0 \<le> 0xFFFF)"
    then obtain a where "a \<in> set CONFIRMED_TELEMETRY_REGISTERS"
      "\<not> (0 \<le> dict_get registers a 0 \<and> dict_get registers a 0 \<le> 0xFFFF)" by blast
    with u(1)[of a] show False by (simp add: is_u16_def)
  qed
  have t: "(\<exists>t \<in> set (map (\<lambda>a. fdiv_pos (Fin (of_int (signed_16 (dict_get registers a 0)))) 10) [2021, 2022, 2023]).
      \<not> (fle (Fin (- 100)) t \<and> fle t (Fin 200))) \<longleftrightarrow>
    \<not> (\<forall>a \<in> {2021, 2022, 2023}. - 1000 \<le> signed_16 (dict_get registers a 0)
            \<and> signed_16 (dict_get registers a 0) \<le> 2000)"
  proof -
    have "2021 \<in> set CONFIRMED_TELEMETRY_REGISTERS" "2022 \<in> set CONFIRMED_TELEMETRY_REGISTERS"
      "2023 \<in> set CONFIRMED_TELEMETRY_REGISTERS"
      by (simp_all add: CONFIRMED_TELEMETRY_REGISTERS_def)
    note s = this[THEN u(1), THEN scaled_temperature_range]
    show ?thesis by (simp add: s[symmetric] del: fle_simps) blast
  qed
  show ?thesis
    unfolding decode_aero_telemetry_def aero_registers_valid_def Let_def m t
    using True r by (simp add: not_less)
next
  case False
  then have "\<not> is_ok (decode_aero_telemetry registers)"
    by (force simp: decode_aero_telemetry_def Let_def filter_empty_conv dict_get_def is_u16_def
        split: option.splits if_splits)
  with False show ?thesis by (auto simp: aero_registers_valid_def)
qed

text \<open>The telemetry decoder accepts a register snapshot exactly when every confirmed register is
  present as an unsigned 16-bit value, humidity and fan powers are in range and the three signed
  temperatures lie in -100.0 .. 200.0 degrees, decided on the raw integers although the code tests
  the rounded tenths.\<close>

theorem decode_aero_telemetry_accepts:
  "is_ok (decode_aero_telemetry registers) \<longleftrightarrow> aero_registers_valid registers"
  by (rule decode_aero_ok_iff)

end
