(* ===== verification/AeroControl.thy ===== *)
theory AeroControl
  imports Aero
begin

section \<open>Guarded execution of an AERO command\<close>

text \<open>
  Models \<open>infrastructure/aero_control_executor.py\<close>. \<open>execute_change\<close> is the body of
  \<open>execute_control_change\<close> over the operations it calls: reading one holding register, writing
  one register, and \<open>monotonic()\<close>; \<open>execute_control_change\<close> passes those of the Modbus port.
  The wait for a physical reaction is a loop with fuel, \<open>None\<close> when the fuel runs out;
  \<open>confirm_loop_returns\<close> gives the fuel that is enough once the clock passes the deadline.
  \<open>sleep\<close> only lets time pass, which the clock of the port shows.
\<close>

record aero_executor_config =
  ec_slave_address :: int
  ec_timeout_seconds :: py_float
  ec_execution_timeout_seconds :: py_float
  ec_confirmation_poll_interval_seconds :: py_float

definition new_aero_executor_config :: "int \<Rightarrow> py_float \<Rightarrow> aero_executor_config" where
  "new_aero_executor_config slave timeout = \<lparr>ec_slave_address = slave, ec_timeout_seconds = timeout,
     ec_execution_timeout_seconds = AERO_EXECUTION_TIMEOUT_SECONDS,
     ec_confirmation_poll_interval_seconds = AERO_CONFIRMATION_POLL_INTERVAL_SECONDS\<rparr>"

definition read_one :: "aero_executor_config \<Rightarrow> int \<Rightarrow> (serial_port, int) op" where
  "read_one config address =
     op_bind (read_holding_registers (ec_slave_address config) address 1 (ec_timeout_seconds config))
       (\<lambda>values. op_return (values ! 0))"

definition write_one :: "aero_executor_config \<Rightarrow> int \<Rightarrow> int \<Rightarrow> (serial_port, unit) op" where
  "write_one config address value =
     write_single_register (ec_slave_address config) address value (ec_timeout_seconds config)"

definition FAN_1_REGISTER :: int where "FAN_1_REGISTER = 2033"
definition FAN_2_REGISTER :: int where "FAN_2_REGISTER = 2034"

definition read_fan_power :: "(int \<Rightarrow> ('p, int) op) \<Rightarrow> ('p, aero_fan_power) op" where
  "read_fan_power rd =
     op_bind (rd FAN_1_REGISTER) (\<lambda>f1. op_bind (rd FAN_2_REGISTER) (\<lambda>f2.
       op_lift (new_aero_fan_power f1 f2)))"

definition allowed_previous_values :: "aero_control_command \<Rightarrow> int list" where
  "allowed_previous_values cmd = (case ac_kind cmd of AERO_SPEED \<Rightarrow> [0, 1, 2, 3] | AERO_AIRING \<Rightarrow> [0, 1])"

definition modbus_or_value_error :: "exc \<Rightarrow> bool" where
  "modbus_or_value_error e = (case e of ModbusError _ \<Rightarrow> True | _ \<Rightarrow> is_value_error e)"

definition restore_previous :: "(int \<Rightarrow> ('p, int) op) \<Rightarrow> (int \<Rightarrow> int \<Rightarrow> ('p, unit) op) \<Rightarrow>
    aero_control_command \<Rightarrow> int \<Rightarrow> ('p, bool) op" where
  "restore_previous rd wr cmd previous =
     op_catch
       (op_bind (wr (ac_register_address cmd) previous) (\<lambda>_.
        op_bind (rd (ac_register_address cmd)) (\<lambda>v. op_return (v = previous))))
       modbus_or_value_error (\<lambda>_. op_return False)"

definition show_tuple :: "int list \<Rightarrow> string" where
  "show_tuple vs = ''('' @ join '', '' (map show_int vs) @ '')''"

text \<open>\<open>write_single_register\<close> followed by the readback, the body of the \<open>try\<close>.\<close>

definition write_and_read_back :: "(int \<Rightarrow> ('p, int) op) \<Rightarrow> (int \<Rightarrow> int \<Rightarrow> ('p, unit) op) \<Rightarrow>
    aero_control_command \<Rightarrow> ('p, int) op" where
  "write_and_read_back rd wr cmd =
     op_bind (wr (ac_register_address cmd) (ac_value cmd)) (\<lambda>_.
     op_bind (rd (ac_register_address cmd)) (\<lambda>readback.
     if readback \<noteq> ac_value cmd
     then op_raise (ModbusError (''AERO control readback mismatch: got '' @ show_int readback
            @ '', expected '' @ show_int (ac_value cmd)))
     else op_return readback))"

text \<open>\<open>while monotonic() < deadline: sleep(...); observed = _read_fan_power(...)\<close>; the flag tells
  whether the loop was left by the \<open>return\<close> in its body.\<close>

fun confirm_loop :: "(int \<Rightarrow> ('p, int) op) \<Rightarrow> ('p \<Rightarrow> 'p \<times> py_float) \<Rightarrow> py_float \<Rightarrow> aero_fan_power \<Rightarrow>
    nat \<Rightarrow> aero_fan_power \<Rightarrow> 'p \<Rightarrow> ('p \<times> (aero_fan_power \<times> bool) result) option" where
  "confirm_loop rd clk deadline baseline 0 observed p = None"
| "confirm_loop rd clk deadline baseline (Suc fuel) observed p =
     (let (p1, now) = clk p
      in if \<not> flt now deadline then Some (p1, Inr (observed, False))
         else case read_fan_power rd p1 of
             (p2, Inl e) \<Rightarrow> Some (p2, Inl e)
           | (p2, Inr pw) \<Rightarrow>
               if pw \<noteq> baseline then Some (p2, Inr (pw, True))
               else confirm_loop rd clk deadline baseline fuel pw p2)"

text \<open>The wait for the physical reaction and the restoration after it, from the deadline on.\<close>

definition confirm_change :: "(int \<Rightarrow> ('p, int) op) \<Rightarrow> (int \<Rightarrow> int \<Rightarrow> ('p, unit) op) \<Rightarrow> ('p \<Rightarrow> 'p \<times> py_float) \<Rightarrow>
    aero_executor_config \<Rightarrow> aero_control_command \<Rightarrow> nat \<Rightarrow> int \<Rightarrow> aero_fan_power \<Rightarrow> int \<Rightarrow> 'p \<Rightarrow>
    ('p \<times> aero_control_result result) option" where
  "confirm_change rd wr clk config cmd fuel previous baseline readback p =
     (let (p4, start) = clk p; deadline = fadd start (ec_execution_timeout_seconds config)
      in case confirm_loop rd clk deadline baseline fuel baseline p4 of
          None \<Rightarrow> None
        | Some (p5, Inl e) \<Rightarrow> Some (p5, Inl e)
        | Some (p5, Inr (observed, True)) \<Rightarrow> Some (p5, Inr \<lparr>ar_command = cmd,
            ar_state = AERO_SUCCEEDED, ar_previous_value = Some previous,
            ar_readback_value = Some readback, ar_baseline_power = Some baseline,
            ar_observed_power = Some observed, ar_recovered = False,
            ar_physical_confirmation = True, ar_error = None\<rparr>)
        | Some (p5, Inr (observed, False)) \<Rightarrow>
            (case restore_previous rd wr cmd previous p5 of
                (p6, Inl e) \<Rightarrow> Some (p6, Inl e)
              | (p6, Inr recovered) \<Rightarrow> Some (p6, Inr \<lparr>ar_command = cmd, ar_state = AERO_FAILED,
                  ar_previous_value = Some previous, ar_readback_value = Some readback,
                  ar_baseline_power = Some baseline, ar_observed_power = Some observed,
                  ar_recovered = recovered, ar_physical_confirmation = False,
                  ar_error = Some (''AERO physical response was not confirmed within ''
                    @ fmt_fixed1 (ec_execution_timeout_seconds config) @ '' s'')\<rparr>)))"

text \<open>The write with its readback, the \<open>except\<close> clause, and what follows.\<close>

definition commit_change :: "(int \<Rightarrow> ('p, int) op) \<Rightarrow> (int \<Rightarrow> int \<Rightarrow> ('p, unit) op) \<Rightarrow> ('p \<Rightarrow> 'p \<times> py_float) \<Rightarrow>
    aero_executor_config \<Rightarrow> aero_control_command \<Rightarrow> nat \<Rightarrow> int \<Rightarrow> aero_fan_power \<Rightarrow> 'p \<Rightarrow>
    ('p \<times> aero_control_result result) option" where
  "commit_change rd wr clk config cmd fuel previous baseline p =
    (case write_and_read_back rd wr cmd p of
       (p3, Inl e) \<Rightarrow>
         if modbus_or_value_error e
         then (case restore_previous rd wr cmd previous p3 of
             (p4, Inl e') \<Rightarrow> Some (p4, Inl e')
           | (p4, Inr recovered) \<Rightarrow> Some (p4, Inr \<lparr>ar_command = cmd, ar_state = AERO_FAILED,
               ar_previous_value = Some previous, ar_readback_value = None,
               ar_baseline_power = Some baseline, ar_observed_power = None,
               ar_recovered = recovered, ar_physical_confirmation = False,
               ar_error = Some (exc_str e)\<rparr>))
         else Some (p3, Inl e)
     | (p3, Inr readback) \<Rightarrow> confirm_change rd wr clk config cmd fuel previous baseline readback p3)"

definition execute_change :: "(int \<Rightarrow> ('p, int) op) \<Rightarrow> (int \<Rightarrow> int \<Rightarrow> ('p, unit) op) \<Rightarrow> ('p \<Rightarrow> 'p \<times> py_float) \<Rightarrow>
    aero_executor_config \<Rightarrow> aero_control_command \<Rightarrow> nat \<Rightarrow> 'p \<Rightarrow> ('p \<times> aero_control_result result) option" where
  "execute_change rd wr clk config cmd fuel p =
    (case rd (ac_register_address cmd) p of (p1, Inl e) \<Rightarrow> Some (p1, Inl e) | (p1, Inr previous) \<Rightarrow>
     let allowed = allowed_previous_values cmd in
     if previous \<notin> set allowed
     then Some (p1, Inr \<lparr>ar_command = cmd, ar_state = AERO_FAILED, ar_previous_value = Some previous,
            ar_readback_value = None, ar_baseline_power = None, ar_observed_power = None,
            ar_recovered = False, ar_physical_confirmation = False,
            ar_error = Some (''AERO control refused: current register value '' @ show_int previous
              @ '' is outside expected range '' @ show_tuple allowed)\<rparr>)
     else (case read_fan_power rd p1 of (p2, Inl e) \<Rightarrow> Some (p2, Inl e) | (p2, Inr baseline) \<Rightarrow>
     if previous = ac_value cmd
     then Some (p2, Inr \<lparr>ar_command = cmd, ar_state = AERO_SUCCEEDED, ar_previous_value = Some previous,
            ar_readback_value = Some previous, ar_baseline_power = Some baseline,
            ar_observed_power = Some baseline, ar_recovered = True,
            ar_physical_confirmation = True, ar_error = None\<rparr>)
     else commit_change rd wr clk config cmd fuel previous baseline p2))"

definition execute_control_change :: "aero_executor_config \<Rightarrow> aero_control_command \<Rightarrow> nat \<Rightarrow> serial_port \<Rightarrow>
    (serial_port \<times> aero_control_result result) option" where
  "execute_control_change config cmd fuel p =
     execute_change (read_one config) (write_one config) port_monotonic config cmd fuel p"

subsection \<open>What the executor writes\<close>

text \<open>
  The interface to the register bus: a ghost log of the register writes sent. Reading and
  looking at the clock never write; a write sends exactly its own register and value, whatever
  comes of it, unless the request itself is invalid.
\<close>

locale register_bus =
  fixes rd :: "int \<Rightarrow> ('p, int) op" and wr :: "int \<Rightarrow> int \<Rightarrow> ('p, unit) op"
    and clk :: "'p \<Rightarrow> 'p \<times> py_float"
    and log :: "'p \<Rightarrow> (int \<times> int) list" and sendable :: "int \<Rightarrow> int \<Rightarrow> bool"
  assumes rd_log: "rd a p = (p', ri) \<Longrightarrow> log p' = log p"
    and clk_log: "clk p = (p', t) \<Longrightarrow> log p' = log p"
    and wr_log: "sendable a v \<Longrightarrow> wr a v p = (p', r) \<Longrightarrow> log p' = log p @ [(a, v)]"
begin

lemma fan_power_log: "read_fan_power rd p = (p', r) \<Longrightarrow> log p' = log p"
  by (auto simp: read_fan_power_def op_bind_def dest!: rd_log split: prod.splits sum.splits)

lemma confirm_log: "confirm_loop rd clk d b n ob p = Some (p', r) \<Longrightarrow> log p' = log p"
proof (induction n arbitrary: ob p)
  case (Suc n)
  then show ?case
    by (force simp: Let_def dest!: clk_log fan_power_log split: prod.splits sum.splits if_splits)
qed simp

lemma restore_log:
  assumes "restore_previous rd wr cmd v p = (p', r)" "sendable (ac_register_address cmd) v"
  shows "log p' = log p @ [(ac_register_address cmd, v)]"
  using assms(1)
  by (auto simp: restore_previous_def op_bind_def op_catch_def dest!: wr_log[OF assms(2)] rd_log
      split: prod.splits sum.splits if_splits)

lemma write_back_log:
  assumes "write_and_read_back rd wr cmd p = (p', r)" "sendable (ac_register_address cmd) (ac_value cmd)"
  shows "log p' = log p @ [(ac_register_address cmd, ac_value cmd)]"
  using assms(1)
  by (auto simp: write_and_read_back_def op_bind_def dest!: wr_log[OF assms(2)] rd_log
      split: prod.splits sum.splits if_splits)

text \<open>Left by its own \<open>return\<close>, the loop has observed a power other than the baseline.\<close>

lemma confirm_loop_observed:
  "confirm_loop rd clk d b n ob p = Some (p', Inr (ob', True)) \<Longrightarrow> ob' \<noteq> b"
proof (induction n arbitrary: ob p)
  case (Suc n)
  then show ?case by (force simp: Let_def split: prod.splits sum.splits if_splits)
qed simp

text \<open>The three ways a change can end, with the writes it has sent by then: nothing written, the
  new value written, or the new value written and then the previous one.\<close>

lemma confirm_change_log:
  assumes "confirm_change rd wr clk config cmd fuel previous baseline readback p = Some (p', r)"
    and "sendable (ac_register_address cmd) previous"
  shows "log p' = log p \<and> (\<forall>res. r = Inr res \<longrightarrow> ar_state res = AERO_SUCCEEDED
            \<and> ar_readback_value res = Some readback \<and> ar_observed_power res \<noteq> ar_baseline_power res)
    \<or> log p' = log p @ [(ac_register_address cmd, previous)]
      \<and> (\<forall>res. r = Inr res \<longrightarrow> ar_state res = AERO_FAILED \<and> ar_previous_value res = Some previous)"
proof -
  obtain p4 start where s4: "clk p = (p4, start)" by force
  note l4 = clk_log[OF s4]
  obtain p5 r5 where s5: "confirm_loop rd clk (fadd start (ec_execution_timeout_seconds config))
      baseline fuel baseline p4 = Some (p5, r5)"
    using assms(1) s4 by (auto simp: confirm_change_def split: option.splits)
  note l5 = confirm_log[OF s5]
  show ?thesis
  proof (cases r5)
    case (Inl e)
    with assms(1) s4 s5 l4 l5 show ?thesis by (auto simp: confirm_change_def)
  next
    case (Inr ob)
    then obtain observed returned where ob: "r5 = Inr (observed, returned)" by (cases ob) auto
    show ?thesis
    proof (cases returned)
      case True
      with assms(1) s4 s5 l4 l5 ob confirm_loop_observed show ?thesis
        by (fastforce simp: confirm_change_def)
    next
      case False
      obtain p6 r6 where s6: "restore_previous rd wr cmd previous p5 = (p6, r6)" by force
      have l6: "log p6 = log p @ [(ac_register_address cmd, previous)]"
        using restore_log[OF s6 assms(2)] l4 l5 by simp
      show ?thesis
        using assms(1) s4 s5 ob False s6 l6
        by (cases r6) (auto simp: confirm_change_def)
    qed
  qed
qed

lemma commit_change_log:
  assumes "commit_change rd wr clk config cmd fuel previous baseline p = Some (p', r)"
    and "sendable (ac_register_address cmd) previous"
    and "sendable (ac_register_address cmd) (ac_value cmd)"
  shows "log p' = log p @ [(ac_register_address cmd, ac_value cmd)]
      \<and> (\<forall>res. r = Inr res \<longrightarrow> ar_state res = AERO_SUCCEEDED
            \<and> ar_readback_value res = Some (ac_value cmd)
            \<and> ar_observed_power res \<noteq> ar_baseline_power res)
    \<or> log p' = log p @ [(ac_register_address cmd, ac_value cmd), (ac_register_address cmd, previous)]
      \<and> (\<forall>res. r = Inr res \<longrightarrow> ar_state res = AERO_FAILED \<and> ar_previous_value res = Some previous)"
proof -
  obtain p3 r3 where s3: "write_and_read_back rd wr cmd p = (p3, r3)" by force
  note l3 = write_back_log[OF s3 assms(3)]
  show ?thesis
  proof (cases r3)
    case (Inl e)
    obtain p4 r4 where s4: "restore_previous rd wr cmd previous p3 = (p4, r4)" by force
    show ?thesis
      using assms(1) s3 l3 Inl s4 restore_log[OF s4 assms(2)]
      by (cases r4) (auto simp: commit_change_def split: if_splits)
  next
    case (Inr readback)
    have "readback = ac_value cmd"
      using s3 Inr by (auto simp: write_and_read_back_def op_bind_def op_return_def op_raise_def
          split: prod.splits sum.splits if_splits)
    then have "confirm_change rd wr clk config cmd fuel previous baseline (ac_value cmd) p3 = Some (p', r)"
      using assms(1) s3 Inr by (simp add: commit_change_def)
    from confirm_change_log[OF this assms(2)] l3 show ?thesis by auto
  qed
qed

lemma execute_log:
  assumes "execute_change rd wr clk config cmd fuel p = Some (p', r)"
    and "\<forall>v \<in> set (ac_value cmd # allowed_previous_values cmd). sendable (ac_register_address cmd) v"
  shows "log p' = log p
      \<and> (\<forall>res. r = Inr res \<longrightarrow> ar_state res = AERO_FAILED \<and> ar_baseline_power res = None
          \<or> ar_state res = AERO_SUCCEEDED \<and> ar_previous_value res = Some (ac_value cmd)
            \<and> ar_readback_value res = Some (ac_value cmd))
    \<or> log p' = log p @ [(ac_register_address cmd, ac_value cmd)]
      \<and> (\<forall>res. r = Inr res \<longrightarrow> ar_state res = AERO_SUCCEEDED
            \<and> ar_readback_value res = Some (ac_value cmd)
            \<and> ar_observed_power res \<noteq> ar_baseline_power res)
    \<or> (\<exists>previous \<in> set (allowed_previous_values cmd).
        log p' = log p @ [(ac_register_address cmd, ac_value cmd), (ac_register_address cmd, previous)]
        \<and> previous \<noteq> ac_value cmd
        \<and> (\<forall>res. r = Inr res \<longrightarrow> ar_state res = AERO_FAILED \<and> ar_previous_value res = Some previous))"
    (is "?unwritten \<or> ?written \<or> ?restored")
proof -
  obtain p1 r1 where s1: "rd (ac_register_address cmd) p = (p1, r1)" by force
  note l1 = rd_log[OF s1]
  show ?thesis
  proof (cases r1)
    case (Inl e)
    with assms(1) s1 l1 show ?thesis by (auto simp: execute_change_def)
  next
    case (Inr previous)
    obtain p2 r2 where s2: "read_fan_power rd p1 = (p2, r2)" by force
    note l2 = fan_power_log[OF s2]
    show ?thesis
    proof (cases "previous \<in> set (allowed_previous_values cmd) \<and> is_ok r2 \<and> previous \<noteq> ac_value cmd")
      case False
      with assms(1) s1 s2 l1 l2 Inr have ?unwritten
        by (cases r2) (auto simp: execute_change_def Let_def split: if_splits)
      then show ?thesis ..
    next
      case True
      then obtain baseline where ok: "r2 = Inr baseline" "previous \<in> set (allowed_previous_values cmd)"
        "previous \<noteq> ac_value cmd"
        by (auto simp: is_ok_iff)
      have "commit_change rd wr clk config cmd fuel previous baseline p2 = Some (p', r)"
        using assms(1) s1 s2 Inr ok by (simp add: execute_change_def Let_def)
      from commit_change_log[OF this] assms(2) ok l1 l2 show ?thesis by fastforce
    qed
  qed
qed

end

subsection \<open>The Modbus port as a register bus\<close>

text \<open>Operations of the port that send nothing and leave the clock source alone.\<close>

definition port_passive :: "(serial_port, 'a) op \<Rightarrow> bool" where
  "port_passive m = (\<forall>p. sp_written (fst (m p)) = sp_written p \<and> sp_clock (fst (m p)) = sp_clock p
     \<and> sp_ticks p \<le> sp_ticks (fst (m p)))"

lemma passive_basic:
  "port_passive (op_return x)" "port_passive (op_raise e)" "port_passive (op_lift r)"
  "port_passive reset_input_buffer" "port_passive (port_read n)"
  by (auto simp: port_passive_def reset_input_buffer_def port_read_def Let_def
      split: list.splits sum.splits)

lemma passive_bind: "port_passive m \<Longrightarrow> (\<And>x. port_passive (f x)) \<Longrightarrow> port_passive (op_bind m f)"
  unfolding port_passive_def op_bind_def
  by (auto split: prod.splits sum.splits) (metis fst_conv order_trans)+

lemma passive_if: "port_passive m \<Longrightarrow> port_passive n \<Longrightarrow> port_passive (if b then m else n)"
  by simp

lemma passive_let: "(\<And>x. port_passive (f x)) \<Longrightarrow> port_passive (Let x f)"
  by simp

lemma passive_read_exact_loop: "port_passive (read_exact_loop n d acc)"
proof -
  have "sp_written (fst (read_exact_loop n d acc p)) = sp_written p
      \<and> sp_clock (fst (read_exact_loop n d acc p)) = sp_clock p
      \<and> sp_ticks p \<le> sp_ticks (fst (read_exact_loop n d acc p))" for p
  proof (induction n d acc p rule: read_exact_loop.induct)
    case (1 n d acc p)
    obtain p1 now where m: "(p1, now) = port_monotonic p" by (metis surj_pair)
    obtain p2 r2 where s2: "(p2, r2) = port_read (n - length acc) p1" by (metis surj_pair)
    have p1: "sp_written p1 = sp_written p" "sp_clock p1 = sp_clock p" "sp_ticks p \<le> sp_ticks p1"
      using m by (simp_all add: port_monotonic_def)
    have p2: "sp_written p2 = sp_written p" "sp_clock p2 = sp_clock p" "sp_ticks p \<le> sp_ticks p2"
      using passive_basic(5)[of "n - length acc"] s2 p1 unfolding port_passive_def
      by (metis fst_conv order_trans)+
    show ?case
    proof (cases "n \<le> length acc \<or> port_silent p \<or> \<not> flt now d")
      case True
      then show ?thesis
        using m p1 by (simp add: read_exact_loop.simps[of n d acc p] Let_def split: prod.splits)
          (metis prod.inject)
    next
      case False
      then have go: "\<not> (n \<le> length acc \<or> port_silent p)" "\<not> \<not> flt now d" by auto
      show ?thesis
      proof (cases r2)
        case (Inl e)
        then have "read_exact_loop n d acc p = (p2, Inl e)"
          using go m s2 by (simp add: read_exact_loop.simps[of n d acc p] m[symmetric] s2[symmetric])
        then show ?thesis using p2 by simp
      next
        case (Inr chunk)
        then have "read_exact_loop n d acc p = read_exact_loop n d (acc @ chunk) p2"
          using go m s2 by (simp add: read_exact_loop.simps[of n d acc p] m[symmetric] s2[symmetric])
        with 1[OF go(1) refl m go(2) s2 Inr] m p2 show ?thesis by simp
      qed
    qed
  qed
  then show ?thesis by (simp add: port_passive_def)
qed

lemma passive_read_exact: "port_passive (read_exact n t)"
proof -
  have "sp_written (fst (read_exact n t p)) = sp_written p \<and> sp_clock (fst (read_exact n t p)) = sp_clock p
      \<and> sp_ticks p < sp_ticks (fst (read_exact n t p))" for p
    using passive_read_exact_loop[unfolded port_passive_def, rule_format,
        of n "fadd (sp_clock p (sp_ticks p)) t" "[]" "p\<lparr>sp_ticks := Suc (sp_ticks p)\<rparr>"]
    by (simp add: read_exact_def port_monotonic_def Let_def)
  then show ?thesis by (simp add: port_passive_def less_imp_le)
qed

lemmas passive_intros = passive_bind passive_if passive_let passive_basic passive_read_exact

lemma passive_receive: "port_passive (receive_registers fc a q t)" "port_passive (receive_echo a r v t)"
  unfolding receive_registers_def receive_echo_def by (intro passive_intros)+

text \<open>A request sends exactly its own frame, whatever comes of it.\<close>

lemma passive_after_send:
  assumes "port_passive m"
  shows "sp_written (fst (op_bind (send_request req) (\<lambda>_. m) p)) = sp_written p @ [req]
    \<and> sp_clock (fst (op_bind (send_request req) (\<lambda>_. m) p)) = sp_clock p
    \<and> sp_ticks p \<le> sp_ticks (fst (op_bind (send_request req) (\<lambda>_. m) p))"
proof -
  define p1 where "p1 = p\<lparr>sp_pending := [], sp_written := sp_written p @ [req]\<rparr>"
  have "fst (send_request req p) = p1"
    by (auto simp: send_request_def op_bind_def reset_input_buffer_def port_write_def p1_def
        split: sum.splits)
  then obtain r where r: "send_request req p = (p1, r)" by (metis prod.collapse)
  have p1: "sp_written p1 = sp_written p @ [req]" "sp_clock p1 = sp_clock p" "sp_ticks p1 = sp_ticks p"
    by (simp_all add: p1_def)
  have "sp_written (fst (m p1)) = sp_written p1" "sp_clock (fst (m p1)) = sp_clock p1"
    "sp_ticks p1 \<le> sp_ticks (fst (m p1))"
    using assms by (simp_all add: port_passive_def)
  with p1 r show ?thesis by (cases r) (simp_all add: op_bind_def)
qed

text \<open>The register writes among the frames sent: function code 6.\<close>

definition is_write_frame :: "int list \<Rightarrow> bool" where
  "is_write_frame bs = (length bs = 8 \<and> bs ! 1 = FUNCTION_WRITE_SINGLE_REGISTER)"

definition frame_write :: "int list \<Rightarrow> int \<times> int" where
  "frame_write bs = (256 * bs ! 2 + bs ! 3, 256 * bs ! 4 + bs ! 5)"

definition register_writes :: "serial_port \<Rightarrow> (int \<times> int) list" where
  "register_writes p = map frame_write (filter is_write_frame (sp_written p))"

lemma read_frame_no_write: "\<not> is_write_frame (read_request FUNCTION_READ_HOLDING_REGISTERS a r q)"
  by (simp add: is_write_frame_def read_request_def append_crc_def function_codes Let_def)

lemma write_frame:
  "is_u16 r \<Longrightarrow> is_u16 v \<Longrightarrow> is_write_frame (write_request a r v) \<and> frame_write (write_request a r v) = (r, v)"
  by (simp add: is_write_frame_def frame_write_def write_request_def append_crc_def function_codes
      Let_def pack_u16_def nth_append)

text \<open>What any operation of the executor does to the port's clock.\<close>

definition clock_forward :: "serial_port \<Rightarrow> serial_port \<Rightarrow> bool" where
  "clock_forward p p' = (sp_clock p' = sp_clock p \<and> sp_ticks p \<le> sp_ticks p')"

lemma read_one_port:
  assumes "read_one config a p = (p', r)"
  shows "register_writes p' = register_writes p \<and> clock_forward p p'"
proof -
  let ?m = "read_holding_registers (ec_slave_address config) a 1 (ec_timeout_seconds config)"
  have "register_writes (fst (?m p)) = register_writes p \<and> clock_forward p (fst (?m p))"
  proof (cases "valid_read FUNCTION_READ_HOLDING_REGISTERS (ec_slave_address config) a 1 (ec_timeout_seconds config)")
    case True
    then have eq: "?m = op_bind (send_request (read_request FUNCTION_READ_HOLDING_REGISTERS (ec_slave_address config) a 1))
        (\<lambda>_. receive_registers FUNCTION_READ_HOLDING_REGISTERS (ec_slave_address config) (nat 1) (ec_timeout_seconds config))"
      by (simp add: read_holding_registers_def read_registers_valid)
    show ?thesis
      unfolding eq register_writes_def clock_forward_def
      using passive_after_send[OF passive_receive(1)]
      by (simp add: read_frame_no_write)
  next
    case False
    from read_registers_invalid[OF False, of p] show ?thesis
      by (auto simp: read_holding_registers_def clock_forward_def)
  qed
  moreover have "p' = fst (?m p)"
    using assms by (auto simp: read_one_def op_bind_def split: prod.splits sum.splits)
  ultimately show ?thesis by simp
qed

definition executor_config_ok :: "aero_executor_config \<Rightarrow> bool" where
  "executor_config_ok config = (1 \<le> ec_slave_address config \<and> ec_slave_address config \<le> 247
     \<and> \<not> fle (ec_timeout_seconds config) (Fin 0))"

lemma write_one_port:
  assumes "write_one config a v p = (p', r)"
  shows "clock_forward p p'"
    and "executor_config_ok config \<and> is_u16 a \<and> is_u16 v \<Longrightarrow> register_writes p' = register_writes p @ [(a, v)]"
proof -
  let ?m = "op_bind (send_request (write_request (ec_slave_address config) a v))
      (\<lambda>_. receive_echo (ec_slave_address config) a v (ec_timeout_seconds config))"
  have eq: "executor_config_ok config \<and> is_u16 a \<and> is_u16 v \<Longrightarrow> write_one config a v p = ?m p"
    by (auto simp: write_one_def write_single_register_def validate_common_request_def
        executor_config_ok_def is_u16_def op_bind_def)
  have eq': "write_one config a v p = ?m p \<or> (\<exists>e. write_one config a v p = (p, Inl e))"
    by (auto simp: write_one_def write_single_register_def op_bind_def
        split: sum.splits)
  note after = passive_after_send[OF passive_receive(2), where p = p]
  obtain q s where "?m p = (q, s)" by force
  with eq' assms have "p' = fst (?m p) \<or> p' = p" by auto
  then show "clock_forward p p'"
    using after by (auto simp: clock_forward_def)
  assume ok: "executor_config_ok config \<and> is_u16 a \<and> is_u16 v"
  have "p' = fst (?m p)" using eq[OF ok] assms by (metis fst_conv)
  then show "register_writes p' = register_writes p @ [(a, v)]"
    using after ok by (simp add: register_writes_def write_frame)
qed

lemma monotonic_port:
  "port_monotonic p = (p', t) \<Longrightarrow> register_writes p' = register_writes p \<and> sp_clock p' = sp_clock p
     \<and> sp_ticks p' = Suc (sp_ticks p) \<and> t = sp_clock p (sp_ticks p)"
  by (auto simp: port_monotonic_def register_writes_def)

interpretation aero_port: register_bus "read_one config" "write_one config" port_monotonic
    register_writes "\<lambda>a v. executor_config_ok config \<and> is_u16 a \<and> is_u16 v" for config
  by unfold_locales (auto dest: read_one_port write_one_port monotonic_port)

subsection \<open>Enough fuel\<close>

lemma fan_power_forward: "read_fan_power (read_one config) p = (p', r) \<Longrightarrow> clock_forward p p'"
  by (auto simp: read_fan_power_def op_bind_def clock_forward_def dest!: read_one_port
      split: prod.splits sum.splits)

lemma confirm_loop_more_fuel:
  "confirm_loop rd clk d b m ob p = Some x \<Longrightarrow> m \<le> n \<Longrightarrow> confirm_loop rd clk d b n ob p = Some x"
proof (induction m arbitrary: n ob p)
  case (Suc m)
  then obtain n' where "n = Suc n'" "m \<le> n'" by (cases n) auto
  with Suc show ?case by (auto simp: Let_def split: prod.splits sum.splits if_splits)
qed simp

lemma confirm_loop_returns:
  assumes "\<forall>n \<ge> N. \<not> flt (sp_clock p n) d" "N - sp_ticks p < fuel"
  shows "confirm_loop (read_one config) port_monotonic d b fuel ob p \<noteq> None"
  using assms
proof (induction fuel arbitrary: ob p)
  case (Suc fuel)
  obtain p1 now where m: "port_monotonic p = (p1, now)" by force
  note m' = monotonic_port[OF m]
  obtain p2 r2 where r: "read_fan_power (read_one config) p1 = (p2, r2)" by force
  from fan_power_forward[OF r] m' have p2: "sp_clock p2 = sp_clock p" "Suc (sp_ticks p) \<le> sp_ticks p2"
    by (auto simp: clock_forward_def)
  show ?case
  proof (cases "flt now d")
    case True
    with Suc.prems(1) m' have "sp_ticks p < N" by (meson not_less)
    with Suc.prems p2 have "N - sp_ticks p2 < fuel" by linarith
    with Suc.IH[of p2] Suc.prems(1) p2
    have "confirm_loop (read_one config) port_monotonic d b fuel ob' p2 \<noteq> None" for ob' by simp
    then show ?thesis by (simp add: m r Let_def split: sum.splits)
  qed (simp add: m Let_def)
qed simp

subsection \<open>A recuperator that answers\<close>

text \<open>A port on which each request is answered at once by the next of the given frames.\<close>

definition port_answers :: "int list list \<Rightarrow> serial_port \<Rightarrow> bool" where
  "port_answers frames p = (sp_arrivals p = map Inr frames \<and> sp_clock p = (\<lambda>_. Fin 0)
     \<and> sp_accept p = (\<lambda>_. Inr 8))"

lemma deadline_one: "fadd (Fin 0) (Fin 1) = Fin 1" "flt (Fin 0) (Fin 1)"
  by code_simp+

lemma read_exact_arrival:
  assumes "sp_pending p = []" "sp_arrivals p = Inr bs # rest" "sp_clock p = (\<lambda>_. Fin 0)"
    "n \<le> length bs" "0 < n"
  shows "read_exact n (Fin 1) p = (p\<lparr>sp_pending := drop n bs, sp_arrivals := rest,
      sp_ticks := sp_ticks p + 2\<rparr>, Inr (take n bs))"
  using assms
  by (simp add: read_exact_def port_monotonic_def read_exact_loop.simps port_silent_def port_read_def
      Let_def deadline_one del: fadd.simps flt.simps)

lemma read_exact_pending:
  assumes "n \<le> length (sp_pending p)" "sp_clock p = (\<lambda>_. Fin 0)" "0 < n"
  shows "read_exact n (Fin 1) p = (p\<lparr>sp_pending := drop n (sp_pending p),
      sp_ticks := sp_ticks p + 2\<rparr>, Inr (take n (sp_pending p)))"
proof -
  have "sp_pending p \<noteq> []" using assms by auto
  with assms show ?thesis
    by (simp add: read_exact_def port_monotonic_def read_exact_loop.simps port_silent_def port_read_def
        Let_def deadline_one del: fadd.simps flt.simps)
qed

lemma read_one_answer:
  assumes "port_answers (read_reply 3 s [v] # frames) p" "1 \<le> s" "s \<le> 247" "is_u16 v" "is_u16 a"
    "ec_slave_address config = s" "ec_timeout_seconds config = Fin 1"
  shows "\<exists>p'. read_one config a p = (p', Inr v) \<and> port_answers frames p'"
proof -
  let ?req = "read_request FUNCTION_READ_HOLDING_REGISTERS s a 1"
  define p1 where "p1 = p\<lparr>sp_pending := [], sp_written := sp_written p @ [?req]\<rparr>"
  obtain lo hi where crc: "append_crc [s, 3, 2, v div 256, v mod 256] = [s, 3, 2, v div 256, v mod 256, lo, hi]"
    by (simp add: append_crc_def Let_def)
  have reply: "read_reply 3 s [v] = [s, 3, 2, v div 256, v mod 256, lo, hi]"
    using crc by (simp add: read_reply_def pack_u16_def)
  have send: "send_request ?req p = (p1, Inr ())"
    using assms(1) by (simp add: send_request_def op_bind_def reset_input_buffer_def port_write_def
        port_answers_def p1_def)
  define p2 where "p2 = p1\<lparr>sp_pending := [v div 256, v mod 256, lo, hi], sp_arrivals := map Inr frames,
      sp_ticks := sp_ticks p1 + 2\<rparr>"
  have r1: "read_exact 3 (Fin 1) p1 = (p2, Inr [s, 3, 2])"
    using assms(1) read_exact_arrival[of p1 "read_reply 3 s [v]" "map Inr frames" 3]
    by (simp add: p1_def p2_def port_answers_def reply)
  have r2: "read_exact 4 (Fin 1) p2 = (p2\<lparr>sp_pending := [], sp_ticks := sp_ticks p2 + 2\<rparr>,
      Inr [v div 256, v mod 256, lo, hi])"
    using read_exact_pending[of 4 p2] assms(1) by (simp add: p2_def p1_def port_answers_def)
  have v: "verify_crc [s, 3, 2, v div 256, v mod 256, lo, hi] = Inr ()"
    using verify_append_crc[of "[s, 3, 2, v div 256, v mod 256]"] crc assms(2,3) pack_bytes[OF assms(4)]
    by (simp add: is_byte_def pack_u16_def)
  have "valid_read FUNCTION_READ_HOLDING_REGISTERS s a 1 (Fin 1)"
    using assms by (auto simp: valid_read_def is_u16_def function_codes)
  then have "read_one config a p = (p2\<lparr>sp_pending := [], sp_ticks := sp_ticks p2 + 2\<rparr>, Inr v)"
    using send r1 r2 v assms(6,7)
    by (simp add: read_one_def read_holding_registers_def read_registers_valid op_bind_def
        receive_registers_def function_codes Let_def)
  then show ?thesis using assms(1) by (auto simp: port_answers_def p2_def p1_def)
qed

lemma write_one_answer:
  assumes "port_answers (write_request s a v # frames) p" "1 \<le> s" "s \<le> 247" "is_u16 v" "is_u16 a"
    "ec_slave_address config = s" "ec_timeout_seconds config = Fin 1"
  shows "\<exists>p'. write_one config a v p = (p', Inr ()) \<and> port_answers frames p'"
proof -
  let ?req = "write_request s a v"
  define p1 where "p1 = p\<lparr>sp_pending := [], sp_written := sp_written p @ [?req]\<rparr>"
  let ?d = "[s, 6, a div 256, a mod 256, v div 256, v mod 256]"
  obtain lo hi where crc: "append_crc ?d = ?d @ [lo, hi]" by (simp add: append_crc_def Let_def)
  have req: "?req = ?d @ [lo, hi]"
    using crc by (simp add: write_request_def pack_u16_def function_codes)
  have send: "send_request ?req p = (p1, Inr ())"
    using assms(1) by (simp add: send_request_def op_bind_def reset_input_buffer_def port_write_def
        port_answers_def p1_def)
  define p2 where "p2 = p1\<lparr>sp_pending := drop 2 ?req, sp_arrivals := map Inr frames,
      sp_ticks := sp_ticks p1 + 2\<rparr>"
  have r1: "read_exact 2 (Fin 1) p1 = (p2, Inr [s, 6])"
    using assms(1) read_exact_arrival[of p1 ?req "map Inr frames" 2]
    by (simp add: p1_def p2_def port_answers_def req)
  have r2: "read_exact 6 (Fin 1) p2 = (p2\<lparr>sp_pending := [], sp_ticks := sp_ticks p2 + 2\<rparr>, Inr (drop 2 ?req))"
    using read_exact_pending[of 6 p2] assms(1) by (simp add: p2_def p1_def port_answers_def req)
  have v: "verify_crc ?req = Inr ()"
    using verify_append_crc[of ?d] crc req assms(2,3) pack_bytes[OF assms(4)] pack_bytes[OF assms(5)]
    by (simp add: is_byte_def pack_u16_def)
  have "validate_common_request s a (Fin 1) = Inr ()" "0 \<le> v" "v \<le> 0xFFFF"
    using assms by (auto simp: validate_common_request_def is_u16_def)
  then have "write_one config a v p = (p2\<lparr>sp_pending := [], sp_ticks := sp_ticks p2 + 2\<rparr>, Inr ())"
    using send r1 r2 v assms(6,7) req
    by (simp add: write_one_def write_single_register_def op_bind_def
        receive_echo_def function_codes Let_def)
  then show ?thesis using assms(1) by (auto simp: port_answers_def p2_def p1_def)
qed

definition demo_aero_config :: aero_executor_config where
  "demo_aero_config = new_aero_executor_config 44 (Fin 1)"

definition demo_aero_command :: aero_control_command where
  "demo_aero_command = \<lparr>ac_kind = AERO_SPEED, ac_register_address = 1080, ac_value = 2\<rparr>"

definition demo_answers :: "int list list" where
  "demo_answers = [read_reply 3 44 [1], read_reply 3 44 [30], read_reply 3 44 [30],
     write_request 44 1080 2, read_reply 3 44 [2], read_reply 3 44 [50], read_reply 3 44 [50]]"

text \<open>The reads of one pass over the two fan registers.\<close>

lemma fan_power_answer:
  assumes "port_answers (read_reply 3 s [f1] # read_reply 3 s [f2] # frames) p" "1 \<le> s" "s \<le> 247"
    "0 \<le> f1" "f1 \<le> 100" "0 \<le> f2" "f2 \<le> 100"
    "ec_slave_address config = s" "ec_timeout_seconds config = Fin 1"
  shows "\<exists>p'. read_fan_power (read_one config) p
      = (p', Inr \<lparr>fp_fan_1_percent = f1, fp_fan_2_percent = f2\<rparr>) \<and> port_answers frames p'"
proof -
  have u: "is_u16 f1" "is_u16 f2" "is_u16 FAN_1_REGISTER" "is_u16 FAN_2_REGISTER"
    using assms by (auto simp: is_u16_def FAN_1_REGISTER_def FAN_2_REGISTER_def)
  from read_one_answer[OF assms(1-3) u(1,3) assms(8,9)] obtain p1 where
    p1: "read_one config FAN_1_REGISTER p = (p1, Inr f1)" "port_answers (read_reply 3 s [f2] # frames) p1"
    by blast
  from read_one_answer[OF p1(2) assms(2,3) u(2,4) assms(8,9)] obtain p2 where
    "read_one config FAN_2_REGISTER p1 = (p2, Inr f2)" "port_answers frames p2" by blast
  with p1 assms show ?thesis
    by (auto simp: read_fan_power_def op_bind_def new_aero_fan_power_def)
qed

text \<open>Up to the wait: with a legal current value, two fan powers, the echo and the read-back, the
  command reaches \<open>confirm_change\<close>.\<close>

lemma control_change_wait:
  assumes "port_answers (read_reply 3 s [previous] # read_reply 3 s [f1] # read_reply 3 s [f2]
      # write_request s (ac_register_address cmd) (ac_value cmd) # read_reply 3 s [ac_value cmd] # frames) p"
    and "1 \<le> s" "s \<le> 247" "aero_command_ok cmd"
    and "previous \<in> set (allowed_previous_values cmd)" "previous \<noteq> ac_value cmd"
    and "0 \<le> f1" "f1 \<le> 100" "0 \<le> f2" "f2 \<le> 100"
    and config: "config = new_aero_executor_config s (Fin 1)"
  obtains p4 where "port_answers frames p4"
    "register_writes p4 = register_writes p @ [(ac_register_address cmd, ac_value cmd)]"
    "execute_control_change config cmd fuel p =
      confirm_change (read_one config) (write_one config) port_monotonic config cmd fuel previous
        \<lparr>fp_fan_1_percent = f1, fp_fan_2_percent = f2\<rparr> (ac_value cmd) p4"
proof -
  have conf: "ec_slave_address config = s" "ec_timeout_seconds config = Fin 1"
    by (simp_all add: config new_aero_executor_config_def)
  have ut: "is_u16 (ac_register_address cmd)" "is_u16 (ac_value cmd)"
    using aero_command_ok_u16[OF assms(4)] by simp_all
  have up: "is_u16 previous"
    using assms(5) by (auto simp: allowed_previous_values_def is_u16_def split: aero_control_kind.splits)
  from read_one_answer[OF assms(1-3) up ut(1) conf] obtain p1 where
    p1: "read_one config (ac_register_address cmd) p = (p1, Inr previous)"
      "port_answers (read_reply 3 s [f1] # read_reply 3 s [f2]
        # write_request s (ac_register_address cmd) (ac_value cmd) # read_reply 3 s [ac_value cmd]
        # frames) p1" by blast
  from fan_power_answer[OF p1(2) assms(2,3,7-10) conf] obtain p2 where
    p2: "read_fan_power (read_one config) p1 = (p2, Inr \<lparr>fp_fan_1_percent = f1, fp_fan_2_percent = f2\<rparr>)"
      "port_answers (write_request s (ac_register_address cmd) (ac_value cmd)
        # read_reply 3 s [ac_value cmd] # frames) p2" by blast
  from write_one_answer[OF p2(2) assms(2,3) ut(2,1) conf] obtain p3 where
    p3: "write_one config (ac_register_address cmd) (ac_value cmd) p2 = (p3, Inr ())"
      "port_answers (read_reply 3 s [ac_value cmd] # frames) p3"
    by blast
  from read_one_answer[OF p3(2) assms(2,3) ut(2,1) conf] obtain p4 where
    p4: "read_one config (ac_register_address cmd) p3 = (p4, Inr (ac_value cmd))"
      "port_answers frames p4" by blast
  have "write_and_read_back (read_one config) (write_one config) cmd p2 = (p4, Inr (ac_value cmd))"
    using p3 p4 by (simp add: write_and_read_back_def op_bind_def)
  moreover have "executor_config_ok config"
    using assms(2,3) conf by (simp add: executor_config_ok_def)
  then have "register_writes p4 = register_writes p @ [(ac_register_address cmd, ac_value cmd)]"
    using aero_port.rd_log[OF p1(1)] aero_port.fan_power_log[OF p2(1)]
      write_one_port(2)[OF p3(1)] ut aero_port.rd_log[OF p4(1)] by simp
  ultimately show thesis
    using p1(1) p2(1) assms(5,6) p4(2)
    by (intro that[of p4])
      (simp_all add: execute_control_change_def execute_change_def commit_change_def Let_def)
qed

lemma wait_open: "flt (Fin 0) (fadd (Fin 0) (Fin 60))"
  by code_simp

lemma control_change_success:
  assumes "port_answers (read_reply 3 s [previous] # read_reply 3 s [f1] # read_reply 3 s [f2]
      # write_request s (ac_register_address cmd) (ac_value cmd) # read_reply 3 s [ac_value cmd]
      # read_reply 3 s [g1] # read_reply 3 s [g2] # frames) p"
    and "1 \<le> s" "s \<le> 247" "aero_command_ok cmd"
    and "previous \<in> set (allowed_previous_values cmd)" "previous \<noteq> ac_value cmd"
    and "\<forall>f \<in> {f1, f2, g1, g2}. 0 \<le> f \<and> f \<le> 100" "f1 \<noteq> g1 \<or> f2 \<noteq> g2"
  shows "\<exists>p'. execute_control_change (new_aero_executor_config s (Fin 1)) cmd (Suc fuel) p
    = Some (p', Inr \<lparr>ar_command = cmd, ar_state = AERO_SUCCEEDED,
        ar_previous_value = Some previous, ar_readback_value = Some (ac_value cmd),
        ar_baseline_power = Some \<lparr>fp_fan_1_percent = f1, fp_fan_2_percent = f2\<rparr>,
        ar_observed_power = Some \<lparr>fp_fan_1_percent = g1, fp_fan_2_percent = g2\<rparr>,
        ar_recovered = False, ar_physical_confirmation = True, ar_error = None\<rparr>)"
proof -
  define config where "config = new_aero_executor_config s (Fin 1)"
  have f: "0 \<le> f1" "f1 \<le> 100" "0 \<le> f2" "f2 \<le> 100" "0 \<le> g1" "g1 \<le> 100" "0 \<le> g2" "g2 \<le> 100"
    using assms(7) by auto
  from control_change_wait[OF assms(1-6) f(1-4) config_def, of "Suc fuel"] obtain p4 where
    p4: "port_answers (read_reply 3 s [g1] # read_reply 3 s [g2] # frames) p4" and
    writes: "register_writes p4 = register_writes p @ [(ac_register_address cmd, ac_value cmd)]" and
    run: "execute_control_change config cmd (Suc fuel) p =
      confirm_change (read_one config) (write_one config) port_monotonic config cmd (Suc fuel) previous
        \<lparr>fp_fan_1_percent = f1, fp_fan_2_percent = f2\<rparr> (ac_value cmd) p4" by blast
  have conf: "ec_slave_address config = s" "ec_timeout_seconds config = Fin 1"
    "ec_execution_timeout_seconds config = Fin 60"
    by (simp_all add: config_def new_aero_executor_config_def AERO_EXECUTION_TIMEOUT_SECONDS_def)
  define p5 where "p5 = p4\<lparr>sp_ticks := sp_ticks p4 + 2\<rparr>"
  have p5: "port_answers (read_reply 3 s [g1] # read_reply 3 s [g2] # frames) p5"
    using p4 by (simp add: port_answers_def p5_def)
  from fan_power_answer[OF p5 assms(2,3) f(5-8) conf(1,2)] obtain p6 where
    p6: "read_fan_power (read_one config) p5 = (p6, Inr \<lparr>fp_fan_1_percent = g1, fp_fan_2_percent = g2\<rparr>)"
    by blast
  have clock: "sp_clock p4 = (\<lambda>_. Fin 0)" using p4 by (simp add: port_answers_def)
  show ?thesis
    using run clock wait_open conf(3) p6 assms(8)
    by (auto simp: confirm_change_def port_monotonic_def Let_def p5_def config_def
        simp del: fadd.simps flt.simps)
qed

text \<open>A communication error while waiting for the physical reaction ends the command with that
  error, and the new value stays in the register: nothing is restored. Here the fans report a
  power out of range, which is a \<open>ValueError\<close>.\<close>

lemma change_error_in_wait:
  assumes "port_answers (read_reply 3 s [previous] # read_reply 3 s [f1] # read_reply 3 s [f2]
      # write_request s (ac_register_address cmd) (ac_value cmd) # read_reply 3 s [ac_value cmd]
      # read_reply 3 s [g1] # read_reply 3 s [g2] # frames) p"
    and "1 \<le> s" "s \<le> 247" "aero_command_ok cmd"
    and "previous \<in> set (allowed_previous_values cmd)" "previous \<noteq> ac_value cmd"
    and "\<forall>f \<in> {f1, f2}. 0 \<le> f \<and> f \<le> 100" "is_u16 g1" "is_u16 g2" "100 < g1"
  shows "\<exists>p'. execute_control_change (new_aero_executor_config s (Fin 1)) cmd (Suc fuel) p
      = Some (p', Inl (ValueError ''AERO fan_1 power must be in range 0..100''))
    \<and> register_writes p' = register_writes p @ [(ac_register_address cmd, ac_value cmd)]"
proof -
  define config where "config = new_aero_executor_config s (Fin 1)"
  have f: "0 \<le> f1" "f1 \<le> 100" "0 \<le> f2" "f2 \<le> 100" using assms(7) by auto
  from control_change_wait[OF assms(1-6) f config_def, of "Suc fuel"] obtain p4 where
    p4: "port_answers (read_reply 3 s [g1] # read_reply 3 s [g2] # frames) p4" and
    writes: "register_writes p4 = register_writes p @ [(ac_register_address cmd, ac_value cmd)]" and
    run: "execute_control_change config cmd (Suc fuel) p =
      confirm_change (read_one config) (write_one config) port_monotonic config cmd (Suc fuel) previous
        \<lparr>fp_fan_1_percent = f1, fp_fan_2_percent = f2\<rparr> (ac_value cmd) p4" by blast
  have conf: "ec_slave_address config = s" "ec_timeout_seconds config = Fin 1"
    "ec_execution_timeout_seconds config = Fin 60"
    by (simp_all add: config_def new_aero_executor_config_def AERO_EXECUTION_TIMEOUT_SECONDS_def)
  have u: "is_u16 FAN_1_REGISTER" "is_u16 FAN_2_REGISTER"
    by (simp_all add: is_u16_def FAN_1_REGISTER_def FAN_2_REGISTER_def)
  define p5 where "p5 = p4\<lparr>sp_ticks := sp_ticks p4 + 2\<rparr>"
  have p5: "port_answers (read_reply 3 s [g1] # read_reply 3 s [g2] # frames) p5"
    using p4 by (simp add: port_answers_def p5_def)
  from read_one_answer[OF p5 assms(2,3,8) u(1) conf(1,2)] obtain p6 where
    p6: "read_one config FAN_1_REGISTER p5 = (p6, Inr g1)" "port_answers (read_reply 3 s [g2] # frames) p6"
    by blast
  from read_one_answer[OF p6(2) assms(2,3,9) u(2) conf(1,2)] obtain p7 where
    p7: "read_one config FAN_2_REGISTER p6 = (p7, Inr g2)" by blast
  have clock: "sp_clock p4 = (\<lambda>_. Fin 0)" using p4 by (simp add: port_answers_def)
  let ?e = "ValueError ''AERO fan_1 power must be in range 0..100''"
  have out: "execute_control_change config cmd (Suc fuel) p = Some (p7, Inl ?e)"
    using run clock wait_open conf(3) p6(1) p7 assms(10)
    by (auto simp: confirm_change_def port_monotonic_def Let_def p5_def read_fan_power_def op_bind_def
        new_aero_fan_power_def simp del: fadd.simps flt.simps)
  have "register_writes p7 = register_writes p4"
    using aero_port.rd_log[OF p6(1)] aero_port.rd_log[OF p7] by (simp add: p5_def register_writes_def)
  with out writes show ?thesis by (simp add: config_def)
qed

lemma demo_command_succeeds:
  "\<exists>p'. execute_control_change demo_aero_config demo_aero_command 1 (demo_port demo_answers)
    = Some (p', Inr \<lparr>ar_command = demo_aero_command, ar_state = AERO_SUCCEEDED,
        ar_previous_value = Some 1, ar_readback_value = Some 2,
        ar_baseline_power = Some \<lparr>fp_fan_1_percent = 30, fp_fan_2_percent = 30\<rparr>,
        ar_observed_power = Some \<lparr>fp_fan_1_percent = 50, fp_fan_2_percent = 50\<rparr>,
        ar_recovered = False, ar_physical_confirmation = True, ar_error = None\<rparr>)"
proof -
  let ?p = "demo_port demo_answers"
  have a: "port_answers (read_reply 3 44 [1] # read_reply 3 44 [30] # read_reply 3 44 [30]
      # write_request 44 (ac_register_address demo_aero_command) (ac_value demo_aero_command)
      # read_reply 3 44 [ac_value demo_aero_command]
      # read_reply 3 44 [50] # read_reply 3 44 [50] # []) ?p"
    by (simp add: port_answers_def demo_port_def demo_answers_def demo_aero_command_def)
  have "aero_command_ok demo_aero_command" by code_simp
  from control_change_success[OF a _ _ this, of 0] show ?thesis
    by (simp add: allowed_previous_values_def demo_aero_command_def demo_aero_config_def)
qed

subsection \<open>Properties\<close>

text \<open>C1: What a change command writes. Executed on the port with a valid configuration, a command
  sends no write at all (a refusal, a communication error before the write, or the register
  already has the value), or exactly one write of its own value to its own register (then, if it
  returns, it succeeded: the value was read back and the fan power differs from the baseline), or
  that write followed by one write of the allowed value the register had before (then, if it
  returns, it reports failure and that previous value). Nothing else is ever written.\<close>

theorem aero_control_writes:
  assumes "execute_control_change config cmd fuel p = Some (p', r)"
    and "executor_config_ok config" "aero_command_ok cmd"
  shows "register_writes p' = register_writes p
      \<and> (\<forall>res. r = Inr res \<longrightarrow> ar_state res = AERO_FAILED \<and> ar_baseline_power res = None
          \<or> ar_state res = AERO_SUCCEEDED \<and> ar_previous_value res = Some (ac_value cmd)
            \<and> ar_readback_value res = Some (ac_value cmd))
    \<or> register_writes p' = register_writes p @ [(ac_register_address cmd, ac_value cmd)]
      \<and> (\<forall>res. r = Inr res \<longrightarrow> ar_state res = AERO_SUCCEEDED
            \<and> ar_readback_value res = Some (ac_value cmd)
            \<and> ar_observed_power res \<noteq> ar_baseline_power res)
    \<or> (\<exists>previous \<in> set (allowed_previous_values cmd).
        register_writes p' = register_writes p
          @ [(ac_register_address cmd, ac_value cmd), (ac_register_address cmd, previous)]
        \<and> previous \<noteq> ac_value cmd
        \<and> (\<forall>res. r = Inr res \<longrightarrow> ar_state res = AERO_FAILED \<and> ar_previous_value res = Some previous))"
proof -
  have "\<forall>v \<in> set (ac_value cmd # allowed_previous_values cmd).
      executor_config_ok config \<and> is_u16 (ac_register_address cmd) \<and> is_u16 v"
    using assms(2) aero_command_ok_u16[OF assms(3)]
    by (auto simp: allowed_previous_values_def is_u16_def split: aero_control_kind.splits)
  from aero_port.execute_log[OF assms(1)[unfolded execute_control_change_def] this] show ?thesis .
qed

theorem aero_control_writes_witness:
  "\<exists>p' r. execute_control_change demo_aero_config demo_aero_command 1 (demo_port demo_answers) = Some (p', r)
    \<and> register_writes p' = [(1080, 2)]"
proof -
  from demo_command_succeeds obtain p' res where
    run: "execute_control_change demo_aero_config demo_aero_command 1 (demo_port demo_answers) = Some (p', Inr res)"
    and res: "ar_state res = AERO_SUCCEEDED" "ar_previous_value res = Some 1" by force
  have ok: "executor_config_ok demo_aero_config" "aero_command_ok demo_aero_command" by code_simp+
  from aero_control_writes[OF run ok] run res show ?thesis
    by (auto simp: demo_aero_command_def register_writes_def demo_port_def)
qed

text \<open>A command on a recuperator that answers. When the frames that come back are a legal
  current value different from the commanded one, two fan powers in range, the echo, the read-back
  of the commanded value and two other fan powers, the command reports success with exactly these
  values.\<close>

theorem aero_control_succeeds:
  assumes "port_answers (read_reply 3 s [previous] # read_reply 3 s [f1] # read_reply 3 s [f2]
      # write_request s (ac_register_address cmd) (ac_value cmd) # read_reply 3 s [ac_value cmd]
      # read_reply 3 s [g1] # read_reply 3 s [g2] # frames) p"
    and "1 \<le> s" "s \<le> 247" "aero_command_ok cmd"
    and "previous \<in> set (allowed_previous_values cmd)" "previous \<noteq> ac_value cmd"
    and "\<forall>f \<in> {f1, f2, g1, g2}. 0 \<le> f \<and> f \<le> 100" "f1 \<noteq> g1 \<or> f2 \<noteq> g2"
  shows "\<exists>p'. execute_control_change (new_aero_executor_config s (Fin 1)) cmd (Suc fuel) p
    = Some (p', Inr \<lparr>ar_command = cmd, ar_state = AERO_SUCCEEDED,
        ar_previous_value = Some previous, ar_readback_value = Some (ac_value cmd),
        ar_baseline_power = Some \<lparr>fp_fan_1_percent = f1, fp_fan_2_percent = f2\<rparr>,
        ar_observed_power = Some \<lparr>fp_fan_1_percent = g1, fp_fan_2_percent = g2\<rparr>,
        ar_recovered = False, ar_physical_confirmation = True, ar_error = None\<rparr>)"
  using assms by (rule control_change_success)

theorem aero_control_succeeds_witness:
  "\<exists>p'. execute_control_change demo_aero_config demo_aero_command 1 (demo_port demo_answers)
    = Some (p', Inr \<lparr>ar_command = demo_aero_command, ar_state = AERO_SUCCEEDED,
        ar_previous_value = Some 1, ar_readback_value = Some 2,
        ar_baseline_power = Some \<lparr>fp_fan_1_percent = 30, fp_fan_2_percent = 30\<rparr>,
        ar_observed_power = Some \<lparr>fp_fan_1_percent = 50, fp_fan_2_percent = 50\<rparr>,
        ar_recovered = False, ar_physical_confirmation = True, ar_error = None\<rparr>)"
proof -
  let ?p = "demo_port demo_answers"
  have a: "port_answers (read_reply 3 44 [1] # read_reply 3 44 [30] # read_reply 3 44 [30]
      # write_request 44 (ac_register_address demo_aero_command) (ac_value demo_aero_command)
      # read_reply 3 44 [ac_value demo_aero_command]
      # read_reply 3 44 [50] # read_reply 3 44 [50] # []) ?p"
    by (simp add: port_answers_def demo_port_def demo_answers_def demo_aero_command_def)
  have "aero_command_ok demo_aero_command" by code_simp
  from aero_control_succeeds[OF a _ _ this, of 0] show ?thesis
    by (simp add: allowed_previous_values_def demo_aero_command_def demo_aero_config_def)
qed


text \<open>A clock that is past every deadline after 100 looks at it.\<close>

definition demo_clock :: "nat \<Rightarrow> py_float" where
  "demo_clock n = (if n < 100 then Fin 0 else PInf)"

lemma infinity_late: "\<not> flt PInf x"
  by (cases x) simp_all


text \<open>An error while waiting for the physical reaction ends the command with that error, and the
  new value stays in the register: the previous one is not restored. Here the fans report a power
  out of range, which is a \<open>ValueError\<close>.\<close>

theorem wait_error_not_restored:
  assumes "port_answers (read_reply 3 s [previous] # read_reply 3 s [f1] # read_reply 3 s [f2]
      # write_request s (ac_register_address cmd) (ac_value cmd) # read_reply 3 s [ac_value cmd]
      # read_reply 3 s [g1] # read_reply 3 s [g2] # frames) p"
    and "1 \<le> s" "s \<le> 247" "aero_command_ok cmd"
    and "previous \<in> set (allowed_previous_values cmd)" "previous \<noteq> ac_value cmd"
    and "\<forall>f \<in> {f1, f2}. 0 \<le> f \<and> f \<le> 100" "is_u16 g1" "is_u16 g2" "100 < g1"
  shows "\<exists>p'. execute_control_change (new_aero_executor_config s (Fin 1)) cmd (Suc fuel) p
      = Some (p', Inl (ValueError ''AERO fan_1 power must be in range 0..100''))
    \<and> register_writes p' = register_writes p @ [(ac_register_address cmd, ac_value cmd)]"
  using assms by (rule change_error_in_wait)

definition broken_answers :: "int list list" where
  "broken_answers = [read_reply 3 44 [1], read_reply 3 44 [30], read_reply 3 44 [30],
     write_request 44 1080 2, read_reply 3 44 [2], read_reply 3 44 [101], read_reply 3 44 [50]]"

theorem wait_error_not_restored_witness:
  "\<exists>p'. execute_control_change demo_aero_config demo_aero_command 1 (demo_port broken_answers)
      = Some (p', Inl (ValueError ''AERO fan_1 power must be in range 0..100''))
    \<and> register_writes p' = [(1080, 2)]"
proof -
  let ?p = "demo_port broken_answers"
  have a: "port_answers (read_reply 3 44 [1] # read_reply 3 44 [30] # read_reply 3 44 [30]
      # write_request 44 (ac_register_address demo_aero_command) (ac_value demo_aero_command)
      # read_reply 3 44 [ac_value demo_aero_command]
      # read_reply 3 44 [101] # read_reply 3 44 [50] # []) ?p"
    by (simp add: port_answers_def demo_port_def broken_answers_def demo_aero_command_def)
  have ok: "aero_command_ok demo_aero_command" by code_simp
  have "register_writes ?p = []" by (simp add: register_writes_def demo_port_def)
  with wait_error_not_restored[OF a _ _ ok, of 0] show ?thesis
    by (simp add: allowed_previous_values_def demo_aero_command_def demo_aero_config_def is_u16_def)
qed

end
