(* ===== verification/AeroBus.thy ===== *)
theory AeroBus
  imports AeroControl LatestQueue
begin

section \<open>The AERO bus: worker process, command queue and owner\<close>

text \<open>
  Models \<open>infrastructure/aero_bus_worker.py\<close>: the configuration check, the poll of the recuperator,
  the execution of a queued command, one cycle of the worker process, and \<open>ProcessAeroBus\<close>. The
  state queue is that of \<open>LatestQueue\<close>; the command queue and the result queue hold one entry each.
  The OS process is its alive flag and exit code, \<open>uuid4().hex\<close> is an argument, and the other end
  of a queue is the list of entries it delivers. The confirmation wait inside a command has the fuel
  of \<open>AeroControl\<close>, so a cycle is \<open>None\<close> when that is too small.
\<close>

record aero_bus_config =
  bc_port :: string
  bc_slave_address :: int
  bc_baudrate :: int
  bc_timeout_seconds :: py_float
  bc_poll_interval_seconds :: py_float
  bc_inter_register_delay_seconds :: py_float
  bc_reconnect_delay_seconds :: py_float
  bc_register_addresses :: "int list"

definition aero_bus_config_check :: "aero_bus_config \<Rightarrow> unit result" where
  "aero_bus_config_check c =
     (if bc_port c = '''' then Inl (ValueError ''AERO BUS port cannot be empty'')
      else if \<not> (1 \<le> bc_slave_address c \<and> bc_slave_address c \<le> 247)
      then Inl (ValueError ''AERO BUS slave address must be in range 1..247'')
      else if bc_baudrate c \<le> 0 then Inl (ValueError ''AERO BUS baudrate must be positive'')
      else if fle (bc_timeout_seconds c) (Fin 0) then Inl (ValueError ''AERO BUS timeout must be positive'')
      else if fle (bc_poll_interval_seconds c) (Fin 0)
      then Inl (ValueError ''AERO BUS poll interval must be positive'')
      else if flt (bc_inter_register_delay_seconds c) (Fin 0)
      then Inl (ValueError ''AERO BUS inter-register delay cannot be negative'')
      else if fle (bc_reconnect_delay_seconds c) (Fin 0)
      then Inl (ValueError ''AERO BUS reconnect delay must be positive'')
      else if bc_register_addresses c = [] \<or> \<not> distinct (bc_register_addresses c)
      then Inl (ValueError ''AERO BUS register addresses must be non-empty and unique'')
      else if \<exists>a \<in> set (bc_register_addresses c). \<not> is_u16 a
      then Inl (ValueError ''AERO BUS register address outside Modbus range'')
      else Inr ())"

record aero_control_request =
  rq_request_id :: string
  rq_command :: aero_control_command

definition new_control_request :: "string \<Rightarrow> aero_control_command \<Rightarrow> aero_control_request result" where
  "new_control_request i cmd =
     (if i = '''' then Inl (ValueError ''AERO control request_id cannot be empty'')
      else Inr \<lparr>rq_request_id = i, rq_command = cmd\<rparr>)"

record aero_control_response =
  rs_request_id :: string
  rs_result :: aero_control_result

definition new_control_response :: "string \<Rightarrow> aero_control_result \<Rightarrow> aero_control_response result" where
  "new_control_response i result =
     (if i = '''' then Inl (ValueError ''AERO control response request_id cannot be empty'')
      else Inr \<lparr>rs_request_id = i, rs_result = result\<rparr>)"

text \<open>What a queue can hold: an object of the class the receiver tests for, or another one.\<close>

datatype 'a queue_item = Own 'a | Foreign

definition aero_initial_state :: "aero_bus_config \<Rightarrow> aero_bus_state" where
  "aero_initial_state c = \<lparr>ab_port = bc_port c, ab_baudrate = bc_baudrate c,
     ab_slave_address = bc_slave_address c, ab_register_addresses = bc_register_addresses c,
     ab_inter_register_delay_seconds = bc_inter_register_delay_seconds c,
     ab_poll_interval_seconds = bc_poll_interval_seconds c,
     ab_ready = False, ab_worker_alive = False, ab_worker_restarts = 0, ab_online = False,
     ab_usable = False, ab_telemetry = empty_telemetry, ab_control_busy = False,
     ab_last_control_result = None, ab_last_success_at = None, ab_last_cycle_at = None,
     ab_last_error = None, ab_polls = 0, ab_successful_polls = 0, ab_communication_errors = 0,
     ab_consecutive_failures = 0, ab_invalid_samples = 0\<rparr>"

definition CONTROL_QUEUE_MAXSIZE :: nat where "CONTROL_QUEUE_MAXSIZE = 1"

text \<open>\<open>_publish_control_result\<close>: a full queue loses its oldest entry, an empty one is tried again.\<close>

fun publish_control_result :: "'r \<Rightarrow> 'r list \<Rightarrow> 'r list" where
  "publish_control_result r [] = [r]"
| "publish_control_result r (x # q) =
     (if length (x # q) < CONTROL_QUEUE_MAXSIZE then (x # q) @ [r] else publish_control_result r q)"

text \<open>
  \<open>_wait_for_matching_control_result\<close>. The list holds the entries that \<open>get\<close> delivers within the
  remaining time, in order; when they are used up, \<open>get\<close> raises \<open>Empty\<close>. \<open>clk i\<close> is the clock at
  iteration \<open>i\<close>. The result is returned with the entries left in the queue.
\<close>

fun wait_for_matching :: "py_float \<Rightarrow> string \<Rightarrow> (nat \<Rightarrow> py_float) \<Rightarrow> nat \<Rightarrow>
    aero_control_response queue_item list \<Rightarrow>
    aero_control_response queue_item list \<times> aero_control_result result" where
  "wait_for_matching deadline i clk k [] = ([], Inl (TimeoutErr ''Timed out waiting for AERO control result''))"
| "wait_for_matching deadline i clk k (x # q) =
     (if fle (fsub deadline (clk k)) (Fin 0)
      then (x # q, Inl (TimeoutErr ''Timed out waiting for AERO control result''))
      else case x of
          Foreign \<Rightarrow> wait_for_matching deadline i clk (Suc k) q
        | Own response \<Rightarrow>
            if rs_request_id response \<noteq> i then wait_for_matching deadline i clk (Suc k) q
            else (q, Inr (rs_result response)))"

subsection \<open>Polling\<close>

text \<open>The dictionary of the registers read, one request per address.\<close>

fun read_snapshot_from :: "aero_bus_config \<Rightarrow> int list \<Rightarrow> (int \<times> int) list \<Rightarrow> (serial_port, (int \<times> int) list) op" where
  "read_snapshot_from c [] snapshot p = (p, Inr snapshot)"
| "read_snapshot_from c (a # as) snapshot p =
     (case read_holding_registers (bc_slave_address c) a 1 (bc_timeout_seconds c) p of
        (p', Inl e) \<Rightarrow> (p', Inl e)
      | (p', Inr values) \<Rightarrow> read_snapshot_from c as (AList.update a (values ! 0) snapshot) p')"

definition read_confirmed_snapshot :: "aero_bus_config \<Rightarrow> (serial_port, (int \<times> int) list) op" where
  "read_confirmed_snapshot c = read_snapshot_from c (bc_register_addresses c) []"

fun is_telemetry_error :: "exc \<Rightarrow> bool" where
  "is_telemetry_error (AeroTelemetryError _) = True"
| "is_telemetry_error _ = False"

definition aero_failed_poll :: "exc \<Rightarrow> aero_bus_state \<Rightarrow> aero_bus_state" where
  "aero_failed_poll e previous = previous\<lparr>ab_online := False, ab_usable := False,
     ab_last_error := Some (exc_str e), ab_polls := ab_polls previous + 1,
     ab_communication_errors := ab_communication_errors previous + 1,
     ab_consecutive_failures := ab_consecutive_failures previous + 1\<rparr>"

definition aero_invalid_poll :: "string \<Rightarrow> exc \<Rightarrow> aero_bus_state \<Rightarrow> aero_bus_state" where
  "aero_invalid_poll now e previous = previous\<lparr>ab_online := True, ab_usable := False,
     ab_telemetry := empty_telemetry, ab_last_success_at := Some now,
     ab_last_error := Some (exc_str e), ab_polls := ab_polls previous + 1,
     ab_successful_polls := ab_successful_polls previous + 1, ab_consecutive_failures := 0,
     ab_invalid_samples := ab_invalid_samples previous + 1\<rparr>"

definition aero_good_poll :: "string \<Rightarrow> aero_telemetry \<Rightarrow> aero_bus_state \<Rightarrow> aero_bus_state" where
  "aero_good_poll now telemetry previous = previous\<lparr>ab_online := True, ab_usable := True,
     ab_telemetry := telemetry, ab_last_success_at := Some now, ab_last_error := None,
     ab_polls := ab_polls previous + 1, ab_successful_polls := ab_successful_polls previous + 1,
     ab_consecutive_failures := 0\<rparr>"

definition poll_aero :: "string \<Rightarrow> aero_bus_config \<Rightarrow> aero_bus_state \<Rightarrow> (serial_port, aero_bus_state) op" where
  "poll_aero now c previous p =
     (case read_confirmed_snapshot c p of
        (p', Inl e) \<Rightarrow> (p', if modbus_or_value_error e then Inr (aero_failed_poll e previous) else Inl e)
      | (p', Inr registers) \<Rightarrow>
          (p', case decode_aero_telemetry registers of
             Inl e \<Rightarrow> if is_telemetry_error e then Inr (aero_invalid_poll now e previous) else Inl e
           | Inr telemetry \<Rightarrow> Inr (aero_good_poll now telemetry previous)))"

subsection \<open>The worker process\<close>

record aero_worker =
  aw_port :: serial_port
  aw_state :: aero_bus_state
  aw_queue :: "aero_bus_state list"
  aw_control :: "aero_control_request queue_item list"
  aw_results :: "aero_control_response queue_item list"

definition aw_enqueue :: "aero_bus_state \<Rightarrow> aero_worker \<Rightarrow> aero_worker" where
  "aw_enqueue s w = w\<lparr>aw_queue := publish_latest QUEUE_MAXSIZE s (aw_queue w)\<rparr>"

definition aw_publish :: "aero_bus_state \<Rightarrow> aero_worker \<Rightarrow> aero_worker" where
  "aw_publish s w = aw_enqueue s (w\<lparr>aw_state := s\<rparr>)"

text \<open>An exception leaves the caller's \<open>state\<close> as it was before, with the busy state published.\<close>

definition execute_queued_control :: "string \<Rightarrow> aero_bus_config \<Rightarrow> aero_control_command \<Rightarrow> nat \<Rightarrow>
    aero_worker \<Rightarrow> (aero_worker \<times> aero_control_result result) option" where
  "execute_queued_control now c cmd fuel w =
     (let busy_state = (aw_state w)\<lparr>ab_control_busy := True\<rparr>;
          w1 = aw_enqueue busy_state w
      in case execute_control_change (new_aero_executor_config (bc_slave_address c) (bc_timeout_seconds c))
             cmd fuel (aw_port w1) of
          None \<Rightarrow> None
        | Some (p, Inl e) \<Rightarrow> Some (w1\<lparr>aw_port := p\<rparr>, Inl e)
        | Some (p, Inr result) \<Rightarrow>
            Some (aw_publish (busy_state\<lparr>ab_control_busy := False, ab_last_control_result := Some result,
              ab_last_cycle_at := Some now\<rparr>) (w1\<lparr>aw_port := p\<rparr>), Inr result))"

text \<open>The head of the command queue, if there is one, is executed and its result published.\<close>

definition serve_request :: "string \<Rightarrow> aero_bus_config \<Rightarrow> nat \<Rightarrow> aero_worker \<Rightarrow> (aero_worker \<times> unit result) option" where
  "serve_request now c fuel w =
     (case aw_control w of
        [] \<Rightarrow> Some (w, Inr ())
      | Foreign # q \<Rightarrow> Some (w\<lparr>aw_control := q\<rparr>, Inl (TypeError ''invalid AERO control queue request''))
      | Own request # q \<Rightarrow>
          (case execute_queued_control now c (rq_command request) fuel (w\<lparr>aw_control := q\<rparr>) of
             None \<Rightarrow> None
           | Some (w1, Inl e) \<Rightarrow> Some (w1, Inl e)
           | Some (w1, Inr result) \<Rightarrow>
               Some (case new_control_response (rq_request_id request) result of
                   Inl e \<Rightarrow> (w1, Inl e)
                 | Inr response \<Rightarrow>
                     (w1\<lparr>aw_results := publish_control_result (Own response) (aw_results w1)\<rparr>, Inr ()))))"

definition aero_worker_failed :: "exc \<Rightarrow> aero_worker \<Rightarrow> aero_worker" where
  "aero_worker_failed e w = aw_publish ((aw_state w)\<lparr>ab_ready := False, ab_worker_alive := True,
     ab_online := False, ab_usable := False, ab_control_busy := False,
     ab_last_error := Some (exc_name e @ '': '' @ exc_str e)\<rparr>) w"

definition aero_worker_start :: "aero_bus_config \<Rightarrow> aero_bus_state list \<Rightarrow>
    aero_control_request queue_item list \<Rightarrow> aero_control_response queue_item list \<Rightarrow> serial_port \<Rightarrow> aero_worker" where
  "aero_worker_start c q control results p = \<lparr>aw_port = p, aw_state = aero_initial_state c,
     aw_queue = q, aw_control = control, aw_results = results\<rparr>"

definition aero_worker_opened :: "serial_port \<Rightarrow> aero_worker \<Rightarrow> aero_worker" where
  "aero_worker_opened p w = aw_publish ((aw_state w)\<lparr>ab_ready := True, ab_worker_alive := True,
     ab_last_error := None\<rparr>) (w\<lparr>aw_port := p\<rparr>)"

text \<open>The poll that ends a cycle.\<close>

definition aero_worker_poll :: "string \<Rightarrow> aero_bus_config \<Rightarrow> aero_worker \<Rightarrow> aero_worker" where
  "aero_worker_poll now c w =
     (case poll_aero now c (aw_state w) (aw_port w) of
        (p, Inl e) \<Rightarrow> aero_worker_failed e (w\<lparr>aw_port := p\<rparr>)
      | (p, Inr s) \<Rightarrow> aw_publish (s\<lparr>ab_ready := True, ab_worker_alive := True,
          ab_last_cycle_at := Some now\<rparr>) (w\<lparr>aw_port := p\<rparr>))"

definition aero_worker_cycle :: "string \<Rightarrow> aero_bus_config \<Rightarrow> nat \<Rightarrow> aero_worker \<Rightarrow> aero_worker option" where
  "aero_worker_cycle now c fuel w =
     (case serve_request now c fuel w of
        None \<Rightarrow> None
      | Some (w1, Inl e) \<Rightarrow> Some (aero_worker_failed e w1)
      | Some (w1, Inr _) \<Rightarrow> Some (aero_worker_poll now c w1))"

subsection \<open>The owner\<close>

record aero_bus_owner =
  ao_config :: aero_bus_config
  ao_queue :: "aero_bus_state list"
  ao_control :: "aero_control_request queue_item list"
  ao_results :: "aero_control_response queue_item list"
  ao_process :: "bool option"  \<comment> \<open>None: no process object; Some alive\<close>
  ao_stop_event :: bool
  ao_state :: aero_bus_state
  ao_worker_restarts :: int

definition ao_alive :: "aero_bus_owner \<Rightarrow> bool" where
  "ao_alive ow = (ao_process ow = Some True)"

definition ao_drain :: "aero_bus_owner \<Rightarrow> aero_bus_owner" where
  "ao_drain ow = ow\<lparr>ao_state := drain_updates (ao_state ow) (ao_queue ow), ao_queue := []\<rparr>"

definition ao_start_worker :: "aero_bus_owner \<Rightarrow> aero_bus_owner" where
  "ao_start_worker ow = ow\<lparr>ao_stop_event := False, ao_process := Some True\<rparr>"

definition aero_bus_new :: "aero_bus_config \<Rightarrow> aero_bus_owner" where
  "aero_bus_new c = ao_start_worker \<lparr>ao_config = c, ao_queue = [], ao_control = [], ao_results = [],
     ao_process = None, ao_stop_event = False, ao_state = aero_initial_state c, ao_worker_restarts = 0\<rparr>"

definition aero_bus_read_state :: "aero_bus_owner \<Rightarrow> aero_bus_owner \<times> aero_bus_state" where
  "aero_bus_read_state ow =
     (let o1 = ao_drain ow
      in (o1, (ao_state o1)\<lparr>ab_worker_alive := ao_alive o1, ab_worker_restarts := ao_worker_restarts o1\<rparr>))"

text \<open>The first half of \<open>execute_control\<close>, up to the request in the queue.\<close>

definition submit_control :: "string \<Rightarrow> aero_control_command \<Rightarrow> py_float \<Rightarrow> (aero_bus_owner, unit) op" where
  "submit_control i cmd timeout ow =
     (if fle timeout (Fin 0) then (ow, Inl (ValueError ''AERO control wait timeout must be positive''))
      else case new_control_request i cmd of Inl e \<Rightarrow> (ow, Inl e) | Inr request \<Rightarrow>
        let o1 = ao_drain ow in
        if \<not> ao_alive o1 then (o1, Inl (RuntimeError ''AERO BUS worker is not running''))
        else if \<not> ab_ready (ao_state o1) \<or> \<not> ab_online (ao_state o1) \<or> \<not> ab_usable (ao_state o1)
        then (o1, Inl (RuntimeError ''AERO BUS is not ready for control''))
        else if CONTROL_QUEUE_MAXSIZE \<le> length (ao_control o1)
        then (o1, Inl (RuntimeError ''AERO control command already pending''))
        else (o1\<lparr>ao_control := ao_control o1 @ [Own request]\<rparr>, Inr ()))"

text \<open>The second half: the wait on the result queue and the final drain.\<close>

definition await_control :: "string \<Rightarrow> py_float \<Rightarrow> (nat \<Rightarrow> py_float) \<Rightarrow> (aero_bus_owner, aero_control_result) op" where
  "await_control i timeout clk ow =
     (case wait_for_matching (fadd (clk 0) timeout) i clk 1 (ao_results ow) of
        (q, Inl e) \<Rightarrow> (ow\<lparr>ao_results := q\<rparr>, Inl e)
      | (q, Inr result) \<Rightarrow> (ao_drain (ow\<lparr>ao_results := q\<rparr>), Inr result))"

text \<open>\<open>execute_control\<close>; \<open>env\<close> is what the worker does to the owner's queues during the wait.\<close>

definition aero_execute_control :: "string \<Rightarrow> aero_control_command \<Rightarrow> py_float \<Rightarrow> (nat \<Rightarrow> py_float) \<Rightarrow>
    (aero_bus_owner \<Rightarrow> aero_bus_owner) \<Rightarrow> (aero_bus_owner, aero_control_result) op" where
  "aero_execute_control i cmd timeout clk env =
     op_bind (submit_control i cmd timeout) (\<lambda>_ ow. await_control i timeout clk (env ow))"

definition show_aero_exit_code :: "int option \<Rightarrow> string" where
  "show_aero_exit_code c = (case c of None \<Rightarrow> ''None'' | Some i \<Rightarrow> show_int i)"

definition aero_bus_health_check :: "int option \<Rightarrow> aero_bus_owner \<Rightarrow> aero_bus_owner" where
  "aero_bus_health_check exitcode ow =
     (let o1 = ao_drain ow in
      if ao_alive o1 then o1
      else
        let code = (if ao_process o1 = None then None else exitcode);
            o2 = o1\<lparr>ao_state := (ao_state o1)\<lparr>ab_ready := False, ab_worker_alive := False,
                   ab_online := False, ab_usable := False, ab_control_busy := False,
                   ab_last_error := Some (''AERO BUS worker exited with code '' @ show_aero_exit_code code)\<rparr>\<rparr>;
            o3 = o2\<lparr>ao_process := None, ao_queue := [], ao_control := [], ao_results := []\<rparr>
        in ao_start_worker (o3\<lparr>ao_worker_restarts := ao_worker_restarts o3 + 1\<rparr>))"

definition aero_bus_close :: "aero_bus_owner \<Rightarrow> aero_bus_owner" where
  "aero_bus_close ow = ow\<lparr>ao_stop_event := True, ao_process := None, ao_queue := [], ao_control := [],
     ao_results := [], ao_state := (ao_state ow)\<lparr>ab_ready := False, ab_worker_alive := False,
       ab_online := False, ab_usable := False, ab_control_busy := False\<rparr>\<rparr>"


subsection \<open>What a bus state can report\<close>

text \<open>
  The counters agree, a usable bus is ready and online, and its telemetry was decoded from a valid
  register snapshot.
\<close>

definition aero_state_ok :: "aero_bus_state \<Rightarrow> bool" where
  "aero_state_ok s =
     (ab_polls s = ab_successful_polls s + ab_communication_errors s
      \<and> 0 \<le> ab_consecutive_failures s \<and> ab_consecutive_failures s \<le> ab_communication_errors s
      \<and> 0 \<le> ab_invalid_samples s \<and> ab_invalid_samples s \<le> ab_successful_polls s
      \<and> (0 < ab_consecutive_failures s \<longrightarrow> \<not> ab_online s)
      \<and> (ab_online s \<longrightarrow> ab_ready s) \<and> (ab_usable s \<longrightarrow> ab_online s)
      \<and> (ab_usable s \<longrightarrow> (\<exists>registers. aero_registers_valid registers
           \<and> decode_aero_telemetry registers = Inr (ab_telemetry s))))"

definition aero_worker_ok :: "aero_worker \<Rightarrow> bool" where
  "aero_worker_ok w = (aero_state_ok (aw_state w) \<and> (\<forall>s \<in> set (aw_queue w). aero_state_ok s)
     \<and> length (aw_queue w) \<le> QUEUE_MAXSIZE)"

lemma aero_state_ok_initial: "aero_state_ok (aero_initial_state c)"
  by (simp add: aero_state_ok_def aero_initial_state_def)

lemma aero_state_ok_flags [simp]:
  "aero_state_ok (s\<lparr>ab_control_busy := b\<rparr>) = aero_state_ok s"
  "aero_state_ok (s\<lparr>ab_last_cycle_at := t\<rparr>) = aero_state_ok s"
  "aero_state_ok (s\<lparr>ab_last_control_result := cr\<rparr>) = aero_state_ok s"
  "aero_state_ok (s\<lparr>ab_worker_alive := b\<rparr>) = aero_state_ok s"
  "aero_state_ok (s\<lparr>ab_worker_restarts := n\<rparr>) = aero_state_ok s"
  "aero_state_ok (s\<lparr>ab_last_error := x\<rparr>) = aero_state_ok s"
  by (simp_all add: aero_state_ok_def)

lemma aero_state_ok_ready: "aero_state_ok s \<Longrightarrow> aero_state_ok (s\<lparr>ab_ready := True\<rparr>)"
  by (simp add: aero_state_ok_def)

lemma aero_state_ok_down:
  "aero_state_ok s \<Longrightarrow> aero_state_ok (s\<lparr>ab_ready := b, ab_online := False, ab_usable := False\<rparr>)"
  by (simp add: aero_state_ok_def)

lemma aero_worker_ok_enqueue: "aero_worker_ok w \<Longrightarrow> aero_state_ok s \<Longrightarrow> aero_worker_ok (aw_enqueue s w)"
  using lsq.publish_bounded[of "aw_queue w" s] lsq.publish_contents[of s "aw_queue w"]
  by (auto simp: aero_worker_ok_def aw_enqueue_def)

lemma aero_worker_ok_parts [simp]:
  "aero_worker_ok (w\<lparr>aw_port := p\<rparr>) = aero_worker_ok w"
  "aero_worker_ok (w\<lparr>aw_control := q\<rparr>) = aero_worker_ok w"
  "aero_worker_ok (w\<lparr>aw_results := rs\<rparr>) = aero_worker_ok w"
  by (simp_all add: aero_worker_ok_def)

lemma aero_worker_ok_publish: "aero_worker_ok w \<Longrightarrow> aero_state_ok s \<Longrightarrow> aero_worker_ok (aw_publish s w)"
  unfolding aw_publish_def by (rule aero_worker_ok_enqueue) (simp_all add: aero_worker_ok_def)

lemma aero_worker_ok_failed: "aero_worker_ok w \<Longrightarrow> aero_worker_ok (aero_worker_failed e w)"
  unfolding aero_worker_failed_def
  by (rule aero_worker_ok_publish) (simp_all add: aero_worker_ok_def aero_state_ok_def)

lemma aero_worker_ok_opened: "aero_worker_ok w \<Longrightarrow> aero_worker_ok (aero_worker_opened p w)"
  unfolding aero_worker_opened_def
  by (rule aero_worker_ok_publish) (simp_all add: aero_worker_ok_def aero_state_ok_def)

lemma poll_aero_ok:
  assumes "poll_aero now c s p = (p', Inr s')" "aero_state_ok s"
  shows "aero_state_ok (s'\<lparr>ab_ready := True\<rparr>)"
proof -
  obtain p1 r where snap: "read_confirmed_snapshot c p = (p1, r)" by force
  show ?thesis
  proof (cases r)
    case (Inl e)
    with assms snap show ?thesis
      by (auto simp: poll_aero_def aero_failed_poll_def aero_state_ok_def split: if_splits)
  next
    case (Inr registers)
    show ?thesis
    proof (cases "decode_aero_telemetry registers")
      case (Inl e)
      with assms snap Inr show ?thesis
        by (auto simp: poll_aero_def aero_invalid_poll_def aero_state_ok_def split: if_splits)
    next
      case (Inr telemetry)
      then have "aero_registers_valid registers" using decode_aero_ok_iff[of registers] by simp
      with assms snap \<open>r = Inr registers\<close> Inr show ?thesis
        by (auto simp: poll_aero_def aero_good_poll_def aero_state_ok_def)
    qed
  qed
qed

lemma aero_worker_ok_poll: "aero_worker_ok w \<Longrightarrow> aero_worker_ok (aero_worker_poll now c w)"
proof -
  assume w: "aero_worker_ok w"
  obtain p r where poll: "poll_aero now c (aw_state w) (aw_port w) = (p, r)" by force
  show ?thesis
  proof (cases r)
    case (Inl e)
    with w poll show ?thesis by (simp add: aero_worker_poll_def aero_worker_ok_failed)
  next
    case (Inr s)
    from w have "aero_state_ok (aw_state w)" by (simp add: aero_worker_ok_def)
    with poll Inr have "aero_state_ok (s\<lparr>ab_ready := True\<rparr>)" by (auto intro: poll_aero_ok)
    then have "aero_state_ok (s\<lparr>ab_ready := True, ab_worker_alive := True, ab_last_cycle_at := Some now\<rparr>)"
      by (simp add: aero_state_ok_def)
    with w poll Inr show ?thesis by (simp add: aero_worker_poll_def aero_worker_ok_publish)
  qed
qed

lemma execute_queued_ok:
  assumes "execute_queued_control now c cmd fuel w = Some (w', r)" "aero_worker_ok w"
  shows "aero_worker_ok w'"
proof -
  from assms(2) have s: "aero_state_ok (aw_state w)" by (simp add: aero_worker_ok_def)
  have busy: "aero_worker_ok (aw_enqueue ((aw_state w)\<lparr>ab_control_busy := True\<rparr>) w)"
    using assms(2) s by (simp add: aero_worker_ok_enqueue)
  from assms(1) busy s show ?thesis
    by (auto simp: execute_queued_control_def Let_def aero_worker_ok_publish split: option.splits sum.splits)
qed

lemma serve_request_ok:
  "serve_request now c fuel w = Some (w', r) \<Longrightarrow> aero_worker_ok w \<Longrightarrow> aero_worker_ok w'"
  by (auto simp: serve_request_def dest!: execute_queued_ok
      split: list.splits queue_item.splits option.splits sum.splits)

lemma aero_worker_ok_cycle:
  "aero_worker_cycle now c fuel w = Some w' \<Longrightarrow> aero_worker_ok w \<Longrightarrow> aero_worker_ok w'"
  by (auto simp: aero_worker_cycle_def dest!: serve_request_ok
      intro: aero_worker_ok_failed aero_worker_ok_poll split: option.splits sum.splits)

subsection \<open>Correlation of commands and results\<close>

text \<open>
  The requests handed out so far, each with its command, are the ghost state: every entry of the
  command queue is one of them, and every queued result is the result of the command of its id.
\<close>

type_synonym issued_requests = "(string \<times> aero_control_command) list"

definition control_ok :: "issued_requests \<Rightarrow> aero_control_request queue_item list \<Rightarrow> bool" where
  "control_ok issued q = (length q \<le> CONTROL_QUEUE_MAXSIZE
     \<and> (\<forall>x \<in> set q. \<exists>request. x = Own request \<and> (rq_request_id request, rq_command request) \<in> set issued))"

definition response_ok :: "issued_requests \<Rightarrow> aero_control_response queue_item \<Rightarrow> bool" where
  "response_ok issued x = (\<exists>response. x = Own response
     \<and> (rs_request_id response, ar_command (rs_result response)) \<in> set issued)"

definition results_ok :: "issued_requests \<Rightarrow> aero_control_response queue_item list \<Rightarrow> bool" where
  "results_ok issued q = (length q \<le> CONTROL_QUEUE_MAXSIZE \<and> (\<forall>x \<in> set q. response_ok issued x))"

lemma execute_change_command:
  "execute_change rd wr clk config cmd fuel p = Some (p', Inr result) \<Longrightarrow> ar_command result = cmd"
  by (auto simp: execute_change_def commit_change_def confirm_change_def Let_def
      split: prod.splits sum.splits option.splits if_splits bool.splits)

lemma publish_control_result_eq: "publish_control_result r q = [r]"
  by (induction q) (simp_all add: CONTROL_QUEUE_MAXSIZE_def)

lemma results_ok_publish: "response_ok issued x \<Longrightarrow> results_ok issued (publish_control_result x q)"
  by (simp add: results_ok_def publish_control_result_eq CONTROL_QUEUE_MAXSIZE_def)

lemma aw_publish_queues [simp]:
  "aw_control (aw_publish s w) = aw_control w" "aw_results (aw_publish s w) = aw_results w"
  "aw_control (aw_enqueue s w) = aw_control w" "aw_results (aw_enqueue s w) = aw_results w"
  by (simp_all add: aw_publish_def aw_enqueue_def)

lemma worker_failed_queues [simp]:
  "aw_control (aero_worker_failed e w) = aw_control w" "aw_results (aero_worker_failed e w) = aw_results w"
  by (simp_all add: aero_worker_failed_def)

lemma worker_poll_queues [simp]:
  "aw_control (aero_worker_poll now c w) = aw_control w" "aw_results (aero_worker_poll now c w) = aw_results w"
  by (simp_all add: aero_worker_poll_def split: prod.splits sum.splits)

lemma worker_opened_queues [simp]:
  "aw_control (aero_worker_opened p w) = aw_control w" "aw_results (aero_worker_opened p w) = aw_results w"
  by (simp_all add: aero_worker_opened_def)

lemma execute_queued_queues:
  "execute_queued_control now c cmd fuel w = Some (w', r) \<Longrightarrow>
   aw_control w' = aw_control w \<and> aw_results w' = aw_results w
   \<and> (\<forall>result. r = Inr result \<longrightarrow> ar_command result = cmd)"
  by (auto simp: execute_queued_control_def Let_def execute_control_change_def dest: execute_change_command
      split: option.splits sum.splits)

lemma serve_request_control:
  assumes "serve_request now c fuel w = Some (w', r)" "control_ok issued (aw_control w)"
    "results_ok issued (aw_results w)"
  shows "control_ok issued (aw_control w') \<and> results_ok issued (aw_results w')"
proof (cases "aw_control w")
  case Nil
  with assms show ?thesis by (auto simp: serve_request_def)
next
  case (Cons x q)
  with assms(2) obtain request where x: "x = Own request"
    "(rq_request_id request, rq_command request) \<in> set issued" "control_ok issued q"
    by (auto simp: control_ok_def)
  with assms(1) Cons obtain w1 r1 where w1: "execute_queued_control now c (rq_command request) fuel
      (w\<lparr>aw_control := q\<rparr>) = Some (w1, r1)"
    by (auto simp: serve_request_def split: option.splits)
  note frame = execute_queued_queues[OF w1]
  show ?thesis
  proof (cases r1)
    case (Inl e)
    with assms Cons x w1 frame show ?thesis by (auto simp: serve_request_def)
  next
    case (Inr result)
    with frame x(2) have "response_ok issued (Own \<lparr>rs_request_id = rq_request_id request, rs_result = result\<rparr>)"
      by (simp add: response_ok_def)
    with assms Cons x w1 frame Inr show ?thesis
      by (auto simp: serve_request_def new_control_response_def results_ok_publish split: if_splits)
  qed
qed

lemma worker_cycle_control:
  assumes "aero_worker_cycle now c fuel w = Some w'" "control_ok issued (aw_control w)"
    "results_ok issued (aw_results w)"
  shows "control_ok issued (aw_control w') \<and> results_ok issued (aw_results w')"
proof -
  from assms(1) obtain w1 r where w1: "serve_request now c fuel w = Some (w1, r)"
    by (auto simp: aero_worker_cycle_def split: option.splits)
  from serve_request_control[OF this assms(2,3)] assms(1) w1 show ?thesis
    by (cases r) (auto simp: aero_worker_cycle_def)
qed

lemma wait_for_matching_result:
  "wait_for_matching d i clk k q = (q', r) \<Longrightarrow>
   (\<exists>pre. q = pre @ q') \<and> (\<forall>result. r = Inr result \<longrightarrow> Own \<lparr>rs_request_id = i, rs_result = result\<rparr> \<in> set q)
   \<and> (\<forall>e. r = Inl e \<longrightarrow> e = TimeoutErr ''Timed out waiting for AERO control result'')"
proof (induction d i clk k q rule: wait_for_matching.induct)
  case (2 deadline i clk k x q)
  show ?case
  proof (cases "fle (fsub deadline (clk k)) (Fin 0)")
    case True
    with "2.prems" show ?thesis by auto
  next
    case False
    show ?thesis
    proof (cases x)
      case Foreign
      with "2.prems" False have "wait_for_matching deadline i clk (Suc k) q = (q', r)" by simp
      from "2.IH"(2)[OF False Foreign this] show ?thesis by (auto intro: exI[of _ "x # _"])
    next
      case (Own response)
      show ?thesis
      proof (cases "rs_request_id response = i")
        case True
        with "2.prems" False Own show ?thesis by (cases response) auto
      next
        case neq: False
        with "2.prems" False Own have "wait_for_matching deadline i clk (Suc k) q = (q', r)" by simp
        from "2.IH"(1)[OF False Own neq this] show ?thesis by (auto intro: exI[of _ "x # _"])
      qed
    qed
  qed
qed auto


subsection \<open>Owner and worker together\<close>

text \<open>
  Every interleaving of the owner's calls, from any of its threads, with the steps of the worker
  process. A request id is fresh when it is handed out (\<open>uuid4\<close>); \<open>discarded\<close> is a waiting call
  that takes a result of another request, \<open>awaited\<close> the rest of its wait.
\<close>

definition with_queues :: "aero_bus_owner \<Rightarrow> aero_worker \<Rightarrow> aero_worker" where
  "with_queues ow w = w\<lparr>aw_queue := ao_queue ow, aw_control := ao_control ow, aw_results := ao_results ow\<rparr>"

definition after_step :: "aero_worker \<Rightarrow> aero_bus_owner \<Rightarrow> aero_bus_owner" where
  "after_step w ow = ow\<lparr>ao_queue := aw_queue w, ao_control := aw_control w, ao_results := aw_results w\<rparr>"

inductive aero_system :: "aero_bus_config \<Rightarrow> issued_requests \<Rightarrow> aero_bus_owner \<Rightarrow> aero_worker \<Rightarrow> bool"
  for c :: aero_bus_config where
  aero_boot: "aero_system c [] (aero_bus_new c) (aero_worker_start c [] [] [] p)"
| aero_opened: "aero_system c issued ow w \<Longrightarrow> ao_alive ow \<Longrightarrow>
    w' = aero_worker_opened p (with_queues ow w) \<Longrightarrow> aero_system c issued (after_step w' ow) w'"
| aero_cycled: "aero_system c issued ow w \<Longrightarrow> ao_alive ow \<Longrightarrow>
    aero_worker_cycle now c fuel (with_queues ow w) = Some w' \<Longrightarrow> aero_system c issued (after_step w' ow) w'"
| aero_open_failed: "aero_system c issued ow w \<Longrightarrow> ao_alive ow \<Longrightarrow>
    w' = aero_worker_failed e (with_queues ow w) \<Longrightarrow> aero_system c issued (after_step w' ow) w'"
| aero_died: "aero_system c issued ow w \<Longrightarrow> aero_system c issued (ow\<lparr>ao_process := Some False\<rparr>) w"
| aero_read: "aero_system c issued ow w \<Longrightarrow> aero_system c issued (fst (aero_bus_read_state ow)) w"
| aero_submitted: "aero_system c issued ow w \<Longrightarrow> i \<notin> fst ` set issued \<Longrightarrow>
    aero_system c ((i, cmd) # issued) (fst (submit_control i cmd timeout ow)) w"
| aero_discarded: "aero_system c issued ow w \<Longrightarrow> ao_results ow = x # q \<Longrightarrow>
    aero_system c issued (ow\<lparr>ao_results := q\<rparr>) w"
| aero_awaited: "aero_system c issued ow w \<Longrightarrow> aero_system c issued (fst (await_control i timeout clk ow)) w"
| aero_healthy: "aero_system c issued ow w \<Longrightarrow> ao_alive ow \<Longrightarrow>
    aero_system c issued (aero_bus_health_check code ow) w"
| aero_restarted: "aero_system c issued ow w \<Longrightarrow> \<not> ao_alive ow \<Longrightarrow>
    aero_system c issued (aero_bus_health_check code ow) (aero_worker_start c [] [] [] p)"

definition aero_owner_ok :: "issued_requests \<Rightarrow> aero_bus_owner \<Rightarrow> bool" where
  "aero_owner_ok issued ow =
     (aero_state_ok (ao_state ow) \<and> (\<forall>s \<in> set (ao_queue ow). aero_state_ok s)
      \<and> length (ao_queue ow) \<le> QUEUE_MAXSIZE
      \<and> control_ok issued (ao_control ow) \<and> results_ok issued (ao_results ow)
      \<and> distinct (map fst issued))"

lemma aero_owner_ok_drain: "aero_owner_ok issued ow \<Longrightarrow> aero_owner_ok issued (ao_drain ow)"
  using lsq.drain_inv[of aero_state_ok "ao_state ow" "ao_queue ow"]
  by (simp add: aero_owner_ok_def ao_drain_def)

lemma ao_drain_frame [simp]: "ao_control (ao_drain ow) = ao_control ow" "ao_results (ao_drain ow) = ao_results ow"
  "ao_alive (ao_drain ow) = ao_alive ow" "ao_process (ao_drain ow) = ao_process ow"
  "ao_worker_restarts (ao_drain ow) = ao_worker_restarts ow" "ao_queue (ao_drain ow) = []"
  by (simp_all add: ao_drain_def ao_alive_def)

lemma control_ok_mono: "control_ok issued q \<Longrightarrow> control_ok (x # issued) q"
  by (fastforce simp: control_ok_def)

lemma results_ok_mono: "results_ok issued q \<Longrightarrow> results_ok (x # issued) q"
  by (fastforce simp: results_ok_def response_ok_def)

lemma aero_owner_ok_mono:
  "aero_owner_ok issued ow \<Longrightarrow> i \<notin> fst ` set issued \<Longrightarrow> aero_owner_ok ((i, cmd) # issued) ow"
  by (simp add: aero_owner_ok_def control_ok_mono results_ok_mono)

lemma aero_owner_ok_submit:
  assumes "aero_owner_ok issued ow" "i \<notin> fst ` set issued"
  shows "aero_owner_ok ((i, cmd) # issued) (fst (submit_control i cmd timeout ow))"
proof -
  note ow = aero_owner_ok_mono[OF assms, of cmd]
  note d = aero_owner_ok_drain[OF ow]
  have "aero_owner_ok ((i, cmd) # issued)
      ((ao_drain ow)\<lparr>ao_control := ao_control ow @ [Own \<lparr>rq_request_id = i, rq_command = cmd\<rparr>]\<rparr>)"
    if "length (ao_control ow) < CONTROL_QUEUE_MAXSIZE"
    using d that by (simp add: aero_owner_ok_def control_ok_def CONTROL_QUEUE_MAXSIZE_def)
  with ow d show ?thesis
    by (auto simp: submit_control_def new_control_request_def Let_def)
qed

lemma results_ok_suffix: "results_ok issued (pre @ q) \<Longrightarrow> results_ok issued q"
  by (auto simp: results_ok_def)

lemma aero_owner_ok_results:
  "aero_owner_ok issued ow \<Longrightarrow> ao_results ow = pre @ q \<Longrightarrow> aero_owner_ok issued (ow\<lparr>ao_results := q\<rparr>)"
  using results_ok_suffix[of issued pre q] by (simp add: aero_owner_ok_def)

lemma aero_owner_ok_await:
  assumes "aero_owner_ok issued ow" shows "aero_owner_ok issued (fst (await_control i timeout clk ow))"
proof -
  obtain q r where w: "wait_for_matching (fadd (clk 0) timeout) i clk 1 (ao_results ow) = (q, r)" by force
  from wait_for_matching_result[OF w] obtain pre where "ao_results ow = pre @ q" by blast
  from aero_owner_ok_results[OF assms this] w show ?thesis
    by (cases r) (simp_all add: await_control_def aero_owner_ok_drain)
qed

lemma aero_owner_ok_health: "aero_owner_ok issued ow \<Longrightarrow> aero_owner_ok issued (aero_bus_health_check code ow)"
  using aero_owner_ok_drain[of issued ow]
  by (auto simp: aero_bus_health_check_def Let_def ao_start_worker_def aero_owner_ok_def control_ok_def
      results_ok_def aero_state_ok_def)

lemma aero_worker_ok_queues:
  "aero_worker_ok w \<Longrightarrow> aero_owner_ok issued ow \<Longrightarrow> aero_worker_ok (with_queues ow w)"
  by (simp add: aero_worker_ok_def aero_owner_ok_def with_queues_def)

lemma aero_owner_ok_after:
  "aero_worker_ok w' \<Longrightarrow> aero_owner_ok issued ow \<Longrightarrow> control_ok issued (aw_control w') \<Longrightarrow>
   results_ok issued (aw_results w') \<Longrightarrow> aero_owner_ok issued (after_step w' ow)"
  by (simp add: aero_worker_ok_def aero_owner_ok_def after_step_def)

lemma with_queues_frame [simp]: "aw_control (with_queues ow w) = ao_control ow"
  "aw_results (with_queues ow w) = ao_results ow"
  by (simp_all add: with_queues_def)

lemma aero_worker_ok_start: "aero_worker_ok (aero_worker_start c [] q rs p)"
  by (simp add: aero_worker_ok_def aero_worker_start_def aero_state_ok_initial)

lemma aero_system_ok: "aero_system c issued ow w \<Longrightarrow> aero_owner_ok issued ow \<and> aero_worker_ok w"
proof (induction rule: aero_system.induct)
  case (aero_boot p)
  then show ?case
    by (simp add: aero_worker_ok_start aero_owner_ok_def aero_bus_new_def ao_start_worker_def
        aero_state_ok_initial control_ok_def results_ok_def)
next
  case (aero_opened issued ow w w' p)
  then have "aero_worker_ok w'" by (auto intro: aero_worker_ok_opened aero_worker_ok_queues)
  with aero_opened show ?case
    by (auto intro!: aero_owner_ok_after) (simp_all add: aero_owner_ok_def)
next
  case (aero_cycled issued ow w now fuel w')
  then have "aero_worker_ok w'" by (auto intro: aero_worker_ok_cycle aero_worker_ok_queues)
  moreover have "control_ok issued (aw_control w') \<and> results_ok issued (aw_results w')"
    using aero_cycled worker_cycle_control[OF aero_cycled(3), of issued] by (simp add: aero_owner_ok_def)
  ultimately show ?case using aero_cycled by (auto intro!: aero_owner_ok_after)
next
  case (aero_open_failed issued ow w w' e)
  then have "aero_worker_ok w'" by (auto intro: aero_worker_ok_failed aero_worker_ok_queues)
  with aero_open_failed show ?case
    by (auto intro!: aero_owner_ok_after) (simp_all add: aero_owner_ok_def)
next
  case (aero_died issued ow w)
  then show ?case by (simp add: aero_owner_ok_def)
next
  case (aero_read issued ow w)
  then show ?case by (simp add: aero_bus_read_state_def Let_def aero_owner_ok_drain)
next
  case (aero_submitted issued ow w i cmd timeout)
  then show ?case by (simp add: aero_owner_ok_submit)
next
  case (aero_discarded issued ow w x q)
  then show ?case using aero_owner_ok_results[of issued ow "[x]" q] by simp
next
  case (aero_awaited issued ow w i timeout clk)
  then show ?case by (simp add: aero_owner_ok_await)
next
  case (aero_healthy issued ow w code)
  then show ?case by (simp add: aero_owner_ok_health)
next
  case (aero_restarted issued ow w code p)
  then show ?case by (simp add: aero_owner_ok_health aero_worker_ok_start)
qed

subsection \<open>Properties\<close>

text \<open>The state of the AERO bus. Whatever the UART, the recuperator, the worker process and the
  callers do, the state that the owner reports has counters that agree, a usable bus is ready and
  online with telemetry decoded from a register snapshot in the accepted ranges, a bus whose last
  poll failed is not online, and a dead worker is reported as such.\<close>

theorem aero_reported_state_ok:
  assumes "aero_system c issued ow w"
  shows "aero_state_ok (snd (aero_bus_read_state ow))
    \<and> (ab_worker_alive (snd (aero_bus_read_state ow)) \<longleftrightarrow> ao_alive ow)
    \<and> ab_worker_restarts (snd (aero_bus_read_state ow)) = ao_worker_restarts ow"
proof -
  from aero_system_ok[OF assms] have "aero_owner_ok issued (ao_drain ow)" by (simp add: aero_owner_ok_drain)
  then have "aero_state_ok (ao_state (ao_drain ow))" by (simp add: aero_owner_ok_def)
  then show ?thesis by (simp add: aero_bus_read_state_def Let_def)
qed

text \<open>C11: Correlation. However commands, timeouts, restarts and results that came too late are
  interleaved, a call that returns a result returns one of the command it was made with, provided the
  request ids handed out are distinct; and a call that gets none raises the timeout.\<close>

theorem aero_result_of_own_command:
  assumes "aero_system c issued ow w" and "(i, cmd) \<in> set issued"
  shows "case snd (await_control i timeout clk ow) of
      Inr result \<Rightarrow> ar_command result = cmd
    | Inl e \<Rightarrow> e = TimeoutErr ''Timed out waiting for AERO control result''"
proof -
  obtain q r where w: "wait_for_matching (fadd (clk 0) timeout) i clk 1 (ao_results ow) = (q, r)" by force
  note res = wait_for_matching_result[OF w]
  from aero_system_ok[OF assms(1)] have ok: "results_ok issued (ao_results ow)" "distinct (map fst issued)"
    by (simp_all add: aero_owner_ok_def)
  show ?thesis
  proof (cases r)
    case (Inl e)
    with res w show ?thesis by (simp add: await_control_def)
  next
    case (Inr result)
    with res have "Own \<lparr>rs_request_id = i, rs_result = result\<rparr> \<in> set (ao_results ow)" by blast
    with ok(1) have "(i, ar_command result) \<in> set issued" by (auto simp: results_ok_def response_ok_def)
    with ok(2) assms(2) have "ar_command result = cmd" by (metis map_of_is_SomeI option.inject)
    with w Inr show ?thesis by (simp add: await_control_def)
  qed
qed


text \<open>A configuration, a state that accepts commands and an owner in it, for the examples.\<close>

definition demo_bus_config :: aero_bus_config where
  "demo_bus_config = \<lparr>bc_port = ''/dev/ttyAMA4'', bc_slave_address = 44, bc_baudrate = 9600,
     bc_timeout_seconds = Fin 1, bc_poll_interval_seconds = Fin 2,
     bc_inter_register_delay_seconds = Fin 0, bc_reconnect_delay_seconds = Fin 1,
     bc_register_addresses = CONFIRMED_TELEMETRY_REGISTERS\<rparr>"

definition demo_usable_state :: aero_bus_state where
  "demo_usable_state = (aero_initial_state demo_bus_config)
     \<lparr>ab_ready := True, ab_online := True, ab_usable := True\<rparr>"

definition demo_owner :: aero_bus_owner where
  "demo_owner = (aero_bus_new demo_bus_config)\<lparr>ao_state := demo_usable_state\<rparr>"

theorem aero_reported_state_ok_witness:
  "\<exists>ow w. aero_system demo_bus_config [] ow w \<and> \<not> ao_alive ow
    \<and> \<not> ab_worker_alive (snd (aero_bus_read_state ow))"
proof -
  let ?ow = "(aero_bus_new demo_bus_config)\<lparr>ao_process := Some False\<rparr>"
  let ?w = "aero_worker_start demo_bus_config [] [] [] (demo_port [])"
  have sys: "aero_system demo_bus_config [] ?ow ?w" by (intro aero_died aero_boot)
  have "\<not> ao_alive ?ow" by (simp add: ao_alive_def)
  with aero_reported_state_ok[OF sys] sys show ?thesis by blast
qed

theorem aero_result_of_own_command_witness:
  "\<exists>ow w. aero_system demo_bus_config [(''b'', demo_aero_command), (''a'', demo_aero_command)] ow w
    \<and> (case snd (await_control ''b'' (Fin 65) (\<lambda>_. Fin 0) ow) of
        Inr result \<Rightarrow> ar_command result = demo_aero_command
      | Inl e \<Rightarrow> e = TimeoutErr ''Timed out waiting for AERO control result'')"
proof -
  let ?w = "aero_worker_start demo_bus_config [] [] [] (demo_port [])"
  let ?o1 = "fst (submit_control ''a'' demo_aero_command (Fin 65) (aero_bus_new demo_bus_config))"
  have "aero_system demo_bus_config [(''a'', demo_aero_command)] ?o1 ?w"
    by (rule aero_submitted[OF aero_boot]) simp
  then have sys: "aero_system demo_bus_config [(''b'', demo_aero_command), (''a'', demo_aero_command)]
      (fst (submit_control ''b'' demo_aero_command (Fin 65) ?o1)) ?w"
    by (rule aero_submitted) simp
  from aero_result_of_own_command[OF sys, of "''b''" demo_aero_command] sys show ?thesis by auto
qed

text \<open>The gate of the command queue: a command enters it exactly when the wait is positive and the
  newest state of a living worker is ready, online and usable with no command pending.\<close>

lemma queue_full_iff: "CONTROL_QUEUE_MAXSIZE \<le> length q \<longleftrightarrow> q \<noteq> []"
  by (cases q) (simp_all add: CONTROL_QUEUE_MAXSIZE_def)

lemma submit_control_gate:
  "submit_control i cmd timeout ow = (ow', r) \<Longrightarrow> s = drain_updates (ao_state ow) (ao_queue ow) \<Longrightarrow>
   (is_ok r \<longleftrightarrow> \<not> fle timeout (Fin 0) \<and> i \<noteq> '''' \<and> ao_alive ow
      \<and> ab_ready s \<and> ab_online s \<and> ab_usable s \<and> ao_control ow = [])
   \<and> ao_control ow' = (if is_ok r then [Own \<lparr>rq_request_id = i, rq_command = cmd\<rparr>] else ao_control ow)
   \<and> ao_results ow' = ao_results ow"
  by (auto simp: submit_control_def new_control_request_def Let_def queue_full_iff split: if_splits)
    (simp_all add: ao_drain_def)

text \<open>A cycle that executes the queued command leaves its result as the only one.\<close>

lemma cycle_delivers:
  assumes "aw_control w = [Own \<lparr>rq_request_id = i, rq_command = cmd\<rparr>]" "i \<noteq> ''''"
    and "execute_control_change (new_aero_executor_config (bc_slave_address c) (bc_timeout_seconds c))
      cmd fuel (aw_port w) = Some (p, Inr result)"
  shows "\<exists>w'. aero_worker_cycle now c fuel w = Some w' \<and> aw_control w' = []
    \<and> aw_results w' = [Own \<lparr>rs_request_id = i, rs_result = result\<rparr>]"
proof -
  obtain w1 where w1: "execute_queued_control now c cmd fuel (w\<lparr>aw_control := []\<rparr>) = Some (w1, Inr result)"
    using assms(3) by (simp add: execute_queued_control_def aw_enqueue_def Let_def)
  with assms(1,2) show ?thesis
    using execute_queued_queues[OF w1]
    by (simp add: aero_worker_cycle_def serve_request_def new_control_response_def publish_control_result_eq)
qed

text \<open>Delivery. When a command has entered the queue and the worker's next cycle executes it
  without an exception, the waiting call gets exactly that result, whatever stale result was left in
  the result queue and whether or not the poll that ends the cycle succeeds.\<close>

theorem aero_command_delivered:
  assumes "submit_control i cmd timeout ow = (ow1, Inr ())"
    and "execute_control_change (new_aero_executor_config (bc_slave_address c) (bc_timeout_seconds c))
      cmd fuel (aw_port w) = Some (p, Inr result)"
    and "\<not> fle (fsub (fadd (clk 0) timeout) (clk 1)) (Fin 0)"
  shows "\<exists>w'. aero_worker_cycle now c fuel (with_queues ow1 w) = Some w'
    \<and> snd (await_control i timeout clk (after_step w' ow1)) = Inr result"
proof -
  have i: "i \<noteq> ''''" and q: "ao_control ow1 = [Own \<lparr>rq_request_id = i, rq_command = cmd\<rparr>]"
    using submit_control_gate[OF assms(1) refl] by simp_all
  from cycle_delivers[of "with_queues ow1 w" i cmd c fuel p result now] i q assms(2)
  obtain w' where w': "aero_worker_cycle now c fuel (with_queues ow1 w) = Some w'"
    "aw_results w' = [Own \<lparr>rs_request_id = i, rs_result = result\<rparr>]"
    by (auto simp: with_queues_def)
  with assms(3) show ?thesis by (simp add: await_control_def after_step_def)
qed

theorem aero_command_delivered_witness:
  "\<exists>ow1 w' result. submit_control ''a'' demo_aero_command (Fin 65) demo_owner = (ow1, Inr ())
    \<and> snd (await_control ''a'' (Fin 65) (\<lambda>_. Fin 0) (after_step w' ow1)) = Inr result
    \<and> ar_state result = AERO_SUCCEEDED"
proof -
  let ?w = "aero_worker_start demo_bus_config [] [] [] (demo_port demo_answers)"
  have "snd (submit_control ''a'' demo_aero_command (Fin 65) demo_owner) = Inr ()"
    by (simp add: submit_control_def new_control_request_def demo_owner_def demo_usable_state_def
        aero_bus_new_def ao_start_worker_def ao_drain_def ao_alive_def Let_def CONTROL_QUEUE_MAXSIZE_def)
  then obtain ow1 where sub: "submit_control ''a'' demo_aero_command (Fin 65) demo_owner = (ow1, Inr ())"
    by (metis prod.collapse)
  from demo_command_succeeds obtain p' res where
    run: "execute_control_change demo_aero_config demo_aero_command 1 (demo_port demo_answers) = Some (p', Inr res)"
    and res: "ar_state res = AERO_SUCCEEDED" by force
  have "demo_aero_config = new_aero_executor_config (bc_slave_address demo_bus_config) (bc_timeout_seconds demo_bus_config)"
    by (simp add: demo_aero_config_def demo_bus_config_def)
  with run have run': "execute_control_change (new_aero_executor_config (bc_slave_address demo_bus_config)
      (bc_timeout_seconds demo_bus_config)) demo_aero_command 1 (aw_port ?w) = Some (p', Inr res)"
    by (simp add: aero_worker_start_def)
  have t: "\<not> fle (fsub (fadd (Fin 0) (Fin 65)) (Fin 0)) (Fin 0)" by code_simp
  from aero_command_delivered[OF sub run', of "\<lambda>_. Fin 0"] t sub res show ?thesis by blast
qed

end
