(* ===== verification/Tacho.thy ===== *)
theory Tacho
  imports Binary64
begin

section \<open>Fan speed from tachometer edges\<close>

text \<open>
  Models the estimator of \<open>domain/tacho.py\<close> and the channel and dual monitor of
  \<open>infrastructure/tacho_monitor.py\<close>. The edge events of a GPIO line, the clock and the failures of
  \<open>gpiod\<close> are inputs of the steps of a channel's worker thread. \<open>sum\<close> adds the floats from left to
  right, as Python 3.11 (the version the project names) does.
\<close>

definition PULSES_PER_REVOLUTION :: int where "PULSES_PER_REVOLUTION = 3"
definition RPM_PER_HZ :: rat where "RPM_PER_HZ = 20"

record tacho_reading =
  tr_frequency_hz :: py_float
  tr_rpm :: py_float
  tr_sample_count :: nat
  tr_age_seconds :: "py_float option"
  tr_valid :: bool

definition stopped_reading :: "py_float option \<Rightarrow> tacho_reading" where
  "stopped_reading age = \<lparr>tr_frequency_hz = Fin 0, tr_rpm = Fin 0, tr_sample_count = 0,
     tr_age_seconds = age, tr_valid = False\<rparr>"

record fan_tacho_state =
  ft_line_name :: string
  ft_line_offset :: "int option"
  ft_reading :: tacho_reading

record tacho_monitor_state =
  tm_chip_path :: string
  tm_ready :: bool
  tm_worker_alive :: bool
  tm_last_error :: "string option"
  tm_supply :: "fan_tacho_state option"
  tm_extract :: "fan_tacho_state option"

subsection \<open>The estimator\<close>

record tacho_estimator =
  te_averaging :: nat
  te_periods :: "py_float list"
  te_last_edge :: "py_float option"
  te_timeout :: py_float
  te_minimum_period :: py_float

definition new_estimator :: "int \<Rightarrow> py_float \<Rightarrow> py_float \<Rightarrow> tacho_estimator result" where
  "new_estimator averaging timeout minimum =
     (if averaging < 1 then Inl (ValueError ''averaging_periods must be at least 1'')
      else if fle timeout (Fin 0) then Inl (ValueError ''timeout_seconds must be positive'')
      else if fle minimum (Fin 0) then Inl (ValueError ''minimum_period_seconds must be positive'')
      else Inr \<lparr>te_averaging = nat averaging, te_periods = [], te_last_edge = None,
        te_timeout = timeout, te_minimum_period = minimum\<rparr>)"

text \<open>\<open>deque(maxlen=n).append\<close>.\<close>

definition deque_append :: "nat \<Rightarrow> 'a \<Rightarrow> 'a list \<Rightarrow> 'a list" where
  "deque_append n x xs = drop (Suc (length xs) - n) (xs @ [x])"

definition float_sum :: "py_float list \<Rightarrow> py_float" where
  "float_sum xs = foldl fadd (Fin 0) xs"

text \<open>\<open>1.0 / x\<close>.\<close>

definition float_inverse :: "py_float \<Rightarrow> py_float result" where
  "float_inverse x = (case x of
     Fin a \<Rightarrow> if a = 0 then Inl (OtherException ''float division by zero'') else Inr (to_float (1 / a))
   | NaN \<Rightarrow> Inr NaN
   | _ \<Rightarrow> Inr (Fin 0))"

definition estimator_read :: "py_float \<Rightarrow> tacho_estimator \<Rightarrow> tacho_reading result" where
  "estimator_read now est =
     (if \<not> is_finite now then Inl (ValueError ''now must be finite'')
      else case te_last_edge est of
        None \<Rightarrow> Inr (stopped_reading None)
      | Some edge \<Rightarrow>
          let age = fsub now edge
          in if flt age (Fin 0) then Inl (ValueError ''now cannot precede the last edge'')
             else if flt (te_timeout est) age \<or> te_periods est = [] then Inr (stopped_reading (Some age))
             else rbind (float_inverse (fdiv_pos (float_sum (te_periods est)) (of_nat (length (te_periods est)))))
                    (\<lambda>frequency. Inr \<lparr>tr_frequency_hz = frequency, tr_rpm = fmul_pos frequency RPM_PER_HZ,
                       tr_sample_count = length (te_periods est), tr_age_seconds = Some age, tr_valid = True\<rparr>))"

definition estimator_add_edge :: "py_float \<Rightarrow> (tacho_estimator, tacho_reading) op" where
  "estimator_add_edge timestamp est =
     (if \<not> is_finite timestamp then (est, Inl (ValueError ''timestamp must be finite''))
      else let accept = (\<lambda>e. let e' = e\<lparr>te_last_edge := Some timestamp\<rparr> in (e', estimator_read timestamp e'))
      in case te_last_edge est of
        None \<Rightarrow> accept est
      | Some edge \<Rightarrow>
          let period = fsub timestamp edge
          in if fle period (Fin 0) then (est, Inl (ValueError ''edge timestamps must be strictly increasing''))
             else if flt (te_timeout est) period
             then (est\<lparr>te_periods := [], te_last_edge := Some timestamp\<rparr>, Inr (stopped_reading (Some (Fin 0))))
             else if fle (te_minimum_period est) period
             then accept (est\<lparr>te_periods := deque_append (te_averaging est) period (te_periods est)\<rparr>)
             else accept est)"

definition estimator_reset :: "tacho_estimator \<Rightarrow> tacho_estimator" where
  "estimator_reset est = est\<lparr>te_periods := [], te_last_edge := None\<rparr>"

subsection \<open>Channel and monitor\<close>

record tacho_monitor_config =
  tc_chip_path :: string
  tc_supply_line_name :: "string option"
  tc_extract_line_name :: "string option"
  tc_timeout_seconds :: py_float
  tc_averaging_periods :: int

definition tacho_config_check :: "tacho_monitor_config \<Rightarrow> unit result" where
  "tacho_config_check c =
     (if tc_supply_line_name c = None \<and> tc_extract_line_name c = None
      then Inl (ValueError ''At least one TACHO channel must be configured'')
      else if tc_supply_line_name c \<noteq> None \<and> tc_extract_line_name c \<noteq> None
        \<and> tc_supply_line_name c = tc_extract_line_name c
      then Inl (ValueError ''SUPPLY and EXTRACT TACHO must use different GPIO lines'')
      else if fle (tc_timeout_seconds c) (Fin 0) then Inl (ValueError ''TACHO timeout must be positive'')
      else if tc_averaging_periods c < 1 then Inl (ValueError ''TACHO averaging periods must be at least 1'')
      else Inr ())"

text \<open>The thread of a channel: none yet, running, or ended.\<close>

record tacho_channel =
  ch_line_name :: string
  ch_stop :: bool
  ch_thread :: "bool option"
  ch_line_offset :: "int option"
  ch_ready :: bool
  ch_last_error :: "string option"
  ch_estimator :: tacho_estimator

definition channel_alive :: "tacho_channel \<Rightarrow> bool" where
  "channel_alive ch = (ch_thread ch = Some True)"

definition channel_start_worker :: "tacho_channel \<Rightarrow> tacho_channel" where
  "channel_start_worker ch =
     (if ch_stop ch \<or> channel_alive ch then ch else ch\<lparr>ch_ready := False, ch_thread := Some True\<rparr>)"

definition new_channel :: "string \<Rightarrow> py_float \<Rightarrow> int \<Rightarrow> tacho_channel result" where
  "new_channel line_name timeout averaging =
     rbind (new_estimator averaging timeout (Fin (round64 (1 / 1000)))) (\<lambda>est.
       Inr (channel_start_worker \<lparr>ch_line_name = line_name, ch_stop = False, ch_thread = None,
         ch_line_offset = None, ch_ready = False, ch_last_error = None, ch_estimator = est\<rparr>))"

text \<open>The worker's \<open>_run\<close>, step by step: the line is requested, edges are read, an exception or the
  stop event ends the thread.\<close>

definition channel_opened :: "int \<Rightarrow> tacho_channel \<Rightarrow> tacho_channel" where
  "channel_opened offset ch = ch\<lparr>ch_line_offset := Some offset, ch_last_error := None, ch_ready := True,
     ch_estimator := estimator_reset (ch_estimator ch)\<rparr>"

definition channel_failed :: "exc \<Rightarrow> tacho_channel \<Rightarrow> tacho_channel" where
  "channel_failed e ch = ch\<lparr>ch_ready := False, ch_last_error := Some (exc_str e), ch_thread := Some False\<rparr>"

definition channel_stopped :: "tacho_channel \<Rightarrow> tacho_channel" where
  "channel_stopped ch = ch\<lparr>ch_ready := False, ch_thread := Some False\<rparr>"

fun channel_events :: "(int \<times> py_float) list \<Rightarrow> tacho_channel \<Rightarrow> tacho_channel" where
  "channel_events [] ch = ch"
| "channel_events ((offset, timestamp) # events) ch =
     (if Some offset \<noteq> ch_line_offset ch then channel_events events ch
      else case estimator_add_edge timestamp (ch_estimator ch) of
          (est, Inl e) \<Rightarrow> channel_failed e (ch\<lparr>ch_estimator := est\<rparr>)
        | (est, Inr _) \<Rightarrow> channel_events events (ch\<lparr>ch_estimator := est\<rparr>))"

definition channel_state :: "py_float \<Rightarrow> tacho_channel \<Rightarrow> fan_tacho_state result" where
  "channel_state now ch = rbind (estimator_read now (ch_estimator ch)) (\<lambda>reading.
     Inr \<lparr>ft_line_name = ch_line_name ch, ft_line_offset = ch_line_offset ch, ft_reading = reading\<rparr>)"

definition channel_health_check :: "tacho_channel \<Rightarrow> tacho_channel" where
  "channel_health_check ch =
     (if \<not> ch_stop ch \<and> \<not> channel_alive ch then channel_start_worker ch else ch)"

text \<open>\<open>close\<close> waits for the thread, which sees the stop event.\<close>

definition channel_close :: "tacho_channel \<Rightarrow> tacho_channel" where
  "channel_close ch = (let c = ch\<lparr>ch_stop := True\<rparr>
     in (if channel_alive c then channel_stopped c else c)\<lparr>ch_ready := False\<rparr>)"

record tacho_monitor =
  mon_config :: tacho_monitor_config
  mon_supply :: "tacho_channel option"
  mon_extract :: "tacho_channel option"

definition build_channel :: "tacho_monitor_config \<Rightarrow> string option \<Rightarrow> tacho_channel option result" where
  "build_channel c line_name = (case line_name of
     None \<Rightarrow> Inr None
   | Some l \<Rightarrow> rbind (new_channel l (tc_timeout_seconds c) (tc_averaging_periods c)) (\<lambda>ch. Inr (Some ch)))"

definition new_tacho_monitor :: "tacho_monitor_config \<Rightarrow> tacho_monitor result" where
  "new_tacho_monitor c =
     rbind (build_channel c (tc_supply_line_name c)) (\<lambda>s.
     rbind (build_channel c (tc_extract_line_name c)) (\<lambda>e.
       Inr \<lparr>mon_config = c, mon_supply = s, mon_extract = e\<rparr>))"

definition optional_state :: "py_float \<Rightarrow> tacho_channel option \<Rightarrow> fan_tacho_state option result" where
  "optional_state now ch = (case ch of None \<Rightarrow> Inr None | Some c \<Rightarrow> rbind (channel_state now c) (\<lambda>st. Inr (Some st)))"

definition monitor_state :: "py_float \<Rightarrow> py_float \<Rightarrow> tacho_monitor \<Rightarrow> tacho_monitor_state result" where
  "monitor_state now_supply now_extract m =
     (let channels = (case mon_supply m of None \<Rightarrow> [] | Some c \<Rightarrow> [c]) @ (case mon_extract m of None \<Rightarrow> [] | Some c \<Rightarrow> [c]);
          err = (\<lambda>label ch. case ch of None \<Rightarrow> [] | Some c \<Rightarrow>
                   (case ch_last_error c of None \<Rightarrow> [] | Some e \<Rightarrow> if e = '''' then [] else [label @ e]));
          errors = err ''SUPPLY: '' (mon_supply m) @ err ''EXTRACT: '' (mon_extract m)
      in rbind (optional_state now_supply (mon_supply m)) (\<lambda>supply.
         rbind (optional_state now_extract (mon_extract m)) (\<lambda>extract.
           Inr \<lparr>tm_chip_path = tc_chip_path (mon_config m), tm_ready = list_all ch_ready channels,
             tm_worker_alive = list_all channel_alive channels,
             tm_last_error = (if errors \<noteq> [] then Some (join ''; '' errors) else None),
             tm_supply = supply, tm_extract = extract\<rparr>)))"

definition monitor_health_check :: "tacho_monitor \<Rightarrow> tacho_monitor" where
  "monitor_health_check m = m\<lparr>mon_supply := map_option channel_health_check (mon_supply m),
     mon_extract := map_option channel_health_check (mon_extract m)\<rparr>"

definition monitor_close :: "tacho_monitor \<Rightarrow> tacho_monitor" where
  "monitor_close m = m\<lparr>mon_supply := map_option channel_close (mon_supply m),
     mon_extract := map_option channel_close (mon_extract m)\<rparr>"

subsection \<open>Bounds on the readings\<close>

text \<open>The estimators that can arise with the default period bounds.\<close>

definition default_estimator :: "int \<Rightarrow> tacho_estimator result" where
  "default_estimator averaging = new_estimator averaging (Fin (1 / 4)) (Fin (round64 (1 / 1000)))"

inductive tacho_run :: "tacho_estimator \<Rightarrow> tacho_estimator \<Rightarrow> bool" for est0 where
  run_start: "tacho_run est0 est0"
| run_edge: "tacho_run est0 est \<Longrightarrow> tacho_run est0 (fst (estimator_add_edge t est))"
| run_reset: "tacho_run est0 est \<Longrightarrow> tacho_run est0 (estimator_reset est)"

definition period_ok :: "py_float \<Rightarrow> bool" where
  "period_ok p = (\<exists>x. p = Fin x \<and> 1 / 1024 \<le> x \<and> x \<le> 1 / 4)"

definition estimator_ok :: "nat \<Rightarrow> tacho_estimator \<Rightarrow> bool" where
  "estimator_ok n est = (te_averaging est = n \<and> 1 \<le> n \<and> length (te_periods est) \<le> n
     \<and> te_timeout est = Fin (1 / 4) \<and> te_minimum_period est = Fin (round64 (1 / 1000))
     \<and> (\<forall>p \<in> set (te_periods est). period_ok p)
     \<and> (\<forall>e. te_last_edge est = Some e \<longrightarrow> is_finite e))"

lemma minimum_period: "1 / 1024 \<le> round64 (1 / 1000)"
  using r64.ge[of 1 10 "1 / 1000"] by simp

lemma deque_append_facts:
  "0 < n \<Longrightarrow> length xs \<le> n \<Longrightarrow> length (deque_append n x xs) \<le> n"
  "p \<in> set (deque_append n x xs) \<Longrightarrow> p = x \<or> p \<in> set xs"
  by (auto simp: deque_append_def dest!: in_set_dropD)

lemma estimator_ok_add_edge:
  assumes "estimator_ok n est"
  shows "estimator_ok n (fst (estimator_add_edge t est))"
proof -
  have p: "period_ok period" if "fle (Fin (round64 (1 / 1000))) period" "\<not> flt (Fin (1 / 4)) period" for period
    using that minimum_period by (cases period) (auto simp: period_ok_def)
  have d: "length (deque_append n x (te_periods est)) \<le> n"
    "q \<in> set (deque_append n x (te_periods est)) \<Longrightarrow> q = x \<or> period_ok q" for x q
    using assms deque_append_facts(1)[of n "te_periods est"] deque_append_facts(2)[where p = q and n = n and x = x and xs = "te_periods est"]
    by (auto simp: estimator_ok_def)
  show ?thesis
    using assms p d
    by (auto simp: estimator_add_edge_def estimator_ok_def Let_def split: option.splits)
qed

lemma tacho_run_ok:
  assumes "tacho_run est0 est" "default_estimator n = Inr est0"
  shows "estimator_ok (nat n) est"
  using assms(1)
proof induction
  case run_start
  from assms(2) show ?case
    by (auto simp: default_estimator_def new_estimator_def estimator_ok_def split: if_splits)
next
  case (run_edge est t)
  from run_edge.IH show ?case by (rule estimator_ok_add_edge)
next
  case (run_reset est)
  then show ?case by (simp add: estimator_ok_def estimator_reset_def)
qed

lemma to_float_between:
  assumes "of_int a / 2 ^ k \<le> x" "x \<le> of_int b / 2 ^ k" "0 \<le> a" "b \<le> 2 ^ 53" "k \<le> 1074"
  shows "\<exists>y. to_float x = Fin y \<and> of_int a / 2 ^ k \<le> y \<and> y \<le> of_int b / 2 ^ k"
proof -
  have ab: "a \<le> b"
  proof -
    have "of_int a / (2::rat) ^ k \<le> of_int b / 2 ^ k" using assms by linarith
    then show ?thesis by (simp add: divide_le_cancel)
  qed
  have "0 \<le> x" using assms by (meson of_int_0_le_iff order_trans zero_le_divide_iff zero_le_numeral zero_le_power)
  moreover have "x \<le> 2 ^ 53"
  proof -
    have "(of_int b :: rat) / 2 ^ k \<le> of_int b"
      using assms(3) ab by (simp add: divide_le_eq mult_le_cancel_left1)
    also have "\<dots> \<le> of_int (2 ^ 53)" using assms(4) by (simp only: of_int_le_iff)
    finally show ?thesis using assms(2) by simp
  qed
  ultimately have "to_float x = Fin (round64 x)" by (intro to_float_small) simp
  moreover have "of_int a / 2 ^ k \<le> round64 x" using assms ab by (intro r64.ge) simp_all
  moreover have "round64 x \<le> of_int b / 2 ^ k" using assms ab by (intro r64.le) simp_all
  ultimately show ?thesis by simp
qed

lemma float_sum_bounds:
  assumes "\<forall>p \<in> set ps. period_ok p" "length ps \<le> 2 ^ 40"
  shows "\<exists>s. float_sum ps = Fin s \<and> of_nat (length ps) / 1024 \<le> s \<and> s \<le> of_nat (length ps) / 4"
  using assms
proof (induction ps rule: rev_induct)
  case (snoc p ps)
  then obtain s where s: "float_sum ps = Fin s" "of_nat (length ps) / 1024 \<le> s" "s \<le> of_nat (length ps) / 4"
    by auto
  from snoc.prems obtain x where x: "p = Fin x" "1 / 1024 \<le> x" "x \<le> 1 / 4"
    by (auto simp: period_ok_def)
  have "\<exists>y. to_float (s + x) = Fin y \<and> of_int (int (Suc (length ps))) / 2 ^ 10 \<le> y
      \<and> y \<le> of_int (256 * int (Suc (length ps))) / 2 ^ 10"
    using s x snoc.prems(2) by (intro to_float_between) (simp_all add: add_divide_distrib)
  with s(1) x(1) show ?case by (auto simp: float_sum_def)
qed (simp add: float_sum_def)

lemma float_inverse_bounds:
  assumes "1 / 1024 \<le> a" "a \<le> 1 / 4"
  shows "\<exists>f. float_inverse (Fin a) = Inr (Fin f) \<and> 4 \<le> f \<and> f \<le> 1024"
proof -
  have "4 \<le> 1 / a" "1 / a \<le> 1024" using assms by (simp_all add: field_simps)
  then have "\<exists>y. to_float (1 / a) = Fin y \<and> of_int 4 / 2 ^ 0 \<le> y \<and> y \<le> of_int 1024 / 2 ^ 0"
    by (intro to_float_between) simp_all
  with assms show ?thesis by (auto simp: float_inverse_def)
qed

lemma valid_reading_bounds:
  assumes "estimator_ok n est" "n \<le> 2 ^ 40" "te_periods est \<noteq> []"
  shows "\<exists>f. float_inverse (fdiv_pos (float_sum (te_periods est)) (of_nat (length (te_periods est)))) = Inr (Fin f)
    \<and> 4 \<le> f \<and> f \<le> 1024"
proof -
  define k where "k = length (te_periods est)"
  have k: "0 < k" "k \<le> 2 ^ 40" using assms by (auto simp: k_def estimator_ok_def)
  from assms float_sum_bounds[of "te_periods est"] obtain s where s: "float_sum (te_periods est) = Fin s"
    "of_nat k / 1024 \<le> s" "s \<le> of_nat k / 4" by (auto simp: estimator_ok_def k_def)
  have "1 / 1024 \<le> s / of_nat k" "s / of_nat k \<le> 1 / 4" using s(2,3) k(1) by (simp_all add: field_simps)
  then have "\<exists>y. to_float (s / of_nat k) = Fin y \<and> of_int 1 / 2 ^ 10 \<le> y \<and> y \<le> of_int 256 / 2 ^ 10"
    by (intro to_float_between) simp_all
  then obtain y where "fdiv_pos (float_sum (te_periods est)) (of_nat k) = Fin y" "1 / 1024 \<le> y" "y \<le> 1 / 4"
    by (auto simp: s(1) fdiv_pos_def)
  with float_inverse_bounds[of y] show ?thesis by (simp add: k_def)
qed

lemma rpm_bounds:
  assumes "4 \<le> f" "f \<le> 1024"
  shows "\<exists>r. fmul_pos (Fin f) RPM_PER_HZ = Fin r \<and> 80 \<le> r \<and> r \<le> 20480"
proof -
  have "\<exists>y. to_float (f * 20) = Fin y \<and> of_int 80 / 2 ^ 0 \<le> y \<and> y \<le> of_int 20480 / 2 ^ 0"
    using assms by (intro to_float_between) simp_all
  then show ?thesis by (simp add: fmul_pos_def RPM_PER_HZ_def)
qed

lemma estimator_read_cases:
  assumes "estimator_ok n est" "n \<le> 2 ^ 40" "is_finite now"
    and "\<forall>e. te_last_edge est = Some e \<longrightarrow> \<not> flt (fsub now e) (Fin 0)"
  shows "\<exists>r. estimator_read now est = Inr r \<and> (tr_valid r \<longrightarrow>
    tr_sample_count r = length (te_periods est) \<and> te_periods est \<noteq> []
    \<and> (\<exists>f rpm a. tr_frequency_hz r = Fin f \<and> 4 \<le> f \<and> f \<le> 1024 \<and> tr_rpm r = Fin rpm \<and> 80 \<le> rpm \<and> rpm \<le> 20480
        \<and> tr_age_seconds r = Some (Fin a) \<and> 0 \<le> a \<and> a \<le> 1 / 4))"
proof (cases "te_last_edge est")
  case None
  with assms(3) show ?thesis by (simp add: estimator_read_def stopped_reading_def)
next
  case (Some e)
  let ?age = "fsub now e"
  have t: "te_timeout est = Fin (1 / 4)" "is_finite e" using assms(1) Some by (simp_all add: estimator_ok_def)
  have age: "\<not> flt ?age (Fin 0)" using assms(4) Some by simp
  show ?thesis
  proof (cases "flt (Fin (1 / 4)) ?age \<or> te_periods est = []")
    case True
    with assms(3) Some t age show ?thesis by (simp add: estimator_read_def Let_def stopped_reading_def)
  next
    case False
    have "?age \<noteq> NaN"
    proof -
      obtain x y where "now = Fin x" "e = Fin y" using assms(3) t(2) by (auto simp: is_finite_iff)
      then show ?thesis by (simp add: to_float_def Let_def)
    qed
    with False age obtain a where a: "?age = Fin a" "0 \<le> a" "a \<le> 1 / 4" by (cases ?age) auto
    from valid_reading_bounds[OF assms(1,2)] False obtain f where
      f: "float_inverse (fdiv_pos (float_sum (te_periods est)) (of_nat (length (te_periods est)))) = Inr (Fin f)"
      "4 \<le> f" "f \<le> 1024" by blast
    from rpm_bounds[OF f(2,3)] obtain r where "fmul_pos (Fin f) RPM_PER_HZ = Fin r" "80 \<le> r" "r \<le> 20480" by blast
    with assms(3) Some t age False a f show ?thesis by (simp add: estimator_read_def Let_def)
  qed
qed

subsection \<open>Properties\<close>

text \<open>C10: Readings of the fan speed. After any sequence of edges and resets of an estimator with the
  default period bounds, reading at a finite time that does not precede the last edge returns, and a
  valid reading averages at least one and at most the configured number of periods, is at most a
  quarter of a second old, and its frequency is between 4 and 1024 Hz, its speed between 80 and
  20480 RPM.\<close>

theorem tacho_reading_bounds:
  assumes "default_estimator averaging = Inr est0" "averaging \<le> 2 ^ 40" "tacho_run est0 est"
    and "is_finite now" "\<forall>e. te_last_edge est = Some e \<longrightarrow> \<not> flt (fsub now e) (Fin 0)"
  shows "\<exists>r. estimator_read now est = Inr r \<and> (tr_valid r \<longrightarrow>
    1 \<le> tr_sample_count r \<and> int (tr_sample_count r) \<le> averaging
    \<and> (\<exists>f rpm a. tr_frequency_hz r = Fin f \<and> 4 \<le> f \<and> f \<le> 1024 \<and> tr_rpm r = Fin rpm \<and> 80 \<le> rpm \<and> rpm \<le> 20480
        \<and> tr_age_seconds r = Some (Fin a) \<and> 0 \<le> a \<and> a \<le> 1 / 4))"
proof -
  note ok = tacho_run_ok[OF assms(3,1)]
  have n: "nat averaging \<le> 2 ^ 40" using assms(2) by (simp add: nat_le_iff)
  from ok have "length (te_periods est) \<le> nat averaging" "1 \<le> nat averaging" by (simp_all add: estimator_ok_def)
  with estimator_read_cases[OF ok n assms(4,5)] show ?thesis by (fastforce simp: Suc_le_eq)
qed

theorem tacho_reading_bounds_witness:
  "\<exists>est0 r. default_estimator 6 = Inr est0 \<and> estimator_read (Fin 1) (fst (estimator_add_edge (Fin 1) est0)) = Inr r"
proof -
  obtain est0 where d: "default_estimator 6 = Inr est0"
    using minimum_period by (auto simp: default_estimator_def new_estimator_def)
  then have "te_last_edge (fst (estimator_add_edge (Fin 1) est0)) = Some (Fin 1)"
    using minimum_period
    by (auto simp: default_estimator_def new_estimator_def estimator_add_edge_def Let_def split: if_splits)
  moreover have "\<not> flt (fsub (Fin 1) (Fin 1)) (Fin 0)" by code_simp
  ultimately show ?thesis
    using tacho_reading_bounds[OF d _ run_edge[OF run_start], of "Fin 1" "Fin 1"] d by auto
qed

text \<open>Edges. On any estimator that can arise, an edge is refused, and the estimator left as it
  was, exactly when its time is not finite or not after the last edge; otherwise it becomes the last
  edge and a reading is returned (no division by zero can occur).\<close>

theorem tacho_edge_accepted:
  assumes "default_estimator averaging = Inr est0" "averaging \<le> 2 ^ 40" "tacho_run est0 est"
    and "estimator_add_edge t est = (est', r)"
  shows "if is_finite t \<and> (\<forall>e. te_last_edge est = Some e \<longrightarrow> \<not> fle (fsub t e) (Fin 0))
    then is_ok r \<and> te_last_edge est' = Some t
    else est' = est \<and> (\<exists>m. r = Inl (ValueError m))"
proof -
  note ok = tacho_run_ok[OF assms(3,1)]
  have n: "nat averaging \<le> 2 ^ 40" using assms(2) by (simp add: nat_le_iff)
  have ok': "estimator_ok (nat averaging) est'" using estimator_ok_add_edge[OF ok, of t] assms(4) by simp
  show ?thesis
  proof (cases "is_finite t \<and> (\<forall>e. te_last_edge est = Some e \<longrightarrow> \<not> fle (fsub t e) (Fin 0))")
    case True
    then have last: "te_last_edge est' = Some t" and r: "is_ok r \<or> r = estimator_read t est'"
      using assms(4) by (auto simp: estimator_add_edge_def Let_def split: option.splits if_splits)
    obtain x where "t = Fin x" using True by (auto simp: is_finite_iff)
    then have "\<not> flt (fsub t t) (Fin 0)" by (simp add: to_float_small)
    with estimator_read_cases[OF ok' n conjunct1[OF True]] last have "is_ok (estimator_read t est')"
      by (auto simp: is_ok_iff)
    with True last r show ?thesis by auto
  next
    case False
    with assms(4) show ?thesis
      by (auto simp: estimator_add_edge_def Let_def split: option.splits if_splits)
  qed
qed

theorem tacho_edge_accepted_witness:
  "\<exists>est0 r. default_estimator 6 = Inr est0 \<and> snd (estimator_add_edge (Fin 1) est0) = r \<and> is_ok r"
proof -
  obtain est0 where d: "default_estimator 6 = Inr est0"
    using minimum_period by (auto simp: default_estimator_def new_estimator_def)
  then have "te_last_edge est0 = None"
    using minimum_period by (auto simp: default_estimator_def new_estimator_def split: if_splits)
  with tacho_edge_accepted[OF d _ run_start prod.collapse[symmetric], of "Fin 1"] d show ?thesis by auto
qed

end
