(* ===== verification/PyValue.thy ===== *)
theory PyValue
  imports Binary64
begin

section \<open>Values of unknown type\<close>

text \<open>
  What arrives from a JSON request or a TOML file before it has been checked. \<open>bool\<close> is a subclass
  of \<open>int\<close> in Python, and equality compares numbers across types: \<open>True == 1 == 1.0\<close>.
\<close>

datatype py_value =
    VNone
  | VBool bool
  | VInt int
  | VFloat py_float
  | VStr string
  | VList "py_value list"
  | VDict "(string \<times> py_value) list"

text \<open>The number behind a value, for the comparison of numbers.\<close>

fun py_number :: "py_value \<Rightarrow> py_float option" where
  "py_number (VBool b) = Some (Fin (if b then 1 else 0))"
| "py_number (VInt i) = Some (Fin (of_int i))"
| "py_number (VFloat f) = Some f"
| "py_number _ = None"

text \<open>\<open>v == w\<close> for values without containers on one side, the only comparisons the code makes.\<close>

definition py_eq :: "py_value \<Rightarrow> py_value \<Rightarrow> bool" where
  "py_eq v w =
     (case (py_number v, py_number w) of
        (Some a, Some b) \<Rightarrow> feq a b
      | (None, None) \<Rightarrow> v = w
      | _ \<Rightarrow> False)"

definition is_int :: "py_value \<Rightarrow> bool" where
  "is_int v = (case v of VInt _ \<Rightarrow> True | VBool _ \<Rightarrow> True | _ \<Rightarrow> False)"

definition is_bool :: "py_value \<Rightarrow> bool" where
  "is_bool v = (case v of VBool _ \<Rightarrow> True | _ \<Rightarrow> False)"

definition is_str :: "py_value \<Rightarrow> bool" where
  "is_str v = (case v of VStr _ \<Rightarrow> True | _ \<Rightarrow> False)"

definition is_dict :: "py_value \<Rightarrow> bool" where
  "is_dict v = (case v of VDict _ \<Rightarrow> True | _ \<Rightarrow> False)"

text \<open>\<open>d.get(key)\<close> with a default of \<open>None\<close>.\<close>

definition vget :: "(string \<times> py_value) list \<Rightarrow> string \<Rightarrow> py_value" where
  "vget d k = dict_get d k VNone"

definition is_list :: "py_value \<Rightarrow> bool" where
  "is_list v = (case v of VList _ \<Rightarrow> True | _ \<Rightarrow> False)"

text \<open>Lists and dictionaries cannot be looked up in a set.\<close>

definition is_hashable :: "py_value \<Rightarrow> bool" where
  "is_hashable v = (case v of VList _ \<Rightarrow> False | VDict _ \<Rightarrow> False | _ \<Rightarrow> True)"

text \<open>\<open>bool(v)\<close>.\<close>

definition py_truthy :: "py_value \<Rightarrow> bool" where
  "py_truthy v = (case v of VNone \<Rightarrow> False | VBool b \<Rightarrow> b | VInt i \<Rightarrow> i \<noteq> 0 | VFloat f \<Rightarrow> \<not> feq f (Fin 0)
     | VStr s \<Rightarrow> s \<noteq> [] | VList vs \<Rightarrow> vs \<noteq> [] | VDict d \<Rightarrow> d \<noteq> [])"

text \<open>\<open>repr(s)\<close>; characters outside ASCII are taken as printable.\<close>

definition repr_char :: "char \<Rightarrow> char \<Rightarrow> string" where
  "repr_char quote c = (let n = (of_char c :: int) in
     if c = CHR 0x5C \<or> c = quote then [CHR 0x5C, c]
     else if n = 9 then [CHR 0x5C, CHR ''t''] else if n = 10 then [CHR 0x5C, CHR ''n'']
     else if n = 13 then [CHR 0x5C, CHR ''r'']
     else if n < 32 \<or> n = 127 then CHR 0x5C # CHR ''x'' # hex_lower 2 n
     else [c])"

definition py_repr_str :: "string \<Rightarrow> string" where
  "py_repr_str s =
     (let quote = (if CHR 0x27 \<in> set s \<and> CHR 0x22 \<notin> set s then CHR 0x22 else CHR 0x27)
      in [quote] @ concat (map (repr_char quote) s) @ [quote])"

text \<open>The ASCII characters that \<open>str.strip\<close> removes.\<close>

definition is_space_char :: "char \<Rightarrow> bool" where
  "is_space_char c = (let n = (of_char c :: nat) in 9 \<le> n \<and> n \<le> 13 \<or> 28 \<le> n \<and> n \<le> 32)"

definition py_strip :: "string \<Rightarrow> string" where
  "py_strip s = rev (dropWhile is_space_char (rev (dropWhile is_space_char s)))"

end
