(* ===== verification/Schedule.thy ===== *)
theory Schedule
  imports PyValue "HOL-Library.Product_Lexorder"
begin

section \<open>Weekly schedule windows\<close>

text \<open>
  Models \<open>domain/schedule.py\<close>. Times of day are minutes, a window is one interval of the week that
  may run past midnight, also from Sunday into Monday. The conversion of an instant to local time
  (\<open>astimezone(ZoneInfo(...))\<close>) needs the time-zone database: an instant carries it as a function of
  the zone's name. Text is ASCII where the code asks for digits or strips blanks.
\<close>

definition SCHEDULE_TIMEZONE :: string where "SCHEDULE_TIMEZONE = ''Europe/Warsaw''"
definition MINUTES_PER_DAY :: int where "MINUTES_PER_DAY = 24 * 60"
definition MINUTES_PER_WEEK :: int where "MINUTES_PER_WEEK = 7 * MINUTES_PER_DAY"

lemma minutes: "MINUTES_PER_DAY = 1440" "MINUTES_PER_WEEK = 10080"
  by (simp_all add: MINUTES_PER_DAY_def MINUTES_PER_WEEK_def)

datatype schedule_expectation = SE_UNKNOWN | SE_OCCUPIED_EXPECTED | SE_UNOCCUPIED_EXPECTED

fun expectation_value :: "schedule_expectation \<Rightarrow> string" where
  "expectation_value SE_UNKNOWN = ''UNKNOWN''"
| "expectation_value SE_OCCUPIED_EXPECTED = ''OCCUPIED_EXPECTED''"
| "expectation_value SE_UNOCCUPIED_EXPECTED = ''UNOCCUPIED_EXPECTED''"

definition parse_expectation :: "string \<Rightarrow> schedule_expectation option" where
  "parse_expectation s = find (\<lambda>e. expectation_value e = s) [SE_UNKNOWN, SE_OCCUPIED_EXPECTED, SE_UNOCCUPIED_EXPECTED]"

definition parse_local_time :: "py_value \<Rightarrow> int result" where
  "parse_local_time v = (case v of
     VStr s \<Rightarrow>
       let parts = split_on CHR '':'' s
       in if length parts \<noteq> 2 \<or> (\<exists>part \<in> set parts. py_len part \<noteq> 2 \<or> \<not> list_all is_digit_char part)
          then Inl (ValueError ''Local schedule time must use HH:MM format'')
          else let hour = digits_value (parts ! 0); minute = digits_value (parts ! 1)
               in if \<not> (0 \<le> hour \<and> hour \<le> 23) \<or> \<not> (0 \<le> minute \<and> minute \<le> 59)
                  then Inl (ValueError ''Local schedule time is outside 00:00..23:59'')
                  else Inr (hour * 60 + minute)
   | _ \<Rightarrow> Inl (ValueError ''Local schedule time must be HH:MM text''))"

definition format_local_time :: "int \<Rightarrow> string result" where
  "format_local_time minutes =
     (if \<not> (0 \<le> minutes \<and> minutes < MINUTES_PER_DAY)
      then Inl (ValueError ''Schedule minute must be in range 0..1439'')
      else Inr (show_width digit_char 10 2 (nat (minutes div 60)) @ '':''
             @ show_width digit_char 10 2 (nat (minutes mod 60))))"

record schedule_window =
  sw_zone :: string
  sw_weekday :: int
  sw_start_minute :: int
  sw_end_minute :: int
  sw_expectation :: schedule_expectation
  sw_enabled :: bool
  sw_label :: string
  sw_window_id :: "int option"

text \<open>\<open>ScheduleWindow.__post_init__\<close>; the weekday, the flag and the label come unchecked from a
  request.\<close>

definition new_schedule_window :: "string \<Rightarrow> py_value \<Rightarrow> int \<Rightarrow> int \<Rightarrow> schedule_expectation \<Rightarrow> py_value \<Rightarrow>
    py_value \<Rightarrow> int option \<Rightarrow> schedule_window result" where
  "new_schedule_window zone weekday start_minute end_minute expectation enabled label window_id =
     (let stripped = py_strip zone
      in if stripped = [] \<or> py_len stripped > 64
         then Inl (ValueError ''Schedule zone must be non-empty and at most 64 characters'')
         else if stripped \<noteq> zone
         then Inl (ValueError ''Schedule zone must not contain surrounding whitespace'')
         else case weekday of
           VInt day \<Rightarrow>
             if \<not> (1 \<le> day \<and> day \<le> 7)
             then Inl (ValueError ''Schedule weekday must use ISO range 1..7 (Monday..Sunday)'')
             else if \<not> (0 \<le> start_minute \<and> start_minute < MINUTES_PER_DAY)
             then Inl (ValueError ''start_minute must be in range 0..1439'')
             else if \<not> (0 \<le> end_minute \<and> end_minute < MINUTES_PER_DAY)
             then Inl (ValueError ''end_minute must be in range 0..1439'')
             else if start_minute = end_minute
             then Inl (ValueError ''Schedule window start and end must differ'')
             else if expectation = SE_UNKNOWN
             then Inl (ValueError ''UNKNOWN cannot be stored as a schedule window expectation'')
             else (case enabled of
               VBool on \<Rightarrow>
                 (case label of
                    VStr l \<Rightarrow>
                      if py_len l > 80
                      then Inl (ValueError ''Schedule label must be text up to 80 characters'')
                      else if (\<exists>i. window_id = Some i \<and> i < 1)
                      then Inl (ValueError ''Schedule window_id must be a positive integer or null'')
                      else Inr \<lparr>sw_zone = zone, sw_weekday = day, sw_start_minute = start_minute,
                        sw_end_minute = end_minute, sw_expectation = expectation, sw_enabled = on,
                        sw_label = l, sw_window_id = window_id\<rparr>
                  | _ \<Rightarrow> Inl (ValueError ''Schedule label must be text up to 80 characters''))
             | _ \<Rightarrow> Inl (ValueError ''Schedule enabled flag must be boolean''))
         | _ \<Rightarrow> Inl (ValueError ''Schedule weekday must use ISO range 1..7 (Monday..Sunday)''))"

text \<open>\<open>ScheduleWindow.from_payload\<close>; \<open>str_of\<close> is \<open>str()\<close> of a value that is not text.\<close>

definition window_from_payload :: "(py_value \<Rightarrow> string) \<Rightarrow> string \<Rightarrow> py_value \<Rightarrow> schedule_window result" where
  "window_from_payload str_of zone payload = (case payload of
     VDict d \<Rightarrow>
       (case (map_of d ''weekday'', map_of d ''start_local'', map_of d ''end_local'') of
          (None, _, _) \<Rightarrow> Inl (ValueError ''Missing schedule field: weekday'')
        | (_, None, _) \<Rightarrow> Inl (ValueError ''Missing schedule field: start_local'')
        | (_, _, None) \<Rightarrow> Inl (ValueError ''Missing schedule field: end_local'')
        | (Some weekday, Some start_local, Some end_local) \<Rightarrow>
            (let raw = dict_get d ''expectation'' (VStr (expectation_value SE_OCCUPIED_EXPECTED));
                 text = (case raw of VStr s \<Rightarrow> s | v \<Rightarrow> str_of v)
             in case parse_expectation text of
                  None \<Rightarrow> Inl (ValueError (''Unsupported schedule expectation: '' @ text))
                | Some expectation \<Rightarrow>
                    rbind (parse_local_time start_local) (\<lambda>start_minute.
                    rbind (parse_local_time end_local) (\<lambda>end_minute.
                      new_schedule_window zone weekday start_minute end_minute expectation
                        (dict_get d ''enabled'' (VBool True)) (dict_get d ''label'' (VStr '''')) None))))
   | _ \<Rightarrow> Inl (ValueError ''Each schedule window must be an object''))"

subsection \<open>Matching\<close>

record local_datetime =
  ld_weekday :: int
  ld_hour :: int
  ld_minute :: int
  ld_iso :: string

definition window_matches :: "schedule_window \<Rightarrow> local_datetime \<Rightarrow> bool" where
  "window_matches w dt =
     (if \<not> sw_enabled w then False
      else let minute = ld_hour dt * 60 + ld_minute dt; weekday = ld_weekday dt
           in if sw_end_minute w > sw_start_minute w
              then weekday = sw_weekday w \<and> sw_start_minute w \<le> minute \<and> minute < sw_end_minute w
              else let next_weekday = (if sw_weekday w = 7 then 1 else sw_weekday w + 1)
                   in weekday = sw_weekday w \<and> minute \<ge> sw_start_minute w
                      \<or> weekday = next_weekday \<and> minute < sw_end_minute w)"

definition week_segments :: "schedule_window \<Rightarrow> (int \<times> int) list" where
  "week_segments w =
     (if \<not> sw_enabled w then []
      else let start = (sw_weekday w - 1) * MINUTES_PER_DAY + sw_start_minute w;
               end0 = (sw_weekday w - 1) * MINUTES_PER_DAY + sw_end_minute w;
               end1 = (if sw_end_minute w \<le> sw_start_minute w then end0 + MINUTES_PER_DAY else end0)
           in if end1 \<le> MINUTES_PER_WEEK then [(start, end1)]
              else [(start, MINUTES_PER_WEEK), (0, end1 - MINUTES_PER_WEEK)])"

subsection \<open>Overlap check\<close>

text \<open>\<open>by_zone.setdefault(window.zone, []).append(window)\<close> for each window.\<close>

definition by_zone :: "schedule_window list \<Rightarrow> (string \<times> schedule_window list) list" where
  "by_zone ws = foldl (\<lambda>d w. AList.update (sw_zone w) (dict_get d (sw_zone w) [] @ [w]) d) [] ws"

definition indexed_segments :: "schedule_window list \<Rightarrow> (int \<times> int \<times> nat) list" where
  "indexed_segments ws = concat (map (\<lambda>(i, w). map (\<lambda>(s, e). (s, e, i)) (week_segments w)) (zip [0..<length ws] ws))"

text \<open>The inner loop with its \<open>break\<close>, and the outer one; \<open>True\<close> where the code raises.\<close>

fun overlap_from :: "int \<times> int \<times> nat \<Rightarrow> (int \<times> int \<times> nat) list \<Rightarrow> bool" where
  "overlap_from x [] = False"
| "overlap_from (s, e, i) ((s', e', i') # rest) =
     (if s' \<ge> e then False
      else if i \<noteq> i' \<and> s < e' \<and> s' < e then True
      else overlap_from (s, e, i) rest)"

fun has_overlap :: "(int \<times> int \<times> nat) list \<Rightarrow> bool" where
  "has_overlap [] = False"
| "has_overlap (x # rest) = (overlap_from x rest \<or> has_overlap rest)"

definition validate_windows :: "schedule_window list \<Rightarrow> unit result" where
  "validate_windows ws =
     (case find (\<lambda>(zone, zone_windows). has_overlap (sort (indexed_segments zone_windows))) (by_zone ws) of
        None \<Rightarrow> Inr ()
      | Some (zone, _) \<Rightarrow> Inl (ValueError (''Overlapping enabled schedule windows for zone '' @ zone)))"

subsection \<open>Evaluation\<close>

record zone_schedule_state =
  zs_zone :: string
  zs_expectation :: schedule_expectation
  zs_matched_window_id :: "int option"

record schedule_state =
  ss_available :: bool
  ss_timezone :: string
  ss_evaluated_at_utc :: string
  ss_local_time :: string
  ss_zones :: "zone_schedule_state list"
  ss_last_error :: string

text \<open>An instant: whether it carries a time zone, its ISO text, and its local form in a zone.\<close>

record instant =
  in_aware :: bool
  in_iso :: string
  in_local :: "string \<Rightarrow> local_datetime"

definition unavailable_schedule_state :: "string list \<Rightarrow> string \<Rightarrow> instant \<Rightarrow> string \<Rightarrow> schedule_state" where
  "unavailable_schedule_state zones error now timezone_name =
     \<lparr>ss_available = False, ss_timezone = timezone_name, ss_evaluated_at_utc = in_iso now,
      ss_local_time = ld_iso (in_local now timezone_name),
      ss_zones = map (\<lambda>zone. \<lparr>zs_zone = zone, zs_expectation = SE_UNKNOWN, zs_matched_window_id = None\<rparr>) zones,
      ss_last_error = error\<rparr>"

definition evaluate_zone :: "schedule_window list \<Rightarrow> local_datetime \<Rightarrow> string \<Rightarrow> zone_schedule_state result" where
  "evaluate_zone ws local zone =
     (case filter (\<lambda>w. sw_zone w = zone \<and> window_matches w local) ws of
        [] \<Rightarrow> Inr \<lparr>zs_zone = zone, zs_expectation = SE_UNOCCUPIED_EXPECTED, zs_matched_window_id = None\<rparr>
      | [w] \<Rightarrow> Inr \<lparr>zs_zone = zone, zs_expectation = sw_expectation w, zs_matched_window_id = sw_window_id w\<rparr>
      | _ \<Rightarrow> Inl (ValueError (''Multiple schedule windows match zone '' @ zone)))"

definition evaluate_schedule :: "schedule_window list \<Rightarrow> string list \<Rightarrow> instant \<Rightarrow> string \<Rightarrow> schedule_state result" where
  "evaluate_schedule ws zones now timezone_name =
     rbind (validate_windows ws) (\<lambda>_.
     if \<not> in_aware now then Inl (ValueError ''Schedule evaluation requires timezone-aware UTC time'')
     else let local = in_local now timezone_name
          in rbind (map_result (evaluate_zone ws local) zones) (\<lambda>states.
             Inr \<lparr>ss_available = True, ss_timezone = timezone_name, ss_evaluated_at_utc = in_iso now,
               ss_local_time = ld_iso local, ss_zones = states, ss_last_error = ''''\<rparr>))"

subsection \<open>Windows as sets of minutes of the week\<close>

text \<open>The windows that can exist, and the local times that can.\<close>

definition window_wf :: "schedule_window \<Rightarrow> bool" where
  "window_wf w = (1 \<le> sw_weekday w \<and> sw_weekday w \<le> 7 \<and> 0 \<le> sw_start_minute w \<and> sw_start_minute w < 1440
     \<and> 0 \<le> sw_end_minute w \<and> sw_end_minute w < 1440 \<and> sw_start_minute w \<noteq> sw_end_minute w
     \<and> sw_expectation w \<noteq> SE_UNKNOWN)"

lemma new_schedule_window_wf:
  "new_schedule_window z d s e x en l i = Inr w \<Longrightarrow> window_wf w"
  by (auto simp: new_schedule_window_def window_wf_def minutes Let_def split: py_value.splits if_splits)

definition local_ok :: "local_datetime \<Rightarrow> bool" where
  "local_ok dt = (1 \<le> ld_weekday dt \<and> ld_weekday dt \<le> 7 \<and> 0 \<le> ld_hour dt \<and> ld_hour dt < 24
     \<and> 0 \<le> ld_minute dt \<and> ld_minute dt < 60)"

definition minute_of_week :: "local_datetime \<Rightarrow> int" where
  "minute_of_week dt = (ld_weekday dt - 1) * 1440 + ld_hour dt * 60 + ld_minute dt"

definition in_segment :: "int \<Rightarrow> int \<times> int \<Rightarrow> bool" where
  "in_segment t seg = (fst seg \<le> t \<and> t < snd seg)"

lemma week_segments_wf:
  assumes "window_wf w" "seg \<in> set (week_segments w)"
  shows "0 \<le> fst seg" "fst seg < snd seg" "snd seg \<le> 10080"
proof -
  have d: "0 \<le> (sw_weekday w - 1) * 1440" "(sw_weekday w - 1) * 1440 \<le> 6 * 1440"
    using assms(1) by (auto simp: window_wf_def)
  then show "0 \<le> fst seg" "fst seg < snd seg" "snd seg \<le> 10080"
    using assms by (auto simp: week_segments_def minutes window_wf_def Let_def split: if_splits)
qed

lemma day_minute_order:
  fixes a b m n :: int
  assumes "0 \<le> m" "m < 1440" "0 \<le> n" "n < 1440"
  shows "a * 1440 + m \<le> b * 1440 + n \<longleftrightarrow> a < b \<or> a = b \<and> m \<le> n"
    and "a * 1440 + m < b * 1440 + n \<longleftrightarrow> a < b \<or> a = b \<and> m < n"
  using assms by (cases a b rule: linorder_cases; linarith)+

lemma window_matches_segments:
  assumes "window_wf w" "local_ok dt"
  shows "window_matches w dt \<longleftrightarrow> (\<exists>seg \<in> set (week_segments w). in_segment (minute_of_week dt) seg)"
proof -
  define m where "m = ld_hour dt * 60 + ld_minute dt"
  define a where "a = ld_weekday dt - 1"
  define b where "b = sw_weekday w - 1"
  have m: "0 \<le> m" "m < 1440" "0 \<le> a" "a \<le> 6" using assms(2) by (auto simp: m_def a_def local_ok_def)
  have wf: "0 \<le> b" "b \<le> 6" "0 \<le> sw_start_minute w" "sw_start_minute w < 1440"
    "0 \<le> sw_end_minute w" "sw_end_minute w < 1440"
    using assms(1) by (auto simp: b_def window_wf_def)
  have t: "minute_of_week dt = a * 1440 + m" by (simp add: minute_of_week_def m_def a_def)
  have day: "ld_weekday dt = a + 1" "sw_weekday w = b + 1" by (simp_all add: a_def b_def)
  have week: "a * 1440 + m < 10080" using m by linarith
  note order = day_minute_order[OF m(1,2) wf(3,4)] day_minute_order[OF wf(3,4) m(1,2)]
    day_minute_order[OF m(1,2) wf(5,6)] day_minute_order[OF wf(5,6) m(1,2)]
  consider "\<not> sw_enabled w" | "sw_enabled w" "sw_end_minute w > sw_start_minute w"
    | "sw_enabled w" "\<not> sw_end_minute w > sw_start_minute w" "b = 6"
    | "sw_enabled w" "\<not> sw_end_minute w > sw_start_minute w" "b < 6"
    using wf by linarith
  then show ?thesis
  proof cases
    case 1
    then show ?thesis by (simp add: window_matches_def week_segments_def)
  next
    case 2
    then have "week_segments w = [(b * 1440 + sw_start_minute w, b * 1440 + sw_end_minute w)]"
      using wf by (simp add: week_segments_def Let_def minutes b_def)
    with 2 show ?thesis
      unfolding t in_segment_def window_matches_def Let_def m_def[symmetric] day
      using order(2,3,6) by (auto simp: order)
  next
    case 3
    then have seg: "week_segments w = (if sw_end_minute w = 0 then [(6 * 1440 + sw_start_minute w, 10080)]
        else [(6 * 1440 + sw_start_minute w, 10080), (0, sw_end_minute w)])"
      using wf by (simp add: week_segments_def Let_def minutes day)
    have "a * 1440 + m < sw_end_minute w \<longleftrightarrow> a = 0 \<and> m < sw_end_minute w"
      using day_minute_order(2)[OF m(1,2) wf(5,6), of a 0] m by auto
    moreover have "6 * 1440 + sw_start_minute w \<le> a * 1440 + m \<longleftrightarrow> a = 6 \<and> sw_start_minute w \<le> m"
      using order(3)[of 6 a] m by auto
    ultimately show ?thesis
      unfolding t in_segment_def window_matches_def Let_def m_def[symmetric] day seg
      using 3 m week wf by auto
  next
    case 4
    then have seg: "week_segments w = [(b * 1440 + sw_start_minute w, (b + 1) * 1440 + sw_end_minute w)]"
      using wf by (simp add: week_segments_def Let_def minutes day)
    have "a * 1440 + m < (b + 1) * 1440 + sw_end_minute w \<longleftrightarrow> a \<le> b \<or> a = b + 1 \<and> m < sw_end_minute w"
      using day_minute_order(2)[OF m(1,2) wf(5,6), of a "b + 1"] by auto
    then show ?thesis
      unfolding t in_segment_def window_matches_def Let_def m_def[symmetric] day seg
      using 4 order(3)[of b a] by auto
  qed
qed

text \<open>Every minute of the week is a local time.\<close>

lemma minute_of_week_surj:
  assumes "0 \<le> t" "t < 10080"
  shows "\<exists>dt. local_ok dt \<and> minute_of_week dt = t"
proof -
  define dt where "dt = \<lparr>ld_weekday = t div 1440 + 1, ld_hour = t mod 1440 div 60,
    ld_minute = t mod 1440 mod 60, ld_iso = ''''\<rparr>"
  have d: "0 \<le> t div 1440" "t div 1440 < 7" using assms by simp_all
  have r: "0 \<le> t mod 1440" "t mod 1440 < 1440" by simp_all
  have "0 \<le> t mod 1440 div 60" "t mod 1440 div 60 < 24" using r by linarith+
  with d have "local_ok dt" by (simp add: local_ok_def dt_def)
  moreover have "minute_of_week dt = t" by (simp add: minute_of_week_def dt_def)
  ultimately show ?thesis by blast
qed

subsection \<open>The overlap check\<close>

definition conflict :: "int \<times> int \<times> nat \<Rightarrow> int \<times> int \<times> nat \<Rightarrow> bool" where
  "conflict x y = (snd (snd x) \<noteq> snd (snd y) \<and> fst x < fst (snd y) \<and> fst y < fst (snd x))"

lemma conflict_sym: "conflict x y \<longleftrightarrow> conflict y x"
  by (auto simp: conflict_def)

lemma overlap_from_iff:
  "sorted (map fst (x # ys)) \<Longrightarrow> overlap_from x ys \<longleftrightarrow> (\<exists>y \<in> set ys. conflict x y)"
proof (induction x ys rule: overlap_from.induct)
  case (2 s e i s' e' i' rest)
  show ?case
  proof (cases "s' \<ge> e")
    case True
    with 2(2) have "\<forall>y \<in> set ((s', e', i') # rest). \<not> conflict (s, e, i) y"
      by (force simp: conflict_def)
    with True show ?thesis by auto
  next
    case False
    with 2 show ?thesis by (auto simp: conflict_def)
  qed
qed simp

lemma has_overlap_iff:
  "sorted (map fst xs) \<Longrightarrow> has_overlap xs \<longleftrightarrow> (\<exists>x \<in> set xs. \<exists>y \<in> set xs. conflict x y)"
proof (induction xs)
  case (Cons x xs)
  have "\<not> conflict x x" by (simp add: conflict_def)
  with Cons overlap_from_iff[OF Cons.prems] conflict_sym show ?case by fastforce
qed simp

lemma sorted_fst: "sorted (xs :: (int \<times> int \<times> nat) list) \<Longrightarrow> sorted (map fst xs)"
proof (induction xs)
  case (Cons x xs)
  then have "\<forall>y \<in> set xs. fst x \<le> fst y" by (cases x) (auto simp: less_eq_prod_def)
  with Cons show ?case by simp
qed simp

lemma in_indexed_segments:
  "(s, e, i) \<in> set (indexed_segments ws) \<longleftrightarrow> i < length ws \<and> (s, e) \<in> set (week_segments (ws ! i))"
  by (force simp: indexed_segments_def in_set_zip)

lemma check_iff:
  "has_overlap (sort (indexed_segments ws)) \<longleftrightarrow>
   (\<exists>i < length ws. \<exists>j < length ws. i \<noteq> j \<and> (\<exists>a \<in> set (week_segments (ws ! i)). \<exists>b \<in> set (week_segments (ws ! j)).
      fst a < snd b \<and> fst b < snd a))"
  (is "_ = ?pairs")
proof -
  have "has_overlap (sort (indexed_segments ws)) \<longleftrightarrow>
      (\<exists>x \<in> set (indexed_segments ws). \<exists>y \<in> set (indexed_segments ws). conflict x y)"
    by (subst has_overlap_iff) (simp_all add: sorted_fst)
  also have "\<dots> \<longleftrightarrow> ?pairs"
    by (simp add: conflict_def Bex_def split_paired_Ex in_indexed_segments) blast
  finally show ?thesis .
qed

lemma by_zone_snoc:
  "by_zone (ws @ [w]) = AList.update (sw_zone w) (dict_get (by_zone ws) (sw_zone w) [] @ [w]) (by_zone ws)"
  by (simp add: by_zone_def)

lemma dict_get_by_zone: "dict_get (by_zone ws) z [] = filter (\<lambda>w. sw_zone w = z) ws"
  by (induction ws rule: rev_induct) (auto simp: by_zone_snoc, simp add: by_zone_def dict_get_def)

lemma distinct_by_zone: "distinct (map fst (by_zone ws))"
  by (induction ws rule: rev_induct) (simp_all add: by_zone_snoc distinct_update, simp add: by_zone_def)

lemma in_by_zone: "(z, l) \<in> set (by_zone ws) \<Longrightarrow> l = filter (\<lambda>w. sw_zone w = z) ws"
  using dict_get_by_zone[of ws z] distinct_by_zone[of ws] by (simp add: dict_get_def)

lemma keys_by_zone: "fst ` set (by_zone ws) = sw_zone ` set ws"
  by (induction ws rule: rev_induct) (auto simp: by_zone_snoc dom_update, simp_all add: by_zone_def)

lemma validate_windows_iff:
  "validate_windows ws = Inr () \<longleftrightarrow>
   (\<forall>z. \<not> has_overlap (sort (indexed_segments (filter (\<lambda>w. sw_zone w = z) ws))))"
proof -
  have empty: "\<not> has_overlap (sort (indexed_segments []))" by (simp add: indexed_segments_def)
  have "validate_windows ws = Inr () \<longleftrightarrow>
      (\<forall>(z, l) \<in> set (by_zone ws). \<not> has_overlap (sort (indexed_segments l)))"
    by (auto simp: validate_windows_def find_None_iff split: option.splits dest!: find_Some_mem)
  also have "\<dots> \<longleftrightarrow> (\<forall>z \<in> sw_zone ` set ws. \<not> has_overlap (sort (indexed_segments (filter (\<lambda>w. sw_zone w = z) ws))))"
    using in_by_zone[of _ _ ws] by (force simp flip: keys_by_zone)
  also have "\<dots> \<longleftrightarrow> (\<forall>z. \<not> has_overlap (sort (indexed_segments (filter (\<lambda>w. sw_zone w = z) ws))))"
    using empty by (metis (mono_tags, lifting) filter_False image_eqI)
  finally show ?thesis .
qed

lemma two_matches:
  "1 < length (filter P xs) \<longleftrightarrow> (\<exists>i < length xs. \<exists>j < length xs. i \<noteq> j \<and> P (xs ! i) \<and> P (xs ! j))"
proof -
  have "length (filter P xs) = card {i. i < length xs \<and> P (xs ! i)}" by (rule length_filter_conv_card)
  moreover have "finite {i. i < length xs \<and> P (xs ! i)}" by simp
  ultimately show ?thesis using card_le_Suc0_iff_eq[of "{i. i < length xs \<and> P (xs ! i)}"]
    by (auto simp: not_le[symmetric])
qed

lemma overlap_iff_two_match:
  assumes "\<forall>w \<in> set ws. window_wf w"
  shows "has_overlap (sort (indexed_segments ws)) \<longleftrightarrow>
    (\<exists>dt. local_ok dt \<and> 1 < length (filter (\<lambda>w. window_matches w dt) ws))"
proof
  assume "has_overlap (sort (indexed_segments ws))"
  then obtain i j a b where ij: "i < length ws" "j < length ws" "i \<noteq> j"
    "a \<in> set (week_segments (ws ! i))" "b \<in> set (week_segments (ws ! j))" "fst a < snd b" "fst b < snd a"
    by (auto simp: check_iff)
  have wf: "window_wf (ws ! i)" "window_wf (ws ! j)" using assms ij by simp_all
  define t where "t = max (fst a) (fst b)"
  have "0 \<le> t" "t < 10080" "in_segment t a" "in_segment t b"
    using week_segments_wf[OF wf(1) ij(4)] week_segments_wf[OF wf(2) ij(5)] ij(6,7)
    by (auto simp: t_def in_segment_def)
  with minute_of_week_surj obtain dt where dt: "local_ok dt" "minute_of_week dt = t" by blast
  have "window_matches (ws ! i) dt" "window_matches (ws ! j) dt"
    using window_matches_segments[OF wf(1) dt(1)] window_matches_segments[OF wf(2) dt(1)] ij dt(2)
      \<open>in_segment t a\<close> \<open>in_segment t b\<close> by auto
  with ij dt(1) show "\<exists>dt. local_ok dt \<and> 1 < length (filter (\<lambda>w. window_matches w dt) ws)"
    unfolding two_matches by blast
next
  assume "\<exists>dt. local_ok dt \<and> 1 < length (filter (\<lambda>w. window_matches w dt) ws)"
  then obtain dt i j where ij: "local_ok dt" "i < length ws" "j < length ws" "i \<noteq> j"
    "window_matches (ws ! i) dt" "window_matches (ws ! j) dt"
    unfolding two_matches by blast
  have wf: "window_wf (ws ! i)" "window_wf (ws ! j)" using assms ij by simp_all
  obtain a b where "a \<in> set (week_segments (ws ! i))" "in_segment (minute_of_week dt) a"
    "b \<in> set (week_segments (ws ! j))" "in_segment (minute_of_week dt) b"
    using window_matches_segments[OF wf(1) ij(1)] window_matches_segments[OF wf(2) ij(1)] ij(5,6) by blast
  then have "fst a < snd b \<and> fst b < snd a" by (auto simp: in_segment_def)
  with \<open>a \<in> _\<close> \<open>b \<in> _\<close> ij(2-4) show "has_overlap (sort (indexed_segments ws))"
    unfolding check_iff by blast
qed

lemma validate_windows_unique:
  assumes "\<forall>w \<in> set ws. window_wf w"
  shows "validate_windows ws = Inr () \<longleftrightarrow>
    (\<forall>z dt. local_ok dt \<longrightarrow> length (filter (\<lambda>w. sw_zone w = z \<and> window_matches w dt) ws) \<le> 1)"
proof -
  have "filter (\<lambda>w. window_matches w dt) (filter (\<lambda>w. sw_zone w = z) ws)
      = filter (\<lambda>w. sw_zone w = z \<and> window_matches w dt) ws" for z dt
    by (simp add: conj_commute)
  then show ?thesis
    unfolding validate_windows_iff
    using assms overlap_iff_two_match[of "filter (\<lambda>w. sw_zone w = z) ws" for z]
    by (simp add: not_less)
qed

lemma evaluate_zone_ok:
  assumes "length (filter (\<lambda>w. sw_zone w = z \<and> window_matches w dt) ws) \<le> 1" "\<forall>w \<in> set ws. window_wf w"
  shows "\<exists>st. evaluate_zone ws dt z = Inr st \<and> zs_zone st = z \<and> zs_expectation st \<noteq> SE_UNKNOWN
    \<and> (\<forall>w \<in> set ws. sw_zone w = z \<and> window_matches w dt \<longrightarrow>
          zs_expectation st = sw_expectation w \<and> zs_matched_window_id st = sw_window_id w)
    \<and> ((\<nexists>w. w \<in> set ws \<and> sw_zone w = z \<and> window_matches w dt) \<longrightarrow>
          zs_expectation st = SE_UNOCCUPIED_EXPECTED \<and> zs_matched_window_id st = None)"
proof -
  let ?m = "filter (\<lambda>w. sw_zone w = z \<and> window_matches w dt) ws"
  have mem: "w \<in> set ?m \<longleftrightarrow> w \<in> set ws \<and> sw_zone w = z \<and> window_matches w dt" for w by auto
  consider "?m = []" | w where "?m = [w]"
    using assms(1) by (cases ?m; cases "tl ?m") auto
  then show ?thesis
  proof cases
    case 1
    then have none: "\<nexists>w. w \<in> set ws \<and> sw_zone w = z \<and> window_matches w dt" using mem by auto
    with 1 show ?thesis by (simp add: evaluate_zone_def) blast
  next
    case (2 w)
    then have "w \<in> set ws" using mem[of w] by simp
    with assms(2) have known: "sw_expectation w \<noteq> SE_UNKNOWN" by (auto simp: window_wf_def)
    have unique: "v = w" if "v \<in> set ws" "sw_zone v = z" "window_matches v dt" for v
    proof -
      have "v \<in> set ?m" using that by simp
      then show ?thesis unfolding 2 by simp
    qed
    have "evaluate_zone ws dt z = Inr \<lparr>zs_zone = z, zs_expectation = sw_expectation w,
        zs_matched_window_id = sw_window_id w\<rparr>" (is "_ = Inr ?st")
      using 2 by (simp add: evaluate_zone_def)
    moreover have "sw_zone w = z \<and> window_matches w dt" using mem[of w] 2 by simp
    moreover have "\<forall>v \<in> set ws. sw_zone v = z \<and> window_matches v dt \<longrightarrow>
        sw_expectation w = sw_expectation v \<and> sw_window_id w = sw_window_id v"
      using unique by blast
    moreover have "\<exists>v. v \<in> set ws \<and> sw_zone v = z \<and> window_matches v dt"
      using \<open>w \<in> set ws\<close> calculation(2) by blast
    ultimately show ?thesis using known by simp
  qed
qed

subsection \<open>Times of day as text\<close>

lemma two_digits:
  "n < 100 \<Longrightarrow> show_width digit_char 10 2 n = [digit_char (n div 10), digit_char (n mod 10)]"
  by (simp add: numeral_2_eq_2)

lemma digits_value_two: "digits_value [a, b] = 10 * digit_value a + digit_value b"
  by (simp add: digits_value_def)

lemma digit_char_value: "is_digit_char c \<Longrightarrow> digit_char (nat (digit_value c)) = c"
  by (auto simp: is_digit_char_def digit_value_def digit_char_def nat_diff_distrib')

lemma digit_value_range: "is_digit_char c \<Longrightarrow> 0 \<le> digit_value c \<and> digit_value c < 10"
  by (auto simp: is_digit_char_def digit_value_def)

lemma digit_not_continuation: "is_digit_char c \<Longrightarrow> \<not> is_continuation c"
  by (auto simp: is_digit_char_def is_continuation_def)

lemma py_len_digits: "list_all is_digit_char s \<Longrightarrow> py_len s = length s"
  by (induction s) (auto simp: py_len_def digit_not_continuation)

lemma split_on_join: "split_on c s = ps \<Longrightarrow> s = join [c] ps"
proof (induction s arbitrary: ps)
  case (Cons x s)
  obtain p qs where s: "split_on c s = p # qs" by (metis split_on_nonempty neq_Nil_conv)
  from Cons.IH[OF s] have "s = join [c] (p # qs)" .
  with Cons.prems s show ?case by (cases qs) (auto split: if_splits)
qed simp

lemma split_on_two: "CHR '':'' \<notin> set a \<Longrightarrow> CHR '':'' \<notin> set b \<Longrightarrow> split_on CHR '':'' (a @ '':'' @ b) = [a, b]"
  by (simp add: split_on_append_sep split_on_no_sep)

lemma time_text:
  assumes "h < 24" "mi < 60"
  shows "parse_local_time (VStr ([digit_char (h div 10), digit_char (h mod 10)] @ '':''
      @ [digit_char (mi div 10), digit_char (mi mod 10)])) = Inr (int h * 60 + int mi)"
proof -
  let ?h = "[digit_char (h div 10), digit_char (h mod 10)]"
  let ?m = "[digit_char (mi div 10), digit_char (mi mod 10)]"
  have lt: "h div 10 < 10" "h mod 10 < 10" "mi div 10 < 10" "mi mod 10 < 10" using assms by simp_all
  have s: "split_on CHR '':'' (?h @ '':'' @ ?m) = [?h, ?m]"
    using lt digit_char_not_colon by (intro split_on_two) (auto dest: sym)
  have v: "digits_value ?h = int h" "digits_value ?m = int mi"
    using lt by (simp_all add: digits_value_two) (metis mult_div_mod_eq of_nat_add of_nat_mult of_nat_numeral)+
  have d: "list_all is_digit_char ?h" "list_all is_digit_char ?m" using lt by simp_all
  note l = py_len_digits[OF d(1)] py_len_digits[OF d(2)]
  show ?thesis
    unfolding parse_local_time_def using assms
    by (simp only: py_value.case s Let_def v) (use d l assms in \<open>simp add: v\<close>)
qed

lemma parse_time_text:
  assumes "parse_local_time (VStr s) = Inr m"
  shows "\<exists>h mi. h < 24 \<and> mi < 60 \<and> m = int h * 60 + int mi
    \<and> s = [digit_char (h div 10), digit_char (h mod 10)] @ '':'' @ [digit_char (mi div 10), digit_char (mi mod 10)]"
proof -
  from assms obtain p q where sp: "split_on CHR '':'' s = [p, q]"
    by (auto simp: parse_local_time_def Let_def length_Suc_conv numeral_2_eq_2 split: if_splits)
  with assms have d: "list_all is_digit_char p" "list_all is_digit_char q" "py_len p = 2" "py_len q = 2"
    and r: "digits_value p \<le> 23" "digits_value q \<le> 59" and m: "m = digits_value p * 60 + digits_value q"
    by (auto simp: parse_local_time_def Let_def split: if_splits)
  from d obtain a b where p: "p = [a, b]" using py_len_digits[OF d(1)]
    by (auto simp: length_Suc_conv numeral_2_eq_2)
  from d obtain c e where q: "q = [c, e]" using py_len_digits[OF d(2)]
    by (auto simp: length_Suc_conv numeral_2_eq_2)
  have dig: "is_digit_char a" "is_digit_char b" "is_digit_char c" "is_digit_char e"
    using d p q by simp_all
  define h mi where "h = nat (digits_value p)" and "mi = nat (digits_value q)"
  note v = digit_value_range[OF dig(1)] digit_value_range[OF dig(2)] digit_value_range[OF dig(3)]
    digit_value_range[OF dig(4)]
  have h: "int h = 10 * digit_value a + digit_value b" and mi: "int mi = 10 * digit_value c + digit_value e"
    using v by (simp_all add: h_def mi_def p q digits_value_two)
  have "h = 10 * nat (digit_value a) + nat (digit_value b)" "mi = 10 * nat (digit_value c) + nat (digit_value e)"
    "nat (digit_value b) < 10" "nat (digit_value e) < 10"
    using h mi v by linarith+
  then have "h div 10 = nat (digit_value a)" "h mod 10 = nat (digit_value b)"
    "mi div 10 = nat (digit_value c)" "mi mod 10 = nat (digit_value e)" by simp_all
  then have "s = [digit_char (h div 10), digit_char (h mod 10)] @ '':'' @ [digit_char (mi div 10), digit_char (mi mod 10)]"
    using split_on_join[OF sp] p q dig by (simp add: digit_char_value)
  moreover have "h < 24" "mi < 60" "m = int h * 60 + int mi"
    using r m h mi by (simp_all add: p q digits_value_two h_def mi_def)
  ultimately show ?thesis by blast
qed

lemma format_time_text:
  assumes "h < 24" "mi < 60"
  shows "format_local_time (int h * 60 + int mi) = Inr ([digit_char (h div 10), digit_char (h mod 10)] @ '':''
    @ [digit_char (mi div 10), digit_char (mi mod 10)])"
proof -
  have "(int h * 60 + int mi) div 60 = int h" "(int h * 60 + int mi) mod 60 = int mi" using assms by auto
  moreover have "int h * 60 + int mi < 1440" using assms by linarith
  ultimately show ?thesis using assms by (simp add: format_local_time_def minutes two_digits)
qed

lemma evaluate_schedule_states:
  assumes "\<forall>w \<in> set ws. window_wf w" "validate_windows ws = Inr ()" "in_aware now"
    and "local_ok (in_local now tz)"
  shows "\<exists>st. evaluate_schedule ws zones now tz = Inr st \<and> ss_available st
    \<and> map zs_zone (ss_zones st) = zones
    \<and> (\<forall>zst \<in> set (ss_zones st). zs_expectation zst \<noteq> SE_UNKNOWN
        \<and> (\<forall>w \<in> set ws. sw_zone w = zs_zone zst \<and> window_matches w (in_local now tz) \<longrightarrow>
              zs_expectation zst = sw_expectation w \<and> zs_matched_window_id zst = sw_window_id w)
        \<and> ((\<nexists>w. w \<in> set ws \<and> sw_zone w = zs_zone zst \<and> window_matches w (in_local now tz)) \<longrightarrow>
              zs_expectation zst = SE_UNOCCUPIED_EXPECTED \<and> zs_matched_window_id zst = None))"
proof -
  let ?dt = "in_local now tz"
  define good where "good z st \<longleftrightarrow> zs_zone st = z \<and> zs_expectation st \<noteq> SE_UNKNOWN
        \<and> (\<forall>w \<in> set ws. sw_zone w = z \<and> window_matches w ?dt \<longrightarrow>
              zs_expectation st = sw_expectation w \<and> zs_matched_window_id st = sw_window_id w)
        \<and> ((\<nexists>w. w \<in> set ws \<and> sw_zone w = z \<and> window_matches w ?dt) \<longrightarrow>
              zs_expectation st = SE_UNOCCUPIED_EXPECTED \<and> zs_matched_window_id st = None)"
    for z and st :: zone_schedule_state
  note one = validate_windows_unique[OF assms(1), THEN iffD1, OF assms(2), rule_format, OF assms(4)]
  have zone: "\<exists>st. evaluate_zone ws ?dt z = Inr st \<and> good z st" for z
    using evaluate_zone_ok[OF one assms(1), of z] unfolding good_def .
  have "\<exists>sts. list_all2 (\<lambda>z st. evaluate_zone ws ?dt z = Inr st \<and> good z st) zones sts"
  proof (induction zones)
    case (Cons z zs)
    obtain st where st: "evaluate_zone ws ?dt z = Inr st \<and> good z st" using zone by blast
    from Cons obtain sts where "list_all2 (\<lambda>z st. evaluate_zone ws ?dt z = Inr st \<and> good z st) zs sts" by blast
    with st have "list_all2 (\<lambda>z st. evaluate_zone ws ?dt z = Inr st \<and> good z st) (z # zs) (st # sts)" by simp
    then show ?case by blast
  qed simp
  then obtain sts where sts: "list_all2 (\<lambda>z st. evaluate_zone ws ?dt z = Inr st \<and> good z st) zones sts" by blast
  have "list_all2 (\<lambda>z st. evaluate_zone ws ?dt z = Inr st) zones sts"
    using sts by (rule list_all2_mono) simp
  then have ev: "evaluate_schedule ws zones now tz = Inr \<lparr>ss_available = True, ss_timezone = tz,
      ss_evaluated_at_utc = in_iso now, ss_local_time = ld_iso ?dt, ss_zones = sts, ss_last_error = ''''\<rparr>"
    using assms(2,3) by (simp add: evaluate_schedule_def Let_def flip: map_result_Inr_iff)
  have names: "map zs_zone sts = zones"
    using sts by (induction rule: list_all2_induct) (simp_all add: good_def)
  have each: "\<forall>st \<in> set sts. good (zs_zone st) st"
    using sts by (induction rule: list_all2_induct) (auto simp: good_def)
  show ?thesis
    using ev names each unfolding good_def by (intro exI[of _ "\<lparr>ss_available = True, ss_timezone = tz,
      ss_evaluated_at_utc = in_iso now, ss_local_time = ld_iso ?dt, ss_zones = sts, ss_last_error = ''''\<rparr>"]) simp
qed

subsection \<open>Properties\<close>

text \<open>Times of day. The text of a minute parses back to it, a text that parses is the one its
  minute is formatted as, and exactly the minutes of a day have a text.\<close>

theorem local_time_roundtrip:
  "(format_local_time m = Inr s \<longleftrightarrow> parse_local_time (VStr s) = Inr m)
   \<and> (is_ok (format_local_time m) \<longleftrightarrow> 0 \<le> m \<and> m < 1440)"
proof (intro conjI iffI)
  assume f: "format_local_time m = Inr s"
  then have m: "0 \<le> m" "m < 1440" by (auto simp: format_local_time_def minutes split: if_splits)
  define h mi where "h = nat (m div 60)" and "mi = nat (m mod 60)"
  have "h < 24" "mi < 60" "m = int h * 60 + int mi" using m by (auto simp: h_def mi_def)
  with f show "parse_local_time (VStr s) = Inr m" using format_time_text time_text by auto
next
  assume "parse_local_time (VStr s) = Inr m"
  with parse_time_text format_time_text show "format_local_time m = Inr s" by blast
qed (auto simp: format_local_time_def minutes split: if_splits)

text \<open>C8: The overlap check is exact. For windows that the constructor accepts, \<open>validate_windows\<close>
  accepts a list exactly when at no local time of the week two windows of one zone match,
  the runs past midnight and past the end of the week included.\<close>

theorem validate_windows_exact:
  assumes "\<forall>w \<in> set ws. window_wf w"
  shows "validate_windows ws = Inr () \<longleftrightarrow>
    (\<forall>z dt. local_ok dt \<longrightarrow> length (filter (\<lambda>w. sw_zone w = z \<and> window_matches w dt) ws) \<le> 1)"
  using assms by (rule validate_windows_unique)

definition demo_window :: "int \<Rightarrow> int \<Rightarrow> int \<Rightarrow> schedule_window" where
  "demo_window day s e = \<lparr>sw_zone = ''zone-1'', sw_weekday = day, sw_start_minute = s, sw_end_minute = e,
     sw_expectation = SE_OCCUPIED_EXPECTED, sw_enabled = True, sw_label = '''', sw_window_id = Some 1\<rparr>"

definition monday_midnight :: local_datetime where
  "monday_midnight = \<lparr>ld_weekday = 1, ld_hour = 0, ld_minute = 30, ld_iso = ''''\<rparr>"

theorem validate_windows_exact_witness:
  "validate_windows [demo_window 7 1320 60, demo_window 1 0 120] \<noteq> Inr ()"
proof -
  have wf: "\<forall>w \<in> set [demo_window 7 1320 60, demo_window 1 0 120]. window_wf w" by code_simp
  have m: "local_ok monday_midnight \<and> 1 < length (filter (\<lambda>w. sw_zone w = ''zone-1'' \<and>
      window_matches w monday_midnight) [demo_window 7 1320 60, demo_window 1 0 120])" by code_simp
  show ?thesis unfolding validate_windows_exact[OF wf] using m by (meson not_less)
qed

text \<open>Evaluation. For a checked list of windows and an instant with a time zone, evaluating
  returns one state per zone in the given order; each names the expectation and the id of the window
  that matches at the local time, or "unoccupied" without an id where none does, and never
  "unknown".\<close>

theorem evaluate_schedule_zones:
  assumes "\<forall>w \<in> set ws. window_wf w" "validate_windows ws = Inr ()" "in_aware now"
    and "local_ok (in_local now tz)"
  shows "\<exists>st. evaluate_schedule ws zones now tz = Inr st \<and> ss_available st
    \<and> map zs_zone (ss_zones st) = zones
    \<and> (\<forall>zst \<in> set (ss_zones st). zs_expectation zst \<noteq> SE_UNKNOWN
        \<and> (\<forall>w \<in> set ws. sw_zone w = zs_zone zst \<and> window_matches w (in_local now tz) \<longrightarrow>
              zs_expectation zst = sw_expectation w \<and> zs_matched_window_id zst = sw_window_id w)
        \<and> ((\<nexists>w. w \<in> set ws \<and> sw_zone w = zs_zone zst \<and> window_matches w (in_local now tz)) \<longrightarrow>
              zs_expectation zst = SE_UNOCCUPIED_EXPECTED \<and> zs_matched_window_id zst = None))"
  using assms by (rule evaluate_schedule_states)

definition demo_instant :: instant where
  "demo_instant = \<lparr>in_aware = True, in_iso = ''2026-01-05T23:30:00+00:00'', in_local = (\<lambda>_. monday_midnight)\<rparr>"

theorem evaluate_schedule_zones_witness:
  "\<exists>st. evaluate_schedule [demo_window 7 1320 60] [''zone-1''] demo_instant SCHEDULE_TIMEZONE = Inr st
    \<and> ss_available st"
proof -
  have "\<forall>w \<in> set [demo_window 7 1320 60]. window_wf w" "validate_windows [demo_window 7 1320 60] = Inr ()"
    by code_simp+
  moreover have "in_aware demo_instant" "local_ok (in_local demo_instant SCHEDULE_TIMEZONE)"
    by (simp_all add: demo_instant_def local_ok_def monday_midnight_def)
  ultimately show ?thesis using evaluate_schedule_zones by blast
qed

end
