(* ===== verification/ScheduleManager.thy ===== *)
theory ScheduleManager
  imports Schedule "HOL-Library.List_Lexorder" "HOL-Library.Char_ord" "HOL-Library.Multiset"
begin

section \<open>The schedule store and the schedule manager\<close>

text \<open>
  Models \<open>SqliteScheduleStore\<close> (\<open>infrastructure/sqlite_schedule_store.py\<close>) and the two managers of
  \<open>application/schedule_controller.py\<close>. The store is its table: the rows in the order of insertion,
  the next AUTOINCREMENT id, and for each transaction whether the database fails (the input). A
  failed transaction is rolled back. Text is ordered by its bytes, as SQLite's default collation
  does. The locale states what the manager relies on.
\<close>

subsection \<open>The store\<close>

record schedule_row =
  row_window_id :: int
  row_zone :: string
  row_weekday :: int
  row_start_minute :: int
  row_end_minute :: int
  row_expectation :: string
  row_enabled :: int
  row_label :: string

record schedule_store =
  st_rows :: "schedule_row list"
  st_next_id :: int
  st_faults :: "nat \<Rightarrow> string option"
  st_transactions :: nat

text \<open>The next access to the database: its failure, if any.\<close>

definition store_access :: "(schedule_store, unit) op" where
  "store_access s = (s\<lparr>st_transactions := Suc (st_transactions s)\<rparr>,
     case st_faults s (st_transactions s) of None \<Rightarrow> Inr () | Some m \<Rightarrow> Inl (OtherException m))"

definition row_to_window :: "schedule_row \<Rightarrow> schedule_window result" where
  "row_to_window row =
     (case parse_expectation (row_expectation row) of
        None \<Rightarrow> Inl (ValueError (CHR 0x27 # row_expectation row @ CHR 0x27 # '' is not a valid ScheduleExpectation''))
      | Some e \<Rightarrow> new_schedule_window (row_zone row) (VInt (row_weekday row)) (row_start_minute row)
          (row_end_minute row) e (VBool (row_enabled row \<noteq> 0)) (VStr (row_label row)) (Some (row_window_id row)))"

definition row_order :: "schedule_row \<Rightarrow> string \<times> int \<times> int \<times> int" where
  "row_order row = (row_zone row, row_weekday row, row_start_minute row, row_window_id row)"

definition store_list_windows :: "string option \<Rightarrow> (schedule_store, schedule_window list) op" where
  "store_list_windows zone =
     op_bind store_access (\<lambda>_ s.
       let rows = sort_key row_order
             (case zone of None \<Rightarrow> st_rows s | Some z \<Rightarrow> filter (\<lambda>row. row_zone row = z) (st_rows s))
       in (s, rbind (map_result row_to_window rows) (\<lambda>windows.
              rbind (validate_windows windows) (\<lambda>_. Inr windows))))"

definition window_to_row :: "int \<Rightarrow> schedule_window \<Rightarrow> schedule_row" where
  "window_to_row i w = \<lparr>row_window_id = i, row_zone = sw_zone w, row_weekday = sw_weekday w,
     row_start_minute = sw_start_minute w, row_end_minute = sw_end_minute w,
     row_expectation = expectation_value (sw_expectation w), row_enabled = (if sw_enabled w then 1 else 0),
     row_label = sw_label w\<rparr>"

fun insert_rows :: "int \<Rightarrow> schedule_window list \<Rightarrow> schedule_row list" where
  "insert_rows i [] = []"
| "insert_rows i (w # ws) = window_to_row i w # insert_rows (i + 1) ws"

definition store_replace_zone :: "string \<Rightarrow> schedule_window list \<Rightarrow> (schedule_store, schedule_window list) op" where
  "store_replace_zone zone ws =
     (if \<exists>w \<in> set ws. sw_zone w \<noteq> zone
      then op_raise (ValueError ''Every replacement window must belong to the selected zone'')
      else op_bind (op_lift (validate_windows ws)) (\<lambda>_.
           op_bind store_access (\<lambda>_.
           op_bind (\<lambda>s. (s\<lparr>st_rows := filter (\<lambda>row. row_zone row \<noteq> zone) (st_rows s) @ insert_rows (st_next_id s) ws,
                           st_next_id := st_next_id s + int (length ws)\<rparr>, Inr ())) (\<lambda>_.
             store_list_windows (Some zone)))))"

subsection \<open>The managers\<close>

record schedule_manager =
  sm_store :: schedule_store
  sm_zones :: "string list"
  sm_timezone :: string

record schedule_configuration =
  sc_available :: bool
  sc_timezone :: string
  sc_zones :: "string list"
  sc_windows :: "schedule_window list"
  sc_state :: schedule_state
  sc_last_error :: string

definition DEFAULT_SCHEDULE_ZONES :: "string list" where
  "DEFAULT_SCHEDULE_ZONES = [''zone-1'', ''zone-2'']"

definition normalize_zones :: "string list \<Rightarrow> string list result" where
  "normalize_zones zones =
     rbind (fold_result (\<lambda>normalized zone.
         if zone = [] \<or> py_strip zone \<noteq> zone \<or> py_len zone > 64
         then Inl (ValueError ''Schedule zones must be non-empty identifiers up to 64 characters'')
         else if zone \<in> set normalized
         then Inl (ValueError (''Duplicate schedule zone: '' @ zone))
         else Inr (normalized @ [zone])) [] zones)
       (\<lambda>normalized. if normalized = [] then Inl (ValueError ''At least one schedule zone is required'')
                     else Inr normalized)"

definition new_schedule_manager :: "schedule_store \<Rightarrow> string list \<Rightarrow> string \<Rightarrow> schedule_manager result" where
  "new_schedule_manager store zones timezone_name =
     rbind (normalize_zones zones) (\<lambda>normalized.
       Inr \<lparr>sm_store = store, sm_zones = normalized, sm_timezone = timezone_name\<rparr>)"

definition on_store :: "(schedule_store, 'a) op \<Rightarrow> (schedule_manager, 'a) op" where
  "on_store m sm = (let (s, r) = m (sm_store sm) in (sm\<lparr>sm_store := s\<rparr>, r))"

definition manager_current_state :: "instant \<Rightarrow> schedule_manager \<Rightarrow> schedule_manager \<times> schedule_state" where
  "manager_current_state now sm =
     (let (sm', r) = on_store (store_list_windows None) sm
      in (sm', case rbind r (\<lambda>windows. evaluate_schedule windows (sm_zones sm) now (sm_timezone sm)) of
                 Inr st \<Rightarrow> st
               | Inl e \<Rightarrow> unavailable_schedule_state (sm_zones sm) (exc_str e) now (sm_timezone sm)))"

definition manager_configuration :: "instant \<Rightarrow> (schedule_manager, schedule_configuration) op" where
  "manager_configuration now sm =
     (let (sm', r) = on_store (store_list_windows None) sm
      in (sm', case r of
          Inl e \<Rightarrow> Inr \<lparr>sc_available = False, sc_timezone = sm_timezone sm, sc_zones = sm_zones sm,
            sc_windows = [],
            sc_state = unavailable_schedule_state (sm_zones sm) (exc_str e) now (sm_timezone sm),
            sc_last_error = exc_str e\<rparr>
        | Inr windows \<Rightarrow>
            rbind (evaluate_schedule windows (sm_zones sm) now (sm_timezone sm)) (\<lambda>st.
              Inr \<lparr>sc_available = True, sc_timezone = sm_timezone sm, sc_zones = sm_zones sm,
                sc_windows = windows, sc_state = st, sc_last_error = ''''\<rparr>)))"

definition manager_replace_zone :: "instant \<Rightarrow> string \<Rightarrow> schedule_window list \<Rightarrow>
    (schedule_manager, schedule_configuration) op" where
  "manager_replace_zone now zone ws sm =
     (if zone \<notin> set (sm_zones sm)
      then op_raise (ValueError (''Unsupported schedule zone: '' @ zone)) sm
      else if \<exists>w \<in> set ws. sw_zone w \<noteq> zone
      then op_raise (ValueError ''Every replacement window must belong to the selected zone'') sm
      else op_bind (op_lift (validate_windows ws)) (\<lambda>_.
           op_bind (on_store (store_replace_zone zone ws)) (\<lambda>_. manager_configuration now)) sm)"

text \<open>\<open>UnavailableScheduleManager\<close>: the store could not be opened.\<close>

record unavailable_manager =
  um_error :: string
  um_zones :: "string list"
  um_timezone :: string

definition unavailable_current_state :: "unavailable_manager \<Rightarrow> instant \<Rightarrow> schedule_state" where
  "unavailable_current_state um now = unavailable_schedule_state (um_zones um) (um_error um) now (um_timezone um)"

definition unavailable_configuration :: "unavailable_manager \<Rightarrow> instant \<Rightarrow> schedule_configuration" where
  "unavailable_configuration um now = \<lparr>sc_available = False, sc_timezone = um_timezone um,
     sc_zones = um_zones um, sc_windows = [], sc_state = unavailable_current_state um now,
     sc_last_error = um_error um\<rparr>"

definition unavailable_replace_zone :: "unavailable_manager \<Rightarrow> string \<Rightarrow> schedule_window list \<Rightarrow> unit result" where
  "unavailable_replace_zone um zone ws = Inl (RuntimeError (''Schedule storage is unavailable: '' @ um_error um))"

subsection \<open>The contract of a store\<close>

text \<open>The windows that the constructor makes, and what of a window is stored besides its id.\<close>

definition constructible :: "schedule_window \<Rightarrow> bool" where
  "constructible w = (new_schedule_window (sw_zone w) (VInt (sw_weekday w)) (sw_start_minute w) (sw_end_minute w)
     (sw_expectation w) (VBool (sw_enabled w)) (VStr (sw_label w)) (sw_window_id w) = Inr w)"

type_synonym window_data = "int \<times> int \<times> int \<times> schedule_expectation \<times> bool \<times> string"

definition window_data :: "schedule_window \<Rightarrow> window_data" where
  "window_data w = (sw_weekday w, sw_start_minute w, sw_end_minute w, sw_expectation w, sw_enabled w, sw_label w)"

definition zone_data :: "schedule_window list \<Rightarrow> string \<Rightarrow> window_data multiset" where
  "zone_data ws z = mset (map window_data (filter (\<lambda>w. sw_zone w = z) ws))"

lemma new_schedule_window_fields:
  assumes "new_schedule_window z (VInt d) s e x (VBool en) (VStr l) i = Inr w"
  shows "w = \<lparr>sw_zone = z, sw_weekday = d, sw_start_minute = s, sw_end_minute = e, sw_expectation = x,
    sw_enabled = en, sw_label = l, sw_window_id = i\<rparr>"
  using assms by (auto simp: new_schedule_window_def Let_def split: if_splits)

lemma constructible_wf: "constructible w \<Longrightarrow> window_wf w"
  using new_schedule_window_wf by (simp add: constructible_def)

locale schedule_store_contract =
  fixes ok :: "'s \<Rightarrow> bool" and contents :: "'s \<Rightarrow> string \<Rightarrow> window_data multiset"
    and list_op :: "string option \<Rightarrow> ('s, schedule_window list) op"
    and replace_op :: "string \<Rightarrow> schedule_window list \<Rightarrow> ('s, schedule_window list) op"
  assumes list_keeps: "ok s \<Longrightarrow> list_op q s = (s', r) \<Longrightarrow> ok s' \<and> contents s' = contents s"
    and list_gives: "ok s \<Longrightarrow> list_op None s = (s', Inr ws) \<Longrightarrow>
      validate_windows ws = Inr () \<and> (\<forall>w \<in> set ws. window_wf w) \<and> zone_data ws = contents s"
    and replace_keeps: "ok s \<Longrightarrow> \<forall>w \<in> set ws. constructible w \<Longrightarrow> replace_op z ws s = (s', r) \<Longrightarrow>
      ok s' \<and> (contents s' = contents s \<or> contents s' = (contents s)(z := mset (map window_data ws)))"
    and replace_done: "ok s \<Longrightarrow> \<forall>w \<in> set ws. constructible w \<Longrightarrow> replace_op z ws s = (s', Inr out) \<Longrightarrow>
      contents s' = (contents s)(z := mset (map window_data ws))"
begin

text \<open>Listing after a replacement gives the new windows in that zone and the old ones elsewhere.\<close>

lemma list_after_replace:
  assumes "ok s" "\<forall>w \<in> set ws. constructible w" "replace_op z ws s = (s1, Inr out)"
    and "list_op None s1 = (s2, Inr listed)"
  shows "zone_data listed z = mset (map window_data ws)"
    and "y \<noteq> z \<Longrightarrow> zone_data listed y = contents s y"
proof -
  have "zone_data listed = (contents s)(z := mset (map window_data ws))"
    using replace_keeps[OF assms(1-3)] replace_done[OF assms(1-3)] list_gives[OF _ assms(4)] by simp
  then show "zone_data listed z = mset (map window_data ws)"
    "y \<noteq> z \<Longrightarrow> zone_data listed y = contents s y" by simp_all
qed

end

subsection \<open>The store keeps the contract\<close>

definition row_data :: "schedule_row \<Rightarrow> window_data" where
  "row_data row = (row_weekday row, row_start_minute row, row_end_minute row,
     the (parse_expectation (row_expectation row)), row_enabled row \<noteq> 0, row_label row)"

definition store_ok :: "schedule_store \<Rightarrow> bool" where
  "store_ok s = (1 \<le> st_next_id s \<and> (\<forall>row \<in> set (st_rows s). is_ok (row_to_window row)))"

definition store_contents :: "schedule_store \<Rightarrow> string \<Rightarrow> window_data multiset" where
  "store_contents s z = mset (map row_data (filter (\<lambda>row. row_zone row = z) (st_rows s)))"

lemma parse_expectation_value [simp]: "parse_expectation (expectation_value e) = Some e"
  by (cases e) (simp_all add: parse_expectation_def)

lemma row_to_window_data:
  "row_to_window row = Inr w \<Longrightarrow> window_data w = row_data row \<and> sw_zone w = row_zone row \<and> window_wf w"
  using new_schedule_window_wf
  by (auto simp: row_to_window_def window_data_def row_data_def split: option.splits
      dest!: new_schedule_window_fields)

lemma window_to_row:
  assumes "constructible w" "1 \<le> i"
  shows "row_to_window (window_to_row i w) = Inr (w\<lparr>sw_window_id := Some i\<rparr>)"
  using assms unfolding constructible_def
  by (cases w) (auto simp: row_to_window_def window_to_row_def new_schedule_window_def Let_def split: if_splits)

lemma insert_rows_data:
  assumes "\<forall>w \<in> set ws. constructible w" "1 \<le> i"
  shows "\<forall>row \<in> set (insert_rows i ws). is_ok (row_to_window row)"
    and "map row_data (insert_rows i ws) = map window_data ws"
    and "map row_zone (insert_rows i ws) = map sw_zone ws"
  using assms
  by (induction i ws rule: insert_rows.induct)
    (auto simp: window_to_row is_ok_iff, auto simp: row_data_def window_data_def window_to_row_def)

lemma listed_data:
  assumes "list_all2 (\<lambda>row w. row_to_window row = Inr w) rows ws"
  shows "map window_data (filter (\<lambda>w. sw_zone w = z) ws) = map row_data (filter (\<lambda>row. row_zone row = z) rows)"
    and "\<forall>w \<in> set ws. window_wf w"
  using assms by (induction rule: list_all2_induct) (auto dest: row_to_window_data)

lemma filter_zone_insert:
  assumes "\<forall>w \<in> set ws. sw_zone w = z"
  shows "filter (\<lambda>row. row_zone row = z) (insert_rows i ws) = insert_rows i ws"
    and "y \<noteq> z \<Longrightarrow> filter (\<lambda>row. row_zone row = y) (insert_rows i ws) = []"
  using assms by (induction i ws rule: insert_rows.induct) (auto simp: window_to_row_def)

lemma store_list_cases:
  assumes "store_list_windows z s = (s', r)"
  shows "st_rows s' = st_rows s" "st_next_id s' = st_next_id s"
    and "r = Inr ws \<Longrightarrow> z = None \<Longrightarrow> validate_windows ws = Inr ()
      \<and> list_all2 (\<lambda>row w. row_to_window row = Inr w) (sort_key row_order (st_rows s)) ws"
  using assms
  by (auto simp: store_list_windows_def op_bind_def store_access_def Let_def rbind_eq_Inr map_result_Inr_iff
      split: option.splits)

interpretation sqlite: schedule_store_contract store_ok store_contents store_list_windows store_replace_zone
proof unfold_locales
  fix s s' :: schedule_store and z r
  assume ok: "store_ok s" and l: "store_list_windows z s = (s', r)"
  show "store_ok s' \<and> store_contents s' = store_contents s"
    using ok store_list_cases[OF l] by (simp add: store_ok_def store_contents_def fun_eq_iff)
next
  fix s s' :: schedule_store and ws
  assume ok: "store_ok s" and l: "store_list_windows None s = (s', Inr ws)"
  note c = store_list_cases(3)[OF l refl refl]
  have "zone_data ws z = store_contents s z" for z
    unfolding zone_data_def listed_data(1)[OF conjunct2[OF c]] store_contents_def
    by (simp add: mset_filter)
  with c listed_data(2)[OF conjunct2[OF c]]
  show "validate_windows ws = Inr () \<and> (\<forall>w \<in> set ws. window_wf w) \<and> zone_data ws = store_contents s"
    by (simp add: fun_eq_iff)
next
  fix s s' :: schedule_store and ws z r out
  assume ok: "store_ok s" and ws: "\<forall>w \<in> set ws. constructible w"
  define s1 where "s1 = s\<lparr>st_transactions := Suc (st_transactions s)\<rparr>"
  define s2 where "s2 = s1\<lparr>st_rows := filter (\<lambda>row. row_zone row \<noteq> z) (st_rows s1) @ insert_rows (st_next_id s1) ws,
    st_next_id := st_next_id s1 + int (length ws)\<rparr>"
  have run: "store_replace_zone z ws s = (s', r) \<Longrightarrow>
      (st_rows s' = st_rows s \<and> st_next_id s' = st_next_id s \<and> (\<exists>e. r = Inl e))
      \<or> (\<forall>w \<in> set ws. sw_zone w = z) \<and> store_list_windows (Some z) s2 = (s', r)" for r
    by (auto simp: store_replace_zone_def op_bind_def store_access_def s1_def s2_def
        split: if_splits option.splits sum.splits)
  have id: "1 \<le> st_next_id s" using ok by (simp add: store_ok_def)
  note ins = insert_rows_data[OF ws id]
  have lists: "map row_data (filter (\<lambda>row. row_zone row = y) (st_rows s2)) =
      (if y = z then map window_data ws else map row_data (filter (\<lambda>row. row_zone row = y) (st_rows s)))"
    if "\<forall>w \<in> set ws. sw_zone w = z" for y
  proof -
    have "filter (\<lambda>row. row_zone row = y) (filter (\<lambda>row. row_zone row \<noteq> z) (st_rows s))
        = (if y = z then [] else filter (\<lambda>row. row_zone row = y) (st_rows s))"
      by (auto simp: filter_empty_conv intro!: filter_cong)
    then show ?thesis using filter_zone_insert[OF that] ins(2) by (simp add: s2_def s1_def)
  qed
  have cont2: "store_contents s2 = (store_contents s)(z := mset (map window_data ws))"
    if "\<forall>w \<in> set ws. sw_zone w = z"
    unfolding store_contents_def fun_eq_iff lists[OF that] by simp
  have ok2: "store_ok s2" using ok ins(1) by (auto simp: store_ok_def s2_def s1_def)
  have after: "store_ok s' \<and> store_contents s' = (store_contents s)(z := mset (map window_data ws))"
    if "\<forall>w \<in> set ws. sw_zone w = z" "store_list_windows (Some z) s2 = (s', r)" for r
  proof -
    note c = store_list_cases(1,2)[OF that(2)]
    have "store_contents s' = store_contents s2" by (simp add: store_contents_def fun_eq_iff c)
    moreover have "store_ok s' = store_ok s2" by (simp add: store_ok_def c)
    ultimately show ?thesis
      using ok2 cont2[OF that(1)] by simp
  qed
  show "store_ok s' \<and> (store_contents s' = store_contents s
      \<or> store_contents s' = (store_contents s)(z := mset (map window_data ws)))"
    if "store_replace_zone z ws s = (s', r)"
    using run[OF that] after ok by (auto simp: store_ok_def store_contents_def fun_eq_iff)
  show "store_contents s' = (store_contents s)(z := mset (map window_data ws))"
    if "store_replace_zone z ws s = (s', Inr out)"
    using run[OF that] after by auto
qed

subsection \<open>Properties\<close>


definition demo_manager :: schedule_manager where
  "demo_manager = \<lparr>sm_store = \<lparr>st_rows = [], st_next_id = 1, st_faults = (\<lambda>_. None), st_transactions = 0\<rparr>,
     sm_zones = DEFAULT_SCHEDULE_ZONES, sm_timezone = SCHEDULE_TIMEZONE\<rparr>"


text \<open>The current schedule state never fails. Asking for it leaves the stored windows alone and
  always gives a state with exactly the managed zones; when it is not available, every zone is
  "unknown", and when it is, no zone is.\<close>

theorem manager_current_state_safe:
  assumes "store_ok (sm_store sm)" "local_ok (in_local now (sm_timezone sm))"
    and "manager_current_state now sm = (sm', st)"
  shows "store_contents (sm_store sm') = store_contents (sm_store sm) \<and> sm_zones sm' = sm_zones sm
    \<and> map zs_zone (ss_zones st) = sm_zones sm
    \<and> (\<forall>z \<in> set (ss_zones st). zs_expectation z = SE_UNKNOWN \<longleftrightarrow> \<not> ss_available st)"
proof -
  obtain s r where l: "store_list_windows None (sm_store sm) = (s, r)" by force
  let ?ev = "rbind r (\<lambda>windows. evaluate_schedule windows (sm_zones sm) now (sm_timezone sm))"
  have sm': "sm' = sm\<lparr>sm_store := s\<rparr>" and st: "st = (case ?ev of Inr st \<Rightarrow> st
      | Inl e \<Rightarrow> unavailable_schedule_state (sm_zones sm) (exc_str e) now (sm_timezone sm))"
    using assms(3) l by (auto simp: manager_current_state_def on_store_def)
  have "map zs_zone (ss_zones st) = sm_zones sm
      \<and> (\<forall>z \<in> set (ss_zones st). zs_expectation z = SE_UNKNOWN \<longleftrightarrow> \<not> ss_available st)"
  proof (cases ?ev)
    case (Inl e)
    with st show ?thesis by (auto simp: unavailable_schedule_state_def comp_def)
  next
    case (Inr v)
    then obtain ws where ws: "r = Inr ws" "evaluate_schedule ws (sm_zones sm) now (sm_timezone sm) = Inr v"
      by (auto simp: rbind_eq_Inr)
    then have v: "validate_windows ws = Inr ()" "in_aware now"
      by (auto simp: evaluate_schedule_def rbind_eq_Inr split: if_splits)
    from sqlite.list_gives[OF assms(1) l[unfolded ws]] have "\<forall>w \<in> set ws. window_wf w" by simp
    from evaluate_schedule_states[OF this v assms(2), of "sm_zones sm"] ws(2) Inr st show ?thesis
      by auto
  qed
  with sm' sqlite.list_keeps[OF assms(1) l] show ?thesis by simp
qed

theorem manager_current_state_safe_witness:
  "map zs_zone (ss_zones (snd (manager_current_state demo_instant demo_manager))) = DEFAULT_SCHEDULE_ZONES"
proof -
  have "store_ok (sm_store demo_manager)" "local_ok (in_local demo_instant (sm_timezone demo_manager))"
    by (simp_all add: store_ok_def demo_manager_def demo_instant_def local_ok_def monday_midnight_def)
  from manager_current_state_safe[OF this prod.collapse[symmetric]] show ?thesis
    by (simp add: demo_manager_def)
qed

end
