(* ===== verification/Dac.thy ===== *)
theory Dac
  imports Modbus
begin

section \<open>Fan setpoints, the GP8403 converter and its actuator\<close>

text \<open>
  Models \<open>FanSetpoints\<close> (\<open>domain/models.py\<close>), the setpoint policy (\<open>domain/policy.py\<close>), the
  driver of the DAC (\<open>infrastructure/gp8403.py\<close>) and \<open>DFR0971Actuator\<close>
  (\<open>infrastructure/dfr0971_actuator.py\<close>). The I2C bus is an input: the outcome of each transaction
  in the order they are issued. A write that fails may or may not have reached the device, which
  the outcome says too. The registers of the device are the state the fans see.
\<close>

subsection \<open>Setpoints and their policy\<close>

record fan_setpoints =
  fs_supply_voltage :: py_float
  fs_extract_voltage :: py_float

definition stopped :: fan_setpoints where
  "stopped = \<lparr>fs_supply_voltage = Fin 0, fs_extract_voltage = Fin 0\<rparr>"

record fan_setpoint_policy =
  minimum_running_voltage :: py_float
  maximum_voltage :: py_float

definition default_policy :: fan_setpoint_policy where
  "default_policy = \<lparr>minimum_running_voltage = Fin 1, maximum_voltage = Fin 10\<rparr>"

definition validate_voltage :: "fan_setpoint_policy \<Rightarrow> py_float \<Rightarrow> py_float result" where
  "validate_voltage policy v =
     (if feq v (Fin 0) then Inr (Fin 0)
      else if fle (minimum_running_voltage policy) v \<and> fle v (maximum_voltage policy) then Inr v
      else Inl (SetpointValidationError (''Fan voltage must be 0 V (stop) or between ''
             @ fmt_fixed1 (minimum_running_voltage policy) @ '' V and ''
             @ fmt_fixed1 (maximum_voltage policy) @ '' V'')))"

definition validate_setpoints :: "fan_setpoint_policy \<Rightarrow> fan_setpoints \<Rightarrow> fan_setpoints result" where
  "validate_setpoints policy sp =
     rbind (validate_voltage policy (fs_supply_voltage sp)) (\<lambda>s.
     rbind (validate_voltage policy (fs_extract_voltage sp)) (\<lambda>e.
       Inr \<lparr>fs_supply_voltage = s, fs_extract_voltage = e\<rparr>))"

text \<open>What the default policy lets through.\<close>

definition voltage_allowed :: "py_float \<Rightarrow> bool" where
  "voltage_allowed v = (\<exists>x. v = Fin x \<and> (x = 0 \<or> 1 \<le> x \<and> x \<le> 10))"

definition setpoints_allowed :: "fan_setpoints \<Rightarrow> bool" where
  "setpoints_allowed sp = (voltage_allowed (fs_supply_voltage sp) \<and> voltage_allowed (fs_extract_voltage sp))"

lemma validate_voltage_default:
  "validate_voltage default_policy v = Inr w \<longleftrightarrow> voltage_allowed v \<and> w = v"
  by (cases v) (auto simp: validate_voltage_def default_policy_def voltage_allowed_def)

lemma validate_setpoints_default:
  "validate_setpoints default_policy sp = Inr sp' \<longleftrightarrow> setpoints_allowed sp \<and> sp' = sp"
  by (cases sp) (auto simp: validate_setpoints_def rbind_eq_Inr validate_voltage_default
      setpoints_allowed_def)

lemma stopped_allowed [simp]: "setpoints_allowed stopped"
  by (simp add: setpoints_allowed_def stopped_def voltage_allowed_def)

subsection \<open>The I2C bus\<close>

datatype i2c_outcome = I2C_Ok | I2C_Fail string bool

record i2c_bus =
  ib_registers :: "(int \<times> int) list"
  ib_outcome :: "nat \<Rightarrow> i2c_outcome"
  ib_count :: nat

definition i2c_read_byte :: "(i2c_bus, unit) op" where
  "i2c_read_byte b =
     (b\<lparr>ib_count := Suc (ib_count b)\<rparr>,
      case ib_outcome b (ib_count b) of I2C_Ok \<Rightarrow> Inr () | I2C_Fail m _ \<Rightarrow> Inl (OSError m))"

definition i2c_write_word :: "int \<Rightarrow> int \<Rightarrow> (i2c_bus, unit) op" where
  "i2c_write_word reg v b =
     (let b' = b\<lparr>ib_count := Suc (ib_count b)\<rparr>;
          stored = b'\<lparr>ib_registers := AList.update reg v (ib_registers b)\<rparr>
      in case ib_outcome b (ib_count b) of
           I2C_Ok \<Rightarrow> (stored, Inr ())
         | I2C_Fail m reached \<Rightarrow> (if reached then stored else b', Inl (OSError m)))"

subsection \<open>The GP8403 driver\<close>

definition RANGE_REGISTER :: int where "RANGE_REGISTER = 1"
definition CHANNEL_REGISTERS :: "(int \<times> int) list" where "CHANNEL_REGISTERS = [(0, 2), (1, 4)]"
definition RANGE_5V :: int where "RANGE_5V = 0"
definition RANGE_10V :: int where "RANGE_10V = 0x11"
definition MAX_CODE :: int where "MAX_CODE = 0xFFF"

record gp8403_config =
  gc_bus :: int
  gc_address :: int
  gc_output_range_volts :: rat

datatype smbus_open = SMBusMissing | SMBusOpenFails string | SMBusOpened

text \<open>\<open>GP8403.__init__\<close> without a given bus; the result of opening the bus is an input.\<close>

definition gp8403_new :: "gp8403_config \<Rightarrow> smbus_open \<Rightarrow> unit result" where
  "gp8403_new config opened =
     (if \<not> (0x03 \<le> gc_address config \<and> gc_address config \<le> 0x77)
      then Inl (ValueError (''Invalid 7-bit I2C address: 0x'' @ hex_upper 2 (gc_address config)))
      else if gc_output_range_volts config \<notin> {5, 10}
      then Inl (ValueError ''Output range must be 5.0 or 10.0 volts'')
      else case opened of
          SMBusMissing \<Rightarrow> Inl (GP8403Error ''Python SMBus module is missing. Install: sudo apt install python3-smbus'')
        | SMBusOpenFails m \<Rightarrow> Inl (GP8403Error (''Cannot open I2C bus /dev/i2c-'' @ show_int (gc_bus config)
              @ '': '' @ m))
        | SMBusOpened \<Rightarrow> Inr ())"

definition gp8403_probe :: "gp8403_config \<Rightarrow> (i2c_bus, unit) op" where
  "gp8403_probe config =
     op_catch i2c_read_byte (\<lambda>e. case e of OSError _ \<Rightarrow> True | _ \<Rightarrow> False)
       (\<lambda>e. op_raise (GP8403Error (''No response from GP8403 at 0x'' @ hex_upper 2 (gc_address config)
              @ '': '' @ exc_str e)))"

definition gp8403_write_word :: "gp8403_config \<Rightarrow> int \<Rightarrow> int \<Rightarrow> (i2c_bus, unit) op" where
  "gp8403_write_word config reg v =
     op_catch (i2c_write_word reg v) (\<lambda>e. case e of OSError _ \<Rightarrow> True | _ \<Rightarrow> False)
       (\<lambda>e. op_raise (GP8403Error (''I2C write failed at 0x'' @ hex_upper 2 (gc_address config)
              @ '', register 0x'' @ hex_upper 2 reg @ '': '' @ exc_str e)))"

definition configure_output_range :: "gp8403_config \<Rightarrow> (i2c_bus, unit) op" where
  "configure_output_range config =
     gp8403_write_word config RANGE_REGISTER (if gc_output_range_volts config = 10 then RANGE_10V else RANGE_5V)"

text \<open>\<open>round(...)\<close> of a float is exact: the nearest integer, ties to even. The clamp keeps the
  code in 12 bits, and the code goes to the upper bits of the word.\<close>

definition voltage_to_word :: "gp8403_config \<Rightarrow> py_float \<Rightarrow> int result" where
  "voltage_to_word config v =
     (let range = gc_output_range_volts config
      in if \<not> (fle (Fin 0) v \<and> fle v (Fin range))
         then Inl (ValueError (''Voltage must be between 0.0 and '' @ fmt_fixed1 (Fin range) @ '' V''))
         else case fmul_pos (fdiv_pos v range) (of_int MAX_CODE) of
             Fin x \<Rightarrow> Inr (push_bit 4 (min (max (round_half_even x) 0) MAX_CODE))
           | _ \<Rightarrow> Inl (ValueError ''cannot convert float to integer''))"

definition set_voltage :: "gp8403_config \<Rightarrow> int \<Rightarrow> py_float \<Rightarrow> (i2c_bus, unit) op" where
  "set_voltage config channel v =
     (case map_of CHANNEL_REGISTERS channel of
        None \<Rightarrow> op_raise (ValueError ''Channel must be 0 or 1'')
      | Some reg \<Rightarrow> op_bind (op_lift (voltage_to_word config v)) (\<lambda>w. gp8403_write_word config reg w))"

definition set_both_channels :: "gp8403_config \<Rightarrow> py_float \<Rightarrow> py_float \<Rightarrow> (i2c_bus, unit) op" where
  "set_both_channels config supply extract =
     op_bind (set_voltage config 0 supply) (\<lambda>_. set_voltage config 1 extract)"

definition zero_all :: "gp8403_config \<Rightarrow> (i2c_bus, unit) op" where
  "zero_all config = set_both_channels config (Fin 0) (Fin 0)"

subsection \<open>\<open>DFR0971Actuator\<close>\<close>

record dfr_actuator =
  da_config :: gp8403_config
  da_ready :: bool

text \<open>An operation on the actuator's bus leaves the actuator object alone.\<close>

definition on_bus :: "(i2c_bus, 'a) op \<Rightarrow> (dfr_actuator \<times> i2c_bus, 'a) op" where
  "on_bus m s = (let (b', r) = m (snd s) in ((fst s, b'), r))"

definition set_ready :: "bool \<Rightarrow> (dfr_actuator \<times> i2c_bus, unit) op" where
  "set_ready v s = (((fst s)\<lparr>da_ready := v\<rparr>, snd s), Inr ())"

definition dfr_new :: "int \<Rightarrow> int \<Rightarrow> smbus_open \<Rightarrow> dfr_actuator result" where
  "dfr_new bus address opened =
     (let config = \<lparr>gc_bus = bus, gc_address = address, gc_output_range_volts = 10\<rparr>
      in rbind (gp8403_new config opened) (\<lambda>_. Inr \<lparr>da_config = config, da_ready = False\<rparr>))"

definition dfr_start :: "(dfr_actuator \<times> i2c_bus, unit) op" where
  "dfr_start s =
     (let config = da_config (fst s)
      in op_bind (set_ready False) (\<lambda>_.
         op_bind (on_bus (gp8403_probe config)) (\<lambda>_.
         op_bind (on_bus (configure_output_range config)) (\<lambda>_.
         op_bind (on_bus (zero_all config)) (\<lambda>_. set_ready True)))) s)"

text \<open>\<open>except Exception: self._ready = False; raise\<close>.\<close>

definition or_not_ready :: "(dfr_actuator \<times> i2c_bus, unit) op \<Rightarrow> (dfr_actuator \<times> i2c_bus, unit) op" where
  "or_not_ready m = op_catch m (\<lambda>_. True) (\<lambda>e. op_bind (set_ready False) (\<lambda>_. op_raise e))"

definition dfr_apply :: "fan_setpoints \<Rightarrow> (dfr_actuator \<times> i2c_bus, unit) op" where
  "dfr_apply sp s =
     (if \<not> da_ready (fst s) then op_raise (RuntimeError ''DFR0971 actuator is not ready'') s
      else or_not_ready (on_bus (set_both_channels (da_config (fst s))
             (fs_supply_voltage sp) (fs_extract_voltage sp))) s)"

definition dfr_stop_all :: "(dfr_actuator \<times> i2c_bus, unit) op" where
  "dfr_stop_all s =
     (if \<not> da_ready (fst s) then op_return () s
      else or_not_ready (on_bus (zero_all (da_config (fst s)))) s)"

definition dfr_health_check :: "(dfr_actuator \<times> i2c_bus, unit) op" where
  "dfr_health_check s = on_bus (gp8403_probe (da_config (fst s))) s"

definition dfr_recover :: "(dfr_actuator \<times> i2c_bus, unit) op" where
  "dfr_recover = dfr_start"

text \<open>\<open>try: self.stop_all() finally: ...\<close>.\<close>

definition dfr_close :: "(dfr_actuator \<times> i2c_bus, unit) op" where
  "dfr_close s =
     (let (s1, r) = dfr_stop_all s; (s2, _) = set_ready False s1 in (s2, r))"

subsection \<open>The conversion to a DAC word\<close>

lemma round64_near:
  assumes "0 \<le> x" "x * 2 ^ k < 2 ^ 53" "k \<le> 1074"
  shows "\<bar>round64 x - x\<bar> \<le> 1 / 2 ^ k"
proof -
  define m where "m = \<lfloor>x * 2 ^ k\<rfloor>"
  have m: "of_int m \<le> x * 2 ^ k" "x * 2 ^ k < of_int m + 1" "0 \<le> m"
    using assms(1) by (auto simp: m_def) linarith
  have "m < 2 ^ 53"
  proof -
    have "of_int m < (2 ^ 53 :: rat)" using m(1) assms(2) by linarith
    then have "of_int m < (of_int (2 ^ 53) :: rat)" by simp
    then show ?thesis by (simp only: of_int_less_iff)
  qed
  then have b: "\<bar>m\<bar> \<le> 2 ^ 53" "\<bar>m + 1\<bar> \<le> 2 ^ 53" using m(3) by auto
  have lo: "of_int m / 2 ^ k \<le> x" and hi: "x \<le> of_int (m + 1) / 2 ^ k"
    using m by (simp_all add: field_simps)
  have "of_int m / 2 ^ k \<le> round64 x" "round64 x \<le> of_int (m + 1) / 2 ^ k"
    using r64.ge[OF b(1) assms(3) lo] r64.le[OF b(2) assms(3) hi] by simp_all
  moreover have "of_int (m + 1) / 2 ^ k = of_int m / 2 ^ k + 1 / (2 ^ k :: rat)"
    by (simp add: add_divide_distrib)
  ultimately show ?thesis using lo hi by (simp add: abs_le_iff)
qed

definition dac_code :: "rat \<Rightarrow> rat \<Rightarrow> int" where
  "dac_code c x = round_half_even (round64 (round64 (x / c) * 4095))"

lemma dac_ratio:
  assumes "0 < c" "0 \<le> x" "x \<le> c"
  shows "0 \<le> round64 (x / c)" "round64 (x / c) \<le> 1"
  using assms r64.nonneg[of "x / c"] r64.int_le[of 1 "x / c"] by simp_all

lemma dac_code_bounds:
  assumes "0 < c" "0 \<le> x" "x \<le> c"
  shows "0 \<le> dac_code c x" "dac_code c x \<le> 4095"
proof -
  note q = dac_ratio[OF assms]
  have "0 \<le> round64 (round64 (x / c) * 4095)" "round64 (round64 (x / c) * 4095) \<le> 4095"
    using q r64.nonneg[of "round64 (x / c) * 4095"] r64.int_le[of 4095 "round64 (x / c) * 4095"] by simp_all
  then show "0 \<le> dac_code c x" "dac_code c x \<le> 4095"
    using round_half_even_bounds[of 0] round_half_even_bounds(2)[of _ 4095] by (simp_all add: dac_code_def)
qed

lemma dac_code_mono: "0 < c \<Longrightarrow> x \<le> y \<Longrightarrow> dac_code c x \<le> dac_code c y"
  by (simp add: dac_code_def round_half_even_mono r64.mono divide_right_mono)

lemma dac_code_ends: "0 < c \<Longrightarrow> dac_code c 0 = 0" "0 < c \<Longrightarrow> dac_code c c = 4095"
  using r64.of_int_exact[of 1] r64.of_int_exact[of 4095] round_half_even_of_int[of 0]
    round_half_even_of_int[of 4095]
  by (simp_all add: dac_code_def)

lemma dac_code_near:
  assumes "0 < c" "0 \<le> x" "x \<le> c"
  shows "\<bar>of_int (dac_code c x) - x / c * 4095\<bar> \<le> 1 / 2 + 1 / 2 ^ 39"
proof -
  let ?q = "round64 (x / c)" and ?p = "round64 (round64 (x / c) * 4095)"
  note q = dac_ratio[OF assms]
  have r: "0 \<le> x / c" "x / c \<le> 1" using assms by simp_all
  define y where "y = x / c"
  have y: "0 \<le> y" "y \<le> 1" using r by (simp_all add: y_def)
  have a: "\<bar>round64 y - y\<bar> \<le> 1 / 2 ^ 52"
    by (rule round64_near) (use y in simp_all)
  have b: "\<bar>?p - ?q * 4095\<bar> \<le> 1 / 2 ^ 40"
    by (rule round64_near) (use q in simp_all)
  have d: "\<bar>of_int (dac_code c x) - ?p\<bar> \<le> 1 / 2"
    using round_half_even_near[of ?p] by (simp add: dac_code_def)
  have "\<bar>of_int (dac_code c x) - y * 4095\<bar> \<le> 1 / 2 + 1 / 2 ^ 39"
    using a b[folded y_def] d[folded y_def] by (simp add: abs_if split: if_splits)
  then show ?thesis by (simp only: y_def)
qed

lemma voltage_to_word_Fin:
  assumes "gc_output_range_volts config \<in> {5, 10}"
  shows "voltage_to_word config v = Inr w \<longleftrightarrow>
    (\<exists>x. v = Fin x \<and> 0 \<le> x \<and> x \<le> gc_output_range_volts config
      \<and> w = 16 * dac_code (gc_output_range_volts config) x)"
proof (cases v)
  case (Fin x)
  let ?c = "gc_output_range_volts config"
  have c: "0 < ?c" using assms by auto
  show ?thesis
  proof (cases "0 \<le> x \<and> x \<le> ?c")
    case True
    note q = dac_ratio[OF c conjunct1[OF True] conjunct2[OF True]]
      and b = dac_code_bounds[OF c conjunct1[OF True] conjunct2[OF True]]
    have "x / ?c \<le> 1" "0 \<le> x / ?c" using True c by simp_all
    then have 1: "to_float (x / ?c) = Fin (round64 (x / ?c))"
      by (intro to_float_small) simp
    have 2: "to_float (round64 (x / ?c) * 4095) = Fin (round64 (round64 (x / ?c) * 4095))"
      using q by (intro to_float_small) simp
    show ?thesis
      using Fin True 1 2 b
      by (auto simp: voltage_to_word_def Let_def fmul_pos_def fdiv_pos_def MAX_CODE_def
          dac_code_def push_bit_eq_mult)
  qed (use Fin in \<open>auto simp: voltage_to_word_def Let_def\<close>)
qed (simp_all add: voltage_to_word_def Let_def)

text \<open>C7: The conversion of a voltage. For the 5 V and the 10 V range it succeeds exactly on the
  finite voltages from 0 to the range; the word is a 12-bit code in the upper bits of 16, so the
  clamp never acts; the code is within half a step (and a rounding error below 1/2^39 of a step)
  of the exact proportion; and a higher voltage never gives a lower word.\<close>

theorem voltage_to_word_accurate:
  assumes "gc_output_range_volts config = c" "c \<in> {5, 10}"
  shows "((\<exists>w. voltage_to_word config v = Inr w) \<longleftrightarrow> (\<exists>x. v = Fin x \<and> 0 \<le> x \<and> x \<le> c))
    \<and> (voltage_to_word config (Fin x) = Inr w \<longrightarrow>
      (\<exists>code. w = 16 * code \<and> 0 \<le> code \<and> code \<le> 4095
        \<and> \<bar>of_int code - x / c * 4095\<bar> \<le> 1 / 2 + 1 / 2 ^ 39))
    \<and> (voltage_to_word config (Fin x) = Inr w \<and> voltage_to_word config (Fin y) = Inr u \<and> x \<le> y \<longrightarrow> w \<le> u)
    \<and> voltage_to_word config (Fin 0) = Inr 0 \<and> voltage_to_word config (Fin c) = Inr 0xFFF0"
proof -
  note w = voltage_to_word_Fin[of config, unfolded assms(1), OF assms(2)]
  have c: "0 < c" using assms(2) by auto
  have "(\<exists>w. voltage_to_word config v = Inr w) \<longleftrightarrow> (\<exists>x. v = Fin x \<and> 0 \<le> x \<and> x \<le> c)"
    using w by auto
  moreover have "voltage_to_word config (Fin x) = Inr w \<longrightarrow>
      (\<exists>code. w = 16 * code \<and> 0 \<le> code \<and> code \<le> 4095
        \<and> \<bar>of_int code - x / c * 4095\<bar> \<le> 1 / 2 + 1 / 2 ^ 39)"
    using w dac_code_bounds[OF c] dac_code_near[OF c] by auto
  moreover have "voltage_to_word config (Fin x) = Inr w \<and> voltage_to_word config (Fin y) = Inr u \<and> x \<le> y
      \<longrightarrow> w \<le> u"
    using w dac_code_mono[OF c] by auto
  moreover have "voltage_to_word config (Fin 0) = Inr 0 \<and> voltage_to_word config (Fin c) = Inr 0xFFF0"
    using w dac_code_ends[OF c] c by auto
  ultimately show ?thesis by blast
qed

definition dfr_config :: gp8403_config where
  "dfr_config = \<lparr>gc_bus = 1, gc_address = 0x58, gc_output_range_volts = 10\<rparr>"

theorem voltage_to_word_accurate_witness:
  "voltage_to_word dfr_config (Fin 10) = Inr 0xFFF0"
  using voltage_to_word_accurate[of dfr_config 10] by (simp add: dfr_config_def)

subsection \<open>What the actuator does to the registers\<close>

text \<open>The words the outputs of the fans have for given setpoints.\<close>

definition channel_words :: "i2c_bus \<Rightarrow> int option \<times> int option" where
  "channel_words b = (map_of (ib_registers b) 2, map_of (ib_registers b) 4)"

definition setpoint_words :: "fan_setpoints \<Rightarrow> int option \<times> int option" where
  "setpoint_words sp =
     ((case fs_supply_voltage sp of Fin x \<Rightarrow> Some (16 * dac_code 10 x) | _ \<Rightarrow> None),
      (case fs_extract_voltage sp of Fin x \<Rightarrow> Some (16 * dac_code 10 x) | _ \<Rightarrow> None))"

lemma write_word_ok:
  "gp8403_write_word config reg v b = (b', Inr ()) \<Longrightarrow> ib_registers b' = AList.update reg v (ib_registers b)"
  by (auto simp: gp8403_write_word_def op_catch_def i2c_write_word_def Let_def
      split: i2c_outcome.splits exc.splits if_splits)

lemma set_voltage_ok:
  assumes "set_voltage config ch v b = (b', Inr ())" "gc_output_range_volts config = 10"
  shows "\<exists>reg x. (ch, reg) \<in> {(0, 2), (1, 4)} \<and> v = Fin x
    \<and> ib_registers b' = AList.update reg (16 * dac_code 10 x) (ib_registers b)"
proof -
  from assms(1) obtain reg w where r: "map_of CHANNEL_REGISTERS ch = Some reg" "voltage_to_word config v = Inr w"
    "gp8403_write_word config reg w b = (b', Inr ())"
    by (auto simp: set_voltage_def op_bind_eq_Inr split: option.splits)
  with voltage_to_word_Fin[of config v w] assms(2) write_word_ok[OF r(3)] show ?thesis
    by (auto simp: CHANNEL_REGISTERS_def split: if_splits)
qed

lemma set_both_channels_ok:
  assumes "set_both_channels config v w b = (b', Inr ())" "gc_output_range_volts config = 10"
  shows "channel_words b' = setpoint_words \<lparr>fs_supply_voltage = v, fs_extract_voltage = w\<rparr>"
proof -
  from assms(1) obtain b1 where s: "set_voltage config 0 v b = (b1, Inr ())" "set_voltage config 1 w b1 = (b', Inr ())"
    by (auto simp: set_both_channels_def op_bind_eq_Inr)
  from set_voltage_ok[OF s(1) assms(2)] set_voltage_ok[OF s(2) assms(2)] show ?thesis
    by (auto simp: channel_words_def setpoint_words_def update_conv')
qed

lemma on_bus_apply [simp]: "on_bus m (a, b) = ((a, fst (m b)), snd (m b))"
  by (simp add: on_bus_def split: prod.splits)

lemma set_ready_apply [simp]: "set_ready v (a, b) = ((a\<lparr>da_ready := v\<rparr>, b), Inr ())"
  by (simp add: set_ready_def)

lemma set_both_channels_fst:
  "snd (set_both_channels config v w b) = Inr () \<Longrightarrow> gc_output_range_volts config = 10 \<Longrightarrow>
   channel_words (fst (set_both_channels config v w b)) = setpoint_words \<lparr>fs_supply_voltage = v, fs_extract_voltage = w\<rparr>"
  by (metis prod.collapse set_both_channels_ok)

text \<open>What each operation of the actuator leaves: the configuration, the ready flag, and on
  success the words of the two channels.\<close>

lemma dfr_start_cases:
  assumes "dfr_start (a, b) = ((a', b'), r)" "gc_output_range_volts (da_config a) = 10"
  shows "da_config a' = da_config a" "r = Inr () \<Longrightarrow> da_ready a' \<and> channel_words b' = setpoint_words stopped"
    "r = Inl e \<Longrightarrow> \<not> da_ready a'"
proof -
  have *: "da_config a' = da_config a \<and> (r = Inr () \<longrightarrow> da_ready a' \<and> channel_words b' = setpoint_words stopped)
      \<and> ((\<exists>e. r = Inl e) \<longrightarrow> \<not> da_ready a')"
    using assms
    by (auto simp: dfr_start_def Let_def op_bind_def zero_all_def stopped_def
        intro!: set_both_channels_fst split: prod.splits sum.splits)
  from * show "da_config a' = da_config a"
    "r = Inr () \<Longrightarrow> da_ready a' \<and> channel_words b' = setpoint_words stopped"
    "r = Inl e \<Longrightarrow> \<not> da_ready a'" by auto
qed

lemma dfr_apply_cases:
  assumes "dfr_apply sp (a, b) = ((a', b'), r)" "gc_output_range_volts (da_config a) = 10"
  shows "da_config a' = da_config a"
    "r = Inr () \<Longrightarrow> da_ready a \<and> da_ready a' \<and> channel_words b' = setpoint_words sp"
    "r = Inl e \<Longrightarrow> \<not> da_ready a'"
proof -
  have *: "da_config a' = da_config a
      \<and> (r = Inr () \<longrightarrow> da_ready a \<and> da_ready a' \<and> channel_words b' = setpoint_words sp)
      \<and> ((\<exists>e. r = Inl e) \<longrightarrow> \<not> da_ready a')"
    using assms
    by (cases sp) (auto simp: dfr_apply_def or_not_ready_def op_bind_def op_catch_def
        intro!: set_both_channels_ok split: prod.splits sum.splits if_splits)
  from * show "da_config a' = da_config a"
    "r = Inr () \<Longrightarrow> da_ready a \<and> da_ready a' \<and> channel_words b' = setpoint_words sp"
    "r = Inl e \<Longrightarrow> \<not> da_ready a'" by auto
qed

lemma dfr_stop_all_cases:
  assumes "dfr_stop_all (a, b) = ((a', b'), r)" "gc_output_range_volts (da_config a) = 10"
  shows "da_config a' = da_config a"
    "r = Inr () \<Longrightarrow> da_ready a' = da_ready a" "r = Inr () \<Longrightarrow> da_ready a \<Longrightarrow> channel_words b' = setpoint_words stopped"
    "r = Inl e \<Longrightarrow> \<not> da_ready a'" "\<not> da_ready a \<Longrightarrow> b' = b"
proof -
  have *: "da_config a' = da_config a
      \<and> (r = Inr () \<longrightarrow> da_ready a' = da_ready a \<and> (da_ready a \<longrightarrow> channel_words b' = setpoint_words stopped))
      \<and> ((\<exists>e. r = Inl e) \<longrightarrow> \<not> da_ready a') \<and> (\<not> da_ready a \<longrightarrow> b' = b)"
    using assms
    by (auto simp: dfr_stop_all_def or_not_ready_def op_bind_def op_catch_def zero_all_def stopped_def
        intro!: set_both_channels_ok split: prod.splits sum.splits if_splits)
  from * show "da_config a' = da_config a"
    "r = Inr () \<Longrightarrow> da_ready a' = da_ready a" "r = Inr () \<Longrightarrow> da_ready a \<Longrightarrow> channel_words b' = setpoint_words stopped"
    "r = Inl e \<Longrightarrow> \<not> da_ready a'" "\<not> da_ready a \<Longrightarrow> b' = b" by auto
qed

lemma dfr_health_check_cases:
  assumes "dfr_health_check (a, b) = ((a', b'), r)"
  shows "a' = a" "channel_words b' = channel_words b"
  using assms
  by (auto simp: dfr_health_check_def gp8403_probe_def op_catch_def i2c_read_byte_def channel_words_def
      split: i2c_outcome.splits)

lemma dfr_new_range: "dfr_new bus address opened = Inr a \<Longrightarrow> gc_output_range_volts (da_config a) = 10 \<and> \<not> da_ready a"
  by (auto simp: dfr_new_def Let_def rbind_eq_Inr)


subsection \<open>A working bus\<close>

text \<open>On a bus without failures every write of an allowed voltage goes through.\<close>

definition bus_works :: "i2c_bus \<Rightarrow> bool" where
  "bus_works b = (\<forall>n. ib_outcome b n = I2C_Ok)"

lemma write_word_works:
  "bus_works b \<Longrightarrow> \<exists>b'. gp8403_write_word config reg v b = (b', Inr ()) \<and> bus_works b'"
  by (simp add: gp8403_write_word_def op_catch_def i2c_write_word_def Let_def bus_works_def)

lemma probe_works: "bus_works b \<Longrightarrow> \<exists>b'. gp8403_probe config b = (b', Inr ()) \<and> bus_works b'"
  by (simp add: gp8403_probe_def op_catch_def i2c_read_byte_def bus_works_def)

lemma set_voltage_works:
  assumes "bus_works b" "gc_output_range_volts config = 10" "voltage_allowed v" "channel \<in> {0, 1}"
  shows "\<exists>b'. set_voltage config channel v b = (b', Inr ()) \<and> bus_works b'"
proof -
  from assms(3) obtain x where x: "v = Fin x" "0 \<le> x" "x \<le> 10" by (auto simp: voltage_allowed_def)
  then have "voltage_to_word config v = Inr (16 * dac_code 10 x)"
    using voltage_to_word_Fin[of config v] assms(2) by simp
  moreover obtain reg where "map_of CHANNEL_REGISTERS channel = Some reg"
    using assms(4) by (auto simp: CHANNEL_REGISTERS_def)
  ultimately show ?thesis using write_word_works[OF assms(1)] by (simp add: set_voltage_def op_bind_Inr)
qed

lemma set_both_works:
  assumes "bus_works b" "gc_output_range_volts config = 10" "voltage_allowed s" "voltage_allowed e"
  shows "\<exists>b'. set_both_channels config s e b = (b', Inr ()) \<and> bus_works b'"
proof -
  obtain b1 where 1: "set_voltage config 0 s b = (b1, Inr ())" "bus_works b1"
    using set_voltage_works[OF assms(1,2,3), of 0] by auto
  obtain b2 where "set_voltage config 1 e b1 = (b2, Inr ())" "bus_works b2"
    using set_voltage_works[OF 1(2) assms(2,4), of 1] by auto
  with 1 show ?thesis by (simp add: set_both_channels_def op_bind_Inr)
qed

lemma zero_allowed: "voltage_allowed (Fin 0)"
  by (simp add: voltage_allowed_def)

lemma dfr_start_works:
  assumes "bus_works b" "gc_output_range_volts (da_config a) = 10"
  shows "\<exists>b'. dfr_start (a, b) = ((a\<lparr>da_ready := True\<rparr>, b'), Inr ()) \<and> bus_works b'"
proof -
  obtain b1 where 1: "gp8403_probe (da_config a) b = (b1, Inr ())" "bus_works b1"
    using probe_works[OF assms(1)] by blast
  obtain b2 where 2: "configure_output_range (da_config a) b1 = (b2, Inr ())" "bus_works b2"
    using write_word_works[OF 1(2)] unfolding configure_output_range_def by blast
  obtain b3 where 3: "zero_all (da_config a) b2 = (b3, Inr ())" "bus_works b3"
    using set_both_works[OF 2(2) assms(2) zero_allowed zero_allowed] unfolding zero_all_def by blast
  with 1 2 show ?thesis by (simp add: dfr_start_def Let_def op_bind_def on_bus_def set_ready_def)
qed

lemma dfr_apply_works:
  assumes "bus_works b" "gc_output_range_volts (da_config a) = 10" "da_ready a" "setpoints_allowed sp"
  shows "\<exists>b'. dfr_apply sp (a, b) = ((a, b'), Inr ()) \<and> bus_works b'"
proof -
  have "voltage_allowed (fs_supply_voltage sp)" "voltage_allowed (fs_extract_voltage sp)"
    using assms(4) by (simp_all add: setpoints_allowed_def)
  from set_both_works[OF assms(1,2) this] assms(3) show ?thesis
    by (auto simp: dfr_apply_def or_not_ready_def op_catch_def on_bus_def)
qed

end
