(* ===== verification/Ports.thy ===== *)
theory Ports
  imports Dac
begin

section \<open>The actuator port of the application\<close>

text \<open>
  The contract behind \<open>VentilationActuator\<close> of \<open>application/ports.py\<close>, as the ventilation service
  relies on it. \<open>ok\<close> is an invariant of the actuator, \<open>ready\<close> the property the service reads,
  \<open>armed\<close> the actuator's own knowledge that it controls the outputs, \<open>outputs\<close> the words in the two
  channels of the device. An operation that returns normally leaves the outputs it promises; what a
  failing one leaves is not promised. Stopping promises zero outputs only to an armed actuator.
\<close>

locale ventilation_actuator =
  fixes ok :: "'a \<Rightarrow> bool" and ready :: "'a \<Rightarrow> bool" and armed :: "'a \<Rightarrow> bool"
    and outputs :: "'a \<Rightarrow> int option \<times> int option"
    and apply_op :: "fan_setpoints \<Rightarrow> ('a, unit) op" and stop_op :: "('a, unit) op"
    and health_op :: "('a, unit) op" and recover_op :: "('a, unit) op"
  assumes apply_keeps: "ok a \<Longrightarrow> apply_op sp a = (a', r) \<Longrightarrow> ok a'"
    and stop_keeps: "ok a \<Longrightarrow> stop_op a = (a', r) \<Longrightarrow> ok a'"
    and health_keeps: "ok a \<Longrightarrow> health_op a = (a', r) \<Longrightarrow> ok a'"
    and recover_keeps: "ok a \<Longrightarrow> recover_op a = (a', r) \<Longrightarrow> ok a'"
    and apply_done: "ok a \<Longrightarrow> apply_op sp a = (a', Inr ()) \<Longrightarrow> armed a' \<and> outputs a' = setpoint_words sp"
    and stop_done: "ok a \<Longrightarrow> armed a \<Longrightarrow> stop_op a = (a', Inr ()) \<Longrightarrow>
      armed a' \<and> outputs a' = setpoint_words stopped"
    and health_done: "ok a \<Longrightarrow> health_op a = (a', Inr ()) \<Longrightarrow>
      (armed a \<longrightarrow> armed a') \<and> outputs a' = outputs a"
    and recover_done: "ok a \<Longrightarrow> recover_op a = (a', Inr ()) \<Longrightarrow> armed a' \<and> outputs a' = setpoint_words stopped"
begin

text \<open>After any operation that returned, on an armed actuator, the outputs are known: the ones
  commanded, zero, or the ones before.\<close>

lemma known_after:
  assumes "ok a" "armed a"
  shows "apply_op sp a = (a', Inr ()) \<Longrightarrow> outputs a' = setpoint_words sp"
    and "stop_op a = (a', Inr ()) \<Longrightarrow> outputs a' = setpoint_words stopped"
    and "health_op a = (a', Inr ()) \<Longrightarrow> outputs a' = outputs a"
    and "recover_op a = (a', Inr ()) \<Longrightarrow> outputs a' = setpoint_words stopped"
  using assms apply_done stop_done health_done recover_done by blast+

end

text \<open>\<open>DFR0971Actuator\<close> itself satisfies the contract.\<close>

definition dfr_ok :: "dfr_actuator \<times> i2c_bus \<Rightarrow> bool" where
  "dfr_ok s = (gc_output_range_volts (da_config (fst s)) = 10)"

interpretation dfr: ventilation_actuator dfr_ok "\<lambda>s. da_ready (fst s)" "\<lambda>s. da_ready (fst s)"
    "\<lambda>s. channel_words (snd s)" dfr_apply dfr_stop_all dfr_health_check dfr_recover
proof (unfold_locales, unfold dfr_ok_def dfr_recover_def)
  fix a a' :: "dfr_actuator \<times> i2c_bus" and r sp
  assume ok: "gc_output_range_volts (da_config (fst a)) = 10"
  obtain x b x' b' where s: "a = (x, b)" "a' = (x', b')" by (metis surj_pair)
  show "gc_output_range_volts (da_config (fst a')) = 10" if "dfr_apply sp a = (a', r)"
    using dfr_apply_cases(1) that ok unfolding s by simp
  show "gc_output_range_volts (da_config (fst a')) = 10" if "dfr_stop_all a = (a', r)"
    using dfr_stop_all_cases(1) that ok unfolding s by simp
  show "gc_output_range_volts (da_config (fst a')) = 10" if "dfr_health_check a = (a', r)"
    using that ok unfolding s by (auto dest: dfr_health_check_cases(1))
  show "gc_output_range_volts (da_config (fst a')) = 10" if "dfr_start a = (a', r)"
    using dfr_start_cases(1) that ok unfolding s by simp
  show "da_ready (fst a') \<and> channel_words (snd a') = setpoint_words sp" if "dfr_apply sp a = (a', Inr ())"
    using dfr_apply_cases(2) that ok unfolding s by simp
  show "da_ready (fst a') \<and> channel_words (snd a') = setpoint_words stopped"
    if "da_ready (fst a)" "dfr_stop_all a = (a', Inr ())"
    using dfr_stop_all_cases(2,3) that ok unfolding s by simp
  show "(da_ready (fst a) \<longrightarrow> da_ready (fst a')) \<and> channel_words (snd a') = channel_words (snd a)"
    if "dfr_health_check a = (a', Inr ())"
    using that unfolding s by (auto dest: dfr_health_check_cases)
  show "da_ready (fst a') \<and> channel_words (snd a') = setpoint_words stopped" if "dfr_start a = (a', Inr ())"
    using dfr_start_cases(2) that ok unfolding s by simp
qed

end
