(* ===== verification/CoreState.thy ===== *)
theory CoreState
  imports SensorBus AeroBus Tacho ScheduleManager Ports
begin

section \<open>The state that the core publishes\<close>

text \<open>
  Models \<open>domain/models.py\<close>, the records of \<open>domain/shadow.py\<close> and \<open>domain/zigbee.py\<close>, and
  \<open>domain/alerts.py\<close>. The constructors of an enumeration carry a prefix where two of them would
  share a name. The conversions to dictionaries for the web interface are left out.
\<close>

datatype ventilation_mode = MODE_STOP | MODE_MANUAL | MODE_FAULT

datatype alarm_code =
    ALARM_SYSTEM_UNDERVOLTAGE
  | ALARM_DAC_STATE_UNCERTAIN
  | ALARM_DAC_COMMUNICATION_LOST
  | ALARM_SENSOR_BUS_UNAVAILABLE
  | ALARM_SENSOR_NODE_UNAVAILABLE
  | ALARM_SENSOR_DATA_INVALID
  | ALARM_SEN55_DIAGNOSTICS_UNAVAILABLE
  | ALARM_SEN55_FAN_SPEED_WARNING
  | ALARM_SEN55_GAS_SENSOR_ERROR
  | ALARM_SEN55_RHT_ERROR
  | ALARM_SEN55_LASER_ERROR
  | ALARM_SEN55_FAN_ERROR
  | ALARM_KAMOD_HEARTBEAT_SINGLE_GAP
  | ALARM_KAMOD_HEARTBEAT_DEGRADED
  | ALARM_KAMOD_HEARTBEAT_LOST
  | ALARM_KAMOD_UNEXPECTED_RESTART
  | ALARM_KAMOD_RS485_NOT_READY
  | ALARM_KAMOD_SENSOR_STATE_ERROR
  | ALARM_KAMOD_NODE_UNAVAILABLE
  | ALARM_SERVICE_AGENT_UNAVAILABLE
  | ALARM_SERVICE_NETWORK_AP_UNAVAILABLE
  | ALARM_SERVICE_NETWORK_DHCP_UNAVAILABLE
  | ALARM_SERVICE_NETWORK_FIREWALL_INVALID
  | ALARM_AERO_BUS_UNAVAILABLE
  | ALARM_TACHO_MONITOR_UNAVAILABLE
  | ALARM_TACHO_CONFIGURATION_INVALID
  | ALARM_ZIGBEE_MQTT_DISCONNECTED
  | ALARM_ZIGBEE_BRIDGE_OFFLINE
  | ALARM_ZIGBEE_DEVICE_OFFLINE
  | ALARM_ZIGBEE_DEVICE_DATA_STALE
  | ALARM_ZIGBEE_LOW_BATTERY

text \<open>\<open>code.value\<close>.\<close>

fun alarm_code_value :: "alarm_code \<Rightarrow> string" where
  "alarm_code_value ALARM_SYSTEM_UNDERVOLTAGE = ''SYSTEM_UNDERVOLTAGE''"
| "alarm_code_value ALARM_DAC_STATE_UNCERTAIN = ''DAC_STATE_UNCERTAIN''"
| "alarm_code_value ALARM_DAC_COMMUNICATION_LOST = ''DAC_COMMUNICATION_LOST''"
| "alarm_code_value ALARM_SENSOR_BUS_UNAVAILABLE = ''SENSOR_BUS_UNAVAILABLE''"
| "alarm_code_value ALARM_SENSOR_NODE_UNAVAILABLE = ''SENSOR_NODE_UNAVAILABLE''"
| "alarm_code_value ALARM_SENSOR_DATA_INVALID = ''SENSOR_DATA_INVALID''"
| "alarm_code_value ALARM_SEN55_DIAGNOSTICS_UNAVAILABLE = ''SEN55_DIAGNOSTICS_UNAVAILABLE''"
| "alarm_code_value ALARM_SEN55_FAN_SPEED_WARNING = ''SEN55_FAN_SPEED_WARNING''"
| "alarm_code_value ALARM_SEN55_GAS_SENSOR_ERROR = ''SEN55_GAS_SENSOR_ERROR''"
| "alarm_code_value ALARM_SEN55_RHT_ERROR = ''SEN55_RHT_ERROR''"
| "alarm_code_value ALARM_SEN55_LASER_ERROR = ''SEN55_LASER_ERROR''"
| "alarm_code_value ALARM_SEN55_FAN_ERROR = ''SEN55_FAN_ERROR''"
| "alarm_code_value ALARM_KAMOD_HEARTBEAT_SINGLE_GAP = ''KAMOD_HEARTBEAT_SINGLE_GAP''"
| "alarm_code_value ALARM_KAMOD_HEARTBEAT_DEGRADED = ''KAMOD_HEARTBEAT_DEGRADED''"
| "alarm_code_value ALARM_KAMOD_HEARTBEAT_LOST = ''KAMOD_HEARTBEAT_LOST''"
| "alarm_code_value ALARM_KAMOD_UNEXPECTED_RESTART = ''KAMOD_UNEXPECTED_RESTART''"
| "alarm_code_value ALARM_KAMOD_RS485_NOT_READY = ''KAMOD_RS485_NOT_READY''"
| "alarm_code_value ALARM_KAMOD_SENSOR_STATE_ERROR = ''KAMOD_SENSOR_STATE_ERROR''"
| "alarm_code_value ALARM_KAMOD_NODE_UNAVAILABLE = ''KAMOD_NODE_UNAVAILABLE''"
| "alarm_code_value ALARM_SERVICE_AGENT_UNAVAILABLE = ''SERVICE_AGENT_UNAVAILABLE''"
| "alarm_code_value ALARM_SERVICE_NETWORK_AP_UNAVAILABLE = ''SERVICE_NETWORK_AP_UNAVAILABLE''"
| "alarm_code_value ALARM_SERVICE_NETWORK_DHCP_UNAVAILABLE = ''SERVICE_NETWORK_DHCP_UNAVAILABLE''"
| "alarm_code_value ALARM_SERVICE_NETWORK_FIREWALL_INVALID = ''SERVICE_NETWORK_FIREWALL_INVALID''"
| "alarm_code_value ALARM_AERO_BUS_UNAVAILABLE = ''AERO_BUS_UNAVAILABLE''"
| "alarm_code_value ALARM_TACHO_MONITOR_UNAVAILABLE = ''TACHO_MONITOR_UNAVAILABLE''"
| "alarm_code_value ALARM_TACHO_CONFIGURATION_INVALID = ''TACHO_CONFIGURATION_INVALID''"
| "alarm_code_value ALARM_ZIGBEE_MQTT_DISCONNECTED = ''ZIGBEE_MQTT_DISCONNECTED''"
| "alarm_code_value ALARM_ZIGBEE_BRIDGE_OFFLINE = ''ZIGBEE_BRIDGE_OFFLINE''"
| "alarm_code_value ALARM_ZIGBEE_DEVICE_OFFLINE = ''ZIGBEE_DEVICE_OFFLINE''"
| "alarm_code_value ALARM_ZIGBEE_DEVICE_DATA_STALE = ''ZIGBEE_DEVICE_DATA_STALE''"
| "alarm_code_value ALARM_ZIGBEE_LOW_BATTERY = ''ZIGBEE_LOW_BATTERY''"

datatype alarm_severity = WARNING | CRITICAL

record alarm_state =
  al_code :: alarm_code
  al_severity :: alarm_severity
  al_message :: string
  al_active_since :: string
  al_last_error :: string
  al_occurrences :: int
  al_alert_id :: "int option"
  al_source :: string
  al_acknowledged_at :: "string option"

subsection \<open>SHADOW proposals\<close>

datatype shadow_status =
  SHADOW_POLICY_UNCONFIGURED | SHADOW_TUNING_REQUIRED | SHADOW_BLOCKED_SAFETY | SHADOW_READY | SHADOW_DEGRADED

record shadow_zone_proposal =
  sp_zone :: string
  sp_schedule_expectation :: string
  sp_sensor_address :: "int option"
  sp_sensor_usable :: bool
  sp_air_quality_level :: "string option"
  sp_air_quality_driver :: "string option"
  sp_pm2_5_level :: "string option"
  sp_voc_level :: "string option"
  sp_nox_level :: "string option"
  sp_pm10_reference_exceeded :: "bool option"
  sp_inside_temperature_celsius :: "py_float option"
  sp_outside_temperature_celsius :: "py_float option"
  sp_thermal_band :: "string option"
  sp_air_request_pct :: "py_float option"
  sp_temperature_limit_pct :: "py_float option"
  sp_final_supply_pct :: "py_float option"
  sp_final_extract_pct :: "py_float option"
  sp_safety_override :: bool
  sp_air_quality_override :: bool
  sp_proposed_supply_voltage :: "py_float option"
  sp_proposed_extract_voltage :: "py_float option"
  sp_proposed_aero_speed :: "int option"
  sp_control_reason :: string

record shadow_automation_state =
  sh_enabled :: bool
  sh_actuation_supported :: bool
  sh_status :: shadow_status
  sh_evaluated_at_utc :: string
  sh_policy_version :: "string option"
  sh_zones :: "shadow_zone_proposal list"
  sh_tuning_complete :: bool
  sh_last_error :: string

subsection \<open>Zigbee\<close>

record zigbee_capability =
  zc_property :: string
  zc_name :: string
  zc_label :: string
  zc_value_type :: string
  zc_unit :: "string option"
  zc_endpoint :: "string option"
  zc_category :: "string option"
  zc_description :: "string option"
  zc_access :: int
  zc_value_min :: "py_float option"
  zc_value_max :: "py_float option"
  zc_value_step :: "py_float option"
  zc_values :: "string list"

record zigbee_pairing_state =
  zp_status :: string
  zp_ieee_address :: string
  zp_friendly_name :: string
  zp_event_at :: string
  zp_supported :: "bool option"
  zp_model :: "string option"
  zp_vendor :: "string option"
  zp_description :: "string option"
  zp_capabilities :: "zigbee_capability list"
  zp_acknowledged :: bool

record zigbee_inventory_device =
  zi_ieee_address :: string
  zi_friendly_name :: string
  zi_device_type :: string
  zi_supported :: bool
  zi_disabled :: bool
  zi_model :: "string option"
  zi_vendor :: "string option"
  zi_description :: "string option"
  zi_power_source :: "string option"
  zi_interview_state :: "string option"
  zi_capabilities :: "zigbee_capability list"

text \<open>\<open>str.lower()\<close> of an ASCII letter.\<close>

definition lower_char :: "char \<Rightarrow> char" where
  "lower_char c = (let n = (of_char c :: nat) in if 65 \<le> n \<and> n \<le> 90 then char_of (n + 32) else c)"

definition is_coordinator :: "zigbee_inventory_device \<Rightarrow> bool" where
  "is_coordinator d = (map lower_char (zi_device_type d) = ''coordinator'')"

record zigbee_device_state =
  zd_role :: string
  zd_friendly_name :: string
  zd_ieee_address :: "string option"
  zd_topic :: string
  zd_available :: "bool option"
  zd_temperature_celsius :: "py_float option"
  zd_battery_percent :: "py_float option"
  zd_linkquality :: "int option"
  zd_last_seen :: "string option"
  zd_last_message_at :: "string option"
  zd_messages :: int
  zd_parse_errors :: int
  zd_last_error :: "string option"

record zigbee_sensor_list_item =
  zl_ieee_address :: string
  zl_friendly_name :: string
  zl_topic :: string
  zl_role :: "string option"
  zl_model :: "string option"
  zl_vendor :: "string option"
  zl_available :: "bool option"
  zl_temperature_celsius :: "py_float option"
  zl_humidity_percent :: "py_float option"
  zl_battery_percent :: "py_float option"
  zl_voltage_mv :: "py_float option"
  zl_linkquality :: "int option"
  zl_last_seen :: "string option"
  zl_last_message_at :: "string option"
  zl_messages :: int
  zl_parse_errors :: int
  zl_last_error :: "string option"

record zigbee_mqtt_state =
  zm_broker_host :: string
  zm_broker_port :: int
  zm_base_topic :: string
  zm_running :: bool
  zm_connected :: bool
  zm_connected_at :: "string option"
  zm_disconnected_at :: "string option"
  zm_last_message_at :: "string option"
  zm_last_error :: "string option"
  zm_devices :: "zigbee_device_state list"
  zm_bridge_online :: "bool option"
  zm_permit_join :: "bool option"
  zm_permit_join_end :: "int option"
  zm_inventory_updated_at :: "string option"
  zm_last_event :: "(string \<times> py_value) list option"
  zm_inventory :: "zigbee_inventory_device list"
  zm_pairing :: "zigbee_pairing_state option"
  zm_sensor_list :: "zigbee_sensor_list_item list"

subsection \<open>The core state\<close>

record core_state =
  cs_mode :: ventilation_mode
  cs_setpoints :: fan_setpoints
  cs_hardware_ready :: bool
  cs_output_state_known :: bool
  cs_consecutive_hardware_failures :: int
  cs_active_alarms :: "alarm_state list"
  cs_sensor_bus :: "sensor_bus_state option"
  cs_aero_bus :: "aero_bus_state option"
  cs_tacho :: "tacho_monitor_state option"
  cs_zigbee :: "zigbee_mqtt_state option"
  cs_schedule :: "schedule_state option"
  cs_shadow_automation :: "shadow_automation_state option"

subsection \<open>Alert signals and records\<close>

record alert_signal =
  sg_key :: string
  sg_code :: alarm_code
  sg_source :: string
  sg_severity :: alarm_severity
  sg_message :: string
  sg_detail :: string
  sg_occurrences :: int

text \<open>\<open>AlertSignal.__post_init__\<close>.\<close>

definition new_alert_signal :: "string \<Rightarrow> alarm_code \<Rightarrow> string \<Rightarrow> alarm_severity \<Rightarrow> string \<Rightarrow> string \<Rightarrow> int \<Rightarrow>
    alert_signal result" where
  "new_alert_signal key code source severity message detail occurrences =
     (if key = [] then Inl (ValueError ''Alert key cannot be empty'')
      else if source = [] then Inl (ValueError ''Alert source cannot be empty'')
      else if message = [] then Inl (ValueError ''Alert message cannot be empty'')
      else if occurrences < 1 then Inl (ValueError ''Alert occurrences must be at least 1'')
      else Inr \<lparr>sg_key = key, sg_code = code, sg_source = source, sg_severity = severity,
        sg_message = message, sg_detail = detail, sg_occurrences = occurrences\<rparr>)"

record alert_record =
  rc_alert_id :: int
  rc_key :: string
  rc_code :: alarm_code
  rc_source :: string
  rc_severity :: alarm_severity
  rc_message :: string
  rc_detail :: string
  rc_active_since :: string
  rc_acknowledged_at :: "string option"
  rc_cleared_at :: "string option"
  rc_occurrences :: int

definition record_active :: "alert_record \<Rightarrow> bool" where
  "record_active r = (rc_cleared_at r = None)"

definition record_acknowledged :: "alert_record \<Rightarrow> bool" where
  "record_acknowledged r = (rc_acknowledged_at r \<noteq> None)"

definition to_alarm_state :: "alert_record \<Rightarrow> alarm_state" where
  "to_alarm_state r = \<lparr>al_code = rc_code r, al_severity = rc_severity r, al_message = rc_message r,
     al_active_since = rc_active_since r, al_last_error = rc_detail r, al_occurrences = rc_occurrences r,
     al_alert_id = Some (rc_alert_id r), al_source = rc_source r, al_acknowledged_at = rc_acknowledged_at r\<rparr>"

end
