(* ===== verification/Service.thy ===== *)
theory Service
  imports CoreState
begin

section \<open>The ventilation service\<close>

text \<open>
  Models \<open>application/service.py\<close> over the ports of \<open>application/ports.py\<close>. The objects behind the
  ports are parts of one world, and a port is the operations on it; a monitor that is not configured
  is \<open>None\<close>. The service's own lock makes its methods atomic, with one exception that is kept:
  \<open>control_aero\<close> releases it while the command runs, so it is two operations, \<open>control_aero_begin\<close>
  and \<open>control_aero_finish\<close>, with the AERO lock held between them. The wall clock is an argument.
\<close>

subsection \<open>Ports\<close>

record ('w, 's) monitor =
  mo_state :: "('w, 's) op"
  mo_health_check :: "('w, unit) op"
  mo_close :: "('w, unit) op"

record 'w schedule_port =
  sd_current_state :: "('w, schedule_state) op"
  sd_configuration :: "('w, schedule_configuration) op"
  sd_replace_zone :: "string \<Rightarrow> schedule_window list \<Rightarrow> ('w, schedule_configuration) op"
  sd_close :: "('w, unit) op"

record 'w ports =
  po_ready :: "'w \<Rightarrow> bool"
  po_last_error :: "'w \<Rightarrow> string option"
  po_apply :: "fan_setpoints \<Rightarrow> ('w, unit) op"
  po_stop_all :: "('w, unit) op"
  po_health_check :: "('w, unit) op"
  po_recover :: "('w, unit) op"
  po_close :: "('w, unit) op"
  po_sensor_bus :: "('w, sensor_bus_state) monitor option"
  po_aero_bus :: "('w, aero_bus_state) monitor option"
  po_execute_control :: "aero_control_command \<Rightarrow> ('w, aero_control_result) op"
  po_tacho :: "('w, tacho_monitor_state) monitor option"
  po_schedule :: "'w schedule_port option"

text \<open>\<open>None if port is None else port.state()\<close>.\<close>

definition optional_op :: "('w, 's) op option \<Rightarrow> ('w, 's option) op" where
  "optional_op m w = (case m of None \<Rightarrow> (w, Inr None)
     | Some f \<Rightarrow> (case f w of (w', Inl e) \<Rightarrow> (w', Inl e) | (w', Inr s) \<Rightarrow> (w', Inr (Some s))))"

subsection \<open>The service\<close>

definition DAC_ALARM_MESSAGE :: string where "DAC_ALARM_MESSAGE = ''Brak komunikacji z DAC DFR0971''"

record 'w service =
  sv_world :: 'w
  sv_policy :: fan_setpoint_policy
  sv_threshold :: int
  sv_setpoints :: fan_setpoints
  sv_mode :: ventilation_mode
  sv_output_state_known :: bool
  sv_failures :: int
  sv_recovery_required :: bool
  sv_active_alarms :: "(alarm_code \<times> alarm_state) list"
  sv_aero_lock :: bool

definition on_world :: "('w, 'a) op \<Rightarrow> ('w service, 'a) op" where
  "on_world m sv = (let (w, r) = m (sv_world sv) in (sv\<lparr>sv_world := w\<rparr>, r))"

definition activate_dac_alarm :: "string \<Rightarrow> string \<Rightarrow> 'w service \<Rightarrow> 'w service" where
  "activate_dac_alarm now error sv =
     (let active_since = (case map_of (sv_active_alarms sv) ALARM_DAC_COMMUNICATION_LOST of
            None \<Rightarrow> now | Some existing \<Rightarrow> al_active_since existing)
      in sv\<lparr>sv_active_alarms := AList.update ALARM_DAC_COMMUNICATION_LOST
           \<lparr>al_code = ALARM_DAC_COMMUNICATION_LOST, al_severity = CRITICAL, al_message = DAC_ALARM_MESSAGE,
            al_active_since = active_since, al_last_error = error, al_occurrences = sv_failures sv,
            al_alert_id = None, al_source = ''core'', al_acknowledged_at = None\<rparr> (sv_active_alarms sv)\<rparr>)"

definition service_new :: "'w ports \<Rightarrow> fan_setpoint_policy \<Rightarrow> int \<Rightarrow> string \<Rightarrow> 'w \<Rightarrow> 'w service result" where
  "service_new ports policy threshold now w =
     (if threshold < 1 then Inl (ValueError ''Hardware failure threshold must be at least 1'')
      else
        let sv = \<lparr>sv_world = w, sv_policy = policy, sv_threshold = threshold, sv_setpoints = stopped,
              sv_mode = MODE_STOP, sv_output_state_known = po_ready ports w, sv_failures = 0,
              sv_recovery_required = (\<not> po_ready ports w), sv_active_alarms = [], sv_aero_lock = False\<rparr>
        in if po_ready ports w then Inr sv
           else Inr ((activate_dac_alarm now
                    (str_or (po_last_error ports w) ''DAC was not ready during ventilation-core startup'')
                    (sv\<lparr>sv_failures := threshold\<rparr>))\<lparr>sv_mode := MODE_FAULT\<rparr>))"

definition record_hardware_failure :: "string \<Rightarrow> exc \<Rightarrow> bool \<Rightarrow> 'w service \<Rightarrow> 'w service" where
  "record_hardware_failure now e immediate_alarm sv =
     (let sv1 = sv\<lparr>sv_failures := sv_failures sv + 1, sv_output_state_known := False,
            sv_recovery_required := True\<rparr>
      in if immediate_alarm \<or> sv_threshold sv1 \<le> sv_failures sv1
         then (activate_dac_alarm now (exc_str e) sv1)\<lparr>sv_mode := MODE_FAULT\<rparr>
         else sv1)"

definition complete_safe_recovery :: "'w service \<Rightarrow> 'w service" where
  "complete_safe_recovery sv = sv\<lparr>sv_setpoints := stopped, sv_mode := MODE_STOP,
     sv_output_state_known := True, sv_failures := 0, sv_recovery_required := False, sv_active_alarms := []\<rparr>"

definition require_operational_hardware :: "'w ports \<Rightarrow> 'w service \<Rightarrow> unit result" where
  "require_operational_hardware ports sv =
     (if sv_recovery_required sv \<or> \<not> po_ready ports (sv_world sv) \<or> sv_active_alarms sv \<noteq> []
      then Inl (HardwareFaultActiveError
             ''DAC is not ready; wait for safe recovery before issuing fan setpoints'')
      else Inr ())"

definition service_state :: "'w ports \<Rightarrow> ('w service, core_state) op" where
  "service_state ports =
     op_bind (on_world (optional_op (map_option mo_state (po_sensor_bus ports)))) (\<lambda>sensor_bus.
     op_bind (on_world (optional_op (map_option mo_state (po_aero_bus ports)))) (\<lambda>aero_bus.
     op_bind (on_world (optional_op (map_option mo_state (po_tacho ports)))) (\<lambda>tacho.
     op_bind (on_world (optional_op (map_option sd_current_state (po_schedule ports)))) (\<lambda>schedule sv.
       (sv, Inr \<lparr>cs_mode = sv_mode sv, cs_setpoints = sv_setpoints sv,
          cs_hardware_ready = (po_ready ports (sv_world sv) \<and> \<not> sv_recovery_required sv),
          cs_output_state_known = sv_output_state_known sv,
          cs_consecutive_hardware_failures = sv_failures sv,
          cs_active_alarms = map snd (sv_active_alarms sv), cs_sensor_bus = sensor_bus,
          cs_aero_bus = aero_bus, cs_tacho = tacho, cs_zigbee = None, cs_schedule = schedule,
          cs_shadow_automation = None\<rparr>)))))"

text \<open>\<open>set_manual\<close> up to the state it returns.\<close>

definition command_fans :: "'w ports \<Rightarrow> string \<Rightarrow> fan_setpoints \<Rightarrow> ('w service, unit) op" where
  "command_fans ports now requested sv =
     (case validate_setpoints (sv_policy sv) requested of Inl e \<Rightarrow> (sv, Inl e) | Inr validated \<Rightarrow>
      case require_operational_hardware ports sv of Inl e \<Rightarrow> (sv, Inl e) | Inr _ \<Rightarrow>
      (case on_world (po_apply ports validated) sv of
         (sv1, Inl e) \<Rightarrow> (record_hardware_failure now e True sv1, Inl e)
       | (sv1, Inr _) \<Rightarrow> (sv1\<lparr>sv_setpoints := validated,
            sv_mode := (if validated = stopped then MODE_STOP else MODE_MANUAL),
            sv_output_state_known := True\<rparr>, Inr ())))"

definition set_manual :: "'w ports \<Rightarrow> string \<Rightarrow> py_float \<Rightarrow> py_float \<Rightarrow> ('w service, core_state) op" where
  "set_manual ports now s e =
     op_bind (command_fans ports now \<lparr>fs_supply_voltage = s, fs_extract_voltage = e\<rparr>) (\<lambda>_. service_state ports)"

definition force_stop :: "'w ports \<Rightarrow> string \<Rightarrow> ('w service, unit) op" where
  "force_stop ports now sv =
     (case on_world (if sv_recovery_required sv \<or> \<not> po_ready ports (sv_world sv)
                     then po_recover ports else po_stop_all ports) sv of
        (sv1, Inl e) \<Rightarrow> (record_hardware_failure now e True sv1, Inl e)
      | (sv1, Inr _) \<Rightarrow> (complete_safe_recovery sv1, Inr ()))"

definition stop :: "'w ports \<Rightarrow> string \<Rightarrow> ('w service, core_state) op" where
  "stop ports now = op_bind (force_stop ports now) (\<lambda>_. service_state ports)"

text \<open>\<open>health_check\<close>: the DAC first, then the monitors, whose exceptions are logged.\<close>

definition dac_health :: "'w ports \<Rightarrow> string \<Rightarrow> 'w service \<Rightarrow> 'w service" where
  "dac_health ports now sv =
     (if sv_recovery_required sv \<or> \<not> po_ready ports (sv_world sv)
      then (case on_world (po_recover ports) sv of
              (sv1, Inl e) \<Rightarrow> record_hardware_failure now e False sv1
            | (sv1, Inr _) \<Rightarrow> complete_safe_recovery sv1)
      else (case on_world (po_health_check ports) sv of
              (sv1, Inl e) \<Rightarrow> record_hardware_failure now e False sv1
            | (sv1, Inr _) \<Rightarrow> sv1\<lparr>sv_failures := 0, sv_output_state_known := True\<rparr>))"

definition monitor_step :: "('w, 's) monitor option \<Rightarrow> 'w \<Rightarrow> 'w" where
  "monitor_step m w = (case m of None \<Rightarrow> w | Some p \<Rightarrow> op_ignore (mo_health_check p) w)"

definition monitors_health :: "'w ports \<Rightarrow> 'w service \<Rightarrow> 'w service" where
  "monitors_health ports sv = sv\<lparr>sv_world := monitor_step (po_tacho ports)
     (monitor_step (po_aero_bus ports) (monitor_step (po_sensor_bus ports) (sv_world sv)))\<rparr>"

definition service_health_check :: "'w ports \<Rightarrow> string \<Rightarrow> ('w service, core_state) op" where
  "service_health_check ports now sv = service_state ports (monitors_health ports (dac_health ports now sv))"

text \<open>\<open>control_aero\<close> under the service lock; the AERO lock is released when a check raises.\<close>

definition check_aero_ready :: "aero_bus_state \<Rightarrow> unit result" where
  "check_aero_ready s =
     (if \<not> ab_worker_alive s \<or> \<not> ab_ready s \<or> \<not> ab_online s \<or> \<not> ab_usable s
      then Inl (AeroControlUnavailableError ''AERO BUS is not ready for control'')
      else if ab_control_busy s
      then Inl (AeroControlUnavailableError ''AERO control command already in progress'')
      else Inr ())"

definition control_aero_begin :: "'w ports \<Rightarrow> ('w service, unit) op" where
  "control_aero_begin ports sv =
     (if sv_aero_lock sv then (sv, Inl (AeroControlUnavailableError ''AERO control command already in progress''))
      else
        let (sv1, r) = (case po_aero_bus ports of
              None \<Rightarrow> (sv, Inl (AeroControlUnavailableError ''AERO BUS is not configured''))
            | Some aero_bus \<Rightarrow> (case on_world (mo_state aero_bus) sv of
                  (sv1, Inl e) \<Rightarrow> (sv1, Inl e)
                | (sv1, Inr s) \<Rightarrow> (sv1, check_aero_ready s)))
        in (sv1\<lparr>sv_aero_lock := is_ok r\<rparr>, r))"

definition control_aero_finish :: "'w ports \<Rightarrow> aero_control_command \<Rightarrow> ('w service, aero_control_result) op" where
  "control_aero_finish ports cmd sv =
     (let (sv1, r) = on_world (po_execute_control ports cmd) sv in (sv1\<lparr>sv_aero_lock := False\<rparr>, r))"

text \<open>The whole call, \<open>env\<close> being what other threads do while the service lock is free.\<close>

definition control_aero :: "'w ports \<Rightarrow> ('w service \<Rightarrow> 'w service) \<Rightarrow> aero_control_command \<Rightarrow>
    ('w service, aero_control_result) op" where
  "control_aero ports env cmd = op_bind (control_aero_begin ports) (\<lambda>_ sv. control_aero_finish ports cmd (env sv))"

definition service_schedule_configuration :: "'w ports \<Rightarrow> ('w service, schedule_configuration) op" where
  "service_schedule_configuration ports = (case po_schedule ports of
     None \<Rightarrow> op_raise (RuntimeError ''Schedule manager is not configured'')
   | Some m \<Rightarrow> on_world (sd_configuration m))"

definition service_replace_schedule :: "'w ports \<Rightarrow> string \<Rightarrow> schedule_window list \<Rightarrow>
    ('w service, schedule_configuration) op" where
  "service_replace_schedule ports zone ws = (case po_schedule ports of
     None \<Rightarrow> op_raise (RuntimeError ''Schedule manager is not configured'')
   | Some m \<Rightarrow> on_world (sd_replace_zone m zone ws))"

definition optional_close :: "('w, unit) op option \<Rightarrow> ('w, unit) op" where
  "optional_close m = (case m of None \<Rightarrow> op_return () | Some f \<Rightarrow> f)"

definition close_all :: "'w ports \<Rightarrow> ('w, unit) op" where
  "close_all ports =
     op_finally (\<lambda>w. (op_ignore (po_stop_all ports) w, Inr ()))
    (op_finally (po_close ports)
    (op_finally (optional_close (map_option mo_close (po_sensor_bus ports)))
    (op_finally (optional_close (map_option mo_close (po_aero_bus ports)))
    (op_finally (optional_close (map_option mo_close (po_tacho ports)))
                (optional_close (map_option sd_close (po_schedule ports)))))))"

text \<open>\<open>close\<close>, once the AERO lock is free.\<close>

definition service_close :: "'w ports \<Rightarrow> ('w service, unit) op" where
  "service_close ports = on_world (close_all ports)"


subsection \<open>What the ports promise\<close>

text \<open>
  The actuator satisfies \<open>ventilation_actuator\<close>. Everything else that happens to the world, by a
  call of a monitor, by a process that dies or by the plant, is a step of \<open>env\<close>: it never makes an
  actuator ready, and one that stays ready stays armed with unchanged outputs.
\<close>

definition state_ops :: "'w ports \<Rightarrow> ('w \<Rightarrow> 'w) set" where
  "state_ops ports =
     {\<lambda>w. fst (optional_op (map_option mo_state (po_sensor_bus ports)) w),
      \<lambda>w. fst (optional_op (map_option mo_state (po_aero_bus ports)) w),
      \<lambda>w. fst (optional_op (map_option mo_state (po_tacho ports)) w),
      \<lambda>w. fst (optional_op (map_option sd_current_state (po_schedule ports)) w)}"

definition side_ops :: "'w ports \<Rightarrow> ('w \<Rightarrow> 'w) set" where
  "side_ops ports = state_ops ports
     \<union> {monitor_step (po_sensor_bus ports), monitor_step (po_aero_bus ports), monitor_step (po_tacho ports)}
     \<union> {f. \<exists>cmd. f = (\<lambda>w. fst (po_execute_control ports cmd w))}
     \<union> {f. \<exists>m. po_schedule ports = Some m \<and> (f = (\<lambda>w. fst (sd_configuration m w))
          \<or> (\<exists>zone ws. f = (\<lambda>w. fst (sd_replace_zone m zone ws w))))}"

locale service_ports =
  actuator: ventilation_actuator ok "po_ready ports" armed outputs "po_apply ports" "po_stop_all ports"
    "po_health_check ports" "po_recover ports"
  for ports :: "'w ports" and ok :: "'w \<Rightarrow> bool" and armed :: "'w \<Rightarrow> bool"
    and outputs :: "'w \<Rightarrow> int option \<times> int option" +
  fixes env :: "'w \<Rightarrow> 'w \<Rightarrow> bool"
  assumes env_keeps: "ok w \<Longrightarrow> env w w' \<Longrightarrow> ok w'"
    and env_ready: "ok w \<Longrightarrow> env w w' \<Longrightarrow> po_ready ports w' \<Longrightarrow>
      po_ready ports w \<and> (armed w \<longrightarrow> armed w') \<and> outputs w' = outputs w"
    and side_env: "f \<in> side_ops ports \<Longrightarrow> env w (f w)"

text \<open>The methods of the service and the steps of its world, in any order.\<close>

inductive service_run :: "'w ports \<Rightarrow> ('w \<Rightarrow> 'w \<Rightarrow> bool) \<Rightarrow> 'w service \<Rightarrow> 'w service \<Rightarrow> bool"
  for ports :: "'w ports" and env :: "'w \<Rightarrow> 'w \<Rightarrow> bool" and sv0 :: "'w service" where
  sv_start: "service_run ports env sv0 sv0"
| sv_env: "service_run ports env sv0 sv \<Longrightarrow> env (sv_world sv) w' \<Longrightarrow>
    service_run ports env sv0 (sv\<lparr>sv_world := w'\<rparr>)"
| sv_manual: "service_run ports env sv0 sv \<Longrightarrow> service_run ports env sv0 (fst (set_manual ports now s e sv))"
| sv_stop: "service_run ports env sv0 sv \<Longrightarrow> service_run ports env sv0 (fst (stop ports now sv))"
| sv_health: "service_run ports env sv0 sv \<Longrightarrow>
    service_run ports env sv0 (fst (service_health_check ports now sv))"
| sv_state: "service_run ports env sv0 sv \<Longrightarrow> service_run ports env sv0 (fst (service_state ports sv))"
| sv_begin: "service_run ports env sv0 sv \<Longrightarrow> service_run ports env sv0 (fst (control_aero_begin ports sv))"
| sv_finish: "service_run ports env sv0 sv \<Longrightarrow> sv_aero_lock sv \<Longrightarrow>
    service_run ports env sv0 (fst (control_aero_finish ports cmd sv))"
| sv_config: "service_run ports env sv0 sv \<Longrightarrow>
    service_run ports env sv0 (fst (service_schedule_configuration ports sv))"
| sv_replace: "service_run ports env sv0 sv \<Longrightarrow>
    service_run ports env sv0 (fst (service_replace_schedule ports zone ws sv))"

subsection \<open>The fault state machine\<close>

text \<open>
  What relates the mode, the alarm, the failure count and the two flags, whatever the ports do.
\<close>

definition dac_alarm_ok :: "alarm_state \<Rightarrow> bool" where
  "dac_alarm_ok a = (al_code a = ALARM_DAC_COMMUNICATION_LOST \<and> al_severity a = CRITICAL
     \<and> 1 \<le> al_occurrences a)"

definition fault_ok :: "'w service \<Rightarrow> bool" where
  "fault_ok sv =
     (1 \<le> sv_threshold sv \<and> 0 \<le> sv_failures sv
      \<and> (sv_output_state_known sv \<longleftrightarrow> \<not> sv_recovery_required sv)
      \<and> (sv_recovery_required sv \<longleftrightarrow> 0 < sv_failures sv)
      \<and> (sv_mode sv = MODE_FAULT \<longleftrightarrow> sv_active_alarms sv \<noteq> [])
      \<and> (sv_active_alarms sv \<noteq> [] \<longrightarrow> sv_recovery_required sv)
      \<and> (sv_threshold sv \<le> sv_failures sv \<longrightarrow> sv_active_alarms sv \<noteq> [])
      \<and> (sv_active_alarms sv = [] \<or> (\<exists>a. sv_active_alarms sv = [(ALARM_DAC_COMMUNICATION_LOST, a)] \<and> dac_alarm_ok a))
      \<and> (sv_mode sv = MODE_STOP \<longrightarrow> sv_setpoints sv = stopped)
      \<and> (sv_mode sv = MODE_MANUAL \<longrightarrow> sv_setpoints sv \<noteq> stopped)
      \<and> (\<exists>requested. validate_setpoints (sv_policy sv) requested = Inr (sv_setpoints sv)))"

lemma stopped_valid: "validate_setpoints policy stopped = Inr stopped"
  by (simp add: validate_setpoints_def validate_voltage_def stopped_def)

lemma fault_ok_world [simp]: "fault_ok (sv\<lparr>sv_world := w\<rparr>) = fault_ok sv"
  "fault_ok (sv\<lparr>sv_aero_lock := b\<rparr>) = fault_ok sv"
  by (simp_all add: fault_ok_def)

lemma fault_ok_new: "service_new ports policy threshold now w = Inr sv \<Longrightarrow> fault_ok sv"
  using stopped_valid[of policy]
  by (auto simp: service_new_def Let_def fault_ok_def activate_dac_alarm_def dac_alarm_ok_def split: if_splits)

lemma fault_ok_failure:
  assumes "fault_ok sv" shows "fault_ok (record_hardware_failure now e immediate sv)"
proof -
  from assms consider "sv_active_alarms sv = []"
    | a where "sv_active_alarms sv = [(ALARM_DAC_COMMUNICATION_LOST, a)]" "dac_alarm_ok a"
    by (auto simp: fault_ok_def)
  then show ?thesis
    using assms
    by cases (auto simp: fault_ok_def record_hardware_failure_def activate_dac_alarm_def Let_def dac_alarm_ok_def)
qed

lemma fault_ok_recovery: "fault_ok sv \<Longrightarrow> fault_ok (complete_safe_recovery sv)"
  using stopped_valid[of "sv_policy sv"] by (auto simp: fault_ok_def complete_safe_recovery_def)

lemma on_world_frame: "on_world m sv = (sv', r) \<Longrightarrow> sv' = sv\<lparr>sv_world := fst (m (sv_world sv))\<rparr>"
  by (auto simp: on_world_def Let_def split: prod.splits)

text \<open>Methods that change the world only, by calls out of a given set.\<close>

definition world_only :: "('w \<Rightarrow> 'w) set \<Rightarrow> ('w service, 'a) op \<Rightarrow> bool" where
  "world_only F m = (\<forall>sv. \<exists>fs. set fs \<subseteq> F \<and> fst (m sv) = sv\<lparr>sv_world := fold (\<lambda>f. f) fs (sv_world sv)\<rparr>)"

lemma world_only_on_world: "(\<lambda>w. fst (m w)) \<in> F \<Longrightarrow> world_only F (on_world m)"
  unfolding world_only_def by (auto simp: on_world_def Let_def split: prod.splits intro!: exI[of _ "[\<lambda>w. fst (m w)]"])

lemma world_only_return: "world_only F (\<lambda>sv. (sv, r sv))"
  unfolding world_only_def by (auto intro!: exI[of _ "[]"])

lemma world_only_bind:
  assumes "world_only F m" "\<And>x. world_only F (f x)" shows "world_only F (op_bind m f)"
  unfolding world_only_def
proof
  fix sv
  obtain fs where fs: "set fs \<subseteq> F" "fst (m sv) = sv\<lparr>sv_world := fold (\<lambda>f. f) fs (sv_world sv)\<rparr>"
    using assms(1) unfolding world_only_def by blast
  show "\<exists>gs. set gs \<subseteq> F \<and> fst (op_bind m f sv) = sv\<lparr>sv_world := fold (\<lambda>f. f) gs (sv_world sv)\<rparr>"
  proof (cases "snd (m sv)")
    case (Inl e)
    with fs show ?thesis by (auto simp: op_bind_def split: prod.splits intro!: exI[of _ fs])
  next
    case (Inr x)
    obtain gs where "set gs \<subseteq> F" "fst (f x (fst (m sv))) = (fst (m sv))\<lparr>sv_world :=
        fold (\<lambda>f. f) gs (sv_world (fst (m sv)))\<rparr>"
      using assms(2)[of x] unfolding world_only_def by blast
    with fs Inr show ?thesis
      by (auto simp: op_bind_def split: prod.splits intro!: exI[of _ "fs @ gs"])
  qed
qed

lemma world_only_state: "world_only (state_ops ports) (service_state ports)"
  unfolding service_state_def
  by (intro world_only_bind world_only_on_world world_only_return) (simp_all add: state_ops_def)

lemma world_only_config: "world_only (side_ops ports) (service_schedule_configuration ports)"
  by (cases "po_schedule ports")
    (auto simp: service_schedule_configuration_def op_raise_def[abs_def] side_ops_def
      intro!: world_only_return world_only_on_world)

lemma world_only_replace: "world_only (side_ops ports) (service_replace_schedule ports zone ws)"
  by (cases "po_schedule ports")
    (auto simp: service_replace_schedule_def op_raise_def[abs_def] side_ops_def
      intro!: world_only_return world_only_on_world)

lemma world_only_sub: "world_only F m \<Longrightarrow> F \<subseteq> G \<Longrightarrow> world_only G m"
  unfolding world_only_def by (meson order_trans)

text \<open>A property of the service that every step of the world keeps is kept by such a method.\<close>

lemma world_only_keeps:
  assumes "world_only F m" "P sv" "\<And>f sv. f \<in> F \<Longrightarrow> P sv \<Longrightarrow> P (sv\<lparr>sv_world := f (sv_world sv)\<rparr>)"
  shows "P (fst (m sv))"
proof -
  obtain fs where fs: "set fs \<subseteq> F" "fst (m sv) = sv\<lparr>sv_world := fold (\<lambda>f. f) fs (sv_world sv)\<rparr>"
    using assms(1) unfolding world_only_def by blast
  have "P (sv\<lparr>sv_world := fold (\<lambda>f. f) fs (sv_world sv)\<rparr>)" using fs(1) assms(2)
  proof (induction fs arbitrary: sv)
    case (Cons f fs)
    then show ?case using assms(3)[of f sv] Cons.IH[of "sv\<lparr>sv_world := f (sv_world sv)\<rparr>"] by simp
  qed simp
  with fs(2) show ?thesis by simp
qed

lemma on_world_eq: "m (sv_world sv) = (w, r) \<Longrightarrow> on_world m sv = (sv\<lparr>sv_world := w\<rparr>, r)"
  by (simp add: on_world_def)

lemma require_operational_iff:
  "require_operational_hardware ports sv = Inr () \<longleftrightarrow>
   \<not> sv_recovery_required sv \<and> po_ready ports (sv_world sv) \<and> sv_active_alarms sv = []"
  by (simp add: require_operational_hardware_def)

text \<open>The cases of a fan command.\<close>

lemma command_fans_cases:
  obtains (refused) e where "command_fans ports now requested sv = (sv, Inl e)"
      "is_ok (validate_setpoints (sv_policy sv) requested) \<longrightarrow>
        e = HardwareFaultActiveError ''DAC is not ready; wait for safe recovery before issuing fan setpoints''
        \<and> (sv_recovery_required sv \<or> \<not> po_ready ports (sv_world sv) \<or> sv_active_alarms sv \<noteq> [])"
  | (failed) validated w e where "validate_setpoints (sv_policy sv) requested = Inr validated"
      "\<not> sv_recovery_required sv" "po_ready ports (sv_world sv)" "sv_active_alarms sv = []"
      "po_apply ports validated (sv_world sv) = (w, Inl e)"
      "command_fans ports now requested sv = (record_hardware_failure now e True (sv\<lparr>sv_world := w\<rparr>), Inl e)"
  | (applied) validated w where "validate_setpoints (sv_policy sv) requested = Inr validated"
      "\<not> sv_recovery_required sv" "po_ready ports (sv_world sv)" "sv_active_alarms sv = []"
      "po_apply ports validated (sv_world sv) = (w, Inr ())"
      "command_fans ports now requested sv = (sv\<lparr>sv_world := w, sv_setpoints := validated,
         sv_mode := (if validated = stopped then MODE_STOP else MODE_MANUAL),
         sv_output_state_known := True\<rparr>, Inr ())"
proof (cases "validate_setpoints (sv_policy sv) requested")
  case (Inl e)
  then show ?thesis by (intro refused[of e]) (simp_all add: command_fans_def)
next
  case (Inr validated)
  show ?thesis
  proof (cases "require_operational_hardware ports sv")
    case (Inl e)
    with Inr show ?thesis
      by (intro refused[of e]) (auto simp: command_fans_def require_operational_hardware_def split: if_splits)
  next
    case ok: (Inr u)
    then have op: "\<not> sv_recovery_required sv" "po_ready ports (sv_world sv)" "sv_active_alarms sv = []"
      using require_operational_iff[of ports sv] by simp_all
    obtain w r where w: "po_apply ports validated (sv_world sv) = (w, r)" by force
    show ?thesis
    proof (cases r)
      case (Inl e)
      with Inr ok op w show ?thesis
        by (intro failed[of validated w e]) (simp_all add: command_fans_def on_world_def)
    next
      case (Inr u')
      with \<open>validate_setpoints (sv_policy sv) requested = Inr validated\<close> ok op w show ?thesis
        by (intro applied[of validated w]) (simp_all add: command_fans_def on_world_def)
    qed
  qed
qed

lemma fault_ok_command: "fault_ok sv \<Longrightarrow> fault_ok (fst (command_fans ports now requested sv))"
proof (cases rule: command_fans_cases[of ports now requested sv])
  case (applied validated w)
  then show "fault_ok sv \<Longrightarrow> ?thesis" by (auto simp: fault_ok_def)
qed (simp_all add: fault_ok_failure)

lemma fault_ok_force_stop: "fault_ok sv \<Longrightarrow> fault_ok (fst (force_stop ports now sv))"
  by (auto simp: force_stop_def on_world_def Let_def fault_ok_failure fault_ok_recovery split: prod.splits sum.splits)

lemma fault_ok_health_done:
  "fault_ok sv \<Longrightarrow> \<not> sv_recovery_required sv \<Longrightarrow> fault_ok (sv\<lparr>sv_failures := 0, sv_output_state_known := True\<rparr>)"
  by (auto simp: fault_ok_def)

lemma fault_ok_dac_health: "fault_ok sv \<Longrightarrow> fault_ok (dac_health ports now sv)"
  by (auto simp: dac_health_def on_world_def Let_def fault_ok_failure fault_ok_recovery
      intro!: fault_ok_health_done split: prod.splits sum.splits)

lemma fault_ok_state: "fault_ok sv \<Longrightarrow> fault_ok (fst (service_state ports sv))"
  by (rule world_only_keeps[OF world_only_state, where P = fault_ok]) simp_all

lemma fst_bind_state:
  "P (fst (m sv)) \<Longrightarrow> (\<And>sv. P sv \<Longrightarrow> P (fst (service_state ports sv))) \<Longrightarrow>
   P (fst (op_bind m (\<lambda>_. service_state ports) sv))"
  by (auto simp: op_bind_def split: prod.splits sum.splits)

lemma fault_ok_set_manual: "fault_ok sv \<Longrightarrow> fault_ok (fst (set_manual ports now s e sv))"
  unfolding set_manual_def by (rule fst_bind_state[where P = fault_ok]) (simp_all add: fault_ok_command fault_ok_state)

lemma fault_ok_stop: "fault_ok sv \<Longrightarrow> fault_ok (fst (stop ports now sv))"
  unfolding stop_def by (rule fst_bind_state[where P = fault_ok]) (simp_all add: fault_ok_force_stop fault_ok_state)

lemma control_aero_begin_frame:
  "\<exists>b w. fst (control_aero_begin ports sv) = sv\<lparr>sv_world := w, sv_aero_lock := b\<rparr>
    \<and> (w = sv_world sv \<or> w = fst (optional_op (map_option mo_state (po_aero_bus ports)) (sv_world sv)))"
  by (cases sv) (auto simp: control_aero_begin_def on_world_def optional_op_def Let_def split: option.splits prod.splits sum.splits)

lemma fault_ok_run: "service_run ports env sv0 sv \<Longrightarrow> fault_ok sv0 \<Longrightarrow> fault_ok sv"
proof (induction rule: service_run.induct)
  case (sv_manual sv now s e)
  then show ?case by (simp add: fault_ok_set_manual)
next
  case (sv_stop sv now)
  then show ?case by (simp add: fault_ok_stop)
next
  case (sv_health sv now)
  then show ?case by (simp add: service_health_check_def monitors_health_def fault_ok_state fault_ok_dac_health)
next
  case (sv_state sv)
  then show ?case by (simp add: fault_ok_state)
next
  case (sv_begin sv)
  then show ?case using control_aero_begin_frame[of ports sv] by auto
next
  case (sv_finish sv cmd)
  then show ?case by (simp add: control_aero_finish_def on_world_def Let_def split: prod.splits)
next
  case (sv_config sv)
  then show ?case by (intro world_only_keeps[OF world_only_config, where P = fault_ok]) simp_all
next
  case (sv_replace sv zone ws)
  then show ?case by (intro world_only_keeps[OF world_only_replace, where P = fault_ok]) simp_all
qed simp_all

subsection \<open>The outputs\<close>

text \<open>The service knows the outputs: on a ready actuator that needs no recovery, the channels of the
  device hold the words of the service's setpoints.\<close>

context service_ports
begin

definition outputs_ok :: "'w service \<Rightarrow> bool" where
  "outputs_ok sv = (ok (sv_world sv) \<and> (\<not> sv_recovery_required sv \<longrightarrow> po_ready ports (sv_world sv) \<longrightarrow>
     armed (sv_world sv) \<and> outputs (sv_world sv) = setpoint_words (sv_setpoints sv)))"

lemma outputs_ok_env: "outputs_ok sv \<Longrightarrow> env (sv_world sv) w \<Longrightarrow> outputs_ok (sv\<lparr>sv_world := w\<rparr>)"
  using env_keeps env_ready by (auto simp: outputs_ok_def)

lemma outputs_ok_lock [simp]: "outputs_ok (sv\<lparr>sv_aero_lock := b\<rparr>) = outputs_ok sv"
  by (simp add: outputs_ok_def)

lemma outputs_ok_side: "outputs_ok sv \<Longrightarrow> f \<in> side_ops ports \<Longrightarrow> outputs_ok (sv\<lparr>sv_world := f (sv_world sv)\<rparr>)"
  by (intro outputs_ok_env side_env)

lemma outputs_ok_world_only:
  "world_only F m \<Longrightarrow> F \<subseteq> side_ops ports \<Longrightarrow> outputs_ok sv \<Longrightarrow> outputs_ok (fst (m sv))"
  using outputs_ok_side by (intro world_only_keeps[where P = outputs_ok and F = F]) blast+

lemma outputs_ok_state: "outputs_ok sv \<Longrightarrow> outputs_ok (fst (service_state ports sv))"
  by (rule outputs_ok_world_only[OF world_only_state]) (auto simp: side_ops_def)

lemma outputs_ok_failure: "ok (sv_world sv) \<Longrightarrow> outputs_ok (record_hardware_failure now e immediate sv)"
  by (simp add: outputs_ok_def record_hardware_failure_def activate_dac_alarm_def Let_def)

lemma outputs_ok_command:
  assumes "outputs_ok sv" shows "outputs_ok (fst (command_fans ports now requested sv))"
proof (cases rule: command_fans_cases[of ports now requested sv])
  case (refused e)
  with assms show ?thesis by simp
next
  case (failed validated w e)
  with assms actuator.apply_keeps show ?thesis by (auto simp: outputs_ok_def[of sv] intro!: outputs_ok_failure)
next
  case (applied validated w)
  with assms actuator.apply_keeps[OF _ applied(5)] actuator.apply_done[OF _ applied(5)]
  show ?thesis by (simp add: outputs_ok_def)
qed

lemma force_stop_outputs:
  assumes "outputs_ok sv" "force_stop ports now sv = (sv', r)"
  shows "outputs_ok sv' \<and> (r = Inr () \<longrightarrow> armed (sv_world sv') \<and> outputs (sv_world sv') = setpoint_words stopped)"
proof (cases "sv_recovery_required sv \<or> \<not> po_ready ports (sv_world sv)")
  case True
  obtain w r1 where w: "po_recover ports (sv_world sv) = (w, r1)" by force
  with actuator.recover_keeps[OF _ w] actuator.recover_done[of "sv_world sv" w] assms True show ?thesis
    by (cases r1) (auto simp: force_stop_def on_world_def complete_safe_recovery_def outputs_ok_def[of sv]
        intro!: outputs_ok_failure, simp_all add: outputs_ok_def)
next
  case False
  obtain w r1 where w: "po_stop_all ports (sv_world sv) = (w, r1)" by force
  with actuator.stop_keeps[OF _ w] actuator.stop_done[of "sv_world sv" w] assms False show ?thesis
    by (cases r1) (auto simp: force_stop_def on_world_def complete_safe_recovery_def outputs_ok_def[of sv]
        intro!: outputs_ok_failure, simp_all add: outputs_ok_def)
qed

lemma outputs_ok_dac_health:
  assumes "outputs_ok sv" shows "outputs_ok (dac_health ports now sv)"
proof (cases "sv_recovery_required sv \<or> \<not> po_ready ports (sv_world sv)")
  case True
  obtain w r1 where w: "po_recover ports (sv_world sv) = (w, r1)" by force
  with actuator.recover_keeps[OF _ w] actuator.recover_done[of "sv_world sv" w] assms True show ?thesis
    by (cases r1) (auto simp: dac_health_def on_world_def complete_safe_recovery_def outputs_ok_def[of sv]
        intro!: outputs_ok_failure, simp_all add: outputs_ok_def)
next
  case False
  obtain w r1 where w: "po_health_check ports (sv_world sv) = (w, r1)" by force
  with actuator.health_keeps[OF _ w] actuator.health_done[of "sv_world sv" w] assms False show ?thesis
    by (cases r1) (auto simp: dac_health_def on_world_def outputs_ok_def[of sv]
        intro!: outputs_ok_failure, simp_all add: outputs_ok_def)
qed

lemma outputs_ok_monitors: "outputs_ok sv \<Longrightarrow> outputs_ok (monitors_health ports sv)"
proof -
  assume sv: "outputs_ok sv"
  have "monitor_step (po_sensor_bus ports) \<in> side_ops ports" "monitor_step (po_aero_bus ports) \<in> side_ops ports"
    "monitor_step (po_tacho ports) \<in> side_ops ports"
    by (simp_all add: side_ops_def)
  from outputs_ok_side[OF outputs_ok_side[OF outputs_ok_side[OF sv this(1)] this(2)] this(3)] show ?thesis
    by (simp add: monitors_health_def)
qed

lemma outputs_ok_set_manual: "outputs_ok sv \<Longrightarrow> outputs_ok (fst (set_manual ports now s e sv))"
  unfolding set_manual_def
  by (rule fst_bind_state[where P = outputs_ok]) (simp_all add: outputs_ok_command outputs_ok_state)

lemma outputs_ok_stop: "outputs_ok sv \<Longrightarrow> outputs_ok (fst (stop ports now sv))"
  unfolding stop_def
proof (rule fst_bind_state[where P = outputs_ok])
  assume sv: "outputs_ok sv"
  obtain sv' r where "force_stop ports now sv = (sv', r)" by force
  with force_stop_outputs[OF sv this] show "outputs_ok (fst (force_stop ports now sv))" by simp
qed (rule outputs_ok_state)

lemma outputs_ok_run: "service_run ports env sv0 sv \<Longrightarrow> outputs_ok sv0 \<Longrightarrow> outputs_ok sv"
proof (induction rule: service_run.induct)
  case (sv_env sv w')
  then show ?case by (simp add: outputs_ok_env)
next
  case (sv_manual sv now s e)
  then show ?case by (simp add: outputs_ok_set_manual)
next
  case (sv_stop sv now)
  then show ?case by (simp add: outputs_ok_stop)
next
  case (sv_health sv now)
  then show ?case
    by (simp add: service_health_check_def outputs_ok_state outputs_ok_monitors outputs_ok_dac_health)
next
  case (sv_state sv)
  then show ?case by (simp add: outputs_ok_state)
next
  case (sv_begin sv)
  obtain b w where bw: "fst (control_aero_begin ports sv) = sv\<lparr>sv_world := w, sv_aero_lock := b\<rparr>"
    "w = sv_world sv \<or> w = fst (optional_op (map_option mo_state (po_aero_bus ports)) (sv_world sv))"
    using control_aero_begin_frame[of ports sv] by blast
  have "outputs_ok (sv\<lparr>sv_world := w\<rparr>)"
    using bw(2) sv_begin outputs_ok_side[of sv "\<lambda>w. fst (optional_op (map_option mo_state (po_aero_bus ports)) w)"]
    by (auto simp: side_ops_def state_ops_def)
  with bw(1) show ?case by (simp add: outputs_ok_def)
next
  case (sv_finish sv cmd)
  have "(\<lambda>w. fst (po_execute_control ports cmd w)) \<in> side_ops ports" by (auto simp: side_ops_def)
  from outputs_ok_side[OF _ this] sv_finish
  have "outputs_ok (sv\<lparr>sv_world := fst (po_execute_control ports cmd (sv_world sv))\<rparr>)" by simp
  then show ?case
    by (cases "po_execute_control ports cmd (sv_world sv)") (simp add: control_aero_finish_def on_world_def)
next
  case (sv_config sv)
  then show ?case by (intro outputs_ok_world_only[OF world_only_config]) simp_all
next
  case (sv_replace sv zone ws)
  then show ?case by (intro outputs_ok_world_only[OF world_only_replace]) simp_all
qed simp

end

end
