(* ===== verification/ProcessActuator.thy ===== *)
theory ProcessActuator
  imports Ports
begin

section \<open>The hardware worker and its proxy\<close>

text \<open>
  Models \<open>infrastructure/hardware_worker.py\<close> (the process that owns the I2C bus) and
  \<open>ProcessIsolatedActuator\<close> of \<open>infrastructure/process_actuator.py\<close> (the application's side).
  Both sides and the wire are one state. What the operating system and the queues do is an input:
  for each start of a worker whether its first message arrives in time, and for each request
  whether the worker is found dead, answers in time, or not (then it may have executed the request
  before it was terminated). A worker that is terminated leaves the device's registers as they are.
\<close>

datatype hw_request =
  HwApply py_float py_float | HwStop | HwHealth | HwRecover | HwShutdown | HwUnknown string

text \<open>The command names in the messages.\<close>

fun hw_command :: "hw_request \<Rightarrow> string" where
  "hw_command (HwApply _ _) = ''apply''"
| "hw_command HwStop = ''stop''"
| "hw_command HwHealth = ''health''"
| "hw_command HwRecover = ''recover''"
| "hw_command HwShutdown = ''shutdown''"
| "hw_command (HwUnknown c) = c"

record hw_response =
  hr_request_id :: string
  hr_ok :: bool
  hr_hardware_ready :: bool
  hr_error :: "string option"

definition reply :: "string \<Rightarrow> unit result \<Rightarrow> hw_response" where
  "reply request_id r = (case r of
     Inr _ \<Rightarrow> \<lparr>hr_request_id = request_id, hr_ok = True, hr_hardware_ready = False, hr_error = None\<rparr>
   | Inl e \<Rightarrow> \<lparr>hr_request_id = request_id, hr_ok = False, hr_hardware_ready = False, hr_error = Some (exc_str e)\<rparr>)"

text \<open>The worker up to its first message: the actuator it then serves, if any.\<close>

definition worker_startup :: "int \<Rightarrow> int \<Rightarrow> smbus_open \<Rightarrow> i2c_bus \<Rightarrow> dfr_actuator option \<times> i2c_bus \<times> hw_response" where
  "worker_startup bus address opened wire =
     (case dfr_new bus address opened of
        Inl e \<Rightarrow> (None, wire, reply ''__startup__'' (Inl e))
      | Inr act \<Rightarrow>
          let ((act', wire'), r) = dfr_start (act, wire)
          in (Some act', wire', \<lparr>hr_request_id = ''__startup__'', hr_ok = True, hr_hardware_ready = da_ready act',
                hr_error = (case r of Inl e \<Rightarrow> Some (exc_str e) | Inr _ \<Rightarrow> None)\<rparr>))"

definition worker_execute :: "hw_request \<Rightarrow> (dfr_actuator \<times> i2c_bus, unit) op" where
  "worker_execute request =
     (case request of
        HwApply s e \<Rightarrow> dfr_apply \<lparr>fs_supply_voltage = s, fs_extract_voltage = e\<rparr>
      | HwStop \<Rightarrow> dfr_stop_all
      | HwHealth \<Rightarrow> dfr_health_check
      | HwRecover \<Rightarrow> dfr_recover
      | HwShutdown \<Rightarrow> dfr_stop_all
      | HwUnknown c \<Rightarrow> op_raise (ValueError (''Unsupported hardware command: '' @ c)))"

text \<open>One pass of the worker's loop; the flag is whether it goes on (a successful \<open>shutdown\<close> leaves
  the loop, and \<open>finally\<close> closes the actuator).\<close>

definition worker_step :: "string \<times> hw_request \<Rightarrow> dfr_actuator \<times> i2c_bus \<Rightarrow>
    (dfr_actuator \<times> i2c_bus) \<times> hw_response \<times> bool" where
  "worker_step message s =
     (let (request_id, request) = message;
          (s', r) = worker_execute request s
      in if request = HwShutdown \<and> is_ok r
         then (fst (dfr_close s'), reply request_id r, False)
         else (s', reply request_id r, True))"

subsection \<open>\<open>ProcessIsolatedActuator\<close>\<close>

text \<open>\<open>StartupSilent opened executed\<close>: no message within the timeout; whether the start was carried out.
  A delivery says whether the worker is found dead when the request is made, and whether it answers
  in time; \<open>Unanswered executed\<close>: no answer, and whether the request was executed.\<close>

datatype startup = StartupReply smbus_open | StartupSilent smbus_open bool
datatype answer = Answered | Unanswered bool

record hw_process =
  hp_actuator :: "dfr_actuator option"
  hp_alive :: bool

record proc_actuator =
  pa_bus :: int
  pa_address :: int
  pa_process :: "hw_process option"
  pa_commands :: "(string \<times> hw_request) list"
  pa_responses :: "hw_response list"
  pa_ready :: bool
  pa_last_error :: "string option"
  pa_wire :: i2c_bus
  pa_startups :: "nat \<Rightarrow> startup"
  pa_starts :: nat
  pa_deliveries :: "nat \<Rightarrow> bool \<times> answer"
  pa_requests :: nat
  pa_uuids :: "nat \<Rightarrow> string"

definition process_alive :: "proc_actuator \<Rightarrow> bool" where
  "process_alive p = (case pa_process p of None \<Rightarrow> False | Some hp \<Rightarrow> hp_alive hp)"

definition actuator_ready :: "proc_actuator \<Rightarrow> bool" where
  "actuator_ready p = (pa_ready p \<and> process_alive p)"

definition terminate_worker :: "proc_actuator \<Rightarrow> proc_actuator" where
  "terminate_worker p = p\<lparr>pa_ready := False, pa_process := None\<rparr>"

text \<open>The worker's process starts with fresh queues; its first message, if it comes in time.\<close>

definition spawn_worker :: "proc_actuator \<Rightarrow> proc_actuator" where
  "spawn_worker p =
     (let (opened, executed, answers) = (case pa_startups p (pa_starts p) of
            StartupReply opened \<Rightarrow> (opened, True, True) | StartupSilent opened executed \<Rightarrow> (opened, executed, False));
          (act, wire, response) = worker_startup (pa_bus p) (pa_address p) opened (pa_wire p)
      in p\<lparr>pa_commands := [], pa_responses := (if answers then [response] else []),
           pa_process := Some \<lparr>hp_actuator = (if executed then act else None), hp_alive = (act \<noteq> None)\<rparr>,
           pa_wire := (if executed then wire else pa_wire p), pa_starts := Suc (pa_starts p)\<rparr>)"

definition start_worker :: "(proc_actuator, unit) op" where
  "start_worker p0 =
     (let p = spawn_worker p0
      in case pa_responses p of
           [] \<Rightarrow> (terminate_worker p, Inl (HardwareWorkerError ''Hardware worker startup timed out''))
         | response # rest \<Rightarrow>
             (let p1 = p\<lparr>pa_responses := rest\<rparr>
              in if hr_request_id response \<noteq> ''__startup__'' \<or> \<not> hr_ok response
                 then (terminate_worker p1, Inl (HardwareWorkerError
                         (case hr_error response of None \<Rightarrow> ''Hardware worker failed to start'' | Some e \<Rightarrow> e)))
                 else (p1\<lparr>pa_ready := hr_hardware_ready response, pa_last_error := hr_error response\<rparr>, Inr ())))"

definition ensure_worker :: "(proc_actuator, bool) op" where
  "ensure_worker p =
     (if \<not> process_alive p
      then op_bind start_worker (\<lambda>_. op_return True) (p\<lparr>pa_ready := False\<rparr>)
      else (p, Inr False))"

text \<open>The worker's side of a request, as far as it gets within the timeout.\<close>

definition deliver :: "answer \<Rightarrow> proc_actuator \<Rightarrow> proc_actuator" where
  "deliver d p =
     (case (pa_process p, pa_commands p) of
        (Some hp, message # rest) \<Rightarrow>
          (case hp_actuator hp of
             None \<Rightarrow> p
           | Some act \<Rightarrow>
               if d = Unanswered False then p
               else let ((act', wire'), response, goes_on) = worker_step message (act, pa_wire p)
                    in p\<lparr>pa_commands := rest, pa_wire := wire',
                         pa_process := Some \<lparr>hp_actuator = Some act', hp_alive = goes_on\<rparr>,
                         pa_responses := (if d = Unanswered True then pa_responses p
                                          else pa_responses p @ [response])\<rparr>)
      | _ \<Rightarrow> p)"

definition raise_worker_error :: "string \<Rightarrow> (proc_actuator, unit) op" where
  "raise_worker_error m p = (p\<lparr>pa_last_error := Some m\<rparr>, Inl (HardwareWorkerError m))"

text \<open>The correlated exchange of \<open>_request\<close>, after \<open>_ensure_worker\<close>.\<close>

definition exchange :: "answer \<Rightarrow> hw_request \<Rightarrow> (proc_actuator, unit) op" where
  "exchange d request p0 =
     (let request_id = pa_uuids p0 (pa_requests p0);
          p = deliver d (p0\<lparr>pa_commands := pa_commands p0 @ [(request_id, request)]\<rparr>)
      in case pa_responses p of
           [] \<Rightarrow> (let (p1, r) = raise_worker_error (''Hardware command timed out: '' @ hw_command request) p
                 in (terminate_worker p1, r))
         | response # rest \<Rightarrow>
             (let p1 = p\<lparr>pa_responses := rest\<rparr>
              in if hr_request_id response \<noteq> request_id
                 then (let (p2, r) = raise_worker_error ''Hardware response correlation failed'' p1
                       in (terminate_worker p2, r))
                 else if \<not> hr_ok response
                 then raise_worker_error (case hr_error response of None \<Rightarrow> ''Hardware command failed'' | Some e \<Rightarrow> e)
                        (p1\<lparr>pa_ready := False\<rparr>)
                 else (p1\<lparr>pa_ready := True, pa_last_error := None\<rparr>, Inr ())))"

definition hw_request_op :: "hw_request \<Rightarrow> (proc_actuator, unit) op" where
  "hw_request_op request p0 =
     (let (dead, d) = pa_deliveries p0 (pa_requests p0);
          found = (if dead \<and> pa_process p0 \<noteq> None
                   then p0\<lparr>pa_process := Some \<lparr>hp_actuator = None, hp_alive = False\<rparr>\<rparr> else p0)
      in case ensure_worker found of
           (p1, Inl e) \<Rightarrow> (p1\<lparr>pa_requests := Suc (pa_requests p0)\<rparr>, Inl e)
         | (p1, Inr restarted) \<Rightarrow>
             (let p = p1
              in if restarted \<and> request \<notin> {HwRecover, HwShutdown}
                 then raise_worker_error ''Hardware worker restarted; safe recovery is required before commands''
                        (p\<lparr>pa_ready := False, pa_requests := Suc (pa_requests p0)\<rparr>)
                 else (case exchange d request p of (p2, r) \<Rightarrow> (p2\<lparr>pa_requests := Suc (pa_requests p0)\<rparr>, r))))"

definition actuator_apply :: "fan_setpoints \<Rightarrow> (proc_actuator, unit) op" where
  "actuator_apply sp = hw_request_op (HwApply (fs_supply_voltage sp) (fs_extract_voltage sp))"

definition actuator_stop_all :: "(proc_actuator, unit) op" where
  "actuator_stop_all = hw_request_op HwStop"

definition actuator_health_check :: "(proc_actuator, unit) op" where
  "actuator_health_check = hw_request_op HwHealth"

definition actuator_recover :: "(proc_actuator, unit) op" where
  "actuator_recover = hw_request_op HwRecover"

text \<open>\<open>close()\<close>. \<open>self._process.join\<close> after a \<open>shutdown\<close> request that terminated the worker is an
  attribute of \<open>None\<close>.\<close>

definition actuator_close :: "(proc_actuator, unit) op" where
  "actuator_close p =
     (case pa_process p of
        None \<Rightarrow> (p, Inr ())
      | Some hp \<Rightarrow>
          let p1 = (if hp_alive hp then fst (hw_request_op HwShutdown p) else p)
          in if pa_process p1 = None
             then (p1, Inl (OtherException (CHR 0x27 # ''NoneType'' @ CHR 0x27 # '' object has no attribute ''
                     @ CHR 0x27 # ''join'' @ [CHR 0x27])))
             else (p1\<lparr>pa_ready := False, pa_process := None\<rparr>, Inr ()))"

definition actuator_new :: "int \<Rightarrow> int \<Rightarrow> i2c_bus \<Rightarrow> (nat \<Rightarrow> startup) \<Rightarrow> (nat \<Rightarrow> bool \<times> answer) \<Rightarrow> (nat \<Rightarrow> string) \<Rightarrow>
    proc_actuator \<times> unit result" where
  "actuator_new bus address wire startups deliveries uuids =
     start_worker \<lparr>pa_bus = bus, pa_address = address, pa_process = None, pa_commands = [],
       pa_responses = [], pa_ready = False, pa_last_error = None, pa_wire = wire,
       pa_startups = startups, pa_starts = 0, pa_deliveries = deliveries, pa_requests = 0,
       pa_uuids = uuids\<rparr>"

subsection \<open>What a request does\<close>

text \<open>Between requests a live worker has its actuator on the 10 V range and both queues are empty;
  \<open>armed\<close> is the worker's own ready flag; \<open>outputs\<close> are the words of the two channels.\<close>

definition serving :: "dfr_actuator \<Rightarrow> proc_actuator \<Rightarrow> bool" where
  "serving act p = (pa_process p = Some \<lparr>hp_actuator = Some act, hp_alive = True\<rparr>
     \<and> gc_output_range_volts (da_config act) = 10 \<and> pa_commands p = [] \<and> pa_responses p = [])"

definition proc_ok :: "proc_actuator \<Rightarrow> bool" where
  "proc_ok p = (process_alive p \<longrightarrow> (\<exists>act. serving act p))"

definition armed :: "proc_actuator \<Rightarrow> bool" where
  "armed p = (\<exists>act. serving act p \<and> da_ready act)"

definition outputs :: "proc_actuator \<Rightarrow> int option \<times> int option" where
  "outputs p = channel_words (pa_wire p)"

lemma serving_update [simp]:
  "serving act (p\<lparr>pa_requests := n\<rparr>) = serving act p" "serving act (p\<lparr>pa_ready := b\<rparr>) = serving act p"
  "serving act (p\<lparr>pa_last_error := m\<rparr>) = serving act p"
  by (simp_all add: serving_def)

lemma serving_alive: "serving act p \<Longrightarrow> process_alive p"
  by (simp add: serving_def process_alive_def)

lemma terminate_simps [simp]:
  "process_alive (terminate_worker p) = False" "pa_ready (terminate_worker p) = False"
  "pa_process (terminate_worker p) = None" "pa_wire (terminate_worker p) = pa_wire p"
  by (simp_all add: terminate_worker_def process_alive_def)

lemma worker_startup_cases:
  assumes "worker_startup bus address opened wire = (act, wire', response)"
  shows "act = None \<and> \<not> hr_ok response
    \<or> (\<exists>a. act = Some a \<and> gc_output_range_volts (da_config a) = 10 \<and> hr_ok response
        \<and> hr_request_id response = ''__startup__'' \<and> hr_hardware_ready response = da_ready a
        \<and> (da_ready a \<longrightarrow> channel_words wire' = setpoint_words stopped))"
proof (cases "dfr_new bus address opened")
  case (Inl e)
  with assms show ?thesis by (auto simp: worker_startup_def reply_def)
next
  case (Inr a)
  note range = dfr_new_range[OF Inr]
  obtain a' b' r where s: "dfr_start (a, wire) = ((a', b'), r)" by (metis surj_pair)
  note c = dfr_start_cases[OF s conjunct1[OF range]]
  have "da_ready a' \<longrightarrow> channel_words b' = setpoint_words stopped"
    using c by (cases r) auto
  with c(1) range s Inr assms show ?thesis by (auto simp: worker_startup_def)
qed

lemma start_worker_cases:
  assumes "start_worker p = (p', r)"
  shows "r = Inr () \<Longrightarrow> \<exists>act. serving act p' \<and> pa_ready p' = da_ready act
      \<and> (da_ready act \<longrightarrow> outputs p' = setpoint_words stopped)"
    and "r = Inl e \<Longrightarrow> pa_process p' = None \<and> \<not> pa_ready p'"
proof -
  obtain opened executed answers where o: "(case pa_startups p (pa_starts p) of
      StartupReply opened \<Rightarrow> (opened, True, True) | StartupSilent opened executed \<Rightarrow> (opened, executed, False))
      = (opened, executed, answers)" by (metis prod_cases3)
  then have oa: "answers \<Longrightarrow> executed" by (auto split: startup.splits)
  obtain act wire response where s: "worker_startup (pa_bus p) (pa_address p) opened (pa_wire p) = (act, wire, response)"
    by (metis prod_cases3)
  note c = worker_startup_cases[OF s]
  show "\<exists>act. serving act p' \<and> pa_ready p' = da_ready act
      \<and> (da_ready act \<longrightarrow> outputs p' = setpoint_words stopped)" if "r = Inr ()"
    using assms o oa s c that
    by (auto simp: start_worker_def spawn_worker_def Let_def serving_def outputs_def
        split: if_splits list.splits)
  show "pa_process p' = None \<and> \<not> pa_ready p'" if "r = Inl e"
    using assms that
    by (auto simp: start_worker_def Let_def split: if_splits list.splits)
qed

lemma worker_execute_range:
  assumes "worker_execute req (act, wire) = ((act', wire'), r)" "gc_output_range_volts (da_config act) = 10"
  shows "gc_output_range_volts (da_config act') = 10"
  using assms dfr_start_cases(1) dfr_apply_cases(1) dfr_stop_all_cases(1) dfr_health_check_cases(1)
  by (auto simp: worker_execute_def dfr_recover_def split: hw_request.splits) (metis)+

lemma exchange_unanswered:
  assumes "serving act p" "exchange (Unanswered b) req p = (p', r)"
  shows "pa_process p' = None \<and> \<not> pa_ready p' \<and> (\<exists>m. r = Inl (HardwareWorkerError m))"
  using assms
  by (auto simp: exchange_def Let_def deliver_def serving_def raise_worker_error_def terminate_worker_def
      split: prod.splits if_splits)

lemma exchange_answered:
  assumes "serving act p" "exchange Answered req p = (p', r)" "req \<noteq> HwShutdown"
    and "worker_execute req (act, pa_wire p) = ((act', wire'), r0)"
  shows "serving act' p' \<and> pa_wire p' = wire' \<and> pa_ready p' = is_ok r0
    \<and> (r = Inr () \<longleftrightarrow> r0 = Inr ()) \<and> (\<forall>e. r0 = Inl e \<longrightarrow> r = Inl (HardwareWorkerError (exc_str e)))"
  using assms worker_execute_range[OF assms(4)]
  by (cases r0) (auto simp: exchange_def Let_def deliver_def serving_def raise_worker_error_def
      worker_step_def reply_def)

lemma request_cases:
  assumes "proc_ok p" "hw_request_op req p = (p', r)" "req \<noteq> HwShutdown"
  shows "proc_ok p'" and "r = Inl e \<Longrightarrow> \<not> actuator_ready p'"
    and "r = Inr () \<Longrightarrow> pa_ready p' \<and> (\<exists>act act' wire. serving act' p'
      \<and> worker_execute req (act, wire) = ((act', pa_wire p'), Inr ())
      \<and> gc_output_range_volts (da_config act) = 10
      \<and> (req \<noteq> HwRecover \<longrightarrow> serving act p \<and> wire = pa_wire p))"
proof -
  obtain dead d where d: "pa_deliveries p (pa_requests p) = (dead, d)" by force
  define found where "found = (if dead \<and> pa_process p \<noteq> None
      then p\<lparr>pa_process := Some \<lparr>hp_actuator = None, hp_alive = False\<rparr>\<rparr> else p)"
  obtain p1 r1 where e: "ensure_worker found = (p1, r1)" by force
  have alive: "process_alive found \<Longrightarrow> found = p \<and> p1 = p \<and> r1 = Inr False \<and> process_alive p"
    using e by (auto simp: found_def ensure_worker_def process_alive_def split: if_splits)
  have dead': "\<not> process_alive found \<Longrightarrow> r1 = Inr b \<Longrightarrow> b \<and> (\<exists>act. serving act p1)" for b
    using e by (auto simp: ensure_worker_def op_bind_eq_Inr dest!: start_worker_cases(1))
  have err: "r1 = Inl x \<Longrightarrow> pa_process p1 = None" for x
    using e start_worker_cases(2)
    by (auto simp: ensure_worker_def op_bind_def split: if_splits prod.splits sum.splits)
  have run: "(case r1 of Inl x \<Rightarrow> (p1\<lparr>pa_requests := Suc (pa_requests p)\<rparr>, Inl x) | Inr restarted \<Rightarrow>
      if restarted \<and> req \<notin> {HwRecover, HwShutdown}
      then raise_worker_error ''Hardware worker restarted; safe recovery is required before commands''
             (p1\<lparr>pa_ready := False, pa_requests := Suc (pa_requests p)\<rparr>)
      else (case exchange d req p1 of (p2, r) \<Rightarrow> (p2\<lparr>pa_requests := Suc (pa_requests p)\<rparr>, r))) = (p', r)"
    using assms(2) d e by (cases r1) (simp_all add: hw_request_op_def found_def Let_def)
  have "proc_ok p' \<and> ((\<exists>e. r = Inl e) \<longrightarrow> \<not> actuator_ready p')
    \<and> (r = Inr () \<longrightarrow> pa_ready p' \<and> (\<exists>act act' wire. serving act' p'
      \<and> worker_execute req (act, wire) = ((act', pa_wire p'), Inr ())
      \<and> gc_output_range_volts (da_config act) = 10
      \<and> (req \<noteq> HwRecover \<longrightarrow> serving act p \<and> wire = pa_wire p)))"
  proof (cases r1)
    case (Inl x)
    with run err show ?thesis by (auto simp: proc_ok_def actuator_ready_def process_alive_def)
  next
    case (Inr b)
    from alive dead' assms(1) Inr obtain act where act: "serving act p1" "req \<noteq> HwRecover \<longrightarrow> b \<or> p1 = p"
      unfolding proc_ok_def by metis
    show ?thesis
    proof (cases "b \<and> req \<noteq> HwRecover")
      case True
      with run Inr act assms(3) show ?thesis
        by (auto simp: proc_ok_def raise_worker_error_def actuator_ready_def)
    next
      case False
      obtain p2 r2 where x: "exchange d req p1 = (p2, r2)" by force
      with run Inr False have p': "p' = p2\<lparr>pa_requests := Suc (pa_requests p)\<rparr>" "r = r2"
        by (auto split: if_splits)
      show ?thesis
      proof (cases d)
        case (Unanswered u)
        with exchange_unanswered[OF act(1), of u req p2 r2] x p' show ?thesis
          by (auto simp: proc_ok_def process_alive_def actuator_ready_def)
      next
        case Answered
        obtain act' wire' r0 where w: "worker_execute req (act, pa_wire p1) = ((act', wire'), r0)"
          by (metis surj_pair)
        from exchange_answered[OF act(1) x[unfolded Answered] assms(3) w] p' w act False
        show ?thesis by (cases r0) (auto simp: proc_ok_def actuator_ready_def serving_def)
      qed
    qed
  qed
  then show "proc_ok p'" "r = Inl e \<Longrightarrow> \<not> actuator_ready p'" "r = Inr () \<Longrightarrow> pa_ready p' \<and> (\<exists>act act' wire. serving act' p'
      \<and> worker_execute req (act, wire) = ((act', pa_wire p'), Inr ())
      \<and> gc_output_range_volts (da_config act) = 10
      \<and> (req \<noteq> HwRecover \<longrightarrow> serving act p \<and> wire = pa_wire p))"
    by auto
qed

lemma serving_ready: "serving act p \<Longrightarrow> pa_ready p \<Longrightarrow> actuator_ready p"
  by (simp add: actuator_ready_def serving_alive)

lemma serving_unique: "serving a p \<Longrightarrow> serving b p \<Longrightarrow> a = b"
  by (simp add: serving_def)

text \<open>The contract of the four operations: what holds when they return.\<close>

lemma actuator_apply_ok:
  assumes "proc_ok p" "actuator_apply sp p = (p', Inr ())"
  shows "actuator_ready p' \<and> armed p' \<and> outputs p' = setpoint_words sp"
proof -
  from request_cases(3)[OF assms(1) assms(2)[unfolded actuator_apply_def]] obtain act act' wire where
    w: "serving act' p'" "pa_ready p'" "gc_output_range_volts (da_config act) = 10"
    "dfr_apply sp (act, wire) = ((act', pa_wire p'), Inr ())"
    by (cases sp) (auto simp: worker_execute_def)
  from dfr_apply_cases(2)[OF w(4,3)] w show ?thesis
    by (auto simp: armed_def outputs_def serving_ready)
qed

lemma actuator_stop_all_ok:
  assumes "proc_ok p" "actuator_stop_all p = (p', Inr ())" "armed p"
  shows "actuator_ready p' \<and> armed p' \<and> outputs p' = setpoint_words stopped"
proof -
  from request_cases(3)[OF assms(1) assms(2)[unfolded actuator_stop_all_def]] obtain act act' wire where
    w: "serving act' p'" "pa_ready p'" "gc_output_range_volts (da_config act) = 10"
    "dfr_stop_all (act, wire) = ((act', pa_wire p'), Inr ())" "serving act p"
    by (auto simp: worker_execute_def)
  from assms(3) serving_unique[OF w(5)] have "da_ready act" by (auto simp: armed_def)
  with dfr_stop_all_cases(2,3)[OF w(4,3)] w show ?thesis
    by (auto simp: armed_def outputs_def serving_ready)
qed

lemma actuator_health_check_ok:
  assumes "proc_ok p" "actuator_health_check p = (p', Inr ())"
  shows "outputs p' = outputs p \<and> (armed p \<longrightarrow> actuator_ready p' \<and> armed p')"
proof -
  from request_cases(3)[OF assms(1) assms(2)[unfolded actuator_health_check_def]] obtain act act' where
    w: "serving act' p'" "pa_ready p'" "dfr_health_check (act, pa_wire p) = ((act', pa_wire p'), Inr ())"
    "serving act p"
    by (auto simp: worker_execute_def)
  have ready: "armed p \<longrightarrow> da_ready act" using serving_unique[OF w(4)] by (auto simp: armed_def)
  from dfr_health_check_cases[OF w(3)] have same: "act' = act" "outputs p' = outputs p"
    by (simp_all add: outputs_def)
  with w(1,2) ready show ?thesis by (auto simp: armed_def intro: serving_ready)
qed

lemma actuator_recover_ok:
  assumes "proc_ok p" "actuator_recover p = (p', Inr ())"
  shows "actuator_ready p' \<and> armed p' \<and> outputs p' = setpoint_words stopped"
proof -
  from request_cases(3)[OF assms(1) assms(2)[unfolded actuator_recover_def]] obtain act act' wire where
    w: "serving act' p'" "pa_ready p'" "gc_output_range_volts (da_config act) = 10"
    "dfr_start (act, wire) = ((act', pa_wire p'), Inr ())"
    by (auto simp: worker_execute_def dfr_recover_def)
  from dfr_start_cases(2)[OF w(4,3)] w show ?thesis
    by (auto simp: armed_def outputs_def serving_ready)
qed

interpretation process: ventilation_actuator proc_ok actuator_ready armed outputs
    actuator_apply actuator_stop_all actuator_health_check actuator_recover
proof unfold_locales
  fix a a' r sp
  assume ok: "proc_ok a"
  show "proc_ok a'" if "actuator_apply sp a = (a', r)"
    using request_cases(1)[OF ok] that by (simp add: actuator_apply_def)
  show "proc_ok a'" if "actuator_stop_all a = (a', r)"
    using request_cases(1)[OF ok] that by (simp add: actuator_stop_all_def)
  show "proc_ok a'" if "actuator_health_check a = (a', r)"
    using request_cases(1)[OF ok] that by (simp add: actuator_health_check_def)
  show "proc_ok a'" if "actuator_recover a = (a', r)"
    using request_cases(1)[OF ok] that by (simp add: actuator_recover_def)
qed (use actuator_apply_ok actuator_stop_all_ok actuator_health_check_ok actuator_recover_ok in blast)+

lemma actuator_new_ok:
  assumes "actuator_new bus address wire startups deliveries uuids = (p, Inr ())"
  shows "proc_ok p" "actuator_ready p \<longrightarrow> armed p \<and> outputs p = setpoint_words stopped"
proof -
  from start_worker_cases(1)[OF assms[unfolded actuator_new_def]] obtain act where
    "serving act p" "pa_ready p = da_ready act" "da_ready act \<longrightarrow> outputs p = setpoint_words stopped" by blast
  then show "proc_ok p" "actuator_ready p \<longrightarrow> armed p \<and> outputs p = setpoint_words stopped"
    by (auto simp: proc_ok_def armed_def actuator_ready_def)
qed

subsection \<open>Properties\<close>

text \<open>C6: A fan command never reaches a worker that was restarted for it. When the worker is found
  dead, \<open>apply\<close> (like \<open>stop_all\<close> and \<open>health_check\<close>) raises and leaves the actuator not ready, and
  the device is as it was or as the start of the new worker left it: no setpoint was written.\<close>

theorem no_command_on_restarted_worker:
  assumes "fst (pa_deliveries p (pa_requests p)) \<or> \<not> process_alive p"
    and "request \<notin> {HwRecover, HwShutdown}"
  shows "\<exists>p' e opened. hw_request_op request p = (p', Inl e) \<and> \<not> actuator_ready p'
    \<and> (pa_wire p' = pa_wire p
       \<or> pa_wire p' = fst (snd (worker_startup (pa_bus p) (pa_address p) opened (pa_wire p))))"
proof -
  obtain dead d where d: "pa_deliveries p (pa_requests p) = (dead, d)" by force
  define found where "found = (if dead \<and> pa_process p \<noteq> None
      then p\<lparr>pa_process := Some \<lparr>hp_actuator = None, hp_alive = False\<rparr>\<rparr> else p)"
  have dead: "\<not> process_alive found" using assms(1) d
    by (auto simp: found_def process_alive_def split: option.splits)
  have same: "pa_wire found = pa_wire p" "pa_bus found = pa_bus p" "pa_address found = pa_address p"
    by (simp_all add: found_def)
  obtain p1 r1 where s: "start_worker (found\<lparr>pa_ready := False\<rparr>) = (p1, r1)" by force
  have e: "ensure_worker found = (p1, case r1 of Inl x \<Rightarrow> Inl x | Inr _ \<Rightarrow> Inr True)"
    using dead s by (cases r1) (simp_all add: ensure_worker_def op_bind_def)
  have wire: "\<exists>opened. pa_wire p1 = pa_wire p
      \<or> pa_wire p1 = fst (snd (worker_startup (pa_bus p) (pa_address p) opened (pa_wire p)))"
    using s same
    by (cases "pa_startups found (pa_starts found)")
      (auto simp: start_worker_def spawn_worker_def Let_def split: if_splits list.splits prod.splits,
        (metis fst_conv snd_conv)+)
  show ?thesis
  proof (cases r1)
    case (Inl x)
    from start_worker_cases(2)[OF s Inl] have "\<not> actuator_ready p1" by (simp add: actuator_ready_def)
    with e d Inl wire show ?thesis
      by (auto simp: hw_request_op_def found_def Let_def actuator_ready_def process_alive_def)
  next
    case (Inr u)
    with e d wire assms(2) show ?thesis
      by (auto simp: hw_request_op_def found_def Let_def actuator_ready_def raise_worker_error_def)
  qed
qed

definition quiet_wire :: i2c_bus where
  "quiet_wire = \<lparr>ib_registers = [], ib_outcome = (\<lambda>_. I2C_Ok), ib_count = 0\<rparr>"

definition demo_actuator :: "(nat \<Rightarrow> bool \<times> answer) \<Rightarrow> proc_actuator" where
  "demo_actuator deliveries = fst (actuator_new 1 0x58 quiet_wire (\<lambda>_. StartupReply SMBusOpened) deliveries (\<lambda>_. ''id''))"

theorem no_command_on_restarted_worker_witness:
  "\<exists>p' e. hw_request_op (HwApply (Fin 5) (Fin 5)) (demo_actuator (\<lambda>_. (True, Answered))) = (p', Inl e)
    \<and> \<not> actuator_ready p'"
proof -
  have "pa_deliveries (demo_actuator (\<lambda>_. (True, Answered))) n = (True, Answered)" for n
    by (simp add: demo_actuator_def actuator_new_def start_worker_def spawn_worker_def Let_def
        terminate_worker_def split: prod.splits list.splits)
  with no_command_on_restarted_worker[of "demo_actuator (\<lambda>_. (True, Answered))" "HwApply (Fin 5) (Fin 5)"]
  show ?thesis by auto
qed

text \<open>Stopping an actuator whose worker is alive but not ready (an earlier write failed) is
  answered with success although nothing is written: the outputs stay as they are, and the proxy
  reports itself ready again while the worker is not.\<close>

theorem stop_unready_reports_success:
  assumes "serving act p" "\<not> da_ready act" "pa_deliveries p (pa_requests p) = (False, Answered)"
  shows "\<exists>p'. actuator_stop_all p = (p', Inr ()) \<and> outputs p' = outputs p \<and> actuator_ready p' \<and> \<not> armed p'"
proof -
  obtain p2 r where x: "exchange Answered HwStop p = (p2, r)" by force
  have "worker_execute HwStop (act, pa_wire p) = ((act, pa_wire p), Inr ())"
    using assms(2) by (simp add: worker_execute_def dfr_stop_all_def)
  from exchange_answered[OF assms(1) x _ this] have p2: "serving act p2" "pa_wire p2 = pa_wire p" "pa_ready p2" "r = Inr ()"
    by auto
  have "actuator_stop_all p = (p2\<lparr>pa_requests := Suc (pa_requests p)\<rparr>, Inr ())"
    using x p2 assms(3) serving_alive[OF assms(1)]
    by (simp add: actuator_stop_all_def hw_request_op_def ensure_worker_def)
  moreover have "actuator_ready (p2\<lparr>pa_requests := Suc (pa_requests p)\<rparr>)"
    using p2 by (intro serving_ready[of act]) simp_all
  moreover have "\<not> armed (p2\<lparr>pa_requests := Suc (pa_requests p)\<rparr>)"
    using assms(2) serving_unique[OF p2(1)] unfolding armed_def serving_update by blast
  ultimately show ?thesis using p2(2) by (simp add: outputs_def)
qed

text \<open>A worker that serves an actuator on the 10 V range, ready or not.\<close>

definition demo_serving :: "bool \<Rightarrow> answer \<Rightarrow> proc_actuator" where
  "demo_serving ready d = \<lparr>pa_bus = 1, pa_address = 0x58,
     pa_process = Some \<lparr>hp_actuator = Some \<lparr>da_config = dfr_config, da_ready = ready\<rparr>, hp_alive = True\<rparr>,
     pa_commands = [], pa_responses = [], pa_ready = ready, pa_last_error = None, pa_wire = quiet_wire,
     pa_startups = (\<lambda>_. StartupReply SMBusOpened), pa_starts = 1, pa_deliveries = (\<lambda>_. (False, d)),
     pa_requests = 0, pa_uuids = (\<lambda>_. ''id'')\<rparr>"

lemma demo_serving: "serving \<lparr>da_config = dfr_config, da_ready = ready\<rparr> (demo_serving ready d)"
  by (simp add: serving_def demo_serving_def dfr_config_def)

theorem stop_unready_reports_success_witness:
  "\<exists>p'. actuator_stop_all (demo_serving False Answered) = (p', Inr ()) \<and> actuator_ready p' \<and> \<not> armed p'"
  using stop_unready_reports_success[OF demo_serving[of False Answered]] by (auto simp: demo_serving_def)

text \<open>When the worker does not answer the \<open>shutdown\<close> request in time, \<open>close\<close> raises: the request
  has terminated the worker and set the process to \<open>None\<close>, and \<open>close\<close> goes on to join it.\<close>

theorem close_after_timeout_raises:
  assumes "serving act p" "pa_deliveries p (pa_requests p) = (False, Unanswered executed)"
  shows "\<exists>p' m. actuator_close p = (p', Inl (OtherException m)) \<and> pa_process p' = None"
proof -
  obtain p2 r where x: "exchange (Unanswered executed) HwShutdown p = (p2, r)" by force
  from exchange_unanswered[OF assms(1) x] have "pa_process p2 = None" by simp
  then have "fst (hw_request_op HwShutdown p) = p2\<lparr>pa_requests := Suc (pa_requests p)\<rparr>"
    using x assms(2) serving_alive[OF assms(1)] by (simp add: hw_request_op_def ensure_worker_def)
  with \<open>pa_process p2 = None\<close> assms(1) show ?thesis
    by (simp add: actuator_close_def serving_def Let_def)
qed

theorem close_after_timeout_raises_witness:
  "\<exists>p' m. actuator_close (demo_serving True (Unanswered False)) = (p', Inl (OtherException m))"
proof -
  have "pa_deliveries (demo_serving True (Unanswered False)) (pa_requests (demo_serving True (Unanswered False)))
      = (False, Unanswered False)"
    by (simp add: demo_serving_def)
  from close_after_timeout_raises[OF demo_serving this] show ?thesis by blast
qed


subsection \<open>A working actuator\<close>

text \<open>A worker that answers, on a bus without failures.\<close>

definition actuator_works :: "proc_actuator \<Rightarrow> bool" where
  "actuator_works p = (bus_works (pa_wire p) \<and> (\<forall>n. pa_deliveries p n = (False, Answered))
     \<and> (\<forall>n. pa_startups p n = StartupReply SMBusOpened))"

lemma start_worker_works:
  assumes "actuator_works p" "0x03 \<le> pa_address p" "pa_address p \<le> 0x77"
  shows "\<exists>p'. start_worker p = (p', Inr ()) \<and> actuator_works p' \<and> armed p' \<and> actuator_ready p'"
proof -
  let ?c = "\<lparr>gc_bus = pa_bus p, gc_address = pa_address p, gc_output_range_volts = 10\<rparr>"
  have new: "dfr_new (pa_bus p) (pa_address p) SMBusOpened = Inr \<lparr>da_config = ?c, da_ready = False\<rparr>"
    using assms(2,3) by (simp add: dfr_new_def gp8403_new_def Let_def)
  obtain b where b: "dfr_start (\<lparr>da_config = ?c, da_ready = False\<rparr>, pa_wire p)
      = ((\<lparr>da_config = ?c, da_ready = True\<rparr>, b), Inr ())" "bus_works b"
    using dfr_start_works[of "pa_wire p" "\<lparr>da_config = ?c, da_ready = False\<rparr>"] assms(1)
    by (auto simp: actuator_works_def)
  have "pa_startups p (pa_starts p) = StartupReply SMBusOpened" using assms(1) by (simp add: actuator_works_def)
  with new b assms(1) show ?thesis
    by (simp add: start_worker_def spawn_worker_def worker_startup_def reply_def Let_def armed_def serving_def
        actuator_works_def actuator_ready_def process_alive_def)
qed

lemma actuator_apply_works:
  assumes "actuator_works p" "armed p" "actuator_ready p" "setpoints_allowed sp"
  shows "\<exists>p'. actuator_apply sp p = (p', Inr ()) \<and> actuator_works p'"
proof -
  from assms(2) obtain act where act: "serving act p" "da_ready act" by (auto simp: armed_def)
  obtain b where b: "dfr_apply sp (act, pa_wire p) = ((act, b), Inr ())" "bus_works b"
    using dfr_apply_works[of "pa_wire p" act sp] assms(1,4) act by (auto simp: actuator_works_def serving_def)
  have d: "pa_deliveries p (pa_requests p) = (False, Answered)" using assms(1) by (simp add: actuator_works_def)
  have alive: "process_alive p" by (rule serving_alive[OF act(1)])
  have "worker_execute (HwApply (fs_supply_voltage sp) (fs_extract_voltage sp)) (act, pa_wire p) = ((act, b), Inr ())"
    using b(1) by (cases sp) (simp add: worker_execute_def)
  then show ?thesis
    using act b(2) assms(1) d alive
    by (simp add: actuator_apply_def hw_request_op_def ensure_worker_def exchange_def deliver_def serving_def
        worker_step_def reply_def actuator_works_def)
qed

lemma demo_actuator_works:
  "snd (actuator_new 1 0x58 quiet_wire (\<lambda>_. StartupReply SMBusOpened) (\<lambda>_. (False, Answered)) (\<lambda>_. ''id'')) = Inr ()"
  "actuator_works (demo_actuator (\<lambda>_. (False, Answered)))" "armed (demo_actuator (\<lambda>_. (False, Answered)))"
  "actuator_ready (demo_actuator (\<lambda>_. (False, Answered)))"
proof -
  let ?p = "\<lparr>pa_bus = 1, pa_address = 0x58, pa_process = None, pa_commands = [],
    pa_responses = [], pa_ready = False, pa_last_error = None, pa_wire = quiet_wire,
    pa_startups = (\<lambda>_. StartupReply SMBusOpened), pa_starts = 0, pa_deliveries = (\<lambda>_. (False, Answered)),
    pa_requests = 0, pa_uuids = (\<lambda>_. ''id'')\<rparr> :: proc_actuator"
  have "actuator_works ?p" by (simp add: actuator_works_def bus_works_def quiet_wire_def)
  from start_worker_works[OF this] obtain p' where p': "start_worker ?p = (p', Inr ())"
    "actuator_works p'" "armed p'" "actuator_ready p'" by auto
  then have "demo_actuator (\<lambda>_. (False, Answered)) = p'" by (simp add: demo_actuator_def actuator_new_def)
  with p' show "snd (actuator_new 1 0x58 quiet_wire (\<lambda>_. StartupReply SMBusOpened) (\<lambda>_. (False, Answered)) (\<lambda>_. ''id'')) = Inr ()"
    "actuator_works (demo_actuator (\<lambda>_. (False, Answered)))" "armed (demo_actuator (\<lambda>_. (False, Answered)))"
    "actuator_ready (demo_actuator (\<lambda>_. (False, Answered)))"
    by (simp_all add: actuator_new_def)
qed

lemma start_worker_serving:
  assumes "actuator_works p" "0x03 \<le> pa_address p" "pa_address p \<le> 0x77"
  shows "\<exists>p' act. start_worker p = (p', Inr ()) \<and> actuator_works p' \<and> serving act p'
    \<and> pa_requests p' = pa_requests p \<and> pa_deliveries p' = pa_deliveries p"
proof -
  obtain p' where p': "start_worker p = (p', Inr ())" "actuator_works p'" "armed p'"
    using start_worker_works[OF assms] by blast
  then obtain act where "serving act p'" by (auto simp: armed_def)
  moreover have "pa_requests p' = pa_requests p \<and> pa_deliveries p' = pa_deliveries p"
    using p'(1) by (auto simp: start_worker_def spawn_worker_def terminate_worker_def Let_def
        split: list.splits prod.splits if_splits startup.splits)
  ultimately show ?thesis using p' by blast
qed

lemma exchange_recover_works:
  assumes "actuator_works p" "serving act p"
  shows "\<exists>p'. exchange Answered HwRecover p = (p', Inr ()) \<and> actuator_works p'"
proof -
  obtain b where b: "dfr_start (act, pa_wire p) = ((act\<lparr>da_ready := True\<rparr>, b), Inr ())" "bus_works b"
    using dfr_start_works[of "pa_wire p" act] assms by (auto simp: actuator_works_def serving_def)
  then have "worker_execute HwRecover (act, pa_wire p) = ((act\<lparr>da_ready := True\<rparr>, b), Inr ())"
    by (simp add: worker_execute_def dfr_recover_def)
  with assms b(2) show ?thesis
    by (simp add: exchange_def deliver_def serving_def worker_step_def reply_def actuator_works_def)
qed

lemma actuator_works_update [simp]:
  "actuator_works (p\<lparr>pa_requests := n\<rparr>) = actuator_works p" "actuator_works (p\<lparr>pa_ready := b\<rparr>) = actuator_works p"
  by (simp_all add: actuator_works_def)

lemma actuator_recover_works:
  assumes "actuator_works p" "proc_ok p" "0x03 \<le> pa_address p" "pa_address p \<le> 0x77"
  shows "\<exists>p'. actuator_recover p = (p', Inr ()) \<and> actuator_works p'"
proof -
  have d: "pa_deliveries p (pa_requests p) = (False, Answered)" using assms(1) by (simp add: actuator_works_def)
  show ?thesis
  proof (cases "process_alive p")
    case True
    then obtain act where "serving act p" using assms(2) by (auto simp: proc_ok_def)
    with exchange_recover_works[OF assms(1)] obtain p' where
      "exchange Answered HwRecover p = (p', Inr ())" "actuator_works p'" by blast
    with True d show ?thesis by (simp add: actuator_recover_def hw_request_op_def ensure_worker_def)
  next
    case False
    have "actuator_works (p\<lparr>pa_ready := False\<rparr>)" using assms(1) by simp
    from start_worker_serving[OF this] assms(3,4) obtain p1 act where
      p1: "start_worker (p\<lparr>pa_ready := False\<rparr>) = (p1, Inr ())" "actuator_works p1" "serving act p1" by auto
    obtain p' where "exchange Answered HwRecover p1 = (p', Inr ())" "actuator_works p'"
      using exchange_recover_works[OF p1(2,3)] by blast
    with False d p1 show ?thesis
      by (simp add: actuator_recover_def hw_request_op_def ensure_worker_def op_bind_def)
  qed
qed

text \<open>A worker that is gone for good: no start is ever answered.\<close>

definition worker_gone :: "proc_actuator \<Rightarrow> bool" where
  "worker_gone p = ((\<forall>n. \<exists>opened x. pa_startups p n = StartupSilent opened x)
     \<and> (pa_process p = None \<or> (\<forall>n. fst (pa_deliveries p n))))"

lemma start_worker_gone:
  assumes "\<forall>n. \<exists>opened x. pa_startups p n = StartupSilent opened x"
  shows "\<exists>p' e. start_worker p = (p', Inl e) \<and> worker_gone p' \<and> pa_process p' = None"
proof -
  obtain opened x where s: "pa_startups p (pa_starts p) = StartupSilent opened x" using assms by blast
  show ?thesis
    using assms
    by (auto simp: start_worker_def spawn_worker_def Let_def s worker_gone_def terminate_worker_def split: prod.splits)
qed

lemma request_gone:
  assumes "worker_gone p"
  shows "\<exists>p' e. hw_request_op req p = (p', Inl e) \<and> worker_gone p'"
proof -
  let ?dead = "fst (pa_deliveries p (pa_requests p))"
  let ?found = "if ?dead \<and> pa_process p \<noteq> None
    then p\<lparr>pa_process := Some \<lparr>hp_actuator = None, hp_alive = False\<rparr>\<rparr> else p"
  have dead: "\<not> process_alive ?found" using assms by (auto simp: worker_gone_def process_alive_def)
  have "\<forall>n. \<exists>opened x. pa_startups (?found\<lparr>pa_ready := False\<rparr>) n = StartupSilent opened x"
    using assms by (auto simp: worker_gone_def)
  from start_worker_gone[OF this] obtain p' e where
    p': "start_worker (?found\<lparr>pa_ready := False\<rparr>) = (p', Inl e)" "worker_gone p'" "pa_process p' = None" by blast
  with dead have "ensure_worker ?found = (p', Inl e)" by (simp only: ensure_worker_def op_bind_def) simp
  then have "hw_request_op req p = (p'\<lparr>pa_requests := Suc (pa_requests p)\<rparr>, Inl e)"
    by (cases "pa_deliveries p (pa_requests p)") (simp add: hw_request_op_def Let_def)
  with p'(2,3) show ?thesis by (auto simp: worker_gone_def)
qed

end
