(* ===== verification/Core.thy ===== *)
theory Core
  imports Service ProcessActuator
begin

section \<open>The service on the controller's own components\<close>

text \<open>
  The ports of the ventilation service as \<open>main.py\<close> fills them: the hardware worker behind
  \<open>ProcessDFR0971Actuator\<close>, the sensor bus, the AERO bus, the tachometers and the schedule, each of
  the last four configured or not. The inputs of their operations that come from outside (clocks,
  exit codes, request ids, what the AERO worker does while a command waits) are fields of the world,
  and change at any time, as the hardware worker may die at any time.
\<close>

record core_world =
  cw_actuator :: proc_actuator
  cw_sensor_bus :: sensor_bus_owner
  cw_aero_bus :: aero_bus_owner
  cw_tacho :: tacho_monitor
  cw_schedule :: schedule_manager
  cw_sensor_exit :: "int option"
  cw_aero_exit :: "int option"
  cw_monotonic :: "py_float \<times> py_float"
  cw_now :: instant
  cw_request_id :: string
  cw_wait_clock :: "nat \<Rightarrow> py_float"
  cw_during_wait :: "aero_bus_owner \<Rightarrow> aero_bus_owner"

definition on_actuator :: "(proc_actuator, 'a) op \<Rightarrow> (core_world, 'a) op" where
  "on_actuator m w = (let (p, r) = m (cw_actuator w) in (w\<lparr>cw_actuator := p\<rparr>, r))"

definition sensor_port :: "(core_world, sensor_bus_state) monitor" where
  "sensor_port = \<lparr>
     mo_state = (\<lambda>w. let (ow, s) = sensor_bus_read_state (cw_sensor_bus w) in (w\<lparr>cw_sensor_bus := ow\<rparr>, Inr s)),
     mo_health_check = (\<lambda>w. (w\<lparr>cw_sensor_bus := sensor_bus_health_check (cw_sensor_exit w) (cw_sensor_bus w)\<rparr>, Inr ())),
     mo_close = (\<lambda>w. (w\<lparr>cw_sensor_bus := sensor_bus_close (cw_sensor_bus w)\<rparr>, Inr ()))\<rparr>"

definition aero_monitor_port :: "(core_world, aero_bus_state) monitor" where
  "aero_monitor_port = \<lparr>
     mo_state = (\<lambda>w. let (ow, s) = aero_bus_read_state (cw_aero_bus w) in (w\<lparr>cw_aero_bus := ow\<rparr>, Inr s)),
     mo_health_check = (\<lambda>w. (w\<lparr>cw_aero_bus := aero_bus_health_check (cw_aero_exit w) (cw_aero_bus w)\<rparr>, Inr ())),
     mo_close = (\<lambda>w. (w\<lparr>cw_aero_bus := aero_bus_close (cw_aero_bus w)\<rparr>, Inr ()))\<rparr>"

text \<open>The default wait of \<open>execute_control\<close> is 65 s.\<close>

definition aero_execute_port :: "aero_control_command \<Rightarrow> (core_world, aero_control_result) op" where
  "aero_execute_port cmd w =
     (let (ow, r) = aero_execute_control (cw_request_id w) cmd (Fin 65) (cw_wait_clock w) (cw_during_wait w)
            (cw_aero_bus w)
      in (w\<lparr>cw_aero_bus := ow\<rparr>, r))"

definition tacho_port :: "(core_world, tacho_monitor_state) monitor" where
  "tacho_port = \<lparr>
     mo_state = (\<lambda>w. (w, monitor_state (fst (cw_monotonic w)) (snd (cw_monotonic w)) (cw_tacho w))),
     mo_health_check = (\<lambda>w. (w\<lparr>cw_tacho := monitor_health_check (cw_tacho w)\<rparr>, Inr ())),
     mo_close = (\<lambda>w. (w\<lparr>cw_tacho := monitor_close (cw_tacho w)\<rparr>, Inr ()))\<rparr>"

definition on_schedule :: "(schedule_manager, 'a) op \<Rightarrow> (core_world, 'a) op" where
  "on_schedule m w = (let (sm, r) = m (cw_schedule w) in (w\<lparr>cw_schedule := sm\<rparr>, r))"

definition schedule_manager_port :: "core_world schedule_port" where
  "schedule_manager_port = \<lparr>
     sd_current_state = (\<lambda>w. on_schedule (\<lambda>sm. let (sm', s) = manager_current_state (cw_now w) sm in (sm', Inr s)) w),
     sd_configuration = (\<lambda>w. on_schedule (manager_configuration (cw_now w)) w),
     sd_replace_zone = (\<lambda>zone ws w. on_schedule (manager_replace_zone (cw_now w) zone ws) w),
     sd_close = op_return ()\<rparr>"

definition core_ports :: "bool \<Rightarrow> bool \<Rightarrow> bool \<Rightarrow> bool \<Rightarrow> core_world ports" where
  "core_ports sensor aero tacho schedule = \<lparr>
     po_ready = (\<lambda>w. actuator_ready (cw_actuator w)), po_last_error = (\<lambda>w. pa_last_error (cw_actuator w)),
     po_apply = (\<lambda>sp. on_actuator (actuator_apply sp)), po_stop_all = on_actuator actuator_stop_all,
     po_health_check = on_actuator actuator_health_check, po_recover = on_actuator actuator_recover,
     po_close = on_actuator actuator_close,
     po_sensor_bus = (if sensor then Some sensor_port else None),
     po_aero_bus = (if aero then Some aero_monitor_port else None), po_execute_control = aero_execute_port,
     po_tacho = (if tacho then Some tacho_port else None),
     po_schedule = (if schedule then Some schedule_manager_port else None)\<rparr>"

text \<open>The worker process dies, or is the same; everything else of the world is free.\<close>

definition actuator_dies :: "proc_actuator \<Rightarrow> proc_actuator" where
  "actuator_dies p = (if pa_process p = None then p
     else p\<lparr>pa_process := Some \<lparr>hp_actuator = None, hp_alive = False\<rparr>\<rparr>)"

definition world_step :: "core_world \<Rightarrow> core_world \<Rightarrow> bool" where
  "world_step w w' = (cw_actuator w' = cw_actuator w \<or> cw_actuator w' = actuator_dies (cw_actuator w))"

definition world_ok :: "core_world \<Rightarrow> bool" where "world_ok w = proc_ok (cw_actuator w)"
definition world_armed :: "core_world \<Rightarrow> bool" where "world_armed w = armed (cw_actuator w)"
definition fan_outputs :: "core_world \<Rightarrow> int option \<times> int option" where
  "fan_outputs w = outputs (cw_actuator w)"

lemma on_actuator_eq:
  "on_actuator m w = (w', r) \<Longrightarrow> m (cw_actuator w) = (cw_actuator w', r)"
  by (auto simp: on_actuator_def Let_def split: prod.splits)

lemma actuator_dies_ready: "\<not> actuator_ready (actuator_dies p)"
  by (simp add: actuator_ready_def process_alive_def actuator_dies_def)

lemma actuator_dies_ok: "proc_ok (actuator_dies p)"
  by (simp add: proc_ok_def process_alive_def actuator_dies_def)

lemma side_ops_actuator: "f \<in> side_ops (core_ports s a t c) \<Longrightarrow> cw_actuator (f w) = cw_actuator w"
  by (auto simp: side_ops_def state_ops_def core_ports_def optional_op_def monitor_step_def op_ignore_def
      sensor_port_def aero_monitor_port_def tacho_port_def schedule_manager_port_def on_schedule_def
      aero_execute_port_def Let_def split: prod.splits sum.splits if_splits)

interpretation core: service_ports "core_ports s a t c" world_ok world_armed fan_outputs world_step for s a t c
proof (unfold_locales, unfold world_ok_def world_armed_def fan_outputs_def)
  fix w w' :: core_world and sp r
  assume ok: "proc_ok (cw_actuator w)"
  show "proc_ok (cw_actuator w')" if "po_apply (core_ports s a t c) sp w = (w', r)"
    using that process.apply_keeps[OF ok] by (auto simp: core_ports_def dest!: on_actuator_eq)
  show "proc_ok (cw_actuator w')" if "po_stop_all (core_ports s a t c) w = (w', r)"
    using that process.stop_keeps[OF ok] by (auto simp: core_ports_def dest!: on_actuator_eq)
  show "proc_ok (cw_actuator w')" if "po_health_check (core_ports s a t c) w = (w', r)"
    using that process.health_keeps[OF ok] by (auto simp: core_ports_def dest!: on_actuator_eq)
  show "proc_ok (cw_actuator w')" if "po_recover (core_ports s a t c) w = (w', r)"
    using that process.recover_keeps[OF ok] by (auto simp: core_ports_def dest!: on_actuator_eq)
  show "armed (cw_actuator w') \<and> outputs (cw_actuator w') = setpoint_words sp"
    if "po_apply (core_ports s a t c) sp w = (w', Inr ())"
    using that process.apply_done[OF ok] by (auto simp: core_ports_def dest!: on_actuator_eq)
  show "armed (cw_actuator w') \<and> outputs (cw_actuator w') = setpoint_words stopped"
    if "armed (cw_actuator w)" "po_stop_all (core_ports s a t c) w = (w', Inr ())"
    using that process.stop_done[OF ok] by (auto simp: core_ports_def dest!: on_actuator_eq)
  show "(armed (cw_actuator w) \<longrightarrow> armed (cw_actuator w')) \<and> outputs (cw_actuator w') = outputs (cw_actuator w)"
    if "po_health_check (core_ports s a t c) w = (w', Inr ())"
    using that process.health_done[OF ok] by (auto simp: core_ports_def dest!: on_actuator_eq)
  show "armed (cw_actuator w') \<and> outputs (cw_actuator w') = setpoint_words stopped"
    if "po_recover (core_ports s a t c) w = (w', Inr ())"
    using that process.recover_done[OF ok] by (auto simp: core_ports_def dest!: on_actuator_eq)
  show "proc_ok (cw_actuator w')" if "world_step w w'"
    using that ok actuator_dies_ok by (auto simp: world_step_def)
  show "po_ready (core_ports s a t c) w \<and> (armed (cw_actuator w) \<longrightarrow> armed (cw_actuator w'))
      \<and> outputs (cw_actuator w') = outputs (cw_actuator w)"
    if "world_step w w'" "po_ready (core_ports s a t c) w'"
    using that actuator_dies_ready[of "cw_actuator w"] by (auto simp: world_step_def core_ports_def)
next
  fix f w
  assume "f \<in> side_ops (core_ports s a t c)"
  then show "world_step w (f w)" by (simp add: world_step_def side_ops_actuator)
qed


subsection \<open>The service that was built\<close>

definition core_booted :: "bool \<Rightarrow> bool \<Rightarrow> bool \<Rightarrow> bool \<Rightarrow> fan_setpoint_policy \<Rightarrow> core_world service \<Rightarrow> bool" where
  "core_booted s a t c policy sv = (\<exists>bus address wire startups deliveries uuids threshold now w.
     actuator_new bus address wire startups deliveries uuids = (cw_actuator w, Inr ())
     \<and> service_new (core_ports s a t c) policy threshold now w = Inr sv)"

text \<open>Everything that can come of it.\<close>

definition core_reachable :: "bool \<Rightarrow> bool \<Rightarrow> bool \<Rightarrow> bool \<Rightarrow> fan_setpoint_policy \<Rightarrow> core_world service \<Rightarrow> bool" where
  "core_reachable s a t c policy sv =
     (\<exists>sv0. core_booted s a t c policy sv0 \<and> service_run (core_ports s a t c) world_step sv0 sv)"

lemma core_ports_ready [simp]: "po_ready (core_ports s a t c) w = actuator_ready (cw_actuator w)"
  by (simp add: core_ports_def)

lemma core_booted_ok: "core_booted s a t c policy sv \<Longrightarrow> core.outputs_ok s a t c sv \<and> fault_ok sv"
proof -
  assume "core_booted s a t c policy sv"
  then obtain bus address wire startups deliveries uuids threshold now w where b:
    "actuator_new bus address wire startups deliveries uuids = (cw_actuator w, Inr ())"
    "service_new (core_ports s a t c) policy threshold now w = Inr sv"
    by (auto simp: core_booted_def)
  have "core.outputs_ok s a t c sv"
    using actuator_new_ok[OF b(1)] b(2)
    by (auto simp: core.outputs_ok_def service_new_def Let_def world_ok_def world_armed_def fan_outputs_def
        activate_dac_alarm_def split: if_splits)
  with fault_ok_new[OF b(2)] show ?thesis by simp
qed

lemma core_reachable_ok: "core_reachable s a t c policy sv \<Longrightarrow> core.outputs_ok s a t c sv \<and> fault_ok sv"
  unfolding core_reachable_def using core_booted_ok core.outputs_ok_run fault_ok_run by blast

lemma service_state_fields:
  assumes "service_state ports sv = (sv', Inr st)"
  shows "\<exists>w. sv' = sv\<lparr>sv_world := w\<rparr> \<and> cs_mode st = sv_mode sv \<and> cs_setpoints st = sv_setpoints sv
    \<and> cs_hardware_ready st = (po_ready ports w \<and> \<not> sv_recovery_required sv)
    \<and> cs_output_state_known st = sv_output_state_known sv
    \<and> cs_consecutive_hardware_failures st = sv_failures sv
    \<and> cs_active_alarms st = map snd (sv_active_alarms sv)"
  using assms by (auto simp: service_state_def op_bind_def on_world_def Let_def split: prod.splits sum.splits)

text \<open>The policy of a service never changes.\<close>

lemma record_failure_policy [simp]: "sv_policy (record_hardware_failure now e b sv) = sv_policy sv"
  "sv_threshold (record_hardware_failure now e b sv) = sv_threshold sv"
  by (simp_all add: record_hardware_failure_def activate_dac_alarm_def Let_def)

lemma recovery_policy [simp]: "sv_policy (complete_safe_recovery sv) = sv_policy sv"
  "sv_threshold (complete_safe_recovery sv) = sv_threshold sv"
  by (simp_all add: complete_safe_recovery_def)

lemma command_policy: "sv_policy (fst (command_fans ports now requested sv)) = sv_policy sv"
  by (cases rule: command_fans_cases[of ports now requested sv]) simp_all

lemma world_only_policy: "world_only F m \<Longrightarrow> sv_policy (fst (m sv)) = sv_policy sv"
  by (auto simp: world_only_def) (metis service.select_convs(2) service.surjective service.update_convs(1))

lemma state_policy: "sv_policy (fst (service_state ports sv)) = sv_policy sv"
  by (rule world_only_policy[OF world_only_state])

lemma run_policy: "service_run ports env sv0 sv \<Longrightarrow> sv_policy sv = sv_policy sv0"
proof (induction rule: service_run.induct)
  case (sv_manual sv now s e)
  then show ?case unfolding set_manual_def
    by (intro fst_bind_state[where P = "\<lambda>x. sv_policy x = sv_policy sv0"]) (simp_all add: command_policy state_policy)
next
  case (sv_stop sv now)
  then show ?case unfolding stop_def
    by (intro fst_bind_state[where P = "\<lambda>x. sv_policy x = sv_policy sv0"])
      (auto simp: force_stop_def on_world_def Let_def state_policy split: prod.splits sum.splits)
next
  case (sv_health sv now)
  then show ?case
    by (auto simp: service_health_check_def state_policy monitors_health_def dac_health_def on_world_def Let_def
        split: prod.splits sum.splits)
next
  case (sv_begin sv)
  then show ?case using control_aero_begin_frame[of ports sv] by auto
next
  case (sv_finish sv cmd)
  then show ?case by (simp add: control_aero_finish_def on_world_def Let_def split: prod.splits)
next
  case (sv_config sv)
  then show ?case by (simp add: world_only_policy[OF world_only_config])
next
  case (sv_replace sv zone ws)
  then show ?case by (simp add: world_only_policy[OF world_only_replace])
qed (simp_all add: state_policy)

lemma booted_policy: "core_booted s a t c policy sv \<Longrightarrow> sv_policy sv = policy"
  by (auto simp: core_booted_def service_new_def Let_def activate_dac_alarm_def split: if_splits)

lemma reachable_policy: "core_reachable s a t c policy sv \<Longrightarrow> sv_policy sv = policy"
  unfolding core_reachable_def using run_policy booted_policy by metis

lemma fault_ok_healthy:
  assumes "fault_ok sv" "\<not> sv_recovery_required sv"
  shows "sv_output_state_known sv" "sv_active_alarms sv = []" "sv_failures sv = 0" "sv_mode sv \<noteq> MODE_FAULT"
  using assms by (auto simp: fault_ok_def)

lemma fault_ok_setpoints:
  assumes "fault_ok sv"
  shows "sv_mode sv = MODE_STOP \<Longrightarrow> sv_setpoints sv = stopped"
    and "\<exists>requested. validate_setpoints (sv_policy sv) requested = Inr (sv_setpoints sv)"
  using assms by (simp_all add: fault_ok_def)

subsection \<open>Properties\<close>

text \<open>C12: The fans get what the core reports. From the start of the hardware worker on, after any
  sequence of commands, health checks, AERO and schedule calls, with the worker dying and the bus
  failing at any time: when the reported state says that the hardware is ready, the two channels of
  the DAC hold exactly the words of the reported setpoints, which the policy allows; in mode STOP that
  is zero output on both channels.\<close>

theorem core_outputs_as_reported:
  assumes "core_reachable s a t c policy sv"
    and "service_state (core_ports s a t c) sv = (sv', Inr st)" and "cs_hardware_ready st"
  shows "fan_outputs (sv_world sv') = setpoint_words (cs_setpoints st)
    \<and> (\<exists>requested. validate_setpoints policy requested = Inr (cs_setpoints st))
    \<and> (cs_mode st = MODE_STOP \<longrightarrow> fan_outputs (sv_world sv') = setpoint_words stopped)
    \<and> cs_output_state_known st \<and> cs_active_alarms st = []"
proof -
  from core_reachable_ok[OF assms(1)] have ok: "core.outputs_ok s a t c sv" "fault_ok sv" by auto
  from service_state_fields[OF assms(2)] obtain w where w: "sv' = sv\<lparr>sv_world := w\<rparr>"
    "cs_mode st = sv_mode sv" "cs_setpoints st = sv_setpoints sv"
    "cs_hardware_ready st = (po_ready (core_ports s a t c) w \<and> \<not> sv_recovery_required sv)"
    "cs_output_state_known st = sv_output_state_known sv" "cs_active_alarms st = map snd (sv_active_alarms sv)"
    by blast
  have "core.outputs_ok s a t c sv'" using core.outputs_ok_state[OF ok(1)] assms(2) by (metis fst_conv)
  with w assms(3) have out: "fan_outputs w = setpoint_words (sv_setpoints sv)" by (simp add: core.outputs_ok_def)
  have "\<not> sv_recovery_required sv" using w(4) assms(3) by simp
  note h = fault_ok_healthy[OF ok(2) this]
  show ?thesis
    using fault_ok_setpoints[OF ok(2)] reachable_policy[OF assms(1)] w(1,2,3,5,6) out h by simp
qed

text \<open>C15: The fault state of the core. In every reachable state the mode is FAULT exactly when the
  critical DAC alarm is active (there is no other); the outputs are reported unknown exactly while
  failures are counted, and then no hardware is reported ready; a failure count at the threshold
  raises the alarm; in STOP the setpoints are zero, in MANUAL they are not.\<close>

theorem core_fault_state:
  assumes "core_reachable s a t c policy sv" and "service_state (core_ports s a t c) sv = (sv', Inr st)"
  shows "(cs_mode st = MODE_FAULT \<longleftrightarrow> cs_active_alarms st \<noteq> [])
    \<and> (cs_active_alarms st = [] \<or> (\<exists>a. cs_active_alarms st = [a] \<and> dac_alarm_ok a))
    \<and> (cs_output_state_known st \<longleftrightarrow> cs_consecutive_hardware_failures st = 0)
    \<and> (\<not> cs_output_state_known st \<longrightarrow> \<not> cs_hardware_ready st)
    \<and> (sv_threshold sv \<le> cs_consecutive_hardware_failures st \<longrightarrow> cs_mode st = MODE_FAULT)
    \<and> (cs_mode st = MODE_STOP \<longrightarrow> cs_setpoints st = stopped)
    \<and> (cs_mode st = MODE_MANUAL \<longrightarrow> cs_setpoints st \<noteq> stopped)"
proof -
  from core_reachable_ok[OF assms(1)] have ok: "fault_ok sv" by simp
  from service_state_fields[OF assms(2)] obtain w where w: "cs_mode st = sv_mode sv"
    "cs_setpoints st = sv_setpoints sv" "cs_hardware_ready st = (po_ready (core_ports s a t c) w \<and> \<not> sv_recovery_required sv)"
    "cs_output_state_known st = sv_output_state_known sv" "cs_active_alarms st = map snd (sv_active_alarms sv)"
    "cs_consecutive_hardware_failures st = sv_failures sv" by blast
  have z: "sv_failures sv = 0 \<longleftrightarrow> \<not> 0 < sv_failures sv" using ok by (auto simp: fault_ok_def)
  consider "sv_active_alarms sv = []"
    | x where "sv_active_alarms sv = [(ALARM_DAC_COMMUNICATION_LOST, x)]" "dac_alarm_ok x"
    using ok by (auto simp: fault_ok_def)
  then show ?thesis
  proof cases
    case 1
    with ok show ?thesis unfolding w z by (simp add: fault_ok_def)
  next
    case 2
    with ok show ?thesis unfolding w z by (simp add: fault_ok_def)
  qed
qed

text \<open>A core whose actuator starts on a working bus, for the examples.\<close>

definition demo_core_world :: core_world where
  "demo_core_world = \<lparr>cw_actuator = demo_actuator (\<lambda>_. (False, Answered)),
     cw_sensor_bus = sensor_bus_new default_sensor_bus_config, cw_aero_bus = aero_bus_new demo_bus_config,
     cw_tacho = \<lparr>mon_config = \<lparr>tc_chip_path = [], tc_supply_line_name = None, tc_extract_line_name = None,
       tc_timeout_seconds = Fin 1, tc_averaging_periods = 6\<rparr>, mon_supply = None, mon_extract = None\<rparr>,
     cw_schedule = demo_manager, cw_sensor_exit = None, cw_aero_exit = None, cw_monotonic = (Fin 0, Fin 0),
     cw_now = demo_instant, cw_request_id = ''a'', cw_wait_clock = (\<lambda>_. Fin 0), cw_during_wait = id\<rparr>"

definition demo_core :: "core_world service" where
  "demo_core = \<lparr>sv_world = demo_core_world, sv_policy = default_policy, sv_threshold = 3,
     sv_setpoints = stopped, sv_mode = MODE_STOP, sv_output_state_known = True, sv_failures = 0,
     sv_recovery_required = False, sv_active_alarms = [], sv_aero_lock = False\<rparr>"

lemma demo_core_reachable: "core_reachable s a t c default_policy demo_core"
proof -
  have "actuator_new 1 0x58 quiet_wire (\<lambda>_. StartupReply SMBusOpened) (\<lambda>_. (False, Answered)) (\<lambda>_. ''id'')
      = (cw_actuator demo_core_world, Inr ())"
    using demo_actuator_works(1) by (auto simp: demo_core_world_def demo_actuator_def prod_eq_iff)
  moreover have "service_new (core_ports s a t c) default_policy 3 [] demo_core_world = Inr demo_core"
    using demo_actuator_works(4) by (simp add: service_new_def Let_def demo_core_def demo_core_world_def)
  ultimately have "core_booted s a t c default_policy demo_core" unfolding core_booted_def by blast
  then show ?thesis unfolding core_reachable_def using sv_start by blast
qed

lemma demo_core_state:
  "\<exists>sv st. service_state (core_ports True True False False) demo_core = (sv, Inr st) \<and> cs_hardware_ready st"
  using demo_actuator_works(4)
  by (simp add: service_state_def op_bind_def on_world_def optional_op_def core_ports_def sensor_port_def
      aero_monitor_port_def sensor_bus_read_state_def aero_bus_read_state_def Let_def demo_core_def demo_core_world_def)

theorem core_outputs_as_reported_witness:
  "\<exists>sv st. service_state (core_ports True True False False) demo_core = (sv, Inr st) \<and> cs_hardware_ready st
    \<and> fan_outputs (sv_world sv) = setpoint_words (cs_setpoints st)"
  using demo_core_state core_outputs_as_reported[OF demo_core_reachable] by blast

theorem core_fault_state_witness:
  "\<exists>sv st. service_state (core_ports True True False False) demo_core = (sv, Inr st) \<and> cs_mode st \<noteq> MODE_FAULT
    \<and> cs_output_state_known st"
proof -
  from demo_core_state obtain sv st where st:
    "service_state (core_ports True True False False) demo_core = (sv, Inr st)" by blast
  from service_state_fields[OF st] have "cs_consecutive_hardware_failures st = 0" "cs_active_alarms st = []"
    by (auto simp: demo_core_def)
  with core_fault_state[OF demo_core_reachable st] st show ?thesis by auto
qed


text \<open>C13: A fan command. When it returns, the setpoints were allowed by the policy and both channels of
  the DAC hold their words. When it raises, either nothing at all has changed, or the write has failed
  and the core is in FAULT with the outputs unknown; from then on every fan command is refused without
  touching the hardware, until a recovery.\<close>

theorem manual_command_outcome:
  assumes "core_reachable s a t c policy sv"
    and "command_fans (core_ports s a t c) now requested sv = (sv', r)"
  shows "case r of
      Inr _ \<Rightarrow> validate_setpoints policy requested = Inr (sv_setpoints sv')
        \<and> fan_outputs (sv_world sv') = setpoint_words (sv_setpoints sv')
        \<and> sv_mode sv' = (if sv_setpoints sv' = stopped then MODE_STOP else MODE_MANUAL)
    | Inl e \<Rightarrow> sv' = sv \<or>
        (sv_mode sv' = MODE_FAULT \<and> \<not> sv_output_state_known sv' \<and> sv_setpoints sv' = sv_setpoints sv
         \<and> (\<forall>now' requested'. \<exists>e'. command_fans (core_ports s a t c) now' requested' sv' = (sv', Inl e')))"
proof -
  let ?p = "core_ports s a t c"
  from core_reachable_ok[OF assms(1)] have ok: "core.outputs_ok s a t c sv" by simp
  have pol: "sv_policy sv = policy" by (rule reachable_policy[OF assms(1)])
  show ?thesis
  proof (cases rule: command_fans_cases[of ?p now requested sv])
    case (refused e)
    then have "sv' = sv" "r = Inl e" using assms(2) by simp_all
    then show ?thesis by simp
  next
    case (failed validated w e)
    let ?f = "record_hardware_failure now e True (sv\<lparr>sv_world := w\<rparr>)"
    have "sv_recovery_required ?f" by (simp add: record_hardware_failure_def activate_dac_alarm_def Let_def)
    then have "\<exists>e'. command_fans ?p now' requested' ?f = (?f, Inl e')" for now' requested'
      by (cases rule: command_fans_cases[of ?p now' requested' ?f]) auto
    with failed assms(2) show ?thesis
      by (auto simp: record_hardware_failure_def activate_dac_alarm_def Let_def)
  next
    case (applied validated w)
    have "world_ok (sv_world sv)" using ok by (simp add: core.outputs_ok_def)
    from core.actuator.apply_done[OF this applied(5)] applied assms(2) pol show ?thesis by auto
  qed
qed

theorem manual_command_outcome_witness:
  "\<exists>sv'. command_fans (core_ports True True False False) [] \<lparr>fs_supply_voltage = Fin 5, fs_extract_voltage = Fin 5\<rparr>
      demo_core = (sv', Inr ()) \<and> sv_mode sv' = MODE_MANUAL
    \<and> fan_outputs (sv_world sv') = setpoint_words \<lparr>fs_supply_voltage = Fin 5, fs_extract_voltage = Fin 5\<rparr>"
proof -
  let ?sp = "\<lparr>fs_supply_voltage = Fin 5, fs_extract_voltage = Fin 5\<rparr>" and ?p = "core_ports True True False False"
  have sp: "setpoints_allowed ?sp" by (simp add: setpoints_allowed_def voltage_allowed_def)
  have valid: "validate_setpoints default_policy ?sp = Inr ?sp" using validate_setpoints_default sp by blast
  obtain p' where p': "actuator_apply ?sp (demo_actuator (\<lambda>_. (False, Answered))) = (p', Inr ())"
    using actuator_apply_works[OF demo_actuator_works(2,3,4) sp] by blast
  have "\<exists>sv'. command_fans ?p [] ?sp demo_core = (sv', Inr ()) \<and> sv_setpoints sv' = ?sp"
    using valid p' demo_actuator_works(4)
    by (simp add: command_fans_def require_operational_hardware_def demo_core_def demo_core_world_def on_world_def
        core_ports_def on_actuator_def)
  then obtain sv' where sv': "command_fans ?p [] ?sp demo_core = (sv', Inr ())" "sv_setpoints sv' = ?sp" by blast
  have "?sp \<noteq> stopped" by (simp add: stopped_def)
  with manual_command_outcome[OF demo_core_reachable sv'(1)] sv' show ?thesis by auto
qed

subsection \<open>Recovery\<close>

lemma dac_health_recovered:
  assumes "po_recover ports (sv_world sv) = (w, Inr ())"
    and "sv_recovery_required sv \<or> \<not> po_ready ports (sv_world sv)"
  shows "dac_health ports now sv = complete_safe_recovery (sv\<lparr>sv_world := w\<rparr>)"
  using assms by (auto simp: dac_health_def on_world_def)

text \<open>C14: Recovery. However the core got into a fault, one health check on hardware that works again
  clears it: both outputs are zero, the mode is STOP whatever the fans did before, no alarm is left,
  and the next allowed fan command is carried out.\<close>

theorem core_recovers:
  assumes "core_reachable s a t c default_policy sv"
    and "sv_recovery_required sv \<or> \<not> actuator_ready (cw_actuator (sv_world sv))"
    and "actuator_works (cw_actuator (sv_world sv))"
    and "0x03 \<le> pa_address (cw_actuator (sv_world sv))" "pa_address (cw_actuator (sv_world sv)) \<le> 0x77"
    and "setpoints_allowed requested"
  shows "\<exists>sv1 sv2. dac_health (core_ports s a t c) now sv = sv1
    \<and> sv_mode sv1 = MODE_STOP \<and> sv_active_alarms sv1 = [] \<and> sv_output_state_known sv1
    \<and> fan_outputs (sv_world sv1) = setpoint_words stopped
    \<and> command_fans (core_ports s a t c) now' requested sv1 = (sv2, Inr ())
    \<and> fan_outputs (sv_world sv2) = setpoint_words requested"
proof -
  let ?p = "core_ports s a t c" and ?a = "cw_actuator (sv_world sv)"
  from core_reachable_ok[OF assms(1)] have ok: "proc_ok ?a" by (simp add: core.outputs_ok_def world_ok_def)
  obtain p1 where p1: "actuator_recover ?a = (p1, Inr ())" "actuator_works p1"
    using actuator_recover_works[OF assms(3) ok assms(4,5)] by blast
  from actuator_recover_ok[OF ok p1(1)] process.recover_keeps[OF ok p1(1)] have
    r1: "actuator_ready p1" "armed p1" "outputs p1 = setpoint_words stopped" "proc_ok p1" by simp_all
  let ?w1 = "(sv_world sv)\<lparr>cw_actuator := p1\<rparr>"
  let ?sv1 = "complete_safe_recovery (sv\<lparr>sv_world := ?w1\<rparr>)"
  have "po_recover ?p (sv_world sv) = (?w1, Inr ())" using p1 by (simp add: core_ports_def on_actuator_def)
  from dac_health_recovered[OF this] assms(2) have h: "dac_health ?p now sv = ?sv1" by simp
  obtain p2 where p2: "actuator_apply requested p1 = (p2, Inr ())"
    using actuator_apply_works[OF p1(2) r1(2,1) assms(6)] by blast
  have "outputs p2 = setpoint_words requested" using actuator_apply_ok[OF r1(4) p2] by simp
  moreover have "validate_setpoints default_policy requested = Inr requested"
    using validate_setpoints_default assms(6) by blast
  ultimately have "\<exists>sv2. command_fans ?p now' requested ?sv1 = (sv2, Inr ())
      \<and> fan_outputs (sv_world sv2) = setpoint_words requested"
    using p2 r1(1) reachable_policy[OF assms(1)]
    by (simp add: command_fans_def require_operational_hardware_def complete_safe_recovery_def on_world_def
        core_ports_def on_actuator_def fan_outputs_def)
  with h r1(3) show ?thesis by (auto simp: complete_safe_recovery_def fan_outputs_def)
qed


lemma core_reachable_env:
  "core_reachable s a t c policy sv \<Longrightarrow> world_step (sv_world sv) w \<Longrightarrow>
   core_reachable s a t c policy (sv\<lparr>sv_world := w\<rparr>)"
  unfolding core_reachable_def by (blast intro: sv_env)

theorem core_recovers_witness:
  "\<exists>sv sv1. core_reachable True True False False default_policy sv
    \<and> \<not> actuator_ready (cw_actuator (sv_world sv))
    \<and> dac_health (core_ports True True False False) [] sv = sv1 \<and> sv_mode sv1 = MODE_STOP
    \<and> fan_outputs (sv_world sv1) = setpoint_words stopped"
proof -
  let ?a = "actuator_dies (demo_actuator (\<lambda>_. (False, Answered)))"
  let ?sv = "demo_core\<lparr>sv_world := demo_core_world\<lparr>cw_actuator := ?a\<rparr>\<rparr>"
  have "world_step (sv_world demo_core) (demo_core_world\<lparr>cw_actuator := ?a\<rparr>)"
    by (simp add: world_step_def demo_core_def demo_core_world_def)
  with core_reachable_env[OF demo_core_reachable] have r: "core_reachable True True False False default_policy ?sv"
    by simp
  have works: "actuator_works ?a" using demo_actuator_works(2) by (simp add: actuator_works_def actuator_dies_def)
  have addr: "pa_address ?a = 0x58"
    by (simp add: actuator_dies_def demo_actuator_def actuator_new_def start_worker_def spawn_worker_def Let_def
        terminate_worker_def split: prod.splits list.splits)
  from core_recovers[OF r, of stopped] works addr actuator_dies_ready r show ?thesis by auto
qed

subsection \<open>Counting failures\<close>

text \<open>Health checks that all fail, from a state \<open>sv\<close> on.\<close>

fun checks_fail :: "'w ports \<Rightarrow> string list \<Rightarrow> 'w service \<Rightarrow> bool" where
  "checks_fail ports [] sv = True"
| "checks_fail ports (now # nows) sv =
     (\<not> is_ok (snd ((if sv_recovery_required sv \<or> \<not> po_ready ports (sv_world sv)
        then po_recover ports else po_health_check ports) (sv_world sv)))
      \<and> checks_fail ports nows (dac_health ports now sv))"

lemma dac_health_failed:
  assumes "\<not> is_ok (snd ((if sv_recovery_required sv \<or> \<not> po_ready ports (sv_world sv)
        then po_recover ports else po_health_check ports) (sv_world sv)))"
  shows "\<exists>w e. dac_health ports now sv = record_hardware_failure now e False (sv\<lparr>sv_world := w\<rparr>)"
proof -
  obtain w e where "(if sv_recovery_required sv \<or> \<not> po_ready ports (sv_world sv)
        then po_recover ports else po_health_check ports) (sv_world sv) = (w, Inl e)"
    using assms by (metis (no_types, lifting) is_ok_iff obj_sumE prod.collapse)
  then have "dac_health ports now sv = record_hardware_failure now e False (sv\<lparr>sv_world := w\<rparr>)"
    by (auto simp: dac_health_def on_world_def split: if_splits)
  then show ?thesis by blast
qed

lemma update_nonempty: "AList.update k v al \<noteq> []"
  by (cases al) auto

lemma failures_counted_aux:
  assumes "checks_fail ports nows sv" "fault_ok sv"
  shows "let sv' = fold (dac_health ports) nows sv in
    fault_ok sv' \<and> sv_threshold sv' = sv_threshold sv \<and> sv_setpoints sv' = sv_setpoints sv
    \<and> sv_failures sv' = sv_failures sv + int (length nows)
    \<and> (sv_active_alarms sv' \<noteq> [] \<longleftrightarrow> sv_active_alarms sv \<noteq> []
        \<or> nows \<noteq> [] \<and> sv_threshold sv \<le> sv_failures sv + int (length nows))"
  using assms
proof (induction nows arbitrary: sv)
  case (Cons now nows)
  then obtain w e where f: "dac_health ports now sv = record_hardware_failure now e False (sv\<lparr>sv_world := w\<rparr>)"
    using dac_health_failed[of sv ports now] by auto
  let ?f = "record_hardware_failure now e False (sv\<lparr>sv_world := w\<rparr>)"
  have ok: "fault_ok ?f" using Cons.prems(2) by (simp add: fault_ok_failure)
  have "sv_failures ?f = sv_failures sv + 1" "sv_setpoints ?f = sv_setpoints sv"
    "sv_active_alarms ?f \<noteq> [] \<longleftrightarrow> sv_active_alarms sv \<noteq> [] \<or> sv_threshold sv \<le> sv_failures sv + 1"
    by (simp_all add: record_hardware_failure_def activate_dac_alarm_def Let_def update_nonempty)
  with Cons.IH[of ?f] Cons.prems ok f show ?case by (auto simp: Let_def)
qed (simp add: Let_def)

text \<open>The failure threshold. From a state without failures, \<open>k\<close> health checks in a row that fail are
  counted exactly; FAULT and its alarm come with the check that reaches the configured threshold, not
  before; but from the first failure on the hardware is not ready and every fan command is refused.\<close>

theorem hardware_failures_counted:
  assumes "fault_ok sv" "sv_failures sv = 0" "checks_fail ports nows sv" "nows \<noteq> []"
  shows "let sv' = fold (dac_health ports) nows sv in
    sv_failures sv' = int (length nows) \<and> sv_setpoints sv' = sv_setpoints sv
    \<and> (sv_mode sv' = MODE_FAULT \<longleftrightarrow> sv_threshold sv \<le> int (length nows))
    \<and> \<not> sv_output_state_known sv'
    \<and> (\<forall>now requested. \<exists>e. command_fans ports now requested sv' = (sv', Inl e))"
proof -
  let ?f = "fold (dac_health ports) nows sv"
  have none: "sv_active_alarms sv = []" using assms(1,2) by (auto simp: fault_ok_def)
  note aux = failures_counted_aux[OF assms(3,1), unfolded Let_def]
  have rec: "sv_recovery_required ?f" "\<not> sv_output_state_known ?f"
    using aux assms(2,4) by (auto simp: fault_ok_def)
  have mode: "sv_mode ?f = MODE_FAULT \<longleftrightarrow> sv_active_alarms ?f \<noteq> []" using aux by (simp add: fault_ok_def)
  have "\<exists>e. command_fans ports now requested ?f = (?f, Inl e)" for now requested
    by (cases rule: command_fans_cases[of ports now requested ?f]) (use rec in auto)
  with aux rec mode none assms(2,4) show ?thesis by (simp add: Let_def)
qed

definition gone_core :: "core_world service" where
  "gone_core = demo_core\<lparr>sv_world := demo_core_world\<lparr>cw_actuator := (demo_actuator (\<lambda>_. (False, Answered)))
     \<lparr>pa_deliveries := (\<lambda>_. (True, Answered)), pa_startups := (\<lambda>_. StartupSilent SMBusOpened False)\<rparr>\<rparr>\<rparr>"

lemma gone_checks_fail:
  "worker_gone (cw_actuator (sv_world sv)) \<Longrightarrow> checks_fail (core_ports s a t c) nows sv"
proof (induction nows arbitrary: sv)
  case (Cons now nows)
  let ?p = "core_ports s a t c"
  let ?op = "if sv_recovery_required sv \<or> \<not> po_ready ?p (sv_world sv) then po_recover ?p else po_health_check ?p"
  obtain p' e where p': "(if sv_recovery_required sv \<or> \<not> po_ready ?p (sv_world sv) then actuator_recover
      else actuator_health_check) (cw_actuator (sv_world sv)) = (p', Inl e)" "worker_gone p'"
    using request_gone[OF Cons.prems, of HwRecover] request_gone[OF Cons.prems, of HwHealth]
    by (cases "sv_recovery_required sv \<or> \<not> po_ready ?p (sv_world sv)")
      (auto simp: actuator_recover_def actuator_health_check_def)
  have ports: "po_recover ?p = on_actuator actuator_recover" "po_health_check ?p = on_actuator actuator_health_check"
    by (simp_all add: core_ports_def)
  have op: "?op (sv_world sv) = ((sv_world sv)\<lparr>cw_actuator := p'\<rparr>, Inl e)"
    using p'(1) by (cases "sv_recovery_required sv \<or> \<not> po_ready ?p (sv_world sv)") (simp_all add: ports on_actuator_def)
  then have "dac_health ?p now sv = record_hardware_failure now e False (sv\<lparr>sv_world := (sv_world sv)\<lparr>cw_actuator := p'\<rparr>\<rparr>)"
    by (cases "sv_recovery_required sv \<or> \<not> po_ready ?p (sv_world sv)") (simp_all add: dac_health_def on_world_def)
  moreover have "sv_world (record_hardware_failure now e False x) = sv_world x" for x :: "core_world service"
    by (simp add: record_hardware_failure_def activate_dac_alarm_def Let_def)
  ultimately have "checks_fail ?p nows (dac_health ?p now sv)" using Cons.IH p'(2) by simp
  with op show ?case by simp
qed simp

theorem hardware_failures_counted_witness:
  "let sv' = fold (dac_health (core_ports True True False False)) [''t1'', ''t2'', ''t3''] gone_core in
    sv_failures sv' = 3 \<and> sv_mode sv' = MODE_FAULT"
proof -
  have "checks_fail (core_ports True True False False) [''t1'', ''t2'', ''t3''] gone_core"
    by (rule gone_checks_fail) (auto simp: worker_gone_def gone_core_def)
  moreover have "fault_ok demo_core" using core_reachable_ok[OF demo_core_reachable[of True True True True]] by simp
  then have "fault_ok gone_core" by (simp only: gone_core_def fault_ok_world)
  moreover have "sv_failures gone_core = 0" "sv_threshold gone_core = 3"
    by (simp_all add: gone_core_def demo_core_def)
  ultimately show ?thesis
    using hardware_failures_counted[of gone_core "core_ports True True False False" "[''t1'', ''t2'', ''t3'']"]
    by (simp add: Let_def)
qed

subsection \<open>Shutdown\<close>

text \<open>Shutdown is complete. Closing the core ends every part, whatever stop and close of the
  actuator raise: the sensor and AERO workers are told to stop and gone, both tachometer threads are
  stopped, and no actuator worker is left. The only exception that can come out is one of closing the
  actuator.\<close>

theorem core_close_complete:
  assumes "service_close (core_ports True True True True) sv = (sv', r)"
  shows "so_stop_event (cw_sensor_bus (sv_world sv')) \<and> so_process (cw_sensor_bus (sv_world sv')) = None
    \<and> ao_stop_event (cw_aero_bus (sv_world sv')) \<and> ao_process (cw_aero_bus (sv_world sv')) = None
    \<and> (\<forall>ch. mon_supply (cw_tacho (sv_world sv')) = Some ch \<or> mon_extract (cw_tacho (sv_world sv')) = Some ch
        \<longrightarrow> ch_stop ch \<and> \<not> channel_alive ch)
    \<and> pa_process (cw_actuator (sv_world sv')) = None
    \<and> r = snd (actuator_close (fst (actuator_stop_all (cw_actuator (sv_world sv)))))"
proof -
  obtain p1 r1 where p1: "actuator_stop_all (cw_actuator (sv_world sv)) = (p1, r1)" by force
  obtain p2 r2 where p2: "actuator_close p1 = (p2, r2)" by force
  have none: "pa_process p2 = None"
    using p2 by (auto simp: actuator_close_def Let_def split: option.splits if_splits)
  have ch: "ch_stop (channel_close ch)" "\<not> channel_alive (channel_close ch)" for ch
    by (simp_all add: channel_close_def channel_stopped_def channel_alive_def Let_def)
  show ?thesis
    using assms p1 p2 none ch
    by (cases r2) (auto simp: service_close_def on_world_def close_all_def op_finally_def op_ignore_def
        core_ports_def on_actuator_def optional_close_def sensor_port_def aero_monitor_port_def tacho_port_def
        schedule_manager_port_def sensor_bus_close_def aero_bus_close_def monitor_close_def Let_def)
qed

theorem core_close_complete_witness:
  "\<exists>sv' r. service_close (core_ports True True True True) demo_core = (sv', r)
    \<and> so_process (cw_sensor_bus (sv_world sv')) = None \<and> pa_process (cw_actuator (sv_world sv')) = None"
proof -
  obtain sv' r where c: "service_close (core_ports True True True True) demo_core = (sv', r)" by force
  from core_close_complete[OF c] c show ?thesis by blast
qed

end
