(* ===== verification/Shadow.thy ===== *)
theory Shadow
  imports CoreState
begin

section \<open>SHADOW automation: policy and evaluators\<close>

text \<open>
  Models \<open>domain/shadow_policy.py\<close> and \<open>application/shadow_controller.py\<close>: the classification of air
  quality and temperature, the tuning parameters with their checks, and the two evaluators, which map
  a core state to proposals and have no access to any actuator. The wall clock is an argument.
\<close>

subsection \<open>Levels\<close>

datatype air_quality_level = AIR_NORMAL | AIR_BOOST | AIR_HIGH | AIR_MAX

text \<open>An \<open>IntEnum\<close>: ordered by its value.\<close>

fun level_value :: "air_quality_level \<Rightarrow> int" where
  "level_value AIR_NORMAL = 0"
| "level_value AIR_BOOST = 1"
| "level_value AIR_HIGH = 2"
| "level_value AIR_MAX = 3"

fun level_name :: "air_quality_level \<Rightarrow> string" where
  "level_name AIR_NORMAL = ''NORMAL''"
| "level_name AIR_BOOST = ''BOOST''"
| "level_name AIR_HIGH = ''HIGH''"
| "level_name AIR_MAX = ''MAX''"

lemma level_value_inj [simp]: "level_value a = level_value b \<longleftrightarrow> a = b"
  by (cases a; cases b) simp_all

instantiation air_quality_level :: linorder
begin

definition less_eq_air_quality_level :: "air_quality_level \<Rightarrow> air_quality_level \<Rightarrow> bool" where
  "less_eq_air_quality_level a b = (level_value a \<le> level_value b)"

definition less_air_quality_level :: "air_quality_level \<Rightarrow> air_quality_level \<Rightarrow> bool" where
  "less_air_quality_level a b = (level_value a < level_value b)"

instance
  by standard (auto simp: less_eq_air_quality_level_def less_air_quality_level_def)

end

datatype thermal_band =
  THERMAL_NORMAL | THERMAL_LIMITING | THERMAL_MINIMUM | THERMAL_PROTECTION | THERMAL_NOT_APPLICABLE | THERMAL_UNKNOWN

fun band_value :: "thermal_band \<Rightarrow> string" where
  "band_value THERMAL_NORMAL = ''NORMAL''"
| "band_value THERMAL_LIMITING = ''LIMITING''"
| "band_value THERMAL_MINIMUM = ''MINIMUM''"
| "band_value THERMAL_PROTECTION = ''PROTECTION''"
| "band_value THERMAL_NOT_APPLICABLE = ''NOT_APPLICABLE''"
| "band_value THERMAL_UNKNOWN = ''UNKNOWN''"

subsection \<open>Tuning\<close>

record shadow_output_tuning =
  tn_normal_air_request_pct :: "py_float option"
  tn_boost_air_request_pct :: "py_float option"
  tn_high_air_request_pct :: "py_float option"
  tn_max_air_request_pct :: "py_float option"
  tn_thermal_normal_limit_pct :: "py_float option"
  tn_thermal_limiting_limit_pct :: "py_float option"
  tn_thermal_minimum_limit_pct :: "py_float option"
  tn_thermal_protection_limit_pct :: "py_float option"
  tn_extract_bias_pct :: "py_float option"
  tn_aero_normal_speed :: "int option"
  tn_aero_boost_speed :: "int option"
  tn_aero_high_speed :: "int option"
  tn_aero_max_speed :: "int option"
  tn_pm2_5_hysteresis_ug_m3 :: "py_float option"
  tn_voc_hysteresis_index :: "py_float option"
  tn_nox_hysteresis_index :: "py_float option"
  tn_temperature_hysteresis_celsius :: "py_float option"
  tn_pm2_5_boost_confirmation_seconds :: "py_float option"
  tn_state_minimum_hold_seconds :: "py_float option"
  tn_boost_decay_seconds :: "py_float option"

definition air_values :: "shadow_output_tuning \<Rightarrow> py_float option list" where
  "air_values t = [tn_normal_air_request_pct t, tn_boost_air_request_pct t, tn_high_air_request_pct t,
     tn_max_air_request_pct t]"

definition thermal_values :: "shadow_output_tuning \<Rightarrow> py_float option list" where
  "thermal_values t = [tn_thermal_normal_limit_pct t, tn_thermal_limiting_limit_pct t,
     tn_thermal_minimum_limit_pct t, tn_thermal_protection_limit_pct t]"

definition aero_values :: "shadow_output_tuning \<Rightarrow> int option list" where
  "aero_values t = [tn_aero_normal_speed t, tn_aero_boost_speed t, tn_aero_high_speed t, tn_aero_max_speed t]"

definition dynamics_values :: "shadow_output_tuning \<Rightarrow> py_float option list" where
  "dynamics_values t = [tn_pm2_5_hysteresis_ug_m3 t, tn_voc_hysteresis_index t, tn_nox_hysteresis_index t,
     tn_temperature_hysteresis_celsius t, tn_pm2_5_boost_confirmation_seconds t,
     tn_state_minimum_hold_seconds t, tn_boost_decay_seconds t]"

text \<open>\<open>a <= b <= c <= d\<close> of four values, when all are there.\<close>

definition ascending :: "('a \<Rightarrow> 'a \<Rightarrow> bool) \<Rightarrow> 'a option list \<Rightarrow> bool" where
  "ascending le vs = (None \<in> set vs \<or> (\<forall>i < length vs - 1. le (the (vs ! i)) (the (vs ! Suc i))))"

text \<open>The names of the fields in the messages, in the order of the checks.\<close>

definition percentage_fields :: "shadow_output_tuning \<Rightarrow> (string \<times> py_float option) list" where
  "percentage_fields t = zip
     [''normal_air_request_pct'', ''boost_air_request_pct'', ''high_air_request_pct'', ''max_air_request_pct'',
      ''thermal_normal_limit_pct'', ''thermal_limiting_limit_pct'', ''thermal_minimum_limit_pct'',
      ''thermal_protection_limit_pct'', ''extract_bias_pct'']
     (air_values t @ thermal_values t @ [tn_extract_bias_pct t])"

definition speed_fields :: "shadow_output_tuning \<Rightarrow> (string \<times> int option) list" where
  "speed_fields t = zip [''aero_normal_speed'', ''aero_boost_speed'', ''aero_high_speed'', ''aero_max_speed'']
     (aero_values t)"

definition dynamics_fields :: "shadow_output_tuning \<Rightarrow> (string \<times> py_float option) list" where
  "dynamics_fields t = zip
     [''pm2_5_hysteresis_ug_m3'', ''voc_hysteresis_index'', ''nox_hysteresis_index'',
      ''temperature_hysteresis_celsius'', ''pm2_5_boost_confirmation_seconds'', ''state_minimum_hold_seconds'',
      ''boost_decay_seconds'']
     (dynamics_values t)"

text \<open>\<open>for name in names: if value is not None and not good(value): raise\<close>.\<close>

definition check_fields :: "('v \<Rightarrow> bool) \<Rightarrow> string \<Rightarrow> (string \<times> 'v option) list \<Rightarrow> unit result" where
  "check_fields good text named =
     (case find (\<lambda>(name, v). case v of None \<Rightarrow> False | Some x \<Rightarrow> \<not> good x) named of
        None \<Rightarrow> Inr () | Some (name, _) \<Rightarrow> Inl (ValueError (name @ text)))"

definition percent_ok :: "py_float \<Rightarrow> bool" where
  "percent_ok v = (fle (Fin 0) v \<and> fle v (Fin 100))"

definition tuning_check :: "shadow_output_tuning \<Rightarrow> unit result" where
  "tuning_check t =
     rbind (check_fields percent_ok '' must be within 0..100'' (percentage_fields t)) (\<lambda>_.
     rbind (check_fields (\<lambda>v. v \<in> {0, 1, 2, 3}) '' must be one of 0, 1, 2, 3'' (speed_fields t)) (\<lambda>_.
     rbind (check_fields (\<lambda>v. \<not> flt v (Fin 0)) '' must be non-negative'' (dynamics_fields t)) (\<lambda>_.
     if \<not> ascending fle (air_values t)
     then Inl (ValueError ''Air request percentages must be monotonic NORMAL <= BOOST <= HIGH <= MAX'')
     else if \<not> ascending (\<lambda>a b. fle b a) (thermal_values t)
     then Inl (ValueError ''Thermal limits must be monotonic NORMAL >= LIMITING >= MINIMUM >= PROTECTION'')
     else if \<not> ascending (\<le>) (aero_values t)
     then Inl (ValueError ''AERO speeds must be monotonic NORMAL <= BOOST <= HIGH <= MAX'')
     else Inr ())))"

definition fan_outputs_configured :: "shadow_output_tuning \<Rightarrow> bool" where
  "fan_outputs_configured t = (None \<notin> set (air_values t @ thermal_values t @ [tn_extract_bias_pct t]))"

definition aero_outputs_configured :: "shadow_output_tuning \<Rightarrow> bool" where
  "aero_outputs_configured t = (None \<notin> set (aero_values t))"

definition outputs_configured :: "shadow_output_tuning \<Rightarrow> bool" where
  "outputs_configured t = (fan_outputs_configured t \<or> aero_outputs_configured t)"

definition dynamics_configured :: "shadow_output_tuning \<Rightarrow> bool" where
  "dynamics_configured t = (None \<notin> set (dynamics_values t))"

definition tuning_complete :: "shadow_output_tuning \<Rightarrow> bool" where
  "tuning_complete t = (fan_outputs_configured t \<and> aero_outputs_configured t \<and> dynamics_configured t)"

definition no_tuning :: shadow_output_tuning where
  "no_tuning = \<lparr>tn_normal_air_request_pct = None, tn_boost_air_request_pct = None,
     tn_high_air_request_pct = None, tn_max_air_request_pct = None, tn_thermal_normal_limit_pct = None,
     tn_thermal_limiting_limit_pct = None, tn_thermal_minimum_limit_pct = None,
     tn_thermal_protection_limit_pct = None, tn_extract_bias_pct = None, tn_aero_normal_speed = None,
     tn_aero_boost_speed = None, tn_aero_high_speed = None, tn_aero_max_speed = None,
     tn_pm2_5_hysteresis_ug_m3 = None, tn_voc_hysteresis_index = None, tn_nox_hysteresis_index = None,
     tn_temperature_hysteresis_celsius = None, tn_pm2_5_boost_confirmation_seconds = None,
     tn_state_minimum_hold_seconds = None, tn_boost_decay_seconds = None\<rparr>"

subsection \<open>The policy\<close>

record shadow_policy =
  py_version :: string
  py_pm2_5_reference :: py_float
  py_pm2_5_high :: py_float
  py_pm2_5_max :: py_float
  py_pm10_reference :: py_float
  py_voc_boost :: py_float
  py_voc_high :: py_float
  py_voc_max :: py_float
  py_nox_boost :: py_float
  py_nox_high :: py_float
  py_nox_max :: py_float
  py_temperature_normal_above :: py_float
  py_temperature_limiting_from :: py_float
  py_temperature_minimum_from :: py_float
  py_tuning :: shadow_output_tuning

definition shadow_policy_v1 :: "shadow_output_tuning \<Rightarrow> shadow_policy" where
  "shadow_policy_v1 tuning = \<lparr>py_version = ''shadow-policy-v1-2026-08-12'',
     py_pm2_5_reference = Fin 15, py_pm2_5_high = Fin 25, py_pm2_5_max = Fin 50, py_pm10_reference = Fin 45,
     py_voc_boost = Fin 150, py_voc_high = Fin 200, py_voc_max = Fin 300,
     py_nox_boost = Fin 10, py_nox_high = Fin 50, py_nox_max = Fin 100,
     py_temperature_normal_above = Fin 20, py_temperature_limiting_from = Fin 18,
     py_temperature_minimum_from = Fin 16, py_tuning = tuning\<rparr>"

definition classify_pm2_5 :: "shadow_policy \<Rightarrow> py_float option \<Rightarrow> air_quality_level option" where
  "classify_pm2_5 p v = (case v of None \<Rightarrow> None | Some x \<Rightarrow> Some
     (if flt (py_pm2_5_max p) x then AIR_MAX
      else if flt (py_pm2_5_high p) x then AIR_HIGH
      else if flt (py_pm2_5_reference p) x then AIR_BOOST else AIR_NORMAL))"

definition classify_voc :: "shadow_policy \<Rightarrow> py_float option \<Rightarrow> air_quality_level option" where
  "classify_voc p v = (case v of None \<Rightarrow> None | Some x \<Rightarrow> Some
     (if flt (py_voc_max p) x then AIR_MAX
      else if fle (py_voc_high p) x then AIR_HIGH
      else if fle (py_voc_boost p) x then AIR_BOOST else AIR_NORMAL))"

definition classify_nox :: "shadow_policy \<Rightarrow> py_float option \<Rightarrow> air_quality_level option" where
  "classify_nox p v = (case v of None \<Rightarrow> None | Some x \<Rightarrow> Some
     (if flt (py_nox_max p) x then AIR_MAX
      else if flt (py_nox_high p) x then AIR_HIGH
      else if flt (py_nox_boost p) x then AIR_BOOST else AIR_NORMAL))"

definition classify_air_quality :: "shadow_policy \<Rightarrow> py_float option \<Rightarrow> py_float option \<Rightarrow> py_float option \<Rightarrow>
    (air_quality_level \<times> string) option" where
  "classify_air_quality p pm2_5 voc nox =
     (let levels = [(''PM2_5'', classify_pm2_5 p pm2_5), (''VOC'', classify_voc p voc), (''NOX'', classify_nox p nox)];
          available = map (\<lambda>(n, l). (n, the l)) (filter (\<lambda>(n, l). l \<noteq> None) levels)
      in if available = [] then None
         else let maximum = Max (set (map snd available))
              in map_option (\<lambda>(n, l). (maximum, n)) (find (\<lambda>(n, l). l = maximum) available))"

definition classify_temperature :: "shadow_policy \<Rightarrow> py_float option \<Rightarrow> thermal_band" where
  "classify_temperature p v = (case v of None \<Rightarrow> THERMAL_UNKNOWN | Some x \<Rightarrow>
     if flt (py_temperature_normal_above p) x then THERMAL_NORMAL
     else if fle (py_temperature_limiting_from p) x then THERMAL_LIMITING
     else if fle (py_temperature_minimum_from p) x then THERMAL_MINIMUM else THERMAL_PROTECTION)"

definition pm10_reference_exceeded :: "shadow_policy \<Rightarrow> py_float option \<Rightarrow> bool option" where
  "pm10_reference_exceeded p v = map_option (flt (py_pm10_reference p)) v"

definition air_request_pct :: "shadow_policy \<Rightarrow> air_quality_level option \<Rightarrow> py_float option" where
  "air_request_pct p l = (case l of None \<Rightarrow> None
     | Some AIR_NORMAL \<Rightarrow> tn_normal_air_request_pct (py_tuning p)
     | Some AIR_BOOST \<Rightarrow> tn_boost_air_request_pct (py_tuning p)
     | Some AIR_HIGH \<Rightarrow> tn_high_air_request_pct (py_tuning p)
     | Some AIR_MAX \<Rightarrow> tn_max_air_request_pct (py_tuning p))"

definition temperature_limit_pct :: "shadow_policy \<Rightarrow> thermal_band \<Rightarrow> py_float option" where
  "temperature_limit_pct p b = (case b of
     THERMAL_NORMAL \<Rightarrow> tn_thermal_normal_limit_pct (py_tuning p)
   | THERMAL_LIMITING \<Rightarrow> tn_thermal_limiting_limit_pct (py_tuning p)
   | THERMAL_MINIMUM \<Rightarrow> tn_thermal_minimum_limit_pct (py_tuning p)
   | THERMAL_PROTECTION \<Rightarrow> tn_thermal_protection_limit_pct (py_tuning p)
   | _ \<Rightarrow> None)"

definition aero_speed :: "shadow_policy \<Rightarrow> air_quality_level option \<Rightarrow> int option" where
  "aero_speed p l = (case l of None \<Rightarrow> None
     | Some AIR_NORMAL \<Rightarrow> tn_aero_normal_speed (py_tuning p)
     | Some AIR_BOOST \<Rightarrow> tn_aero_boost_speed (py_tuning p)
     | Some AIR_HIGH \<Rightarrow> tn_aero_high_speed (py_tuning p)
     | Some AIR_MAX \<Rightarrow> tn_aero_max_speed (py_tuning p))"


subsection \<open>The evaluators\<close>

record shadow_zone_binding =
  zb_zone :: string
  zb_sensor_address :: int
  zb_actuator_kind :: string

definition DEFAULT_SHADOW_ZONE_BINDINGS :: "shadow_zone_binding list" where
  "DEFAULT_SHADOW_ZONE_BINDINGS =
     [\<lparr>zb_zone = ''zone-1'', zb_sensor_address = 1, zb_actuator_kind = ''fans''\<rparr>,
      \<lparr>zb_zone = ''zone-2'', zb_sensor_address = 2, zb_actuator_kind = ''aero''\<rparr>]"

definition validate_bindings :: "shadow_zone_binding list \<Rightarrow> unit result" where
  "validate_bindings bindings =
     (if bindings = [] then Inl (ValueError ''At least one SHADOW zone mapping is required'')
      else rbind (fold_result (\<lambda>(zones, addresses) b.
          if zb_zone b = [] \<or> py_strip (zb_zone b) \<noteq> zb_zone b
          then Inl (ValueError ''SHADOW zone identifiers must be non-empty text'')
          else if zb_zone b \<in> set zones then Inl (ValueError (''Duplicate SHADOW zone: '' @ zb_zone b))
          else if \<not> (1 \<le> zb_sensor_address b \<and> zb_sensor_address b \<le> 247)
          then Inl (ValueError ''SHADOW sensor addresses must be Modbus addresses 1..247'')
          else if zb_sensor_address b \<in> set addresses
          then Inl (ValueError (''Duplicate SHADOW sensor address: '' @ show_int (zb_sensor_address b)))
          else if zb_actuator_kind b \<notin> {''fans'', ''aero''}
          then Inl (ValueError (''Unsupported SHADOW actuator kind: '' @ zb_actuator_kind b))
          else Inr (zb_zone b # zones, zb_sensor_address b # addresses)) ([], []) bindings) (\<lambda>_. Inr ()))"

definition safety_blocked :: "core_state \<Rightarrow> bool" where
  "safety_blocked st = (\<not> cs_hardware_ready st \<or> \<not> cs_output_state_known st
     \<or> (\<exists>a \<in> set (cs_active_alarms st). al_severity a = CRITICAL))"

definition schedule_by_zone :: "core_state \<Rightarrow> (string \<times> string) list" where
  "schedule_by_zone st = (case cs_schedule st of None \<Rightarrow> []
     | Some sch \<Rightarrow> dict_of zs_zone (\<lambda>z. expectation_value (zs_expectation z)) (ss_zones sch))"

definition sensor_by_address :: "core_state \<Rightarrow> (int \<times> sensor_node_state) list" where
  "sensor_by_address st = (case cs_sensor_bus st of None \<Rightarrow> []
     | Some sb \<Rightarrow> dict_of slave_address (\<lambda>n. n) (sb_nodes sb))"

definition sensor_is_usable :: "sensor_node_state option \<Rightarrow> bool" where
  "sensor_is_usable node = (case node of None \<Rightarrow> False
     | Some n \<Rightarrow> online n \<and> usable n \<and> measurement_valid n \<and> \<not> measurement_stale n)"

text \<open>A proposal with the defaults of its class.\<close>

definition bare_proposal :: "string \<Rightarrow> string \<Rightarrow> int \<Rightarrow> bool \<Rightarrow> shadow_zone_proposal" where
  "bare_proposal zone expectation address is_usable = \<lparr>sp_zone = zone, sp_schedule_expectation = expectation,
     sp_sensor_address = Some address, sp_sensor_usable = is_usable, sp_air_quality_level = None,
     sp_air_quality_driver = None, sp_pm2_5_level = None, sp_voc_level = None, sp_nox_level = None,
     sp_pm10_reference_exceeded = None, sp_inside_temperature_celsius = None,
     sp_outside_temperature_celsius = None, sp_thermal_band = None, sp_air_request_pct = None,
     sp_temperature_limit_pct = None, sp_final_supply_pct = None, sp_final_extract_pct = None,
     sp_safety_override = False, sp_air_quality_override = False, sp_proposed_supply_voltage = None,
     sp_proposed_extract_voltage = None, sp_proposed_aero_speed = None,
     sp_control_reason = ''POLICY_NOT_CONFIGURED''\<rparr>"

definition unconfigured_zone :: "core_state \<Rightarrow> shadow_zone_binding \<Rightarrow> shadow_zone_proposal" where
  "unconfigured_zone st b =
     (let is_usable = sensor_is_usable (map_of (sensor_by_address st) (zb_sensor_address b));
          expectation = dict_get (schedule_by_zone st) (zb_zone b) ''UNKNOWN'';
          reason = (if safety_blocked st then ''SAFETY_BLOCK_ACTIVE''
            else if expectation = ''UNKNOWN'' then ''SCHEDULE_CONTEXT_UNKNOWN''
            else if \<not> is_usable then ''SENSOR_CONTEXT_UNAVAILABLE'' else ''POLICY_NOT_CONFIGURED'')
      in (bare_proposal (zb_zone b) expectation (zb_sensor_address b) is_usable)
           \<lparr>sp_safety_override := safety_blocked st, sp_control_reason := reason\<rparr>)"

definition evaluate_unconfigured :: "string \<Rightarrow> shadow_zone_binding list \<Rightarrow> core_state \<Rightarrow> shadow_automation_state" where
  "evaluate_unconfigured now bindings st = \<lparr>sh_enabled = True, sh_actuation_supported = False,
     sh_status = (if safety_blocked st then SHADOW_BLOCKED_SAFETY else SHADOW_POLICY_UNCONFIGURED),
     sh_evaluated_at_utc = now, sh_policy_version = None, sh_zones = map (unconfigured_zone st) bindings,
     sh_tuning_complete = False, sh_last_error = []\<rparr>"

definition control_reason :: "shadow_policy \<Rightarrow> shadow_zone_binding \<Rightarrow> bool \<Rightarrow> string \<Rightarrow> bool \<Rightarrow>
    air_quality_level option \<Rightarrow> string option \<Rightarrow> thermal_band \<Rightarrow> bool \<Rightarrow> string" where
  "control_reason p b blocked expectation is_usable air_level air_driver band override =
     (let driver = (case air_driver of None \<Rightarrow> ''None'' | Some d \<Rightarrow> d) in
      if blocked then ''SAFETY_BLOCK_ACTIVE''
      else if expectation = ''UNKNOWN'' then ''SCHEDULE_CONTEXT_UNKNOWN''
      else if \<not> is_usable then ''SENSOR_CONTEXT_UNAVAILABLE''
      else if air_level = None then ''AIR_QUALITY_INPUTS_UNAVAILABLE''
      else if zb_actuator_kind b = ''fans'' \<and> band = THERMAL_UNKNOWN then ''TEMPERATURE_CONTEXT_UNAVAILABLE''
      else if override then ''LOW_TEMPERATURE + AIR_QUALITY_OVERRIDE''
      else if air_level = Some AIR_MAX then ''AIR_QUALITY_MAX:'' @ driver
      else if air_level = Some AIR_HIGH then ''AIR_QUALITY_HIGH:'' @ driver
      else if air_level = Some AIR_BOOST
      then (if air_driver = Some ''PM2_5'' \<and> tn_pm2_5_boost_confirmation_seconds (py_tuning p) = None
            then ''PM2_5_BOOST_CONFIRMATION_TUNING_REQUIRED'' else ''AIR_QUALITY_BOOST:'' @ driver)
      else if band = THERMAL_PROTECTION then ''THERMAL_PROTECTION''
      else if band = THERMAL_MINIMUM then ''THERMAL_MINIMUM''
      else if band = THERMAL_LIMITING then ''THERMAL_LIMITING'' else ''AIR_QUALITY_NORMAL'')"

text \<open>The proposed outputs: supply, extract and AERO speed.\<close>

definition proposed_outputs :: "shadow_policy \<Rightarrow> shadow_zone_binding \<Rightarrow> bool \<Rightarrow> bool \<Rightarrow> air_quality_level option \<Rightarrow>
    thermal_band \<Rightarrow> py_float option \<times> py_float option \<times> int option" where
  "proposed_outputs p b blocked is_usable air_level band =
     (let request = air_request_pct p air_level;
          limit = (if zb_actuator_kind b = ''fans'' then temperature_limit_pct p band else None)
      in if \<not> (outputs_configured (py_tuning p) \<and> \<not> blocked \<and> is_usable) then (None, None, None)
         else if zb_actuator_kind b = ''fans'' \<and> request \<noteq> None
         then (let supply = (if air_level = Some AIR_NORMAL \<and> limit \<noteq> None then fmin (the request) (the limit)
                             else the request);
                   bias = (case tn_extract_bias_pct (py_tuning p) of None \<Rightarrow> Fin 0 | Some x \<Rightarrow> x)
               in (Some supply, Some (fmin (Fin 100) (fadd supply bias)), None))
         else if zb_actuator_kind b = ''aero'' then (None, None, aero_speed p air_level)
         else (None, None, None))"

definition policy_zone :: "shadow_policy \<Rightarrow> core_state \<Rightarrow> shadow_zone_binding \<Rightarrow> shadow_zone_proposal" where
  "policy_zone p st b =
     (let node = map_of (sensor_by_address st) (zb_sensor_address b);
          is_usable = sensor_is_usable node;
          expectation = dict_get (schedule_by_zone st) (zb_zone b) ''UNKNOWN'';
          rd = (case node of None \<Rightarrow> empty_reading | Some n \<Rightarrow> reading n);
          fans = (zb_actuator_kind b = ''fans'');
          air = classify_air_quality p (pm2_5_ug_m3 rd) (voc_index rd) (nox_index rd);
          air_level = map_option fst air; air_driver = map_option snd air;
          band = (if fans then classify_temperature p (temperature_celsius rd) else THERMAL_NOT_APPLICABLE);
          override = (fans \<and> (case air_level of None \<Rightarrow> False | Some l \<Rightarrow> AIR_NORMAL < l)
            \<and> band \<in> {THERMAL_LIMITING, THERMAL_MINIMUM, THERMAL_PROTECTION});
          (supply, extract, speed) = proposed_outputs p b (safety_blocked st) is_usable air_level band
      in \<lparr>sp_zone = zb_zone b, sp_schedule_expectation = expectation,
           sp_sensor_address = Some (zb_sensor_address b), sp_sensor_usable = is_usable,
           sp_air_quality_level = map_option level_name air_level, sp_air_quality_driver = air_driver,
           sp_pm2_5_level = map_option level_name (classify_pm2_5 p (pm2_5_ug_m3 rd)),
           sp_voc_level = map_option level_name (classify_voc p (voc_index rd)),
           sp_nox_level = map_option level_name (classify_nox p (nox_index rd)),
           sp_pm10_reference_exceeded = pm10_reference_exceeded p (pm10_0_ug_m3 rd),
           sp_inside_temperature_celsius = temperature_celsius rd, sp_outside_temperature_celsius = None,
           sp_thermal_band = Some (band_value band), sp_air_request_pct = air_request_pct p air_level,
           sp_temperature_limit_pct = (if fans then temperature_limit_pct p band else None),
           sp_final_supply_pct = supply, sp_final_extract_pct = extract,
           sp_safety_override = safety_blocked st, sp_air_quality_override = override,
           sp_proposed_supply_voltage = None, sp_proposed_extract_voltage = None,
           sp_proposed_aero_speed = speed,
           sp_control_reason = control_reason p b (safety_blocked st) expectation is_usable air_level
             air_driver band override\<rparr>)"

text \<open>Whether a zone makes the evaluation degraded.\<close>

definition zone_degraded :: "shadow_policy \<Rightarrow> core_state \<Rightarrow> shadow_zone_binding \<Rightarrow> bool" where
  "zone_degraded p st b =
     (let z = policy_zone p st b
      in sp_schedule_expectation z = ''UNKNOWN'' \<or> \<not> sp_sensor_usable z \<or> sp_air_quality_level z = None
         \<or> zb_actuator_kind b = ''fans'' \<and> sp_thermal_band z = Some (band_value THERMAL_UNKNOWN))"

definition evaluate_shadow :: "string \<Rightarrow> shadow_policy \<Rightarrow> shadow_zone_binding list \<Rightarrow> core_state \<Rightarrow> shadow_automation_state" where
  "evaluate_shadow now p bindings st = \<lparr>sh_enabled = True, sh_actuation_supported = False,
     sh_status = (if safety_blocked st then SHADOW_BLOCKED_SAFETY
       else if \<exists>b \<in> set bindings. zone_degraded p st b then SHADOW_DEGRADED
       else if \<not> tuning_complete (py_tuning p) then SHADOW_TUNING_REQUIRED else SHADOW_READY),
     sh_evaluated_at_utc = now, sh_policy_version = Some (py_version p),
     sh_zones = map (policy_zone p st) bindings, sh_tuning_complete = tuning_complete (py_tuning p),
     sh_last_error = []\<rparr>"


subsection \<open>Lemmas\<close>

lemma check_fields_ok:
  "check_fields good text named = Inr () \<longleftrightarrow> (\<forall>v. Some v \<in> set (map snd named) \<longrightarrow> good v)"
proof -
  have "check_fields good text named = Inr () \<longleftrightarrow>
      find (\<lambda>(name, v). case v of None \<Rightarrow> False | Some x \<Rightarrow> \<not> good x) named = None"
    by (simp add: check_fields_def split: option.split prod.split)
  also have "\<dots> \<longleftrightarrow> (\<forall>v. Some v \<in> set (map snd named) \<longrightarrow> good v)"
    by (force simp: find_None_iff split: option.split)
  finally show ?thesis .
qed

lemma field_values [simp]:
  "map snd (percentage_fields t) = air_values t @ thermal_values t @ [tn_extract_bias_pct t]"
  "map snd (speed_fields t) = aero_values t"
  by (simp_all add: percentage_fields_def speed_fields_def air_values_def thermal_values_def aero_values_def)

lemma percent_ok_Fin: "percent_ok v \<longleftrightarrow> (\<exists>r. v = Fin r \<and> 0 \<le> r \<and> r \<le> 100)"
  using fle_bounded_finite[of 0 v 100] by (auto simp: percent_ok_def)

lemma tuning_checkD:
  assumes "tuning_check t = Inr ()"
  shows "check_fields percent_ok '' must be within 0..100'' (percentage_fields t) = Inr ()"
    and "check_fields (\<lambda>v. v \<in> {0, 1, 2, 3}) '' must be one of 0, 1, 2, 3'' (speed_fields t) = Inr ()"
    and "ascending fle (air_values t)" and "ascending (\<lambda>a b. fle b a) (thermal_values t)"
    and "ascending (\<le>) (aero_values t)"
  using assms by (auto simp: tuning_check_def rbind_def split: sum.splits if_splits)

lemma tuned_percentages:
  assumes "tuning_check t = Inr ()" and "Some v \<in> set (air_values t @ thermal_values t @ [tn_extract_bias_pct t])"
  shows "\<exists>r. v = Fin r \<and> 0 \<le> r \<and> r \<le> 100"
proof -
  from tuning_checkD(1)[OF assms(1)]
  have "\<forall>v. Some v \<in> set (map snd (percentage_fields t)) \<longrightarrow> percent_ok v" by (simp only: check_fields_ok)
  with assms(2) have "percent_ok v" by (simp only: field_values)
  then show ?thesis by (simp only: percent_ok_Fin)
qed

lemma tuned_speeds:
  assumes "tuning_check t = Inr ()" and "Some v \<in> set (aero_values t)" shows "0 \<le> v \<and> v \<le> 3"
proof -
  from tuning_checkD(2)[OF assms(1)]
  have "\<forall>v. Some v \<in> set (map snd (speed_fields t)) \<longrightarrow> v \<in> {0, 1, 2, 3}" by (simp only: check_fields_ok)
  with assms(2) have "v \<in> {0, 1, 2, 3}" by (simp only: field_values)
  then show ?thesis by auto
qed

lemma air_request_value: "air_request_pct p l = Some v \<Longrightarrow> Some v \<in> set (air_values (py_tuning p))"
  by (auto simp: air_request_pct_def air_values_def split: option.splits air_quality_level.splits)

lemma temperature_limit_value: "temperature_limit_pct p b = Some v \<Longrightarrow> Some v \<in> set (thermal_values (py_tuning p))"
  by (auto simp: temperature_limit_pct_def thermal_values_def split: thermal_band.splits)

lemma aero_speed_value: "aero_speed p l = Some v \<Longrightarrow> Some v \<in> set (aero_values (py_tuning p))"
  by (auto simp: aero_speed_def aero_values_def split: option.splits air_quality_level.splits)

text \<open>A finite value that is a binary64 number.\<close>

definition binary64_value :: "py_float \<Rightarrow> bool" where
  "binary64_value v = (case v of Fin r \<Rightarrow> round64 r = r | _ \<Rightarrow> True)"

lemma add_percent:
  assumes "0 \<le> a" "a \<le> 100" "0 \<le> b" "b \<le> 100"
  shows "\<exists>c. fmin (Fin 100) (fadd (Fin a) (Fin b)) = Fin c \<and> c = min 100 (round64 (a + b)) \<and> 0 \<le> c \<and> c \<le> 100
    \<and> (round64 a = a \<longrightarrow> a \<le> c)"
proof -
  have sum: "to_float (a + b) = Fin (round64 (a + b))" using assms by (intro to_float_small) simp
  have "0 \<le> round64 (a + b)" using assms by (intro r64.nonneg) simp
  moreover have "round64 a = a \<longrightarrow> a \<le> round64 (a + b)" using round64_mono[of a "a + b"] assms by simp
  ultimately show ?thesis using assms by (auto simp: sum fmin_def min_def)
qed

lemma fans_outputs:
  assumes "proposed_outputs p b blocked is_usable lv band = (Some s, e, v)" "tuning_check (py_tuning p) = Inr ()"
  obtains q a x where "air_request_pct p lv = Some (Fin q)" "s = Fin a" "0 \<le> a" "a \<le> 100"
    "a = (if lv = Some AIR_NORMAL \<and> temperature_limit_pct p band \<noteq> None
       then (case the (temperature_limit_pct p band) of Fin m \<Rightarrow> min q m | _ \<Rightarrow> q) else q)"
    "x = (case tn_extract_bias_pct (py_tuning p) of None \<Rightarrow> Fin 0 | Some x \<Rightarrow> x)"
    "e = Some (fmin (Fin 100) (fadd s x))" "v = None" "zb_actuator_kind b = ''fans''"
    "\<exists>r. x = Fin r \<and> 0 \<le> r \<and> r \<le> 100" "a = q \<or> temperature_limit_pct p band = Some (Fin a)"
proof -
  define x where "x = (case tn_extract_bias_pct (py_tuning p) of None \<Rightarrow> Fin 0 | Some x \<Rightarrow> x)"
  from assms(1) have kind: "zb_actuator_kind b = ''fans''" and req: "air_request_pct p lv \<noteq> None"
    and s: "s = (if lv = Some AIR_NORMAL \<and> temperature_limit_pct p band \<noteq> None
      then fmin (the (air_request_pct p lv)) (the (temperature_limit_pct p band)) else the (air_request_pct p lv))"
    and e: "e = Some (fmin (Fin 100) (fadd s x))" and v: "v = None"
    by (auto simp: proposed_outputs_def Let_def x_def split: if_splits)
  from req obtain q where q: "air_request_pct p lv = Some (Fin q)" "0 \<le> q" "q \<le> 100"
    using tuned_percentages[OF assms(2)] air_request_value[of p lv] by fastforce
  have lim: "temperature_limit_pct p band = Some m \<Longrightarrow> \<exists>r. m = Fin r \<and> 0 \<le> r \<and> r \<le> 100" for m
    using tuned_percentages[OF assms(2)] temperature_limit_value[of p band m] by simp
  have x: "\<exists>r. x = Fin r \<and> 0 \<le> r \<and> r \<le> 100"
    using tuned_percentages[OF assms(2), of x] by (auto simp: x_def split: option.splits)
  show thesis
  proof (cases "lv = Some AIR_NORMAL \<and> temperature_limit_pct p band \<noteq> None")
    case True
    then obtain m where m: "temperature_limit_pct p band = Some (Fin m)" "0 \<le> m" "m \<le> 100" using lim by fastforce
    show thesis
      by (rule that[of q "min q m" x]) (use True q m s e v kind x x_def in \<open>auto simp: fmin_def min_def\<close>)
  next
    case False
    show thesis
      by (rule that[of q q x]) (use False q s e v kind x x_def in auto)
  qed
qed

lemma zone_outputs:
  "proposed_outputs p b (safety_blocked st) (sp_sensor_usable z)
     (map_option fst (classify_air_quality p (pm2_5_ug_m3 rd) (voc_index rd) (nox_index rd))) band =
   (sp_final_supply_pct z, sp_final_extract_pct z, sp_proposed_aero_speed z)"
  if "z = policy_zone p st b"
    and "rd = (case map_of (sensor_by_address st) (zb_sensor_address b) of None \<Rightarrow> empty_reading | Some n \<Rightarrow> reading n)"
    and "band = (if zb_actuator_kind b = ''fans'' then classify_temperature p (temperature_celsius rd)
      else THERMAL_NOT_APPLICABLE)"
  using that by (simp add: policy_zone_def Let_def split: prod.splits)


lemma fans_voltages_none:
  "sp_proposed_supply_voltage (policy_zone p st b) = None" "sp_proposed_extract_voltage (policy_zone p st b) = None"
  "sp_safety_override (policy_zone p st b) = safety_blocked st"
  by (simp_all add: policy_zone_def Let_def split: prod.splits)

lemma zone_level:
  assumes "rd = (case map_of (sensor_by_address st) (zb_sensor_address b) of None \<Rightarrow> empty_reading | Some n \<Rightarrow> reading n)"
  shows "sp_air_quality_level (policy_zone p st b) =
     map_option level_name (map_option fst (classify_air_quality p (pm2_5_ug_m3 rd) (voc_index rd) (nox_index rd)))"
  and "sp_temperature_limit_pct (policy_zone p st b) = (if zb_actuator_kind b = ''fans''
     then temperature_limit_pct p (classify_temperature p (temperature_celsius rd)) else None)"
  using assms by (simp_all add: policy_zone_def Let_def split: prod.splits)

lemma level_name_NORMAL [simp]: "level_name l = ''NORMAL'' \<longleftrightarrow> l = AIR_NORMAL"
  by (cases l) simp_all

lemma supply_safe:
  assumes out: "proposed_outputs p b blocked is_usable lv band = (Some s, e, v)" and ok: "tuning_check (py_tuning p) = Inr ()"
    and exact: "\<forall>v. Some v \<in> set (air_values (py_tuning p) @ thermal_values (py_tuning p)) \<longrightarrow> binary64_value v"
  shows "zb_actuator_kind b = ''fans''"
    and "\<exists>a x. s = Fin a \<and> e = Some (Fin x) \<and> 0 \<le> a \<and> a \<le> x \<and> x \<le> 100"
    and "lv = Some AIR_NORMAL \<Longrightarrow> temperature_limit_pct p band = Some m \<Longrightarrow> fle s m"
proof -
  from out ok obtain q a x where q: "air_request_pct p lv = Some (Fin q)" and a: "s = Fin a" "0 \<le> a" "a \<le> 100"
    and min: "a = (if lv = Some AIR_NORMAL \<and> temperature_limit_pct p band \<noteq> None
      then (case the (temperature_limit_pct p band) of Fin m \<Rightarrow> min q m | _ \<Rightarrow> q) else q)"
    and x: "e = Some (fmin (Fin 100) (fadd s x))" "\<exists>r. x = Fin r \<and> 0 \<le> r \<and> r \<le> 100"
    and kind: "zb_actuator_kind b = ''fans''" and src: "a = q \<or> temperature_limit_pct p band = Some (Fin a)"
    by (rule fans_outputs)
  show "zb_actuator_kind b = ''fans''" by (rule kind)
  have "round64 a = a"
    using src exact[rule_format, of "Fin a"] air_request_value[OF q] temperature_limit_value[of p band "Fin a"]
    by (auto simp: binary64_value_def)
  then show "\<exists>a x. s = Fin a \<and> e = Some (Fin x) \<and> 0 \<le> a \<and> a \<le> x \<and> x \<le> 100"
    using a x add_percent[of a] by fastforce
  show "fle s m" if lv: "lv = Some AIR_NORMAL" and m: "temperature_limit_pct p band = Some m"
  proof -
    from temperature_limit_value[OF m] tuned_percentages[OF ok, of m] obtain r where "m = Fin r" by auto
    with lv m min a show ?thesis by simp
  qed
qed

text \<open>C16: what a zone proposal may contain. No proposal ever names a voltage. Nothing at all is
  proposed while the core is safety-blocked, the sensor is not usable, or no output family is tuned.
  With tuning that passed its checks, a proposed supply and extract lie in 0..100 percent, the extract
  is the supply plus the bias (rounded) capped at 100 and, for binary64 tuning values, never below the
  supply; in clean air the supply respects the temperature limit of the zone; and an AERO speed is one
  of the device's speeds, proposed only for an AERO zone.\<close>

theorem shadow_proposals_safe:
  assumes z: "z = policy_zone p st b" and ok: "tuning_check (py_tuning p) = Inr ()"
    and exact: "\<forall>v. Some v \<in> set (air_values (py_tuning p) @ thermal_values (py_tuning p)) \<longrightarrow> binary64_value v"
  shows "(sp_proposed_supply_voltage z = None \<and> sp_proposed_extract_voltage z = None)
    \<and> (safety_blocked st \<or> \<not> sp_sensor_usable z \<or> \<not> outputs_configured (py_tuning p) \<longrightarrow>
         sp_final_supply_pct z = None \<and> sp_final_extract_pct z = None \<and> sp_proposed_aero_speed z = None)
    \<and> (\<forall>s. sp_final_supply_pct z = Some s \<longrightarrow> zb_actuator_kind b = ''fans''
         \<and> (\<exists>a x. s = Fin a \<and> sp_final_extract_pct z = Some (Fin x) \<and> 0 \<le> a \<and> a \<le> x \<and> x \<le> 100)
         \<and> (sp_air_quality_level z = Some ''NORMAL'' \<longrightarrow>
              (\<forall>m. sp_temperature_limit_pct z = Some m \<longrightarrow> fle s m)))
    \<and> (\<forall>v. sp_proposed_aero_speed z = Some v \<longrightarrow> zb_actuator_kind b = ''aero'' \<and> 0 \<le> v \<and> v \<le> 3)"
proof -
  define rd where "rd = (case map_of (sensor_by_address st) (zb_sensor_address b) of
    None \<Rightarrow> empty_reading | Some n \<Rightarrow> reading n)"
  define band where "band = (if zb_actuator_kind b = ''fans'' then classify_temperature p (temperature_celsius rd)
    else THERMAL_NOT_APPLICABLE)"
  define lv where "lv = map_option fst (classify_air_quality p (pm2_5_ug_m3 rd) (voc_index rd) (nox_index rd))"
  have out: "proposed_outputs p b (safety_blocked st) (sp_sensor_usable z) lv band =
      (sp_final_supply_pct z, sp_final_extract_pct z, sp_proposed_aero_speed z)"
    unfolding lv_def by (rule zone_outputs[OF z rd_def band_def])
  have level: "sp_air_quality_level z = Some ''NORMAL'' \<longleftrightarrow> lv = Some AIR_NORMAL"
    unfolding z lv_def zone_level(1)[OF rd_def] by auto
  have limit: "zb_actuator_kind b = ''fans'' \<Longrightarrow> sp_temperature_limit_pct z = temperature_limit_pct p band"
    by (simp add: z band_def zone_level(2)[OF rd_def])
  note safe = supply_safe[OF _ ok exact, of b _ _ lv band]
  have none: "safety_blocked st \<or> \<not> sp_sensor_usable z \<or> \<not> outputs_configured (py_tuning p) \<Longrightarrow>
      sp_final_supply_pct z = None \<and> sp_final_extract_pct z = None \<and> sp_proposed_aero_speed z = None"
    using out by (auto simp: proposed_outputs_def Let_def)
  have speed: "sp_proposed_aero_speed z = Some v \<Longrightarrow> zb_actuator_kind b = ''aero'' \<and> 0 \<le> v \<and> v \<le> 3" for v
    using out tuned_speeds[OF ok aero_speed_value] by (auto simp: proposed_outputs_def Let_def split: if_splits)
  have "zb_actuator_kind b = ''fans''
      \<and> (\<exists>a x. s = Fin a \<and> sp_final_extract_pct z = Some (Fin x) \<and> 0 \<le> a \<and> a \<le> x \<and> x \<le> 100)
      \<and> (sp_air_quality_level z = Some ''NORMAL'' \<longrightarrow> (\<forall>m. sp_temperature_limit_pct z = Some m \<longrightarrow> fle s m))"
    if "sp_final_supply_pct z = Some s" for s
    using safe(1-3)[OF out[unfolded that]] limit level by auto
  with none speed show ?thesis by (simp add: z fans_voltages_none)
qed

text \<open>A tuned policy, a zone and a core state with one usable sensor.\<close>

definition demo_tuning :: shadow_output_tuning where
  "demo_tuning = no_tuning\<lparr>tn_normal_air_request_pct := Some (Fin 30), tn_boost_air_request_pct := Some (Fin 50),
     tn_high_air_request_pct := Some (Fin 70), tn_max_air_request_pct := Some (Fin 100),
     tn_thermal_normal_limit_pct := Some (Fin 80), tn_thermal_limiting_limit_pct := Some (Fin 40),
     tn_thermal_minimum_limit_pct := Some (Fin 25), tn_thermal_protection_limit_pct := Some (Fin 10),
     tn_extract_bias_pct := Some (Fin 5)\<rparr>"

lemma demo_tuning_ok: "tuning_check demo_tuning = Inr ()"
  by (simp add: tuning_check_def demo_tuning_def no_tuning_def check_fields_def percentage_fields_def
      speed_fields_def dynamics_fields_def air_values_def thermal_values_def aero_values_def dynamics_values_def
      rbind_def percent_ok_def ascending_def All_less_Suc numeral_eq_Suc)

lemma demo_tuning_exact:
  "\<forall>v. Some v \<in> set (air_values demo_tuning @ thermal_values demo_tuning) \<longrightarrow> binary64_value v"
proof -
  have int: "binary64_value (Fin (of_int n))" if "\<bar>n\<bar> \<le> 2 ^ 53" for n
    using r64.of_int_exact[OF that] by (simp add: binary64_value_def)
  from int[of 30] int[of 50] int[of 70] int[of 100] int[of 80] int[of 40] int[of 25] int[of 10]
  show ?thesis by (auto simp: demo_tuning_def no_tuning_def air_values_def thermal_values_def)
qed


definition demo_shadow_node :: "air_quality_reading \<Rightarrow> sensor_node_state" where
  "demo_shadow_node rd = (new_node 1)\<lparr>online := True, usable := True, measurement_valid := True,
     measurement_stale := False, reading := rd\<rparr>"

definition demo_shadow_state :: "air_quality_reading \<Rightarrow> core_state" where
  "demo_shadow_state rd = \<lparr>cs_mode = MODE_STOP, cs_setpoints = stopped,
     cs_hardware_ready = True, cs_output_state_known = True, cs_consecutive_hardware_failures = 0,
     cs_active_alarms = [], cs_sensor_bus = Some \<lparr>sb_port = [], sb_baudrate = 9600, sb_addresses = [1],
       sb_ready = True, sb_worker_alive = True, sb_worker_restarts = 0, sb_expected_map_version = 2,
       sb_inter_node_delay_seconds = Fin 0, sb_poll_interval_seconds = Fin 1, sb_last_cycle_at = None,
       sb_last_error = None, sb_nodes = [demo_shadow_node rd]\<rparr>,
     cs_aero_bus = None, cs_tacho = None, cs_zigbee = None, cs_schedule = None, cs_shadow_automation = None\<rparr>"

definition demo_reading :: "rat \<Rightarrow> air_quality_reading" where
  "demo_reading pm = empty_reading\<lparr>pm2_5_ug_m3 := Some (Fin pm), temperature_celsius := Some (Fin 15)\<rparr>"

lemma demo_shadow_node_found [simp]:
  "map_of (sensor_by_address (demo_shadow_state rd)) 1 = Some (demo_shadow_node rd)"
  "safety_blocked (demo_shadow_state rd) = False"
  "sensor_is_usable (Some (demo_shadow_node rd))" "reading (demo_shadow_node rd) = rd"
  by (simp_all add: sensor_by_address_def demo_shadow_state_def dict_of_def demo_shadow_node_def
      safety_blocked_def sensor_is_usable_def new_node_def)

lemma demo_cold_zone:
  "sp_final_supply_pct (policy_zone (shadow_policy_v1 demo_tuning) (demo_shadow_state (demo_reading 12))
     (hd DEFAULT_SHADOW_ZONE_BINDINGS)) = Some (Fin 10)"
  by (simp add: policy_zone_def Let_def DEFAULT_SHADOW_ZONE_BINDINGS_def demo_reading_def empty_reading_def
      classify_air_quality_def classify_pm2_5_def classify_voc_def classify_nox_def shadow_policy_v1_def
      classify_temperature_def proposed_outputs_def outputs_configured_def fan_outputs_configured_def
      air_values_def thermal_values_def demo_tuning_def no_tuning_def air_request_pct_def
      temperature_limit_pct_def fmin_def)

theorem shadow_proposals_safe_witness:
  "\<exists>z x. z = policy_zone (shadow_policy_v1 demo_tuning) (demo_shadow_state (demo_reading 12))
       (hd DEFAULT_SHADOW_ZONE_BINDINGS) \<and> sp_final_supply_pct z = Some (Fin 10)
     \<and> sp_final_extract_pct z = Some (Fin x) \<and> 10 \<le> x \<and> x \<le> 100 \<and> sp_proposed_supply_voltage z = None"
  using shadow_proposals_safe[OF refl, of "shadow_policy_v1 demo_tuning"
      "demo_shadow_state (demo_reading 12)" "hd DEFAULT_SHADOW_ZONE_BINDINGS"]
    demo_tuning_ok demo_tuning_exact demo_cold_zone
  by (auto simp: shadow_policy_v1_def)

subsection \<open>Monotonicity\<close>

lemma flt_fle_trans: "flt a b \<Longrightarrow> fle b c \<Longrightarrow> flt a c"
  by (cases a; cases b; cases c) (auto simp add: fle_def)

lemma fle_trans: "fle a b \<Longrightarrow> fle b c \<Longrightarrow> fle a c"
  by (cases a; cases b; cases c) (auto simp add: fle_def)

text \<open>The same reading, with no pollutant lower.\<close>

definition value_le :: "py_float option \<Rightarrow> py_float option \<Rightarrow> bool" where
  "value_le a b = (case (a, b) of (None, None) \<Rightarrow> True | (Some x, Some y) \<Rightarrow> fle x y | _ \<Rightarrow> False)"

definition dirtier :: "air_quality_reading \<Rightarrow> air_quality_reading \<Rightarrow> bool" where
  "dirtier r r' = (temperature_celsius r' = temperature_celsius r
     \<and> value_le (pm2_5_ug_m3 r) (pm2_5_ug_m3 r') \<and> value_le (voc_index r) (voc_index r')
     \<and> value_le (nox_index r) (nox_index r'))"

definition level_le :: "air_quality_level option \<Rightarrow> air_quality_level option \<Rightarrow> bool" where
  "level_le a b = (case (a, b) of (None, None) \<Rightarrow> True | (Some x, Some y) \<Rightarrow> x \<le> y | _ \<Rightarrow> False)"

lemmas level_order = less_eq_air_quality_level_def less_air_quality_level_def

lemma classify_mono:
  assumes "value_le a b"
  shows "level_le (classify_pm2_5 p a) (classify_pm2_5 p b)" "level_le (classify_voc p a) (classify_voc p b)"
    "level_le (classify_nox p a) (classify_nox p b)"
  using assms
  by (auto simp: value_le_def level_le_def classify_pm2_5_def classify_voc_def classify_nox_def level_order
      split: option.splits dest: flt_fle_trans fle_trans)

text \<open>The level of the air is the greatest of the levels of the pollutants that have one.\<close>

lemma classify_air_level:
  "map_option fst (classify_air_quality p a b c) =
     fold (\<lambda>l acc. case l of None \<Rightarrow> acc | Some x \<Rightarrow> (case acc of None \<Rightarrow> Some x | Some y \<Rightarrow> Some (max y x)))
       [classify_pm2_5 p a, classify_voc p b, classify_nox p c] None"
  by (cases "classify_pm2_5 p a"; cases "classify_voc p b"; cases "classify_nox p c")
    (auto simp: classify_air_quality_def Let_def max_def)

lemma air_level_mono:
  assumes "dirtier r r'"
  shows "level_le (map_option fst (classify_air_quality p (pm2_5_ug_m3 r) (voc_index r) (nox_index r)))
    (map_option fst (classify_air_quality p (pm2_5_ug_m3 r') (voc_index r') (nox_index r')))"
proof -
  from assms have "level_le (classify_pm2_5 p (pm2_5_ug_m3 r)) (classify_pm2_5 p (pm2_5_ug_m3 r'))"
    "level_le (classify_voc p (voc_index r)) (classify_voc p (voc_index r'))"
    "level_le (classify_nox p (nox_index r)) (classify_nox p (nox_index r'))"
    by (auto simp: dirtier_def intro: classify_mono)
  then show ?thesis
    unfolding classify_air_level
    by (auto simp: level_le_def le_max_iff_disj split: option.splits)
qed

lemma ascending_four:
  "ascending le [a, b, c, d] \<longleftrightarrow> None \<in> {a, b, c, d} \<or> le (the a) (the b) \<and> le (the b) (the c) \<and> le (the c) (the d)"
  by (auto simp: ascending_def All_less_Suc numeral_eq_Suc)

lemma level_le_NORMAL [simp]: "l \<le> AIR_NORMAL \<longleftrightarrow> l = AIR_NORMAL"
  by (cases l) (simp_all add: level_order)

lemma air_request_mono:
  assumes "tuning_check (py_tuning p) = Inr ()" "fan_outputs_configured (py_tuning p)" "level_le lv lv'"
    "air_request_pct p lv = Some (Fin q)"
  shows "\<exists>q'. air_request_pct p lv' = Some (Fin q') \<and> q \<le> q'"
proof -
  from assms(2) obtain a b c d where v: "air_values (py_tuning p) = [Some a, Some b, Some c, Some d]"
    by (auto simp: fan_outputs_configured_def air_values_def eq_commute[of None])
  with tuned_percentages[OF assms(1)] obtain a' b' c' d' where
    f: "a = Fin a'" "b = Fin b'" "c = Fin c'" "d = Fin d'" by fastforce
  from tuning_checkD(3)[OF assms(1)] have "a' \<le> b'" "b' \<le> c'" "c' \<le> d'"
    by (simp_all add: v f ascending_four)
  with v f assms(3,4) show ?thesis
    by (auto simp: air_values_def air_request_pct_def level_le_def level_order
        split: option.splits air_quality_level.splits)
qed

lemma aero_speed_mono:
  assumes "tuning_check (py_tuning p) = Inr ()" "aero_outputs_configured (py_tuning p)" "level_le lv lv'"
    "aero_speed p lv = Some q"
  shows "\<exists>q'. aero_speed p lv' = Some q' \<and> q \<le> q'"
proof -
  from assms(2) obtain a b c d where v: "aero_values (py_tuning p) = [Some a, Some b, Some c, Some d]"
    by (auto simp: aero_outputs_configured_def aero_values_def eq_commute[of None])
  from tuning_checkD(5)[OF assms(1)] have "a \<le> b" "b \<le> c" "c \<le> d" by (simp_all add: v ascending_four)
  with v assms(3,4) show ?thesis
    by (auto simp: aero_values_def aero_speed_def level_le_def level_order
        split: option.splits air_quality_level.splits)
qed

lemma supply_mono:
  assumes ok: "tuning_check (py_tuning p) = Inr ()" and fans: "fan_outputs_configured (py_tuning p)"
    and le: "level_le lv lv'"
    and out: "proposed_outputs p b bl us lv band = (Some s, e, v)"
    and out': "proposed_outputs p b bl us lv' band = (s', e', v')"
  shows "\<exists>a a'. s = Fin a \<and> s' = Some (Fin a') \<and> a \<le> a' \<and>
    (\<exists>x x'. e = Some (Fin x) \<and> e' = Some (Fin x') \<and> x \<le> x')"
proof -
  from out ok obtain q a x where q: "air_request_pct p lv = Some (Fin q)" and a: "s = Fin a" "0 \<le> a" "a \<le> 100"
    and min: "a = (if lv = Some AIR_NORMAL \<and> temperature_limit_pct p band \<noteq> None
      then (case the (temperature_limit_pct p band) of Fin m \<Rightarrow> min q m | _ \<Rightarrow> q) else q)"
    and x: "x = (case tn_extract_bias_pct (py_tuning p) of None \<Rightarrow> Fin 0 | Some x \<Rightarrow> x)"
      "e = Some (fmin (Fin 100) (fadd s x))" "\<exists>r. x = Fin r \<and> 0 \<le> r \<and> r \<le> 100"
    by (rule fans_outputs)
  from air_request_mono[OF ok fans le q] obtain q' where q': "air_request_pct p lv' = Some (Fin q')" "q \<le> q'" by blast
  with out out' have "s' \<noteq> None" by (auto simp: proposed_outputs_def Let_def split: if_splits)
  with out' obtain t where out2: "proposed_outputs p b bl us lv' band = (Some t, e', v')" and t: "s' = Some t" by auto
  from out2 ok obtain q2 a' x' where q2: "air_request_pct p lv' = Some (Fin q2)" and a': "t = Fin a'" "0 \<le> a'" "a' \<le> 100"
    and min': "a' = (if lv' = Some AIR_NORMAL \<and> temperature_limit_pct p band \<noteq> None
      then (case the (temperature_limit_pct p band) of Fin m \<Rightarrow> min q2 m | _ \<Rightarrow> q2) else q2)"
    and x': "x' = (case tn_extract_bias_pct (py_tuning p) of None \<Rightarrow> Fin 0 | Some x \<Rightarrow> x)"
      "e' = Some (fmin (Fin 100) (fadd t x'))"
    by (rule fans_outputs)
  have "lv' = Some AIR_NORMAL \<Longrightarrow> lv = Some AIR_NORMAL"
    using le by (cases lv) (auto simp: level_le_def)
  moreover have "a \<le> q" using min by (auto split: py_float.splits if_splits)
  ultimately have le_a: "a \<le> a'" using min min' q q' q2 by (cases "lv' = Some AIR_NORMAL") auto
  from x(3) obtain r where r: "x = Fin r" "0 \<le> r" "r \<le> 100" by blast
  from add_percent[OF a(2,3) r(2,3)] add_percent[OF a'(2,3) r(2,3)] le_a round64_mono[of "a + r" "a' + r"]
  show ?thesis using a a' t x x' r by auto
qed


lemma demo_dirty_reading: "dirtier (demo_reading 12) (demo_reading 30)"
  by (simp add: dirtier_def demo_reading_def empty_reading_def value_le_def)


text \<open>
  The other direction of the tuning contract does not hold: \<open>outputs_configured\<close> is true as soon as one of
  the two actuator families is tuned, so a zone of the other family gets a proposal from a single
  percentage, here without any thermal limit although the band is the protection band.
\<close>

definition partial_tuning :: shadow_output_tuning where
  "partial_tuning = no_tuning\<lparr>tn_normal_air_request_pct := Some (Fin 60), tn_aero_normal_speed := Some 0,
     tn_aero_boost_speed := Some 1, tn_aero_high_speed := Some 2, tn_aero_max_speed := Some 3\<rparr>"

lemma shadow_partial_tuning:
  "\<not> fan_outputs_configured partial_tuning"
  "sp_thermal_band (policy_zone (shadow_policy_v1 partial_tuning) (demo_shadow_state (demo_reading 12))
     (hd DEFAULT_SHADOW_ZONE_BINDINGS)) = Some ''PROTECTION''"
  "sp_final_supply_pct (policy_zone (shadow_policy_v1 partial_tuning) (demo_shadow_state (demo_reading 12))
     (hd DEFAULT_SHADOW_ZONE_BINDINGS)) = Some (Fin 60)"
  by (simp_all add: policy_zone_def Let_def DEFAULT_SHADOW_ZONE_BINDINGS_def demo_reading_def empty_reading_def
      classify_air_quality_def classify_pm2_5_def classify_voc_def classify_nox_def shadow_policy_v1_def
      classify_temperature_def proposed_outputs_def outputs_configured_def fan_outputs_configured_def
      aero_outputs_configured_def air_values_def thermal_values_def aero_values_def partial_tuning_def
      no_tuning_def air_request_pct_def temperature_limit_pct_def fmin_def)

end
