(* ===== verification/Alerts.thy ===== *)
theory Alerts
  imports CoreState "HOL-Library.AList"
begin

section \<open>The alert journal and the alert registry\<close>

text \<open>
  Models \<open>application/alert_registry.py\<close> (the protocol \<open>AlertStore\<close>, \<open>MemoryAlertStore\<close> and
  \<open>AlertRegistry\<close>) and \<open>infrastructure/sqlite_alert_store.py\<close>. A store is a record of operations on
  a store state, so that the registry is written once over any store. The database is the table as the
  connection sees it, the table on disk, and for each access whether it fails (the input): a failed
  statement or commit leaves the open transaction, or rolls it back, as SQLite does depending on the
  cause. The wall clock of each call is an argument.
\<close>

subsection \<open>The store protocol\<close>

record 's alert_store =
  as_list_active :: "('s, alert_record list) op"
  as_list_history :: "int \<Rightarrow> ('s, alert_record list) op"
  as_create :: "alert_signal \<Rightarrow> string \<Rightarrow> ('s, alert_record) op"
  as_update_active :: "alert_record \<Rightarrow> alert_signal \<Rightarrow> ('s, alert_record) op"
  as_acknowledge :: "int \<Rightarrow> string \<Rightarrow> ('s, alert_record) op"
  as_clear :: "int \<Rightarrow> string \<Rightarrow> int option \<Rightarrow> ('s, alert_record) op"
  as_close :: "('s, unit) op"

text \<open>\<open>value or default\<close> for an optional integer.\<close>

definition int_or :: "int option \<Rightarrow> int \<Rightarrow> int" where
  "int_or v d = (case v of None \<Rightarrow> d | Some n \<Rightarrow> (if n = 0 then d else n))"

text \<open>The record that a signal creates, and the record that a signal updates.\<close>

definition signal_record :: "int \<Rightarrow> alert_signal \<Rightarrow> string \<Rightarrow> alert_record" where
  "signal_record i sg since = \<lparr>rc_alert_id = i, rc_key = sg_key sg, rc_code = sg_code sg, rc_source = sg_source sg,
     rc_severity = sg_severity sg, rc_message = sg_message sg, rc_detail = sg_detail sg, rc_active_since = since,
     rc_acknowledged_at = None, rc_cleared_at = None, rc_occurrences = sg_occurrences sg\<rparr>"

definition updated_record :: "alert_record \<Rightarrow> alert_signal \<Rightarrow> alert_record" where
  "updated_record r sg = r\<lparr>rc_code := sg_code sg, rc_source := sg_source sg, rc_severity := sg_severity sg,
     rc_message := sg_message sg, rc_detail := sg_detail sg,
     rc_occurrences := max (rc_occurrences r) (sg_occurrences sg)\<rparr>"

definition unknown_alert :: "int \<Rightarrow> exc" where
  "unknown_alert i = ValueError (''Unknown alert id: '' @ show_int i)"

definition inactive_alert :: "int \<Rightarrow> exc" where
  "inactive_alert i = ValueError (''Alert '' @ show_int i @ '' is not active'')"

subsection \<open>The store in memory\<close>

record memory_alerts =
  ma_records :: "alert_record list"
  ma_next_id :: int

definition empty_memory_alerts :: memory_alerts where
  "empty_memory_alerts = \<lparr>ma_records = [], ma_next_id = 1\<rparr>"

text \<open>\<open>xs[-limit:]\<close>.\<close>

definition last_slice :: "int \<Rightarrow> 'a list \<Rightarrow> 'a list" where
  "last_slice limit xs = (if limit \<le> 0 then drop (nat (- limit)) xs else drop (length xs - nat limit) xs)"

definition memory_find :: "int \<Rightarrow> (memory_alerts, alert_record) op" where
  "memory_find i s = (s, case find (\<lambda>r. rc_alert_id r = i) (ma_records s) of
     None \<Rightarrow> Inl (unknown_alert i) | Some r \<Rightarrow> Inr r)"

fun replace_first :: "alert_record \<Rightarrow> alert_record list \<Rightarrow> alert_record list option" where
  "replace_first u [] = None"
| "replace_first u (r # rs) =
     (if rc_alert_id r = rc_alert_id u then Some (u # rs) else map_option ((#) r) (replace_first u rs))"

definition memory_replace :: "alert_record \<Rightarrow> (memory_alerts, alert_record) op" where
  "memory_replace u s = (case replace_first u (ma_records s) of
     None \<Rightarrow> (s, Inl (unknown_alert (rc_alert_id u))) | Some rs \<Rightarrow> (s\<lparr>ma_records := rs\<rparr>, Inr u))"

definition memory_create :: "alert_signal \<Rightarrow> string \<Rightarrow> (memory_alerts, alert_record) op" where
  "memory_create sg since s =
     (let r = signal_record (ma_next_id s) sg since
      in (s\<lparr>ma_records := ma_records s @ [r], ma_next_id := ma_next_id s + 1\<rparr>, Inr r))"

definition memory_acknowledge :: "int \<Rightarrow> string \<Rightarrow> (memory_alerts, alert_record) op" where
  "memory_acknowledge i time = op_bind (memory_find i) (\<lambda>r.
     if \<not> record_active r then op_raise (inactive_alert i)
     else memory_replace (r\<lparr>rc_acknowledged_at := Some (str_or (rc_acknowledged_at r) time)\<rparr>))"

definition memory_clear :: "int \<Rightarrow> string \<Rightarrow> int option \<Rightarrow> (memory_alerts, alert_record) op" where
  "memory_clear i time final = op_bind (memory_find i) (\<lambda>r.
     if \<not> record_active r then op_return r
     else memory_replace (r\<lparr>rc_cleared_at := Some time,
       rc_occurrences := max (rc_occurrences r) (int_or final (rc_occurrences r))\<rparr>))"

definition memory_store :: "memory_alerts alert_store" where
  "memory_store = \<lparr>
     as_list_active = (\<lambda>s. (s, Inr (filter record_active (ma_records s)))),
     as_list_history = (\<lambda>limit s. (s, Inr (rev (last_slice limit (ma_records s))))),
     as_create = memory_create,
     as_update_active = (\<lambda>r sg. memory_replace (updated_record r sg)),
     as_acknowledge = memory_acknowledge,
     as_clear = memory_clear,
     as_close = op_return ()\<rparr>"

subsection \<open>The store in the database\<close>

record alert_row =
  ar_alert_id :: int
  ar_alert_key :: string
  ar_code :: string
  ar_source :: string
  ar_severity :: string
  ar_message :: string
  ar_detail :: string
  ar_active_since :: string
  ar_acknowledged_at :: "string option"
  ar_cleared_at :: "string option"
  ar_occurrences :: int

text \<open>The rows in the order of insertion and the last AUTOINCREMENT id.\<close>

record alert_table =
  at_rows :: "alert_row list"
  at_sequence :: int

datatype db_fault = Db_fails string | Db_rolls_back string

record alert_db =
  ad_working :: alert_table
  ad_durable :: alert_table
  ad_open :: bool
  ad_faults :: "nat \<Rightarrow> db_fault option"
  ad_accesses :: nat

text \<open>One call of \<open>execute\<close> or \<open>commit\<close>; without a connection the assertion in \<open>_db\<close> fails.\<close>

definition db_access :: "(alert_db, unit) op" where
  "db_access db =
     (if \<not> ad_open db then (db, Inl (OtherException ''''))
      else let db' = db\<lparr>ad_accesses := Suc (ad_accesses db)\<rparr>
           in case ad_faults db (ad_accesses db) of
                None \<Rightarrow> (db', Inr ())
              | Some (Db_fails m) \<Rightarrow> (db', Inl (OtherException m))
              | Some (Db_rolls_back m) \<Rightarrow> (db'\<lparr>ad_working := ad_durable db\<rparr>, Inl (OtherException m)))"

definition db_commit :: "(alert_db, unit) op" where
  "db_commit = op_bind db_access (\<lambda>_ db. (db\<lparr>ad_durable := ad_working db\<rparr>, Inr ()))"

text \<open>An integer parameter of a statement.\<close>

definition sqlite_int :: "int \<Rightarrow> unit result" where
  "sqlite_int n = (if - (2 ^ 63) \<le> n \<and> n < 2 ^ 63 then Inr ()
     else Inl (OtherException ''Python int too large to convert to SQLite INTEGER''))"

definition alarm_codes :: "alarm_code list" where
  "alarm_codes = [ALARM_SYSTEM_UNDERVOLTAGE, ALARM_DAC_STATE_UNCERTAIN, ALARM_DAC_COMMUNICATION_LOST,
     ALARM_SENSOR_BUS_UNAVAILABLE, ALARM_SENSOR_NODE_UNAVAILABLE, ALARM_SENSOR_DATA_INVALID,
     ALARM_SEN55_DIAGNOSTICS_UNAVAILABLE, ALARM_SEN55_FAN_SPEED_WARNING, ALARM_SEN55_GAS_SENSOR_ERROR,
     ALARM_SEN55_RHT_ERROR, ALARM_SEN55_LASER_ERROR, ALARM_SEN55_FAN_ERROR, ALARM_KAMOD_HEARTBEAT_SINGLE_GAP,
     ALARM_KAMOD_HEARTBEAT_DEGRADED, ALARM_KAMOD_HEARTBEAT_LOST, ALARM_KAMOD_UNEXPECTED_RESTART,
     ALARM_KAMOD_RS485_NOT_READY, ALARM_KAMOD_SENSOR_STATE_ERROR, ALARM_KAMOD_NODE_UNAVAILABLE,
     ALARM_SERVICE_AGENT_UNAVAILABLE, ALARM_SERVICE_NETWORK_AP_UNAVAILABLE,
     ALARM_SERVICE_NETWORK_DHCP_UNAVAILABLE, ALARM_SERVICE_NETWORK_FIREWALL_INVALID,
     ALARM_AERO_BUS_UNAVAILABLE, ALARM_TACHO_MONITOR_UNAVAILABLE, ALARM_TACHO_CONFIGURATION_INVALID,
     ALARM_ZIGBEE_MQTT_DISCONNECTED, ALARM_ZIGBEE_BRIDGE_OFFLINE, ALARM_ZIGBEE_DEVICE_OFFLINE,
     ALARM_ZIGBEE_DEVICE_DATA_STALE, ALARM_ZIGBEE_LOW_BATTERY]"

text \<open>\<open>AlarmCode(value)\<close> and \<open>AlarmSeverity(value)\<close>.\<close>

definition parse_alarm_code :: "string \<Rightarrow> alarm_code result" where
  "parse_alarm_code s = (case find (\<lambda>c. alarm_code_value c = s) alarm_codes of
     None \<Rightarrow> Inl (ValueError (CHR 0x27 # s @ CHR 0x27 # '' is not a valid AlarmCode'')) | Some c \<Rightarrow> Inr c)"

fun severity_value :: "alarm_severity \<Rightarrow> string" where
  "severity_value WARNING = ''WARNING''"
| "severity_value CRITICAL = ''CRITICAL''"

definition parse_severity :: "string \<Rightarrow> alarm_severity result" where
  "parse_severity s = (case find (\<lambda>c. severity_value c = s) [WARNING, CRITICAL] of
     None \<Rightarrow> Inl (ValueError (CHR 0x27 # s @ CHR 0x27 # '' is not a valid AlarmSeverity'')) | Some c \<Rightarrow> Inr c)"

definition row_to_record :: "alert_row \<Rightarrow> alert_record result" where
  "row_to_record row = rbind (parse_alarm_code (ar_code row)) (\<lambda>code.
     rbind (parse_severity (ar_severity row)) (\<lambda>severity.
     Inr \<lparr>rc_alert_id = ar_alert_id row, rc_key = ar_alert_key row, rc_code = code, rc_source = ar_source row,
       rc_severity = severity, rc_message = ar_message row, rc_detail = ar_detail row,
       rc_active_since = ar_active_since row, rc_acknowledged_at = ar_acknowledged_at row,
       rc_cleared_at = ar_cleared_at row, rc_occurrences = ar_occurrences row\<rparr>))"

definition db_list_active :: "(alert_db, alert_record list) op" where
  "db_list_active = op_bind db_access (\<lambda>_ db.
     (db, map_result row_to_record
       (sort_key ar_alert_id (filter (\<lambda>row. ar_cleared_at row = None) (at_rows (ad_working db))))))"

text \<open>\<open>ORDER BY alert_id DESC LIMIT ?\<close>: a negative limit is no limit.\<close>

definition db_list_history :: "int \<Rightarrow> (alert_db, alert_record list) op" where
  "db_list_history limit = op_bind (op_lift (sqlite_int limit)) (\<lambda>_. op_bind db_access (\<lambda>_ db.
     (let rows = sort_key (\<lambda>row. - ar_alert_id row) (at_rows (ad_working db))
      in (db, map_result row_to_record (if limit < 0 then rows else take (nat limit) rows)))))"

definition db_find :: "int \<Rightarrow> (alert_db, alert_record option) op" where
  "db_find i = op_bind (op_lift (sqlite_int i)) (\<lambda>_. op_bind db_access (\<lambda>_ db.
     (db, case find (\<lambda>row. ar_alert_id row = i) (at_rows (ad_working db)) of
        None \<Rightarrow> Inr None | Some row \<Rightarrow> rbind (row_to_record row) (\<lambda>r. Inr (Some r)))))"

definition db_get :: "int \<Rightarrow> (alert_db, alert_record) op" where
  "db_get i = op_bind (db_find i) (\<lambda>r. case r of None \<Rightarrow> op_raise (unknown_alert i) | Some r \<Rightarrow> op_return r)"

text \<open>\<open>INSERT\<close>: the partial unique index and the check of the occurrences.\<close>

definition db_insert :: "alert_signal \<Rightarrow> string \<Rightarrow> (alert_db, int) op" where
  "db_insert sg since db =
     (let t = ad_working db; i = at_sequence t + 1
      in if \<exists>row \<in> set (at_rows t). ar_alert_key row = sg_key sg \<and> ar_cleared_at row = None
         then (db, Inl (OtherException ''UNIQUE constraint failed: alerts.alert_key''))
         else if sg_occurrences sg < 1
         then (db, Inl (OtherException ''CHECK constraint failed: occurrences >= 1''))
         else (db\<lparr>ad_working := \<lparr>at_rows = at_rows t @ [\<lparr>ar_alert_id = i, ar_alert_key = sg_key sg,
             ar_code = alarm_code_value (sg_code sg), ar_source = sg_source sg,
             ar_severity = severity_value (sg_severity sg), ar_message = sg_message sg, ar_detail = sg_detail sg,
             ar_active_since = since, ar_acknowledged_at = None, ar_cleared_at = None,
             ar_occurrences = sg_occurrences sg\<rparr>], at_sequence = i\<rparr>\<rparr>, Inr i))"

definition db_create :: "alert_signal \<Rightarrow> string \<Rightarrow> (alert_db, alert_record) op" where
  "db_create sg since = op_bind (op_lift (sqlite_int (sg_occurrences sg))) (\<lambda>_.
     op_bind db_access (\<lambda>_. op_bind (db_insert sg since) (\<lambda>i. op_bind db_commit (\<lambda>_. db_get i))))"

text \<open>\<open>UPDATE ... WHERE\<close>: the number of rows that matched.\<close>

definition db_update :: "(alert_row \<Rightarrow> bool) \<Rightarrow> (alert_row \<Rightarrow> alert_row) \<Rightarrow> (alert_db, nat) op" where
  "db_update matches f db =
     (let rows = at_rows (ad_working db)
      in (db\<lparr>ad_working := (ad_working db)\<lparr>at_rows := map (\<lambda>row. if matches row then f row else row) rows\<rparr>\<rparr>,
          Inr (length (filter matches rows))))"

definition set_signal :: "int \<Rightarrow> alert_signal \<Rightarrow> alert_row \<Rightarrow> alert_row" where
  "set_signal occurrences sg row = row\<lparr>ar_code := alarm_code_value (sg_code sg), ar_source := sg_source sg,
     ar_severity := severity_value (sg_severity sg), ar_message := sg_message sg, ar_detail := sg_detail sg,
     ar_occurrences := occurrences\<rparr>"

definition db_update_active :: "alert_record \<Rightarrow> alert_signal \<Rightarrow> (alert_db, alert_record) op" where
  "db_update_active r sg =
     (let occurrences = max (rc_occurrences r) (sg_occurrences sg)
      in op_bind (op_lift (sqlite_int occurrences)) (\<lambda>_. op_bind (op_lift (sqlite_int (rc_alert_id r))) (\<lambda>_.
         op_bind db_access (\<lambda>_. op_bind
           (db_update (\<lambda>row. ar_alert_id row = rc_alert_id r \<and> ar_cleared_at row = None) (set_signal occurrences sg))
           (\<lambda>_. op_bind db_commit (\<lambda>_. db_get (rc_alert_id r)))))))"

definition set_acknowledged :: "string \<Rightarrow> alert_row \<Rightarrow> alert_row" where
  "set_acknowledged time row = row\<lparr>ar_acknowledged_at :=
     (case ar_acknowledged_at row of None \<Rightarrow> Some time | Some t \<Rightarrow> Some t)\<rparr>"

definition db_acknowledge :: "int \<Rightarrow> string \<Rightarrow> (alert_db, alert_record) op" where
  "db_acknowledge i time = op_bind (op_lift (sqlite_int i)) (\<lambda>_. op_bind db_access (\<lambda>_.
     op_bind (db_update (\<lambda>row. ar_alert_id row = i \<and> ar_cleared_at row = None) (set_acknowledged time)) (\<lambda>n.
     op_bind db_commit (\<lambda>_.
       if n \<noteq> 1
       then op_bind (db_find i) (\<lambda>r. op_raise (if r = None then unknown_alert i else inactive_alert i))
       else db_get i))))"

definition set_cleared :: "string \<Rightarrow> int \<Rightarrow> alert_row \<Rightarrow> alert_row" where
  "set_cleared time occurrences row = row\<lparr>
     ar_cleared_at := (case ar_cleared_at row of None \<Rightarrow> Some time | Some t \<Rightarrow> Some t),
     ar_occurrences := max (ar_occurrences row) occurrences\<rparr>"

definition db_clear :: "int \<Rightarrow> string \<Rightarrow> int option \<Rightarrow> (alert_db, alert_record) op" where
  "db_clear i time final = op_bind (db_find i) (\<lambda>existing. case existing of
       None \<Rightarrow> op_raise (unknown_alert i)
     | Some r \<Rightarrow>
         (let occurrences = max (rc_occurrences r) (int_or final (rc_occurrences r))
          in op_bind (op_lift (sqlite_int occurrences)) (\<lambda>_. op_bind db_access (\<lambda>_.
             op_bind (db_update (\<lambda>row. ar_alert_id row = i) (set_cleared time occurrences)) (\<lambda>n.
             op_bind db_commit (\<lambda>_. if n \<noteq> 1 then op_raise (unknown_alert i) else db_get i))))))"

text \<open>Closing the connection drops an open transaction.\<close>

definition db_close :: "(alert_db, unit) op" where
  "db_close db = (db\<lparr>ad_open := False, ad_working := ad_durable db\<rparr>, Inr ())"

definition sqlite_store :: "alert_db alert_store" where
  "sqlite_store = \<lparr>as_list_active = db_list_active, as_list_history = db_list_history, as_create = db_create,
     as_update_active = db_update_active, as_acknowledge = db_acknowledge, as_clear = db_clear,
     as_close = db_close\<rparr>"

subsection \<open>The registry\<close>

record 's alert_registry =
  rg_store :: 's
  rg_step :: int
  rg_latest :: "(string \<times> int) list"

definition on_alerts :: "('s, 'a) op \<Rightarrow> ('s alert_registry, 'a) op" where
  "on_alerts m g = (let (s, r) = m (rg_store g) in (g\<lparr>rg_store := s\<rparr>, r))"

definition new_alert_registry :: "'s alert_store \<Rightarrow> int \<Rightarrow> ('s, 's alert_registry) op" where
  "new_alert_registry A step s =
     (if step < 1 then (s, Inl (ValueError ''occurrence_persist_step must be a positive integer''))
      else op_bind (as_list_active A) (\<lambda>rs s'.
        (s', Inr \<lparr>rg_store = s', rg_step = step, rg_latest = dict_of rc_key rc_occurrences rs\<rparr>)) s)"

definition with_latest_occurrences :: "(string \<times> int) list \<Rightarrow> alert_record \<Rightarrow> alert_record" where
  "with_latest_occurrences latest r =
     (if \<not> record_active r then r
      else let n = dict_get latest (rc_key r) (rc_occurrences r)
           in if n \<le> rc_occurrences r then r else r\<lparr>rc_occurrences := n\<rparr>)"

definition metadata_changed :: "alert_record \<Rightarrow> alert_signal \<Rightarrow> bool" where
  "metadata_changed r sg = (rc_code r \<noteq> sg_code sg \<or> rc_source r \<noteq> sg_source sg
     \<or> rc_severity r \<noteq> sg_severity sg \<or> rc_message r \<noteq> sg_message sg \<or> rc_detail r \<noteq> sg_detail sg)"

definition active_records :: "'s alert_store \<Rightarrow> ('s alert_registry, alert_record list) op" where
  "active_records A = op_bind (on_alerts (as_list_active A)) (\<lambda>rs g.
     (g, Inr (map (with_latest_occurrences (rg_latest g)) rs)))"

text \<open>\<open>latest = max(self._latest.get(key, 0), signal.occurrences)\<close>, stored, and the signal with it.\<close>

definition note_latest :: "alert_signal \<Rightarrow> ('s alert_registry, alert_signal) op" where
  "note_latest sg g =
     (let latest = max (dict_get (rg_latest g) (sg_key sg) 0) (sg_occurrences sg)
      in (g\<lparr>rg_latest := AList.update (sg_key sg) latest (rg_latest g)\<rparr>, Inr (sg\<lparr>sg_occurrences := latest\<rparr>)))"

definition persist_due :: "int \<Rightarrow> alert_record \<Rightarrow> alert_signal \<Rightarrow> bool" where
  "persist_due step r sg = (metadata_changed r sg \<or> rc_occurrences r + step \<le> sg_occurrences sg)"

text \<open>One round of the first loop.\<close>

definition reconcile_signal :: "'s alert_store \<Rightarrow> string \<Rightarrow> alert_signal \<Rightarrow> (string \<times> alert_record) list \<Rightarrow>
    ('s alert_registry, (string \<times> alert_record) list) op" where
  "reconcile_signal A now sg active =
     op_bind (note_latest sg) (\<lambda>latest g.
       case map_of active (sg_key sg) of
         None \<Rightarrow> op_bind (on_alerts (as_create A latest now)) (\<lambda>r. op_return (AList.update (sg_key sg) r active)) g
       | Some r \<Rightarrow>
           if persist_due (rg_step g) r latest
           then op_bind (on_alerts (as_update_active A r latest)) (\<lambda>r. op_return (AList.update (sg_key sg) r active)) g
           else (g, Inr active))"

primrec reconcile_signals :: "'s alert_store \<Rightarrow> string \<Rightarrow> alert_signal list \<Rightarrow> (string \<times> alert_record) list \<Rightarrow>
    ('s alert_registry, (string \<times> alert_record) list) op" where
  "reconcile_signals A now [] active = op_return active"
| "reconcile_signals A now (sg # sgs) active =
     op_bind (reconcile_signal A now sg active) (\<lambda>active. reconcile_signals A now sgs active)"

text \<open>Clearing one condition: its count leaves the dictionary before the store is asked.\<close>

definition clear_record :: "'s alert_store \<Rightarrow> string \<Rightarrow> string \<Rightarrow> alert_record \<Rightarrow> ('s alert_registry, alert_record) op" where
  "clear_record A now key r g =
     on_alerts (as_clear A (rc_alert_id r) now
       (Some (max (rc_occurrences r) (dict_get (rg_latest g) key (rc_occurrences r)))))
     (g\<lparr>rg_latest := AList.delete key (rg_latest g)\<rparr>)"

primrec reconcile_clears :: "'s alert_store \<Rightarrow> string \<Rightarrow> string list \<Rightarrow> (string \<times> alert_record) list \<Rightarrow>
    ('s alert_registry, unit) op" where
  "reconcile_clears A now keys [] = op_return ()"
| "reconcile_clears A now keys (kr # rest) =
     (if fst kr \<in> set keys then reconcile_clears A now keys rest
      else op_bind (clear_record A now (fst kr) (snd kr)) (\<lambda>_. reconcile_clears A now keys rest))"

definition signals_by_key :: "alert_signal list \<Rightarrow> (string \<times> alert_signal) list" where
  "signals_by_key signals = dict_of sg_key (\<lambda>sg. sg) signals"

definition reconcile :: "'s alert_store \<Rightarrow> string \<Rightarrow> alert_signal list \<Rightarrow> ('s alert_registry, alert_record list) op" where
  "reconcile A now signals =
     op_bind (on_alerts (as_list_active A)) (\<lambda>rs.
     op_bind (reconcile_signals A now (map snd (signals_by_key signals)) (dict_of rc_key (\<lambda>r. r) rs)) (\<lambda>active.
     op_bind (reconcile_clears A now (map fst (signals_by_key signals)) active) (\<lambda>_. active_records A)))"

definition activate :: "'s alert_store \<Rightarrow> string \<Rightarrow> alert_signal \<Rightarrow> ('s alert_registry, alert_record) op" where
  "activate A now sg = op_bind (note_latest sg) (\<lambda>latest. op_bind (on_alerts (as_list_active A)) (\<lambda>rs g.
     case find (\<lambda>r. rc_key r = sg_key sg) rs of
       None \<Rightarrow> on_alerts (as_create A latest now) g
     | Some r \<Rightarrow>
         op_bind (if persist_due (rg_step g) r latest then on_alerts (as_update_active A r latest) else op_return r)
           (\<lambda>r g. (g, Inr (with_latest_occurrences (rg_latest g) r))) g))"

definition clear_key :: "'s alert_store \<Rightarrow> string \<Rightarrow> string \<Rightarrow> ('s alert_registry, alert_record option) op" where
  "clear_key A now key = op_bind (on_alerts (as_list_active A)) (\<lambda>rs.
     case find (\<lambda>r. rc_key r = key) rs of
       None \<Rightarrow> (\<lambda>g. (g\<lparr>rg_latest := AList.delete key (rg_latest g)\<rparr>, Inr None))
     | Some r \<Rightarrow> op_bind (clear_record A now key r) (\<lambda>r. op_return (Some r)))"

definition acknowledge :: "'s alert_store \<Rightarrow> string \<Rightarrow> int \<Rightarrow> ('s alert_registry, alert_record) op" where
  "acknowledge A now i =
     (if i < 1 then op_raise (ValueError ''alert_id must be a positive integer'')
      else op_bind (on_alerts (as_acknowledge A i now)) (\<lambda>r g. (g, Inr (with_latest_occurrences (rg_latest g) r))))"

definition active_alarm_states :: "'s alert_store \<Rightarrow> ('s alert_registry, alarm_state list) op" where
  "active_alarm_states A = op_bind (active_records A) (\<lambda>rs. op_return (map to_alarm_state rs))"

definition alert_history :: "'s alert_store \<Rightarrow> int \<Rightarrow> ('s alert_registry, alert_record list) op" where
  "alert_history A limit =
     (if \<not> (1 \<le> limit \<and> limit \<le> 1000)
      then op_raise (ValueError ''Alert history limit must be an integer in range 1..1000'')
      else op_bind (on_alerts (as_list_history A limit)) (\<lambda>rs g.
        (g, Inr (map (with_latest_occurrences (rg_latest g)) rs))))"


subsection \<open>Journals\<close>

text \<open>The active record of a key, the closed records, and a journal with one active record per key.\<close>

definition live :: "alert_record list \<Rightarrow> string \<Rightarrow> alert_record option" where
  "live rs = map_of (map (\<lambda>r. (rc_key r, r)) (filter record_active rs))"

definition closed_records :: "alert_record list \<Rightarrow> alert_record set" where
  "closed_records rs = {r \<in> set rs. \<not> record_active r}"

definition journal_ok :: "alert_record list \<Rightarrow> bool" where
  "journal_ok rs = (distinct (map rc_alert_id rs) \<and> inj_on rc_key {r \<in> set rs. record_active r}
     \<and> (\<forall>r \<in> set rs. 1 \<le> rc_occurrences r))"

definition replaced :: "alert_record \<Rightarrow> alert_record list \<Rightarrow> alert_record list" where
  "replaced u rs = map (\<lambda>r. if rc_alert_id r = rc_alert_id u then u else r) rs"

definition cleared_record :: "alert_record \<Rightarrow> string \<Rightarrow> int \<Rightarrow> alert_record" where
  "cleared_record r time n = r\<lparr>rc_cleared_at := Some time, rc_occurrences := max (rc_occurrences r) n\<rparr>"

lemma record_active_fields [simp]:
  "record_active (signal_record i sg now)" "record_active (updated_record r sg) = record_active r"
  "\<not> record_active (cleared_record r now n)" "rc_key (signal_record i sg now) = sg_key sg"
  "rc_key (updated_record r sg) = rc_key r" "rc_key (cleared_record r now n) = rc_key r"
  "rc_alert_id (signal_record i sg now) = i" "rc_alert_id (updated_record r sg) = rc_alert_id r"
  "rc_alert_id (cleared_record r now n) = rc_alert_id r"
  by (simp_all add: signal_record_def updated_record_def cleared_record_def record_active_def)

lemma live_Some:
  assumes "journal_ok rs"
  shows "live rs k = Some r \<longleftrightarrow> r \<in> set rs \<and> record_active r \<and> rc_key r = k"
proof -
  have d: "distinct (map fst (map (\<lambda>r. (rc_key r, r)) (filter record_active rs)))"
    using assms by (simp add: journal_ok_def comp_def distinct_map)
  show ?thesis unfolding live_def by (auto simp: map_of_eq_Some_iff[OF d])
qed

lemma replaced_eq:
  assumes "journal_ok rs" "x \<in> set rs" "rc_alert_id u = rc_alert_id x"
  shows "replaced u rs = map (\<lambda>r. if r = x then u else r) rs"
proof -
  have "inj_on rc_alert_id (set rs)" using assms(1) by (simp add: journal_ok_def distinct_map)
  then have "r \<in> set rs \<Longrightarrow> rc_alert_id r = rc_alert_id x \<longleftrightarrow> r = x" for r
    using assms(2) by (auto dest: inj_onD)
  with assms(3) show ?thesis by (simp add: replaced_def)
qed

lemma set_replaced:
  assumes "journal_ok rs" "x \<in> set rs" "rc_alert_id u = rc_alert_id x"
  shows "set (replaced u rs) = insert u (set rs - {x})"
  unfolding replaced_eq[OF assms] using assms(2) by auto

lemma journal_replaced:
  assumes "journal_ok rs" "x \<in> set rs" "rc_alert_id u = rc_alert_id x" "record_active x" "rc_key u = rc_key x"
    "1 \<le> rc_occurrences u"
  shows "journal_ok (replaced u rs)"
proof -
  have "map rc_alert_id (replaced u rs) = map rc_alert_id rs" by (simp add: replaced_def)
  moreover have "inj_on rc_key {r \<in> set (replaced u rs). record_active r}"
    using assms by (auto simp: set_replaced[OF assms(1-3)] journal_ok_def inj_on_def)
  moreover have "\<forall>r \<in> set (replaced u rs). 1 \<le> rc_occurrences r"
    using assms by (auto simp: set_replaced[OF assms(1-3)] journal_ok_def)
  ultimately show ?thesis using assms(1) by (simp add: journal_ok_def)
qed

lemma live_None: "live rs k = None \<longleftrightarrow> (\<forall>r \<in> set rs. record_active r \<longrightarrow> rc_key r \<noteq> k)"
  by (force simp: live_def map_of_eq_None_iff)

lemma journal_append:
  "journal_ok rs \<Longrightarrow> rc_alert_id u \<notin> rc_alert_id ` set rs \<Longrightarrow> record_active u \<longrightarrow> live rs (rc_key u) = None \<Longrightarrow>
     1 \<le> rc_occurrences u \<Longrightarrow> journal_ok (rs @ [u])"
  by (auto simp: journal_ok_def live_None inj_on_def)

lemma live_append:
  assumes "journal_ok rs" "journal_ok (rs @ [u])" "record_active u"
  shows "live (rs @ [u]) = (live rs)(rc_key u \<mapsto> u)"
proof (rule ext)
  fix k
  show "live (rs @ [u]) k = ((live rs)(rc_key u \<mapsto> u)) k"
  proof (cases "k = rc_key u")
    case True
    with assms show ?thesis by (simp add: live_Some)
  next
    case False
    with assms(3) show ?thesis by (simp add: live_def map_add_def split: option.split)
  qed
qed

lemma live_replaced:
  assumes "journal_ok rs" "x \<in> set rs" "rc_alert_id u = rc_alert_id x" "record_active x" "rc_key u = rc_key x"
    "1 \<le> rc_occurrences u"
  shows "live (replaced u rs) = (live rs)(rc_key x := (if record_active u then Some u else None))"
    and "closed_records (replaced u rs) = (if record_active u then closed_records rs else insert u (closed_records rs))"
proof -
  note set = set_replaced[OF assms(1-3)] and ok = journal_replaced[OF assms]
  have x: "y \<in> set rs \<Longrightarrow> record_active y \<Longrightarrow> rc_key y = rc_key x \<Longrightarrow> y = x" for y
    using live_Some[OF assms(1), of "rc_key x" y] live_Some[OF assms(1), of "rc_key x" x] assms(2,4) by auto
  have "live (replaced u rs) k = Some r \<longleftrightarrow>
      ((live rs)(rc_key x := (if record_active u then Some u else None))) k = Some r" for k r
    using x assms(4,5) by (auto simp: live_Some[OF ok] live_Some[OF assms(1)] set)
  then have "live (replaced u rs) k = ((live rs)(rc_key x := (if record_active u then Some u else None))) k" for k
    by (metis not_None_eq)
  then show "live (replaced u rs) = (live rs)(rc_key x := (if record_active u then Some u else None))" by blast
  show "closed_records (replaced u rs) = (if record_active u then closed_records rs else insert u (closed_records rs))"
    using assms(4) by (auto simp: closed_records_def set)
qed

subsection \<open>The contract of a store\<close>

text \<open>
  What the registry relies on: whatever a call does, one record per key stays active and nothing else
  breaks; a call that returns has had exactly its effect on the journal. A failed call may have had its
  effect, or undone earlier uncommitted ones.
\<close>

locale alert_journal =
  fixes ok :: "'s \<Rightarrow> bool" and records :: "'s \<Rightarrow> alert_record list" and A :: "'s alert_store"
  assumes journal: "ok s \<Longrightarrow> journal_ok (records s)"
    and list_active: "ok s \<Longrightarrow> as_list_active A s = (s', r) \<Longrightarrow> ok s' \<and>
      (\<forall>rs. r = Inr rs \<longrightarrow> records s' = records s \<and> rs = filter record_active (records s))"
    and list_history: "ok s \<Longrightarrow> as_list_history A limit s = (s', h) \<Longrightarrow> ok s' \<and>
      (\<forall>rs. h = Inr rs \<longrightarrow> records s' = records s)"
    and create: "ok s \<Longrightarrow> 1 \<le> sg_occurrences sg \<Longrightarrow> live (records s) (sg_key sg) = None \<Longrightarrow>
      as_create A sg now s = (s', c) \<Longrightarrow> ok s' \<and>
      (\<forall>u. c = Inr u \<longrightarrow> (\<exists>i. i \<notin> rc_alert_id ` set (records s) \<and> u = signal_record i sg now)
        \<and> records s' = records s @ [u])"
    and update: "ok s \<Longrightarrow> x \<in> set (records s) \<Longrightarrow> record_active x \<Longrightarrow> as_update_active A x sg s = (s', c) \<Longrightarrow> ok s' \<and>
      (\<forall>u. c = Inr u \<longrightarrow> u = updated_record x sg \<and> records s' = replaced u (records s))"
    and acknowledge: "ok s \<Longrightarrow> as_acknowledge A i now s = (s', c) \<Longrightarrow> ok s' \<and>
      (\<forall>u. c = Inr u \<longrightarrow> (\<exists>x \<in> set (records s). rc_alert_id x = i \<and> record_active x \<and> record_acknowledged u
        \<and> u = x\<lparr>rc_acknowledged_at := rc_acknowledged_at u\<rparr>
        \<and> (record_acknowledged x \<and> rc_acknowledged_at x \<noteq> Some [] \<longrightarrow> u = x)) \<and> records s' = replaced u (records s))"
    and clear: "ok s \<Longrightarrow> x \<in> set (records s) \<Longrightarrow> record_active x \<Longrightarrow> 1 \<le> n \<Longrightarrow>
      as_clear A (rc_alert_id x) now (Some n) s = (s', c) \<Longrightarrow> ok s' \<and>
      (\<forall>u. c = Inr u \<longrightarrow> u = cleared_record x now n \<and> records s' = replaced u (records s))"
begin

abbreviation "live_of g \<equiv> live (records (rg_store g))"
abbreviation "closed_of g \<equiv> closed_records (records (rg_store g))"

lemma live_member: "ok s \<Longrightarrow> live (records s) k = Some x \<Longrightarrow> x \<in> set (records s) \<and> record_active x \<and> rc_key x = k"
  using journal live_Some by blast

lemma live_occurrences: "ok s \<Longrightarrow> live (records s) k = Some x \<Longrightarrow> 1 \<le> rc_occurrences x"
  using live_member journal by (auto simp: journal_ok_def)

lemma create_live:
  assumes "ok s" "1 \<le> sg_occurrences sg" "live (records s) (sg_key sg) = None" "as_create A sg now s = (s', Inr u)"
  shows "ok s'" "\<exists>i. u = signal_record i sg now" "live (records s') = (live (records s))(sg_key sg \<mapsto> u)"
    "closed_records (records s') = closed_records (records s)"
proof -
  from create[OF assms(1-3) assms(4)] obtain i where i: "i \<notin> rc_alert_id ` set (records s)" "u = signal_record i sg now"
    and s': "ok s'" "records s' = records s @ [u]" by auto
  show "ok s'" "\<exists>i. u = signal_record i sg now" using i s' by auto
  from journal[OF s'(1)] s'(2) have "journal_ok (records s @ [u])" by simp
  then show "live (records s') = (live (records s))(sg_key sg \<mapsto> u)"
    using live_append[OF journal[OF assms(1)]] s'(2) i(2) by simp
  show "closed_records (records s') = closed_records (records s)"
    using s'(2) i(2) by (auto simp: closed_records_def)
qed

lemma update_live:
  assumes "ok s" "live (records s) k = Some x" "as_update_active A x sg s = (s', Inr u)"
  shows "ok s'" "u = updated_record x sg" "live (records s') = (live (records s))(k \<mapsto> u)"
    "closed_records (records s') = closed_records (records s)"
proof -
  note x = live_member[OF assms(1,2)]
  from update[OF assms(1) _ _ assms(3)] x have s': "ok s'" "u = updated_record x sg" "records s' = replaced u (records s)"
    by auto
  show "ok s'" "u = updated_record x sg" by (rule s')+
  have "1 \<le> rc_occurrences u" using live_occurrences[OF assms(1,2)] s'(2) by (simp add: updated_record_def)
  with live_replaced[OF journal[OF assms(1)], of x u] x s'
  show "live (records s') = (live (records s))(k \<mapsto> u)"
    "closed_records (records s') = closed_records (records s)" by simp_all
qed

lemma clear_live:
  assumes "ok s" "live (records s) k = Some x" "1 \<le> n" "as_clear A (rc_alert_id x) now (Some n) s = (s', Inr u)"
  shows "ok s'" "u = cleared_record x now n" "live (records s') = (live (records s))(k := None)"
    "closed_records (records s') = insert u (closed_records (records s))"
proof -
  note x = live_member[OF assms(1,2)]
  from clear[OF assms(1) _ _ assms(3,4)] x have s': "ok s'" "u = cleared_record x now n" "records s' = replaced u (records s)"
    by auto
  show "ok s'" "u = cleared_record x now n" by (rule s')+
  have "1 \<le> rc_occurrences u" using live_occurrences[OF assms(1,2)] s'(2) by (simp add: cleared_record_def)
  with live_replaced[OF journal[OF assms(1)], of x u] x s'
  show "live (records s') = (live (records s))(k := None)"
    "closed_records (records s') = insert u (closed_records (records s))" by simp_all
qed

end


subsection \<open>Reconciliation\<close>

lemma on_alerts_run: "on_alerts m g = (g', r) \<longleftrightarrow> (\<exists>s. m (rg_store g) = (s, r) \<and> g' = g\<lparr>rg_store := s\<rparr>)"
  by (auto simp: on_alerts_def split: prod.splits)

text \<open>The count that is known for a signal, and what the signal does to the active record of its key.\<close>

definition counted :: "(string \<times> int) list \<Rightarrow> alert_signal \<Rightarrow> alert_signal" where
  "counted latest sg = sg\<lparr>sg_occurrences := max (dict_get latest (sg_key sg) 0) (sg_occurrences sg)\<rparr>"

definition signal_effect :: "string \<Rightarrow> int \<Rightarrow> alert_record option \<Rightarrow> alert_signal \<Rightarrow> alert_record \<Rightarrow> bool" where
  "signal_effect now step old sg r = (case old of None \<Rightarrow> (\<exists>i. r = signal_record i sg now)
     | Some x \<Rightarrow> r = (if persist_due step x sg then updated_record x sg else x))"

lemma counted_key [simp]: "sg_key (counted latest sg) = sg_key sg"
  by (simp add: counted_def)

lemma note_latest_run [simp]:
  "note_latest sg g = (g\<lparr>rg_latest := AList.update (sg_key sg) (sg_occurrences (counted (rg_latest g) sg)) (rg_latest g)\<rparr>,
     Inr (counted (rg_latest g) sg))"
  by (simp add: note_latest_def counted_def Let_def)

text \<open>The dictionary that the registry makes of a listing.\<close>

lemma listed_dict:
  assumes "journal_ok rs"
  shows "map_of (dict_of rc_key (\<lambda>r. r) (filter record_active rs)) = live rs"
proof
  fix k
  show "map_of (dict_of rc_key (\<lambda>r. r) (filter record_active rs)) k = live rs k"
  proof (cases "map_of (dict_of rc_key (\<lambda>r. r) (filter record_active rs)) k")
    case None
    then show ?thesis using live_None[of rs k] by auto
  next
    case (Some x)
    with map_of_dict_of_Some[of rc_key "\<lambda>r. r" "filter record_active rs" k x] live_Some[OF assms, of k x]
    show ?thesis by auto
  qed
qed

text \<open>The signal that counts for a key: the last one.\<close>

definition signal_for :: "alert_signal list \<Rightarrow> string \<Rightarrow> alert_signal option" where
  "signal_for signals k = find (\<lambda>sg. sg_key sg = k) (rev signals)"

lemma signals_by_key_map: "map_of (signals_by_key signals) k = signal_for signals k"
  by (induction signals rule: rev_induct) (auto simp: signals_by_key_def signal_for_def update_conv')

lemma signals_by_key_keys:
  "map fst (signals_by_key signals) = map sg_key (map snd (signals_by_key signals))"
  "distinct (map fst (signals_by_key signals))" "set (map fst (signals_by_key signals)) = sg_key ` set signals"
  "set (map snd (signals_by_key signals)) \<subseteq> set signals"
  "\<And>k sg. (k, sg) \<in> set (signals_by_key signals) \<Longrightarrow> sg_key sg = k"
proof -
  show d: "distinct (map fst (signals_by_key signals))" by (simp add: signals_by_key_def distinct_dict_of)
  have m: "sg \<in> set signals \<and> sg_key sg = k" if "(k, sg) \<in> set (signals_by_key signals)" for k sg
    using that map_of_dict_of_Some[of sg_key "\<lambda>sg. sg" signals k sg] map_of_eq_Some_iff[OF d, of k sg]
    by (auto simp: signals_by_key_def)
  then show "set (map snd (signals_by_key signals)) \<subseteq> set signals" by auto
  show key: "sg_key sg = k" if "(k, sg) \<in> set (signals_by_key signals)" for k sg
    using m[OF that] by simp
  show "map fst (signals_by_key signals) = map sg_key (map snd (signals_by_key signals))" by (auto dest: key)
  show "set (map fst (signals_by_key signals)) = sg_key ` set signals"
    by (simp add: signals_by_key_def keys_dict_of)
qed

lemma signals_by_key_member:
  "sg \<in> set (map snd (signals_by_key signals)) \<longleftrightarrow> signal_for signals (sg_key sg) = Some sg"
proof
  assume "sg \<in> set (map snd (signals_by_key signals))"
  then obtain k where k: "(k, sg) \<in> set (signals_by_key signals)" by auto
  then have "k = sg_key sg" using signals_by_key_keys(5) by blast
  with k show "signal_for signals (sg_key sg) = Some sg"
    using map_of_is_SomeI[OF signals_by_key_keys(2) k] by (simp add: signals_by_key_map)
next
  assume "signal_for signals (sg_key sg) = Some sg"
  then have "map_of (signals_by_key signals) (sg_key sg) = Some sg" by (simp add: signals_by_key_map)
  then have "(sg_key sg, sg) \<in> set (signals_by_key signals)" by (rule map_of_SomeD)
  then show "sg \<in> set (map snd (signals_by_key signals))" by force
qed

lemma signal_for_key: "signal_for signals k = Some sg \<Longrightarrow> sg \<in> set signals \<and> sg_key sg = k"
  using signals_by_key_keys(4,5)[where signals = signals] map_of_SomeD[of "signals_by_key signals" k sg]
  by (force simp: signals_by_key_map)

lemma signal_for_None: "signal_for signals k = None \<longleftrightarrow> k \<notin> sg_key ` set signals"
  by (auto simp: signal_for_def find_None_iff)

context alert_journal
begin

lemma reconcile_signal_effect:
  assumes run: "reconcile_signal A now sg active g = (g', r)" and ok: "ok (rg_store g)"
    and occ: "1 \<le> sg_occurrences sg" and active: "map_of active = live_of g"
  shows "ok (rg_store g') \<and> rg_step g' = rg_step g
    \<and> rg_latest g' = AList.update (sg_key sg) (sg_occurrences (counted (rg_latest g) sg)) (rg_latest g)
    \<and> (\<forall>a. r = Inr a \<longrightarrow> map_of a = live_of g' \<and> (distinct (map fst active) \<longrightarrow> distinct (map fst a))
         \<and> closed_of g' = closed_of g
         \<and> (\<exists>x. live_of g' = (live_of g)(sg_key sg \<mapsto> x)
              \<and> signal_effect now (rg_step g) (live_of g (sg_key sg)) (counted (rg_latest g) sg) x))"
proof (cases "live_of g (sg_key sg)")
  case None
  have "1 \<le> sg_occurrences (counted (rg_latest g) sg)" using occ by (simp add: counted_def)
  note new = create[OF ok this] create_live[OF ok this]
  from run None obtain s c where c: "as_create A (counted (rg_latest g) sg) now (rg_store g) = (s, c)"
    and g': "rg_store g' = s" "rg_step g' = rg_step g"
      "rg_latest g' = AList.update (sg_key sg) (sg_occurrences (counted (rg_latest g) sg)) (rg_latest g)"
    and r: "r = (case c of Inl e \<Rightarrow> Inl e | Inr u \<Rightarrow> Inr (AList.update (sg_key sg) u active))"
    by (auto simp: reconcile_signal_def active op_bind_def on_alerts_run split: prod.splits sum.splits)
  show ?thesis
  proof (cases c)
    case (Inl e)
    with new(1)[OF _ c] None g' r show ?thesis by simp
  next
    case (Inr u)
    with new(2-5)[of now s u] c None g' r active show ?thesis
      by (auto simp: signal_effect_def update_conv' distinct_update)
  qed
next
  case (Some x)
  show ?thesis
  proof (cases "persist_due (rg_step g) x (counted (rg_latest g) sg)")
    case True
    with run Some obtain s c where c: "as_update_active A x (counted (rg_latest g) sg) (rg_store g) = (s, c)"
      and g': "rg_store g' = s" "rg_step g' = rg_step g"
        "rg_latest g' = AList.update (sg_key sg) (sg_occurrences (counted (rg_latest g) sg)) (rg_latest g)"
      and r: "r = (case c of Inl e \<Rightarrow> Inl e | Inr u \<Rightarrow> Inr (AList.update (sg_key sg) u active))"
      by (auto simp: reconcile_signal_def active op_bind_def on_alerts_run split: prod.splits sum.splits)
    show ?thesis
    proof (cases c)
      case (Inl e)
      with update[OF ok _ _ c] live_member[OF ok Some] g' r show ?thesis by simp
    next
      case (Inr u)
      with update_live[OF ok Some, of "counted (rg_latest g) sg" s u] c Some g' r active True show ?thesis
        by (auto simp: signal_effect_def update_conv' distinct_update)
    qed
  next
    case False
    with run Some active ok show ?thesis
      by (auto simp: reconcile_signal_def op_bind_def signal_effect_def)
  qed
qed

lemma reconcile_signals_effect:
  assumes "reconcile_signals A now sgs active g = (g', r)" and "ok (rg_store g)"
    and "\<forall>sg \<in> set sgs. 1 \<le> sg_occurrences sg" and "map_of active = live_of g"
  shows "ok (rg_store g') \<and> rg_step g' = rg_step g
    \<and> (\<forall>a. r = Inr a \<longrightarrow> map_of a = live_of g' \<and> (distinct (map fst active) \<longrightarrow> distinct (map fst a))
         \<and> closed_of g' = closed_of g
         \<and> (\<forall>k. k \<notin> sg_key ` set sgs \<longrightarrow> live_of g' k = live_of g k \<and> map_of (rg_latest g') k = map_of (rg_latest g) k)
         \<and> (distinct (map sg_key sgs) \<longrightarrow> (\<forall>sg \<in> set sgs.
              map_of (rg_latest g') (sg_key sg) = Some (sg_occurrences (counted (rg_latest g) sg))
              \<and> (\<exists>x. live_of g' (sg_key sg) = Some x
                   \<and> signal_effect now (rg_step g) (live_of g (sg_key sg)) (counted (rg_latest g) sg) x))))"
  using assms
proof (induction sgs arbitrary: active g)
  case (Cons sg sgs)
  obtain g1 r1 where one: "reconcile_signal A now sg active g = (g1, r1)" by force
  from Cons.prems(3) have occ: "1 \<le> sg_occurrences sg" "\<forall>sg \<in> set sgs. 1 \<le> sg_occurrences sg" by simp_all
  note first = reconcile_signal_effect[OF one Cons.prems(2) occ(1) Cons.prems(4)]
  show ?case
  proof (cases r1)
    case (Inl e)
    with one Cons.prems(1) have "g' = g1" "r = Inl e" by (simp_all add: op_bind_def)
    with first show ?thesis by simp
  next
    case (Inr a1)
    with one Cons.prems(1) have rest: "reconcile_signals A now sgs a1 g1 = (g', r)" by (simp add: op_bind_def)
    from first Inr obtain x where f: "ok (rg_store g1)" "rg_step g1 = rg_step g" "map_of a1 = live_of g1"
      "distinct (map fst active) \<longrightarrow> distinct (map fst a1)" "closed_of g1 = closed_of g"
      "rg_latest g1 = AList.update (sg_key sg) (sg_occurrences (counted (rg_latest g) sg)) (rg_latest g)"
      "live_of g1 = (live_of g)(sg_key sg \<mapsto> x)"
      "signal_effect now (rg_step g) (live_of g (sg_key sg)) (counted (rg_latest g) sg) x" by blast
    have other: "counted (rg_latest g1) q = counted (rg_latest g) q" if "sg_key q \<noteq> sg_key sg" for q
      using that by (simp add: counted_def f(6))
    note ih = Cons.IH[OF rest f(1) occ(2) f(3)]
    show ?thesis
    proof (intro conjI allI impI ballI)
      fix a q assume a: "r = Inr a" and d: "distinct (map sg_key (sg # sgs))" and q: "q \<in> set (sg # sgs)"
      have "q = sg \<or> q \<in> set sgs \<and> sg_key q \<noteq> sg_key sg" using d q by (auto simp: image_iff)
      then show "map_of (rg_latest g') (sg_key q) = Some (sg_occurrences (counted (rg_latest g) q))"
        and "\<exists>x. live_of g' (sg_key q) = Some x
          \<and> signal_effect now (rg_step g) (live_of g (sg_key q)) (counted (rg_latest g) q) x"
        using ih f a d other[of q] by (auto simp: update_conv')
    qed (use ih f in \<open>auto simp: update_conv'\<close>)
  qed
qed auto

text \<open>The count with which a record is cleared.\<close>

abbreviation "final_count g k x \<equiv> max (rc_occurrences x) (dict_get (rg_latest g) k (rc_occurrences x))"

lemma clear_record_effect:
  assumes run: "clear_record A now k x g = (g', r)" and ok: "ok (rg_store g)" and x: "live_of g k = Some x"
  shows "ok (rg_store g') \<and> rg_step g' = rg_step g \<and> rg_latest g' = AList.delete k (rg_latest g)
    \<and> (\<forall>u. r = Inr u \<longrightarrow> u = cleared_record x now (final_count g k x) \<and> live_of g' = (live_of g)(k := None)
         \<and> closed_of g' = insert u (closed_of g))"
proof -
  have n: "1 \<le> final_count g k x" using live_occurrences[OF ok x] by simp
  from run obtain s where c: "as_clear A (rc_alert_id x) now (Some (final_count g k x)) (rg_store g) = (s, r)"
    and g': "rg_store g' = s" "rg_step g' = rg_step g" "rg_latest g' = AList.delete k (rg_latest g)"
    by (auto simp: clear_record_def on_alerts_run)
  show ?thesis
  proof (cases r)
    case (Inl e)
    with clear[OF ok _ _ n c] live_member[OF ok x] g' show ?thesis by simp
  next
    case (Inr u)
    with clear_live[OF ok x n, of now s u] c g' show ?thesis by simp
  qed
qed

lemma reconcile_clears_effect:
  assumes "reconcile_clears A now keys items g = (g', r)" and "ok (rg_store g)"
    and "distinct (map fst items)" and "\<forall>(k, x) \<in> set items. live_of g k = Some x"
  shows "ok (rg_store g') \<and> rg_step g' = rg_step g \<and> (r = Inr () \<longrightarrow>
    (\<forall>k. live_of g' k = (if k \<in> fst ` set items \<and> k \<notin> set keys then None else live_of g k))
    \<and> closed_of g' = closed_of g \<union>
        {cleared_record x now (final_count g k x) |k x. (k, x) \<in> set items \<and> k \<notin> set keys}
    \<and> (\<forall>k. map_of (rg_latest g') k =
        (if k \<in> fst ` set items \<and> k \<notin> set keys then None else map_of (rg_latest g) k)))"
  using assms
proof (induction items arbitrary: g)
  case Nil
  then show ?case by simp
next
  case (Cons item items)
  obtain k x where kx: "item = (k, x)" by force
  show ?case
  proof (cases "k \<in> set keys")
    case True
    with Cons.prems(1) kx have rest: "reconcile_clears A now keys items g = (g', r)" by simp
    from Cons.prems(4) have m: "\<forall>(k, x) \<in> set items. live_of g k = Some x" by simp
    have sets: "fst ` set (item # items) - set keys = fst ` set items - set keys"
      "{cleared_record x now (final_count g k x) |k x. (k, x) \<in> set (item # items) \<and> k \<notin> set keys}
       = {cleared_record x now (final_count g k x) |k x. (k, x) \<in> set items \<and> k \<notin> set keys}"
      using True kx by auto
    have mem: "k' \<in> fst ` set (item # items) \<and> k' \<notin> set keys \<longleftrightarrow> k' \<in> fst ` set items \<and> k' \<notin> set keys" for k'
      using sets(1) by blast
    from Cons.prems(3) have d: "distinct (map fst items)" by simp
    show ?thesis using Cons.IH[OF rest Cons.prems(2) d m] unfolding sets(2) mem .
  next
    case False
    obtain g1 c where one: "clear_record A now k x g = (g1, c)" by force
    from Cons.prems(4) kx have x: "live_of g k = Some x" by simp
    note first = clear_record_effect[OF one Cons.prems(2) x]
    show ?thesis
    proof (cases c)
      case (Inl e)
      with one Cons.prems(1) kx False have "g' = g1" "r = Inl e" by (simp_all add: op_bind_def)
      with first show ?thesis by simp
    next
      case (Inr u)
      with one Cons.prems(1) kx False have rest: "reconcile_clears A now keys items g1 = (g', r)"
        by (simp add: op_bind_def)
      from first Inr have f: "ok (rg_store g1)" "rg_step g1 = rg_step g" "rg_latest g1 = AList.delete k (rg_latest g)"
        "u = cleared_record x now (final_count g k x)" "live_of g1 = (live_of g)(k := None)"
        "closed_of g1 = insert u (closed_of g)" by blast+
      from Cons.prems(3) kx have d: "distinct (map fst items)" and k: "k \<notin> fst ` set items" by simp_all
      have m: "\<forall>(k, x) \<in> set items. live_of g1 k = Some x"
        using Cons.prems(4) k by (auto simp: f(5) image_iff split: prod.splits)
      have same: "final_count g1 k' y = final_count g k' y" if "k' \<noteq> k" for k' y using that by (simp add: f(3))
      have cl: "{cleared_record y now (final_count g k' y) |k' y. (k', y) \<in> set (item # items) \<and> k' \<notin> set keys}
          = insert u {cleared_record y now (final_count g1 k' y) |k' y. (k', y) \<in> set items \<and> k' \<notin> set keys}"
        using k False by (auto simp: kx f(4) image_iff) (metis same fst_conv)+
      from Cons.IH[OF rest f(1) d m] show ?thesis
        unfolding cl using k False by (auto simp: f kx delete_conv')
    qed
  qed
qed

text \<open>
  A reconciliation that returns: the active records are exactly those of the signalled keys, each
  created or updated by its signal, and every other active record is cleared.
\<close>

lemma reconcile_update_effect:
  assumes run: "op_bind (on_alerts (as_list_active A)) (\<lambda>rs. reconcile_signals A now sgs (dict_of rc_key (\<lambda>r. r) rs)) g = (g1, r)"
    and ok: "ok (rg_store g)" and occ: "\<forall>sg \<in> set sgs. 1 \<le> sg_occurrences sg" and d: "distinct (map sg_key sgs)"
  shows "ok (rg_store g1) \<and> rg_step g1 = rg_step g
    \<and> (\<forall>a. r = Inr a \<longrightarrow> map_of a = live_of g1 \<and> distinct (map fst a) \<and> closed_of g1 = closed_of g
         \<and> (\<forall>k. k \<notin> sg_key ` set sgs \<longrightarrow> live_of g1 k = live_of g k \<and> map_of (rg_latest g1) k = map_of (rg_latest g) k)
         \<and> (\<forall>sg \<in> set sgs. map_of (rg_latest g1) (sg_key sg) = Some (sg_occurrences (counted (rg_latest g) sg))
              \<and> (\<exists>x. live_of g1 (sg_key sg) = Some x
                   \<and> signal_effect now (rg_step g) (live_of g (sg_key sg)) (counted (rg_latest g) sg) x)))"
proof -
  obtain s0 r0 where list: "as_list_active A (rg_store g) = (s0, r0)" by force
  define g0 where "g0 = g\<lparr>rg_store := s0\<rparr>"
  note l = list_active[OF ok list]
  show ?thesis
  proof (cases r0)
    case (Inl e)
    with run list l show ?thesis by (auto simp: op_bind_def on_alerts_def)
  next
    case (Inr rs)
    with l have g0: "ok (rg_store g0)" "live_of g0 = live_of g" "closed_of g0 = closed_of g"
      "rs = filter record_active (records (rg_store g))" "rg_latest g0 = rg_latest g" "rg_step g0 = rg_step g"
      by (simp_all add: g0_def)
    from run list Inr have "reconcile_signals A now sgs (dict_of rc_key (\<lambda>r. r) rs) g0 = (g1, r)"
      by (auto simp: op_bind_def on_alerts_def g0_def)
    from reconcile_signals_effect[OF this g0(1) occ] listed_dict[OF journal[OF ok]] d
    show ?thesis by (simp add: g0 distinct_dict_of)
  qed
qed

lemma reconcile_split:
  "reconcile A now signals = op_bind (op_bind (on_alerts (as_list_active A))
       (\<lambda>rs. reconcile_signals A now (map snd (signals_by_key signals)) (dict_of rc_key (\<lambda>r. r) rs)))
     (\<lambda>a. op_bind (reconcile_clears A now (map fst (signals_by_key signals)) a) (\<lambda>_. active_records A))"
  by (rule ext) (auto simp: reconcile_def op_bind_def split: prod.splits sum.splits)

lemma active_records_effect:
  assumes "active_records A g = (g', r)" "ok (rg_store g)"
  shows "ok (rg_store g') \<and> rg_step g' = rg_step g \<and> rg_latest g' = rg_latest g \<and> (\<forall>rs. r = Inr rs \<longrightarrow>
    records (rg_store g') = records (rg_store g)
    \<and> rs = map (with_latest_occurrences (rg_latest g)) (filter record_active (records (rg_store g))))"
  using assms list_active[OF assms(2)]
  by (auto simp: active_records_def op_bind_def on_alerts_run split: prod.splits sum.splits)

lemma reconcile_effect:
  assumes run: "reconcile A now signals g = (g', r)" and ok: "ok (rg_store g)"
    and occ: "\<forall>sg \<in> set signals. 1 \<le> sg_occurrences sg"
  shows "ok (rg_store g') \<and> rg_step g' = rg_step g \<and> (\<forall>reported. r = Inr reported \<longrightarrow>
    reported = map (with_latest_occurrences (rg_latest g')) (filter record_active (records (rg_store g')))
    \<and> (\<forall>k. case signal_for signals k of None \<Rightarrow> live_of g' k = None
        | Some sg \<Rightarrow> map_of (rg_latest g') k = Some (sg_occurrences (counted (rg_latest g) sg))
            \<and> (\<exists>x. live_of g' k = Some x
                 \<and> signal_effect now (rg_step g) (live_of g k) (counted (rg_latest g) sg) x))
    \<and> closed_of g' = closed_of g \<union>
        {cleared_record x now (final_count g k x) |k x. live_of g k = Some x \<and> signal_for signals k = None})"
proof -
  define sgs where "sgs = map snd (signals_by_key signals)"
  define keys where "keys = map fst (signals_by_key signals)"
  have keys: "keys = map sg_key sgs" "distinct keys" "set keys = sg_key ` set signals" "set sgs \<subseteq> set signals"
    using signals_by_key_keys(1-4)[of signals] by (simp_all add: sgs_def keys_def)
  have sgs: "signal_for signals k = Some sg \<Longrightarrow> sg \<in> set sgs \<and> sg_key sg = k" for k sg
    using signal_for_key[of signals k sg] signals_by_key_member[of sg signals] by (simp add: sgs_def)
  have none: "signal_for signals k = None \<longleftrightarrow> k \<notin> set keys" for k by (simp add: signal_for_None keys(3))
  obtain g1 r1 where one: "op_bind (on_alerts (as_list_active A))
      (\<lambda>rs. reconcile_signals A now sgs (dict_of rc_key (\<lambda>r. r) rs)) g = (g1, r1)" by force
  have occ': "\<forall>sg \<in> set sgs. 1 \<le> sg_occurrences sg" and "distinct (map sg_key sgs)" using occ keys by auto
  note first = reconcile_update_effect[OF one ok this]
  show ?thesis
  proof (cases r1)
    case (Inl e)
    with run one have "g' = g1" "r = Inl e" by (simp_all add: reconcile_split sgs_def[symmetric] op_bind_def)
    with first show ?thesis by simp
  next
    case (Inr items)
    with first have f: "ok (rg_store g1)" "rg_step g1 = rg_step g" "map_of items = live_of g1"
      "distinct (map fst items)" "closed_of g1 = closed_of g"
      and other: "\<And>k. k \<notin> set keys \<Longrightarrow> live_of g1 k = live_of g k \<and> map_of (rg_latest g1) k = map_of (rg_latest g) k"
      and signalled: "\<And>sg. sg \<in> set sgs \<Longrightarrow> map_of (rg_latest g1) (sg_key sg) = Some (sg_occurrences (counted (rg_latest g) sg))
        \<and> (\<exists>x. live_of g1 (sg_key sg) = Some x
             \<and> signal_effect now (rg_step g) (live_of g (sg_key sg)) (counted (rg_latest g) sg) x)"
      by (simp_all add: keys(1))
    have items: "(k, x) \<in> set items \<longleftrightarrow> live_of g1 k = Some x" for k x
      using map_of_eq_Some_iff[OF f(4), of k x] by (simp add: f(3))
    then have m: "\<forall>(k, x) \<in> set items. live_of g1 k = Some x" by auto
    have dom: "k \<in> fst ` set items \<longleftrightarrow> live_of g1 k \<noteq> None" for k using items by force
    obtain g2 r2 where two: "reconcile_clears A now keys items g1 = (g2, r2)" by force
    note second = reconcile_clears_effect[OF two f(1,4) m]
    show ?thesis
    proof (cases r2)
      case (Inl e)
      with run one Inr two have "g' = g2" "r = Inl e"
        by (simp_all add: reconcile_split sgs_def[symmetric] keys_def[symmetric] op_bind_def)
      with second f show ?thesis by simp
    next
      case Unit: (Inr u)
      with run one Inr two have three: "active_records A g2 = (g', r)"
        by (simp add: reconcile_split sgs_def[symmetric] keys_def[symmetric] op_bind_def)
      from second Unit have sec: "ok (rg_store g2)" "rg_step g2 = rg_step g1"
        "\<And>k. live_of g2 k = (if k \<notin> set keys then None else live_of g1 k)"
        "\<And>k. k \<in> set keys \<Longrightarrow> map_of (rg_latest g2) k = map_of (rg_latest g1) k"
        "closed_of g2 = closed_of g1 \<union> {cleared_record x now (final_count g1 k x) |k x. (k, x) \<in> set items \<and> k \<notin> set keys}"
        by (auto simp: dom)
      have "{cleared_record x now (final_count g1 k x) |k x. (k, x) \<in> set items \<and> k \<notin> set keys}
          = {cleared_record x now (final_count g k x) |k x. live_of g k = Some x \<and> signal_for signals k = None}"
        unfolding items none using other by (intro Collect_cong) (metis dict_get_def)
      with sec(5) f(5) have closed: "closed_of g2 = closed_of g \<union>
          {cleared_record x now (final_count g k x) |k x. live_of g k = Some x \<and> signal_for signals k = None}" by simp
      have signalled2: "case signal_for signals k of None \<Rightarrow> live_of g2 k = None
        | Some sg \<Rightarrow> map_of (rg_latest g2) k = Some (sg_occurrences (counted (rg_latest g) sg))
            \<and> (\<exists>x. live_of g2 k = Some x
                 \<and> signal_effect now (rg_step g) (live_of g k) (counted (rg_latest g) sg) x)" for k
      proof (cases "signal_for signals k")
        case None
        then have "k \<notin> set keys" using none by blast
        with None sec(3)[of k] show ?thesis by simp
      next
        case (Some sg)
        with none have k: "k \<in> set keys" by (metis option.distinct(1))
        with Some sec(3,4)[of k] sgs[OF Some] signalled[of sg] show ?thesis by auto
      qed
      note last = active_records_effect[OF three sec(1)]
      show ?thesis
      proof (intro conjI allI impI)
        show "ok (rg_store g')" "rg_step g' = rg_step g" using last sec(2) f(2) by simp_all
        fix reported assume r: "r = Inr reported"
        with last have same: "records (rg_store g') = records (rg_store g2)" "rg_latest g' = rg_latest g2" by simp_all
        show "reported = map (with_latest_occurrences (rg_latest g')) (filter record_active (records (rg_store g')))"
          using last r by simp
        show "case signal_for signals k of None \<Rightarrow> live_of g' k = None
          | Some sg \<Rightarrow> map_of (rg_latest g') k = Some (sg_occurrences (counted (rg_latest g) sg))
              \<and> (\<exists>x. live_of g' k = Some x
                   \<and> signal_effect now (rg_step g) (live_of g k) (counted (rg_latest g) sg) x)" for k
          unfolding same by (rule signalled2)
        show "closed_of g' = closed_of g \<union>
            {cleared_record x now (final_count g k x) |k x. live_of g k = Some x \<and> signal_for signals k = None}"
          unfolding same by (rule closed)
      qed
    qed
  qed
qed

end

end
