(* ===== verification/AlertStores.thy ===== *)
theory AlertStores
  imports Alerts
begin

section \<open>The two alert stores keep the contract\<close>

text \<open>
  \<open>SqliteAlertStore\<close> and \<open>MemoryAlertStore\<close> satisfy \<open>alert_journal\<close>, for every behaviour of the
  database: no failed statement, failed commit or rollback leaves two active records of one key.
\<close>

subsection \<open>The database\<close>

definition table_records :: "alert_table \<Rightarrow> alert_record list" where
  "table_records t = map (projr \<circ> row_to_record) (at_rows t)"

definition table_ok :: "alert_table \<Rightarrow> bool" where
  "table_ok t = ((\<forall>row \<in> set (at_rows t). is_ok (row_to_record row) \<and> ar_alert_id row \<le> at_sequence t)
     \<and> sorted (map ar_alert_id (at_rows t)) \<and> journal_ok (table_records t))"

definition alert_db_ok :: "alert_db \<Rightarrow> bool" where
  "alert_db_ok db = (table_ok (ad_working db) \<and> table_ok (ad_durable db))"

definition db_records :: "alert_db \<Rightarrow> alert_record list" where
  "db_records db = table_records (ad_working db)"

lemma parse_alarm_code_value [simp]: "parse_alarm_code (alarm_code_value c) = Inr c"
  by (cases c) (simp_all add: parse_alarm_code_def alarm_codes_def)

lemma parse_severity_value [simp]: "parse_severity (severity_value s) = Inr s"
  by (cases s) (simp_all add: parse_severity_def)

lemma row_to_record_fields:
  "row_to_record row = Inr r \<Longrightarrow> rc_alert_id r = ar_alert_id row \<and> rc_key r = ar_alert_key row
     \<and> rc_cleared_at r = ar_cleared_at row \<and> rc_acknowledged_at r = ar_acknowledged_at row
     \<and> rc_occurrences r = ar_occurrences row \<and> rc_active_since r = ar_active_since row"
  by (auto simp: row_to_record_def rbind_eq_Inr)

lemma map_result_ok:
  "\<forall>row \<in> set rows. is_ok (row_to_record row) \<Longrightarrow> map_result row_to_record rows = Inr (map (projr \<circ> row_to_record) rows)"
  by (induction rows) (auto simp: is_ok_iff)

lemma row_record:
  assumes "table_ok t" "row \<in> set (at_rows t)"
  shows "row_to_record row = Inr (projr (row_to_record row))"
    "rc_alert_id (projr (row_to_record row)) = ar_alert_id row"
    "record_active (projr (row_to_record row)) \<longleftrightarrow> ar_cleared_at row = None"
    "rc_key (projr (row_to_record row)) = ar_alert_key row"
    "rc_occurrences (projr (row_to_record row)) = ar_occurrences row"
    "rc_acknowledged_at (projr (row_to_record row)) = ar_acknowledged_at row"
    "projr (row_to_record row) \<in> set (table_records t)"
proof -
  from assms obtain r where r: "row_to_record row = Inr r" by (auto simp: table_ok_def is_ok_iff)
  with row_to_record_fields[OF r] show "row_to_record row = Inr (projr (row_to_record row))"
    "rc_alert_id (projr (row_to_record row)) = ar_alert_id row"
    "record_active (projr (row_to_record row)) \<longleftrightarrow> ar_cleared_at row = None"
    "rc_key (projr (row_to_record row)) = ar_alert_key row"
    "rc_occurrences (projr (row_to_record row)) = ar_occurrences row"
    "rc_acknowledged_at (projr (row_to_record row)) = ar_acknowledged_at row"
    by (simp_all add: record_active_def)
  show "projr (row_to_record row) \<in> set (table_records t)" using assms(2) by (simp add: table_records_def)
qed

lemma record_row:
  assumes "table_ok t" "r \<in> set (table_records t)"
  obtains row where "row \<in> set (at_rows t)" "row_to_record row = Inr r"
  using assms row_record(1)[OF assms(1)] by (force simp: table_records_def)

lemma db_access_ok:
  assumes "db_access db = (db', r)" "alert_db_ok db"
  shows "alert_db_ok db'" "r = Inr () \<Longrightarrow> ad_working db' = ad_working db \<and> ad_durable db' = ad_durable db \<and> ad_open db' = ad_open db"
  using assms by (auto simp: db_access_def alert_db_ok_def Let_def split: if_splits option.splits db_fault.splits)

lemma db_commit_ok:
  assumes "db_commit db = (db', r)" "alert_db_ok db"
  shows "alert_db_ok db'" "r = Inr () \<Longrightarrow> ad_working db' = ad_working db \<and> ad_durable db' = ad_working db"
proof -
  obtain d1 r1 where a: "db_access db = (d1, r1)" by force
  show "alert_db_ok db'" "r = Inr () \<Longrightarrow> ad_working db' = ad_working db \<and> ad_durable db' = ad_working db"
    using assms(1) db_access_ok[OF a assms(2)] a
    by (auto simp: db_commit_def op_bind_def alert_db_ok_def split: sum.splits)
qed

lemma db_list_active_ok:
  assumes "db_list_active db = (db', r)" "alert_db_ok db"
  shows "alert_db_ok db' \<and> (\<forall>rs. r = Inr rs \<longrightarrow> db_records db' = db_records db \<and> ad_working db' = ad_working db
    \<and> ad_durable db' = ad_durable db \<and> rs = filter record_active (db_records db))"
proof -
  obtain d1 r1 where a: "db_access db = (d1, r1)" by force
  note acc = db_access_ok[OF a assms(2)]
  show ?thesis
  proof (cases r1)
    case (Inl e)
    with assms(1) a acc show ?thesis by (auto simp: db_list_active_def op_bind_def)
  next
    case (Inr u)
    with acc have same: "ad_working d1 = ad_working db" "ad_durable d1 = ad_durable db" by simp_all
    have ok: "table_ok (ad_working db)" using assms(2) by (simp add: alert_db_ok_def)
    let ?rows = "filter (\<lambda>row. ar_cleared_at row = None) (at_rows (ad_working db))"
    have "sort_key ar_alert_id ?rows = ?rows"
      using ok by (intro sort_key_id_if_sorted) (simp add: table_ok_def sorted_filter)
    moreover have "map_result row_to_record ?rows = Inr (map (projr \<circ> row_to_record) ?rows)"
      using ok by (intro map_result_ok) (auto simp: table_ok_def)
    moreover have "map (projr \<circ> row_to_record) ?rows = filter record_active (db_records db)"
      unfolding db_records_def table_records_def filter_map comp_def
      by (intro arg_cong[of _ _ "map _"] filter_cong refl) (simp add: row_record(3)[OF ok])
    ultimately show ?thesis using assms(1) a Inr acc(1) same
      by (auto simp: db_list_active_def op_bind_def db_records_def)
  qed
qed

lemma db_list_history_ok:
  assumes "db_list_history limit db = (db', r)" "alert_db_ok db"
  shows "alert_db_ok db' \<and> (\<forall>rs. r = Inr rs \<longrightarrow> db_records db' = db_records db)"
proof -
  obtain d1 r1 where a: "db_access db = (d1, r1)" by force
  show ?thesis using assms(1) db_access_ok[OF a assms(2)] a assms(2)
    by (auto simp: db_list_history_def op_bind_def db_records_def Let_def split: sum.splits)
qed

lemma find_row:
  assumes "table_ok t"
  shows "find (\<lambda>row. ar_alert_id row = i) (at_rows t) = Some row \<Longrightarrow> row \<in> set (at_rows t) \<and> ar_alert_id row = i"
    and "find (\<lambda>row. ar_alert_id row = i) (at_rows t) = None \<Longrightarrow> i \<notin> rc_alert_id ` set (table_records t)"
proof -
  show "find (\<lambda>row. ar_alert_id row = i) (at_rows t) = Some row \<Longrightarrow> row \<in> set (at_rows t) \<and> ar_alert_id row = i"
    by (auto simp: find_Some_iff)
  assume "find (\<lambda>row. ar_alert_id row = i) (at_rows t) = None"
  then show "i \<notin> rc_alert_id ` set (table_records t)"
    using row_record(2)[OF assms] by (auto simp: find_None_iff table_records_def)
qed

lemma db_find_ok:
  assumes "db_find i db = (db', r)" "alert_db_ok db"
  shows "alert_db_ok db' \<and> (\<forall>x. r = Inr x \<longrightarrow> ad_working db' = ad_working db \<and> ad_durable db' = ad_durable db
    \<and> (case x of None \<Rightarrow> i \<notin> rc_alert_id ` set (db_records db)
        | Some u \<Rightarrow> u \<in> set (db_records db) \<and> rc_alert_id u = i))"
proof -
  obtain d1 r1 where a: "db_access db = (d1, r1)" by force
  note acc = db_access_ok[OF a assms(2)]
  have ok: "table_ok (ad_working db)" using assms(2) by (simp add: alert_db_ok_def)
  show ?thesis
  proof (cases "sqlite_int i = Inr () \<and> r1 = Inr ()")
    case True
    then show ?thesis
      using assms(1) a acc find_row[OF ok, of i] row_record[OF ok]
      by (auto simp: db_find_def op_bind_def db_records_def rbind_eq_Inr split: option.splits) (metis Inr_inject)+
  next
    case False
    then show ?thesis using assms(1) a acc assms(2)
      by (cases "sqlite_int i"; cases r1) (auto simp: db_find_def op_bind_def)
  qed
qed

lemma db_get_ok:
  assumes "db_get i db = (db', r)" "alert_db_ok db"
  shows "alert_db_ok db' \<and> (\<forall>u. r = Inr u \<longrightarrow> ad_working db' = ad_working db \<and> ad_durable db' = ad_durable db
    \<and> u \<in> set (db_records db) \<and> rc_alert_id u = i)"
proof -
  obtain d1 r1 where f: "db_find i db = (d1, r1)" by force
  from db_find_ok[OF this assms(2)] assms(1) f show ?thesis
    by (cases r1) (auto simp: db_get_def op_bind_def split: option.splits)
qed


subsection \<open>Statements that write\<close>

lemma table_append:
  assumes "table_ok t" "row_to_record row = Inr u" "ar_alert_id row = at_sequence t + 1" "1 \<le> rc_occurrences u"
    "live (table_records t) (rc_key u) = None"
  shows "table_ok \<lparr>at_rows = at_rows t @ [row], at_sequence = at_sequence t + 1\<rparr>"
    "table_records \<lparr>at_rows = at_rows t @ [row], at_sequence = at_sequence t + 1\<rparr> = table_records t @ [u]"
    "rc_alert_id u \<notin> rc_alert_id ` set (table_records t)"
proof -
  show rec: "table_records \<lparr>at_rows = at_rows t @ [row], at_sequence = at_sequence t + 1\<rparr> = table_records t @ [u]"
    by (simp add: table_records_def assms(2))
  have id: "rc_alert_id u = at_sequence t + 1" using row_to_record_fields[OF assms(2)] assms(3) by simp
  have bound: "\<forall>row \<in> set (at_rows t). ar_alert_id row \<le> at_sequence t" using assms(1) by (simp add: table_ok_def)
  show fresh: "rc_alert_id u \<notin> rc_alert_id ` set (table_records t)"
    using bound row_record(2)[OF assms(1)] id by (auto simp: table_records_def)
  have "journal_ok (table_records t @ [u])"
    using assms(1,4,5) fresh by (intro journal_append) (simp_all add: table_ok_def)
  moreover have "sorted (map ar_alert_id (at_rows t @ [row]))"
    using assms(1,3) bound by (force simp: table_ok_def sorted_append)
  ultimately show "table_ok \<lparr>at_rows = at_rows t @ [row], at_sequence = at_sequence t + 1\<rparr>"
    using assms(1-3) unfolding table_ok_def rec by (auto simp: is_ok_iff)
qed

lemma distinct_filter_one: "distinct xs \<Longrightarrow> x \<in> set xs \<Longrightarrow> length (filter (\<lambda>i. i = x) xs) = 1"
  by (induction xs) (auto simp: filter_empty_conv)

lemma row_of_record:
  assumes "table_ok t" "x \<in> set (table_records t)" "row \<in> set (at_rows t)" "ar_alert_id row = rc_alert_id x"
  shows "row_to_record row = Inr x"
proof -
  have "inj_on rc_alert_id (set (table_records t))" using assms(1) by (simp add: table_ok_def journal_ok_def distinct_map)
  then have "projr (row_to_record row) = x"
    using row_record(2,7)[OF assms(1,3)] assms(2,4) by (auto dest: inj_onD)
  with row_record(1)[OF assms(1,3)] show ?thesis by simp
qed

lemma table_update:
  fixes f :: "alert_row \<Rightarrow> alert_row"
  assumes ok: "table_ok t" and x: "x \<in> set (table_records t)" "record_active x"
    and matches: "\<And>row. row \<in> set (at_rows t) \<Longrightarrow> matches row \<longleftrightarrow> ar_alert_id row = rc_alert_id x"
    and f: "\<And>row. row_to_record row = Inr x \<Longrightarrow> row_to_record (f row) = Inr u \<and> ar_alert_id (f row) = ar_alert_id row"
    and u: "rc_alert_id u = rc_alert_id x" "rc_key u = rc_key x" "1 \<le> rc_occurrences u"
  defines "t' \<equiv> t\<lparr>at_rows := map (\<lambda>row. if matches row then f row else row) (at_rows t)\<rparr>"
  shows "table_ok t'" "table_records t' = replaced u (table_records t)" "length (filter matches (at_rows t)) = 1"
proof -
  have row: "row \<in> set (at_rows t) \<Longrightarrow> matches row \<Longrightarrow> row_to_record (f row) = Inr u \<and> ar_alert_id (f row) = ar_alert_id row" for row
    using f matches row_of_record[OF ok x(1)] by blast
  show rec: "table_records t' = replaced u (table_records t)"
    using row matches row_record(2)[OF ok] u(1) by (auto simp: t'_def table_records_def replaced_def)
  have ids: "map ar_alert_id (at_rows t') = map ar_alert_id (at_rows t)" using row by (auto simp: t'_def)
  have "journal_ok (table_records t')"
    unfolding rec using ok x u by (intro journal_replaced) (simp_all add: table_ok_def)
  moreover have "is_ok (row_to_record row) \<and> ar_alert_id row \<le> at_sequence t'" if "row \<in> set (at_rows t')" for row
    using that ok row by (auto simp: t'_def table_ok_def)
  ultimately show "table_ok t'" using ok ids by (simp add: table_ok_def)
  have "filter matches (at_rows t) = filter (\<lambda>row. ar_alert_id row = rc_alert_id x) (at_rows t)"
    using matches by (intro filter_cong) simp_all
  also have "map ar_alert_id \<dots> = filter (\<lambda>i. i = rc_alert_id x) (map ar_alert_id (at_rows t))"
    by (simp add: filter_map comp_def)
  moreover have "map ar_alert_id (at_rows t) = map rc_alert_id (table_records t)"
    using row_record(2)[OF ok] by (simp add: table_records_def)
  moreover have "length (filter (\<lambda>i. i = rc_alert_id x) (map rc_alert_id (table_records t))) = 1"
    using ok x(1) distinct_filter_one[of "map rc_alert_id (table_records t)" "rc_alert_id x"]
    by (simp add: table_ok_def journal_ok_def)
  ultimately show "length (filter matches (at_rows t)) = 1" by (metis length_map)
qed

lemma db_write_ok:
  assumes "op_bind db_commit (\<lambda>_. db_get i) db = (db', r)" "alert_db_ok db"
  shows "alert_db_ok db' \<and> (\<forall>u. r = Inr u \<longrightarrow> ad_working db' = ad_working db \<and> ad_durable db' = ad_working db
    \<and> u \<in> set (db_records db) \<and> rc_alert_id u = i)"
proof -
  obtain d1 r1 where c: "db_commit db = (d1, r1)" by force
  note com = db_commit_ok[OF c assms(2)]
  show ?thesis
  proof (cases r1)
    case (Inl e)
    with assms(1) c com(1) show ?thesis by (auto simp: op_bind_def)
  next
    case (Inr v)
    with assms(1) c have "db_get i d1 = (db', r)" by (simp add: op_bind_def)
    from db_get_ok[OF this com(1)] com(2) Inr show ?thesis by (simp add: db_records_def)
  qed
qed


lemma op_bind_lift: "op_bind (op_lift r) f s = (case r of Inl e \<Rightarrow> (s, Inl e) | Inr x \<Rightarrow> f x s)"
  by (cases r) (simp_all add: op_bind_def)

lemma db_access_then:
  assumes "op_bind db_access (\<lambda>_. m) db = (db', r)" "alert_db_ok db"
  obtains e where "r = Inl e" "alert_db_ok db'"
  | d where "alert_db_ok d" "ad_working d = ad_working db" "ad_durable d = ad_durable db" "m d = (db', r)"
proof -
  obtain d r1 where a: "db_access db = (d, r1)" by force
  with db_access_ok[OF a assms(2)] assms(1) that show thesis by (cases r1) (auto simp: op_bind_def)
qed

lemma db_insert_run:
  assumes "alert_db_ok d" "1 \<le> sg_occurrences sg" "live (db_records d) (sg_key sg) = None"
  obtains d' u where "db_insert sg now d = (d', Inr (rc_alert_id u))" "alert_db_ok d'"
    "u = signal_record (rc_alert_id u) sg now" "rc_alert_id u \<notin> rc_alert_id ` set (db_records d)"
    "db_records d' = db_records d @ [u]"
proof -
  let ?t = "ad_working d"
  define u where "u = signal_record (at_sequence ?t + 1) sg now"
  define row where "row = \<lparr>ar_alert_id = at_sequence ?t + 1, ar_alert_key = sg_key sg,
    ar_code = alarm_code_value (sg_code sg), ar_source = sg_source sg, ar_severity = severity_value (sg_severity sg),
    ar_message = sg_message sg, ar_detail = sg_detail sg, ar_active_since = now, ar_acknowledged_at = None,
    ar_cleared_at = None, ar_occurrences = sg_occurrences sg\<rparr>"
  have ok: "table_ok ?t" using assms(1) by (simp add: alert_db_ok_def)
  have rec: "row_to_record row = Inr u" by (simp add: row_def u_def row_to_record_def signal_record_def)
  have free: "\<not> (\<exists>row \<in> set (at_rows ?t). ar_alert_key row = sg_key sg \<and> ar_cleared_at row = None)"
    using assms(3) row_record(3,4,7)[OF ok] by (fastforce simp: live_None db_records_def)
  note app = table_append[OF ok rec, folded db_records_def]
  have occ: "1 \<le> rc_occurrences u" using assms(2) by (simp add: u_def signal_record_def)
  show thesis
  proof (rule that[of "d\<lparr>ad_working := \<lparr>at_rows = at_rows ?t @ [row], at_sequence = at_sequence ?t + 1\<rparr>\<rparr>" u])
    show "db_insert sg now d =
        (d\<lparr>ad_working := \<lparr>at_rows = at_rows ?t @ [row], at_sequence = at_sequence ?t + 1\<rparr>\<rparr>, Inr (rc_alert_id u))"
      using free assms(2) by (auto simp: db_insert_def Let_def row_def u_def)
    show "u = signal_record (rc_alert_id u) sg now" by (simp add: u_def)
  qed (use app occ assms(1,3) in \<open>auto simp: alert_db_ok_def db_records_def row_def u_def\<close>)
qed

lemma db_create_ok:
  assumes run: "db_create sg now db = (db', r)" and ok: "alert_db_ok db"
    and sg: "1 \<le> sg_occurrences sg" "live (db_records db) (sg_key sg) = None"
  shows "alert_db_ok db' \<and> (\<forall>u. r = Inr u \<longrightarrow>
    (\<exists>i. i \<notin> rc_alert_id ` set (db_records db) \<and> u = signal_record i sg now)
    \<and> db_records db' = db_records db @ [u] \<and> ad_durable db' = ad_working db')"
proof (cases "sqlite_int (sg_occurrences sg)")
  case (Inl e)
  with run ok show ?thesis by (auto simp: db_create_def op_bind_lift)
next
  case (Inr v)
  with run have acc: "op_bind db_access (\<lambda>_. op_bind (db_insert sg now) (\<lambda>i. op_bind db_commit (\<lambda>_. db_get i))) db = (db', r)"
    by (simp add: db_create_def op_bind_lift)
  show ?thesis
  proof (cases rule: db_access_then[OF acc ok])
    case (2 d)
    from 2(2) sg(2) have free: "live (db_records d) (sg_key sg) = None" by (simp add: db_records_def)
    from db_insert_run[OF 2(1) sg(1) free, of now] obtain d' u where i: "db_insert sg now d = (d', Inr (rc_alert_id u))"
      "alert_db_ok d'" "u = signal_record (rc_alert_id u) sg now" "rc_alert_id u \<notin> rc_alert_id ` set (db_records d)"
      "db_records d' = db_records d @ [u]" by blast
    from 2(4) i(1) have "op_bind db_commit (\<lambda>_. db_get (rc_alert_id u)) d' = (db', r)" by (simp add: op_bind_def)
    note w = db_write_ok[OF this i(2)]
    have same: "db_records d = db_records db" using 2(2) by (simp add: db_records_def)
    have "v = u" if "v \<in> set (db_records d')" "rc_alert_id v = rc_alert_id u" for v
      using that i(4) by (auto simp: i(5) image_iff)
    with w i(3-5) show ?thesis unfolding same by (cases r) (auto simp: db_records_def[of db'] db_records_def[of d'])
  qed simp
qed

text \<open>An update of the one row of an active record, committed and read back.\<close>

lemma db_update_ok:
  assumes run: "op_bind (db_update matches f) (\<lambda>n. m n) d = (db', r)" and ok: "alert_db_ok d"
    and x: "x \<in> set (db_records d)" "record_active x"
    and matches: "\<And>row. row \<in> set (at_rows (ad_working d)) \<Longrightarrow> matches row \<longleftrightarrow> ar_alert_id row = rc_alert_id x"
    and f: "\<And>row. row_to_record row = Inr x \<Longrightarrow> row_to_record (f row) = Inr u \<and> ar_alert_id (f row) = ar_alert_id row"
    and u: "rc_alert_id u = rc_alert_id x" "rc_key u = rc_key x" "1 \<le> rc_occurrences u"
    and m: "m 1 = op_bind db_commit (\<lambda>_. db_get (rc_alert_id x))"
  shows "alert_db_ok db' \<and> (\<forall>v. r = Inr v \<longrightarrow> v = u \<and> db_records db' = replaced u (db_records d)
    \<and> ad_durable db' = ad_working db')"
proof -
  have t: "table_ok (ad_working d)" and x': "x \<in> set (table_records (ad_working d))"
    using ok x by (simp_all add: alert_db_ok_def db_records_def)
  note upd = table_update[OF t x' x(2) matches f u, simplified]
  define d' where "d' = d\<lparr>ad_working := (ad_working d)\<lparr>at_rows :=
    map (\<lambda>row. if matches row then f row else row) (at_rows (ad_working d))\<rparr>\<rparr>"
  have d': "alert_db_ok d'" "db_records d' = replaced u (db_records d)"
    using upd ok by (simp_all add: alert_db_ok_def db_records_def d'_def)
  from run upd(3) m have "op_bind db_commit (\<lambda>_. db_get (rc_alert_id x)) d' = (db', r)"
    by (simp add: op_bind_def db_update_def d'_def Let_def)
  note w = db_write_ok[OF this d'(1)]
  have "v = u" if "v \<in> set (db_records d')" "rc_alert_id v = rc_alert_id x" for v
  proof -
    have "journal_ok (db_records d)" using t by (simp add: db_records_def table_ok_def)
    from that d'(2) set_replaced[OF this x(1) u(1)] have "v = u \<or> v \<in> set (db_records d) \<and> v \<noteq> x" by auto
    moreover have "inj_on rc_alert_id (set (db_records d))"
      using t by (simp add: db_records_def table_ok_def journal_ok_def distinct_map)
    ultimately show ?thesis using that(2) x(1) by (auto dest: inj_onD)
  qed
  with w d'(2) show ?thesis by (cases r) (simp_all add: db_records_def)
qed

lemma row_updates:
  "row_to_record row = Inr x \<Longrightarrow> row_to_record (set_signal (max (rc_occurrences x) (sg_occurrences sg)) sg row)
     = Inr (updated_record x sg)"
  "row_to_record row = Inr x \<Longrightarrow> row_to_record (set_acknowledged time row)
     = Inr (x\<lparr>rc_acknowledged_at := (case rc_acknowledged_at x of None \<Rightarrow> Some time | Some t \<Rightarrow> Some t)\<rparr>)"
  "row_to_record row = Inr x \<Longrightarrow> record_active x \<Longrightarrow> row_to_record (set_cleared time n row) = Inr (cleared_record x time n)"
  "ar_alert_id (set_signal m sg row) = ar_alert_id row" "ar_alert_id (set_acknowledged time row) = ar_alert_id row"
  "ar_alert_id (set_cleared time n row) = ar_alert_id row"
  by (auto simp: row_to_record_def rbind_eq_Inr set_signal_def updated_record_def set_acknowledged_def
      set_cleared_def cleared_record_def record_active_def)

lemma active_row:
  assumes "alert_db_ok d" "x \<in> set (db_records d)" "record_active x" "row \<in> set (at_rows (ad_working d))"
  shows "ar_alert_id row = rc_alert_id x \<and> ar_cleared_at row = None \<longleftrightarrow> ar_alert_id row = rc_alert_id x"
proof -
  have t: "table_ok (ad_working d)" using assms(1) by (simp add: alert_db_ok_def)
  show ?thesis
    using row_of_record[OF t _ assms(4), of x] row_record(3)[OF t assms(4)] assms(2,3)
    by (auto simp: db_records_def)
qed

lemma record_occurrences: "alert_db_ok d \<Longrightarrow> x \<in> set (db_records d) \<Longrightarrow> 1 \<le> rc_occurrences x"
  by (simp add: alert_db_ok_def db_records_def table_ok_def journal_ok_def)

lemma db_update_active_ok:
  assumes run: "db_update_active x sg db = (db', r)" and ok: "alert_db_ok db"
    and x: "x \<in> set (db_records db)" "record_active x"
  shows "alert_db_ok db' \<and> (\<forall>u. r = Inr u \<longrightarrow> u = updated_record x sg
    \<and> db_records db' = replaced u (db_records db) \<and> ad_durable db' = ad_working db')"
proof -
  let ?n = "max (rc_occurrences x) (sg_occurrences sg)"
  let ?matches = "\<lambda>row. ar_alert_id row = rc_alert_id x \<and> ar_cleared_at row = None"
  show ?thesis
  proof (cases "sqlite_int ?n = Inr () \<and> sqlite_int (rc_alert_id x) = Inr ()")
    case False
    with run ok show ?thesis
      by (auto simp: db_update_active_def op_bind_lift Let_def split: sum.splits)
  next
    case True
    with run have acc: "op_bind db_access (\<lambda>_. op_bind (db_update ?matches (set_signal ?n sg))
        (\<lambda>_. op_bind db_commit (\<lambda>_. db_get (rc_alert_id x)))) db = (db', r)"
      by (simp add: db_update_active_def op_bind_lift Let_def)
    show ?thesis
    proof (cases rule: db_access_then[OF acc ok])
      case (2 d)
      from 2(2) x have x': "x \<in> set (db_records d)" by (simp add: db_records_def)
      have "1 \<le> rc_occurrences (updated_record x sg)"
        using record_occurrences[OF ok x(1)] by (simp add: updated_record_def)
      from db_update_ok[OF 2(4,1) x' x(2) active_row[OF 2(1) x' x(2)], where u = "updated_record x sg"] this 2(2)
      show ?thesis by (simp add: row_updates db_records_def)
    qed simp
  qed
qed

lemma db_clear_ok:
  assumes run: "db_clear (rc_alert_id x) now (Some n) db = (db', r)" and ok: "alert_db_ok db"
    and x: "x \<in> set (db_records db)" "record_active x" and n: "1 \<le> n"
  shows "alert_db_ok db' \<and> (\<forall>u. r = Inr u \<longrightarrow> u = cleared_record x now n
    \<and> db_records db' = replaced u (db_records db) \<and> ad_durable db' = ad_working db')"
proof -
  obtain d0 r0 where find: "db_find (rc_alert_id x) db = (d0, r0)" by force
  note found = db_find_ok[OF find ok]
  have inj: "inj_on rc_alert_id (set (db_records db))"
    using ok by (simp add: alert_db_ok_def db_records_def table_ok_def journal_ok_def distinct_map)
  show ?thesis
  proof (cases r0)
    case (Inl e)
    with run find found show ?thesis by (auto simp: db_clear_def op_bind_def)
  next
    case (Inr y)
    with found x(1) inj have y: "y = Some x" by (cases y) (auto dest: inj_onD)
    let ?n = "max (rc_occurrences x) (int_or (Some n) (rc_occurrences x))"
    have n': "?n = max (rc_occurrences x) n" using n by (simp add: int_or_def)
    show ?thesis
    proof (cases "sqlite_int ?n")
      case (Inl e)
      with run find Inr y found show ?thesis by (auto simp: db_clear_def op_bind_def Let_def)
    next
      case (Inr v)
      with run find \<open>r0 = Inr y\<close> y have acc: "op_bind db_access (\<lambda>_. op_bind
          (db_update (\<lambda>row. ar_alert_id row = rc_alert_id x) (set_cleared now ?n))
          (\<lambda>k. op_bind db_commit (\<lambda>_. if k \<noteq> 1 then op_raise (unknown_alert (rc_alert_id x))
            else db_get (rc_alert_id x)))) d0 = (db', r)"
        by (simp add: db_clear_def op_bind_def[of "db_find _"] op_bind_lift Let_def)
      from found have ok0: "alert_db_ok d0" by simp
      show ?thesis
      proof (cases rule: db_access_then[OF acc ok0])
        case (2 d)
        from 2(2) found x \<open>r0 = Inr y\<close> have x': "x \<in> set (db_records d)" and same: "db_records d = db_records db"
          by (simp_all add: db_records_def)
        have "1 \<le> rc_occurrences (cleared_record x now ?n)"
          using record_occurrences[OF ok x(1)] by (simp add: cleared_record_def)
        from db_update_ok[OF 2(4,1) x' x(2) refl, where u = "cleared_record x now ?n"] this same
        show ?thesis using x(2) n' by (simp add: row_updates cleared_record_def)
      qed simp
    qed
  qed
qed


lemma db_acknowledge_ok:
  assumes run: "db_acknowledge i now db = (db', r)" and ok: "alert_db_ok db"
  shows "alert_db_ok db' \<and> (\<forall>u. r = Inr u \<longrightarrow> (\<exists>x \<in> set (db_records db). rc_alert_id x = i \<and> record_active x
    \<and> u = x\<lparr>rc_acknowledged_at := (case rc_acknowledged_at x of None \<Rightarrow> Some now | Some t \<Rightarrow> Some t)\<rparr>)
    \<and> db_records db' = replaced u (db_records db) \<and> ad_durable db' = ad_working db')"
proof (cases "sqlite_int i")
  case (Inl e)
  with run ok show ?thesis by (auto simp: db_acknowledge_def op_bind_lift)
next
  case (Inr v)
  let ?matches = "\<lambda>row. ar_alert_id row = i \<and> ar_cleared_at row = None"
  let ?m = "\<lambda>n. op_bind db_commit (\<lambda>_. if n \<noteq> 1
      then op_bind (db_find i) (\<lambda>r. op_raise (if r = None then unknown_alert i else inactive_alert i)) else db_get i)"
  from run Inr have acc: "op_bind db_access (\<lambda>_. op_bind (db_update ?matches (set_acknowledged now)) (\<lambda>n. ?m n)) db = (db', r)"
    by (simp add: db_acknowledge_def op_bind_lift)
  show ?thesis
  proof (cases rule: db_access_then[OF acc ok])
    case (2 d)
    have same: "db_records d = db_records db" using 2(2) by (simp add: db_records_def)
    have t: "table_ok (ad_working d)" using 2(1) by (simp add: alert_db_ok_def)
    show ?thesis
    proof (cases "\<exists>x \<in> set (db_records d). rc_alert_id x = i \<and> record_active x")
      case True
      then obtain x where x: "x \<in> set (db_records d)" "record_active x" "rc_alert_id x = i" by blast
      let ?u = "x\<lparr>rc_acknowledged_at := (case rc_acknowledged_at x of None \<Rightarrow> Some now | Some t \<Rightarrow> Some t)\<rparr>"
      have occ: "1 \<le> rc_occurrences ?u" using record_occurrences[OF 2(1) x(1)] by simp
      from db_update_ok[OF 2(4)[folded x(3)] 2(1) x(1,2) active_row[OF 2(1) x(1,2)], where u = ?u] occ row_updates
      have "alert_db_ok db' \<and> (\<forall>v. r = Inr v \<longrightarrow> v = ?u \<and> db_records db' = replaced ?u (db_records d)
        \<and> ad_durable db' = ad_working db')" by simp
      with x same show ?thesis by auto
    next
      case False
      then have none: "\<not> ?matches row" if "row \<in> set (at_rows (ad_working d))" for row
        using row_record(2,3,7)[OF t that] by (auto simp: db_records_def)
      then have upd: "db_update ?matches (set_acknowledged now) d = (d, Inr 0)"
      proof -
        have "map (\<lambda>row. if ?matches row then set_acknowledged now row else row) (at_rows (ad_working d))
            = at_rows (ad_working d)" by (intro map_idI) (simp only: none if_False)
        moreover have "filter ?matches (at_rows (ad_working d)) = []" using none by (simp add: filter_empty_conv)
        ultimately show ?thesis by (simp add: db_update_def Let_def)
      qed
      obtain d1 r1 where c: "db_commit d = (d1, r1)" by force
      obtain d2 r2 where f: "db_find i d1 = (d2, r2)" by force
      note com = db_commit_ok(1)[OF c 2(1)] and fnd = db_find_ok[OF f]
      from 2(4) upd c f have "(db', r) = (case r1 of Inl e \<Rightarrow> (d1, Inl e) | Inr _ \<Rightarrow>
          (d2, Inl (case r2 of Inl e \<Rightarrow> e | Inr q \<Rightarrow> if q = None then unknown_alert i else inactive_alert i)))"
        by (auto simp: op_bind_def split: sum.splits)
      with com fnd show ?thesis by (cases r1) simp_all
    qed
  qed simp
qed

lemma acknowledged_once:
  assumes "u = x\<lparr>rc_acknowledged_at := (case rc_acknowledged_at x of None \<Rightarrow> Some now | Some t \<Rightarrow> Some t)\<rparr>"
  shows "record_acknowledged u" "u = x\<lparr>rc_acknowledged_at := rc_acknowledged_at u\<rparr>"
    "record_acknowledged x \<longrightarrow> u = x"
  using assms by (cases x; auto simp: record_acknowledged_def split: option.splits)+

interpretation journal_db: alert_journal alert_db_ok db_records sqlite_store
proof unfold_locales
  fix s s' :: alert_db and c now sg x i n limit h r
  assume ok: "alert_db_ok s"
  show "journal_ok (db_records s)" using ok by (simp add: alert_db_ok_def db_records_def table_ok_def)
  show "alert_db_ok s' \<and> (\<forall>rs. r = Inr rs \<longrightarrow> db_records s' = db_records s \<and> rs = filter record_active (db_records s))"
    if "as_list_active sqlite_store s = (s', r)"
    using db_list_active_ok[OF _ ok, of s' r] that by (simp add: sqlite_store_def)
  show "alert_db_ok s' \<and> (\<forall>rs. h = Inr rs \<longrightarrow> db_records s' = db_records s)"
    if "as_list_history sqlite_store limit s = (s', h)"
    using db_list_history_ok[OF _ ok, of limit s' h] that by (simp add: sqlite_store_def)
  show "alert_db_ok s' \<and> (\<forall>u. c = Inr u \<longrightarrow> (\<exists>i. i \<notin> rc_alert_id ` set (db_records s) \<and> u = signal_record i sg now)
      \<and> db_records s' = db_records s @ [u])"
    if "1 \<le> sg_occurrences sg" "live (db_records s) (sg_key sg) = None" "as_create sqlite_store sg now s = (s', c)"
    using db_create_ok[OF _ ok that(1,2), of now s' c] that(3) by (simp add: sqlite_store_def)
  show "alert_db_ok s' \<and> (\<forall>u. c = Inr u \<longrightarrow> u = updated_record x sg \<and> db_records s' = replaced u (db_records s))"
    if "x \<in> set (db_records s)" "record_active x" "as_update_active sqlite_store x sg s = (s', c)"
    using db_update_active_ok[OF _ ok that(1,2), of sg s' c] that(3) by (simp add: sqlite_store_def)
  show "alert_db_ok s' \<and> (\<forall>u. c = Inr u \<longrightarrow> (\<exists>x \<in> set (db_records s). rc_alert_id x = i \<and> record_active x
      \<and> record_acknowledged u \<and> u = x\<lparr>rc_acknowledged_at := rc_acknowledged_at u\<rparr>
      \<and> (record_acknowledged x \<and> rc_acknowledged_at x \<noteq> Some [] \<longrightarrow> u = x)) \<and> db_records s' = replaced u (db_records s))"
    if "as_acknowledge sqlite_store i now s = (s', c)"
  proof -
    note ack = db_acknowledge_ok[OF _ ok, of i now s' c]
    show ?thesis
    proof (cases c)
      case (Inl e)
      with ack that show ?thesis by (simp add: sqlite_store_def)
    next
      case (Inr u)
      with ack that obtain x where x: "x \<in> set (db_records s)" "rc_alert_id x = i" "record_active x"
        "u = x\<lparr>rc_acknowledged_at := (case rc_acknowledged_at x of None \<Rightarrow> Some now | Some t \<Rightarrow> Some t)\<rparr>"
        and s': "alert_db_ok s'" "db_records s' = replaced u (db_records s)" by (auto simp: sqlite_store_def)
      note once = acknowledged_once[OF x(4)]
      from x once have "\<exists>x \<in> set (db_records s). rc_alert_id x = i \<and> record_active x \<and> record_acknowledged u
        \<and> u = x\<lparr>rc_acknowledged_at := rc_acknowledged_at u\<rparr>
        \<and> (record_acknowledged x \<and> rc_acknowledged_at x \<noteq> Some [] \<longrightarrow> u = x)" by blast
      with s' Inr show ?thesis by simp
    qed
  qed
  show "alert_db_ok s' \<and> (\<forall>u. c = Inr u \<longrightarrow> u = cleared_record x now n \<and> db_records s' = replaced u (db_records s))"
    if "x \<in> set (db_records s)" "record_active x" "1 \<le> n"
      "as_clear sqlite_store (rc_alert_id x) now (Some n) s = (s', c)"
    using db_clear_ok[OF _ ok that(1-3), of now s' c] that(4) by (simp add: sqlite_store_def)
qed


subsection \<open>The store in memory\<close>

definition memory_ok :: "memory_alerts \<Rightarrow> bool" where
  "memory_ok s = (journal_ok (ma_records s) \<and> (\<forall>r \<in> set (ma_records s). rc_alert_id r < ma_next_id s))"

lemma replace_first_replaced:
  assumes "distinct (map rc_alert_id rs)" "rc_alert_id u \<in> rc_alert_id ` set rs"
  shows "replace_first u rs = Some (replaced u rs)"
  using assms
proof (induction rs)
  case (Cons r rs)
  have "replaced u rs = rs" if "rc_alert_id u \<notin> rc_alert_id ` set rs"
    using that unfolding replaced_def by (intro map_idI) (auto simp: image_iff)
  moreover have "replaced u (r # rs) = (if rc_alert_id r = rc_alert_id u then u else r) # replaced u rs"
    by (simp add: replaced_def)
  ultimately show ?case using Cons.prems Cons.IH by (cases "rc_alert_id r = rc_alert_id u") auto
qed simp

lemma memory_replace_run:
  assumes "memory_ok s" "x \<in> set (ma_records s)" "rc_alert_id u = rc_alert_id x"
  shows "memory_replace u s = (s\<lparr>ma_records := replaced u (ma_records s)\<rparr>, Inr u)"
  using assms replace_first_replaced[of "ma_records s" u]
  by (simp add: memory_replace_def memory_ok_def journal_ok_def)

lemma memory_replaced_ok:
  assumes "memory_ok s" "x \<in> set (ma_records s)" "record_active x" "rc_alert_id u = rc_alert_id x" "rc_key u = rc_key x"
    "1 \<le> rc_occurrences u"
  shows "memory_ok (s\<lparr>ma_records := replaced u (ma_records s)\<rparr>)"
  using assms journal_replaced[of "ma_records s" x u] set_replaced[of "ma_records s" x u]
  by (auto simp: memory_ok_def)

lemma memory_find_run:
  assumes "memory_ok s"
  shows "x \<in> set (ma_records s) \<Longrightarrow> memory_find (rc_alert_id x) s = (s, Inr x)"
    and "memory_find i s = (s', Inr x) \<Longrightarrow> s' = s \<and> x \<in> set (ma_records s) \<and> rc_alert_id x = i"
    and "fst (memory_find i s) = s"
proof -
  show "memory_find i s = (s', Inr x) \<Longrightarrow> s' = s \<and> x \<in> set (ma_records s) \<and> rc_alert_id x = i" for i s' x
    by (auto simp: memory_find_def find_Some_iff split: option.splits)
  note found = this
  show "fst (memory_find i s) = s" by (simp add: memory_find_def)
  have inj: "inj_on rc_alert_id (set (ma_records s))" using assms by (simp add: memory_ok_def journal_ok_def distinct_map)
  assume x: "x \<in> set (ma_records s)"
  then have "find (\<lambda>r. rc_alert_id r = rc_alert_id x) (ma_records s) \<noteq> None" by (auto simp: find_None_iff)
  then obtain y where "memory_find (rc_alert_id x) s = (s, Inr y)" by (auto simp: memory_find_def)
  with found[OF this] x inj show "memory_find (rc_alert_id x) s = (s, Inr x)" by (auto dest: inj_onD)
qed

lemma memory_acknowledge_ok:
  assumes run: "memory_acknowledge i now s = (s', c)" and ok: "memory_ok s"
  shows "memory_ok s' \<and> (\<forall>u. c = Inr u \<longrightarrow> (\<exists>x \<in> set (ma_records s). rc_alert_id x = i \<and> record_active x
    \<and> u = x\<lparr>rc_acknowledged_at := Some (str_or (rc_acknowledged_at x) now)\<rparr>)
    \<and> ma_records s' = replaced u (ma_records s))"
proof (cases "snd (memory_find i s)")
  case (Inl e)
  then have "memory_find i s = (s, Inl e)" using memory_find_run(3)[OF ok, of i] by (metis prod.collapse)
  with run ok show ?thesis by (auto simp: memory_acknowledge_def op_bind_def)
next
  case (Inr x)
  then have f: "memory_find i s = (s, Inr x)" using memory_find_run(3)[OF ok, of i] by (metis prod.collapse)
  note x = memory_find_run(2)[OF ok f]
  let ?u = "x\<lparr>rc_acknowledged_at := Some (str_or (rc_acknowledged_at x) now)\<rparr>"
  show ?thesis
  proof (cases "record_active x")
    case True
    have "1 \<le> rc_occurrences ?u" using ok x by (simp add: memory_ok_def journal_ok_def)
    then have "memory_ok (s\<lparr>ma_records := replaced ?u (ma_records s)\<rparr>)"
      using x True by (intro memory_replaced_ok[OF ok, of x]) simp_all
    with run f True x memory_replace_run[OF ok, of x ?u] show ?thesis
      by (auto simp: memory_acknowledge_def op_bind_def)
  qed (use run f ok in \<open>auto simp: memory_acknowledge_def op_bind_def\<close>)
qed

interpretation journal_memory: alert_journal memory_ok ma_records memory_store
proof unfold_locales
  fix s s' :: memory_alerts and c now sg x i n limit h r
  assume ok: "memory_ok s"
  show "journal_ok (ma_records s)" using ok by (simp add: memory_ok_def)
  have occ: "x \<in> set (ma_records s) \<Longrightarrow> 1 \<le> rc_occurrences x" for x using ok by (simp add: memory_ok_def journal_ok_def)
  show "memory_ok s' \<and> (\<forall>rs. r = Inr rs \<longrightarrow> ma_records s' = ma_records s \<and> rs = filter record_active (ma_records s))"
    if "as_list_active memory_store s = (s', r)" using that ok by (auto simp: memory_store_def)
  show "memory_ok s' \<and> (\<forall>rs. h = Inr rs \<longrightarrow> ma_records s' = ma_records s)"
    if "as_list_history memory_store limit s = (s', h)" using that ok by (auto simp: memory_store_def)
  show "memory_ok s' \<and> (\<forall>u. c = Inr u \<longrightarrow> (\<exists>i. i \<notin> rc_alert_id ` set (ma_records s) \<and> u = signal_record i sg now)
      \<and> ma_records s' = ma_records s @ [u])"
    if sg: "1 \<le> sg_occurrences sg" "live (ma_records s) (sg_key sg) = None" "as_create memory_store sg now s = (s', c)"
  proof -
    define u where "u = signal_record (ma_next_id s) sg now"
    from sg(3) have s': "s' = s\<lparr>ma_records := ma_records s @ [u], ma_next_id := ma_next_id s + 1\<rparr>" "c = Inr u"
      by (auto simp: memory_store_def memory_create_def u_def Let_def)
    have fresh: "rc_alert_id u \<notin> rc_alert_id ` set (ma_records s)" using ok by (force simp: u_def memory_ok_def)
    have "journal_ok (ma_records s @ [u])"
      using ok fresh sg(1,2) by (intro journal_append) (simp_all add: memory_ok_def u_def signal_record_def)
    with ok s' fresh show ?thesis by (fastforce simp: memory_ok_def u_def)
  qed
  show "memory_ok s' \<and> (\<forall>u. c = Inr u \<longrightarrow> u = updated_record x sg \<and> ma_records s' = replaced u (ma_records s))"
    if "x \<in> set (ma_records s)" "record_active x" "as_update_active memory_store x sg s = (s', c)"
    using that memory_replace_run[OF ok that(1), of "updated_record x sg"] occ[OF that(1)]
      memory_replaced_ok[OF ok that(1,2), of "updated_record x sg"]
    by (auto simp: memory_store_def updated_record_def)
  show "memory_ok s' \<and> (\<forall>u. c = Inr u \<longrightarrow> u = cleared_record x now n \<and> ma_records s' = replaced u (ma_records s))"
    if "x \<in> set (ma_records s)" "record_active x" "1 \<le> n"
      "as_clear memory_store (rc_alert_id x) now (Some n) s = (s', c)"
    using that memory_find_run(1)[OF ok that(1)] memory_replace_run[OF ok that(1), of "cleared_record x now n"]
      memory_replaced_ok[OF ok that(1,2), of "cleared_record x now n"] occ[OF that(1)]
    by (auto simp: memory_store_def memory_clear_def op_bind_def int_or_def cleared_record_def)
  show "memory_ok s' \<and> (\<forall>u. c = Inr u \<longrightarrow> (\<exists>x \<in> set (ma_records s). rc_alert_id x = i \<and> record_active x
      \<and> record_acknowledged u \<and> u = x\<lparr>rc_acknowledged_at := rc_acknowledged_at u\<rparr>
      \<and> (record_acknowledged x \<and> rc_acknowledged_at x \<noteq> Some [] \<longrightarrow> u = x)) \<and> ma_records s' = replaced u (ma_records s))"
    if "as_acknowledge memory_store i now s = (s', c)"
  proof -
    note ack = memory_acknowledge_ok[OF _ ok, of i now s' c]
    show ?thesis
    proof (cases c)
      case (Inl e)
      with ack that show ?thesis by (simp add: memory_store_def)
    next
      case (Inr u)
      with ack that obtain x where x: "x \<in> set (ma_records s)" "rc_alert_id x = i" "record_active x"
        "u = x\<lparr>rc_acknowledged_at := Some (str_or (rc_acknowledged_at x) now)\<rparr>"
        and s': "memory_ok s'" "ma_records s' = replaced u (ma_records s)" by (auto simp: memory_store_def)
      have "record_acknowledged u" "u = x\<lparr>rc_acknowledged_at := rc_acknowledged_at u\<rparr>"
        "record_acknowledged x \<and> rc_acknowledged_at x \<noteq> Some [] \<longrightarrow> u = x"
        by (cases x; auto simp: x(4) record_acknowledged_def str_or_def)+
      with s' Inr x(1-3) show ?thesis by auto
    qed
  qed
qed


subsection \<open>Every call of the registry keeps the journal\<close>

datatype registry_call =
    Reconcile string "alert_signal list" | Activate string alert_signal | Clear_key string string
  | Acknowledge string int | Active_records | History int

text \<open>What a call leaves, whether it returns or raises.\<close>

definition registry_step :: "'s alert_store \<Rightarrow> registry_call \<Rightarrow> 's alert_registry \<Rightarrow> 's alert_registry" where
  "registry_step A call g = (case call of
     Reconcile now signals \<Rightarrow> fst (reconcile A now signals g)
   | Activate now sg \<Rightarrow> fst (activate A now sg g)
   | Clear_key now key \<Rightarrow> fst (clear_key A now key g)
   | Acknowledge now i \<Rightarrow> fst (acknowledge A now i g)
   | Active_records \<Rightarrow> fst (active_records A g)
   | History limit \<Rightarrow> fst (alert_history A limit g))"

text \<open>Signals as \<open>AlertSignal\<close> lets them be constructed.\<close>

fun call_ok :: "registry_call \<Rightarrow> bool" where
  "call_ok (Reconcile now signals) = (\<forall>sg \<in> set signals. 1 \<le> sg_occurrences sg)"
| "call_ok (Activate now sg) = (1 \<le> sg_occurrences sg)"
| "call_ok _ = True"

lemma find_key:
  assumes "journal_ok rs"
  shows "find (\<lambda>r. rc_key r = k) (filter record_active rs) = live rs k"
proof (cases "find (\<lambda>r. rc_key r = k) (filter record_active rs)")
  case None
  then have "live rs k = None" by (auto simp: find_None_iff live_None)
  with None show ?thesis by simp
next
  case (Some x)
  then have "x \<in> set (filter record_active rs)" "rc_key x = k" by (auto simp: find_Some_iff simp del: set_filter)
  with Some live_Some[OF assms, of k x] show ?thesis by simp
qed

context alert_journal
begin

lemma list_active_then:
  assumes "op_bind (on_alerts (as_list_active A)) m g = (g', r)" "ok (rg_store g)"
  obtains e where "r = Inl e" "ok (rg_store g')"
  | s where "ok s" "records s = records (rg_store g)"
      "m (filter record_active (records s)) (g\<lparr>rg_store := s\<rparr>) = (g', r)"
proof -
  obtain s c where l: "as_list_active A (rg_store g) = (s, c)" by force
  with list_active[OF assms(2) l] assms(1) that show thesis
    by (cases c) (auto simp: op_bind_def on_alerts_def)
qed

lemma activate_ok:
  assumes run: "activate A now sg g = (g', r)" and ok: "ok (rg_store g)" and occ: "1 \<le> sg_occurrences sg"
  shows "ok (rg_store g')"
proof -
  define latest where "latest = counted (rg_latest g) sg"
  define g1 where "g1 = g\<lparr>rg_latest := AList.update (sg_key sg) (sg_occurrences latest) (rg_latest g)\<rparr>"
  have latest: "1 \<le> sg_occurrences latest" "sg_key latest = sg_key sg" using occ by (simp_all add: latest_def counted_def)
  have l: "op_bind (on_alerts (as_list_active A)) (\<lambda>rs g. case find (\<lambda>r. rc_key r = sg_key sg) rs of
       None \<Rightarrow> on_alerts (as_create A latest now) g
     | Some r \<Rightarrow>
         op_bind (if persist_due (rg_step g) r latest then on_alerts (as_update_active A r latest) else op_return r)
           (\<lambda>r g. (g, Inr (with_latest_occurrences (rg_latest g) r))) g) g1 = (g', r)"
    using run unfolding latest_def g1_def by (simp add: activate_def op_bind_def[of "note_latest sg"])
  have ok1: "ok (rg_store g1)" using ok by (simp add: g1_def)
  show ?thesis
  proof (cases rule: list_active_then[OF l ok1])
    case (2 s)
    note find = find_key[OF journal[OF 2(1)], of "sg_key sg"]
    show ?thesis
    proof (cases "live (records s) (sg_key sg)")
      case None
      obtain s2 c where c: "as_create A latest now s = (s2, c)" by force
      from 2(3) find None c have "rg_store g' = s2" by (auto simp: on_alerts_def)
      with create[OF 2(1) latest(1) _ c] None latest(2) show ?thesis by simp
    next
      case (Some x)
      obtain s2 c where c: "as_update_active A x latest s = (s2, c)" by force
      from 2(3) find Some c have "rg_store g' = s2 \<or> rg_store g' = s"
        by (auto simp: on_alerts_def op_bind_def split: if_splits sum.splits)
      with update[OF 2(1) _ _ c] live_member[OF 2(1) Some] 2(1) show ?thesis by auto
    qed
  qed
qed

lemma clear_key_ok:
  assumes run: "clear_key A now key g = (g', r)" and ok: "ok (rg_store g)"
  shows "ok (rg_store g')"
proof (cases rule: list_active_then[OF run[unfolded clear_key_def] ok])
  case (2 s)
  note find = find_key[OF journal[OF 2(1)], of key]
  show ?thesis
  proof (cases "live (records s) key")
    case None
    with 2 find show ?thesis by auto
  next
    case (Some x)
    obtain g1 c where c: "clear_record A now key x (g\<lparr>rg_store := s\<rparr>) = (g1, c)" by force
    from 2(3) find Some c have "g' = g1" by (auto simp: op_bind_def split: sum.splits)
    with clear_record_effect[OF c] 2(1) Some show ?thesis by simp
  qed
qed

lemma registry_step_ok:
  assumes ok: "ok (rg_store g)" and call: "call_ok c"
  shows "ok (rg_store (registry_step A c g))"
proof (cases c)
  case (Reconcile now signals)
  obtain g' r where run: "reconcile A now signals g = (g', r)" by force
  from reconcile_effect[OF run ok] call Reconcile run show ?thesis by (simp add: registry_step_def)
next
  case (Activate now sg)
  obtain g' r where run: "activate A now sg g = (g', r)" by force
  from activate_ok[OF run ok] call Activate run show ?thesis by (simp add: registry_step_def)
next
  case (Clear_key now key)
  obtain g' r where run: "clear_key A now key g = (g', r)" by force
  from clear_key_ok[OF run ok] Clear_key run show ?thesis by (simp add: registry_step_def)
next
  case (Acknowledge now i)
  obtain s r where run: "as_acknowledge A i now (rg_store g) = (s, r)" by force
  from acknowledge[OF ok run] ok Acknowledge run show ?thesis
    by (auto simp: registry_step_def acknowledge_def op_bind_def on_alerts_def split: sum.splits)
next
  case Active_records
  obtain g' r where run: "active_records A g = (g', r)" by force
  from active_records_effect[OF run ok] Active_records run show ?thesis by (simp add: registry_step_def)
next
  case (History limit)
  obtain s r where run: "as_list_history A limit (rg_store g) = (s, r)" by force
  from list_history[OF ok run] ok History run show ?thesis
    by (auto simp: registry_step_def alert_history_def op_bind_def on_alerts_def split: sum.splits)
qed

lemma registry_run_ok:
  "ok (rg_store g) \<Longrightarrow> \<forall>c \<in> set calls. call_ok c \<Longrightarrow> ok (rg_store (fold (registry_step A) calls g))"
  by (induction calls arbitrary: g) (simp_all add: registry_step_ok)

end


subsection \<open>Properties of the registry on the database\<close>

text \<open>C18: one active record per key, for every behaviour of the database. Starting from a sound journal,
  whatever calls the registry serves and however statements and commits fail or roll back in between,
  the journal that the connection sees and the one on disk have distinct ids, at most one active record
  for each alert key, and every count at least one.\<close>

theorem alert_journal_invariant:
  assumes "alert_db_ok (rg_store g)" and "\<forall>c \<in> set calls. call_ok c"
    and "g' = fold (registry_step sqlite_store) calls g"
    and "rs = table_records (ad_working (rg_store g')) \<or> rs = table_records (ad_durable (rg_store g'))"
  shows "distinct (map rc_alert_id rs)
    \<and> (\<forall>r \<in> set rs. \<forall>q \<in> set rs. record_active r \<longrightarrow> record_active q \<longrightarrow> rc_key r = rc_key q \<longrightarrow> r = q)
    \<and> (\<forall>r \<in> set rs. 1 \<le> rc_occurrences r)"
proof -
  have "alert_db_ok (rg_store g')" using journal_db.registry_run_ok[OF assms(1,2)] assms(3) by simp
  then have "journal_ok rs" using assms(4) by (auto simp: alert_db_ok_def table_ok_def)
  then show ?thesis by (auto simp: journal_ok_def inj_on_def)
qed

text \<open>An empty journal whose second write is rolled back.\<close>

definition demo_alert_db :: "(nat \<Rightarrow> db_fault option) \<Rightarrow> alert_db" where
  "demo_alert_db faults = \<lparr>ad_working = \<lparr>at_rows = [], at_sequence = 0\<rparr>, ad_durable = \<lparr>at_rows = [], at_sequence = 0\<rparr>,
     ad_open = True, ad_faults = faults, ad_accesses = 0\<rparr>"

definition demo_registry :: "(nat \<Rightarrow> db_fault option) \<Rightarrow> alert_db alert_registry" where
  "demo_registry faults = \<lparr>rg_store = demo_alert_db faults, rg_step = 30, rg_latest = []\<rparr>"

definition demo_signal :: "string \<Rightarrow> int \<Rightarrow> alert_signal" where
  "demo_signal key n = \<lparr>sg_key = key, sg_code = ALARM_AERO_BUS_UNAVAILABLE, sg_source = ''aero_bus'',
     sg_severity = WARNING, sg_message = ''AERO'', sg_detail = [], sg_occurrences = n\<rparr>"

lemma demo_registry_ok: "alert_db_ok (rg_store (demo_registry faults))"
  by (simp add: demo_registry_def demo_alert_db_def alert_db_ok_def table_ok_def table_records_def journal_ok_def)

theorem alert_journal_invariant_witness:
  "distinct (map rc_alert_id (table_records (ad_durable (rg_store (fold (registry_step sqlite_store)
     [Reconcile ''t1'' [demo_signal ''aero'' 1, demo_signal ''x'' 2], Reconcile ''t2'' [demo_signal ''x'' 3],
      Acknowledge ''t3'' 1, Clear_key ''t4'' ''x'']
     (demo_registry (\<lambda>i. if i = 4 then Some (Db_rolls_back ''disk full'') else None)))))))"
  using alert_journal_invariant[OF demo_registry_ok _ refl disjI2[OF refl],
      of "[Reconcile ''t1'' [demo_signal ''aero'' 1, demo_signal ''x'' 2], Reconcile ''t2'' [demo_signal ''x'' 3],
        Acknowledge ''t3'' 1, Clear_key ''t4'' ''x'']"
      "\<lambda>i. if i = 4 then Some (Db_rolls_back ''disk full'') else None"]
  by (simp add: demo_signal_def)

text \<open>The count that is known for a key: the largest of the one in memory and the one in the journal.\<close>

definition known_count :: "alert_db alert_registry \<Rightarrow> string \<Rightarrow> int" where
  "known_count g k = max (dict_get (rg_latest g) k 0)
     (case live (db_records (rg_store g)) k of None \<Rightarrow> 0 | Some x \<Rightarrow> rc_occurrences x)"

lemma with_latest_fields [simp]:
  "rc_key (with_latest_occurrences l r) = rc_key r" "rc_alert_id (with_latest_occurrences l r) = rc_alert_id r"
  "rc_active_since (with_latest_occurrences l r) = rc_active_since r"
  "rc_acknowledged_at (with_latest_occurrences l r) = rc_acknowledged_at r"
  "metadata_changed (with_latest_occurrences l r) sg = metadata_changed r sg"
  by (simp_all add: with_latest_occurrences_def metadata_changed_def Let_def)

lemma with_latest_count:
  "record_active r \<Longrightarrow> map_of l (rc_key r) = Some n \<Longrightarrow>
     rc_occurrences (with_latest_occurrences l r) = max n (rc_occurrences r)"
  by (simp add: with_latest_occurrences_def dict_get_def Let_def)

lemma signal_effect_fields:
  assumes "signal_effect now step old sg x"
  shows "\<not> metadata_changed x sg"
    and "max (sg_occurrences sg) (rc_occurrences x)
      = max (sg_occurrences sg) (case old of None \<Rightarrow> 0 | Some r \<Rightarrow> rc_occurrences r) \<or> sg_occurrences sg < 0"
    and "case old of None \<Rightarrow> rc_active_since x = now \<and> rc_acknowledged_at x = None
      | Some r \<Rightarrow> rc_alert_id x = rc_alert_id r \<and> rc_active_since x = rc_active_since r
          \<and> rc_acknowledged_at x = rc_acknowledged_at r"
  using assms
  by (auto simp: signal_effect_def metadata_changed_def persist_due_def signal_record_def updated_record_def
      split: option.splits if_splits)

text \<open>What a reconciliation that returns reports, record by record.\<close>

lemma reconcile_reported:
  assumes ok: "alert_db_ok (rg_store g)" and occ: "\<forall>sg \<in> set signals. 1 \<le> sg_occurrences sg"
    and run: "reconcile sqlite_store now signals g = (g', Inr reported)"
  shows "distinct (map rc_key reported) \<and> rc_key ` set reported = sg_key ` set signals
    \<and> (\<forall>r \<in> set reported. \<exists>sg. signal_for signals (rc_key r) = Some sg \<and> \<not> metadata_changed r sg
         \<and> rc_occurrences r = max (known_count g (rc_key r)) (sg_occurrences sg)
         \<and> (case live (db_records (rg_store g)) (rc_key r) of
              None \<Rightarrow> rc_active_since r = now \<and> rc_acknowledged_at r = None
            | Some old \<Rightarrow> rc_alert_id r = rc_alert_id old \<and> rc_active_since r = rc_active_since old
                \<and> rc_acknowledged_at r = rc_acknowledged_at old))
    \<and> closed_records (db_records (rg_store g')) = closed_records (db_records (rg_store g)) \<union>
        {cleared_record x now (max (rc_occurrences x) (dict_get (rg_latest g) k (rc_occurrences x)))
         |k x. live (db_records (rg_store g)) k = Some x \<and> k \<notin> sg_key ` set signals}"
proof -
  note effect = journal_db.reconcile_effect[OF run ok occ]
  then have ok': "alert_db_ok (rg_store g')"
    and reported: "reported = map (with_latest_occurrences (rg_latest g')) (filter record_active (db_records (rg_store g')))"
    and keys: "\<And>k. case signal_for signals k of None \<Rightarrow> live (db_records (rg_store g')) k = None
        | Some sg \<Rightarrow> map_of (rg_latest g') k = Some (sg_occurrences (counted (rg_latest g) sg))
            \<and> (\<exists>x. live (db_records (rg_store g')) k = Some x \<and> signal_effect now (rg_step g)
                 (live (db_records (rg_store g)) k) (counted (rg_latest g) sg) x)"
    by simp_all
  have journal: "journal_ok (db_records (rg_store g'))" by (rule journal_db.journal[OF ok'])
  have "distinct (map rc_key reported)"
    using journal by (simp add: reported comp_def distinct_map journal_ok_def)
  moreover have "rc_key ` set reported = sg_key ` set signals"
  proof -
    have "k \<in> rc_key ` set reported \<longleftrightarrow> live (db_records (rg_store g')) k \<noteq> None" for k
      by (auto simp: reported live_None image_image)
    moreover have "live (db_records (rg_store g')) k \<noteq> None \<longleftrightarrow> k \<in> sg_key ` set signals" for k
      using keys[of k] signal_for_None[of signals k] by (auto split: option.splits)
    ultimately show ?thesis by blast
  qed
  moreover have "\<exists>sg. signal_for signals (rc_key r) = Some sg \<and> \<not> metadata_changed r sg
         \<and> rc_occurrences r = max (known_count g (rc_key r)) (sg_occurrences sg)
         \<and> (case live (db_records (rg_store g)) (rc_key r) of
              None \<Rightarrow> rc_active_since r = now \<and> rc_acknowledged_at r = None
            | Some old \<Rightarrow> rc_alert_id r = rc_alert_id old \<and> rc_active_since r = rc_active_since old
                \<and> rc_acknowledged_at r = rc_acknowledged_at old)" if r: "r \<in> set reported" for r
  proof -
    from r obtain x where x: "r = with_latest_occurrences (rg_latest g') x" "x \<in> set (db_records (rg_store g'))" "record_active x"
      by (auto simp: reported)
    then have live: "live (db_records (rg_store g')) (rc_key x) = Some x" by (simp add: live_Some[OF journal])
    with keys[of "rc_key x"] obtain sg where sg: "signal_for signals (rc_key x) = Some sg"
      "map_of (rg_latest g') (rc_key x) = Some (sg_occurrences (counted (rg_latest g) sg))"
      "signal_effect now (rg_step g) (live (db_records (rg_store g)) (rc_key x)) (counted (rg_latest g) sg) x"
      by (auto split: option.splits)
    from signal_for_key[OF sg(1)] occ have key: "sg_key sg = rc_key x" "1 \<le> sg_occurrences sg" by auto
    note f = signal_effect_fields[OF sg(3)] and n = with_latest_count[OF x(3) sg(2)]
    have "\<not> metadata_changed x sg" using f(1) by (simp add: metadata_changed_def counted_def)
    moreover have "rc_occurrences r = max (known_count g (rc_key r)) (sg_occurrences sg)"
      using n f(2) key by (auto simp: x(1) known_count_def counted_def max_def split: option.splits if_splits)
    ultimately show ?thesis using sg(1) f(3) by (auto simp: x(1) split: option.splits)
  qed
  ultimately show ?thesis using effect by (auto simp: signal_for_None)
qed

text \<open>C19: what a reconciliation that returns has done. The reported records are one for each signalled
  key and carry the last signal of that key; the reported count is the larger of the signalled one and
  the one known before, also when it was not written to the journal; an alert that was active keeps its
  id, start and acknowledgement, a new one starts now and unacknowledged; every other active alert is
  closed now with its final count, and nothing else in the journal is closed or reopened.\<close>

theorem alert_reconcile_exact:
  assumes ok: "alert_db_ok (rg_store g)" and occ: "\<forall>sg \<in> set signals. 1 \<le> sg_occurrences sg"
    and run: "reconcile sqlite_store now signals g = (g', Inr reported)"
  shows "distinct (map rc_key reported) \<and> rc_key ` set reported = sg_key ` set signals
    \<and> (\<forall>r \<in> set reported. \<exists>sg. signal_for signals (rc_key r) = Some sg \<and> \<not> metadata_changed r sg
         \<and> rc_occurrences r = max (known_count g (rc_key r)) (sg_occurrences sg)
         \<and> (case live (db_records (rg_store g)) (rc_key r) of
              None \<Rightarrow> rc_active_since r = now \<and> rc_acknowledged_at r = None
            | Some old \<Rightarrow> rc_alert_id r = rc_alert_id old \<and> rc_active_since r = rc_active_since old
                \<and> rc_acknowledged_at r = rc_acknowledged_at old))
    \<and> closed_records (db_records (rg_store g')) = closed_records (db_records (rg_store g)) \<union>
        {cleared_record x now (max (rc_occurrences x) (dict_get (rg_latest g) k (rc_occurrences x)))
         |k x. live (db_records (rg_store g)) k = Some x \<and> k \<notin> sg_key ` set signals}"
  by (rule reconcile_reported[OF assms])

lemma demo_reconcile:
  "\<exists>g' reported. reconcile sqlite_store ''now'' [demo_signal ''aero'' 2, demo_signal ''aero'' 3]
     (demo_registry (\<lambda>_. None)) = (g', Inr reported)"
  by (simp add: reconcile_def signals_by_key_def dict_of_def demo_signal_def demo_registry_def demo_alert_db_def
      sqlite_store_def on_alerts_def op_bind_def db_list_active_def db_access_def Let_def reconcile_signal_def
      counted_def dict_get_def db_create_def sqlite_int_def db_insert_def db_commit_def db_get_def db_find_def
      row_to_record_def active_records_def parse_alarm_code_def alarm_codes_def parse_severity_def)

theorem alert_reconcile_exact_witness:
  "\<exists>g' reported. reconcile sqlite_store ''now'' [demo_signal ''aero'' 2, demo_signal ''aero'' 3]
     (demo_registry (\<lambda>_. None)) = (g', Inr reported)
     \<and> rc_key ` set reported = {''aero''} \<and> distinct (map rc_key reported)
     \<and> (\<forall>r \<in> set reported. rc_occurrences r = 3 \<and> rc_active_since r = ''now'')"
proof -
  from demo_reconcile obtain g' reported where run: "reconcile sqlite_store ''now''
      [demo_signal ''aero'' 2, demo_signal ''aero'' 3] (demo_registry (\<lambda>_. None)) = (g', Inr reported)" by blast
  have empty: "live (db_records (rg_store (demo_registry f))) k = None" "known_count (demo_registry f) k = 0" for f k
    by (simp_all add: known_count_def demo_registry_def demo_alert_db_def db_records_def table_records_def live_def
        dict_get_def)
  have "\<forall>sg \<in> set [demo_signal ''aero'' 2, demo_signal ''aero'' 3]. 1 \<le> sg_occurrences sg" by (simp add: demo_signal_def)
  note exact = alert_reconcile_exact[OF demo_registry_ok this run, unfolded empty option.case]
  have keys: "rc_key ` set reported = {''aero''}" "distinct (map rc_key reported)"
    using exact by (simp_all add: demo_signal_def)
  have "rc_occurrences r = 3 \<and> rc_active_since r = ''now''" if r: "r \<in> set reported" for r
  proof -
    from r keys(1) have k: "rc_key r = ''aero''" by blast
    have sig: "signal_for [demo_signal ''aero'' 2, demo_signal ''aero'' 3] ''aero'' = Some (demo_signal ''aero'' 3)"
      by (simp add: signal_for_def demo_signal_def)
    from exact r obtain sg where "signal_for [demo_signal ''aero'' 2, demo_signal ''aero'' 3] (rc_key r) = Some sg"
      "rc_occurrences r = max 0 (sg_occurrences sg)" "rc_active_since r = ''now''" by blast
    moreover from this(1) k sig have "sg = demo_signal ''aero'' 3" by simp
    ultimately show ?thesis by (simp add: demo_signal_def)
  qed
  with run keys show ?thesis by blast
qed


text \<open>
  Writes are one \<open>execute\<close> and one \<open>commit\<close> without a rollback. When the commit fails and the transaction
  stays open, the row is visible on the connection, so the next reconciliation finds the alert active,
  writes nothing, and reports it although it is not on disk.
\<close>

lemma alert_reported_not_durable:
  "\<exists>g1 e g2 reported. reconcile sqlite_store ''t1'' [demo_signal ''aero'' 2]
       (demo_registry (\<lambda>i. if i = 2 then Some (Db_fails ''database is locked'') else None)) = (g1, Inl e)
     \<and> reconcile sqlite_store ''t2'' [demo_signal ''aero'' 2] g1 = (g2, Inr reported)
     \<and> map rc_key reported = [''aero''] \<and> at_rows (ad_durable (rg_store g2)) = []"
  by (simp add: reconcile_def signals_by_key_def dict_of_def demo_signal_def demo_registry_def demo_alert_db_def
      sqlite_store_def on_alerts_def op_bind_def db_list_active_def db_access_def Let_def reconcile_signal_def
      counted_def dict_get_def db_create_def sqlite_int_def db_insert_def db_commit_def db_get_def db_find_def
      row_to_record_def active_records_def parse_alarm_code_def alarm_codes_def parse_severity_def
      persist_due_def metadata_changed_def with_latest_occurrences_def record_active_def)

end
