(* ===== verification/Alerting.thy ===== *)
theory Alerting
  imports Service Alerts Shadow
begin

section \<open>The alerting, Zigbee and SHADOW service\<close>

text \<open>
  Models \<open>infrastructure/system_power_monitor.py\<close>, \<open>application/alerting_service.py\<close>,
  \<open>application/zigbee_service.py\<close> and \<open>application/shadow_service.py\<close>: the concrete class that
  \<open>main.py\<close> runs. It keeps the ventilation service and the alert registry. Calls through \<open>self\<close> are
  the overridden methods: the last step of \<open>VentilationService.set_manual\<close>, \<open>stop\<close> and \<open>health_check\<close>
  is \<open>self.state()\<close>, which reads the alert registry and evaluates SHADOW. Text outside ASCII is its
  UTF-8 bytes. The clock readings of a call are an argument.
\<close>

subsection \<open>The power monitor\<close>

record system_power_state =
  pw_available :: bool
  pw_undervoltage_now :: "bool option"
  pw_undervoltage_occurred :: "bool option"
  pw_throttled_mask :: "int option"
  pw_consecutive_failures :: int
  pw_last_error :: "string option"

definition new_power_state :: system_power_state where
  "new_power_state = \<lparr>pw_available = False, pw_undervoltage_now = None, pw_undervoltage_occurred = None,
     pw_throttled_mask = None, pw_consecutive_failures = 0, pw_last_error = None\<rparr>"

text \<open>What running the command gives: its exit status and outputs, or an exception. In the error text
  the quotes of \<open>repr()\<close> are written without its escapes.\<close>

datatype command_run = Ran int string string | Run_raises string

definition hex_value :: "char \<Rightarrow> int option" where
  "hex_value c = (let n = of_char c :: int in
     if 48 \<le> n \<and> n \<le> 57 then Some (n - 48) else if 97 \<le> n \<and> n \<le> 102 then Some (n - 87)
     else if 65 \<le> n \<and> n \<le> 70 then Some (n - 55) else None)"

definition parse_throttled_mask :: "string \<Rightarrow> int result" where
  "parse_throttled_mask output =
     (let text = py_strip output; digits = drop 12 text
      in if take 12 text = ''throttled=0x'' \<and> digits \<noteq> [] \<and> (\<forall>c \<in> set digits. hex_value c \<noteq> None)
         then Inr (foldl (\<lambda>n c. 16 * n + the (hex_value c)) 0 digits)
         else Inl (ValueError (''unexpected vcgencmd get_throttled output: '' @ CHR 0x27 # output @ [CHR 0x27])))"

definition power_read :: "command_run \<Rightarrow> int result" where
  "power_read run = (case run of Run_raises m \<Rightarrow> Inl (OtherException m)
   | Ran status out err \<Rightarrow>
       if status \<noteq> 0
       then (let detail = (if py_strip err \<noteq> [] then py_strip err else if py_strip out \<noteq> [] then py_strip out
                           else ''exit status '' @ show_int status)
             in Inl (RuntimeError (''vcgencmd failed: '' @ detail)))
       else parse_throttled_mask (py_strip out))"

definition power_poll :: "command_run \<Rightarrow> system_power_state \<Rightarrow> system_power_state" where
  "power_poll run previous = (case power_read run of
     Inl e \<Rightarrow> \<lparr>pw_available = False,
       pw_undervoltage_now = (if pw_undervoltage_now previous = Some True then Some True else None),
       pw_undervoltage_occurred = pw_undervoltage_occurred previous, pw_throttled_mask = pw_throttled_mask previous,
       pw_consecutive_failures = pw_consecutive_failures previous + 1, pw_last_error = Some (exc_str e)\<rparr>
   | Inr m \<Rightarrow> \<lparr>pw_available = True, pw_undervoltage_now = Some (has_flag m 0),
       pw_undervoltage_occurred = Some (has_flag m 16), pw_throttled_mask = Some m,
       pw_consecutive_failures = 0, pw_last_error = None\<rparr>)"

subsection \<open>Alert signals of a core state\<close>

text \<open>A signal before \<open>AlertSignal\<close> checks it, and the check.\<close>

definition raw_signal :: "string \<Rightarrow> alarm_code \<Rightarrow> string \<Rightarrow> alarm_severity \<Rightarrow> string \<Rightarrow> string \<Rightarrow> int \<Rightarrow> alert_signal" where
  "raw_signal key code source severity message detail occurrences = \<lparr>sg_key = key, sg_code = code,
     sg_source = source, sg_severity = severity, sg_message = message, sg_detail = detail,
     sg_occurrences = occurrences\<rparr>"

lemma raw_signal_fields [simp]:
  "sg_code (raw_signal k code src sev m d n) = code" "sg_key (raw_signal k code src sev m d n) = k"
  "sg_source (raw_signal k code src sev m d n) = src" "sg_severity (raw_signal k code src sev m d n) = sev"
  "sg_message (raw_signal k code src sev m d n) = m" "sg_detail (raw_signal k code src sev m d n) = d"
  "sg_occurrences (raw_signal k code src sev m d n) = n"
  by (simp_all add: raw_signal_def)

definition construct_signal :: "alert_signal \<Rightarrow> alert_signal result" where
  "construct_signal sg = new_alert_signal (sg_key sg) (sg_code sg) (sg_source sg) (sg_severity sg)
     (sg_message sg) (sg_detail sg) (sg_occurrences sg)"

definition dac_signal :: "alarm_state \<Rightarrow> alert_signal" where
  "dac_signal a = raw_signal (''core:'' @ alarm_code_value (al_code a)) (al_code a) ''dac'' (al_severity a)
     (al_message a) (al_last_error a) (al_occurrences a)"

definition dac_signals :: "core_state \<Rightarrow> alert_signal list" where
  "dac_signals st = map dac_signal (cs_active_alarms st)
     @ (if (\<forall>a \<in> set (cs_active_alarms st). al_code a \<noteq> ALARM_DAC_COMMUNICATION_LOST)
          \<and> (\<not> cs_hardware_ready st \<or> \<not> cs_output_state_known st \<or> 0 < cs_consecutive_hardware_failures st)
        then [raw_signal ''core:DAC_STATE_UNCERTAIN'' ALARM_DAC_STATE_UNCERTAIN ''dac'' WARNING
          (''Stan wyj'' @ [CHR 0xC5, CHR 0x9B] @ [CHR 0xC4, CHR 0x87] @ '' DAC nie jest potwierdzony'')
          ''Oczekiwanie na bezpieczne odzyskanie komunikacji z DAC''
          (max 1 (cs_consecutive_hardware_failures st))]
        else [])"

definition power_signal :: "system_power_state \<Rightarrow> alert_signal list" where
  "power_signal pw =
     (if pw_undervoltage_now pw \<noteq> Some True then []
      else let mask_text = (case pw_throttled_mask pw of None \<Rightarrow> ''unknown'' | Some m \<Rightarrow> ''0x'' @ show_hex (nat m));
               parts = [''Raspberry Pi firmware get_throttled='' @ mask_text @ ''; bit 0 UNDER-VOLTAGE jest aktywny'']
                 @ (if pw_undervoltage_occurred pw = Some True
                    then [(''bit 16 potwierdza wyst'' @ [CHR 0xC4, CHR 0x85] @ ''pienie undervoltage od ostatniego bootu'')] else [])
                 @ (if \<not> pw_available pw
                    then [(''ostatni poprawny odczyt wskazywa'' @ [CHR 0xC5, CHR 0x82] @ '' undervoltage; alert pozostaje aktywny do poprawnego odczytu napi'' @ [CHR 0xC4, CHR 0x99] @ ''cia'')]
                      @ (if str_truthy (pw_last_error pw)
                         then [(''b'' @ [CHR 0xC5, CHR 0x82] @ [CHR 0xC4, CHR 0x85] @ ''d monitora: '') @ the (pw_last_error pw)] else []) else [])
           in [raw_signal ''system:undervoltage'' ALARM_SYSTEM_UNDERVOLTAGE ''system_power'' CRITICAL
                (''CM5: zbyt niskie napi'' @ [CHR 0xC4, CHR 0x99] @ ''cie zasilania'') (join ''; '' parts) 1])"

text \<open>The signals of one sensor node.\<close>

definition sen55_signals :: "sensor_node_state \<Rightarrow> alert_signal list" where
  "sen55_signals n =
     (let address = show_int (slave_address n); source = ''sensor:'' @ address;
          key = (\<lambda>k. ''sensor-node:'' @ address @ '':'' @ k);
          text = (\<lambda>m. ''Czujnik SEN55 '' @ address @ '': '' @ m);
          fault = (\<lambda>present k code m d. if present then [raw_signal (key k) code source WARNING (text m) d 1] else [])
      in if \<not> (online n \<and> sen55_device_status_supported n) then []
         else if \<not> sen55_device_status_valid n \<and> 3 \<le> sen55_diagnostics_failures n
         then [raw_signal (key ''sen55-diagnostics'') ALARM_SEN55_DIAGNOSTICS_UNAVAILABLE source WARNING
                (text (''diagnostyka wewn'' @ [CHR 0xC4, CHR 0x99] @ ''trzna niedost'' @ [CHR 0xC4, CHR 0x99] @ ''pna''))
                ''Brak poprawnego odczytu SEN55 Device Status Register (0xD206)'' (sen55_diagnostics_failures n)]
         else if sen55_device_status_valid n
         then fault (sen55_fan_speed_warning n) ''sen55-fan-speed'' ALARM_SEN55_FAN_SPEED_WARNING
                (''pr'' @ [CHR 0xC4, CHR 0x99] @ ''dko'' @ [CHR 0xC5, CHR 0x9B] @ [CHR 0xC4, CHR 0x87] @ '' wewn'' @ [CHR 0xC4, CHR 0x99] @ ''trznego wentylatora poza zakresem'') ''SEN55 Device Status bit 21 SPEED''
            @ fault (sen55_gas_sensor_error n) ''sen55-gas'' ALARM_SEN55_GAS_SENSOR_ERROR
                (''b'' @ [CHR 0xC5, CHR 0x82] @ [CHR 0xC4, CHR 0x85] @ ''d uk'' @ [CHR 0xC5, CHR 0x82] @ ''adu VOC/NOx'') ''SEN55 Device Status bit 7 GAS SENSOR''
            @ fault (sen55_rht_error n) ''sen55-rht'' ALARM_SEN55_RHT_ERROR
                (''b'' @ [CHR 0xC5, CHR 0x82] @ [CHR 0xC4, CHR 0x85] @ ''d wewn'' @ [CHR 0xC4, CHR 0x99] @ ''trznego czujnika RH/T'') ''SEN55 Device Status bit 6 RHT''
            @ fault (sen55_laser_error n) ''sen55-laser'' ALARM_SEN55_LASER_ERROR
                ''awaria lasera pomiaru PM'' ''SEN55 Device Status bit 5 LASER''
            @ fault (sen55_fan_error n) ''sen55-fan'' ALARM_SEN55_FAN_ERROR
                (''awaria wewn'' @ [CHR 0xC4, CHR 0x99] @ ''trznego wentylatora'') ''SEN55 Device Status bit 4 FAN''
         else [])"

definition node_signals :: "sensor_node_state \<Rightarrow> alert_signal list" where
  "node_signals n =
     (let address = show_int (slave_address n); source = ''sensor:'' @ address in
      if 3 \<le> polls n \<and> 3 \<le> consecutive_failures n \<and> (\<not> online n \<or> \<not> usable n)
      then [raw_signal (''sensor-node:'' @ address @ '':communication'') ALARM_SENSOR_NODE_UNAVAILABLE source WARNING
             (''Czujnik SEN55 '' @ address @ '': brak poprawnej komunikacji'') (str_or (last_error n) [])
             (consecutive_failures n)]
      else sen55_signals n
        @ (if 3 \<le> polls n \<and> online n \<and> (measurement_stale n \<and> 3 \<le> stale_measurements n
               \<or> \<not> measurement_valid n \<and> 3 \<le> invalid_measurements n)
           then [raw_signal (''sensor-node:'' @ address @ '':data'') ALARM_SENSOR_DATA_INVALID source WARNING
             (''Czujnik SEN55 '' @ address @ ('': dane pomiarowe s'' @ [CHR 0xC4, CHR 0x85] @ '' nieprawid'' @ [CHR 0xC5, CHR 0x82] @ ''owe'')) (str_or (last_error n) [])
             (max 1 (max (stale_measurements n) (invalid_measurements n)))]
           else []))"

definition sensor_signals :: "core_state \<Rightarrow> alert_signal list" where
  "sensor_signals st = (case cs_sensor_bus st of None \<Rightarrow> []
   | Some sb \<Rightarrow>
       (if \<not> sb_worker_alive sb \<or> \<not> sb_ready sb \<and> str_truthy (sb_last_error sb)
        then [raw_signal ''sensor-bus:health'' ALARM_SENSOR_BUS_UNAVAILABLE ''sensor_bus'' WARNING
               (''SENSOR BUS nie dzia'' @ [CHR 0xC5, CHR 0x82] @ ''a poprawnie'') (str_or (sb_last_error sb) []) (max 1 (sb_worker_restarts sb))]
        else []) @ concat (map node_signals (sb_nodes sb)))"

definition aero_signals :: "core_state \<Rightarrow> alert_signal list" where
  "aero_signals st = (case cs_aero_bus st of None \<Rightarrow> []
   | Some a \<Rightarrow>
       (if \<not> ab_worker_alive a \<or> 3 \<le> ab_consecutive_failures a \<and> (\<not> ab_online a \<or> \<not> ab_usable a)
          \<or> \<not> ab_ready a \<and> str_truthy (ab_last_error a)
        then [raw_signal ''aero-bus:communication'' ALARM_AERO_BUS_UNAVAILABLE ''aero_bus'' WARNING
               ''Rekuperator AERO: brak poprawnej komunikacji'' (str_or (ab_last_error a) [])
               (max 1 (ab_consecutive_failures a))]
        else []))"

text \<open>\<open>str.upper()\<close> of the two channel names.\<close>

definition channel_upper :: "string \<Rightarrow> string" where
  "channel_upper channel = (if channel = ''supply'' then ''SUPPLY'' else ''EXTRACT'')"

definition tacho_signals :: "string list \<Rightarrow> core_state \<Rightarrow> alert_signal list" where
  "tacho_signals required st =
     (let missing = (\<lambda>what channel. raw_signal (''tacho:configuration:'' @ channel) ALARM_TACHO_CONFIGURATION_INVALID
            (''tacho:'' @ channel) WARNING (what @ channel_upper channel) [] 1)
      in case cs_tacho st of
           None \<Rightarrow> map (missing ''Brak wymaganego monitora TACHO: '') required
         | Some t \<Rightarrow>
             (if \<not> tm_worker_alive t \<or> str_truthy (tm_last_error t)
              then [raw_signal ''tacho:monitor'' ALARM_TACHO_MONITOR_UNAVAILABLE ''tacho'' WARNING
                     (''Monitor TACHO nie dzia'' @ [CHR 0xC5, CHR 0x82] @ ''a poprawnie'') (str_or (tm_last_error t) []) 1]
              else [])
             @ map (missing (''Brak wymaganego kana'' @ [CHR 0xC5, CHR 0x82] @ ''u TACHO: ''))
                 (filter (\<lambda>c. (if c = ''supply'' then tm_supply t else tm_extract t) = None) required))"

subsection \<open>Zigbee alerts\<close>

text \<open>\<open>_age_seconds\<close>, with the age of a timestamp that parses as an input.\<close>

definition age_seconds_of :: "(string \<Rightarrow> py_float option) \<Rightarrow> string option \<Rightarrow> py_float option" where
  "age_seconds_of age value = (case value of None \<Rightarrow> None | Some v \<Rightarrow> if v = [] then None
     else map_option (\<lambda>x. if flt (Fin 0) x then x else Fin 0) (age v))"

record zigbee_limits =
  zt_low_battery_percent :: py_float
  zt_stale_seconds :: py_float

definition new_zigbee_limits :: "py_float \<Rightarrow> py_float \<Rightarrow> zigbee_limits result" where
  "new_zigbee_limits low stale =
     (if \<not> (fle (Fin 0) low \<and> fle low (Fin 100))
      then Inl (ValueError ''Zigbee low battery threshold must be in range 0..100'')
      else if fle stale (Fin 0) then Inl (ValueError ''Zigbee stale threshold must be positive'')
      else Inr \<lparr>zt_low_battery_percent = low, zt_stale_seconds = stale\<rparr>)"

text \<open>\<open>str(int(x))\<close> of a number of seconds.\<close>

definition show_floor :: "py_float \<Rightarrow> string" where
  "show_floor x = (case x of Fin r \<Rightarrow> show_int (\<lfloor>r\<rfloor>) | _ \<Rightarrow> [])"

definition device_present :: "zigbee_mqtt_state \<Rightarrow> zigbee_device_state \<Rightarrow> bool" where
  "device_present z d = (zm_inventory_updated_at z = None
     \<or> (\<exists>i \<in> set (zm_inventory z). \<not> is_coordinator i
          \<and> (zd_ieee_address d = Some (zi_ieee_address i) \<or> zi_friendly_name i = zd_friendly_name d)))"

definition device_signals :: "zigbee_limits \<Rightarrow> (string \<Rightarrow> py_float option) \<Rightarrow> zigbee_mqtt_state \<Rightarrow>
    zigbee_device_state \<Rightarrow> alert_signal list" where
  "device_signals limits age z d =
     (let name = zd_friendly_name d; source = ''zigbee:'' @ name;
          key = (\<lambda>k. ''zigbee:device:'' @ zd_role d @ '':'' @ k);
          present = device_present z d
      in if \<not> present \<or> zd_available d = Some False
         then [raw_signal (key ''offline'') ALARM_ZIGBEE_DEVICE_OFFLINE source WARNING
                (''Zigbee '' @ name @ ('': urz'' @ [CHR 0xC4, CHR 0x85] @ ''dzenie niedost'' @ [CHR 0xC4, CHR 0x99] @ ''pne''))
                (if \<not> present then (''Urz'' @ [CHR 0xC4, CHR 0x85] @ ''dzenie nie wyst'' @ [CHR 0xC4, CHR 0x99] @ ''puje w bridge/devices'')
                 else ''Zigbee2MQTT availability=offline'') 1]
         else
           (let seen = age_seconds_of age (zd_last_seen d);
                (a, what) = (case seen of None \<Rightarrow> (age_seconds_of age (zd_last_message_at d), ''last_message_at'')
                             | Some x \<Rightarrow> (Some x, ''last_seen''))
            in (case a of None \<Rightarrow> [] | Some x \<Rightarrow>
                 if 0 < zd_messages d \<and> flt (zt_stale_seconds limits) x
                 then [raw_signal (key ''stale'') ALARM_ZIGBEE_DEVICE_DATA_STALE source WARNING
                        (''Zigbee '' @ name @ ('': brak '' @ [CHR 0xC5, CHR 0x9B] @ ''wie'' @ [CHR 0xC5, CHR 0xBC] @ ''ych danych''))
                        (''Wiek ostatniego pomiaru ('' @ what @ '') '' @ show_floor x @ '' s; ''
                         @ (''pr'' @ [CHR 0xC3, CHR 0xB3] @ ''g '') @ show_floor (zt_stale_seconds limits) @ '' s'') 1]
                 else []))
           @ (case zd_battery_percent d of None \<Rightarrow> [] | Some b \<Rightarrow>
                 if fle b (zt_low_battery_percent limits)
                 then [raw_signal (key ''battery'') ALARM_ZIGBEE_LOW_BATTERY source WARNING
                        (''Zigbee '' @ name @ '': niski poziom baterii'')
                        (''Bateria '' @ fmt_fixed0 b @ ''%; '' @ (''pr'' @ [CHR 0xC3, CHR 0xB3] @ ''g '') @ fmt_fixed0 (zt_low_battery_percent limits) @ ''%'') 1]
                 else []))"

definition zigbee_signals :: "zigbee_limits \<Rightarrow> (string \<Rightarrow> py_float option) \<Rightarrow> zigbee_mqtt_state result \<Rightarrow>
    alert_signal list" where
  "zigbee_signals limits age r = (case r of
     Inl e \<Rightarrow> [raw_signal ''zigbee:mqtt'' ALARM_ZIGBEE_MQTT_DISCONNECTED ''zigbee'' WARNING
       (''Zigbee: stan klienta MQTT jest niedost'' @ [CHR 0xC4, CHR 0x99] @ ''pny'') (exc_str e) 1]
   | Inr z \<Rightarrow>
       (if zm_running z \<and> \<not> zm_connected z \<and> (zm_disconnected_at z \<noteq> None \<or> str_truthy (zm_last_error z))
        then [raw_signal ''zigbee:mqtt'' ALARM_ZIGBEE_MQTT_DISCONNECTED ''zigbee'' WARNING
               (''Zigbee: brak po'' @ [CHR 0xC5, CHR 0x82] @ [CHR 0xC4, CHR 0x85] @ ''czenia z lokalnym brokerem MQTT'') (str_or (zm_last_error z) ''MQTT disconnected'') 1]
        else [])
       @ (if zm_connected z \<and> zm_bridge_online z = Some False
          then [raw_signal ''zigbee:bridge'' ALARM_ZIGBEE_BRIDGE_OFFLINE ''zigbee'' WARNING
                 ''Zigbee2MQTT jest offline'' (''Broker MQTT dzia'' @ [CHR 0xC5, CHR 0x82] @ ''a, ale retained bridge/state zg'' @ [CHR 0xC5, CHR 0x82] @ ''asza offline'') 1]
          else [])
       @ concat (map (device_signals limits age z) (zm_devices z)))"

subsection \<open>The service\<close>

record 'w power_port =
  pp_poll :: "('w, unit) op"
  pp_state :: "('w, system_power_state) op"
  pp_close :: "('w, unit) op"

record 'w zigbee_port =
  zb_state :: "('w, zigbee_mqtt_state) op"
  zb_health_check :: "('w, unit) op"
  zb_permit_join :: "int \<Rightarrow> ('w, py_value) op"
  zb_remove_device :: "string \<Rightarrow> ('w, py_value) op"
  zb_rename_device :: "string \<Rightarrow> string \<Rightarrow> ('w, py_value) op"
  zb_assign_role :: "string \<Rightarrow> string option \<Rightarrow> ('w, py_value) op"
  zb_acknowledge_pairing :: "string \<Rightarrow> ('w, py_value) op"
  zb_close :: "('w, unit) op"

text \<open>What the object is built with, and what the clock says during a call.\<close>

record ('w, 's) alerting_config =
  ac_ports :: "'w ports"
  ac_store :: "'s alert_store"
  ac_required :: "string list"
  ac_power :: "'w power_port option"
  ac_zigbee :: "'w zigbee_port option"
  ac_limits :: zigbee_limits
  ac_evaluate :: "string \<Rightarrow> core_state \<Rightarrow> shadow_automation_state"

record clock =
  ck_core :: string
  ck_alerts :: string
  ck_shadow :: string
  ck_age :: "string \<Rightarrow> py_float option"

record ('w, 's) alerting =
  av_core :: "'w service"
  av_registry :: "'s alert_registry"

definition on_core :: "('w service, 'a) op \<Rightarrow> (('w, 's) alerting, 'a) op" where
  "on_core m av = (let (sv, r) = m (av_core av) in (av\<lparr>av_core := sv\<rparr>, r))"

definition on_registry :: "('s alert_registry, 'a) op \<Rightarrow> (('w, 's) alerting, 'a) op" where
  "on_registry m av = (let (g, r) = m (av_registry av) in (av\<lparr>av_registry := g\<rparr>, r))"

text \<open>\<open>super().state()\<close> of the alerting class.\<close>

definition raw_state :: "('w, 's) alerting_config \<Rightarrow> (('w, 's) alerting, core_state) op" where
  "raw_state c = on_core (service_state (ac_ports c))"

text \<open>\<open>_with_system_alerts\<close> as SHADOW overrides it, and \<open>_with_zigbee\<close>.\<close>

definition with_system_alerts :: "('w, 's) alerting_config \<Rightarrow> clock \<Rightarrow> core_state \<Rightarrow> (('w, 's) alerting, core_state) op" where
  "with_system_alerts c ck st = op_bind (on_registry (active_alarm_states (ac_store c))) (\<lambda>alarms.
     let authoritative = st\<lparr>cs_active_alarms := alarms\<rparr>
     in op_return (authoritative\<lparr>cs_shadow_automation := Some (ac_evaluate c (ck_shadow ck) authoritative)\<rparr>))"

definition with_zigbee :: "('w, 's) alerting_config \<Rightarrow> core_state \<Rightarrow> (('w, 's) alerting, core_state) op" where
  "with_zigbee c st = (case ac_zigbee c of None \<Rightarrow> op_return st
   | Some z \<Rightarrow> op_catch (op_bind (on_core (on_world (zb_state z))) (\<lambda>s. op_return (st\<lparr>cs_zigbee := Some s\<rparr>)))
       (\<lambda>_. True) (\<lambda>_. op_return st))"

definition alerting_state :: "('w, 's) alerting_config \<Rightarrow> clock \<Rightarrow> (('w, 's) alerting, core_state) op" where
  "alerting_state c ck = op_bind (op_bind (raw_state c) (with_system_alerts c ck)) (with_zigbee c)"

text \<open>Reading a monitor for its signals: the result, an exception included, is a value.\<close>

definition read_power :: "('w, 's) alerting_config \<Rightarrow> (('w, 's) alerting, alert_signal list) op" where
  "read_power c = (case ac_power c of None \<Rightarrow> op_return []
   | Some p \<Rightarrow> op_catch (op_bind (on_core (on_world (pp_state p))) (\<lambda>pw. op_return (power_signal pw)))
       (\<lambda>_. True) (\<lambda>_. op_return []))"

definition read_zigbee :: "('w, 's) alerting_config \<Rightarrow> clock \<Rightarrow> (('w, 's) alerting, alert_signal list) op" where
  "read_zigbee c ck = (case ac_zigbee c of None \<Rightarrow> op_return []
   | Some z \<Rightarrow> (\<lambda>av. let (av', r) = on_core (on_world (zb_state z)) av
       in (av', Inr (zigbee_signals (ac_limits c) (ck_age ck) r))))"

text \<open>\<open>_sync_alerts\<close>: every signal of the state is constructed, then the registry reconciles them.\<close>

definition sync_alerts :: "('w, 's) alerting_config \<Rightarrow> clock \<Rightarrow> core_state \<Rightarrow> (('w, 's) alerting, unit) op" where
  "sync_alerts c ck st = op_bind (read_power c) (\<lambda>power_signals. op_bind (read_zigbee c ck) (\<lambda>zigbee.
     op_bind (op_lift (map_result construct_signal (dac_signals st @ power_signals @ sensor_signals st
       @ aero_signals st @ tacho_signals (ac_required c) st @ zigbee))) (\<lambda>signals.
     op_bind (on_registry (reconcile (ac_store c) (ck_alerts ck) signals)) (\<lambda>_. op_return ()))))"

text \<open>\<open>_sync_dac_only\<close>.\<close>

primrec sync_dac_only :: "('w, 's) alerting_config \<Rightarrow> clock \<Rightarrow> alarm_state list \<Rightarrow> (('w, 's) alerting, unit) op" where
  "sync_dac_only c ck [] = op_return ()"
| "sync_dac_only c ck (a # as) = op_bind (op_lift (construct_signal (dac_signal a))) (\<lambda>sg.
     op_bind (on_registry (activate (ac_store c) (ck_alerts ck) sg)) (\<lambda>_. sync_dac_only c ck as))"

text \<open>The constructor.\<close>

definition new_alerting :: "('w, 's) alerting_config \<Rightarrow> clock \<Rightarrow> 's alert_registry \<Rightarrow> fan_setpoint_policy \<Rightarrow> int \<Rightarrow> 'w \<Rightarrow>
    ('w, 's) alerting result" where
  "new_alerting c ck registry policy threshold w =
     (if \<not> set (ac_required c) \<subseteq> {''supply'', ''extract''}
      then Inl (ValueError (''Unsupported required TACHO channels: ['' @ join '', ''
        (map (\<lambda>s. CHR 0x27 # s @ [CHR 0x27])
          (sort (remdups (filter (\<lambda>s. s \<notin> {''supply'', ''extract''}) (ac_required c))))) @ '']''))
      else rbind (service_new (ac_ports c) policy threshold (ck_core ck) w) (\<lambda>sv.
        let (av, r) = op_bind (raw_state c) (\<lambda>st. sync_dac_only c ck (cs_active_alarms st))
              \<lparr>av_core = sv, av_registry = registry\<rparr>
        in rbind r (\<lambda>_. Inr av)))"

text \<open>
  A commanding method \<open>m\<close> of the ventilation service: \<open>m\<close>, then \<open>self.state()\<close>; when either raises, the
  alerts are synchronised and the exception goes on; otherwise a fresh state is taken and published.
\<close>

definition commanded :: "('w, 's) alerting_config \<Rightarrow> clock \<Rightarrow> ('w service, unit) op \<Rightarrow> (('w, 's) alerting, core_state) op" where
  "commanded c ck m = op_bind (op_bind
     (op_catch (op_bind (on_core m) (\<lambda>_. alerting_state c ck)) (\<lambda>_. True)
       (\<lambda>e. op_bind (raw_state c) (\<lambda>st. op_bind (sync_alerts c ck st) (\<lambda>_. op_raise e))))
     (\<lambda>_. op_bind (raw_state c) (\<lambda>raw. op_bind (sync_alerts c ck raw) (\<lambda>_. with_system_alerts c ck raw))))
     (with_zigbee c)"

definition alerting_set_manual :: "('w, 's) alerting_config \<Rightarrow> clock \<Rightarrow> py_float \<Rightarrow> py_float \<Rightarrow>
    (('w, 's) alerting, core_state) op" where
  "alerting_set_manual c ck s e =
     commanded c ck (command_fans (ac_ports c) (ck_core ck) \<lparr>fs_supply_voltage = s, fs_extract_voltage = e\<rparr>)"

definition alerting_stop :: "('w, 's) alerting_config \<Rightarrow> clock \<Rightarrow> (('w, 's) alerting, core_state) op" where
  "alerting_stop c ck = commanded c ck (force_stop (ac_ports c) (ck_core ck))"

text \<open>The health check: Zigbee first, then the DAC and the monitors, then the power monitor.\<close>

definition zigbee_health :: "('w, 's) alerting_config \<Rightarrow> 'w service \<Rightarrow> 'w service" where
  "zigbee_health c sv = (case ac_zigbee c of None \<Rightarrow> sv | Some z \<Rightarrow> op_ignore (on_world (zb_health_check z)) sv)"

definition power_health :: "('w, 's) alerting_config \<Rightarrow> 'w service \<Rightarrow> 'w service" where
  "power_health c sv = (case ac_power c of None \<Rightarrow> sv | Some p \<Rightarrow> op_ignore (on_world (pp_poll p)) sv)"

definition alerting_health_check :: "('w, 's) alerting_config \<Rightarrow> clock \<Rightarrow> (('w, 's) alerting, core_state) op" where
  "alerting_health_check c ck =
     op_bind (op_bind (on_core (\<lambda>sv. (monitors_health (ac_ports c) (dac_health (ac_ports c) (ck_core ck) (zigbee_health c sv)), Inr ())))
       (\<lambda>_. op_bind (alerting_state c ck)
       (\<lambda>_. op_bind (on_core (\<lambda>sv. (power_health c sv, Inr ())))
       (\<lambda>_. op_bind (raw_state c) (\<lambda>raw. op_bind (sync_alerts c ck raw) (\<lambda>_. with_system_alerts c ck raw))))))
     (with_zigbee c)"

definition acknowledge_alert :: "('w, 's) alerting_config \<Rightarrow> clock \<Rightarrow> int \<Rightarrow> (('w, 's) alerting, alert_record) op" where
  "acknowledge_alert c ck i = on_registry (acknowledge (ac_store c) (ck_alerts ck) i)"

text \<open>The Zigbee management commands.\<close>

definition zigbee_command :: "('w, 's) alerting_config \<Rightarrow> ('w zigbee_port \<Rightarrow> ('w, 'a) op) \<Rightarrow> (('w, 's) alerting, 'a) op" where
  "zigbee_command c m = (case ac_zigbee c of
     None \<Rightarrow> op_raise (RuntimeError ''Zigbee is not configured'') | Some z \<Rightarrow> on_core (on_world (m z)))"

definition alerting_close :: "('w, 's) alerting_config \<Rightarrow> (('w, 's) alerting, unit) op" where
  "alerting_close c = op_finally
     (op_finally (on_core (service_close (ac_ports c)))
       (op_finally (on_registry (on_alerts (as_close (ac_store c))))
         (case ac_power c of None \<Rightarrow> op_return () | Some p \<Rightarrow> (\<lambda>av. (op_ignore (on_core (on_world (pp_close p))) av, Inr ())))))
     (case ac_zigbee c of None \<Rightarrow> op_return () | Some z \<Rightarrow> (\<lambda>av. (op_ignore (on_core (on_world (zb_close z))) av, Inr ())))"

end
