(* ===== verification/Supervision.thy ===== *)
theory Supervision
  imports Alerting AlertStores
begin

section \<open>The supervising service: what its layers promise\<close>

text \<open>
  Properties of the composed service: the alert, Zigbee and SHADOW layers leave the ventilation service
  to itself, and what is published agrees with it.
\<close>

subsection \<open>The layers only read the world\<close>

definition layer_reads :: "('w, 's) alerting_config \<Rightarrow> ('w \<Rightarrow> 'w) set" where
  "layer_reads c = state_ops (ac_ports c)
     \<union> {f. \<exists>z. ac_zigbee c = Some z \<and> f = (\<lambda>w. fst (zb_state z w))}
     \<union> {f. \<exists>p. ac_power c = Some p \<and> (f = (\<lambda>w. fst (pp_state p w)) \<or> f = (\<lambda>w. fst (pp_poll p w)))}"

text \<open>Methods that reach the ventilation service only by such reads.\<close>

definition reads_only :: "('w, 's) alerting_config \<Rightarrow> (('w, 's) alerting, 'a) op \<Rightarrow> bool" where
  "reads_only c m = (\<forall>av. \<exists>fs. set fs \<subseteq> layer_reads c
     \<and> av_core (fst (m av)) = (av_core av)\<lparr>sv_world := fold (\<lambda>f. f) fs (sv_world (av_core av))\<rparr>)"

named_theorems reads "methods that only read the world"

lemma reads_only_same: "(\<And>av. av_core (fst (m av)) = av_core av) \<Longrightarrow> reads_only c m"
  unfolding reads_only_def by (auto intro!: exI[of _ "[]"])

lemma reads_only_return [reads]: "reads_only c (op_return x)"
  by (rule reads_only_same) simp

lemma reads_only_raise [reads]: "reads_only c (op_raise e)"
  by (rule reads_only_same) simp

lemma reads_only_lift [reads]: "reads_only c (op_lift r)"
  by (rule reads_only_same) simp

lemma reads_only_registry [reads]: "reads_only c (on_registry m)"
  by (rule reads_only_same) (simp add: on_registry_def split: prod.splits)

lemma reads_only_core [reads]:
  fixes c :: "('w, 's) alerting_config"
  assumes "world_only (layer_reads c) m" shows "reads_only c (on_core m)"
  unfolding reads_only_def
proof
  fix av :: "('w, 's) alerting"
  obtain fs where "set fs \<subseteq> layer_reads c" "fst (m (av_core av)) = (av_core av)\<lparr>sv_world := fold (\<lambda>f. f) fs (sv_world (av_core av))\<rparr>"
    using assms unfolding world_only_def by blast
  then show "\<exists>fs. set fs \<subseteq> layer_reads c
      \<and> av_core (fst (on_core m av)) = (av_core av)\<lparr>sv_world := fold (\<lambda>f. f) fs (sv_world (av_core av))\<rparr>"
    by (intro exI[of _ fs]) (auto simp: on_core_def split: prod.splits)
qed

lemma reads_only_then:
  assumes "reads_only c m" "\<And>x. reads_only c (f x)" "\<And>e. reads_only c (h e)"
  shows "reads_only c (\<lambda>av. case m av of (av1, Inl e) \<Rightarrow> h e av1 | (av1, Inr x) \<Rightarrow> f x av1)"
  unfolding reads_only_def
proof
  fix av
  obtain av1 r where m: "m av = (av1, r)" by force
  obtain fs where fs: "set fs \<subseteq> layer_reads c" "av_core av1 = (av_core av)\<lparr>sv_world := fold (\<lambda>f. f) fs (sv_world (av_core av))\<rparr>"
    using assms(1) m unfolding reads_only_def by (metis fst_conv)
  define n where "n = (case r of Inl e \<Rightarrow> h e | Inr x \<Rightarrow> f x)"
  have "reads_only c n" using assms(2,3) by (cases r) (simp_all add: n_def)
  then obtain gs where gs: "set gs \<subseteq> layer_reads c"
    "av_core (fst (n av1)) = (av_core av1)\<lparr>sv_world := fold (\<lambda>f. f) gs (sv_world (av_core av1))\<rparr>"
    unfolding reads_only_def by blast
  have "(case m av of (av1, Inl e) \<Rightarrow> h e av1 | (av1, Inr x) \<Rightarrow> f x av1) = n av1"
    by (simp add: m n_def split: sum.split)
  with fs gs show "\<exists>fs. set fs \<subseteq> layer_reads c
      \<and> av_core (fst (case m av of (av1, Inl e) \<Rightarrow> h e av1 | (av1, Inr x) \<Rightarrow> f x av1))
        = (av_core av)\<lparr>sv_world := fold (\<lambda>f. f) fs (sv_world (av_core av))\<rparr>"
    by (intro exI[of _ "fs @ gs"]) simp
qed

lemma reads_only_bind [reads]:
  assumes "reads_only c m" "\<And>x. reads_only c (f x)" shows "reads_only c (op_bind m f)"
proof -
  have "op_bind m f = (\<lambda>av. case m av of (av1, Inl e) \<Rightarrow> op_raise e av1 | (av1, Inr x) \<Rightarrow> f x av1)"
    by (auto simp: op_bind_def fun_eq_iff split: prod.splits sum.splits)
  then show ?thesis using reads_only_then[OF assms reads_only_raise] by (simp only:)
qed

lemma reads_only_catch [reads]:
  assumes "reads_only c m" "\<And>e. reads_only c (h e)" shows "reads_only c (op_catch m (\<lambda>_. True) h)"
proof -
  have "op_catch m (\<lambda>_. True) h = (\<lambda>av. case m av of (av1, Inl e) \<Rightarrow> h e av1 | (av1, Inr x) \<Rightarrow> op_return x av1)"
    by (auto simp: op_catch_def fun_eq_iff split: prod.splits sum.splits)
  then show ?thesis using reads_only_then[OF assms(1) reads_only_return assms(2)] by (simp only:)
qed

lemma reads_only_raw_state [reads]: "reads_only c (raw_state c)"
  unfolding raw_state_def
  by (intro reads world_only_sub[OF world_only_state]) (auto simp: layer_reads_def)

lemma reads_only_alerts [reads]: "reads_only c (with_system_alerts c ck st)"
  unfolding with_system_alerts_def Let_def by (intro reads)

lemma zigbee_read: "ac_zigbee c = Some z \<Longrightarrow> world_only (layer_reads c) (on_world (zb_state z))"
  by (rule world_only_on_world) (auto simp: layer_reads_def)

lemma power_read: "ac_power c = Some p \<Longrightarrow> world_only (layer_reads c) (on_world (pp_state p))"
  by (rule world_only_on_world) (auto simp: layer_reads_def)

lemma reads_only_zigbee [reads]: "reads_only c (with_zigbee c st)"
  unfolding with_zigbee_def by (cases "ac_zigbee c") (auto intro!: reads zigbee_read)

lemma reads_only_state [reads]: "reads_only c (alerting_state c ck)"
  unfolding alerting_state_def by (intro reads)

lemma reads_only_read_power [reads]: "reads_only c (read_power c)"
  unfolding read_power_def by (cases "ac_power c") (auto intro!: reads power_read)

lemma reads_only_read_zigbee [reads]: "reads_only c (read_zigbee c ck)"
proof (cases "ac_zigbee c")
  case None
  then show ?thesis by (simp add: read_zigbee_def reads_only_return)
next
  case (Some z)
  have "reads_only c (on_core (on_world (zb_state z)))"
    by (intro reads zigbee_read Some)
  moreover have "fst (read_zigbee c ck av) = fst (on_core (on_world (zb_state z)) av)" for av
    by (simp add: read_zigbee_def Some Let_def split: prod.splits)
  ultimately show ?thesis by (simp add: reads_only_def)
qed

lemma reads_only_sync [reads]: "reads_only c (sync_alerts c ck st)"
  unfolding sync_alerts_def by (intro reads)


text \<open>What follows a method of the ventilation service.\<close>

lemma commanded_core:
  "\<exists>fs. set fs \<subseteq> layer_reads c \<and> av_core (fst (commanded c ck m av)) =
     (fst (m (av_core av)))\<lparr>sv_world := fold (\<lambda>f. f) fs (sv_world (fst (m (av_core av))))\<rparr>"
proof -
  obtain sv r where m: "m (av_core av) = (sv, r)" by force
  define rest :: "(('a, 'b) alerting, core_state) op" where "rest = op_bind (op_bind
     (op_catch (op_bind (op_lift r) (\<lambda>_. alerting_state c ck)) (\<lambda>_. True)
       (\<lambda>e. op_bind (raw_state c) (\<lambda>st. op_bind (sync_alerts c ck st) (\<lambda>_. op_raise e))))
     (\<lambda>_. op_bind (raw_state c) (\<lambda>raw. op_bind (sync_alerts c ck raw) (\<lambda>_. with_system_alerts c ck raw))))
     (with_zigbee c)"
  have "commanded c ck m av = rest (av\<lparr>av_core := sv\<rparr>)"
    by (simp add: commanded_def rest_def m on_core_def op_bind_def op_catch_def op_lift_def split: sum.split)
  moreover have "reads_only c rest" unfolding rest_def by (intro reads)
  then obtain fs where "set fs \<subseteq> layer_reads c"
    "av_core (fst (rest (av\<lparr>av_core := sv\<rparr>))) = (av_core (av\<lparr>av_core := sv\<rparr>))\<lparr>sv_world :=
       fold (\<lambda>f. f) fs (sv_world (av_core (av\<lparr>av_core := sv\<rparr>)))\<rparr>"
    unfolding reads_only_def by blast
  ultimately show ?thesis using m by auto
qed

lemma op_bind_first: "m s = (s1, Inr x) \<Longrightarrow> op_bind (op_bind m g) h s = op_bind (g x) h s1"
  by (simp add: op_bind_def)

lemma health_check_core:
  fixes after :: "'w service \<Rightarrow> 'w service"
  assumes after_def: "after = (\<lambda>sv. monitors_health (ac_ports c) (dac_health (ac_ports c) (ck_core ck) (zigbee_health c sv)))"
  shows "\<exists>fs. set fs \<subseteq> layer_reads c \<and> av_core (fst (alerting_health_check c ck av)) =
     (after (av_core av))\<lparr>sv_world := fold (\<lambda>f. f) fs (sv_world (after (av_core av)))\<rparr>"
proof -
  define rest where "rest = op_bind (op_bind (alerting_state c ck)
       (\<lambda>_. op_bind (on_core (\<lambda>sv. (power_health c sv, Inr ())))
       (\<lambda>_. op_bind (raw_state c) (\<lambda>raw. op_bind (sync_alerts c ck raw) (\<lambda>_. with_system_alerts c ck raw)))))
     (with_zigbee c)"
  have "alerting_health_check c ck av = rest (av\<lparr>av_core := after (av_core av)\<rparr>)"
    unfolding alerting_health_check_def rest_def by (rule op_bind_first) (simp add: on_core_def after_def)
  moreover have "world_only (layer_reads c) (\<lambda>sv. (power_health c sv, Inr ()))"
  proof (cases "ac_power c")
    case None
    then show ?thesis by (simp add: power_health_def world_only_return)
  next
    case (Some p)
    have "world_only (layer_reads c) (on_world (pp_poll p))"
      by (rule world_only_on_world) (auto simp: layer_reads_def Some)
    then show ?thesis by (simp add: world_only_def power_health_def Some op_ignore_def)
  qed
  then have "reads_only c rest" unfolding rest_def by (intro reads)
  then obtain fs where "set fs \<subseteq> layer_reads c"
    "av_core (fst (rest (av\<lparr>av_core := after (av_core av)\<rparr>)))
      = (av_core (av\<lparr>av_core := after (av_core av)\<rparr>))\<lparr>sv_world :=
          fold (\<lambda>f. f) fs (sv_world (av_core (av\<lparr>av_core := after (av_core av)\<rparr>)))\<rparr>"
    unfolding reads_only_def by blast
  ultimately show ?thesis by auto
qed

text \<open>C20: the layers around the ventilation service never change what it does. After a fan command, a
  stop or a health check of the composed service, and whatever the alert journal, the Zigbee monitor,
  the power monitor and the SHADOW evaluator do, exceptions included, the ventilation service is where
  its own command, stop or check puts it; beyond that the world has only been read: the states of the
  monitors were taken, and the power monitor polled.\<close>

theorem layers_never_interfere:
  "\<exists>fs gs hs. set fs \<subseteq> layer_reads c \<and> set gs \<subseteq> layer_reads c \<and> set hs \<subseteq> layer_reads c
    \<and> (let sv = fst (command_fans (ac_ports c) (ck_core ck) \<lparr>fs_supply_voltage = s, fs_extract_voltage = e\<rparr> (av_core av))
       in av_core (fst (alerting_set_manual c ck s e av)) = sv\<lparr>sv_world := fold (\<lambda>f. f) fs (sv_world sv)\<rparr>)
    \<and> (let sv = fst (force_stop (ac_ports c) (ck_core ck) (av_core av))
       in av_core (fst (alerting_stop c ck av)) = sv\<lparr>sv_world := fold (\<lambda>f. f) gs (sv_world sv)\<rparr>)
    \<and> (let sv = monitors_health (ac_ports c) (dac_health (ac_ports c) (ck_core ck) (zigbee_health c (av_core av)))
       in av_core (fst (alerting_health_check c ck av)) = sv\<lparr>sv_world := fold (\<lambda>f. f) hs (sv_world sv)\<rparr>)"
proof -
  let ?cmd = "command_fans (ac_ports c) (ck_core ck) \<lparr>fs_supply_voltage = s, fs_extract_voltage = e\<rparr>"
  from commanded_core[of c ck ?cmd av] obtain fs where fs: "set fs \<subseteq> layer_reads c"
    "av_core (fst (alerting_set_manual c ck s e av))
      = (fst (?cmd (av_core av)))\<lparr>sv_world := fold (\<lambda>f. f) fs (sv_world (fst (?cmd (av_core av))))\<rparr>"
    unfolding alerting_set_manual_def by blast
  let ?stop = "force_stop (ac_ports c) (ck_core ck)"
  from commanded_core[of c ck ?stop av] obtain gs where gs: "set gs \<subseteq> layer_reads c"
    "av_core (fst (alerting_stop c ck av))
      = (fst (?stop (av_core av)))\<lparr>sv_world := fold (\<lambda>f. f) gs (sv_world (fst (?stop (av_core av))))\<rparr>"
    unfolding alerting_stop_def by blast
  from health_check_core[OF refl, of c ck av] fs gs show ?thesis by (simp add: Let_def) blast
qed


subsection \<open>What is published\<close>

lemma construct_signal_same:
  "construct_signal sg = Inr sg' \<Longrightarrow> sg' = sg \<and> 1 \<le> sg_occurrences sg"
  by (auto simp: construct_signal_def new_alert_signal_def split: if_splits)

lemma construct_signals_same:
  assumes "map_result construct_signal sgs = Inr sgs'"
  shows "sgs' = sgs \<and> (\<forall>sg \<in> set sgs. 1 \<le> sg_occurrences sg)"
proof -
  from assms have "list_all2 (\<lambda>sg sg'. construct_signal sg = Inr sg') sgs sgs'" by (simp add: map_result_Inr_iff)
  then show ?thesis by (induction rule: list_all2_induct) (auto dest: construct_signal_same)
qed

text \<open>The signals that are not about the DAC.\<close>

definition other_signal :: "alert_signal \<Rightarrow> bool" where
  "other_signal sg = (sg_code sg \<notin> {ALARM_DAC_COMMUNICATION_LOST, ALARM_DAC_STATE_UNCERTAIN}
     \<and> take 1 (sg_key sg) \<noteq> ''c'')"

lemma other_power: "\<forall>sg \<in> set (power_signal pw). other_signal sg"
  by (simp add: power_signal_def other_signal_def Let_def)

lemma other_node: "\<forall>sg \<in> set (node_signals n). other_signal sg"
  by (auto simp: node_signals_def sen55_signals_def other_signal_def Let_def)

lemma other_sensor: "\<forall>sg \<in> set (sensor_signals st). other_signal sg"
  using other_node by (auto simp: sensor_signals_def other_signal_def split: option.split)

lemma other_aero: "\<forall>sg \<in> set (aero_signals st). other_signal sg"
  by (auto simp: aero_signals_def other_signal_def split: option.splits if_splits)

lemma other_tacho: "\<forall>sg \<in> set (tacho_signals required st). other_signal sg"
  by (auto simp: tacho_signals_def other_signal_def Let_def split: option.split)

lemma other_device: "\<forall>sg \<in> set (device_signals limits age z d). other_signal sg"
  by (auto simp: device_signals_def other_signal_def Let_def split: option.splits prod.splits if_splits)

lemma other_zigbee: "\<forall>sg \<in> set (zigbee_signals limits age r). other_signal sg"
  using other_device by (auto simp: zigbee_signals_def other_signal_def split: sum.split)

lemma read_signals:
  "read_power c av = (av', Inr sgs) \<Longrightarrow> \<forall>sg \<in> set sgs. other_signal sg"
  "read_zigbee c ck av = (av', Inr zs) \<Longrightarrow> \<forall>sg \<in> set zs. other_signal sg"
  using other_power other_zigbee
  by (auto simp: read_power_def read_zigbee_def op_catch_def op_bind_def Let_def
      split: option.splits prod.splits sum.splits if_splits)

text \<open>A synchronisation that returns: the journal was reconciled with the signals of the state.\<close>

lemma on_core_registry [simp]: "av_registry (fst (on_core m av)) = av_registry av"
  by (simp add: on_core_def split: prod.splits)

lemma on_core_run_registry: "on_core m av = (av', r) \<Longrightarrow> av_registry av' = av_registry av"
  using on_core_registry[of m av] by simp

lemma read_registry:
  "read_power c av = (av', r) \<Longrightarrow> av_registry av' = av_registry av"
  "read_zigbee c ck av = (av', q) \<Longrightarrow> av_registry av' = av_registry av"
  by (auto simp: read_power_def read_zigbee_def op_catch_def op_bind_def Let_def
      split: option.splits prod.splits sum.splits if_splits dest!: on_core_run_registry)

lemma sync_alerts_run:
  assumes "sync_alerts c ck st av = (av', Inr u)"
  obtains others reported where "\<forall>sg \<in> set others. other_signal sg"
    "\<forall>sg \<in> set (dac_signals st @ others). 1 \<le> sg_occurrences sg"
    "reconcile (ac_store c) (ck_alerts ck) (dac_signals st @ others) (av_registry av) = (av_registry av', Inr reported)"
proof -
  from assms obtain av1 ps av2 zs signals reported where
    p: "read_power c av = (av1, Inr ps)" and z: "read_zigbee c ck av1 = (av2, Inr zs)"
    and signals: "map_result construct_signal (dac_signals st @ ps @ sensor_signals st @ aero_signals st
       @ tacho_signals (ac_required c) st @ zs) = Inr signals"
    and run: "on_registry (reconcile (ac_store c) (ck_alerts ck) signals) av2 = (av', Inr reported)"
    by (auto simp: sync_alerts_def op_bind_eq_Inr)
  let ?others = "ps @ sensor_signals st @ aero_signals st @ tacho_signals (ac_required c) st @ zs"
  from construct_signals_same[OF signals] have same: "signals = dac_signals st @ ?others"
    and occ: "\<forall>sg \<in> set (dac_signals st @ ?others). 1 \<le> sg_occurrences sg" by simp_all
  have others: "\<forall>sg \<in> set ?others. other_signal sg"
    using read_signals(1)[OF p] read_signals(2)[OF z] other_sensor other_aero other_tacho by auto
  from run have "reconcile (ac_store c) (ck_alerts ck) (dac_signals st @ ?others) (av_registry av)
      = (av_registry av', Inr reported)"
    using read_registry(1)[OF p] read_registry(2)[OF z] same by (auto simp: on_registry_def split: prod.splits)
  with that[OF others occ] show thesis by blast
qed


lemma reads_only_fields:
  assumes "reads_only c m" "m av = (av', r)"
  shows "sv_mode (av_core av') = sv_mode (av_core av) \<and> sv_active_alarms (av_core av') = sv_active_alarms (av_core av)
    \<and> sv_recovery_required (av_core av') = sv_recovery_required (av_core av)
    \<and> sv_output_state_known (av_core av') = sv_output_state_known (av_core av)
    \<and> sv_failures (av_core av') = sv_failures (av_core av)"
proof -
  obtain fs where "av_core (fst (m av)) = (av_core av)\<lparr>sv_world := fold (\<lambda>f. f) fs (sv_world (av_core av))\<rparr>"
    using assms(1) unfolding reads_only_def by blast
  with assms(2) show ?thesis by simp
qed

lemma raw_state_fields:
  assumes "raw_state c av = (av', Inr raw)"
  shows "cs_mode raw = sv_mode (av_core av') \<and> cs_active_alarms raw = map snd (sv_active_alarms (av_core av'))
    \<and> cs_output_state_known raw = sv_output_state_known (av_core av')
    \<and> (cs_hardware_ready raw \<longrightarrow> \<not> sv_recovery_required (av_core av')) \<and> av_registry av' = av_registry av"
  using assms
  by (auto simp: raw_state_def on_core_def service_state_def op_bind_eq_Inr split: prod.splits)

text \<open>What a health check that returns has gone through.\<close>

lemma health_check_run:
  assumes "alerting_health_check c ck av = (av', Inr st)"
  obtains av1 st0 av2 av3 raw av4 av5 st1 where
    "av1 = av\<lparr>av_core := monitors_health (ac_ports c) (dac_health (ac_ports c) (ck_core ck) (zigbee_health c (av_core av)))\<rparr>"
    "alerting_state c ck av1 = (av2, Inr st0)"
    "raw_state c (av2\<lparr>av_core := power_health c (av_core av2)\<rparr>) = (av3, Inr raw)"
    "sync_alerts c ck raw av3 = (av4, Inr ())" "with_system_alerts c ck raw av4 = (av5, Inr st1)"
    "with_zigbee c st1 av5 = (av', Inr st)"
  using assms that by (auto simp: alerting_health_check_def op_bind_eq_Inr on_core_def)

lemma with_zigbee_fields:
  "with_zigbee c st1 av = (av', Inr st) \<Longrightarrow> cs_active_alarms st = cs_active_alarms st1 \<and> cs_mode st = cs_mode st1
     \<and> cs_hardware_ready st = cs_hardware_ready st1 \<and> cs_output_state_known st = cs_output_state_known st1
     \<and> cs_shadow_automation st = cs_shadow_automation st1"
  by (auto simp: with_zigbee_def op_catch_def op_bind_def split: option.splits prod.splits sum.splits if_splits)

lemma alarms_read:
  assumes "with_system_alerts c ck raw av = (av', r)" "ac_store c = sqlite_store" "alert_db_ok (rg_store (av_registry av))"
  shows "alert_db_ok (rg_store (av_registry av')) \<and> (\<forall>st. r = Inr st \<longrightarrow>
    (let rs = map (with_latest_occurrences (rg_latest (av_registry av)))
          (filter record_active (db_records (rg_store (av_registry av))));
         published = raw\<lparr>cs_active_alarms := map to_alarm_state rs\<rparr>
     in st = published\<lparr>cs_shadow_automation := Some (ac_evaluate c (ck_shadow ck) published)\<rparr>))"
proof -
  obtain g q where a: "active_records sqlite_store (av_registry av) = (g, q)" by force
  from journal_db.active_records_effect[OF a assms(3)] a assms(1,2) show ?thesis
    by (cases q) (auto simp: with_system_alerts_def on_registry_def active_alarm_states_def op_bind_def Let_def)
qed

lemma with_zigbee_registry: "with_zigbee c st av = (av', r) \<Longrightarrow> av_registry av' = av_registry av"
  by (auto simp: with_zigbee_def op_catch_def op_bind_def split: option.splits prod.splits sum.splits if_splits
      dest!: on_core_run_registry)

lemma alerting_state_registry:
  assumes "alerting_state c ck av = (av', r)" "ac_store c = sqlite_store" "alert_db_ok (rg_store (av_registry av))"
  shows "alert_db_ok (rg_store (av_registry av'))"
proof -
  obtain av1 r1 where raw: "raw_state c av = (av1, r1)" by force
  then have reg1: "av_registry av1 = av_registry av" unfolding raw_state_def by (rule on_core_run_registry)
  show ?thesis
  proof (cases r1)
    case (Inl e)
    with raw assms(1,3) reg1 show ?thesis by (auto simp: alerting_state_def op_bind_def)
  next
    case (Inr st)
    obtain av2 r2 where sys: "with_system_alerts c ck st av1 = (av2, r2)" by force
    from alarms_read[OF this assms(2)] assms(3) reg1 have ok: "alert_db_ok (rg_store (av_registry av2))" by simp
    show ?thesis
    proof (cases r2)
      case (Inl e)
      with raw Inr sys assms(1) ok show ?thesis by (auto simp: alerting_state_def op_bind_def)
    next
      case (Inr st2)
      with raw \<open>r1 = Inr st\<close> sys assms(1) have "with_zigbee c st2 av2 = (av', r)"
        by (simp add: alerting_state_def op_bind_def)
      with ok show ?thesis by (simp add: with_zigbee_registry)
    qed
  qed
qed

text \<open>The record of the DAC alarm is the core's own alarm.\<close>

lemma alarm_code_value_inj: "alarm_code_value a = alarm_code_value b \<longleftrightarrow> a = b"
  by (metis parse_alarm_code_value sum.inject(2))

lemma dac_code_signal:
  assumes "sg \<in> set (dac_signals st @ others)" "\<forall>sg \<in> set others. other_signal sg"
    "sg_code sg = ALARM_DAC_COMMUNICATION_LOST"
  shows "\<exists>a \<in> set (cs_active_alarms st). al_code a = ALARM_DAC_COMMUNICATION_LOST \<and> sg = dac_signal a"
  using assms by (auto simp: dac_signals_def dac_signal_def other_signal_def split: if_splits)


lemma zigbee_health_world: "\<exists>w. zigbee_health c sv = sv\<lparr>sv_world := w\<rparr>"
proof (cases "ac_zigbee c")
  case None
  then have "zigbee_health c sv = sv\<lparr>sv_world := sv_world sv\<rparr>" by (simp add: zigbee_health_def)
  then show ?thesis by blast
next
  case (Some z)
  obtain sv' r where run: "on_world (zb_health_check z) sv = (sv', r)" by force
  from on_world_frame[OF run] run show ?thesis by (auto simp: zigbee_health_def op_ignore_def Some)
qed

lemma power_health_world: "\<exists>w. power_health c sv = sv\<lparr>sv_world := w\<rparr>"
proof (cases "ac_power c")
  case None
  then have "power_health c sv = sv\<lparr>sv_world := sv_world sv\<rparr>" by (simp add: power_health_def)
  then show ?thesis by blast
next
  case (Some p)
  obtain sv' r where run: "on_world (pp_poll p) sv = (sv', r)" by force
  from on_world_frame[OF run] run show ?thesis by (auto simp: power_health_def op_ignore_def Some)
qed

lemma blocked_zone:
  assumes "safety_blocked st"
  shows "sp_final_supply_pct (policy_zone p st b) = None \<and> sp_final_extract_pct (policy_zone p st b) = None
    \<and> sp_proposed_aero_speed (policy_zone p st b) = None"
  using assms by (simp add: policy_zone_def proposed_outputs_def Let_def)

text \<open>In FAULT the DAC alarm is among the signals under its own key; otherwise no signal has its code.\<close>

lemma fault_signals:
  assumes fault: "fault_ok sv" and alarms: "cs_active_alarms raw = map snd (sv_active_alarms sv)"
    and others: "\<forall>sg \<in> set others. other_signal sg"
  shows "(sv_mode sv \<noteq> MODE_FAULT \<longrightarrow> (\<forall>sg \<in> set (dac_signals raw @ others). sg_code sg \<noteq> ALARM_DAC_COMMUNICATION_LOST))
    \<and> (sv_mode sv = MODE_FAULT \<longrightarrow> (\<exists>a. sv_active_alarms sv = [(ALARM_DAC_COMMUNICATION_LOST, a)] \<and> dac_alarm_ok a
        \<and> signal_for (dac_signals raw @ others) (sg_key (dac_signal a)) = Some (dac_signal a)
        \<and> (\<forall>sg \<in> set (dac_signals raw @ others). sg_code sg = ALARM_DAC_COMMUNICATION_LOST \<longrightarrow> sg = dac_signal a)))"
proof (cases "sv_mode sv = MODE_FAULT")
  case False
  then have "cs_active_alarms raw = []" using fault alarms by (simp add: fault_ok_def)
  then show ?thesis using False dac_code_signal[OF _ others] by fastforce
next
  case True
  then obtain a where a: "sv_active_alarms sv = [(ALARM_DAC_COMMUNICATION_LOST, a)]" "dac_alarm_ok a"
    using fault by (auto simp: fault_ok_def)
  then have sigs: "dac_signals raw = [dac_signal a]" using alarms by (simp add: dac_signals_def dac_alarm_ok_def)
  define signals where "signals = dac_signals raw @ others"
  have only: "sg = dac_signal a" if "sg \<in> set signals" "sg_key sg = sg_key (dac_signal a)" for sg
    using that others by (auto simp: signals_def sigs other_signal_def dac_signal_def)
  have "sg_key (dac_signal a) \<in> sg_key ` set signals" by (simp add: signals_def sigs)
  then obtain sg where sg: "signal_for signals (sg_key (dac_signal a)) = Some sg"
    using signal_for_None[of signals] by fastforce
  from signal_for_key[OF sg] only have "sg = dac_signal a" by blast
  moreover have "\<forall>sg \<in> set signals. sg_code sg = ALARM_DAC_COMMUNICATION_LOST \<longrightarrow> sg = dac_signal a"
    using dac_code_signal[OF _ others, of _ raw] by (auto simp: signals_def alarms a(1))
  ultimately show ?thesis using True a sg unfolding signals_def by simp
qed


text \<open>Reconciled with these signals, the journal holds the alarm in FAULT and only then.\<close>

lemma fault_reported:
  assumes fault: "fault_ok sv" and alarms: "cs_active_alarms raw = map snd (sv_active_alarms sv)"
    and others: "\<forall>sg \<in> set others. other_signal sg"
    and occ: "\<forall>sg \<in> set (dac_signals raw @ others). 1 \<le> sg_occurrences sg" and ok: "alert_db_ok (rg_store g)"
    and run: "reconcile sqlite_store now (dac_signals raw @ others) g = (g', Inr reported)"
  shows "(ALARM_DAC_COMMUNICATION_LOST \<in> rc_code ` set reported \<longleftrightarrow> sv_mode sv = MODE_FAULT)
    \<and> (sv_mode sv = MODE_FAULT \<longrightarrow> (\<exists>a. sv_active_alarms sv = [(ALARM_DAC_COMMUNICATION_LOST, a)]
        \<and> (\<forall>r \<in> set reported. rc_code r = ALARM_DAC_COMMUNICATION_LOST \<longrightarrow> rc_severity r = CRITICAL
             \<and> rc_message r = al_message a \<and> rc_detail r = al_last_error a \<and> al_occurrences a \<le> rc_occurrences r)))"
proof -
  note signals = fault_signals[OF fault alarms others]
  note all = reconcile_reported[OF ok occ run]
  have rep: "\<exists>sg \<in> set (dac_signals raw @ others). rc_code r = sg_code sg \<and> rc_severity r = sg_severity sg
      \<and> rc_message r = sg_message sg \<and> rc_detail r = sg_detail sg \<and> sg_occurrences sg \<le> rc_occurrences r"
    if r: "r \<in> set reported" for r
  proof -
    from all r obtain sg where sg: "signal_for (dac_signals raw @ others) (rc_key r) = Some sg"
      "\<not> metadata_changed r sg" "rc_occurrences r = max (known_count g (rc_key r)) (sg_occurrences sg)" by blast
    from signal_for_key[OF sg(1)] have "sg \<in> set (dac_signals raw @ others)" by blast
    with sg(2,3) show ?thesis by (intro bexI[of _ sg]) (simp_all add: metadata_changed_def)
  qed
  show ?thesis
  proof (cases "sv_mode sv = MODE_FAULT")
    case False
    then show ?thesis using signals rep by (metis imageE)
  next
    case True
    with signals obtain a where a: "sv_active_alarms sv = [(ALARM_DAC_COMMUNICATION_LOST, a)]" "dac_alarm_ok a"
      "signal_for (dac_signals raw @ others) (sg_key (dac_signal a)) = Some (dac_signal a)"
      "\<forall>sg \<in> set (dac_signals raw @ others). sg_code sg = ALARM_DAC_COMMUNICATION_LOST \<longrightarrow> sg = dac_signal a" by blast
    from all have "rc_key ` set reported = sg_key ` set (dac_signals raw @ others)" by blast
    with signal_for_key[OF a(3)] have "sg_key (dac_signal a) \<in> rc_key ` set reported" by blast
    then obtain r where r: "r \<in> set reported" "rc_key r = sg_key (dac_signal a)" by force
    from all r(1) obtain sg where "signal_for (dac_signals raw @ others) (rc_key r) = Some sg" "\<not> metadata_changed r sg" by blast
    moreover from this r(2) a(3) have "sg = dac_signal a" by simp
    ultimately have "rc_code r = ALARM_DAC_COMMUNICATION_LOST"
      using a(2) by (simp add: metadata_changed_def dac_signal_def dac_alarm_ok_def)
    with r(1) have "ALARM_DAC_COMMUNICATION_LOST \<in> rc_code ` set reported" by force
    moreover have "rc_severity r = CRITICAL \<and> rc_message r = al_message a \<and> rc_detail r = al_last_error a
        \<and> al_occurrences a \<le> rc_occurrences r"
      if "r \<in> set reported" "rc_code r = ALARM_DAC_COMMUNICATION_LOST" for r
      using rep[OF that(1)] that(2) a(2,4) by (fastforce simp: dac_signal_def dac_alarm_ok_def)
    ultimately show ?thesis using True a(1) by blast
  qed
qed

text \<open>The steps after the DAC was checked: the fields of the core stay, the journal is reconciled with
  them, and the journal is what is published.\<close>

lemma health_check_published:
  assumes store: "ac_store c = sqlite_store" and ok: "alert_db_ok (rg_store (av_registry av))"
    and fault: "fault_ok (av_core av)" and run: "alerting_health_check c ck av = (av', Inr st)"
  obtains raw others g g' reported published where
    "fault_ok (av_core av')" "cs_mode raw = sv_mode (av_core av')"
    "cs_active_alarms raw = map snd (sv_active_alarms (av_core av'))"
    "cs_hardware_ready raw \<longrightarrow> \<not> sv_recovery_required (av_core av')" "alert_db_ok (rg_store g)"
    "\<forall>sg \<in> set others. other_signal sg" "\<forall>sg \<in> set (dac_signals raw @ others). 1 \<le> sg_occurrences sg"
    "reconcile sqlite_store (ck_alerts ck) (dac_signals raw @ others) g = (g', Inr reported)"
    "published = raw\<lparr>cs_active_alarms := map to_alarm_state reported\<rparr>"
    "cs_active_alarms st = cs_active_alarms published" "cs_mode st = cs_mode raw"
    "cs_hardware_ready st = cs_hardware_ready raw"
    "cs_shadow_automation st = Some (ac_evaluate c (ck_shadow ck) published)"
proof -
  from run obtain av1 st0 av2 av3 raw av4 av5 st1 where
    av1: "av1 = av\<lparr>av_core := monitors_health (ac_ports c) (dac_health (ac_ports c) (ck_core ck) (zigbee_health c (av_core av)))\<rparr>"
    and s: "alerting_state c ck av1 = (av2, Inr st0)"
    and r: "raw_state c (av2\<lparr>av_core := power_health c (av_core av2)\<rparr>) = (av3, Inr raw)"
    and y: "sync_alerts c ck raw av3 = (av4, Inr ())" and w: "with_system_alerts c ck raw av4 = (av5, Inr st1)"
    and z: "with_zigbee c st1 av5 = (av', Inr st)" by (rule health_check_run)
  obtain w0 where "zigbee_health c (av_core av) = (av_core av)\<lparr>sv_world := w0\<rparr>" using zigbee_health_world[of c "av_core av"] by blast
  with fault have f1: "fault_ok (av_core av1)"
    by (simp add: av1 monitors_health_def fault_ok_dac_health)
  obtain w1 where pw: "power_health c (av_core av2) = (av_core av2)\<lparr>sv_world := w1\<rparr>" using power_health_world[of c "av_core av2"] by blast
  have core: "fault_ok (av_core b)" if "reads_only c m" "m a = (b, q)" "fault_ok (av_core a)"
    for m :: "(('a, alert_db) alerting, 'x) op" and a b q
    using that unfolding reads_only_def by (metis fst_conv fault_ok_world(1))
  have f2: "fault_ok (av_core av2)" by (rule core[OF reads_only_state s f1])
  then have "fault_ok (av_core (av2\<lparr>av_core := power_health c (av_core av2)\<rparr>))" by (simp add: pw)
  from core[OF reads_only_raw_state r this] have f3: "fault_ok (av_core av3)" .
  from f3 have f: "fault_ok (av_core av')"
    using core[OF reads_only_sync y] core[OF reads_only_alerts w] core[OF reads_only_zigbee z] by blast
  note kept = reads_only_fields[OF reads_only_sync y] reads_only_fields[OF reads_only_alerts w]
    reads_only_fields[OF reads_only_zigbee z] raw_state_fields[OF r]
  have "alert_db_ok (rg_store (av_registry av1))" using ok by (simp add: av1)
  from alerting_state_registry[OF s store this] have ok3: "alert_db_ok (rg_store (av_registry av3))"
    using raw_state_fields[OF r] by simp
  from sync_alerts_run[OF y] obtain others reported where others: "\<forall>sg \<in> set others. other_signal sg"
    and occ: "\<forall>sg \<in> set (dac_signals raw @ others). 1 \<le> sg_occurrences sg"
    and rec: "reconcile (ac_store c) (ck_alerts ck) (dac_signals raw @ others) (av_registry av3) = (av_registry av4, Inr reported)" .
  note effect = journal_db.reconcile_effect[OF rec[unfolded store] ok3 occ]
  define published where "published = raw\<lparr>cs_active_alarms := map to_alarm_state reported\<rparr>"
  have "alert_db_ok (rg_store (av_registry av4))" and "reported = map (with_latest_occurrences (rg_latest (av_registry av4)))
      (filter record_active (db_records (rg_store (av_registry av4))))" using effect by blast+
  then have st1: "st1 = published\<lparr>cs_shadow_automation := Some (ac_evaluate c (ck_shadow ck) published)\<rparr>"
    using alarms_read[OF w store] by (simp add: published_def Let_def)
  show thesis
    by (rule that[OF f _ _ _ ok3 others occ rec[unfolded store] published_def])
      (use kept with_zigbee_fields[OF z] in \<open>simp_all add: st1 published_def\<close>)
qed


text \<open>C21: the DAC fault reaches the operator, and nothing else is reported as one. A health check of the
  composed service that returns publishes an alarm DAC_COMMUNICATION_LOST exactly when the ventilation
  service is in FAULT, whatever the buses, the monitors and the journal held before. In FAULT that alarm
  is CRITICAL and carries the message and the error of the core's own alarm with at least its count; the
  published state shows FAULT and hardware that is not ready, and the SHADOW evaluation published with it
  is blocked for safety and proposes no output for any zone.\<close>

theorem fault_published:
  assumes store: "ac_store c = sqlite_store" and ok: "alert_db_ok (rg_store (av_registry av))"
    and fault: "fault_ok (av_core av)" and eval: "ac_evaluate c = (\<lambda>now. evaluate_shadow now p bindings)"
    and run: "alerting_health_check c ck av = (av', Inr st)"
  shows "(ALARM_DAC_COMMUNICATION_LOST \<in> al_code ` set (cs_active_alarms st) \<longleftrightarrow> sv_mode (av_core av') = MODE_FAULT)
    \<and> cs_mode st = sv_mode (av_core av')
    \<and> (sv_mode (av_core av') = MODE_FAULT \<longrightarrow>
        (\<exists>a. sv_active_alarms (av_core av') = [(ALARM_DAC_COMMUNICATION_LOST, a)]
          \<and> (\<forall>b \<in> set (cs_active_alarms st). al_code b = ALARM_DAC_COMMUNICATION_LOST \<longrightarrow> al_severity b = CRITICAL
               \<and> al_message b = al_message a \<and> al_last_error b = al_last_error a \<and> al_occurrences a \<le> al_occurrences b))
        \<and> \<not> cs_hardware_ready st
        \<and> (\<exists>sh. cs_shadow_automation st = Some sh \<and> sh_status sh = SHADOW_BLOCKED_SAFETY
             \<and> (\<forall>z \<in> set (sh_zones sh). sp_final_supply_pct z = None \<and> sp_final_extract_pct z = None
                  \<and> sp_proposed_aero_speed z = None)))"
proof -
  from health_check_published[OF store ok fault run] obtain raw others g g' reported published where
    f: "fault_ok (av_core av')" and mode: "cs_mode raw = sv_mode (av_core av')"
    and alarms: "cs_active_alarms raw = map snd (sv_active_alarms (av_core av'))"
    and ready: "cs_hardware_ready raw \<longrightarrow> \<not> sv_recovery_required (av_core av')" and gok: "alert_db_ok (rg_store g)"
    and others: "\<forall>sg \<in> set others. other_signal sg"
    and occ: "\<forall>sg \<in> set (dac_signals raw @ others). 1 \<le> sg_occurrences sg"
    and rec: "reconcile sqlite_store (ck_alerts ck) (dac_signals raw @ others) g = (g', Inr reported)"
    and pub: "published = raw\<lparr>cs_active_alarms := map to_alarm_state reported\<rparr>"
    and st: "cs_active_alarms st = cs_active_alarms published" "cs_mode st = cs_mode raw"
      "cs_hardware_ready st = cs_hardware_ready raw"
      "cs_shadow_automation st = Some (ac_evaluate c (ck_shadow ck) published)" .
  note reported = fault_reported[OF f alarms others occ gok rec]
  have alarm: "cs_active_alarms st = map to_alarm_state reported" by (simp add: st(1) pub)
  have code: "al_code ` set (cs_active_alarms st) = rc_code ` set reported"
    by (simp add: alarm image_image to_alarm_state_def)
  show ?thesis
  proof (cases "sv_mode (av_core av') = MODE_FAULT")
    case False
    then show ?thesis using reported mode st(2) by (simp add: code)
  next
    case True
    with f have "sv_recovery_required (av_core av')" by (auto simp: fault_ok_def)
    with ready have not_ready: "\<not> cs_hardware_ready raw" by blast
    then have "safety_blocked published" by (simp add: safety_blocked_def pub)
    then have "sh_status (evaluate_shadow (ck_shadow ck) p bindings published) = SHADOW_BLOCKED_SAFETY
        \<and> (\<forall>z \<in> set (sh_zones (evaluate_shadow (ck_shadow ck) p bindings published)). sp_final_supply_pct z = None
             \<and> sp_final_extract_pct z = None \<and> sp_proposed_aero_speed z = None)"
      using blocked_zone by (simp add: evaluate_shadow_def)
    moreover from reported True have "\<exists>a. sv_active_alarms (av_core av') = [(ALARM_DAC_COMMUNICATION_LOST, a)]
        \<and> (\<forall>b \<in> set (cs_active_alarms st). al_code b = ALARM_DAC_COMMUNICATION_LOST \<longrightarrow> al_severity b = CRITICAL
             \<and> al_message b = al_message a \<and> al_last_error b = al_last_error a \<and> al_occurrences a \<le> al_occurrences b)"
      by (simp add: alarm to_alarm_state_def)
    ultimately show ?thesis using True reported mode st(2-4) not_ready by (simp add: code eval)
  qed
qed

text \<open>A core whose actuator cannot be recovered, with threshold 1, and nothing else configured.\<close>

definition demo_fault_ports :: "unit ports" where
  "demo_fault_ports = \<lparr>po_ready = (\<lambda>_. False), po_last_error = (\<lambda>_. None), po_apply = (\<lambda>_. op_return ()),
     po_stop_all = op_return (), po_health_check = op_return (), po_recover = op_raise (RuntimeError ''I2C''),
     po_close = op_return (), po_sensor_bus = None, po_aero_bus = None,
     po_execute_control = (\<lambda>_. op_raise (RuntimeError [])), po_tacho = None, po_schedule = None\<rparr>"

definition demo_fault_config :: "(unit, alert_db) alerting_config" where
  "demo_fault_config = \<lparr>ac_ports = demo_fault_ports, ac_store = sqlite_store, ac_required = [], ac_power = None,
     ac_zigbee = None, ac_limits = \<lparr>zt_low_battery_percent = Fin 20, zt_stale_seconds = Fin 3600\<rparr>,
     ac_evaluate = (\<lambda>now. evaluate_shadow now (shadow_policy_v1 no_tuning) [])\<rparr>"

definition demo_alert_clock :: clock where
  "demo_alert_clock = \<lparr>ck_core = ''t1'', ck_alerts = ''t2'', ck_shadow = ''t3'', ck_age = (\<lambda>_. None)\<rparr>"

definition demo_fault :: "(unit, alert_db) alerting" where
  "demo_fault = \<lparr>av_core = \<lparr>sv_world = (), sv_policy = default_policy, sv_threshold = 1,
     sv_setpoints = stopped, sv_mode = MODE_STOP, sv_output_state_known = True, sv_failures = 0,
     sv_recovery_required = False, sv_active_alarms = [], sv_aero_lock = False\<rparr>, av_registry = demo_registry (\<lambda>_. None)\<rparr>"

lemma demo_fault_start [simp]: "ac_store demo_fault_config = sqlite_store" "fault_ok (av_core demo_fault)"
  "alert_db_ok (rg_store (av_registry demo_fault))"
  "ac_evaluate demo_fault_config = (\<lambda>now. evaluate_shadow now (shadow_policy_v1 no_tuning) [])"
  using stopped_valid[of default_policy]
  by (auto simp: demo_fault_config_def demo_fault_def fault_ok_def demo_registry_ok)

lemma demo_fault_parts [simp]: "ac_ports demo_fault_config = demo_fault_ports" "ac_power demo_fault_config = None"
  "ac_zigbee demo_fault_config = None" "ac_required demo_fault_config = []" "ck_core demo_alert_clock = ''t1''"
  "ck_alerts demo_alert_clock = ''t2''" "av_registry demo_fault = demo_registry (\<lambda>_. None)"
  by (simp_all add: demo_fault_config_def demo_alert_clock_def demo_fault_def)

definition demo_dac_alarm :: alarm_state where
  "demo_dac_alarm = snd (hd (sv_active_alarms (dac_health demo_fault_ports ''t1'' (av_core demo_fault))))"

lemma demo_journal: "\<exists>g1 g2 rs g3 as. active_alarm_states sqlite_store (demo_registry (\<lambda>_. None)) = (g1, Inr [])
    \<and> reconcile sqlite_store ''t2'' [dac_signal demo_dac_alarm] g1 = (g2, Inr rs)
    \<and> active_alarm_states sqlite_store g2 = (g3, Inr as)"
  by (simp add: reconcile_def signals_by_key_def dict_of_def demo_registry_def demo_alert_db_def
      sqlite_store_def on_alerts_def op_bind_def db_list_active_def db_access_def Let_def reconcile_signal_def
      counted_def dict_get_def db_create_def sqlite_int_def db_insert_def db_commit_def db_get_def db_find_def
      row_to_record_def active_records_def parse_alarm_code_def alarm_codes_def parse_severity_def
      active_alarm_states_def demo_dac_alarm_def dac_health_def demo_fault_def demo_fault_ports_def on_world_def
      record_hardware_failure_def activate_dac_alarm_def dac_signal_def raw_signal_def)


lemma demo_fault_signals:
  assumes "cs_active_alarms raw = [demo_dac_alarm]" "cs_sensor_bus raw = None" "cs_aero_bus raw = None"
    "cs_tacho raw = None"
  shows "sync_alerts demo_fault_config demo_alert_clock raw av =
    op_bind (on_registry (reconcile sqlite_store ''t2'' [dac_signal demo_dac_alarm])) (\<lambda>_. op_return ()) av"
proof -
  have "construct_signal (dac_signal demo_dac_alarm) = Inr (dac_signal demo_dac_alarm)"
    by (simp add: construct_signal_def new_alert_signal_def dac_signal_def raw_signal_def demo_dac_alarm_def DAC_ALARM_MESSAGE_def
        dac_health_def demo_fault_def demo_fault_ports_def on_world_def Let_def record_hardware_failure_def activate_dac_alarm_def)
  moreover have "dac_signals raw = [dac_signal demo_dac_alarm]"
    by (simp add: dac_signals_def assms demo_dac_alarm_def dac_health_def demo_fault_def demo_fault_ports_def
        on_world_def Let_def record_hardware_failure_def activate_dac_alarm_def)
  ultimately show ?thesis
    by (simp add: sync_alerts_def read_power_def read_zigbee_def sensor_signals_def aero_signals_def tacho_signals_def
        assms op_bind_def op_lift_def split: prod.splits sum.splits)
qed

lemma demo_fault_check: "\<exists>av' st. alerting_health_check demo_fault_config demo_alert_clock demo_fault = (av', Inr st)
    \<and> sv_mode (av_core av') = MODE_FAULT"
proof -
  define sv where "sv = dac_health demo_fault_ports ''t1'' (av_core demo_fault)"
  have core: "monitors_health demo_fault_ports sv = sv" by (simp add: monitors_health_def demo_fault_ports_def monitor_step_def)
  have mode: "sv_mode sv = MODE_FAULT" and alarms: "map snd (sv_active_alarms sv) = [demo_dac_alarm]"
    by (simp_all add: sv_def demo_dac_alarm_def dac_health_def demo_fault_def demo_fault_ports_def
        on_world_def Let_def record_hardware_failure_def activate_dac_alarm_def)
  from demo_journal obtain g1 g2 rs g3 as where g: "active_alarm_states sqlite_store (demo_registry (\<lambda>_. None)) = (g1, Inr [])"
    "reconcile sqlite_store ''t2'' [dac_signal demo_dac_alarm] g1 = (g2, Inr rs)"
    "active_alarm_states sqlite_store g2 = (g3, Inr as)" by blast
  have raw: "\<exists>raw. raw_state demo_fault_config \<lparr>av_core = sv, av_registry = g\<rparr> = (\<lparr>av_core = sv, av_registry = g\<rparr>, Inr raw)
      \<and> cs_active_alarms raw = [demo_dac_alarm] \<and> cs_sensor_bus raw = None \<and> cs_aero_bus raw = None \<and> cs_tacho raw = None" for g
    by (simp add: raw_state_def on_core_def service_state_def op_bind_def on_world_def optional_op_def
        demo_fault_ports_def alarms)
  from raw[of "demo_registry (\<lambda>_. None)"] obtain raw0 where
    r0: "raw_state demo_fault_config \<lparr>av_core = sv, av_registry = demo_registry (\<lambda>_. None)\<rparr>
      = (\<lparr>av_core = sv, av_registry = demo_registry (\<lambda>_. None)\<rparr>, Inr raw0)" by blast
  from raw[of g1] obtain raw1 where r1: "raw_state demo_fault_config \<lparr>av_core = sv, av_registry = g1\<rparr>
      = (\<lparr>av_core = sv, av_registry = g1\<rparr>, Inr raw1)" and f: "cs_active_alarms raw1 = [demo_dac_alarm]"
      "cs_sensor_bus raw1 = None" "cs_aero_bus raw1 = None" "cs_tacho raw1 = None" by blast
  have start: "demo_fault\<lparr>av_core := sv\<rparr> = \<lparr>av_core = sv, av_registry = demo_registry (\<lambda>_. None)\<rparr>"
    by (simp add: demo_fault_def)
  have "\<exists>st. alerting_health_check demo_fault_config demo_alert_clock demo_fault = (\<lparr>av_core = sv, av_registry = g3\<rparr>, Inr st)"
    using r0 r1 g
    by (simp add: alerting_health_check_def op_bind_def on_core_def alerting_state_def with_system_alerts_def
        with_zigbee_def on_registry_def demo_fault_signals[OF f] zigbee_health_def power_health_def sv_def[symmetric] core start Let_def)
  with mode show ?thesis by auto
qed

theorem fault_published_witness:
  "\<exists>av' st. alerting_health_check demo_fault_config demo_alert_clock demo_fault = (av', Inr st)
    \<and> sv_mode (av_core av') = MODE_FAULT \<and> ALARM_DAC_COMMUNICATION_LOST \<in> al_code ` set (cs_active_alarms st)
    \<and> \<not> cs_hardware_ready st"
proof -
  from demo_fault_check obtain av' st where run: "alerting_health_check demo_fault_config demo_alert_clock demo_fault = (av', Inr st)"
    and mode: "sv_mode (av_core av') = MODE_FAULT" by blast
  from fault_published[OF demo_fault_start(1,3,2,4) run] mode
  have "ALARM_DAC_COMMUNICATION_LOST \<in> al_code ` set (cs_active_alarms st) \<and> \<not> cs_hardware_ready st" by blast
  with run mode show ?thesis by blast
qed

end
