(* ===== verification/ServicePlane.thy ===== *)
theory ServicePlane
  imports Alerting AlertStores
begin

section \<open>The service plane\<close>

text \<open>
  Models \<open>service_plane_monitor.py\<close> and \<open>application/service_plane_alert_registry.py\<close>: the monitor of
  the WVC-SERVICE agent and the registry that correlates its facts with the alert signals before it hands
  them to the alert registry. What the socket delivers, what \<open>json.loads\<close> makes of it, the clock and
  \<open>repr()\<close> of a JSON value are arguments. The locks and the copies made under them leave no trace in
  values. Serialisation for the web interface (\<open>to_dict\<close>) is left out.
\<close>

subsection \<open>Reading the agent\<close>

definition MAX_RESPONSE_BYTES :: nat where "MAX_RESPONSE_BYTES = 256 * 1024"

text \<open>The loop over \<open>recv\<close>: an empty chunk is the end of the stream, and so is the end of the list.\<close>

definition ends_line :: "string \<Rightarrow> bool" where
  "ends_line s = (s \<noteq> [] \<and> last s = CHR 0x0A)"

fun read_agent_reply :: "string result list \<Rightarrow> string \<Rightarrow> string result" where
  "read_agent_reply chunks response =
     (if ends_line response then Inr response
      else case chunks of [] \<Rightarrow> Inr response
      | Inl e # rest \<Rightarrow> Inl e
      | Inr chunk # rest \<Rightarrow>
          if chunk = [] then Inr response
          else if MAX_RESPONSE_BYTES < length (response @ chunk)
          then Inl (RuntimeError ''service agent response exceeds size limit'')
          else read_agent_reply rest (response @ chunk))"

text \<open>The reply and what parsing it gives, checked.\<close>

definition check_agent_reply :: "(string \<Rightarrow> py_value result) \<Rightarrow> (py_value \<Rightarrow> string) \<Rightarrow> string \<Rightarrow>
    (string \<times> py_value) list result" where
  "check_agent_reply parse text response =
     (if response = [] then Inl (RuntimeError ''service agent closed connection without response'')
      else case parse response of
        Inl e \<Rightarrow> Inl (RuntimeError (''invalid service agent JSON response: '' @ exc_str e))
      | Inr (VDict d) \<Rightarrow>
          if vget d ''ok'' \<noteq> VBool True
          then Inl (RuntimeError (''service agent rejected status request: ''
                 @ text (dict_get d ''error'' (VStr ''unknown error''))))
          else if \<not> is_dict (vget d ''agent'')
          then Inl (RuntimeError ''service agent response missing agent object'')
          else if \<not> is_dict (vget d ''network'')
          then Inl (RuntimeError ''service agent response missing network object'')
          else if \<not> is_list (vget d ''nodes'')
          then Inl (RuntimeError ''service agent response missing nodes list'')
          else Inr d
      | Inr _ \<Rightarrow> Inl (RuntimeError ''service agent response must be an object''))"

text \<open>What one request meets: connecting and sending, then the chunks received.\<close>

definition read_service_agent_status :: "(string \<Rightarrow> py_value result) \<Rightarrow> (py_value \<Rightarrow> string) \<Rightarrow> py_float \<Rightarrow>
    unit result \<Rightarrow> string result list \<Rightarrow> (string \<times> py_value) list result" where
  "read_service_agent_status parse text timeout sent chunks =
     (if fle timeout (Fin 0) then Inl (ValueError ''service agent timeout must be positive'')
      else rbind sent (\<lambda>_. rbind (read_agent_reply chunks []) (check_agent_reply parse text)))"

subsection \<open>The monitor\<close>

record service_plane_state =
  pl_available :: bool
  pl_consecutive_failures :: int
  pl_last_error :: "string option"
  pl_last_attempt_unix_ms :: "int option"
  pl_last_success_unix_ms :: "int option"
  pl_snapshot :: "(string \<times> py_value) list option"

definition new_service_plane_monitor :: "py_float \<Rightarrow> service_plane_state result" where
  "new_service_plane_monitor timeout =
     (if fle timeout (Fin 0) then Inl (ValueError ''service agent timeout must be positive'')
      else Inr \<lparr>pl_available = False, pl_consecutive_failures = 0, pl_last_error = None,
        pl_last_attempt_unix_ms = None, pl_last_success_unix_ms = None, pl_snapshot = None\<rparr>)"

definition plane_poll :: "int \<Rightarrow> (string \<times> py_value) list result \<Rightarrow> service_plane_state \<Rightarrow> service_plane_state" where
  "plane_poll attempted r s = (case r of
     Inl e \<Rightarrow> s\<lparr>pl_available := False, pl_consecutive_failures := pl_consecutive_failures s + 1,
       pl_last_error := Some (exc_str e), pl_last_attempt_unix_ms := Some attempted\<rparr>
   | Inr response \<Rightarrow> s\<lparr>pl_available := True, pl_consecutive_failures := 0, pl_last_error := None,
       pl_last_attempt_unix_ms := Some attempted, pl_last_success_unix_ms := Some attempted,
       pl_snapshot := Some response\<rparr>)"

subsection \<open>Correlation\<close>

text \<open>\<open>int(text, 10)\<close> of an ASCII text: blanks around it, a sign, and digits with single underscores
  between them.\<close>

definition int_of_text :: "string \<Rightarrow> int option" where
  "int_of_text text =
     (let t = py_strip text;
          (sign, body) = (case t of [] \<Rightarrow> (1, []) | c # rest \<Rightarrow>
             if c = CHR ''-'' then (- 1, rest) else if c = CHR ''+'' then (1, rest) else (1, t));
          groups = split_on CHR ''_'' body
      in if \<forall>g \<in> set groups. g \<noteq> [] \<and> (\<forall>c \<in> set g. is_digit_char c)
         then Some (sign * digits_value (concat groups)) else None)"

definition source_address :: "string \<Rightarrow> int option" where
  "source_address source =
     (if take 7 source \<noteq> ''sensor:'' then None
      else case int_of_text (drop 7 source) of None \<Rightarrow> None
        | Some a \<Rightarrow> if 1 \<le> a \<and> a \<le> 247 then Some a else None)"

text \<open>The production signals that heartbeats are correlated with.\<close>

definition production_fault :: "alert_signal \<Rightarrow> bool" where
  "production_fault sg = (sg_code sg \<in> {ALARM_SENSOR_NODE_UNAVAILABLE, ALARM_SENSOR_DATA_INVALID})"

definition production_faults :: "alert_signal list \<Rightarrow> int \<Rightarrow> alert_signal list" where
  "production_faults signals a =
     filter (\<lambda>sg. production_fault sg \<and> source_address (sg_source sg) = Some a) signals"

text \<open>The keys suppressed, the signals derived and the nodes only the heartbeat misses.\<close>

record correlation =
  cr_suppressed :: "string list"
  cr_derived :: "alert_signal list"
  cr_offline :: "string list"

definition no_correlation :: correlation where
  "no_correlation = \<lparr>cr_suppressed = [], cr_derived = [], cr_offline = []\<rparr>"

definition node_address :: "(string \<times> py_value) list \<Rightarrow> int option" where
  "node_address node = (case vget node ''modbus_address'' of
     VInt a \<Rightarrow> if 1 \<le> a \<and> a \<le> 247 then Some a else None | _ \<Rightarrow> None)"

text \<open>One node of the snapshot.\<close>

definition correlate_faults :: "alert_signal list \<Rightarrow> alert_signal \<Rightarrow> correlation" where
  "correlate_faults faults sg =
     \<lparr>cr_suppressed = map sg_key faults, cr_derived = [sg], cr_offline = []\<rparr>"

definition correlate_node :: "alert_signal list \<Rightarrow> bool \<Rightarrow> py_value \<Rightarrow> correlation" where
  "correlate_node signals grace_elapsed raw = (case raw of
     VDict node \<Rightarrow>
       (case vget node ''node_id'' of
          VStr name \<Rightarrow>
            if name = [] then no_correlation
            else
              let faults = (case node_address node of None \<Rightarrow> [] | Some a \<Rightarrow> production_faults signals a);
                  address = (case node_address node of None \<Rightarrow> [] | Some a \<Rightarrow> show_int a);
                  derive = (\<lambda>kind code message detail. correlate_faults faults
                    (raw_signal (''sensor-node:'' @ address @ '':'' @ kind) code (''sensor:'' @ address) WARNING
                       message detail 1))
              in if vget node ''online'' \<noteq> VBool True
                 then if \<not> (is_int (vget node ''received_unix_ms'') \<or> grace_elapsed) then no_correlation
                      else if faults \<noteq> []
                      then derive ''correlated-unavailable'' ALARM_KAMOD_NODE_UNAVAILABLE
                        ((''W'' @ [CHR 0xC4, CHR 0x99] @ ''ze'' @ [CHR 0xC5, CHR 0x82] @ '' KAmod/SEN55 '') @ address @ ('' jest niedost'' @ [CHR 0xC4, CHR 0x99] @ ''pny''))
                        ((''SENSOR BUS zg'' @ [CHR 0xC5, CHR 0x82] @ ''asza problem i niezale'' @ [CHR 0xC5, CHR 0xBC] @ ''ny heartbeat '') @ name @ '' jest offline'')
                      else no_correlation\<lparr>cr_offline := [name]\<rparr>
                 else if faults = [] then no_correlation
                 else if vget node ''sensor_state'' = VStr ''offline''
                 then derive ''kamod-sensor-state'' ALARM_KAMOD_SENSOR_STATE_ERROR
                   (''KAmod '' @ name @ ('' raportuje lokalny b'' @ [CHR 0xC5, CHR 0x82] @ [CHR 0xC4, CHR 0x85] @ ''d SEN55''))
                   ''sensor_state=offline oraz produkcyjny SENSOR BUS potwierdza problem''
                 else if vget node ''rs485_ready'' = VBool False
                 then derive ''kamod-rs485'' ALARM_KAMOD_RS485_NOT_READY
                   (''KAmod '' @ name @ ('' nie potwierdza gotowo'' @ [CHR 0xC5, CHR 0x9B] @ ''ci RS-485''))
                   ''rs485_ready=false oraz produkcyjny SENSOR BUS potwierdza problem''
                 else no_correlation
        | _ \<Rightarrow> no_correlation)
   | _ \<Rightarrow> no_correlation)"

text \<open>The diagnostics kept for the HMI; the sets are sorted lists.\<close>

record correlation_diagnostics =
  cd_reason :: string
  cd_derived_codes :: "string list"
  cd_derived_keys :: "string list"
  cd_suppressed :: "string list"
  cd_offline :: "string list"

definition correlation_diag :: "string \<Rightarrow> correlation \<Rightarrow> correlation_diagnostics" where
  "correlation_diag reason c = \<lparr>cd_reason = reason, cd_derived_codes = map (alarm_code_value \<circ> sg_code) (cr_derived c),
     cd_derived_keys = map sg_key (cr_derived c), cd_suppressed = sorted_list_of_set (set (cr_suppressed c)),
     cd_offline = sorted_list_of_set (set (cr_offline c))\<rparr>"

definition agent_signal :: "service_plane_state \<Rightarrow> alert_signal" where
  "agent_signal st = raw_signal ''service-plane:agent'' ALARM_SERVICE_AGENT_UNAVAILABLE ''service_agent'' WARNING
     (''CM5 Service Agent jest niedost'' @ [CHR 0xC4, CHR 0x99] @ ''pny'')
     (str_or (pl_last_error st) ''Brak odpowiedzi lokalnego Service Agent'') (pl_consecutive_failures st)"

definition network_signals :: "(py_value \<Rightarrow> string) \<Rightarrow> (string \<times> py_value) list \<Rightarrow> alert_signal list" where
  "network_signals repr network =
     (let up = (\<lambda>k. vget network k = VBool True);
          fault = (\<lambda>ok kind code message detail. if ok then []
            else [raw_signal (''service-plane:network:'' @ kind) code ''service_network'' WARNING message detail 1])
      in fault (up ''ap_active'' \<and> up ''address_present'') ''ap'' ALARM_SERVICE_NETWORK_AP_UNAVAILABLE
           (''Sie'' @ [CHR 0xC4, CHR 0x87] @ '' WVC-SERVICE nie jest gotowa'')
           (''ap_active='' @ repr (vget network ''ap_active'') @ '', address_present='' @ repr (vget network ''address_present''))
       @ fault (up ''dhcp_active'') ''dhcp'' ALARM_SERVICE_NETWORK_DHCP_UNAVAILABLE
           (''DHCP WVC-SERVICE jest niedost'' @ [CHR 0xC4, CHR 0x99] @ ''pny'') (''dhcp_active='' @ repr (vget network ''dhcp_active''))
       @ fault (up ''firewall_active'') ''firewall'' ALARM_SERVICE_NETWORK_FIREWALL_INVALID
           ''Firewall WVC-SERVICE nie jest w oczekiwanym stanie'' (''firewall_active='' @ repr (vget network ''firewall_active'')))"

definition agent_grace_elapsed :: "int \<Rightarrow> int \<Rightarrow> (string \<times> py_value) list \<Rightarrow> bool" where
  "agent_grace_elapsed grace_ms now_ms snapshot = (case vget snapshot ''agent'' of
     VDict agent \<Rightarrow> (case vget agent ''started_unix_ms'' of
         VInt started \<Rightarrow> grace_ms \<le> now_ms - started
       | VBool b \<Rightarrow> grace_ms \<le> now_ms - (if b then 1 else 0) | _ \<Rightarrow> False)
   | _ \<Rightarrow> False)"

definition snapshot_nodes :: "(string \<times> py_value) list \<Rightarrow> py_value list" where
  "snapshot_nodes snapshot = (case vget snapshot ''nodes'' of VList nodes \<Rightarrow> nodes | _ \<Rightarrow> [])"

definition correlate_nodes :: "alert_signal list \<Rightarrow> bool \<Rightarrow> py_value list \<Rightarrow> correlation" where
  "correlate_nodes signals grace nodes =
     (let cs = map (correlate_node signals grace) nodes
      in \<lparr>cr_suppressed = concat (map cr_suppressed cs), cr_derived = concat (map cr_derived cs),
          cr_offline = concat (map cr_offline cs)\<rparr>)"

record correlation_config =
  cc_agent_failure_threshold :: int
  cc_node_initial_grace_ms :: int

text \<open>The constructor: \<open>int(seconds * 1000)\<close> truncates; a grace of infinite seconds raises there.\<close>

definition new_correlation_config :: "int \<Rightarrow> py_float \<Rightarrow> correlation_config result" where
  "new_correlation_config threshold grace_seconds =
     (if threshold < 1 then Inl (ValueError ''service agent failure threshold must be positive'')
      else if flt grace_seconds (Fin 0) then Inl (ValueError ''node initial grace must not be negative'')
      else case fmul_pos grace_seconds 1000 of
          Fin ms \<Rightarrow> Inr \<lparr>cc_agent_failure_threshold = threshold, cc_node_initial_grace_ms = \<lfloor>ms\<rfloor>\<rparr>
        | _ \<Rightarrow> Inl (OtherException ''cannot convert float infinity to integer''))"

definition correlate :: "(py_value \<Rightarrow> string) \<Rightarrow> correlation_config \<Rightarrow> int \<Rightarrow> service_plane_state \<Rightarrow>
    alert_signal list \<Rightarrow> alert_signal list \<times> correlation_diagnostics" where
  "correlate repr cfg now_ms st signals =
     (let only = (\<lambda>derived. no_correlation\<lparr>cr_derived := derived\<rparr>)
      in if \<not> pl_available st
         then let derived = (if cc_agent_failure_threshold cfg \<le> pl_consecutive_failures st then [agent_signal st] else [])
              in (signals @ derived, correlation_diag ''service_agent_unavailable'' (only derived))
         else case pl_snapshot st of
           None \<Rightarrow> (signals, correlation_diag ''snapshot_unavailable'' no_correlation)
         | Some snapshot \<Rightarrow> (case vget snapshot ''network'' of
             VDict network \<Rightarrow>
               let derived = network_signals repr network in
               if derived \<noteq> []
               then (signals @ derived,
                     correlation_diag ''service_network_degraded_node_correlation_suspended'' (only derived))
               else let c = correlate_nodes signals
                          (agent_grace_elapsed (cc_node_initial_grace_ms cfg) now_ms snapshot) (snapshot_nodes snapshot)
                    in (filter (\<lambda>sg. sg_key sg \<notin> set (cr_suppressed c)) signals @ cr_derived c,
                        correlation_diag ''correlation_complete'' c)
           | _ \<Rightarrow> (signals, correlation_diag ''network_snapshot_invalid'' no_correlation)))"

subsection \<open>The correlating registry\<close>

record 's plane_registry =
  pr_delegate :: "'s alert_registry"
  pr_monitor :: service_plane_state
  pr_last_correlation :: correlation_diagnostics

definition new_plane_registry :: "'s alert_registry \<Rightarrow> service_plane_state \<Rightarrow> 's plane_registry" where
  "new_plane_registry g m = \<lparr>pr_delegate = g, pr_monitor = m,
     pr_last_correlation = correlation_diag ''not_evaluated'' no_correlation\<rparr>"

definition on_delegate :: "('s alert_registry, 'a) op \<Rightarrow> ('s plane_registry, 'a) op" where
  "on_delegate m p = (let (g, r) = m (pr_delegate p) in (p\<lparr>pr_delegate := g\<rparr>, r))"

text \<open>The outcome of asking the agent and the two clock readings of the call come with it.\<close>

record plane_inputs =
  pi_attempted_ms :: int
  pi_reply :: "(string \<times> py_value) list result"
  pi_now_ms :: int
  pi_now :: string

definition plane_reconcile :: "'s alert_store \<Rightarrow> (py_value \<Rightarrow> string) \<Rightarrow> correlation_config \<Rightarrow> plane_inputs \<Rightarrow>
    alert_signal list \<Rightarrow> ('s plane_registry, alert_record list) op" where
  "plane_reconcile A repr cfg i signals p =
     (let m = plane_poll (pi_attempted_ms i) (pi_reply i) (pr_monitor p);
          (correlated, diagnostics) = correlate repr cfg (pi_now_ms i) m signals
      in on_delegate (reconcile A (pi_now i) correlated)
           (p\<lparr>pr_monitor := m, pr_last_correlation := diagnostics\<rparr>))"

text \<open>The other methods go to the delegate unchanged.\<close>

definition plane_activate :: "'s alert_store \<Rightarrow> string \<Rightarrow> alert_signal \<Rightarrow> ('s plane_registry, alert_record) op" where
  "plane_activate A now sg = on_delegate (activate A now sg)"

definition plane_clear_key :: "'s alert_store \<Rightarrow> string \<Rightarrow> string \<Rightarrow> ('s plane_registry, alert_record option) op" where
  "plane_clear_key A now key = on_delegate (clear_key A now key)"

definition plane_acknowledge :: "'s alert_store \<Rightarrow> string \<Rightarrow> int \<Rightarrow> ('s plane_registry, alert_record) op" where
  "plane_acknowledge A now i = on_delegate (acknowledge A now i)"

definition plane_active_alarm_states :: "'s alert_store \<Rightarrow> ('s plane_registry, alarm_state list) op" where
  "plane_active_alarm_states A = on_delegate (active_alarm_states A)"

definition plane_history :: "'s alert_store \<Rightarrow> int \<Rightarrow> ('s plane_registry, alert_record list) op" where
  "plane_history A limit = on_delegate (alert_history A limit)"


text \<open>\<open>diagnostics()\<close>: chosen fields only; the raw payloads of the nodes stay inside.\<close>

definition picked :: "string list \<Rightarrow> (string \<times> py_value) list \<Rightarrow> py_value" where
  "picked names d = VDict (map (\<lambda>k. (k, vget d k)) names)"

definition optional_value :: "('a \<Rightarrow> py_value) \<Rightarrow> 'a option \<Rightarrow> py_value" where
  "optional_value f v = (case v of None \<Rightarrow> VNone | Some x \<Rightarrow> f x)"

definition picked_dict :: "string list \<Rightarrow> py_value \<Rightarrow> py_value" where
  "picked_dict names v = (case v of VDict d \<Rightarrow> picked names d | _ \<Rightarrow> VNone)"

definition picked_nodes :: "py_value \<Rightarrow> py_value" where
  "picked_nodes v = (case v of
     VList nodes \<Rightarrow> VList (map (picked_dict [''node_id'', ''online'', ''received_unix_ms'', ''modbus_address'',
       ''sensor_state'', ''rs485_ready'', ''modbus_monitor_ready'']) (filter is_dict nodes))
   | _ \<Rightarrow> VList [])"

definition public_monitor_diagnostics :: "service_plane_state \<Rightarrow> py_value" where
  "public_monitor_diagnostics st =
     (let field = (\<lambda>k. case pl_snapshot st of None \<Rightarrow> VNone | Some d \<Rightarrow> vget d k)
      in VDict [(''available'', VBool (pl_available st)),
           (''consecutive_failures'', VInt (pl_consecutive_failures st)),
           (''last_error'', optional_value VStr (pl_last_error st)),
           (''last_attempt_unix_ms'', optional_value VInt (pl_last_attempt_unix_ms st)),
           (''last_success_unix_ms'', optional_value VInt (pl_last_success_unix_ms st)),
           (''agent'', picked_dict [''ready'', ''started_unix_ms'', ''registered_nodes'', ''online_nodes''] (field ''agent'')),
           (''network'', picked_dict [''ready'', ''ap_active'', ''address_present'', ''dhcp_active'', ''firewall_active'']
              (field ''network'')),
           (''nodes'', picked_nodes (field ''nodes''))])"

subsection \<open>What correlation keeps\<close>

definition plane_codes :: "alarm_code set" where
  "plane_codes = {ALARM_SERVICE_AGENT_UNAVAILABLE, ALARM_SERVICE_NETWORK_AP_UNAVAILABLE,
     ALARM_SERVICE_NETWORK_DHCP_UNAVAILABLE, ALARM_SERVICE_NETWORK_FIREWALL_INVALID,
     ALARM_KAMOD_NODE_UNAVAILABLE, ALARM_KAMOD_SENSOR_STATE_ERROR, ALARM_KAMOD_RS485_NOT_READY}"

definition node_keys :: "int \<Rightarrow> string set" where
  "node_keys a = (\<lambda>kind. ''sensor-node:'' @ show_int a @ '':'' @ kind)
     ` {''correlated-unavailable'', ''kamod-sensor-state'', ''kamod-rs485''}"

definition derived_ok :: "alert_signal \<Rightarrow> bool" where
  "derived_ok sg = (sg_severity sg = WARNING \<and> sg_code sg \<in> plane_codes \<and> 1 \<le> sg_occurrences sg)"

lemma no_correlation_simps [simp]: "cr_suppressed no_correlation = []" "cr_derived no_correlation = []"
  by (simp_all add: no_correlation_def)

text \<open>A node derives nothing, or one signal for its address whose faults it suppresses.\<close>

definition node_result :: "alert_signal list \<Rightarrow> correlation \<Rightarrow> bool" where
  "node_result signals c =
     (cr_suppressed c = [] \<and> cr_derived c = []
      \<or> (\<exists>a sg. production_faults signals a \<noteq> [] \<and> sg_key sg \<in> node_keys a \<and> derived_ok sg
           \<and> cr_suppressed c = map sg_key (production_faults signals a) \<and> cr_derived c = [sg]))"

lemma node_result_idle: "node_result signals no_correlation" "node_result signals (no_correlation\<lparr>cr_offline := names\<rparr>)"
  by (simp_all add: node_result_def no_correlation_def)

lemma node_result_derived:
  assumes "production_faults signals a \<noteq> []" "code \<in> plane_codes"
    "kind \<in> {''correlated-unavailable'', ''kamod-sensor-state'', ''kamod-rs485''}"
  shows "node_result signals (correlate_faults (production_faults signals a)
     (raw_signal (''sensor-node:'' @ show_int a @ '':'' @ kind) code source WARNING m d 1))"
proof -
  have "''sensor-node:'' @ show_int a @ '':'' @ kind \<in> node_keys a" using assms(3) unfolding node_keys_def by blast
  then show ?thesis using assms(1,2) unfolding node_result_def
    by (intro disjI2 exI[of _ a] exI) (auto simp: correlate_faults_def derived_ok_def)
qed

lemma correlate_node_result: "node_result signals (correlate_node signals grace raw)"
proof (cases "\<exists>node name. raw = VDict node \<and> vget node ''node_id'' = VStr name")
  case False
  then show ?thesis by (auto simp: correlate_node_def node_result_idle split: py_value.split)
next
  case True
  then obtain node name where raw: "raw = VDict node" "vget node ''node_id'' = VStr name" by blast
  show ?thesis
  proof (cases "node_address node")
    case None
    then show ?thesis by (simp add: correlate_node_def raw Let_def node_result_idle)
  next
    case (Some a)
    show ?thesis
    proof (cases "production_faults signals a = []")
      case True
      with Some show ?thesis by (simp add: correlate_node_def raw Let_def node_result_idle)
    next
      case False
      with Some show ?thesis
        using node_result_derived[OF False] by (simp add: correlate_node_def raw Let_def node_result_idle plane_codes_def)
    qed
  qed
qed

lemma correlate_node_cases:
  obtains "cr_suppressed (correlate_node signals grace raw) = []" "cr_derived (correlate_node signals grace raw) = []"
  | a sg where "production_faults signals a \<noteq> []" "sg_key sg \<in> node_keys a" "derived_ok sg"
      "cr_suppressed (correlate_node signals grace raw) = map sg_key (production_faults signals a)"
      "cr_derived (correlate_node signals grace raw) = [sg]"
  using correlate_node_result[of signals grace raw] unfolding node_result_def by blast

lemma correlate_nodes_derived: "sg \<in> set (cr_derived (correlate_nodes signals grace nodes)) \<Longrightarrow> derived_ok sg"
proof -
  assume "sg \<in> set (cr_derived (correlate_nodes signals grace nodes))"
  then obtain raw where "sg \<in> set (cr_derived (correlate_node signals grace raw))"
    by (auto simp: correlate_nodes_def Let_def)
  then show ?thesis by (cases rule: correlate_node_cases[of signals grace raw]) auto
qed

text \<open>A suppressed signal is a production fault whose node has a derived signal instead.\<close>

lemma correlate_nodes_suppressed:
  assumes "k \<in> set (cr_suppressed (correlate_nodes signals grace nodes))"
  shows "\<exists>a sg d. sg \<in> set signals \<and> sg_key sg = k \<and> production_fault sg \<and> source_address (sg_source sg) = Some a
    \<and> d \<in> set (cr_derived (correlate_nodes signals grace nodes)) \<and> sg_key d \<in> node_keys a"
proof -
  from assms obtain raw where raw: "raw \<in> set nodes" "k \<in> set (cr_suppressed (correlate_node signals grace raw))"
    by (auto simp: correlate_nodes_def Let_def)
  show ?thesis
  proof (cases rule: correlate_node_cases[of signals grace raw])
    case 1
    with raw show ?thesis by simp
  next
    case (2 a d)
    with raw have "d \<in> set (cr_derived (correlate_nodes signals grace nodes))"
      by (force simp: correlate_nodes_def Let_def)
    moreover from 2(4) raw(2) obtain sg where "sg \<in> set (production_faults signals a)" "sg_key sg = k" by auto
    ultimately show ?thesis using 2(2) by (auto simp: production_faults_def)
  qed
qed

lemma correlate_nodes_idle:
  assumes "\<forall>sg \<in> set signals. \<not> production_fault sg"
  shows "cr_suppressed (correlate_nodes signals grace nodes) = []" "cr_derived (correlate_nodes signals grace nodes) = []"
proof -
  have "production_faults signals a = []" for a using assms by (simp add: production_faults_def filter_empty_conv)
  then have "cr_suppressed (correlate_node signals grace raw) = [] \<and> cr_derived (correlate_node signals grace raw) = []" for raw
    by (cases rule: correlate_node_cases[of signals grace raw]) auto
  then show "cr_suppressed (correlate_nodes signals grace nodes) = []" "cr_derived (correlate_nodes signals grace nodes) = []"
    by (simp_all add: correlate_nodes_def Let_def)
qed

lemma network_signals_derived: "sg \<in> set (network_signals repr network) \<Longrightarrow> derived_ok sg"
  by (auto simp: network_signals_def Let_def derived_ok_def plane_codes_def split: if_splits)

lemma agent_signal_derived: "1 \<le> pl_consecutive_failures st \<Longrightarrow> derived_ok (agent_signal st)"
  by (simp add: agent_signal_def derived_ok_def plane_codes_def)


text \<open>The two sides of a correlation.\<close>

lemma correlate_out:
  assumes threshold: "1 \<le> cc_agent_failure_threshold cfg"
    and run: "correlate repr cfg now_ms st signals = (out, diag)"
  shows "(\<forall>sg \<in> set out. sg \<in> set signals \<or> derived_ok sg)
    \<and> (\<forall>sg \<in> set signals. sg \<in> set out \<or> (\<exists>f a d. f \<in> set signals \<and> sg_key f = sg_key sg \<and> production_fault f
         \<and> source_address (sg_source f) = Some a \<and> d \<in> set out \<and> sg_key d \<in> node_keys a))"
proof (cases "pl_available st")
  case False
  with run threshold agent_signal_derived show ?thesis by (auto simp: correlate_def Let_def split: if_splits)
next
  case available: True
  show ?thesis
  proof (cases "\<exists>snapshot network. pl_snapshot st = Some snapshot \<and> vget snapshot ''network'' = VDict network
      \<and> network_signals repr network = []")
    case False
    with available run have "out = signals \<or> (\<exists>network. out = signals @ network_signals repr network)"
      by (auto simp: correlate_def Let_def split: option.splits py_value.splits if_splits)
    then show ?thesis using network_signals_derived by auto
  next
    case True
    then obtain snapshot network where "pl_snapshot st = Some snapshot" "vget snapshot ''network'' = VDict network"
      "network_signals repr network = []" by blast
    with available run obtain c grace nodes where c: "c = correlate_nodes signals grace nodes"
      and out: "out = filter (\<lambda>sg. sg_key sg \<notin> set (cr_suppressed c)) signals @ cr_derived c"
      by (auto simp: correlate_def Let_def)
    have "\<exists>f a d. f \<in> set signals \<and> sg_key f = sg_key sg \<and> production_fault f
        \<and> source_address (sg_source f) = Some a \<and> d \<in> set out \<and> sg_key d \<in> node_keys a"
      if "sg_key sg \<in> set (cr_suppressed c)" for sg
      using correlate_nodes_suppressed[OF that[unfolded c]] unfolding out c by (metis UnCI set_append)
    then show ?thesis using correlate_nodes_derived[of _ signals grace nodes] by (auto simp: out c)
  qed
qed

text \<open>Heartbeats alone change nothing: on a healthy service network, and without a production fault,
  the signals go through as they are.\<close>

lemma correlate_healthy:
  assumes "pl_available st" "pl_snapshot st = Some snapshot" "vget snapshot ''network'' = VDict network"
    "\<forall>k \<in> {''ap_active'', ''address_present'', ''dhcp_active'', ''firewall_active''}. vget network k = VBool True"
    "\<forall>sg \<in> set signals. \<not> production_fault sg"
  shows "fst (correlate repr cfg now_ms st signals) = signals"
proof -
  have "network_signals repr network = []" using assms(4) by (simp add: network_signals_def)
  with assms(1-3) correlate_nodes_idle[OF assms(5)] show ?thesis by (simp add: correlate_def Let_def)
qed

text \<open>C22: The service plane diagnoses and never hides an alert. When a reconciliation of the correlating
  registry over the database returns: every signal of the ventilation service is reported under its key,
  except production faults of a sensor node, and such a fault is missing only when a KAmod alert of the
  same node is reported in its place; whatever is reported beyond the service's own signals is a WARNING
  of the service plane; and when the agent answers, its network is healthy and the production bus reports
  no fault, exactly the service's own signals are reported, whatever the heartbeats of the nodes say.\<close>

theorem service_plane_hides_nothing:
  assumes threshold: "1 \<le> cc_agent_failure_threshold cfg" and distinct: "distinct (map sg_key signals)"
    and ok: "alert_db_ok (rg_store (pr_delegate p))" and occ: "\<forall>sg \<in> set signals. 1 \<le> sg_occurrences sg"
    and run: "plane_reconcile sqlite_store repr cfg i signals p = (p', Inr reported)"
  shows "(\<forall>sg \<in> set signals. sg_key sg \<in> rc_key ` set reported
      \<or> production_fault sg \<and> (\<exists>a. source_address (sg_source sg) = Some a \<and> node_keys a \<inter> rc_key ` set reported \<noteq> {}))
    \<and> (\<forall>r \<in> set reported. rc_key r \<in> sg_key ` set signals \<or> rc_severity r = WARNING \<and> rc_code r \<in> plane_codes)
    \<and> (\<forall>snapshot network. pi_reply i = Inr snapshot \<longrightarrow> vget snapshot ''network'' = VDict network \<longrightarrow>
        (\<forall>k \<in> {''ap_active'', ''address_present'', ''dhcp_active'', ''firewall_active''}. vget network k = VBool True) \<longrightarrow>
        (\<forall>sg \<in> set signals. \<not> production_fault sg) \<longrightarrow> rc_key ` set reported = sg_key ` set signals)"
proof -
  define m where "m = plane_poll (pi_attempted_ms i) (pi_reply i) (pr_monitor p)"
  obtain out diag where out: "correlate repr cfg (pi_now_ms i) m signals = (out, diag)" by force
  from run out obtain g' where rec: "reconcile sqlite_store (pi_now i) out (pr_delegate p) = (g', Inr reported)"
    by (auto simp: plane_reconcile_def m_def on_delegate_def Let_def split: prod.splits)
  note sides = correlate_out[OF threshold out]
  have "\<forall>sg \<in> set out. 1 \<le> sg_occurrences sg" using sides occ by (auto simp: derived_ok_def)
  note rep = reconcile_reported[OF ok this rec]
  then have keys: "rc_key ` set reported = sg_key ` set out" by blast
  have same: "f = sg" if "f \<in> set signals" "sg \<in> set signals" "sg_key f = sg_key sg" for f sg
    using that distinct by (auto simp: distinct_map inj_on_def)
  have "sg_key sg \<in> rc_key ` set reported
      \<or> production_fault sg \<and> (\<exists>a. source_address (sg_source sg) = Some a \<and> node_keys a \<inter> rc_key ` set reported \<noteq> {})"
    if sg: "sg \<in> set signals" for sg
  proof (cases "sg \<in> set out")
    case True
    then show ?thesis by (simp add: keys)
  next
    case False
    with sides sg obtain f a d where f: "f \<in> set signals" "sg_key f = sg_key sg" "production_fault f"
      "source_address (sg_source f) = Some a" and d: "d \<in> set out" "sg_key d \<in> node_keys a" by blast
    from d have "node_keys a \<inter> rc_key ` set reported \<noteq> {}" by (auto simp: keys)
    with f same[OF f(1) sg f(2)] show ?thesis by blast
  qed
  moreover have "rc_key r \<in> sg_key ` set signals \<or> rc_severity r = WARNING \<and> rc_code r \<in> plane_codes"
    if r: "r \<in> set reported" for r
  proof -
    from rep r obtain sg where sg: "signal_for out (rc_key r) = Some sg" "\<not> metadata_changed r sg" by blast
    from signal_for_key[OF sg(1)] have "sg \<in> set out" "sg_key sg = rc_key r" by blast+
    with sides sg(2) show ?thesis by (metis derived_ok_def image_eqI metadata_changed_def)
  qed
  moreover have "rc_key ` set reported = sg_key ` set signals"
    if "pi_reply i = Inr snapshot" "vget snapshot ''network'' = VDict network"
      "\<forall>k \<in> {''ap_active'', ''address_present'', ''dhcp_active'', ''firewall_active''}. vget network k = VBool True"
      "\<forall>sg \<in> set signals. \<not> production_fault sg" for snapshot network
  proof -
    have "pl_available m" "pl_snapshot m = Some snapshot" using that(1) by (simp_all add: m_def plane_poll_def)
    from correlate_healthy[OF this that(2-4), of repr cfg "pi_now_ms i"] have "out = signals" by (simp add: out)
    then show ?thesis by (simp add: keys)
  qed
  ultimately show ?thesis by blast
qed

text \<open>A node whose bus and heartbeat are both silent.\<close>

definition demo_sensor_fault :: alert_signal where
  "demo_sensor_fault = raw_signal ''sensor-node:1:communication'' ALARM_SENSOR_NODE_UNAVAILABLE ''sensor:1'' WARNING
     ''bus'' [] 3"

definition demo_plane_snapshot :: "(string \<times> py_value) list" where
  "demo_plane_snapshot = [(''agent'', VDict [(''started_unix_ms'', VInt 0)]),
     (''network'', VDict [(''ap_active'', VBool True), (''address_present'', VBool True), (''dhcp_active'', VBool True),
        (''firewall_active'', VBool True)]),
     (''nodes'', VList [VDict [(''node_id'', VStr ''kamod-1''), (''modbus_address'', VInt 1), (''online'', VBool False)]])]"

definition demo_plane_registry :: "alert_db plane_registry" where
  "demo_plane_registry = new_plane_registry (demo_registry (\<lambda>_. None)) \<lparr>pl_available = False, pl_consecutive_failures = 0,
     pl_last_error = None, pl_last_attempt_unix_ms = None, pl_last_success_unix_ms = None, pl_snapshot = None\<rparr>"

definition demo_plane_inputs :: plane_inputs where
  "demo_plane_inputs = \<lparr>pi_attempted_ms = 60000, pi_reply = Inr demo_plane_snapshot, pi_now_ms = 60000, pi_now = ''now''\<rparr>"


definition demo_plane_config :: correlation_config where
  "demo_plane_config = \<lparr>cc_agent_failure_threshold = 3, cc_node_initial_grace_ms = 40000\<rparr>"

definition demo_derived :: alert_signal where
  "demo_derived = hd (fst (correlate (\<lambda>_. []) demo_plane_config 60000
     (plane_poll 60000 (Inr demo_plane_snapshot) (pr_monitor demo_plane_registry)) [demo_sensor_fault]))"

lemma demo_correlate:
  "fst (correlate (\<lambda>_. []) demo_plane_config 60000
     (plane_poll 60000 (Inr demo_plane_snapshot) (pr_monitor demo_plane_registry)) [demo_sensor_fault]) = [demo_derived]
   \<and> sg_key demo_derived = ''sensor-node:1:correlated-unavailable'' \<and> sg_occurrences demo_derived = 1
   \<and> sg_code demo_derived = ALARM_KAMOD_NODE_UNAVAILABLE \<and> sg_severity demo_derived = WARNING"
  by code_simp

lemma demo_plane_run:
  "\<exists>p' reported. plane_reconcile sqlite_store (\<lambda>_. []) demo_plane_config demo_plane_inputs [demo_sensor_fault]
     demo_plane_registry = (p', Inr reported)"
proof -
  obtain diag where c: "correlate (\<lambda>_. []) demo_plane_config 60000
     (plane_poll 60000 (Inr demo_plane_snapshot) (pr_monitor demo_plane_registry)) [demo_sensor_fault] = ([demo_derived], diag)"
    using demo_correlate by (metis prod.collapse)
  have "\<exists>g reported. reconcile sqlite_store ''now'' [demo_derived] (demo_registry (\<lambda>_. None)) = (g, Inr reported)"
    using demo_correlate
    by (simp add: reconcile_def signals_by_key_def dict_of_def demo_registry_def demo_alert_db_def
      sqlite_store_def on_alerts_def op_bind_def db_list_active_def db_access_def Let_def reconcile_signal_def
      counted_def dict_get_def db_create_def sqlite_int_def db_insert_def db_commit_def db_get_def db_find_def
      row_to_record_def active_records_def parse_alarm_code_def alarm_codes_def parse_severity_def)
  moreover have "pr_delegate demo_plane_registry = demo_registry (\<lambda>_. None)"
    by (simp add: demo_plane_registry_def new_plane_registry_def)
  ultimately show ?thesis
    by (auto simp: plane_reconcile_def demo_plane_inputs_def c Let_def on_delegate_def)
qed

theorem service_plane_hides_nothing_witness:
  "\<exists>p' reported. plane_reconcile sqlite_store (\<lambda>_. []) demo_plane_config demo_plane_inputs [demo_sensor_fault]
     demo_plane_registry = (p', Inr reported)
    \<and> (\<forall>r \<in> set reported. rc_key r = ''sensor-node:1:communication'' \<or> rc_severity r = WARNING \<and> rc_code r \<in> plane_codes)"
proof -
  from demo_plane_run obtain p' reported where run: "plane_reconcile sqlite_store (\<lambda>_. []) demo_plane_config demo_plane_inputs
      [demo_sensor_fault] demo_plane_registry = (p', Inr reported)" by blast
  have "alert_db_ok (rg_store (pr_delegate demo_plane_registry))"
    by (simp add: demo_plane_registry_def new_plane_registry_def demo_registry_ok)
  from service_plane_hides_nothing[OF _ _ this _ run]
  have "\<forall>r \<in> set reported. rc_key r = ''sensor-node:1:communication'' \<or> rc_severity r = WARNING \<and> rc_code r \<in> plane_codes"
    by (simp add: demo_plane_config_def demo_sensor_fault_def)
  with run show ?thesis by blast
qed

end
