(* ===== verification/AlertPolicy.thy ===== *)
theory AlertPolicy
  imports PyValue "HOL-Library.List_Lexorder" "HOL-Library.Char_ord" "HOL-Library.AList"
begin

section \<open>The alert policy\<close>

text \<open>
  Models \<open>alert_policy.py\<close> and \<open>alert_policy_runtime.py\<close>: the checks of a policy document, its loading
  into typed entries, and the manager that keeps the last good policy and projects active alerts onto the
  HMI. The document is the value \<open>tomllib\<close> makes of the file (dates are left out of its values); reading
  and parsing the file and the hash of its bytes are arguments. Entries keep their fields as values, since
  the Python class does not check them.
\<close>

subsection \<open>The profile\<close>

definition SCHEMA_VERSION :: int where "SCHEMA_VERSION = 1"

definition ALLOWED_REACTIONS :: "string set" where
  "ALLOWED_REACTIONS = {''continue'', ''continue_degraded'', ''fallback_local'', ''recover_safe_outputs'',
     ''safe_state'', ''block_gui''}"

definition ALLOWED_COLORS :: "string set" where
  "ALLOWED_COLORS = {''green'', ''blue'', ''yellow'', ''orange'', ''red''}"

definition REQUIRED_BEHAVIOR :: "(string \<times> py_value) list" where
  "REQUIRED_BEHAVIOR = [(''highest_active_weight_controls_hmi'', VBool True),
     (''acknowledgement_changes_weight'', VBool False), (''acknowledgement_changes_hmi_color'', VBool False),
     (''cleared_alerts_affect_hmi'', VBool False), (''unknown_alert_policy'', VStr ''reject''),
     (''invalid_configuration_policy'', VStr ''reject_keep_last_known_good'')]"

definition WEIGHT_PROFILE :: "(string \<times> int \<times> string \<times> string) list" where
  "WEIGHT_PROFILE = [(''normal'', 0, ''normal'', ''green''), (''info'', 1, ''info'', ''blue''),
     (''warning'', 2, ''warning'', ''yellow''), (''alarm'', 3, ''alarm'', ''orange''),
     (''critical'', 4, ''critical'', ''red'')]"

definition ALERT_REQUIRED_FIELDS :: "string set" where
  "ALERT_REQUIRED_FIELDS = {''enabled'', ''owner'', ''category'', ''weight'', ''severity'', ''reaction'', ''scope'',
     ''affects_control'', ''hmi_color'', ''correlation_group'', ''correlation_priority'', ''title'', ''message''}"

definition TACHO_DIAGNOSTIC_CODES :: "string set" where
  "TACHO_DIAGNOSTIC_CODES = {''TACHO_MONITOR_UNAVAILABLE'', ''TACHO_CONFIGURATION_INVALID''}"

definition FAN_FEEDBACK_CODES :: "string set" where
  "FAN_FEEDBACK_CODES = {''FAN_NO_ROTATION_FEEDBACK'', ''FAN_RPM_OUT_OF_RANGE''}"

definition REQUIRED_SAFETY_ALERTS :: "string set" where
  "REQUIRED_SAFETY_ALERTS = {''DAC_STATE_UNCERTAIN'', ''DAC_COMMUNICATION_LOST'', ''DAC_OUTPUT_MISMATCH'',
     ''TACHO_MONITOR_UNAVAILABLE'', ''TACHO_CONFIGURATION_INVALID''}"

definition NON_CONTROL_DOMAINS :: "string set" where
  "NON_CONTROL_DOMAINS = {''HMI_CM5_COMMUNICATION_LOST'', ''WEATHER_UNAVAILABLE'', ''WEATHER_DATA_STALE'',
     ''AI_BRIDGE_SYNC_TEMPORARY_FAILURE'', ''AI_BRIDGE_BACKLOG_HIGH'', ''AI_ADVISORY_UNAVAILABLE'',
     ''NAS_STORAGE_UNAVAILABLE'', ''SERVICE_AGENT_UNAVAILABLE'', ''SERVICE_NETWORK_AP_UNAVAILABLE'',
     ''SERVICE_NETWORK_DHCP_UNAVAILABLE'', ''SERVICE_NETWORK_FIREWALL_INVALID''}"

text \<open>\<open>_TOKEN_RE\<close> and \<open>_CODE_RE\<close>, matched in full.\<close>

definition in_range :: "char \<Rightarrow> char \<Rightarrow> char \<Rightarrow> bool" where
  "in_range lo hi c = ((of_char lo :: nat) \<le> of_char c \<and> (of_char c :: nat) \<le> of_char hi)"

definition is_token :: "string \<Rightarrow> bool" where
  "is_token s = (s \<noteq> [] \<and> length s \<le> 64 \<and> in_range (CHR ''a'') (CHR ''z'') (hd s)
     \<and> (\<forall>c \<in> set (tl s). in_range (CHR ''a'') (CHR ''z'') c \<or> is_digit_char c \<or> c = CHR ''_''))"

definition is_code :: "string \<Rightarrow> bool" where
  "is_code s = (3 \<le> length s \<and> length s \<le> 64 \<and> in_range (CHR ''A'') (CHR ''Z'') (hd s)
     \<and> (\<forall>c \<in> set (tl s). in_range (CHR ''A'') (CHR ''Z'') c \<or> is_digit_char c \<or> c = CHR ''_''))"

definition TOKEN_PATTERN :: string where "TOKEN_PATTERN = ''^[a-z][a-z0-9_]{0,63}$''"

definition CODE_PATTERN :: string where "CODE_PATTERN = ''^[A-Z][A-Z0-9_]{2,63}$''"

definition strict_int :: "py_value \<Rightarrow> int option" where
  "strict_int v = (case v of VInt i \<Rightarrow> Some i | _ \<Rightarrow> None)"

definition text_of :: "py_value \<Rightarrow> string option" where
  "text_of v = (case v of VStr s \<Rightarrow> Some s | _ \<Rightarrow> None)"

definition nonempty_string :: "py_value \<Rightarrow> bool" where
  "nonempty_string v = (case v of VStr s \<Rightarrow> py_strip s \<noteq> [] | _ \<Rightarrow> False)"

text \<open>\<open>value not in {...}\<close> for a set of strings: unhashable values raise.\<close>

definition member_of :: "string set \<Rightarrow> py_value \<Rightarrow> bool result" where
  "member_of A v = (case v of VStr s \<Rightarrow> Inr (s \<in> A) | VList _ \<Rightarrow> Inl (TypeError (''unhashable type: '' @ py_repr_str ''list''))
     | VDict _ \<Rightarrow> Inl (TypeError (''unhashable type: '' @ py_repr_str ''dict'')) | _ \<Rightarrow> Inr False)"

definition sorted_names :: "string set \<Rightarrow> string" where
  "sorted_names A = join '', '' (sorted_list_of_set A)"

definition error_if :: "bool \<Rightarrow> string \<Rightarrow> string list" where
  "error_if b message = (if b then [message] else [])"

subsection \<open>Checking a document\<close>

definition validate_token :: "py_value \<Rightarrow> string \<Rightarrow> string list" where
  "validate_token v field = error_if (\<not> (case v of VStr s \<Rightarrow> is_token s | _ \<Rightarrow> False))
     (field @ '' must match '' @ py_repr_str TOKEN_PATTERN)"

text \<open>The walk over detector parameters; every value without containers is accepted.\<close>

fun walk :: "string \<Rightarrow> py_value \<Rightarrow> string list"
and walk_items :: "string \<Rightarrow> (string \<times> py_value) list \<Rightarrow> string list"
and walk_list :: "string \<Rightarrow> nat \<Rightarrow> py_value list \<Rightarrow> string list" where
  "walk path (VDict items) = walk_items path items"
| "walk path (VList vs) = walk_list path 0 vs"
| "walk path v = []"
| "walk_items path [] = []"
| "walk_items path ((key, child) # items) =
     (if key = [] then [path @ '' contains an invalid key''] else walk (path @ ''.'' @ key) child) @ walk_items path items"
| "walk_list path i [] = []"
| "walk_list path i (child # vs) = walk (path @ ''['' @ show_nat i @ '']'') child @ walk_list path (Suc i) vs"

definition validate_parameters :: "py_value \<Rightarrow> string \<Rightarrow> string list" where
  "validate_parameters v field = (case v of VNone \<Rightarrow> [] | VDict items \<Rightarrow> walk field (VDict items)
     | _ \<Rightarrow> [field @ '' must be a TOML table''])"

type_synonym table = "(string \<times> py_value) list"

definition names :: "table \<Rightarrow> string set" where
  "names d = fst ` set d"

definition missing_unknown :: "string set \<Rightarrow> string set \<Rightarrow> string \<Rightarrow> string \<Rightarrow> string \<Rightarrow> table \<Rightarrow> string list" where
  "missing_unknown required optional_names missing unknown suffix d =
     error_if (required - names d \<noteq> {}) (missing @ sorted_names (required - names d))
   @ error_if (names d - required - optional_names \<noteq> {}) (unknown @ sorted_names (names d - required - optional_names) @ suffix)"

definition top_errors :: "table \<Rightarrow> string list" where
  "top_errors d =
     (let allowed = {''schema_version'', ''policy_version'', ''policy_name'', ''description'', ''runtime_path'',
            ''behavior'', ''weight'', ''alerts''}
      in error_if (names d - allowed \<noteq> {}) (''unknown top-level fields: '' @ sorted_names (names d - allowed)))
   @ error_if (strict_int (vget d ''schema_version'') \<noteq> Some SCHEMA_VERSION)
       (''schema_version must be exactly '' @ show_int SCHEMA_VERSION)
   @ concat (map (\<lambda>k. error_if (\<not> nonempty_string (vget d k)) (k @ '' must be a non-empty string''))
       [''policy_version'', ''policy_name'', ''description'', ''runtime_path''])
   @ error_if (case vget d ''runtime_path'' of VStr s \<Rightarrow> take 1 s \<noteq> ''/'' | _ \<Rightarrow> False)
       ''runtime_path must be an absolute path''"

definition repr_scalar :: "py_value \<Rightarrow> string" where
  "repr_scalar v = (case v of VBool b \<Rightarrow> if b then ''True'' else ''False'' | VStr s \<Rightarrow> py_repr_str s | _ \<Rightarrow> [])"

definition behavior_errors :: "py_value \<Rightarrow> string list" where
  "behavior_errors v = (case v of
     VDict d \<Rightarrow> missing_unknown (names REQUIRED_BEHAVIOR) {} ''behavior missing fields: '' ''behavior has unknown fields: '' [] d
       @ concat (map (\<lambda>(k, expected). error_if (k \<in> names d \<and> \<not> py_eq (vget d k) expected)
           (''behavior.'' @ k @ '' must be '' @ repr_scalar expected @ ''; safety semantics are not configurable''))
         REQUIRED_BEHAVIOR)
   | _ \<Rightarrow> [''behavior must be a TOML table''])"

text \<open>The weight profiles: the errors, and the texts collected per weight.\<close>

definition profile_errors :: "table \<Rightarrow> string \<times> int \<times> string \<times> string \<Rightarrow> string list" where
  "profile_errors weights = (\<lambda>(profile, value, severity, color).
     case vget weights profile of
       VDict raw \<Rightarrow>
         if names raw \<noteq> {''value'', ''severity'', ''hmi_color''}
         then [''weight.'' @ profile @ '' must contain exactly value, severity and hmi_color'']
         else error_if (\<not> (py_eq (vget raw ''value'') (VInt value) \<and> py_eq (vget raw ''severity'') (VStr severity)
                \<and> py_eq (vget raw ''hmi_color'') (VStr color)))
           (''weight.'' @ profile @ '' must be value='' @ show_int value @ '', severity='' @ py_repr_str severity
            @ '', hmi_color='' @ py_repr_str color)
     | _ \<Rightarrow> [''weight.'' @ profile @ '' must be a TOML table''])"

definition profile_texts :: "table \<Rightarrow> string \<times> int \<times> string \<times> string \<Rightarrow> (int \<times> string \<times> string) list" where
  "profile_texts weights = (\<lambda>(profile, _).
     case vget weights profile of
       VDict raw \<Rightarrow>
         if names raw \<noteq> {''value'', ''severity'', ''hmi_color''} then []
         else (case (strict_int (vget raw ''value''), text_of (vget raw ''severity''), text_of (vget raw ''hmi_color'')) of
            (Some value, Some severity, Some color) \<Rightarrow> [(value, severity, color)] | _ \<Rightarrow> [])
     | _ \<Rightarrow> [])"

definition weight_errors :: "py_value \<Rightarrow> string list" where
  "weight_errors v = (case v of
     VDict d \<Rightarrow> missing_unknown (fst ` set WEIGHT_PROFILE) {} ''weight missing profiles: '' ''weight has unknown profiles: '' [] d
       @ concat (map (profile_errors d) WEIGHT_PROFILE)
   | _ \<Rightarrow> [''weight must be a TOML table''])"

definition weight_by_value :: "py_value \<Rightarrow> (int \<times> string \<times> string) list" where
  "weight_by_value v = (case v of
     VDict d \<Rightarrow> dict_of fst snd (concat (map (profile_texts d) WEIGHT_PROFILE)) | _ \<Rightarrow> [])"

text \<open>The expected severity and colour of a weight: the document's own profile, else the fixed one.\<close>

definition expected_semantics :: "(int \<times> string \<times> string) list \<Rightarrow> int \<Rightarrow> (string \<times> string) option" where
  "expected_semantics by_value weight = (case map_of by_value weight of
     Some texts \<Rightarrow> Some texts
   | None \<Rightarrow> map_of (map snd WEIGHT_PROFILE) weight)"


text \<open>One alert of the document. Looking an unhashable reaction or colour up in a set raises.\<close>

definition alert_field_errors :: "(int \<times> string \<times> string) list \<Rightarrow> string \<Rightarrow> table \<Rightarrow> string list" where
  "alert_field_errors by_value prefix raw =
     missing_unknown ALERT_REQUIRED_FIELDS {''parameters''} (prefix @ '' missing fields: '') (prefix @ '' has unknown fields: '')
       ''; detector parameters belong under .parameters'' raw
   @ error_if (\<not> is_bool (vget raw ''enabled'')) (prefix @ ''.enabled must be boolean'')
   @ error_if (\<not> is_bool (vget raw ''affects_control'')) (prefix @ ''.affects_control must be boolean'')
   @ concat (map (\<lambda>k. validate_token (vget raw k) (prefix @ ''.'' @ k)) [''owner'', ''category'', ''scope'', ''correlation_group''])
   @ (case strict_int (vget raw ''weight'') of
        Some w \<Rightarrow>
          if 0 \<le> w \<and> w \<le> 4
          then (case expected_semantics by_value w of None \<Rightarrow> []
            | Some (severity, color) \<Rightarrow>
                error_if (\<not> py_eq (vget raw ''severity'') (VStr severity))
                  (prefix @ ''.severity must be '' @ py_repr_str severity @ '' for weight '' @ show_int w)
                @ error_if (\<not> py_eq (vget raw ''hmi_color'') (VStr color))
                  (prefix @ ''.hmi_color must be '' @ py_repr_str color @ '' for weight '' @ show_int w))
          else [prefix @ ''.weight must be an integer in range 0..4'']
      | None \<Rightarrow> [prefix @ ''.weight must be an integer in range 0..4''])"

definition alert_set_errors :: "string \<Rightarrow> table \<Rightarrow> string list result" where
  "alert_set_errors prefix raw =
     rbind (member_of ALLOWED_REACTIONS (vget raw ''reaction'')) (\<lambda>reaction_ok.
     rbind (member_of ALLOWED_COLORS (vget raw ''hmi_color'')) (\<lambda>color_ok. Inr (
       error_if (\<not> reaction_ok) (prefix @ ''.reaction must be one of '' @ sorted_names ALLOWED_REACTIONS)
       @ error_if (\<not> color_ok) (prefix @ ''.hmi_color must be one of '' @ sorted_names ALLOWED_COLORS))))"

definition alert_text_errors :: "string \<Rightarrow> table \<Rightarrow> string list" where
  "alert_text_errors prefix raw =
     error_if (case strict_int (vget raw ''correlation_priority'') of None \<Rightarrow> True | Some i \<Rightarrow> \<not> (0 \<le> i \<and> i \<le> 100))
       (prefix @ ''.correlation_priority must be an integer in range 0..100'')
   @ concat (map (\<lambda>k. error_if (\<not> nonempty_string (vget raw k)) (prefix @ ''.'' @ k @ '' must be a non-empty string''))
       [''severity'', ''title'', ''message''])
   @ validate_parameters (vget raw ''parameters'') (prefix @ ''.parameters'')"

definition alert_errors :: "(int \<times> string \<times> string) list \<Rightarrow> string \<times> py_value \<Rightarrow> string list result" where
  "alert_errors by_value = (\<lambda>(code, v).
     let prefix = ''alerts.'' @ code;
         code_errors = error_if (\<not> is_code code)
           (''invalid alert code '' @ py_repr_str code @ ''; expected '' @ py_repr_str CODE_PATTERN)
     in case v of
          VDict raw \<Rightarrow> rbind (alert_set_errors prefix raw) (\<lambda>errors.
            Inr (code_errors @ alert_field_errors by_value prefix raw @ errors @ alert_text_errors prefix raw))
        | _ \<Rightarrow> Inr (code_errors @ [prefix @ '' must be a TOML table'']))"

text \<open>The invariants that a policy cannot configure away.\<close>

definition for_tables :: "string set \<Rightarrow> (string \<Rightarrow> table \<Rightarrow> string list) \<Rightarrow> table \<Rightarrow> string list" where
  "for_tables codes f alerts = concat (map (\<lambda>code. case vget alerts code of VDict raw \<Rightarrow> f code raw | _ \<Rightarrow> [])
     (sorted_list_of_set codes))"

definition required_errors :: "table \<Rightarrow> string list" where
  "required_errors alerts = concat (map (\<lambda>code. case vget alerts code of
       VDict raw \<Rightarrow> error_if (vget raw ''enabled'' \<noteq> VBool True) (''required safety policy '' @ code @ '' cannot be disabled'')
     | _ \<Rightarrow> [''required safety policy '' @ code @ '' is missing''])
   (sorted_list_of_set REQUIRED_SAFETY_ALERTS))"

definition reaction_in :: "string set \<Rightarrow> table \<Rightarrow> bool" where
  "reaction_in A raw = (case vget raw ''reaction'' of VStr s \<Rightarrow> s \<in> A | _ \<Rightarrow> False)"

definition tacho_errors :: "table \<Rightarrow> string list" where
  "tacho_errors = for_tables TACHO_DIAGNOSTIC_CODES (\<lambda>code raw.
     error_if (\<not> reaction_in {''continue'', ''continue_degraded''} raw)
       (code @ '' cannot request a control/safe-state reaction; loss of TACHO never stops ventilation'')
     @ error_if (vget raw ''affects_control'' \<noteq> VBool False)
       (code @ ''.affects_control must be false; loss of TACHO is diagnostic only''))"

definition fan_errors :: "table \<Rightarrow> string list" where
  "fan_errors = for_tables FAN_FEEDBACK_CODES (\<lambda>code raw.
     error_if (reaction_in {''safe_state'', ''recover_safe_outputs''} raw)
       (code @ '' cannot request a global DAC safe-state reaction under the current AlertV2 contract''))"

definition fixed_errors :: "string \<Rightarrow> string \<Rightarrow> bool \<Rightarrow> string \<Rightarrow> int \<Rightarrow> table \<Rightarrow> string list" where
  "fixed_errors code reaction control control_text weight = for_tables {code} (\<lambda>code raw.
     error_if (\<not> py_eq (vget raw ''reaction'') (VStr reaction))
       (code @ ''.reaction must remain '' @ py_repr_str reaction)
     @ error_if (vget raw ''affects_control'' \<noteq> VBool control) (code @ control_text)
     @ error_if (\<not> py_eq (vget raw ''weight'') (VInt weight)) (code @ ''.weight must remain '' @ show_int weight))"

definition domain_errors :: "table \<Rightarrow> string list" where
  "domain_errors = for_tables NON_CONTROL_DOMAINS (\<lambda>code raw.
     error_if (vget raw ''affects_control'' \<noteq> VBool False) (code @ ''.affects_control must remain false'')
     @ error_if (\<not> reaction_in {''continue'', ''continue_degraded'', ''block_gui''} raw)
       (code @ ''.reaction cannot directly control ventilation''))"

definition safety_errors :: "table \<Rightarrow> string list" where
  "safety_errors alerts = required_errors alerts @ tacho_errors alerts @ fan_errors alerts
   @ fixed_errors ''DAC_COMMUNICATION_LOST'' ''safe_state'' True ''.affects_control must remain true'' 4 alerts
   @ fixed_errors ''DAC_STATE_UNCERTAIN'' ''recover_safe_outputs'' True ''.affects_control must remain true'' 3 alerts
   @ fixed_errors ''DAC_OUTPUT_MISMATCH'' ''safe_state'' True ''.affects_control must remain true'' 4 alerts
   @ fixed_errors ''HMI_CM5_COMMUNICATION_LOST'' ''block_gui'' False '' must not affect autonomous core control'' 4 alerts
   @ domain_errors alerts"

definition validate_alert_policy_document :: "py_value \<Rightarrow> string list result" where
  "validate_alert_policy_document document = (case document of
     VDict d \<Rightarrow>
       let errors = top_errors d @ behavior_errors (vget d ''behavior'') @ weight_errors (vget d ''weight'')
       in (case vget d ''alerts'' of
            VDict alerts \<Rightarrow>
              if alerts = [] then Inr (errors @ [''alerts must be a non-empty TOML table''])
              else rbind (map_result (alert_errors (weight_by_value (vget d ''weight''))) alerts) (\<lambda>found.
                Inr (errors @ concat found @ safety_errors alerts))
          | _ \<Rightarrow> Inr (errors @ [''alerts must be a non-empty TOML table'']))
   | _ \<Rightarrow> Inr [''policy root must be a TOML table''])"

subsection \<open>Loading\<close>

record policy_entry =
  pe_code :: string
  pe_enabled :: py_value
  pe_owner :: py_value
  pe_category :: py_value
  pe_weight :: py_value
  pe_severity :: py_value
  pe_reaction :: py_value
  pe_scope :: py_value
  pe_affects_control :: py_value
  pe_hmi_color :: py_value
  pe_correlation_group :: py_value
  pe_correlation_priority :: py_value
  pe_title :: py_value
  pe_message :: py_value
  pe_parameters :: table

record alert_policy =
  ap_schema_version :: py_value
  ap_policy_version :: py_value
  ap_policy_name :: py_value
  ap_description :: py_value
  ap_runtime_path :: py_value
  ap_behavior :: table
  ap_alerts :: "(string \<times> policy_entry) list"
  ap_sha256 :: string
  ap_source_path :: string

text \<open>\<open>raw[key]\<close>.\<close>

definition item :: "table \<Rightarrow> string \<Rightarrow> py_value result" where
  "item raw k = (case map_of raw k of None \<Rightarrow> Inl (KeyError k) | Some v \<Rightarrow> Inr v)"

definition load_entry :: "string \<times> py_value \<Rightarrow> policy_entry result" where
  "load_entry = (\<lambda>(code, v). case v of
     VDict raw \<Rightarrow>
       rbind (item raw ''enabled'') (\<lambda>enabled. rbind (item raw ''owner'') (\<lambda>owner.
       rbind (item raw ''category'') (\<lambda>category. rbind (item raw ''weight'') (\<lambda>weight.
       rbind (item raw ''severity'') (\<lambda>severity. rbind (item raw ''reaction'') (\<lambda>reaction.
       rbind (item raw ''scope'') (\<lambda>scope. rbind (item raw ''affects_control'') (\<lambda>affects_control.
       rbind (item raw ''hmi_color'') (\<lambda>hmi_color. rbind (item raw ''correlation_group'') (\<lambda>correlation_group.
       rbind (item raw ''correlation_priority'') (\<lambda>correlation_priority. rbind (item raw ''title'') (\<lambda>title.
       rbind (item raw ''message'') (\<lambda>message.
         Inr \<lparr>pe_code = code, pe_enabled = enabled, pe_owner = owner, pe_category = category, pe_weight = weight,
           pe_severity = severity, pe_reaction = reaction, pe_scope = scope, pe_affects_control = affects_control,
           pe_hmi_color = hmi_color, pe_correlation_group = correlation_group,
           pe_correlation_priority = correlation_priority, pe_title = title, pe_message = message,
           pe_parameters = (case vget raw ''parameters'' of VDict d \<Rightarrow> d | _ \<Rightarrow> [])\<rparr>)))))))))))))
   | _ \<Rightarrow> Inl (OtherException ''object has no attribute get''))"

definition load_document :: "string \<Rightarrow> string \<Rightarrow> table \<Rightarrow> alert_policy result" where
  "load_document path digest d = (case vget d ''alerts'' of
     VDict raw_alerts \<Rightarrow>
       rbind (map_result load_entry raw_alerts) (\<lambda>entries.
       rbind (item d ''schema_version'') (\<lambda>schema. rbind (item d ''policy_version'') (\<lambda>version.
       rbind (item d ''policy_name'') (\<lambda>name. rbind (item d ''description'') (\<lambda>description.
       rbind (item d ''runtime_path'') (\<lambda>runtime.
         Inr \<lparr>ap_schema_version = schema, ap_policy_version = version, ap_policy_name = name,
           ap_description = description, ap_runtime_path = runtime,
           ap_behavior = (case vget d ''behavior'' of VDict b \<Rightarrow> b | _ \<Rightarrow> []),
           ap_alerts = map (\<lambda>e. (pe_code e, e)) entries, ap_sha256 = digest, ap_source_path = path\<rparr>))))))
   | _ \<Rightarrow> Inl (KeyError ''alerts''))"


text \<open>\<open>AlertPolicyError\<close> with its list of errors, or another exception on its way out.\<close>

datatype policy_error = Policy_rejected "string list" | Policy_raises exc

definition load_alert_policy :: "(string \<Rightarrow> py_value result) \<Rightarrow> (string \<Rightarrow> string) \<Rightarrow> string \<Rightarrow> string result \<Rightarrow>
    policy_error + alert_policy" where
  "load_alert_policy parse digest path file = (case file of
     Inl e \<Rightarrow> Inl (Policy_rejected [''cannot read policy '' @ path @ '': '' @ exc_str e])
   | Inr raw_bytes \<Rightarrow> (case parse raw_bytes of
       Inl e \<Rightarrow> Inl (Policy_rejected [''cannot parse TOML policy '' @ path @ '': '' @ exc_str e])
     | Inr document \<Rightarrow> (case validate_alert_policy_document document of
         Inl e \<Rightarrow> Inl (Policy_raises e)
       | Inr (error # errors) \<Rightarrow> Inl (Policy_rejected (error # errors))
       | Inr [] \<Rightarrow> (case load_document path (digest raw_bytes) (case document of VDict d \<Rightarrow> d | _ \<Rightarrow> []) of
           Inl e \<Rightarrow> Inl (Policy_raises e) | Inr policy \<Rightarrow> Inr policy))))"

subsection \<open>The manager\<close>

record policy_manager =
  pmg_path :: string
  pmg_policy :: "alert_policy option"
  pmg_last_error :: "string option"
  pmg_last_attempt_at :: "string option"
  pmg_loaded_at :: "string option"

text \<open>One \<open>reload\<close>, given what the file gives and the time.\<close>

definition policy_reload :: "(string \<Rightarrow> py_value result) \<Rightarrow> (string \<Rightarrow> string) \<Rightarrow> string result \<Rightarrow> string \<Rightarrow>
    (policy_manager, bool) op" where
  "policy_reload parse digest file now m =
     (case load_alert_policy parse digest (pmg_path m) file of
        Inl (Policy_rejected errors) \<Rightarrow>
          (m\<lparr>pmg_last_attempt_at := Some now, pmg_last_error := Some (join ''; '' errors)\<rparr>, Inr False)
      | Inl (Policy_raises e) \<Rightarrow> (m, Inl e)
      | Inr candidate \<Rightarrow>
          (m\<lparr>pmg_policy := Some candidate, pmg_last_attempt_at := Some now, pmg_loaded_at := Some now,
             pmg_last_error := None\<rparr>, Inr True))"

definition new_policy_manager :: "(string \<Rightarrow> py_value result) \<Rightarrow> (string \<Rightarrow> string) \<Rightarrow> string \<Rightarrow> string result \<Rightarrow> string \<Rightarrow>
    policy_manager result" where
  "new_policy_manager parse digest path file now =
     (case policy_reload parse digest file now \<lparr>pmg_path = path, pmg_policy = None, pmg_last_error = None,
        pmg_last_attempt_at = None, pmg_loaded_at = None\<rparr> of (m, Inl e) \<Rightarrow> Inl e | (m, Inr _) \<Rightarrow> Inr m)"

definition entry_for :: "policy_manager \<Rightarrow> string \<Rightarrow> policy_entry option" where
  "entry_for m code = (case pmg_policy m of None \<Rightarrow> None | Some p \<Rightarrow> map_of (ap_alerts p) code)"

definition opt_text :: "string option \<Rightarrow> py_value" where
  "opt_text v = (case v of None \<Rightarrow> VNone | Some s \<Rightarrow> VStr s)"

definition policy_metadata :: "policy_manager \<Rightarrow> table" where
  "policy_metadata m = [(''runtime_mode'', VStr ''read_only_mapping''), (''loaded'', VBool (pmg_policy m \<noteq> None)),
     (''policy_version'', case pmg_policy m of None \<Rightarrow> VNone | Some p \<Rightarrow> ap_policy_version p),
     (''sha256'', case pmg_policy m of None \<Rightarrow> VNone | Some p \<Rightarrow> VStr (ap_sha256 p)),
     (''alert_count'', VInt (case pmg_policy m of None \<Rightarrow> 0 | Some p \<Rightarrow> int (length (ap_alerts p)))),
     (''source_path'', VStr (pmg_path m)), (''loaded_at'', opt_text (pmg_loaded_at m)),
     (''last_attempt_at'', opt_text (pmg_last_attempt_at m)), (''last_error'', opt_text (pmg_last_error m)),
     (''control_policy_applied'', VBool False)]"

text \<open>The code of an alert payload: empty when it is not a string.\<close>

definition payload_code :: "table \<Rightarrow> string" where
  "payload_code payload = (case vget payload ''code'' of VStr s \<Rightarrow> s | _ \<Rightarrow> [])"

definition decorate_alert_payload :: "policy_manager \<Rightarrow> table \<Rightarrow> table" where
  "decorate_alert_payload m payload =
     (let unmapped = (\<lambda>version reason. VDict [(''mapped'', VBool False), (''policy_version'', version), (''reason'', VStr reason)])
      in AList.update ''alert_v2''
        (case pmg_policy m of
           None \<Rightarrow> unmapped VNone ''policy_unavailable''
         | Some p \<Rightarrow> (case entry_for m (payload_code payload) of
             None \<Rightarrow> unmapped (ap_policy_version p) ''policy_entry_missing''
           | Some e \<Rightarrow> VDict [(''mapped'', VBool True), (''policy_version'', ap_policy_version p),
               (''enabled'', pe_enabled e), (''weight'', pe_weight e), (''severity'', pe_severity e),
               (''reaction'', pe_reaction e), (''scope'', pe_scope e), (''affects_control'', pe_affects_control e),
               (''hmi_color'', pe_hmi_color e), (''category'', pe_category e),
               (''correlation_group'', pe_correlation_group e), (''correlation_priority'', pe_correlation_priority e),
               (''title'', pe_title e)])) payload)"

text \<open>The projection onto the HMI: what one payload adds to the counters, and the colour of the weight.
  \<open>max\<close> on a weight that is not a number raises.\<close>

record policy_counts =
  pc_weight :: int
  pc_mapped :: int
  pc_disabled :: int
  pc_unmapped :: int

definition count_payload :: "policy_manager \<Rightarrow> policy_counts \<Rightarrow> table \<Rightarrow> policy_counts result" where
  "count_payload m n payload = (case entry_for m (payload_code payload) of
     None \<Rightarrow> Inr (n\<lparr>pc_unmapped := pc_unmapped n + 1\<rparr>)
   | Some e \<Rightarrow>
       if \<not> py_truthy (pe_enabled e) then Inr (n\<lparr>pc_mapped := pc_mapped n + 1, pc_disabled := pc_disabled n + 1\<rparr>)
       else (case strict_int (pe_weight e) of
           None \<Rightarrow> Inl (TypeError ''max'')
         | Some w \<Rightarrow> Inr (n\<lparr>pc_mapped := pc_mapped n + 1, pc_weight := max (pc_weight n) w\<rparr>)))"

definition COLOR_BY_WEIGHT :: "(int \<times> string) list" where
  "COLOR_BY_WEIGHT = [(0, ''green''), (1, ''blue''), (2, ''yellow''), (3, ''orange''), (4, ''red'')]"

definition active_summary :: "policy_manager \<Rightarrow> table list \<Rightarrow> table result" where
  "active_summary m alerts =
     (let summary = (\<lambda>weight color mapped disabled unmapped. policy_metadata m @
            [(''active_weight'', weight), (''hmi_color'', color), (''mapped_active_alerts'', VInt mapped),
             (''disabled_active_alerts'', VInt disabled), (''unmapped_active_alerts'', VInt unmapped)])
      in if pmg_policy m = None then Inr (summary VNone VNone 0 0 (int (length alerts)))
         else rbind (fold_result (count_payload m) \<lparr>pc_weight = 0, pc_mapped = 0, pc_disabled = 0, pc_unmapped = 0\<rparr> alerts)
           (\<lambda>n. case map_of COLOR_BY_WEIGHT (pc_weight n) of
              None \<Rightarrow> Inl (KeyError (show_int (pc_weight n)))
            | Some color \<Rightarrow> Inr (summary (VInt (pc_weight n)) (VStr color) (pc_mapped n) (pc_disabled n) (pc_unmapped n))))"


subsection \<open>Decorated states and records\<close>

text \<open>
  \<open>application/alert_v2_policy_service.py\<close>: the views put around the serialised state and alert records.
  The serialised value is an argument, and so is what the service plane's diagnostics give, if there are any.
\<close>

definition tables_in :: "py_value list \<Rightarrow> table list" where
  "tables_in vs = List.map_filter (\<lambda>v. case v of VDict d \<Rightarrow> Some d | _ \<Rightarrow> None) vs"

definition record_view :: "policy_manager \<Rightarrow> py_value \<Rightarrow> py_value" where
  "record_view m v = (case v of VDict d \<Rightarrow> VDict (decorate_alert_payload m d) | _ \<Rightarrow> v)"

definition state_view :: "policy_manager \<Rightarrow> py_value result option \<Rightarrow> table \<Rightarrow> table result" where
  "state_view m diagnostics payload =
     (let active = (case vget payload ''active_alarms'' of VList vs \<Rightarrow> vs | _ \<Rightarrow> []);
          decorated = AList.update ''active_alarms'' (VList (map (record_view m) active)) payload
      in rbind (active_summary m (tables_in active)) (\<lambda>summary.
           let shown = (case diagnostics of None \<Rightarrow> summary
                 | Some (Inr d) \<Rightarrow> AList.update ''service_plane'' d summary
                 | Some (Inl e) \<Rightarrow> AList.update ''service_plane'' (VDict [(''monitor'', VNone), (''correlation'', VNone),
                     (''control_policy_applied'', VBool False), (''diagnostics_error'', VStr (exc_str e))]) summary)
           in Inr (AList.update ''alert_v2'' (VDict shown) decorated)))"

subsection \<open>What a policy without errors is\<close>

lemma error_if_Nil [simp]: "error_if b t = [] \<longleftrightarrow> \<not> b"
  by (simp add: error_if_def)

lemma py_eq_str [simp]: "py_eq v (VStr s) \<longleftrightarrow> v = VStr s"
  by (cases v) (simp_all add: py_eq_def)

lemma py_eq_strict_int: "strict_int v = Some i \<Longrightarrow> py_eq v (VInt j) \<longleftrightarrow> i = j"
  by (cases v) (auto simp: strict_int_def py_eq_def)

lemma strict_int_Some: "strict_int v = Some i \<longleftrightarrow> v = VInt i"
  by (cases v) (auto simp: strict_int_def)

lemma is_bool_iff: "is_bool v \<longleftrightarrow> (\<exists>b. v = VBool b)"
  by (cases v) (auto simp: is_bool_def)

lemma member_of_True: "member_of A v = Inr True \<longleftrightarrow> (\<exists>s \<in> A. v = VStr s)"
  by (cases v) (auto simp: member_of_def)

lemma validate_token_Nil: "validate_token v field = [] \<longleftrightarrow> (\<exists>s. v = VStr s \<and> is_token s)"
  by (cases v) (auto simp: validate_token_def)

lemma nonempty_string_str: "nonempty_string v \<Longrightarrow> \<exists>s. v = VStr s \<and> py_strip s \<noteq> []"
  by (cases v) (auto simp: nonempty_string_def)

lemma item_names: "k \<in> names raw \<Longrightarrow> item raw k = Inr (vget raw k)"
  by (auto simp: item_def names_def vget_def dict_get_def map_of_eq_None_iff split: option.split)

lemma missing_unknown_Nil: "missing_unknown required others a b c d = [] \<Longrightarrow> required \<subseteq> names d"
  by (auto simp: missing_unknown_def)

lemma validate_Nil:
  assumes "validate_alert_policy_document document = Inr []"
  obtains d alerts where "document = VDict d" "top_errors d = []" "behavior_errors (vget d ''behavior'') = []"
    "weight_errors (vget d ''weight'') = []" "vget d ''alerts'' = VDict alerts" "alerts \<noteq> []"
    "\<forall>x \<in> set alerts. alert_errors (weight_by_value (vget d ''weight'')) x = Inr []" "safety_errors alerts = []"
proof -
  from assms obtain d where d: "document = VDict d"
    by (cases document) (auto simp: validate_alert_policy_document_def)
  with assms obtain alerts where a: "vget d ''alerts'' = VDict alerts" "alerts \<noteq> []"
    by (cases "vget d ''alerts''") (auto simp: validate_alert_policy_document_def Let_def split: if_splits)
  with d assms obtain found where found: "map_result (alert_errors (weight_by_value (vget d ''weight''))) alerts = Inr found"
    and nil: "top_errors d @ behavior_errors (vget d ''behavior'') @ weight_errors (vget d ''weight'') @ concat found
      @ safety_errors alerts = []"
    by (auto simp: validate_alert_policy_document_def Let_def rbind_eq_Inr)
  have "list_all2 (\<lambda>x es. alert_errors (weight_by_value (vget d ''weight'')) x = Inr es) alerts found"
    using found by (simp add: map_result_Inr_iff)
  moreover have "\<forall>es \<in> set found. es = []" using nil by simp
  ultimately have "\<forall>x \<in> set alerts. alert_errors (weight_by_value (vget d ''weight'')) x = Inr []"
    by (induction rule: list_all2_induct) auto
  with d a nil that show thesis by simp
qed

text \<open>The profile of the document is the fixed one.\<close>

lemma text_of_Some: "text_of v = Some s \<longleftrightarrow> v = VStr s"
  by (cases v) (auto simp: text_of_def)

lemma profile_texts_ok:
  assumes ok: "profile_errors weights (name, w, s, c) = []" and t: "t \<in> set (profile_texts weights (name, w, s, c))"
  shows "t = (w, s, c)"
proof -
  from t obtain raw where raw: "vget weights name = VDict raw"
    by (cases "vget weights name") (simp_all add: profile_texts_def)
  define fields where "fields = {''value'', ''severity'', ''hmi_color''}"
  have names: "names raw = fields" using t by (simp add: profile_texts_def raw flip: fields_def split: if_split_asm)
  with t raw obtain v s' c' where v: "strict_int (vget raw ''value'') = Some v" "text_of (vget raw ''severity'') = Some s'"
    "text_of (vget raw ''hmi_color'') = Some c'" "t = (v, s', c')"
    by (simp add: profile_texts_def flip: fields_def split: option.split_asm) metis
  with ok raw names show ?thesis by (simp add: profile_errors_def py_eq_strict_int text_of_Some flip: fields_def)
qed

lemma profile_distinct: "distinct (map (fst \<circ> snd) WEIGHT_PROFILE)"
  by (simp add: WEIGHT_PROFILE_def)

lemma weight_by_value_ok:
  assumes "weight_errors v = []" "map_of (weight_by_value v) w = Some texts"
  shows "map_of (map snd WEIGHT_PROFILE) w = Some texts"
proof -
  from assms(1) obtain d where d: "v = VDict d" and ok: "\<forall>x \<in> set WEIGHT_PROFILE. profile_errors d x = []"
    by (cases v) (auto simp: weight_errors_def)
  from assms(2) have "(w, texts) \<in> set (concat (map (profile_texts d) WEIGHT_PROFILE))"
    by (force simp: weight_by_value_def d dest: map_of_dict_of_Some)
  then obtain name w' s c where x: "(name, w', s, c) \<in> set WEIGHT_PROFILE" "(w, texts) \<in> set (profile_texts d (name, w', s, c))"
    by fastforce
  with ok profile_texts_ok[OF _ x(2)] have "w' = w" "texts = (s, c)" by auto
  with x(1) profile_distinct show ?thesis by (force simp: map_of_eq_Some_iff comp_def)
qed


text \<open>The types and ranges of an entry, and the invariants of a policy.\<close>

definition token_value :: "py_value \<Rightarrow> bool" where
  "token_value v = (\<exists>s. v = VStr s \<and> is_token s)"

definition typed_entry :: "policy_entry \<Rightarrow> bool" where
  "typed_entry e = (is_code (pe_code e) \<and> is_bool (pe_enabled e) \<and> is_bool (pe_affects_control e)
     \<and> token_value (pe_owner e) \<and> token_value (pe_category e) \<and> token_value (pe_scope e)
     \<and> token_value (pe_correlation_group e)
     \<and> (\<exists>w s c. pe_weight e = VInt w \<and> pe_severity e = VStr s \<and> pe_hmi_color e = VStr c
          \<and> (w, s, c) \<in> set (map snd WEIGHT_PROFILE))
     \<and> (\<exists>s \<in> ALLOWED_REACTIONS. pe_reaction e = VStr s)
     \<and> (\<exists>i. pe_correlation_priority e = VInt i \<and> 0 \<le> i \<and> i \<le> 100)
     \<and> nonempty_string (pe_title e) \<and> nonempty_string (pe_message e))"

definition entry_is :: "alert_policy \<Rightarrow> string \<Rightarrow> (policy_entry \<Rightarrow> bool) \<Rightarrow> bool" where
  "entry_is p code Q = (case map_of (ap_alerts p) code of None \<Rightarrow> True | Some e \<Rightarrow> Q e)"

definition fixed_entry :: "string \<Rightarrow> bool \<Rightarrow> int \<Rightarrow> policy_entry \<Rightarrow> bool" where
  "fixed_entry reaction control weight e = (pe_reaction e = VStr reaction \<and> pe_affects_control e = VBool control
     \<and> pe_weight e = VInt weight)"

definition policy_ok :: "alert_policy \<Rightarrow> bool" where
  "policy_ok p = (ap_alerts p \<noteq> [] \<and> (\<forall>(code, e) \<in> set (ap_alerts p). pe_code e = code \<and> typed_entry e)
     \<and> (\<forall>code \<in> REQUIRED_SAFETY_ALERTS. \<exists>e. map_of (ap_alerts p) code = Some e \<and> pe_enabled e = VBool True)
     \<and> (\<forall>code \<in> TACHO_DIAGNOSTIC_CODES. entry_is p code (\<lambda>e. pe_affects_control e = VBool False
          \<and> pe_reaction e \<in> {VStr ''continue'', VStr ''continue_degraded''}))
     \<and> (\<forall>code \<in> NON_CONTROL_DOMAINS. entry_is p code (\<lambda>e. pe_affects_control e = VBool False))
     \<and> entry_is p ''DAC_COMMUNICATION_LOST'' (fixed_entry ''safe_state'' True 4)
     \<and> entry_is p ''DAC_STATE_UNCERTAIN'' (fixed_entry ''recover_safe_outputs'' True 3)
     \<and> entry_is p ''DAC_OUTPUT_MISMATCH'' (fixed_entry ''safe_state'' True 4)
     \<and> entry_is p ''HMI_CM5_COMMUNICATION_LOST'' (fixed_entry ''block_gui'' False 4))"

text \<open>One alert without errors loads into a typed entry whose fields are those of the table.\<close>

definition entry_of :: "string \<Rightarrow> table \<Rightarrow> policy_entry" where
  "entry_of code raw = \<lparr>pe_code = code, pe_enabled = vget raw ''enabled'', pe_owner = vget raw ''owner'',
     pe_category = vget raw ''category'', pe_weight = vget raw ''weight'', pe_severity = vget raw ''severity'',
     pe_reaction = vget raw ''reaction'', pe_scope = vget raw ''scope'',
     pe_affects_control = vget raw ''affects_control'', pe_hmi_color = vget raw ''hmi_color'',
     pe_correlation_group = vget raw ''correlation_group'',
     pe_correlation_priority = vget raw ''correlation_priority'', pe_title = vget raw ''title'',
     pe_message = vget raw ''message'', pe_parameters = (case vget raw ''parameters'' of VDict d \<Rightarrow> d | _ \<Rightarrow> [])\<rparr>"

lemma load_entry_ok: "ALERT_REQUIRED_FIELDS \<subseteq> names raw \<Longrightarrow> load_entry (code, VDict raw) = Inr (entry_of code raw)"
  by (simp add: load_entry_def ALERT_REQUIRED_FIELDS_def item_names entry_of_def)

lemma alert_errors_Nil:
  assumes "alert_errors by_value (code, v) = Inr []"
  obtains raw prefix where "v = VDict raw" "is_code code" "alert_field_errors by_value prefix raw = []"
    "alert_set_errors prefix raw = Inr []" "alert_text_errors prefix raw = []"
proof -
  from assms obtain raw where v: "v = VDict raw"
    by (cases v) (simp_all add: alert_errors_def Let_def)
  with assms obtain es where "alert_set_errors (''alerts.'' @ code) raw = Inr es"
    by (auto simp: alert_errors_def Let_def rbind_eq_Inr)
  with assms v have "is_code code \<and> alert_field_errors by_value (''alerts.'' @ code) raw = []
      \<and> es = [] \<and> alert_text_errors (''alerts.'' @ code) raw = []" by (simp add: alert_errors_def Let_def)
  with v \<open>alert_set_errors _ raw = Inr es\<close> that[of raw "''alerts.'' @ code"] show thesis by blast
qed

lemma set_errors_Nil:
  assumes "alert_set_errors prefix raw = Inr []"
  shows "\<exists>s \<in> ALLOWED_REACTIONS. vget raw ''reaction'' = VStr s"
proof -
  from assms obtain b c where "member_of ALLOWED_REACTIONS (vget raw ''reaction'') = Inr b"
    "member_of ALLOWED_COLORS (vget raw ''hmi_color'') = Inr c" by (auto simp: alert_set_errors_def rbind_eq_Inr)
  with assms have "member_of ALLOWED_REACTIONS (vget raw ''reaction'') = Inr True" by (simp add: alert_set_errors_def)
  then show ?thesis by (simp add: member_of_True)
qed

lemma weight_semantics:
  assumes "weight_errors weights = []" "alert_field_errors (weight_by_value weights) prefix raw = []"
  shows "\<exists>w s c. vget raw ''weight'' = VInt w \<and> vget raw ''severity'' = VStr s \<and> vget raw ''hmi_color'' = VStr c
    \<and> (w, s, c) \<in> set (map snd WEIGHT_PROFILE)"
proof -
  from assms(2) obtain w where w: "strict_int (vget raw ''weight'') = Some w" "0 \<le> w" "w \<le> 4"
    by (auto simp: alert_field_errors_def split: option.splits if_splits)
  then have "w = 0 \<or> w = 1 \<or> w = 2 \<or> w = 3 \<or> w = 4" by linarith
  then have "map_of (map snd WEIGHT_PROFILE) w \<noteq> None" by (auto simp: WEIGHT_PROFILE_def)
  then obtain s c where sc: "map_of (map snd WEIGHT_PROFILE) w = Some (s, c)" by auto
  have "expected_semantics (weight_by_value weights) w = Some (s, c)"
    using weight_by_value_ok[OF assms(1), of w] sc by (auto simp: expected_semantics_def split: option.split)
  with assms(2) w have "vget raw ''severity'' = VStr s" "vget raw ''hmi_color'' = VStr c"
    by (simp_all add: alert_field_errors_def)
  with w(1) map_of_SomeD[OF sc] show ?thesis by (auto simp: strict_int_Some)
qed

lemma entry_of_typed:
  assumes w: "weight_errors weights = []" and ok: "alert_errors (weight_by_value weights) (code, v) = Inr []"
  shows "\<exists>raw. v = VDict raw \<and> load_entry (code, v) = Inr (entry_of code raw) \<and> typed_entry (entry_of code raw)"
proof -
  from ok obtain raw prefix where v: "v = VDict raw" and code: "is_code code"
    and f: "alert_field_errors (weight_by_value weights) prefix raw = []"
    and s: "alert_set_errors prefix raw = Inr []" and t: "alert_text_errors prefix raw = []"
    by (rule alert_errors_Nil)
  have "ALERT_REQUIRED_FIELDS \<subseteq> names raw"
    using f unfolding alert_field_errors_def append_is_Nil_conv by (blast dest: missing_unknown_Nil)
  moreover have "is_bool (vget raw ''enabled'')" "is_bool (vget raw ''affects_control'')"
    "token_value (vget raw ''owner'')" "token_value (vget raw ''category'')" "token_value (vget raw ''scope'')"
    "token_value (vget raw ''correlation_group'')"
    using f by (simp_all add: alert_field_errors_def validate_token_Nil token_value_def)
  moreover have "\<exists>i. vget raw ''correlation_priority'' = VInt i \<and> 0 \<le> i \<and> i \<le> 100"
    using t by (auto simp: alert_text_errors_def strict_int_Some split: option.splits)
  moreover have "nonempty_string (vget raw ''title'')" "nonempty_string (vget raw ''message'')"
    using t by (simp_all add: alert_text_errors_def)
  moreover note set_errors_Nil[OF s] weight_semantics[OF w f]
  ultimately show ?thesis using v code by (simp add: load_entry_ok typed_entry_def entry_of_def)
qed


definition table_of :: "py_value \<Rightarrow> table" where
  "table_of v = (case v of VDict d \<Rightarrow> d | _ \<Rightarrow> [])"

lemma table_of_VDict [simp]: "table_of (VDict d) = d"
  by (simp add: table_of_def)

lemma entries_loaded:
  assumes "\<forall>(code, v) \<in> set alerts. load_entry (code, v) = Inr (entry_of code (table_of v))"
  shows "map_result load_entry alerts = Inr (map (\<lambda>(code, v). entry_of code (table_of v)) alerts)"
  using assms by (induction alerts) auto

lemma map_of_entries:
  "map_of (map (\<lambda>e. (pe_code e, e)) (map (\<lambda>(code, v). entry_of code (table_of v)) alerts)) code
    = map_option (\<lambda>v. entry_of code (table_of v)) (map_of alerts code)"
  by (induction alerts) (auto simp: entry_of_def)

lemma for_tables_Nil:
  assumes "for_tables codes f alerts = []" "finite codes" "code \<in> codes" "map_of alerts code = Some (VDict raw)"
  shows "f code raw = []"
  using assms by (auto simp: for_tables_def vget_def dict_get_def split: py_value.splits)

lemma reaction_in_iff: "reaction_in A raw \<longleftrightarrow> (\<exists>s \<in> A. vget raw ''reaction'' = VStr s)"
  by (cases "vget raw ''reaction''") (auto simp: reaction_in_def)

lemma fixed_errors_entry:
  assumes "fixed_errors code reaction control t weight alerts = []" "map_of alerts code = Some (VDict raw)"
    and typed: "typed_entry (entry_of code raw)"
  shows "fixed_entry reaction control weight (entry_of code raw)"
proof -
  note all = for_tables_Nil[OF assms(1)[unfolded fixed_errors_def] _ _ assms(2)]
  from typed obtain w where "strict_int (vget raw ''weight'') = Some w"
    by (auto simp: typed_entry_def entry_of_def strict_int_def)
  with all show ?thesis by (auto simp: fixed_entry_def entry_of_def py_eq_strict_int strict_int_Some)
qed

lemma finite_codes [simp]: "finite REQUIRED_SAFETY_ALERTS" "finite TACHO_DIAGNOSTIC_CODES" "finite NON_CONTROL_DOMAINS"
  by (simp_all add: REQUIRED_SAFETY_ALERTS_def TACHO_DIAGNOSTIC_CODES_def NON_CONTROL_DOMAINS_def)

lemma required_errors_entry:
  assumes "required_errors alerts = []" "code \<in> REQUIRED_SAFETY_ALERTS"
  shows "\<exists>raw. map_of alerts code = Some (VDict raw) \<and> vget raw ''enabled'' = VBool True"
proof -
  from assms have "(case vget alerts code of
       VDict raw \<Rightarrow> error_if (vget raw ''enabled'' \<noteq> VBool True) (''required safety policy '' @ code @ '' cannot be disabled'')
     | _ \<Rightarrow> [''required safety policy '' @ code @ '' is missing'']) = []"
    by (simp add: required_errors_def)
  then obtain raw where "vget alerts code = VDict raw" "vget raw ''enabled'' = VBool True"
    by (cases "vget alerts code") simp_all
  then show ?thesis by (auto simp: vget_def dict_get_def split: option.splits)
qed

lemma policy_ok_entries:
  assumes nonempty: "alerts \<noteq> []" and safety: "safety_errors alerts = []"
    and tables: "\<forall>(code, v) \<in> set alerts. (\<exists>raw. v = VDict raw) \<and> typed_entry (entry_of code (table_of v))"
    and p: "ap_alerts p = map (\<lambda>e. (pe_code e, e)) (map (\<lambda>(code, v). entry_of code (table_of v)) alerts)"
  shows "policy_ok p"
proof -
  have is_entry: "entry_is p code Q"
    if "\<And>raw. map_of alerts code = Some (VDict raw) \<Longrightarrow> typed_entry (entry_of code raw) \<Longrightarrow> Q (entry_of code raw)" for code Q
  proof (cases "map_of alerts code")
    case None
    then show ?thesis by (simp add: entry_is_def p map_of_entries del: map_map)
  next
    case (Some v)
    with tables obtain raw where "v = VDict raw" "typed_entry (entry_of code (table_of v))"
      by (auto dest!: map_of_SomeD)
    with Some that show ?thesis by (simp add: entry_is_def p map_of_entries del: map_map)
  qed
  have req: "\<exists>e. map_of (ap_alerts p) code = Some e \<and> pe_enabled e = VBool True"
    if code: "code \<in> REQUIRED_SAFETY_ALERTS" for code
  proof -
    have "required_errors alerts = []" using safety by (simp add: safety_errors_def)
    from required_errors_entry[OF this code] obtain raw where "map_of alerts code = Some (VDict raw)"
      "vget raw ''enabled'' = VBool True" by blast
    then show ?thesis by (simp add: p map_of_entries del: map_map) (simp add: entry_of_def)
  qed
  have tacho: "entry_is p code (\<lambda>e. pe_affects_control e = VBool False \<and> pe_reaction e \<in> {VStr ''continue'', VStr ''continue_degraded''})"
    if code: "code \<in> TACHO_DIAGNOSTIC_CODES" for code
  proof (rule is_entry)
    fix raw assume "map_of alerts code = Some (VDict raw)"
    from for_tables_Nil[OF _ _ code this] safety show "pe_affects_control (entry_of code raw) = VBool False
        \<and> pe_reaction (entry_of code raw) \<in> {VStr ''continue'', VStr ''continue_degraded''}"
      by (fastforce simp: safety_errors_def tacho_errors_def entry_of_def reaction_in_iff)
  qed
  have domain: "entry_is p code (\<lambda>e. pe_affects_control e = VBool False)" if code: "code \<in> NON_CONTROL_DOMAINS" for code
  proof (rule is_entry)
    fix raw assume "map_of alerts code = Some (VDict raw)"
    from for_tables_Nil[OF _ _ code this] safety show "pe_affects_control (entry_of code raw) = VBool False"
      by (fastforce simp: safety_errors_def domain_errors_def entry_of_def)
  qed
  have fixed: "entry_is p code (fixed_entry reaction control weight)"
    if "fixed_errors code reaction control t weight alerts = []" for code reaction control t weight
    by (rule is_entry) (rule fixed_errors_entry[OF that])
  have fixeds: "fixed_errors ''DAC_COMMUNICATION_LOST'' ''safe_state'' True ''.affects_control must remain true'' 4 alerts = []"
    "fixed_errors ''DAC_STATE_UNCERTAIN'' ''recover_safe_outputs'' True ''.affects_control must remain true'' 3 alerts = []"
    "fixed_errors ''DAC_OUTPUT_MISMATCH'' ''safe_state'' True ''.affects_control must remain true'' 4 alerts = []"
    "fixed_errors ''HMI_CM5_COMMUNICATION_LOST'' ''block_gui'' False '' must not affect autonomous core control'' 4 alerts = []"
    using safety unfolding safety_errors_def append_is_Nil_conv by blast+
  have "ap_alerts p \<noteq> []" using nonempty p by simp
  moreover have "\<forall>(code, e) \<in> set (ap_alerts p). pe_code e = code \<and> typed_entry e"
    using tables by (auto simp: p)
  ultimately show ?thesis unfolding policy_ok_def using req tacho domain fixeds[THEN fixed] by blast
qed


lemma map_result_Inl: "map_result f xs = Inl e \<Longrightarrow> \<exists>x \<in> set xs. f x = Inl e"
  by (induction xs) (auto split: sum.splits)

lemma member_of_Inl: "member_of A v = Inl e \<Longrightarrow> \<exists>t. e = TypeError t"
  by (cases v) (auto simp: member_of_def)

lemma validate_raises: "validate_alert_policy_document document = Inl e \<Longrightarrow> \<exists>t. e = TypeError t"
proof -
  assume raises: "validate_alert_policy_document document = Inl e"
  then obtain d where d: "document = VDict d"
    by (cases document) (simp_all add: validate_alert_policy_document_def)
  with raises obtain alerts where "vget d ''alerts'' = VDict alerts"
    by (cases "vget d ''alerts''") (simp_all add: validate_alert_policy_document_def Let_def)
  with raises d have "map_result (alert_errors (weight_by_value (vget d ''weight''))) alerts = Inl e"
    by (auto simp: validate_alert_policy_document_def Let_def rbind_def split: if_splits sum.splits)
  then obtain code v where "alert_errors (weight_by_value (vget d ''weight'')) (code, v) = Inl e"
    by (auto dest: map_result_Inl)
  then obtain raw prefix where "alert_set_errors prefix raw = Inl e"
    by (cases v) (auto simp: alert_errors_def Let_def rbind_def split: sum.splits)
  then show ?thesis by (auto simp: alert_set_errors_def rbind_def dest: member_of_Inl split: sum.splits)
qed

lemma item_present: "vget d k \<noteq> VNone \<Longrightarrow> item d k = Inr (vget d k)"
  by (auto simp: item_def vget_def dict_get_def split: option.splits)

lemma load_validated:
  assumes ok: "validate_alert_policy_document document = Inr []"
  shows "\<exists>d p. document = VDict d \<and> load_document path digest d = Inr p \<and> policy_ok p"
proof -
  from ok obtain d alerts where d: "document = VDict d" "top_errors d = []" and w: "weight_errors (vget d ''weight'') = []"
    and a: "vget d ''alerts'' = VDict alerts" "alerts \<noteq> []"
    and each: "\<forall>x \<in> set alerts. alert_errors (weight_by_value (vget d ''weight'')) x = Inr []"
    and safety: "safety_errors alerts = []" by (rule validate_Nil)
  have tables: "\<exists>raw. v = VDict raw \<and> load_entry (code, v) = Inr (entry_of code raw) \<and> typed_entry (entry_of code raw)"
    if "(code, v) \<in> set alerts" for code v
    using entry_of_typed[OF w] each that by blast
  have "\<forall>(code, v) \<in> set alerts. load_entry (code, v) = Inr (entry_of code (table_of v))" using tables by fastforce
  note entries = entries_loaded[OF this]
  have "vget d k \<noteq> VNone"
    if "k \<in> {''schema_version'', ''policy_version'', ''policy_name'', ''description'', ''runtime_path''}" for k
    using that d(2) by (auto simp: top_errors_def nonempty_string_def strict_int_def)
  then obtain p where p: "load_document path digest d = Inr p"
    "ap_alerts p = map (\<lambda>e. (pe_code e, e)) (map (\<lambda>(code, v). entry_of code (table_of v)) alerts)"
    by (simp add: load_document_def a entries item_present del: map_map)
  have "\<forall>(code, v) \<in> set alerts. (\<exists>raw. v = VDict raw) \<and> typed_entry (entry_of code (table_of v))"
    using tables by fastforce
  from policy_ok_entries[OF a(2) safety this p(2)] d p(1) show ?thesis by blast
qed

lemma load_typed:
  "case load_alert_policy parse digest path file of
     Inr p \<Rightarrow> policy_ok p
   | Inl (Policy_rejected errors) \<Rightarrow> errors \<noteq> []
   | Inl (Policy_raises e) \<Rightarrow> \<exists>t. e = TypeError t"
proof (cases "file")
  case (Inl e)
  then show ?thesis by (simp add: load_alert_policy_def)
next
  case (Inr raw_bytes)
  show ?thesis
  proof (cases "parse raw_bytes")
    case (Inl e)
    with \<open>file = Inr raw_bytes\<close> show ?thesis by (simp add: load_alert_policy_def)
  next
    case (Inr document)
    show ?thesis
    proof (cases "validate_alert_policy_document document")
      case (Inl e)
      with \<open>file = Inr raw_bytes\<close> Inr validate_raises show ?thesis by (simp add: load_alert_policy_def)
    next
      case valid: (Inr errors)
      show ?thesis
      proof (cases errors)
        case Nil
        with load_validated[of document path "digest raw_bytes"] valid obtain d p where
          "document = VDict d" "load_document path (digest raw_bytes) d = Inr p" "policy_ok p" by blast
        with \<open>file = Inr raw_bytes\<close> Inr valid Nil show ?thesis by (simp add: load_alert_policy_def)
      next
        case (Cons x xs)
        with \<open>file = Inr raw_bytes\<close> Inr valid show ?thesis by (simp add: load_alert_policy_def)
      qed
    qed
  qed
qed

text \<open>C23: A loaded alert policy is well-typed and keeps the safety rules. Whatever the file holds and
  however it parses: a load returns only a policy whose every entry has a legal code, booleans for
  \<open>enabled\<close> and \<open>affects_control\<close>, tokens for its names, one of the five weights with that weight's severity
  and colour, a known reaction, a priority in 0..100 and texts that are not blank; in which the safety
  alerts exist and are enabled, the tachometer and service alerts never affect control, and the DAC and
  HMI alerts have their fixed reaction, weight and effect. Otherwise it is rejected with at least one
  error, or raises a TypeError; no other exception comes out, in particular no KeyError of a field that
  is missing.\<close>

theorem loaded_policy_typed:
  "case load_alert_policy parse digest path file of
     Inr p \<Rightarrow> policy_ok p
   | Inl (Policy_rejected errors) \<Rightarrow> errors \<noteq> []
   | Inl (Policy_raises e) \<Rightarrow> \<exists>t. e = TypeError t"
  by (rule load_typed)


subsection \<open>The manager and its projection\<close>

text \<open>A manager after any number of reloads, exceptions included, and the last policy that loaded.\<close>

definition empty_manager :: "string \<Rightarrow> policy_manager" where
  "empty_manager path = \<lparr>pmg_path = path, pmg_policy = None, pmg_last_error = None, pmg_last_attempt_at = None,
     pmg_loaded_at = None\<rparr>"

primrec manager_run :: "(string \<Rightarrow> py_value result) \<Rightarrow> (string \<Rightarrow> string) \<Rightarrow> policy_manager \<Rightarrow>
    (string result \<times> string) list \<Rightarrow> policy_manager" where
  "manager_run parse digest m [] = m"
| "manager_run parse digest m (x # xs) = manager_run parse digest (fst (policy_reload parse digest (fst x) (snd x) m)) xs"

primrec last_good :: "(string \<Rightarrow> py_value result) \<Rightarrow> (string \<Rightarrow> string) \<Rightarrow> string \<Rightarrow> alert_policy option \<Rightarrow>
    (string result \<times> string) list \<Rightarrow> alert_policy option" where
  "last_good parse digest path current [] = current"
| "last_good parse digest path current (x # xs) = last_good parse digest path
     (case load_alert_policy parse digest path (fst x) of Inr p \<Rightarrow> Some p | Inl _ \<Rightarrow> current) xs"

lemma reload_policy: "pmg_path (fst (policy_reload parse digest f now m)) = pmg_path m
  \<and> pmg_policy (fst (policy_reload parse digest f now m))
      = (case load_alert_policy parse digest (pmg_path m) f of Inr p \<Rightarrow> Some p | Inl _ \<Rightarrow> pmg_policy m)"
  by (auto simp: policy_reload_def split: sum.split policy_error.split)

lemma manager_run_policy:
  "pmg_policy (manager_run parse digest m xs) = last_good parse digest (pmg_path m) (pmg_policy m) xs"
  using reload_policy by (induction xs arbitrary: m) simp_all

lemma last_good_ok:
  "pred_option policy_ok current \<Longrightarrow> pred_option policy_ok (last_good parse digest path current xs)"
proof (induction xs arbitrary: current)
  case (Cons x xs)
  have "pred_option policy_ok (case load_alert_policy parse digest path (fst x) of Inr p \<Rightarrow> Some p | Inl _ \<Rightarrow> current)"
    using Cons.prems load_typed[of parse digest path "fst x"] by (auto split: sum.split)
  from Cons.IH[OF this] show ?case by simp
qed simp

text \<open>The entries of the active alerts, and the weights of those that are enabled.\<close>

definition active_entries :: "alert_policy \<Rightarrow> table list \<Rightarrow> policy_entry list" where
  "active_entries p alerts = List.map_filter (\<lambda>payload. map_of (ap_alerts p) (payload_code payload)) alerts"

definition enabled_weights :: "policy_entry list \<Rightarrow> int list" where
  "enabled_weights es = map (\<lambda>e. the (strict_int (pe_weight e))) (filter (\<lambda>e. pe_enabled e = VBool True) es)"

lemma active_entries_typed:
  assumes ok: "policy_ok p" and e: "e \<in> set (active_entries p alerts)" shows "typed_entry e"
proof -
  from e obtain code where "map_of (ap_alerts p) code = Some e"
    by (auto simp: active_entries_def map_filter_def)
  then show ?thesis using ok by (auto simp: policy_ok_def dest!: map_of_SomeD)
qed

lemma count_payloads:
  assumes p: "pmg_policy m = Some p" and ok: "policy_ok p"
  shows "\<exists>n'. fold_result (count_payload m) n alerts = Inr n'
    \<and> pc_weight n' = foldr max (enabled_weights (active_entries p alerts)) (pc_weight n)
    \<and> pc_mapped n' = pc_mapped n + int (length (active_entries p alerts))
    \<and> pc_disabled n' = pc_disabled n + int (length (filter (\<lambda>e. pe_enabled e = VBool False) (active_entries p alerts)))
    \<and> pc_unmapped n' = pc_unmapped n + (int (length alerts) - int (length (active_entries p alerts)))"
proof (induction alerts arbitrary: n)
  case Nil
  then show ?case by (simp add: active_entries_def enabled_weights_def)
next
  case (Cons payload alerts)
  show ?case
  proof (cases "map_of (ap_alerts p) (payload_code payload)")
    case None
    then have "active_entries p (payload # alerts) = active_entries p alerts"
      "count_payload m n payload = Inr (n\<lparr>pc_unmapped := pc_unmapped n + 1\<rparr>)"
      by (simp_all add: active_entries_def map_filter_simps count_payload_def entry_for_def p)
    with Cons.IH[of "n\<lparr>pc_unmapped := pc_unmapped n + 1\<rparr>"] show ?thesis by force
  next
    case (Some e)
    then have "typed_entry e" using ok by (auto simp: policy_ok_def dest!: map_of_SomeD)
    then obtain b w where bw: "pe_enabled e = VBool b" "pe_weight e = VInt w"
      by (auto simp: typed_entry_def is_bool_iff)
    have es: "active_entries p (payload # alerts) = e # active_entries p alerts"
      using Some by (simp add: active_entries_def map_filter_simps)
    define n1 where "n1 = (if b then n\<lparr>pc_mapped := pc_mapped n + 1, pc_weight := max (pc_weight n) w\<rparr>
      else n\<lparr>pc_mapped := pc_mapped n + 1, pc_disabled := pc_disabled n + 1\<rparr>)"
    have "count_payload m n payload = Inr n1"
      using Some bw by (simp add: count_payload_def entry_for_def p py_truthy_def strict_int_def n1_def)
    moreover have "foldr max ws (max x y) = max y (foldr max ws x)" for ws and x y :: int by (induction ws) auto
    ultimately show ?thesis using Cons.IH[of n1] bw
      by (auto simp: es enabled_weights_def strict_int_def n1_def)
  qed
qed

lemma foldr_max: "foldr max ws (x :: int) = Max (set (x # ws))"
proof (induction ws)
  case (Cons w ws)
  have "Max (insert w (insert x (set ws))) = max w (Max (insert x (set ws)))" by (rule Max_insert) simp_all
  with Cons show ?case by (simp add: insert_commute[of x w] del: Max_insert)
qed simp

text \<open>The HMI shows the highest weight, from the last good policy. After any sequence of reloads the
  manager holds the last policy that loaded, whatever later files held, and the projection of any active
  alerts returns: without a policy there is no weight and every alert is unmapped; with one, the weight is
  the largest of the enabled alerts in the policy and 0 without one, the colour is the colour of that
  weight, and the alerts are counted as mapped, disabled or unmapped, each once.\<close>

theorem policy_projection:
  "let m = manager_run parse digest (empty_manager path) inputs in
     pmg_policy m = last_good parse digest path None inputs
   \<and> (\<exists>d. active_summary m alerts = Inr d
        \<and> (case pmg_policy m of
             None \<Rightarrow> vget d ''active_weight'' = VNone \<and> vget d ''unmapped_active_alerts'' = VInt (int (length alerts))
           | Some p \<Rightarrow> (let es = active_entries p alerts; top = Max (set (0 # enabled_weights es)) in
               policy_ok p \<and> vget d ''active_weight'' = VInt top
             \<and> (\<exists>s c. (top, s, c) \<in> set (map snd WEIGHT_PROFILE) \<and> vget d ''hmi_color'' = VStr c)
             \<and> vget d ''mapped_active_alerts'' = VInt (int (length es))
             \<and> vget d ''disabled_active_alerts'' = VInt (int (length (filter (\<lambda>e. pe_enabled e = VBool False) es)))
             \<and> vget d ''unmapped_active_alerts'' = VInt (int (length alerts) - int (length es)))))"
proof -
  define m where "m = manager_run parse digest (empty_manager path) inputs"
  have last: "pmg_policy m = last_good parse digest path None inputs"
    by (simp add: m_def manager_run_policy empty_manager_def)
  show ?thesis
  proof (cases "pmg_policy m")
    case None
    then show ?thesis unfolding m_def[symmetric]
      using last by (simp add: active_summary_def Let_def vget_def dict_get_def policy_metadata_def)
  next
    case (Some p)
    with last last_good_ok[of None parse digest path inputs] have ok: "policy_ok p" by (metis option.pred_inject)
    define es where "es = active_entries p alerts"
    define top where "top = Max (set (0 # enabled_weights es))"
    from count_payloads[OF Some ok, of "\<lparr>pc_weight = 0, pc_mapped = 0, pc_disabled = 0, pc_unmapped = 0\<rparr>" alerts]
    obtain n where n: "fold_result (count_payload m) \<lparr>pc_weight = 0, pc_mapped = 0, pc_disabled = 0, pc_unmapped = 0\<rparr> alerts = Inr n"
      "pc_weight n = top" "pc_mapped n = int (length es)"
      "pc_disabled n = int (length (filter (\<lambda>e. pe_enabled e = VBool False) es))"
      "pc_unmapped n = int (length alerts) - int (length es)"
      by (auto simp: es_def top_def foldr_max simp del: Max_insert)
    have typed: "typed_entry e" if "e \<in> set es" for e
      using that ok by (simp add: es_def active_entries_typed)
    have "w \<in> {0, 1, 2, 3, 4}" if "w \<in> set (0 # enabled_weights es)" for w
      using that typed by (fastforce simp: enabled_weights_def typed_entry_def strict_int_def WEIGHT_PROFILE_def)
    moreover have "top \<in> set (0 # enabled_weights es)" unfolding top_def by (rule Max_in) simp_all
    ultimately have "top = 0 \<or> top = 1 \<or> top = 2 \<or> top = 3 \<or> top = 4" by fastforce
    then obtain s c where c: "(top, s, c) \<in> set (map snd WEIGHT_PROFILE)" "map_of COLOR_BY_WEIGHT top = Some c"
      by (elim disjE) (auto simp: WEIGHT_PROFILE_def COLOR_BY_WEIGHT_def)
    then have "\<exists>d. active_summary m alerts = Inr d \<and> vget d ''active_weight'' = VInt top \<and> vget d ''hmi_color'' = VStr c
        \<and> vget d ''mapped_active_alerts'' = VInt (int (length es))
        \<and> vget d ''disabled_active_alerts'' = VInt (int (length (filter (\<lambda>e. pe_enabled e = VBool False) es)))
        \<and> vget d ''unmapped_active_alerts'' = VInt (int (length alerts) - int (length es))"
      by (simp add: active_summary_def Let_def Some n vget_def dict_get_def policy_metadata_def)
    then show ?thesis unfolding m_def[symmetric] Let_def Some option.case es_def[symmetric] top_def[symmetric]
      using last Some ok c(1) by metis
  qed
qed


text \<open>Two documents the checks let through or stumble over: a behaviour given as 1 instead of true is
  accepted, and a reaction that is a list raises out of the reload.\<close>

lemma behavior_accepts_numbers:
  "behavior_errors (VDict [(''highest_active_weight_controls_hmi'', VInt 1),
     (''acknowledgement_changes_weight'', VInt 0), (''acknowledgement_changes_hmi_color'', VFloat (Fin 0)),
     (''cleared_alerts_affect_hmi'', VBool False), (''unknown_alert_policy'', VStr ''reject''),
     (''invalid_configuration_policy'', VStr ''reject_keep_last_known_good'')]) = []"
  by (simp add: behavior_errors_def missing_unknown_def names_def REQUIRED_BEHAVIOR_def vget_def dict_get_def py_eq_def)

lemma list_reaction_escapes:
  assumes "\<And>b. parse b = Inr (VDict [(''alerts'', VDict [(''ABC'', VDict [(''reaction'', VList [])])])])"
  shows "policy_reload parse digest (Inr b) now m = (m, Inl (TypeError (''unhashable type: '' @ py_repr_str ''list'')))"
  by (simp add: policy_reload_def load_alert_policy_def assms validate_alert_policy_document_def vget_def dict_get_def
      alert_errors_def alert_set_errors_def member_of_def Let_def)

end
