(* ===== verification/Zigbee.thy ===== *)
theory Zigbee
  imports CoreState
begin

section \<open>Zigbee: payloads and inventory\<close>

text \<open>
  The pure part of \<open>infrastructure/zigbee_mqtt_monitor.py\<close>, \<open>infrastructure/zigbee_reliable_monitor.py\<close> and
  \<open>infrastructure/zigbee_capability_monitor.py\<close>: configuration checks, device payloads, availability
  payloads, and the inventory of the bridge with the capabilities of its devices. What \<open>json.loads\<close> makes
  of the bytes of a payload, and \<open>str()\<close> of a JSON value, are arguments.
\<close>

datatype json_result = Json py_value | Json_error string | Not_utf8 string

text \<open>\<open>json.loads(payload.decode("utf-8"))\<close>.\<close>

definition json_load :: "json_result \<Rightarrow> py_value result" where
  "json_load r = (case r of Json v \<Rightarrow> Inr v | Json_error m \<Rightarrow> Inl (ValueError m) | Not_utf8 m \<Rightarrow> Inl (ValueError m))"

text \<open>\<open>f"{type(exc).__name__}: {exc}"\<close> of the exceptions of such a load.\<close>

definition json_error_text :: "json_result \<Rightarrow> exc \<Rightarrow> string" where
  "json_error_text r e = (case r of
     Json_error m \<Rightarrow> ''JSONDecodeError: '' @ m | Not_utf8 m \<Rightarrow> ''UnicodeDecodeError: '' @ m
   | Json _ \<Rightarrow> exc_name e @ '': '' @ exc_str e)"

subsection \<open>Configuration\<close>

record zigbee_device_config =
  dc_role :: string
  dc_friendly_name :: string
  dc_ieee_address :: "string option"

definition new_device_config :: "string \<Rightarrow> string \<Rightarrow> string option \<Rightarrow> zigbee_device_config result" where
  "new_device_config role name ieee =
     (if py_strip role = [] then Inl (ValueError ''Zigbee device role cannot be empty'')
      else if py_strip name = [] then Inl (ValueError ''Zigbee friendly name cannot be empty'')
      else Inr \<lparr>dc_role = role, dc_friendly_name = name, dc_ieee_address = ieee\<rparr>)"

record zigbee_mqtt_config =
  zc_broker_host :: string
  zc_broker_port :: int
  zc_base_topic :: string
  zc_client_id :: string
  zc_keepalive_seconds :: int
  zc_reconnect_min_seconds :: int
  zc_reconnect_max_seconds :: int
  zc_request_timeout_seconds :: py_float
  zc_devices :: "zigbee_device_config list"

definition strip_chars :: "char set \<Rightarrow> string \<Rightarrow> string" where
  "strip_chars A s = rev (dropWhile (\<lambda>c. c \<in> A) (rev (dropWhile (\<lambda>c. c \<in> A) s)))"

text \<open>\<open>ZigbeeMqttConfig.__post_init__\<close>, which also checks every \<open>replace\<close> of a configuration.\<close>

definition check_zigbee_config :: "zigbee_mqtt_config \<Rightarrow> zigbee_mqtt_config result" where
  "check_zigbee_config c =
     (if py_strip (zc_broker_host c) = [] then Inl (ValueError ''MQTT broker host cannot be empty'')
      else if \<not> (1 \<le> zc_broker_port c \<and> zc_broker_port c \<le> 65535)
      then Inl (ValueError ''MQTT broker port must be in range 1..65535'')
      else if strip_chars {CHR ''/'', CHR '' ''} (zc_base_topic c) = []
      then Inl (ValueError ''MQTT base topic cannot be empty'')
      else if zc_keepalive_seconds c \<le> 0 then Inl (ValueError ''MQTT keepalive must be positive'')
      else if zc_reconnect_min_seconds c \<le> 0 \<or> zc_reconnect_max_seconds c < zc_reconnect_min_seconds c
      then Inl (ValueError ''Invalid MQTT reconnect delay configuration'')
      else if fle (zc_request_timeout_seconds c) (Fin 0)
      then Inl (ValueError ''MQTT request timeout must be positive'')
      else if zc_devices c = [] then Inl (ValueError ''At least one Zigbee device is required'')
      else if \<not> distinct (map dc_role (zc_devices c)) then Inl (ValueError ''Zigbee device roles must be unique'')
      else if \<not> distinct (map dc_friendly_name (zc_devices c))
      then Inl (ValueError ''Zigbee friendly names must be unique'')
      else Inr c)"

subsection \<open>Device payloads\<close>

definition finite_number :: "py_value \<Rightarrow> string \<Rightarrow> py_float result" where
  "finite_number v field = (case v of
     VInt i \<Rightarrow> (case to_float (of_int i) of Fin x \<Rightarrow> Inr (Fin x)
       | _ \<Rightarrow> Inl (OtherException ''int too large to convert to float''))
   | VFloat f \<Rightarrow> if is_finite f then Inr f else Inl (ValueError (field @ '' must be finite''))
   | _ \<Rightarrow> Inl (ValueError (field @ '' must be numeric'')))"

definition float_floor :: "py_float \<Rightarrow> int" where
  "float_floor f = (case f of Fin x \<Rightarrow> \<lfloor>x\<rfloor> | _ \<Rightarrow> 0)"

text \<open>One optional field of a payload: absent, or checked and stored.\<close>

definition merge_field :: "string \<Rightarrow> (py_value \<Rightarrow> 'd \<Rightarrow> 'd result) \<Rightarrow> (string \<times> py_value) list \<Rightarrow> 'd \<Rightarrow> 'd result" where
  "merge_field field set_field payload d = (case map_of payload field of None \<Rightarrow> Inr d | Some v \<Rightarrow> set_field v d)"

definition in_bounds :: "py_float \<Rightarrow> py_float \<Rightarrow> py_float \<Rightarrow> bool" where
  "in_bounds lo hi x = (fle lo x \<and> fle x hi)"

definition merge_device_payload :: "zigbee_device_state \<Rightarrow> (string \<times> py_value) list \<Rightarrow> string \<Rightarrow> zigbee_device_state result" where
  "merge_device_payload previous payload received_at =
     rbind (merge_field ''temperature'' (\<lambda>v d. rbind (finite_number v ''temperature'') (\<lambda>x.
              Inr (d\<lparr>zd_temperature_celsius := Some x\<rparr>))) payload
        (previous\<lparr>zd_last_message_at := Some received_at, zd_messages := zd_messages previous + 1,
           zd_last_error := None\<rparr>)) (\<lambda>d1.
     rbind (merge_field ''battery'' (\<lambda>v d. rbind (finite_number v ''battery'') (\<lambda>x.
              if in_bounds (Fin 0) (Fin 100) x then Inr (d\<lparr>zd_battery_percent := Some x\<rparr>)
              else Inl (ValueError ''battery must be in range 0..100''))) payload d1) (\<lambda>d2.
     rbind (merge_field ''linkquality'' (\<lambda>v d. rbind (finite_number v ''linkquality'') (\<lambda>x.
              if in_bounds (Fin 0) (Fin 255) x then Inr (d\<lparr>zd_linkquality := Some (float_floor x)\<rparr>)
              else Inl (ValueError ''linkquality must be in range 0..255''))) payload d2) (\<lambda>d3.
     merge_field ''last_seen'' (\<lambda>v d. case v of
         VNone \<Rightarrow> Inr (d\<lparr>zd_last_seen := None\<rparr>) | VStr s \<Rightarrow> Inr (d\<lparr>zd_last_seen := Some s\<rparr>)
       | _ \<Rightarrow> Inl (ValueError ''last_seen must be a string or null'')) payload d3)))"

text \<open>\<open>parse_availability_payload\<close> of the stripped text and of what it loads as.\<close>

definition lower :: "string \<Rightarrow> string" where
  "lower = map lower_char"

definition parse_availability :: "(string \<Rightarrow> json_result) \<Rightarrow> string \<Rightarrow> bool result" where
  "parse_availability parse payload =
     (let raw = py_strip payload
      in case parse payload of
        Not_utf8 m \<Rightarrow> Inl (ValueError m)
      | _ \<Rightarrow>
        if raw = [] then Inl (ValueError ''empty Zigbee availability payload'')
        else
          let value = (case parse raw of Json (VDict d) \<Rightarrow> vget d ''state'' | Json v \<Rightarrow> v | _ \<Rightarrow> VStr raw)
          in case value of
            VStr s \<Rightarrow>
              if lower (py_strip s) = ''online'' then Inr True
              else if lower (py_strip s) = ''offline'' then Inr False
              else Inl (ValueError (''unsupported Zigbee availability state: '' @ py_repr_str s))
          | _ \<Rightarrow> Inl (ValueError ''Zigbee availability state must be a string''))"

subsection \<open>The inventory\<close>

definition opt_str :: "py_value \<Rightarrow> string option" where
  "opt_str v = (case v of VStr s \<Rightarrow> if s = [] then None else Some s | _ \<Rightarrow> None)"

definition first_of :: "'a option \<Rightarrow> 'a option \<Rightarrow> 'a option" where
  "first_of a b = (case a of None \<Rightarrow> b | Some _ \<Rightarrow> a)"

definition table_or_empty :: "py_value \<Rightarrow> (string \<times> py_value) list" where
  "table_or_empty v = (case v of VDict d \<Rightarrow> d | _ \<Rightarrow> [])"

definition inventory_device :: "((string \<times> py_value) list \<Rightarrow> zigbee_capability list) \<Rightarrow> py_value \<Rightarrow> zigbee_inventory_device option" where
  "inventory_device capabilities raw = (case raw of
     VDict item \<Rightarrow> (case opt_str (vget item ''ieee_address'') of
         None \<Rightarrow> None
       | Some ieee \<Rightarrow>
           let definition_table = table_or_empty (vget item ''definition'')
           in Some \<lparr>zi_ieee_address = ieee,
             zi_friendly_name = (case opt_str (vget item ''friendly_name'') of None \<Rightarrow> ieee | Some s \<Rightarrow> s),
             zi_device_type = (case opt_str (vget item ''type'') of None \<Rightarrow> ''Unknown'' | Some s \<Rightarrow> s),
             zi_supported = (vget item ''supported'' = VBool True), zi_disabled = (vget item ''disabled'' = VBool True),
             zi_model = first_of (opt_str (vget definition_table ''model'')) (opt_str (vget item ''model_id'')),
             zi_vendor = opt_str (vget definition_table ''vendor''),
             zi_description = first_of (opt_str (vget definition_table ''description'')) (opt_str (vget item ''description'')),
             zi_power_source = opt_str (vget item ''power_source''),
             zi_interview_state = opt_str (vget item ''interview_state''),
             zi_capabilities = capabilities definition_table\<rparr>)
   | _ \<Rightarrow> None)"

definition parse_inventory :: "((string \<times> py_value) list \<Rightarrow> zigbee_capability list) \<Rightarrow> py_value \<Rightarrow>
    zigbee_inventory_device list result" where
  "parse_inventory capabilities payload = (case payload of
     VList items \<Rightarrow> Inr (List.map_filter (inventory_device capabilities) items)
   | _ \<Rightarrow> Inl (ValueError ''bridge/devices payload must be a JSON array''))"

definition parse_bridge_devices :: "py_value \<Rightarrow> zigbee_inventory_device list result" where
  "parse_bridge_devices = parse_inventory (\<lambda>_. [])"

subsection \<open>Capabilities\<close>

definition opt_number :: "py_value \<Rightarrow> py_float option" where
  "opt_number v = (case v of VInt i \<Rightarrow> Some (to_float (of_int i)) | VFloat f \<Rightarrow> if is_finite f then Some f else None | _ \<Rightarrow> None)"

text \<open>\<open>str.title()\<close> on ASCII letters.\<close>

definition is_letter :: "char \<Rightarrow> bool" where
  "is_letter c = (let n = (of_char c :: nat) in 65 \<le> n \<and> n \<le> 90 \<or> 97 \<le> n \<and> n \<le> 122)"

definition upper_char :: "char \<Rightarrow> char" where
  "upper_char c = (let n = (of_char c :: nat) in if 97 \<le> n \<and> n \<le> 122 then char_of (n - 32) else c)"

fun title_after :: "bool \<Rightarrow> string \<Rightarrow> string" where
  "title_after inside [] = []"
| "title_after inside (c # cs) = (if inside then lower_char c else upper_char c) # title_after (is_letter c) cs"

definition default_label :: "string \<Rightarrow> string" where
  "default_label name = title_after False (map (\<lambda>c. if c = CHR ''_'' then CHR '' '' else c) name)"

text \<open>A leaf of the tree of exposes.\<close>

definition leaf_capability :: "(py_value \<Rightarrow> string) \<Rightarrow> string option \<Rightarrow> (string \<times> py_value) list \<Rightarrow> zigbee_capability option" where
  "leaf_capability str_of endpoint item =
     (case (vget item ''access'', opt_str (vget item ''property''), opt_str (vget item ''name'')) of
        (VInt access, Some property, Some name) \<Rightarrow>
          if access mod 2 = 0 \<or> vget item ''category'' = VStr ''config'' then None
          else Some \<lparr>zc_property = property, zc_name = name,
            zc_label = (case opt_str (vget item ''label'') of None \<Rightarrow> default_label name | Some l \<Rightarrow> l),
            zc_value_type = (case opt_str (vget item ''type'') of None \<Rightarrow> ''unknown'' | Some t \<Rightarrow> t),
            zc_unit = opt_str (vget item ''unit''), zc_endpoint = endpoint,
            zc_category = opt_str (vget item ''category''), zc_description = opt_str (vget item ''description''),
            zc_access = access, zc_value_min = opt_number (vget item ''value_min''),
            zc_value_max = opt_number (vget item ''value_max''), zc_value_step = opt_number (vget item ''value_step''),
            zc_values = (case vget item ''values'' of VList vs \<Rightarrow> map str_of vs | _ \<Rightarrow> [])\<rparr>
      | _ \<Rightarrow> None)"

text \<open>A leaf is added unless one with its property and endpoint was seen before.\<close>

definition add_capability :: "zigbee_capability option \<Rightarrow> zigbee_capability list \<Rightarrow> zigbee_capability list" where
  "add_capability c seen = (case c of None \<Rightarrow> seen
     | Some x \<Rightarrow> if (zc_property x, zc_endpoint x) \<in> (\<lambda>y. (zc_property y, zc_endpoint y)) ` set seen then seen else seen @ [x])"

lemma vget_list_size: "vget d k = VList vs \<Longrightarrow> size_list size vs < size (VDict d)"
proof -
  assume "vget d k = VList vs"
  then have "(k, VList vs) \<in> set d"
    by (auto simp: vget_def dict_get_def split: option.splits dest: map_of_SomeD)
  then have "size (VList vs) < size (VDict d)" by (induction d) auto
  then show ?thesis by simp
qed

function visit :: "(py_value \<Rightarrow> string) \<Rightarrow> string option \<Rightarrow> py_value \<Rightarrow> zigbee_capability list \<Rightarrow> zigbee_capability list"
and visit_all :: "(py_value \<Rightarrow> string) \<Rightarrow> string option \<Rightarrow> py_value list \<Rightarrow> zigbee_capability list \<Rightarrow> zigbee_capability list" where
  "visit str_of inherited v seen = (case v of
     VDict item \<Rightarrow>
       let endpoint = first_of (opt_str (vget item ''endpoint'')) inherited
       in (case vget item ''features'' of
            VList features \<Rightarrow>
              if features = [] then add_capability (leaf_capability str_of endpoint item) seen
              else visit_all str_of endpoint features seen
          | _ \<Rightarrow> add_capability (leaf_capability str_of endpoint item) seen)
   | _ \<Rightarrow> seen)"
| "visit_all str_of inherited [] seen = seen"
| "visit_all str_of inherited (v # vs) seen = visit_all str_of inherited vs (visit str_of inherited v seen)"
  by pat_completeness auto

termination
  by (relation "measure (\<lambda>x. case x of Inl (_, _, v, _) \<Rightarrow> size v | Inr (_, _, vs, _) \<Rightarrow> size_list size vs)")
    (auto dest: vget_list_size)

declare visit.simps [simp del]

definition parse_published_capabilities :: "(py_value \<Rightarrow> string) \<Rightarrow> py_value \<Rightarrow> zigbee_capability list" where
  "parse_published_capabilities str_of exposes = (case exposes of VList vs \<Rightarrow> visit_all str_of None vs [] | _ \<Rightarrow> [])"

definition parse_bridge_devices_with_capabilities :: "(py_value \<Rightarrow> string) \<Rightarrow> py_value \<Rightarrow> zigbee_inventory_device list result" where
  "parse_bridge_devices_with_capabilities str_of =
     parse_inventory (\<lambda>d. parse_published_capabilities str_of (vget d ''exposes''))"

end
