(* ===== verification/ZigbeeRoles.thy ===== *)
theory ZigbeeRoles
  imports Zigbee
begin

section \<open>The registry of Zigbee roles\<close>

text \<open>
  Models \<open>infrastructure/zigbee_role_store.py\<close>: the file that remembers which device has the supply and
  the extract role and which have the role OTHER. The file is what parsing its text gives (writing and
  parsing JSON is the identity on the values written); the n-th write may fail, and then leaves the old file,
  since the new text is written beside it and renamed.
\<close>

definition SYSTEM_ROLES :: "string list" where "SYSTEM_ROLES = [''supply'', ''extract'']"

definition MULTI_ROLE :: string where "MULTI_ROLE = ''other''"

definition ROLE_VERSION :: int where "ROLE_VERSION = 2"

record role_record =
  rr_role :: string
  rr_ieee_address :: "string option"
  rr_friendly_name :: "string option"

definition role_assigned :: "role_record \<Rightarrow> bool" where
  "role_assigned r = (str_truthy (rr_ieee_address r) \<and> str_truthy (rr_friendly_name r))"

record role_file =
  rf_content :: "json_result option"
  rf_faults :: "nat \<Rightarrow> exc option"
  rf_writes :: nat

definition write_roles :: "py_value \<Rightarrow> (role_file, unit) op" where
  "write_roles v f = (let f1 = f\<lparr>rf_writes := Suc (rf_writes f)\<rparr>
     in case rf_faults f (rf_writes f) of Some e \<Rightarrow> (f1, Inl e) | None \<Rightarrow> (f1\<lparr>rf_content := Some (Json v)\<rparr>, Inr ()))"

subsection \<open>Saving\<close>

definition UNASSIGNED_PREFIX :: string where "UNASSIGNED_PREFIX = ''__unassigned_''"

definition unassigned_config :: "string \<Rightarrow> zigbee_device_config" where
  "unassigned_config role = \<lparr>dc_role = role, dc_friendly_name = UNASSIGNED_PREFIX @ role @ ''__'', dc_ieee_address = None\<rparr>"

text \<open>\<open>{record.role: record for record in records}\<close>: the last record of a role counts.\<close>

definition by_role :: "('a \<Rightarrow> string) \<Rightarrow> 'a list \<Rightarrow> string \<Rightarrow> 'a option" where
  "by_role role xs r = map_of (dict_of role (\<lambda>x. x) xs) r"

definition to_runtime_configs :: "role_record list \<Rightarrow> zigbee_device_config list" where
  "to_runtime_configs records = map (\<lambda>role. case by_role rr_role records role of
       Some r \<Rightarrow> if role_assigned r
         then \<lparr>dc_role = role, dc_friendly_name = str_or (rr_friendly_name r) [], dc_ieee_address = rr_ieee_address r\<rparr>
         else unassigned_config role
     | None \<Rightarrow> unassigned_config role) SYSTEM_ROLES"

definition entry_json :: "string option \<Rightarrow> string option \<Rightarrow> py_value" where
  "entry_json ieee name = VDict [(''ieee_address'', case ieee of None \<Rightarrow> VNone | Some s \<Rightarrow> VStr s),
     (''friendly_name'', case name of None \<Rightarrow> VNone | Some s \<Rightarrow> VStr s)]"

text \<open>The OTHER entries written: assigned records of that role, the first of each address.\<close>

fun other_payload :: "string set \<Rightarrow> role_record list \<Rightarrow> py_value list" where
  "other_payload seen [] = []"
| "other_payload seen (r # rs) =
     (let ieee = str_or (rr_ieee_address r) [] in
      if rr_role r \<noteq> MULTI_ROLE \<or> \<not> role_assigned r \<or> ieee \<in> seen then other_payload seen rs
      else entry_json (Some ieee) (rr_friendly_name r) # other_payload (insert ieee seen) rs)"

definition roles_payload :: "role_record list \<Rightarrow> role_record list \<Rightarrow> py_value" where
  "roles_payload records others = VDict [(''version'', VInt ROLE_VERSION),
     (''roles'', VDict (map (\<lambda>role. (role, case by_role rr_role records role of
         Some r \<Rightarrow> if role_assigned r then entry_json (rr_ieee_address r) (rr_friendly_name r) else VNone
       | None \<Rightarrow> VNone)) SYSTEM_ROLES)),
     (''other'', VList (other_payload {} others))]"

definition save_records :: "role_record list \<Rightarrow> role_record list \<Rightarrow> (role_file, unit) op" where
  "save_records records others = write_roles (roles_payload records others)"

definition config_records :: "zigbee_device_config list \<Rightarrow> role_record list" where
  "config_records configs = map (\<lambda>role. case by_role dc_role configs role of
       Some c \<Rightarrow> \<lparr>rr_role = role, rr_ieee_address = dc_ieee_address c, rr_friendly_name = Some (dc_friendly_name c)\<rparr>
     | None \<Rightarrow> \<lparr>rr_role = role, rr_ieee_address = None, rr_friendly_name = None\<rparr>) SYSTEM_ROLES"

definition save_assignments :: "zigbee_device_config list \<Rightarrow> role_record list \<Rightarrow> (role_file, unit) op" where
  "save_assignments configs others = save_records (config_records configs) others"

subsection \<open>Loading\<close>

text \<open>A text that is not blank, stripped.\<close>

definition stripped_text :: "string \<Rightarrow> py_value \<Rightarrow> string result" where
  "stripped_text message v = (case v of
     VStr s \<Rightarrow> if py_strip s = [] then Inl (ValueError message) else Inr (py_strip s) | _ \<Rightarrow> Inl (ValueError message))"

definition load_role :: "(string \<times> py_value) list \<Rightarrow> string \<Rightarrow> role_record result" where
  "load_role roles role = (case vget roles role of
     VNone \<Rightarrow> Inr \<lparr>rr_role = role, rr_ieee_address = None, rr_friendly_name = None\<rparr>
   | VDict d \<Rightarrow>
       rbind (stripped_text (''Invalid Zigbee IEEE for role: '' @ role) (vget d ''ieee_address'')) (\<lambda>ieee.
       rbind (stripped_text (''Invalid Zigbee friendly_name for role: '' @ role) (vget d ''friendly_name'')) (\<lambda>name.
       Inr \<lparr>rr_role = role, rr_ieee_address = Some ieee, rr_friendly_name = Some name\<rparr>))
   | _ \<Rightarrow> Inl (ValueError (''Invalid Zigbee role entry: '' @ role)))"

definition load_other :: "py_value \<Rightarrow> role_record result" where
  "load_other v = (case v of
     VDict d \<Rightarrow>
       rbind (stripped_text ''Invalid Zigbee IEEE for OTHER role'' (vget d ''ieee_address'')) (\<lambda>ieee.
       rbind (stripped_text ''Invalid Zigbee friendly_name for OTHER role'' (vget d ''friendly_name'')) (\<lambda>name.
       Inr \<lparr>rr_role = MULTI_ROLE, rr_ieee_address = Some ieee, rr_friendly_name = Some name\<rparr>))
   | _ \<Rightarrow> Inl (ValueError ''Invalid Zigbee OTHER role entry''))"

definition parse_bundle :: "py_value \<Rightarrow> (role_record list \<times> role_record list) result" where
  "parse_bundle payload = (case payload of
     VDict d \<Rightarrow>
       if \<not> (py_eq (vget d ''version'') (VInt 1) \<or> py_eq (vget d ''version'') (VInt ROLE_VERSION))
       then Inl (ValueError ''Unsupported Zigbee role registry version'')
       else (case vget d ''roles'' of
         VDict roles \<Rightarrow>
           rbind (map_result (load_role roles) SYSTEM_ROLES) (\<lambda>records.
             case (if py_eq (vget d ''version'') (VInt ROLE_VERSION) then dict_get d ''other'' (VList []) else VList []) of
               VList raw \<Rightarrow> rbind (map_result load_other raw) (\<lambda>others. Inr (records, others))
             | _ \<Rightarrow> Inl (ValueError ''Zigbee role registry other must be an array''))
       | _ \<Rightarrow> Inl (ValueError ''Zigbee role registry requires roles object''))
   | _ \<Rightarrow> Inl (ValueError ''Unsupported Zigbee role registry version''))"

text \<open>A missing file raises \<open>FileNotFoundError\<close>.\<close>

definition load_bundle :: "role_file \<Rightarrow> (role_record list \<times> role_record list) result" where
  "load_bundle f = (case rf_content f of None \<Rightarrow> Inl (OSError ''No such file or directory'')
     | Some r \<Rightarrow> rbind (json_load r) parse_bundle)"

definition load_or_seed :: "zigbee_device_config list \<Rightarrow> (role_file, zigbee_device_config list) op" where
  "load_or_seed defaults f = (case rf_content f of
     None \<Rightarrow> (let configs = to_runtime_configs (config_records defaults)
              in op_bind (save_assignments configs []) (\<lambda>_. op_return configs) f)
   | Some r \<Rightarrow> op_bind (op_lift (load_bundle f)) (\<lambda>(records, others).
       if (case r of Json (VDict d) \<Rightarrow> py_eq (vget d ''version'') (VInt 1) | _ \<Rightarrow> False)
       then op_bind (save_assignments (to_runtime_configs records) others) (\<lambda>_. op_return (to_runtime_configs records))
       else op_return (to_runtime_configs records)) f)"

definition save_configs :: "zigbee_device_config list \<Rightarrow> (role_file, unit) op" where
  "save_configs configs f = op_bind
     (op_lift (if rf_content f = None then Inr [] else map_sum id snd (load_bundle f)))
     (save_assignments configs) f"

definition save_other_records :: "role_record list \<Rightarrow> (role_file, unit) op" where
  "save_other_records others f = op_bind (op_lift (load_bundle f)) (\<lambda>(records, _).
     save_assignments (to_runtime_configs records) others) f"

end
