(* ===== verification/ZigbeeMonitor.thy ===== *)
theory ZigbeeMonitor
  imports ZigbeeRoles "HOL-Library.List_Lexorder" "HOL-Library.Char_ord"
begin

section \<open>The Zigbee monitor\<close>

text \<open>
  Models the class that \<open>main.py\<close> runs, \<open>CapabilityManagedZigbeeMqttMonitor\<close> of
  \<open>infrastructure/zigbee_capability_monitor.py\<close>, with the methods it inherits from
  \<open>zigbee_managed_monitor.py\<close>, \<open>zigbee_reliable_monitor.py\<close> and \<open>zigbee_mqtt_monitor.py\<close>: a call through
  \<open>self\<close> is the override of the concrete class. The MQTT library is the callbacks it makes, which are
  events, and the calls made on it, which are logged; decoding JSON and \<open>str()\<close> of a JSON value are a
  codec. While a request waits for its answer the network thread handles events. The clock and the
  transaction ids are arguments.
\<close>

subsection \<open>The state\<close>

datatype client_call = Subscribe "string list" | Unsubscribe string | Publish string py_value

record codec =
  cx_parse :: "string \<Rightarrow> json_result"
  cx_str :: "py_value \<Rightarrow> string"

text \<open>A pending transaction waits for its answer; \<open>zg_answers\<close> are the boxes filled so far.\<close>

record zigbee_monitor =
  zg_config :: zigbee_mqtt_config
  zg_closed :: bool
  zg_pending :: "string list"
  zg_answers :: "(string \<times> (string \<times> py_value) list) list"
  zg_devices :: "(string \<times> zigbee_device_state) list"
  zg_topic_to_role :: "(string \<times> string) list"
  zg_availability_to_role :: "(string \<times> string) list"
  zg_state :: zigbee_mqtt_state
  zg_store :: role_file
  zg_other_roles :: "(string \<times> role_record) list"
  zg_sensor_list :: "(string \<times> zigbee_sensor_list_item) list"
  zg_generic_topics :: "(string \<times> string) list"
  zg_generic_availability :: "(string \<times> string) list"
  zg_calls :: "client_call list"

definition call_client :: "client_call list \<Rightarrow> zigbee_monitor \<Rightarrow> zigbee_monitor" where
  "call_client cs m = m\<lparr>zg_calls := zg_calls m @ cs\<rparr>"

definition on_store :: "(role_file, 'a) op \<Rightarrow> (zigbee_monitor, 'a) op" where
  "on_store f m = (let (s, r) = f (zg_store m) in (m\<lparr>zg_store := s\<rparr>, r))"

definition ordered_devices :: "zigbee_monitor \<Rightarrow> zigbee_device_state list" where
  "ordered_devices m = List.map_filter (\<lambda>c. map_of (zg_devices m) (dc_role c)) (zc_devices (zg_config m))"

definition set_state :: "(zigbee_mqtt_state \<Rightarrow> zigbee_mqtt_state) \<Rightarrow> zigbee_monitor \<Rightarrow> zigbee_monitor" where
  "set_state f m = m\<lparr>zg_state := f (zg_state m)\<rparr>"

text \<open>\<open>replace(self._state, ..., devices=self._ordered_devices())\<close>.\<close>

definition publish_state :: "(zigbee_mqtt_state \<Rightarrow> zigbee_mqtt_state) \<Rightarrow> zigbee_monitor \<Rightarrow> zigbee_monitor" where
  "publish_state f m = set_state (\<lambda>s. (f s)\<lparr>zm_devices := ordered_devices m\<rparr>) m"

definition set_connection_error :: "string \<Rightarrow> zigbee_monitor \<Rightarrow> zigbee_monitor" where
  "set_connection_error e = publish_state (\<lambda>s. s\<lparr>zm_last_error := Some e\<rparr>)"

definition fresh_device :: "string \<Rightarrow> zigbee_device_config \<Rightarrow> zigbee_device_state" where
  "fresh_device base c = \<lparr>zd_role = dc_role c, zd_friendly_name = dc_friendly_name c,
     zd_ieee_address = dc_ieee_address c, zd_topic = base @ ''/'' @ dc_friendly_name c, zd_available = None,
     zd_temperature_celsius = None, zd_battery_percent = None, zd_linkquality = None, zd_last_seen = None,
     zd_last_message_at = None, zd_messages = 0, zd_parse_errors = 0, zd_last_error = None\<rparr>"

text \<open>The device tables and their topics.\<close>

definition topic_map :: "(string \<times> zigbee_device_state) list \<Rightarrow> (string \<times> string) list" where
  "topic_map devices = dict_of (zd_topic \<circ> snd) fst devices"

definition availability_map :: "(string \<times> zigbee_device_state) list \<Rightarrow> (string \<times> string) list" where
  "availability_map devices = dict_of (\<lambda>x. zd_topic (snd x) @ ''/availability'') fst devices"

text \<open>The constructors, from the outermost: the OTHER roles of the store, then the base class, whose
  network loop starts or not.\<close>

definition new_zigbee_monitor :: "zigbee_mqtt_config \<Rightarrow> role_file \<Rightarrow> string option \<Rightarrow> zigbee_monitor result" where
  "new_zigbee_monitor config store loop_error =
     rbind (case rf_content store of None \<Rightarrow> Inr [] | Some _ \<Rightarrow> map_sum id snd (load_bundle store)) (\<lambda>others.
     let base = strip_chars {CHR ''/''} (zc_base_topic config);
         devices = dict_of dc_role (fresh_device base) (zc_devices config);
         m = \<lparr>zg_config = config, zg_closed = False, zg_pending = [], zg_answers = [], zg_devices = devices,
           zg_topic_to_role = topic_map devices, zg_availability_to_role = availability_map devices,
           zg_state = \<lparr>zm_broker_host = zc_broker_host config, zm_broker_port = zc_broker_port config,
             zm_base_topic = base, zm_running = False, zm_connected = False, zm_connected_at = None,
             zm_disconnected_at = None, zm_last_message_at = None, zm_last_error = None, zm_devices = [],
             zm_bridge_online = None, zm_permit_join = None, zm_permit_join_end = None,
             zm_inventory_updated_at = None, zm_last_event = None, zm_inventory = [], zm_pairing = None,
             zm_sensor_list = []\<rparr>,
           zg_store = store,
           zg_other_roles = dict_of (\<lambda>r. str_or (rr_ieee_address r) []) (\<lambda>r. r) (filter role_assigned others),
           zg_sensor_list = [], zg_generic_topics = [], zg_generic_availability = [], zg_calls = []\<rparr>
     in case loop_error of
          Some e \<Rightarrow> Inl (RuntimeError (''Unable to start MQTT network loop: '' @ e))
        | None \<Rightarrow> Inr (publish_state (\<lambda>s. s\<lparr>zm_running := True\<rparr>) m))"

subsection \<open>Assigned roles\<close>

definition is_assigned_config :: "zigbee_device_config \<Rightarrow> bool" where
  "is_assigned_config c = (str_truthy (dc_ieee_address c) \<and> dc_friendly_name c \<noteq> []
     \<and> take (length UNASSIGNED_PREFIX) (dc_friendly_name c) \<noteq> UNASSIGNED_PREFIX)"

definition assigned_to :: "string \<Rightarrow> zigbee_device_config \<Rightarrow> bool" where
  "assigned_to ieee c = (is_assigned_config c \<and> dc_ieee_address c = Some ieee)"

definition role_for_ieee :: "zigbee_monitor \<Rightarrow> string \<Rightarrow> string option" where
  "role_for_ieee m ieee = (case find (assigned_to ieee) (zc_devices (zg_config m)) of
     Some c \<Rightarrow> Some (dc_role c)
   | None \<Rightarrow> if ieee \<in> fst ` set (zg_other_roles m) then Some MULTI_ROLE else None)"

text \<open>What \<open>state()\<close> returns: no placeholder devices, and the sensor list in the order of the inventory.\<close>

definition inventory_index :: "zigbee_inventory_device list \<Rightarrow> string \<Rightarrow> nat" where
  "inventory_index inventory ieee =
     dict_get (dict_of (\<lambda>x. zi_ieee_address (snd x)) fst
       (filter (\<lambda>x. \<not> is_coordinator (snd x)) (enumerate 0 inventory))) ieee 1000000000"

definition zigbee_read_state :: "zigbee_monitor \<Rightarrow> zigbee_mqtt_state" where
  "zigbee_read_state m =
     (let visible = filter (\<lambda>d. take (length UNASSIGNED_PREFIX) (zd_friendly_name d) \<noteq> UNASSIGNED_PREFIX) (ordered_devices m);
          rows = sort_key (\<lambda>r. (inventory_index (zm_inventory (zg_state m)) (zl_ieee_address r), lower (zl_friendly_name r)))
            (map snd (zg_sensor_list m))
      in (zg_state m)\<lparr>zm_devices := visible,
           zm_sensor_list := map (\<lambda>r. r\<lparr>zl_role := role_for_ieee m (zl_ieee_address r)\<rparr>) rows\<rparr>)"

definition zigbee_health_check :: "zigbee_monitor \<Rightarrow> zigbee_monitor" where
  "zigbee_health_check m = (if zg_closed m then m else publish_state (\<lambda>s. s\<lparr>zm_running := True\<rparr>) m)"

text \<open>The subscriptions that a change of topics needs, in the order they are made.\<close>

definition resubscribe :: "string set \<Rightarrow> string set \<Rightarrow> client_call list" where
  "resubscribe old new = map Unsubscribe (sorted_list_of_set (old - new))
     @ (if new - old = {} then [] else [Subscribe (sorted_list_of_set (new - old))])"

definition role_topics :: "zigbee_monitor \<Rightarrow> string set" where
  "role_topics m = fst ` set (zg_topic_to_role m) \<union> fst ` set (zg_availability_to_role m)"

definition generic_topics :: "zigbee_monitor \<Rightarrow> string set" where
  "generic_topics m = fst ` set (zg_generic_topics m) \<union> fst ` set (zg_generic_availability m)"

text \<open>\<open>_apply_role_configs(..., persist=True)\<close>.\<close>

definition carried_device :: "zigbee_monitor \<Rightarrow> zigbee_device_config \<Rightarrow> zigbee_device_state" where
  "carried_device m c =
     (let base = zm_base_topic (zg_state m); olds = zg_devices m;
          previous = (case dc_ieee_address c of
             Some ieee \<Rightarrow> map_of (dict_of (zd_ieee_address \<circ> snd) snd (filter (\<lambda>x. zd_ieee_address (snd x) \<noteq> None) olds)) (Some ieee)
           | None \<Rightarrow> map_of (dict_of (zd_role \<circ> snd) snd olds) (dc_role c))
      in if \<not> is_assigned_config c then (fresh_device base c)\<lparr>zd_ieee_address := None\<rparr>
         else case previous of
             None \<Rightarrow> fresh_device base c
           | Some d \<Rightarrow> d\<lparr>zd_role := dc_role c, zd_friendly_name := dc_friendly_name c,
               zd_ieee_address := dc_ieee_address c, zd_topic := base @ ''/'' @ dc_friendly_name c\<rparr>)"

definition apply_role_configs :: "zigbee_device_config list \<Rightarrow> (zigbee_monitor, unit) op" where
  "apply_role_configs configs m =
     (case check_zigbee_config ((zg_config m)\<lparr>zc_devices := configs\<rparr>) of
        Inl e \<Rightarrow> (m, Inl e)
      | Inr config \<Rightarrow>
          let devices = dict_of dc_role (carried_device m) configs;
              m1 = publish_state id (m\<lparr>zg_config := config, zg_devices := devices,
                     zg_topic_to_role := topic_map devices, zg_availability_to_role := availability_map devices\<rparr>)
          in op_bind (on_store (save_configs configs)) (\<lambda>_ m2.
               (if zm_connected (zg_state m) then call_client (resubscribe (role_topics m) (role_topics m1)) m2 else m2, Inr ())) m1)"

definition save_other_roles :: "(zigbee_monitor, unit) op" where
  "save_other_roles m = on_store (save_other_records (map snd (zg_other_roles m))) m"


subsection \<open>Messages about the devices with a role\<close>

definition update_device :: "string \<Rightarrow> (zigbee_device_state \<Rightarrow> zigbee_device_state) \<Rightarrow> zigbee_monitor \<Rightarrow> zigbee_monitor" where
  "update_device role f m = (case map_of (zg_devices m) role of None \<Rightarrow> m
     | Some d \<Rightarrow> m\<lparr>zg_devices := AList.update role (f d) (zg_devices m)\<rparr>)"

definition handle_availability :: "codec \<Rightarrow> string \<Rightarrow> string \<Rightarrow> zigbee_monitor \<Rightarrow> zigbee_monitor" where
  "handle_availability cx role payload m = (case parse_availability (cx_parse cx) payload of
     Inl e \<Rightarrow> m | Inr b \<Rightarrow> publish_state id (update_device role (\<lambda>d. d\<lparr>zd_available := Some b\<rparr>) m))"

definition device_payload :: "codec \<Rightarrow> string \<Rightarrow> zigbee_device_state \<Rightarrow> string \<Rightarrow> zigbee_device_state result" where
  "device_payload cx payload previous received_at =
     rbind (json_load (cx_parse cx payload)) (\<lambda>v. case v of
       VDict d \<Rightarrow> merge_device_payload previous d received_at
     | _ \<Rightarrow> Inl (ValueError ''device payload must be a JSON object''))"

definition handle_device_payload :: "codec \<Rightarrow> string \<Rightarrow> string \<Rightarrow> string \<Rightarrow> zigbee_monitor \<Rightarrow> zigbee_monitor" where
  "handle_device_payload cx now role payload m = (case map_of (zg_devices m) role of
     None \<Rightarrow> m
   | Some previous \<Rightarrow> (case device_payload cx payload previous now of
       Inr updated \<Rightarrow> publish_state (\<lambda>s. s\<lparr>zm_last_message_at := Some now, zm_last_error := None\<rparr>)
         (update_device role (\<lambda>_. updated) m)
     | Inl e \<Rightarrow> publish_state (\<lambda>s. s\<lparr>zm_last_error :=
           Some (''Invalid MQTT payload for '' @ zd_friendly_name previous @ '': '' @ exc_str e)\<rparr>)
         (update_device role (\<lambda>d. d\<lparr>zd_parse_errors := zd_parse_errors d + 1,
            zd_last_error := Some (json_error_text (cx_parse cx payload) e)\<rparr>) m)))"

subsection \<open>Messages of the bridge\<close>

definition handle_bridge_info :: "py_value \<Rightarrow> zigbee_monitor \<Rightarrow> zigbee_monitor result" where
  "handle_bridge_info payload m = (case payload of
     VDict d \<Rightarrow>
       if vget d ''permit_join'' \<noteq> VNone \<and> \<not> is_bool (vget d ''permit_join'')
       then Inl (ValueError ''permit_join must be boolean'')
       else Inr (set_state (\<lambda>s. s\<lparr>zm_permit_join := (case vget d ''permit_join'' of VBool b \<Rightarrow> Some b | _ \<Rightarrow> None),
         zm_permit_join_end := (case vget d ''permit_join_end'' of VInt i \<Rightarrow> Some i | _ \<Rightarrow> None), zm_last_error := None\<rparr>) m)
   | _ \<Rightarrow> Inl (ValueError ''bridge/info payload must be a JSON object''))"

text \<open>Looking an unhashable state up in the set raises too.\<close>

definition handle_bridge_state :: "py_value \<Rightarrow> zigbee_monitor \<Rightarrow> zigbee_monitor result" where
  "handle_bridge_state payload m = (case payload of
     VDict d \<Rightarrow>
       if vget d ''state'' = VStr ''online'' \<or> vget d ''state'' = VStr ''offline''
       then Inr (set_state (\<lambda>s. s\<lparr>zm_bridge_online := Some (vget d ''state'' = VStr ''online''), zm_last_error := None\<rparr>) m)
       else if is_hashable (vget d ''state'') then Inl (ValueError ''bridge/state must contain state=online|offline'')
       else Inl (TypeError ''unhashable type'')
   | _ \<Rightarrow> Inl (ValueError ''bridge/state must contain state=online|offline''))"

definition handle_bridge_response :: "codec \<Rightarrow> py_value \<Rightarrow> zigbee_monitor \<Rightarrow> zigbee_monitor" where
  "handle_bridge_response cx payload m = (case payload of
     VDict d \<Rightarrow>
       let t = (case vget d ''transaction'' of VStr s \<Rightarrow> s | v \<Rightarrow> cx_str cx v) in
       if vget d ''transaction'' = VNone \<or> t \<notin> set (zg_pending m) then m
       else m\<lparr>zg_pending := removeAll t (zg_pending m), zg_answers := AList.update t d (zg_answers m)\<rparr>
   | _ \<Rightarrow> m)"

text \<open>The handler of the base class: an exception becomes the connection error.\<close>

definition base_bridge_message :: "codec \<Rightarrow> string \<Rightarrow> string \<Rightarrow> string \<Rightarrow> zigbee_monitor \<Rightarrow> zigbee_monitor" where
  "base_bridge_message cx now topic payload m =
     (let base = zm_base_topic (zg_state m);
          r = rbind (json_load (cx_parse cx payload)) (\<lambda>v.
            if topic = base @ ''/bridge/info'' then handle_bridge_info v m
            else if topic = base @ ''/bridge/state'' then handle_bridge_state v m
            else if topic = base @ ''/bridge/devices''
            then rbind (parse_bridge_devices v) (\<lambda>inventory. Inr (set_state (\<lambda>s. s\<lparr>zm_inventory := inventory,
                   zm_inventory_updated_at := Some now, zm_last_error := None\<rparr>) m))
            else if topic = base @ ''/bridge/event''
            then (case v of
                VDict d \<Rightarrow> Inr (set_state (\<lambda>s. s\<lparr>zm_last_event := Some d, zm_last_error := None\<rparr>) m)
              | _ \<Rightarrow> Inl (ValueError ''bridge/event payload must be a JSON object''))
            else if take (length (base @ ''/bridge/response/'')) topic = base @ ''/bridge/response/''
            then Inr (handle_bridge_response cx v m)
            else Inr m)
      in case r of Inr m' \<Rightarrow> m'
         | Inl e \<Rightarrow> set_connection_error (''Invalid Zigbee bridge payload on '' @ topic @ '': '' @ exc_str e) m)"

text \<open>\<open>_sync_assigned_names_from_inventory\<close>: names follow the inventory.\<close>

definition inventory_names :: "zigbee_monitor \<Rightarrow> (string \<times> zigbee_inventory_device) list" where
  "inventory_names m = dict_of zi_ieee_address (\<lambda>d. d) (zm_inventory (zg_state m))"

definition renamed_config :: "zigbee_monitor \<Rightarrow> zigbee_device_config \<Rightarrow> zigbee_device_config" where
  "renamed_config m c =
     (if \<not> is_assigned_config c then c
      else case map_of (inventory_names m) (str_or (dc_ieee_address c) []) of
          None \<Rightarrow> c | Some d \<Rightarrow> c\<lparr>dc_friendly_name := zi_friendly_name d\<rparr>)"

definition renamed_other :: "zigbee_monitor \<Rightarrow> string \<times> role_record \<Rightarrow> string \<times> role_record" where
  "renamed_other m = (\<lambda>(ieee, r). case map_of (inventory_names m) ieee of
     None \<Rightarrow> (ieee, r)
   | Some d \<Rightarrow> if rr_friendly_name r = Some (zi_friendly_name d) then (ieee, r)
       else (ieee, \<lparr>rr_role = MULTI_ROLE, rr_ieee_address = Some ieee, rr_friendly_name = Some (zi_friendly_name d)\<rparr>))"

definition renamed_configs :: "zigbee_monitor \<Rightarrow> zigbee_device_config list result" where
  "renamed_configs m = map_result (\<lambda>c. let c' = renamed_config m c in
     if c' = c then Inr c else new_device_config (dc_role c') (dc_friendly_name c') (dc_ieee_address c'))
   (zc_devices (zg_config m))"

definition sync_assigned_names :: "(zigbee_monitor, unit) op" where
  "sync_assigned_names m =
     op_bind (op_lift (renamed_configs m)) (\<lambda>renamed.
     op_bind (if renamed = zc_devices (zg_config m) then op_return () else apply_role_configs renamed) (\<lambda>_ m1.
       let others = map (renamed_other m1) (zg_other_roles m1)
       in if others = zg_other_roles m1 then (m1, Inr ())
          else save_other_roles (m1\<lparr>zg_other_roles := others\<rparr>))) m"


subsection \<open>The sensor list and the inventory with capabilities\<close>

definition fresh_row :: "string \<Rightarrow> zigbee_inventory_device \<Rightarrow> zigbee_sensor_list_item" where
  "fresh_row topic d = \<lparr>zl_ieee_address = zi_ieee_address d, zl_friendly_name = zi_friendly_name d, zl_topic = topic,
     zl_role = None, zl_model = zi_model d, zl_vendor = zi_vendor d, zl_available = None,
     zl_temperature_celsius = None, zl_humidity_percent = None, zl_battery_percent = None, zl_voltage_mv = None,
     zl_linkquality = None, zl_last_seen = None, zl_last_message_at = None, zl_messages = 0, zl_parse_errors = 0,
     zl_last_error = None\<rparr>"

definition inventory_row :: "zigbee_monitor \<Rightarrow> zigbee_inventory_device \<Rightarrow> zigbee_sensor_list_item" where
  "inventory_row m d =
     (let topic = zm_base_topic (zg_state m) @ ''/'' @ zi_friendly_name d
      in case map_of (zg_sensor_list m) (zi_ieee_address d) of
           None \<Rightarrow> fresh_row topic d
         | Some old \<Rightarrow> old\<lparr>zl_friendly_name := zi_friendly_name d, zl_topic := topic, zl_model := zi_model d,
             zl_vendor := zi_vendor d\<rparr>)"

text \<open>A pairing in progress learns from the inventory, without and with its capabilities kept.\<close>

definition pairing_from_inventory :: "zigbee_inventory_device \<Rightarrow> zigbee_pairing_state \<Rightarrow> zigbee_pairing_state" where
  "pairing_from_inventory d p = p\<lparr>zp_friendly_name := zi_friendly_name d, zp_supported := Some (zi_supported d),
     zp_model := first_of (zi_model d) (zp_model p), zp_vendor := first_of (zi_vendor d) (zp_vendor p),
     zp_description := first_of (zi_description d) (zp_description p), zp_capabilities := zi_capabilities d\<rparr>"

definition update_pairing :: "zigbee_inventory_device list \<Rightarrow> zigbee_pairing_state \<Rightarrow> zigbee_pairing_state" where
  "update_pairing inventory p = (case find (\<lambda>d. zi_ieee_address d = zp_ieee_address p) inventory of
     None \<Rightarrow> p | Some d \<Rightarrow> pairing_from_inventory d p)"

definition handle_capability_inventory :: "codec \<Rightarrow> string \<Rightarrow> string \<Rightarrow> zigbee_monitor \<Rightarrow> zigbee_monitor" where
  "handle_capability_inventory cx now payload m =
     (case rbind (json_load (cx_parse cx payload)) (parse_bridge_devices_with_capabilities (cx_str cx)) of
        Inl e \<Rightarrow> m
      | Inr inventory \<Rightarrow>
          let ds = filter (\<lambda>d. \<not> is_coordinator d) inventory;
              topic = (\<lambda>d. zm_base_topic (zg_state m) @ ''/'' @ zi_friendly_name d);
              m1 = set_state (\<lambda>s. s\<lparr>zm_inventory := inventory, zm_inventory_updated_at := Some now,
                     zm_pairing := map_option (update_pairing inventory) (zm_pairing s)\<rparr>)
                   (m\<lparr>zg_sensor_list := dict_of zi_ieee_address (inventory_row m) ds,
                      zg_generic_topics := dict_of topic zi_ieee_address ds,
                      zg_generic_availability := dict_of (\<lambda>d. topic d @ ''/availability'') zi_ieee_address ds\<rparr>)
          in if zm_connected (zg_state m) then call_client (resubscribe (generic_topics m) (generic_topics m1)) m1 else m1)"

definition update_row :: "string \<Rightarrow> (zigbee_sensor_list_item \<Rightarrow> zigbee_sensor_list_item) \<Rightarrow> zigbee_monitor \<Rightarrow> zigbee_monitor" where
  "update_row ieee f m = (case map_of (zg_sensor_list m) ieee of None \<Rightarrow> m
     | Some r \<Rightarrow> m\<lparr>zg_sensor_list := AList.update ieee (f r) (zg_sensor_list m)\<rparr>)"

definition row_error :: "string \<Rightarrow> zigbee_sensor_list_item \<Rightarrow> zigbee_sensor_list_item" where
  "row_error e r = r\<lparr>zl_parse_errors := zl_parse_errors r + 1, zl_last_error := Some e\<rparr>"

text \<open>One field of a row: absent, stored, or an error. \<open>float(i)\<close> raises for integers that are too large.\<close>

definition number_overflows :: "py_value \<Rightarrow> bool" where
  "number_overflows v = (case v of VInt i \<Rightarrow> \<not> is_finite (to_float (of_int i)) | _ \<Rightarrow> False)"

definition row_overflows :: "(string \<times> py_value) list \<Rightarrow> bool" where
  "row_overflows payload =
     (\<exists>f \<in> set [''temperature'', ''humidity'', ''battery'', ''voltage'', ''linkquality'']. number_overflows (vget payload f))"

definition row_number :: "string \<Rightarrow> (py_float \<Rightarrow> bool) \<Rightarrow> (py_float \<Rightarrow> zigbee_sensor_list_item \<Rightarrow> zigbee_sensor_list_item) \<Rightarrow>
    (string \<times> py_value) list \<Rightarrow> zigbee_sensor_list_item \<times> string list \<Rightarrow> zigbee_sensor_list_item \<times> string list" where
  "row_number field good store payload = (\<lambda>(r, errors). case map_of payload field of
     None \<Rightarrow> (r, errors)
   | Some v \<Rightarrow> (case opt_number v of
       None \<Rightarrow> (r, errors @ [''invalid '' @ field])
     | Some x \<Rightarrow> if good x then (store x r, errors) else (r, errors @ [''invalid '' @ field])))"

definition row_last_seen :: "(string \<times> py_value) list \<Rightarrow> zigbee_sensor_list_item \<times> string list \<Rightarrow>
    zigbee_sensor_list_item \<times> string list" where
  "row_last_seen payload = (\<lambda>(r, errors). case map_of payload ''last_seen'' of
     None \<Rightarrow> (r, errors)
   | Some VNone \<Rightarrow> (r\<lparr>zl_last_seen := None\<rparr>, errors)
   | Some (VStr s) \<Rightarrow> (r\<lparr>zl_last_seen := Some s\<rparr>, errors)
   | Some _ \<Rightarrow> (r, errors @ [''invalid last_seen'']))"

definition merge_row :: "(string \<times> py_value) list \<Rightarrow> string \<Rightarrow> zigbee_sensor_list_item \<Rightarrow> zigbee_sensor_list_item" where
  "merge_row payload received_at previous =
     (let (r, errors) = row_last_seen payload
            (row_number ''linkquality'' (in_bounds (Fin 0) (Fin 255)) (\<lambda>x r. r\<lparr>zl_linkquality := Some (float_floor x)\<rparr>) payload
            (row_number ''voltage'' (fle (Fin 0)) (\<lambda>x r. r\<lparr>zl_voltage_mv := Some x\<rparr>) payload
            (row_number ''battery'' (in_bounds (Fin 0) (Fin 100)) (\<lambda>x r. r\<lparr>zl_battery_percent := Some x\<rparr>) payload
            (row_number ''humidity'' (in_bounds (Fin 0) (Fin 100)) (\<lambda>x r. r\<lparr>zl_humidity_percent := Some x\<rparr>) payload
            (row_number ''temperature'' (\<lambda>_. True) (\<lambda>x r. r\<lparr>zl_temperature_celsius := Some x\<rparr>) payload
            (previous\<lparr>zl_last_message_at := Some received_at, zl_messages := zl_messages previous + 1,
               zl_last_error := None\<rparr>, []))))))
      in if errors = [] then r else row_error (join '', '' errors) r)"

definition handle_generic_payload :: "codec \<Rightarrow> string \<Rightarrow> string \<Rightarrow> string \<Rightarrow> (zigbee_monitor, unit) op" where
  "handle_generic_payload cx now ieee payload m =
     (case rbind (json_load (cx_parse cx payload)) (\<lambda>v. case v of VDict d \<Rightarrow> Inr d
         | _ \<Rightarrow> Inl (ValueError ''device payload must be a JSON object'')) of
        Inl e \<Rightarrow> (update_row ieee (row_error (json_error_text (cx_parse cx payload) e)) m, Inr ())
      | Inr d \<Rightarrow> if map_of (zg_sensor_list m) ieee = None then (m, Inr ())
          else if row_overflows d then (m, Inl (OtherException ''int too large to convert to float''))
          else (set_state (\<lambda>s. s\<lparr>zm_last_message_at := Some now\<rparr>) (update_row ieee (merge_row d now) m), Inr ()))"

definition handle_generic_availability :: "codec \<Rightarrow> string \<Rightarrow> string \<Rightarrow> zigbee_monitor \<Rightarrow> zigbee_monitor" where
  "handle_generic_availability cx ieee payload m = (case parse_availability (cx_parse cx) payload of
     Inl e \<Rightarrow> update_row ieee (row_error (''availability: '' @ exc_str e)) m
   | Inr b \<Rightarrow> update_row ieee (\<lambda>r. r\<lparr>zl_available := Some b\<rparr>) m)"

subsection \<open>Pairing\<close>

definition pairing_status :: "(string \<times> py_value) list \<Rightarrow> (string \<times> py_value) list \<Rightarrow> string option" where
  "pairing_status payload data =
     (if vget payload ''type'' = VStr ''device_joined'' then Some ''joined''
      else if vget payload ''type'' = VStr ''device_interview''
      then (case vget data ''status'' of
              VStr s \<Rightarrow> if s \<in> {''started'', ''successful'', ''failed''} then Some s else None | _ \<Rightarrow> None)
      else None)"

definition keep_pairing :: "zigbee_pairing_state \<Rightarrow> zigbee_pairing_state \<Rightarrow> zigbee_pairing_state" where
  "keep_pairing current p = p\<lparr>zp_model := first_of (zp_model p) (zp_model current),
     zp_vendor := first_of (zp_vendor p) (zp_vendor current),
     zp_description := first_of (zp_description p) (zp_description current),
     zp_capabilities := (if zp_capabilities p = [] then zp_capabilities current else zp_capabilities p)\<rparr>"

definition pairing_of_event :: "codec \<Rightarrow> string \<Rightarrow> (string \<times> py_value) list \<Rightarrow> zigbee_pairing_state option" where
  "pairing_of_event cx now payload = (case vget payload ''data'' of
     VDict data \<Rightarrow> (case (opt_str (vget data ''ieee_address''), pairing_status payload data) of
       (Some ieee, Some status) \<Rightarrow>
         let interview = (vget payload ''type'' = VStr ''device_interview'');
             definition_table = (if interview then table_or_empty (vget data ''definition'') else [])
         in Some \<lparr>zp_status = status, zp_ieee_address = ieee,
           zp_friendly_name = (case opt_str (vget data ''friendly_name'') of None \<Rightarrow> ieee | Some s \<Rightarrow> s),
           zp_event_at = now,
           zp_supported = (case vget data ''supported'' of VBool b \<Rightarrow> if interview then Some b else None | _ \<Rightarrow> None),
           zp_model = opt_str (vget definition_table ''model''), zp_vendor = opt_str (vget definition_table ''vendor''),
           zp_description = opt_str (vget definition_table ''description''),
           zp_capabilities = parse_published_capabilities (cx_str cx) (vget definition_table ''exposes''),
           zp_acknowledged = False\<rparr>
     | _ \<Rightarrow> None)
   | _ \<Rightarrow> None)"

text \<open>Looking a status up in the set raises when it is a list or a table.\<close>

definition pairing_raises :: "(string \<times> py_value) list \<Rightarrow> bool" where
  "pairing_raises payload = (case vget payload ''data'' of
     VDict data \<Rightarrow> opt_str (vget data ''ieee_address'') \<noteq> None \<and> vget payload ''type'' = VStr ''device_interview''
       \<and> \<not> is_hashable (vget data ''status'')
   | _ \<Rightarrow> False)"

definition store_pairing :: "zigbee_pairing_state \<Rightarrow> zigbee_monitor \<Rightarrow> zigbee_monitor" where
  "store_pairing p m =
     (let p1 = (case zm_pairing (zg_state m) of
            Some current \<Rightarrow> if zp_ieee_address current = zp_ieee_address p then keep_pairing current p else p
          | None \<Rightarrow> p);
          p2 = (case find (\<lambda>x. zi_ieee_address x = zp_ieee_address p1) (zm_inventory (zg_state m)) of
            None \<Rightarrow> p1
          | Some x \<Rightarrow> (pairing_from_inventory x p1)\<lparr>zp_capabilities :=
              (if zi_capabilities x = [] then zp_capabilities p1 else zi_capabilities x)\<rparr>)
      in set_state (\<lambda>s. s\<lparr>zm_pairing := Some p2\<rparr>) m)"

definition handle_pairing_event :: "codec \<Rightarrow> string \<Rightarrow> string \<Rightarrow> (zigbee_monitor, unit) op" where
  "handle_pairing_event cx now payload m = (case cx_parse cx payload of
     Json (VDict d) \<Rightarrow>
       if pairing_raises d then (m, Inl (TypeError ''unhashable type''))
       else (case pairing_of_event cx now d of None \<Rightarrow> (m, Inr ()) | Some p \<Rightarrow> (store_pairing p m, Inr ()))
   | _ \<Rightarrow> (m, Inr ()))"

definition acknowledge_pairing :: "string \<Rightarrow> (zigbee_monitor, string) op" where
  "acknowledge_pairing ieee_address m =
     (let ieee = py_strip ieee_address in
      if ieee = [] then (m, Inl (ValueError ''Zigbee pairing IEEE address must be a non-empty string''))
      else case zm_pairing (zg_state m) of
          None \<Rightarrow> (m, Inl (RuntimeError ''No Zigbee pairing result is awaiting acknowledgement''))
        | Some p \<Rightarrow>
            if zp_ieee_address p \<noteq> ieee
            then (m, Inl (ValueError ''Zigbee pairing acknowledgement does not match current device''))
            else (set_state (\<lambda>s. s\<lparr>zm_pairing := Some (p\<lparr>zp_acknowledged := True\<rparr>)\<rparr>) m, Inr ieee))"


subsection \<open>Callbacks of the network thread\<close>

text \<open>The callbacks: a connection with its reason code and the outcome of subscribing, a failed attempt, a
  disconnection, and a message.\<close>

datatype mqtt_event =
    Connected "string option" "string option"
  | Connect_failed
  | Disconnected string
  | Message string string

definition bridge_topics :: "string \<Rightarrow> string list" where
  "bridge_topics base = map (\<lambda>t. base @ t) [''/bridge/info'', ''/bridge/state'', ''/bridge/devices'', ''/bridge/event'',
     ''/bridge/response/#'']"

definition base_connected :: "string \<Rightarrow> string option \<Rightarrow> string option \<Rightarrow> zigbee_monitor \<Rightarrow> zigbee_monitor" where
  "base_connected now reason subscribe_error m = (case reason of
     Some r \<Rightarrow> set_connection_error (''MQTT CONNACK rejected: '' @ r) m
   | None \<Rightarrow>
       let m1 = call_client [Subscribe (map fst (zg_topic_to_role m) @ map fst (zg_availability_to_role m)
                  @ bridge_topics (zm_base_topic (zg_state m)))] m
       in case subscribe_error of
            Some r \<Rightarrow> set_connection_error (''MQTT subscribe failed: '' @ r) m1
          | None \<Rightarrow> publish_state (\<lambda>s. s\<lparr>zm_running := True, zm_connected := True, zm_connected_at := Some now,
              zm_last_error := None\<rparr>) m1)"

definition on_connect :: "string \<Rightarrow> string option \<Rightarrow> string option \<Rightarrow> zigbee_monitor \<Rightarrow> zigbee_monitor" where
  "on_connect now reason subscribe_error m =
     (let m1 = base_connected now reason subscribe_error m
      in if zm_connected (zg_state m1) \<and> generic_topics m1 \<noteq> {}
         then call_client [Subscribe (sorted_list_of_set (generic_topics m1))] m1 else m1)"

definition fail_pending :: "string \<Rightarrow> zigbee_monitor \<Rightarrow> zigbee_monitor" where
  "fail_pending e m = m\<lparr>zg_pending := [],
     zg_answers := fold (\<lambda>t. AList.update t [(''_transport_error'', VStr e)]) (zg_pending m) (zg_answers m)\<rparr>"

definition on_disconnect :: "string \<Rightarrow> string \<Rightarrow> zigbee_monitor \<Rightarrow> zigbee_monitor" where
  "on_disconnect now reason m =
     (let e = ''MQTT disconnected: '' @ reason;
          m1 = publish_state (\<lambda>s. s\<lparr>zm_connected := False, zm_disconnected_at := Some now,
                 zm_last_error := (if zg_closed m then None else Some e)\<rparr>) m
      in if zg_closed m then m1 else fail_pending e m1)"

text \<open>The bridge handler of the concrete class: the base handler, the names of the roles, then the
  capabilities or the pairing. What the base handler does not catch comes out.\<close>

definition bridge_message :: "codec \<Rightarrow> string \<Rightarrow> string \<Rightarrow> string \<Rightarrow> (zigbee_monitor, unit) op" where
  "bridge_message cx now topic payload m =
     (let base = zm_base_topic (zg_state m); m1 = base_bridge_message cx now topic payload m
      in if topic = base @ ''/bridge/devices''
         then op_bind sync_assigned_names (\<lambda>_ m2. (handle_capability_inventory cx now payload m2, Inr ())) m1
         else if topic = base @ ''/bridge/event'' then handle_pairing_event cx now payload m1
         else (m1, Inr ()))"

definition on_message :: "codec \<Rightarrow> string \<Rightarrow> string \<Rightarrow> string \<Rightarrow> (zigbee_monitor, unit) op" where
  "on_message cx now topic payload = op_bind
     (\<lambda>m. case map_of (zg_generic_availability m) topic of
        Some ieee \<Rightarrow> (handle_generic_availability cx ieee payload m, Inr ())
      | None \<Rightarrow> (case map_of (zg_generic_topics m) topic of
          Some ieee \<Rightarrow> handle_generic_payload cx now ieee payload m | None \<Rightarrow> (m, Inr ())))
     (\<lambda>_ m. let prefix = zm_base_topic (zg_state m) @ ''/bridge/''
       in if take (length prefix) topic = prefix then bridge_message cx now topic payload m
          else (case map_of (zg_availability_to_role m) topic of
              Some role \<Rightarrow> (handle_availability cx role payload m, Inr ())
            | None \<Rightarrow> (case map_of (zg_topic_to_role m) topic of
                Some role \<Rightarrow> (handle_device_payload cx now role payload m, Inr ())
              | None \<Rightarrow> (m, Inr ()))))"

text \<open>One event; an exception of the callback stays in the network thread.\<close>

definition handle_event :: "codec \<Rightarrow> string \<times> mqtt_event \<Rightarrow> zigbee_monitor \<Rightarrow> zigbee_monitor" where
  "handle_event cx = (\<lambda>(now, e) m. case e of
     Connected reason subscribe_error \<Rightarrow> on_connect now reason subscribe_error m
   | Connect_failed \<Rightarrow> set_connection_error ''MQTT connection attempt failed'' m
   | Disconnected reason \<Rightarrow> on_disconnect now reason m
   | Message topic payload \<Rightarrow> fst (on_message cx now topic payload m))"

subsection \<open>Requests\<close>

text \<open>What a request meets: its transaction id, a publish that fails, and the events handled while it waits.\<close>

record request_env =
  rq_transaction :: string
  rq_publish_error :: "string option"
  rq_events :: "(string \<times> mqtt_event) list"

definition bridge_request :: "codec \<Rightarrow> request_env \<Rightarrow> string \<Rightarrow> (string \<times> py_value) list \<Rightarrow>
    (zigbee_monitor, (string \<times> py_value) list) op" where
  "bridge_request cx env suffix payload m =
     (let t = rq_transaction env; s = zg_state m; topic = zm_base_topic s @ ''/bridge/request/'' @ suffix
      in if zg_closed m then (m, Inl (RuntimeError ''Zigbee MQTT client is closed''))
         else if \<not> zm_connected s then (m, Inl (RuntimeError ''Zigbee MQTT client is not connected''))
         else if zm_bridge_online s = Some False then (m, Inl (RuntimeError ''Zigbee2MQTT bridge is offline''))
         else
           let m1 = call_client [Publish topic (VDict (AList.update ''transaction'' (VStr t) payload))]
                      (m\<lparr>zg_pending := zg_pending m @ [t]\<rparr>);
               forget = (\<lambda>m. m\<lparr>zg_pending := removeAll t (zg_pending m), zg_answers := AList.delete t (zg_answers m)\<rparr>)
           in case rq_publish_error env of
                Some e \<Rightarrow> (forget m1, Inl (RuntimeError (''Zigbee MQTT publish failed: '' @ e)))
              | None \<Rightarrow>
                  let m2 = fold (handle_event cx) (rq_events env) m1
                  in case map_of (zg_answers m2) t of
                       None \<Rightarrow> (forget m2, Inl (TimeoutErr (''Zigbee2MQTT did not answer '' @ py_repr_str suffix @ '' request in time'')))
                     | Some answer \<Rightarrow> (forget m2,
                         if py_truthy (vget answer ''_transport_error'')
                         then Inl (RuntimeError (cx_str cx (vget answer ''_transport_error'')))
                         else if vget answer ''status'' \<noteq> VStr ''ok''
                         then Inl (RuntimeError (if py_truthy (vget answer ''error'') then cx_str cx (vget answer ''error'')
                                else ''Zigbee2MQTT rejected '' @ py_repr_str suffix @ '' request''))
                         else Inr answer))"

definition permit_join :: "codec \<Rightarrow> request_env \<Rightarrow> py_value \<Rightarrow> (zigbee_monitor, (string \<times> py_value) list) op" where
  "permit_join cx env seconds m = (case seconds of
     VInt n \<Rightarrow>
       if 0 \<le> n \<and> n \<le> 254 then bridge_request cx env ''permit_join'' [(''time'', VInt n)] m
       else (m, Inl (ValueError ''Zigbee permit-join seconds must be an integer in range 0..254''))
   | _ \<Rightarrow> (m, Inl (ValueError ''Zigbee permit-join seconds must be an integer in range 0..254'')))"

definition resolve_device :: "zigbee_monitor \<Rightarrow> string \<Rightarrow> zigbee_inventory_device result" where
  "resolve_device m device_id =
     (let needle = py_strip device_id in
      if needle = [] then Inl (ValueError ''Zigbee device id must be a non-empty string'')
      else case find (\<lambda>d. needle = zi_ieee_address d \<or> needle = zi_friendly_name d) (zm_inventory (zg_state m)) of
          None \<Rightarrow> Inl (ValueError (''Unknown Zigbee device: '' @ needle)) | Some d \<Rightarrow> Inr d)"

text \<open>The checks and the request of \<open>ZigbeeMqttMonitor.remove_device\<close>.\<close>

definition base_remove_device :: "codec \<Rightarrow> request_env \<Rightarrow> string \<Rightarrow> (zigbee_monitor, (string \<times> py_value) list) op" where
  "base_remove_device cx env device_id m =
     (let needle = py_strip device_id in
      if needle = [] then (m, Inl (ValueError ''Zigbee device id must be a non-empty string''))
      else if \<exists>d \<in> set (zm_inventory (zg_state m)).
          (needle = zi_ieee_address d \<or> needle = zi_friendly_name d) \<and> is_coordinator d
      then (m, Inl (ValueError ''Zigbee coordinator cannot be removed''))
      else bridge_request cx env ''device/remove'' [(''id'', VStr needle)] m)"

text \<open>The configurations of a device changed and applied, when it has one.\<close>

definition apply_where :: "string \<Rightarrow> (zigbee_device_config \<Rightarrow> zigbee_device_config) \<Rightarrow> zigbee_device_config list \<Rightarrow>
    (zigbee_monitor, unit) op" where
  "apply_where ieee f configs =
     (if \<exists>c \<in> set configs. assigned_to ieee c
      then apply_role_configs (map (\<lambda>c. if assigned_to ieee c then f c else c) configs) else op_return ())"

definition release :: "zigbee_device_config \<Rightarrow> zigbee_device_config" where
  "release c = unassigned_config (dc_role c)"

definition drop_other_role :: "string \<Rightarrow> (zigbee_monitor, unit) op" where
  "drop_other_role ieee m =
     (if ieee \<in> fst ` set (zg_other_roles m)
      then save_other_roles (m\<lparr>zg_other_roles := AList.delete ieee (zg_other_roles m)\<rparr>) else (m, Inr ()))"

definition remove_device :: "codec \<Rightarrow> request_env \<Rightarrow> string \<Rightarrow> (zigbee_monitor, (string \<times> py_value) list) op" where
  "remove_device cx env device_id m = op_bind (op_lift (resolve_device m device_id)) (\<lambda>d.
     op_bind (base_remove_device cx env (zi_ieee_address d)) (\<lambda>response.
     op_bind (\<lambda>m. apply_where (zi_ieee_address d) release (zc_devices (zg_config m)) m) (\<lambda>_.
     op_bind (drop_other_role (zi_ieee_address d)) (\<lambda>_. op_return response)))) m"


text \<open>\<open>_validate_name\<close>.\<close>

definition name_char :: "char \<Rightarrow> bool" where
  "name_char c = (is_letter c \<or> is_digit_char c \<or> c \<in> {CHR ''_'', CHR ''.'', CHR ''-''})"

definition validate_name :: "string \<Rightarrow> string result" where
  "validate_name value =
     (let name = py_strip value in
      if \<not> (name \<noteq> [] \<and> length name \<le> 64 \<and> (is_letter (hd name) \<or> is_digit_char (hd name)) \<and> (\<forall>c \<in> set (tl name). name_char c))
      then Inl (ValueError (''Zigbee friendly_name must be 1..64 characters: letters, digits, '' @ py_repr_str ''.'' @ '', ''
             @ py_repr_str ''_'' @ '' or '' @ py_repr_str ''-''))
      else if lower name = ''bridge'' \<or> take (length UNASSIGNED_PREFIX) name = UNASSIGNED_PREFIX
      then Inl (ValueError ''Reserved Zigbee friendly_name'')
      else Inr name)"

definition rename_other_role :: "string \<Rightarrow> string \<Rightarrow> (zigbee_monitor, unit) op" where
  "rename_other_role ieee name m =
     (if ieee \<in> fst ` set (zg_other_roles m)
      then save_other_roles (m\<lparr>zg_other_roles := AList.update ieee
             \<lparr>rr_role = MULTI_ROLE, rr_ieee_address = Some ieee, rr_friendly_name = Some name\<rparr> (zg_other_roles m)\<rparr>)
      else (m, Inr ()))"

definition rename_device :: "codec \<Rightarrow> request_env \<Rightarrow> string \<Rightarrow> string \<Rightarrow> (zigbee_monitor, (string \<times> py_value) list) op" where
  "rename_device cx env device_id new_name m = op_bind (op_lift (resolve_device m device_id)) (\<lambda>d.
     if is_coordinator d then op_raise (ValueError ''Zigbee coordinator cannot be renamed'')
     else op_bind (op_lift (validate_name new_name)) (\<lambda>name.
       if name = zi_friendly_name d
       then op_return [(''status'', VStr ''ok''), (''data'', VDict [(''from'', VStr (zi_friendly_name d)),
              (''to'', VStr name), (''unchanged'', VBool True)])]
       else if \<exists>x \<in> set (zm_inventory (zg_state m)). zi_friendly_name x = name \<and> zi_ieee_address x \<noteq> zi_ieee_address d
       then op_raise (ValueError (''Zigbee friendly_name already exists: '' @ name))
       else
         op_bind (bridge_request cx env ''device/rename'' [(''from'', VStr (zi_ieee_address d)), (''to'', VStr name)]) (\<lambda>response.
         op_bind (\<lambda>m. apply_where (zi_ieee_address d) (\<lambda>c. c\<lparr>dc_friendly_name := name\<rparr>) (zc_devices (zg_config m)) m) (\<lambda>_.
         op_bind (rename_other_role (zi_ieee_address d) name) (\<lambda>_. op_return response))))) m"

definition role_reply :: "zigbee_inventory_device \<Rightarrow> string \<Rightarrow> (string \<times> py_value) list" where
  "role_reply d role = [(''status'', VStr ''ok''), (''data'', VDict [(''id'', VStr (zi_ieee_address d)),
     (''friendly_name'', VStr (zi_friendly_name d)), (''role'', VStr role), (''retain'', VBool True)])]"

definition device_config_of :: "zigbee_inventory_device \<Rightarrow> string \<Rightarrow> zigbee_device_config" where
  "device_config_of d role = \<lparr>dc_role = role, dc_friendly_name = zi_friendly_name d, dc_ieee_address = Some (zi_ieee_address d)\<rparr>"

text \<open>The position of the first element with a property.\<close>

fun find_index :: "('a \<Rightarrow> bool) \<Rightarrow> 'a list \<Rightarrow> nat option" where
  "find_index P [] = None"
| "find_index P (x # xs) = (if P x then Some 0 else map_option Suc (find_index P xs))"

text \<open>The three ways a role is given: none, OTHER, and a system role. \<open>configs\<close> and \<open>current_other\<close> were
  read before the request.\<close>

definition release_first :: "string \<Rightarrow> zigbee_device_config list \<Rightarrow> zigbee_device_config list" where
  "release_first ieee configs = (case find_index (assigned_to ieee) configs of
     None \<Rightarrow> configs | Some i \<Rightarrow> configs[i := release (configs ! i)])"

definition assign_none :: "string \<Rightarrow> zigbee_device_config list \<Rightarrow> bool \<Rightarrow> (zigbee_monitor, (string \<times> py_value) list) op" where
  "assign_none ieee configs current_other =
     op_bind (if \<exists>c \<in> set configs. assigned_to ieee c then apply_role_configs (release_first ieee configs) else op_return ()) (\<lambda>_.
     op_bind (if current_other then (\<lambda>m. save_other_roles (m\<lparr>zg_other_roles := AList.delete ieee (zg_other_roles m)\<rparr>))
              else op_return ()) (\<lambda>_.
     op_return [(''status'', VStr ''ok''), (''data'', VDict [(''id'', VStr ieee), (''role'', VNone)])]))"

definition assign_other :: "zigbee_inventory_device \<Rightarrow> zigbee_device_config list \<Rightarrow> (zigbee_monitor, (string \<times> py_value) list) op" where
  "assign_other d configs =
     (let ieee = zi_ieee_address d in
      op_bind (if \<exists>c \<in> set configs. assigned_to ieee c then apply_role_configs (release_first ieee configs) else op_return ()) (\<lambda>_.
      op_bind (\<lambda>m. save_other_roles (m\<lparr>zg_other_roles := AList.update ieee \<lparr>rr_role = MULTI_ROLE, rr_ieee_address = Some ieee,
                 rr_friendly_name = Some (zi_friendly_name d)\<rparr> (zg_other_roles m)\<rparr>)) (\<lambda>_.
      op_return (role_reply d MULTI_ROLE))))"

definition assign_system :: "zigbee_inventory_device \<Rightarrow> string \<Rightarrow> zigbee_device_config list \<Rightarrow> bool \<Rightarrow>
    (zigbee_monitor, (string \<times> py_value) list) op" where
  "assign_system d role configs current_other =
     (let ieee = zi_ieee_address d in
      case find_index (\<lambda>c. dc_role c = role) configs of
        None \<Rightarrow> op_raise (OtherException [])
      | Some target \<Rightarrow>
          if is_assigned_config (configs ! target) \<and> dc_ieee_address (configs ! target) \<noteq> Some ieee
          then op_raise (ValueError (''System role '' @ role @ '' is already assigned to ''
                 @ dc_friendly_name (configs ! target) @ ''; set that device to no role first''))
          else
            op_bind (if current_other then (\<lambda>m. save_other_roles (m\<lparr>zg_other_roles := AList.delete ieee (zg_other_roles m)\<rparr>))
                     else op_return ()) (\<lambda>_.
            op_bind (apply_role_configs ((release_first ieee configs)[target := device_config_of d role])) (\<lambda>_.
            op_return (role_reply d role))))"

definition assign_role :: "codec \<Rightarrow> request_env \<Rightarrow> string \<Rightarrow> string option \<Rightarrow>
    (zigbee_monitor, (string \<times> py_value) list) op" where
  "assign_role cx env device_id role m = op_bind (op_lift (resolve_device m device_id)) (\<lambda>d.
     let configs = zc_devices (zg_config m); ieee = zi_ieee_address d;
         current_other = (ieee \<in> fst ` set (zg_other_roles m))
     in if is_coordinator d then op_raise (ValueError ''Zigbee coordinator cannot receive a system role'')
        else case role of
          None \<Rightarrow> assign_none ieee configs current_other
        | Some r \<Rightarrow>
            if r \<notin> set SYSTEM_ROLES \<union> {MULTI_ROLE} then op_raise (ValueError ''Zigbee role must be supply, extract, other or null'')
            else
              op_bind (bridge_request cx env ''device/options'' [(''id'', VStr ieee), (''options'', VDict [(''retain'', VBool True)])]) (\<lambda>_.
              if r = MULTI_ROLE then assign_other d configs else assign_system d r configs current_other)) m"

definition zigbee_close :: "string \<Rightarrow> (zigbee_monitor, unit) op" where
  "zigbee_close now m =
     (if zg_closed m then (m, Inr ())
      else (publish_state (\<lambda>s. s\<lparr>zm_running := False, zm_connected := False, zm_disconnected_at := Some now\<rparr>)
              (fail_pending ''Zigbee MQTT client is closing'' (m\<lparr>zg_closed := True\<rparr>)), Inr ()))"

subsection \<open>Runs\<close>

text \<open>What can happen to a running monitor, in any order.\<close>

inductive zigbee_step :: "codec \<Rightarrow> zigbee_monitor \<Rightarrow> zigbee_monitor \<Rightarrow> bool" for cx where
  event: "zigbee_step cx m (handle_event cx e m)"
| health_check: "zigbee_step cx m (zigbee_health_check m)"
| permit: "zigbee_step cx m (fst (permit_join cx env v m))"
| remove: "zigbee_step cx m (fst (remove_device cx env i m))"
| rename: "zigbee_step cx m (fst (rename_device cx env i name m))"
| assign: "zigbee_step cx m (fst (assign_role cx env i role m))"
| pairing: "zigbee_step cx m (fst (acknowledge_pairing ieee m))"
| close: "zigbee_step cx m (fst (zigbee_close now m))"

inductive_cases zigbee_stepE: "zigbee_step cx m m'"

end
