(* ===== verification/ZigbeeInvariant.thy ===== *)
theory ZigbeeInvariant
  imports ZigbeeMonitor
begin

section \<open>What every run of the Zigbee monitor keeps\<close>

text \<open>
  Lemmas about \<open>ZigbeeMonitor\<close>: a step relation over the callbacks of the network thread and the commands of
  the service, and the invariant that a device address holds at most one role and that the device table and
  the topic maps are the ones of the configuration. Most functions keep the part of the monitor that the
  invariant is about, its \<open>role_view\<close>; the lemmas that say so are collected in \<open>view_simps\<close>.
\<close>

named_theorems view_simps "operations that keep the role view of the monitor"

subsection \<open>The invariant\<close>

definition config_address :: "zigbee_device_config \<Rightarrow> string option" where
  "config_address c = (if is_assigned_config c then dc_ieee_address c else None)"

definition assigned_addresses :: "zigbee_device_config list \<Rightarrow> string list" where
  "assigned_addresses = List.map_filter config_address"

definition other_addresses :: "zigbee_monitor \<Rightarrow> string list" where
  "other_addresses m = map fst (zg_other_roles m)"

text \<open>What a device table says about names and topics, and what the configuration says.\<close>

definition identities :: "(string \<times> zigbee_device_state) list \<Rightarrow> (string \<times> string \<times> string \<times> string) list" where
  "identities = map (\<lambda>(r, d). (r, zd_role d, zd_friendly_name d, zd_topic d))"

definition config_identities :: "string \<Rightarrow> zigbee_device_config list \<Rightarrow> (string \<times> string \<times> string \<times> string) list" where
  "config_identities base = map (\<lambda>c. (dc_role c, dc_role c, dc_friendly_name c, base @ ''/'' @ dc_friendly_name c))"

type_synonym role_view = "zigbee_mqtt_config \<times> (string \<times> string \<times> string \<times> string) list \<times>
  (string \<times> string) list \<times> (string \<times> string) list \<times> string list \<times> string"

definition role_view :: "zigbee_monitor \<Rightarrow> role_view" where
  "role_view m = (zg_config m, identities (zg_devices m), zg_topic_to_role m, zg_availability_to_role m,
     other_addresses m, zm_base_topic (zg_state m))"

text \<open>The topic maps as the identities give them.\<close>

definition topics_of :: "(string \<times> string \<times> string \<times> string) list \<Rightarrow> (string \<times> string) list" where
  "topics_of = dict_of (\<lambda>(_, _, _, t). t) fst"

definition availability_of :: "(string \<times> string \<times> string \<times> string) list \<Rightarrow> (string \<times> string) list" where
  "availability_of = dict_of (\<lambda>(_, _, _, t). t @ ''/availability'') fst"

definition one_role_each :: "zigbee_device_config list \<Rightarrow> string list \<Rightarrow> bool" where
  "one_role_each configs others = (distinct (assigned_addresses configs) \<and> distinct others
     \<and> set (assigned_addresses configs) \<inter> set others = {})"

definition view_ok :: "role_view \<Rightarrow> bool" where
  "view_ok = (\<lambda>(config, ids, topics, availability, others, base).
     check_zigbee_config config = Inr config \<and> ids = config_identities base (zc_devices config)
     \<and> topics = topics_of ids \<and> availability = availability_of ids \<and> one_role_each (zc_devices config) others)"

definition zigbee_ok :: "zigbee_monitor \<Rightarrow> bool" where
  "zigbee_ok m = view_ok (role_view m)"

subsection \<open>Dictionaries and lists\<close>

lemma dict_of_map: "dict_of f g (map h xs) = dict_of (f \<circ> h) (g \<circ> h) xs"
  by (induction xs rule: rev_induct) simp_all

lemma topic_map_identities: "topic_map devices = topics_of (identities devices)"
  by (simp add: topic_map_def topics_of_def identities_def dict_of_map comp_def case_prod_beta)

lemma availability_map_identities: "availability_map devices = availability_of (identities devices)"
  by (simp add: availability_map_def availability_of_def identities_def dict_of_map comp_def case_prod_beta)

lemma update_new_key: "k \<notin> fst ` set xs \<Longrightarrow> AList.update k v xs = xs @ [(k, v)]"
  by (induction xs) auto

lemma dict_of_distinct: "distinct (map f xs) \<Longrightarrow> dict_of f g xs = map (\<lambda>x. (f x, g x)) xs"
proof (induction xs rule: rev_induct)
  case (snoc x xs)
  then have "f x \<notin> fst ` set (map (\<lambda>x. (f x, g x)) xs)" by auto
  then have "AList.update (f x) (g x) (map (\<lambda>x. (f x, g x)) xs) = map (\<lambda>x. (f x, g x)) xs @ [(f x, g x)]"
    by (rule update_new_key)
  with snoc show ?case by simp
qed simp

lemma map_update_same:
  assumes "map_of xs k = Some v" and "h (k, w) = h (k, v)"
  shows "map h (AList.update k w xs) = map h xs"
  using assms by (induction xs) (auto split: if_splits)

lemma identities_update:
  assumes "map_of devices role = Some d" and "zd_role d' = zd_role d" "zd_friendly_name d' = zd_friendly_name d"
    and "zd_topic d' = zd_topic d"
  shows "identities (AList.update role d' devices) = identities devices"
  unfolding identities_def by (rule map_update_same[OF assms(1)]) (simp add: assms)

subsection \<open>The operations that keep the role view\<close>

lemma view_call_client [view_simps]: "role_view (call_client cs m) = role_view m"
  by (simp add: role_view_def call_client_def other_addresses_def)

lemma view_set_state:
  "(\<And>s. zm_base_topic (f s) = zm_base_topic s) \<Longrightarrow> role_view (set_state f m) = role_view m"
  by (simp add: role_view_def set_state_def other_addresses_def)

lemma view_publish_state:
  "(\<And>s. zm_base_topic (f s) = zm_base_topic s) \<Longrightarrow> role_view (publish_state f m) = role_view m"
  unfolding publish_state_def by (rule view_set_state) simp

lemma view_publish_id [view_simps]: "role_view (publish_state id m) = role_view m"
  by (rule view_publish_state) simp

lemma view_connection_error [view_simps]: "role_view (set_connection_error e m) = role_view m"
  unfolding set_connection_error_def by (rule view_publish_state) simp

lemma view_update_device:
  assumes "\<And>d. zd_role (f d) = zd_role d \<and> zd_friendly_name (f d) = zd_friendly_name d \<and> zd_topic (f d) = zd_topic d"
  shows "role_view (update_device role f m) = role_view m"
  using assms by (simp add: update_device_def role_view_def other_addresses_def identities_update split: option.split)

lemma view_update_row [view_simps]: "role_view (update_row ieee f m) = role_view m"
  by (simp add: update_row_def role_view_def other_addresses_def split: option.split)

lemma view_on_store [view_simps]: "role_view (fst (on_store f m)) = role_view m"
  by (simp add: on_store_def role_view_def other_addresses_def split: prod.split)

lemma view_handle_availability [view_simps]: "role_view (handle_availability cx role payload m) = role_view m"
  by (simp add: handle_availability_def view_publish_id view_update_device split: sum.split)

lemma merge_field_keeps:
  assumes "merge_field field f payload d = Inr d'" and "\<And>v d d'. f v d = Inr d' \<Longrightarrow> g d' = g d"
  shows "g d' = g d"
  using assms by (auto simp: merge_field_def split: option.splits)

text \<open>A merged payload keeps who the device is, and counts the message.\<close>

definition device_identity :: "zigbee_device_state \<Rightarrow> string \<times> string \<times> string \<times> string option" where
  "device_identity d = (zd_role d, zd_friendly_name d, zd_topic d, zd_ieee_address d)"

definition device_counters :: "zigbee_device_state \<Rightarrow> int \<times> int \<times> string option \<times> string option \<times> bool option" where
  "device_counters d = (zd_messages d, zd_parse_errors d, zd_last_error d, zd_last_message_at d, zd_available d)"

lemma merge_device_payload_keeps:
  assumes "merge_device_payload d payload now = Inr d'"
  shows "device_identity d' = device_identity d"
    and "device_counters d' = (zd_messages d + 1, zd_parse_errors d, None, Some now, zd_available d)"
proof -
  let ?g = "\<lambda>d. (device_identity d, device_counters d)"
  from assms obtain d1 d2 d3 where
    1: "merge_field ''temperature'' (\<lambda>v d. rbind (finite_number v ''temperature'') (\<lambda>x.
          Inr (d\<lparr>zd_temperature_celsius := Some x\<rparr>))) payload
        (d\<lparr>zd_last_message_at := Some now, zd_messages := zd_messages d + 1, zd_last_error := None\<rparr>) = Inr d1"
    and 2: "merge_field ''battery'' (\<lambda>v d. rbind (finite_number v ''battery'') (\<lambda>x.
          if in_bounds (Fin 0) (Fin 100) x then Inr (d\<lparr>zd_battery_percent := Some x\<rparr>)
          else Inl (ValueError ''battery must be in range 0..100''))) payload d1 = Inr d2"
    and 3: "merge_field ''linkquality'' (\<lambda>v d. rbind (finite_number v ''linkquality'') (\<lambda>x.
          if in_bounds (Fin 0) (Fin 255) x then Inr (d\<lparr>zd_linkquality := Some (float_floor x)\<rparr>)
          else Inl (ValueError ''linkquality must be in range 0..255''))) payload d2 = Inr d3"
    and 4: "merge_field ''last_seen'' (\<lambda>v d. case v of
         VNone \<Rightarrow> Inr (d\<lparr>zd_last_seen := None\<rparr>) | VStr s \<Rightarrow> Inr (d\<lparr>zd_last_seen := Some s\<rparr>)
       | _ \<Rightarrow> Inl (ValueError ''last_seen must be a string or null'')) payload d3 = Inr d'"
    unfolding merge_device_payload_def rbind_eq_Inr by blast
  note keep = device_identity_def device_counters_def
  have "?g d' = ?g d3"
    by (rule merge_field_keeps[OF 4]) (auto simp: keep split: py_value.split_asm)
  also have "?g d3 = ?g d2"
    by (rule merge_field_keeps[OF 3]) (auto simp: keep rbind_eq_Inr split: if_split_asm)
  also have "?g d2 = ?g d1"
    by (rule merge_field_keeps[OF 2]) (auto simp: keep rbind_eq_Inr split: if_split_asm)
  also have "?g d1 = ?g (d\<lparr>zd_last_message_at := Some now, zd_messages := zd_messages d + 1, zd_last_error := None\<rparr>)"
    by (rule merge_field_keeps[OF 1]) (auto simp: keep rbind_eq_Inr)
  finally show "device_identity d' = device_identity d"
    "device_counters d' = (zd_messages d + 1, zd_parse_errors d, None, Some now, zd_available d)"
    by (simp_all add: keep)
qed

lemma case_table_Inr:
  "(case v of VDict d \<Rightarrow> f d | _ \<Rightarrow> Inl e) = Inr y \<longleftrightarrow> (\<exists>d. v = VDict d \<and> f d = Inr y)"
  by (cases v) simp_all

lemma device_payload_keeps:
  "device_payload cx payload d now = Inr d' \<Longrightarrow> device_identity d' = device_identity d"
  by (auto simp: device_payload_def rbind_eq_Inr case_table_Inr merge_device_payload_keeps)

lemma view_update_device_const:
  assumes "map_of (zg_devices m) role = Some d" and "device_identity d' = device_identity d"
  shows "role_view (update_device role (\<lambda>_. d') m) = role_view m"
  using assms by (simp add: update_device_def role_view_def other_addresses_def identities_update device_identity_def)

lemma view_handle_device_payload [view_simps]: "role_view (handle_device_payload cx now role payload m) = role_view m"
  by (auto simp: handle_device_payload_def view_publish_state view_update_device view_update_device_const
      device_payload_keeps split: option.split sum.split)

lemma view_bridge_response [view_simps]: "role_view (handle_bridge_response cx v m) = role_view m"
  by (simp add: handle_bridge_response_def Let_def role_view_def other_addresses_def split: py_value.split)

lemma view_bridge_info: "handle_bridge_info v m = Inr m' \<Longrightarrow> role_view m' = role_view m"
  by (auto simp: handle_bridge_info_def case_table_Inr view_set_state split: if_split_asm)

lemma view_bridge_state: "handle_bridge_state v m = Inr m' \<Longrightarrow> role_view m' = role_view m"
  by (auto simp: handle_bridge_state_def case_table_Inr view_set_state split: if_split_asm)

lemma view_base_bridge_message [view_simps]: "role_view (base_bridge_message cx now topic payload m) = role_view m"
proof (cases "json_load (cx_parse cx payload)")
  case (Inr v)
  have "role_view m' = role_view m"
    if "(case v of VDict d \<Rightarrow> Inr (set_state (\<lambda>s. s\<lparr>zm_last_event := Some d, zm_last_error := None\<rparr>) m)
         | _ \<Rightarrow> Inl (ValueError ''bridge/event payload must be a JSON object'')) = Inr m'" for m'
    using that by (auto simp: case_table_Inr view_set_state)
  moreover have "role_view m' = role_view m"
    if "rbind (parse_bridge_devices v) (\<lambda>inventory. Inr (set_state (\<lambda>s. s\<lparr>zm_inventory := inventory,
          zm_inventory_updated_at := Some now, zm_last_error := None\<rparr>) m)) = Inr m'" for m'
    using that by (auto simp: rbind_eq_Inr view_set_state)
  ultimately show ?thesis
    by (simp add: base_bridge_message_def Let_def Inr view_connection_error view_bridge_info view_bridge_state
        view_bridge_response split: sum.split)
qed (simp add: base_bridge_message_def Let_def view_connection_error)

lemma view_capability_inventory [view_simps]: "role_view (handle_capability_inventory cx now payload m) = role_view m"
  by (auto simp: handle_capability_inventory_def Let_def view_call_client role_view_def other_addresses_def
      set_state_def call_client_def split: sum.split)

lemma view_generic_payload [view_simps]: "role_view (fst (handle_generic_payload cx now ieee payload m)) = role_view m"
  by (simp add: handle_generic_payload_def view_update_row view_set_state split: sum.split)

lemma view_generic_availability [view_simps]: "role_view (handle_generic_availability cx ieee payload m) = role_view m"
  by (simp add: handle_generic_availability_def view_update_row split: sum.split)

lemma view_pairing_event [view_simps]: "role_view (fst (handle_pairing_event cx now payload m)) = role_view m"
proof -
  have "role_view (store_pairing p m) = role_view m" for p by (simp add: store_pairing_def Let_def view_set_state)
  then show ?thesis by (simp add: handle_pairing_event_def split: json_result.split py_value.split option.split)
qed

lemma view_acknowledge [view_simps]: "role_view (fst (acknowledge_pairing ieee m)) = role_view m"
  by (simp add: acknowledge_pairing_def Let_def view_set_state split: option.split)

lemma view_on_connect [view_simps]: "role_view (on_connect now reason err m) = role_view m"
  by (simp add: on_connect_def base_connected_def Let_def view_connection_error view_call_client view_publish_state
      split: option.split)

lemma view_fail_pending [view_simps]: "role_view (fail_pending e m) = role_view m"
  by (simp add: fail_pending_def role_view_def other_addresses_def)

lemma view_on_disconnect [view_simps]: "role_view (on_disconnect now reason m) = role_view m"
  by (simp add: on_disconnect_def Let_def view_fail_pending view_publish_state)

lemma view_close [view_simps]: "role_view (fst (zigbee_close now m)) = role_view m"
  by (simp add: zigbee_close_def view_fail_pending view_publish_state)
    (simp add: role_view_def fail_pending_def other_addresses_def publish_state_def set_state_def)

lemma view_health_check [view_simps]: "role_view (zigbee_health_check m) = role_view m"
  by (simp add: zigbee_health_check_def view_publish_state)

subsection \<open>Changing the roles\<close>

lemma check_zigbee_config_Inr: "check_zigbee_config c = Inr c' \<Longrightarrow> c' = c"
  by (simp add: check_zigbee_config_def split: if_split_asm)

lemma check_zigbee_config_distinct: "check_zigbee_config c = Inr c' \<Longrightarrow> distinct (map dc_role (zc_devices c))"
  by (simp add: check_zigbee_config_def split: if_split_asm)

lemma carried_device_identity:
  "zd_role (carried_device m c) = dc_role c" "zd_friendly_name (carried_device m c) = dc_friendly_name c"
  "zd_topic (carried_device m c) = zm_base_topic (zg_state m) @ ''/'' @ dc_friendly_name c"
  by (simp_all add: carried_device_def Let_def fresh_device_def split: option.split)

lemma identities_carried:
  "distinct (map dc_role configs) \<Longrightarrow>
   identities (dict_of dc_role (carried_device m) configs) = config_identities (zm_base_topic (zg_state m)) configs"
  by (simp add: dict_of_distinct identities_def config_identities_def carried_device_identity)

text \<open>What applying configurations does to the view: nothing, or everything at once, also when it raises.\<close>

definition applied_view :: "zigbee_device_config list \<Rightarrow> role_view \<Rightarrow> role_view" where
  "applied_view configs = (\<lambda>(config, ids, topics, availability, others, base).
     (let new = config_identities base configs
      in (config\<lparr>zc_devices := configs\<rparr>, new, topics_of new, availability_of new, others, base)))"

lemma apply_role_configs_view:
  assumes "check_zigbee_config ((zg_config m)\<lparr>zc_devices := configs\<rparr>) = Inr config"
  shows "role_view (fst (apply_role_configs configs m)) = applied_view configs (role_view m)"
proof -
  let ?d = "dict_of dc_role (carried_device m) configs"
  let ?m = "publish_state id (m\<lparr>zg_config := config, zg_devices := ?d,
      zg_topic_to_role := topic_map ?d, zg_availability_to_role := availability_map ?d\<rparr>)"
  have config: "config = (zg_config m)\<lparr>zc_devices := configs\<rparr>" by (rule check_zigbee_config_Inr[OF assms])
  have d: "distinct (map dc_role configs)" using check_zigbee_config_distinct[OF assms] by simp
  have view: "role_view ?m = applied_view configs (role_view m)"
    unfolding view_publish_id
    by (simp add: role_view_def applied_view_def Let_def topic_map_identities
        availability_map_identities identities_carried[OF d] config other_addresses_def)
  obtain m2 r where s: "on_store (save_configs configs) ?m = (m2, r)" by fastforce
  with view_on_store[of "save_configs configs" ?m] have "role_view m2 = role_view ?m" by simp
  with s view show ?thesis
    unfolding apply_role_configs_def assms
    by (cases r) (simp_all add: Let_def op_bind_def view_call_client)
qed

lemma apply_role_configs_failed:
  "check_zigbee_config ((zg_config m)\<lparr>zc_devices := configs\<rparr>) = Inl e \<Longrightarrow> apply_role_configs configs m = (m, Inl e)"
  by (simp add: apply_role_configs_def)

lemma zigbee_ok_devices: "zigbee_ok m \<Longrightarrow> one_role_each (zc_devices (zg_config m)) (other_addresses m)"
  by (simp add: zigbee_ok_def view_ok_def role_view_def)

lemma zigbee_ok_cong: "role_view m' = role_view m \<Longrightarrow> zigbee_ok m \<Longrightarrow> zigbee_ok m'"
  by (simp add: zigbee_ok_def)

lemma zigbee_ok_others:
  assumes "zigbee_ok m" and "one_role_each (zc_devices (zg_config m)) (map fst others)"
  shows "zigbee_ok (m\<lparr>zg_other_roles := others\<rparr>)"
  using assms by (simp add: zigbee_ok_def view_ok_def role_view_def other_addresses_def)

lemma role_view_eqD:
  assumes "role_view m' = role_view m"
  shows "zg_config m' = zg_config m" "other_addresses m' = other_addresses m"
    "zm_base_topic (zg_state m') = zm_base_topic (zg_state m)"
  using assms by (simp_all add: role_view_def)

lemma apply_role_configs_ok:
  assumes ok: "zigbee_ok m" and one: "one_role_each configs (other_addresses m)"
    and run: "apply_role_configs configs m = (m', r)"
  shows "zigbee_ok m'" and "other_addresses m' = other_addresses m"
    and "zc_devices (zg_config m') = configs \<or> m' = m \<and> (\<exists>e. r = Inl e)"
proof -
  have "zigbee_ok m' \<and> other_addresses m' = other_addresses m \<and>
    (zc_devices (zg_config m') = configs \<or> m' = m \<and> (\<exists>e. r = Inl e))"
  proof (cases "check_zigbee_config ((zg_config m)\<lparr>zc_devices := configs\<rparr>)")
    case (Inl e)
    with run ok show ?thesis by (auto simp: apply_role_configs_failed)
  next
    case (Inr config)
    from check_zigbee_config_Inr[OF Inr] Inr
    have check: "check_zigbee_config ((zg_config m)\<lparr>zc_devices := configs\<rparr>) = Inr ((zg_config m)\<lparr>zc_devices := configs\<rparr>)"
      by simp
    from apply_role_configs_view[OF Inr] run
    have view: "role_view m' = applied_view configs (role_view m)" by simp
    with one check have "zigbee_ok m'"
      by (simp add: zigbee_ok_def view_ok_def applied_view_def role_view_def Let_def)
    with view show ?thesis by (simp add: role_view_def applied_view_def Let_def)
  qed
  then show "zigbee_ok m'" "other_addresses m' = other_addresses m"
    "zc_devices (zg_config m') = configs \<or> m' = m \<and> (\<exists>e. r = Inl e)" by simp_all
qed

lemma save_other_roles_ok: "zigbee_ok m \<Longrightarrow> zigbee_ok (fst (save_other_roles m))"
  by (rule zigbee_ok_cong) (simp_all add: save_other_roles_def view_on_store)

lemma save_other_roles_keeps:
  assumes "save_other_roles m = (m', r)"
  shows "role_view m' = role_view m"
  using view_on_store[of "save_other_records (map snd (zg_other_roles m))" m] assms by (simp add: save_other_roles_def)

subsection \<open>Addresses of changed configurations\<close>

lemma assigned_addresses_simps [simp]:
  "assigned_addresses [] = []"
  "assigned_addresses (c # cs) = (case config_address c of None \<Rightarrow> [] | Some a \<Rightarrow> [a]) @ assigned_addresses cs"
  by (simp_all add: assigned_addresses_def List.map_filter_def split: option.split)

text \<open>A change that frees addresses or keeps them.\<close>

lemma assigned_addresses_map:
  assumes "\<And>c. config_address (g c) = None \<or> config_address (g c) = config_address c"
  shows "set (assigned_addresses (map g cs)) \<subseteq> set (assigned_addresses cs)"
    and "distinct (assigned_addresses cs) \<Longrightarrow> distinct (assigned_addresses (map g cs))"
proof (induction cs)
  case (Cons c cs)
  { case 1 show ?case using Cons.IH(1) assms[of c] by (auto split: option.split) }
  { case 2 then show ?case using Cons assms[of c] by (auto split: option.split_asm) }
qed simp_all

lemma one_role_each_map:
  assumes "\<And>c. config_address (g c) = None \<or> config_address (g c) = config_address c"
    and "one_role_each cs others"
  shows "one_role_each (map g cs) others"
  using assigned_addresses_map[of g cs, OF assms(1)] assms(2) by (auto simp: one_role_each_def)

lemma config_address_release [simp]: "config_address (release c) = None"
  by (simp add: config_address_def is_assigned_config_def release_def unassigned_config_def)

lemma assigned_to_address: "assigned_to ieee c \<longleftrightarrow> config_address c = Some ieee"
  by (auto simp: assigned_to_def config_address_def)

lemma addresses_release_first:
  "assigned_addresses (release_first ieee cs) = remove1 ieee (assigned_addresses cs)"
proof (induction cs)
  case (Cons c cs)
  show ?case
  proof (cases "assigned_to ieee c")
    case True
    then show ?thesis by (simp add: release_first_def assigned_to_address)
  next
    case False
    then have "assigned_addresses (release_first ieee (c # cs)) =
        (case config_address c of None \<Rightarrow> [] | Some a \<Rightarrow> [a]) @ assigned_addresses (release_first ieee cs)"
      by (simp add: release_first_def split: option.split)
    with Cons False show ?thesis by (auto simp: assigned_to_address split: option.split)
  qed
qed (simp add: release_first_def)

lemma assigned_addresses_update:
  assumes "config_address c = None \<or> config_address c = Some a" and "a \<notin> set (assigned_addresses cs)"
    and "distinct (assigned_addresses cs)"
  shows "distinct (assigned_addresses (cs[i := c])) \<and> set (assigned_addresses (cs[i := c])) \<subseteq> insert a (set (assigned_addresses cs))"
  using assms
proof (induction cs arbitrary: i)
  case (Cons d cs)
  show ?case
  proof (cases i)
    case 0
    with Cons.prems show ?thesis by (auto split: option.splits)
  next
    case (Suc j)
    with Cons.IH[of j] Cons.prems show ?thesis by (auto split: option.splits)
  qed
qed simp

subsection \<open>Events\<close>

text \<open>Events keep the invariant, give no address away and keep the addresses with the role OTHER.\<close>

definition settled :: "zigbee_monitor \<Rightarrow> zigbee_monitor \<Rightarrow> bool" where
  "settled m m' = (zigbee_ok m' \<and> other_addresses m' = other_addresses m
     \<and> set (assigned_addresses (zc_devices (zg_config m'))) \<subseteq> set (assigned_addresses (zc_devices (zg_config m))))"

lemma settled_refl: "zigbee_ok m \<Longrightarrow> settled m m"
  by (simp add: settled_def)

lemma settled_trans: "settled m m1 \<Longrightarrow> settled m1 m2 \<Longrightarrow> settled m m2"
  by (auto simp: settled_def)

lemma settled_view: "role_view m' = role_view m \<Longrightarrow> zigbee_ok m \<Longrightarrow> settled m m'"
  using zigbee_ok_cong[of m' m] role_view_eqD[of m' m] by (simp add: settled_def)

lemma config_address_renamed: "config_address (renamed_config m c) = None \<or> config_address (renamed_config m c) = config_address c"
  by (auto simp: renamed_config_def config_address_def is_assigned_config_def split: option.split)

lemma renamed_configs_Inr: "renamed_configs m = Inr cs \<Longrightarrow> cs = map (renamed_config m) (zc_devices (zg_config m))"
  unfolding renamed_configs_def map_result_Inr_iff
  by (induction rule: list_all2_induct) (auto simp: Let_def new_device_config_def split: if_split_asm)

lemma fst_renamed_other [simp]: "fst (renamed_other m x) = fst x"
  by (simp add: renamed_other_def split: prod.split option.split)

lemma renamed_others_ok:
  assumes "zigbee_ok m"
  shows "zigbee_ok (m\<lparr>zg_other_roles := map (renamed_other m) (zg_other_roles m)\<rparr>)"
  using zigbee_ok_devices[OF assms]
  by (intro zigbee_ok_others[OF assms]) (simp add: other_addresses_def comp_def)

lemma sync_assigned_names_settled:
  assumes ok: "zigbee_ok m"
  shows "settled m (fst (sync_assigned_names m))"
proof (cases "renamed_configs m")
  case (Inl e)
  with ok show ?thesis by (simp add: sync_assigned_names_def op_bind_def settled_refl)
next
  case (Inr cs)
  let ?change = "if cs = zc_devices (zg_config m) then op_return () else apply_role_configs cs"
  obtain m1 r where run: "?change m = (m1, r)" by fastforce
  have cs: "one_role_each cs (other_addresses m)"
    using one_role_each_map[OF config_address_renamed zigbee_ok_devices[OF ok]] renamed_configs_Inr[OF Inr] by simp
  have sub: "set (assigned_addresses cs) \<subseteq> set (assigned_addresses (zc_devices (zg_config m)))"
    using assigned_addresses_map(1)[OF config_address_renamed] renamed_configs_Inr[OF Inr] by simp
  have m1: "settled m m1"
  proof (cases "cs = zc_devices (zg_config m)")
    case True
    with run ok show ?thesis by (simp add: settled_refl)
  next
    case False
    with run have "apply_role_configs cs m = (m1, r)" by simp
    from apply_role_configs_ok[OF ok cs this] sub show ?thesis by (auto simp: settled_def)
  qed
  show ?thesis
  proof (cases r)
    case (Inl e)
    with m1 Inr run show ?thesis by (simp add: sync_assigned_names_def op_bind_def del: op_bind_if)
  next
    case (Inr u)
    let ?m2 = "m1\<lparr>zg_other_roles := map (renamed_other m1) (zg_other_roles m1)\<rparr>"
    have ok1: "zigbee_ok m1" using m1 by (simp add: settled_def)
    have "settled m1 ?m2"
      using renamed_others_ok[OF ok1] by (simp add: settled_def other_addresses_def comp_def)
    moreover have "settled ?m2 (fst (save_other_roles ?m2))"
      using calculation by (intro settled_view) (simp_all add: save_other_roles_def view_on_store settled_def)
    ultimately have m2: "settled m (fst (save_other_roles ?m2))" by (meson m1 settled_trans)
    have "sync_assigned_names m = (if map (renamed_other m1) (zg_other_roles m1) = zg_other_roles m1
        then (m1, Inr ()) else save_other_roles ?m2)"
      using run Inr \<open>renamed_configs m = Inr cs\<close> by (simp add: sync_assigned_names_def op_bind_def Let_def del: op_bind_if)
    with m1 m2 show ?thesis by simp
  qed
qed

lemma bridge_message_settled:
  assumes ok: "zigbee_ok m"
  shows "settled m (fst (bridge_message cx now topic payload m))"
proof -
  define m1 where "m1 = base_bridge_message cx now topic payload m"
  have m1: "settled m m1" unfolding m1_def by (rule settled_view[OF view_base_bridge_message ok])
  then have ok1: "zigbee_ok m1" by (simp add: settled_def)
  obtain m2 r where s: "sync_assigned_names m1 = (m2, r)" by fastforce
  with sync_assigned_names_settled[OF ok1] have m2: "settled m1 m2" by simp
  have m3: "settled m2 (handle_capability_inventory cx now payload m2)"
    using m2 by (intro settled_view[OF view_capability_inventory]) (simp add: settled_def)
  have "settled m1 (fst (op_bind sync_assigned_names (\<lambda>_ m2. (handle_capability_inventory cx now payload m2, Inr ())) m1))"
    using s m2 settled_trans[OF m2 m3] by (cases r) (simp_all add: op_bind_def)
  then show ?thesis
    using m1 settled_trans[OF m1] settled_view[OF view_pairing_event ok1]
    unfolding bridge_message_def Let_def m1_def[symmetric] by simp
qed

lemma op_bind_settled:
  assumes "settled m (fst (f m))" and "\<And>x m'. zigbee_ok m' \<Longrightarrow> settled m' (fst (g x m'))"
  shows "settled m (fst (op_bind f g m))"
proof (cases "f m")
  case (Pair m1 r)
  with assms(1) have m1: "settled m m1" by simp
  then have "zigbee_ok m1" by (simp add: settled_def)
  with Pair m1 settled_trans[OF m1 assms(2)] show ?thesis by (cases r) (simp_all add: op_bind_def)
qed

lemma on_message_settled:
  assumes ok: "zigbee_ok m"
  shows "settled m (fst (on_message cx now topic payload m))"
  unfolding on_message_def
proof (rule op_bind_settled)
  show "settled m (fst (case map_of (zg_generic_availability m) topic of
        Some ieee \<Rightarrow> (handle_generic_availability cx ieee payload m, Inr ())
      | None \<Rightarrow> (case map_of (zg_generic_topics m) topic of
          Some ieee \<Rightarrow> handle_generic_payload cx now ieee payload m | None \<Rightarrow> (m, Inr ()))))"
    using ok by (intro settled_view) (simp_all add: view_generic_availability view_generic_payload split: option.split)
  fix m' assume ok': "zigbee_ok m'"
  show "settled m' (fst (let prefix = zm_base_topic (zg_state m') @ ''/bridge/''
       in if take (length prefix) topic = prefix then bridge_message cx now topic payload m'
          else (case map_of (zg_availability_to_role m') topic of
              Some role \<Rightarrow> (handle_availability cx role payload m', Inr ())
            | None \<Rightarrow> (case map_of (zg_topic_to_role m') topic of
                Some role \<Rightarrow> (handle_device_payload cx now role payload m', Inr ())
              | None \<Rightarrow> (m', Inr ())))))"
    using bridge_message_settled[OF ok'] settled_refl[OF ok']
      settled_view[OF view_handle_availability ok'] settled_view[OF view_handle_device_payload ok']
    by (simp add: Let_def split: option.split)
qed

lemma handle_event_settled: "zigbee_ok m \<Longrightarrow> settled m (handle_event cx x m)"
  by (simp add: handle_event_def settled_view view_on_connect view_connection_error view_on_disconnect
      on_message_settled split: prod.split mqtt_event.split)

lemma events_settled: "zigbee_ok m \<Longrightarrow> settled m (fold (handle_event cx) es m)"
proof (induction es arbitrary: m)
  case (Cons e es)
  have "settled m (handle_event cx e m)" by (rule handle_event_settled[OF Cons.prems])
  moreover from this have "settled (handle_event cx e m) (fold (handle_event cx) es (handle_event cx e m))"
    by (intro Cons.IH) (simp add: settled_def)
  ultimately show ?case by (simp add: settled_trans)
qed (simp add: settled_refl)

subsection \<open>Commands\<close>

lemma view_pending [view_simps]: "role_view (m\<lparr>zg_pending := ts, zg_answers := as\<rparr>) = role_view m"
  "role_view (m\<lparr>zg_pending := ts\<rparr>) = role_view m"
  by (simp_all add: role_view_def other_addresses_def)

lemma settled_then_view: "settled m m1 \<Longrightarrow> role_view m2 = role_view m1 \<Longrightarrow> settled m m2"
  by (meson settled_def settled_trans settled_view)

lemma bridge_request_settled:
  assumes ok: "zigbee_ok m"
  shows "settled m (fst (bridge_request cx env suffix payload m))"
proof -
  let ?c = "call_client [Publish (zm_base_topic (zg_state m) @ ''/bridge/request/'' @ suffix)
      (VDict (AList.update ''transaction'' (VStr (rq_transaction env)) payload))]"
  define m1 where "m1 = ?c (m\<lparr>zg_pending := zg_pending m @ [rq_transaction env]\<rparr>)"
  have v1: "role_view m1 = role_view m" by (simp add: m1_def view_call_client view_pending)
  then have m1: "settled m m1" using ok by (rule settled_view)
  then have m2: "settled m (fold (handle_event cx) (rq_events env) m1)"
    using events_settled[of m1] settled_trans by (auto simp: settled_def)
  have "settled m (m1\<lparr>zg_pending := ts, zg_answers := as\<rparr>)" for ts as
    by (rule settled_then_view[OF m1]) (simp add: view_pending)
  moreover have "settled m ((fold (handle_event cx) (rq_events env) m1)\<lparr>zg_pending := ts, zg_answers := as\<rparr>)" for ts as
    by (rule settled_then_view[OF m2]) (simp add: view_pending)
  ultimately show ?thesis
    unfolding bridge_request_def Let_def m1_def[symmetric]
    using settled_refl[OF ok] by (simp split: option.split)
qed

lemma op_bind_ok:
  assumes "zigbee_ok (fst (f m))" and "\<And>x m'. f m = (m', Inr x) \<Longrightarrow> zigbee_ok m' \<Longrightarrow> zigbee_ok (fst (g x m'))"
  shows "zigbee_ok (fst (op_bind f g m))"
  using assms by (cases "f m"; cases "snd (f m)") (simp_all add: op_bind_def)

lemma op_bind_lift_ok:
  assumes "zigbee_ok m" and "\<And>x. r = Inr x \<Longrightarrow> zigbee_ok (fst (g x m))"
  shows "zigbee_ok (fst (op_bind (op_lift r) g m))"
  using assms by (cases r) (simp_all add: op_bind_def)

lemma bridge_request_ok: "zigbee_ok m \<Longrightarrow> zigbee_ok (fst (bridge_request cx env suffix payload m))"
  using bridge_request_settled by (simp add: settled_def)

lemma permit_join_ok: "zigbee_ok m \<Longrightarrow> zigbee_ok (fst (permit_join cx env v m))"
  by (simp add: permit_join_def bridge_request_ok split: py_value.split)

lemma base_remove_device_ok: "zigbee_ok m \<Longrightarrow> zigbee_ok (fst (base_remove_device cx env i m))"
  by (simp add: base_remove_device_def Let_def bridge_request_ok)

lemma apply_role_configs_fst_ok:
  assumes "zigbee_ok m" and "one_role_each configs (other_addresses m)"
  shows "zigbee_ok (fst (apply_role_configs configs m))"
  using apply_role_configs_ok(1)[OF assms, of "fst (apply_role_configs configs m)" "snd (apply_role_configs configs m)"]
  by simp

lemma apply_where_ok:
  assumes ok: "zigbee_ok m"
    and g: "\<And>c. is_assigned_config c \<Longrightarrow> config_address (f c) = None \<or> config_address (f c) = config_address c"
  shows "zigbee_ok (fst (apply_where ieee f (zc_devices (zg_config m)) m))"
proof -
  let ?cs = "map (\<lambda>c. if assigned_to ieee c then f c else c) (zc_devices (zg_config m))"
  have "one_role_each ?cs (other_addresses m)"
    by (rule one_role_each_map[OF _ zigbee_ok_devices[OF ok]]) (use g in \<open>auto simp: assigned_to_def\<close>)
  then have "zigbee_ok (fst (apply_role_configs ?cs m))" by (rule apply_role_configs_fst_ok[OF ok])
  with ok show ?thesis by (simp add: apply_where_def)
qed

lemma save_others_ok:
  "zigbee_ok m \<Longrightarrow> one_role_each (zc_devices (zg_config m)) (map fst others) \<Longrightarrow>
   zigbee_ok (fst (save_other_roles (m\<lparr>zg_other_roles := others\<rparr>)))"
  by (intro save_other_roles_ok zigbee_ok_others)

lemma one_role_each_delete:
  "one_role_each cs (map fst others) \<Longrightarrow> one_role_each cs (map fst (AList.delete ieee others))"
  by (auto simp: one_role_each_def delete_keys distinct_removeAll)

lemma one_role_each_update:
  assumes "one_role_each cs (map fst others)" and "ieee \<notin> set (assigned_addresses cs)"
  shows "one_role_each cs (map fst (AList.update ieee v others))"
  using assms by (auto simp: one_role_each_def distinct_update dom_update)

lemma drop_other_role_ok: "zigbee_ok m \<Longrightarrow> zigbee_ok (fst (drop_other_role ieee m))"
  using zigbee_ok_devices[of m]
  by (simp add: drop_other_role_def save_others_ok one_role_each_delete other_addresses_def)

lemma rename_other_role_ok:
  assumes "zigbee_ok m"
  shows "zigbee_ok (fst (rename_other_role ieee name m))"
proof (cases "ieee \<in> fst ` set (zg_other_roles m)")
  case True
  then have "ieee \<notin> set (assigned_addresses (zc_devices (zg_config m)))"
    using zigbee_ok_devices[OF assms] by (auto simp: one_role_each_def other_addresses_def)
  with True assms show ?thesis
    using zigbee_ok_devices[OF assms]
    by (simp add: rename_other_role_def save_others_ok one_role_each_update other_addresses_def)
qed (use assms in \<open>simp add: rename_other_role_def\<close>)

lemma remove_device_ok: "zigbee_ok m \<Longrightarrow> zigbee_ok (fst (remove_device cx env i m))"
  unfolding remove_device_def
  by (intro op_bind_lift_ok op_bind_ok base_remove_device_ok apply_where_ok drop_other_role_ok) simp_all

lemma rename_device_ok: "zigbee_ok m \<Longrightarrow> zigbee_ok (fst (rename_device cx env i name m))"
proof -
  assume ok: "zigbee_ok m"
  have "zigbee_ok (fst (op_bind (bridge_request cx env suffix payload) (\<lambda>response.
         op_bind (\<lambda>m. apply_where ieee (\<lambda>c. c\<lparr>dc_friendly_name := new\<rparr>) (zc_devices (zg_config m)) m) (\<lambda>_.
         op_bind (rename_other_role ieee new) (\<lambda>_. op_return response))) m))" for suffix payload ieee new
    by (intro op_bind_ok bridge_request_ok apply_where_ok rename_other_role_ok ok)
      (simp_all add: config_address_def is_assigned_config_def)
  with ok show ?thesis unfolding rename_device_def
    by (intro op_bind_lift_ok ok) (auto intro!: op_bind_lift_ok)
qed

text \<open>The three ways to give a role, started after the request from configurations read before it.\<close>

lemma release_first_one_role:
  "one_role_each cs others \<Longrightarrow> one_role_each (release_first ieee cs) others \<and>
   ieee \<notin> set (assigned_addresses (release_first ieee cs))"
  using set_remove1_subset[of ieee "assigned_addresses cs"]
  by (auto simp: one_role_each_def addresses_release_first)

definition forget_other :: "bool \<Rightarrow> string \<Rightarrow> (zigbee_monitor, unit) op" where
  "forget_other b ieee = (if b then (\<lambda>m. save_other_roles (m\<lparr>zg_other_roles := AList.delete ieee (zg_other_roles m)\<rparr>))
     else op_return ())"

definition release_role :: "string \<Rightarrow> zigbee_device_config list \<Rightarrow> (zigbee_monitor, unit) op" where
  "release_role ieee configs = (if \<exists>c \<in> set configs. assigned_to ieee c
     then apply_role_configs (release_first ieee configs) else op_return ())"

lemma current_other_delete:
  assumes ok: "zigbee_ok m" and run: "forget_other b ieee m = (m', r)"
  shows "zigbee_ok m'" and "other_addresses m' = (if b then removeAll ieee (other_addresses m) else other_addresses m)"
proof -
  let ?m = "m\<lparr>zg_other_roles := AList.delete ieee (zg_other_roles m)\<rparr>"
  have "b \<Longrightarrow> save_other_roles ?m = (m', r)" using run by (simp add: forget_other_def)
  then have v: "b \<Longrightarrow> role_view m' = role_view ?m" by (rule save_other_roles_keeps)
  have "zigbee_ok ?m"
    using zigbee_ok_devices[OF ok] by (intro zigbee_ok_others[OF ok]) (simp add: one_role_each_delete other_addresses_def)
  with v ok run show "zigbee_ok m'" by (cases b) (auto intro: zigbee_ok_cong simp: forget_other_def)
  from v run show "other_addresses m' = (if b then removeAll ieee (other_addresses m) else other_addresses m)"
    by (cases b) (auto dest!: role_view_eqD(2) simp: other_addresses_def delete_keys forget_other_def)
qed

lemma forget_other_ok: "zigbee_ok m \<Longrightarrow> zigbee_ok (fst (forget_other b ieee m))"
  using current_other_delete(1)[of m b ieee "fst (forget_other b ieee m)" "snd (forget_other b ieee m)"] by simp

lemma release_role_ok:
  assumes "zigbee_ok m" and "one_role_each configs (other_addresses m)"
  shows "zigbee_ok (fst (release_role ieee configs m))"
  using apply_role_configs_fst_ok[OF assms(1), of "release_first ieee configs"] release_first_one_role[OF assms(2)] assms(1)
  by (simp add: release_role_def)

lemma zigbee_ok_bind_return: "zigbee_ok (fst (f m)) \<Longrightarrow> zigbee_ok (fst (op_bind f (\<lambda>_. op_return x) m))"
  by (rule op_bind_ok) simp_all

lemma assign_none_ok:
  assumes ok: "zigbee_ok m" and one: "one_role_each configs (other_addresses m)"
  shows "zigbee_ok (fst (assign_none ieee configs b m))"
  unfolding assign_none_def release_role_def[symmetric] forget_other_def[symmetric]
  by (intro op_bind_ok zigbee_ok_bind_return release_role_ok[OF ok one] forget_other_ok)

lemma release_role_frees:
  assumes ok: "zigbee_ok m" and one: "one_role_each configs (other_addresses m)"
    and sub: "set (assigned_addresses (zc_devices (zg_config m))) \<subseteq> set (assigned_addresses configs)"
    and run: "release_role ieee configs m = (m', Inr u)"
  shows "ieee \<notin> set (assigned_addresses (zc_devices (zg_config m')))"
proof (cases "\<exists>c \<in> set configs. assigned_to ieee c")
  case True
  with run have "apply_role_configs (release_first ieee configs) m = (m', Inr u)" by (simp add: release_role_def)
  from apply_role_configs_ok(3)[OF ok _ this] release_first_one_role[OF one] show ?thesis by auto
next
  case False
  then have "ieee \<notin> set (assigned_addresses configs)"
    by (auto simp: assigned_addresses_def List.map_filter_def assigned_to_address)
  with False run sub show ?thesis by (auto simp: release_role_def)
qed

lemma assign_other_ok:
  assumes ok: "zigbee_ok m" and one: "one_role_each configs (other_addresses m)"
    and sub: "set (assigned_addresses (zc_devices (zg_config m))) \<subseteq> set (assigned_addresses configs)"
  shows "zigbee_ok (fst (assign_other d configs m))"
proof -
  have "zigbee_ok (fst (save_other_roles (m'\<lparr>zg_other_roles := AList.update (zi_ieee_address d) v (zg_other_roles m')\<rparr>)))"
    if "release_role (zi_ieee_address d) configs m = (m', Inr u)" and ok': "zigbee_ok m'" for m' u v
    using zigbee_ok_devices[OF ok'] release_role_frees[OF ok one sub that(1)]
    by (intro save_others_ok[OF ok'] one_role_each_update) (simp_all add: other_addresses_def)
  then show ?thesis
    unfolding assign_other_def Let_def release_role_def[symmetric]
    by (blast intro: op_bind_ok release_role_ok[OF ok one] zigbee_ok_bind_return)
qed

lemma assign_system_ok:
  assumes ok: "zigbee_ok m" and one: "one_role_each configs (other_addresses m)"
  shows "zigbee_ok (fst (assign_system d role configs (zi_ieee_address d \<in> set (other_addresses m)) m))"
proof -
  let ?ieee = "zi_ieee_address d" let ?b = "zi_ieee_address d \<in> set (other_addresses m)"
  let ?first = "forget_other ?b ?ieee"
  have "zigbee_ok (fst (apply_role_configs ((release_first ?ieee configs)[target := device_config_of d role]) m'))"
    if run: "?first m = (m', r)" and ok': "zigbee_ok m'" for m' r target
  proof -
    have others: "set (other_addresses m') = set (other_addresses m) - {?ieee}" "distinct (other_addresses m')"
      using current_other_delete(2)[OF ok run] zigbee_ok_devices[OF ok] zigbee_ok_devices[OF ok']
      by (auto simp: one_role_each_def)
    have c: "config_address (device_config_of d role) = None \<or> config_address (device_config_of d role) = Some ?ieee"
      by (simp add: config_address_def device_config_of_def)
    note rel = release_first_one_role[OF one, of ?ieee]
    then have "distinct (assigned_addresses (release_first ?ieee configs))" by (simp add: one_role_each_def)
    from assigned_addresses_update[OF c _ this, of target] rel others
    have "one_role_each ((release_first ?ieee configs)[target := device_config_of d role]) (other_addresses m')"
      by (auto simp: one_role_each_def)
    then show ?thesis by (rule apply_role_configs_fst_ok[OF ok'])
  qed
  then have "zigbee_ok (fst (op_bind ?first (\<lambda>_. op_bind (apply_role_configs
      ((release_first ?ieee configs)[target := device_config_of d role])) (\<lambda>_. op_return (role_reply d role))) m))" for target
    by (blast intro: op_bind_ok forget_other_ok[OF ok] zigbee_ok_bind_return)
  then show ?thesis
    unfolding assign_system_def Let_def forget_other_def[symmetric]
    using ok by (simp split: option.split)
qed

lemma assign_role_ok:
  assumes ok: "zigbee_ok m"
  shows "zigbee_ok (fst (assign_role cx env i role m))"
proof -
  let ?cs = "zc_devices (zg_config m)"
  have "zigbee_ok (fst (op_bind (bridge_request cx env suffix payload) (\<lambda>_.
      if r = MULTI_ROLE then assign_other d ?cs else assign_system d r ?cs (zi_ieee_address d \<in> set (other_addresses m))) m))"
    for suffix payload r d
  proof (rule op_bind_ok)
    show "zigbee_ok (fst (bridge_request cx env suffix payload m))" by (rule bridge_request_ok[OF ok])
    fix x m' assume run: "bridge_request cx env suffix payload m = (m', Inr x)"
    with bridge_request_settled[OF ok, of cx env suffix payload] have s: "settled m m'" by simp
    then have ok': "zigbee_ok m'" and others: "other_addresses m = other_addresses m'"
      and sub: "set (assigned_addresses (zc_devices (zg_config m'))) \<subseteq> set (assigned_addresses ?cs)"
      by (simp_all add: settled_def)
    have one: "one_role_each ?cs (other_addresses m')" using zigbee_ok_devices[OF ok] others by simp
    show "zigbee_ok (fst ((if r = MULTI_ROLE then assign_other d ?cs
        else assign_system d r ?cs (zi_ieee_address d \<in> set (other_addresses m))) m'))"
      unfolding others using assign_other_ok[OF ok' one sub] assign_system_ok[OF ok' one] by simp
  qed
  moreover have "zigbee_ok (fst (assign_none ieee ?cs b m))" for ieee b
    by (rule assign_none_ok[OF ok zigbee_ok_devices[OF ok]])
  ultimately show ?thesis
    unfolding assign_role_def other_addresses_def set_map
    by (intro op_bind_lift_ok[OF ok]) (simp add: Let_def ok split: option.split)
qed

subsection \<open>Every run\<close>

lemma zigbee_step_ok: "zigbee_step cx m m' \<Longrightarrow> zigbee_ok m \<Longrightarrow> zigbee_ok m'"
proof (induction rule: zigbee_step.induct)
  case (event m e)
  then show ?case using handle_event_settled by (simp add: settled_def)
next
  case (health_check m)
  then show ?case by (simp add: zigbee_ok_def view_health_check)
next
  case (pairing m ieee)
  then show ?case by (simp add: zigbee_ok_def view_acknowledge)
next
  case (close m now)
  then show ?case by (simp add: zigbee_ok_def view_close)
qed (simp_all add: permit_join_ok remove_device_ok rename_device_ok assign_role_ok)

lemma zigbee_steps_ok: "(zigbee_step cx)\<^sup>*\<^sup>* m m' \<Longrightarrow> zigbee_ok m \<Longrightarrow> zigbee_ok m'"
  by (induction rule: rtranclp_induct) (simp_all add: zigbee_step_ok)

subsection \<open>The start\<close>

lemma identities_fresh:
  "distinct (map dc_role configs) \<Longrightarrow> identities (dict_of dc_role (fresh_device base) configs) = config_identities base configs"
  by (simp add: dict_of_distinct identities_def config_identities_def fresh_device_def)

lemma new_monitor_view:
  assumes "new_zigbee_monitor config store loop_error = Inr m" and "check_zigbee_config config = Inr config"
  shows "\<exists>others base. role_view m = (config, config_identities base (zc_devices config),
      topics_of (config_identities base (zc_devices config)), availability_of (config_identities base (zc_devices config)),
      others, base) \<and> distinct others"
  using assms(1) check_zigbee_config_distinct[OF assms(2)]
  by (auto simp: new_zigbee_monitor_def rbind_eq_Inr Let_def view_publish_state role_view_def other_addresses_def
      topic_map_identities availability_map_identities identities_fresh distinct_dict_of publish_state_def set_state_def
      split: option.split_asm)

lemma new_monitor_ok:
  assumes "new_zigbee_monitor config store loop_error = Inr m" and "check_zigbee_config config = Inr config"
    and "distinct (assigned_addresses (zc_devices config))"
    and "set (assigned_addresses (zc_devices config)) \<inter> set (other_addresses m) = {}"
  shows "zigbee_ok m"
proof -
  obtain others base where v: "role_view m = (config, config_identities base (zc_devices config),
      topics_of (config_identities base (zc_devices config)), availability_of (config_identities base (zc_devices config)),
      others, base)" and d: "distinct others"
    using new_monitor_view[OF assms(1,2)] by blast
  then have "other_addresses m = others" by (simp add: role_view_def)
  with v d assms(2-4) show ?thesis by (simp add: zigbee_ok_def view_ok_def one_role_each_def)
qed

subsection \<open>What the invariant says\<close>

lemma assigned_addresses_unique:
  assumes "distinct (assigned_addresses cs)" and "c1 \<in> set cs" "c2 \<in> set cs"
    and "config_address c1 = Some a" "config_address c2 = Some a"
  shows "c1 = c2"
proof -
  have mem: "x \<in> set xs \<Longrightarrow> config_address x = Some b \<Longrightarrow> b \<in> set (assigned_addresses xs)" for x xs b
    by (induction xs) auto
  show ?thesis using assms by (induction cs) (auto split: option.split_asm dest: mem)
qed

lemma assigned_addresses_mem: "c \<in> set cs \<Longrightarrow> config_address c = Some a \<Longrightarrow> a \<in> set (assigned_addresses cs)"
  by (induction cs) auto

lemma zigbee_ok_table:
  assumes ok: "zigbee_ok m" and c: "c \<in> set (zc_devices (zg_config m))"
  shows "\<exists>d. map_of (zg_devices m) (dc_role c) = Some d \<and> zd_role d = dc_role c
    \<and> zd_friendly_name d = dc_friendly_name c \<and> zd_topic d = zm_base_topic (zg_state m) @ ''/'' @ dc_friendly_name c"
    and "map_of (zg_topic_to_role m) (zm_base_topic (zg_state m) @ ''/'' @ dc_friendly_name c) = Some (dc_role c)"
proof -
  let ?base = "zm_base_topic (zg_state m)" let ?cs = "zc_devices (zg_config m)"
  have ids: "identities (zg_devices m) = config_identities ?base ?cs"
    and topics: "zg_topic_to_role m = topics_of (config_identities ?base ?cs)"
    and check: "check_zigbee_config (zg_config m) = Inr (zg_config m)"
    using ok by (simp_all add: zigbee_ok_def view_ok_def role_view_def)
  have "map fst (zg_devices m) = map dc_role ?cs"
    using arg_cong[OF ids, of "map fst"] by (simp add: identities_def config_identities_def comp_def case_prod_beta)
  with check_zigbee_config_distinct[OF check] have dist: "distinct (map fst (zg_devices m))" by simp
  have "(dc_role c, dc_role c, dc_friendly_name c, ?base @ ''/'' @ dc_friendly_name c) \<in> set (identities (zg_devices m))"
    unfolding ids using c by (auto simp: config_identities_def)
  then obtain d where "(dc_role c, d) \<in> set (zg_devices m)" "zd_role d = dc_role c"
      "zd_friendly_name d = dc_friendly_name c" "zd_topic d = ?base @ ''/'' @ dc_friendly_name c"
    by (auto simp: identities_def)
  with dist show "\<exists>d. map_of (zg_devices m) (dc_role c) = Some d \<and> zd_role d = dc_role c
    \<and> zd_friendly_name d = dc_friendly_name c \<and> zd_topic d = ?base @ ''/'' @ dc_friendly_name c"
    by (auto intro: map_of_is_SomeI)
  have names: "distinct (map dc_friendly_name ?cs)"
    using check by (simp add: check_zigbee_config_def split: if_split_asm)
  have "zg_topic_to_role m = dict_of (\<lambda>c. ?base @ ''/'' @ dc_friendly_name c) dc_role ?cs"
    unfolding topics by (simp add: topics_of_def config_identities_def dict_of_map comp_def)
  then show "map_of (zg_topic_to_role m) (?base @ ''/'' @ dc_friendly_name c) = Some (dc_role c)"
    using map_of_dict_of_inj[of "\<lambda>c. ?base @ ''/'' @ dc_friendly_name c" ?cs c dc_role] names c
    by (simp add: inj_on_def distinct_map)
qed


text \<open>A run: the inventory arrives, the SUPPLY role is given to a device, and its answer comes while waiting.\<close>

definition demo_config :: zigbee_mqtt_config where
  "demo_config = \<lparr>zc_broker_host = ''h'', zc_broker_port = 1883, zc_base_topic = ''z'', zc_client_id = ''c'',
     zc_keepalive_seconds = 60, zc_reconnect_min_seconds = 1, zc_reconnect_max_seconds = 30,
     zc_request_timeout_seconds = Fin 5, zc_devices = map unassigned_config SYSTEM_ROLES\<rparr>"

definition demo_store :: role_file where
  "demo_store = \<lparr>rf_content = None, rf_faults = (\<lambda>_. None), rf_writes = 0\<rparr>"

definition demo_codec :: codec where
  "demo_codec = \<lparr>cx_parse = (\<lambda>s. if s = ''inventory''
       then Json (VList [VDict [(''ieee_address'', VStr ''0x1''), (''friendly_name'', VStr ''room'')]])
       else if s = ''reading'' then Json (VDict [(''temperature'', VFloat (Fin 21)), (''battery'', VInt 250), (''linkquality'', VInt 90)])
       else Json (VDict [(''status'', VStr ''ok''), (''transaction'', VStr ''t'')])), cx_str = (\<lambda>_. [])\<rparr>"

definition demo_env :: request_env where
  "demo_env = \<lparr>rq_transaction = ''t'', rq_publish_error = None,
     rq_events = [(''now'', Message ''z/bridge/response/device/options'' ''answer'')]\<rparr>"

definition demo_events :: "zigbee_monitor \<Rightarrow> zigbee_monitor" where
  "demo_events m = handle_event demo_codec (''now'', Message ''z/bridge/devices'' ''inventory'')
     (handle_event demo_codec (''now'', Connected None None) m)"

definition demo_assigned :: "zigbee_monitor \<Rightarrow> zigbee_monitor" where
  "demo_assigned m = fst (assign_role demo_codec demo_env ''room'' (Some ''supply'') (demo_events m))"

definition demo_start :: zigbee_monitor where
  "demo_start = projr (new_zigbee_monitor demo_config demo_store None)"

lemma rtranclp_trans3: "r a b \<Longrightarrow> r b c \<Longrightarrow> r c d \<Longrightarrow> r\<^sup>*\<^sup>* a d"
  by (rule rtranclp.rtrancl_into_rtrancl[of r a c, OF rtranclp.rtrancl_into_rtrancl[of r a b, OF r_into_rtranclp]])

lemma demo_assigned_steps: "(zigbee_step demo_codec)\<^sup>*\<^sup>* m (demo_assigned m)"
proof -
  let ?m1 = "handle_event demo_codec (''now'', Connected None None) m"
  have "zigbee_step demo_codec m ?m1" by (rule zigbee_step.event)
  moreover have "zigbee_step demo_codec ?m1 (demo_events m)" unfolding demo_events_def by (rule zigbee_step.event)
  moreover have "zigbee_step demo_codec (demo_events m) (demo_assigned m)"
    unfolding demo_assigned_def by (rule zigbee_step.assign)
  ultimately show ?thesis by (rule rtranclp_trans3)
qed

lemma demo_start_ok: "new_zigbee_monitor demo_config demo_store None = Inr demo_start"
proof -
  have "\<not> isl (new_zigbee_monitor demo_config demo_store None)" by code_simp
  then show ?thesis unfolding demo_start_def by (simp add: sum.collapse(2))
qed

lemma demo_config_ok: "check_zigbee_config demo_config = Inr demo_config"
  "assigned_addresses (zc_devices demo_config) = []"
  by code_simp+

definition demo_supply :: zigbee_device_config where
  "demo_supply = \<lparr>dc_role = ''supply'', dc_friendly_name = ''room'', dc_ieee_address = Some ''0x1''\<rparr>"

lemma demo_role: "demo_supply \<in> set (zc_devices (zg_config (demo_assigned demo_start)))" "is_assigned_config demo_supply"
  by code_simp+


end
