(* ===== verification/ZigbeeReadings.thy ===== *)
theory ZigbeeReadings
  imports ZigbeeInvariant
begin

section \<open>The readings that the Zigbee monitor reports\<close>

text \<open>
  Lemmas about \<open>ZigbeeMonitor\<close>: in every run the readings kept for the roles and for the sensor list are
  finite and within the range of their field, whatever the payloads held. Only payloads, an inventory and a
  change of roles touch the tables; everything else keeps them (\<open>table_simps\<close>).
\<close>

named_theorems table_simps "operations that keep both tables of the monitor"

subsection \<open>Readings within their range\<close>

definition percent_ok :: "py_float option \<Rightarrow> bool" where
  "percent_ok v = (\<forall>x. v = Some x \<longrightarrow> in_bounds (Fin 0) (Fin 100) x)"

definition finite_ok :: "py_float option \<Rightarrow> bool" where
  "finite_ok v = (\<forall>x. v = Some x \<longrightarrow> is_finite x)"

definition linkquality_ok :: "int option \<Rightarrow> bool" where
  "linkquality_ok v = (\<forall>n. v = Some n \<longrightarrow> 0 \<le> n \<and> n \<le> 255)"

definition device_readings_ok :: "zigbee_device_state \<Rightarrow> bool" where
  "device_readings_ok d = (finite_ok (zd_temperature_celsius d) \<and> percent_ok (zd_battery_percent d)
     \<and> linkquality_ok (zd_linkquality d))"

definition row_readings_ok :: "zigbee_sensor_list_item \<Rightarrow> bool" where
  "row_readings_ok r = (finite_ok (zl_temperature_celsius r) \<and> percent_ok (zl_humidity_percent r)
     \<and> percent_ok (zl_battery_percent r) \<and> finite_ok (zl_voltage_mv r)
     \<and> (\<forall>x. zl_voltage_mv r = Some x \<longrightarrow> fle (Fin 0) x) \<and> linkquality_ok (zl_linkquality r))"

definition readings_ok :: "zigbee_monitor \<Rightarrow> bool" where
  "readings_ok m = ((\<forall>x \<in> set (zg_devices m). device_readings_ok (snd x))
     \<and> (\<forall>x \<in> set (zg_sensor_list m). row_readings_ok (snd x)))"

lemmas reading_defs = percent_ok_def finite_ok_def linkquality_ok_def

lemma floor_in_bounds: "in_bounds (Fin 0) (Fin 255) x \<Longrightarrow> 0 \<le> float_floor x \<and> float_floor x \<le> 255"
  by (cases x) (simp_all add: in_bounds_def float_floor_def floor_le_iff)

lemma finite_number_finite: "finite_number v field = Inr x \<Longrightarrow> is_finite x"
  by (cases v) (auto simp: finite_number_def dest: sym[of "Fin _"] split: if_split_asm py_float.split_asm)

subsection \<open>A payload for a role\<close>

lemma merge_field_inv:
  assumes "merge_field field f payload d = Inr d'" and "P d" and "\<And>v. f v d = Inr d' \<Longrightarrow> P d'"
  shows "P d'"
  using assms by (auto simp: merge_field_def split: option.splits)

lemma merge_device_payload_readings:
  assumes "merge_device_payload d payload now = Inr d'" and ok: "device_readings_ok d"
  shows "device_readings_ok d'"
proof -
  let ?P = device_readings_ok
  from assms(1) obtain d1 d2 d3 where
    1: "merge_field ''temperature'' (\<lambda>v d. rbind (finite_number v ''temperature'') (\<lambda>x.
          Inr (d\<lparr>zd_temperature_celsius := Some x\<rparr>))) payload
        (d\<lparr>zd_last_message_at := Some now, zd_messages := zd_messages d + 1, zd_last_error := None\<rparr>) = Inr d1"
    and 2: "merge_field ''battery'' (\<lambda>v d. rbind (finite_number v ''battery'') (\<lambda>x.
          if in_bounds (Fin 0) (Fin 100) x then Inr (d\<lparr>zd_battery_percent := Some x\<rparr>)
          else Inl (ValueError ''battery must be in range 0..100''))) payload d1 = Inr d2"
    and 3: "merge_field ''linkquality'' (\<lambda>v d. rbind (finite_number v ''linkquality'') (\<lambda>x.
          if in_bounds (Fin 0) (Fin 255) x then Inr (d\<lparr>zd_linkquality := Some (float_floor x)\<rparr>)
          else Inl (ValueError ''linkquality must be in range 0..255''))) payload d2 = Inr d3"
    and 4: "merge_field ''last_seen'' (\<lambda>v d. case v of
         VNone \<Rightarrow> Inr (d\<lparr>zd_last_seen := None\<rparr>) | VStr s \<Rightarrow> Inr (d\<lparr>zd_last_seen := Some s\<rparr>)
       | _ \<Rightarrow> Inl (ValueError ''last_seen must be a string or null'')) payload d3 = Inr d'"
    unfolding merge_device_payload_def rbind_eq_Inr by blast
  have 5: "?P d1"
    by (rule merge_field_inv[OF 1]) (use ok in \<open>auto simp: device_readings_ok_def finite_ok_def rbind_eq_Inr dest: finite_number_finite\<close>)
  have 6: "?P d2"
    by (rule merge_field_inv[where P = device_readings_ok, OF 2 5])
      (use 5 in \<open>auto simp: device_readings_ok_def percent_ok_def rbind_eq_Inr split: if_split_asm\<close>)
  have 7: "?P d3"
    by (rule merge_field_inv[where P = device_readings_ok, OF 3 6])
      (use 6 in \<open>auto simp: device_readings_ok_def linkquality_ok_def rbind_eq_Inr floor_in_bounds split: if_split_asm\<close>)
  show ?thesis
    by (rule merge_field_inv[where P = device_readings_ok, OF 4 7])
      (use 7 in \<open>auto simp: device_readings_ok_def split: py_value.split_asm\<close>)
qed

subsection \<open>A payload for the sensor list\<close>

lemma opt_number_finite: "opt_number v = Some x \<Longrightarrow> \<not> number_overflows v \<Longrightarrow> is_finite x"
  by (cases v) (auto simp: opt_number_def number_overflows_def split: if_split_asm)

lemma row_number_inv:
  assumes "P r" and "\<And>x. is_finite x \<Longrightarrow> good x \<Longrightarrow> P (store x r)" and "\<not> number_overflows (vget payload field)"
  shows "P (fst (row_number field good store payload (r, errors)))"
  using assms opt_number_finite[of "vget payload field"]
  by (auto simp: row_number_def vget_def dict_get_def split: option.split)

lemma fst_row_last_seen: "row_readings_ok (fst z) \<Longrightarrow> row_readings_ok (fst (row_last_seen payload z))"
  by (cases z) (simp add: row_last_seen_def row_readings_ok_def split: option.split py_value.split)

lemma row_number_pair: "row_number field good store payload z = row_number field good store payload (fst z, snd z)"
  by simp

lemma merge_row_readings:
  assumes ok: "row_readings_ok r" and fits: "\<not> row_overflows payload"
  shows "row_readings_ok (merge_row payload now r)"
proof -
  let ?P = row_readings_ok
  let ?z0 = "(r\<lparr>zl_last_message_at := Some now, zl_messages := zl_messages r + 1, zl_last_error := None\<rparr>, [] :: string list)"
  define z1 where "z1 = row_number ''temperature'' (\<lambda>_. True) (\<lambda>x r. r\<lparr>zl_temperature_celsius := Some x\<rparr>) payload ?z0"
  define z2 where "z2 = row_number ''humidity'' (in_bounds (Fin 0) (Fin 100)) (\<lambda>x r. r\<lparr>zl_humidity_percent := Some x\<rparr>) payload z1"
  define z3 where "z3 = row_number ''battery'' (in_bounds (Fin 0) (Fin 100)) (\<lambda>x r. r\<lparr>zl_battery_percent := Some x\<rparr>) payload z2"
  define z4 where "z4 = row_number ''voltage'' (fle (Fin 0)) (\<lambda>x r. r\<lparr>zl_voltage_mv := Some x\<rparr>) payload z3"
  define z5 where "z5 = row_number ''linkquality'' (in_bounds (Fin 0) (Fin 255)) (\<lambda>x r. r\<lparr>zl_linkquality := Some (float_floor x)\<rparr>) payload z4"
  have over: "\<not> number_overflows (vget payload f)"
    if "f \<in> set [''temperature'', ''humidity'', ''battery'', ''voltage'', ''linkquality'']" for f
    using fits that unfolding row_overflows_def by blast
  have 1: "?P (fst z1)" unfolding z1_def
    by (rule row_number_inv) (use ok over in \<open>auto simp: row_readings_ok_def finite_ok_def\<close>)
  have 2: "?P (fst z2)" unfolding z2_def row_number_pair[of _ _ _ _ z1]
    by (rule row_number_inv) (use 1 over in \<open>auto simp: row_readings_ok_def percent_ok_def\<close>)
  have 3: "?P (fst z3)" unfolding z3_def row_number_pair[of _ _ _ _ z2]
    by (rule row_number_inv) (use 2 over in \<open>auto simp: row_readings_ok_def percent_ok_def\<close>)
  have 4: "?P (fst z4)" unfolding z4_def row_number_pair[of _ _ _ _ z3]
    by (rule row_number_inv) (use 3 over in \<open>auto simp: row_readings_ok_def finite_ok_def\<close>)
  have 5: "?P (fst z5)" unfolding z5_def row_number_pair[of _ _ _ _ z4]
    by (rule row_number_inv) (use 4 over in \<open>auto simp: row_readings_ok_def linkquality_ok_def floor_in_bounds\<close>)
  obtain r' errors where z: "row_last_seen payload z5 = (r', errors)" by fastforce
  with fst_row_last_seen[OF 5, of payload] have "?P r'" by simp
  then show ?thesis
    by (simp add: merge_row_def z1_def[symmetric] z2_def[symmetric] z3_def[symmetric] z4_def[symmetric] z5_def[symmetric] z)
      (simp add: row_error_def row_readings_ok_def)
qed

subsection \<open>What keeps the tables\<close>

definition tables :: "zigbee_monitor \<Rightarrow> (string \<times> zigbee_device_state) list \<times> (string \<times> zigbee_sensor_list_item) list" where
  "tables m = (zg_devices m, zg_sensor_list m)"

lemma readings_ok_tables: "tables m' = tables m \<Longrightarrow> readings_ok m \<Longrightarrow> readings_ok m'"
  by (simp add: tables_def readings_ok_def)

lemma tables_updates [table_simps]:
  "tables (call_client cs m) = tables m" "tables (set_state f m) = tables m" "tables (publish_state f m) = tables m"
  "tables (set_connection_error e m) = tables m" "tables (fst (on_store g m)) = tables m"
  "tables (m\<lparr>zg_other_roles := others\<rparr>) = tables m" "tables (m\<lparr>zg_pending := ts\<rparr>) = tables m"
  "tables (m\<lparr>zg_answers := as\<rparr>) = tables m" "tables (m\<lparr>zg_closed := b\<rparr>) = tables m"
  by (simp_all add: tables_def call_client_def set_state_def publish_state_def set_connection_error_def on_store_def
      split: prod.split)

lemma tables_bridge_response [table_simps]: "tables (handle_bridge_response cx v m) = tables m"
  by (simp add: handle_bridge_response_def Let_def tables_def split: py_value.split)

lemma tables_bridge_info: "handle_bridge_info v m = Inr m' \<Longrightarrow> tables m' = tables m"
  by (auto simp: handle_bridge_info_def case_table_Inr table_simps split: if_split_asm)

lemma tables_bridge_state: "handle_bridge_state v m = Inr m' \<Longrightarrow> tables m' = tables m"
  by (auto simp: handle_bridge_state_def case_table_Inr table_simps split: if_split_asm)

lemma tables_base_bridge_message [table_simps]: "tables (base_bridge_message cx now topic payload m) = tables m"
proof (cases "json_load (cx_parse cx payload)")
  case (Inr v)
  have "tables m' = tables m"
    if "(case v of VDict d \<Rightarrow> Inr (set_state (\<lambda>s. s\<lparr>zm_last_event := Some d, zm_last_error := None\<rparr>) m)
         | _ \<Rightarrow> Inl (ValueError ''bridge/event payload must be a JSON object'')) = Inr m'" for m'
    using that by (auto simp: case_table_Inr table_simps)
  moreover have "tables m' = tables m"
    if "rbind (parse_bridge_devices v) (\<lambda>inventory. Inr (set_state (\<lambda>s. s\<lparr>zm_inventory := inventory,
          zm_inventory_updated_at := Some now, zm_last_error := None\<rparr>) m)) = Inr m'" for m'
    using that by (auto simp: rbind_eq_Inr table_simps)
  ultimately show ?thesis
    by (simp add: base_bridge_message_def Let_def Inr table_simps tables_bridge_info tables_bridge_state split: sum.split)
qed (simp add: base_bridge_message_def Let_def table_simps)

lemma tables_pairing_event [table_simps]: "tables (fst (handle_pairing_event cx now payload m)) = tables m"
  by (simp add: handle_pairing_event_def store_pairing_def Let_def table_simps
      split: json_result.split py_value.split option.split)

lemma tables_acknowledge [table_simps]: "tables (fst (acknowledge_pairing ieee m)) = tables m"
  by (simp add: acknowledge_pairing_def Let_def table_simps split: option.split)

lemma tables_on_connect [table_simps]: "tables (on_connect now reason err m) = tables m"
  by (simp add: on_connect_def base_connected_def Let_def table_simps split: option.split)

lemma tables_fail_pending [table_simps]: "tables (fail_pending e m) = tables m"
  by (simp add: fail_pending_def tables_def)

lemma tables_on_disconnect [table_simps]: "tables (on_disconnect now reason m) = tables m"
  by (simp add: on_disconnect_def Let_def table_simps)

lemma tables_close [table_simps]: "tables (fst (zigbee_close now m)) = tables m"
  by (simp add: zigbee_close_def table_simps)

lemma tables_health_check [table_simps]: "tables (zigbee_health_check m) = tables m"
  by (simp add: zigbee_health_check_def table_simps)

lemma tables_save_other_roles [table_simps]: "tables (fst (save_other_roles m)) = tables m"
  by (simp add: save_other_roles_def table_simps)

lemma tables_drop_other_role [table_simps]: "tables (fst (drop_other_role ieee m)) = tables m"
  by (simp add: drop_other_role_def table_simps)

lemma tables_rename_other_role [table_simps]: "tables (fst (rename_other_role ieee name m)) = tables m"
  by (simp add: rename_other_role_def table_simps)

subsection \<open>What changes them\<close>

lemma set_update_subset: "set (AList.update k v xs) \<subseteq> insert (k, v) (set xs)"
  by (induction xs) auto

lemma dict_of_values: "x \<in> set (dict_of f g xs) \<Longrightarrow> snd x \<in> g ` set xs"
proof (induction xs rule: rev_induct)
  case (snoc y ys)
  then show ?case using set_update_subset[of "f y" "g y" "dict_of f g ys"] by auto
qed simp

lemma readings_ok_update_device:
  assumes "readings_ok m" and "\<And>d. map_of (zg_devices m) role = Some d \<Longrightarrow> device_readings_ok d \<Longrightarrow> device_readings_ok (f d)"
  shows "readings_ok (update_device role f m)"
  using assms set_update_subset[of role _ "zg_devices m"]
  by (fastforce simp: update_device_def readings_ok_def split: option.split dest: map_of_SomeD)

lemma readings_ok_update_row:
  assumes "readings_ok m" and "\<And>r. row_readings_ok r \<Longrightarrow> row_readings_ok (f r)"
  shows "readings_ok (update_row ieee f m)"
  using assms set_update_subset[of ieee _ "zg_sensor_list m"]
  by (fastforce simp: update_row_def readings_ok_def split: option.split dest: map_of_SomeD)

lemma readings_ok_publish:
  "readings_ok m \<Longrightarrow> readings_ok (publish_state f m)" "readings_ok m \<Longrightarrow> readings_ok (set_state f m)"
  using tables_updates by (blast intro: readings_ok_tables)+

lemma readings_ok_availability: "readings_ok m \<Longrightarrow> readings_ok (handle_availability cx role payload m)"
  by (auto simp: handle_availability_def device_readings_ok_def intro!: readings_ok_publish readings_ok_update_device
      split: sum.split)

lemma device_payload_readings:
  "device_payload cx payload d now = Inr d' \<Longrightarrow> device_readings_ok d \<Longrightarrow> device_readings_ok d'"
  by (auto simp: device_payload_def rbind_eq_Inr case_table_Inr merge_device_payload_readings)

lemma readings_ok_device_payload:
  assumes ok: "readings_ok m"
  shows "readings_ok (handle_device_payload cx now role payload m)"
proof (cases "map_of (zg_devices m) role")
  case (Some d)
  show ?thesis
  proof (cases "device_payload cx payload d now")
    case (Inl e)
    have "readings_ok (update_device role (\<lambda>d. d\<lparr>zd_parse_errors := zd_parse_errors d + 1, zd_last_error := err\<rparr>) m)" for err
      by (rule readings_ok_update_device[OF ok]) (simp add: device_readings_ok_def)
    then show ?thesis by (simp add: handle_device_payload_def Some Inl readings_ok_publish)
  next
    case (Inr d')
    have "readings_ok (update_device role (\<lambda>_. d') m)"
      by (rule readings_ok_update_device[OF ok]) (use Some device_payload_readings[OF Inr] in auto)
    then show ?thesis by (simp add: handle_device_payload_def Some Inr readings_ok_publish)
  qed
qed (simp add: handle_device_payload_def ok)

lemma row_error_readings: "row_readings_ok r \<Longrightarrow> row_readings_ok (row_error e r)"
  by (simp add: row_error_def row_readings_ok_def)

lemma readings_ok_generic_payload: "readings_ok m \<Longrightarrow> readings_ok (fst (handle_generic_payload cx now ieee payload m))"
  by (auto simp: handle_generic_payload_def intro!: readings_ok_publish readings_ok_update_row row_error_readings
      merge_row_readings split: sum.split)

lemma readings_ok_generic_availability: "readings_ok m \<Longrightarrow> readings_ok (handle_generic_availability cx ieee payload m)"
  by (auto simp: handle_generic_availability_def intro!: readings_ok_update_row row_error_readings split: sum.split)
    (simp add: row_readings_ok_def)

lemma inventory_row_readings: "readings_ok m \<Longrightarrow> row_readings_ok (inventory_row m d)"
  by (auto simp: inventory_row_def Let_def fresh_row_def row_readings_ok_def readings_ok_def reading_defs
      split: option.split dest!: map_of_SomeD)

lemma fresh_device_readings: "device_readings_ok (fresh_device base c)"
  by (simp add: fresh_device_def device_readings_ok_def reading_defs)

lemma carried_device_readings: "readings_ok m \<Longrightarrow> device_readings_ok (carried_device m c)"
  using fresh_device_readings[of "zm_base_topic (zg_state m)" c]
  by (auto simp: carried_device_def Let_def readings_ok_def device_readings_ok_def
      split: option.split dest!: map_of_dict_of_Some)

lemma readings_ok_inventory: "readings_ok m \<Longrightarrow> readings_ok (handle_capability_inventory cx now payload m)"
proof (cases "rbind (json_load (cx_parse cx payload)) (parse_bridge_devices_with_capabilities (cx_str cx))")
  case (Inr inventory)
  assume ok: "readings_ok m"
  let ?ds = "filter (\<lambda>d. \<not> is_coordinator d) inventory"
  have rows: "row_readings_ok (snd x)" if "x \<in> set (dict_of zi_ieee_address (inventory_row m) ?ds)" for x
    using dict_of_values[OF that] inventory_row_readings[OF ok] by auto
  have "tables (handle_capability_inventory cx now payload m) = (zg_devices m, dict_of zi_ieee_address (inventory_row m) ?ds)"
    by (simp add: handle_capability_inventory_def Inr Let_def table_simps) (simp add: tables_def)
  with ok rows show ?thesis by (simp add: readings_ok_def tables_def)
qed (simp add: handle_capability_inventory_def)

lemma readings_ok_on_store: "readings_ok m \<Longrightarrow> readings_ok (fst (on_store g m))"
  by (rule readings_ok_tables[OF tables_updates(5)])

lemma op_bind_readings:
  assumes "readings_ok (fst (f m))" and "\<And>x m'. readings_ok m' \<Longrightarrow> readings_ok (fst (g x m'))"
  shows "readings_ok (fst (op_bind f g m))"
  using assms by (cases "f m"; cases "snd (f m)") (auto simp: op_bind_def)

lemma readings_ok_apply: "readings_ok m \<Longrightarrow> readings_ok (fst (apply_role_configs configs m))"
proof (cases "check_zigbee_config ((zg_config m)\<lparr>zc_devices := configs\<rparr>)")
  case (Inr config)
  assume ok: "readings_ok m"
  let ?d = "dict_of dc_role (carried_device m) configs"
  define m1 where "m1 = publish_state id (m\<lparr>zg_config := config, zg_devices := ?d,
      zg_topic_to_role := topic_map ?d, zg_availability_to_role := availability_map ?d\<rparr>)"
  have "tables m1 = (?d, zg_sensor_list m)" by (simp add: m1_def publish_state_def set_state_def tables_def)
  moreover have "device_readings_ok (snd x)" if "x \<in> set ?d" for x
    using dict_of_values[OF that] carried_device_readings[OF ok] by auto
  ultimately have m1: "readings_ok m1" using ok by (simp add: readings_ok_def tables_def)
  show ?thesis
    unfolding apply_role_configs_def Inr sum.case Let_def m1_def[symmetric]
  proof (rule op_bind_readings)
    show "readings_ok (fst (on_store (save_configs configs) m1))" by (rule readings_ok_on_store[OF m1])
  qed (auto intro: readings_ok_tables simp: table_simps)
qed (simp add: apply_role_configs_def)

subsection \<open>Every run\<close>

lemma readings_ok_bridge_message: "readings_ok m \<Longrightarrow> readings_ok (fst (bridge_message cx now topic payload m))"
proof -
  assume ok: "readings_ok m"
  define m1 where "m1 = base_bridge_message cx now topic payload m"
  have m1: "readings_ok m1" unfolding m1_def by (rule readings_ok_tables[OF tables_base_bridge_message ok])
  have sync: "readings_ok (fst (sync_assigned_names x))" if "readings_ok x" for x
  proof -
    have others: "readings_ok (fst (let others = map (renamed_other y) (zg_other_roles y)
       in if others = zg_other_roles y then (y, Inr ()) else save_other_roles (y\<lparr>zg_other_roles := others\<rparr>)))"
      if "readings_ok y" for y
      using that by (auto simp: Let_def intro: readings_ok_tables simp: table_simps)
    have change: "readings_ok (fst ((if cs = zc_devices (zg_config y) then op_return () else apply_role_configs cs) x))" for cs y
      using that by (simp add: readings_ok_apply)
    show ?thesis
    proof (cases "renamed_configs x")
      case (Inl e)
      with that show ?thesis by (simp add: sync_assigned_names_def op_bind_def)
    next
      case (Inr cs)
      have "sync_assigned_names x = op_bind (if cs = zc_devices (zg_config x) then op_return () else apply_role_configs cs)
        (\<lambda>_ y. let others = map (renamed_other y) (zg_other_roles y)
         in if others = zg_other_roles y then (y, Inr ()) else save_other_roles (y\<lparr>zg_other_roles := others\<rparr>)) x"
        unfolding sync_assigned_names_def Inr by (simp add: op_bind_def)
      moreover have "readings_ok (fst (op_bind (if cs = zc_devices (zg_config x) then op_return () else apply_role_configs cs)
        (\<lambda>_ y. let others = map (renamed_other y) (zg_other_roles y)
         in if others = zg_other_roles y then (y, Inr ()) else save_other_roles (y\<lparr>zg_other_roles := others\<rparr>)) x))"
      proof (rule op_bind_readings)
        show "readings_ok (fst ((if cs = zc_devices (zg_config x) then op_return () else apply_role_configs cs) x))" by (rule change)
      qed (rule others)
      ultimately show ?thesis by simp
    qed
  qed
  have "readings_ok (fst (op_bind sync_assigned_names (\<lambda>_ m2. (handle_capability_inventory cx now payload m2, Inr ())) m1))"
  proof (rule op_bind_readings)
    show "readings_ok (fst (sync_assigned_names m1))" by (rule sync[OF m1])
  qed (simp add: readings_ok_inventory)
  with m1 show ?thesis
    unfolding bridge_message_def Let_def m1_def[symmetric]
    using readings_ok_tables[OF tables_pairing_event m1] by simp
qed

lemma readings_ok_on_message: "readings_ok m \<Longrightarrow> readings_ok (fst (on_message cx now topic payload m))"
  unfolding on_message_def
  by (rule op_bind_readings)
    (simp_all add: Let_def readings_ok_generic_availability readings_ok_generic_payload readings_ok_bridge_message
      readings_ok_availability readings_ok_device_payload split: option.split)

lemma readings_ok_event: "readings_ok m \<Longrightarrow> readings_ok (handle_event cx x m)"
  by (auto simp: handle_event_def readings_ok_on_message intro: readings_ok_tables simp: table_simps
      split: prod.split mqtt_event.split)

lemma readings_ok_events: "readings_ok m \<Longrightarrow> readings_ok (fold (handle_event cx) es m)"
  by (induction es arbitrary: m) (simp_all add: readings_ok_event)

lemma readings_ok_request:
  assumes ok: "readings_ok m"
  shows "readings_ok (fst (bridge_request cx env suffix payload m))"
proof -
  define m1 where "m1 = call_client [Publish (zm_base_topic (zg_state m) @ ''/bridge/request/'' @ suffix)
      (VDict (AList.update ''transaction'' (VStr (rq_transaction env)) payload))]
      (m\<lparr>zg_pending := zg_pending m @ [rq_transaction env]\<rparr>)"
  have "tables m1 = tables m" by (simp add: m1_def table_simps)
  then have m1: "readings_ok m1" using ok by (rule readings_ok_tables)
  note m2 = readings_ok_events[OF m1, of cx "rq_events env"]
  have forget: "readings_ok (x\<lparr>zg_pending := ts, zg_answers := as\<rparr>)" if "readings_ok x" for x ts as
    using that by (simp add: readings_ok_def)
  show ?thesis
    unfolding bridge_request_def Let_def m1_def[symmetric]
    using ok forget[OF m1] forget[OF m2] by (simp split: option.split)
qed

lemma op_bind_lift_readings:
  "readings_ok m \<Longrightarrow> (\<And>x. readings_ok (fst (g x m))) \<Longrightarrow> readings_ok (fst (op_bind (op_lift r) g m))"
  by (cases r) (simp_all add: op_bind_def)

lemma readings_ok_others: "readings_ok m \<Longrightarrow> readings_ok (m\<lparr>zg_other_roles := others\<rparr>)"
  by (simp add: readings_ok_def)

lemma readings_ok_save_others: "readings_ok m \<Longrightarrow> readings_ok (fst (save_other_roles m))"
  by (rule readings_ok_tables[OF tables_save_other_roles])

lemma readings_ok_apply_where: "readings_ok m \<Longrightarrow> readings_ok (fst (apply_where ieee f configs m))"
  by (simp add: apply_where_def readings_ok_apply)

lemmas readings_ok_commands = readings_ok_request readings_ok_apply readings_ok_save_others readings_ok_others
  readings_ok_apply_where readings_ok_tables[OF tables_drop_other_role] readings_ok_tables[OF tables_rename_other_role]

lemma readings_ok_permit: "readings_ok m \<Longrightarrow> readings_ok (fst (permit_join cx env v m))"
  by (simp add: permit_join_def readings_ok_commands split: py_value.split)

lemma readings_ok_remove: "readings_ok m \<Longrightarrow> readings_ok (fst (remove_device cx env i m))"
  unfolding remove_device_def
  by (intro op_bind_lift_readings op_bind_readings) (simp_all add: base_remove_device_def Let_def readings_ok_commands)

lemma readings_ok_rename:
  assumes ok: "readings_ok m"
  shows "readings_ok (fst (rename_device cx env i name m))"
proof -
  have "readings_ok (fst (op_bind (bridge_request cx env suffix payload) (\<lambda>response.
         op_bind (\<lambda>m. apply_where ieee f (zc_devices (zg_config m)) m) (\<lambda>_.
         op_bind (rename_other_role ieee new) (\<lambda>_. op_return response))) m))" for suffix payload ieee f new
    by (intro op_bind_readings) (simp_all add: ok readings_ok_commands)
  with ok show ?thesis unfolding rename_device_def
    by (intro op_bind_lift_readings ok) (auto intro!: op_bind_lift_readings)
qed

lemma readings_ok_assign:
  assumes ok: "readings_ok m"
  shows "readings_ok (fst (assign_role cx env i role m))"
proof -
  have none: "readings_ok (fst (assign_none ieee cs b x))" if "readings_ok x" for ieee cs b x
    unfolding assign_none_def by (intro op_bind_readings) (simp_all add: that readings_ok_commands)
  have other: "readings_ok (fst (assign_other d cs x))" if "readings_ok x" for d cs x
    unfolding assign_other_def Let_def by (intro op_bind_readings) (simp_all add: that readings_ok_commands)
  have system: "readings_ok (fst (assign_system d r cs b x))" if "readings_ok x" for d r cs b x
  proof -
    have "readings_ok (fst (op_bind (if b then (\<lambda>m. save_other_roles (m\<lparr>zg_other_roles := AList.delete ieee (zg_other_roles m)\<rparr>))
        else op_return ()) (\<lambda>_. op_bind (apply_role_configs cs') (\<lambda>_. op_return y)) x))"
      for ieee cs' and y :: "(string \<times> py_value) list"
      by (intro op_bind_readings) (simp_all add: that readings_ok_commands)
    then show ?thesis using that unfolding assign_system_def Let_def by (cases b) (simp_all split: option.split)
  qed
  have "readings_ok (fst (op_bind (bridge_request cx env suffix payload) (\<lambda>_.
      if r = MULTI_ROLE then assign_other d cs else assign_system d r cs b) m))" for suffix payload r d cs b
    by (intro op_bind_readings) (simp_all add: ok readings_ok_commands other system)
  then show ?thesis unfolding assign_role_def
    by (intro op_bind_lift_readings ok) (simp add: Let_def none ok split: option.split)
qed

lemma zigbee_step_readings: "zigbee_step cx m m' \<Longrightarrow> readings_ok m \<Longrightarrow> readings_ok m'"
proof (induction rule: zigbee_step.induct)
  case (health_check m)
  show ?case by (rule readings_ok_tables[OF tables_health_check health_check])
next
  case (pairing m ieee)
  show ?case by (rule readings_ok_tables[OF tables_acknowledge pairing])
next
  case (close m now)
  show ?case by (rule readings_ok_tables[OF tables_close close])
qed (simp_all add: readings_ok_event readings_ok_permit readings_ok_remove readings_ok_rename readings_ok_assign)

lemma zigbee_steps_readings: "(zigbee_step cx)\<^sup>*\<^sup>* m m' \<Longrightarrow> readings_ok m \<Longrightarrow> readings_ok m'"
  by (induction rule: rtranclp_induct) (simp_all add: zigbee_step_readings)

subsection \<open>What is reported\<close>

lemma new_monitor_readings: "new_zigbee_monitor config store loop_error = Inr m \<Longrightarrow> readings_ok m"
proof -
  assume "new_zigbee_monitor config store loop_error = Inr m"
  then have t: "tables m = (dict_of dc_role (fresh_device (strip_chars {CHR ''/''} (zc_base_topic config))) (zc_devices config), [])"
    by (auto simp: new_zigbee_monitor_def rbind_eq_Inr Let_def table_simps split: option.split_asm) (simp_all add: tables_def)
  have "device_readings_ok (snd x)" if "x \<in> set (dict_of dc_role (fresh_device base) (zc_devices config))" for x base
    using dict_of_values[OF that] fresh_device_readings by auto
  with t show ?thesis by (simp add: tables_def readings_ok_def)
qed

lemma read_state_devices: "d \<in> set (zm_devices (zigbee_read_state m)) \<Longrightarrow> d \<in> snd ` set (zg_devices m)"
  by (force simp: zigbee_read_state_def Let_def ordered_devices_def List.map_filter_def dest: map_of_SomeD)

lemma read_state_rows:
  "r \<in> set (zm_sensor_list (zigbee_read_state m)) \<Longrightarrow> \<exists>x \<in> set (zg_sensor_list m). \<exists>role. r = (snd x)\<lparr>zl_role := role\<rparr>"
  by (auto simp: zigbee_read_state_def Let_def)

text \<open>C25: Whatever payloads arrive, the readings reported are valid. In every run of the monitor, with every
  payload, NaN, infinities, booleans, texts, huge integers and malformed JSON included, the state reported holds for
  every role a finite temperature, a battery level in 0..100 and a link quality in 0..255, each when known,
  and for every row of the sensor list also a humidity in 0..100 and a finite voltage that is not negative.\<close>

theorem zigbee_readings_valid:
  assumes "new_zigbee_monitor config store None = Inr m0" and "(zigbee_step cx)\<^sup>*\<^sup>* m0 m"
  shows "(\<forall>d \<in> set (zm_devices (zigbee_read_state m)).
       (\<forall>x. zd_temperature_celsius d = Some x \<longrightarrow> is_finite x)
     \<and> (\<forall>x. zd_battery_percent d = Some x \<longrightarrow> fle (Fin 0) x \<and> fle x (Fin 100))
     \<and> (\<forall>n. zd_linkquality d = Some n \<longrightarrow> 0 \<le> n \<and> n \<le> 255))
   \<and> (\<forall>r \<in> set (zm_sensor_list (zigbee_read_state m)).
       (\<forall>x. zl_temperature_celsius r = Some x \<longrightarrow> is_finite x)
     \<and> (\<forall>x. zl_humidity_percent r = Some x \<longrightarrow> fle (Fin 0) x \<and> fle x (Fin 100))
     \<and> (\<forall>x. zl_battery_percent r = Some x \<longrightarrow> fle (Fin 0) x \<and> fle x (Fin 100))
     \<and> (\<forall>x. zl_voltage_mv r = Some x \<longrightarrow> is_finite x \<and> fle (Fin 0) x)
     \<and> (\<forall>n. zl_linkquality r = Some n \<longrightarrow> 0 \<le> n \<and> n \<le> 255))"
proof -
  have ok: "readings_ok m" by (rule zigbee_steps_readings[OF assms(2) new_monitor_readings[OF assms(1)]])
  have "device_readings_ok d" if "d \<in> set (zm_devices (zigbee_read_state m))" for d
    using read_state_devices[OF that] ok by (auto simp: readings_ok_def)
  moreover have "row_readings_ok r" if "r \<in> set (zm_sensor_list (zigbee_read_state m))" for r
    using read_state_rows[OF that] ok by (auto simp: readings_ok_def row_readings_ok_def)
  ultimately show ?thesis
    unfolding device_readings_ok_def row_readings_ok_def percent_ok_def finite_ok_def linkquality_ok_def in_bounds_def
    by simp
qed

text \<open>The payload for the SUPPLY device has a good temperature and a battery level of 250: nothing of it is
  taken over for the role, while the row of the sensor list takes the temperature.\<close>

definition demo_reading :: zigbee_monitor where
  "demo_reading = handle_event demo_codec (''now'', Message ''z/room'' ''reading'') (demo_assigned demo_start)"

lemma demo_reading_steps: "(zigbee_step demo_codec)\<^sup>*\<^sup>* demo_start demo_reading"
  unfolding demo_reading_def using demo_assigned_steps by (rule rtranclp.rtrancl_into_rtrancl) (rule zigbee_step.event)

lemma demo_reading_tables:
  "map (\<lambda>x. (zd_temperature_celsius (snd x), zd_battery_percent (snd x), zd_parse_errors (snd x))) (zg_devices demo_reading)
     = [(None, None, 1), (None, None, 0)]"
  "map (\<lambda>x. (zl_temperature_celsius (snd x), zl_battery_percent (snd x), zl_parse_errors (snd x))) (zg_sensor_list demo_reading)
     = [(Some (Fin 21), None, 1)]"
  by code_simp+

theorem zigbee_readings_valid_witness:
  "map (\<lambda>x. zl_temperature_celsius (snd x)) (zg_sensor_list demo_reading) = [Some (Fin 21)]
   \<and> list_all (\<lambda>r. finite_ok (zl_temperature_celsius r)) (zm_sensor_list (zigbee_read_state demo_reading))"
  using zigbee_readings_valid[OF demo_start_ok demo_reading_steps] demo_reading_tables(2)
  by (auto simp: list_all_iff finite_ok_def)

end
