(* ===== verification/ZigbeeRegistry.thy ===== *)
theory ZigbeeRegistry
  imports ZigbeeRoles
begin

section \<open>The registry of roles as an abstract pair\<close>

text \<open>
  Lemmas about \<open>ZigbeeRoles\<close>: the file stands for the pair of the system roles and the devices with the role
  OTHER. Saving one part replaces that part and keeps the other, a failed write keeps both, and what was
  saved is what the next start loads.
\<close>

subsection \<open>Stripped texts\<close>

lemma py_strip_fixed: "s = [] \<or> \<not> is_space_char (hd s) \<and> \<not> is_space_char (last s) \<Longrightarrow> py_strip s = s"
proof -
  assume "s = [] \<or> \<not> is_space_char (hd s) \<and> \<not> is_space_char (last s)"
  then have "dropWhile is_space_char s = s" and "dropWhile is_space_char (rev s) = rev s"
    by (cases s; simp) (use \<open>_ \<or> _\<close> in \<open>cases s rule: rev_cases; simp\<close>)
  then show ?thesis by (simp add: py_strip_def)
qed

lemma py_strip_ends:
  assumes "py_strip s \<noteq> []"
  shows "\<not> is_space_char (hd (py_strip s))" and "\<not> is_space_char (last (py_strip s))"
proof -
  let ?P = is_space_char let ?t = "dropWhile ?P s"
  have split: "?t = py_strip s @ rev (takeWhile ?P (rev ?t))"
    unfolding py_strip_def by (metis rev_append rev_rev_ident takeWhile_dropWhile_id)
  then have "hd (py_strip s) = hd ?t" using assms by (metis hd_append2)
  moreover have "?t \<noteq> []"
  proof
    assume "?t = []"
    then have "py_strip s = []" unfolding py_strip_def by (simp only: rev.simps dropWhile.simps)
    with assms show False ..
  qed
  ultimately show "\<not> ?P (hd (py_strip s))" by (simp add: hd_dropWhile)
  have "last (py_strip s) = hd (dropWhile ?P (rev ?t))" using assms by (simp add: py_strip_def last_rev)
  then show "\<not> ?P (last (py_strip s))" using assms hd_dropWhile[of ?P "rev ?t"] by (simp add: py_strip_def)
qed

lemma py_strip_idem [simp]: "py_strip (py_strip s) = py_strip s"
  using py_strip_ends[of s] by (intro py_strip_fixed) blast

definition clean_text :: "string \<Rightarrow> bool" where
  "clean_text s = (s \<noteq> [] \<and> py_strip s = s)"

lemma stripped_text_Inr: "stripped_text m v = Inr t \<Longrightarrow> clean_text t"
  by (cases v) (auto simp: stripped_text_def clean_text_def split: if_split_asm)

lemma stripped_text_clean: "clean_text s \<Longrightarrow> stripped_text m (VStr s) = Inr s"
  by (simp add: stripped_text_def clean_text_def)

subsection \<open>What can be stored\<close>

definition clean_config :: "zigbee_device_config \<Rightarrow> string \<Rightarrow> bool" where
  "clean_config c role = (c = unassigned_config role \<or> dc_role c = role \<and> clean_text (dc_friendly_name c)
     \<and> (case dc_ieee_address c of None \<Rightarrow> False | Some a \<Rightarrow> clean_text a))"

definition clean_configs :: "zigbee_device_config list \<Rightarrow> bool" where
  "clean_configs cs = list_all2 clean_config cs SYSTEM_ROLES"

definition clean_other :: "role_record \<Rightarrow> bool" where
  "clean_other r = (rr_role r = MULTI_ROLE
     \<and> (case rr_ieee_address r of None \<Rightarrow> False | Some a \<Rightarrow> clean_text a)
     \<and> (case rr_friendly_name r of None \<Rightarrow> False | Some a \<Rightarrow> clean_text a))"

text \<open>The first record of each address.\<close>

fun once :: "string set \<Rightarrow> role_record list \<Rightarrow> role_record list" where
  "once seen [] = []"
| "once seen (r # rs) = (let a = str_or (rr_ieee_address r) [] in
     if a \<in> seen then once seen rs else r # once (insert a seen) rs)"

text \<open>The pair the file stands for.\<close>

definition registry :: "role_file \<Rightarrow> (zigbee_device_config list \<times> role_record list) option" where
  "registry f = (case load_bundle f of Inl _ \<Rightarrow> None | Inr (records, others) \<Rightarrow> Some (to_runtime_configs records, others))"

lemma clean_other_address: "clean_other r \<Longrightarrow> rr_ieee_address r = Some (str_or (rr_ieee_address r) [])"
  by (cases "rr_ieee_address r") (auto simp: clean_other_def clean_text_def)

lemma once_distinct: "distinct (map rr_ieee_address rs) \<Longrightarrow> (\<forall>r \<in> set rs. clean_other r) \<Longrightarrow>
    (\<forall>r \<in> set rs. str_or (rr_ieee_address r) [] \<notin> seen) \<Longrightarrow> once seen rs = rs"
proof (induction rs arbitrary: seen)
  case (Cons r rs)
  have "str_or (rr_ieee_address x) [] \<noteq> str_or (rr_ieee_address r) []" if "x \<in> set rs" for x
  proof -
    from Cons.prems(1) have "rr_ieee_address r \<notin> rr_ieee_address ` set rs" by simp
    with that have "rr_ieee_address x \<noteq> rr_ieee_address r" by (metis image_eqI)
    with clean_other_address[of x] clean_other_address[of r] Cons.prems(2) that show ?thesis by (metis list.set_intros)
  qed
  with Cons show ?case by (simp add: Let_def)
qed simp

lemma load_other_payload:
  "\<forall>r \<in> set rs. clean_other r \<Longrightarrow> map_result load_other (other_payload seen rs) = Inr (once seen rs)"
proof (induction rs arbitrary: seen)
  case (Cons r rs)
  obtain a n where r: "r = \<lparr>rr_role = MULTI_ROLE, rr_ieee_address = Some a, rr_friendly_name = Some n\<rparr>"
      and clean: "clean_text a" "clean_text n"
    using Cons.prems by (cases r) (auto simp: clean_other_def split: option.split_asm)
  then have "a \<noteq> []" "n \<noteq> []" by (simp_all add: clean_text_def)
  then have "load_other (entry_json (Some a) (Some n)) = Inr r"
    by (simp add: load_other_def entry_json_def vget_def dict_get_def stripped_text_clean clean r)
  with Cons \<open>a \<noteq> []\<close> \<open>n \<noteq> []\<close> show ?case by (simp add: r Let_def role_assigned_def)
qed simp

lemma clean_configs_cases:
  assumes "clean_configs cs"
  obtains s e where "cs = [s, e]" "clean_config s ''supply''" "clean_config e ''extract''"
  using assms by (auto simp: clean_configs_def SYSTEM_ROLES_def list_all2_Cons2)

lemma clean_config_role: "clean_config c role \<Longrightarrow> dc_role c = role"
  by (auto simp: clean_config_def unassigned_config_def)

text \<open>One system role written and loaded.\<close>

definition role_json :: "zigbee_device_config \<Rightarrow> py_value" where
  "role_json c = (let r = \<lparr>rr_role = dc_role c, rr_ieee_address = dc_ieee_address c, rr_friendly_name = Some (dc_friendly_name c)\<rparr>
     in if role_assigned r then entry_json (rr_ieee_address r) (rr_friendly_name r) else VNone)"

definition runtime_config :: "role_record \<Rightarrow> zigbee_device_config" where
  "runtime_config r = (if role_assigned r then \<lparr>dc_role = rr_role r, dc_friendly_name = str_or (rr_friendly_name r) [],
       dc_ieee_address = rr_ieee_address r\<rparr> else unassigned_config (rr_role r))"

lemma load_role_json:
  assumes "clean_config c role" and "vget roles role = role_json c"
  shows "\<exists>r. load_role roles role = Inr r \<and> rr_role r = role \<and> runtime_config r = c"
proof (cases "c = unassigned_config role")
  case True
  then have "load_role roles role = Inr \<lparr>rr_role = role, rr_ieee_address = None, rr_friendly_name = None\<rparr>"
    using assms(2) by (simp add: load_role_def role_json_def unassigned_config_def role_assigned_def)
  then show ?thesis using True by (simp add: runtime_config_def role_assigned_def)
next
  case False
  then obtain a where a: "dc_ieee_address c = Some a" "clean_text a" "clean_text (dc_friendly_name c)" "dc_role c = role"
    using assms(1) by (auto simp: clean_config_def split: option.split_asm)
  then have ne: "a \<noteq> []" "dc_friendly_name c \<noteq> []" by (simp_all add: clean_text_def)
  with a assms(2) have "load_role roles role = Inr \<lparr>rr_role = role, rr_ieee_address = Some a, rr_friendly_name = Some (dc_friendly_name c)\<rparr>"
    by (simp add: load_role_def role_json_def role_assigned_def entry_json_def vget_def[of "[_, _]"] dict_get_def[of "[_, _]"]
        stripped_text_clean)
  with a ne show ?thesis by (simp add: runtime_config_def role_assigned_def)
qed

lemma to_runtime_configs_two:
  assumes "rr_role r1 = ''supply''" "rr_role r2 = ''extract''"
  shows "to_runtime_configs [r1, r2] = [runtime_config r1, runtime_config r2]"
  using assms by (simp add: to_runtime_configs_def SYSTEM_ROLES_def by_role_def dict_of_def runtime_config_def)

lemma roles_payload_two:
  assumes "dc_role s = ''supply''" "dc_role e = ''extract''"
  shows "roles_payload (config_records [s, e]) others = VDict [(''version'', VInt 2),
     (''roles'', VDict [(''supply'', role_json s), (''extract'', role_json e)]), (''other'', VList (other_payload {} others))]"
  using assms by (simp add: roles_payload_def config_records_def SYSTEM_ROLES_def by_role_def dict_of_def role_json_def
      ROLE_VERSION_def Let_def)

lemma parse_saved:
  assumes cs: "clean_configs cs" and os: "\<forall>r \<in> set others. clean_other r"
  shows "\<exists>records. parse_bundle (roles_payload (config_records cs) others) = Inr (records, once {} others)
    \<and> to_runtime_configs records = cs"
proof -
  obtain s e where se: "cs = [s, e]" "clean_config s ''supply''" "clean_config e ''extract''"
    using clean_configs_cases[OF cs] by blast
  let ?roles = "[(''supply'', role_json s), (''extract'', role_json e)]"
  obtain r1 where r1: "load_role ?roles ''supply'' = Inr r1" "rr_role r1 = ''supply''" "runtime_config r1 = s"
    using load_role_json[OF se(2), of ?roles] by (auto simp: vget_def dict_get_def)
  obtain r2 where r2: "load_role ?roles ''extract'' = Inr r2" "rr_role r2 = ''extract''" "runtime_config r2 = e"
    using load_role_json[OF se(3), of ?roles] by (auto simp: vget_def dict_get_def)
  have "parse_bundle (roles_payload (config_records cs) others) = Inr ([r1, r2], once {} others)"
    unfolding se(1) roles_payload_two[OF clean_config_role[OF se(2)] clean_config_role[OF se(3)]]
    by (simp add: parse_bundle_def vget_def[of "[_, _, _]"] dict_get_def[of "[_, _, _]"] py_eq_def ROLE_VERSION_def SYSTEM_ROLES_def
        r1 r2 load_other_payload[OF os])
  with to_runtime_configs_two[OF r1(2) r2(2)] r1 r2 se(1) show ?thesis by simp
qed

lemma save_assignments_outcome:
  assumes "clean_configs cs" and "\<forall>r \<in> set others. clean_other r"
  shows "case rf_faults f (rf_writes f) of
      None \<Rightarrow> \<exists>f'. save_assignments cs others f = (f', Inr ()) \<and> registry f' = Some (cs, once {} others)
    | Some e \<Rightarrow> \<exists>f'. save_assignments cs others f = (f', Inl e) \<and> registry f' = registry f"
proof -
  obtain records where "parse_bundle (roles_payload (config_records cs) others) = Inr (records, once {} others)"
      "to_runtime_configs records = cs"
    using parse_saved[OF assms] by blast
  then show ?thesis
    by (auto simp: save_assignments_def save_records_def write_roles_def Let_def registry_def load_bundle_def json_load_def
        split: option.split)
qed

text \<open>Everything that was loaded can be stored.\<close>

lemma load_role_clean:
  assumes "load_role roles role = Inr r"
  shows "rr_role r = role" and "clean_config (runtime_config r) role"
proof -
  have "rr_role r = role \<and> clean_config (runtime_config r) role"
  proof (cases "vget roles role")
    case VNone
    with assms show ?thesis by (auto simp: load_role_def runtime_config_def role_assigned_def clean_config_def)
  next
    case (VDict d)
    with assms obtain a n where "r = \<lparr>rr_role = role, rr_ieee_address = Some a, rr_friendly_name = Some n\<rparr>"
        "clean_text a" "clean_text n"
      by (auto simp: load_role_def rbind_eq_Inr dest: stripped_text_Inr)
    then show ?thesis by (simp add: runtime_config_def role_assigned_def clean_config_def clean_text_def)
  qed (use assms in \<open>simp_all add: load_role_def\<close>)
  then show "rr_role r = role" "clean_config (runtime_config r) role" by simp_all
qed

lemma load_other_clean: "load_other v = Inr r \<Longrightarrow> clean_other r"
  by (cases v) (auto simp: load_other_def rbind_eq_Inr clean_other_def dest: stripped_text_Inr)

lemma map_result_mem: "map_result g xs = Inr ys \<Longrightarrow> y \<in> set ys \<Longrightarrow> \<exists>x \<in> set xs. g x = Inr y"
  by (induction xs arbitrary: ys) (auto split: sum.split_asm)

lemma parse_bundle_clean:
  assumes "parse_bundle v = Inr (records, others)"
  shows "clean_configs (to_runtime_configs records)" and "\<forall>r \<in> set others. clean_other r"
proof -
  obtain d where d: "v = VDict d" using assms by (cases v) (auto simp: parse_bundle_def)
  with assms obtain roles where roles: "vget d ''roles'' = VDict roles"
    by (cases "vget d ''roles''") (auto simp: parse_bundle_def split: if_split_asm)
  let ?other = "if py_eq (vget d ''version'') (VInt ROLE_VERSION) then dict_get d ''other'' (VList []) else VList []"
  from assms d roles obtain raw where rec: "map_result (load_role roles) SYSTEM_ROLES = Inr records"
      and raw: "?other = VList raw" and os: "map_result load_other raw = Inr others"
    by (cases ?other) (auto simp: parse_bundle_def rbind_eq_Inr split: if_split_asm)
  from rec obtain r1 r2 where r: "records = [r1, r2]" "load_role roles ''supply'' = Inr r1" "load_role roles ''extract'' = Inr r2"
    by (auto simp: SYSTEM_ROLES_def split: sum.split_asm)
  from to_runtime_configs_two[of r1 r2] load_role_clean[OF r(2)] load_role_clean[OF r(3)] r(1)
  show "clean_configs (to_runtime_configs records)" by (simp add: clean_configs_def SYSTEM_ROLES_def)
  show "\<forall>r \<in> set others. clean_other r" using map_result_mem[OF os] load_other_clean by blast
qed

lemma registry_Some:
  assumes "registry f = Some (cs, others)"
  obtains records where "load_bundle f = Inr (records, others)" "to_runtime_configs records = cs" "rf_content f \<noteq> None"
    "clean_configs cs" "\<forall>r \<in> set others. clean_other r"
proof -
  obtain records where r: "load_bundle f = Inr (records, others)" "to_runtime_configs records = cs"
    using assms by (auto simp: registry_def split: sum.split_asm)
  then obtain v where "parse_bundle v = Inr (records, others)" and "rf_content f \<noteq> None"
    by (auto simp: load_bundle_def rbind_eq_Inr split: option.split_asm)
  with parse_bundle_clean r that show ?thesis by blast
qed

subsection \<open>The two parts are saved independently\<close>

text \<open>C26: The registry of roles is a pair of two parts, and saving is exact. From a registry that loads, saving
  the system roles replaces them and keeps the records of OTHER, the first of each address; saving the
  OTHER records replaces these and keeps the system roles; and the next load returns what was saved. A
  write that fails raises its exception and leaves the registry as it was.\<close>

theorem role_registry_refines:
  assumes "registry f = Some (cs0, others0)" and "clean_configs cs" and "\<forall>r \<in> set others. clean_other r"
    and "distinct (map rr_ieee_address others)"
  shows "case rf_faults f (rf_writes f) of
      None \<Rightarrow> (\<exists>f'. save_configs cs f = (f', Inr ()) \<and> registry f' = Some (cs, once {} others0))
        \<and> (\<exists>f'. save_other_records others f = (f', Inr ()) \<and> registry f' = Some (cs0, others))
    | Some e \<Rightarrow> (\<exists>f'. save_configs cs f = (f', Inl e) \<and> registry f' = Some (cs0, others0))
        \<and> (\<exists>f'. save_other_records others f = (f', Inl e) \<and> registry f' = Some (cs0, others0))"
proof -
  obtain records where f: "load_bundle f = Inr (records, others0)" "to_runtime_configs records = cs0" "rf_content f \<noteq> None"
      "clean_configs cs0" "\<forall>r \<in> set others0. clean_other r"
    using registry_Some[OF assms(1)] by blast
  have "save_configs cs f = save_assignments cs others0 f"
    using f by (auto simp: save_configs_def op_bind_def)
  moreover have "save_other_records others f = save_assignments cs0 others f"
    using f by (simp add: save_other_records_def op_bind_def)
  moreover have "once {} others = others" using once_distinct[OF assms(4,3)] by simp
  ultimately show ?thesis
    using save_assignments_outcome[OF assms(2) f(5), of f] save_assignments_outcome[OF f(4) assms(3), of f] assms(1)
    by (cases "rf_faults f (rf_writes f)") simp_all
qed

text \<open>A device named \<open>room\<close> is stored for SUPPLY beside a device with the role OTHER.\<close>

definition demo_registry :: role_file where
  "demo_registry = \<lparr>rf_content = Some (Json (VDict [(''version'', VInt 2), (''roles'', VDict []),
     (''other'', VList [VDict [(''ieee_address'', VStr ''0x2''), (''friendly_name'', VStr ''hall'')]])])),
     rf_faults = (\<lambda>_. None), rf_writes = 0\<rparr>"

definition demo_configs :: "zigbee_device_config list" where
  "demo_configs = [\<lparr>dc_role = ''supply'', dc_friendly_name = ''room'', dc_ieee_address = Some ''0x1''\<rparr>, unassigned_config ''extract'']"

definition demo_others :: "role_record list" where
  "demo_others = [\<lparr>rr_role = MULTI_ROLE, rr_ieee_address = Some ''0x2'', rr_friendly_name = Some ''hall''\<rparr>]"

theorem role_registry_refines_witness:
  "\<exists>f'. save_configs demo_configs demo_registry = (f', Inr ()) \<and> registry f' = Some (demo_configs, demo_others)"
proof -
  have "registry demo_registry = Some (map unassigned_config SYSTEM_ROLES, demo_others)"
    and "clean_configs demo_configs" and "\<forall>r \<in> set demo_others. clean_other r"
    and "distinct (map rr_ieee_address demo_others)" and "once {} demo_others = demo_others"
    by code_simp+
  with role_registry_refines[OF this(1-4)] show ?thesis by (simp add: demo_registry_def)
qed

end
