(* ===== verification/Heartbeat.thy ===== *)
theory Heartbeat
  imports PyValue
begin

section \<open>Authenticated service heartbeats\<close>

text \<open>
  Models \<open>service_heartbeat.py\<close>: the receiver of the signed datagrams that the sensor nodes send over the
  service network. Bytes are \<open>string\<close>; HMAC-SHA256, the JSON decoder, \<open>str()\<close> of a JSON value, \<open>int()\<close> of a
  text and the test for an IPv6 address are a codec; files are a table whose n-th write may fail; the clocks are
  arguments. \<open>HeartbeatError\<close>, a subclass of \<open>ValueError\<close>, is \<open>ValueError\<close>: no other one is raised where
  it is caught.
\<close>

record hb_codec =
  hc_loads :: "string \<Rightarrow> py_value option"
  hc_hmac :: "string \<Rightarrow> string \<Rightarrow> string"
  hc_str :: "py_value \<Rightarrow> string"
  hc_int_text :: "string \<Rightarrow> int option"
  hc_ipv6 :: "string \<Rightarrow> bool"

definition HB_PROTOCOL :: string where "HB_PROTOCOL = ''WVC-HB1''"

definition MAX_DATAGRAM_BYTES :: nat where "MAX_DATAGRAM_BYTES = 2048"

definition HISTORY_LIMIT :: nat where "HISTORY_LIMIT = 8"

definition hb_check :: "bool \<Rightarrow> string \<Rightarrow> unit result" where
  "hb_check b m = (if b then Inr () else Inl (ValueError m))"

subsection \<open>Text formats\<close>

definition is_lower_digit :: "char \<Rightarrow> bool" where
  "is_lower_digit c = (is_digit_char c \<or> 97 \<le> (of_char c :: nat) \<and> (of_char c :: nat) \<le> 122)"

text \<open>\<open>[a-z0-9][a-z0-9-]{0,31}\<close>, \<open>[A-Za-z0-9._-]{1,32}\<close> and six pairs of upper-case hex digits.\<close>

definition is_node_id :: "string \<Rightarrow> bool" where
  "is_node_id s = (s \<noteq> [] \<and> length s \<le> 32 \<and> is_lower_digit (hd s) \<and> (\<forall>c \<in> set (tl s). is_lower_digit c \<or> c = CHR ''-''))"

definition is_key_id :: "string \<Rightarrow> bool" where
  "is_key_id s = (s \<noteq> [] \<and> length s \<le> 32 \<and> (\<forall>c \<in> set s. is_lower_digit c \<or> 65 \<le> (of_char c :: nat) \<and> (of_char c :: nat) \<le> 90
     \<or> c \<in> {CHR ''.'', CHR ''_'', CHR ''-''}))"

definition upper_hex :: "char \<Rightarrow> bool" where
  "upper_hex c = (is_digit_char c \<or> 65 \<le> (of_char c :: nat) \<and> (of_char c :: nat) \<le> 70)"

definition is_mac :: "string \<Rightarrow> bool" where
  "is_mac s = (length (split_on (CHR '':'') s) = 6
     \<and> (\<forall>p \<in> set (split_on (CHR '':'') s). length p = 2 \<and> (\<forall>c \<in> set p. upper_hex c)))"

definition to_upper :: "string \<Rightarrow> string" where
  "to_upper = map (\<lambda>c. let n = (of_char c :: nat) in if 97 \<le> n \<and> n \<le> 122 then char_of (n - 32) else c)"

text \<open>\<open>[0-9a-f]{16}\<close>.\<close>

definition lower_hex :: "char \<Rightarrow> bool" where
  "lower_hex c = (is_digit_char c \<or> 97 \<le> (of_char c :: nat) \<and> (of_char c :: nat) \<le> 102)"

definition is_boot_id :: "string \<Rightarrow> bool" where
  "is_boot_id s = (length s = 16 \<and> (\<forall>c \<in> set s. lower_hex c))"

text \<open>\<open>bytes.fromhex\<close>: pairs of hex digits, white space allowed between them.\<close>

definition hex_digit :: "char \<Rightarrow> nat option" where
  "hex_digit c = (let n = (of_char c :: nat) in
     if is_digit_char c then Some (n - 48)
     else if 97 \<le> n \<and> n \<le> 102 then Some (n - 87) else if 65 \<le> n \<and> n \<le> 70 then Some (n - 55) else None)"

definition hex_space :: "char \<Rightarrow> bool" where
  "hex_space c = (let n = (of_char c :: nat) in 9 \<le> n \<and> n \<le> 13 \<or> n = 32)"

fun from_hex :: "string \<Rightarrow> string option" where
  "from_hex [] = Some []"
| "from_hex [c] = (if hex_space c then Some [] else None)"
| "from_hex (c # d # s) =
     (if hex_space c then from_hex (d # s)
      else case (hex_digit c, hex_digit d) of
          (Some i, Some j) \<Rightarrow> map_option (Cons (char_of (16 * i + j))) (from_hex s)
        | _ \<Rightarrow> None)"

text \<open>\<open>digest.hex()\<close>.\<close>

definition to_hex :: "string \<Rightarrow> string" where
  "to_hex bs = concat (map (\<lambda>b. let n = (of_char b :: nat) in [digit_char (n div 16), digit_char (n mod 16)]) bs)"

definition all_ascii :: "string \<Rightarrow> bool" where
  "all_ascii s = (\<forall>c \<in> set s. (of_char c :: nat) < 128)"

text \<open>\<open>ipaddress.ip_address\<close> of four decimal parts without leading zeros.\<close>

definition ipv4_part :: "string \<Rightarrow> int option" where
  "ipv4_part s = (if s \<noteq> [] \<and> length s \<le> 3 \<and> (\<forall>c \<in> set s. is_digit_char c) \<and> (length s = 1 \<or> hd s \<noteq> CHR ''0'')
       \<and> digits_value s \<le> 255 then Some (digits_value s) else None)"

definition ipv4 :: "string \<Rightarrow> int list option" where
  "ipv4 s = (let ps = map ipv4_part (split_on (CHR ''.'') s)
     in if length ps = 4 \<and> None \<notin> set ps then Some (map the ps) else None)"

definition in_service_subnet :: "string \<Rightarrow> bool" where
  "in_service_subnet s = (case ipv4 s of Some (a # b # c # _) \<Rightarrow> a = 10 \<and> b = 55 \<and> c = 0 | _ \<Rightarrow> False)"

subsection \<open>Keys\<close>

record node_key =
  nk_node_id :: string
  nk_key_id :: string
  nk_hmac_key :: string
  nk_mac :: "string option"

definition load_node_key :: "string \<Rightarrow> py_value \<Rightarrow> node_key result" where
  "load_node_key node_id raw =
     (if \<not> is_node_id node_id then Inl (ValueError (''invalid node_id in key registry: '' @ py_repr_str node_id))
      else case raw of
        VDict d \<Rightarrow> (case vget d ''key_id'' of
          VStr key_id \<Rightarrow>
            if \<not> is_key_id key_id then Inl (ValueError (''invalid key_id for '' @ node_id))
            else (case vget d ''hmac_key_hex'' of
              VStr key_hex \<Rightarrow> (case (if all_ascii key_hex then from_hex key_hex else None) of
                None \<Rightarrow> Inl (ValueError (''invalid hmac_key_hex for '' @ node_id))
              | Some key \<Rightarrow>
                  if length key \<noteq> 32 then Inl (ValueError (''HMAC key for '' @ node_id @ '' must be exactly 32 bytes''))
                  else (case vget d ''mac'' of
                    VNone \<Rightarrow> Inr \<lparr>nk_node_id = node_id, nk_key_id = key_id, nk_hmac_key = key, nk_mac = None\<rparr>
                  | VStr mac \<Rightarrow>
                      if is_mac (to_upper mac)
                      then Inr \<lparr>nk_node_id = node_id, nk_key_id = key_id, nk_hmac_key = key, nk_mac = Some (to_upper mac)\<rparr>
                      else Inl (ValueError (''invalid MAC for '' @ node_id))
                  | _ \<Rightarrow> Inl (ValueError (''invalid MAC for '' @ node_id))))
            | _ \<Rightarrow> Inl (ValueError (''missing hmac_key_hex for '' @ node_id)))
        | _ \<Rightarrow> Inl (ValueError (''invalid key_id for '' @ node_id)))
      | _ \<Rightarrow> Inl (ValueError (''registry entry for '' @ node_id @ '' must be an object'')))"

text \<open>\<open>document\<close> is what reading and parsing the file gives.\<close>

definition load_node_keys :: "py_value result \<Rightarrow> (string \<times> node_key) list result" where
  "load_node_keys document = (case document of
     Inl e \<Rightarrow> Inl (ValueError (''cannot load key registry: '' @ exc_str e))
   | Inr v \<Rightarrow> (case (case v of VDict d \<Rightarrow> vget d ''nodes'' | _ \<Rightarrow> VNone) of
       VDict nodes \<Rightarrow>
         if nodes = [] then Inl (ValueError (''key registry must contain a non-empty '' @ py_repr_str ''nodes'' @ '' object''))
         else map_result (\<lambda>(node_id, raw). map_sum id (Pair node_id) (load_node_key node_id raw)) nodes
     | _ \<Rightarrow> Inl (ValueError (''key registry must contain a non-empty '' @ py_repr_str ''nodes'' @ '' object''))))"

subsection \<open>Frames\<close>

definition encode_frame :: "hb_codec \<Rightarrow> string \<Rightarrow> string \<Rightarrow> string" where
  "encode_frame cx payload_bytes key = payload_bytes @ [CHR 0x0A] @ to_hex (hc_hmac cx key payload_bytes)"

text \<open>\<open>rsplit(b"\n", 1)\<close>.\<close>

definition rsplit_newline :: "string \<Rightarrow> (string \<times> string) option" where
  "rsplit_newline s = (if CHR 0x0A \<in> set s
     then Some (rev (tl (dropWhile (\<lambda>c. c \<noteq> CHR 0x0A) (rev s))), rev (takeWhile (\<lambda>c. c \<noteq> CHR 0x0A) (rev s)))
     else None)"

definition require_int :: "(string \<times> py_value) list \<Rightarrow> string \<Rightarrow> int \<Rightarrow> int \<Rightarrow> unit result" where
  "require_int payload name minimum maximum = (case vget payload name of
     VInt i \<Rightarrow> hb_check (minimum \<le> i \<and> i \<le> maximum) (name @ '' is outside the accepted range'')
   | _ \<Rightarrow> Inl (ValueError (name @ '' must be an integer'')))"

definition require_text :: "(string \<times> py_value) list \<Rightarrow> string \<Rightarrow> unit result" where
  "require_text payload name = (case vget payload name of
     VStr s \<Rightarrow> hb_check (s \<noteq> [] \<and> py_len s \<le> 32) (name @ '' must be a non-empty string up to 32 characters'')
   | _ \<Rightarrow> Inl (ValueError (name @ '' must be a non-empty string up to 32 characters'')))"

text \<open>A list of checks, up to the first that fails.\<close>

fun first_error :: "unit result list \<Rightarrow> unit result" where
  "first_error [] = Inr ()"
| "first_error (r # rs) = (case r of Inl e \<Rightarrow> Inl e | Inr _ \<Rightarrow> first_error rs)"

definition validate_heartbeat :: "(string \<times> py_value) list \<Rightarrow> node_key \<Rightarrow> unit result" where
  "validate_heartbeat payload key = first_error (
     [hb_check (vget payload ''protocol'' = VStr HB_PROTOCOL) ''unsupported protocol'',
      hb_check (py_eq (vget payload ''schema'') (VInt 1)) ''unsupported schema version'',
      (case vget payload ''mac'' of
         VStr mac \<Rightarrow> if \<not> is_mac (to_upper mac) then Inl (ValueError ''invalid MAC'')
           else hb_check (nk_mac key = None \<or> nk_mac key = Some (to_upper mac)) ''MAC does not match the registered node''
       | _ \<Rightarrow> Inl (ValueError ''invalid MAC'')),
      (case vget payload ''boot_id'' of
         VStr b \<Rightarrow> hb_check (is_boot_id b) ''boot_id must be 16 lowercase hexadecimal characters''
       | _ \<Rightarrow> Inl (ValueError ''boot_id must be 16 lowercase hexadecimal characters'')),
      require_int payload ''seq'' 0 (2 ^ 63 - 1), require_int payload ''uptime_s'' 0 (2 ^ 32 - 1),
      require_int payload ''wifi_rssi_dbm'' (- 127) 0, require_int payload ''measurement_age_ms'' (- 1) (2 ^ 31 - 1),
      require_int payload ''modbus_requests_total'' 0 (2 ^ 32 - 1), require_int payload ''modbus_requests_last_60s'' 0 (2 ^ 32 - 1),
      require_int payload ''last_modbus_request_age_ms'' (- 1) (2 ^ 31 - 1)]
     @ map (require_text payload) [''firmware'', ''sensor_state'', ''ota_partition'']
     @ map (\<lambda>n. hb_check (is_bool (vget payload n)) (n @ '' must be boolean'')) [''rs485_ready'', ''modbus_monitor_ready'', ''ota_pending''])"

definition decode_and_authenticate :: "hb_codec \<Rightarrow> (string \<times> node_key) list \<Rightarrow> string \<Rightarrow> string \<Rightarrow>
    (string \<times> py_value) list result" where
  "decode_and_authenticate cx keys datagram source =
     (if datagram = [] \<or> MAX_DATAGRAM_BYTES < length datagram
      then Inl (ValueError ''datagram size is outside the accepted range'')
      else case rsplit_newline datagram of
        None \<Rightarrow> Inl (ValueError ''frame separator is missing'')
      | Some (payload_bytes, signature_bytes) \<Rightarrow>
          if length signature_bytes \<noteq> 64 then Inl (ValueError ''signature must be a 64-character SHA-256 hex digest'')
          else (case (if all_ascii signature_bytes then from_hex signature_bytes else None) of
            None \<Rightarrow> Inl (ValueError ''signature is not valid hexadecimal'')
          | Some signature \<Rightarrow>
              if ipv4 source = None \<and> \<not> hc_ipv6 cx source then Inl (ValueError ''source address is invalid'')
              else if \<not> in_service_subnet source
              then Inl (ValueError ''source address is outside the private service subnet'')
              else (case (if all_ascii payload_bytes then hc_loads cx payload_bytes else None) of
                None \<Rightarrow> Inl (ValueError ''payload is not valid ASCII JSON'')
              | Some (VDict payload) \<Rightarrow> (case vget payload ''node_id'' of
                  VStr node_id \<Rightarrow>
                    if \<not> is_node_id node_id then Inl (ValueError ''invalid node_id'')
                    else (case map_of keys node_id of
                      None \<Rightarrow> Inl (ValueError ''unknown node_id'')
                    | Some key \<Rightarrow>
                        if vget payload ''key_id'' \<noteq> VStr (nk_key_id key)
                        then Inl (ValueError ''key_id does not match the registered node'')
                        else if signature \<noteq> hc_hmac cx (nk_hmac_key key) payload_bytes
                        then Inl (ValueError ''HMAC authentication failed'')
                        else rbind (validate_heartbeat payload key) (\<lambda>_. Inr payload))
                | _ \<Rightarrow> Inl (ValueError ''invalid node_id''))
              | Some _ \<Rightarrow> Inl (ValueError ''payload must be a JSON object''))))"

subsection \<open>The receiver\<close>

record replay_record =
  rp_boot_id :: string
  rp_max_seq :: int
  rp_previous :: "string list"

definition fresh_record :: replay_record where
  "fresh_record = \<lparr>rp_boot_id = [], rp_max_seq = - 1, rp_previous = []\<rparr>"

record node_runtime =
  nr_last_received :: py_float
  nr_online :: bool
  nr_payload :: "(string \<times> py_value) list option"

text \<open>The two directories: files are replaced as a whole, or the write raises and the old file stays.\<close>

record hb_disk =
  hd_replay :: "(string \<times> py_value) list"
  hd_nodes :: "(string \<times> py_value) list"
  hd_faults :: "nat \<Rightarrow> exc option"
  hd_writes :: nat

record receiver =
  hr_records :: "(string \<times> replay_record) list"
  hr_runtime :: "(string \<times> node_runtime) list"
  hr_disk :: hb_disk

record hb_config =
  hk_keys :: "(string \<times> node_key) list"
  hk_stale_after :: py_float
  hk_codec :: hb_codec

definition fresh_runtime :: "(string \<times> node_key) list \<Rightarrow> (string \<times> node_runtime) list" where
  "fresh_runtime keys = map (\<lambda>(n, _). (n, \<lparr>nr_last_received = Fin 0, nr_online = False, nr_payload = None\<rparr>)) keys"

definition new_receiver :: "hb_config \<Rightarrow> hb_disk \<Rightarrow> receiver result" where
  "new_receiver c disk = (if fle (hk_stale_after c) (Fin 0) then Inl (ValueError ''stale_after_seconds must be positive'')
     else Inr \<lparr>hr_records = [], hr_runtime = fresh_runtime (hk_keys c), hr_disk = disk\<rparr>)"

text \<open>\<open>_atomic_write_json\<close> into the directory that \<open>store\<close> updates.\<close>

definition atomic_write :: "(hb_disk \<Rightarrow> hb_disk) \<Rightarrow> (receiver, unit) op" where
  "atomic_write store r = (let d = (hr_disk r)\<lparr>hd_writes := Suc (hd_writes (hr_disk r))\<rparr>
     in case hd_faults d (hd_writes (hr_disk r)) of
          Some e \<Rightarrow> (r\<lparr>hr_disk := d\<rparr>, Inl e)
        | None \<Rightarrow> (r\<lparr>hr_disk := store d\<rparr>, Inr ()))"

definition write_replay :: "string \<Rightarrow> py_value \<Rightarrow> (receiver, unit) op" where
  "write_replay n v = atomic_write (\<lambda>d. d\<lparr>hd_replay := AList.update n v (hd_replay d)\<rparr>)"

definition write_node :: "string \<Rightarrow> py_value \<Rightarrow> (receiver, unit) op" where
  "write_node n v = atomic_write (\<lambda>d. d\<lparr>hd_nodes := AList.update n v (hd_nodes d)\<rparr>)"

subsection \<open>Replay protection\<close>

definition py_str :: "hb_codec \<Rightarrow> py_value \<Rightarrow> string" where
  "py_str cx v = (case v of VStr s \<Rightarrow> s | _ \<Rightarrow> hc_str cx v)"

text \<open>\<open>int(v)\<close> and the elements of \<open>v\<close>, with what they raise.\<close>

definition py_int :: "hb_codec \<Rightarrow> py_value \<Rightarrow> int result" where
  "py_int cx v = (case v of VInt i \<Rightarrow> Inr i | VBool b \<Rightarrow> Inr (if b then 1 else 0)
     | VFloat (Fin x) \<Rightarrow> Inr (if 0 \<le> x then \<lfloor>x\<rfloor> else \<lceil>x\<rceil>)
     | VFloat NaN \<Rightarrow> Inl (ValueError ''cannot convert float NaN to integer'')
     | VFloat _ \<Rightarrow> Inl (OtherException ''cannot convert float infinity to integer'')
     | VStr s \<Rightarrow> (case hc_int_text cx s of Some i \<Rightarrow> Inr i | None \<Rightarrow> Inl (ValueError ''invalid literal for int()''))
     | _ \<Rightarrow> Inl (TypeError ''int() argument must be a string or a real number''))"

definition py_elements :: "py_value \<Rightarrow> py_value list result" where
  "py_elements v = (case v of VList vs \<Rightarrow> Inr vs | VDict d \<Rightarrow> Inr (map (VStr \<circ> fst) d) | VStr s \<Rightarrow> Inr (map (\<lambda>c. VStr [c]) s)
     | _ \<Rightarrow> Inl (TypeError ''object is not iterable''))"

definition parse_record :: "hb_codec \<Rightarrow> py_value \<Rightarrow> replay_record result" where
  "parse_record cx v = (case v of
     VDict d \<Rightarrow>
       rbind (py_int cx (dict_get d ''max_seq'' (VInt (- 1)))) (\<lambda>max_seq.
       rbind (py_elements (dict_get d ''previous_boot_ids'' (VList []))) (\<lambda>previous.
       Inr \<lparr>rp_boot_id = py_str cx (dict_get d ''boot_id'' (VStr [])), rp_max_seq = max_seq, rp_previous = map (py_str cx) previous\<rparr>))
   | _ \<Rightarrow> Inl (OtherException ''object has no attribute get''))"

text \<open>\<open>_load\<close>: the record in memory, or the file; a missing or unreadable file is a fresh record.\<close>

definition load_record :: "hb_codec \<Rightarrow> string \<Rightarrow> (receiver, replay_record) op" where
  "load_record cx n r = (case map_of (hr_records r) n of
     Some rec \<Rightarrow> (r, Inr rec)
   | None \<Rightarrow>
       (case (case map_of (hd_replay (hr_disk r)) n of None \<Rightarrow> Inr fresh_record
          | Some v \<Rightarrow> (case parse_record cx v of
              Inl e \<Rightarrow> if is_value_error e \<or> (case e of TypeError _ \<Rightarrow> True | _ \<Rightarrow> False) then Inr fresh_record else Inl e
            | Inr rec \<Rightarrow> Inr rec)) of
          Inl e \<Rightarrow> (r, Inl e)
        | Inr rec \<Rightarrow> (r\<lparr>hr_records := AList.update n rec (hr_records r)\<rparr>, Inr rec)))"

definition record_json :: "replay_record \<Rightarrow> py_value" where
  "record_json rec = VDict [(''boot_id'', VStr (rp_boot_id rec)), (''max_seq'', VInt (rp_max_seq rec)),
     (''previous_boot_ids'', VList (map VStr (rp_previous rec)))]"

definition last_n :: "nat \<Rightarrow> 'a list \<Rightarrow> 'a list" where
  "last_n n xs = drop (length xs - n) xs"

text \<open>The record after a heartbeat, or why it is refused.\<close>

definition advance_record :: "string \<Rightarrow> int \<Rightarrow> replay_record \<Rightarrow> replay_record result" where
  "advance_record boot_id seq rec =
     (if boot_id = rp_boot_id rec
      then (if seq \<le> rp_max_seq rec then Inl (ValueError ''replayed or reordered sequence'')
            else Inr (rec\<lparr>rp_max_seq := seq\<rparr>))
      else if boot_id \<in> set (rp_previous rec)
      then Inl (ValueError ''heartbeat belongs to a previously closed boot session'')
      else Inr \<lparr>rp_boot_id = boot_id, rp_max_seq = seq,
        rp_previous = (if rp_boot_id rec = [] then rp_previous rec
          else last_n HISTORY_LIMIT (rp_previous rec @ [rp_boot_id rec]))\<rparr>)"

definition text_field :: "(string \<times> py_value) list \<Rightarrow> string \<Rightarrow> string" where
  "text_field payload k = (case vget payload k of VStr s \<Rightarrow> s | _ \<Rightarrow> [])"

definition int_field :: "(string \<times> py_value) list \<Rightarrow> string \<Rightarrow> int" where
  "int_field payload k = (case vget payload k of VInt i \<Rightarrow> i | _ \<Rightarrow> 0)"

text \<open>\<open>ReplayStore.accept\<close>: the record changes in memory before the file is written.\<close>

definition accept_heartbeat :: "hb_codec \<Rightarrow> (string \<times> py_value) list \<Rightarrow> (receiver, unit) op" where
  "accept_heartbeat cx payload = (let n = text_field payload ''node_id'' in
     op_bind (load_record cx n) (\<lambda>rec.
     op_bind (op_lift (advance_record (text_field payload ''boot_id'') (int_field payload ''seq'') rec)) (\<lambda>rec'.
     op_bind (\<lambda>r. (r\<lparr>hr_records := AList.update n rec' (hr_records r)\<rparr>, Inr ())) (\<lambda>_.
     write_replay n (record_json rec')))))"

subsection \<open>Datagrams and time\<close>

definition process_datagram :: "hb_config \<Rightarrow> py_float \<Rightarrow> int \<Rightarrow> string \<Rightarrow> string \<Rightarrow> (receiver, py_value) op" where
  "process_datagram c now unix_ms datagram source =
     op_bind (op_lift (decode_and_authenticate (hk_codec c) (hk_keys c) datagram source)) (\<lambda>payload.
     op_bind (accept_heartbeat (hk_codec c) payload) (\<lambda>_.
       let n = text_field payload ''node_id'';
           persisted = VDict [(''online'', VBool True), (''received_unix_ms'', VInt unix_ms), (''source_ip'', VStr source),
             (''heartbeat'', VDict payload)]
       in op_bind (\<lambda>r. (r\<lparr>hr_runtime := AList.update n
              \<lparr>nr_last_received = now, nr_online = True, nr_payload = Some payload\<rparr> (hr_runtime r)\<rparr>, Inr ())) (\<lambda>_.
          op_bind (write_node n persisted) (\<lambda>_. op_return persisted))))"

definition is_stale :: "hb_config \<Rightarrow> py_float \<Rightarrow> node_runtime \<Rightarrow> bool" where
  "is_stale c now rt = (nr_online rt \<and> \<not> fle (fsub now (nr_last_received rt)) (hk_stale_after c))"

fun expire_nodes :: "hb_config \<Rightarrow> py_float \<Rightarrow> int \<Rightarrow> string list \<Rightarrow> (receiver, string list) op" where
  "expire_nodes c now unix_ms [] r = (r, Inr [])"
| "expire_nodes c now unix_ms (n # ns) r = (case map_of (hr_runtime r) n of
     None \<Rightarrow> expire_nodes c now unix_ms ns r
   | Some rt \<Rightarrow>
       if \<not> is_stale c now rt then expire_nodes c now unix_ms ns r
       else op_bind (write_node n (VDict [(''online'', VBool False), (''received_unix_ms'', VInt unix_ms),
              (''heartbeat'', case nr_payload rt of None \<Rightarrow> VNone | Some p \<Rightarrow> VDict p)]))
            (\<lambda>_. op_bind (expire_nodes c now unix_ms ns) (\<lambda>expired. op_return (n # expired)))
            (r\<lparr>hr_runtime := AList.update n (rt\<lparr>nr_online := False\<rparr>) (hr_runtime r)\<rparr>))"

definition expire_stale_nodes :: "hb_config \<Rightarrow> py_float \<Rightarrow> int \<Rightarrow> (receiver, string list) op" where
  "expire_stale_nodes c now unix_ms r = expire_nodes c now unix_ms (map fst (hr_runtime r)) r"

text \<open>One turn of the loop of \<open>run\<close>: at most one datagram, whose rejection is logged, then the expiry.\<close>

definition hb_turn :: "hb_config \<Rightarrow> py_float \<Rightarrow> int \<Rightarrow> (string \<times> string) option \<Rightarrow> (receiver, string list) op" where
  "hb_turn c now unix_ms input =
     op_bind (case input of
         None \<Rightarrow> op_return ()
       | Some (datagram, source) \<Rightarrow> op_catch
           (op_bind (process_datagram c now unix_ms datagram source) (\<lambda>_. op_return ()))
           is_value_error (\<lambda>_. op_return ()))
       (\<lambda>_. expire_stale_nodes c now unix_ms)"

subsection \<open>Runs\<close>

text \<open>What happens to the receiver, in any order. Any exception but a rejection ends the process, and the
  service manager starts it again on the files it left. The log holds the node, boot session and
  sequence number of each heartbeat that was accepted.\<close>

datatype hb_event = Datagram py_float int string string | Expiry py_float int | Restart

definition heartbeat_key :: "(string \<times> py_value) list \<Rightarrow> string \<times> string \<times> int" where
  "heartbeat_key payload = (text_field payload ''node_id'', text_field payload ''boot_id'', int_field payload ''seq'')"

definition restart_receiver :: "hb_config \<Rightarrow> receiver \<Rightarrow> receiver" where
  "restart_receiver c r = \<lparr>hr_records = [], hr_runtime = fresh_runtime (hk_keys c), hr_disk = hr_disk r\<rparr>"

definition hb_step :: "hb_config \<Rightarrow> hb_event \<Rightarrow> receiver \<times> (string \<times> string \<times> int) list \<Rightarrow>
    receiver \<times> (string \<times> string \<times> int) list" where
  "hb_step c e = (\<lambda>(r, log). case e of
     Datagram now unix_ms datagram source \<Rightarrow> (case process_datagram c now unix_ms datagram source r of
         (r', Inr _) \<Rightarrow> (r', log @ (case decode_and_authenticate (hk_codec c) (hk_keys c) datagram source of
             Inr payload \<Rightarrow> [heartbeat_key payload] | Inl _ \<Rightarrow> []))
       | (r', Inl x) \<Rightarrow> (if is_value_error x then r' else restart_receiver c r', log))
   | Expiry now unix_ms \<Rightarrow> (case expire_stale_nodes c now unix_ms r of
         (r', Inr _) \<Rightarrow> (r', log)
       | (r', Inl _) \<Rightarrow> (restart_receiver c r', log))
   | Restart \<Rightarrow> (restart_receiver c r, log))"

end
