(* ===== verification/HeartbeatSafety.thy ===== *)
theory HeartbeatSafety
  imports Heartbeat
begin

section \<open>What the heartbeat receiver accepts\<close>

text \<open>
  Lemmas about \<open>Heartbeat\<close>: only authenticated frames have an effect, the frames of a registered node are
  accepted, and no heartbeat is accepted twice while its node has opened at most nine boot sessions. The
  last section shows that a tenth session makes the oldest one replayable.
\<close>

subsection \<open>Authentication\<close>

lemma rsplit_newline_Some:
  assumes "rsplit_newline s = Some (a, b)"
  shows "s = a @ [CHR 0x0A] @ b" and "CHR 0x0A \<notin> set b"
proof -
  let ?P = "\<lambda>c. c \<noteq> CHR 0x0A" let ?w = "dropWhile ?P (rev s)"
  have ab: "a = rev (tl ?w)" "b = rev (takeWhile ?P (rev s))" and mem: "CHR 0x0A \<in> set s"
    using assms by (auto simp: rsplit_newline_def split: if_split_asm)
  have ne: "?w \<noteq> []" using mem by auto
  then have "hd ?w = CHR 0x0A" using hd_dropWhile[of ?P "rev s"] by blast
  with ne have "?w = CHR 0x0A # tl ?w" by (metis list.collapse)
  then have "rev s = takeWhile ?P (rev s) @ CHR 0x0A # tl ?w" by (metis takeWhile_dropWhile_id)
  then have "rev (rev s) = rev (takeWhile ?P (rev s) @ CHR 0x0A # tl ?w)" by (rule arg_cong)
  with ab show "s = a @ [CHR 0x0A] @ b" by simp
  show "CHR 0x0A \<notin> set b" using ab(2) set_takeWhileD[of "CHR 0x0A" ?P "rev s"] by auto
qed

lemma rsplit_newline_join: "CHR 0x0A \<notin> set b \<Longrightarrow> rsplit_newline (a @ CHR 0x0A # b) = Some (a, b)"
proof -
  assume "CHR 0x0A \<notin> set b"
  then have b: "\<And>c. c \<in> set (rev b) \<Longrightarrow> c \<noteq> CHR 0x0A" by auto
  have "takeWhile (\<lambda>c. c \<noteq> CHR 0x0A) (rev b @ CHR 0x0A # rev a) = rev b"
    using b by (subst takeWhile_append2) auto
  moreover have "dropWhile (\<lambda>c. c \<noteq> CHR 0x0A) (rev b @ CHR 0x0A # rev a) = CHR 0x0A # rev a"
    using b by (subst dropWhile_append2) auto
  ultimately show ?thesis by (simp add: rsplit_newline_def)
qed

lemma hb_check_simps [simp]: "hb_check b m = Inr u \<longleftrightarrow> b" "hb_check b m = Inl e \<longleftrightarrow> \<not> b \<and> e = ValueError m"
  by (auto simp: hb_check_def)

lemma first_error_Inr: "first_error rs = Inr u \<longleftrightarrow> (\<forall>r \<in> set rs. r = Inr ())"
  by (induction rs) (auto split: sum.split)

lemma first_error_Inl: "first_error rs = Inl e \<Longrightarrow> Inl e \<in> set rs"
  by (induction rs) (auto split: sum.split_asm)

lemma require_int_Inr: "require_int p n lo hi = Inr u \<longleftrightarrow> (\<exists>i. vget p n = VInt i \<and> lo \<le> i \<and> i \<le> hi)"
  by (auto simp: require_int_def split: py_value.split)

lemma require_text_Inr: "require_text p n = Inr u \<longleftrightarrow> (\<exists>s. vget p n = VStr s \<and> s \<noteq> [] \<and> py_len s \<le> 32)"
  by (auto simp: require_text_def split: py_value.split)

text \<open>The fields a valid heartbeat has.\<close>

definition heartbeat_fields_ok :: "(string \<times> py_value) list \<Rightarrow> bool" where
  "heartbeat_fields_ok p = (vget p ''protocol'' = VStr HB_PROTOCOL \<and> py_eq (vget p ''schema'') (VInt 1)
     \<and> (\<exists>b. vget p ''boot_id'' = VStr b \<and> is_boot_id b) \<and> (\<exists>i. vget p ''seq'' = VInt i \<and> 0 \<le> i \<and> i < 2 ^ 63)
     \<and> (\<exists>m. vget p ''mac'' = VStr m \<and> is_mac (to_upper m)))"

lemma validate_heartbeat_Inr:
  assumes "validate_heartbeat p key = Inr u"
  shows "heartbeat_fields_ok p" and "nk_mac key = None \<or> (\<exists>m. vget p ''mac'' = VStr m \<and> nk_mac key = Some (to_upper m))"
proof -
  from assms have a: "vget p ''protocol'' = VStr HB_PROTOCOL" "py_eq (vget p ''schema'') (VInt 1)"
    and b: "(case vget p ''boot_id'' of VStr b \<Rightarrow> hb_check (is_boot_id b) ''boot_id must be 16 lowercase hexadecimal characters''
       | _ \<Rightarrow> Inl (ValueError ''boot_id must be 16 lowercase hexadecimal characters'')) = Inr ()"
    and m: "(case vget p ''mac'' of VStr mac \<Rightarrow> if \<not> is_mac (to_upper mac) then Inl (ValueError ''invalid MAC'')
           else hb_check (nk_mac key = None \<or> nk_mac key = Some (to_upper mac)) ''MAC does not match the registered node''
       | _ \<Rightarrow> Inl (ValueError ''invalid MAC'')) = Inr ()"
    and s: "require_int p ''seq'' 0 (2 ^ 63 - 1) = Inr ()"
    unfolding validate_heartbeat_def first_error_Inr by simp_all
  from m have m': "\<exists>m. vget p ''mac'' = VStr m \<and> is_mac (to_upper m) \<and> (nk_mac key = None \<or> nk_mac key = Some (to_upper m))"
    by (cases "vget p ''mac''") (simp_all split: if_split_asm)
  from b have b': "\<exists>b. vget p ''boot_id'' = VStr b \<and> is_boot_id b" by (cases "vget p ''boot_id''") simp_all
  from s have s': "\<exists>i. vget p ''seq'' = VInt i \<and> 0 \<le> i \<and> i < 2 ^ 63" unfolding require_int_Inr by auto
  show "heartbeat_fields_ok p" unfolding heartbeat_fields_ok_def using a b' s' m' by blast
  show "nk_mac key = None \<or> (\<exists>m. vget p ''mac'' = VStr m \<and> nk_mac key = Some (to_upper m))" using m' by blast
qed

definition raises_value_error :: "'a result \<Rightarrow> bool" where
  "raises_value_error r = (case r of Inl e \<Rightarrow> (\<exists>m. e = ValueError m) | Inr _ \<Rightarrow> True)"

lemma raises_value_error_simps [simp]:
  "raises_value_error (Inr x)" "raises_value_error (Inl e) = (\<exists>m. e = ValueError m)" "raises_value_error (hb_check b m)"
  "raises_value_error (require_int p n lo hi)" "raises_value_error (require_text p n)"
  by (simp_all add: raises_value_error_def hb_check_def require_int_def require_text_def split: py_value.split)

lemma first_error_raises: "list_all raises_value_error rs \<Longrightarrow> raises_value_error (first_error rs)"
  by (induction rs) (auto split: sum.split)

lemma validate_heartbeat_raises: "raises_value_error (validate_heartbeat p key)"
  unfolding validate_heartbeat_def by (rule first_error_raises) (simp split: py_value.split)

lemma raises_rbind: "raises_value_error r \<Longrightarrow> (\<And>x. r = Inr x \<Longrightarrow> raises_value_error (f x)) \<Longrightarrow> raises_value_error (rbind r f)"
  by (cases r) simp_all

lemma decode_raises: "raises_value_error (decode_and_authenticate cx keys d src)"
  unfolding decode_and_authenticate_def
  by (simp add: raises_rbind validate_heartbeat_raises split: option.split py_value.split prod.split)

text \<open>What it takes for a datagram to be authentic.\<close>

definition authentic :: "hb_codec \<Rightarrow> (string \<times> node_key) list \<Rightarrow> string \<Rightarrow> string \<Rightarrow> (string \<times> py_value) list \<Rightarrow> bool" where
  "authentic cx keys d src p = (\<exists>body signature node_id key.
     d = body @ [CHR 0x0A] @ signature \<and> length d \<le> MAX_DATAGRAM_BYTES \<and> length signature = 64
     \<and> in_service_subnet src \<and> hc_loads cx body = Some (VDict p)
     \<and> vget p ''node_id'' = VStr node_id \<and> map_of keys node_id = Some key \<and> vget p ''key_id'' = VStr (nk_key_id key)
     \<and> from_hex signature = Some (hc_hmac cx (nk_hmac_key key) body) \<and> heartbeat_fields_ok p
     \<and> (nk_mac key = None \<or> (\<exists>m. vget p ''mac'' = VStr m \<and> nk_mac key = Some (to_upper m))))"

lemma case_str_Inr: "(case v of VStr s \<Rightarrow> f s | _ \<Rightarrow> Inl e) = Inr y \<longleftrightarrow> (\<exists>s. v = VStr s \<and> f s = Inr y)"
  by (cases v) simp_all

lemma case_option_Inr: "(case v of None \<Rightarrow> Inl e | Some x \<Rightarrow> f x) = Inr y \<longleftrightarrow> (\<exists>x. v = Some x \<and> f x = Inr y)"
  by (cases v) simp_all

lemma if_Inl_Inr: "(if b then Inl e else r) = Inr y \<longleftrightarrow> \<not> b \<and> r = Inr y"
  by simp

lemma case_dict_Inr: "(case v of VDict d \<Rightarrow> f d | _ \<Rightarrow> Inl e) = Inr y \<longleftrightarrow> (\<exists>d. v = VDict d \<and> f d = Inr y)"
  by (cases v) simp_all

lemma decode_authentic:
  assumes "decode_and_authenticate cx keys d src = Inr p"
  shows "authentic cx keys d src p"
proof -
  from assms obtain body sig where split: "rsplit_newline d = Some (body, sig)" and len: "length d \<le> MAX_DATAGRAM_BYTES"
    unfolding decode_and_authenticate_def if_Inl_Inr case_option_Inr by (auto simp: not_less)
  from assms obtain signature node_id key p' where
    sig: "length sig = 64" "(if all_ascii sig then from_hex sig else None) = Some signature" "in_service_subnet src"
    and load: "(if all_ascii body then hc_loads cx body else None) = Some (VDict p')"
    and key: "vget p' ''node_id'' = VStr node_id" "map_of keys node_id = Some key" "vget p' ''key_id'' = VStr (nk_key_id key)"
    and mac: "signature = hc_hmac cx (nk_hmac_key key) body" and val: "rbind (validate_heartbeat p' key) (\<lambda>_. Inr p') = Inr p"
    unfolding decode_and_authenticate_def if_Inl_Inr split option.case prod.case case_option_Inr case_dict_Inr case_str_Inr by blast
  from val obtain u where p: "p' = p" and v: "validate_heartbeat p key = Inr u" by (auto simp: rbind_eq_Inr)
  from sig(2) mac have "from_hex sig = Some (hc_hmac cx (nk_hmac_key key) body)" by (simp split: if_split_asm)
  moreover from load p have "hc_loads cx body = Some (VDict p)" by (simp split: if_split_asm)
  ultimately show ?thesis
    unfolding authentic_def
    using rsplit_newline_Some(1)[OF split] len sig(1,3) key p validate_heartbeat_Inr[OF v] by blast
qed


subsection \<open>Frames of a registered node\<close>

lemma hex_digit_char:
  assumes "d < 16"
  shows "hex_digit (digit_char d) = Some d \<and> \<not> hex_space (digit_char d) \<and> digit_char d \<noteq> CHR 0x0A
    \<and> (of_char (digit_char d) :: nat) < 128"
proof -
  have c: "(of_char (digit_char d) :: nat) = (if d < 10 then 48 + d else 87 + d)" using assms by (simp add: digit_char_def)
  moreover have "digit_char d \<noteq> CHR 0x0A"
  proof
    assume "digit_char d = CHR 0x0A"
    then have "(of_char (digit_char d) :: nat) = of_char (CHR 0x0A)" by (rule arg_cong)
    with c show False by (simp split: if_split_asm)
  qed
  ultimately show ?thesis using assms by (auto simp: hex_digit_def hex_space_def is_digit_char_def Let_def)
qed

lemma to_hex_simps [simp]: "to_hex [] = []"
  "to_hex (b # bs) = digit_char (of_char b div 16) # digit_char (of_char b mod 16) # to_hex bs"
  by (simp_all add: to_hex_def Let_def)

lemma byte_split: "(of_char (b :: char) :: nat) div 16 < 16" "(of_char (b :: char) :: nat) mod 16 < 16"
  using nat_of_char_less_256[of b] by (simp_all add: div_less_iff_less_mult)

lemma from_hex_to_hex: "from_hex (to_hex bs) = Some bs"
proof (induction bs)
  case (Cons b bs)
  note d = hex_digit_char[OF byte_split(1)[of b]] hex_digit_char[OF byte_split(2)[of b]]
  have "char_of (16 * ((of_char b :: nat) div 16) + of_char b mod 16) = b" by simp
  with Cons d show ?case by simp
qed simp

lemma to_hex_chars: "c \<in> set (to_hex bs) \<Longrightarrow> c \<noteq> CHR 0x0A \<and> (of_char c :: nat) < 128"
proof (induction bs)
  case (Cons b bs)
  with hex_digit_char[OF byte_split(1)[of b]] hex_digit_char[OF byte_split(2)[of b]] show ?case by auto
qed simp

lemma length_to_hex [simp]: "length (to_hex bs) = 2 * length bs"
  by (induction bs) simp_all

lemma decode_encoded:
  assumes "hc_loads cx body = Some (VDict p)" and "all_ascii body" and "length body \<le> 1983"
    and "length (hc_hmac cx (nk_hmac_key key) body) = 32"
    and "vget p ''node_id'' = VStr n" and "is_node_id n" and "map_of keys n = Some key"
    and "vget p ''key_id'' = VStr (nk_key_id key)" and "validate_heartbeat p key = Inr ()" and "in_service_subnet src"
  shows "decode_and_authenticate cx keys (encode_frame cx body (nk_hmac_key key)) src = Inr p"
proof -
  let ?sig = "to_hex (hc_hmac cx (nk_hmac_key key) body)"
  have sep: "rsplit_newline (body @ CHR 0x0A # ?sig) = Some (body, ?sig)"
    using to_hex_chars by (intro rsplit_newline_join) blast
  have "all_ascii ?sig" using to_hex_chars by (auto simp: all_ascii_def)
  moreover have "ipv4 src \<noteq> None" using assms(10) by (auto simp: in_service_subnet_def split: option.split_asm)
  ultimately show ?thesis
    using assms by (simp add: decode_and_authenticate_def encode_frame_def sep MAX_DATAGRAM_BYTES_def from_hex_to_hex)
qed

text \<open>What a registered node encodes, the receiver accepts. If the JSON codec reads back the object from the ASCII bytes
  it wrote and the MAC has 32 bytes, a frame encoded with the key registered for its node, sent from the
  service subnet with valid fields and within the size limit, is decoded to exactly that object.\<close>

theorem heartbeat_roundtrip:
  assumes "hc_loads cx body = Some (VDict p)" and "all_ascii body" and "length body \<le> 1983"
    and "length (hc_hmac cx (nk_hmac_key key) body) = 32"
    and "vget p ''node_id'' = VStr n" and "is_node_id n" and "map_of keys n = Some key"
    and "vget p ''key_id'' = VStr (nk_key_id key)" and "validate_heartbeat p key = Inr ()" and "in_service_subnet src"
  shows "decode_and_authenticate cx keys (encode_frame cx body (nk_hmac_key key)) src = Inr p"
  by (rule decode_encoded[OF assms])

text \<open>A codec for one frame; its MAC depends on the key and on the bytes.\<close>

definition demo_body :: string where "demo_body = ''{frame}''"

definition demo_heartbeat :: "(string \<times> py_value) list" where
  "demo_heartbeat = [(''protocol'', VStr ''WVC-HB1''), (''schema'', VInt 1), (''node_id'', VStr ''node-1''), (''key_id'', VStr ''k1''),
     (''mac'', VStr ''aa:bb:cc:dd:ee:01''), (''boot_id'', VStr ''00000000000000a1''), (''seq'', VInt 7), (''uptime_s'', VInt 60),
     (''wifi_rssi_dbm'', VInt (- 60)), (''measurement_age_ms'', VInt 10), (''modbus_requests_total'', VInt 5),
     (''modbus_requests_last_60s'', VInt 5), (''last_modbus_request_age_ms'', VInt 20), (''firmware'', VStr ''1.0''),
     (''sensor_state'', VStr ''ok''), (''ota_partition'', VStr ''ota_0''), (''rs485_ready'', VBool True),
     (''modbus_monitor_ready'', VBool True), (''ota_pending'', VBool False)]"

definition demo_hb_codec :: hb_codec where
  "demo_hb_codec = \<lparr>hc_loads = (\<lambda>s. if s = demo_body then Some (VDict demo_heartbeat) else None),
     hc_hmac = (\<lambda>k s. take 32 (k @ s @ replicate 32 (CHR ''x''))), hc_str = (\<lambda>_. []), hc_int_text = (\<lambda>_. None), hc_ipv6 = (\<lambda>_. False)\<rparr>"

definition demo_key :: node_key where
  "demo_key = \<lparr>nk_node_id = ''node-1'', nk_key_id = ''k1'', nk_hmac_key = replicate 32 (CHR ''k''), nk_mac = Some ''AA:BB:CC:DD:EE:01''\<rparr>"

lemma demo_frame:
  "hc_loads demo_hb_codec demo_body = Some (VDict demo_heartbeat)" "all_ascii demo_body" "length demo_body \<le> 1983"
  "length (hc_hmac demo_hb_codec (nk_hmac_key demo_key) demo_body) = 32" "vget demo_heartbeat ''node_id'' = VStr ''node-1''"
  "is_node_id ''node-1''" "vget demo_heartbeat ''key_id'' = VStr (nk_key_id demo_key)"
  "validate_heartbeat demo_heartbeat demo_key = Inr ()" "in_service_subnet ''10.55.0.21''"
  "map_of [(''node-1'', demo_key)] ''node-1'' = Some demo_key"
  by (simp add: demo_hb_codec_def) code_simp+

theorem heartbeat_roundtrip_witness:
  "decode_and_authenticate demo_hb_codec [(''node-1'', demo_key)]
     (encode_frame demo_hb_codec demo_body (nk_hmac_key demo_key)) ''10.55.0.21'' = Inr demo_heartbeat"
  by (rule heartbeat_roundtrip[OF demo_frame(1-6,10,7-9)])

subsection \<open>No heartbeat is accepted twice\<close>

text \<open>The boot sessions that authentic datagrams of a node name.\<close>

definition session_of :: "hb_config \<Rightarrow> string \<Rightarrow> hb_event \<Rightarrow> string list" where
  "session_of c n e = (case e of
     Datagram _ _ d src \<Rightarrow> (case decode_and_authenticate (hk_codec c) (hk_keys c) d src of
       Inr p \<Rightarrow> if text_field p ''node_id'' = n then [text_field p ''boot_id''] else [] | Inl _ \<Rightarrow> [])
   | _ \<Rightarrow> [])"

definition boot_sessions :: "hb_config \<Rightarrow> string \<Rightarrow> hb_event list \<Rightarrow> string list" where
  "boot_sessions c n es = remdups (concat (map (session_of c n) es))"

definition node_log :: "string \<Rightarrow> (string \<times> string \<times> int) list \<Rightarrow> (string \<times> int) list" where
  "node_log n entries = map snd (filter (\<lambda>x. fst x = n) entries)"

text \<open>The log of a node agrees with its record, and the record remembers every session that was closed.\<close>

definition record_ok :: "string set \<Rightarrow> (string \<times> int) list \<Rightarrow> replay_record \<Rightarrow> bool" where
  "record_ok B entries rec = (sorted_wrt (\<lambda>x y. fst x = fst y \<longrightarrow> snd x < snd y) entries
     \<and> (\<forall>x \<in> set entries. fst x \<in> set (rp_previous rec) \<or> fst x = rp_boot_id rec \<and> snd x \<le> rp_max_seq rec)
     \<and> (\<forall>x \<in> set entries. fst x \<noteq> []) \<and> distinct (rp_boot_id rec # rp_previous rec) \<and> [] \<notin> set (rp_previous rec)
     \<and> set (rp_previous rec) \<subseteq> B \<and> (rp_boot_id rec = [] \<longrightarrow> rp_previous rec = []) \<and> rp_boot_id rec \<in> insert [] B)"

lemma record_ok_start: "record_ok B [] fresh_record"
  by (simp add: record_ok_def fresh_record_def)

lemma advance_record_ok:
  assumes ok: "record_ok B entries rec" and adv: "advance_record b s rec = Inr rec'" and b: "b \<in> B" "b \<noteq> []"
    and B: "finite B" "card B \<le> HISTORY_LIMIT + 1"
  shows "record_ok B entries rec'" and "record_ok B (entries @ [(b, s)]) rec'"
proof -
  have "record_ok B entries rec' \<and> record_ok B (entries @ [(b, s)]) rec'"
  proof (cases "b = rp_boot_id rec")
    case True
    with adv have s: "rp_max_seq rec < s" "rec' = rec\<lparr>rp_max_seq := s\<rparr>"
      by (simp_all add: advance_record_def split: if_split_asm)
    have "rp_boot_id rec \<notin> set (rp_previous rec)" using ok by (simp add: record_ok_def)
    then have "snd x < s" if "x \<in> set entries" "fst x = b" for x
      using ok that s(1) True by (auto simp: record_ok_def)
    then have sorted: "sorted_wrt (\<lambda>x y. fst x = fst y \<longrightarrow> snd x < snd y) (entries @ [(b, s)])"
      using ok by (simp add: record_ok_def sorted_wrt_append)
    have "snd x \<le> s" if "x \<in> set entries" "fst x \<notin> set (rp_previous rec)" for x
      using ok that s(1) by (fastforce simp: record_ok_def)
    with sorted ok s True b show ?thesis by (auto simp: record_ok_def)
  next
    case False
    let ?prev = "rp_previous rec @ [rp_boot_id rec]"
    from False adv have new: "b \<notin> set (rp_previous rec)"
      and rec': "rec' = \<lparr>rp_boot_id = b, rp_max_seq = s, rp_previous = (if rp_boot_id rec = [] then rp_previous rec
          else last_n HISTORY_LIMIT ?prev)\<rparr>"
      by (simp_all add: advance_record_def split: if_split_asm)
    show ?thesis
    proof (cases "rp_boot_id rec = []")
      case True
      then have "entries = []" using ok by (cases entries) (auto simp: record_ok_def)
      with True ok rec' b False show ?thesis by (auto simp: record_ok_def)
    next
      case nonempty: False
      have sub: "insert b (set ?prev) \<subseteq> B" and dist: "distinct (b # ?prev)"
        using ok nonempty new b False by (auto simp: record_ok_def)
      then have "length (b # ?prev) \<le> card B" using B(1) by (metis card_mono distinct_card list.simps(15))
      with B(2) have "length ?prev \<le> HISTORY_LIMIT" by simp
      then have "rp_previous rec' = ?prev" using rec' nonempty by (simp add: last_n_def)
      moreover have "fst x \<noteq> b" if "x \<in> set entries" for x using ok that new False by (auto simp: record_ok_def)
      ultimately show ?thesis using ok sub dist nonempty rec' b by (auto simp: record_ok_def sorted_wrt_append)
    qed
  qed
  then show "record_ok B entries rec'" "record_ok B (entries @ [(b, s)]) rec'" by simp_all
qed

text \<open>A record survives its file.\<close>

lemma parse_record_json: "parse_record cx (record_json rec) = Inr rec"
  by (simp add: parse_record_def record_json_def py_int_def py_elements_def py_str_def dict_get_def comp_def)

text \<open>The record of a node on disk, and the one in memory when it is there.\<close>

definition on_disk :: "string \<Rightarrow> receiver \<Rightarrow> replay_record \<Rightarrow> bool" where
  "on_disk n r rec = (map_of (hd_replay (hr_disk r)) n \<in> {Some (record_json rec)} \<union> (if rec = fresh_record then {None} else {}))"

definition receiver_ok :: "string \<Rightarrow> string set \<Rightarrow> (string \<times> int) list \<Rightarrow> receiver \<Rightarrow> bool" where
  "receiver_ok n B entries r = ((\<forall>k e. hd_faults (hr_disk r) k = Some e \<longrightarrow> \<not> is_value_error e)
     \<and> (\<exists>rec. record_ok B entries rec \<and> on_disk n r rec \<and> map_of (hr_records r) n \<in> {None, Some rec}))"

definition crashed_ok :: "string \<Rightarrow> string set \<Rightarrow> (string \<times> int) list \<Rightarrow> receiver \<Rightarrow> bool" where
  "crashed_ok n B entries r = ((\<forall>k e. hd_faults (hr_disk r) k = Some e \<longrightarrow> \<not> is_value_error e)
     \<and> (\<exists>rec. record_ok B entries rec \<and> on_disk n r rec))"

lemma on_disk_cong: "map_of (hd_replay (hr_disk r')) n = map_of (hd_replay (hr_disk r)) n \<Longrightarrow> on_disk n r' rec \<longleftrightarrow> on_disk n r rec"
  by (simp add: on_disk_def)

lemma on_disk_records [simp]: "on_disk n (r\<lparr>hr_records := recs\<rparr>) rec \<longleftrightarrow> on_disk n r rec"
  by (simp add: on_disk_def)

lemma on_disk_written: "map_of (hd_replay (hr_disk r)) n = Some (record_json rec) \<Longrightarrow> on_disk n r rec"
  by (simp add: on_disk_def)

lemma receiver_okI:
  "\<lbrakk>\<forall>k e. hd_faults (hr_disk r) k = Some e \<longrightarrow> \<not> is_value_error e; record_ok B entries rec; on_disk n r rec;
    map_of (hr_records r) n = None \<or> map_of (hr_records r) n = Some rec\<rbrakk> \<Longrightarrow> receiver_ok n B entries r"
  unfolding receiver_ok_def by blast

lemma crashed_okI:
  "\<lbrakk>\<forall>k e. hd_faults (hr_disk r) k = Some e \<longrightarrow> \<not> is_value_error e; record_ok B entries rec; on_disk n r rec\<rbrakk> \<Longrightarrow>
   crashed_ok n B entries r"
  unfolding crashed_ok_def by blast

lemma receiver_ok_crashed: "receiver_ok n B entries r \<Longrightarrow> crashed_ok n B entries r"
  by (auto simp: receiver_ok_def crashed_ok_def)

lemma restart_ok: "crashed_ok n B entries r \<Longrightarrow> receiver_ok n B entries (restart_receiver c r)"
  by (auto simp: receiver_ok_def crashed_ok_def restart_receiver_def on_disk_def)

lemma atomic_write_effect:
  assumes "atomic_write store r = (r', x)"
  shows "(x = Inr () \<and> r' = r\<lparr>hr_disk := store ((hr_disk r)\<lparr>hd_writes := Suc (hd_writes (hr_disk r))\<rparr>)\<rparr>)
    \<or> (\<exists>e. x = Inl e \<and> hd_faults (hr_disk r) (hd_writes (hr_disk r)) = Some e
        \<and> r' = r\<lparr>hr_disk := (hr_disk r)\<lparr>hd_writes := Suc (hd_writes (hr_disk r))\<rparr>\<rparr>)"
  using assms by (auto simp: atomic_write_def Let_def split: option.split_asm)

lemma load_record_ok:
  assumes ok: "receiver_ok n B L r" and run: "load_record cx k r = (r1, x)"
  shows "receiver_ok n B L r1" and "hr_disk r1 = hr_disk r"
    and "k = n \<Longrightarrow> \<exists>rec. x = Inr rec \<and> record_ok B L rec \<and> on_disk n r1 rec"
    and "hr_runtime r1 = hr_runtime r"
proof -
  obtain rec where rec: "record_ok B L rec" "on_disk n r rec" "map_of (hr_records r) n \<in> {None, Some rec}"
    and faults: "\<forall>k e. hd_faults (hr_disk r) k = Some e \<longrightarrow> \<not> is_value_error e"
    using ok by (auto simp: receiver_ok_def)
  have "receiver_ok n B L r1 \<and> hr_disk r1 = hr_disk r \<and> hr_runtime r1 = hr_runtime r
    \<and> (k = n \<longrightarrow> (\<exists>rec. x = Inr rec \<and> record_ok B L rec \<and> on_disk n r1 rec))"
  proof (cases "map_of (hr_records r) k")
    case (Some old)
    with run ok rec show ?thesis by (auto simp: load_record_def)
  next
    case None
    show ?thesis
    proof (cases "k = n")
      case True
      have "load_record cx n r = (r\<lparr>hr_records := AList.update n rec (hr_records r)\<rparr>, Inr rec)"
        using rec(2) None True by (auto simp: load_record_def on_disk_def parse_record_json split: if_split_asm)
      with run True have r1: "r1 = r\<lparr>hr_records := AList.update n rec (hr_records r)\<rparr>" "x = Inr rec" by simp_all
      then have disk: "on_disk n r1 rec" using rec(2) by (simp add: on_disk_def)
      have "receiver_ok n B L r1" by (rule receiver_okI[OF _ rec(1) disk]) (simp_all add: r1 faults update_conv)
      with r1 disk rec(1) show ?thesis by auto
    next
      case False
      have "\<exists>y. load_record cx k r = (r, Inl y) \<or> (\<exists>rec'. load_record cx k r = (r\<lparr>hr_records := AList.update k rec' (hr_records r)\<rparr>, Inr rec'))"
        using None by (auto simp: load_record_def split: option.split sum.split)
      with run consider "r1 = r" | rec' where "r1 = r\<lparr>hr_records := AList.update k rec' (hr_records r)\<rparr>" by auto
      then show ?thesis
      proof cases
        case 2
        have "receiver_ok n B L r1"
          using rec(3) False by (intro receiver_okI[OF _ rec(1)]) (auto simp: 2 faults update_conv rec(2))
        with 2 False show ?thesis by simp
      qed (use ok False in simp)
    qed
  qed
  then show "receiver_ok n B L r1" "hr_disk r1 = hr_disk r" "hr_runtime r1 = hr_runtime r"
    "k = n \<Longrightarrow> \<exists>rec. x = Inr rec \<and> record_ok B L rec \<and> on_disk n r1 rec" by simp_all
qed

lemma write_replay_ok:
  assumes run: "write_replay k (record_json rec') r = (r', x)"
    and faults: "\<forall>k e. hd_faults (hr_disk r) k = Some e \<longrightarrow> \<not> is_value_error e"
  shows "(\<forall>k e. hd_faults (hr_disk r') k = Some e \<longrightarrow> \<not> is_value_error e) \<and> hr_records r' = hr_records r
    \<and> (x = Inr () \<and> hd_replay (hr_disk r') = AList.update k (record_json rec') (hd_replay (hr_disk r))
      \<or> (\<exists>e. x = Inl e \<and> \<not> is_value_error e \<and> hd_replay (hr_disk r') = hd_replay (hr_disk r)))"
  using atomic_write_effect[OF run[unfolded write_replay_def]] faults by auto

lemma accept_heartbeat_ok:
  assumes ok: "receiver_ok n B L r" and run: "accept_heartbeat cx p r = (r', x)"
    and B: "finite B" "card B \<le> HISTORY_LIMIT + 1"
    and b: "text_field p ''boot_id'' \<noteq> []" "text_field p ''node_id'' = n \<Longrightarrow> text_field p ''boot_id'' \<in> B"
  shows "case x of
      Inr _ \<Rightarrow> receiver_ok n B L r' \<and> receiver_ok n B
        (if text_field p ''node_id'' = n then L @ [(text_field p ''boot_id'', int_field p ''seq'')] else L) r'
    | Inl e \<Rightarrow> if is_value_error e then receiver_ok n B L r' else crashed_ok n B L r'"
proof -
  let ?k = "text_field p ''node_id''" let ?b = "text_field p ''boot_id''" let ?s = "int_field p ''seq''"
  obtain r1 y where load: "load_record cx ?k r = (r1, y)" by fastforce
  note l = load_record_ok[OF ok load]
  have faults: "\<forall>k e. hd_faults (hr_disk r1) k = Some e \<longrightarrow> \<not> is_value_error e" using l(1) by (simp add: receiver_ok_def)
  show ?thesis
  proof (cases y)
    case (Inl e)
    with run load have "r' = r1" "x = Inl e" by (simp_all add: accept_heartbeat_def op_bind_def Let_def)
    with l(1) show ?thesis by (auto simp: receiver_ok_crashed)
  next
    case (Inr rec)
    show ?thesis
    proof (cases "advance_record ?b ?s rec")
      case (Inl e)
      with run load Inr have "r' = r1" "x = Inl e" by (simp_all add: accept_heartbeat_def op_bind_def Let_def)
      with l(1) show ?thesis by (auto simp: receiver_ok_crashed)
    next
      case adv: (Inr rec')
      let ?r2 = "r1\<lparr>hr_records := AList.update ?k rec' (hr_records r1)\<rparr>"
      have w: "write_replay ?k (record_json rec') ?r2 = (r', x)"
        using run load Inr adv by (simp add: accept_heartbeat_def op_bind_def Let_def)
      note w' = write_replay_ok[OF w]
      show ?thesis
      proof (cases "?k = n")
        case True
        with l(3) Inr have rec: "record_ok B L rec" "on_disk n r1 rec" by auto
        note adv' = advance_record_ok[OF rec(1) adv b(2)[OF True] b(1) B]
        have "receiver_ok n B M r'" if "x = Inr u" "record_ok B M rec'" for M u
          using w' that True by (intro receiver_okI[OF _ that(2)]) (auto simp: faults update_conv intro: on_disk_written)
        moreover have "crashed_ok n B L r'" if "x = Inl e" for e
          using w' that faults rec(2) by (intro crashed_okI[OF _ rec(1)]) (auto simp: on_disk_cong[of r' n r1])
        moreover have "\<not> is_value_error e" if "x = Inl e" for e using w' faults that by auto
        ultimately show ?thesis using adv' True by (auto split: sum.split)
      next
        case False
        obtain rec0 where rec0: "record_ok B L rec0" "on_disk n r1 rec0" "map_of (hr_records r1) n \<in> {None, Some rec0}"
          using l(1) by (auto simp: receiver_ok_def)
        have "map_of (hd_replay (hr_disk r')) n = map_of (hd_replay (hr_disk r1)) n" "map_of (hr_records r') n = map_of (hr_records r1) n"
          using w' faults False by (auto simp: update_conv)
        with w' faults rec0 have "receiver_ok n B L r'" by (intro receiver_okI[OF _ rec0(1)]) (auto simp: on_disk_cong[of r' n r1])
        with False show ?thesis by (auto simp: receiver_ok_crashed split: sum.split)
      qed
    qed
  qed
qed

lemma receiver_ok_runtime [simp]:
  "receiver_ok n B L (r\<lparr>hr_runtime := rt\<rparr>) \<longleftrightarrow> receiver_ok n B L r" "crashed_ok n B L (r\<lparr>hr_runtime := rt\<rparr>) \<longleftrightarrow> crashed_ok n B L r"
  by (simp_all add: receiver_ok_def crashed_ok_def on_disk_def)

lemma receiver_ok_cong:
  "\<lbrakk>hr_records r' = hr_records r; hd_replay (hr_disk r') = hd_replay (hr_disk r); hd_faults (hr_disk r') = hd_faults (hr_disk r)\<rbrakk>
    \<Longrightarrow> receiver_ok n B L r' \<longleftrightarrow> receiver_ok n B L r"
  by (simp add: receiver_ok_def on_disk_def)

lemma write_node_ok:
  assumes "receiver_ok n B L r" and "write_node k v r = (r', x)"
  shows "receiver_ok n B L r'" and "x = Inl e \<Longrightarrow> \<not> is_value_error e"
proof -
  note w = atomic_write_effect[OF assms(2)[unfolded write_node_def]]
  then have "receiver_ok n B L r' \<longleftrightarrow> receiver_ok n B L r" by (intro receiver_ok_cong) auto
  with assms(1) show "receiver_ok n B L r'" by simp
  show "x = Inl e \<Longrightarrow> \<not> is_value_error e" using w assms(1) by (auto simp: receiver_ok_def)
qed

lemma decode_fields:
  assumes "decode_and_authenticate cx keys d src = Inr p"
  shows "text_field p ''boot_id'' \<noteq> []"
proof -
  have "heartbeat_fields_ok p" using decode_authentic[OF assms] by (auto simp: authentic_def)
  then obtain b where "vget p ''boot_id'' = VStr b" "is_boot_id b" by (auto simp: heartbeat_fields_ok_def)
  then show ?thesis by (auto simp: text_field_def is_boot_id_def)
qed

lemma process_datagram_ok:
  assumes ok: "receiver_ok n B L r" and dec: "decode_and_authenticate (hk_codec c) (hk_keys c) d src = Inr p"
    and run: "process_datagram c now ms d src r = (r', x)"
    and B: "finite B" "card B \<le> HISTORY_LIMIT + 1" and b: "text_field p ''node_id'' = n \<Longrightarrow> text_field p ''boot_id'' \<in> B"
  shows "case x of
      Inr _ \<Rightarrow> receiver_ok n B (if text_field p ''node_id'' = n then L @ [(text_field p ''boot_id'', int_field p ''seq'')] else L) r'
    | Inl e \<Rightarrow> if is_value_error e then receiver_ok n B L r' else crashed_ok n B L r'"
proof -
  obtain r1 y where acc: "accept_heartbeat (hk_codec c) p r = (r1, y)" by fastforce
  note a = accept_heartbeat_ok[OF ok acc B decode_fields[OF dec] b]
  show ?thesis
  proof (cases y)
    case (Inl e)
    with run dec acc have "r' = r1" "x = Inl e" by (simp_all add: process_datagram_def op_bind_def)
    with a Inl show ?thesis by simp
  next
    case (Inr u)
    let ?n = "text_field p ''node_id''"
    let ?r2 = "r1\<lparr>hr_runtime := AList.update ?n \<lparr>nr_last_received = now, nr_online = True, nr_payload = Some p\<rparr> (hr_runtime r1)\<rparr>"
    let ?v = "VDict [(''online'', VBool True), (''received_unix_ms'', VInt ms), (''source_ip'', VStr src), (''heartbeat'', VDict p)]"
    obtain r3 z where w: "write_node ?n ?v ?r2 = (r3, z)" by fastforce
    with run dec acc Inr have r': "r' = r3" "x = (case z of Inl e \<Rightarrow> Inl e | Inr _ \<Rightarrow> Inr ?v)"
      by (cases z; simp add: process_datagram_def op_bind_def Let_def)+
    let ?L = "if ?n = n then L @ [(text_field p ''boot_id'', int_field p ''seq'')] else L"
    from a Inr have keep: "receiver_ok n B L ?r2" "receiver_ok n B ?L ?r2" by simp_all
    from write_node_ok(1)[OF keep(1) w] write_node_ok(1)[OF keep(2) w] write_node_ok(2)[OF keep(1) w] r'
    show ?thesis by (cases z) (simp_all add: receiver_ok_crashed)
  qed
qed

lemma expire_nodes_ok:
  assumes "receiver_ok n B L r" and "expire_nodes c now ms ns r = (r', x)"
  shows "receiver_ok n B L r'"
  using assms
proof (induction ns arbitrary: r r' x)
  case (Cons k ks)
  show ?case
  proof (cases "map_of (hr_runtime r) k")
    case None
    with Cons show ?thesis by simp
  next
    case (Some rt)
    show ?thesis
    proof (cases "is_stale c now rt")
      case False
      with Some Cons show ?thesis by simp
    next
      case True
      let ?r1 = "r\<lparr>hr_runtime := AList.update k (rt\<lparr>nr_online := False\<rparr>) (hr_runtime r)\<rparr>"
      let ?v = "VDict [(''online'', VBool False), (''received_unix_ms'', VInt ms),
              (''heartbeat'', case nr_payload rt of None \<Rightarrow> VNone | Some p \<Rightarrow> VDict p)]"
      obtain r2 y where w: "write_node k ?v ?r1 = (r2, y)" by fastforce
      have r2: "receiver_ok n B L r2" using write_node_ok(1)[OF _ w] Cons.prems(1) by simp
      obtain r3 z where e: "expire_nodes c now ms ks r2 = (r3, z)" by fastforce
      have "receiver_ok n B L r3" by (rule Cons.IH[OF r2 e])
      moreover have "r' = (case y of Inl _ \<Rightarrow> r2 | Inr _ \<Rightarrow> r3)"
        using Cons.prems(2) Some True w e by (cases y; cases z) (simp_all add: op_bind_def)
      ultimately show ?thesis using r2 by (simp split: sum.split)
    qed
  qed
qed simp

lemma node_log_append: "node_log n (xs @ ys) = node_log n xs @ node_log n ys"
  by (simp add: node_log_def)

lemma hb_step_ok:
  assumes ok: "receiver_ok n B (node_log n entries) r" and run: "hb_step c e (r, entries) = (r', entries')"
    and B: "finite B" "card B \<le> HISTORY_LIMIT + 1" and b: "set (session_of c n e) \<subseteq> B"
  shows "receiver_ok n B (node_log n entries') r'"
proof (cases e)
  case (Datagram now ms d src)
  obtain r1 x where p: "process_datagram c now ms d src r = (r1, x)" by fastforce
  show ?thesis
  proof (cases "decode_and_authenticate (hk_codec c) (hk_keys c) d src")
    case (Inl e)
    with p have "r1 = r" "x = Inl e" by (simp_all add: process_datagram_def op_bind_def)
    with run Datagram p Inl ok show ?thesis by (auto simp: hb_step_def restart_ok receiver_ok_crashed split: if_split_asm)
  next
    case (Inr payload)
    with b Datagram have "text_field payload ''node_id'' = n \<Longrightarrow> text_field payload ''boot_id'' \<in> B" by (simp add: session_of_def)
    note q = process_datagram_ok[OF ok Inr p B this]
    have "node_log n [heartbeat_key payload] = (if text_field payload ''node_id'' = n
        then [(text_field payload ''boot_id'', int_field payload ''seq'')] else [])"
      by (simp add: node_log_def heartbeat_key_def)
    with q run Datagram p Inr show ?thesis
      by (cases x) (auto simp: hb_step_def node_log_append restart_ok split: if_split_asm)
  qed
next
  case (Expiry now ms)
  obtain r1 x where p: "expire_stale_nodes c now ms r = (r1, x)" by fastforce
  then have "receiver_ok n B (node_log n entries) r1" unfolding expire_stale_nodes_def by (rule expire_nodes_ok[OF ok])
  with run Expiry p show ?thesis by (cases x) (auto simp: hb_step_def restart_ok receiver_ok_crashed)
next
  case Restart
  with run ok show ?thesis by (auto simp: hb_step_def restart_ok receiver_ok_crashed)
qed

lemma hb_run_ok:
  assumes "receiver_ok n B (node_log n entries) r" and "fold (hb_step c) es (r, entries) = (r', entries')"
    and "finite B" "card B \<le> HISTORY_LIMIT + 1" and "set (boot_sessions c n es) \<subseteq> B"
  shows "receiver_ok n B (node_log n entries') r'"
  using assms
proof (induction es arbitrary: r entries)
  case (Cons e es)
  obtain r1 entries1 where s: "hb_step c e (r, entries) = (r1, entries1)" by fastforce
  from Cons.prems(5) have "set (session_of c n e) \<subseteq> B" "set (boot_sessions c n es) \<subseteq> B" by (auto simp: boot_sessions_def)
  with Cons.IH[OF hb_step_ok[OF Cons.prems(1) s Cons.prems(3,4)]] s Cons.prems show ?case by simp
qed simp

text \<open>C28: A heartbeat is never accepted twice. Starting on an empty state directory, for every sequence of
  datagrams, expiries, restarts and failing writes in which the authentic datagrams of a node name at most nine boot
  sessions, the heartbeats accepted from this node have, within each boot session, strictly increasing
  sequence numbers, in the order they were accepted and across restarts.\<close>

theorem heartbeat_no_replay:
  assumes "new_receiver c disk = Inr r0" and "hd_replay disk = []"
    and "\<forall>k e. hd_faults disk k = Some e \<longrightarrow> (\<exists>m. e = OSError m)"
    and "fold (hb_step c) es (r0, []) = (r, accepted)" and "length (boot_sessions c n es) \<le> 9"
  shows "sorted_wrt (\<lambda>(b, s) (b', s'). b = b' \<longrightarrow> s < s') (map snd (filter (\<lambda>x. fst x = n) accepted))"
proof -
  let ?B = "set (boot_sessions c n es)"
  have r0: "r0 = \<lparr>hr_records = [], hr_runtime = fresh_runtime (hk_keys c), hr_disk = disk\<rparr>"
    using assms(1) by (simp add: new_receiver_def split: if_split_asm)
  have "\<not> is_value_error e" if "hd_faults disk k = Some e" for k e
    using assms(3)[rule_format, OF that] by (elim exE) simp
  then have faults: "\<forall>k e. hd_faults (hr_disk r0) k = Some e \<longrightarrow> \<not> is_value_error e" by (simp add: r0)
  have "record_ok ?B (node_log n []) fresh_record" using record_ok_start by (simp add: node_log_def)
  moreover have "on_disk n r0 fresh_record" using assms(2) by (simp add: on_disk_def r0)
  ultimately have start: "receiver_ok n ?B (node_log n []) r0"
    by (rule receiver_okI[OF faults]) (simp add: r0)
  have "card ?B \<le> HISTORY_LIMIT + 1" using assms(5) card_length[of "boot_sessions c n es"] by (simp add: HISTORY_LIMIT_def)
  from hb_run_ok[OF start assms(4) finite_set this subset_refl]
  obtain rec where "record_ok ?B (node_log n accepted) rec" by (auto simp: receiver_ok_def)
  then have "sorted_wrt (\<lambda>x y. fst x = fst y \<longrightarrow> snd x < snd y) (node_log n accepted)" by (simp add: record_ok_def)
  then show ?thesis
    unfolding node_log_def by (rule sorted_wrt_mono_rel[rotated]) (auto split: prod.split)
qed

lemma no_repetition: "sorted_wrt (\<lambda>(b, s) (b', s'). b = b' \<longrightarrow> s < s') (xs :: ('a \<times> int) list) \<Longrightarrow> distinct xs"
  by (induction xs) auto

text \<open>The frame is sent, the receiver restarts, and the frame is sent again.\<close>

definition demo_hb_config :: hb_config where
  "demo_hb_config = \<lparr>hk_keys = [(''node-1'', demo_key)], hk_stale_after = Fin 35, hk_codec = demo_hb_codec\<rparr>"

definition demo_datagram :: hb_event where
  "demo_datagram = Datagram (Fin 1) 1000 (encode_frame demo_hb_codec demo_body (nk_hmac_key demo_key)) ''10.55.0.21''"

definition demo_disk :: hb_disk where
  "demo_disk = \<lparr>hd_replay = [], hd_nodes = [], hd_faults = (\<lambda>_. None), hd_writes = 0\<rparr>"

definition demo_receiver :: receiver where
  "demo_receiver = \<lparr>hr_records = [], hr_runtime = fresh_runtime (hk_keys demo_hb_config), hr_disk = demo_disk\<rparr>"

lemma demo_session: "session_of demo_hb_config ''node-1'' demo_datagram = [''00000000000000a1'']"
proof -
  have "decode_and_authenticate demo_hb_codec [(''node-1'', demo_key)]
     (encode_frame demo_hb_codec demo_body (nk_hmac_key demo_key)) ''10.55.0.21'' = Inr demo_heartbeat"
    by (rule decode_encoded[OF demo_frame(1-6,10,7-9)])
  moreover have "text_field demo_heartbeat ''node_id'' = ''node-1''" "text_field demo_heartbeat ''boot_id'' = ''00000000000000a1''"
    by (simp_all add: text_field_def demo_heartbeat_def vget_def dict_get_def)
  ultimately show ?thesis by (simp add: session_of_def demo_datagram_def demo_hb_config_def)
qed

theorem heartbeat_no_replay_witness:
  "boot_sessions demo_hb_config ''node-1'' [demo_datagram, Restart, demo_datagram] = [''00000000000000a1'']
   \<and> distinct (map snd (filter (\<lambda>x. fst x = ''node-1'')
        (snd (fold (hb_step demo_hb_config) [demo_datagram, Restart, demo_datagram] (demo_receiver, [])))))"
proof -
  have s: "boot_sessions demo_hb_config ''node-1'' [demo_datagram, Restart, demo_datagram] = [''00000000000000a1'']"
    by (simp add: boot_sessions_def demo_session) (simp add: session_of_def)
  have "new_receiver demo_hb_config demo_disk = Inr demo_receiver"
    by (simp add: new_receiver_def demo_receiver_def demo_hb_config_def)
  from heartbeat_no_replay[OF this _ _ prod.collapse[symmetric], where es = "[demo_datagram, Restart, demo_datagram]" and n = "''node-1''"] s
  have "sorted_wrt (\<lambda>(b, s) (b', s'). b = b' \<longrightarrow> s < s') (map snd (filter (\<lambda>x. fst x = ''node-1'')
        (snd (fold (hb_step demo_hb_config) [demo_datagram, Restart, demo_datagram] (demo_receiver, [])))))"
    by (simp add: demo_disk_def)
  with s show ?thesis by (intro conjI no_repetition)
qed

subsection \<open>The tenth boot session\<close>

text \<open>The record keeps the last eight closed sessions. After nine further sessions a heartbeat of the first one
  is accepted again.\<close>

definition session_name :: "nat \<Rightarrow> string" where
  "session_name i = replicate 15 (CHR ''0'') @ [digit_char i]"

definition after_sessions :: "nat \<Rightarrow> replay_record result" where
  "after_sessions k = fold (\<lambda>i rec. rbind rec (advance_record (session_name i) 5)) [0..<k] (Inr fresh_record)"

lemma tenth_session_replayed:
  "rbind (after_sessions 9) (advance_record (session_name 0) 5) = Inl (ValueError ''heartbeat belongs to a previously closed boot session'')"
  "is_ok (rbind (after_sessions 10) (advance_record (session_name 0) 5))"
  by code_simp+

end
