(* ===== verification/Server.thy ===== *)
theory Server
  imports Alerting
begin

section \<open>The command server\<close>

text \<open>
  Models \<open>runtime/server.py\<close>: one request of a client of the Unix socket, dispatched to the composed service, its
  reply or error, the confirmation of a Zigbee removal with its expiry, and the periodic health check.
  Sockets are the request that was read, or the exception of reading and decoding it; \<open>to_dict()\<close> of what is replied and the type name in the error of a request that is no object are left out.
  The clock, the fresh ids, \<open>str()\<close>
  of a JSON value, \<open>float()\<close> of a text and what other tasks do while a call runs in a thread are inputs.
  Times are microseconds since the epoch: formatting a time with \<open>isoformat\<close> and parsing it again
  gives it back.
\<close>

subsection \<open>State and replies\<close>

record removal =
  rm_confirmation_id :: string
  rm_message :: string
  rm_device_id :: string
  rm_friendly_name :: string
  rm_role :: "string option"
  rm_created_at :: int
  rm_expires_at :: int
  rm_last_error :: "string option"
  rm_last_error_at :: "int option"

record ('w, 's) server =
  sr_service :: "('w, 's) alerting"
  sr_pending :: "removal option"
  sr_shutdown :: bool

record ('w, 's) server_inputs =
  si_clock :: "nat \<Rightarrow> clock"
  si_now :: "nat \<Rightarrow> int"
  si_uuid :: string
  si_str :: "py_value \<Rightarrow> string"
  si_float_text :: "string \<Rightarrow> py_float option"
  si_aero_env :: "'w service \<Rightarrow> 'w service"
  si_during :: "('w, 's) server \<Rightarrow> ('w, 's) server"

datatype server_reply =
    ReplyState core_state
  | ReplySchedule schedule_configuration "core_state option"
  | ReplyAlerts "alert_record list" "alert_record list"
  | ReplyAcknowledged alert_record core_state
  | ReplySensors "sensor_bus_state option"
  | ReplyAero "aero_bus_state option"
  | ReplyAeroControl aero_control_result
  | ReplyZigbee py_value core_state
  | ReplyConfirmation "removal option"
  | ReplyConfirmationRequired removal core_state
  | ReplyCancelled string string core_state
  | ReplyRemoved py_value string core_state

text \<open>The \<open>ok\<close> field of a reply.\<close>

definition reply_ok :: "server_reply \<Rightarrow> bool" where
  "reply_ok r = (case r of ReplyAeroControl result \<Rightarrow> aero_succeeded result | _ \<Rightarrow> True)"

definition on_service :: "(('w, 's) alerting, 'a) op \<Rightarrow> (('w, 's) server, 'a) op" where
  "on_service m s = (let (av, r) = m (sr_service s) in (s\<lparr>sr_service := av\<rparr>, r))"

definition set_pending :: "removal option \<Rightarrow> (('w, 's) server, unit) op" where
  "set_pending p s = (s\<lparr>sr_pending := p\<rparr>, Inr ())"

text \<open>\<open>_current_zigbee_remove_confirmation\<close>: an expired confirmation is dropped.\<close>

definition current_confirmation :: "int \<Rightarrow> (('w, 's) server, removal option) op" where
  "current_confirmation now s = (case sr_pending s of
     None \<Rightarrow> (s, Inr None)
   | Some p \<Rightarrow> if rm_expires_at p \<le> now then (s\<lparr>sr_pending := None\<rparr>, Inr None) else (s, Inr (Some p)))"

subsection \<open>Arguments of a request\<close>

definition get_state :: "('w, 's) alerting_config \<Rightarrow> ('w, 's) server_inputs \<Rightarrow> nat \<Rightarrow> (('w, 's) server, core_state) op" where
  "get_state c i k = on_service (alerting_state c (si_clock i k))"

text \<open>\<open>isinstance(v, str) and v.strip()\<close>, stripped.\<close>

definition stripped_arg :: "(string \<times> py_value) list \<Rightarrow> string \<Rightarrow> string \<Rightarrow> string result" where
  "stripped_arg request key message = (case vget request key of
     VStr s \<Rightarrow> if py_strip s = [] then Inl (ValueError message) else Inr (py_strip s) | _ \<Rightarrow> Inl (ValueError message))"

definition int_arg :: "py_value \<Rightarrow> (int \<Rightarrow> bool) \<Rightarrow> string \<Rightarrow> int result" where
  "int_arg v good message = (case v of VInt n \<Rightarrow> if good n then Inr n else Inl (ValueError message) | _ \<Rightarrow> Inl (ValueError message))"

text \<open>\<open>request[key]\<close> and \<open>float(v)\<close>.\<close>

definition required_arg :: "(string \<times> py_value) list \<Rightarrow> string \<Rightarrow> py_value result" where
  "required_arg request key = (case map_of request key of None \<Rightarrow> Inl (KeyError (py_repr_str key)) | Some v \<Rightarrow> Inr v)"

definition float_arg :: "(string \<Rightarrow> py_float option) \<Rightarrow> py_value \<Rightarrow> py_float result" where
  "float_arg float_text v = (case v of
     VFloat f \<Rightarrow> Inr f
   | VInt n \<Rightarrow> (case to_float (of_int n) of Fin x \<Rightarrow> Inr (Fin x) | _ \<Rightarrow> Inl (OtherException ''int too large to convert to float''))
   | VBool b \<Rightarrow> Inr (Fin (if b then 1 else 0))
   | VStr s \<Rightarrow> (case float_text s of Some f \<Rightarrow> Inr f
       | None \<Rightarrow> Inl (ValueError (''could not convert string to float: '' @ py_repr_str s)))
   | _ \<Rightarrow> Inl (TypeError ''float() argument must be a string or a real number''))"

subsection \<open>The commands\<close>

definition cmd_schedule_replace :: "('w, 's) alerting_config \<Rightarrow> ('w, 's) server_inputs \<Rightarrow> (string \<times> py_value) list \<Rightarrow>
    (('w, 's) server, server_reply) op" where
  "cmd_schedule_replace c i request = (case vget request ''zone'' of
     VStr zone \<Rightarrow>
       if zone = [] then op_raise (ValueError ''Schedule zone must be non-empty text'')
       else (case vget request ''windows'' of
         VList raw \<Rightarrow> op_bind (op_lift (map_result (window_from_payload (si_str i) zone) raw)) (\<lambda>windows.
           op_bind (on_service (on_core (service_replace_schedule (ac_ports c) zone windows))) (\<lambda>schedule.
           op_bind (get_state c i 0) (\<lambda>st. op_return (ReplySchedule schedule (Some st)))))
       | _ \<Rightarrow> op_raise (ValueError ''Schedule windows must be a JSON list''))
   | _ \<Rightarrow> op_raise (ValueError ''Schedule zone must be non-empty text''))"

definition cmd_alerts :: "('w, 's) alerting_config \<Rightarrow> (string \<times> py_value) list \<Rightarrow> (('w, 's) server, server_reply) op" where
  "cmd_alerts c request =
     op_bind (op_lift (int_arg (dict_get request ''limit'' (VInt 200)) (\<lambda>n. 1 \<le> n \<and> n \<le> 1000)
       ''Alert history limit must be an integer in range 1..1000'')) (\<lambda>limit.
     op_bind (on_service (on_registry (active_records (ac_store c)))) (\<lambda>active.
     op_bind (on_service (on_registry (alert_history (ac_store c) limit))) (\<lambda>history.
     op_return (ReplyAlerts active history))))"

definition cmd_ack_alert :: "('w, 's) alerting_config \<Rightarrow> ('w, 's) server_inputs \<Rightarrow> (string \<times> py_value) list \<Rightarrow>
    (('w, 's) server, server_reply) op" where
  "cmd_ack_alert c i request =
     op_bind (op_lift (int_arg (vget request ''alert_id'') (\<lambda>n. 1 \<le> n) ''alert_id must be a positive integer'')) (\<lambda>n.
     op_bind (on_service (acknowledge_alert c (si_clock i 0) n)) (\<lambda>record.
     op_bind (get_state c i 1) (\<lambda>st. op_return (ReplyAcknowledged record st))))"

definition aero_command :: "('w, 's) alerting_config \<Rightarrow> ('w, 's) server_inputs \<Rightarrow> aero_control_command result \<Rightarrow>
    (('w, 's) server, server_reply) op" where
  "aero_command c i cmd = op_bind (op_lift cmd) (\<lambda>cmd.
     op_bind (on_service (on_core (control_aero (ac_ports c) (si_aero_env i) cmd))) (\<lambda>result. op_return (ReplyAeroControl result)))"

definition cmd_aero_speed :: "('w, 's) alerting_config \<Rightarrow> ('w, 's) server_inputs \<Rightarrow> (string \<times> py_value) list \<Rightarrow>
    (('w, 's) server, server_reply) op" where
  "cmd_aero_speed c i request = aero_command c i (rbind (required_arg request ''speed'') (\<lambda>v.
     rbind (int_arg v (\<lambda>_. True) ''AERO speed must be an integer 0..3'') aero_set_speed))"

definition cmd_aero_airing :: "('w, 's) alerting_config \<Rightarrow> ('w, 's) server_inputs \<Rightarrow> (string \<times> py_value) list \<Rightarrow>
    (('w, 's) server, server_reply) op" where
  "cmd_aero_airing c i request = aero_command c i (rbind (required_arg request ''enabled'') (\<lambda>v. case v of
     VBool b \<Rightarrow> aero_set_airing b | _ \<Rightarrow> Inl (ValueError ''AERO airing state must be boolean'')))"

text \<open>A management call of the Zigbee layer, with the state after it.\<close>

definition zigbee_managed :: "('w, 's) alerting_config \<Rightarrow> ('w, 's) server_inputs \<Rightarrow> ('w zigbee_port \<Rightarrow> ('w, py_value) op) \<Rightarrow>
    (('w, 's) server, server_reply) op" where
  "zigbee_managed c i m = op_bind (on_service (zigbee_command c m)) (\<lambda>result.
     op_bind (get_state c i 0) (\<lambda>st. op_return (ReplyZigbee result st)))"

definition cmd_permit_join :: "('w, 's) alerting_config \<Rightarrow> ('w, 's) server_inputs \<Rightarrow> (string \<times> py_value) list \<Rightarrow>
    (('w, 's) server, server_reply) op" where
  "cmd_permit_join c i request =
     op_bind (op_lift (int_arg (vget request ''seconds'') (\<lambda>n. 0 \<le> n \<and> n \<le> 254)
       ''Zigbee permit-join seconds must be an integer in range 0..254'')) (\<lambda>n. zigbee_managed c i (\<lambda>z. zb_permit_join z n))"

definition cmd_ack_pairing :: "('w, 's) alerting_config \<Rightarrow> ('w, 's) server_inputs \<Rightarrow> (string \<times> py_value) list \<Rightarrow>
    (('w, 's) server, server_reply) op" where
  "cmd_ack_pairing c i request =
     op_bind (op_lift (stripped_arg request ''ieee_address'' ''Zigbee pairing ieee_address must be a non-empty string''))
       (\<lambda>ieee. zigbee_managed c i (\<lambda>z. zb_acknowledge_pairing z ieee))"

text \<open>Asking for a removal: the device must be known and not the coordinator, and one confirmation is open at a time.\<close>

definition role_of_device :: "zigbee_mqtt_state \<Rightarrow> string \<Rightarrow> string option" where
  "role_of_device z ieee =
     (case (case find (\<lambda>r. zl_ieee_address r = ieee) (zm_sensor_list z) of None \<Rightarrow> None | Some r \<Rightarrow> zl_role r) of
        Some role \<Rightarrow> Some role
      | None \<Rightarrow> map_option zd_role (find (\<lambda>d. zd_ieee_address d = Some ieee) (zm_devices z)))"

definition new_removal :: "('w, 's) server_inputs \<Rightarrow> zigbee_mqtt_state \<Rightarrow> zigbee_inventory_device \<Rightarrow> removal" where
  "new_removal i z d = \<lparr>rm_confirmation_id = si_uuid i,
     rm_message = (''Czy na pewno usun'' @ [CHR 0xC4, CHR 0x85] @ [CHR 0xC4, CHR 0x87] @ '' urz'' @ [CHR 0xC4, CHR 0x85] @ ''dzenie '') @ zi_friendly_name d @ ''?'',
     rm_device_id = zi_ieee_address d, rm_friendly_name = zi_friendly_name d,
     rm_role = role_of_device z (zi_ieee_address d), rm_created_at = si_now i 1, rm_expires_at = si_now i 1 + 120000000,
     rm_last_error = None, rm_last_error_at = None\<rparr>"

definition cmd_request_removal :: "('w, 's) alerting_config \<Rightarrow> ('w, 's) server_inputs \<Rightarrow> (string \<times> py_value) list \<Rightarrow>
    (('w, 's) server, server_reply) op" where
  "cmd_request_removal c i request =
     op_bind (op_lift (stripped_arg request ''device_id'' ''Zigbee device_id must be a non-empty string'')) (\<lambda>needle.
     op_bind (get_state c i 0) (\<lambda>st. case cs_zigbee st of
       None \<Rightarrow> op_raise (RuntimeError ''Zigbee management is not configured'')
     | Some z \<Rightarrow> (case find (\<lambda>d. needle = zi_ieee_address d \<or> needle = zi_friendly_name d) (zm_inventory z) of
         None \<Rightarrow> op_raise (ValueError (''Unknown Zigbee device: '' @ needle))
       | Some d \<Rightarrow>
           if is_coordinator d then op_raise (ValueError ''Zigbee coordinator cannot be removed'')
           else op_bind (current_confirmation (si_now i 0)) (\<lambda>existing. case existing of
             Some p \<Rightarrow>
               if rm_device_id p \<noteq> zi_ieee_address d
               then op_raise (RuntimeError ''Another Zigbee device removal is already awaiting operator confirmation'')
               else op_return (ReplyConfirmationRequired p st)
           | None \<Rightarrow> op_bind (set_pending (Some (new_removal i z d))) (\<lambda>_.
               op_return (ReplyConfirmationRequired (new_removal i z d) st))))))"

text \<open>The operator's answer. While the removal runs in its thread other tasks go on.\<close>

definition contains :: "string \<Rightarrow> string \<Rightarrow> bool" where
  "contains needle s = (\<exists>k \<in> set [0..<Suc (length s)]. take (length needle) (drop k s) = needle)"

definition operator_error :: "string \<Rightarrow> string" where
  "operator_error raw =
     (if contains ''mgmtLeaveRsp'' raw \<or> contains ''Failed to remove device'' raw
      then (''Urz'' @ [CHR 0xC4, CHR 0x85] @ ''dzenie nie odpowiedzia'' @ [CHR 0xC5, CHR 0x82] @ ''o. Wybud'' @ [CHR 0xC5, CHR 0xBA] @ '' je kr'' @ [CHR 0xC3, CHR 0xB3] @ ''tkim naci'' @ [CHR 0xC5, CHR 0x9B] @ ''ni'' @ [CHR 0xC4, CHR 0x99] @ ''ciem przycisku i pon'' @ [CHR 0xC3, CHR 0xB3] @ ''w usuwanie.'')
      else (''Usuni'' @ [CHR 0xC4, CHR 0x99] @ ''cie urz'' @ [CHR 0xC4, CHR 0x85] @ ''dzenia Zigbee nie powiod'' @ [CHR 0xC5, CHR 0x82] @ ''o si'' @ [CHR 0xC4, CHR 0x99] @ '': '') @ raw)"

definition run_removal :: "('w, 's) alerting_config \<Rightarrow> ('w, 's) server_inputs \<Rightarrow> removal \<Rightarrow> (('w, 's) server, py_value) op" where
  "run_removal c i p s =
     (let (s1, r) = on_service (zigbee_command c (\<lambda>z. zb_remove_device z (rm_device_id p))) s; s2 = si_during i s1
      in case r of
           Inr result \<Rightarrow> (s2\<lparr>sr_pending := None\<rparr>, Inr result)
         | Inl e \<Rightarrow> (s2\<lparr>sr_pending := Some (p\<lparr>rm_last_error := Some (operator_error (exc_str e)),
              rm_last_error_at := Some (si_now i 1)\<rparr>)\<rparr>, Inl (RuntimeError (operator_error (exc_str e)))))"

definition cmd_resolve_removal :: "('w, 's) alerting_config \<Rightarrow> ('w, 's) server_inputs \<Rightarrow> (string \<times> py_value) list \<Rightarrow>
    (('w, 's) server, server_reply) op" where
  "cmd_resolve_removal c i request =
     op_bind (op_lift (stripped_arg request ''confirmation_id'' ''confirmation_id must be a non-empty string'')) (\<lambda>cid.
     case vget request ''confirmed'' of
       VBool confirmed \<Rightarrow> op_bind (current_confirmation (si_now i 0)) (\<lambda>pending. case pending of
           None \<Rightarrow> op_raise (RuntimeError ''No active Zigbee removal confirmation'')
         | Some p \<Rightarrow>
             if rm_confirmation_id p \<noteq> cid then op_raise (ValueError ''Zigbee removal confirmation id does not match'')
             else if \<not> confirmed
             then op_bind (set_pending None) (\<lambda>_. op_bind (get_state c i 0) (\<lambda>st. op_return (ReplyCancelled (rm_device_id p) cid st)))
             else op_bind (run_removal c i p) (\<lambda>result. op_bind (get_state c i 0) (\<lambda>st. op_return (ReplyRemoved result cid st))))
     | _ \<Rightarrow> op_raise (ValueError ''confirmed must be boolean''))"

definition cmd_remove_device :: "('w, 's) alerting_config \<Rightarrow> ('w, 's) server_inputs \<Rightarrow> (string \<times> py_value) list \<Rightarrow>
    (('w, 's) server, server_reply) op" where
  "cmd_remove_device c i request =
     op_bind (op_lift (stripped_arg request ''device_id'' ''Zigbee device_id must be a non-empty string''))
       (\<lambda>d. zigbee_managed c i (\<lambda>z. zb_remove_device z d))"

definition cmd_rename_device :: "('w, 's) alerting_config \<Rightarrow> ('w, 's) server_inputs \<Rightarrow> (string \<times> py_value) list \<Rightarrow>
    (('w, 's) server, server_reply) op" where
  "cmd_rename_device c i request =
     op_bind (op_lift (stripped_arg request ''device_id'' ''Zigbee device_id must be a non-empty string'')) (\<lambda>d.
     op_bind (op_lift (stripped_arg request ''new_name'' ''Zigbee new_name must be a non-empty string''))
       (\<lambda>name. zigbee_managed c i (\<lambda>z. zb_rename_device z d name)))"

definition role_arg :: "py_value \<Rightarrow> string option result" where
  "role_arg v = (if v = VNone then Inr None
     else if v \<in> set [VStr ''supply'', VStr ''extract'', VStr ''other''] then Inr (case v of VStr s \<Rightarrow> Some s | _ \<Rightarrow> None)
     else Inl (ValueError ''Zigbee role must be supply, extract, other or null''))"

definition cmd_assign_role :: "('w, 's) alerting_config \<Rightarrow> ('w, 's) server_inputs \<Rightarrow> (string \<times> py_value) list \<Rightarrow>
    (('w, 's) server, server_reply) op" where
  "cmd_assign_role c i request =
     op_bind (op_lift (stripped_arg request ''device_id'' ''Zigbee device_id must be a non-empty string'')) (\<lambda>d.
     op_bind (op_lift (role_arg (vget request ''role''))) (\<lambda>role. zigbee_managed c i (\<lambda>z. zb_assign_role z d role)))"

definition cmd_set :: "('w, 's) alerting_config \<Rightarrow> ('w, 's) server_inputs \<Rightarrow> (string \<times> py_value) list \<Rightarrow>
    (('w, 's) server, server_reply) op" where
  "cmd_set c i request =
     op_bind (op_lift (rbind (required_arg request ''supply_voltage'') (float_arg (si_float_text i)))) (\<lambda>supply.
     op_bind (op_lift (rbind (required_arg request ''extract_voltage'') (float_arg (si_float_text i)))) (\<lambda>extract.
     op_bind (on_service (alerting_set_manual c (si_clock i 0) supply extract)) (\<lambda>st. op_return (ReplyState st))))"

definition cmd_stop :: "('w, 's) alerting_config \<Rightarrow> ('w, 's) server_inputs \<Rightarrow> (('w, 's) server, server_reply) op" where
  "cmd_stop c i = op_bind (on_service (alerting_stop c (si_clock i 0))) (\<lambda>st. op_return (ReplyState st))"

definition request_shutdown :: "(('w, 's) server, unit) op" where
  "request_shutdown s = (s\<lparr>sr_shutdown := True\<rparr>, Inr ())"

text \<open>\<open>_dispatch\<close>.\<close>

definition dispatch :: "('w, 's) alerting_config \<Rightarrow> ('w, 's) server_inputs \<Rightarrow> (string \<times> py_value) list \<Rightarrow>
    (('w, 's) server, server_reply) op" where
  "dispatch c i request =
     (let command = vget request ''command''; is = (\<lambda>s. command = VStr s) in
      if is ''status'' then op_bind (get_state c i 0) (\<lambda>st. op_return (ReplyState st))
      else if is ''schedule''
      then op_bind (on_service (on_core (service_schedule_configuration (ac_ports c)))) (\<lambda>s. op_return (ReplySchedule s None))
      else if is ''schedule-replace'' then cmd_schedule_replace c i request
      else if is ''alerts'' then cmd_alerts c request
      else if is ''ack-alert'' then cmd_ack_alert c i request
      else if is ''sensors'' then op_bind (get_state c i 0) (\<lambda>st. op_return (ReplySensors (cs_sensor_bus st)))
      else if is ''aero'' then op_bind (get_state c i 0) (\<lambda>st. op_return (ReplyAero (cs_aero_bus st)))
      else if is ''aero-speed'' then cmd_aero_speed c i request
      else if is ''aero-airing'' then cmd_aero_airing c i request
      else if is ''zigbee-permit-join'' then cmd_permit_join c i request
      else if is ''zigbee-ack-pairing'' then cmd_ack_pairing c i request
      else if is ''zigbee-removal-confirmation-state''
      then op_bind (current_confirmation (si_now i 0)) (\<lambda>p. op_return (ReplyConfirmation p))
      else if is ''zigbee-request-remove-device'' then cmd_request_removal c i request
      else if is ''zigbee-resolve-remove-device'' then cmd_resolve_removal c i request
      else if is ''zigbee-remove-device'' then cmd_remove_device c i request
      else if is ''zigbee-rename-device'' then cmd_rename_device c i request
      else if is ''zigbee-assign-role'' then cmd_assign_role c i request
      else if is ''set'' then cmd_set c i request
      else if is ''stop'' then cmd_stop c i
      else if is ''shutdown'' then op_bind (cmd_stop c i) (\<lambda>r. op_bind request_shutdown (\<lambda>_. op_return r))
      else op_raise (ValueError (''Unsupported command: '' @ (case command of VStr s \<Rightarrow> s | v \<Rightarrow> si_str i v))))"

text \<open>\<open>_handle_client\<close>: every exception becomes the text of an error reply.\<close>

definition handle_client :: "('w, 's) alerting_config \<Rightarrow> ('w, 's) server_inputs \<Rightarrow> py_value result \<Rightarrow>
    ('w, 's) server \<Rightarrow> ('w, 's) server \<times> (string + server_reply)" where
  "handle_client c i request s = (case request of
     Inl e \<Rightarrow> (s, Inl (exc_str e))
   | Inr (VDict d) \<Rightarrow> (case dispatch c i d s of (s1, Inl e) \<Rightarrow> (s1, Inl (exc_str e)) | (s1, Inr r) \<Rightarrow> (s1, Inr r))
   | Inr _ \<Rightarrow> (s, Inl ''object has no attribute get''))"

text \<open>A round of the health monitor, and the end of \<open>run\<close>.\<close>

definition server_health :: "('w, 's) alerting_config \<Rightarrow> clock \<Rightarrow> ('w, 's) server \<Rightarrow> ('w, 's) server" where
  "server_health c ck s = fst (on_service (alerting_health_check c ck) s)"

definition server_end :: "('w, 's) alerting_config \<Rightarrow> (('w, 's) server, unit) op" where
  "server_end c = on_service (alerting_close c)"

end
