(* ===== verification/ServerSafety.thy ===== *)
theory ServerSafety
  imports Server Supervision
begin

section \<open>What requests can do\<close>

text \<open>
  Lemmas about \<open>Server\<close>: requests that ask for something, and requests that are refused, reach the
  ventilation service only by reading it, and a Zigbee device is removed on request of the operator only
  after a confirmation that is still open.
\<close>

named_theorems server_reads "server operations that only read the ventilation service"

definition server_reads_only :: "('w, 's) alerting_config \<Rightarrow> (('w, 's) server, 'a) op \<Rightarrow> bool" where
  "server_reads_only c m = (\<forall>s. sr_shutdown (fst (m s)) = sr_shutdown s \<and> (\<exists>fs. set fs \<subseteq> layer_reads c
     \<and> av_core (sr_service (fst (m s))) = (av_core (sr_service s))\<lparr>sv_world := fold (\<lambda>f. f) fs (sv_world (av_core (sr_service s)))\<rparr>))"

lemma server_reads_same:
  "(\<And>s. sr_service (fst (m s)) = sr_service s \<and> sr_shutdown (fst (m s)) = sr_shutdown s) \<Longrightarrow> server_reads_only c m"
  unfolding server_reads_only_def by (auto intro!: exI[of _ "[]"])

lemma server_reads_return [server_reads]: "server_reads_only c (op_return x)"
  by (rule server_reads_same) simp

lemma server_reads_raise [server_reads]: "server_reads_only c (op_raise e)"
  by (rule server_reads_same) simp

lemma server_reads_lift [server_reads]: "server_reads_only c (op_lift r)"
  by (rule server_reads_same) simp

lemma server_reads_pending [server_reads]: "server_reads_only c (set_pending p)"
  by (rule server_reads_same) (simp add: set_pending_def)

lemma server_reads_confirmation [server_reads]: "server_reads_only c (current_confirmation now)"
  by (rule server_reads_same) (simp add: current_confirmation_def split: option.split)

lemma server_reads_service [server_reads]: "reads_only c m \<Longrightarrow> server_reads_only c (on_service m)"
  unfolding server_reads_only_def reads_only_def on_service_def by (simp add: case_prod_beta Let_def)

lemma server_reads_bind [server_reads]:
  assumes m: "server_reads_only c m" and f: "\<And>x. server_reads_only c (f x)"
  shows "server_reads_only c (op_bind m f)"
  unfolding server_reads_only_def
proof
  fix s
  let ?core = "\<lambda>s. av_core (sr_service s)"
  obtain s1 r where run: "m s = (s1, r)" by force
  obtain fs where fs: "set fs \<subseteq> layer_reads c" "?core s1 = (?core s)\<lparr>sv_world := fold (\<lambda>f. f) fs (sv_world (?core s))\<rparr>"
      "sr_shutdown s1 = sr_shutdown s"
    using m[unfolded server_reads_only_def, rule_format, of s] run by auto
  show "sr_shutdown (fst (op_bind m f s)) = sr_shutdown s \<and> (\<exists>fs. set fs \<subseteq> layer_reads c
      \<and> ?core (fst (op_bind m f s)) = (?core s)\<lparr>sv_world := fold (\<lambda>f. f) fs (sv_world (?core s))\<rparr>)"
  proof (cases r)
    case (Inl e)
    with run fs show ?thesis by (auto simp: op_bind_def)
  next
    case (Inr x)
    obtain gs where "set gs \<subseteq> layer_reads c" "sr_shutdown (fst (f x s1)) = sr_shutdown s1"
        "?core (fst (f x s1)) = (?core s1)\<lparr>sv_world := fold (\<lambda>f. f) gs (sv_world (?core s1))\<rparr>"
      using f[of x, unfolded server_reads_only_def, rule_format, of s1] by auto
    with fs run Inr show ?thesis by (auto simp: op_bind_def intro!: exI[of _ "fs @ gs"])
  qed
qed

lemma server_reads_state [server_reads]: "server_reads_only c (get_state c i k)"
  unfolding get_state_def by (intro server_reads reads)

lemma server_reads_alerts: "server_reads_only c (cmd_alerts c request)"
  unfolding cmd_alerts_def by (intro server_reads reads)

lemma server_reads_ack: "server_reads_only c (cmd_ack_alert c i request)"
  unfolding cmd_ack_alert_def acknowledge_alert_def by (intro server_reads reads)

lemma server_reads_request: "server_reads_only c (cmd_request_removal c i request)"
proof -
  have "server_reads_only c (case z of None \<Rightarrow> op_raise e | Some z \<Rightarrow> h z)" if "\<And>z. server_reads_only c (h z)"
    for z :: "'z option" and h e using that by (cases z) (auto intro: server_reads)
  then show ?thesis
    unfolding cmd_request_removal_def
    by (intro server_reads) (auto intro!: server_reads split: option.split)
qed

text \<open>The commands that may change something.\<close>

definition CHANGING_COMMANDS :: "string list" where
  "CHANGING_COMMANDS = [''set'', ''stop'', ''shutdown'', ''aero-speed'', ''aero-airing'', ''schedule'', ''schedule-replace'',
     ''zigbee-permit-join'', ''zigbee-ack-pairing'', ''zigbee-resolve-remove-device'', ''zigbee-remove-device'',
     ''zigbee-rename-device'', ''zigbee-assign-role'']"

lemma dispatch_reads:
  assumes "vget request ''command'' \<notin> VStr ` set CHANGING_COMMANDS"
  shows "server_reads_only c (dispatch c i request)"
proof -
  have no: "vget request ''command'' \<noteq> VStr x" if "x \<in> set CHANGING_COMMANDS" for x using assms that by blast
  note no' = no[of "''set''"] no[of "''stop''"] no[of "''shutdown''"] no[of "''aero-speed''"] no[of "''aero-airing''"]
    no[of "''schedule''"] no[of "''schedule-replace''"] no[of "''zigbee-permit-join''"] no[of "''zigbee-ack-pairing''"]
    no[of "''zigbee-resolve-remove-device''"] no[of "''zigbee-remove-device''"] no[of "''zigbee-rename-device''"]
    no[of "''zigbee-assign-role''"]
  have state: "server_reads_only c (op_bind (get_state c i 0) (\<lambda>st. op_return (f st)))" for f :: "core_state \<Rightarrow> server_reply"
    by (intro server_reads)
  have confirmation: "server_reads_only c (op_bind (current_confirmation now) (\<lambda>p. op_return (ReplyConfirmation p)))" for now
    by (intro server_reads)
  show ?thesis
    unfolding dispatch_def Let_def
    using no' by (simp add: CHANGING_COMMANDS_def state confirmation server_reads_alerts server_reads_ack server_reads_request
        server_reads_raise)
qed

text \<open>C29: A request that is not a command changes nothing. Whatever a client sends, including what is not JSON,
  not an object or carries an unknown command, unless the command is one of the listed ones, the ventilation service
  keeps its mode, setpoints, faults and alarms, its world is at most read, and the server goes on.\<close>

theorem server_queries_harmless:
  assumes "\<And>d. request = Inr (VDict d) \<Longrightarrow> vget d ''command'' \<notin> VStr ` set CHANGING_COMMANDS"
    and "handle_client c i request s = (s', reply)"
  shows "\<exists>fs. set fs \<subseteq> layer_reads c \<and> sr_shutdown s' = sr_shutdown s
    \<and> av_core (sr_service s') = (av_core (sr_service s))\<lparr>sv_world := fold (\<lambda>f. f) fs (sv_world (av_core (sr_service s)))\<rparr>"
proof (cases "\<exists>d. request = Inr (VDict d)")
  case True
  then obtain d where d: "request = Inr (VDict d)" by blast
  obtain s1 r where run: "dispatch c i d s = (s1, r)" by force
  from d run assms(2) have "s' = s1" by (cases r) (simp_all add: handle_client_def)
  with dispatch_reads[OF assms(1)[OF d], of c i] run show ?thesis
    unfolding server_reads_only_def by (metis fst_conv)
next
  case False
  then have "s' = s" using assms(2) by (auto simp: handle_client_def split: sum.split_asm py_value.split_asm)
  then show ?thesis by (intro exI[of _ "[]"]) simp
qed


subsection \<open>A server on its own\<close>

definition demo_removal :: removal where
  "demo_removal = \<lparr>rm_confirmation_id = ''c1'', rm_message = ''Remove?'', rm_device_id = ''0x1'', rm_friendly_name = ''supply'',
     rm_role = None, rm_created_at = 0, rm_expires_at = 120000000, rm_last_error = None, rm_last_error_at = None\<rparr>"

definition demo_server :: "(unit, alert_db) server" where
  "demo_server = \<lparr>sr_service = demo_fault, sr_pending = Some demo_removal, sr_shutdown = False\<rparr>"

definition demo_inputs :: "int \<Rightarrow> (unit, alert_db) server_inputs" where
  "demo_inputs now = \<lparr>si_clock = (\<lambda>_. demo_alert_clock), si_now = (\<lambda>_. now), si_uuid = ''c2'', si_str = (\<lambda>_. []),
     si_float_text = (\<lambda>_. None), si_aero_env = (\<lambda>w. w), si_during = (\<lambda>s. s)\<rparr>"

lemma server_queries_harmless_witness:
  "\<exists>fs. set fs \<subseteq> layer_reads demo_fault_config
     \<and> sr_shutdown (demo_server\<lparr>sr_pending := None\<rparr>) = sr_shutdown demo_server
     \<and> av_core (sr_service (demo_server\<lparr>sr_pending := None\<rparr>)) = (av_core (sr_service demo_server))
         \<lparr>sv_world := fold (\<lambda>f. f) fs (sv_world (av_core (sr_service demo_server)))\<rparr>"
  by (rule server_queries_harmless[of "Inr (VDict [(''command'', VStr ''zigbee-removal-confirmation-state'')])"
        demo_fault_config "demo_inputs 120000000" demo_server _ "Inr (ReplyConfirmation None)"])
    (auto simp: CHANGING_COMMANDS_def handle_client_def dispatch_def vget_def dict_get_def current_confirmation_def
       demo_server_def demo_removal_def demo_inputs_def op_bind_def op_return_def)

subsection \<open>Removing a Zigbee device\<close>

lemma dispatch_resolve:
  "vget d ''command'' = VStr ''zigbee-resolve-remove-device'' \<Longrightarrow> dispatch c i d = cmd_resolve_removal c i d"
  by (simp add: dispatch_def Let_def)

lemma dispatch_request:
  "vget d ''command'' = VStr ''zigbee-request-remove-device'' \<Longrightarrow> dispatch c i d = cmd_request_removal c i d"
  by (simp add: dispatch_def Let_def)

lemma stripped_arg_Inr: "stripped_arg d key m = Inr x \<Longrightarrow> \<exists>t. vget d key = VStr t \<and> py_strip t = x \<and> x \<noteq> []"
  by (auto simp: stripped_arg_def split: py_value.split_asm if_split_asm)

lemma get_state_pending: "sr_pending (fst (get_state c i k s)) = sr_pending s"
  by (simp add: get_state_def on_service_def case_prod_beta Let_def)

text \<open>What a call that follows \<open>m\<close> does is told by the state it leaves.\<close>

lemma get_state_bind: "fst (op_bind (get_state c i k) (\<lambda>st. op_return (f st)) s) = fst (get_state c i k s)"
  by (simp add: op_bind_def op_return_def split: prod.split sum.split)

text \<open>The answer is refused, or the confirmation is dropped, with the core at most read.\<close>

definition core_read :: "('w, 's) alerting_config \<Rightarrow> ('w, 's) server \<Rightarrow> ('w, 's) server \<Rightarrow> bool" where
  "core_read c s s' = (\<exists>fs. set fs \<subseteq> layer_reads c
     \<and> av_core (sr_service s') = (av_core (sr_service s))\<lparr>sv_world := fold (\<lambda>f. f) fs (sv_world (av_core (sr_service s)))\<rparr>)"

lemma core_read_refl: "sr_service s' = sr_service s \<Longrightarrow> core_read c s s'"
  unfolding core_read_def by (intro exI[of _ "[]"]) simp

lemma core_read_state: "sr_service s1 = sr_service s \<Longrightarrow> core_read c s (fst (get_state c i k s1))"
  using server_reads_state[of c i k] unfolding server_reads_only_def core_read_def by (metis (no_types))

lemma current_confirmation_cases:
  assumes "current_confirmation now s = (s1, Inr q)"
  shows "sr_service s1 = sr_service s" "sr_pending s1 = q" "q = None \<or> q = sr_pending s"
    "q = Some p \<Longrightarrow> s1 = s \<and> sr_pending s = Some p \<and> now < rm_expires_at p"
  using assms by (auto simp: current_confirmation_def split: option.split_asm if_split_asm)

lemma current_confirmation_total: "snd (current_confirmation now s) = Inr (sr_pending (fst (current_confirmation now s)))"
  by (auto simp: current_confirmation_def split: option.split)

lemma resolve_removal_cases:
  assumes run: "cmd_resolve_removal c i request s = (s', r)"
  shows "core_read c s s' \<and> sr_pending s' \<in> {sr_pending s, None}
    \<or> (\<exists>p t. sr_pending s = Some p \<and> si_now i 0 < rm_expires_at p \<and> vget request ''confirmed'' = VBool True
        \<and> vget request ''confirmation_id'' = VStr t \<and> py_strip t = rm_confirmation_id p
        \<and> op_bind (run_removal c i p) (\<lambda>result. op_bind (get_state c i 0)
             (\<lambda>st. op_return (ReplyRemoved result (rm_confirmation_id p) st))) s = (s', r))"
    (is "?read \<or> ?runs")
proof (cases "stripped_arg request ''confirmation_id'' ''confirmation_id must be a non-empty string''")
  case (Inl e)
  with run have "s' = s" by (simp add: cmd_resolve_removal_def op_bind_def op_lift_def)
  then show ?thesis by (simp add: core_read_refl)
next
  case (Inr cid)
  then obtain t where t: "vget request ''confirmation_id'' = VStr t" "py_strip t = cid"
    using stripped_arg_Inr by blast
  show ?thesis
  proof (cases "\<exists>b. vget request ''confirmed'' = VBool b")
    case False
    with run Inr have "s' = s"
      by (auto simp: cmd_resolve_removal_def op_bind_def op_lift_def op_raise_def split: py_value.split_asm)
    then show ?thesis by (simp add: core_read_refl)
  next
    case True
    then obtain b where b: "vget request ''confirmed'' = VBool b" by blast
    obtain s1 q where cur: "current_confirmation (si_now i 0) s = (s1, Inr q)"
      using current_confirmation_total by (metis surj_pair snd_conv)
    note facts = current_confirmation_cases[OF cur]
    show ?thesis
    proof (cases q)
      case None
      with run Inr b cur have "s' = s1" by (simp add: cmd_resolve_removal_def op_bind_def op_lift_def op_raise_def)
      with facts None show ?thesis by (simp add: core_read_refl)
    next
      case (Some p)
      note found = facts(4)[OF Some]
      consider "rm_confirmation_id p \<noteq> cid" | "rm_confirmation_id p = cid" "\<not> b" | "rm_confirmation_id p = cid" b by blast
      then show ?thesis
      proof cases
        case 1
        with run Inr b cur Some have "s' = s1" by (simp add: cmd_resolve_removal_def op_bind_def op_lift_def op_raise_def)
        with found show ?thesis by (simp add: core_read_refl)
      next
        case 2
        with run Inr b cur Some have "s' = fst (get_state c i 0 (s1\<lparr>sr_pending := None\<rparr>))"
          by (simp add: cmd_resolve_removal_def op_bind_def op_lift_def set_pending_def op_return_def split: prod.splits sum.splits)
        then show ?thesis by (simp add: core_read_state get_state_pending found)
      next
        case 3
        with run Inr b cur Some found have "op_bind (run_removal c i p) (\<lambda>result. op_bind (get_state c i 0)
             (\<lambda>st. op_return (ReplyRemoved result (rm_confirmation_id p) st))) s = (s', r)"
          by (simp add: cmd_resolve_removal_def op_bind_Inr[of "current_confirmation (si_now i 0)", OF cur] op_bind_Inr[of "op_lift (Inr cid)" s s cid] op_lift_def)
        with 3 found b t show ?thesis by auto
      qed
    qed
  qed
qed

lemma run_removal_cases:
  obtains (failed) s1 e where "on_service (zigbee_command c (\<lambda>z. zb_remove_device z (rm_device_id p))) s = (s1, Inl e)"
      "run_removal c i p s = ((si_during i s1)\<lparr>sr_pending := Some (p\<lparr>rm_last_error := Some (operator_error (exc_str e)),
         rm_last_error_at := Some (si_now i 1)\<rparr>)\<rparr>, Inl (RuntimeError (operator_error (exc_str e))))"
  | (removed) s1 result where "on_service (zigbee_command c (\<lambda>z. zb_remove_device z (rm_device_id p))) s = (s1, Inr result)"
      "run_removal c i p s = ((si_during i s1)\<lparr>sr_pending := None\<rparr>, Inr result)"
proof -
  obtain s1 r where ran: "on_service (zigbee_command c (\<lambda>z. zb_remove_device z (rm_device_id p))) s = (s1, r)" by force
  show thesis using ran failed[of s1] removed[of s1] by (cases r) (simp_all add: run_removal_def Let_def)
qed

text \<open>C30: The removal dialogue removes a Zigbee device only on the operator's confirmation. When the answer to a removal request does more
  than being refused or dropping the confirmation, a confirmation was open and not expired, the answer carries its id and
  \<open>confirmed = true\<close>, and the device removed is the one the confirmation names. A failed removal is told to the client
  and keeps the confirmation, with the error, for another attempt; a successful one closes it.\<close>

theorem zigbee_removal_confirmed:
  assumes "vget d ''command'' = VStr ''zigbee-resolve-remove-device''"
    and "handle_client c i (Inr (VDict d)) s = (s', reply)"
    and "\<not> (core_read c s s' \<and> sr_pending s' \<in> {sr_pending s, None})"
  shows "\<exists>p t s1. sr_pending s = Some p \<and> si_now i 0 < rm_expires_at p \<and> vget d ''confirmed'' = VBool True
    \<and> vget d ''confirmation_id'' = VStr t \<and> py_strip t = rm_confirmation_id p
    \<and> ((\<exists>e. on_service (zigbee_command c (\<lambda>z. zb_remove_device z (rm_device_id p))) s = (s1, Inl e)
           \<and> reply = Inl (operator_error (exc_str e)) \<and> s' = (si_during i s1)\<lparr>sr_pending := Some
               (p\<lparr>rm_last_error := Some (operator_error (exc_str e)), rm_last_error_at := Some (si_now i 1)\<rparr>)\<rparr>)
       \<or> (\<exists>result. on_service (zigbee_command c (\<lambda>z. zb_remove_device z (rm_device_id p))) s = (s1, Inr result)
           \<and> sr_pending s' = None))"
proof -
  obtain s1 r where run: "dispatch c i d s = (s1, r)" by force
  with assms(2) have s1: "s1 = s'" and told: "\<And>e. r = Inl e \<Longrightarrow> reply = Inl (exc_str e)"
    by (auto simp: handle_client_def split: sum.split_asm)
  have "cmd_resolve_removal c i d s = (s', r)" using run s1 dispatch_resolve[OF assms(1), of c i] by simp
  from resolve_removal_cases[OF this] assms(3) obtain p t where
    open_p: "sr_pending s = Some p" "si_now i 0 < rm_expires_at p" "vget d ''confirmed'' = VBool True"
      "vget d ''confirmation_id'' = VStr t" "py_strip t = rm_confirmation_id p"
    and rest: "op_bind (run_removal c i p) (\<lambda>result. op_bind (get_state c i 0)
             (\<lambda>st. op_return (ReplyRemoved result (rm_confirmation_id p) st))) s = (s', r)" by auto
  show ?thesis
  proof (cases rule: run_removal_cases[of c p s i])
    case (failed s2 e)
    with rest have "r = Inl (RuntimeError (operator_error (exc_str e)))" and "s' = fst (run_removal c i p s)"
      by (simp_all add: op_bind_def)
    with failed open_p told show ?thesis by (intro exI conjI disjI1) (assumption | simp)+
  next
    case (removed s2 result)
    with rest have "s' = fst (get_state c i 0 ((si_during i s2)\<lparr>sr_pending := None\<rparr>))"
      by (simp add: op_bind_def op_return_def split: prod.splits sum.splits)
    then have "sr_pending s' = None" by (simp add: get_state_pending)
    with removed open_p show ?thesis by (intro exI conjI disjI2) assumption+
  qed
qed

definition demo_zigbee_port :: "unit zigbee_port" where
  "demo_zigbee_port = \<lparr>zb_state = op_raise (RuntimeError []), zb_health_check = op_return (), zb_permit_join = (\<lambda>_. op_return VNone),
     zb_remove_device = (\<lambda>_. op_raise (RuntimeError ''no reply'')), zb_rename_device = (\<lambda>_ _. op_return VNone),
     zb_assign_role = (\<lambda>_ _. op_return VNone), zb_acknowledge_pairing = (\<lambda>_. op_return VNone), zb_close = op_return ()\<rparr>"

definition demo_zigbee_config :: "(unit, alert_db) alerting_config" where
  "demo_zigbee_config = demo_fault_config\<lparr>ac_zigbee := Some demo_zigbee_port\<rparr>"

definition demo_answer :: "(string \<times> py_value) list" where
  "demo_answer = [(''command'', VStr ''zigbee-resolve-remove-device''), (''confirmation_id'', VStr ''c1''), (''confirmed'', VBool True)]"

lemma demo_answer_handled:
  "handle_client demo_zigbee_config (demo_inputs 5) (Inr (VDict demo_answer)) demo_server =
     (demo_server\<lparr>sr_pending := Some (demo_removal\<lparr>rm_last_error := Some (operator_error ''no reply''), rm_last_error_at := Some 5\<rparr>)\<rparr>,
      Inl (operator_error ''no reply''))"
proof -
  have strip: "py_strip ''c1'' = ''c1''" by code_simp
  have "dispatch demo_zigbee_config (demo_inputs 5) demo_answer = cmd_resolve_removal demo_zigbee_config (demo_inputs 5) demo_answer"
    by (rule dispatch_resolve) (simp add: demo_answer_def vget_def dict_get_def)
  then show ?thesis
    by (simp add: handle_client_def cmd_resolve_removal_def demo_answer_def vget_def dict_get_def stripped_arg_def strip
        op_bind_def current_confirmation_def demo_server_def demo_removal_def demo_inputs_def run_removal_def Let_def
        on_service_def zigbee_command_def demo_zigbee_config_def demo_zigbee_port_def on_core_def on_world_def op_raise_def
        demo_fault_def)
qed

lemma zigbee_removal_confirmed_witness:
  "\<exists>p t s1. sr_pending demo_server = Some p \<and> si_now (demo_inputs 5) 0 < rm_expires_at p
    \<and> vget demo_answer ''confirmed'' = VBool True
    \<and> vget demo_answer ''confirmation_id'' = VStr t \<and> py_strip t = rm_confirmation_id p
    \<and> ((\<exists>e. on_service (zigbee_command demo_zigbee_config (\<lambda>z. zb_remove_device z (rm_device_id p))) demo_server = (s1, Inl e)
           \<and> Inl (operator_error ''no reply'') = (Inl (operator_error (exc_str e)) :: string + server_reply)
           \<and> demo_server\<lparr>sr_pending := Some (demo_removal\<lparr>rm_last_error := Some (operator_error ''no reply''),
                rm_last_error_at := Some 5\<rparr>)\<rparr> = (si_during (demo_inputs 5) s1)\<lparr>sr_pending := Some
               (p\<lparr>rm_last_error := Some (operator_error (exc_str e)), rm_last_error_at := Some (si_now (demo_inputs 5) 1)\<rparr>)\<rparr>)
       \<or> (\<exists>result. on_service (zigbee_command demo_zigbee_config (\<lambda>z. zb_remove_device z (rm_device_id p))) demo_server
             = (s1, Inr result)
           \<and> sr_pending (demo_server\<lparr>sr_pending := Some (demo_removal\<lparr>rm_last_error := Some (operator_error ''no reply''),
                rm_last_error_at := Some 5\<rparr>)\<rparr>) = None))"
  by (rule zigbee_removal_confirmed[OF _ demo_answer_handled])
    (simp_all add: demo_answer_def vget_def dict_get_def demo_server_def demo_removal_def)

text \<open>Asking for a removal.\<close>

lemma request_removal_opens:
  assumes run: "cmd_request_removal c i request s = (s', r)" and new: "sr_pending s' \<noteq> sr_pending s"
  shows "\<exists>t st z d. vget request ''device_id'' = VStr t \<and> snd (get_state c i 0 s) = Inr st \<and> cs_zigbee st = Some z
    \<and> d \<in> set (zm_inventory z) \<and> \<not> is_coordinator d \<and> (py_strip t = zi_ieee_address d \<or> py_strip t = zi_friendly_name d)
    \<and> (case sr_pending s of None \<Rightarrow> True | Some p \<Rightarrow> rm_expires_at p \<le> si_now i 0)
    \<and> sr_pending s' = Some (new_removal i z d) \<and> r = Inr (ReplyConfirmationRequired (new_removal i z d) st)"
proof (cases "stripped_arg request ''device_id'' ''Zigbee device_id must be a non-empty string''")
  case (Inl e)
  with run new show ?thesis by (simp add: cmd_request_removal_def op_bind_def)
next
  case (Inr needle)
  then obtain t where t: "vget request ''device_id'' = VStr t" "py_strip t = needle" using stripped_arg_Inr by blast
  obtain s1 q where got: "get_state c i 0 s = (s1, q)" by force
  have same: "sr_pending s1 = sr_pending s" using get_state_pending[of c i 0 s] got by simp
  show ?thesis
  proof (cases q)
    case (Inl e)
    with run new got same \<open>stripped_arg _ _ _ = Inr needle\<close> show ?thesis by (simp add: cmd_request_removal_def op_bind_def)
  next
    case (Inr st)
    note start = run got \<open>stripped_arg _ _ _ = Inr needle\<close> Inr
    show ?thesis
    proof (cases "cs_zigbee st")
      case None
      with start new same show ?thesis by (simp add: cmd_request_removal_def op_bind_def op_raise_def)
    next
      case (Some z)
      show ?thesis
      proof (cases "find (\<lambda>d. needle = zi_ieee_address d \<or> needle = zi_friendly_name d) (zm_inventory z)")
        case None
        with start Some new same show ?thesis by (simp add: cmd_request_removal_def op_bind_def op_raise_def)
      next
        case found: (Some d)
        then have d: "d \<in> set (zm_inventory z)" "needle = zi_ieee_address d \<or> needle = zi_friendly_name d"
          by (auto simp: find_Some_iff)
        show ?thesis
        proof (cases "is_coordinator d")
          case True
          with start Some found new same show ?thesis by (simp add: cmd_request_removal_def op_bind_def op_raise_def)
        next
          case False
          with start Some found new same have "(case sr_pending s of None \<Rightarrow> True | Some p \<Rightarrow> rm_expires_at p \<le> si_now i 0)
              \<and> sr_pending s' = Some (new_removal i z d) \<and> r = Inr (ReplyConfirmationRequired (new_removal i z d) st)"
            by (auto simp: cmd_request_removal_def op_bind_def op_raise_def op_return_def set_pending_def current_confirmation_def
                split: option.split_asm if_split_asm)
          with t d False Some got Inr show ?thesis by (intro exI conjI) (auto simp: got)
        qed
      qed
    qed
  qed
qed

text \<open>A removal request opens a confirmation only when none is open. When the request changes what awaits the operator,
  nothing was open or what was open had expired, the device is in the inventory, is not the coordinator and is the one the
  request names, and the new confirmation, which the reply carries, is for that device and expires after two minutes.\<close>

theorem zigbee_removal_requested:
  assumes "vget d ''command'' = VStr ''zigbee-request-remove-device''"
    and "handle_client c i (Inr (VDict d)) s = (s', reply)"
    and "sr_pending s' \<noteq> sr_pending s"
  shows "\<exists>t st z dev p. vget d ''device_id'' = VStr t \<and> snd (get_state c i 0 s) = Inr st \<and> cs_zigbee st = Some z
    \<and> dev \<in> set (zm_inventory z) \<and> \<not> is_coordinator dev \<and> (py_strip t = zi_ieee_address dev \<or> py_strip t = zi_friendly_name dev)
    \<and> (case sr_pending s of None \<Rightarrow> True | Some old \<Rightarrow> rm_expires_at old \<le> si_now i 0)
    \<and> sr_pending s' = Some p \<and> reply = Inr (ReplyConfirmationRequired p st)
    \<and> rm_device_id p = zi_ieee_address dev \<and> rm_expires_at p = rm_created_at p + 120 * 1000000"
proof -
  obtain s1 r where run: "dispatch c i d s = (s1, r)" by force
  with assms(2) have s1: "s1 = s'" and told: "\<And>x. r = Inr x \<Longrightarrow> reply = Inr x"
    by (auto simp: handle_client_def split: sum.split_asm)
  have "cmd_request_removal c i d s = (s', r)" using run s1 dispatch_request[OF assms(1), of c i] by simp
  from request_removal_opens[OF this assms(3)] told show ?thesis
    by (fastforce simp: new_removal_def)
qed

definition demo_plug :: zigbee_inventory_device where
  "demo_plug = \<lparr>zi_ieee_address = ''0x1'', zi_friendly_name = ''supply'', zi_device_type = ''EndDevice'',
     zi_supported = True, zi_disabled = False, zi_model = None, zi_vendor = None, zi_description = None,
     zi_power_source = None, zi_interview_state = None, zi_capabilities = []\<rparr>"

definition demo_network :: zigbee_mqtt_state where
  "demo_network = \<lparr>zm_broker_host = ''localhost'', zm_broker_port = 1883, zm_base_topic = ''zigbee2mqtt'', zm_running = True,
     zm_connected = True, zm_connected_at = None, zm_disconnected_at = None, zm_last_message_at = None, zm_last_error = None,
     zm_devices = [], zm_bridge_online = Some True, zm_permit_join = None, zm_permit_join_end = None,
     zm_inventory_updated_at = None, zm_last_event = None, zm_inventory = [demo_plug], zm_pairing = None, zm_sensor_list = []\<rparr>"

definition demo_network_config :: "(unit, alert_db) alerting_config" where
  "demo_network_config = demo_fault_config\<lparr>ac_zigbee := Some (demo_zigbee_port\<lparr>zb_state := op_return demo_network\<rparr>)\<rparr>"

definition demo_request :: "(string \<times> py_value) list" where
  "demo_request = [(''command'', VStr ''zigbee-request-remove-device''), (''device_id'', VStr ''supply'')]"

lemma demo_network_state: "\<exists>s1 st. get_state demo_network_config (demo_inputs 120000000) 0 demo_server = (s1, Inr st)
    \<and> cs_zigbee st = Some demo_network \<and> sr_pending s1 = Some demo_removal"
proof -
  from demo_journal obtain g1 where g: "active_alarm_states sqlite_store (demo_registry (\<lambda>_. None)) = (g1, Inr [])" by blast
  obtain raw where raw: "raw_state demo_network_config demo_fault = (demo_fault, Inr raw)"
    by (simp add: raw_state_def on_core_def service_state_def op_bind_def on_world_def optional_op_def op_return_def
        demo_network_config_def demo_fault_ports_def demo_fault_def)
  show ?thesis
    using g raw by (simp add: get_state_def on_service_def alerting_state_def with_system_alerts_def with_zigbee_def op_bind_def
        op_catch_def on_registry_def on_core_def on_world_def op_return_def Let_def demo_network_config_def demo_server_def
        demo_zigbee_port_def demo_inputs_def)
qed

lemma demo_request_handled:
  "\<exists>s' reply. handle_client demo_network_config (demo_inputs 120000000) (Inr (VDict demo_request)) demo_server = (s', reply)
     \<and> sr_pending s' \<noteq> sr_pending demo_server"
proof -
  from demo_network_state obtain s1 st where st: "get_state demo_network_config (demo_inputs 120000000) 0 demo_server = (s1, Inr st)"
    "cs_zigbee st = Some demo_network" "sr_pending s1 = Some demo_removal" by blast
  have strip: "py_strip ''supply'' = ''supply''" by code_simp
  have kind: "\<not> is_coordinator demo_plug" by code_simp
  have "dispatch demo_network_config (demo_inputs 120000000) demo_request
      = cmd_request_removal demo_network_config (demo_inputs 120000000) demo_request"
    by (rule dispatch_request) (simp add: demo_request_def vget_def dict_get_def)
  then have "handle_client demo_network_config (demo_inputs 120000000) (Inr (VDict demo_request)) demo_server
      = (s1\<lparr>sr_pending := Some (new_removal (demo_inputs 120000000) demo_network demo_plug)\<rparr>,
         Inr (ReplyConfirmationRequired (new_removal (demo_inputs 120000000) demo_network demo_plug) st))"
    using st kind by (simp add: handle_client_def cmd_request_removal_def demo_request_def vget_def dict_get_def stripped_arg_def strip
        op_bind_def op_return_def current_confirmation_def set_pending_def demo_network_def demo_removal_def demo_inputs_def
        demo_plug_def)
  moreover have "rm_confirmation_id (new_removal (demo_inputs 120000000) demo_network demo_plug) \<noteq> rm_confirmation_id demo_removal"
    by (simp add: new_removal_def demo_inputs_def demo_removal_def)
  ultimately show ?thesis by (force simp: demo_server_def)
qed

lemma zigbee_removal_requested_witness:
  "\<exists>s' reply. handle_client demo_network_config (demo_inputs 120000000) (Inr (VDict demo_request)) demo_server = (s', reply)
   \<and> (\<exists>t st z dev p. vget demo_request ''device_id'' = VStr t
    \<and> snd (get_state demo_network_config (demo_inputs 120000000) 0 demo_server) = Inr st \<and> cs_zigbee st = Some z
    \<and> dev \<in> set (zm_inventory z) \<and> \<not> is_coordinator dev \<and> (py_strip t = zi_ieee_address dev \<or> py_strip t = zi_friendly_name dev)
    \<and> (case sr_pending demo_server of None \<Rightarrow> True | Some old \<Rightarrow> rm_expires_at old \<le> si_now (demo_inputs 120000000) 0)
    \<and> sr_pending s' = Some p \<and> reply = Inr (ReplyConfirmationRequired p st)
    \<and> rm_device_id p = zi_ieee_address dev \<and> rm_expires_at p = rm_created_at p + 120 * 1000000)"
proof -
  from demo_request_handled obtain s' reply where run:
      "handle_client demo_network_config (demo_inputs 120000000) (Inr (VDict demo_request)) demo_server = (s', reply)"
    and new: "sr_pending s' \<noteq> sr_pending demo_server" by blast
  have "vget demo_request ''command'' = VStr ''zigbee-request-remove-device''"
    by (simp add: demo_request_def vget_def dict_get_def)
  from zigbee_removal_requested[OF this run new] run show ?thesis by blast
qed

end
