(* ===== verification/HostPower.thy ===== *)
theory HostPower
  imports PyValue
begin

section \<open>Shutdown and restart of the host\<close>

text \<open>
  Models \<open>host_power_agent.py\<close> and \<open>power_domain.py\<close>: the privileged agent that stops the fans and the AERO, switches
  the 12 V domain off and then asks systemd to power off or restart the host. Everything outside the
  agent is a call, recorded in a log with whether it succeeded; a call that is the k-th fails when the
  environment says so, and the chunks that a socket delivers are its answer. JSON, \<open>str()\<close> and \<open>repr()\<close> of a value
  are a codec. Argument parsing, signals, logging and the search of the GPIO module are left out.
  While a power action is pending every request is refused, so a connection and the timer of the
  action never change the same state: they are separate steps.
\<close>

subsection \<open>Calls and state\<close>

datatype host_reply = HostError string | HostAccepted string

datatype host_call =
    CoreRequest "(string \<times> py_value) list"
  | ClaimLine
  | SetLine bool
  | ReleaseLine
  | Stabilize
  | PrepareSocket
  | BindSocket
  | NotifyReady
  | RemoveSocket
  | HostReply host_reply
  | Launch string

record host_env =
  he_fails :: "host_call \<Rightarrow> nat \<Rightarrow> exc option"
  he_chunks :: "nat \<Rightarrow> string result list"
  he_offset :: "nat \<Rightarrow> int"

record host_codec =
  hx_loads :: "string \<Rightarrow> py_value option"
  hx_str :: "py_value \<Rightarrow> string"
  hx_repr :: "py_value \<Rightarrow> string"

text \<open>What the agent is built with: whether it has a power domain, and how the domain is configured.\<close>

record host_config =
  hc_domain :: bool
  hc_line_name :: string
  hc_stabilization :: py_float
  hc_env :: host_env
  hc_codec :: host_codec

record host_agent =
  ha_log :: "(host_call \<times> bool) list"
  ha_request :: "int option"
  ha_commanded_on :: bool
  ha_pending :: bool
  ha_timers :: "string list"

definition new_host_agent :: host_agent where
  "new_host_agent = \<lparr>ha_log = [], ha_request = None, ha_commanded_on = False, ha_pending = False, ha_timers = []\<rparr>"

text \<open>A call: its number, by which the environment answers it.\<close>

definition host_call :: "host_config \<Rightarrow> host_call \<Rightarrow> (host_agent, nat) op" where
  "host_call c x s = (let k = length (ha_log s) in case he_fails (hc_env c) x k of
     Some e \<Rightarrow> (s\<lparr>ha_log := ha_log s @ [(x, False)]\<rparr>, Inl e)
   | None \<Rightarrow> (s\<lparr>ha_log := ha_log s @ [(x, True)]\<rparr>, Inr k))"

definition host_do :: "host_config \<Rightarrow> host_call \<Rightarrow> (host_agent, unit) op" where
  "host_do c x = op_bind (host_call c x) (\<lambda>_. op_return ())"

definition set_request :: "int option \<Rightarrow> (host_agent, unit) op" where
  "set_request r s = (s\<lparr>ha_request := r\<rparr>, Inr ())"

definition set_commanded :: "bool \<Rightarrow> (host_agent, unit) op" where
  "set_commanded b s = (s\<lparr>ha_commanded_on := b\<rparr>, Inr ())"

definition set_host_pending :: "bool \<Rightarrow> (host_agent, unit) op" where
  "set_host_pending b s = (s\<lparr>ha_pending := b\<rparr>, Inr ())"

subsection \<open>The power domain\<close>

definition check_domain :: "string \<Rightarrow> string \<Rightarrow> py_float \<Rightarrow> unit result" where
  "check_domain chip_path line_name stabilization =
     (if chip_path = [] then Inl (ValueError ''chip_path must not be empty'')
      else if line_name = [] then Inl (ValueError ''line_name must not be empty'')
      else if flt stabilization (Fin 0) then Inl (ValueError ''stabilization_seconds must be >= 0'')
      else Inr ())"

definition release_line :: "host_config \<Rightarrow> (host_agent, unit) op" where
  "release_line c = op_finally (host_do c ReleaseLine) (set_request None)"

definition switch_on :: "host_config \<Rightarrow> (host_agent, unit) op" where
  "switch_on c = op_bind (host_do c (SetLine True)) (\<lambda>_. op_bind (set_commanded True) (\<lambda>_.
     if flt (Fin 0) (hc_stabilization c) then host_do c Stabilize else op_return ()))"

text \<open>\<open>start\<close>: claim the line as an inactive output, then switch it on; a failure gives it back.\<close>

definition domain_start :: "host_config \<Rightarrow> (host_agent, unit) op" where
  "domain_start c s = (if ha_request s \<noteq> None then (s, Inr ())
     else op_bind
       (op_catch (op_bind (host_call c ClaimLine) (\<lambda>k. set_request (Some (he_offset (hc_env c) k)))) (\<lambda>_. True)
         (\<lambda>e. op_raise (RuntimeError (''unable to claim DFR0473 control line '' @ hc_line_name c @ '': '' @ exc_str e))))
       (\<lambda>_. op_catch (switch_on c) (\<lambda>_. True)
         (\<lambda>e. op_bind (set_commanded False) (\<lambda>_. op_bind (\<lambda>s. (op_ignore (host_do c (SetLine False)) s, Inr ())) (\<lambda>_.
            op_bind (release_line c) (\<lambda>_. op_raise (RuntimeError (''unable to switch 12 V power domain ON: '' @ exc_str e)))))))
       s)"

definition domain_power_off :: "host_config \<Rightarrow> (host_agent, unit) op" where
  "domain_power_off c s = (if ha_request s = None then (s, Inl (RuntimeError ''DFR0473 power domain is not started''))
     else op_bind (op_catch (host_do c (SetLine False)) (\<lambda>_. True)
         (\<lambda>e. op_raise (RuntimeError (''unable to switch 12 V power domain OFF: '' @ exc_str e))))
       (\<lambda>_. set_commanded False) s)"

definition domain_close :: "host_config \<Rightarrow> (host_agent, unit) op" where
  "domain_close c s = (if ha_request s = None then (s, Inr ())
     else op_finally (\<lambda>s. (op_ignore (domain_power_off c) s, Inr ()))
       (op_finally (release_line c) (set_commanded False)) s)"

subsection \<open>Reading a line from a socket\<close>

definition MAX_REQUEST_BYTES :: nat where "MAX_REQUEST_BYTES = 1024"

definition MAX_CORE_RESPONSE_BYTES :: nat where "MAX_CORE_RESPONSE_BYTES = 1024 * 1024"

text \<open>The loop over \<open>recv\<close>, up to the end of the stream, a line end or \<open>limit\<close> bytes.\<close>

fun recv_line :: "nat \<Rightarrow> string result list \<Rightarrow> string \<Rightarrow> string result" where
  "recv_line limit chunks buf =
     (if limit \<le> length buf then Inr buf
      else case chunks of
        [] \<Rightarrow> Inr buf
      | Inl e # _ \<Rightarrow> Inl e
      | Inr chunk # rest \<Rightarrow>
          if chunk = [] then Inr buf
          else if CHR 0x0A \<in> set chunk then Inr (buf @ chunk)
          else recv_line limit rest (buf @ chunk))"

definition first_line :: "string \<Rightarrow> string" where
  "first_line s = takeWhile (\<lambda>b. b \<noteq> CHR 0x0A) s"

definition read_host_request :: "string result list \<Rightarrow> string result" where
  "read_host_request chunks = rbind (recv_line MAX_REQUEST_BYTES chunks []) (\<lambda>s.
     if s = [] then Inl (ValueError ''empty request'')
     else if MAX_REQUEST_BYTES \<le> length s \<and> CHR 0x0A \<notin> set s then Inl (ValueError ''request too large'')
     else Inr (first_line s))"

definition decode_action :: "host_codec \<Rightarrow> string \<Rightarrow> string result" where
  "decode_action x raw = (case hx_loads x raw of
     None \<Rightarrow> Inl (ValueError ''invalid JSON request'')
   | Some (VDict payload) \<Rightarrow>
       if set (map fst payload) \<noteq> {''action''} then Inl (ValueError ''request must contain only action'')
       else if \<not> is_hashable (vget payload ''action'') then Inl (TypeError ''unhashable type'')
       else (case vget payload ''action'' of
         VStr a \<Rightarrow> if a \<in> {''shutdown'', ''restart''} then Inr a else Inl (ValueError ''action must be shutdown or restart'')
       | _ \<Rightarrow> Inl (ValueError ''action must be shutdown or restart''))
   | Some _ \<Rightarrow> Inl (ValueError ''request must be a JSON object''))"

subsection \<open>Requests to the core\<close>

definition core_reply :: "host_codec \<Rightarrow> string result list \<Rightarrow> (string \<times> py_value) list result" where
  "core_reply x chunks = rbind (recv_line MAX_CORE_RESPONSE_BYTES chunks []) (\<lambda>s.
     if s = [] then Inl (RuntimeError ''ventilation-core returned an empty response'')
     else if MAX_CORE_RESPONSE_BYTES \<le> length s \<and> CHR 0x0A \<notin> set s
     then Inl (RuntimeError ''ventilation-core response is too large'')
     else (case hx_loads x (first_line s) of
       None \<Rightarrow> Inl (RuntimeError ''ventilation-core returned invalid JSON'')
     | Some (VDict d) \<Rightarrow> Inr d
     | Some _ \<Rightarrow> Inl (RuntimeError ''ventilation-core returned a non-object response'')))"

definition request_core :: "host_config \<Rightarrow> (string \<times> py_value) list \<Rightarrow> (host_agent, (string \<times> py_value) list) op" where
  "request_core c payload =
     op_bind (host_call c (CoreRequest payload)) (\<lambda>k. op_lift (core_reply (hc_codec c) (he_chunks (hc_env c) k)))"

definition require_core_ok :: "host_codec \<Rightarrow> (string \<times> py_value) list \<Rightarrow> string \<Rightarrow> unit result" where
  "require_core_ok x response label = (if vget response ''ok'' = VBool True then Inr ()
     else Inl (RuntimeError (label @ '' failed: '' @ (if py_truthy (vget response ''error'') then hx_str x (vget response ''error'')
       else hx_repr x (VDict response)))))"

text \<open>The core must be in STOP, with both outputs at zero and known to be.\<close>

definition require_local_zero :: "host_codec \<Rightarrow> (string \<times> py_value) list \<Rightarrow> unit result" where
  "require_local_zero x st =
     (if vget st ''mode'' \<noteq> VStr ''STOP''
      then Inl (RuntimeError (''fan STOP did not enter STOP mode: '' @ hx_repr x (vget st ''mode'')))
      else case vget st ''setpoints'' of
        VDict d \<Rightarrow>
          if \<not> py_eq (vget d ''supply_voltage'') (VFloat (Fin 0)) \<or> \<not> py_eq (vget d ''extract_voltage'') (VFloat (Fin 0))
          then Inl (RuntimeError (''fan outputs are not 0 V: '' @ hx_repr x (VDict d)))
          else if vget st ''output_state_known'' \<noteq> VBool True
          then Inl (RuntimeError ''fan output state is not confirmed'')
          else Inr ()
      | _ \<Rightarrow> Inl (RuntimeError ''fan STOP response has no setpoints''))"

definition aero_is_unavailable :: "(string \<times> py_value) list \<Rightarrow> bool" where
  "aero_is_unavailable st = (case vget st ''aero_bus'' of
     VDict d \<Rightarrow> vget d ''online'' = VBool False \<and> vget d ''usable'' = VBool False | _ \<Rightarrow> False)"

definition require_aero_zero :: "host_codec \<Rightarrow> string \<Rightarrow> string \<Rightarrow> (string \<times> py_value) list \<Rightarrow> unit result" where
  "require_aero_zero x kind label response = rbind (require_core_ok x response label) (\<lambda>_.
     case vget response ''aero_control'' of
       VDict r \<Rightarrow>
         if vget r ''kind'' \<noteq> VStr kind
         then Inl (RuntimeError (label @ '' returned unexpected kind: '' @ hx_repr x (vget r ''kind'')))
         else if \<not> py_eq (vget r ''target_value'') (VInt 0)
         then Inl (RuntimeError (label @ '' did not target 0: '' @ hx_repr x (vget r ''target_value'')))
         else if vget r ''state'' \<noteq> VStr ''succeeded''
         then Inl (RuntimeError (label @ '' was not confirmed: '' @ hx_repr x (vget r ''state'')))
         else if vget r ''physical_confirmation'' \<noteq> VBool True
         then Inl (RuntimeError (label @ '' lacks physical confirmation''))
         else if kind = ''speed'' then (case vget r ''observed_power'' of
             VDict p \<Rightarrow> if \<not> py_eq (vget p ''fan_1_percent'') (VInt 0) \<or> \<not> py_eq (vget p ''fan_2_percent'') (VInt 0)
               then Inl (RuntimeError (''AERO fan power is not 0%: '' @ hx_repr x (VDict p))) else Inr ()
           | _ \<Rightarrow> Inl (RuntimeError ''AERO speed 0 response has no observed fan power''))
         else Inr ()
     | _ \<Rightarrow> Inl (RuntimeError (label @ '' response has no aero_control result'')))"

subsection \<open>Preparing the host for a power action\<close>

definition stop_command :: "(string \<times> py_value) list" where
  "stop_command = [(''command'', VStr ''stop'')]"

text \<open>The stop with its confirmation: the state the core reports, or the reason why it is not confirmed.\<close>

definition confirm_stop :: "host_config \<Rightarrow> (host_agent, (string \<times> py_value) list) op" where
  "confirm_stop c = op_bind (request_core c stop_command) (\<lambda>stop.
     op_bind (op_lift (require_core_ok (hc_codec c) stop ''fan STOP'')) (\<lambda>_.
     case vget stop ''state'' of
       VDict st \<Rightarrow> op_bind (op_lift (require_local_zero (hc_codec c) st)) (\<lambda>_. op_return st)
     | _ \<Rightarrow> op_raise (RuntimeError ''fan STOP response has no state'')))"

definition best_effort_core_state :: "host_config \<Rightarrow> (host_agent, (string \<times> py_value) list option) op" where
  "best_effort_core_state c = op_catch (op_bind (request_core c [(''command'', VStr ''status'')]) (\<lambda>response.
     op_bind (op_lift (require_core_ok (hc_codec c) response ''core status after failed STOP'')) (\<lambda>_.
     op_return (case vget response ''state'' of VDict st \<Rightarrow> Some st | _ \<Rightarrow> None)))) (\<lambda>_. True) (\<lambda>_. op_return None)"

definition best_effort_aero_zero :: "host_config \<Rightarrow> (string \<times> py_value) list \<Rightarrow> string \<Rightarrow> string \<Rightarrow> (host_agent, unit) op" where
  "best_effort_aero_zero c payload kind label = op_catch (op_bind (request_core c payload) (\<lambda>response.
     op_lift (require_aero_zero (hc_codec c) kind label response))) (\<lambda>_. True) (\<lambda>_. op_return ())"

definition prepare_peripherals :: "host_config \<Rightarrow> (host_agent, unit) op" where
  "prepare_peripherals c =
     op_bind (op_catch (op_bind (confirm_stop c) (\<lambda>st. op_return (Some st))) (\<lambda>_. True) (\<lambda>_. best_effort_core_state c)) (\<lambda>st.
     if (case st of None \<Rightarrow> False | Some d \<Rightarrow> aero_is_unavailable d) then op_return ()
     else op_bind (best_effort_aero_zero c [(''command'', VStr ''aero-airing''), (''enabled'', VBool False)] ''airing'' ''AERO airing OFF'')
       (\<lambda>_. best_effort_aero_zero c [(''command'', VStr ''aero-speed''), (''speed'', VInt 0)] ''speed'' ''AERO speed 0''))"

definition prepare_power_action :: "host_config \<Rightarrow> (host_agent, unit) op" where
  "prepare_power_action c = op_bind (prepare_peripherals c)
     (\<lambda>_. if hc_domain c then domain_power_off c else op_return ())"

subsection \<open>Requests of clients\<close>

definition send_reply :: "host_config \<Rightarrow> host_reply \<Rightarrow> (host_agent, unit) op" where
  "send_reply c r = host_do c (HostReply r)"

definition start_timer :: "string \<Rightarrow> (host_agent, unit) op" where
  "start_timer a s = (s\<lparr>ha_timers := ha_timers s @ [a]\<rparr>, Inr ())"

definition serve_action :: "host_config \<Rightarrow> string \<Rightarrow> (host_agent, unit) op" where
  "serve_action c a s =
     (if ha_pending s then send_reply c (HostError ''host power action already pending'') s
      else case prepare_power_action c (s\<lparr>ha_pending := True\<rparr>) of
          (s1, Inl e) \<Rightarrow> send_reply c (HostError (''host power preparation failed: '' @ exc_str e)) (s1\<lparr>ha_pending := False\<rparr>)
        | (s1, Inr _) \<Rightarrow> op_bind (send_reply c (HostAccepted a)) (\<lambda>_. start_timer a) s1)"

fun is_os_error :: "exc \<Rightarrow> bool" where
  "is_os_error (OSError _) = True"
| "is_os_error (TimeoutErr _) = True"
| "is_os_error _ = False"

text \<open>\<open>_handle_connection\<close>. What the reply to a \<open>ValueError\<close> raises is not caught by the other clause.\<close>

definition handle_host_connection :: "host_config \<Rightarrow> string result list \<Rightarrow> (host_agent, unit) op" where
  "handle_host_connection c chunks s =
     (case op_bind (op_lift (rbind (read_host_request chunks) (decode_action (hc_codec c)))) (serve_action c) s of
        (s1, Inl e) \<Rightarrow> if is_value_error e then send_reply c (HostError (exc_str e)) s1
          else if is_os_error e then (s1, Inr ()) else (s1, Inl e)
      | (s1, Inr _) \<Rightarrow> (s1, Inr ()))"

text \<open>\<open>_execute_action\<close>, in the timer's thread.\<close>

definition execute_host_action :: "host_config \<Rightarrow> string \<Rightarrow> host_agent \<Rightarrow> host_agent" where
  "execute_host_action c a s = (case host_do c (Launch a) s of (s1, Inl _) \<Rightarrow> s1\<lparr>ha_pending := False\<rparr> | (s1, Inr _) \<Rightarrow> s1)"

subsection \<open>The life of the agent\<close>

text \<open>The \<open>finally\<close> clause of \<open>serve\<close>: the socket file, then the domain when it was started.\<close>

definition serve_end :: "host_config \<Rightarrow> bool \<Rightarrow> (host_agent, unit) op" where
  "serve_end c started = op_bind (host_do c RemoveSocket) (\<lambda>_. if started then domain_close c else op_return ())"

text \<open>\<open>serve\<close> up to its loop: whether the loop is reached.\<close>

definition serve_begin :: "host_config \<Rightarrow> host_agent \<times> bool" where
  "serve_begin c = (case host_do c PrepareSocket new_host_agent of
     (s, Inl _) \<Rightarrow> (s, False)
   | (s, Inr _) \<Rightarrow> (case (if hc_domain c then domain_start c s else (s, Inr ())) of
       (s1, Inl _) \<Rightarrow> (fst (serve_end c False s1), False)
     | (s1, Inr _) \<Rightarrow> (case op_bind (host_do c BindSocket) (\<lambda>_. host_do c NotifyReady) s1 of
         (s2, Inl _) \<Rightarrow> (fst (serve_end c (hc_domain c) s2), False)
       | (s2, Inr _) \<Rightarrow> (s2, True))))"

text \<open>
  A connection whose handler raises ends the loop, as a failing \<open>accept\<close> or the stop request do; the
  timers die with the process.
\<close>

datatype host_event = Connection "string result list" | TimerFires nat | LoopEnds

definition agent_ends :: "host_config \<Rightarrow> host_agent \<Rightarrow> host_agent" where
  "agent_ends c s = fst (serve_end c (hc_domain c) s)\<lparr>ha_timers := []\<rparr>"

definition host_step :: "host_config \<Rightarrow> host_agent \<times> bool \<Rightarrow> host_event \<Rightarrow> host_agent \<times> bool" where
  "host_step c = (\<lambda>(s, running) e. if \<not> running then (s, running) else case e of
     Connection chunks \<Rightarrow> (case handle_host_connection c chunks s of
         (s1, Inl _) \<Rightarrow> (agent_ends c s1, False)
       | (s1, Inr _) \<Rightarrow> (s1, True))
   | TimerFires i \<Rightarrow>
       if i < length (ha_timers s)
       then (execute_host_action c (ha_timers s ! i) (s\<lparr>ha_timers := take i (ha_timers s) @ drop (Suc i) (ha_timers s)\<rparr>), True)
       else (s, True)
   | LoopEnds \<Rightarrow> (agent_ends c s, False))"

definition host_run :: "host_config \<Rightarrow> host_event list \<Rightarrow> host_agent \<times> bool" where
  "host_run c = foldl (host_step c) (serve_begin c)"

end
