(* ===== verification/HostPowerSafety.thy ===== *)
theory HostPowerSafety
  imports HostPower
begin

section \<open>The order of a host shutdown\<close>

text \<open>
  Lemmas about \<open>HostPower\<close>: in every run a power action follows the stop request and the switching off of the 12 V
  domain, no answer of the core prevents it, and one whose acceptance cannot be told to the client is never carried out.
\<close>

named_theorems host_calls "the calls an operation makes"

text \<open>The operation makes only calls that satisfy \<open>P\<close> and leaves the pending action and its timer alone.\<close>

definition calls_only :: "(host_call \<Rightarrow> bool) \<Rightarrow> (host_agent, 'a) op \<Rightarrow> bool" where
  "calls_only P m = (\<forall>s. \<exists>xs. ha_log (fst (m s)) = ha_log s @ xs \<and> (\<forall>x \<in> set xs. P (fst x))
     \<and> ha_pending (fst (m s)) = ha_pending s \<and> ha_timers (fst (m s)) = ha_timers s)"

lemma calls_onlyE:
  assumes "calls_only P m" and "m s = (s', r)"
  obtains xs where "ha_log s' = ha_log s @ xs" "\<forall>x \<in> set xs. P (fst x)" "ha_pending s' = ha_pending s"
    "ha_timers s' = ha_timers s"
proof -
  from assms obtain xs where "ha_log s' = ha_log s @ xs \<and> (\<forall>x \<in> set xs. P (fst x))
     \<and> ha_pending s' = ha_pending s \<and> ha_timers s' = ha_timers s"
    unfolding calls_only_def by (metis fst_conv)
  then show thesis using that by blast
qed

lemma calls_same:
  "(\<And>s. ha_log (fst (m s)) = ha_log s \<and> ha_pending (fst (m s)) = ha_pending s \<and> ha_timers (fst (m s)) = ha_timers s) \<Longrightarrow> calls_only P m"
  unfolding calls_only_def by (auto intro!: exI[of _ "[]"])

lemma calls_return [host_calls]: "calls_only P (op_return x)" by (rule calls_same) simp

lemma calls_raise [host_calls]: "calls_only P (op_raise e)" by (rule calls_same) simp

lemma calls_lift [host_calls]: "calls_only P (op_lift r)" by (rule calls_same) simp

lemma calls_set_request [host_calls]: "calls_only P (set_request r)" by (rule calls_same) (simp add: set_request_def)

lemma calls_set_commanded [host_calls]: "calls_only P (set_commanded b)" by (rule calls_same) (simp add: set_commanded_def)

lemma host_call_log: "\<exists>ok. ha_log (fst (host_call c x s)) = ha_log s @ [(x, ok)]"
  by (auto simp: host_call_def Let_def split: option.split)

lemma calls_call [host_calls]: "P x \<Longrightarrow> calls_only P (host_call c x)"
  unfolding calls_only_def by (auto simp: host_call_def Let_def split: option.split)

lemma calls_bind [host_calls]:
  assumes m: "calls_only P m" and f: "\<And>x. calls_only P (f x)"
  shows "calls_only P (op_bind m f)"
  unfolding calls_only_def
proof
  fix s
  obtain s1 r where run: "m s = (s1, r)" by force
  obtain xs where xs: "ha_log s1 = ha_log s @ xs" "\<forall>x \<in> set xs. P (fst x)" "ha_pending s1 = ha_pending s"
    "ha_timers s1 = ha_timers s" using m run by (rule calls_onlyE)
  show "\<exists>xs. ha_log (fst (op_bind m f s)) = ha_log s @ xs \<and> (\<forall>x \<in> set xs. P (fst x))
     \<and> ha_pending (fst (op_bind m f s)) = ha_pending s \<and> ha_timers (fst (op_bind m f s)) = ha_timers s"
  proof (cases r)
    case (Inl e)
    with run xs show ?thesis by (auto simp: op_bind_def)
  next
    case (Inr x)
    obtain s2 r2 where run2: "f x s1 = (s2, r2)" by force
    obtain ys where "ha_log s2 = ha_log s1 @ ys" "\<forall>x \<in> set ys. P (fst x)" "ha_pending s2 = ha_pending s1"
      "ha_timers s2 = ha_timers s1" using f run2 by (rule calls_onlyE)
    with run xs Inr run2 show ?thesis by (auto simp: op_bind_def intro!: exI[of _ "xs @ ys"])
  qed
qed

lemma calls_outcome: "calls_only P m \<Longrightarrow> calls_only P (\<lambda>s. (fst (m s), Inr (snd (m s))))"
  unfolding calls_only_def by simp

lemma calls_handler:
  assumes "\<And>e. calls_only P (h e)"
  shows "calls_only P (case r of Inr x \<Rightarrow> op_return x | Inl e \<Rightarrow> if test e then h e else op_raise e)"
  using assms by (cases r) (auto intro: host_calls)

lemma calls_catch [host_calls]: "calls_only P m \<Longrightarrow> (\<And>e. calls_only P (h e)) \<Longrightarrow> calls_only P (op_catch m test h)"
  unfolding op_catch_outcome by (rule calls_bind[OF calls_outcome calls_handler])

lemma calls_finally [host_calls]:
  assumes m: "calls_only P m" and n: "calls_only P n"
  shows "calls_only P (op_finally m n)"
proof -
  have "op_finally m n = op_bind (\<lambda>s. (fst (m s), Inr (snd (m s)))) (\<lambda>r. op_bind n (\<lambda>_. op_lift r))"
    by (auto simp: op_finally_def op_bind_def op_lift_def fun_eq_iff Let_def split: prod.split sum.split)
  then show ?thesis using m n by (simp add: calls_bind calls_lift calls_outcome)
qed

lemma calls_ignore [host_calls]: "calls_only P m \<Longrightarrow> calls_only P (\<lambda>s. (op_ignore m s, Inr ()))"
  unfolding calls_only_def op_ignore_def by simp

lemma calls_do [host_calls]: "P x \<Longrightarrow> calls_only P (host_do c x)"
  unfolding host_do_def by (intro host_calls)

lemma calls_if [host_calls]: "calls_only P m \<Longrightarrow> calls_only P n \<Longrightarrow> calls_only P (if b then m else n)"
  by simp

subsection \<open>The calls of a preparation\<close>

definition is_core_request :: "host_call \<Rightarrow> bool" where
  "is_core_request x = (case x of CoreRequest _ \<Rightarrow> True | _ \<Rightarrow> False)"

definition is_host_reply :: "host_call \<Rightarrow> bool" where
  "is_host_reply x = (case x of HostReply _ \<Rightarrow> True | _ \<Rightarrow> False)"

definition is_launch :: "host_call \<Rightarrow> bool" where
  "is_launch x = (case x of Launch _ \<Rightarrow> True | _ \<Rightarrow> False)"

lemma is_core_request [simp]: "is_core_request (CoreRequest r)" by (simp add: is_core_request_def)

lemma calls_request [host_calls]: "calls_only is_core_request (request_core c payload)"
  unfolding request_core_def by (intro host_calls) simp

lemma calls_status [host_calls]: "calls_only is_core_request (best_effort_core_state c)"
  unfolding best_effort_core_state_def by (intro host_calls)

lemma calls_aero [host_calls]: "calls_only is_core_request (best_effort_aero_zero c payload kind label)"
  unfolding best_effort_aero_zero_def by (intro host_calls)

lemma calls_confirm: "calls_only is_core_request
    (op_bind (op_lift (require_core_ok x stop l)) (\<lambda>_. case v of
       VDict st \<Rightarrow> op_bind (op_lift (r st)) (\<lambda>_. op_return st) | _ \<Rightarrow> op_raise e))"
  by (intro host_calls) (cases v; auto intro!: host_calls)

text \<open>The first call is the stop request.\<close>

definition starts_with_stop :: "(host_agent, 'a) op \<Rightarrow> bool" where
  "starts_with_stop m = (\<forall>s. \<exists>ok xs. ha_log (fst (m s)) = ha_log s @ (CoreRequest stop_command, ok) # xs
     \<and> (\<forall>x \<in> set xs. is_core_request (fst x)) \<and> ha_pending (fst (m s)) = ha_pending s \<and> ha_timers (fst (m s)) = ha_timers s)"

lemma starts_bind:
  assumes m: "starts_with_stop m" and f: "\<And>x. calls_only is_core_request (f x)"
  shows "starts_with_stop (op_bind m f)"
  unfolding starts_with_stop_def
proof
  fix s
  obtain s1 r where run: "m s = (s1, r)" by force
  obtain ok xs where xs: "ha_log s1 = ha_log s @ (CoreRequest stop_command, ok) # xs" "\<forall>x \<in> set xs. is_core_request (fst x)"
     "ha_pending s1 = ha_pending s" "ha_timers s1 = ha_timers s"
    using m run unfolding starts_with_stop_def by (metis fst_conv)
  show "\<exists>ok xs. ha_log (fst (op_bind m f s)) = ha_log s @ (CoreRequest stop_command, ok) # xs
     \<and> (\<forall>x \<in> set xs. is_core_request (fst x)) \<and> ha_pending (fst (op_bind m f s)) = ha_pending s
     \<and> ha_timers (fst (op_bind m f s)) = ha_timers s"
  proof (cases r)
    case (Inl e)
    with run xs show ?thesis by (auto simp: op_bind_def)
  next
    case (Inr x)
    obtain s2 r2 where run2: "f x s1 = (s2, r2)" by force
    obtain ys where "ha_log s2 = ha_log s1 @ ys" "\<forall>x \<in> set ys. is_core_request (fst x)" "ha_pending s2 = ha_pending s1"
      "ha_timers s2 = ha_timers s1" using f run2 by (rule calls_onlyE)
    with run xs Inr run2 show ?thesis by (auto simp: op_bind_def intro!: exI[of _ ok] exI[of _ "xs @ ys"])
  qed
qed

lemma starts_tried: "starts_with_stop m \<Longrightarrow> starts_with_stop (\<lambda>s. (fst (m s), Inr (snd (m s))))"
  unfolding starts_with_stop_def by simp

lemma starts_catch:
  "starts_with_stop m \<Longrightarrow> (\<And>e. calls_only is_core_request (h e)) \<Longrightarrow> starts_with_stop (op_catch m test h)"
  unfolding op_catch_outcome by (rule starts_bind[OF starts_tried calls_handler])

lemma starts_request: "starts_with_stop (request_core c stop_command)"
proof -
  have "starts_with_stop (host_call c (CoreRequest stop_command))"
    unfolding starts_with_stop_def by (auto simp: host_call_def Let_def split: option.split)
  then show ?thesis unfolding request_core_def by (rule starts_bind) (intro host_calls)
qed

lemma starts_confirm: "starts_with_stop (confirm_stop c)"
  unfolding confirm_stop_def by (rule starts_bind[OF starts_request calls_confirm])

lemma starts_peripherals: "starts_with_stop (prepare_peripherals c)"
  unfolding prepare_peripherals_def
  by (intro starts_bind starts_catch starts_confirm host_calls)

lemma op_catch_total: "(\<And>e s. \<exists>s' x. h e s = (s', Inr x)) \<Longrightarrow> \<exists>s' x. op_catch m (\<lambda>_. True) h s = (s', Inr x)"
  by (auto simp: op_catch_def split: prod.split sum.split)

text \<open>The preparation never fails before the power domain.\<close>

lemma peripherals_return: "\<exists>s'. prepare_peripherals c s = (s', Inr ())"
proof -
  have aero: "\<exists>s'. best_effort_aero_zero c p k l s = (s', Inr ())" for p k l s
    using op_catch_total[of "\<lambda>_. op_return ()"] unfolding best_effort_aero_zero_def by simp
  have status: "\<exists>s' x. best_effort_core_state c s = (s', Inr x)" for s
    unfolding best_effort_core_state_def by (rule op_catch_total) simp
  obtain s1 st where "op_catch (op_bind (confirm_stop c) (\<lambda>st. op_return (Some st))) (\<lambda>_. True) (\<lambda>_. best_effort_core_state c) s
      = (s1, Inr st)" using op_catch_total[of "\<lambda>_. best_effort_core_state c", OF status] by blast
  moreover obtain s2 where "best_effort_aero_zero c [(''command'', VStr ''aero-airing''), (''enabled'', VBool False)] ''airing'' ''AERO airing OFF'' s1
      = (s2, Inr ())" using aero by blast
  moreover obtain s3 where "best_effort_aero_zero c [(''command'', VStr ''aero-speed''), (''speed'', VInt 0)] ''speed'' ''AERO speed 0'' s2
      = (s3, Inr ())" using aero by blast
  ultimately show ?thesis by (simp add: prepare_peripherals_def op_bind_def)
qed

subsection \<open>Every launch is justified\<close>

definition isolation :: "host_config \<Rightarrow> (host_call \<times> bool) list" where
  "isolation c = (if hc_domain c then [(SetLine False, True)] else [])"

text \<open>
  A power action \<open>a\<close> is justified by the calls so far: the core was asked to stop, only requests to the core followed, then
  the 12 V domain was switched off, the client was told, and nothing but refusals has happened since.
\<close>

definition justified :: "host_config \<Rightarrow> string \<Rightarrow> (host_call \<times> bool) list \<Rightarrow> bool" where
  "justified c a trace = (\<exists>before ok requests refusals.
     trace = before @ (CoreRequest stop_command, ok) # requests @ isolation c @ (HostReply (HostAccepted a), True) # refusals
     \<and> (\<forall>x \<in> set requests. is_core_request (fst x)) \<and> (\<forall>x \<in> set refusals. is_host_reply (fst x)))"

definition launches_justified :: "host_config \<Rightarrow> (host_call \<times> bool) list \<Rightarrow> bool" where
  "launches_justified c trace = (\<forall>before a ok after. trace = before @ (Launch a, ok) # after \<longrightarrow> justified c a before)"

definition host_agent_ok :: "host_config \<Rightarrow> host_agent \<Rightarrow> bool" where
  "host_agent_ok c s = (launches_justified c (ha_log s)
     \<and> (ha_timers s = [] \<or> (\<exists>a. ha_timers s = [a] \<and> ha_pending s \<and> justified c a (ha_log s))))"

lemma justified_refusals:
  assumes "justified c a trace" and "\<forall>x \<in> set xs. is_host_reply (fst x)"
  shows "justified c a (trace @ xs)"
proof -
  from assms(1) obtain before ok requests refusals where
    "trace = before @ (CoreRequest stop_command, ok) # requests @ isolation c @ (HostReply (HostAccepted a), True) # refusals"
    "\<forall>x \<in> set requests. is_core_request (fst x)" "\<forall>x \<in> set refusals. is_host_reply (fst x)"
    unfolding justified_def by blast
  with assms(2) show ?thesis unfolding justified_def
    by (intro exI[of _ before] exI[of _ ok] exI[of _ requests] exI[of _ "refusals @ xs"]) auto
qed

lemma launches_append:
  assumes "launches_justified c trace" and "\<forall>x \<in> set xs. \<not> is_launch (fst x)"
  shows "launches_justified c (trace @ xs)"
  unfolding launches_justified_def
proof (intro allI impI)
  fix before a ok after assume eq: "trace @ xs = before @ (Launch a, ok) # after"
  have "(Launch a, ok) \<notin> set xs" using assms(2) by (auto simp: is_launch_def)
  with eq obtain rest where "trace = before @ (Launch a, ok) # rest"
    by (auto simp: append_eq_append_conv2 append_eq_Cons_conv)
  with assms(1) show "justified c a before" unfolding launches_justified_def by blast
qed

lemma launches_launch:
  assumes "launches_justified c trace" and "justified c a trace"
  shows "launches_justified c (trace @ [(Launch a, ok)])"
  unfolding launches_justified_def
proof (intro allI impI)
  fix before b ok' after assume eq: "trace @ [(Launch a, ok)] = before @ (Launch b, ok') # after"
  show "justified c b before"
  proof (cases "after = []")
    case True with eq assms(2) show ?thesis by simp
  next
    case False
    then obtain xs x where "after = xs @ [x]" by (metis rev_exhaust)
    with eq have "trace = before @ (Launch b, ok') # xs" by simp
    with assms(1) show ?thesis unfolding launches_justified_def by blast
  qed
qed

lemma host_ok_calls:
  assumes ok: "host_agent_ok c s" and idle: "ha_timers s = []" and m: "calls_only (\<lambda>x. \<not> is_launch x) m"
  shows "host_agent_ok c (fst (m s))" "ha_timers (fst (m s)) = []"
proof -
  obtain s' r where run: "m s = (s', r)" by force
  obtain xs where "ha_log s' = ha_log s @ xs" "\<forall>x \<in> set xs. \<not> is_launch (fst x)" "ha_pending s' = ha_pending s"
    "ha_timers s' = ha_timers s" using m run by (rule calls_onlyE)
  with ok idle run show "host_agent_ok c (fst (m s))" "ha_timers (fst (m s)) = []"
    by (simp_all add: host_agent_ok_def launches_append)
qed

lemma calls_mono: "calls_only P m \<Longrightarrow> (\<And>x. P x \<Longrightarrow> Q x) \<Longrightarrow> calls_only Q m"
  unfolding calls_only_def by meson

lemma calls_reply [host_calls]: "calls_only is_host_reply (send_reply c r)"
  unfolding send_reply_def by (intro host_calls) (simp add: is_host_reply_def)

lemma reply_no_launch: "is_host_reply x \<Longrightarrow> \<not> is_launch x"
  by (cases x) (simp_all add: is_host_reply_def is_launch_def)

lemma request_no_launch: "is_core_request x \<Longrightarrow> \<not> is_launch x"
  by (cases x) (simp_all add: is_core_request_def is_launch_def)

lemma calls_reply' [host_calls]: "calls_only (\<lambda>x. \<not> is_launch x) (send_reply c r)"
  by (rule calls_mono[OF calls_reply reply_no_launch])

lemma calls_peripherals [host_calls]: "calls_only is_core_request (prepare_peripherals c)"
  unfolding calls_only_def
proof
  fix s
  obtain ok xs where "ha_log (fst (prepare_peripherals c s)) = ha_log s @ (CoreRequest stop_command, ok) # xs"
     "\<forall>x \<in> set xs. is_core_request (fst x)" "ha_pending (fst (prepare_peripherals c s)) = ha_pending s"
     "ha_timers (fst (prepare_peripherals c s)) = ha_timers s"
    using starts_peripherals[of c] unfolding starts_with_stop_def by blast
  then show "\<exists>xs. ha_log (fst (prepare_peripherals c s)) = ha_log s @ xs \<and> (\<forall>x \<in> set xs. is_core_request (fst x))
     \<and> ha_pending (fst (prepare_peripherals c s)) = ha_pending s \<and> ha_timers (fst (prepare_peripherals c s)) = ha_timers s"
    by (intro exI[of _ "(CoreRequest stop_command, ok) # xs"]) simp
qed

lemma calls_state_if [host_calls]: "calls_only P m \<Longrightarrow> calls_only P n \<Longrightarrow> calls_only P (\<lambda>s. if b s then m s else n s)"
  unfolding calls_only_def by simp

lemma calls_const [host_calls]: "calls_only P (\<lambda>s. (s, r))"
  by (rule calls_same) simp

lemma not_launch [simp]: "\<not> is_launch (SetLine b)" "\<not> is_launch ReleaseLine" "\<not> is_launch ClaimLine" "\<not> is_launch Stabilize"
  "\<not> is_launch PrepareSocket" "\<not> is_launch BindSocket" "\<not> is_launch NotifyReady" "\<not> is_launch RemoveSocket"
  by (simp_all add: is_launch_def)

lemma calls_release [host_calls]: "calls_only (\<lambda>x. \<not> is_launch x) (release_line c)"
  unfolding release_line_def by (intro host_calls) simp

lemma calls_power_off [host_calls]: "calls_only (\<lambda>x. \<not> is_launch x) (domain_power_off c)"
  unfolding domain_power_off_def by (intro host_calls) simp

lemma calls_close [host_calls]: "calls_only (\<lambda>x. \<not> is_launch x) (domain_close c)"
  unfolding domain_close_def by (intro host_calls)

lemma calls_start [host_calls]: "calls_only (\<lambda>x. \<not> is_launch x) (domain_start c)"
  unfolding domain_start_def switch_on_def by (intro host_calls) simp_all

lemma calls_end [host_calls]: "calls_only (\<lambda>x. \<not> is_launch x) (serve_end c b)"
  unfolding serve_end_def by (intro host_calls) simp

text \<open>A preparation that returns ends with the isolation.\<close>

lemma power_off_log:
  "domain_power_off c s = (s', Inr ()) \<Longrightarrow> ha_log s' = ha_log s @ [(SetLine False, True)]
     \<and> ha_pending s' = ha_pending s \<and> ha_timers s' = ha_timers s"
  by (auto simp: domain_power_off_def host_do_def host_call_def set_commanded_def op_bind_def op_catch_def Let_def
      split: if_split_asm option.split_asm)

lemma prepare_log:
  assumes "prepare_power_action c s = (s', Inr u)"
  shows "\<exists>ok requests. ha_log s' = ha_log s @ (CoreRequest stop_command, ok) # requests @ isolation c
     \<and> (\<forall>x \<in> set requests. is_core_request (fst x)) \<and> ha_pending s' = ha_pending s \<and> ha_timers s' = ha_timers s"
proof -
  obtain s1 where s1: "prepare_peripherals c s = (s1, Inr ())" using peripherals_return by blast
  obtain ok requests where first: "ha_log s1 = ha_log s @ (CoreRequest stop_command, ok) # requests"
      "\<forall>x \<in> set requests. is_core_request (fst x)" "ha_pending s1 = ha_pending s" "ha_timers s1 = ha_timers s"
    using starts_peripherals[of c] s1 unfolding starts_with_stop_def by (metis fst_conv)
  show ?thesis
  proof (cases "hc_domain c")
    case True
    with assms s1 have "domain_power_off c s1 = (s', Inr ())" by (simp add: prepare_power_action_def op_bind_def)
    with power_off_log first True show ?thesis by (auto simp: isolation_def)
  next
    case False
    with assms s1 have "s' = s1" by (simp add: prepare_power_action_def op_bind_def)
    with first False show ?thesis by (auto simp: isolation_def)
  qed
qed

lemma prepare_no_launch: "calls_only (\<lambda>x. \<not> is_launch x) (prepare_power_action c)"
  unfolding prepare_power_action_def
  by (intro calls_bind calls_mono[OF calls_peripherals request_no_launch] host_calls)

lemma host_do_cases:
  obtains (done_ok) "host_do c x s = (s\<lparr>ha_log := ha_log s @ [(x, True)]\<rparr>, Inr ())"
  | (fails) e where "host_do c x s = (s\<lparr>ha_log := ha_log s @ [(x, False)]\<rparr>, Inl e)" "he_fails (hc_env c) x (length (ha_log s)) = Some e"
  by (cases "he_fails (hc_env c) x (length (ha_log s))") (auto simp: host_do_def host_call_def op_bind_def Let_def)

lemma replies_ok: "host_agent_ok c s \<Longrightarrow> calls_only is_host_reply m \<Longrightarrow> host_agent_ok c (fst (m s))"
proof -
  assume ok: "host_agent_ok c s" and m: "calls_only is_host_reply m"
  obtain s' r where run: "m s = (s', r)" by force
  obtain xs where xs: "ha_log s' = ha_log s @ xs" "\<forall>x \<in> set xs. is_host_reply (fst x)" "ha_pending s' = ha_pending s"
    "ha_timers s' = ha_timers s" using m run by (rule calls_onlyE)
  then have "\<forall>x \<in> set xs. \<not> is_launch (fst x)" using reply_no_launch by blast
  with ok xs run show "host_agent_ok c (fst (m s))"
    by (auto simp: host_agent_ok_def launches_append justified_refusals)
qed

lemma serve_action_ok:
  assumes ok: "host_agent_ok c s"
  shows "host_agent_ok c (fst (serve_action c a s))"
proof (cases "ha_pending s")
  case True
  then show ?thesis using replies_ok[OF ok calls_reply] by (simp add: serve_action_def)
next
  case False
  with ok have idle: "ha_timers s = []" by (auto simp: host_agent_ok_def)
  obtain s1 r where prep: "prepare_power_action c (s\<lparr>ha_pending := True\<rparr>) = (s1, r)" by force
  have start: "host_agent_ok c (s\<lparr>ha_pending := True\<rparr>)" using ok idle by (simp add: host_agent_ok_def)
  have idle': "ha_timers (s\<lparr>ha_pending := True\<rparr>) = []" using idle by simp
  note s1 = host_ok_calls[OF start idle' prepare_no_launch[of c], unfolded prep fst_conv]
  show ?thesis
  proof (cases r)
    case (Inl e)
    have "host_agent_ok c (s1\<lparr>ha_pending := False\<rparr>)" using s1 by (simp add: host_agent_ok_def)
    from replies_ok[OF this calls_reply] Inl prep False show ?thesis by (simp add: serve_action_def)
  next
    case (Inr u)
    with prep have "prepare_power_action c (s\<lparr>ha_pending := True\<rparr>) = (s1, Inr u)" by simp
    from prepare_log[OF this] obtain ok requests where
      "ha_log s1 = ha_log (s\<lparr>ha_pending := True\<rparr>) @ (CoreRequest stop_command, ok) # requests @ isolation c"
      "\<forall>x \<in> set requests. is_core_request (fst x)" "ha_pending s1 = ha_pending (s\<lparr>ha_pending := True\<rparr>)" by blast
    then have end_log: "ha_log s1 = ha_log s @ (CoreRequest stop_command, ok) # requests @ isolation c"
      "\<forall>x \<in> set requests. is_core_request (fst x)" "ha_pending s1" by simp_all
    show ?thesis
    proof (cases rule: host_do_cases[of c "HostReply (HostAccepted a)" s1])
      case done_ok
      have "justified c a (ha_log s1 @ [(HostReply (HostAccepted a), True)])"
        unfolding justified_def using end_log
        by (intro exI[of _ "ha_log s"] exI[of _ ok] exI[of _ requests] exI[of _ "[]"]) simp
      moreover have "launches_justified c (ha_log s1 @ [(HostReply (HostAccepted a), True)])"
        using s1(1) by (intro launches_append) (simp_all add: host_agent_ok_def is_launch_def)
      ultimately show ?thesis using done_ok Inr prep False s1(2) end_log(3)
        by (simp add: serve_action_def send_reply_def op_bind_def start_timer_def host_agent_ok_def)
    next
      case (fails e)
      have "launches_justified c (ha_log s1 @ [(HostReply (HostAccepted a), False)])"
        using s1(1) by (intro launches_append) (simp_all add: host_agent_ok_def is_launch_def)
      then show ?thesis using fails Inr prep False s1(2)
        by (simp add: serve_action_def send_reply_def op_bind_def start_timer_def host_agent_ok_def)
    qed
  qed
qed

lemma handle_ok:
  assumes "host_agent_ok c s"
  shows "host_agent_ok c (fst (handle_host_connection c chunks s))"
proof -
  let ?body = "op_bind (op_lift (rbind (read_host_request chunks) (decode_action (hc_codec c)))) (serve_action c)"
  obtain s1 r where body: "?body s = (s1, r)" by force
  have ok: "host_agent_ok c s1"
  proof (cases "rbind (read_host_request chunks) (decode_action (hc_codec c))")
    case (Inl e)
    with body assms show ?thesis by (simp add: op_bind_def)
  next
    case (Inr a)
    with body serve_action_ok[OF assms, of a] show ?thesis by (simp add: op_bind_def)
  qed
  show ?thesis
    using body ok replies_ok[OF ok calls_reply]
    by (cases r) (simp_all add: handle_host_connection_def)
qed

lemma ends_ok: "launches_justified c (ha_log s) \<Longrightarrow> host_agent_ok c (agent_ends c s)"
proof -
  assume ok: "launches_justified c (ha_log s)"
  obtain s' r where run: "serve_end c (hc_domain c) s = (s', r)" by force
  obtain xs where "ha_log s' = ha_log s @ xs" "\<forall>x \<in> set xs. \<not> is_launch (fst x)"
    using calls_end run by (rule calls_onlyE) blast
  with ok run show "host_agent_ok c (agent_ends c s)" by (simp add: agent_ends_def host_agent_ok_def launches_append)
qed

lemma step_ok: "host_agent_ok c (fst sb) \<Longrightarrow> host_agent_ok c (fst (host_step c sb e))"
proof -
  assume ok: "host_agent_ok c (fst sb)"
  obtain s b where sb: "sb = (s, b)" by force
  show "host_agent_ok c (fst (host_step c sb e))"
  proof (cases e)
    case (Connection chunks)
    have ok': "host_agent_ok c (fst (handle_host_connection c chunks s))" using handle_ok ok sb by simp
    then have "launches_justified c (ha_log (fst (handle_host_connection c chunks s)))" by (simp add: host_agent_ok_def)
    from ends_ok[OF this] ok' ok sb Connection show ?thesis
      by (auto simp: host_step_def split: prod.split sum.split)
  next
    case (TimerFires i)
    show ?thesis
    proof (cases "b \<and> i < length (ha_timers s)")
      case True
      with ok sb obtain a where a: "ha_timers s = [a]" "i = 0" "justified c a (ha_log s)" "launches_justified c (ha_log s)"
        by (auto simp: host_agent_ok_def)
      have "launches_justified c (ha_log s @ [(Launch a, ok)])" for ok using launches_launch a by blast
      then show ?thesis using TimerFires sb True a
        by (cases rule: host_do_cases[of c "Launch a" "s\<lparr>ha_timers := []\<rparr>"])
          (simp_all add: host_step_def execute_host_action_def host_agent_ok_def)
    next
      case False
      with ok TimerFires sb show ?thesis by (auto simp: host_step_def)
    qed
  next
    case LoopEnds
    with ok sb ends_ok show ?thesis by (auto simp: host_step_def host_agent_ok_def)
  qed
qed

lemma begin_ok: "host_agent_ok c (fst (serve_begin c))"
proof -
  have start: "host_agent_ok c new_host_agent" "ha_timers new_host_agent = []"
    by (simp_all add: new_host_agent_def host_agent_ok_def launches_justified_def)
  define listen where "listen = op_bind (host_do c BindSocket) (\<lambda>_. host_do c NotifyReady)"
  define domain where "domain = (if hc_domain c then domain_start c else (\<lambda>s. (s, Inr ())))"
  have listen: "calls_only (\<lambda>x. \<not> is_launch x) listen" unfolding listen_def by (intro host_calls) simp_all
  have domain: "calls_only (\<lambda>x. \<not> is_launch x) domain" unfolding domain_def by (intro host_calls)
  have prepare: "calls_only (\<lambda>x. \<not> is_launch x) (host_do c PrepareSocket)" by (intro host_calls) simp
  obtain s0 r0 where s0: "host_do c PrepareSocket new_host_agent = (s0, r0)" by force
  obtain s1 r1 where s1: "domain s0 = (s1, r1)" by force
  obtain s2 r2 where s2: "listen s1 = (s2, r2)" by force
  note ok0 = host_ok_calls[OF start prepare, unfolded s0 fst_conv]
  note ok1 = host_ok_calls[OF ok0 domain, unfolded s1 fst_conv]
  note ok2 = host_ok_calls[OF ok1 listen, unfolded s2 fst_conv]
  note ok1' = host_ok_calls[OF ok1 calls_end[of c]] and ok2' = host_ok_calls[OF ok2 calls_end[of c]]
  have begin_eq: "serve_begin c = (case r0 of Inl _ \<Rightarrow> (s0, False) | Inr _ \<Rightarrow> (case r1 of
      Inl _ \<Rightarrow> (fst (serve_end c False s1), False)
    | Inr _ \<Rightarrow> (case r2 of Inl _ \<Rightarrow> (fst (serve_end c (hc_domain c) s2), False) | Inr _ \<Rightarrow> (s2, True))))"
    using s1 s2 by (auto simp: serve_begin_def s0 domain_def listen_def split: sum.split)
  show ?thesis unfolding begin_eq using ok0 ok1' ok2 ok2' by (auto split: sum.split)
qed

lemma host_run_ok: "host_agent_ok c (fst (host_run c es))"
proof (induction es rule: rev_induct)
  case Nil then show ?case by (simp add: host_run_def begin_ok)
next
  case (snoc e es) then show ?case using step_ok by (simp add: host_run_def)
qed

text \<open>C31: The host is powered off only after everything is switched off. Whatever clients send, whatever fails and however
  requests, timers and the end of the agent follow each other: when a power action \<open>a\<close> is launched, the core was asked to stop,
  after that only the core was asked, the 12 V domain was switched off, the client was told that \<open>a\<close> is accepted, and
  since then nothing has happened but replies to further clients. In particular nothing has switched the domain on again.\<close>

theorem host_power_isolates_first:
  assumes "ha_log (fst (host_run c es)) = before @ (Launch a, ok) # after"
  shows "\<exists>start asked requests refusals.
    before = start @ (CoreRequest [(''command'', VStr ''stop'')], asked) # requests
      @ (if hc_domain c then [(SetLine False, True)] else []) @ (HostReply (HostAccepted a), True) # refusals
    \<and> list_all (\<lambda>x. is_core_request (fst x)) requests \<and> list_all (\<lambda>x. is_host_reply (fst x)) refusals"
proof -
  have "justified c a before" using host_run_ok[of c es] assms unfolding host_agent_ok_def launches_justified_def by blast
  then show ?thesis unfolding justified_def isolation_def stop_command_def list_all_iff .
qed

definition demo_host :: "(host_call \<Rightarrow> exc option) \<Rightarrow> host_config" where
  "demo_host fails = \<lparr>hc_domain = True, hc_line_name = ''GPIO22'', hc_stabilization = Fin 1,
     hc_env = \<lparr>he_fails = (\<lambda>x _. fails x), he_chunks = (\<lambda>_. [Inl (OSError ''refused'')]), he_offset = (\<lambda>_. 22)\<rparr>,
     hc_codec = \<lparr>hx_loads = (\<lambda>_. Some (VDict [(''action'', VStr ''shutdown'')])), hx_str = (\<lambda>_. []), hx_repr = (\<lambda>_. [])\<rparr>\<rparr>"

definition demo_shutdown :: host_event where
  "demo_shutdown = Connection [Inr ''shutdown''] "

definition demo_host_log :: "bool \<Rightarrow> (host_call \<times> bool) list" where
  "demo_host_log told = [(PrepareSocket, True), (ClaimLine, True), (SetLine True, True), (Stabilize, True), (BindSocket, True),
     (NotifyReady, True), (CoreRequest [(''command'', VStr ''stop'')], True), (CoreRequest [(''command'', VStr ''status'')], True),
     (CoreRequest [(''command'', VStr ''aero-airing''), (''enabled'', VBool False)], True),
     (CoreRequest [(''command'', VStr ''aero-speed''), (''speed'', VInt 0)], True), (SetLine False, True),
     (HostReply (HostAccepted ''shutdown''), told)]"

lemma demo_host_request: "rbind (read_host_request [Inr ''shutdown'']) (decode_action (hc_codec (demo_host f))) = Inr ''shutdown''"
  by (simp add: read_host_request_def first_line_def decode_action_def demo_host_def MAX_REQUEST_BYTES_def vget_def dict_get_def
      is_hashable_def)

lemma demo_host_begin:
  assumes "\<And>x. f x \<noteq> None \<Longrightarrow> x = HostReply (HostAccepted ''shutdown'')"
  shows "serve_begin (demo_host f) = (\<lparr>ha_log = take 6 (demo_host_log b), ha_request = Some 22, ha_commanded_on = True,
    ha_pending = False, ha_timers = []\<rparr>, True)"
proof -
  have "f x = None" if "x \<noteq> HostReply (HostAccepted ''shutdown'')" for x using assms that by (cases "f x") auto
  then show ?thesis
    by (simp add: serve_begin_def domain_start_def switch_on_def host_do_def host_call_def op_bind_def op_catch_def
        set_request_def set_commanded_def demo_host_def new_host_agent_def demo_host_log_def Let_def)
qed

lemma demo_host_prepare:
  assumes "\<And>x. f x \<noteq> None \<Longrightarrow> x = HostReply (HostAccepted ''shutdown'')"
  shows "prepare_power_action (demo_host f) \<lparr>ha_log = take 6 (demo_host_log b), ha_request = Some 22, ha_commanded_on = True,
      ha_pending = True, ha_timers = []\<rparr>
    = (\<lparr>ha_log = take 11 (demo_host_log b), ha_request = Some 22, ha_commanded_on = False, ha_pending = True, ha_timers = []\<rparr>, Inr ())"
proof -
  have none: "f x = None" if "x \<noteq> HostReply (HostAccepted ''shutdown'')" for x using assms that by (cases "f x") auto
  have dead: "request_core (demo_host f) p s = (s\<lparr>ha_log := ha_log s @ [(CoreRequest p, True)]\<rparr>, Inl (OSError ''refused''))" for p s
    by (simp add: request_core_def host_call_def op_bind_def demo_host_def none core_reply_def MAX_CORE_RESPONSE_BYTES_def)
  show ?thesis
    by (simp add: prepare_power_action_def prepare_peripherals_def confirm_stop_def best_effort_core_state_def
        best_effort_aero_zero_def op_bind_def op_catch_def dead stop_command_def demo_host_log_def)
      (simp add: domain_power_off_def host_do_def host_call_def op_bind_def op_catch_def set_commanded_def demo_host_def none)
qed

lemma demo_host_connection:
  assumes "\<And>x. f x \<noteq> None \<Longrightarrow> x = HostReply (HostAccepted ''shutdown'')"
  shows "handle_host_connection (demo_host f) [Inr ''shutdown''] \<lparr>ha_log = take 6 (demo_host_log b), ha_request = Some 22,
      ha_commanded_on = True, ha_pending = False, ha_timers = []\<rparr>
    = (case f (HostReply (HostAccepted ''shutdown'')) of
        None \<Rightarrow> (\<lparr>ha_log = demo_host_log True, ha_request = Some 22, ha_commanded_on = False, ha_pending = True,
          ha_timers = [''shutdown'']\<rparr>, Inr ())
      | Some e \<Rightarrow> let s = \<lparr>ha_log = demo_host_log False, ha_request = Some 22, ha_commanded_on = False, ha_pending = True,
          ha_timers = []\<rparr> in if is_value_error e then send_reply (demo_host f) (HostError (exc_str e)) s
            else if is_os_error e then (s, Inr ()) else (s, Inl e))"
proof -
  obtain first rest where parts: "take 6 (demo_host_log b) = first" "take 11 (demo_host_log b) = rest"
    "\<And>ok. demo_host_log ok = rest @ [(HostReply (HostAccepted ''shutdown''), ok)]" by (simp add: demo_host_log_def)
  have asked: "op_bind (op_lift (rbind (read_host_request [Inr ''shutdown'']) (decode_action (hc_codec (demo_host f))))) m
      = m ''shutdown''" for m :: "string \<Rightarrow> (host_agent, unit) op" by (simp add: op_bind_def demo_host_request fun_eq_iff)
  note prepared = demo_host_prepare[of f b, OF assms, unfolded parts(1,2)]
  show ?thesis
    unfolding handle_host_connection_def asked parts(1) unfolding parts(3)
    using prepared
    by (cases "f (HostReply (HostAccepted ''shutdown''))")
      (simp_all add: serve_action_def send_reply_def host_do_def host_call_def op_bind_def start_timer_def Let_def
        demo_host_def)
qed

lemma demo_host_run: "ha_log (fst (host_run (demo_host (\<lambda>_. None)) [demo_shutdown, TimerFires 0]))
    = demo_host_log True @ (Launch ''shutdown'', True) # []"
  using demo_host_begin[of "\<lambda>_. None" True] demo_host_connection[of "\<lambda>_. None" True]
  by (simp add: host_run_def host_step_def demo_shutdown_def execute_host_action_def host_do_def host_call_def op_bind_def
      demo_host_def Let_def)

lemma host_power_isolates_first_witness:
  "\<exists>start asked requests refusals.
    demo_host_log True = start @ (CoreRequest [(''command'', VStr ''stop'')], asked) # requests
      @ (if hc_domain (demo_host (\<lambda>_. None)) then [(SetLine False, True)] else []) @ (HostReply (HostAccepted ''shutdown''), True) # refusals
    \<and> list_all (\<lambda>x. is_core_request (fst x)) requests \<and> list_all (\<lambda>x. is_host_reply (fst x)) refusals"
  by (rule host_power_isolates_first[OF demo_host_run])

subsection \<open>No answer of the core prevents a shutdown\<close>

definition keeps_line :: "(host_agent, 'a) op \<Rightarrow> bool" where
  "keeps_line m = (\<forall>s. ha_request (fst (m s)) = ha_request s)"

lemma keeps_bind: "keeps_line m \<Longrightarrow> (\<And>x. keeps_line (f x)) \<Longrightarrow> keeps_line (op_bind m f)"
  unfolding keeps_line_def op_bind_def by (auto split: prod.split sum.split dest: spec[of _ "_ :: host_agent"]) (metis fst_conv)+

lemma keeps_catch: "keeps_line m \<Longrightarrow> (\<And>e. keeps_line (h e)) \<Longrightarrow> keeps_line (op_catch m test h)"
  unfolding op_catch_outcome by (rule keeps_bind) (auto simp: keeps_line_def split: sum.split)

lemma keeps_request: "keeps_line (request_core c payload)"
  unfolding request_core_def by (rule keeps_bind) (auto simp: keeps_line_def host_call_def Let_def split: option.split)

lemma keeps_steps: "keeps_line (op_lift r)" "keeps_line (op_return x)" "keeps_line (op_raise e)"
  by (simp_all add: keeps_line_def)

lemma keeps_confirm: "keeps_line (op_bind (op_lift (require_core_ok x stop l)) (\<lambda>_. case v of
       VDict st \<Rightarrow> op_bind (op_lift (r st)) (\<lambda>_. op_return st) | _ \<Rightarrow> op_raise e))"
  by (rule keeps_bind, rule keeps_steps, cases v) (auto intro: keeps_bind keeps_steps)

lemma keeps_peripherals: "keeps_line (prepare_peripherals c)"
proof -
  have if_then: "keeps_line (if b then m else n)" if "keeps_line m" "keeps_line n" for b and m n :: "(host_agent, unit) op"
    using that by simp
  have confirm: "keeps_line (confirm_stop c)"
    unfolding confirm_stop_def by (rule keeps_bind[OF keeps_request keeps_confirm])
  show ?thesis
    unfolding prepare_peripherals_def best_effort_core_state_def best_effort_aero_zero_def
    by (intro keeps_bind keeps_catch if_then confirm keeps_request keeps_steps)
qed

lemma prepare_isolates:
  assumes line: "hc_domain c \<Longrightarrow> ha_request s \<noteq> None" and works: "\<And>k. he_fails (hc_env c) (SetLine False) k = None"
  shows "\<exists>s'. prepare_power_action c s = (s', Inr ()) \<and> (hc_domain c \<longrightarrow> \<not> ha_commanded_on s')"
proof -
  obtain s1 where s1: "prepare_peripherals c s = (s1, Inr ())" using peripherals_return by blast
  have "ha_request s1 = ha_request s" using keeps_peripherals[of c] s1 unfolding keeps_line_def by (metis fst_conv)
  with line works s1 show ?thesis
    by (auto simp: prepare_power_action_def op_bind_def domain_power_off_def host_do_def host_call_def op_catch_def
        set_commanded_def Let_def)
qed

text \<open>C32: No answer of the core, and no silence, keeps the host from being powered off. On a well-formed request
  to an agent with no action pending, as long as the 12 V line, the reply and systemd work, the action is accepted and
  launched, with the domain switched off before; the core may refuse, fail, time out or answer anything.\<close>

theorem host_power_never_blocked:
  assumes "read_host_request chunks = Inr raw" and "decode_action (hc_codec c) raw = Inr a"
    and "\<not> ha_pending s" and "ha_timers s = []" and "hc_domain c \<Longrightarrow> ha_request s \<noteq> None"
    and works: "\<And>x k. x \<in> {SetLine False, HostReply (HostAccepted a), Launch a} \<Longrightarrow> he_fails (hc_env c) x k = None"
  shows "\<exists>s' calls. foldl (host_step c) (s, True) [Connection chunks, TimerFires 0] = (s', True)
    \<and> ha_log s' = ha_log s @ calls @ (if hc_domain c then [(SetLine False, True)] else [])
        @ [(HostReply (HostAccepted a), True), (Launch a, True)]
    \<and> list_all (\<lambda>x. is_core_request (fst x)) calls"
proof -
  obtain s1 where s1: "prepare_power_action c (s\<lparr>ha_pending := True\<rparr>) = (s1, Inr ())"
    using prepare_isolates[of c "s\<lparr>ha_pending := True\<rparr>"] assms(5) works by auto
  from prepare_log[OF this] obtain ok requests where log1: "ha_log s1 = ha_log s @ (CoreRequest stop_command, ok) # requests @ isolation c"
    "\<forall>x \<in> set requests. is_core_request (fst x)" and idle: "ha_timers s1 = []" using assms(4) by auto
  have "handle_host_connection c chunks s
      = (s1\<lparr>ha_log := ha_log s1 @ [(HostReply (HostAccepted a), True)], ha_timers := [a]\<rparr>, Inr ())"
    using assms(1-3) s1 idle works
    by (simp add: handle_host_connection_def op_bind_def serve_action_def send_reply_def host_do_def host_call_def start_timer_def Let_def)
  then have "foldl (host_step c) (s, True) [Connection chunks, TimerFires 0]
      = (s1\<lparr>ha_log := ha_log s1 @ [(HostReply (HostAccepted a), True), (Launch a, True)], ha_timers := []\<rparr>, True)"
    using works by (simp add: host_step_def execute_host_action_def host_do_def host_call_def op_bind_def Let_def)
  then show ?thesis using log1
    by (intro exI[of _ "s1\<lparr>ha_log := ha_log s1 @ [(HostReply (HostAccepted a), True), (Launch a, True)], ha_timers := []\<rparr>"]
        exI[of _ "(CoreRequest stop_command, ok) # requests"]) (simp add: isolation_def list_all_iff)
qed

lemma host_power_never_blocked_witness:
  "\<exists>s' calls. foldl (host_step (demo_host (\<lambda>_. None))) (\<lparr>ha_log = [], ha_request = Some 22, ha_commanded_on = True,
      ha_pending = False, ha_timers = []\<rparr>, True) [Connection [Inr ''shutdown''], TimerFires 0] = (s', True)
    \<and> ha_log s' = [] @ calls @ (if hc_domain (demo_host (\<lambda>_. None)) then [(SetLine False, True)] else [])
        @ [(HostReply (HostAccepted ''shutdown''), True), (Launch ''shutdown'', True)]
    \<and> list_all (\<lambda>x. is_core_request (fst x)) calls"
  using host_power_never_blocked[of "[Inr ''shutdown'']" "''shutdown''" "demo_host (\<lambda>_. None)" "''shutdown''"
      "\<lparr>ha_log = [], ha_request = Some 22, ha_commanded_on = True, ha_pending = False, ha_timers = []\<rparr>"]
  by (simp add: read_host_request_def first_line_def decode_action_def demo_host_def MAX_REQUEST_BYTES_def vget_def dict_get_def
      is_hashable_def)

subsection \<open>A reply that is lost\<close>

text \<open>While an action is pending and no timer runs, every step only replies or ends the agent.\<close>

lemma stuck_step:
  assumes "ha_pending s" and "ha_timers s = []"
  shows "\<exists>xs. ha_log (fst (host_step c (s, b) e)) = ha_log s @ xs \<and> list_all (\<lambda>x. \<not> is_launch (fst x)) xs
    \<and> (snd (host_step c (s, b) e) \<longrightarrow> ha_pending (fst (host_step c (s, b) e)) \<and> ha_timers (fst (host_step c (s, b) e)) = [])"
proof (cases b)
  case False then show ?thesis by (simp add: host_step_def)
next
  case True
  have ends: "\<exists>xs. ha_log (agent_ends c s') = ha_log s' @ xs \<and> list_all (\<lambda>x. \<not> is_launch (fst x)) xs" for s'
  proof -
    obtain s2 r where run: "serve_end c (hc_domain c) s' = (s2, r)" by force
    obtain xs where "ha_log s2 = ha_log s' @ xs" "\<forall>x \<in> set xs. \<not> is_launch (fst x)"
      using calls_end run by (rule calls_onlyE) blast
    with run show ?thesis by (auto simp: agent_ends_def list_all_iff)
  qed
  show ?thesis
  proof (cases e)
    case (Connection chunks)
    let ?body = "op_bind (op_lift (rbind (read_host_request chunks) (decode_action (hc_codec c)))) (serve_action c)"
    obtain s1 r where run: "handle_host_connection c chunks s = (s1, r)" by force
    have "\<exists>xs. ha_log s1 = ha_log s @ xs \<and> list_all (\<lambda>x. \<not> is_launch (fst x)) xs \<and> ha_pending s1 \<and> ha_timers s1 = []"
    proof -
      obtain s0 r0 where body: "?body s = (s0, r0)" by force
      have s0: "\<exists>xs. ha_log s0 = ha_log s @ xs \<and> list_all (\<lambda>x. \<not> is_launch (fst x)) xs \<and> ha_pending s0 \<and> ha_timers s0 = []"
      proof (cases "rbind (read_host_request chunks) (decode_action (hc_codec c))")
        case (Inl e) with body assms show ?thesis by (simp add: op_bind_def)
      next
        case (Inr a)
        with body assms have "s0 = fst (send_reply c (HostError ''host power action already pending'') s)"
          by (simp add: op_bind_def serve_action_def)
        then show ?thesis using assms
          by (cases rule: host_do_cases[of c "HostReply (HostError ''host power action already pending'')" s])
            (simp_all add: send_reply_def is_launch_def)
      qed
      then obtain xs where xs: "ha_log s0 = ha_log s @ xs" "list_all (\<lambda>x. \<not> is_launch (fst x)) xs" "ha_pending s0" "ha_timers s0 = []"
        by blast
      show ?thesis
      proof (cases "\<exists>e. r0 = Inl e \<and> is_value_error e")
        case True
        then obtain e where "r0 = Inl e" "is_value_error e" by blast
        with run body have "s1 = fst (send_reply c (HostError (exc_str e)) s0)" by (simp add: handle_host_connection_def)
        with xs show ?thesis
          by (cases rule: host_do_cases[of c "HostReply (HostError (exc_str e))" s0]) (simp_all add: send_reply_def is_launch_def)
      next
        case False
        with run body have "s1 = s0" by (auto simp: handle_host_connection_def split: sum.split_asm if_split_asm)
        with xs show ?thesis by simp
      qed
    qed
    with ends[of s1] run Connection True show ?thesis by (cases r) (auto simp: host_step_def)
  next
    case (TimerFires i) with assms True show ?thesis by (simp add: host_step_def)
  next
    case LoopEnds with ends[of s] True show ?thesis by (simp add: host_step_def)
  qed
qed

lemma stuck_run:
  assumes "b \<longrightarrow> ha_pending s \<and> ha_timers s = []"
  shows "\<exists>xs. ha_log (fst (foldl (host_step c) (s, b) es)) = ha_log s @ xs \<and> list_all (\<lambda>x. \<not> is_launch (fst x)) xs"
  using assms
proof (induction es arbitrary: s b)
  case (Cons e es)
  obtain s1 b1 where step: "host_step c (s, b) e = (s1, b1)" by force
  have "\<exists>xs. ha_log s1 = ha_log s @ xs \<and> list_all (\<lambda>x. \<not> is_launch (fst x)) xs \<and> (b1 \<longrightarrow> ha_pending s1 \<and> ha_timers s1 = [])"
  proof (cases b)
    case True
    with stuck_step[of s c b e] Cons.prems step show ?thesis by auto
  next
    case False
    with step show ?thesis by (simp add: host_step_def)
  qed
  moreover from this obtain ys where "ha_log (fst (foldl (host_step c) (s1, b1) es)) = ha_log s1 @ ys"
      "list_all (\<lambda>x. \<not> is_launch (fst x)) ys" using Cons.IH by blast
  ultimately show ?case using step by auto
qed simp

lemma accepted_reply_lost:
  assumes run: "handle_host_connection c chunks s = (s1, Inr ())"
    and lost: "ha_log s1 = ha_log s @ calls @ [(HostReply (HostAccepted a), False)]" and idle: "ha_timers s = []"
  shows "ha_pending s1 \<and> ha_timers s1 = [] \<and> (\<exists>start. calls = start @ isolation c)"
proof -
  let ?body = "op_bind (op_lift (rbind (read_host_request chunks) (decode_action (hc_codec c)))) (serve_action c)"
  obtain s0 r0 where body: "?body s = (s0, r0)" by force
  have error: False if e: "ha_log s1 = ha_log (fst (send_reply c (HostError m) s2))" for m s2
    using lost e by (cases rule: host_do_cases[of c "HostReply (HostError m)" s2]) (simp_all add: send_reply_def)
  have no_value: "s1 = s0"
  proof (cases "\<exists>e. r0 = Inl e \<and> is_value_error e")
    case True
    then obtain e where "r0 = Inl e" "is_value_error e" by blast
    with run body have "s1 = fst (send_reply c (HostError (exc_str e)) s0)" by (simp add: handle_host_connection_def)
    with error show ?thesis by blast
  next
    case False
    with run body show ?thesis by (auto simp: handle_host_connection_def split: sum.split_asm if_split_asm)
  qed
  show ?thesis
  proof (cases "rbind (read_host_request chunks) (decode_action (hc_codec c))")
    case (Inl e)
    with body no_value have "s1 = s" by (simp add: op_bind_def)
    with lost show ?thesis by simp
  next
    case (Inr b)
    with body no_value have served: "serve_action c b s = (s1, r0)" by (simp add: op_bind_def)
    show ?thesis
    proof (cases "ha_pending s")
      case True
      with served have "s1 = fst (send_reply c (HostError ''host power action already pending'') s)" by (simp add: serve_action_def)
      with error show ?thesis by blast
    next
      case False
      obtain s2 r2 where prep: "prepare_power_action c (s\<lparr>ha_pending := True\<rparr>) = (s2, r2)" by force
      show ?thesis
      proof (cases r2)
        case (Inl e)
        with served prep False have "s1 = fst (send_reply c (HostError (''host power preparation failed: '' @ exc_str e)) (s2\<lparr>ha_pending := False\<rparr>))"
          by (simp add: serve_action_def)
        with error show ?thesis by blast
      next
        case (Inr u)
        with prep have "prepare_power_action c (s\<lparr>ha_pending := True\<rparr>) = (s2, Inr u)" by simp
        from prepare_log[OF this] obtain ok requests where end_log: "ha_log s2 = ha_log s @ (CoreRequest stop_command, ok) # requests @ isolation c"
          "ha_pending s2" "ha_timers s2 = []" using idle by auto
        show ?thesis
        proof (cases rule: host_do_cases[of c "HostReply (HostAccepted b)" s2])
          case done_ok
          with served prep Inr False have "ha_log s1 = ha_log s2 @ [(HostReply (HostAccepted b), True)]"
            by (auto simp: serve_action_def send_reply_def op_bind_def start_timer_def)
          with lost have "ha_log s2 @ [(HostReply (HostAccepted b), True)] = (ha_log s @ calls) @ [(HostReply (HostAccepted a), False)]"
            by simp
          then show ?thesis by (subst (asm) append1_eq_conv) simp
        next
          case (fails e)
          with served prep Inr False have "s1 = s2\<lparr>ha_log := ha_log s2 @ [(HostReply (HostAccepted b), False)]\<rparr>"
            by (simp add: serve_action_def send_reply_def op_bind_def)
          with lost end_log show ?thesis by (auto intro!: exI[of _ "(CoreRequest stop_command, ok) # requests"])
        qed
      qed
    qed
  qed
qed

text \<open>An acceptance that does not reach the client blocks the power button. When the reply to a request that was
  prepared, 12 V domain switched off, cannot be sent, the pending action is never reset and its timer never
  started: whatever happens afterwards, no power action is launched until the agent is restarted.\<close>

theorem lost_reply_blocks_power:
  assumes "handle_host_connection c chunks s = (s1, Inr ())"
    and "ha_log s1 = ha_log s @ calls @ [(HostReply (HostAccepted a), False)]" and "ha_timers s = []"
  shows "(\<exists>start. calls = start @ (if hc_domain c then [(SetLine False, True)] else []))
    \<and> (\<exists>later. ha_log (fst (foldl (host_step c) (s1, True) es)) = ha_log s1 @ later
        \<and> list_all (\<lambda>x. \<not> is_launch (fst x)) later)"
  using accepted_reply_lost[OF assms] stuck_run[of True s1 c es] by (simp add: isolation_def)

lemma lost_reply_blocks_power_witness:
  "(\<exists>start. drop 6 (take 11 (demo_host_log True)) = start @ (if hc_domain (demo_host (\<lambda>x. if x = HostReply (HostAccepted ''shutdown'')
        then Some (OSError ''broken pipe'') else None)) then [(SetLine False, True)] else []))
    \<and> (\<exists>later. ha_log (fst (foldl (host_step (demo_host (\<lambda>x. if x = HostReply (HostAccepted ''shutdown'')
            then Some (OSError ''broken pipe'') else None)))
          (\<lparr>ha_log = demo_host_log False, ha_request = Some 22, ha_commanded_on = False, ha_pending = True, ha_timers = []\<rparr>, True)
          [demo_shutdown, TimerFires 0])) = demo_host_log False @ later
        \<and> list_all (\<lambda>x. \<not> is_launch (fst x)) later)"
proof -
  define f where "f = (\<lambda>x. if x = HostReply (HostAccepted ''shutdown'') then Some (OSError ''broken pipe'') else None)"
  have run: "handle_host_connection (demo_host f) [Inr ''shutdown''] \<lparr>ha_log = take 6 (demo_host_log True), ha_request = Some 22,
      ha_commanded_on = True, ha_pending = False, ha_timers = []\<rparr>
    = (\<lparr>ha_log = demo_host_log False, ha_request = Some 22, ha_commanded_on = False, ha_pending = True, ha_timers = []\<rparr>, Inr ())"
    by (subst demo_host_connection) (simp_all add: f_def Let_def split: if_split_asm)
  from lost_reply_blocks_power[OF run, of "drop 6 (take 11 (demo_host_log True))" "''shutdown''" "[demo_shutdown, TimerFires 0]"]
  show ?thesis unfolding f_def by (simp add: demo_host_log_def)
qed

text \<open>
  Two requests end the agent, and with it the 12 V domain: one whose action is a list or an object, which cannot be looked
  up among the actions, and one that is refused and whose client does not wait for the reply.
\<close>

lemma unhashable_action_ends_agent:
  assumes "read_host_request chunks = Inr raw" and "hx_loads (hc_codec c) raw = Some (VDict [(''action'', VList vs)])"
  shows "host_step c (s, True) (Connection chunks) = (agent_ends c s, False)"
  using assms by (simp add: host_step_def handle_host_connection_def op_bind_def decode_action_def vget_def dict_get_def
      is_hashable_def)

lemma refused_reply_lost_ends_agent:
  assumes "read_host_request chunks = Inl (ValueError m)"
    and "he_fails (hc_env c) (HostReply (HostError m)) (length (ha_log s)) = Some (OSError m')"
  shows "host_step c (s, True) (Connection chunks)
    = (agent_ends c (s\<lparr>ha_log := ha_log s @ [(HostReply (HostError m), False)]\<rparr>), False)"
  using assms by (simp add: host_step_def handle_host_connection_def op_bind_def send_reply_def host_do_def host_call_def Let_def)

end
