(* ===== verification/ServiceOta.thy ===== *)
theory ServiceOta
  imports Heartbeat
begin

section \<open>Updates of the sensor nodes over the air\<close>

text \<open>
  Models \<open>service_ota.py\<close>: the image check, the address of a node, the HTTP exchange with its update endpoint, and the
  coordinator that runs one update at a time. What HTTP requests meet, the image file, the DHCP
  leases, SHA-256, HMAC, the JSON decoder and the clocks are inputs; a file write fails when the disk says so. An answer
  that is an exception stands for \<open>OSError\<close> and \<open>HTTPException\<close>. \<open>ServiceOtaError\<close> is \<open>RuntimeError\<close>, which
  nothing else raises where it is caught, and \<open>ServiceOtaUncertainError\<close>, caught by the only caller, is the outcome
  \<open>ResponseLost\<close>. Logging, threads' names and the HTTP headers that are constant are left out.
\<close>

definition OTA_PROTOCOL :: string where "OTA_PROTOCOL = ''WVC-OTA1''"

definition MAX_IMAGE_BYTES :: int where "MAX_IMAGE_BYTES = 0x1D0000"

definition TERMINAL_STATES :: "string list" where
  "TERMINAL_STATES = [''succeeded'', ''failed'', ''rolled_back'', ''uncertain'']"

record ota_codec =
  ox_loads :: "string \<Rightarrow> py_value option"
  ox_hmac :: "string \<Rightarrow> string \<Rightarrow> string"
  ox_sha256 :: "string \<Rightarrow> string"
  ox_str :: "py_value \<Rightarrow> string"
  ox_repr :: "py_value \<Rightarrow> string"
  ox_int :: "py_value \<Rightarrow> int result"
  ox_ipv6 :: "string \<Rightarrow> bool"

abbreviation ota_error :: "string \<Rightarrow> 'a result" where
  "ota_error m \<equiv> Inl (RuntimeError m)"

subsection \<open>Authorization\<close>

definition canonical_authorization_message :: "string \<Rightarrow> string \<Rightarrow> string \<Rightarrow> int \<Rightarrow> string \<Rightarrow> string" where
  "canonical_authorization_message node_id boot_id nonce image_size image_sha256 =
     concat (map (\<lambda>s. s @ [CHR 0x0A]) [OTA_PROTOCOL, node_id, boot_id, nonce, show_int image_size, image_sha256])"

definition calculate_authorization :: "ota_codec \<Rightarrow> string \<Rightarrow> string \<Rightarrow> string \<Rightarrow> string \<Rightarrow> int \<Rightarrow> string \<Rightarrow> string" where
  "calculate_authorization x key node_id boot_id nonce image_size image_sha256 =
     to_hex (ox_hmac x key (canonical_authorization_message node_id boot_id nonce image_size image_sha256))"

subsection \<open>The image\<close>

text \<open>What the file system answers: the size, whether it is a regular file, the bytes read.\<close>

record image_file =
  im_size :: "int result"
  im_regular :: bool
  im_bytes :: "string result"

definition validate_image :: "ota_codec \<Rightarrow> image_file \<Rightarrow> (int \<times> string) result" where
  "validate_image x f = (case im_size f of
     Inl e \<Rightarrow> ota_error (''cannot read OTA image: '' @ exc_str e)
   | Inr n \<Rightarrow>
       if \<not> im_regular f then ota_error ''OTA image path is not a regular file''
       else if n \<le> 0 \<or> MAX_IMAGE_BYTES < n
       then ota_error (''OTA image size '' @ show_int n @ '' is outside 1..'' @ show_int MAX_IMAGE_BYTES @ '' bytes'')
       else case im_bytes f of
         Inl e \<Rightarrow> ota_error (''cannot hash OTA image: '' @ exc_str e)
       | Inr bytes \<Rightarrow>
           if take 1 bytes \<noteq> [CHR 0xE9] then ota_error ''OTA image does not start with the ESP application magic byte 0xE9''
           else Inr (n, to_hex (ox_sha256 x bytes)))"

subsection \<open>The address of a node\<close>

definition validate_service_address :: "ota_codec \<Rightarrow> string \<Rightarrow> string result" where
  "validate_service_address x v =
     (if ipv4 v = None \<and> \<not> ox_ipv6 x v then ota_error (''invalid node service address: '' @ py_repr_str v)
      else if \<not> in_service_subnet v \<or> v = ''10.55.0.1''
      then ota_error (''node address '' @ v @ '' is outside the private node range'')
      else Inr v)"

text \<open>\<open>s.split()\<close>, and \<open>lower()\<close> of the ASCII letters.\<close>

fun py_words_from :: "string \<Rightarrow> string \<Rightarrow> string list" where
  "py_words_from w [] = (if w = [] then [] else [rev w])"
| "py_words_from w (c # s) =
     (if is_space_char c then (if w = [] then py_words_from [] s else rev w # py_words_from [] s) else py_words_from (c # w) s)"

definition py_words :: "string \<Rightarrow> string list" where
  "py_words = py_words_from []"

definition to_lower :: "string \<Rightarrow> string" where
  "to_lower = map (\<lambda>c. let n = (of_char c :: nat) in if 65 \<le> n \<and> n \<le> 90 then char_of (n + 32) else c)"

fun find_lease :: "ota_codec \<Rightarrow> string \<Rightarrow> string \<Rightarrow> string list \<Rightarrow> string result" where
  "find_lease x node_id mac [] = ota_error (''no current service address is known for node '' @ node_id)"
| "find_lease x node_id mac (line # lines) =
     (let fields = py_words line in
      if length fields < 3 \<or> to_lower (fields ! 1) \<noteq> mac then find_lease x node_id mac lines
      else validate_service_address x (fields ! 2))"

definition resolve_node_address :: "ota_codec \<Rightarrow> string \<Rightarrow> (string \<times> py_value) list list \<Rightarrow> node_key \<Rightarrow>
    string list result \<Rightarrow> string result" where
  "resolve_node_address x node_id nodes key leases =
     (case find (\<lambda>n. vget n ''node_id'' = VStr node_id \<and> (case vget n ''source_ip'' of VStr ip \<Rightarrow> ip \<noteq> [] | _ \<Rightarrow> False)) nodes of
        Some n \<Rightarrow> validate_service_address x (case vget n ''source_ip'' of VStr ip \<Rightarrow> ip | _ \<Rightarrow> [])
      | None \<Rightarrow> (case nk_mac key of
          None \<Rightarrow> ota_error (''node '' @ node_id @ '' is offline and has no pinned MAC for DHCP lease lookup'')
        | Some mac \<Rightarrow> (case leases of
            Inl e \<Rightarrow> ota_error (''node '' @ node_id @ '' is offline and DHCP leases cannot be read: '' @ exc_str e)
          | Inr lines \<Rightarrow> find_lease x node_id (to_lower mac) lines)))"

subsection \<open>The HTTP client\<close>

type_synonym http_answer = "(int \<times> string) result"

text \<open>Port, attempts of a request.\<close>

record ota_http =
  oh_port :: int
  oh_attempts :: nat

definition check_http :: "ota_http \<Rightarrow> py_float \<Rightarrow> unit result" where
  "check_http h retry_delay = (if oh_attempts h < 1 then Inl (ValueError ''request_attempts must be at least 1'')
     else if flt retry_delay (Fin 0) then Inl (ValueError ''retry_delay_seconds must not be negative'') else Inr ())"

definition decode_response :: "ota_codec \<Rightarrow> int \<times> string \<Rightarrow> (string \<times> py_value) list result" where
  "decode_response x answer = (case ox_loads x (snd answer) of
     None \<Rightarrow> ota_error (''node returned invalid JSON (HTTP '' @ show_int (fst answer) @ '')'')
   | Some (VDict d) \<Rightarrow>
       if fst answer < 200 \<or> 300 \<le> fst answer \<or> vget d ''ok'' \<noteq> VBool True
       then ota_error (''node rejected OTA request (HTTP '' @ show_int (fst answer) @ ''): '' @
         (if py_truthy (vget d ''error'') then ox_str x (vget d ''error'') else ox_str x (VDict d)))
       else Inr d
   | Some _ \<Rightarrow> ota_error ''node returned a non-object JSON response'')"

text \<open>\<open>_get_json\<close>: attempt \<open>k\<close> of \<open>oh_attempts\<close>; only a failed exchange is tried again.\<close>

fun get_json_from :: "ota_codec \<Rightarrow> ota_http \<Rightarrow> string \<Rightarrow> (nat \<Rightarrow> http_answer) \<Rightarrow> nat \<Rightarrow> nat \<Rightarrow> (string \<times> py_value) list result" where
  "get_json_from x h address answers k 0 = Inl (OtherException ''AssertionError'')"
| "get_json_from x h address answers k (Suc n) = (case answers k of
     Inr a \<Rightarrow> decode_response x a
   | Inl e \<Rightarrow> if n = 0 then ota_error (''cannot reach OTA endpoint at '' @ address @ '':'' @ show_int (oh_port h) @ '' after ''
         @ show_nat (oh_attempts h) @ '' attempts: '' @ exc_str e)
       else get_json_from x h address answers (Suc k) n)"

definition get_json :: "ota_codec \<Rightarrow> ota_http \<Rightarrow> string \<Rightarrow> (nat \<Rightarrow> http_answer) \<Rightarrow> (string \<times> py_value) list result" where
  "get_json x h address answers = get_json_from x h address answers 0 (oh_attempts h)"

record ota_challenge =
  ch_node_id :: string
  ch_boot_id :: string
  ch_nonce :: string

definition is_nonce :: "string \<Rightarrow> bool" where
  "is_nonce s = (length s = 32 \<and> (\<forall>c \<in> set s. lower_hex c))"

definition request_challenge :: "ota_codec \<Rightarrow> ota_http \<Rightarrow> string \<Rightarrow> (nat \<Rightarrow> http_answer) \<Rightarrow> string \<Rightarrow> ota_challenge result" where
  "request_challenge x h address answers expected =
     rbind (get_json x h address answers) (\<lambda>r.
       if vget r ''node_id'' \<noteq> VStr expected
       then ota_error (''OTA endpoint identity mismatch: expected '' @ expected @ '', got '' @ ox_repr x (vget r ''node_id''))
       else (case vget r ''boot_id'' of
         VStr boot \<Rightarrow>
           if \<not> is_boot_id boot then ota_error ''OTA challenge contains an invalid boot_id''
           else (case vget r ''nonce'' of
             VStr nonce \<Rightarrow> if \<not> is_nonce nonce then ota_error ''OTA challenge contains an invalid nonce''
               else Inr \<lparr>ch_node_id = expected, ch_boot_id = boot, ch_nonce = nonce\<rparr>
           | _ \<Rightarrow> ota_error ''OTA challenge contains an invalid nonce'')
       | _ \<Rightarrow> ota_error ''OTA challenge contains an invalid boot_id''))"

subsection \<open>Operations and their files\<close>

record ota_operation =
  oo_operation_id :: string
  oo_node_id :: string
  oo_address :: string
  oo_image_path :: string
  oo_image_size :: int
  oo_image_sha256 :: string
  oo_bytes_sent :: int
  oo_source_partition :: "string option"
  oo_target_partition :: "string option"
  oo_state :: string
  oo_result :: "(string \<times> py_value) list option"
  oo_error :: "string option"
  oo_remote :: "(string \<times> py_value) list option"
  oo_started_unix_ms :: int
  oo_updated_unix_ms :: int

text \<open>The n-th write of a file fails with the text given, or replaces the file. \<open>oc_posts\<close> records the headers that were sent,
  \<open>oc_threads\<close> the nodes whose thread is started and has not run.\<close>

record ota_coordinator =
  oc_operations :: "(string \<times> ota_operation) list"
  oc_files :: "(string \<times> ota_operation) list"
  oc_faults :: "nat \<Rightarrow> string option"
  oc_writes :: nat
  oc_posts :: "(string \<times> string) list list"
  oc_threads :: "string list"

record ota_config =
  og_keys :: "(string \<times> node_key) list"
  og_http :: ota_http
  og_codec :: ota_codec

definition new_coordinator :: "(string \<times> ota_operation) list \<Rightarrow> (nat \<Rightarrow> string option) \<Rightarrow> nat \<Rightarrow> ota_coordinator" where
  "new_coordinator files faults writes = \<lparr>oc_operations = [], oc_files = files, oc_faults = faults, oc_writes = writes, oc_posts = [],
     oc_threads = []\<rparr>"

definition persist :: "string \<Rightarrow> ota_operation \<Rightarrow> (ota_coordinator, unit) op" where
  "persist n v s = (let s1 = s\<lparr>oc_writes := Suc (oc_writes s)\<rparr> in case oc_faults s (oc_writes s) of
     Some m \<Rightarrow> (s1, Inl (OSError m))
   | None \<Rightarrow> (s1\<lparr>oc_files := AList.update n v (oc_files s)\<rparr>, Inr ()))"

text \<open>\<open>_set\<close>: the operation changes in memory before its file is written.\<close>

definition set_operation :: "string \<Rightarrow> int \<Rightarrow> (ota_operation \<Rightarrow> ota_operation) \<Rightarrow> (ota_coordinator, unit) op" where
  "set_operation n ms f s = (case map_of (oc_operations s) n of
     None \<Rightarrow> (s, Inl (KeyError (py_repr_str n)))
   | Some v \<Rightarrow> let v' = (f v)\<lparr>oo_updated_unix_ms := ms\<rparr>
       in persist n v' (s\<lparr>oc_operations := AList.update n v' (oc_operations s)\<rparr>))"

text \<open>\<open>_load_last\<close>.\<close>

definition load_last :: "ota_coordinator \<Rightarrow> string \<Rightarrow> ota_operation option" where
  "load_last s n = (case map_of (oc_operations s) n of Some v \<Rightarrow> Some v | None \<Rightarrow> map_of (oc_files s) n)"

definition ota_active :: "ota_operation \<Rightarrow> bool" where
  "ota_active v = (oo_state v \<notin> set TERMINAL_STATES)"

text \<open>A request for an update, and \<open>start_install\<close>.\<close>

record install_request =
  ir_node_id :: string
  ir_image_path :: string
  ir_image :: image_file
  ir_nodes :: "(string \<times> py_value) list list"
  ir_leases :: "string list result"
  ir_operation_id :: string
  ir_unix_ms :: int

definition new_operation :: "install_request \<Rightarrow> string \<Rightarrow> int \<Rightarrow> string \<Rightarrow> ota_operation" where
  "new_operation r address image_size sha = \<lparr>oo_operation_id = ir_operation_id r, oo_node_id = ir_node_id r, oo_address = address,
     oo_image_path = ir_image_path r, oo_image_size = image_size, oo_image_sha256 = sha, oo_bytes_sent = 0,
     oo_source_partition = None, oo_target_partition = None, oo_state = ''queued'', oo_result = None, oo_error = None,
     oo_remote = None, oo_started_unix_ms = ir_unix_ms r, oo_updated_unix_ms = ir_unix_ms r\<rparr>"

definition start_install :: "ota_config \<Rightarrow> install_request \<Rightarrow> (ota_coordinator, ota_operation) op" where
  "start_install c r s = (case map_of (og_keys c) (ir_node_id r) of
     None \<Rightarrow> (s, ota_error (''unknown node_id: '' @ ir_node_id r))
   | Some key \<Rightarrow> (case validate_image (og_codec c) (ir_image r) of
       Inl e \<Rightarrow> (s, Inl e)
     | Inr (image_size, sha) \<Rightarrow> (case resolve_node_address (og_codec c) (ir_node_id r) (ir_nodes r) key (ir_leases r) of
         Inl e \<Rightarrow> (s, Inl e)
       | Inr address \<Rightarrow>
           if (case map_of (oc_operations s) (ir_node_id r) of Some v \<Rightarrow> ota_active v | None \<Rightarrow> False)
           then (s, ota_error (''OTA operation for '' @ ir_node_id r @ '' is already active''))
           else if list_ex (\<lambda>(n, v). n \<noteq> ir_node_id r \<and> ota_active v) (oc_operations s)
           then (s, ota_error ''another node OTA operation is already active'')
           else let v = new_operation r address image_size sha
             in op_bind (persist (ir_node_id r) v) (\<lambda>_ s. (s\<lparr>oc_threads := oc_threads s @ [ir_node_id r]\<rparr>, Inr v))
                  (s\<lparr>oc_operations := AList.update (ir_node_id r) v (oc_operations s)\<rparr>))))"

subsection \<open>Sending the image\<close>

text \<open>
  What one installation meets: the answers of the endpoint, the image as it is read for hashing and for sending, the
  chunk after which sending fails, and for each turn of the last loop the clock and the answers.
\<close>

record install_inputs =
  ii_preflight :: "nat \<Rightarrow> http_answer"
  ii_challenge :: "nat \<Rightarrow> http_answer"
  ii_image :: image_file
  ii_headers :: "exc option"
  ii_chunks :: "string list result"
  ii_chunk_fails :: "nat \<Rightarrow> exc option"
  ii_response :: http_answer
  ii_final_size :: "int result"
  ii_deadline_base :: py_float
  ii_rounds :: "(py_float \<times> (nat \<Rightarrow> http_answer)) list"
  ii_unix_ms :: int

datatype install_outcome = Accepted "(string \<times> py_value) list" | ResponseLost string

text \<open>\<open>progress\<close>: only while the operation in memory or on disk is still this one.\<close>

definition report_progress :: "string \<Rightarrow> string \<Rightarrow> int \<Rightarrow> int \<Rightarrow> int \<Rightarrow> (ota_coordinator, unit) op" where
  "report_progress n operation_id ms written expected s = (case load_last s n of
     None \<Rightarrow> (s, Inr ())
   | Some v \<Rightarrow> if oo_operation_id v \<noteq> operation_id then (s, Inr ())
       else set_operation n ms (\<lambda>v. v\<lparr>oo_state := ''uploading'', oo_bytes_sent := written, oo_image_size := expected\<rparr>) s)"

text \<open>The loop over the chunks: the bytes sent, and the exception that ended it.\<close>

fun send_chunks :: "install_inputs \<Rightarrow> string \<Rightarrow> string \<Rightarrow> int \<Rightarrow> nat \<Rightarrow> int \<Rightarrow> string list \<Rightarrow> ota_coordinator \<Rightarrow>
    ota_coordinator \<times> int \<times> exc option" where
  "send_chunks i n operation_id expected k sent [] s = (s, sent, None)"
| "send_chunks i n operation_id expected k sent (chunk # chunks) s =
     (case ii_chunk_fails i k of
        Some e \<Rightarrow> (s, sent, Some e)
      | None \<Rightarrow> let sent' = sent + int (length chunk) in
          (case report_progress n operation_id (ii_unix_ms i) sent' expected s of
             (s1, Inl e) \<Rightarrow> (s1, sent', Some e)
           | (s1, Inr _) \<Rightarrow> send_chunks i n operation_id expected (Suc k) sent' chunks s1))"

definition transfer_failed :: "int \<Rightarrow> int \<Rightarrow> exc \<Rightarrow> install_outcome result" where
  "transfer_failed sent image_size e =
     (if image_size \<le> sent
      then Inr (ResponseLost (''OTA image body was sent completely but the final response was lost; ''
        @ ''the coordinator will reconcile the node state before reporting a result''))
      else ota_error (''OTA transfer failed after '' @ show_int sent @ ''/'' @ show_int image_size @ '' bytes: '' @ exc_str e))"

text \<open>The headers of the request that carries the image.\<close>

definition image_headers :: "ota_codec \<Rightarrow> node_key \<Rightarrow> ota_challenge \<Rightarrow> string \<Rightarrow> int \<Rightarrow> string \<Rightarrow> (string \<times> string) list" where
  "image_headers x key ch address image_size sha =
     [(''Host'', address), (''Connection'', ''close''), (''Content-Type'', ''application/octet-stream''),
      (''Content-Length'', show_int image_size), (''X-WVC-Node-ID'', nk_node_id key), (''X-WVC-Boot-ID'', ch_boot_id ch),
      (''X-WVC-Nonce'', ch_nonce ch), (''X-WVC-Image-Size'', show_int image_size), (''X-WVC-Image-SHA256'', sha),
      (''X-WVC-Authorization'', calculate_authorization x (nk_hmac_key key) (nk_node_id key) (ch_boot_id ch) (ch_nonce ch) image_size sha)]"

text \<open>\<open>install\<close> after the challenge: headers with the authorization, the body, the response.\<close>

definition post_image :: "ota_config \<Rightarrow> install_inputs \<Rightarrow> (string \<times> string) list \<Rightarrow> string \<Rightarrow> string \<Rightarrow> int \<Rightarrow> (ota_coordinator, install_outcome) op" where
  "post_image c i headers n operation_id image_size s = (case ii_headers i of
     Some e \<Rightarrow> (s, transfer_failed 0 image_size e)
   | None \<Rightarrow> (case ii_chunks i of
       Inl e \<Rightarrow> (s\<lparr>oc_posts := oc_posts s @ [headers]\<rparr>, transfer_failed 0 image_size e)
     | Inr chunks \<Rightarrow> (case send_chunks i n operation_id image_size 0 0 chunks (s\<lparr>oc_posts := oc_posts s @ [headers]\<rparr>) of
         (s1, sent, Some e) \<Rightarrow> (s1, transfer_failed sent image_size e)
       | (s1, sent, None) \<Rightarrow> (s1, case ii_response i of
             Inl e \<Rightarrow> transfer_failed sent image_size e
           | Inr a \<Rightarrow> rbind (decode_response (og_codec c) a) (\<lambda>d. Inr (Accepted d))))))"

definition install_image :: "ota_config \<Rightarrow> install_inputs \<Rightarrow> node_key \<Rightarrow> string \<Rightarrow> string \<Rightarrow> (ota_coordinator, install_outcome) op" where
  "install_image c i key address operation_id =
     op_bind (op_lift (validate_image (og_codec c) (ii_image i))) (\<lambda>(image_size, sha).
     op_bind (op_lift (request_challenge (og_codec c) (og_http c) address (ii_challenge i) (nk_node_id key))) (\<lambda>ch.
     post_image c i (image_headers (og_codec c) key ch address image_size sha) (nk_node_id key) operation_id image_size))"

subsection \<open>One update\<close>

text \<open>A remote partition, as \<open>in {"ota_0", "ota_1"}\<close> sees it.\<close>

definition known_partition :: "py_value \<Rightarrow> bool result" where
  "known_partition v = (if \<not> is_hashable v then Inl (TypeError ''unhashable type'')
     else Inr (v \<in> set [VStr ''ota_0'', VStr ''ota_1'']))"

definition preflight :: "ota_config \<Rightarrow> install_inputs \<Rightarrow> string \<Rightarrow> string \<Rightarrow> ((string \<times> py_value) list \<times> string) result" where
  "preflight c i n address = rbind (get_json (og_codec c) (og_http c) address (ii_preflight i)) (\<lambda>remote.
     if vget remote ''node_id'' \<noteq> VStr n
     then ota_error (''preflight OTA endpoint identity mismatch: expected '' @ n @ '', got '' @ ox_repr (og_codec c) (vget remote ''node_id''))
     else rbind (known_partition (vget remote ''partition'')) (\<lambda>known.
       if \<not> known then ota_error (''preflight returned unsupported source partition: '' @ ox_repr (og_codec c) (vget remote ''partition''))
       else Inr (remote, case vget remote ''partition'' of VStr p \<Rightarrow> p | _ \<Rightarrow> [])))"

definition other_partition :: "string \<Rightarrow> string" where
  "other_partition p = (if p = ''ota_0'' then ''ota_1'' else ''ota_0'')"

text \<open>
  A turn of the last loop for one status of the node: \<open>None\<close> goes on, otherwise the state that ends the operation with
  its error. The state also says whether the new image was seen waiting for its confirmation.
\<close>

definition judge_status :: "ota_config \<Rightarrow> string \<Rightarrow> string \<Rightarrow> string \<Rightarrow> bool \<Rightarrow> bool \<Rightarrow> (string \<times> py_value) list \<Rightarrow>
    (bool \<times> (string \<times> string option) option) result" where
  "judge_status c n source target response_lost saw_pending remote =
     (let partition = vget remote ''partition''; pending = vget remote ''pending'' in
      if vget remote ''node_id'' \<noteq> VStr n
      then ota_error (''post-reboot OTA endpoint identity mismatch: expected '' @ n @ '', got '' @ ox_repr (og_codec c) (vget remote ''node_id''))
      else if partition = VStr target \<and> pending = VBool True then Inr (True, None)
      else if partition = VStr target \<and> pending = VBool False then Inr (saw_pending, Some (''succeeded'', None))
      else if pending = VBool False \<and> partition = VStr source \<and> saw_pending
      then Inr (saw_pending, Some (''rolled_back'', Some ''new image did not pass health validation and the node rolled back''))
      else if response_lost \<and> pending = VBool False \<and> partition = VStr source
      then (if \<not> is_hashable (vget remote ''state'') then Inl (TypeError ''unhashable type'')
        else if vget remote ''state'' \<in> set [VStr ''idle'', VStr ''error'']
        then Inr (saw_pending, Some (''failed'', Some (if py_truthy (vget remote ''last_error'') then ox_str (og_codec c) (vget remote ''last_error'')
          else ''complete image send was not committed; node remains on the source partition'')))
        else Inr (saw_pending, None))
      else Inr (saw_pending, None))"

text \<open>The loop: whether it has ended with the turns so far.\<close>

fun watch_node :: "ota_config \<Rightarrow> install_inputs \<Rightarrow> string \<Rightarrow> string \<Rightarrow> string \<Rightarrow> string \<Rightarrow> py_float \<Rightarrow> bool \<Rightarrow> bool \<Rightarrow>
    (py_float \<times> (nat \<Rightarrow> http_answer)) list \<Rightarrow> (ota_coordinator, bool) op" where
  "watch_node c i n address source target deadline response_lost saw_pending [] s = (s, Inr False)"
| "watch_node c i n address source target deadline response_lost saw_pending ((now, answers) # rounds) s =
     (if \<not> flt now deadline
      then op_bind (set_operation n (ii_unix_ms i) (\<lambda>v. v\<lparr>oo_state := ''uncertain'',
          oo_error := Some ''post-transfer validation did not finish within 180 seconds''\<rparr>)) (\<lambda>_. op_return True) s
      else case get_json (og_codec c) (og_http c) address answers of
          Inl (RuntimeError _) \<Rightarrow> watch_node c i n address source target deadline response_lost saw_pending rounds s
        | Inl e \<Rightarrow> (s, Inl e)
        | Inr remote \<Rightarrow>
            op_bind (set_operation n (ii_unix_ms i) (\<lambda>v. v\<lparr>oo_state := (if response_lost then ''reconciling'' else ''validating''),
              oo_remote := Some remote\<rparr>)) (\<lambda>_.
            op_bind (op_lift (judge_status c n source target response_lost saw_pending remote)) (\<lambda>(saw, ending). case ending of
              None \<Rightarrow> watch_node c i n address source target deadline response_lost saw rounds
            | Some (st, error) \<Rightarrow> op_bind (set_operation n (ii_unix_ms i)
                (\<lambda>v. v\<lparr>oo_state := st, oo_remote := Some remote, oo_error := error\<rparr>)) (\<lambda>_. op_return True))) s)"

text \<open>What the node's acceptance, or its silence after the whole image, does to the operation: whether it was silent.\<close>

definition after_transfer :: "ota_config \<Rightarrow> install_inputs \<Rightarrow> string \<Rightarrow> string \<Rightarrow> install_outcome \<Rightarrow> (ota_coordinator, bool) op" where
  "after_transfer c i n target outcome = (case outcome of
     ResponseLost m \<Rightarrow> op_bind (op_lift (ii_final_size i)) (\<lambda>image_size. op_bind (set_operation n (ii_unix_ms i)
       (\<lambda>v. v\<lparr>oo_state := ''reconciling'', oo_bytes_sent := image_size, oo_error := Some m\<rparr>)) (\<lambda>_. op_return True))
   | Accepted d \<Rightarrow>
       if vget d ''target_partition'' \<noteq> VStr target
       then op_raise (RuntimeError (''node selected unexpected target partition: '' @ ox_repr (og_codec c) (vget d ''target_partition'')))
       else op_bind (op_lift (ox_int (og_codec c) (dict_get d ''bytes_written'' (VInt 0)))) (\<lambda>written.
         op_bind (set_operation n (ii_unix_ms i) (\<lambda>v. v\<lparr>oo_state := ''rebooting'', oo_bytes_sent := written,
           oo_result := Some d, oo_error := None\<rparr>)) (\<lambda>_. op_return False)))"

definition try_install :: "ota_config \<Rightarrow> install_inputs \<Rightarrow> node_key \<Rightarrow> string \<Rightarrow> string \<Rightarrow> (ota_coordinator, bool) op" where
  "try_install c i key address operation_id = (let n = nk_node_id key in
     op_bind (set_operation n (ii_unix_ms i) (\<lambda>v. v\<lparr>oo_state := ''preflight''\<rparr>)) (\<lambda>_.
     op_bind (op_lift (preflight c i n address)) (\<lambda>(remote, source). let target = other_partition source in
     op_bind (set_operation n (ii_unix_ms i) (\<lambda>v. v\<lparr>oo_state := ''authorizing'', oo_source_partition := Some source,
       oo_target_partition := Some target, oo_remote := Some remote\<rparr>)) (\<lambda>_.
     op_bind (install_image c i key address operation_id) (\<lambda>outcome.
     op_bind (after_transfer c i n target outcome) (\<lambda>response_lost.
     watch_node c i n address source target (fadd (ii_deadline_base i) (Fin 180)) response_lost False (ii_rounds i)))))))"

text \<open>\<open>_run_install\<close>: every exception ends the operation as failed.\<close>

definition run_install :: "ota_config \<Rightarrow> install_inputs \<Rightarrow> node_key \<Rightarrow> string \<Rightarrow> string \<Rightarrow> (ota_coordinator, bool) op" where
  "run_install c i key address operation_id = op_catch (try_install c i key address operation_id) (\<lambda>_. True)
     (\<lambda>e. op_bind (set_operation (nk_node_id key) (ii_unix_ms i) (\<lambda>v. v\<lparr>oo_state := ''failed'',
        oo_error := Some (case e of RuntimeError m \<Rightarrow> m | _ \<Rightarrow> ''unexpected OTA worker failure: '' @ exc_str e)\<rparr>))
      (\<lambda>_. op_return True))"

subsection \<open>Status\<close>

record ota_status =
  os_operation :: "ota_operation option"
  os_address :: "string option"
  os_remote :: "(string \<times> py_value) list option"
  os_remote_deferred :: bool
  os_remote_error :: "string option"

definition ota_status_of :: "ota_config \<Rightarrow> ota_coordinator \<Rightarrow> string \<Rightarrow> bool \<Rightarrow> (string \<times> py_value) list list \<Rightarrow>
    string list result \<Rightarrow> (nat \<Rightarrow> http_answer) \<Rightarrow> ota_status result" where
  "ota_status_of c s n include_remote nodes leases answers = (case map_of (og_keys c) n of
     None \<Rightarrow> ota_error (''unknown node_id: '' @ n)
   | Some key \<Rightarrow>
       let blank = \<lparr>os_operation = load_last s n, os_address = None, os_remote = None, os_remote_deferred = False,
             os_remote_error = None\<rparr>
       in if \<not> include_remote then Inr blank
          else if (case load_last s n of Some v \<Rightarrow> ota_active v | None \<Rightarrow> False)
          then Inr (case load_last s n of
            Some v \<Rightarrow> blank\<lparr>os_address := Some (oo_address v), os_remote := oo_remote v, os_remote_deferred := True\<rparr>
          | None \<Rightarrow> blank)
          else (case resolve_node_address (og_codec c) n nodes key leases of
            Inl (RuntimeError m) \<Rightarrow> Inr (blank\<lparr>os_remote_error := Some m\<rparr>)
          | Inl e \<Rightarrow> Inl e
          | Inr address \<Rightarrow> (case get_json (og_codec c) (og_http c) address answers of
              Inl (RuntimeError m) \<Rightarrow> Inr (blank\<lparr>os_address := Some address, os_remote_error := Some m\<rparr>)
            | Inl e \<Rightarrow> Inl e
            | Inr remote \<Rightarrow> Inr (blank\<lparr>os_address := Some address, os_remote := Some remote\<rparr>))))"

subsection \<open>Runs\<close>

text \<open>
  Requests, the threads they start, and restarts of the process, which forget the operations in memory. A thread
  runs as one step: while it does, its operation is active, so that requests to start another one are refused and
  change nothing.
\<close>

datatype ota_event = StartInstall install_request | RunInstall install_inputs string | OtaRestart

definition ota_step :: "ota_config \<Rightarrow> ota_coordinator \<Rightarrow> ota_event \<Rightarrow> ota_coordinator" where
  "ota_step c s e = (case e of
     StartInstall r \<Rightarrow> fst (start_install c r s)
   | RunInstall i n \<Rightarrow> (case (map_of (og_keys c) n, map_of (oc_operations s) n) of
       (Some key, Some v) \<Rightarrow>
         if n \<in> set (oc_threads s)
         then fst (run_install c i key (oo_address v) (oo_operation_id v) (s\<lparr>oc_threads := removeAll n (oc_threads s)\<rparr>))
         else s
     | _ \<Rightarrow> s)
   | OtaRestart \<Rightarrow> s\<lparr>oc_operations := [], oc_threads := []\<rparr>)"

end
