(* ===== verification/ServiceOtaSafety.thy ===== *)
theory ServiceOtaSafety
  imports ServiceOta
begin

section \<open>What an update can end in\<close>

text \<open>
  Lemmas about \<open>ServiceOta\<close>: an update touches only its own operation and ends it whatever fails, it is reported as a success
  only on the word of the node running the new image, and one update runs at a time. The last section shows
  that an operation whose first record cannot be written blocks every further update.
\<close>

subsection \<open>The frame of an update\<close>

named_theorems ota_frame "operations that change one entry only"

definition only_entry :: "string \<Rightarrow> (ota_coordinator, 'a) op \<Rightarrow> bool" where
  "only_entry n m = (\<forall>s. n \<in> dom (map_of (oc_operations s)) \<longrightarrow>
     (let s' = fst (m s) in map fst (oc_operations s') = map fst (oc_operations s) \<and> oc_threads s' = oc_threads s
        \<and> (\<forall>k. k \<noteq> n \<longrightarrow> map_of (oc_operations s') k = map_of (oc_operations s) k)))"

lemma only_entryE:
  fixes s :: ota_coordinator
  assumes "only_entry n m" and "m s = (s', r)" and "n \<in> dom (map_of (oc_operations s))"
  shows "map fst (oc_operations s') = map fst (oc_operations s)" "oc_threads s' = oc_threads s"
    "n \<in> dom (map_of (oc_operations s'))" "k \<noteq> n \<Longrightarrow> map_of (oc_operations s') k = map_of (oc_operations s) k"
proof -
  have all: "map fst (oc_operations s') = map fst (oc_operations s) \<and> oc_threads s' = oc_threads s
        \<and> (\<forall>k. k \<noteq> n \<longrightarrow> map_of (oc_operations s') k = map_of (oc_operations s) k)"
    using assms unfolding only_entry_def Let_def by (metis fst_conv)
  from all show "map fst (oc_operations s') = map fst (oc_operations s)" "oc_threads s' = oc_threads s"
    "k \<noteq> n \<Longrightarrow> map_of (oc_operations s') k = map_of (oc_operations s) k" by blast+
  from all have "fst ` set (oc_operations s') = fst ` set (oc_operations s)" by (metis set_map)
  then show "n \<in> dom (map_of (oc_operations s'))" using assms(3) by (simp add: dom_map_of_conv_image_fst)
qed

lemma only_same: "(\<And>s. oc_operations (fst (m s)) = oc_operations s \<and> oc_threads (fst (m s)) = oc_threads s) \<Longrightarrow> only_entry n m"
  unfolding only_entry_def by simp

lemma only_return [ota_frame]: "only_entry n (op_return x)" by (rule only_same) simp

lemma only_raise [ota_frame]: "only_entry n (op_raise e)" by (rule only_same) simp

lemma only_lift [ota_frame]: "only_entry n (op_lift r)" by (rule only_same) simp

lemma only_const [ota_frame]: "only_entry n (\<lambda>s. (s, r))" by (rule only_same) simp

lemma only_bind [ota_frame]:
  assumes m: "only_entry n m" and f: "\<And>x. only_entry n (f x)"
  shows "only_entry n (op_bind m f)"
  unfolding only_entry_def Let_def
proof (intro allI impI)
  fix s :: ota_coordinator assume n: "n \<in> dom (map_of (oc_operations s))"
  obtain s1 r where run: "m s = (s1, r)" by force
  note first = only_entryE[OF m run n]
  show "map fst (oc_operations (fst (op_bind m f s))) = map fst (oc_operations s) \<and> oc_threads (fst (op_bind m f s)) = oc_threads s
    \<and> (\<forall>k. k \<noteq> n \<longrightarrow> map_of (oc_operations (fst (op_bind m f s))) k = map_of (oc_operations s) k)"
  proof (cases r)
    case (Inl e)
    with run first show ?thesis by (simp add: op_bind_def)
  next
    case (Inr x)
    obtain s2 r2 where run2: "f x s1 = (s2, r2)" by force
    from only_entryE[OF f run2 first(3)] first Inr run run2 show ?thesis by (simp add: op_bind_def)
  qed
qed

lemma only_catch [ota_frame]:
  assumes m: "only_entry n m" and h: "\<And>e. only_entry n (h e)"
  shows "only_entry n (op_catch m test h)"
proof -
  have "only_entry n (\<lambda>s. (fst (m s), Inr (snd (m s))))" using m unfolding only_entry_def by simp
  moreover have "only_entry n (case r of Inr x \<Rightarrow> op_return x | Inl e \<Rightarrow> if test e then h e else op_raise e)" for r
    using h by (cases r) (auto intro: ota_frame)
  ultimately show ?thesis unfolding op_catch_outcome by (rule only_bind)
qed

lemma alist_update_keys: "k \<in> dom (map_of xs) \<Longrightarrow> map fst (AList.update k v xs) = map fst xs"
  by (induction xs) auto

lemma persist_memory: "oc_operations (fst (persist n v s)) = oc_operations s" "oc_threads (fst (persist n v s)) = oc_threads s"
  by (auto simp: persist_def Let_def split: option.split)

text \<open>The entry after \<open>_set\<close>, also when its file cannot be written.\<close>

lemma set_operation_effect:
  assumes "map_of (oc_operations s) n = Some v"
  shows "map_of (oc_operations (fst (set_operation n ms f s))) n = Some ((f v)\<lparr>oo_updated_unix_ms := ms\<rparr>)"
  using assms by (simp add: set_operation_def Let_def persist_memory update_conv')

lemma only_set [ota_frame]: "only_entry n (set_operation n ms f)"
  unfolding only_entry_def Let_def
  by (auto simp: set_operation_def Let_def persist_memory alist_update_keys update_conv' split: option.split)

lemma only_progress [ota_frame]: "only_entry n (report_progress n i ms w x)"
proof -
  have "only_entry n (\<lambda>s. case g s of None \<Rightarrow> (s, Inr ()) | Some v \<Rightarrow> if P v then (s, Inr ()) else m s)"
    if "only_entry n m" for g :: "ota_coordinator \<Rightarrow> ota_operation option" and P and m :: "(ota_coordinator, unit) op"
    using that unfolding only_entry_def Let_def by (auto split: option.split)
  then show ?thesis unfolding report_progress_def by (simp add: only_set)
qed

lemma send_only:
  assumes "n \<in> dom (map_of (oc_operations s))" and "send_chunks i n oid expected k sent chunks s = (s', sent', e)"
  shows "map fst (oc_operations s') = map fst (oc_operations s) \<and> oc_threads s' = oc_threads s
    \<and> (\<forall>k. k \<noteq> n \<longrightarrow> map_of (oc_operations s') k = map_of (oc_operations s) k) \<and> oc_posts s' = oc_posts s"
  using assms
proof (induction chunks arbitrary: s k sent)
  case (Cons chunk chunks)
  obtain s1 r where run: "report_progress n oid (ii_unix_ms i) (sent + int (length chunk)) expected s = (s1, r)" by force
  note first = only_entryE[OF only_progress run Cons.prems(1)]
  have posts: "oc_posts s1 = oc_posts s"
    using run by (auto simp: report_progress_def set_operation_def persist_def Let_def split: option.split_asm if_split_asm)
  show ?case
  proof (cases "ii_chunk_fails i k")
    case None
    show ?thesis
    proof (cases r)
      case (Inl x)
      with run first posts None Cons.prems show ?thesis by (simp add: Let_def)
    next
      case (Inr u)
      with run None Cons.prems have "send_chunks i n oid expected (Suc k) (sent + int (length chunk)) chunks s1 = (s', sent', e)"
        by (simp add: Let_def)
      from Cons.IH[OF first(3) this] first posts show ?thesis by simp
    qed
  next
    case (Some x) with Cons.prems show ?thesis by simp
  qed
qed simp

lemma only_post [ota_frame]: "only_entry n (post_image c i headers n oid image_size)"
  unfolding only_entry_def Let_def
proof (intro allI impI)
  fix s :: ota_coordinator assume n: "n \<in> dom (map_of (oc_operations s))"
  obtain s1 sent e where run: "send_chunks i n oid image_size 0 0 (case ii_chunks i of Inr chunks \<Rightarrow> chunks | Inl _ \<Rightarrow> [])
      (s\<lparr>oc_posts := oc_posts s @ [headers]\<rparr>) = (s1, sent, e)" by (metis prod_cases3)
  have "map fst (oc_operations s1) = map fst (oc_operations s) \<and> oc_threads s1 = oc_threads s
    \<and> (\<forall>k. k \<noteq> n \<longrightarrow> map_of (oc_operations s1) k = map_of (oc_operations s) k)"
    using send_only[OF _ run] n by simp
  with run show "map fst (oc_operations (fst (post_image c i headers n oid image_size s))) = map fst (oc_operations s)
     \<and> oc_threads (fst (post_image c i headers n oid image_size s)) = oc_threads s
     \<and> (\<forall>k. k \<noteq> n \<longrightarrow> map_of (oc_operations (fst (post_image c i headers n oid image_size s))) k = map_of (oc_operations s) k)"
    by (auto simp: post_image_def split: option.split sum.split)
qed

lemma only_install [ota_frame]: "only_entry (nk_node_id key) (install_image c i key address oid)"
  unfolding install_image_def by (intro ota_frame) (auto intro!: ota_frame)

lemma only_after [ota_frame]: "only_entry n (after_transfer c i n target outcome)"
  unfolding after_transfer_def by (cases outcome) (auto intro!: ota_frame)

lemma only_watch [ota_frame]: "only_entry n (watch_node c i n address source target deadline lost saw rounds)"
proof (induction rounds arbitrary: saw)
  case Nil
  show ?case by (rule only_same) simp
next
  case (Cons round rounds)
  obtain now answers where round: "round = (now, answers)" by force
  have ended: "only_entry n (op_bind (set_operation n (ii_unix_ms i) f) (\<lambda>_. op_return b))" for f and b :: bool by (intro ota_frame)
  have judged: "only_entry n (op_bind (op_lift r) (\<lambda>(saw, ending). case ending of
              None \<Rightarrow> watch_node c i n address source target deadline lost saw rounds
            | Some (st, error) \<Rightarrow> op_bind (set_operation n (ii_unix_ms i) (g st error)) (\<lambda>_. op_return True)))"
    for r :: "(bool \<times> (string \<times> string option) option) result" and g
    by (intro ota_frame) (auto intro!: ota_frame Cons.IH split: option.split)
  show ?case
  proof (cases "flt now deadline")
    case False
    then have "watch_node c i n address source target deadline lost saw (round # rounds) = op_bind (set_operation n (ii_unix_ms i)
        (\<lambda>v. v\<lparr>oo_state := ''uncertain'', oo_error := Some ''post-transfer validation did not finish within 180 seconds''\<rparr>))
        (\<lambda>_. op_return True)" by (intro ext) (simp add: round)
    then show ?thesis by (simp only: ended)
  next
    case True
    show ?thesis
    proof (cases "get_json (og_codec c) (og_http c) address answers")
      case (Inl e)
      show ?thesis
      proof (cases "\<exists>m. e = RuntimeError m")
        case True
        with Inl \<open>flt now deadline\<close> have "watch_node c i n address source target deadline lost saw (round # rounds)
            = watch_node c i n address source target deadline lost saw rounds" by (intro ext) (auto simp: round)
        with Cons.IH show ?thesis by simp
      next
        case False
        with Inl \<open>flt now deadline\<close> have "watch_node c i n address source target deadline lost saw (round # rounds) = (\<lambda>s. (s, Inl e))"
          by (intro ext) (cases e; simp add: round)
        then show ?thesis by (simp only: only_const)
      qed
    next
      case (Inr remote)
      with True have "watch_node c i n address source target deadline lost saw (round # rounds) =
          op_bind (set_operation n (ii_unix_ms i) (\<lambda>v. v\<lparr>oo_state := (if lost then ''reconciling'' else ''validating''), oo_remote := Some remote\<rparr>))
          (\<lambda>_. op_bind (op_lift (judge_status c n source target lost saw remote)) (\<lambda>(saw, ending). case ending of
              None \<Rightarrow> watch_node c i n address source target deadline lost saw rounds
            | Some (st, error) \<Rightarrow> op_bind (set_operation n (ii_unix_ms i)
                (\<lambda>v. v\<lparr>oo_state := st, oo_remote := Some remote, oo_error := error\<rparr>)) (\<lambda>_. op_return True)))"
        by (intro ext) (simp add: round)
      then show ?thesis by (simp only: only_bind only_set judged)
    qed
  qed
qed

lemma only_try: "only_entry (nk_node_id key) (try_install c i key address oid)"
  unfolding try_install_def Let_def by (intro ota_frame) (auto intro!: ota_frame)

lemma only_run: "only_entry (nk_node_id key) (run_install c i key address oid)"
  unfolding run_install_def by (intro ota_frame only_try)

subsection \<open>Every update ends\<close>

lemma watch_ends: "\<exists>r \<in> set rounds. \<not> flt (fst r) deadline \<Longrightarrow>
    watch_node c i n address source target deadline lost saw rounds s \<noteq> (s', Inr False)"
proof (induction rounds arbitrary: saw s)
  case (Cons round rounds)
  obtain now answers where round: "round = (now, answers)" by force
  show ?case
  proof (cases "flt now deadline")
    case False
    then show ?thesis by (simp add: round op_bind_def split: prod.split sum.split)
  next
    case True
    with Cons.prems have later: "\<exists>r \<in> set rounds. \<not> flt (fst r) deadline" by (simp add: round)
    note IH = Cons.IH[OF later]
    show ?thesis
    proof (cases "get_json (og_codec c) (og_http c) address answers")
      case (Inl e)
      with True IH show ?thesis by (cases e) (simp_all add: round)
    next
      case (Inr remote)
      with True IH show ?thesis by (auto simp: round op_bind_def split: prod.splits sum.splits option.splits)
    qed
  qed
qed simp

lemma judge_terminal: "judge_status c n source target lost saw remote = Inr (saw', Some (st, e)) \<Longrightarrow> st \<in> set TERMINAL_STATES"
  by (auto simp: judge_status_def Let_def TERMINAL_STATES_def split: if_split_asm)

lemma set_operation_state:
  assumes "n \<in> dom (map_of (oc_operations s))" and "set_operation n ms f s = (s', r)"
  shows "\<exists>v. map_of (oc_operations s) n = Some v \<and> map_of (oc_operations s') n = Some ((f v)\<lparr>oo_updated_unix_ms := ms\<rparr>)"
  using assms set_operation_effect[of s n _ ms f] by auto

lemma watch_terminal: "watch_node c i n address source target deadline lost saw rounds s = (s', Inr True) \<Longrightarrow>
    n \<in> dom (map_of (oc_operations s)) \<Longrightarrow> \<exists>v. map_of (oc_operations s') n = Some v \<and> \<not> ota_active v"
proof (induction rounds arbitrary: saw s)
  case (Cons round rounds)
  obtain now answers where round: "round = (now, answers)" by force
  note n = Cons.prems(2)
  show ?case
  proof (cases "flt now deadline")
    case False
    obtain s1 r where set_run: "set_operation n (ii_unix_ms i) (\<lambda>v. v\<lparr>oo_state := ''uncertain'',
        oo_error := Some ''post-transfer validation did not finish within 180 seconds''\<rparr>) s = (s1, r)" by force
    with False Cons.prems(1) have "s' = s1" by (cases r) (simp_all add: round op_bind_def)
    with set_operation_state[OF n set_run] show ?thesis by (auto simp: ota_active_def TERMINAL_STATES_def)
  next
    case True
    show ?thesis
    proof (cases "get_json (og_codec c) (og_http c) address answers")
      case (Inl e)
      with True Cons show ?thesis by (cases e) (simp_all add: round)
    next
      case (Inr remote)
      obtain s1 r where set_run: "set_operation n (ii_unix_ms i) (\<lambda>v. v\<lparr>oo_state := (if lost then ''reconciling'' else ''validating''),
        oo_remote := Some remote\<rparr>) s = (s1, r)" by force
      have n1: "n \<in> dom (map_of (oc_operations s1))" using only_entryE(3)[OF only_set set_run n] .
      from Inr True Cons.prems(1) set_run obtain saw' ending where judged: "judge_status c n source target lost saw remote = Inr (saw', ending)"
        and rest: "(case ending of None \<Rightarrow> watch_node c i n address source target deadline lost saw' rounds
            | Some (st, error) \<Rightarrow> op_bind (set_operation n (ii_unix_ms i)
                (\<lambda>v. v\<lparr>oo_state := st, oo_remote := Some remote, oo_error := error\<rparr>)) (\<lambda>_. op_return True)) s1 = (s', Inr True)"
        by (auto simp: round op_bind_def split: prod.splits sum.splits)
      show ?thesis
      proof (cases ending)
        case None
        with rest Cons.IH n1 show ?thesis by simp
      next
        case (Some e)
        then obtain st error where e: "ending = Some (st, error)" by (cases e) auto
        obtain s2 r2 where set2: "set_operation n (ii_unix_ms i) (\<lambda>v. v\<lparr>oo_state := st, oo_remote := Some remote, oo_error := error\<rparr>) s1
            = (s2, r2)" by force
        with e rest have "s' = s2" by (cases r2) (simp_all add: op_bind_def)
        with set_operation_state[OF n1 set2] judge_terminal[OF judged[unfolded e]] show ?thesis by (auto simp: ota_active_def)
      qed
    qed
  qed
qed simp

text \<open>The last step of an update is its watch; everything before it raises or goes on.\<close>

lemma try_watch:
  assumes run: "try_install c i key address oid s = (s', Inr b)" and n: "nk_node_id key \<in> dom (map_of (oc_operations s))"
  obtains s0 s1 s2 remote source outcome lost where
    "preflight c i (nk_node_id key) address = Inr (remote, source)"
    "nk_node_id key \<in> dom (map_of (oc_operations s0))"
    "install_image c i key address oid s0 = (s1, Inr outcome)"
    "after_transfer c i (nk_node_id key) (other_partition source) outcome s1 = (s2, Inr lost)"
    "nk_node_id key \<in> dom (map_of (oc_operations s1))" "nk_node_id key \<in> dom (map_of (oc_operations s2))"
    "watch_node c i (nk_node_id key) address source (other_partition source) (fadd (ii_deadline_base i) (Fin 180)) lost False (ii_rounds i) s2
      = (s', Inr b)"
proof -
  let ?n = "nk_node_id key"
  obtain sa ra where a: "set_operation ?n (ii_unix_ms i) (\<lambda>v. v\<lparr>oo_state := ''preflight''\<rparr>) s = (sa, ra)" by force
  have na: "?n \<in> dom (map_of (oc_operations sa))" using only_entryE(3)[OF only_set a n] .
  from run a obtain remote source where pre: "preflight c i ?n address = Inr (remote, source)"
    by (auto simp: try_install_def Let_def op_bind_def split: sum.split_asm)
  obtain sb rb where b: "set_operation ?n (ii_unix_ms i) (\<lambda>v. v\<lparr>oo_state := ''authorizing'', oo_source_partition := Some source,
       oo_target_partition := Some (other_partition source), oo_remote := Some remote\<rparr>) sa = (sb, rb)" by force
  have nb: "?n \<in> dom (map_of (oc_operations sb))" using only_entryE(3)[OF only_set b na] .
  obtain sc rc where c: "install_image c i key address oid sb = (sc, rc)" by force
  have nc: "?n \<in> dom (map_of (oc_operations sc))" using only_entryE(3)[OF only_install c nb] .
  from run a b c pre obtain outcome where rc: "rc = Inr outcome"
    by (cases ra; cases rb; cases rc) (simp_all add: try_install_def Let_def op_bind_def)
  obtain sd rd where d: "after_transfer c i ?n (other_partition source) outcome sc = (sd, rd)" by force
  have nd: "?n \<in> dom (map_of (oc_operations sd))" using only_entryE(3)[OF only_after d nc] .
  from run a b c d pre rc obtain lost where "rd = Inr lost"
      "watch_node c i ?n address source (other_partition source) (fadd (ii_deadline_base i) (Fin 180)) lost False (ii_rounds i) sd = (s', Inr b)"
    by (cases ra; cases rb; cases rd) (simp_all add: try_install_def Let_def op_bind_def)
  with pre nb c rc nc nd d show thesis using that[of remote source sb sc outcome sd lost] by simp
qed

lemma run_failed:
  assumes "try_install c i key address oid s = (s1, Inl e)" and "nk_node_id key \<in> dom (map_of (oc_operations s))"
    and "run_install c i key address oid s = (s', r)"
  shows "r \<noteq> Inr False \<and> (\<exists>v. map_of (oc_operations s') (nk_node_id key) = Some v \<and> oo_state v = ''failed'')"
proof -
  have n1: "nk_node_id key \<in> dom (map_of (oc_operations s1))" using only_entryE(3)[OF only_try assms(1,2)] .
  obtain s2 r2 where set_run: "set_operation (nk_node_id key) (ii_unix_ms i) (\<lambda>v. v\<lparr>oo_state := ''failed'',
        oo_error := Some (case e of RuntimeError m \<Rightarrow> m | _ \<Rightarrow> ''unexpected OTA worker failure: '' @ exc_str e)\<rparr>) s1 = (s2, r2)" by force
  with assms have "s' = s2 \<and> r \<noteq> Inr False" by (cases r2) (auto simp: run_install_def op_catch_def op_bind_def)
  with set_operation_state[OF n1 set_run] show ?thesis by auto
qed

text \<open>C33: Every update ends. Whatever the node answers, however often requests fail, and whatever cannot be written, an update
  whose clock passes three minutes after the transfer is over, and its operation is then in one of the four terminal
  states, so that another update can be started.\<close>

theorem ota_run_ends:
  assumes "nk_node_id key \<in> dom (map_of (oc_operations s))"
    and "\<exists>r \<in> set (ii_rounds i). \<not> flt (fst r) (fadd (ii_deadline_base i) (Fin 180))"
  shows "\<exists>s' r v. run_install c i key address oid s = (s', r) \<and> r \<noteq> Inr False
    \<and> map_of (oc_operations s') (nk_node_id key) = Some v
    \<and> oo_state v \<in> {''succeeded'', ''failed'', ''rolled_back'', ''uncertain''}"
proof -
  obtain s1 r1 where tried: "try_install c i key address oid s = (s1, r1)" by force
  show ?thesis
  proof (cases r1)
    case (Inl e)
    obtain s' r where run: "run_install c i key address oid s = (s', r)" by force
    from run_failed[OF tried[unfolded Inl] assms(1) run] run show ?thesis by auto
  next
    case (Inr b)
    with tried have run: "run_install c i key address oid s = (s1, Inr b)" by (simp add: run_install_def op_catch_def)
    from try_watch[OF tried[unfolded Inr] assms(1)] obtain s2 source lost where
      n2: "nk_node_id key \<in> dom (map_of (oc_operations s2))" and
      watch: "watch_node c i (nk_node_id key) address source (other_partition source) (fadd (ii_deadline_base i) (Fin 180))
        lost False (ii_rounds i) s2 = (s1, Inr b)" by metis
    have "b" using watch_ends[OF assms(2)] watch by (cases b) auto
    with watch have "watch_node c i (nk_node_id key) address source (other_partition source) (fadd (ii_deadline_base i) (Fin 180))
        lost False (ii_rounds i) s2 = (s1, Inr True)" by simp
    from watch_terminal[OF this n2] obtain v where "map_of (oc_operations s1) (nk_node_id key) = Some v" "\<not> ota_active v" by blast
    with run \<open>b\<close> show ?thesis by (auto simp: ota_active_def TERMINAL_STATES_def)
  qed
qed

subsection \<open>What a success means\<close>

lemma judge_succeeded:
  "judge_status c n source target lost saw remote = Inr (saw', Some (''succeeded'', e)) \<Longrightarrow>
     vget remote ''node_id'' = VStr n \<and> vget remote ''partition'' = VStr target \<and> vget remote ''pending'' = VBool False"
  by (auto simp: judge_status_def Let_def split: if_split_asm)

lemma watch_succeeded: "watch_node c i n address source target deadline lost saw rounds s = (s', Inr True) \<Longrightarrow>
    n \<in> dom (map_of (oc_operations s)) \<Longrightarrow> map_of (oc_operations s') n = Some v \<Longrightarrow> oo_state v = ''succeeded'' \<Longrightarrow>
    \<exists>round \<in> set rounds. \<exists>remote. get_json (og_codec c) (og_http c) address (snd round) = Inr remote
      \<and> vget remote ''node_id'' = VStr n \<and> vget remote ''partition'' = VStr target \<and> vget remote ''pending'' = VBool False
      \<and> oo_remote v = Some remote"
proof (induction rounds arbitrary: saw s)
  case (Cons round rounds)
  obtain now answers where round: "round = (now, answers)" by force
  note n = Cons.prems(2)
  show ?case
  proof (cases "flt now deadline")
    case False
    obtain s1 r where set_run: "set_operation n (ii_unix_ms i) (\<lambda>v. v\<lparr>oo_state := ''uncertain'',
        oo_error := Some ''post-transfer validation did not finish within 180 seconds''\<rparr>) s = (s1, r)" by force
    with False Cons.prems(1) have "s' = s1" by (cases r) (simp_all add: round op_bind_def)
    with set_operation_state[OF n set_run] Cons.prems(3,4) show ?thesis by auto
  next
    case True
    show ?thesis
    proof (cases "get_json (og_codec c) (og_http c) address answers")
      case (Inl e)
      with True Cons.prems have "watch_node c i n address source target deadline lost saw rounds s = (s', Inr True)"
        by (cases e) (simp_all add: round)
      from Cons.IH[OF this n Cons.prems(3,4)] show ?thesis by auto
    next
      case (Inr remote)
      obtain s1 r where set_run: "set_operation n (ii_unix_ms i) (\<lambda>v. v\<lparr>oo_state := (if lost then ''reconciling'' else ''validating''),
        oo_remote := Some remote\<rparr>) s = (s1, r)" by force
      have n1: "n \<in> dom (map_of (oc_operations s1))" using only_entryE(3)[OF only_set set_run n] .
      from Inr True Cons.prems(1) set_run obtain saw' ending where judged: "judge_status c n source target lost saw remote = Inr (saw', ending)"
        and rest: "(case ending of None \<Rightarrow> watch_node c i n address source target deadline lost saw' rounds
            | Some (st, error) \<Rightarrow> op_bind (set_operation n (ii_unix_ms i)
                (\<lambda>v. v\<lparr>oo_state := st, oo_remote := Some remote, oo_error := error\<rparr>)) (\<lambda>_. op_return True)) s1 = (s', Inr True)"
        by (auto simp: round op_bind_def split: prod.splits sum.splits)
      show ?thesis
      proof (cases ending)
        case None
        with rest have "watch_node c i n address source target deadline lost saw' rounds s1 = (s', Inr True)" by simp
        from Cons.IH[OF this n1 Cons.prems(3,4)] show ?thesis by auto
      next
        case (Some e)
        then obtain st error where e: "ending = Some (st, error)" by (cases e) auto
        obtain s2 r2 where set2: "set_operation n (ii_unix_ms i) (\<lambda>v. v\<lparr>oo_state := st, oo_remote := Some remote, oo_error := error\<rparr>) s1
            = (s2, r2)" by force
        with e rest have "s' = s2" by (cases r2) (simp_all add: op_bind_def)
        with set_operation_state[OF n1 set2] Cons.prems(3,4) have "st = ''succeeded''" "oo_remote v = Some remote" by auto
        with judge_succeeded judged e Inr show ?thesis by (auto simp: round)
      qed
    qed
  qed
qed simp

lemma set_posts: "oc_posts (fst (set_operation n ms f s)) = oc_posts s"
  by (auto simp: set_operation_def persist_def Let_def split: option.split)

lemma posts_bind: "(\<And>s. oc_posts (fst (m s)) = oc_posts s) \<Longrightarrow> (\<And>x s. oc_posts (fst (f x s)) = oc_posts s) \<Longrightarrow>
    oc_posts (fst (op_bind m f s)) = oc_posts (s :: ota_coordinator)"
  unfolding op_bind_def by (auto split: prod.split sum.split) (metis fst_conv)+

lemma after_posts: "oc_posts (fst (after_transfer c i n target outcome s)) = oc_posts s"
  unfolding after_transfer_def by (cases outcome) (auto intro!: posts_bind simp: set_posts split: if_split)

lemma watch_posts: "oc_posts (fst (watch_node c i n address source target deadline lost saw rounds s)) = oc_posts s"
proof (induction rounds arbitrary: lost saw s)
  case (Cons round rounds)
  obtain now answers where round: "round = (now, answers)" by force
  show ?case
  proof (cases "flt now deadline")
    case False
    then show ?thesis by (simp add: round) (rule posts_bind; simp add: set_posts)
  next
    case True
    show ?thesis
    proof (cases "get_json (og_codec c) (og_http c) address answers")
      case (Inl e) with True Cons.IH show ?thesis by (cases e) (simp_all add: round)
    next
      case (Inr remote)
      with True show ?thesis
        by (cases lost; simp add: round; intro posts_bind; auto simp: set_posts Cons.IH intro!: posts_bind split: option.split)
    qed
  qed
qed simp

lemma preflight_Inr: "preflight c i n address = Inr (remote, source) \<Longrightarrow>
    get_json (og_codec c) (og_http c) address (ii_preflight i) = Inr remote \<and> vget remote ''node_id'' = VStr n
    \<and> vget remote ''partition'' = VStr source \<and> source \<in> {''ota_0'', ''ota_1''}"
  by (auto simp: preflight_def known_partition_def rbind_eq_Inr split: if_split_asm)

lemma validated_size: "validate_image x f = Inr (image_size, sha) \<Longrightarrow> 0 < image_size"
  by (auto simp: validate_image_def split: sum.split_asm if_split_asm)

lemma install_posts:
  assumes "install_image c i key address oid s = (s', Inr outcome)" and "nk_node_id key \<in> dom (map_of (oc_operations s))"
  shows "\<exists>image_size sha ch. validate_image (og_codec c) (ii_image i) = Inr (image_size, sha)
    \<and> request_challenge (og_codec c) (og_http c) address (ii_challenge i) (nk_node_id key) = Inr ch
    \<and> oc_posts s' = oc_posts s @ [image_headers (og_codec c) key ch address image_size sha]"
proof -
  from assms(1) obtain image_size sha ch where ok: "validate_image (og_codec c) (ii_image i) = Inr (image_size, sha)"
      "request_challenge (og_codec c) (og_http c) address (ii_challenge i) (nk_node_id key) = Inr ch"
    and post: "post_image c i (image_headers (og_codec c) key ch address image_size sha) (nk_node_id key) oid image_size s = (s', Inr outcome)"
    by (auto simp: install_image_def op_bind_def split: sum.split_asm)
  let ?h = "image_headers (og_codec c) key ch address image_size sha"
  from post validated_size[OF ok(1)] obtain chunks where "ii_headers i = None" "ii_chunks i = Inr chunks"
    by (auto simp: post_image_def transfer_failed_def split: option.split_asm sum.split_asm)
  moreover obtain s1 sent e where sent: "send_chunks i (nk_node_id key) oid image_size 0 0 chunks (s\<lparr>oc_posts := oc_posts s @ [?h]\<rparr>)
      = (s1, sent, e)" by (metis prod_cases3)
  moreover have "oc_posts s1 = oc_posts s @ [?h]" using send_only[OF _ sent] assms(2) by simp
  ultimately have "oc_posts s' = oc_posts s @ [?h]" using post by (auto simp: post_image_def split: option.split_asm)
  with ok show ?thesis by blast
qed

text \<open>C34: An update is reported as a success only when the node runs the new image. When it ends as \<open>succeeded\<close>, the node answered
  before the transfer from partition \<open>source\<close>; the image passed its checks and was sent with an authorization made with the
  node's key over its current boot session, the nonce it issued, and the size and digest of the image; and afterwards
  the node itself answered from the other partition, with nothing pending any more.\<close>

theorem ota_success_sound:
  assumes "nk_node_id key \<in> dom (map_of (oc_operations s))" and "run_install c i key address oid s = (s', Inr True)"
    and "map_of (oc_operations s') (nk_node_id key) = Some v" and "oo_state v = ''succeeded''"
  shows "\<exists>before source image_size sha ch round remote.
    get_json (og_codec c) (og_http c) address (ii_preflight i) = Inr before
    \<and> vget before ''node_id'' = VStr (nk_node_id key) \<and> vget before ''partition'' = VStr source \<and> source \<in> {''ota_0'', ''ota_1''}
    \<and> validate_image (og_codec c) (ii_image i) = Inr (image_size, sha)
    \<and> request_challenge (og_codec c) (og_http c) address (ii_challenge i) (nk_node_id key) = Inr ch
    \<and> image_headers (og_codec c) key ch address image_size sha \<in> set (oc_posts s')
    \<and> round \<in> set (ii_rounds i) \<and> get_json (og_codec c) (og_http c) address (snd round) = Inr remote
    \<and> vget remote ''node_id'' = VStr (nk_node_id key) \<and> vget remote ''partition'' = VStr (other_partition source)
    \<and> vget remote ''pending'' = VBool False \<and> oo_remote v = Some remote"
proof -
  let ?n = "nk_node_id key"
  obtain s1 r1 where tried: "try_install c i key address oid s = (s1, r1)" by force
  have r1: "r1 = Inr True \<and> s1 = s'"
  proof (cases r1)
    case (Inl e)
    from run_failed[OF tried[unfolded Inl] assms(1,2)] assms(3,4) show ?thesis by auto
  next
    case (Inr b)
    with tried assms(2) show ?thesis by (simp add: run_install_def op_catch_def)
  qed
  from try_watch[OF tried[unfolded r1[THEN conjunct1]] assms(1)] obtain s0 sa sb before source outcome lost where
    parts: "preflight c i ?n address = Inr (before, source)" "?n \<in> dom (map_of (oc_operations s0))"
    "install_image c i key address oid s0 = (sa, Inr outcome)"
    "after_transfer c i ?n (other_partition source) outcome sa = (sb, Inr lost)" "?n \<in> dom (map_of (oc_operations sb))"
    "watch_node c i ?n address source (other_partition source) (fadd (ii_deadline_base i) (Fin 180)) lost False (ii_rounds i) sb = (s', Inr True)"
    using r1 by metis
  from install_posts[OF parts(3,2)] obtain image_size sha ch where sent:
    "validate_image (og_codec c) (ii_image i) = Inr (image_size, sha)"
    "request_challenge (og_codec c) (og_http c) address (ii_challenge i) ?n = Inr ch"
    "image_headers (og_codec c) key ch address image_size sha \<in> set (oc_posts sa)" by auto
  have "oc_posts sb = oc_posts sa" using after_posts[of c i ?n "other_partition source" outcome sa] parts(4) by simp
  moreover have "oc_posts s' = oc_posts sb"
    using watch_posts[of c i ?n address source "other_partition source" "fadd (ii_deadline_base i) (Fin 180)" lost False "ii_rounds i" sb] parts(6)
    by simp
  moreover from watch_succeeded[OF parts(6,5) assms(3,4)] obtain round remote where
    "round \<in> set (ii_rounds i)" "get_json (og_codec c) (og_http c) address (snd round) = Inr remote" "vget remote ''node_id'' = VStr ?n"
    "vget remote ''partition'' = VStr (other_partition source)" "vget remote ''pending'' = VBool False" "oo_remote v = Some remote" by blast
  ultimately show ?thesis using preflight_Inr[OF parts(1)] sent
    by (intro exI[of _ before] exI[of _ source] exI[of _ image_size] exI[of _ sha] exI[of _ ch] exI[of _ round] exI[of _ remote]) simp
qed

subsection \<open>One update at a time\<close>

definition ota_ok :: "ota_coordinator \<Rightarrow> bool" where
  "ota_ok s = (distinct (map fst (oc_operations s))
     \<and> (\<forall>m m' v v'. map_of (oc_operations s) m = Some v \<and> ota_active v \<and> map_of (oc_operations s) m' = Some v' \<and> ota_active v' \<longrightarrow> m = m')
     \<and> (\<forall>n \<in> set (oc_threads s). \<exists>v. map_of (oc_operations s) n = Some v \<and> ota_active v))"

lemma validate_image_error: "validate_image x f = Inl e \<Longrightarrow> \<exists>m. e = RuntimeError m"
  by (auto simp: validate_image_def split: sum.split_asm if_split_asm)

lemma validate_address_error: "validate_service_address x a = Inl e \<Longrightarrow> \<exists>m. e = RuntimeError m"
  by (auto simp: validate_service_address_def split: if_split_asm)

lemma find_lease_error: "find_lease x n mac lines = Inl e \<Longrightarrow> \<exists>m. e = RuntimeError m"
  by (induction lines) (auto simp: Let_def dest: validate_address_error split: if_split_asm)

lemma resolve_error: "resolve_node_address x n nodes key leases = Inl e \<Longrightarrow> \<exists>m. e = RuntimeError m"
  by (auto simp: resolve_node_address_def dest: validate_address_error find_lease_error split: option.split_asm sum.split_asm)

lemma new_operation_active: "ota_active (new_operation r a z h)"
  by (simp add: ota_active_def new_operation_def TERMINAL_STATES_def)

text \<open>A start is refused and changes nothing, or finds no active operation and leaves its own, also when its record cannot be written.\<close>

lemma start_install_cases:
  assumes run: "start_install c r s = (s', res)" and keys: "distinct (map fst (oc_operations s))"
  shows "(s' = s \<and> (\<exists>m. res = Inl (RuntimeError m)))
    \<or> (\<exists>v. oc_operations s' = AList.update (ir_node_id r) v (oc_operations s) \<and> ota_active v
        \<and> (\<forall>n u. map_of (oc_operations s) n = Some u \<longrightarrow> \<not> ota_active u)
        \<and> (res = Inr v \<and> oc_threads s' = oc_threads s @ [ir_node_id r] \<or> (\<exists>m. res = Inl (OSError m)) \<and> oc_threads s' = oc_threads s))"
proof (cases "\<exists>key image_size sha address. map_of (og_keys c) (ir_node_id r) = Some key
    \<and> validate_image (og_codec c) (ir_image r) = Inr (image_size, sha)
    \<and> resolve_node_address (og_codec c) (ir_node_id r) (ir_nodes r) key (ir_leases r) = Inr address
    \<and> \<not> (case map_of (oc_operations s) (ir_node_id r) of Some v \<Rightarrow> ota_active v | None \<Rightarrow> False)
    \<and> \<not> list_ex (\<lambda>(n, v). n \<noteq> ir_node_id r \<and> ota_active v) (oc_operations s)")
  case True
  then obtain key image_size sha address where ok: "map_of (og_keys c) (ir_node_id r) = Some key"
      "validate_image (og_codec c) (ir_image r) = Inr (image_size, sha)"
      "resolve_node_address (og_codec c) (ir_node_id r) (ir_nodes r) key (ir_leases r) = Inr address"
    and own: "\<not> (case map_of (oc_operations s) (ir_node_id r) of Some v \<Rightarrow> ota_active v | None \<Rightarrow> False)"
    and others: "\<not> list_ex (\<lambda>(n, v). n \<noteq> ir_node_id r \<and> ota_active v) (oc_operations s)" by blast
  have none: "\<not> ota_active u" if u: "map_of (oc_operations s) n = Some u" for n u
  proof (cases "n = ir_node_id r")
    case True with own u show ?thesis by simp
  next
    case False
    from u have "(n, u) \<in> set (oc_operations s)" by (rule map_of_SomeD)
    with others False show ?thesis by (auto simp: list_ex_iff)
  qed
  let ?v = "new_operation r address image_size sha"
  let ?s = "s\<lparr>oc_operations := AList.update (ir_node_id r) ?v (oc_operations s)\<rparr>"
  have eq: "start_install c r s = op_bind (persist (ir_node_id r) ?v) (\<lambda>_ s. (s\<lparr>oc_threads := oc_threads s @ [ir_node_id r]\<rparr>, Inr ?v)) ?s"
    using ok own others by (simp add: start_install_def Let_def)
  show ?thesis
    using run none new_operation_active[of r address image_size sha] unfolding eq
    by (cases "oc_faults s (oc_writes s)") (auto simp: persist_def op_bind_def Let_def)
next
  case False
  then show ?thesis
    using run by (auto simp: start_install_def Let_def dest: validate_image_error resolve_error
        split: option.split_asm sum.split_asm if_split_asm prod.split_asm)
qed

lemma load_keys_named:
  assumes "load_node_keys document = Inr keys" and "map_of keys n = Some k"
  shows "nk_node_id k = n"
proof -
  have named: "load_node_key n raw = Inr k' \<Longrightarrow> nk_node_id k' = n" for n raw k'
    by (auto simp: load_node_key_def split: if_split_asm py_value.split_asm option.split_asm)
  from assms(1) obtain nodes where "map_result (\<lambda>(node_id, raw). map_sum id (Pair node_id) (load_node_key node_id raw)) nodes = Inr keys"
    by (auto simp: load_node_keys_def split: sum.split_asm py_value.split_asm if_split_asm)
  then have all: "list_all2 (\<lambda>x y. (\<lambda>(node_id, raw). map_sum id (Pair node_id) (load_node_key node_id raw)) x = Inr y) nodes keys"
    by (simp add: map_result_Inr_iff)
  from assms(2) have "(n, k) \<in> set keys" by (rule map_of_SomeD)
  with all obtain raw where "map_sum id (Pair (fst raw)) (load_node_key (fst raw) (snd raw)) = Inr (n, k)"
    by (auto simp: list_all2_conv_all_nth in_set_conv_nth case_prod_beta)
  with named[of "fst raw" "snd raw"] show ?thesis by (cases "load_node_key (fst raw) (snd raw)") auto
qed

lemma ota_step_ok:
  assumes keys: "load_node_keys document = Inr (og_keys c)" and ok: "ota_ok s"
  shows "ota_ok (ota_step c s e)"
proof (cases e)
  case (StartInstall r)
  obtain s' res where run: "start_install c r s = (s', res)" by force
  from start_install_cases[OF run] ok run StartInstall show ?thesis
    by (auto simp: ota_ok_def ota_step_def distinct_update update_conv' split: if_split_asm)
next
  case (RunInstall i n)
  show ?thesis
  proof (cases "\<exists>key v. map_of (og_keys c) n = Some key \<and> map_of (oc_operations s) n = Some v \<and> n \<in> set (oc_threads s)")
    case False
    then have "ota_step c s e = s" by (auto simp: ota_step_def RunInstall split: option.split)
    with ok show ?thesis by simp
  next
    case True
    then obtain key v where k: "map_of (og_keys c) n = Some key" and v: "map_of (oc_operations s) n = Some v" and t: "n \<in> set (oc_threads s)"
      by blast
    have name: "nk_node_id key = n" by (rule load_keys_named[OF keys k])
    let ?s = "s\<lparr>oc_threads := removeAll n (oc_threads s)\<rparr>"
    obtain s' res where run: "run_install c i key (oo_address v) (oo_operation_id v) ?s = (s', res)" by force
    have n: "nk_node_id key \<in> dom (map_of (oc_operations ?s))" using name v by auto
    note frame = only_entryE[OF only_run run n]
    have only: "m = n" if "map_of (oc_operations s) m = Some u" "ota_active u" for m u
      using ok t that unfolding ota_ok_def by blast
    have threads: "oc_threads s' = []"
    proof -
      have "m = n" if "m \<in> set (oc_threads s)" for m using ok only that unfolding ota_ok_def by blast
      then have "set (removeAll n (oc_threads s)) = {}" by auto
      then have "removeAll n (oc_threads s) = []" by (rule set_empty[THEN iffD1])
      then show ?thesis using frame(2) by simp
    qed
    have still: "m = n" if u: "map_of (oc_operations s') m = Some u" "ota_active u" for m u
    proof (rule ccontr)
      assume "m \<noteq> n"
      then have "map_of (oc_operations s') m = map_of (oc_operations s) m" using frame(4)[of m] name by simp
      with u only \<open>m \<noteq> n\<close> show False by metis
    qed
    have "distinct (map fst (oc_operations s'))" using frame(1) ok by (simp add: ota_ok_def)
    moreover have "m = m'" if "map_of (oc_operations s') m = Some u" "ota_active u" "map_of (oc_operations s') m' = Some u'" "ota_active u'"
      for m m' u u' using still[OF that(1,2)] still[OF that(3,4)] by simp
    ultimately have "ota_ok s'" using threads unfolding ota_ok_def by (intro conjI allI impI) (blast | simp)+
    then show ?thesis using k v t run by (simp add: ota_step_def RunInstall)
  qed
next
  case OtaRestart
  then show ?thesis by (simp add: ota_step_def ota_ok_def)
qed

lemma ota_run_ok:
  assumes "load_node_keys document = Inr (og_keys c)"
  shows "ota_ok (foldl (ota_step c) (new_coordinator files faults writes) es)"
  by (induction es rule: rev_induct) (simp_all add: ota_step_ok[OF assms], simp add: ota_ok_def new_coordinator_def)


subsection \<open>A record that cannot be written\<close>

lemma blocked_start:
  assumes "distinct (map fst (oc_operations s))" and "map_of (oc_operations s) n = Some v" and "ota_active v"
    and "start_install c r s = (s', res)"
  shows "s' = s \<and> (\<exists>m. res = Inl (RuntimeError m))"
  using start_install_cases[OF assms(4,1)] assms(2,3) by blast

text \<open>An operation whose first record cannot be written blocks every update. When starting an update raises
  because the file cannot be written, the operation stays queued in memory without a thread: until the process is restarted
  every further request, for any node, is refused and nothing else happens.\<close>

theorem failed_record_blocks_updates:
  assumes "load_node_keys document = Inr (og_keys c)"
    and "start_install c r (foldl (ota_step c) (new_coordinator files faults writes) es) = (s, Inl (OSError m))"
    and "OtaRestart \<notin> set later"
  shows "foldl (ota_step c) s later = s \<and> (\<exists>e. start_install c r' s = (s, Inl (RuntimeError e)))"
proof -
  let ?s0 = "foldl (ota_step c) (new_coordinator files faults writes) es"
  have ok: "ota_ok ?s0" by (rule ota_run_ok[OF assms(1)])
  then have keys: "distinct (map fst (oc_operations ?s0))" by (simp add: ota_ok_def)
  from start_install_cases[OF assms(2) keys] obtain v where
    v: "oc_operations s = AList.update (ir_node_id r) v (oc_operations ?s0)" "ota_active v"
    and none: "\<forall>n u. map_of (oc_operations ?s0) n = Some u \<longrightarrow> \<not> ota_active u" and t: "oc_threads s = oc_threads ?s0" by auto
  have idle: "oc_threads s = []"
  proof (rule ccontr)
    assume "oc_threads s \<noteq> []"
    then obtain n where "n \<in> set (oc_threads ?s0)" using t by (metis list.set_intros(1) neq_Nil_conv)
    with ok none show False unfolding ota_ok_def by blast
  qed
  have d: "distinct (map fst (oc_operations s))" using keys v(1) by (simp add: distinct_update)
  have n: "map_of (oc_operations s) (ir_node_id r) = Some v" using v(1) by (simp add: update_conv')
  have refused: "\<exists>e. start_install c x s = (s, Inl (RuntimeError e))" for x
  proof -
    obtain s' res where "start_install c x s = (s', res)" by force
    with blocked_start[OF d n v(2) this] show ?thesis by auto
  qed
  have stuck: "ota_step c s e = s" if "e \<noteq> OtaRestart" for e
    using that idle refused by (cases e) (auto simp: ota_step_def split: option.split, metis fst_conv)
  have "foldl (ota_step c) s later = s" using assms(3) stuck by (induction later) auto
  with refused show ?thesis by blast
qed

subsection \<open>A node that is updated\<close>

definition demo_ota_codec :: ota_codec where
  "demo_ota_codec = \<lparr>ox_loads = (\<lambda>s.
      if s = ''before'' then Some (VDict [(''ok'', VBool True), (''node_id'', VStr ''n1''), (''partition'', VStr ''ota_0''), (''pending'', VBool False)])
      else if s = ''challenge'' then Some (VDict [(''ok'', VBool True), (''node_id'', VStr ''n1''),
        (''boot_id'', VStr (replicate 16 (CHR ''a''))), (''nonce'', VStr (replicate 32 (CHR ''0'')))])
      else if s = ''accepted'' then Some (VDict [(''ok'', VBool True), (''target_partition'', VStr ''ota_1''), (''bytes_written'', VInt 1)])
      else if s = ''after'' then Some (VDict [(''ok'', VBool True), (''node_id'', VStr ''n1''), (''partition'', VStr ''ota_1''), (''pending'', VBool False)])
      else None),
    ox_hmac = (\<lambda>_ _. []), ox_sha256 = (\<lambda>_. []), ox_str = (\<lambda>_. []), ox_repr = (\<lambda>_. []), ox_int = (\<lambda>_. Inr 1), ox_ipv6 = (\<lambda>_. False)\<rparr>"

definition demo_ota_key :: node_key where
  "demo_ota_key = \<lparr>nk_node_id = ''n1'', nk_key_id = ''k'', nk_hmac_key = replicate 32 (CHR 0x00), nk_mac = None\<rparr>"

definition demo_ota_config :: ota_config where
  "demo_ota_config = \<lparr>og_keys = [(''n1'', demo_ota_key)], og_http = \<lparr>oh_port = 45552, oh_attempts = 3\<rparr>, og_codec = demo_ota_codec\<rparr>"

definition demo_ota_document :: "py_value result" where
  "demo_ota_document = Inr (VDict [(''nodes'', VDict [(''n1'', VDict [(''key_id'', VStr ''k''), (''hmac_key_hex'', VStr (replicate 64 (CHR ''0'')))])])])"

definition demo_image :: image_file where
  "demo_image = \<lparr>im_size = Inr 1, im_regular = True, im_bytes = Inr [CHR 0xE9]\<rparr>"

definition demo_install :: install_request where
  "demo_install = \<lparr>ir_node_id = ''n1'', ir_image_path = ''image'', ir_image = demo_image,
     ir_nodes = [[(''node_id'', VStr ''n1''), (''source_ip'', VStr ''10.55.0.20'')]], ir_leases = Inr [],
     ir_operation_id = ''o1'', ir_unix_ms = 0\<rparr>"

definition demo_install_inputs :: "string \<Rightarrow> rat \<Rightarrow> install_inputs" where
  "demo_install_inputs answer now = \<lparr>ii_preflight = (\<lambda>_. Inr (200, ''before'')), ii_challenge = (\<lambda>_. Inr (200, ''challenge'')),
     ii_image = demo_image, ii_headers = None, ii_chunks = Inr [[CHR 0xE9]], ii_chunk_fails = (\<lambda>_. None),
     ii_response = Inr (200, ''accepted''), ii_final_size = Inr 1, ii_deadline_base = Fin 0,
     ii_rounds = [(Fin now, \<lambda>_. Inr (200, answer))], ii_unix_ms = 0\<rparr>"

definition demo_queued :: ota_operation where
  "demo_queued = new_operation demo_install ''10.55.0.20'' 1 []"

definition demo_coordinator :: ota_coordinator where
  "demo_coordinator = (new_coordinator [] (\<lambda>_. None) 0)\<lparr>oc_operations := [(''n1'', demo_queued)]\<rparr>"

lemma demo_ota_keys: "load_node_keys demo_ota_document = Inr (og_keys demo_ota_config)"
proof -
  have "from_hex (replicate 64 (CHR ''0'')) = Some (replicate 32 (CHR 0x00))" by code_simp
  moreover have "is_node_id ''n1''" "is_key_id ''k''" "all_ascii (replicate 64 (CHR ''0''))" by code_simp+
  ultimately show ?thesis
    by (simp add: load_node_keys_def demo_ota_document_def load_node_key_def vget_def dict_get_def demo_ota_config_def demo_ota_key_def)
qed

lemma demo_deadline: "to_float 180 = Fin 180"
  using round64_exact_pos[of 180 0] by (simp add: to_float_small)

lemma demo_started: "start_install demo_ota_config demo_install (new_coordinator [] f 0)
  = (case f 0 of None \<Rightarrow> (demo_coordinator\<lparr>oc_files := [(''n1'', demo_queued)], oc_faults := f, oc_writes := 1, oc_threads := [''n1'']\<rparr>, Inr demo_queued)
     | Some m \<Rightarrow> (demo_coordinator\<lparr>oc_faults := f, oc_writes := 1\<rparr>, Inl (OSError m)))"
proof -
  have address: "validate_service_address demo_ota_codec ''10.55.0.20'' = Inr ''10.55.0.20''" by code_simp
  have image: "validate_image demo_ota_codec demo_image = Inr (1, [])"
    by (simp add: validate_image_def demo_image_def MAX_IMAGE_BYTES_def demo_ota_codec_def to_hex_def)
  have resolved: "resolve_node_address demo_ota_codec ''n1'' [[(''node_id'', VStr ''n1''), (''source_ip'', VStr ''10.55.0.20'')]] k l
      = Inr ''10.55.0.20''" for k l by (simp add: resolve_node_address_def vget_def dict_get_def address)
  show ?thesis
    using image resolved
    by (simp add: start_install_def demo_ota_config_def demo_install_def new_coordinator_def persist_def op_bind_def demo_coordinator_def
        demo_queued_def Let_def split: option.split)
qed


lemma failed_record_blocks_updates_witness:
  "foldl (ota_step demo_ota_config) (demo_coordinator\<lparr>oc_faults := \<lambda>_. Some ''disk full'', oc_writes := 1\<rparr>) [StartInstall demo_install]
      = demo_coordinator\<lparr>oc_faults := \<lambda>_. Some ''disk full'', oc_writes := 1\<rparr>
   \<and> (\<exists>e. start_install demo_ota_config demo_install (demo_coordinator\<lparr>oc_faults := \<lambda>_. Some ''disk full'', oc_writes := 1\<rparr>)
      = (demo_coordinator\<lparr>oc_faults := \<lambda>_. Some ''disk full'', oc_writes := 1\<rparr>, Inl (RuntimeError e)))"
  by (rule failed_record_blocks_updates[OF demo_ota_keys, where files = "[]" and faults = "\<lambda>_. Some ''disk full''" and writes = 0
        and es = "[]" and r = demo_install and m = "''disk full''"]) (simp_all add: demo_started)

lemma ota_run_ends_witness:
  "\<exists>s' r v. run_install demo_ota_config (demo_install_inputs ''before'' 200) demo_ota_key ''10.55.0.20'' ''o1'' demo_coordinator = (s', r)
    \<and> r \<noteq> Inr False \<and> map_of (oc_operations s') (nk_node_id demo_ota_key) = Some v
    \<and> oo_state v \<in> {''succeeded'', ''failed'', ''rolled_back'', ''uncertain''}"
  by (rule ota_run_ends) (simp_all add: demo_coordinator_def demo_ota_key_def demo_install_inputs_def demo_deadline)

lemma demo_update: "\<exists>s' v. run_install demo_ota_config (demo_install_inputs ''after'' 1) demo_ota_key ''10.55.0.20'' ''o1'' demo_coordinator
    = (s', Inr True) \<and> map_of (oc_operations s') (nk_node_id demo_ota_key) = Some v \<and> oo_state v = ''succeeded''"
proof -
  have image: "validate_image demo_ota_codec demo_image = Inr (1, [])"
    by (simp add: validate_image_def demo_image_def MAX_IMAGE_BYTES_def demo_ota_codec_def to_hex_def)
  have json: "get_json demo_ota_codec \<lparr>oh_port = 45552, oh_attempts = 3\<rparr> a (\<lambda>_. Inr (200, m)) = decode_response demo_ota_codec (200, m)" for a m
    by (simp add: get_json_def numeral_3_eq_3)
  have boot: "is_boot_id (replicate 16 (CHR ''a''))" "is_nonce (replicate 32 (CHR ''0''))" by code_simp+
  have challenge: "request_challenge demo_ota_codec \<lparr>oh_port = 45552, oh_attempts = 3\<rparr> a (\<lambda>_. Inr (200, ''challenge'')) ''n1''
      = Inr \<lparr>ch_node_id = ''n1'', ch_boot_id = replicate 16 (CHR ''a''), ch_nonce = replicate 32 (CHR ''0'')\<rparr>" for a
    unfolding request_challenge_def json using boot by (simp add: decode_response_def demo_ota_codec_def vget_def dict_get_def)
  have answers:
    "decode_response demo_ota_codec (200, ''before'') = Inr [(''ok'', VBool True), (''node_id'', VStr ''n1''), (''partition'', VStr ''ota_0''), (''pending'', VBool False)]"
    "decode_response demo_ota_codec (200, ''after'') = Inr [(''ok'', VBool True), (''node_id'', VStr ''n1''), (''partition'', VStr ''ota_1''), (''pending'', VBool False)]"
    "decode_response demo_ota_codec (200, ''accepted'') = Inr [(''ok'', VBool True), (''target_partition'', VStr ''ota_1''), (''bytes_written'', VInt 1)]"
    by (simp_all add: decode_response_def demo_ota_codec_def vget_def dict_get_def)
  have written: "ox_int demo_ota_codec v = Inr 1" for v by (simp add: demo_ota_codec_def)
  have start: "demo_coordinator = \<lparr>oc_operations = [(''n1'', demo_queued)], oc_files = [], oc_faults = \<lambda>_. None, oc_writes = 0,
      oc_posts = [], oc_threads = []\<rparr>" by (simp add: demo_coordinator_def new_coordinator_def)
  show ?thesis
    unfolding start
    by (simp add: run_install_def try_install_def op_catch_def op_bind_def set_operation_def persist_def Let_def
        preflight_def known_partition_def json challenge answers written demo_ota_config_def demo_install_inputs_def demo_ota_key_def
        vget_def dict_get_def is_hashable_def other_partition_def install_image_def image post_image_def
        report_progress_def load_last_def after_transfer_def demo_deadline judge_status_def
        demo_queued_def new_operation_def demo_install_def)
qed

lemma ota_success_sound_witness:
  "\<exists>s' (v :: ota_operation) before source image_size sha ch round remote.
    run_install demo_ota_config (demo_install_inputs ''after'' 1) demo_ota_key ''10.55.0.20'' ''o1'' demo_coordinator = (s', Inr True)
    \<and> get_json (og_codec demo_ota_config) (og_http demo_ota_config) ''10.55.0.20'' (ii_preflight (demo_install_inputs ''after'' 1)) = Inr before
    \<and> vget before ''node_id'' = VStr (nk_node_id demo_ota_key) \<and> vget before ''partition'' = VStr source \<and> source \<in> {''ota_0'', ''ota_1''}
    \<and> validate_image (og_codec demo_ota_config) (ii_image (demo_install_inputs ''after'' 1)) = Inr (image_size, sha)
    \<and> request_challenge (og_codec demo_ota_config) (og_http demo_ota_config) ''10.55.0.20'' (ii_challenge (demo_install_inputs ''after'' 1))
        (nk_node_id demo_ota_key) = Inr ch
    \<and> image_headers (og_codec demo_ota_config) demo_ota_key ch ''10.55.0.20'' image_size sha \<in> set (oc_posts s')
    \<and> round \<in> set (ii_rounds (demo_install_inputs ''after'' 1))
    \<and> get_json (og_codec demo_ota_config) (og_http demo_ota_config) ''10.55.0.20'' (snd round) = Inr remote
    \<and> vget remote ''node_id'' = VStr (nk_node_id demo_ota_key) \<and> vget remote ''partition'' = VStr (other_partition source)
    \<and> vget remote ''pending'' = VBool False \<and> oo_remote v = Some remote"
proof -
  from demo_update obtain s' v where run: "run_install demo_ota_config (demo_install_inputs ''after'' 1) demo_ota_key ''10.55.0.20'' ''o1''
      demo_coordinator = (s', Inr True)" and v: "map_of (oc_operations s') (nk_node_id demo_ota_key) = Some v" "oo_state v = ''succeeded''"
    by blast
  have "nk_node_id demo_ota_key \<in> dom (map_of (oc_operations demo_coordinator))" by (simp add: demo_coordinator_def demo_ota_key_def)
  from ota_success_sound[OF this run v] run show ?thesis by blast
qed

end
