(* ===== verification/ServiceAgent.thy ===== *)
theory ServiceAgent
  imports ServiceOta "HOL-Library.List_Lexorder" "HOL-Library.Char_ord"
begin

section \<open>The service agent\<close>

text \<open>
  Models \<open>service_agent.py\<close> and \<open>service_agent_ota.py\<close>: the process that owns the receiver of \<open>Heartbeat\<close>, counts what arrives
  from each node, probes the service network, and answers the requests of the core and of the operator, among
  them those for updates (\<open>ServiceOta\<close>). The answers of \<open>nmcli\<close> and \<open>systemctl\<close>, the clocks and the JSON codec are inputs; the
  files of the counters are a table whose n-th write may fail. Sockets are the chunks received from a client.
\<close>

subsection \<open>The service network\<close>

record command_result =
  cm_returncode :: int
  cm_stdout :: string

text \<open>\<open>run_command\<close>: a command that cannot run or does not end is a failure.\<close>

definition run_command :: "command_result option \<Rightarrow> command_result" where
  "run_command r = (case r of None \<Rightarrow> \<lparr>cm_returncode = 1, cm_stdout = []\<rparr> | Some c \<Rightarrow> c\<lparr>cm_stdout := py_strip (cm_stdout c)\<rparr>)"

record service_network_state =
  sn_interface :: string
  sn_profile :: string
  sn_bind_address :: string
  sn_ap_active :: bool
  sn_address_present :: bool
  sn_dhcp_active :: bool
  sn_firewall_active :: bool
  sn_checked_unix_ms :: int

definition network_ready :: "service_network_state \<Rightarrow> bool" where
  "network_ready n = (sn_ap_active n \<and> sn_address_present n \<and> sn_dhcp_active n \<and> sn_firewall_active n)"

definition network_dict :: "service_network_state \<Rightarrow> (string \<times> py_value) list" where
  "network_dict n = [(''ready'', VBool (network_ready n)), (''interface'', VStr (sn_interface n)), (''profile'', VStr (sn_profile n)),
     (''bind_address'', VStr (sn_bind_address n)), (''ap_active'', VBool (sn_ap_active n)),
     (''address_present'', VBool (sn_address_present n)), (''dhcp_active'', VBool (sn_dhcp_active n)),
     (''firewall_active'', VBool (sn_firewall_active n)), (''checked_unix_ms'', VInt (sn_checked_unix_ms n))]"

text \<open>\<open>splitlines\<close> of ASCII text, up to empty lines, which the caller skips.\<close>

definition line_breaks :: "char list" where
  "line_breaks = [CHR 0x0A, CHR 0x0B, CHR 0x0C, CHR 0x0D, CHR 0x1C, CHR 0x1D, CHR 0x1E]"

definition text_lines :: "string \<Rightarrow> string list" where
  "text_lines s = split_on (CHR 0x0A) (map (\<lambda>c. if c \<in> set line_breaks then CHR 0x0A else c) s)"

text \<open>The five commands: connection, state, addresses, DHCP and firewall.\<close>

record network_answers =
  na_connection :: "command_result option"
  na_state :: "command_result option"
  na_addresses :: "command_result option"
  na_dhcp :: "command_result option"
  na_firewall :: "command_result option"

definition is_active :: "command_result \<Rightarrow> bool" where
  "is_active r = (cm_returncode r = 0 \<and> cm_stdout r = ''active'')"

definition probe_service_network :: "network_answers \<Rightarrow> string \<Rightarrow> string \<Rightarrow> string \<Rightarrow> int \<Rightarrow> service_network_state" where
  "probe_service_network a interface profile bind_address now =
     (let connection = run_command (na_connection a); st = run_command (na_state a); addresses = run_command (na_addresses a) in
      \<lparr>sn_interface = interface, sn_profile = profile, sn_bind_address = bind_address,
       sn_ap_active = (cm_returncode connection = 0 \<and> cm_stdout connection = profile
         \<and> cm_returncode st = 0 \<and> take 3 (cm_stdout st) = ''100''),
       sn_address_present = (cm_returncode addresses = 0
         \<and> list_ex (\<lambda>line. py_strip line \<noteq> [] \<and> hd (split_on (CHR ''/'') (py_strip line)) = bind_address)
             (text_lines (cm_stdout addresses))),
       sn_dhcp_active = is_active (run_command (na_dhcp a)), sn_firewall_active = is_active (run_command (na_firewall a)),
       sn_checked_unix_ms = now\<rparr>)"

subsection \<open>Counters\<close>

definition DIAGNOSTIC_DEFAULTS :: "(string \<times> py_value) list" where
  "DIAGNOSTIC_DEFAULTS = [(''accepted_heartbeats'', VInt 0), (''online_transitions'', VInt 0), (''offline_transitions'', VInt 0),
     (''boot_changes'', VInt 0), (''sequence_gap_events'', VInt 0), (''missing_heartbeats_total'', VInt 0),
     (''max_sequence_gap'', VInt 0), (''last_sequence_gap'', VInt 0), (''last_receive_gap_ms'', VNone),
     (''max_receive_gap_ms'', VInt 0), (''last_boot_id'', VNone), (''last_seq'', VNone), (''last_received_unix_ms'', VNone),
     (''last_offline_unix_ms'', VNone)]"

text \<open>\<open>_load_diagnostics\<close>; \<open>loaded\<close> is what the file holds, if it can be read.\<close>

definition load_diagnostics :: "py_value option \<Rightarrow> (string \<times> py_value) list" where
  "load_diagnostics loaded = (case loaded of
     Some (VDict d) \<Rightarrow> map (\<lambda>(k, v). (k, dict_get d k v)) DIAGNOSTIC_DEFAULTS | _ \<Rightarrow> DIAGNOSTIC_DEFAULTS)"

type_synonym ('a) diag_op = "((string \<times> py_value) list, 'a) op"

definition diag_set :: "string \<Rightarrow> py_value \<Rightarrow> unit diag_op" where
  "diag_set k v d = (AList.update k v d, Inr ())"

text \<open>\<open>int(diagnostics[k])\<close>, and the same plus \<open>n\<close> stored back.\<close>

definition diag_int :: "hb_codec \<Rightarrow> string \<Rightarrow> int diag_op" where
  "diag_int x k d = (d, py_int x (vget d k))"

definition diag_add :: "hb_codec \<Rightarrow> string \<Rightarrow> int \<Rightarrow> unit diag_op" where
  "diag_add x k n = op_bind (diag_int x k) (\<lambda>i. diag_set k (VInt (i + n)))"

definition diag_max :: "hb_codec \<Rightarrow> string \<Rightarrow> int \<Rightarrow> unit diag_op" where
  "diag_max x k n = op_bind (diag_int x k) (\<lambda>i. diag_set k (VInt (max i n)))"

definition op_when :: "bool \<Rightarrow> ('s, unit) op \<Rightarrow> ('s, unit) op" where
  "op_when b m = (if b then m else op_return ())"

text \<open>The number behind \<open>isinstance(v, int)\<close>.\<close>

definition int_of :: "py_value \<Rightarrow> int" where
  "int_of v = (case v of VInt i \<Rightarrow> i | VBool True \<Rightarrow> 1 | _ \<Rightarrow> 0)"

definition count_gap :: "hb_codec \<Rightarrow> py_value \<Rightarrow> unit diag_op" where
  "count_gap x received d = (let previous = vget d ''last_received_unix_ms'' in
     if is_int previous \<and> is_int received
     then (let gap = max 0 (int_of received - int_of previous)
       in op_bind (diag_set ''last_receive_gap_ms'' (VInt gap)) (\<lambda>_. diag_max x ''max_receive_gap_ms'' gap) d)
     else (d, Inr ()))"

definition count_sequence :: "hb_codec \<Rightarrow> py_value \<Rightarrow> py_value \<Rightarrow> unit diag_op" where
  "count_sequence x boot sequence d =
     (let previous_boot = vget d ''last_boot_id''; previous = vget d ''last_seq'' in
      if is_str boot \<and> is_int sequence
      then op_bind
        (if py_eq previous_boot boot \<and> is_int previous
         then (let gap = max 0 (int_of sequence - int_of previous - 1) in
           op_bind (diag_set ''last_sequence_gap'' (VInt gap)) (\<lambda>_. op_when (0 < gap)
             (op_bind (diag_add x ''sequence_gap_events'' 1) (\<lambda>_. op_bind (diag_add x ''missing_heartbeats_total'' gap)
               (\<lambda>_. diag_max x ''max_sequence_gap'' gap)))))
         else if previous_boot \<noteq> VNone \<and> \<not> py_eq previous_boot boot
         then op_bind (diag_add x ''boot_changes'' 1) (\<lambda>_. diag_set ''last_sequence_gap'' (VInt 0))
         else diag_set ''last_sequence_gap'' (VInt 0))
        (\<lambda>_. op_bind (diag_set ''last_boot_id'' boot) (\<lambda>_. diag_set ''last_seq'' sequence)) d
      else (d, Inr ()))"

definition count_heartbeat :: "hb_codec \<Rightarrow> bool \<Rightarrow> py_value \<Rightarrow> py_value \<Rightarrow> py_value \<Rightarrow> unit diag_op" where
  "count_heartbeat x was_online received boot sequence =
     op_bind (diag_add x ''accepted_heartbeats'' 1) (\<lambda>_.
     op_bind (op_when (\<not> was_online) (diag_add x ''online_transitions'' 1)) (\<lambda>_.
     op_bind (count_gap x received) (\<lambda>_.
     op_bind (op_when (is_int received) (diag_set ''last_received_unix_ms'' received)) (\<lambda>_.
     count_sequence x boot sequence))))"

subsection \<open>The state of the nodes\<close>

record agent_state =
  as_nodes :: "(string \<times> (string \<times> py_value) list) list"
  as_diagnostics :: "(string \<times> (string \<times> py_value) list) list"
  as_files :: "(string \<times> py_value) list"
  as_faults :: "nat \<Rightarrow> string option"
  as_writes :: nat

definition blank_node :: "(string \<times> py_value) list" where
  "blank_node = [(''online'', VBool False), (''received_unix_ms'', VNone), (''source_ip'', VNone), (''heartbeat'', VNone)]"

definition new_agent_state :: "(string \<times> node_key) list \<Rightarrow> (string \<times> py_value) list \<Rightarrow> (nat \<Rightarrow> string option) \<Rightarrow> nat \<Rightarrow> agent_state" where
  "new_agent_state keys files faults writes = \<lparr>as_nodes = map (\<lambda>(n, _). (n, blank_node)) keys,
     as_diagnostics = map (\<lambda>(n, _). (n, load_diagnostics (map_of files n))) keys,
     as_files = files, as_faults = faults, as_writes = writes\<rparr>"

definition persist_diagnostics :: "string \<Rightarrow> (agent_state, unit) op" where
  "persist_diagnostics n s = (let s1 = s\<lparr>as_writes := Suc (as_writes s)\<rparr> in case as_faults s (as_writes s) of
     Some m \<Rightarrow> (s1, Inl (OSError m))
   | None \<Rightarrow> (s1\<lparr>as_files := AList.update n (VDict (dict_get (as_diagnostics s) n [])) (as_files s)\<rparr>, Inr ()))"

definition on_diagnostics :: "string \<Rightarrow> unit diag_op \<Rightarrow> (agent_state, unit) op" where
  "on_diagnostics n m s = (case map_of (as_diagnostics s) n of
     None \<Rightarrow> (s, Inl (KeyError (py_repr_str n)))
   | Some d \<Rightarrow> let (d', r) = m d in (s\<lparr>as_diagnostics := AList.update n d' (as_diagnostics s)\<rparr>, r))"

text \<open>\<open>record\<close>: the counters, then the node, then the file.\<close>

definition record_heartbeat :: "hb_codec \<Rightarrow> (string \<times> node_key) list \<Rightarrow> (string \<times> py_value) list \<Rightarrow> (agent_state, unit) op" where
  "record_heartbeat x keys persisted s = (case vget persisted ''heartbeat'' of
     VDict heartbeat \<Rightarrow> (case vget heartbeat ''node_id'' of
       VStr n \<Rightarrow>
         if n \<notin> fst ` set keys then (s, Inl (ValueError ''persisted heartbeat belongs to an unknown node''))
         else op_bind (on_diagnostics n (count_heartbeat x (py_truthy (vget (dict_get (as_nodes s) n []) ''online''))
               (vget persisted ''received_unix_ms'') (vget heartbeat ''boot_id'') (vget heartbeat ''seq''))) (\<lambda>_.
           op_bind (\<lambda>s. (s\<lparr>as_nodes := AList.update n persisted (as_nodes s)\<rparr>, Inr ())) (\<lambda>_. persist_diagnostics n)) s
     | v \<Rightarrow> (s, Inl (if is_hashable v then ValueError ''persisted heartbeat belongs to an unknown node''
         else TypeError ''unhashable type'')))
   | _ \<Rightarrow> (s, Inl (ValueError ''persisted heartbeat is missing'')))"

definition node_offline :: "(string \<times> py_value) list \<Rightarrow> (string \<times> py_value) list" where
  "node_offline node = AList.update ''source_ip'' VNone (AList.update ''online'' (VBool False) node)"

fun mark_offline :: "hb_codec \<Rightarrow> int \<Rightarrow> string list \<Rightarrow> (agent_state, unit) op" where
  "mark_offline x ms [] s = (s, Inr ())"
| "mark_offline x ms (n # ns) s = (case map_of (as_nodes s) n of
     None \<Rightarrow> mark_offline x ms ns s
   | Some node \<Rightarrow> op_bind (op_when (py_truthy (vget node ''online''))
         (op_bind (on_diagnostics n (op_bind (diag_add x ''offline_transitions'' 1) (\<lambda>_. diag_set ''last_offline_unix_ms'' (VInt ms))))
           (\<lambda>_. persist_diagnostics n))) (\<lambda>_.
       op_bind (\<lambda>s. (s\<lparr>as_nodes := AList.update n (node_offline node) (as_nodes s)\<rparr>, Inr ())) (\<lambda>_. mark_offline x ms ns)) s)"

definition heartbeat_of :: "(string \<times> py_value) list \<Rightarrow> (string \<times> py_value) list" where
  "heartbeat_of node = (case vget node ''heartbeat'' of VDict d \<Rightarrow> d | _ \<Rightarrow> [])"

definition first_present :: "(string \<times> py_value) list \<Rightarrow> string list \<Rightarrow> py_value" where
  "first_present d ks = (case find (\<lambda>k. vget d k \<noteq> VNone) ks of None \<Rightarrow> VNone | Some k \<Rightarrow> vget d k)"

definition normalise_node :: "(string \<times> node_key) list \<Rightarrow> agent_state \<Rightarrow> string \<Rightarrow> (string \<times> py_value) list" where
  "normalise_node keys s n = (let node = dict_get (as_nodes s) n []; payload = heartbeat_of node; copied = (\<lambda>k. (k, vget payload k)) in
     [(''node_id'', VStr n), (''key_id'', (case map_of keys n of Some k \<Rightarrow> VStr (nk_key_id k) | None \<Rightarrow> VNone)),
      (''online'', VBool (py_truthy (vget node ''online''))), (''received_unix_ms'', vget node ''received_unix_ms''),
      (''source_ip'', vget node ''source_ip''), copied ''mac'', copied ''firmware'', copied ''uptime_s'', copied ''wifi_rssi_dbm'',
      copied ''sensor_state'', copied ''measurement_age_ms'', copied ''rs485_ready'', copied ''modbus_monitor_ready'',
      (''modbus_address'', first_present payload [''modbus_address'', ''modbus_slave_address'', ''modbus_slave'']),
      copied ''modbus_requests_total'', copied ''modbus_requests_last_60s'', copied ''last_modbus_request_age_ms'',
      copied ''ota_partition'', copied ''ota_pending'', (''transport'', VDict (dict_get (as_diagnostics s) n [])),
      (''heartbeat'', vget node ''heartbeat'')])"

definition agent_nodes :: "(string \<times> node_key) list \<Rightarrow> agent_state \<Rightarrow> (string \<times> py_value) list list" where
  "agent_nodes keys s = map (normalise_node keys s) (sort (map fst keys))"

subsection \<open>The agent\<close>

record service_agent =
  sa_receiver :: receiver
  sa_state :: agent_state
  sa_network :: "service_network_state option"
  sa_last_probe :: py_float
  sa_ota :: ota_coordinator

record agent_config =
  ag_heartbeat :: hb_config
  ag_ota :: ota_config
  ag_bind_address :: string
  ag_port :: int
  ag_socket :: string
  ag_probe_interval :: py_float
  ag_started_unix_ms :: int

definition new_service_agent :: "agent_config \<Rightarrow> hb_disk \<Rightarrow> agent_state \<Rightarrow> ota_coordinator \<Rightarrow> service_agent result" where
  "new_service_agent c disk st ota = (if fle (ag_probe_interval c) (Fin 0) then Inl (ValueError ''network probe interval must be positive'')
     else rbind (new_receiver (ag_heartbeat c) disk) (\<lambda>r.
       Inr \<lparr>sa_receiver = r, sa_state = st, sa_network = None, sa_last_probe = Fin 0, sa_ota = ota\<rparr>))"

definition on_receiver :: "(receiver, 'a) op \<Rightarrow> (service_agent, 'a) op" where
  "on_receiver m s = (let (r, x) = m (sa_receiver s) in (s\<lparr>sa_receiver := r\<rparr>, x))"

definition on_agent_state :: "(agent_state, 'a) op \<Rightarrow> (service_agent, 'a) op" where
  "on_agent_state m s = (let (st, x) = m (sa_state s) in (s\<lparr>sa_state := st\<rparr>, x))"

definition agent_expire :: "agent_config \<Rightarrow> py_float \<Rightarrow> int \<Rightarrow> (service_agent, unit) op" where
  "agent_expire c now unix_ms = op_bind (on_receiver (expire_stale_nodes (ag_heartbeat c) now unix_ms))
     (\<lambda>expired. on_agent_state (mark_offline (hk_codec (ag_heartbeat c)) unix_ms expired))"

text \<open>A datagram in \<open>run\<close>: a rejection by the receiver is logged; what \<open>record\<close> raises is not a \<open>HeartbeatError\<close>.\<close>

definition agent_datagram :: "agent_config \<Rightarrow> py_float \<Rightarrow> int \<Rightarrow> string \<Rightarrow> string \<Rightarrow> (service_agent, unit) op" where
  "agent_datagram c now unix_ms datagram source s =
     (case on_receiver (process_datagram (ag_heartbeat c) now unix_ms datagram source) s of
        (s1, Inl e) \<Rightarrow> (s1, if is_value_error e then Inr () else Inl e)
      | (s1, Inr persisted) \<Rightarrow> on_agent_state (record_heartbeat (hk_codec (ag_heartbeat c)) (hk_keys (ag_heartbeat c))
          (case persisted of VDict d \<Rightarrow> d | _ \<Rightarrow> [])) s1)"

subsection \<open>Requests\<close>

definition AGENT_MAX_REQUEST_BYTES :: nat where "AGENT_MAX_REQUEST_BYTES = 16 * 1024"

definition refresh_network :: "agent_config \<Rightarrow> py_float \<Rightarrow> int \<Rightarrow> network_answers \<Rightarrow> service_agent \<Rightarrow> service_agent" where
  "refresh_network c now unix_ms answers s =
     (if sa_network s \<noteq> None \<and> flt (fsub now (sa_last_probe s)) (ag_probe_interval c) then s
      else s\<lparr>sa_network := Some (probe_service_network answers ''wlan0'' ''wvc-sensor-service'' (ag_bind_address c) unix_ms),
             sa_last_probe := now\<rparr>)"

definition agent_snapshot :: "agent_config \<Rightarrow> service_agent \<Rightarrow> (string \<times> py_value) list" where
  "agent_snapshot c s = (let nodes = agent_nodes (hk_keys (ag_heartbeat c)) (sa_state s) in
     [(''agent'', VDict [(''ready'', VBool True), (''started_unix_ms'', VInt (ag_started_unix_ms c)),
        (''udp_bind'', VStr (ag_bind_address c @ '':'' @ show_int (ag_port c))), (''socket'', VStr (ag_socket c)),
        (''registered_nodes'', VInt (int (length nodes))),
        (''online_nodes'', VInt (int (length (filter (\<lambda>n. py_truthy (vget n ''online'')) nodes))))]),
      (''network'', (case sa_network s of Some n \<Rightarrow> VDict (network_dict n) | None \<Rightarrow> VNone)),
      (''nodes'', VList (map VDict nodes))])"

text \<open>What a request meets: the clock, the network commands, and for updates the image, the leases and the node.\<close>

record request_inputs =
  rq_now :: py_float
  rq_unix_ms :: int
  rq_network :: network_answers
  rq_repr :: "py_value \<Rightarrow> string"
  rq_image :: "string \<Rightarrow> image_file"
  rq_leases :: "string list result"
  rq_operation_id :: string
  rq_answers :: "nat \<Rightarrow> http_answer"

datatype agent_reply =
    AgentStatus "(string \<times> py_value) list"
  | AgentField string py_value
  | AgentOtaStatus ota_status
  | AgentOtaStarted string ota_operation
  | AgentRefused string

text \<open>\<open>ServiceAgent.handle_request\<close>.\<close>

definition base_request :: "agent_config \<Rightarrow> request_inputs \<Rightarrow> py_value \<Rightarrow> (service_agent, agent_reply) op" where
  "base_request c i command s = (let s1 = refresh_network c (rq_now i) (rq_unix_ms i) (rq_network i) s; snapshot = agent_snapshot c s1 in
     (s1, Inr (if command = VStr ''status'' then AgentStatus ((''ok'', VBool True) # snapshot)
       else if command = VStr ''nodes'' then AgentField ''nodes'' (vget snapshot ''nodes'')
       else if command = VStr ''network'' then AgentField ''network'' (vget snapshot ''network'')
       else AgentRefused (''unknown command: '' @ rq_repr i command))))"

definition ota_install_request :: "request_inputs \<Rightarrow> string \<Rightarrow> string \<Rightarrow> (string \<times> py_value) list list \<Rightarrow> install_request" where
  "ota_install_request i n path nodes = \<lparr>ir_node_id = n, ir_image_path = path, ir_image = rq_image i path, ir_nodes = nodes,
     ir_leases = rq_leases i, ir_operation_id = rq_operation_id i, ir_unix_ms = rq_unix_ms i\<rparr>"

text \<open>A \<open>ServiceOtaError\<close> becomes a refusal.\<close>

definition refused :: "'a result \<Rightarrow> ('a \<Rightarrow> agent_reply) \<Rightarrow> agent_reply result" where
  "refused r f = (case r of Inl (RuntimeError m) \<Rightarrow> Inr (AgentRefused m) | Inl e \<Rightarrow> Inl e | Inr x \<Rightarrow> Inr (f x))"

text \<open>\<open>OtaServiceAgent.handle_request\<close>.\<close>

definition agent_request :: "agent_config \<Rightarrow> request_inputs \<Rightarrow> (string \<times> py_value) list \<Rightarrow> (service_agent, agent_reply) op" where
  "agent_request c i request s = (let command = vget request ''command'' in
     if \<not> is_hashable command then (s, Inl (TypeError ''unhashable type''))
     else if command \<notin> set [VStr ''ota-install'', VStr ''ota-status''] then base_request c i command s
     else case vget request ''node_id'' of
       VStr n \<Rightarrow>
         if n = [] then (s, Inr (AgentRefused ''node_id is required''))
         else let s1 = refresh_network c (rq_now i) (rq_unix_ms i) (rq_network i) s;
                  nodes = agent_nodes (hk_keys (ag_heartbeat c)) (sa_state s1) in
           (if command = VStr ''ota-status''
            then (s1, refused (ota_status_of (ag_ota c) (sa_ota s1) n True nodes (rq_leases i) (rq_answers i)) AgentOtaStatus)
            else case vget request ''image_path'' of
              VStr path \<Rightarrow>
                if path = [] then (s1, Inr (AgentRefused ''image_path is required''))
                else let (ota, r) = start_install (ag_ota c) (ota_install_request i n path nodes) (sa_ota s1)
                  in (s1\<lparr>sa_ota := ota\<rparr>, refused r (AgentOtaStarted n))
            | _ \<Rightarrow> (s1, Inr (AgentRefused ''image_path is required'')))
     | _ \<Rightarrow> (s, Inr (AgentRefused ''node_id is required'')))"

text \<open>\<open>_serve_client\<close>: the request line, and the exceptions that become replies.\<close>

fun read_agent_request :: "string result list \<Rightarrow> string \<Rightarrow> string result" where
  "read_agent_request chunks buf =
     (if buf \<noteq> [] \<and> last buf = CHR 0x0A then Inr buf
      else case chunks of [] \<Rightarrow> Inr buf
      | Inl e # _ \<Rightarrow> Inl e
      | Inr chunk # rest \<Rightarrow>
          if chunk = [] then Inr buf
          else if AGENT_MAX_REQUEST_BYTES < length (buf @ chunk) then Inl (ValueError ''request is too large'')
          else read_agent_request rest (buf @ chunk))"

definition caught_by_client :: "exc \<Rightarrow> bool" where
  "caught_by_client e = (is_value_error e \<or> (case e of OSError _ \<Rightarrow> True | TimeoutErr _ \<Rightarrow> True | _ \<Rightarrow> False))"

definition serve_agent_client :: "agent_config \<Rightarrow> request_inputs \<Rightarrow> string result list \<Rightarrow> (service_agent, agent_reply) op" where
  "serve_agent_client c i chunks s =
     (case op_bind (op_lift (rbind (read_agent_request chunks []) (\<lambda>raw. case hc_loads (hk_codec (ag_heartbeat c)) raw of
           None \<Rightarrow> Inl (ValueError ''invalid JSON'')
         | Some (VDict d) \<Rightarrow> Inr d
         | Some _ \<Rightarrow> Inl (ValueError ''request must be a JSON object'')))) (agent_request c i) s of
        (s1, Inl e) \<Rightarrow> (s1, if caught_by_client e then Inr (AgentRefused (exc_str e)) else Inl e)
      | (s1, Inr r) \<Rightarrow> (s1, Inr r))"

subsection \<open>Turns of the loop\<close>

text \<open>
  A turn: what is ready on the two sockets, in any order, and the threads of updates that run meanwhile, then the
  expiry. An exception ends the process.
\<close>

datatype agent_input =
    AgentDatagram py_float int string string
  | AgentClient request_inputs "string result list"
  | AgentUpdate install_inputs string

definition agent_input_step :: "agent_config \<Rightarrow> agent_input \<Rightarrow> (service_agent, unit) op" where
  "agent_input_step c e = (case e of
     AgentDatagram now unix_ms datagram source \<Rightarrow> agent_datagram c now unix_ms datagram source
   | AgentClient i chunks \<Rightarrow> op_bind (serve_agent_client c i chunks) (\<lambda>_. op_return ())
   | AgentUpdate i n \<Rightarrow> (\<lambda>s. (s\<lparr>sa_ota := ota_step (ag_ota c) (sa_ota s) (RunInstall i n)\<rparr>, Inr ())))"

fun agent_inputs :: "agent_config \<Rightarrow> agent_input list \<Rightarrow> (service_agent, unit) op" where
  "agent_inputs c [] s = (s, Inr ())"
| "agent_inputs c (e # es) s = op_bind (agent_input_step c e) (\<lambda>_. agent_inputs c es) s"

definition agent_turn :: "agent_config \<Rightarrow> agent_input list \<Rightarrow> py_float \<Rightarrow> int \<Rightarrow> (service_agent, unit) op" where
  "agent_turn c es now unix_ms = op_bind (agent_inputs c es) (\<lambda>_. agent_expire c now unix_ms)"

fun agent_turns :: "agent_config \<Rightarrow> (agent_input list \<times> py_float \<times> int) list \<Rightarrow> (service_agent, unit) op" where
  "agent_turns c [] s = (s, Inr ())"
| "agent_turns c ((es, now, unix_ms) # ts) s = op_bind (agent_turn c es now unix_ms) (\<lambda>_. agent_turns c ts) s"

end
