(* ===== verification/ServiceAgentSafety.thy ===== *)
theory ServiceAgentSafety
  imports ServiceAgent HeartbeatSafety ServiceOtaSafety
begin

section \<open>What the service agent reports\<close>

text \<open>
  Lemmas about \<open>ServiceAgent\<close>: a node is reported online only on the strength of an authentic heartbeat that is not stale, the
  counters of a boot session add up, and a request that is not a text command ends the process.
\<close>

subsection \<open>What each step leaves alone\<close>

lemma load_record_frame:
  "hr_runtime (fst (load_record x n r)) = hr_runtime r" "hr_disk (fst (load_record x n r)) = hr_disk r"
  by (auto simp: load_record_def split: option.split sum.split)

lemma file_write_frame:
  assumes "write_replay n v r = (r', x) \<or> write_node n v r = (r', x)"
  shows "hr_runtime r' = hr_runtime r" "hd_faults (hr_disk r') = hd_faults (hr_disk r)"
    "x = Inl e \<Longrightarrow> \<exists>k. hd_faults (hr_disk r) k = Some e"
  using assms atomic_write_effect[of _ r r' x] unfolding write_replay_def write_node_def by fastforce+

lemma accept_frame:
  assumes "accept_heartbeat cx p r = (r', x)"
  shows "hr_runtime r' = hr_runtime r" "hd_faults (hr_disk r') = hd_faults (hr_disk r)"
proof -
  let ?n = "text_field p ''node_id''"
  obtain r1 y where load: "load_record cx ?n r = (r1, y)" by fastforce
  have l: "hr_runtime r1 = hr_runtime r" "hr_disk r1 = hr_disk r" using load_record_frame[of cx ?n r] by (simp_all add: load)
  have "hr_runtime r' = hr_runtime r \<and> hd_faults (hr_disk r') = hd_faults (hr_disk r)"
  proof (cases "rbind y (advance_record (text_field p ''boot_id'') (int_field p ''seq''))")
    case (Inl e)
    with assms load l show ?thesis
      by (cases y) (auto simp: accept_heartbeat_def op_bind_def Let_def)
  next
    case (Inr rec')
    obtain r2 z where w: "write_replay ?n (record_json rec') (r1\<lparr>hr_records := AList.update ?n rec' (hr_records r1)\<rparr>) = (r2, z)"
      by fastforce
    from assms load Inr w have "r' = r2" by (cases y) (auto simp: accept_heartbeat_def op_bind_def Let_def)
    with file_write_frame(1,2)[OF disjI1[OF w]] l show ?thesis by simp
  qed
  then show "hr_runtime r' = hr_runtime r" "hd_faults (hr_disk r') = hd_faults (hr_disk r)" by simp_all
qed

text \<open>What the receiver returns for a heartbeat, and what it remembers.\<close>

definition online_node :: "int \<Rightarrow> string \<Rightarrow> (string \<times> py_value) list \<Rightarrow> (string \<times> py_value) list" where
  "online_node ms src p = [(''online'', VBool True), (''received_unix_ms'', VInt ms), (''source_ip'', VStr src), (''heartbeat'', VDict p)]"

lemma process_frame:
  assumes run: "process_datagram c t ms d src r = (r', x)"
  shows "hd_faults (hr_disk r') = hd_faults (hr_disk r)"
    and "x = Inr v \<Longrightarrow> \<exists>p. decode_and_authenticate (hk_codec c) (hk_keys c) d src = Inr p \<and> v = VDict (online_node ms src p)
      \<and> hr_runtime r' = AList.update (text_field p ''node_id'') \<lparr>nr_last_received = t, nr_online = True, nr_payload = Some p\<rparr> (hr_runtime r)"
    and "x = Inl e \<Longrightarrow> hr_runtime r' = hr_runtime r \<or> (\<exists>k. hd_faults (hr_disk r) k = Some e)"
proof -
  let ?A = "hd_faults (hr_disk r') = hd_faults (hr_disk r)
    \<and> (case x of Inr v \<Rightarrow> \<exists>p. decode_and_authenticate (hk_codec c) (hk_keys c) d src = Inr p \<and> v = VDict (online_node ms src p)
      \<and> hr_runtime r' = AList.update (text_field p ''node_id'') \<lparr>nr_last_received = t, nr_online = True, nr_payload = Some p\<rparr> (hr_runtime r)
      | Inl e \<Rightarrow> hr_runtime r' = hr_runtime r \<or> (\<exists>k. hd_faults (hr_disk r) k = Some e))"
  have ?A
  proof (cases "decode_and_authenticate (hk_codec c) (hk_keys c) d src")
    case (Inl e)
    with run show ?thesis by (auto simp: process_datagram_def op_bind_def)
  next
    case dec: (Inr p)
    let ?n = "text_field p ''node_id''"
    obtain r1 y where acc: "accept_heartbeat (hk_codec c) p r = (r1, y)" by fastforce
    note a = accept_frame[OF acc]
    show ?thesis
    proof (cases y)
      case (Inl e)
      with run dec acc have "r' = r1" "x = Inl e" by (simp_all add: process_datagram_def op_bind_def)
      with a show ?thesis by simp
    next
      case (Inr u)
      let ?r2 = "r1\<lparr>hr_runtime := AList.update ?n \<lparr>nr_last_received = t, nr_online = True, nr_payload = Some p\<rparr> (hr_runtime r1)\<rparr>"
      obtain r3 z where w: "write_node ?n (VDict (online_node ms src p)) ?r2 = (r3, z)" by fastforce
      with run dec acc Inr have r': "r' = r3" "x = (case z of Inl e \<Rightarrow> Inl e | Inr _ \<Rightarrow> Inr (VDict (online_node ms src p)))"
        by (cases z; simp add: process_datagram_def op_bind_def Let_def online_node_def)+
      note f = file_write_frame[OF disjI2[OF w]]
      show ?thesis
      proof (cases z)
        case (Inl e)
        with f(2) f(3)[OF Inl] a r' show ?thesis by auto
      next
        case (Inr v)
        with f(1,2) a r' dec show ?thesis by auto
      qed
    qed
  qed
  then show "hd_faults (hr_disk r') = hd_faults (hr_disk r)"
    "x = Inr v \<Longrightarrow> \<exists>p. decode_and_authenticate (hk_codec c) (hk_keys c) d src = Inr p \<and> v = VDict (online_node ms src p)
      \<and> hr_runtime r' = AList.update (text_field p ''node_id'') \<lparr>nr_last_received = t, nr_online = True, nr_payload = Some p\<rparr> (hr_runtime r)"
    "x = Inl e \<Longrightarrow> hr_runtime r' = hr_runtime r \<or> (\<exists>k. hd_faults (hr_disk r) k = Some e)" by auto
qed

lemma expire_frame:
  assumes "expire_nodes c now ms ns r = (r', Inr ex)"
  shows "hd_faults (hr_disk r') = hd_faults (hr_disk r)" "n \<notin> set ex \<Longrightarrow> map_of (hr_runtime r') n = map_of (hr_runtime r) n"
    "\<lbrakk>map_of (hr_runtime r') n = Some rt; nr_online rt; n \<in> set ns\<rbrakk> \<Longrightarrow> \<not> is_stale c now rt"
    "\<lbrakk>map_of (hr_runtime r') n = Some rt; nr_online rt\<rbrakk> \<Longrightarrow> n \<notin> set ex"
proof -
  have "hd_faults (hr_disk r') = hd_faults (hr_disk r) \<and> (\<forall>n. n \<notin> set ex \<longrightarrow> map_of (hr_runtime r') n = map_of (hr_runtime r) n)
    \<and> (\<forall>n rt. map_of (hr_runtime r') n = Some rt \<longrightarrow> n \<in> set ex \<longrightarrow> \<not> nr_online rt)
    \<and> (\<forall>n rt. map_of (hr_runtime r') n = Some rt \<longrightarrow> n \<in> set ns \<longrightarrow> n \<notin> set ex \<longrightarrow> \<not> is_stale c now rt)"
    using assms
  proof (induction ns arbitrary: r ex)
    case (Cons k ks)
    show ?case
    proof (cases "map_of (hr_runtime r) k")
      case None
      with Cons.IH[of r ex] Cons.prems show ?thesis by (auto simp: dom_def)
    next
      case (Some rt)
      show ?thesis
      proof (cases "is_stale c now rt")
        case False
        with Cons.IH[of r ex] Cons.prems Some show ?thesis by auto
      next
        case True
        let ?r1 = "r\<lparr>hr_runtime := AList.update k (rt\<lparr>nr_online := False\<rparr>) (hr_runtime r)\<rparr>"
        let ?v = "VDict [(''online'', VBool False), (''received_unix_ms'', VInt ms),
              (''heartbeat'', case nr_payload rt of None \<Rightarrow> VNone | Some p \<Rightarrow> VDict p)]"
        obtain r2 y where w: "write_node k ?v ?r1 = (r2, y)" by fastforce
        obtain r3 z where e: "expire_nodes c now ms ks r2 = (r3, z)" by fastforce
        from Cons.prems Some True w e obtain ex' where z: "y = Inr ()" "z = Inr ex'" "r' = r3" "ex = k # ex'"
          by (cases y; cases z) (auto simp: op_bind_def)
        note f = file_write_frame(1,2)[OF disjI2[OF w]]
        note IH = Cons.IH[of r2 ex', OF e[unfolded z(2) z(3)[symmetric]]]
        have k: "map_of (hr_runtime r2) k = Some (rt\<lparr>nr_online := False\<rparr>)" using f(1) by (simp add: update_conv)
        have other: "map_of (hr_runtime r2) n = map_of (hr_runtime r) n" if "n \<noteq> k" for n
          using f(1) that by (simp add: update_conv)
        have "\<not> nr_online rt'" if "map_of (hr_runtime r') k = Some rt'" for rt'
          using IH k that by (cases "k \<in> set ex'") auto
        with IH f(2) other z(4) show ?thesis by (simp split: if_splits)
      qed
    qed
  qed auto
  then show "hd_faults (hr_disk r') = hd_faults (hr_disk r)" "n \<notin> set ex \<Longrightarrow> map_of (hr_runtime r') n = map_of (hr_runtime r) n"
    "\<lbrakk>map_of (hr_runtime r') n = Some rt; nr_online rt; n \<in> set ns\<rbrakk> \<Longrightarrow> \<not> is_stale c now rt"
    "\<lbrakk>map_of (hr_runtime r') n = Some rt; nr_online rt\<rbrakk> \<Longrightarrow> n \<notin> set ex" by blast+
qed

lemma persist_frame: "as_nodes (fst (persist_diagnostics n s)) = as_nodes s"
  by (simp add: persist_diagnostics_def Let_def split: option.split)

lemma on_diagnostics_frame: "as_nodes (fst (on_diagnostics n m s)) = as_nodes s"
  by (simp add: on_diagnostics_def split: option.split prod.split)

lemma record_frame:
  assumes "record_heartbeat x keys (online_node ms src p) s = (s', Inr ())"
  obtains n where "vget p ''node_id'' = VStr n" "as_nodes s' = AList.update n (online_node ms src p) (as_nodes s)"
proof -
  have hb: "vget (online_node ms src p) ''heartbeat'' = VDict p" by (simp add: online_node_def vget_def dict_get_def)
  obtain n where n: "vget p ''node_id'' = VStr n"
    using assms by (auto simp: record_heartbeat_def hb split: py_value.split_asm)
  let ?count = "on_diagnostics n (count_heartbeat x (py_truthy (vget (dict_get (as_nodes s) n []) ''online''))
    (vget (online_node ms src p) ''received_unix_ms'') (vget p ''boot_id'') (vget p ''seq''))"
  obtain s1 y where c: "?count s = (s1, y)" by fastforce
  have s1: "as_nodes s1 = as_nodes s" using on_diagnostics_frame[of n _ s] by (metis c fst_conv)
  have "as_nodes s' = AList.update n (online_node ms src p) (as_nodes s1)"
  proof -
    let ?s2 = "s1\<lparr>as_nodes := AList.update n (online_node ms src p) (as_nodes s1)\<rparr>"
    have keys: "n \<in> fst ` set keys" using assms by (simp add: record_heartbeat_def hb n split: if_split_asm)
    have run: "op_bind ?count (\<lambda>_. op_bind (\<lambda>s. (s\<lparr>as_nodes := AList.update n (online_node ms src p) (as_nodes s)\<rparr>, Inr ()))
        (\<lambda>_. persist_diagnostics n)) s = (s', Inr ())"
      using assms by (simp only: record_heartbeat_def hb n py_value.case keys not_True_eq_False if_False)
    then obtain u where "y = Inr u" using c by (cases y) (simp_all add: op_bind_Inl)
    with run c have "persist_diagnostics n ?s2 = (s', Inr ())" by (simp add: op_bind_def)
    with persist_frame[of n ?s2] show ?thesis by simp
  qed
  with n s1 that show ?thesis by simp
qed

lemma nodes_bind: "as_nodes (fst (m s)) = as_nodes s \<Longrightarrow> (\<And>x s. as_nodes (fst (f x s)) = as_nodes s) \<Longrightarrow>
    as_nodes (fst (op_bind m f s)) = as_nodes s"
  by (cases "m s"; cases "snd (m s)") (auto simp: op_bind_def)

lemma offline_node: "\<not> py_truthy (vget (node_offline node) ''online'')"
  by (simp add: node_offline_def vget_def dict_get_def update_conv' py_truthy_def)

lemma mark_offline_frame:
  assumes "mark_offline x ms ns s = (s', Inr ())"
  shows "n \<notin> set ns \<Longrightarrow> map_of (as_nodes s') n = map_of (as_nodes s) n"
    "n \<in> set ns \<Longrightarrow> map_of (as_nodes s') n = Some node \<Longrightarrow> \<not> py_truthy (vget node ''online'')"
proof -
  have "(\<forall>n. n \<notin> set ns \<longrightarrow> map_of (as_nodes s') n = map_of (as_nodes s) n)
    \<and> (\<forall>n node. map_of (as_nodes s') n = Some node \<longrightarrow> n \<in> set ns \<longrightarrow> \<not> py_truthy (vget node ''online''))"
    using assms
  proof (induction ns arbitrary: s)
    case (Cons k ks)
    show ?case
    proof (cases "map_of (as_nodes s) k")
      case None
      then have rest: "mark_offline x ms ks s = (s', Inr ())" using Cons.prems by simp
      have "map_of (as_nodes s') k \<noteq> Some node \<or> k \<in> set ks" for node
        using Cons.IH[OF rest] None by (metis option.distinct(1))
      with Cons.IH[OF rest] show ?thesis by auto
    next
      case (Some node)
      let ?w = "op_when (py_truthy (vget node ''online''))
         (op_bind (on_diagnostics k (op_bind (diag_add x ''offline_transitions'' 1) (\<lambda>_. diag_set ''last_offline_unix_ms'' (VInt ms))))
           (\<lambda>_. persist_diagnostics k))"
      obtain s1 y where w: "?w s = (s1, y)" by fastforce
      have "as_nodes (fst (?w s)) = as_nodes s"
        by (simp add: op_when_def nodes_bind on_diagnostics_frame persist_frame)
      with w have s1: "as_nodes s1 = as_nodes s" by simp
      let ?s2 = "s1\<lparr>as_nodes := AList.update k (node_offline node) (as_nodes s1)\<rparr>"
      have rest: "mark_offline x ms ks ?s2 = (s', Inr ())"
        using Cons.prems Some w by (cases y) (auto simp: op_bind_def)
      have at_k: "\<not> py_truthy (vget node' ''online'')" if "map_of (as_nodes s') k = Some node'" for node'
      proof (cases "k \<in> set ks")
        case True with Cons.IH[OF rest] that show ?thesis by blast
      next
        case False with Cons.IH[OF rest] that offline_node[of node] show ?thesis by (simp add: update_conv)
      qed
      with Cons.IH[OF rest] s1 show ?thesis by (auto simp: update_conv)
    qed
  qed auto
  then show "n \<notin> set ns \<Longrightarrow> map_of (as_nodes s') n = map_of (as_nodes s) n"
    "n \<in> set ns \<Longrightarrow> map_of (as_nodes s') n = Some node \<Longrightarrow> \<not> py_truthy (vget node ''online'')" by blast+
qed

lemma request_frame: "sa_state (fst (agent_request c i request s)) = sa_state s \<and> sa_receiver (fst (agent_request c i request s)) = sa_receiver s"
proof -
  have refresh: "sa_state (refresh_network c t ms a s) = sa_state s" "sa_receiver (refresh_network c t ms a s) = sa_receiver s" for t ms a
    by (simp_all add: refresh_network_def)
  have base: "sa_state (fst (base_request c i command s)) = sa_state s \<and> sa_receiver (fst (base_request c i command s)) = sa_receiver s"
    for command by (simp add: base_request_def Let_def refresh)
  show ?thesis
    by (simp add: agent_request_def Let_def refresh base split: py_value.split prod.split)
qed

lemma client_frame:
  assumes "serve_agent_client c i chunks s = (s', x)"
  shows "sa_state s' = sa_state s" "sa_receiver s' = sa_receiver s"
proof -
  let ?request = "rbind (read_agent_request chunks []) (\<lambda>raw. case hc_loads (hk_codec (ag_heartbeat c)) raw of
           None \<Rightarrow> Inl (ValueError ''invalid JSON'')
         | Some (VDict d) \<Rightarrow> Inr d
         | Some _ \<Rightarrow> Inl (ValueError ''request must be a JSON object''))"
  have "fst (serve_agent_client c i chunks s) = fst (op_bind (op_lift ?request) (agent_request c i) s)"
    unfolding serve_agent_client_def by (simp only: prod.case_eq_if sum.case_eq_if fst_conv if_cancel split: if_split) auto
  also have "\<dots> = (case ?request of Inl e \<Rightarrow> s | Inr d \<Rightarrow> fst (agent_request c i d s))"
    unfolding op_bind_def op_lift_apply by (simp split: sum.split del: read_agent_request.simps)
  finally show "sa_state s' = sa_state s" "sa_receiver s' = sa_receiver s"
    using assms request_frame[of c i _ s] by (simp_all split: sum.split_asm del: read_agent_request.simps)
qed

subsection \<open>Online nodes\<close>

text \<open>A node that counts as online has a datagram behind it.\<close>

definition backed :: "agent_config \<Rightarrow> agent_input set \<Rightarrow> service_agent \<Rightarrow> string \<Rightarrow> (string \<times> py_value) list \<Rightarrow> bool" where
  "backed c E s n node = (\<exists>t ms d src p. AgentDatagram t ms d src \<in> E
     \<and> decode_and_authenticate (hk_codec (ag_heartbeat c)) (hk_keys (ag_heartbeat c)) d src = Inr p
     \<and> vget p ''node_id'' = VStr n \<and> node = online_node ms src p
     \<and> map_of (hr_runtime (sa_receiver s)) n = Some \<lparr>nr_last_received = t, nr_online = True, nr_payload = Some p\<rparr>)"

definition agent_ok :: "agent_config \<Rightarrow> agent_input set \<Rightarrow> service_agent \<Rightarrow> bool" where
  "agent_ok c E s = ((\<forall>n node. map_of (as_nodes (sa_state s)) n = Some node \<longrightarrow> py_truthy (vget node ''online'') \<longrightarrow> backed c E s n node)
     \<and> (\<forall>k e. hd_faults (hr_disk (sa_receiver s)) k = Some e \<longrightarrow> \<not> is_value_error e))"

lemma agent_ok_mono: "agent_ok c E s \<Longrightarrow> E \<subseteq> E' \<Longrightarrow> agent_ok c E' s"
  unfolding agent_ok_def backed_def by blast

lemma agent_ok_cong: "sa_state s' = sa_state s \<Longrightarrow> hr_runtime (sa_receiver s') = hr_runtime (sa_receiver s) \<Longrightarrow>
    hd_faults (hr_disk (sa_receiver s')) = hd_faults (hr_disk (sa_receiver s)) \<Longrightarrow> agent_ok c E s' \<longleftrightarrow> agent_ok c E s"
  by (simp add: agent_ok_def backed_def)

lemma datagram_ok:
  assumes ok: "agent_ok c E s" and mem: "AgentDatagram t ms d src \<in> E" and run: "agent_datagram c t ms d src s = (s', Inr ())"
  shows "agent_ok c E s'"
proof -
  obtain r' x where p: "process_datagram (ag_heartbeat c) t ms d src (sa_receiver s) = (r', x)" by fastforce
  note f = process_frame[OF p]
  show ?thesis
  proof (cases x)
    case (Inl e)
    with run p have e: "is_value_error e" "s' = s\<lparr>sa_receiver := r'\<rparr>"
      by (auto simp: agent_datagram_def on_receiver_def split: if_split_asm)
    with f(3)[OF Inl] ok have "hr_runtime r' = hr_runtime (sa_receiver s)" by (auto simp: agent_ok_def)
    with e f(1) ok agent_ok_cong[of s' s c E] show ?thesis by simp
  next
    case (Inr v)
    from f(2)[OF Inr] obtain pl where
      pl: "decode_and_authenticate (hk_codec (ag_heartbeat c)) (hk_keys (ag_heartbeat c)) d src = Inr pl" "v = VDict (online_node ms src pl)"
        "hr_runtime r' = AList.update (text_field pl ''node_id'') \<lparr>nr_last_received = t, nr_online = True, nr_payload = Some pl\<rparr> (hr_runtime (sa_receiver s))"
      by blast
    obtain st y where rec: "record_heartbeat (hk_codec (ag_heartbeat c)) (hk_keys (ag_heartbeat c)) (online_node ms src pl) (sa_state s) = (st, y)"
      by fastforce
    from run p Inr pl(2) rec have s': "y = Inr ()" "s' = s\<lparr>sa_receiver := r', sa_state := st\<rparr>"
      by (auto simp: agent_datagram_def on_receiver_def on_agent_state_def)
    obtain n where n: "vget pl ''node_id'' = VStr n" "as_nodes st = AList.update n (online_node ms src pl) (as_nodes (sa_state s))"
      by (rule record_frame[OF rec[unfolded s'(1)]])
    have "backed c E s' k node" if "map_of (as_nodes (sa_state s')) k = Some node" "py_truthy (vget node ''online'')" for k node
    proof (cases "k = n")
      case True
      with that n s' pl mem show ?thesis by (auto simp: backed_def update_conv text_field_def)
    next
      case False
      with that n s' have "map_of (as_nodes (sa_state s)) k = Some node" by (simp add: update_conv)
      with ok that have "backed c E s k node" by (simp add: agent_ok_def)
      with False s' pl(3) n(1) show ?thesis by (simp add: backed_def update_conv text_field_def)
    qed
    with ok f(1) s' show ?thesis by (simp add: agent_ok_def)
  qed
qed

lemma input_ok:
  assumes ok: "agent_ok c E s" and mem: "e \<in> E" and run: "agent_input_step c e s = (s', Inr ())"
  shows "agent_ok c E s'"
proof (cases e)
  case (AgentDatagram t ms d src)
  with datagram_ok[OF ok] mem run show ?thesis by (simp add: agent_input_step_def)
next
  case (AgentClient i chunks)
  obtain s1 x where c: "serve_agent_client c i chunks s = (s1, x)" by fastforce
  with run AgentClient have "s' = s1" by (cases x) (auto simp: agent_input_step_def op_bind_def)
  with client_frame[OF c] ok agent_ok_cong[of s' s c E] show ?thesis by simp
next
  case (AgentUpdate i n)
  with run have "sa_state s' = sa_state s" "sa_receiver s' = sa_receiver s" by (auto simp: agent_input_step_def)
  with ok agent_ok_cong[of s' s c E] show ?thesis by simp
qed

lemma inputs_ok: "agent_ok c E s \<Longrightarrow> set es \<subseteq> E \<Longrightarrow> agent_inputs c es s = (s', Inr ()) \<Longrightarrow> agent_ok c E s'"
proof (induction es arbitrary: s)
  case (Cons e es)
  from Cons.prems(3) obtain s1 where "agent_input_step c e s = (s1, Inr ())" "agent_inputs c es s1 = (s', Inr ())"
    by (auto simp: op_bind_eq_Inr)
  with Cons.IH[of s1] input_ok[OF Cons.prems(1), of e s1] Cons.prems(2) show ?case by simp
qed simp

text \<open>After the expiry, what backs an online node is fresh.\<close>

lemma expire_ok:
  assumes ok: "agent_ok c E s" and run: "agent_expire c now ms s = (s', Inr ())"
  shows "agent_ok c E s'"
    and "\<lbrakk>map_of (hr_runtime (sa_receiver s')) n = Some rt; nr_online rt\<rbrakk> \<Longrightarrow> \<not> is_stale (ag_heartbeat c) now rt"
proof -
  let ?hb = "ag_heartbeat c"
  obtain r' x where e: "expire_stale_nodes ?hb now ms (sa_receiver s) = (r', x)" by fastforce
  from run e obtain ex where x: "x = Inr ex" by (cases x) (auto simp: agent_expire_def op_bind_def on_receiver_def)
  obtain st y where m: "mark_offline (hk_codec ?hb) ms ex (sa_state s) = (st, y)" by fastforce
  from run e x m have s': "y = Inr ()" "s' = s\<lparr>sa_receiver := r', sa_state := st\<rparr>"
    by (auto simp: agent_expire_def op_bind_def on_receiver_def on_agent_state_def)
  note f = expire_frame[OF e[unfolded x expire_stale_nodes_def]] and g = mark_offline_frame[OF m[unfolded s'(1)]]
  show "agent_ok c E s'" unfolding agent_ok_def
  proof (intro conjI allI impI)
    fix k node assume k: "map_of (as_nodes (sa_state s')) k = Some node" "py_truthy (vget node ''online'')"
    then have out: "k \<notin> set ex" using g(2)[of k node] s' by auto
    with k g(1) s' have "map_of (as_nodes (sa_state s)) k = Some node" by simp
    with ok k(2) have "backed c E s k node" by (simp add: agent_ok_def)
    with out f(2) s' show "backed c E s' k node" by (simp add: backed_def)
  next
    fix k e assume "hd_faults (hr_disk (sa_receiver s')) k = Some e"
    with f(1) s' ok show "\<not> is_value_error e" by (simp add: agent_ok_def)
  qed
  assume rt: "map_of (hr_runtime (sa_receiver s')) n = Some rt" "nr_online rt"
  show "\<not> is_stale ?hb now rt"
  proof (cases "n \<in> set (map fst (hr_runtime (sa_receiver s)))")
    case True
    with f(3)[of n rt] rt s' show ?thesis by simp
  next
    case False
    then have none: "map_of (hr_runtime (sa_receiver s)) n = None" by (simp add: map_of_eq_None_iff)
    with f(2)[OF f(4)] rt s' have False by simp
    then show ?thesis by blast
  qed
qed

lemma turns_ok: "agent_ok c E s \<Longrightarrow> set (concat (map fst ts)) \<subseteq> E \<Longrightarrow> agent_turns c ts s = (s', Inr ()) \<Longrightarrow> agent_ok c E s'"
proof (induction ts arbitrary: s)
  case (Cons turn ts)
  obtain es now ms where turn: "turn = (es, now, ms)" by (cases turn)
  from Cons.prems(3) turn obtain s1 s2 where "agent_inputs c es s = (s1, Inr ())" "agent_expire c now ms s1 = (s2, Inr ())"
      "agent_turns c ts s2 = (s', Inr ())"
    by (auto simp: op_bind_eq_Inr agent_turn_def)
  with Cons.IH[of s2] expire_ok(1) inputs_ok[OF Cons.prems(1), of es s1] Cons.prems(2) turn show ?case by simp
qed simp

lemma turns_append: "agent_turns c (ts @ us) s = op_bind (agent_turns c ts) (\<lambda>_. agent_turns c us) s"
proof (induction ts arbitrary: s)
  case (Cons turn ts)
  obtain es now ms where turn: "turn = (es, now, ms)" by (cases turn)
  obtain s1 x where "agent_turn c es now ms s = (s1, x)" by fastforce
  with Cons turn show ?case by (cases x) (simp_all add: op_bind_def)
qed (simp add: op_bind_def)

lemma new_agent_ok:
  assumes "new_service_agent c disk (new_agent_state keys files faults writes) ota = Inr s"
    and "\<And>k e. hd_faults disk k = Some e \<Longrightarrow> \<not> is_value_error e"
  shows "agent_ok c {} s"
proof -
  from assms(1) have s: "sa_state s = new_agent_state keys files faults writes" "hr_disk (sa_receiver s) = disk"
    by (auto simp: new_service_agent_def rbind_eq_Inr new_receiver_def split: if_split_asm)
  have "node = blank_node" if "map_of (map (\<lambda>(n, _). (n, blank_node)) keys) n = Some node" for n node
    using map_of_SomeD[OF that] by auto
  moreover have "\<not> py_truthy (vget blank_node ''online'')" by (simp add: blank_node_def vget_def dict_get_def py_truthy_def)
  ultimately have "\<not> py_truthy (vget node ''online'')" if "map_of (as_nodes (sa_state s)) n = Some node" for n node
    using that s(1) by (auto simp: new_agent_state_def)
  with s(2) assms(2) show ?thesis unfolding agent_ok_def by blast
qed

text \<open>C36: A node is reported online only while it is heard. When the agent has run any number of turns without an exception, with any
  datagrams, requests and updates in any order, every node its status reports online has sent a datagram that the
  receiver authenticated as a heartbeat of this node; the report is of that heartbeat, its source and its
  time; and at the last expiry it was no older than the configured limit.\<close>

theorem agent_online_sound:
  assumes "new_service_agent c disk (new_agent_state (hk_keys (ag_heartbeat c)) files faults writes) ota = Inr s0"
    and "\<And>k e. hd_faults disk k = Some e \<Longrightarrow> \<not> is_value_error e"
    and "agent_turns c (ts @ [(es, now, ms)]) s0 = (s, Inr ())"
    and "node \<in> set (agent_nodes (hk_keys (ag_heartbeat c)) (sa_state s))" and "vget node ''online'' = VBool True"
  shows "\<exists>t unix_ms d src p n. AgentDatagram t unix_ms d src \<in> set (concat (map fst (ts @ [(es, now, ms)])))
    \<and> decode_and_authenticate (hk_codec (ag_heartbeat c)) (hk_keys (ag_heartbeat c)) d src = Inr p
    \<and> vget p ''node_id'' = VStr n \<and> vget node ''node_id'' = VStr n \<and> vget node ''heartbeat'' = VDict p
    \<and> vget node ''source_ip'' = VStr src \<and> vget node ''received_unix_ms'' = VInt unix_ms
    \<and> fle (fsub now t) (hk_stale_after (ag_heartbeat c))"
proof -
  let ?E = "set (concat (map fst (ts @ [(es, now, ms)])))" let ?keys = "hk_keys (ag_heartbeat c)"
  obtain s1 s2 where run: "agent_turns c ts s0 = (s1, Inr ())" "agent_inputs c es s1 = (s2, Inr ())" "agent_expire c now ms s2 = (s, Inr ())"
    using assms(3) by (auto simp: turns_append op_bind_eq_Inr agent_turn_def)
  have "agent_ok c {} s0" by (rule new_agent_ok[OF assms(1)]) (rule assms(2))
  then have "agent_ok c ?E s0" by (rule agent_ok_mono) simp
  then have "agent_ok c ?E s1" by (rule turns_ok[OF _ _ run(1)]) auto
  then have ok2: "agent_ok c ?E s2" by (rule inputs_ok[OF _ _ run(2)]) auto
  note ok = expire_ok[OF ok2 run(3)]
  obtain n where n: "node = normalise_node ?keys (sa_state s) n" using assms(4) by (auto simp: agent_nodes_def)
  let ?raw = "dict_get (as_nodes (sa_state s)) n []"
  have up: "py_truthy (vget ?raw ''online'')" using assms(5) by (simp add: n normalise_node_def Let_def vget_def[of "_ # _"] dict_get_def[of "_ # _"])
  then have "map_of (as_nodes (sa_state s)) n = Some ?raw"
    by (cases "map_of (as_nodes (sa_state s)) n") (simp_all add: dict_get_def vget_def py_truthy_def)
  with up ok(1) have "backed c ?E s n ?raw" by (simp add: agent_ok_def)
  then obtain t ms' d src p where b: "AgentDatagram t ms' d src \<in> ?E"
    "decode_and_authenticate (hk_codec (ag_heartbeat c)) ?keys d src = Inr p" "vget p ''node_id'' = VStr n" "?raw = online_node ms' src p"
    "map_of (hr_runtime (sa_receiver s)) n = Some \<lparr>nr_last_received = t, nr_online = True, nr_payload = Some p\<rparr>"
    unfolding backed_def by blast
  have fresh: "fle (fsub now t) (hk_stale_after (ag_heartbeat c))" using ok(2)[OF b(5)] by (simp add: is_stale_def)
  have fields: "vget node ''node_id'' = VStr n" "vget node ''heartbeat'' = VDict p" "vget node ''source_ip'' = VStr src"
      "vget node ''received_unix_ms'' = VInt ms'"
    unfolding n normalise_node_def Let_def b(4) by (simp_all add: vget_def dict_get_def online_node_def)
  show ?thesis
    by (intro exI[of _ t] exI[of _ ms'] exI[of _ d] exI[of _ src] exI[of _ p] exI[of _ n] conjI b(1,2,3) fields fresh)
qed

text \<open>One heartbeat, and an expiry twenty seconds later.\<close>

definition demo_agent :: agent_config where
  "demo_agent = \<lparr>ag_heartbeat = demo_hb_config, ag_ota = demo_ota_config, ag_bind_address = ''10.55.0.1'', ag_port = 45550,
     ag_socket = ''agent.sock'', ag_probe_interval = Fin 5, ag_started_unix_ms = 0\<rparr>"

definition demo_service_agent :: service_agent where
  "demo_service_agent = \<lparr>sa_receiver = demo_receiver, sa_state = new_agent_state (hk_keys demo_hb_config) [] (\<lambda>_. None) 0,
     sa_network = None, sa_last_probe = Fin 0, sa_ota = demo_coordinator\<rparr>"

definition demo_inputs :: "agent_input list" where
  "demo_inputs = [AgentDatagram (Fin 1) 1000 (encode_frame demo_hb_codec demo_body (nk_hmac_key demo_key)) ''10.55.0.21'']"

definition demo_turns :: "(agent_input list \<times> py_float \<times> int) list" where
  "demo_turns = [(demo_inputs, Fin 21, 2000)]"

lemma demo_recorded:
  "\<exists>st. record_heartbeat demo_hb_codec [(''node-1'', demo_key)] (online_node 1000 ''10.55.0.21'' demo_heartbeat)
     (new_agent_state [(''node-1'', demo_key)] [] (\<lambda>_. None) 0) = (st, Inr ())
   \<and> as_nodes st = [(''node-1'', online_node 1000 ''10.55.0.21'' demo_heartbeat)]"
  by (simp add: record_heartbeat_def online_node_def demo_heartbeat_def vget_def dict_get_def new_agent_state_def load_diagnostics_def
      DIAGNOSTIC_DEFAULTS_def blank_node_def op_bind_def on_diagnostics_def count_heartbeat_def count_gap_def count_sequence_def
      diag_add_def diag_int_def diag_set_def diag_max_def op_when_def py_int_def persist_diagnostics_def py_truthy_def Let_def is_int_def is_str_def int_of_def)

lemma demo_agent_run:
  "\<exists>s. agent_turns demo_agent demo_turns demo_service_agent = (s, Inr ())
     \<and> as_nodes (sa_state s) = [(''node-1'', online_node 1000 ''10.55.0.21'' demo_heartbeat)]"
proof -
  obtain st where st: "record_heartbeat demo_hb_codec [(''node-1'', demo_key)] (online_node 1000 ''10.55.0.21'' demo_heartbeat)
     (new_agent_state [(''node-1'', demo_key)] [] (\<lambda>_. None) 0) = (st, Inr ())"
    "as_nodes st = [(''node-1'', online_node 1000 ''10.55.0.21'' demo_heartbeat)]" using demo_recorded by blast
  let ?d = "encode_frame demo_hb_codec demo_body (nk_hmac_key demo_key)"
  have dec: "decode_and_authenticate demo_hb_codec [(''node-1'', demo_key)] ?d ''10.55.0.21'' = Inr demo_heartbeat"
    by (rule decode_encoded[OF demo_frame(1-6,10,7-9)])
  have names: "text_field demo_heartbeat ''node_id'' = ''node-1''" "text_field demo_heartbeat ''boot_id'' = ''00000000000000a1''"
    "int_field demo_heartbeat ''seq'' = 7"
    by (simp_all add: text_field_def int_field_def demo_heartbeat_def vget_def dict_get_def)
  have "to_float 20 = Fin 20" using round64_exact_pos[of 20 0] by (simp add: to_float_small)
  then have fresh: "fle (fsub (Fin 21) (Fin 1)) (Fin 35)" by simp
  obtain r where r: "process_datagram demo_hb_config (Fin 1) 1000 ?d ''10.55.0.21'' demo_receiver = (r, Inr (VDict (online_node 1000 ''10.55.0.21'' demo_heartbeat)))"
    "hr_runtime r = [(''node-1'', \<lparr>nr_last_received = Fin 1, nr_online = True, nr_payload = Some demo_heartbeat\<rparr>)]"
    by (simp add: process_datagram_def demo_hb_config_def dec accept_heartbeat_def names load_record_def demo_receiver_def demo_disk_def
        op_bind_def advance_record_def fresh_record_def write_replay_def write_node_def atomic_write_def Let_def fresh_runtime_def
        online_node_def)
  have "expire_stale_nodes demo_hb_config (Fin 21) 2000 r = (r, Inr [])"
    using fresh by (simp add: expire_stale_nodes_def r(2) is_stale_def demo_hb_config_def)
  with st r show ?thesis
    by (simp add: demo_turns_def demo_inputs_def agent_turn_def agent_input_step_def agent_datagram_def on_receiver_def on_agent_state_def
        demo_agent_def demo_service_agent_def agent_expire_def op_bind_def demo_hb_config_def)
qed

lemma agent_online_sound_witness:
  "\<exists>s node. agent_turns demo_agent demo_turns demo_service_agent = (s, Inr ())
     \<and> agent_nodes (hk_keys demo_hb_config) (sa_state s) = [node] \<and> vget node ''online'' = VBool True
     \<and> (\<exists>t unix_ms d src p n. AgentDatagram t unix_ms d src \<in> set (concat (map fst demo_turns))
       \<and> decode_and_authenticate demo_hb_codec (hk_keys demo_hb_config) d src = Inr p
       \<and> vget p ''node_id'' = VStr n \<and> vget node ''node_id'' = VStr n \<and> vget node ''heartbeat'' = VDict p
       \<and> vget node ''source_ip'' = VStr src \<and> vget node ''received_unix_ms'' = VInt unix_ms
       \<and> fle (fsub (Fin 21) t) (hk_stale_after demo_hb_config))"
proof -
  obtain s where s: "agent_turns demo_agent demo_turns demo_service_agent = (s, Inr ())"
     "as_nodes (sa_state s) = [(''node-1'', online_node 1000 ''10.55.0.21'' demo_heartbeat)]" using demo_agent_run by blast
  let ?node = "normalise_node (hk_keys demo_hb_config) (sa_state s) ''node-1''"
  have nodes: "agent_nodes (hk_keys demo_hb_config) (sa_state s) = [?node]" by (simp add: agent_nodes_def demo_hb_config_def)
  have up: "vget ?node ''online'' = VBool True"
    by (simp add: normalise_node_def s(2) vget_def dict_get_def online_node_def Let_def py_truthy_def)
  have new: "new_service_agent demo_agent demo_disk (new_agent_state (hk_keys (ag_heartbeat demo_agent)) [] (\<lambda>_. None) 0) demo_coordinator
      = Inr demo_service_agent"
    by (simp add: new_service_agent_def new_receiver_def demo_agent_def demo_service_agent_def demo_receiver_def demo_hb_config_def)
  have turns: "demo_turns = [] @ [(demo_inputs, Fin 21, 2000)]" by (simp add: demo_turns_def)
  have hb: "ag_heartbeat demo_agent = demo_hb_config" "hk_codec demo_hb_config = demo_hb_codec"
    by (simp_all add: demo_agent_def demo_hb_config_def)
  have "\<exists>t unix_ms d src p n. AgentDatagram t unix_ms d src \<in> set (concat (map fst ([] @ [(demo_inputs, Fin 21, 2000 :: int)])))
       \<and> decode_and_authenticate (hk_codec (ag_heartbeat demo_agent)) (hk_keys (ag_heartbeat demo_agent)) d src = Inr p
       \<and> vget p ''node_id'' = VStr n \<and> vget ?node ''node_id'' = VStr n \<and> vget ?node ''heartbeat'' = VDict p
       \<and> vget ?node ''source_ip'' = VStr src \<and> vget ?node ''received_unix_ms'' = VInt unix_ms
       \<and> fle (fsub (Fin 21) t) (hk_stale_after (ag_heartbeat demo_agent))"
    by (rule agent_online_sound[OF new _ s(1)[unfolded turns]]) (simp_all add: demo_disk_def hb(1) nodes up)
  with s(1) nodes up show ?thesis unfolding turns[symmetric] hb by blast
qed

subsection \<open>Counters of a boot session\<close>

text \<open>The heartbeats of one boot session, with whether the node was online, the time and the sequence number of each.\<close>

fun count_session :: "hb_codec \<Rightarrow> string \<Rightarrow> (bool \<times> int \<times> int) list \<Rightarrow> unit diag_op" where
  "count_session x b [] d = (d, Inr ())"
| "count_session x b ((up, t, q) # hs) d =
     op_bind (count_heartbeat x up (VInt t) (VStr b) (VInt q)) (\<lambda>_. count_session x b hs) d"

text \<open>The counters are numbers, \<open>accepted\<close>, \<open>missing\<close> and the last sequence number having given values.\<close>

definition session_counters :: "string \<Rightarrow> int \<Rightarrow> int \<Rightarrow> int \<Rightarrow> (string \<times> py_value) list \<Rightarrow> bool" where
  "session_counters b accepted missing q d = (vget d ''accepted_heartbeats'' = VInt accepted \<and> vget d ''missing_heartbeats_total'' = VInt missing
     \<and> vget d ''last_boot_id'' = VStr b \<and> vget d ''last_seq'' = VInt q
     \<and> list_all (\<lambda>k. \<exists>i. vget d k = VInt i) [''online_transitions'', ''sequence_gap_events'', ''max_sequence_gap'', ''max_receive_gap_ms''])"

lemma vget_update [simp]: "vget (AList.update k v d) k' = (if k' = k then v else vget d k')"
  by (simp add: vget_def dict_get_def update_conv')

lemma int_tests [simp]: "is_int (VInt i)" "\<not> is_int VNone" "\<not> is_int (VStr b)" "is_str (VStr b)" "int_of (VInt i) = i" "py_eq (VStr b) (VStr b)"
  by (simp_all add: is_int_def is_str_def int_of_def py_eq_def)

lemma diag_steps [simp]:
  "diag_set k v d = (AList.update k v d, Inr ())"
  "vget d k = VInt i \<Longrightarrow> diag_add x k n d = (AList.update k (VInt (i + n)) d, Inr ())"
  "vget d k = VInt i \<Longrightarrow> diag_max x k n d = (AList.update k (VInt (max i n)) d, Inr ())"
  by (simp_all add: diag_set_def diag_add_def diag_max_def diag_int_def py_int_def op_bind_def)

lemma count_gap_step:
  assumes "vget d ''max_receive_gap_ms'' = VInt g"
  shows "\<exists>d' g'. count_gap x (VInt t) d = (d', Inr ()) \<and> vget d' ''max_receive_gap_ms'' = VInt g'
    \<and> (\<forall>k. k \<notin> {''max_receive_gap_ms'', ''last_receive_gap_ms''} \<longrightarrow> vget d' k = vget d k)"
  using assms by (simp add: count_gap_def op_bind_def Let_def)

lemma count_sequence_step:
  assumes "vget d ''last_boot_id'' = VStr b" "vget d ''last_seq'' = VInt q" "vget d ''missing_heartbeats_total'' = VInt m"
    and "vget d ''sequence_gap_events'' = VInt e" "vget d ''max_sequence_gap'' = VInt g" and "q < q'"
  shows "\<exists>d' e' g'. count_sequence x (VStr b) (VInt q') d = (d', Inr ()) \<and> vget d' ''last_boot_id'' = VStr b \<and> vget d' ''last_seq'' = VInt q'
    \<and> vget d' ''missing_heartbeats_total'' = VInt (m + (q' - q - 1)) \<and> vget d' ''sequence_gap_events'' = VInt e' \<and> vget d' ''max_sequence_gap'' = VInt g'
    \<and> (\<forall>k \<in> {''accepted_heartbeats'', ''online_transitions'', ''max_receive_gap_ms''}. vget d' k = vget d k)"
  using assms by (simp add: count_sequence_def op_bind_def Let_def op_when_def max_def)

lemma count_heartbeat_step:
  assumes "session_counters b a m q d" and "q < q'"
  shows "\<exists>d'. count_heartbeat x up (VInt t) (VStr b) (VInt q') d = (d', Inr ()) \<and> session_counters b (a + 1) (m + (q' - q - 1)) q' d'"
proof -
  from assms(1) obtain tr e g r where c: "vget d ''accepted_heartbeats'' = VInt a" "vget d ''missing_heartbeats_total'' = VInt m"
     "vget d ''last_boot_id'' = VStr b" "vget d ''last_seq'' = VInt q" "vget d ''online_transitions'' = VInt tr"
     "vget d ''sequence_gap_events'' = VInt e" "vget d ''max_sequence_gap'' = VInt g" "vget d ''max_receive_gap_ms'' = VInt r"
    by (auto simp: session_counters_def)
  let ?d1 = "AList.update ''accepted_heartbeats'' (VInt (a + 1)) d"
  let ?d2 = "if up then ?d1 else AList.update ''online_transitions'' (VInt (tr + 1)) ?d1"
  have "vget ?d2 ''max_receive_gap_ms'' = VInt r" using c by simp
  from count_gap_step[OF this, of x t] obtain d3 r' where d3: "count_gap x (VInt t) ?d2 = (d3, Inr ())" "vget d3 ''max_receive_gap_ms'' = VInt r'"
    "\<And>k. k \<notin> {''max_receive_gap_ms'', ''last_receive_gap_ms''} \<Longrightarrow> vget d3 k = vget ?d2 k" by blast
  let ?d4 = "AList.update ''last_received_unix_ms'' (VInt t) d3"
  have "vget ?d4 ''last_boot_id'' = VStr b" "vget ?d4 ''last_seq'' = VInt q" "vget ?d4 ''missing_heartbeats_total'' = VInt m"
    "vget ?d4 ''sequence_gap_events'' = VInt e" "vget ?d4 ''max_sequence_gap'' = VInt g" using c d3(3) by simp_all
  from count_sequence_step[OF this assms(2), of x] obtain d5 e' g' where d5: "count_sequence x (VStr b) (VInt q') ?d4 = (d5, Inr ())"
    "vget d5 ''last_boot_id'' = VStr b" "vget d5 ''last_seq'' = VInt q'" "vget d5 ''missing_heartbeats_total'' = VInt (m + (q' - q - 1))"
    "vget d5 ''sequence_gap_events'' = VInt e'" "vget d5 ''max_sequence_gap'' = VInt g'"
    "\<And>k. k \<in> {''accepted_heartbeats'', ''online_transitions'', ''max_receive_gap_ms''} \<Longrightarrow> vget d5 k = vget ?d4 k" by blast
  have run: "count_heartbeat x up (VInt t) (VStr b) (VInt q') d = (d5, Inr ())"
    using c(1,5) d3(1) d5(1) by (cases up) (simp_all add: count_heartbeat_def op_bind_def op_when_def)
  have "vget d5 ''accepted_heartbeats'' = VInt (a + 1)" "vget d5 ''max_receive_gap_ms'' = VInt r'"
    "vget d5 ''online_transitions'' = VInt (if up then tr else tr + 1)"
    using d5(7) d3(2,3) c(1,5) by simp_all
  with d5 run show ?thesis by (auto simp: session_counters_def)
qed

lemma count_session_total: "session_counters b a m q d \<Longrightarrow> sorted_wrt (<) (q # map (snd \<circ> snd) hs) \<Longrightarrow>
    \<exists>d'. count_session x b hs d = (d', Inr ())
      \<and> session_counters b (a + int (length hs)) (m + (last (q # map (snd \<circ> snd) hs) - q - int (length hs))) (last (q # map (snd \<circ> snd) hs)) d'"
proof (induction hs arbitrary: a m q d)
  case (Cons h hs)
  obtain up t q' where h: "h = (up, t, q')" by (cases h)
  from Cons.prems(2) h have "q < q'" "sorted_wrt (<) (q' # map (snd \<circ> snd) hs)" by (simp_all add: comp_def)
  from count_heartbeat_step[OF Cons.prems(1) this(1), of x up t] obtain d1 where d1:
    "count_heartbeat x up (VInt t) (VStr b) (VInt q') d = (d1, Inr ())" "session_counters b (a + 1) (m + (q' - q - 1)) q' d1" by blast
  from Cons.IH[OF d1(2) \<open>sorted_wrt (<) (q' # map (snd \<circ> snd) hs)\<close>] d1(1) h show ?case
    by (simp add: op_bind_def algebra_simps)
qed simp

text \<open>C37: Lost heartbeats are counted exactly. Starting from counters that are numbers, when heartbeats of one boot session arrive
  with increasing sequence numbers, as the receiver lets them through, none fails to be counted, each adds one to the
  accepted ones, and the accepted and the missing ones together grow by exactly the distance of the sequence numbers.\<close>

theorem missing_heartbeats_exact:
  assumes "session_counters b accepted missing q d" and "sorted_wrt (<) (q # map (snd \<circ> snd) hs)"
  shows "\<exists>d' accepted' missing' q'. count_session x b hs d = (d', Inr ())
    \<and> vget d' ''accepted_heartbeats'' = VInt accepted' \<and> vget d' ''missing_heartbeats_total'' = VInt missing' \<and> vget d' ''last_seq'' = VInt q'
    \<and> accepted' = accepted + int (length hs) \<and> q' = last (q # map (snd \<circ> snd) hs) \<and> missing \<le> missing'
    \<and> (accepted' - accepted) + (missing' - missing) = q' - q"
proof -
  have "int (length xs) \<le> last (q # xs) - q" if "sorted_wrt (<) (q # xs)" for xs and q :: int
    using that by (induction xs arbitrary: q) fastforce+
  with assms(2) have "int (length hs) \<le> last (q # map (snd \<circ> snd) hs) - q" by (metis length_map)
  with count_session_total[OF assms, of x] show ?thesis by (auto simp: session_counters_def)
qed

text \<open>Sequence numbers 8, 9 and 15 after 7: five are missing.\<close>

definition demo_counters :: "(string \<times> py_value) list" where
  "demo_counters = AList.update ''last_boot_id'' (VStr ''00000000000000a1'') (AList.update ''last_seq'' (VInt 7) DIAGNOSTIC_DEFAULTS)"

lemma missing_heartbeats_exact_witness:
  "\<exists>d'. count_session demo_hb_codec ''00000000000000a1'' [(True, 1000, 8), (True, 2000, 9), (True, 8000, 15)] demo_counters = (d', Inr ())
     \<and> vget d' ''accepted_heartbeats'' = VInt 3 \<and> vget d' ''missing_heartbeats_total'' = VInt 5"
proof -
  have "session_counters ''00000000000000a1'' 0 0 7 demo_counters"
    by (simp add: session_counters_def demo_counters_def) (simp add: DIAGNOSTIC_DEFAULTS_def vget_def dict_get_def)
  from missing_heartbeats_exact[OF this, of "[(True, 1000, 8), (True, 2000, 9), (True, 8000, 15)]" demo_hb_codec]
  show ?thesis by auto
qed

subsection \<open>Requests that end the agent\<close>

text \<open>A command that is a list or an object is looked up in a set, which raises a \<open>TypeError\<close> that no handler catches.\<close>

lemma unhashable_command_ends_agent:
  assumes "hc_loads (hk_codec (ag_heartbeat c)) raw = Some (VDict [(''command'', VList [])])"
    and "read_agent_request chunks [] = Inr raw"
  shows "agent_turns c (([AgentClient i chunks], now, ms) # ts) s = (s, Inl (TypeError ''unhashable type''))"
  using assms by (simp add: agent_turn_def agent_input_step_def serve_agent_client_def op_bind_def agent_request_def
      vget_def dict_get_def is_hashable_def caught_by_client_def del: read_agent_request.simps)

end
