(* ===== verification/Rollup.thy ===== *)
theory Rollup
  imports PyValue "HOL-Library.List_Lexorder" "HOL-Library.Char_ord"
begin

section \<open>Summaries of measurements\<close>

text \<open>
  Models \<open>telemetry/rollup.py\<close>: a state of the core is flattened into values with a path, and the samples of a bucket of
  time into counts and bounds per path. Instants are microseconds since the epoch; the code formats all of them in UTC,
  where text and time have the same order.
\<close>

subsection \<open>Paths\<close>

type_synonym flat = "(string \<times> py_value) list"

definition path_join :: "string \<Rightarrow> string \<Rightarrow> string" where
  "path_join prefix key = (if prefix = [] then key else prefix @ ''.'' @ key)"

definition index_path :: "string \<Rightarrow> int \<Rightarrow> string" where
  "index_path prefix i = prefix @ ''['' @ show_int i @ '']''"

definition ends_with :: "string \<Rightarrow> string \<Rightarrow> bool" where
  "ends_with suffix s = (length suffix \<le> length s \<and> drop (length s - length suffix) s = suffix)"

text \<open>The items of a list with the addresses they carry, if every item has one of its own.\<close>

definition item_address :: "py_value \<Rightarrow> int option" where
  "item_address v = (case v of VDict d \<Rightarrow> (case vget d ''slave_address'' of VInt a \<Rightarrow> Some a | _ \<Rightarrow> None) | _ \<Rightarrow> None)"

definition address_items :: "py_value list \<Rightarrow> (int \<times> py_value) list" where
  "address_items vs = (let items = map (\<lambda>v. (the (item_address v), v)) vs in
     if list_all (\<lambda>v. item_address v \<noteq> None) vs \<and> distinct (map fst items) then sort_key fst items else [])"

lemma size_dict_item: "(k, v) \<in> set d \<Longrightarrow> size v < Suc (size_list (size_prod (\<lambda>x. 0) size) d)"
  by (induction d) auto

lemma size_list_item: "v \<in> set vs \<Longrightarrow> size v < Suc (size_list size vs)"
  by (induction vs) auto

lemma address_items_mem: "(a, v) \<in> set (address_items vs) \<Longrightarrow> v \<in> set vs"
  by (auto simp: address_items_def Let_def split: if_split_asm)

lemma enumerate_item: "(i, v) \<in> set (enumerate n vs) \<Longrightarrow> v \<in> set vs"
  by (metis in_set_zip enumerate_eq_zip snd_conv nth_mem)

text \<open>\<open>_flatten\<close>\<close>

function flatten :: "py_value \<Rightarrow> string \<Rightarrow> flat \<Rightarrow> flat" where
  "flatten (VDict d) prefix out = fold (\<lambda>(k, v) acc. flatten v (path_join prefix k) acc) (sort_key fst d) out"
| "flatten (VList vs) prefix out =
     (if ends_with ''active_alarms'' prefix then AList.update (path_join prefix ''count'') (VInt (int (length vs))) out
      else if address_items vs \<noteq> []
      then fold (\<lambda>(a, v) acc. flatten v (index_path prefix a) acc) (address_items vs) out
      else fold (\<lambda>(i, v) acc. flatten v (index_path prefix (int i)) acc) (enumerate 0 vs) out)"
| "flatten VNone prefix out = out"
| "flatten (VBool b) prefix out = (if prefix = [] then out else AList.update prefix (VBool b) out)"
| "flatten (VInt i) prefix out = (if prefix = [] then out else AList.update prefix (VInt i) out)"
| "flatten (VFloat f) prefix out = (if prefix = [] then out else AList.update prefix (VFloat f) out)"
| "flatten (VStr s) prefix out = (if prefix = [] then out else AList.update prefix (VStr s) out)"
  by pat_completeness auto
termination
  by (relation "measure (\<lambda>(v, _, _). size v)")
    (auto simp: size_dict_item size_list_item dest!: address_items_mem enumerate_item)

subsection \<open>Signals and states\<close>

record rollup_sample =
  rl_captured_at :: int
  rl_metrics :: "(string \<times> py_value) list"

record number_signal =
  ns_count :: nat
  ns_sum :: py_float
  ns_min :: py_float
  ns_max :: py_float
  ns_last :: py_float

text \<open>The state of a text has no \<open>true_count\<close>.\<close>

record state_signal =
  ss_count :: nat
  ss_last :: py_value
  ss_changes :: nat
  ss_true_count :: "nat option"

record accumulated =
  ac_numeric :: "(string \<times> number_signal) list"
  ac_states :: "(string \<times> state_signal) list"

definition fmax :: "py_float \<Rightarrow> py_float \<Rightarrow> py_float" where
  "fmax a b = (if flt a b then b else a)"

definition add_number :: "string \<Rightarrow> py_float \<Rightarrow> accumulated \<Rightarrow> accumulated" where
  "add_number path x acc =
     (let signal = dict_get (ac_numeric acc) path \<lparr>ns_count = 0, ns_sum = Fin 0, ns_min = x, ns_max = x, ns_last = x\<rparr> in
      acc\<lparr>ac_numeric := AList.update path \<lparr>ns_count = Suc (ns_count signal), ns_sum = fadd (ns_sum signal) x,
        ns_min = fmin (ns_min signal) x, ns_max = fmax (ns_max signal) x, ns_last = x\<rparr> (ac_numeric acc)\<rparr>)"

definition count_state :: "py_value \<Rightarrow> state_signal \<Rightarrow> state_signal" where
  "count_state v st = st\<lparr>ss_changes := (if ss_count st \<noteq> 0 \<and> ss_last st \<noteq> v then Suc (ss_changes st) else ss_changes st),
     ss_count := Suc (ss_count st), ss_last := v\<rparr>"

definition add_state :: "string \<Rightarrow> py_value \<Rightarrow> accumulated \<Rightarrow> accumulated result" where
  "add_state path v acc =
     (let st = count_state v (dict_get (ac_states acc) path
        \<lparr>ss_count = 0, ss_last = v, ss_changes = 0, ss_true_count = (if is_bool v then Some 0 else None)\<rparr>) in
      rbind (if v = VBool True
         then (case ss_true_count st of None \<Rightarrow> Inl (KeyError ''true_count'') | Some n \<Rightarrow> Inr (st\<lparr>ss_true_count := Some (Suc n)\<rparr>))
         else Inr st)
        (\<lambda>st'. Inr (acc\<lparr>ac_states := AList.update path st' (ac_states acc)\<rparr>)))"

text \<open>One value of one sample; an integer that no float can hold raises.\<close>

definition add_value :: "accumulated \<Rightarrow> string \<times> py_value \<Rightarrow> accumulated result" where
  "add_value acc = (\<lambda>(path, v). case v of
     VBool _ \<Rightarrow> add_state path v acc
   | VInt i \<Rightarrow> (case to_float (of_int i) of Fin x \<Rightarrow> Inr (add_number path (Fin x) acc)
       | _ \<Rightarrow> Inl (OtherException ''int too large to convert to float''))
   | VFloat f \<Rightarrow> Inr (if is_finite f then add_number path f acc else acc)
   | VStr _ \<Rightarrow> add_state path v acc
   | _ \<Rightarrow> Inr acc)"

definition flat_sample :: "rollup_sample \<Rightarrow> flat" where
  "flat_sample s = flatten (VDict (rl_metrics s)) [] []"

definition add_sample :: "accumulated \<Rightarrow> rollup_sample \<Rightarrow> accumulated result" where
  "add_sample acc s = fold_result add_value acc (flat_sample s)"

record signal_summary =
  sg_count :: nat
  sg_min :: py_float
  sg_max :: py_float
  sg_avg :: py_float
  sg_last :: py_float

record rollup_summary =
  rs_sample_count :: nat
  rs_first_captured_at :: int
  rs_last_captured_at :: int
  rs_signals :: "(string \<times> signal_summary) list"
  rs_states :: "(string \<times> state_signal) list"

definition signal_summary_of :: "number_signal \<Rightarrow> signal_summary" where
  "signal_summary_of g = \<lparr>sg_count = ns_count g, sg_min = ns_min g, sg_max = ns_max g,
     sg_avg = fdiv_pos (ns_sum g) (of_nat (ns_count g)), sg_last = ns_last g\<rparr>"

definition summarize_metrics :: "rollup_sample list \<Rightarrow> rollup_summary result" where
  "summarize_metrics samples =
     (if samples = [] then Inl (ValueError ''rollup requires at least one sample'')
      else rbind (fold_result add_sample \<lparr>ac_numeric = [], ac_states = []\<rparr> samples) (\<lambda>acc.
        Inr \<lparr>rs_sample_count = length samples, rs_first_captured_at = rl_captured_at (hd samples),
          rs_last_captured_at = rl_captured_at (last samples),
          rs_signals = map (\<lambda>(path, g). (path, signal_summary_of g)) (filter (\<lambda>(_, g). ns_count g \<noteq> 0) (sort_key fst (ac_numeric acc))),
          rs_states = sort_key fst (ac_states acc)\<rparr>))"

subsection \<open>Buckets\<close>

definition MICROSECONDS :: int where "MICROSECONDS = 1000000"

text \<open>\<open>int(utc.timestamp())\<close>, which truncates towards zero.\<close>

definition epoch_seconds :: "int \<Rightarrow> int" where
  "epoch_seconds t = (if 0 \<le> t then t div MICROSECONDS else - ((- t) div MICROSECONDS))"

definition floor_utc :: "int \<Rightarrow> int \<Rightarrow> int result" where
  "floor_utc t bucket_seconds =
     (if bucket_seconds < 1 then Inl (ValueError ''bucket_seconds must be positive'')
      else Inr ((epoch_seconds t - epoch_seconds t mod bucket_seconds) * MICROSECONDS))"

end
