(* ===== verification/Telemetry.thy ===== *)
theory Telemetry
  imports Rollup
begin

section \<open>The telemetry agent\<close>

text \<open>
  Models \<open>telemetry/store.py\<close>, \<open>telemetry/long_range.py\<close>, \<open>telemetry/http_client.py\<close>, \<open>telemetry/core_client.py\<close> and
  \<open>telemetry/agent.py\<close>: samples of the core's state are kept in a database that is also the queue of what has to be delivered, are
  summarised per bucket of time, and are deleted when they are delivered, summarised and old. A table is the list of its rows;
  every method is a transaction, which as a whole succeeds or raises and leaves the database as it was. Clocks, new
  identifiers, the JSON codec and the answers of the core and of the sink are inputs.
\<close>

subsection \<open>The database\<close>

record sample_record =
  sr_sequence :: int
  sr_sample_id :: string
  sr_captured_at :: int
  sr_metrics :: "(string \<times> py_value) list"

record telemetry_row =
  tr_sample :: sample_record
  tr_batch_id :: "string option"
  tr_batch_created_at :: "int option"
  tr_synced_at :: "int option"
  tr_attempts :: int
  tr_last_attempt_at :: "int option"
  tr_last_error :: "string option"

record rollup_row =
  rr_bucket_start :: int
  rr_bucket_end :: int
  rr_sample_count :: nat
  rr_summary :: rollup_summary
  rr_created_at :: int

text \<open>Rows in the order of their sequence numbers, which \<open>AUTOINCREMENT\<close> never gives twice; rollups and progress per resolution.\<close>

record telemetry_db =
  td_rows :: "telemetry_row list"
  td_last_sequence :: int
  td_rollups :: "(string \<times> rollup_row list) list"
  td_processed :: "(string \<times> int) list"

record telemetry_store =
  tl_db :: telemetry_db
  tl_faults :: "nat \<Rightarrow> string option"
  tl_transactions :: nat

definition empty_db :: telemetry_db where
  "empty_db = \<lparr>td_rows = [], td_last_sequence = 0, td_rollups = [], td_processed = []\<rparr>"

text \<open>\<open>_connect\<close>: commit, or roll back and raise.\<close>

definition transaction :: "(telemetry_db \<Rightarrow> (telemetry_db \<times> 'a) result) \<Rightarrow> (telemetry_store, 'a) op" where
  "transaction m s = (let s1 = s\<lparr>tl_transactions := Suc (tl_transactions s)\<rparr> in
     case tl_faults s (tl_transactions s) of
       Some e \<Rightarrow> (s1, Inl (OtherException e))
     | None \<Rightarrow> (case m (tl_db s) of Inl e \<Rightarrow> (s1, Inl e) | Inr (db, x) \<Rightarrow> (s1\<lparr>tl_db := db\<rparr>, Inr x)))"

subsection \<open>Samples and batches\<close>

text \<open>The metrics are kept as they were read; the column holds their JSON text, which loses only the order of the keys.\<close>

definition append_snapshot :: "string \<Rightarrow> int \<Rightarrow> (string \<times> py_value) list \<Rightarrow> (telemetry_store, sample_record) op" where
  "append_snapshot sample_id captured_at metrics = transaction (\<lambda>db.
     if sample_id \<in> set (map (sr_sample_id \<circ> tr_sample) (td_rows db))
     then Inl (OtherException ''UNIQUE constraint failed: telemetry_samples.sample_id'')
     else let sample = \<lparr>sr_sequence = td_last_sequence db + 1, sr_sample_id = sample_id, sr_captured_at = captured_at, sr_metrics = metrics\<rparr> in
       Inr (db\<lparr>td_rows := td_rows db @ [\<lparr>tr_sample = sample, tr_batch_id = None, tr_batch_created_at = None, tr_synced_at = None,
           tr_attempts = 0, tr_last_attempt_at = None, tr_last_error = None\<rparr>],
         td_last_sequence := td_last_sequence db + 1\<rparr>, sample))"

record telemetry_batch =
  tb_batch_id :: string
  tb_created_at :: "int option"
  tb_samples :: "sample_record list"

definition in_batch :: "string \<Rightarrow> telemetry_row \<Rightarrow> bool" where
  "in_batch batch_id row = (tr_synced_at row = None \<and> tr_batch_id row = Some batch_id)"

definition update_batch :: "string \<Rightarrow> (telemetry_row \<Rightarrow> telemetry_row) \<Rightarrow> telemetry_db \<Rightarrow> telemetry_db" where
  "update_batch batch_id f db = db\<lparr>td_rows := map (\<lambda>row. if in_batch batch_id row then f row else row) (td_rows db)\<rparr>"

definition batch_count :: "string \<Rightarrow> telemetry_db \<Rightarrow> nat" where
  "batch_count batch_id db = length (filter (in_batch batch_id) (td_rows db))"

definition open_row :: "telemetry_row \<Rightarrow> bool" where
  "open_row row = (tr_synced_at row = None \<and> tr_batch_id row \<noteq> None)"

definition pending_row :: "telemetry_row \<Rightarrow> bool" where
  "pending_row row = (tr_synced_at row = None \<and> tr_batch_id row = None)"

definition batch_of :: "string \<Rightarrow> int option \<Rightarrow> telemetry_db \<Rightarrow> telemetry_batch" where
  "batch_of batch_id created_at db = \<lparr>tb_batch_id = batch_id, tb_created_at = created_at,
     tb_samples = map tr_sample (filter (in_batch batch_id) (td_rows db))\<rparr>"

text \<open>\<open>reserve_batch\<close>: the open batch again, or a new one; \<open>new_id\<close> is what \<open>uuid4\<close> returns.\<close>

definition reserve_batch :: "string \<Rightarrow> int \<Rightarrow> int \<Rightarrow> (telemetry_store, telemetry_batch option) op" where
  "reserve_batch new_id now limit =
     (if limit < 1 then op_raise (ValueError ''Batch limit must be at least 1'')
      else transaction (\<lambda>db. case find open_row (td_rows db) of
        Some row \<Rightarrow> Inr (db, Some (batch_of (the (tr_batch_id row)) (tr_batch_created_at row) db))
      | None \<Rightarrow> (let sequences = map (sr_sequence \<circ> tr_sample) (take (nat limit) (filter pending_row (td_rows db))) in
          if sequences = [] then Inr (db, None)
          else let db' = db\<lparr>td_rows := map (\<lambda>row. if sr_sequence (tr_sample row) \<in> set sequences
                 then row\<lparr>tr_batch_id := Some new_id, tr_batch_created_at := Some now\<rparr> else row) (td_rows db)\<rparr>
            in Inr (db', Some (batch_of new_id (Some now) db')))))"

definition record_attempt :: "int \<Rightarrow> string \<Rightarrow> string option \<Rightarrow> (telemetry_store, unit) op" where
  "record_attempt now batch_id error = transaction (\<lambda>db. Inr (update_batch batch_id
     (\<lambda>row. row\<lparr>tr_attempts := tr_attempts row + 1, tr_last_attempt_at := Some now, tr_last_error := error\<rparr>) db, ()))"

definition release_batch :: "string \<Rightarrow> (telemetry_store, nat) op" where
  "release_batch batch_id = transaction (\<lambda>db. Inr (update_batch batch_id
     (\<lambda>row. row\<lparr>tr_batch_id := None, tr_batch_created_at := None\<rparr>) db, batch_count batch_id db))"

definition mark_batch_synced :: "int \<Rightarrow> string \<Rightarrow> (telemetry_store, nat) op" where
  "mark_batch_synced now batch_id = transaction (\<lambda>db. Inr (update_batch batch_id
     (\<lambda>row. row\<lparr>tr_synced_at := Some now, tr_last_error := None\<rparr>) db, batch_count batch_id db))"

subsection \<open>Rollups\<close>

type_synonym resolutions = "(string \<times> int) list"

definition ROLLUPS :: resolutions where "ROLLUPS = [(''1m'', 60), (''15m'', 15 * 60)]"

definition LONG_RANGE_ROLLUPS :: resolutions where "LONG_RANGE_ROLLUPS = ROLLUPS @ [(''1h'', 60 * 60), (''1d'', 24 * 60 * 60)]"

definition rows_between :: "int \<Rightarrow> int \<Rightarrow> telemetry_db \<Rightarrow> telemetry_row list" where
  "rows_between from until db = filter (\<lambda>row. from \<le> sr_captured_at (tr_sample row) \<and> sr_captured_at (tr_sample row) < until) (td_rows db)"

definition rollup_rows :: "string \<Rightarrow> telemetry_db \<Rightarrow> rollup_row list" where
  "rollup_rows resolution db = dict_get (td_rollups db) resolution []"

definition sample_of_row :: "telemetry_row \<Rightarrow> rollup_sample" where
  "sample_of_row row = \<lparr>rl_captured_at = sr_captured_at (tr_sample row), rl_metrics = sr_metrics (tr_sample row)\<rparr>"

text \<open>One bucket; \<open>INSERT OR IGNORE\<close> keeps a row that is there. The rows of a run have its time as their date of creation, which the code
  reads from the clock again for each row.\<close>

definition build_bucket :: "string \<Rightarrow> int \<Rightarrow> int \<Rightarrow> int \<Rightarrow> telemetry_db \<Rightarrow> (telemetry_db \<times> nat) result" where
  "build_bucket resolution from until now db = (let rows = rows_between from until db in
     if rows = [] then Inr (db, 0)
     else rbind (summarize_metrics (map sample_of_row rows)) (\<lambda>summary.
       if from \<in> set (map rr_bucket_start (rollup_rows resolution db)) then Inr (db, 0)
       else Inr (db\<lparr>td_rollups := AList.update resolution (rollup_rows resolution db
         @ [\<lparr>rr_bucket_start = from, rr_bucket_end = until, rr_sample_count = length rows, rr_summary = summary, rr_created_at = now\<rparr>])
           (td_rollups db)\<rparr>, 1)))"

fun build_buckets :: "string \<Rightarrow> int \<Rightarrow> int \<Rightarrow> int \<Rightarrow> nat \<Rightarrow> int \<Rightarrow> telemetry_db \<Rightarrow> (telemetry_db \<times> int \<times> nat) result" where
  "build_buckets resolution width closed_until now 0 cursor db = Inr (db, cursor, 0)"
| "build_buckets resolution width closed_until now (Suc n) cursor db =
     (if \<not> cursor < closed_until then Inr (db, cursor, 0)
      else rbind (build_bucket resolution cursor (cursor + width) now db) (\<lambda>(db1, created).
        rbind (build_buckets resolution width closed_until now n (cursor + width) db1) (\<lambda>(db2, reached, more).
          Inr (db2, reached, created + more))))"

text \<open>Where a resolution goes on: where it stopped, or at the earliest sample.\<close>

definition start_cursor :: "string \<Rightarrow> int \<Rightarrow> telemetry_db \<Rightarrow> int option result" where
  "start_cursor resolution seconds db = (case map_of (td_processed db) resolution of
     Some cursor \<Rightarrow> Inr (Some cursor)
   | None \<Rightarrow> (if td_rows db = [] then Inr None
       else rbind (floor_utc (Min (set (map (sr_captured_at \<circ> tr_sample) (td_rows db)))) seconds) (\<lambda>c. Inr (Some c))))"

text \<open>\<open>_build_resolution\<close>\<close>

definition build_resolution :: "string \<Rightarrow> int \<Rightarrow> int \<Rightarrow> int \<Rightarrow> telemetry_db \<Rightarrow> (telemetry_db \<times> nat) result" where
  "build_resolution resolution seconds now max_buckets db = rbind (start_cursor resolution seconds db) (\<lambda>start. case start of
     None \<Rightarrow> Inr (db, 0)
   | Some cursor \<Rightarrow> rbind (floor_utc now seconds) (\<lambda>closed_until.
       rbind (build_buckets resolution (seconds * MICROSECONDS) closed_until now (nat max_buckets) cursor db) (\<lambda>(db', reached, created).
         Inr (if cursor < closed_until \<and> 0 < max_buckets
              then db'\<lparr>td_processed := AList.update resolution reached (td_processed db')\<rparr> else db', created))))"

fun build_all :: "resolutions \<Rightarrow> int \<Rightarrow> int \<Rightarrow> telemetry_db \<Rightarrow> (telemetry_db \<times> (string \<times> nat) list) result" where
  "build_all [] now max_buckets db = Inr (db, [])"
| "build_all ((resolution, seconds) # rest) now max_buckets db =
     rbind (build_resolution resolution seconds now max_buckets db) (\<lambda>(db1, created).
       rbind (build_all rest now max_buckets db1) (\<lambda>(db2, results). Inr (db2, (resolution, created) # results)))"

definition build_rollups :: "resolutions \<Rightarrow> int \<Rightarrow> int \<Rightarrow> (telemetry_store, (string \<times> nat) list) op" where
  "build_rollups resolutions now max_buckets =
     (if max_buckets < 1 then op_raise (ValueError ''max_rollup_buckets_per_run must be at least 1'')
      else transaction (build_all resolutions now max_buckets))"

subsection \<open>Retention\<close>

definition DAY :: int where "DAY = 24 * 60 * 60 * MICROSECONDS"

definition QUARTER_RETENTION_DAYS :: int where "QUARTER_RETENTION_DAYS = 1095"
definition HOURLY_RETENTION_DAYS :: int where "HOURLY_RETENTION_DAYS = 1825"
definition DAILY_RETENTION_DAYS :: int where "DAILY_RETENTION_DAYS = 3650"

definition positive_days :: "(string \<times> int) list \<Rightarrow> unit result" where
  "positive_days values = (case find (\<lambda>(_, v). v < 1) values of
     Some (name, _) \<Rightarrow> Inl (ValueError (name @ '' must be at least 1'')) | None \<Rightarrow> Inr ())"

definition delete_synced_before :: "int \<Rightarrow> telemetry_db \<Rightarrow> telemetry_db \<times> nat" where
  "delete_synced_before limit db = (let gone = (\<lambda>row. tr_synced_at row \<noteq> None \<and> sr_captured_at (tr_sample row) < limit) in
     (db\<lparr>td_rows := filter (\<lambda>row. \<not> gone row) (td_rows db)\<rparr>, length (filter gone (td_rows db))))"

text \<open>Raw rows go only up to where every resolution has come.\<close>

definition delete_raw :: "resolutions \<Rightarrow> int \<Rightarrow> telemetry_db \<Rightarrow> telemetry_db \<times> nat" where
  "delete_raw resolutions raw_cutoff db =
     (if list_all (\<lambda>(r, _). map_of (td_processed db) r \<noteq> None) resolutions
      then delete_synced_before (min raw_cutoff (Min (set (map (\<lambda>(r, _). the (map_of (td_processed db) r)) resolutions)))) db
      else (db, 0))"

definition delete_rollup_rows :: "string \<Rightarrow> int \<Rightarrow> telemetry_db \<Rightarrow> telemetry_db \<times> nat" where
  "delete_rollup_rows resolution cutoff db = (let rows = rollup_rows resolution db in
     (db\<lparr>td_rollups := AList.update resolution (filter (\<lambda>r. \<not> rr_bucket_start r < cutoff) rows) (td_rollups db)\<rparr>,
      length (filter (\<lambda>r. rr_bucket_start r < cutoff) rows)))"

fun delete_all_rollups :: "(string \<times> int) list \<Rightarrow> telemetry_db \<Rightarrow> telemetry_db \<times> (string \<times> nat) list" where
  "delete_all_rollups [] db = (db, [])"
| "delete_all_rollups ((resolution, cutoff) # rest) db =
     (let (db1, n) = delete_rollup_rows resolution cutoff db; (db2, ns) = delete_all_rollups rest db1 in (db2, (resolution, n) # ns))"

definition prune :: "resolutions \<Rightarrow> int \<Rightarrow> (string \<times> int) list \<Rightarrow> telemetry_db \<Rightarrow> (telemetry_db \<times> (string \<times> nat) list) result" where
  "prune resolutions raw_cutoff cutoffs db =
     (let (db1, n) = delete_raw resolutions raw_cutoff db; (db2, ns) = delete_all_rollups cutoffs db1 in Inr (db2, (''raw'', n) # ns))"

record retention =
  rt_raw_days :: int
  rt_minute_days :: int
  rt_quarter_days :: int

text \<open>\<open>TelemetryStore.prune_history\<close>\<close>

definition prune_history :: "retention \<Rightarrow> int \<Rightarrow> (telemetry_store, (string \<times> nat) list) op" where
  "prune_history rt now = op_bind (op_lift (positive_days [(''raw_retention_days'', rt_raw_days rt),
       (''minute_retention_days'', rt_minute_days rt), (''quarter_retention_days'', rt_quarter_days rt)])) (\<lambda>_.
     transaction (prune ROLLUPS (now - rt_raw_days rt * DAY)
       [(''1m'', now - rt_minute_days rt * DAY), (''15m'', now - rt_quarter_days rt * DAY)]))"

text \<open>\<open>LongRangeTelemetryStore.prune_history\<close>\<close>

definition prune_long_range :: "retention \<Rightarrow> int \<Rightarrow> (telemetry_store, (string \<times> nat) list) op" where
  "prune_long_range rt now = (let quarter = max (rt_quarter_days rt) QUARTER_RETENTION_DAYS in
     op_bind (op_lift (positive_days [(''raw_retention_days'', rt_raw_days rt), (''minute_retention_days'', rt_minute_days rt),
       (''quarter_retention_days'', quarter), (''hourly_retention_days'', HOURLY_RETENTION_DAYS),
       (''daily_retention_days'', DAILY_RETENTION_DAYS)])) (\<lambda>_.
     transaction (prune LONG_RANGE_ROLLUPS (now - rt_raw_days rt * DAY)
       [(''1m'', now - rt_minute_days rt * DAY), (''15m'', now - quarter * DAY),
        (''1h'', now - HOURLY_RETENTION_DAYS * DAY), (''1d'', now - DAILY_RETENTION_DAYS * DAY)])))"

definition prune_synced :: "int \<Rightarrow> int \<Rightarrow> (telemetry_store, nat) op" where
  "prune_synced retention_days now = (if retention_days < 1 then op_raise (ValueError ''Retention must be at least 1 day'')
     else transaction (\<lambda>db. Inr (delete_synced_before (now - retention_days * DAY) db)))"

definition pending_count :: "(telemetry_store, nat) op" where
  "pending_count = transaction (\<lambda>db. Inr (db, length (filter (\<lambda>row. tr_synced_at row = None) (td_rows db))))"

definition total_count :: "(telemetry_store, nat) op" where
  "total_count = transaction (\<lambda>db. Inr (db, length (td_rows db)))"

definition rollup_count :: "resolutions \<Rightarrow> string \<Rightarrow> (telemetry_store, nat) op" where
  "rollup_count resolutions resolution = (if resolution \<notin> fst ` set resolutions then op_raise (ValueError (
       ''resolution must be '' @ py_repr_str ''1m'' @ '' or '' @ py_repr_str ''15m''))
     else transaction (\<lambda>db. Inr (db, length (rollup_rows resolution db))))"

subsection \<open>The core and the sink\<close>

text \<open>The JSON codec, the text of an instant, and the text of a value in a message.\<close>

record telemetry_codec =
  tc_dumps :: "py_value \<Rightarrow> string"
  tc_loads :: "string \<Rightarrow> py_value option"
  tc_iso :: "int \<Rightarrow> string"
  tc_str :: "py_value \<Rightarrow> string"

text \<open>\<open>CoreStateClient.read_state\<close>; the reply is what was received up to the line feed or the end.\<close>

definition read_core_state :: "telemetry_codec \<Rightarrow> string result \<Rightarrow> (string \<times> py_value) list result" where
  "read_core_state x reply = rbind reply (\<lambda>raw. case tc_loads x raw of
     None \<Rightarrow> Inl (ValueError ''invalid JSON'')
   | Some (VDict d) \<Rightarrow>
       if \<not> py_truthy (vget d ''ok'') then Inl (RuntimeError (tc_str x (dict_get d ''error'' (VStr ''ventilation-core status failed''))))
       else (case vget d ''state'' of VDict state \<Rightarrow> Inr state
         | _ \<Rightarrow> Inl (RuntimeError ''ventilation-core returned an invalid state payload''))
   | Some _ \<Rightarrow> Inl (OtherException ''object has no attribute get''))"

datatype sink_answer =
    SinkReply int string
  | SinkHttpError int string
  | SinkUnreachable string
  | SinkFailed exc

text \<open>\<open>AIBridgeRequestTooLarge\<close> is told apart from every other exception.\<close>

datatype send_error = TooLarge string | SendError exc

record sink_config =
  sk_max_body_bytes :: nat

definition new_sink :: "int \<Rightarrow> sink_config result" where
  "new_sink max_body_bytes = (if max_body_bytes < 1 then Inl (ValueError ''max_body_bytes must be at least 1'')
     else Inr \<lparr>sk_max_body_bytes = nat max_body_bytes\<rparr>)"

definition send_batch :: "telemetry_codec \<Rightarrow> sink_config \<Rightarrow> (string \<Rightarrow> sink_answer) \<Rightarrow> py_value \<Rightarrow>
    send_error + (string \<times> py_value) list" where
  "send_batch x c sink payload = (let body = tc_dumps x payload in
     if sk_max_body_bytes c < length body
     then Inl (TooLarge (''Telemetry batch exceeds configured AI Bridge request limit before send: ''
       @ ''body_bytes='' @ show_int (int (length body)) @ '' limit_bytes='' @ show_int (int (sk_max_body_bytes c))))
     else case sink body of
       SinkHttpError code detail \<Rightarrow>
         if code = 413 then Inl (TooLarge (''AI Bridge HTTP 413: '' @ detail))
         else Inl (SendError (RuntimeError (''AI Bridge HTTP '' @ show_int code @ '': '' @ detail)))
     | SinkUnreachable reason \<Rightarrow> Inl (SendError (RuntimeError (''AI Bridge unavailable: '' @ reason)))
     | SinkFailed e \<Rightarrow> Inl (SendError e)
     | SinkReply status reply \<Rightarrow>
         if status \<noteq> 200 then Inl (SendError (RuntimeError (''AI Bridge returned unexpected HTTP status '' @ show_int status)))
         else (case tc_loads x reply of
           None \<Rightarrow> Inl (SendError (ValueError ''invalid JSON''))
         | Some (VDict d) \<Rightarrow> Inr d
         | Some _ \<Rightarrow> Inl (SendError (RuntimeError ''AI Bridge returned an invalid ACK payload''))))"

subsection \<open>The agent\<close>

record telemetry_config =
  tg_codec :: telemetry_codec
  tg_sink :: "sink_config option"
  tg_source_id :: string
  tg_capture_interval :: py_float
  tg_idle_sync_interval :: py_float
  tg_batch_size :: int
  tg_retention :: retention
  tg_maintenance_interval :: py_float
  tg_max_buckets :: int

record telemetry_agent =
  ta_store :: telemetry_store
  ta_batch_size :: int

text \<open>The checks of \<open>TelemetryAgent.__init__\<close>, in order.\<close>

definition new_telemetry_agent :: "telemetry_config \<Rightarrow> telemetry_store \<Rightarrow> telemetry_agent result" where
  "new_telemetry_agent c store =
     (if fle (tg_capture_interval c) (Fin 0) then Inl (ValueError ''Capture interval must be positive'')
      else if fle (tg_idle_sync_interval c) (Fin 0) then Inl (ValueError ''Sync interval must be positive'')
      else if \<not> (1 \<le> tg_batch_size c \<and> tg_batch_size c \<le> 500) then Inl (ValueError ''Batch size must be in range 1..500'')
      else if rt_raw_days (tg_retention c) < 1 then Inl (ValueError ''Raw retention must be at least 1 day'')
      else if rt_minute_days (tg_retention c) < 1 then Inl (ValueError ''Minute retention must be at least 1 day'')
      else if rt_quarter_days (tg_retention c) < 1 then Inl (ValueError ''Quarter-hour retention must be at least 1 day'')
      else if fle (tg_maintenance_interval c) (Fin 0) then Inl (ValueError ''Maintenance interval must be positive'')
      else if tg_max_buckets c < 1 then Inl (ValueError ''max_rollup_buckets_per_run must be at least 1'')
      else if tg_source_id c = [] then Inl (ValueError ''source_id must not be empty'')
      else Inr \<lparr>ta_store = store, ta_batch_size = tg_batch_size c\<rparr>)"

definition on_history :: "(telemetry_store, 'a) op \<Rightarrow> (telemetry_agent, 'a) op" where
  "on_history m s = (let (st, x) = m (ta_store s) in (s\<lparr>ta_store := st\<rparr>, x))"

record capture_inputs =
  ci_reply :: "string result"
  ci_sample_id :: string
  ci_now :: int

definition capture_once :: "telemetry_config \<Rightarrow> capture_inputs \<Rightarrow> (telemetry_agent, sample_record) op" where
  "capture_once c i = op_bind (op_lift (read_core_state (tg_codec c) (ci_reply i)))
     (\<lambda>state. on_history (append_snapshot (ci_sample_id i) (ci_now i) state))"

definition build_payload :: "telemetry_config \<Rightarrow> telemetry_batch \<Rightarrow> py_value" where
  "build_payload c batch = VDict [(''schema_version'', VInt 1), (''source_id'', VStr (tg_source_id c)), (''batch_id'', VStr (tb_batch_id batch)),
     (''created_at'', VStr (case tb_created_at batch of Some t \<Rightarrow> tc_iso (tg_codec c) t | None \<Rightarrow> ''None'')),
     (''samples'', VList (map (\<lambda>s. VDict [(''sample_id'', VStr (sr_sample_id s)), (''sequence'', VInt (sr_sequence s)),
        (''captured_at'', VStr (tc_iso (tg_codec c) (sr_captured_at s))), (''metrics'', VDict (sr_metrics s))]) (tb_samples batch)))]"

text \<open>The number behind \<open>isinstance(v, int)\<close>.\<close>

definition counter :: "(string \<times> py_value) list \<Rightarrow> string \<Rightarrow> int option" where
  "counter ack name = (case vget ack name of VInt i \<Rightarrow> Some i | VBool b \<Rightarrow> Some (if b then 1 else 0) | _ \<Rightarrow> None)"

definition validate_ack :: "telemetry_config \<Rightarrow> telemetry_batch \<Rightarrow> (string \<times> py_value) list \<Rightarrow> unit result" where
  "validate_ack c batch ack = (let expected = int (length (tb_samples batch)); show = tc_str (tg_codec c) in
     if \<not> py_eq (vget ack ''schema_version'') (VInt 1) then Inl (RuntimeError ''AI Bridge ACK has unsupported schema_version'')
     else if vget ack ''source_id'' \<noteq> VStr (tg_source_id c) then Inl (RuntimeError ''AI Bridge ACK source_id mismatch'')
     else if vget ack ''batch_id'' \<noteq> VStr (tb_batch_id batch) then Inl (RuntimeError ''AI Bridge ACK batch_id mismatch'')
     else if vget ack ''status'' \<noteq> VStr ''accepted'' then Inl (RuntimeError ''AI Bridge did not accept telemetry batch'')
     else case (counter ack ''received'', counter ack ''stored'', counter ack ''duplicates'', counter ack ''rejected'') of
       (Some received, Some stored, Some duplicates, Some rejected) \<Rightarrow>
         if received \<noteq> expected then Inl (RuntimeError (''AI Bridge ACK received='' @ show (vget ack ''received'') @ '', expected='' @ show_int expected))
         else if rejected \<noteq> 0 then Inl (RuntimeError (''AI Bridge rejected '' @ show (vget ack ''rejected'') @ '' telemetry samples''))
         else if stored + duplicates \<noteq> expected
         then Inl (RuntimeError ''AI Bridge ACK stored + duplicates does not match transmitted sample count'')
         else Inr ()
     | _ \<Rightarrow> Inl (RuntimeError ''AI Bridge ACK counters are invalid''))"

text \<open>What a round of synchronisation meets. The clock is read by each step.\<close>

record sync_inputs =
  si_batch_id :: string
  si_now :: "nat \<Rightarrow> int"
  si_sink :: "string \<Rightarrow> sink_answer"

text \<open>The exception that leaves \<open>sync_once\<close> for a \<open>send_error\<close>.\<close>

definition as_exc :: "send_error \<Rightarrow> exc" where
  "as_exc e = (case e of TooLarge m \<Rightarrow> RuntimeError m | SendError x \<Rightarrow> x)"

definition deliver_batch :: "telemetry_config \<Rightarrow> sink_config \<Rightarrow> sync_inputs \<Rightarrow> telemetry_batch \<Rightarrow> send_error + (string \<times> py_value) list" where
  "deliver_batch c sink i batch = (case send_batch (tg_codec c) sink (si_sink i) (build_payload c batch) of
     Inl e \<Rightarrow> Inl e
   | Inr ack \<Rightarrow> (case validate_ack c batch ack of Inl e \<Rightarrow> Inl (SendError e) | Inr _ \<Rightarrow> Inr ack))"

definition after_failure :: "sync_inputs \<Rightarrow> telemetry_batch \<Rightarrow> send_error \<Rightarrow> (telemetry_agent, bool) op" where
  "after_failure i batch e = op_bind (on_history (record_attempt (si_now i 1) (tb_batch_id batch) (Some (exc_str (as_exc e)))))
     (\<lambda>_. case e of
        SendError x \<Rightarrow> op_raise x
      | TooLarge m \<Rightarrow>
          if length (tb_samples batch) \<le> 1 then op_raise (RuntimeError m)
          else op_bind (on_history (release_batch (tb_batch_id batch))) (\<lambda>released.
            if released \<noteq> length (tb_samples batch)
            then op_raise (RuntimeError (''Failed to release oversized batch '' @ tb_batch_id batch @ '': ''
              @ ''expected '' @ show_int (int (length (tb_samples batch))) @ '' rows, released '' @ show_int (int released)))
            else (\<lambda>s. (s\<lparr>ta_batch_size := max 1 (min (ta_batch_size s) (int (length (tb_samples batch)) div 2))\<rparr>, Inr False))))"

definition after_delivery :: "sync_inputs \<Rightarrow> telemetry_batch \<Rightarrow> (telemetry_agent, bool) op" where
  "after_delivery i batch = op_bind (on_history (record_attempt (si_now i 1) (tb_batch_id batch) None)) (\<lambda>_.
     op_bind (on_history (mark_batch_synced (si_now i 2) (tb_batch_id batch))) (\<lambda>marked.
       if marked \<noteq> length (tb_samples batch)
       then op_raise (RuntimeError (''Local sync state mismatch for batch '' @ tb_batch_id batch @ '': ''
         @ ''expected '' @ show_int (int (length (tb_samples batch))) @ '' rows, marked '' @ show_int (int marked)))
       else op_return True))"

definition sync_once :: "telemetry_config \<Rightarrow> sync_inputs \<Rightarrow> (telemetry_agent, bool) op" where
  "sync_once c i s = (case tg_sink c of
     None \<Rightarrow> (s, Inr False)
   | Some sink \<Rightarrow> op_bind (on_history (reserve_batch (si_batch_id i) (si_now i 0) (ta_batch_size s))) (\<lambda>reserved.
       case reserved of
         None \<Rightarrow> op_return False
       | Some batch \<Rightarrow> (case deliver_batch c sink i batch of
           Inl e \<Rightarrow> after_failure i batch e
         | Inr ack \<Rightarrow> after_delivery i batch)) s)"

text \<open>The clock is read by the rollups and by the retention.\<close>

definition maintenance_once :: "telemetry_config \<Rightarrow> int \<Rightarrow> int \<Rightarrow> (telemetry_agent, unit) op" where
  "maintenance_once c now1 now2 = op_bind (on_history (build_rollups LONG_RANGE_ROLLUPS now1 (tg_max_buckets c))) (\<lambda>_.
     op_bind (on_history (prune_long_range (tg_retention c) now2)) (\<lambda>_. op_return ()))"

subsection \<open>Turns of the two threads\<close>

text \<open>A turn of \<open>_capture_loop\<close>: the clock decides on the maintenance; its new date is returned. Exceptions are logged.\<close>

definition capture_turn :: "telemetry_config \<Rightarrow> capture_inputs \<Rightarrow> py_float \<Rightarrow> int \<Rightarrow> int \<Rightarrow> py_float \<Rightarrow> telemetry_agent \<Rightarrow>
    telemetry_agent \<times> py_float" where
  "capture_turn c i current now1 now2 next_maintenance s =
     (let s1 = op_ignore (capture_once c i) s in
      if fle next_maintenance current
      then (op_ignore (maintenance_once c now1 now2) s1, fadd current (tg_maintenance_interval c))
      else (s1, next_maintenance))"

definition RETRY_DELAYS_SECONDS :: "rat list" where "RETRY_DELAYS_SECONDS = [5, 15, 30, 60]"

text \<open>A turn of \<open>_sync_loop\<close>: the number of failures in a row, and how long it waits.\<close>

definition sync_turn :: "telemetry_config \<Rightarrow> sync_inputs \<Rightarrow> nat \<Rightarrow> telemetry_agent \<Rightarrow> telemetry_agent \<times> nat \<times> py_float" where
  "sync_turn c i failure_index s = (case sync_once c i s of
     (s1, Inr sent) \<Rightarrow> (s1, 0, if sent then to_float (5 / 100) else tg_idle_sync_interval c)
   | (s1, Inl e) \<Rightarrow> (s1, Suc failure_index, Fin (RETRY_DELAYS_SECONDS ! min failure_index (length RETRY_DELAYS_SECONDS - 1))))"

subsection \<open>Interleaving\<close>

text \<open>
  The two threads share the database, so that captures and maintenance run between the transactions of a synchronisation. Its
  steps are the reservation and the delivery, the record of the attempt, and the end. A run remembers
  what was captured, the samples of the batches the sink acknowledged, and the latest time of a maintenance.
\<close>

datatype sync_phase =
    SyncIdle
  | SyncAnswered telemetry_batch "send_error option"
  | SyncEnding telemetry_batch bool

record telemetry_run =
  tn_agent :: telemetry_agent
  tn_phase :: sync_phase
  tn_captured :: "sample_record list"
  tn_accepted :: "sample_record list"
  tn_latest :: int

datatype telemetry_event =
    CaptureEvent capture_inputs
  | MaintainEvent int int
  | ReserveEvent sync_inputs
  | AttemptEvent int
  | EndEvent int
  | RestartEvent

definition new_run :: "telemetry_agent \<Rightarrow> telemetry_run" where
  "new_run a = \<lparr>tn_agent = a, tn_phase = SyncIdle, tn_captured = [], tn_accepted = [], tn_latest = 0\<rparr>"

definition reserve_step :: "telemetry_config \<Rightarrow> sink_config \<Rightarrow> sync_inputs \<Rightarrow> telemetry_run \<Rightarrow> telemetry_run" where
  "reserve_step c sink i r =
     (case on_history (reserve_batch (si_batch_id i) (si_now i 0) (ta_batch_size (tn_agent r))) (tn_agent r) of
        (a, Inr (Some batch)) \<Rightarrow> (case deliver_batch c sink i batch of
            Inl e \<Rightarrow> r\<lparr>tn_agent := a, tn_phase := SyncAnswered batch (Some e)\<rparr>
          | Inr _ \<Rightarrow> r\<lparr>tn_agent := a, tn_phase := SyncAnswered batch None, tn_accepted := tn_accepted r @ tb_samples batch\<rparr>)
      | (a, _) \<Rightarrow> r\<lparr>tn_agent := a\<rparr>)"

definition attempt_step :: "int \<Rightarrow> telemetry_batch \<Rightarrow> send_error option \<Rightarrow> telemetry_run \<Rightarrow> telemetry_run" where
  "attempt_step now batch answer r =
     (case on_history (record_attempt now (tb_batch_id batch) (map_option (\<lambda>e. exc_str (as_exc e)) answer)) (tn_agent r) of
        (a, Inl _) \<Rightarrow> r\<lparr>tn_agent := a, tn_phase := SyncIdle\<rparr>
      | (a, Inr _) \<Rightarrow> r\<lparr>tn_agent := a, tn_phase := (case answer of
            None \<Rightarrow> SyncEnding batch True
          | Some (SendError _) \<Rightarrow> SyncIdle
          | Some (TooLarge _) \<Rightarrow> if length (tb_samples batch) \<le> 1 then SyncIdle else SyncEnding batch False)\<rparr>)"

definition end_step :: "int \<Rightarrow> telemetry_batch \<Rightarrow> bool \<Rightarrow> telemetry_run \<Rightarrow> telemetry_run" where
  "end_step now batch delivered r =
     (case on_history (if delivered then mark_batch_synced now (tb_batch_id batch) else release_batch (tb_batch_id batch)) (tn_agent r) of
        (a, Inl _) \<Rightarrow> r\<lparr>tn_agent := a, tn_phase := SyncIdle\<rparr>
      | (a, Inr n) \<Rightarrow> r\<lparr>tn_agent := (if \<not> delivered \<and> n = length (tb_samples batch)
            then a\<lparr>ta_batch_size := max 1 (min (ta_batch_size a) (int (length (tb_samples batch)) div 2))\<rparr> else a),
          tn_phase := SyncIdle\<rparr>)"

definition telemetry_step :: "telemetry_config \<Rightarrow> telemetry_event \<Rightarrow> telemetry_run \<Rightarrow> telemetry_run" where
  "telemetry_step c e r = (case e of
     CaptureEvent i \<Rightarrow> (case capture_once c i (tn_agent r) of
         (a, Inr sample) \<Rightarrow> r\<lparr>tn_agent := a, tn_captured := tn_captured r @ [sample]\<rparr>
       | (a, Inl _) \<Rightarrow> r\<lparr>tn_agent := a\<rparr>)
   | MaintainEvent now1 now2 \<Rightarrow> r\<lparr>tn_agent := op_ignore (maintenance_once c now1 now2) (tn_agent r),
       tn_latest := max (tn_latest r) (max now1 now2)\<rparr>
   | ReserveEvent i \<Rightarrow> (case (tg_sink c, tn_phase r) of (Some sink, SyncIdle) \<Rightarrow> reserve_step c sink i r | _ \<Rightarrow> r)
   | AttemptEvent now \<Rightarrow> (case tn_phase r of SyncAnswered batch answer \<Rightarrow> attempt_step now batch answer r | _ \<Rightarrow> r)
   | EndEvent now \<Rightarrow> (case tn_phase r of SyncEnding batch delivered \<Rightarrow> end_step now batch delivered r | _ \<Rightarrow> r)
   | RestartEvent \<Rightarrow> r\<lparr>tn_agent := (tn_agent r)\<lparr>ta_batch_size := tg_batch_size c\<rparr>, tn_phase := SyncIdle\<rparr>)"

definition telemetry_steps :: "telemetry_config \<Rightarrow> telemetry_event list \<Rightarrow> telemetry_run \<Rightarrow> telemetry_run" where
  "telemetry_steps c es r = fold (telemetry_step c) es r"

end
