(* ===== verification/TelemetrySafety.thy ===== *)
theory TelemetrySafety
  imports Telemetry "HOL-Library.Sublist"
begin

section \<open>What the telemetry agent keeps\<close>

text \<open>
  Lemmas about \<open>Rollup\<close> and \<open>Telemetry\<close>: no sample is lost before the sink has it, a batch is delivered unchanged until it is
  acknowledged, and a round of synchronisation is the sequence of its steps.
\<close>

subsection \<open>Transactions\<close>

lemma transaction_cases:
  assumes "transaction m s = (s', x)"
  shows "(\<exists>e. x = Inl e \<and> tl_db s' = tl_db s) \<or> (\<exists>y. x = Inr y \<and> m (tl_db s) = Inr (tl_db s', y))"
  using assms by (auto simp: transaction_def Let_def split: option.split_asm sum.split_asm prod.split_asm)

text \<open>The database of an agent before and after an operation on its store.\<close>

abbreviation agent_db :: "telemetry_agent \<Rightarrow> telemetry_db" where "agent_db a \<equiv> tl_db (ta_store a)"

lemma on_history_cases:
  assumes "on_history (transaction m) a = (a', x)"
  shows "ta_batch_size a' = ta_batch_size a"
    and "(\<exists>e. x = Inl e \<and> agent_db a' = agent_db a) \<or> (\<exists>y. x = Inr y \<and> m (agent_db a) = Inr (agent_db a', y))"
proof -
  obtain st y where t: "transaction m (ta_store a) = (st, y)" by fastforce
  with assms have "a' = a\<lparr>ta_store := st\<rparr>" "x = y" by (auto simp: on_history_def)
  with transaction_cases[OF t] show "ta_batch_size a' = ta_batch_size a"
    "(\<exists>e. x = Inl e \<and> agent_db a' = agent_db a) \<or> (\<exists>y. x = Inr y \<and> m (agent_db a) = Inr (agent_db a', y))" by auto
qed

subsection \<open>The queue\<close>

abbreviation stored :: "telemetry_db \<Rightarrow> sample_record list" where "stored db \<equiv> map tr_sample (td_rows db)"

text \<open>Of the captured samples \<open>C\<close> and the acknowledged ones \<open>A\<close>: the database holds captured samples in their order, and only acknowledged
  ones are marked or missing; the open rows belong to one batch.\<close>

definition one_batch :: "telemetry_row set \<Rightarrow> bool" where
  "one_batch R = (\<forall>row \<in> R. \<forall>row' \<in> R. open_row row \<longrightarrow> open_row row' \<longrightarrow>
     tr_batch_id row' = tr_batch_id row \<and> tr_batch_created_at row' = tr_batch_created_at row)"

definition queue_ok :: "sample_record list \<Rightarrow> sample_record set \<Rightarrow> telemetry_db \<Rightarrow> bool" where
  "queue_ok C A db = (sorted_wrt (<) (map sr_sequence C) \<and> (\<forall>x \<in> set C. sr_sequence x \<le> td_last_sequence db)
     \<and> subseq (stored db) C \<and> set C \<subseteq> set (stored db) \<union> A
     \<and> (\<forall>row \<in> set (td_rows db). tr_synced_at row \<noteq> None \<longrightarrow> tr_sample row \<in> A) \<and> one_batch (set (td_rows db)))"

lemma queue_ok_distinct: "queue_ok C A db \<Longrightarrow> distinct C"
  unfolding queue_ok_def by (metis distinct_map strict_sorted_iff)

definition held :: "telemetry_batch \<Rightarrow> telemetry_db \<Rightarrow> bool" where
  "held b db = (tb_samples b = map tr_sample (filter (in_batch (tb_batch_id b)) (td_rows db)))"

definition phase_ok :: "sample_record set \<Rightarrow> telemetry_db \<Rightarrow> sync_phase \<Rightarrow> bool" where
  "phase_ok A db ph = (case ph of
     SyncIdle \<Rightarrow> True
   | SyncAnswered b answer \<Rightarrow> held b db \<and> (answer = None \<longrightarrow> set (tb_samples b) \<subseteq> A)
   | SyncEnding b delivered \<Rightarrow> held b db \<and> (delivered \<longrightarrow> set (tb_samples b) \<subseteq> A))"

definition run_ok :: "telemetry_run \<Rightarrow> bool" where
  "run_ok r = (queue_ok (tn_captured r) (set (tn_accepted r)) (agent_db (tn_agent r))
     \<and> phase_ok (set (tn_accepted r)) (agent_db (tn_agent r)) (tn_phase r))"

lemma queue_ok_mono: "queue_ok C A db \<Longrightarrow> A \<subseteq> A' \<Longrightarrow> queue_ok C A' db"
  unfolding queue_ok_def by blast

lemma phase_ok_mono: "phase_ok A db ph \<Longrightarrow> A \<subseteq> A' \<Longrightarrow> phase_ok A' db ph"
  by (auto simp: phase_ok_def split: sync_phase.split_asm)

text \<open>A change of rows that keeps the samples.\<close>

lemma one_batchI: "(\<And>row row'. \<lbrakk>row \<in> R; row' \<in> R; open_row row; open_row row'\<rbrakk> \<Longrightarrow>
    tr_batch_id row' = tr_batch_id row \<and> tr_batch_created_at row' = tr_batch_created_at row) \<Longrightarrow> one_batch R"
  unfolding one_batch_def by blast

lemma one_batch_subset: "one_batch R \<Longrightarrow> (\<And>row. row \<in> R' \<Longrightarrow> open_row row \<Longrightarrow> row \<in> R) \<Longrightarrow> one_batch R'"
  unfolding one_batch_def by blast

lemma one_batchD: "\<lbrakk>one_batch R; row \<in> R; row' \<in> R; open_row row; open_row row'\<rbrakk> \<Longrightarrow>
    tr_batch_id row' = tr_batch_id row \<and> tr_batch_created_at row' = tr_batch_created_at row"
  unfolding one_batch_def by blast

lemma queue_ok_map:
  assumes ok: "queue_ok C A db" and same: "\<And>row. tr_sample (f row) = tr_sample row"
    and sync: "\<And>row. row \<in> set (td_rows db) \<Longrightarrow> tr_synced_at (f row) \<noteq> None \<Longrightarrow> tr_synced_at row \<noteq> None \<or> tr_sample row \<in> A"
    and batch: "one_batch (f ` set (td_rows db))"
  shows "queue_ok C A (db\<lparr>td_rows := map f (td_rows db)\<rparr>)"
proof -
  have stored: "stored (db\<lparr>td_rows := map f (td_rows db)\<rparr>) = stored db" by (simp add: same)
  have "tr_sample row \<in> A" if "row \<in> f ` set (td_rows db)" "tr_synced_at row \<noteq> None" for row
    using that sync ok unfolding queue_ok_def by (metis imageE same)
  with ok batch show ?thesis unfolding queue_ok_def stored by simp
qed

lemma queue_ok_update:
  assumes ok: "queue_ok C A db" and same: "\<And>row. tr_sample (f row) = tr_sample row"
    and sync: "\<And>row. row \<in> set (td_rows db) \<Longrightarrow> in_batch b row \<Longrightarrow> tr_synced_at (f row) \<noteq> None \<Longrightarrow> tr_sample row \<in> A"
    and opened: "\<And>row. \<lbrakk>in_batch b row; open_row (f row)\<rbrakk> \<Longrightarrow>
       tr_batch_id (f row) = tr_batch_id row \<and> tr_batch_created_at (f row) = tr_batch_created_at row"
  shows "queue_ok C A (update_batch b f db)"
proof -
  let ?g = "\<lambda>row. if in_batch b row then f row else row"
  have was: "open_row q \<and> tr_batch_id (?g q) = tr_batch_id q \<and> tr_batch_created_at (?g q) = tr_batch_created_at q"
    if "open_row (?g q)" for q
  proof (cases "in_batch b q")
    case True
    then have "open_row q" by (simp add: in_batch_def open_row_def)
    with True that opened[of q] show ?thesis by simp
  qed (use that in simp)
  have one: "one_batch (set (td_rows db))" using ok by (simp add: queue_ok_def)
  have "one_batch (?g ` set (td_rows db))"
  proof (rule one_batchI)
    fix row row' assume "row \<in> ?g ` set (td_rows db)" "row' \<in> ?g ` set (td_rows db)" and o: "open_row row" "open_row row'"
    then obtain q q' where q: "q \<in> set (td_rows db)" "row = ?g q" "q' \<in> set (td_rows db)" "row' = ?g q'" by blast
    show "tr_batch_id row' = tr_batch_id row \<and> tr_batch_created_at row' = tr_batch_created_at row"
      using one_batchD[OF one q(1,3)] was[of q] was[of q'] o unfolding q(2,4) by presburger
  qed
  moreover have "tr_synced_at row \<noteq> None \<or> tr_sample row \<in> A" if "row \<in> set (td_rows db)" "tr_synced_at (?g row) \<noteq> None" for row
    using sync that by (cases "in_batch b row") simp_all
  ultimately show ?thesis unfolding update_batch_def by (intro queue_ok_map[OF ok]) (simp_all add: same)
qed

lemma queue_ok_append:
  assumes ok: "queue_ok C A db" and sample: "sr_sequence x = td_last_sequence db + 1" and row: "tr_sample row = x" "pending_row row"
  shows "queue_ok (C @ [x]) A (db\<lparr>td_rows := td_rows db @ [row], td_last_sequence := td_last_sequence db + 1\<rparr>)"
proof -
  have pend: "\<not> open_row row" "tr_synced_at row = None" using row(2) by (auto simp: open_row_def pending_row_def)
  have "one_batch (set (td_rows db @ [row]))"
    by (rule one_batch_subset[of "set (td_rows db)"]) (use ok pend(1) in \<open>auto simp: queue_ok_def\<close>)
  moreover have "sorted_wrt (<) (map sr_sequence (C @ [x]))" using ok sample by (auto simp: queue_ok_def sorted_wrt_append)
  moreover have "sr_sequence y \<le> td_last_sequence db + 1" if "y \<in> set (C @ [x])" for y
    using that ok sample by (auto simp: queue_ok_def)
  ultimately show ?thesis using ok row(1) pend(2) unfolding queue_ok_def by auto
qed

lemma queue_ok_prune:
  assumes ok: "queue_ok C A db" and gone: "\<And>row. row \<in> set (td_rows db) \<Longrightarrow> \<not> keep row \<Longrightarrow> tr_synced_at row \<noteq> None"
    and db': "td_rows db' = filter keep (td_rows db)" "td_last_sequence db' = td_last_sequence db"
  shows "queue_ok C A db'"
proof -
  have "subseq (stored db') (stored db)" unfolding db'(1) by (intro subseq_map subseq_filter_left)
  then have "subseq (stored db') C" using ok subseq_order.order_trans unfolding queue_ok_def by blast
  moreover have "set C \<subseteq> set (stored db') \<union> A"
  proof
    fix x assume "x \<in> set C"
    with ok consider "x \<in> A" | row where "row \<in> set (td_rows db)" "tr_sample row = x" unfolding queue_ok_def by auto
    then show "x \<in> set (stored db') \<union> A"
    proof cases
      case 2
      then show ?thesis using gone[of row] ok db'(1) unfolding queue_ok_def by (cases "keep row") auto
    qed simp
  qed
  moreover have "one_batch (set (td_rows db'))" 
    by (rule one_batch_subset[of "set (td_rows db)"]) (use ok db'(1) in \<open>auto simp: queue_ok_def\<close>)
  ultimately show ?thesis using ok db' unfolding queue_ok_def by simp
qed

subsection \<open>Every step keeps the queue\<close>

lemma held_append: "held b db \<Longrightarrow> pending_row row \<Longrightarrow> held b (db\<lparr>td_rows := td_rows db @ [row], td_last_sequence := n\<rparr>)"
  by (simp add: held_def in_batch_def pending_row_def)

lemma held_rows: "td_rows db' = td_rows db \<Longrightarrow> held b db' \<longleftrightarrow> held b db"
  by (simp add: held_def)

lemma held_prune:
  assumes "held b db" and "\<And>row. row \<in> set (td_rows db) \<Longrightarrow> \<not> keep row \<Longrightarrow> tr_synced_at row \<noteq> None"
    and "td_rows db' = filter keep (td_rows db)"
  shows "held b db'"
proof -
  have "filter (in_batch (tb_batch_id b)) (filter keep (td_rows db)) = filter (in_batch (tb_batch_id b)) (td_rows db)"
    unfolding filter_filter using assms(2) by (intro filter_cong refl) (fastforce simp: in_batch_def)
  with assms(1,3) show ?thesis by (simp add: held_def)
qed

lemma held_update:
  assumes "held b db" and "\<And>row. tr_sample (f row) = tr_sample row" and "\<And>row. in_batch i row \<Longrightarrow> in_batch i (f row)"
  shows "held b (update_batch i f db)"
proof -
  have "in_batch (tb_batch_id b) (if in_batch i row then f row else row) \<longleftrightarrow> in_batch (tb_batch_id b) row" for row
    using assms(3)[of row] by (auto simp: in_batch_def)
  with assms(1,2) show ?thesis
    by (auto simp: held_def update_batch_def filter_map comp_def intro!: map_cong)
qed

lemma phase_ok_held: "(\<And>b. held b db \<Longrightarrow> held b db') \<Longrightarrow> phase_ok A db ph \<Longrightarrow> phase_ok A db' ph"
  by (auto simp: phase_ok_def split: sync_phase.split_asm)

lemma reserve_ok:
  assumes ok: "queue_ok C A (agent_db a)" and run: "on_history (reserve_batch i now limit) a = (a', res)"
  shows "queue_ok C A (agent_db a')" and "res = Inr (Some b) \<Longrightarrow> held b (agent_db a')"
proof -
  have "queue_ok C A (agent_db a') \<and> (\<forall>b. res = Inr (Some b) \<longrightarrow> held b (agent_db a'))"
  proof (cases "limit < 1")
    case True
    with run ok show ?thesis by (auto simp: reserve_batch_def on_history_def)
  next
    case False
    note cases = on_history_cases(2)[OF run[unfolded reserve_batch_def if_not_P[OF False]]]
    show ?thesis
    proof (cases "find open_row (td_rows (agent_db a))")
      case (Some row)
      with cases ok show ?thesis by (auto simp: batch_of_def held_def)
    next
      case None
      let ?db = "agent_db a" let ?rows = "td_rows (agent_db a)"
      let ?seqs = "map (sr_sequence \<circ> tr_sample) (take (nat limit) (filter pending_row ?rows))"
      let ?f = "\<lambda>row. if sr_sequence (tr_sample row) \<in> set ?seqs then row\<lparr>tr_batch_id := Some i, tr_batch_created_at := Some now\<rparr> else row"
      have closed: "\<not> open_row row" if "row \<in> set ?rows" for row using None that by (auto simp: find_None_iff)
      have "one_batch (?f ` set ?rows)"
      proof (rule one_batchI)
        fix row row' assume "row \<in> ?f ` set ?rows" "row' \<in> ?f ` set ?rows" "open_row row" "open_row row'"
        then have "tr_batch_id q = Some i \<and> tr_batch_created_at q = Some now" if "q \<in> {row, row'}" for q
          using that closed by (auto split: if_split_asm)
        then show "tr_batch_id row' = tr_batch_id row \<and> tr_batch_created_at row' = tr_batch_created_at row" by simp
      qed
      then have new: "queue_ok C A (?db\<lparr>td_rows := map ?f ?rows\<rparr>)"
      proof (rule queue_ok_map[OF ok, rotated 2])
        fix row
        show "tr_sample (?f row) = tr_sample row" by (cases "sr_sequence (tr_sample row) \<in> set ?seqs") simp_all
        assume "tr_synced_at (?f row) \<noteq> None"
        then show "tr_synced_at row \<noteq> None \<or> tr_sample row \<in> A"
          by (cases "sr_sequence (tr_sample row) \<in> set ?seqs") simp_all
      qed
      show ?thesis
      proof (cases "?seqs = []")
        case True
        with cases None ok show ?thesis by auto
      next
        case False
        let ?db2 = "?db\<lparr>td_rows := map ?f ?rows\<rparr>"
        from cases have "(\<exists>e. res = Inl e \<and> agent_db a' = ?db)
            \<or> (\<exists>y. res = Inr y \<and> Inr (?db2, Some (batch_of i (Some now) ?db2)) = (Inr (agent_db a', y) :: (telemetry_db \<times> telemetry_batch option) result))"
          by (simp only: None option.case Let_def False if_False)
        then consider e where "res = Inl e" "agent_db a' = ?db"
          | "res = Inr (Some (batch_of i (Some now) (agent_db a')))" "agent_db a' = ?db2"
          by (metis (no_types, lifting) sum.inject(2) prod.inject)
        then show ?thesis using ok new by cases (simp_all add: batch_of_def held_def)
      qed
    qed
  qed
  then show "queue_ok C A (agent_db a')" "res = Inr (Some b) \<Longrightarrow> held b (agent_db a')" by blast+
qed

lemma attempt_ok:
  assumes ok: "queue_ok C A (agent_db a)" and run: "on_history (record_attempt now i e) a = (a', res)"
  shows "queue_ok C A (agent_db a')" and "held b (agent_db a) \<Longrightarrow> held b (agent_db a')"
proof -
  let ?f = "\<lambda>row. row\<lparr>tr_attempts := tr_attempts row + 1, tr_last_attempt_at := Some now, tr_last_error := e\<rparr>"
  have "agent_db a' = agent_db a \<or> agent_db a' = update_batch i ?f (agent_db a)"
    using on_history_cases(2)[OF run[unfolded record_attempt_def]] by auto
  moreover have "queue_ok C A (update_batch i ?f (agent_db a))" by (rule queue_ok_update[OF ok]) (simp_all add: in_batch_def)
  moreover have "held b (agent_db a) \<Longrightarrow> held b (update_batch i ?f (agent_db a))" by (rule held_update) (simp_all add: in_batch_def)
  ultimately show "queue_ok C A (agent_db a')" "held b (agent_db a) \<Longrightarrow> held b (agent_db a')" using ok by auto
qed

lemma release_ok:
  assumes ok: "queue_ok C A (agent_db a)" and run: "on_history (release_batch i) a = (a', res)"
  shows "queue_ok C A (agent_db a')"
proof -
  let ?f = "\<lambda>row. row\<lparr>tr_batch_id := None, tr_batch_created_at := None\<rparr>"
  have "queue_ok C A (update_batch i ?f (agent_db a))" by (rule queue_ok_update[OF ok]) (simp_all add: in_batch_def open_row_def)
  with on_history_cases(2)[OF run[unfolded release_batch_def]] ok show ?thesis by auto
qed

lemma mark_ok:
  assumes ok: "queue_ok C A (agent_db a)" and run: "on_history (mark_batch_synced now (tb_batch_id b)) a = (a', res)"
    and "held b (agent_db a)" "set (tb_samples b) \<subseteq> A"
  shows "queue_ok C A (agent_db a')"
proof -
  let ?f = "\<lambda>row. row\<lparr>tr_synced_at := Some now, tr_last_error := None\<rparr>"
  have "queue_ok C A (update_batch (tb_batch_id b) ?f (agent_db a))"
    using assms(3,4) by (intro queue_ok_update[OF ok]) (auto simp: open_row_def held_def)
  with on_history_cases(2)[OF run[unfolded mark_batch_synced_def]] ok show ?thesis by auto
qed

lemma build_frame:
  "build_bucket r from until now db = Inr (db', n) \<Longrightarrow> td_rows db' = td_rows db \<and> td_last_sequence db' = td_last_sequence db"
  by (auto simp: build_bucket_def Let_def rbind_eq_Inr split: if_split_asm)

lemma build_buckets_frame:
  "build_buckets r w closed_until now k cursor db = Inr (db', c', n) \<Longrightarrow> td_rows db' = td_rows db \<and> td_last_sequence db' = td_last_sequence db"
proof (induction k arbitrary: cursor db db' c' n)
  case (Suc k)
  show ?case
  proof (cases "cursor < closed_until")
    case True
    with Suc.prems obtain db1 m m' where "build_bucket r cursor (cursor + w) now db = Inr (db1, m)"
        "build_buckets r w closed_until now k (cursor + w) db1 = Inr (db', c', m')"
      by (auto simp: rbind_eq_Inr)
    with Suc.IH build_frame show ?thesis by metis
  qed (use Suc.prems in simp)
qed simp

lemma build_all_frame:
  "build_all rs now k db = Inr (db', ns) \<Longrightarrow> td_rows db' = td_rows db \<and> td_last_sequence db' = td_last_sequence db"
proof (induction rs arbitrary: db db' ns)
  case (Cons rs1 rs)
  obtain r s where rs1: "rs1 = (r, s)" by (cases rs1)
  from Cons.prems rs1 obtain db1 n ns' where b: "build_resolution r s now k db = Inr (db1, n)" "build_all rs now k db1 = Inr (db', ns')"
    by (auto simp: rbind_eq_Inr)
  have "td_rows db1 = td_rows db \<and> td_last_sequence db1 = td_last_sequence db"
    using b(1) by (auto simp: build_resolution_def rbind_eq_Inr split: option.split_asm if_split_asm dest!: build_buckets_frame)
  with Cons.IH[OF b(2)] show ?case by simp
qed simp

lemma delete_rollups_frame:
  "delete_all_rollups cs db = (db', ns) \<Longrightarrow> td_rows db' = td_rows db \<and> td_last_sequence db' = td_last_sequence db"
proof (induction cs arbitrary: db db' ns)
  case (Cons x cs)
  obtain r cutoff where "x = (r, cutoff)" by (cases x)
  with Cons.prems Cons.IH[of "fst (delete_rollup_rows r cutoff db)" db'] show ?case
    by (auto simp: delete_rollup_rows_def Let_def split: prod.split_asm)
qed simp

lemma prune_frame:
  assumes "prune rs cutoff cs db = Inr (db', ns)"
  obtains keep where "td_rows db' = filter keep (td_rows db)" "td_last_sequence db' = td_last_sequence db"
    "\<And>row. \<not> keep row \<Longrightarrow> tr_synced_at row \<noteq> None"
proof -
  obtain db1 n where raw: "delete_raw rs cutoff db = (db1, n)" by fastforce
  obtain ms where rest: "delete_all_rollups cs db1 = (db', ms)" using assms raw by (auto simp: prune_def split: prod.split_asm)
  note f = delete_rollups_frame[OF rest]
  show ?thesis
  proof (cases "list_all (\<lambda>(r, _). map_of (td_processed db) r \<noteq> None) rs")
    case True
    let ?limit = "min cutoff (Min (set (map (\<lambda>(r, _). the (map_of (td_processed db) r)) rs)))"
    let ?keep = "\<lambda>row. \<not> (tr_synced_at row \<noteq> None \<and> sr_captured_at (tr_sample row) < ?limit)"
    have "db1 = db\<lparr>td_rows := filter ?keep (td_rows db)\<rparr>" using raw True by (auto simp: delete_raw_def delete_synced_before_def Let_def)
    with f that[of ?keep] show ?thesis by simp
  next
    case False
    with raw have "db1 = db" by (simp add: delete_raw_def)
    with f that[of "\<lambda>_. True"] show ?thesis by simp
  qed
qed

lemma maintenance_db:
  assumes "maintenance_once c now1 now2 a = (a', x)"
  shows "agent_db a' = agent_db a
    \<or> (\<exists>ns. build_all LONG_RANGE_ROLLUPS now1 (tg_max_buckets c) (agent_db a) = Inr (agent_db a', ns))
    \<or> (\<exists>db1 ns ns'. build_all LONG_RANGE_ROLLUPS now1 (tg_max_buckets c) (agent_db a) = Inr (db1, ns)
        \<and> prune LONG_RANGE_ROLLUPS (now2 - rt_raw_days (tg_retention c) * DAY)
       [(''1m'', now2 - rt_minute_days (tg_retention c) * DAY), (''15m'', now2 - max (rt_quarter_days (tg_retention c)) QUARTER_RETENTION_DAYS * DAY),
        (''1h'', now2 - HOURLY_RETENTION_DAYS * DAY), (''1d'', now2 - DAILY_RETENTION_DAYS * DAY)] db1 = Inr (agent_db a', ns'))"
proof -
  let ?prune = "on_history (prune_long_range (tg_retention c) now2)"
  obtain a1 y where b: "on_history (build_rollups LONG_RANGE_ROLLUPS now1 (tg_max_buckets c)) a = (a1, y)" by fastforce
  have built: "(\<exists>e. y = Inl e \<and> agent_db a1 = agent_db a)
      \<or> (\<exists>ns. y = Inr ns \<and> build_all LONG_RANGE_ROLLUPS now1 (tg_max_buckets c) (agent_db a) = Inr (agent_db a1, ns))"
  proof (cases "tg_max_buckets c < 1")
    case True
    with b show ?thesis by (auto simp: build_rollups_def on_history_def)
  next
    case False
    from on_history_cases(2)[OF b[unfolded build_rollups_def if_not_P[OF False]]] show ?thesis .
  qed
  show ?thesis
  proof (cases y)
    case (Inl e)
    with assms b have "a' = a1" by (simp add: maintenance_once_def op_bind_def)
    with built Inl show ?thesis by auto
  next
    case (Inr ns)
    obtain a2 z where p: "?prune a1 = (a2, z)" by fastforce
    with assms b Inr have a': "a' = a2" by (cases z) (auto simp: maintenance_once_def op_bind_def)
    let ?T = "prune LONG_RANGE_ROLLUPS (now2 - rt_raw_days (tg_retention c) * DAY)
       [(''1m'', now2 - rt_minute_days (tg_retention c) * DAY), (''15m'', now2 - max (rt_quarter_days (tg_retention c)) QUARTER_RETENTION_DAYS * DAY),
        (''1h'', now2 - HOURLY_RETENTION_DAYS * DAY), (''1d'', now2 - DAILY_RETENTION_DAYS * DAY)]"
    have "agent_db a2 = agent_db a1 \<or> (\<exists>ns'. ?T (agent_db a1) = Inr (agent_db a2, ns'))"
    proof (cases "positive_days [(''raw_retention_days'', rt_raw_days (tg_retention c)), (''minute_retention_days'', rt_minute_days (tg_retention c)),
       (''quarter_retention_days'', max (rt_quarter_days (tg_retention c)) QUARTER_RETENTION_DAYS), (''hourly_retention_days'', HOURLY_RETENTION_DAYS),
       (''daily_retention_days'', DAILY_RETENTION_DAYS)]")
      case (Inl e)
      with p show ?thesis by (auto simp: prune_long_range_def on_history_def op_bind_def Let_def)
    next
      case (Inr u)
      with p have "on_history (transaction ?T) a1 = (a2, z)" by (simp add: prune_long_range_def on_history_def op_bind_def Let_def)
      from on_history_cases(2)[OF this] show ?thesis by auto
    qed
    with built Inr a' show ?thesis by auto
  qed
qed

lemma maintenance_ok:
  assumes ok: "queue_ok C A (agent_db a)" and run: "maintenance_once c now1 now2 a = (a', x)"
  shows "queue_ok C A (agent_db a')" and "held b (agent_db a) \<Longrightarrow> held b (agent_db a')"
proof -
  have built: "queue_ok C A db1 \<and> (held b (agent_db a) \<longrightarrow> held b db1)"
    if "build_all LONG_RANGE_ROLLUPS now1 (tg_max_buckets c) (agent_db a) = Inr (db1, ns)" for db1 ns
    using ok build_all_frame[OF that] by (simp add: queue_ok_def held_def)
  have pruned: "queue_ok C A db2 \<and> (held b db1 \<longrightarrow> held b db2)"
    if q: "queue_ok C A db1" and p: "prune rs cutoff cs db1 = Inr (db2, ns)" for db1 db2 ns rs cutoff cs
  proof -
    obtain keep where k: "td_rows db2 = filter keep (td_rows db1)" "td_last_sequence db2 = td_last_sequence db1"
      "\<And>row. \<not> keep row \<Longrightarrow> tr_synced_at row \<noteq> None" by (rule prune_frame[OF p]) (rule that)
    show ?thesis using queue_ok_prune[OF q _ k(1,2)] held_prune[OF _ _ k(1)] k(3) by blast
  qed
  have "queue_ok C A (agent_db a') \<and> (held b (agent_db a) \<longrightarrow> held b (agent_db a'))"
    using maintenance_db[OF run] ok built pruned by metis
  then show "queue_ok C A (agent_db a')" "held b (agent_db a) \<Longrightarrow> held b (agent_db a')" by blast+
qed

lemma capture_ok:
  assumes ok: "queue_ok C A (agent_db a)" and run: "capture_once c i a = (a', res)"
  shows "case res of Inl _ \<Rightarrow> agent_db a' = agent_db a
    | Inr x \<Rightarrow> queue_ok (C @ [x]) A (agent_db a') \<and> sr_captured_at x = ci_now i
        \<and> (\<exists>row. tr_sample row = x \<and> pending_row row \<and> agent_db a' = (agent_db a)\<lparr>td_rows := td_rows (agent_db a) @ [row],
             td_last_sequence := td_last_sequence (agent_db a) + 1\<rparr>)"
proof (cases "read_core_state (tg_codec c) (ci_reply i)")
  case (Inl e)
  with run show ?thesis by (auto simp: capture_once_def op_bind_def)
next
  case (Inr state)
  with run have "on_history (append_snapshot (ci_sample_id i) (ci_now i) state) a = (a', res)" by (simp add: capture_once_def op_bind_def)
  from on_history_cases(2)[OF this[unfolded append_snapshot_def]] show ?thesis
  proof (elim disjE exE conjE)
    fix y assume y: "res = Inr y" and m: "(if ci_sample_id i \<in> set (map (sr_sample_id \<circ> tr_sample) (td_rows (agent_db a)))
         then Inl (OtherException ''UNIQUE constraint failed: telemetry_samples.sample_id'')
         else let sample = \<lparr>sr_sequence = td_last_sequence (agent_db a) + 1, sr_sample_id = ci_sample_id i, sr_captured_at = ci_now i, sr_metrics = state\<rparr> in
           Inr ((agent_db a)\<lparr>td_rows := td_rows (agent_db a) @ [\<lparr>tr_sample = sample, tr_batch_id = None, tr_batch_created_at = None, tr_synced_at = None,
             tr_attempts = 0, tr_last_attempt_at = None, tr_last_error = None\<rparr>],
             td_last_sequence := td_last_sequence (agent_db a) + 1\<rparr>, sample)) = Inr (agent_db a', y)"
    let ?row = "\<lparr>tr_sample = y, tr_batch_id = None, tr_batch_created_at = None, tr_synced_at = None,
             tr_attempts = 0, tr_last_attempt_at = None, tr_last_error = None\<rparr>"
    from m have seq: "sr_sequence y = td_last_sequence (agent_db a) + 1" "sr_captured_at y = ci_now i"
      and db: "agent_db a' = (agent_db a)\<lparr>td_rows := td_rows (agent_db a) @ [?row], td_last_sequence := td_last_sequence (agent_db a) + 1\<rparr>"
      by (auto simp: Let_def split: if_split_asm)
    have row: "tr_sample ?row = y" "pending_row ?row" by (simp_all add: pending_row_def)
    have "queue_ok (C @ [y]) A (agent_db a')" using queue_ok_append[OF ok seq(1) row] db by simp
    with db seq(2) row show ?thesis unfolding y sum.case by (intro conjI exI[of _ ?row])
  qed simp
qed

subsection \<open>No sample is lost\<close>

lemma attempt_step_ok:
  assumes "run_ok r" and "tn_phase r = SyncAnswered b answer"
  shows "run_ok (attempt_step now b answer r)"
proof -
  let ?A = "set (tn_accepted r)"
  obtain a x where run: "on_history (record_attempt now (tb_batch_id b) (map_option (\<lambda>e. exc_str (as_exc e)) answer)) (tn_agent r) = (a, x)"
    by fastforce
  from assms have q: "queue_ok (tn_captured r) ?A (agent_db (tn_agent r))" and h: "held b (agent_db (tn_agent r))"
    and acc: "answer = None \<Longrightarrow> set (tb_samples b) \<subseteq> ?A" by (auto simp: run_ok_def phase_ok_def)
  note n = attempt_ok(1)[OF q run] attempt_ok(2)[OF q run h]
  show ?thesis
    using n acc unfolding attempt_step_def run prod.case
    by (cases x; cases answer; (cases "the answer")?) (auto simp: run_ok_def phase_ok_def)
qed

lemma end_step_ok:
  assumes "run_ok r" and "tn_phase r = SyncEnding b delivered"
  shows "run_ok (end_step now b delivered r)"
proof -
  let ?A = "set (tn_accepted r)"
  obtain a x where run: "on_history (if delivered then mark_batch_synced now (tb_batch_id b) else release_batch (tb_batch_id b)) (tn_agent r) = (a, x)"
    by fastforce
  from assms have q: "queue_ok (tn_captured r) ?A (agent_db (tn_agent r))" and h: "held b (agent_db (tn_agent r))"
    and acc: "delivered \<Longrightarrow> set (tb_samples b) \<subseteq> ?A" by (auto simp: run_ok_def phase_ok_def)
  have "queue_ok (tn_captured r) ?A (agent_db a)"
  proof (cases delivered)
    case True
    with mark_ok[OF q _ h acc] run show ?thesis by simp
  next
    case False
    with release_ok[OF q] run show ?thesis by simp
  qed
  then show ?thesis
    unfolding end_step_def run prod.case by (cases x) (auto simp: run_ok_def phase_ok_def)
qed

lemma reserve_step_ok:
  assumes "run_ok r" and "tn_phase r = SyncIdle"
  shows "run_ok (reserve_step c sink i r)"
proof -
  let ?A = "set (tn_accepted r)"
  obtain a x where run: "on_history (reserve_batch (si_batch_id i) (si_now i 0) (ta_batch_size (tn_agent r))) (tn_agent r) = (a, x)" by fastforce
  from assms(1) have "queue_ok (tn_captured r) ?A (agent_db (tn_agent r))" by (simp add: run_ok_def)
  note n = reserve_ok[OF this run]
  consider (no) "\<nexists>b. x = Inr (Some b)" | (batch) b where "x = Inr (Some b)" by blast
  then show ?thesis
  proof cases
    case no
    then have "reserve_step c sink i r = r\<lparr>tn_agent := a\<rparr>"
      unfolding reserve_step_def run by (cases x) (auto split: option.split)
    with n(1) assms(2) show ?thesis by (simp add: run_ok_def phase_ok_def)
  next
    case batch
    have "queue_ok (tn_captured r) (set (tn_accepted r @ tb_samples b)) (agent_db a)" by (rule queue_ok_mono[OF n(1)]) simp
    with n(1) n(2)[OF batch] show ?thesis
      unfolding reserve_step_def run batch by (cases "deliver_batch c sink i b") (auto simp: run_ok_def phase_ok_def)
  qed
qed

lemma capture_step_ok:
  assumes "run_ok r"
  shows "run_ok (telemetry_step c (CaptureEvent i) r)"
proof -
  let ?A = "set (tn_accepted r)"
  obtain a x where run: "capture_once c i (tn_agent r) = (a, x)" by fastforce
  from assms have q: "queue_ok (tn_captured r) ?A (agent_db (tn_agent r))" and p: "phase_ok ?A (agent_db (tn_agent r)) (tn_phase r)"
    by (simp_all add: run_ok_def)
  show ?thesis
  proof (cases x)
    case (Inl e)
    with capture_ok[OF q run] q p show ?thesis by (simp add: telemetry_step_def run run_ok_def)
  next
    case (Inr y)
    from capture_ok[OF q run] Inr obtain row where n: "queue_ok (tn_captured r @ [y]) ?A (agent_db a)" "pending_row row"
      "agent_db a = (agent_db (tn_agent r))\<lparr>td_rows := td_rows (agent_db (tn_agent r)) @ [row],
             td_last_sequence := td_last_sequence (agent_db (tn_agent r)) + 1\<rparr>" by auto
    have "phase_ok ?A (agent_db a) (tn_phase r)"
      by (rule phase_ok_held[OF _ p]) (unfold n(3), rule held_append[OF _ n(2)])
    with n(1) Inr show ?thesis by (simp add: telemetry_step_def run run_ok_def)
  qed
qed

lemma telemetry_step_ok:
  assumes "run_ok r"
  shows "run_ok (telemetry_step c e r)"
proof (cases e)
  case (CaptureEvent i)
  with capture_step_ok[OF assms] show ?thesis by simp
next
  case (MaintainEvent now1 now2)
  obtain a x where run: "maintenance_once c now1 now2 (tn_agent r) = (a, x)" by fastforce
  from assms have q: "queue_ok (tn_captured r) (set (tn_accepted r)) (agent_db (tn_agent r))"
    and p: "phase_ok (set (tn_accepted r)) (agent_db (tn_agent r)) (tn_phase r)" by (simp_all add: run_ok_def)
  show ?thesis using MaintainEvent maintenance_ok(1)[OF q run] phase_ok_held[OF maintenance_ok(2)[OF q run] p]
    by (simp add: telemetry_step_def op_ignore_def run run_ok_def)
next
  case (ReserveEvent i)
  with reserve_step_ok[OF assms] assms show ?thesis
    by (auto simp: telemetry_step_def split: option.split sync_phase.split)
next
  case (AttemptEvent now)
  with attempt_step_ok[OF assms] assms show ?thesis by (auto simp: telemetry_step_def split: sync_phase.split)
next
  case (EndEvent now)
  with end_step_ok[OF assms] assms show ?thesis by (auto simp: telemetry_step_def split: sync_phase.split)
next
  case RestartEvent
  with assms show ?thesis by (simp add: telemetry_step_def run_ok_def phase_ok_def)
qed

lemma telemetry_steps_ok: "run_ok r \<Longrightarrow> run_ok (telemetry_steps c es r)"
  unfolding telemetry_steps_def by (induction es arbitrary: r) (simp_all add: telemetry_step_ok)

definition new_store :: "(nat \<Rightarrow> string option) \<Rightarrow> telemetry_store" where
  "new_store f = \<lparr>tl_db = empty_db, tl_faults = f, tl_transactions = 0\<rparr>"

lemma new_run_ok:
  assumes "new_telemetry_agent c (new_store f) = Inr a"
  shows "run_ok (new_run a)"
proof -
  from assms have "agent_db a = empty_db" by (auto simp: new_telemetry_agent_def new_store_def split: if_split_asm)
  then show ?thesis by (simp add: run_ok_def new_run_def queue_ok_def phase_ok_def empty_db_def one_batch_def)
qed

text \<open>C38: No sample is lost before it is delivered. Whatever transactions fail, however the two threads interleave and the agent restarts,
  and whatever the sink answers, every sample that was captured is in the database as it was captured, unless the sink
  acknowledged a batch with it; no sample that the sink has not acknowledged is marked as delivered, so it
  stays in the queue; and the rows keep the order of capture.\<close>

theorem telemetry_no_sample_lost:
  assumes "new_telemetry_agent c (new_store f) = Inr a" and "telemetry_steps c es (new_run a) = r"
  shows "set (tn_captured r) \<subseteq> set (map tr_sample (td_rows (agent_db (tn_agent r)))) \<union> set (tn_accepted r)
    \<and> subseq (map tr_sample (td_rows (agent_db (tn_agent r)))) (tn_captured r)
    \<and> (\<forall>row \<in> set (td_rows (agent_db (tn_agent r))). tr_sample row \<notin> set (tn_accepted r) \<longrightarrow> tr_synced_at row = None)"
proof -
  have "run_ok r" using telemetry_steps_ok[OF new_run_ok[OF assms(1)]] assms(2) by blast
  then have q: "queue_ok (tn_captured r) (set (tn_accepted r)) (agent_db (tn_agent r))" by (simp add: run_ok_def)
  then show ?thesis unfolding queue_ok_def by blast
qed

subsection \<open>A batch is delivered unchanged\<close>

text \<open>The open rows are the batch \<open>b\<close>.\<close>

definition pinned :: "telemetry_batch \<Rightarrow> telemetry_db \<Rightarrow> bool" where
  "pinned b db = (held b db \<and> tb_samples b \<noteq> [] \<and> (\<forall>row \<in> set (td_rows db). open_row row \<longrightarrow>
     tr_batch_id row = Some (tb_batch_id b) \<and> tr_batch_created_at row = tb_created_at b))"

lemma pinned_mono:
  "pinned b db \<Longrightarrow> (held b db \<Longrightarrow> held b db') \<Longrightarrow> (\<And>row. row \<in> set (td_rows db') \<Longrightarrow> open_row row \<Longrightarrow> \<exists>row' \<in> set (td_rows db).
     open_row row' \<and> tr_batch_id row' = tr_batch_id row \<and> tr_batch_created_at row' = tr_batch_created_at row) \<Longrightarrow> pinned b db'"
  unfolding pinned_def by metis

lemma pinned_reserved:
  assumes "pinned b db"
  shows "\<exists>row. find open_row (td_rows db) = Some row \<and> batch_of (the (tr_batch_id row)) (tr_batch_created_at row) db = b"
proof -
  from assms have "filter (in_batch (tb_batch_id b)) (td_rows db) \<noteq> []" unfolding pinned_def held_def by (metis list.map(1))
  then obtain q where "q \<in> set (td_rows db)" "open_row q" by (auto simp: filter_empty_conv in_batch_def open_row_def)
  then obtain row where find: "find open_row (td_rows db) = Some row" by (cases "find open_row (td_rows db)") (auto simp: find_None_iff)
  then have "row \<in> set (td_rows db)" "open_row row" by (auto simp: find_Some_iff)
  with assms have "tr_batch_id row = Some (tb_batch_id b)" "tr_batch_created_at row = tb_created_at b" "held b db"
    by (auto simp: pinned_def)
  with find show ?thesis by (auto simp: batch_of_def held_def)
qed

lemma reserve_pinned:
  assumes "pinned b (agent_db a)" and "on_history (reserve_batch i now limit) a = (a', res)"
  shows "agent_db a' = agent_db a" "res = Inr x \<Longrightarrow> x = Some b"
proof -
  obtain row where f: "find open_row (td_rows (agent_db a)) = Some row" "batch_of (the (tr_batch_id row)) (tr_batch_created_at row) (agent_db a) = b"
    using pinned_reserved[OF assms(1)] by blast
  have "agent_db a' = agent_db a \<and> (\<forall>x. res = Inr x \<longrightarrow> x = Some b)"
  proof (cases "limit < 1")
    case True
    with assms(2) show ?thesis by (auto simp: reserve_batch_def on_history_def)
  next
    case False
    from on_history_cases(2)[OF assms(2)[unfolded reserve_batch_def if_not_P[OF False]]] f show ?thesis by auto
  qed
  then show "agent_db a' = agent_db a" "res = Inr x \<Longrightarrow> x = Some b" by blast+
qed

text \<open>The rows a new batch takes.\<close>

definition taken :: "int \<Rightarrow> telemetry_db \<Rightarrow> telemetry_row list" where
  "taken limit db = take (nat limit) (filter pending_row (td_rows db))"

lemma reserve_cases:
  assumes run: "on_history (reserve_batch i now limit) a = (a', Inr (Some b))"
  shows "(\<exists>row. find open_row (td_rows (agent_db a)) = Some row \<and> agent_db a' = agent_db a
      \<and> b = batch_of (the (tr_batch_id row)) (tr_batch_created_at row) (agent_db a))
    \<or> (\<exists>row. row \<in> set (taken limit (agent_db a)) \<and> b = batch_of i (Some now) (agent_db a')
      \<and> agent_db a' = (agent_db a)\<lparr>td_rows := map (\<lambda>row. if sr_sequence (tr_sample row) \<in> set (map (sr_sequence \<circ> tr_sample) (taken limit (agent_db a)))
          then row\<lparr>tr_batch_id := Some i, tr_batch_created_at := Some now\<rparr> else row) (td_rows (agent_db a))\<rparr>)"
proof -
  have "\<not> limit < 1" using run by (auto simp: reserve_batch_def on_history_def)
  from on_history_cases(2)[OF run[unfolded reserve_batch_def if_not_P[OF this]]]
  have m: "(case find open_row (td_rows (agent_db a)) of
        Some row \<Rightarrow> Inr (agent_db a, Some (batch_of (the (tr_batch_id row)) (tr_batch_created_at row) (agent_db a)))
      | None \<Rightarrow> (let sequences = map (sr_sequence \<circ> tr_sample) (taken limit (agent_db a)) in
          if sequences = [] then Inr (agent_db a, None)
          else let db' = (agent_db a)\<lparr>td_rows := map (\<lambda>row. if sr_sequence (tr_sample row) \<in> set sequences
                 then row\<lparr>tr_batch_id := Some i, tr_batch_created_at := Some now\<rparr> else row) (td_rows (agent_db a))\<rparr>
            in Inr (db', Some (batch_of i (Some now) db')))) = (Inr (agent_db a', Some b) :: (telemetry_db \<times> telemetry_batch option) result)"
    unfolding taken_def by blast
  show ?thesis
  proof (cases "find open_row (td_rows (agent_db a))")
    case (Some row)
    with m show ?thesis by auto
  next
    case None
    show ?thesis
    proof (cases "taken limit (agent_db a)")
      case Nil
      with m None show ?thesis by simp
    next
      case (Cons row rows)
      then have "map (sr_sequence \<circ> tr_sample) (taken limit (agent_db a)) \<noteq> []" by simp
      with m None have "Inr ((agent_db a)\<lparr>td_rows := map (\<lambda>row. if sr_sequence (tr_sample row) \<in> set (map (sr_sequence \<circ> tr_sample) (taken limit (agent_db a)))
          then row\<lparr>tr_batch_id := Some i, tr_batch_created_at := Some now\<rparr> else row) (td_rows (agent_db a))\<rparr>,
          Some (batch_of i (Some now) ((agent_db a)\<lparr>td_rows := map (\<lambda>row. if sr_sequence (tr_sample row) \<in> set (map (sr_sequence \<circ> tr_sample) (taken limit (agent_db a)))
          then row\<lparr>tr_batch_id := Some i, tr_batch_created_at := Some now\<rparr> else row) (td_rows (agent_db a))\<rparr>)))
        = (Inr (agent_db a', Some b) :: (telemetry_db \<times> telemetry_batch option) result)"
        by (simp only: option.case Let_def if_False)
      moreover have "row \<in> set (taken limit (agent_db a))" using Cons by simp
      ultimately show ?thesis by (metis (no_types, lifting) sum.inject(2) prod.inject option.inject)
    qed
  qed
qed

lemma reserve_pins:
  assumes ok: "queue_ok C A (agent_db a)" and run: "on_history (reserve_batch i now limit) a = (a', Inr (Some b))"
  shows "pinned b (agent_db a')"
proof -
  have held: "held b (agent_db a')" by (rule reserve_ok(2)[OF ok run]) simp
  have one: "one_batch (set (td_rows (agent_db a')))" using reserve_ok(1)[OF ok run] by (simp add: queue_ok_def)
  have "\<exists>row \<in> set (td_rows (agent_db a')). open_row row \<and> tr_batch_id row = Some (tb_batch_id b) \<and> tr_batch_created_at row = tb_created_at b"
    using reserve_cases[OF run]
  proof (elim disjE exE conjE)
    fix row assume row: "find open_row (td_rows (agent_db a)) = Some row" "agent_db a' = agent_db a"
      "b = batch_of (the (tr_batch_id row)) (tr_batch_created_at row) (agent_db a)"
    then have "row \<in> set (td_rows (agent_db a))" "open_row row" by (auto simp: find_Some_iff)
    with row(2,3) show ?thesis by (auto simp: batch_of_def open_row_def)
  next
    fix row
    let ?f = "\<lambda>row. if sr_sequence (tr_sample row) \<in> set (map (sr_sequence \<circ> tr_sample) (taken limit (agent_db a)))
          then row\<lparr>tr_batch_id := Some i, tr_batch_created_at := Some now\<rparr> else row"
    assume row: "row \<in> set (taken limit (agent_db a))" and b: "b = batch_of i (Some now) (agent_db a')"
      and db: "agent_db a' = (agent_db a)\<lparr>td_rows := map ?f (td_rows (agent_db a))\<rparr>"
    let ?r = "row\<lparr>tr_batch_id := Some i, tr_batch_created_at := Some now\<rparr>"
    have "sr_sequence (tr_sample row) \<in> set (map (sr_sequence \<circ> tr_sample) (taken limit (agent_db a)))" using row by auto
    then have f: "?f row = ?r" by (rule if_P)
    have p: "row \<in> set (td_rows (agent_db a))" "pending_row row" using row by (auto simp: taken_def dest: in_set_takeD)
    have "?f row \<in> set (map ?f (td_rows (agent_db a)))" unfolding set_map by (rule imageI[OF p(1)])
    moreover have "td_rows (agent_db a') = map ?f (td_rows (agent_db a))" by (simp add: db)
    ultimately have "?r \<in> set (td_rows (agent_db a'))" unfolding f by (simp only:)
    moreover have "open_row ?r" using p(2) by (simp add: pending_row_def open_row_def)
    moreover have "tr_batch_id ?r = Some (tb_batch_id b)" "tr_batch_created_at ?r = tb_created_at b" by (simp_all add: b batch_of_def)
    ultimately show ?thesis by blast
  qed
  then obtain row where row: "row \<in> set (td_rows (agent_db a'))" "open_row row" "tr_batch_id row = Some (tb_batch_id b)"
    "tr_batch_created_at row = tb_created_at b" by blast
  from held row have "tb_samples b \<noteq> []" by (auto simp: held_def filter_empty_conv in_batch_def open_row_def)
  moreover have "tr_batch_id q = Some (tb_batch_id b) \<and> tr_batch_created_at q = tb_created_at b"
    if "q \<in> set (td_rows (agent_db a'))" "open_row q" for q
    using one_batchD[OF one row(1) that(1) row(2) that(2)] row(3,4) by simp
  ultimately show ?thesis using held unfolding pinned_def by blast
qed

lemma reserve_step_db:
  "agent_db (tn_agent (reserve_step c sink i r))
   = agent_db (fst (on_history (reserve_batch (si_batch_id i) (si_now i 0) (ta_batch_size (tn_agent r))) (tn_agent r)))"
  by (auto simp: reserve_step_def split: prod.split sum.split option.split)

lemma attempt_step_db:
  "agent_db (tn_agent (attempt_step now b answer r))
   = agent_db (fst (on_history (record_attempt now (tb_batch_id b) (map_option (\<lambda>e. exc_str (as_exc e)) answer)) (tn_agent r)))"
  by (auto simp: attempt_step_def split: prod.split sum.split)

lemma pinned_step:
  assumes ok: "run_ok r" and pin: "pinned b (agent_db (tn_agent r))" and e: "\<nexists>now. e = EndEvent now"
  shows "pinned b (agent_db (tn_agent (telemetry_step c e r)))"
proof (cases e)
  case (CaptureEvent i)
  obtain a x where run: "capture_once c i (tn_agent r) = (a, x)" by fastforce
  from ok have q: "queue_ok (tn_captured r) (set (tn_accepted r)) (agent_db (tn_agent r))" by (simp add: run_ok_def)
  show ?thesis
  proof (cases x)
    case (Inl e)
    with capture_ok[OF q run] pin CaptureEvent run show ?thesis by (simp add: telemetry_step_def)
  next
    case (Inr y)
    from capture_ok[OF q run] Inr obtain row where n: "pending_row row" "agent_db a = (agent_db (tn_agent r))
      \<lparr>td_rows := td_rows (agent_db (tn_agent r)) @ [row], td_last_sequence := td_last_sequence (agent_db (tn_agent r)) + 1\<rparr>" by auto
    have "pinned b (agent_db a)"
      by (rule pinned_mono[OF pin]) (use n held_append[OF _ n(1)] in \<open>auto simp: pending_row_def open_row_def\<close>)
    with Inr CaptureEvent run show ?thesis by (simp add: telemetry_step_def)
  qed
next
  case (MaintainEvent now1 now2)
  obtain a x where run: "maintenance_once c now1 now2 (tn_agent r) = (a, x)" by fastforce
  from ok have q: "queue_ok (tn_captured r) (set (tn_accepted r)) (agent_db (tn_agent r))" by (simp add: run_ok_def)
  have "set (td_rows (agent_db a)) \<subseteq> set (td_rows (agent_db (tn_agent r)))"
    using maintenance_db[OF run]
  proof (elim disjE exE conjE)
    fix db1 ns ns'
    assume b: "build_all LONG_RANGE_ROLLUPS now1 (tg_max_buckets c) (agent_db (tn_agent r)) = Inr (db1, ns)"
      and p: "prune LONG_RANGE_ROLLUPS (now2 - rt_raw_days (tg_retention c) * DAY)
        [(''1m'', now2 - rt_minute_days (tg_retention c) * DAY), (''15m'', now2 - max (rt_quarter_days (tg_retention c)) QUARTER_RETENTION_DAYS * DAY),
         (''1h'', now2 - HOURLY_RETENTION_DAYS * DAY), (''1d'', now2 - DAILY_RETENTION_DAYS * DAY)] db1 = Inr (agent_db a, ns')"
    obtain keep where "td_rows (agent_db a) = filter keep (td_rows db1)" by (rule prune_frame[OF p])
    with build_all_frame[OF b] show ?thesis by auto
  qed (use build_all_frame in auto)
  then have "pinned b (agent_db a)" by (intro pinned_mono[OF pin] maintenance_ok(2)[OF q run]) blast+
  with MaintainEvent run show ?thesis by (simp add: telemetry_step_def op_ignore_def)
next
  case (ReserveEvent i)
  have "pinned b (agent_db (tn_agent (reserve_step c sink i r)))" for sink
    unfolding reserve_step_db using reserve_pinned(1)[OF pin] pin by (metis prod.collapse)
  with pin ReserveEvent show ?thesis by (auto simp: telemetry_step_def split: option.split sync_phase.split)
next
  case (AttemptEvent now)
  have "pinned b (agent_db (tn_agent (attempt_step now b' answer r)))" for b' answer
  proof -
    let ?f = "\<lambda>row. row\<lparr>tr_attempts := tr_attempts row + 1, tr_last_attempt_at := Some now, tr_last_error := map_option (\<lambda>e. exc_str (as_exc e)) answer\<rparr>"
    obtain a x where run: "on_history (record_attempt now (tb_batch_id b') (map_option (\<lambda>e. exc_str (as_exc e)) answer)) (tn_agent r) = (a, x)" by fastforce
    from ok have q: "queue_ok (tn_captured r) (set (tn_accepted r)) (agent_db (tn_agent r))" by (simp add: run_ok_def)
    from on_history_cases(2)[OF run[unfolded record_attempt_def]]
    have "agent_db a = agent_db (tn_agent r) \<or> agent_db a = update_batch (tb_batch_id b') ?f (agent_db (tn_agent r))" by auto
    then have rows: "\<exists>row' \<in> set (td_rows (agent_db (tn_agent r))). row = row' \<or> row = ?f row'" if "row \<in> set (td_rows (agent_db a))" for row
      using that by (auto simp: update_batch_def split: if_split_asm)
    have "pinned b (agent_db a)"
    proof (rule pinned_mono[OF pin attempt_ok(2)[OF q run]])
      fix row assume "row \<in> set (td_rows (agent_db a))" and o: "open_row row"
      with rows obtain row' where "row' \<in> set (td_rows (agent_db (tn_agent r)))" "row = row' \<or> row = ?f row'" by blast
      with o show "\<exists>row' \<in> set (td_rows (agent_db (tn_agent r))). open_row row' \<and> tr_batch_id row' = tr_batch_id row
        \<and> tr_batch_created_at row' = tr_batch_created_at row" by (intro bexI[of _ row']) (auto simp: open_row_def)
    qed
    with run show ?thesis by (simp add: attempt_step_db)
  qed
  with pin AttemptEvent show ?thesis by (auto simp: telemetry_step_def split: sync_phase.split)
next
  case (EndEvent now)
  with e show ?thesis by blast
next
  case RestartEvent
  with pin show ?thesis by (simp add: telemetry_step_def)
qed

lemma pinned_steps:
  assumes "run_ok r" and "pinned b (agent_db (tn_agent r))" and "\<And>now. EndEvent now \<notin> set es"
  shows "pinned b (agent_db (tn_agent (telemetry_steps c es r)))"
  using assms unfolding telemetry_steps_def
proof (induction es arbitrary: r)
  case (Cons e es)
  have "pinned b (agent_db (tn_agent (telemetry_step c e r)))" by (rule pinned_step[OF Cons.prems(1,2)]) (use Cons.prems(3) in auto)
  with Cons.IH[OF telemetry_step_ok[OF Cons.prems(1)]] Cons.prems(3) show ?case by simp
qed simp

text \<open>C40: A batch is delivered unchanged until it is done. Once a reservation in a run has returned a batch, every later
  reservation that does not raise returns the same batch, with the same identifier, date and samples in the same order, however often
  the delivery fails, the agent restarts, samples are captured and history is pruned in between, until a batch is
  marked as delivered or released as too large; so the sink can recognise repetitions.\<close>

theorem batch_delivered_unchanged:
  assumes "new_telemetry_agent c (new_store f) = Inr a" and "telemetry_steps c es (new_run a) = r"
    and "on_history (reserve_batch i now limit) (tn_agent r) = (a1, Inr (Some b))"
    and "telemetry_steps c later (r\<lparr>tn_agent := a1, tn_phase := SyncIdle\<rparr>) = r'" and "\<And>t. EndEvent t \<notin> set later"
    and "on_history (reserve_batch i' now' limit') (tn_agent r') = (a2, Inr b')"
  shows "b' = Some b"
proof -
  have ok: "run_ok r" using telemetry_steps_ok[OF new_run_ok[OF assms(1)]] assms(2) by blast
  then have q: "queue_ok (tn_captured r) (set (tn_accepted r)) (agent_db (tn_agent r))" by (simp add: run_ok_def)
  let ?r1 = "r\<lparr>tn_agent := a1, tn_phase := SyncIdle\<rparr>"
  have "run_ok ?r1" using reserve_ok(1)[OF q assms(3)] by (simp add: run_ok_def phase_ok_def)
  then have "pinned b (agent_db (tn_agent (telemetry_steps c later ?r1)))"
    by (rule pinned_steps) (use reserve_pins[OF q assms(3)] assms(5) in auto)
  then have "pinned b (agent_db (tn_agent r'))" using assms(4) by simp
  from reserve_pinned(2)[OF this assms(6)] show ?thesis by simp
qed


subsection \<open>An agent\<close>

text \<open>A codec that knows the state of the core and one acknowledgement, and a day of events.\<close>

definition demo_telemetry :: telemetry_config where
  "demo_telemetry = \<lparr>tg_codec = \<lparr>tc_dumps = (\<lambda>_. ''batch''),
       tc_loads = (\<lambda>t. if t = ''state'' then Some (VDict [(''ok'', VBool True), (''state'', VDict [(''fan_on'', VBool True)])])
         else Some (VDict [(''schema_version'', VInt 1), (''source_id'', VStr ''hut''), (''batch_id'', VStr ''b1''), (''status'', VStr ''accepted''),
           (''received'', VInt 2), (''stored'', VInt 2), (''duplicates'', VInt 0), (''rejected'', VInt 0)])),
       tc_iso = (\<lambda>_. ''t''), tc_str = (\<lambda>_. ''v'')\<rparr>, tg_sink = Some \<lparr>sk_max_body_bytes = 1000\<rparr>, tg_source_id = ''hut'',
     tg_capture_interval = Fin 10, tg_idle_sync_interval = Fin 5, tg_batch_size = 2,
     tg_retention = \<lparr>rt_raw_days = 14, rt_minute_days = 90, rt_quarter_days = 365\<rparr>, tg_maintenance_interval = Fin 60, tg_max_buckets = 100\<rparr>"

definition demo_historian :: telemetry_agent where
  "demo_historian = \<lparr>ta_store = new_store (\<lambda>_. None), ta_batch_size = 2\<rparr>"

lemma demo_telemetry_agent: "new_telemetry_agent demo_telemetry (new_store (\<lambda>_. None)) = Inr demo_historian"
  by (simp add: new_telemetry_agent_def demo_telemetry_def demo_historian_def)

definition demo_capture :: "string \<Rightarrow> int \<Rightarrow> telemetry_event" where
  "demo_capture sample_id t = CaptureEvent \<lparr>ci_reply = Inr ''state'', ci_sample_id = sample_id, ci_now = t * MICROSECONDS\<rparr>"

definition demo_maintain :: "int \<Rightarrow> telemetry_event" where
  "demo_maintain t = MaintainEvent (t * MICROSECONDS) (t * MICROSECONDS)"

definition demo_sync :: "string \<Rightarrow> sink_answer \<Rightarrow> telemetry_event" where
  "demo_sync batch_id answer = ReserveEvent \<lparr>si_batch_id = batch_id, si_now = (\<lambda>_. 0), si_sink = (\<lambda>_. answer)\<rparr>"

definition demo_sample :: "int \<Rightarrow> string \<Rightarrow> int \<Rightarrow> sample_record" where
  "demo_sample n sample_id t = \<lparr>sr_sequence = n, sr_sample_id = sample_id, sr_captured_at = t * MICROSECONDS, sr_metrics = [(''fan_on'', VBool True)]\<rparr>"

text \<open>Two of three samples are acknowledged; the third is captured after the reservation.\<close>

definition demo_synced :: "telemetry_event list" where
  "demo_synced = [demo_capture ''s1'' 30, demo_capture ''s2'' 50, demo_sync ''b1'' (SinkReply 200 ''ack''), demo_capture ''s3'' 60, AttemptEvent 0,
     EndEvent 0]"

lemma demo_synced_run:
  "tn_captured (telemetry_steps demo_telemetry demo_synced (new_run demo_historian)) = [demo_sample 1 ''s1'' 30, demo_sample 2 ''s2'' 50, demo_sample 3 ''s3'' 60]"
  "tn_accepted (telemetry_steps demo_telemetry demo_synced (new_run demo_historian)) = [demo_sample 1 ''s1'' 30, demo_sample 2 ''s2'' 50]"
  by code_simp+

lemma telemetry_no_sample_lost_witness:
  "demo_sample 3 ''s3'' 60 \<in> set (map tr_sample (td_rows (agent_db (tn_agent (telemetry_steps demo_telemetry demo_synced (new_run demo_historian))))))"
  using telemetry_no_sample_lost[OF demo_telemetry_agent refl, of demo_synced] unfolding demo_synced_run by (simp add: demo_sample_def)

text \<open>A delivery that fails, a capture, a maintenance and a restart between two reservations.\<close>

definition demo_waiting :: telemetry_run where
  "demo_waiting = telemetry_steps demo_telemetry [demo_capture ''s1'' 30] (new_run demo_historian)"

definition demo_reserve :: "string \<Rightarrow> int \<Rightarrow> telemetry_run \<Rightarrow> telemetry_agent \<times> telemetry_batch option result" where
  "demo_reserve i now r = on_history (reserve_batch i now 2) (tn_agent r)"

definition demo_troubles :: "telemetry_event list" where
  "demo_troubles = [demo_capture ''s2'' 50, demo_sync ''b2'' (SinkUnreachable ''no route''), AttemptEvent 0, demo_maintain 120, RestartEvent]"

definition demo_later :: telemetry_run where
  "demo_later = telemetry_steps demo_telemetry demo_troubles (demo_waiting\<lparr>tn_agent := fst (demo_reserve ''b1'' 0 demo_waiting), tn_phase := SyncIdle\<rparr>)"

definition demo_batch :: telemetry_batch where
  "demo_batch = \<lparr>tb_batch_id = ''b1'', tb_created_at = Some 0, tb_samples = [demo_sample 1 ''s1'' 30]\<rparr>"

lemma demo_reserved: "snd (demo_reserve ''b1'' 0 demo_waiting) = Inr (Some demo_batch)" "isl (snd (demo_reserve ''b3'' 9 demo_later)) = False"
  by code_simp+

lemma batch_delivered_unchanged_witness: "snd (demo_reserve ''b3'' 9 demo_later) = Inr (Some demo_batch)"
proof -
  obtain b' where b: "snd (demo_reserve ''b3'' 9 demo_later) = Inr b'" using demo_reserved(2) by (cases "snd (demo_reserve ''b3'' 9 demo_later)") auto
  have first: "on_history (reserve_batch ''b1'' 0 2) (tn_agent demo_waiting) = (fst (demo_reserve ''b1'' 0 demo_waiting), Inr (Some demo_batch))"
    using demo_reserved(1) by (simp add: demo_reserve_def prod_eq_iff)
  have second: "on_history (reserve_batch ''b3'' 9 2) (tn_agent demo_later) = (fst (demo_reserve ''b3'' 9 demo_later), Inr b')"
    using b by (simp add: demo_reserve_def prod_eq_iff)
  have "b' = Some demo_batch"
    by (rule batch_delivered_unchanged[OF demo_telemetry_agent demo_waiting_def[symmetric] first demo_later_def[symmetric] _ second])
      (simp add: demo_troubles_def demo_capture_def demo_sync_def demo_maintain_def)
  with b show ?thesis by simp
qed

subsection \<open>A round without interference\<close>

text \<open>A round of synchronisation is its steps, with nothing between them.\<close>

lemma attempt_end_steps:
  assumes "tn_phase r = SyncAnswered b answer"
  shows "tn_agent (telemetry_step c (EndEvent now') (telemetry_step c (AttemptEvent now) r))
    = (case on_history (record_attempt now (tb_batch_id b) (map_option (\<lambda>e. exc_str (as_exc e)) answer)) (tn_agent r) of
        (a, Inl _) \<Rightarrow> a
      | (a, Inr _) \<Rightarrow> (case answer of
          None \<Rightarrow> fst (on_history (mark_batch_synced now' (tb_batch_id b)) a)
        | Some (SendError _) \<Rightarrow> a
        | Some (TooLarge _) \<Rightarrow> if length (tb_samples b) \<le> 1 then a else (case on_history (release_batch (tb_batch_id b)) a of
            (a1, Inr n) \<Rightarrow> if n = length (tb_samples b)
              then a1\<lparr>ta_batch_size := max 1 (min (ta_batch_size a1) (int (length (tb_samples b)) div 2))\<rparr> else a1
          | (a1, Inl _) \<Rightarrow> a1)))"
  using assms by (auto simp: telemetry_step_def attempt_step_def end_step_def split: prod.split sum.split option.split send_error.split)

lemma after_delivery_state:
  "fst (after_delivery i b a) = (case on_history (record_attempt (si_now i 1) (tb_batch_id b) None) a of
     (a1, Inl _) \<Rightarrow> a1 | (a1, Inr _) \<Rightarrow> fst (on_history (mark_batch_synced (si_now i 2) (tb_batch_id b)) a1))"
  by (auto simp: after_delivery_def op_bind_def op_return_def op_raise_def split: sum.split prod.split)

lemma after_failure_state:
  "fst (after_failure i b e a) = (case on_history (record_attempt (si_now i 1) (tb_batch_id b) (Some (exc_str (as_exc e)))) a of
     (a1, Inl _) \<Rightarrow> a1
   | (a1, Inr _) \<Rightarrow> (case e of
       SendError _ \<Rightarrow> a1
     | TooLarge _ \<Rightarrow> if length (tb_samples b) \<le> 1 then a1 else (case on_history (release_batch (tb_batch_id b)) a1 of
         (a2, Inr n) \<Rightarrow> if n = length (tb_samples b)
           then a2\<lparr>ta_batch_size := max 1 (min (ta_batch_size a2) (int (length (tb_samples b)) div 2))\<rparr> else a2
       | (a2, Inl _) \<Rightarrow> a2)))"
  by (cases e) (auto simp: after_failure_def op_bind_def op_raise_def split: sum.split prod.split)

lemma sync_once_steps:
  assumes sink: "tg_sink c = Some sink" and idle: "tn_phase r = SyncIdle"
  shows "fst (sync_once c i (tn_agent r))
    = tn_agent (telemetry_steps c [ReserveEvent i, AttemptEvent (si_now i 1), EndEvent (si_now i 2)] r)"
proof -
  obtain a x where run: "on_history (reserve_batch (si_batch_id i) (si_now i 0) (ta_batch_size (tn_agent r))) (tn_agent r) = (a, x)" by fastforce
  have first: "telemetry_step c (ReserveEvent i) r = reserve_step c sink i r" using sink idle by (simp add: telemetry_step_def)
  show ?thesis
  proof (cases "\<exists>b. x = Inr (Some b)")
    case False
    with run have "reserve_step c sink i r = r\<lparr>tn_agent := a\<rparr>" by (auto simp: reserve_step_def split: sum.split option.split)
    moreover have "fst (sync_once c i (tn_agent r)) = a"
      using False run sink by (auto simp: sync_once_def op_bind_def op_return_def split: sum.split option.split)
    ultimately show ?thesis using idle sink by (simp add: telemetry_steps_def telemetry_step_def)
  next
    case True
    then obtain b where x: "x = Inr (Some b)" by blast
    note ends = attempt_end_steps[where c = c and now = "si_now i (Suc 0)" and now' = "si_now i 2" and b = b]
    show ?thesis
    proof (cases "deliver_batch c sink i b")
      case (Inl e)
      with run x have r1: "tn_agent (reserve_step c sink i r) = a" "tn_phase (reserve_step c sink i r) = SyncAnswered b (Some e)"
        by (simp_all add: reserve_step_def)
      have "fst (sync_once c i (tn_agent r)) = fst (after_failure i b e a)"
        using run x sink Inl by (simp add: sync_once_def op_bind_def)
      then show ?thesis unfolding telemetry_steps_def by (simp add: first ends[OF r1(2), unfolded r1(1)] after_failure_state)
    next
      case (Inr ack)
      with run x have r1: "tn_agent (reserve_step c sink i r) = a" "tn_phase (reserve_step c sink i r) = SyncAnswered b None"
        by (simp_all add: reserve_step_def)
      have "fst (sync_once c i (tn_agent r)) = fst (after_delivery i b a)"
        using run x sink Inr by (simp add: sync_once_def op_bind_def)
      then show ?thesis unfolding telemetry_steps_def by (simp add: first ends[OF r1(2), unfolded r1(1)] after_delivery_state)
    qed
  qed
qed

end
