(* ===== verification/TelemetryHistory.thy ===== *)
theory TelemetryHistory
  imports TelemetrySafety
begin

section \<open>The history has no holes\<close>

text \<open>
  Lemmas about the rollups of \<open>Telemetry\<close>: while the clock does not go back behind a maintenance, every bucket of every
  resolution that has been passed is summarised over all samples captured in it, until its own retention ends.
\<close>

subsection \<open>Buckets\<close>

lemma floor_utc_props:
  assumes "floor_utc t s = Inr c" and "0 \<le> t"
  shows "c \<le> t" "s * MICROSECONDS dvd c" "0 < s"
proof -
  from assms have c: "c = (t div MICROSECONDS - (t div MICROSECONDS) mod s) * MICROSECONDS" and s: "0 < s"
    by (auto simp: floor_utc_def epoch_seconds_def split: if_split_asm)
  have "(t div MICROSECONDS) mod s \<ge> 0" using s by simp
  then have "c \<le> (t div MICROSECONDS) * MICROSECONDS" unfolding c by (simp add: MICROSECONDS_def)
  also have "\<dots> \<le> t" unfolding MICROSECONDS_def by presburger
  finally show "c \<le> t" .
  have "s dvd t div MICROSECONDS - (t div MICROSECONDS) mod s" by (simp add: minus_mod_eq_mult_div)
  then show "s * MICROSECONDS dvd c" unfolding c by (rule mult_dvd_mono) simp
  show "0 < s" by (rule s)
qed

lemma multiples_apart: "w dvd f \<Longrightarrow> w dvd g \<Longrightarrow> f < g \<Longrightarrow> 0 < (w :: int) \<Longrightarrow> f + w \<le> g"
  using zdvd_imp_le[of w "g - f"] by simp

definition bucket :: "sample_record list \<Rightarrow> int \<Rightarrow> int \<Rightarrow> sample_record list" where
  "bucket C from until = filter (\<lambda>x. from \<le> sr_captured_at x \<and> sr_captured_at x < until) C"

definition rollup_of :: "sample_record \<Rightarrow> rollup_sample" where
  "rollup_of x = \<lparr>rl_captured_at = sr_captured_at x, rl_metrics = sr_metrics x\<rparr>"

lemma sample_of_row_eq: "sample_of_row row = rollup_of (tr_sample row)"
  by (simp add: sample_of_row_def rollup_of_def)

text \<open>A row that summarises the samples of a bucket, if there are any.\<close>

definition summarised :: "sample_record list \<Rightarrow> int \<Rightarrow> int \<Rightarrow> rollup_row set \<Rightarrow> bool" where
  "summarised C from until rows = (bucket C from until = [] \<or> (\<exists>row \<in> rows. rr_bucket_start row = from \<and> rr_bucket_end row = until
     \<and> rr_sample_count row = length (bucket C from until)
     \<and> summarize_metrics (map rollup_of (bucket C from until)) = Inr (rr_summary row)))"

lemma summarised_mono: "summarised C f u R \<Longrightarrow> R \<subseteq> R' \<Longrightarrow> summarised C f u R'"
  unfolding summarised_def by blast

text \<open>The rows of a bucket are the captured samples of the bucket, when none of them is missing.\<close>

lemma subseq_all:
  assumes "subseq xs ys" and "distinct ys" and "set ys \<subseteq> set xs"
  shows "xs = ys"
proof -
  have "distinct xs" using assms(1,2)
    by (induction rule: list_emb.induct) (auto dest: list_emb_set)
  then have "length ys \<le> length xs" using assms(2,3) by (metis card_mono distinct_card List.finite_set)
  then show ?thesis using assms(1) by (metis list_emb_length subseq_same_length le_antisym)
qed

lemma rows_of_bucket:
  assumes "queue_ok C A db" and "set (bucket C from until) \<subseteq> set (stored db)"
  shows "map tr_sample (rows_between from until db) = bucket C from until"
proof (rule subseq_all)
  have "map tr_sample (rows_between from until db) = bucket (stored db) from until"
    by (simp add: rows_between_def bucket_def filter_map comp_def)
  then show "subseq (map tr_sample (rows_between from until db)) (bucket C from until)"
    and "set (bucket C from until) \<subseteq> set (map tr_sample (rows_between from until db))"
    using assms unfolding bucket_def queue_ok_def by (auto intro: subseq_filter)
  show "distinct (bucket C from until)" using queue_ok_distinct[OF assms(1)] by (simp add: bucket_def)
qed

subsection \<open>Progress of a resolution\<close>

text \<open>Everything before \<open>p\<close> is summarised, apart from what was pruned, and nothing after it.\<close>

definition done_until :: "sample_record list \<Rightarrow> int \<Rightarrow> int \<Rightarrow> int \<Rightarrow> rollup_row set \<Rightarrow> bool" where
  "done_until C w old p rows = (w dvd p \<and> (\<forall>row \<in> rows. rr_bucket_start row < p)
     \<and> (\<forall>f. w dvd f \<longrightarrow> f + w \<le> p \<longrightarrow> f < old \<or> summarised C f (f + w) rows))"

definition resolution_ok :: "sample_record list \<Rightarrow> int \<Rightarrow> string \<Rightarrow> int \<Rightarrow> telemetry_db \<Rightarrow> bool" where
  "resolution_ok C w r old db = (case map_of (td_processed db) r of
     None \<Rightarrow> rollup_rows r db = []
   | Some p \<Rightarrow> done_until C w old p (set (rollup_rows r db)))"

text \<open>A captured sample that is not stored any more has been passed by every resolution.\<close>

definition raw_ok :: "sample_record list \<Rightarrow> telemetry_db \<Rightarrow> bool" where
  "raw_ok C db = (\<forall>x \<in> set C. x \<in> set (stored db)
     \<or> (\<forall>r \<in> fst ` set LONG_RANGE_ROLLUPS. \<exists>p. map_of (td_processed db) r = Some p \<and> sr_captured_at x < p))"

lemma done_until_next:
  assumes d: "done_until C w old p rows" and w: "0 < w" and s: "summarised C p (p + w) rows'" and rows: "rows \<subseteq> rows'"
    and new: "\<And>row. row \<in> rows' \<Longrightarrow> row \<in> rows \<or> rr_bucket_start row = p"
  shows "done_until C w old (p + w) rows'"
  unfolding done_until_def
proof (intro conjI ballI allI impI)
  show "w dvd p + w" using d by (simp add: done_until_def)
  fix row assume "row \<in> rows'"
  with new d w show "rr_bucket_start row < p + w" unfolding done_until_def by fastforce
next
  fix f assume f: "w dvd f" "f + w \<le> p + w"
  show "f < old \<or> summarised C f (f + w) rows'"
  proof (cases "f = p")
    case True
    with s show ?thesis by simp
  next
    case False
    with f have "f + w \<le> p" using multiples_apart[of w f p] d w by (auto simp: done_until_def)
    with f(1) d have "f < old \<or> summarised C f (f + w) rows" unfolding done_until_def by blast
    with summarised_mono[OF _ rows] show ?thesis by blast
  qed
qed

text \<open>One bucket. Rows of other resolutions are not touched.\<close>

lemma build_bucket_ok:
  assumes q: "queue_ok C A db" and d: "done_until C w old p (set (rollup_rows r db))" and w: "0 < w"
    and raw: "\<And>x. x \<in> set C \<Longrightarrow> p \<le> sr_captured_at x \<Longrightarrow> x \<in> set (stored db)"
    and run: "build_bucket r p (p + w) now db = Inr (db', n)"
  shows "done_until C w old (p + w) (set (rollup_rows r db'))" and "\<And>r'. r' \<noteq> r \<Longrightarrow> rollup_rows r' db' = rollup_rows r' db"
    and "td_processed db' = td_processed db"
proof -
  have bucket: "map tr_sample (rows_between p (p + w) db) = bucket C p (p + w)"
    by (rule rows_of_bucket[OF q]) (use raw in \<open>auto simp: bucket_def\<close>)
  have fresh: "p \<notin> set (map rr_bucket_start (rollup_rows r db))" using d by (auto simp: done_until_def)
  have "done_until C w old (p + w) (set (rollup_rows r db')) \<and> (\<forall>r'. r' \<noteq> r \<longrightarrow> rollup_rows r' db' = rollup_rows r' db)
    \<and> td_processed db' = td_processed db"
  proof (cases "rows_between p (p + w) db = []")
    case True
    with run have "db' = db" by (simp add: build_bucket_def)
    moreover have "bucket C p (p + w) = []" using bucket True by simp
    ultimately show ?thesis using done_until_next[OF d w] by (simp add: summarised_def)
  next
    case False
    let ?rows = "rows_between p (p + w) db"
    from run False obtain summary where s: "summarize_metrics (map sample_of_row ?rows) = Inr summary"
      by (auto simp: build_bucket_def Let_def rbind_eq_Inr)
    let ?row = "\<lparr>rr_bucket_start = p, rr_bucket_end = p + w, rr_sample_count = length ?rows, rr_summary = summary, rr_created_at = now\<rparr>"
    from run False s fresh have db': "db' = db\<lparr>td_rollups := AList.update r (rollup_rows r db @ [?row]) (td_rollups db)\<rparr>"
      by (simp add: build_bucket_def Let_def)
    have "map sample_of_row ?rows = map rollup_of (bucket C p (p + w))" unfolding bucket[symmetric] by (simp add: sample_of_row_eq)
    then have "summarised C p (p + w) (insert ?row (set (rollup_rows r db)))"
      using s bucket by (auto simp: summarised_def dest: arg_cong[of _ _ length])
    then have "done_until C w old (p + w) (insert ?row (set (rollup_rows r db)))"
      by (rule done_until_next[OF d w]) auto
    then show ?thesis unfolding db' by (simp add: rollup_rows_def dict_get_def update_conv')
  qed
  then show "done_until C w old (p + w) (set (rollup_rows r db'))" "\<And>r'. r' \<noteq> r \<Longrightarrow> rollup_rows r' db' = rollup_rows r' db"
    "td_processed db' = td_processed db" by blast+
qed

lemma queue_ok_cong: "td_rows db' = td_rows db \<Longrightarrow> td_last_sequence db' = td_last_sequence db \<Longrightarrow> queue_ok C A db' \<longleftrightarrow> queue_ok C A db"
  by (simp add: queue_ok_def)

lemma build_buckets_ok:
  assumes "queue_ok C A db" and "done_until C w old p (set (rollup_rows r db))" and "0 < w" and "w dvd closed_until"
    and "\<And>x. x \<in> set C \<Longrightarrow> p \<le> sr_captured_at x \<Longrightarrow> x \<in> set (stored db)"
    and "build_buckets r w closed_until now k p db = Inr (db', reached, n)"
  shows "done_until C w old reached (set (rollup_rows r db')) \<and> (\<forall>r'. r' \<noteq> r \<longrightarrow> rollup_rows r' db' = rollup_rows r' db)
    \<and> td_processed db' = td_processed db \<and> p \<le> reached \<and> reached \<le> max p closed_until"
  using assms
proof (induction k arbitrary: p db db' n)
  case (Suc k)
  show ?case
  proof (cases "p < closed_until")
    case False
    with Suc.prems show ?thesis by simp
  next
    case True
    with Suc.prems(6) obtain db1 m m' where b: "build_bucket r p (p + w) now db = Inr (db1, m)"
        "build_buckets r w closed_until now k (p + w) db1 = Inr (db', reached, m')"
      by (auto simp: rbind_eq_Inr)
    note one = build_bucket_ok[OF Suc.prems(1,2,3,5) b(1)] and frame = build_frame[OF b(1)]
    have le: "p + w \<le> closed_until" using multiples_apart[of w p closed_until] True Suc.prems(2,3,4) by (simp add: done_until_def)
    have q: "queue_ok C A db1" using Suc.prems(1) frame queue_ok_cong by blast
    have raw: "x \<in> set (stored db1)" if "x \<in> set C" "p + w \<le> sr_captured_at x" for x
      using Suc.prems(5)[of x] Suc.prems(3) that frame by simp
    show ?thesis using Suc.IH[OF q one(1) Suc.prems(3,4) raw b(2)] one(2,3) le Suc.prems(3) by simp
  qed
qed auto

lemma subseq_set: "subseq xs ys \<Longrightarrow> set xs \<subseteq> set ys"
  by (induction rule: list_emb.induct) auto

definition captured_since_epoch :: "sample_record list \<Rightarrow> bool" where
  "captured_since_epoch C = (\<forall>x \<in> set C. 0 \<le> sr_captured_at x)"

lemma start_cursor_ok:
  assumes q: "queue_ok C A db" and ok: "resolution_ok C (s * MICROSECONDS) r old db" and raw: "raw_ok C db"
    and C: "captured_since_epoch C" and r: "r \<in> fst ` set LONG_RANGE_ROLLUPS" and s: "start_cursor r s db = Inr (Some p)"
  shows "done_until C (s * MICROSECONDS) old p (set (rollup_rows r db))"
    and "\<And>x. x \<in> set C \<Longrightarrow> p \<le> sr_captured_at x \<Longrightarrow> x \<in> set (stored db)"
    and "map_of (td_processed db) r = Some p' \<Longrightarrow> p = p'"
proof -
  let ?w = "s * MICROSECONDS"
  have "done_until C ?w old p (set (rollup_rows r db)) \<and> (\<forall>x \<in> set C. p \<le> sr_captured_at x \<longrightarrow> x \<in> set (stored db))
    \<and> (\<forall>p'. map_of (td_processed db) r = Some p' \<longrightarrow> p = p')"
  proof (cases "map_of (td_processed db) r")
    case (Some p0)
    with s have p: "p = p0" by (simp add: start_cursor_def)
    have "x \<in> set (stored db)" if "x \<in> set C" "p \<le> sr_captured_at x" for x
    proof (rule ccontr)
      assume "x \<notin> set (stored db)"
      with raw that(1) r have "\<exists>q. map_of (td_processed db) r = Some q \<and> sr_captured_at x < q" unfolding raw_ok_def by blast
      with Some p that(2) show False by simp
    qed
    with Some p ok show ?thesis by (simp add: resolution_ok_def)
  next
    case None
    let ?min = "Min (set (map (sr_captured_at \<circ> tr_sample) (td_rows db)))"
    from s None have rows: "td_rows db \<noteq> []" and c: "floor_utc ?min s = Inr p"
      by (auto simp: start_cursor_def rbind_eq_Inr split: if_split_asm)
    have all: "x \<in> set (stored db)" if "x \<in> set C" for x
      using raw that r None unfolding raw_ok_def by fastforce
    have sub: "set (stored db) \<subseteq> set C" using q subseq_set unfolding queue_ok_def by blast
    have "?min \<in> set (map (sr_captured_at \<circ> tr_sample) (td_rows db))" using rows by (intro Min_in) auto
    then have "0 \<le> ?min" using sub C by (auto simp: captured_since_epoch_def)
    note f = floor_utc_props[OF c this]
    have early: "p \<le> sr_captured_at x" if "x \<in> set C" for x
    proof -
      from all[OF that] obtain row where row: "row \<in> set (td_rows db)" "tr_sample row = x" by auto
      then have "?min \<le> sr_captured_at x" by (intro Min_le) auto
      with f(1) show ?thesis by simp
    qed
    have "summarised C g (g + ?w) R" if "g + ?w \<le> p" for g R
      using that early by (fastforce simp: summarised_def bucket_def filter_empty_conv)
    with f(2) None ok all show ?thesis by (auto simp: done_until_def resolution_ok_def)
  qed
  then show "done_until C ?w old p (set (rollup_rows r db))" "\<And>x. x \<in> set C \<Longrightarrow> p \<le> sr_captured_at x \<Longrightarrow> x \<in> set (stored db)"
    "map_of (td_processed db) r = Some p' \<Longrightarrow> p = p'" by blast+
qed

lemma raw_ok_progress:
  assumes "raw_ok C db" and "td_rows db' = td_rows db"
    and "\<And>r p. map_of (td_processed db) r = Some p \<Longrightarrow> \<exists>p'. map_of (td_processed db') r = Some p' \<and> p \<le> p'"
  shows "raw_ok C db'"
  unfolding raw_ok_def
proof
  fix x assume "x \<in> set C"
  with assms(1,2) consider "x \<in> set (stored db')"
    | "\<forall>r \<in> fst ` set LONG_RANGE_ROLLUPS. \<exists>p. map_of (td_processed db) r = Some p \<and> sr_captured_at x < p"
    unfolding raw_ok_def by auto
  then show "x \<in> set (stored db') \<or> (\<forall>r \<in> fst ` set LONG_RANGE_ROLLUPS. \<exists>p. map_of (td_processed db') r = Some p \<and> sr_captured_at x < p)"
  proof cases
    case 2
    have "\<exists>p. map_of (td_processed db') r = Some p \<and> sr_captured_at x < p" if r: "r \<in> fst ` set LONG_RANGE_ROLLUPS" for r
    proof -
      from 2 r obtain p where p: "map_of (td_processed db) r = Some p" "sr_captured_at x < p" by blast
      from assms(3)[OF p(1)] p(2) show ?thesis by auto
    qed
    then show ?thesis by blast
  qed simp
qed

lemma build_resolution_ok:
  assumes q: "queue_ok C A db" and ok: "resolution_ok C (s * MICROSECONDS) r old db" and raw: "raw_ok C db"
    and C: "captured_since_epoch C" and r: "r \<in> fst ` set LONG_RANGE_ROLLUPS" and now: "0 \<le> now"
    and run: "build_resolution r s now k db = Inr (db', n)"
  shows "resolution_ok C (s * MICROSECONDS) r old db'" and "raw_ok C db'"
    and "\<And>r'. r' \<noteq> r \<Longrightarrow> rollup_rows r' db' = rollup_rows r' db \<and> map_of (td_processed db') r' = map_of (td_processed db) r'"
    and "map_of (td_processed db') r = Some p \<Longrightarrow> p \<le> now \<or> map_of (td_processed db) r = Some p"
proof -
  let ?w = "s * MICROSECONDS"
  let ?G = "resolution_ok C ?w r old db' \<and> raw_ok C db'
    \<and> (\<forall>r'. r' \<noteq> r \<longrightarrow> rollup_rows r' db' = rollup_rows r' db \<and> map_of (td_processed db') r' = map_of (td_processed db) r')
    \<and> (\<forall>p. map_of (td_processed db') r = Some p \<longrightarrow> p \<le> now \<or> map_of (td_processed db) r = Some p)"
  from run obtain start where start: "start_cursor r s db = Inr start" by (auto simp: build_resolution_def rbind_eq_Inr)
  have ?G
  proof (cases start)
    case None
    with run start have "db' = db" by (simp add: build_resolution_def)
    with ok raw show ?thesis by simp
  next
    case (Some c)
    note sc = start_cursor_ok[OF q ok raw C r start[unfolded Some]]
    from run start Some obtain closed_until db2 reached m where f: "floor_utc now s = Inr closed_until"
      and b: "build_buckets r ?w closed_until now (nat k) c db = Inr (db2, reached, m)"
      and db': "db' = (if c < closed_until \<and> 0 < k then db2\<lparr>td_processed := AList.update r reached (td_processed db2)\<rparr> else db2)"
      by (auto simp: build_resolution_def rbind_eq_Inr split: if_split_asm)
    note fl = floor_utc_props[OF f now]
    have w: "0 < ?w" using fl(3) by (simp add: MICROSECONDS_def)
    note bb = build_buckets_ok[OF q sc(1) w fl(2) sc(2) b] and frame = build_buckets_frame[OF b]
    show ?thesis
    proof (cases "c < closed_until \<and> 0 < k")
      case True
      with db' have db': "db' = db2\<lparr>td_processed := AList.update r reached (td_processed db2)\<rparr>" by simp
      have p: "map_of (td_processed db') = (map_of (td_processed db))(r \<mapsto> reached)" using bb by (simp add: db' update_conv')
      have rr: "rollup_rows r' db' = rollup_rows r' db2" for r' by (simp add: db' rollup_rows_def)
      have "raw_ok C db'"
      proof (rule raw_ok_progress[OF raw])
        show "td_rows db' = td_rows db" using frame by (simp add: db')
        fix r0 p0 assume r0: "map_of (td_processed db) r0 = Some p0"
        show "\<exists>p'. map_of (td_processed db') r0 = Some p' \<and> p0 \<le> p'"
        proof (cases "r0 = r")
          case True
          with r0 sc(3) have "c = p0" by simp
          with bb p True show ?thesis by simp
        qed (use r0 p in simp)
      qed
      moreover have "resolution_ok C ?w r old db'" using bb p rr by (simp add: resolution_ok_def)
      moreover have "reached \<le> now" using bb fl(1) True by simp
      ultimately show ?thesis using bb p rr by simp
    next
      case False
      have "db2 = db" using b False by (cases "nat k") auto
      with db' False have "db' = db" by auto
      with ok raw show ?thesis by simp
    qed
  qed
  then show "resolution_ok C ?w r old db'" "raw_ok C db'"
    "\<And>r'. r' \<noteq> r \<Longrightarrow> rollup_rows r' db' = rollup_rows r' db \<and> map_of (td_processed db') r' = map_of (td_processed db) r'"
    "map_of (td_processed db') r = Some p \<Longrightarrow> p \<le> now \<or> map_of (td_processed db) r = Some p" by blast+
qed

subsection \<open>Runs\<close>

text \<open>How long the rows of a resolution are kept.\<close>

definition kept_days :: "retention \<Rightarrow> string \<Rightarrow> int" where
  "kept_days rt r = (if r = ''1m'' then rt_minute_days rt else if r = ''15m'' then max (rt_quarter_days rt) QUARTER_RETENTION_DAYS
     else if r = ''1h'' then HOURLY_RETENTION_DAYS else DAILY_RETENTION_DAYS)"

definition history_ok :: "retention \<Rightarrow> sample_record list \<Rightarrow> int \<Rightarrow> telemetry_db \<Rightarrow> bool" where
  "history_ok rt C t db = (captured_since_epoch C \<and> raw_ok C db
     \<and> (\<forall>(r, s) \<in> set LONG_RANGE_ROLLUPS. resolution_ok C (s * MICROSECONDS) r (t - kept_days rt r * DAY) db)
     \<and> (\<forall>r p. map_of (td_processed db) r = Some p \<longrightarrow> p \<le> t))"

lemma done_until_later: "done_until C w old p R \<Longrightarrow> old \<le> old' \<Longrightarrow> done_until C w old' p R"
  unfolding done_until_def by fastforce

lemma history_ok_later:
  assumes "history_ok rt C t db" and "t \<le> t'"
  shows "history_ok rt C t' db"
proof -
  have "resolution_ok C w r (t' - d) db" if "resolution_ok C w r (t - d) db" for w r d
    using that done_until_later[of C w "t - d" _ _ "t' - d"] assms(2) by (auto simp: resolution_ok_def split: option.split)
  with assms show ?thesis unfolding history_ok_def by (fastforce split: prod.split)
qed

lemma build_all_ok:
  assumes "queue_ok C A db" and "history_ok rt C t db" and "0 \<le> now" and "now \<le> t"
    and "set rs \<subseteq> set LONG_RANGE_ROLLUPS" and "build_all rs now k db = Inr (db', ns)"
  shows "history_ok rt C t db'"
  using assms
proof (induction rs arbitrary: db ns)
  case (Cons x rs)
  obtain r s where x: "x = (r, s)" by (cases x)
  from Cons.prems(6) x obtain db1 n ns' where b: "build_resolution r s now k db = Inr (db1, n)" "build_all rs now k db1 = Inr (db', ns')"
    by (auto simp: rbind_eq_Inr)
  have frame: "td_rows db1 = td_rows db \<and> td_last_sequence db1 = td_last_sequence db"
    using build_all_frame[of "[x]" now k db db1] b(1) x by simp
  have mem: "(r, s) \<in> set LONG_RANGE_ROLLUPS" using Cons.prems(5) x by simp
  have h: "resolution_ok C (s * MICROSECONDS) r (t - kept_days rt r * DAY) db" "raw_ok C db" "captured_since_epoch C"
    using Cons.prems(2) mem unfolding history_ok_def by auto
  have r: "r \<in> fst ` set LONG_RANGE_ROLLUPS" using mem by force
  note one = build_resolution_ok[OF Cons.prems(1) h r Cons.prems(3) b(1)]
  have "history_ok rt C t db1" unfolding history_ok_def
  proof (intro conjI)
    show "captured_since_epoch C" "raw_ok C db1" by (rule h, rule one)
    show "\<forall>(r', s') \<in> set LONG_RANGE_ROLLUPS. resolution_ok C (s' * MICROSECONDS) r' (t - kept_days rt r' * DAY) db1"
    proof (clarify)
      fix r' s' assume m: "(r', s') \<in> set LONG_RANGE_ROLLUPS"
      show "resolution_ok C (s' * MICROSECONDS) r' (t - kept_days rt r' * DAY) db1"
      proof (cases "r' = r")
        case True
        with m mem have "s' = s" by (auto simp: LONG_RANGE_ROLLUPS_def ROLLUPS_def)
        with one(1) True show ?thesis by simp
      next
        case False
        have "resolution_ok C (s' * MICROSECONDS) r' (t - kept_days rt r' * DAY) db" using Cons.prems(2) m unfolding history_ok_def by auto
        with one(3)[OF False] show ?thesis by (cases "map_of (td_processed db) r'") (simp_all add: resolution_ok_def)
      qed
    qed
    show "\<forall>r' p. map_of (td_processed db1) r' = Some p \<longrightarrow> p \<le> t"
    proof (intro allI impI)
      fix r' p assume p: "map_of (td_processed db1) r' = Some p"
      show "p \<le> t"
      proof (cases "r' = r")
        case True
        with one(4)[of p] p Cons.prems(2,4) show ?thesis unfolding history_ok_def by fastforce
      next
        case False
        with one(3)[OF False] p Cons.prems(2) show ?thesis unfolding history_ok_def by auto
      qed
    qed
  qed
  moreover have "queue_ok C A db1" using Cons.prems(1) frame queue_ok_cong by blast
  ultimately show ?case using Cons.IH[OF _ _ Cons.prems(3,4) _ b(2)] Cons.prems(5) by simp
qed simp

text \<open>What the deletion of rollup rows leaves of a resolution.\<close>

lemma delete_rollups_effect:
  assumes "delete_all_rollups cs db = (db', ns)"
  shows "td_processed db' = td_processed db"
    and "row \<in> set (rollup_rows r db') \<Longrightarrow> row \<in> set (rollup_rows r db)"
    and "row \<in> set (rollup_rows r db) \<Longrightarrow> (\<And>limit. (r, limit) \<in> set cs \<Longrightarrow> limit \<le> rr_bucket_start row) \<Longrightarrow> row \<in> set (rollup_rows r db')"
proof -
  have "td_processed db' = td_processed db \<and> set (rollup_rows r db') \<subseteq> set (rollup_rows r db)
    \<and> (\<forall>row \<in> set (rollup_rows r db). (\<forall>limit. (r, limit) \<in> set cs \<longrightarrow> limit \<le> rr_bucket_start row) \<longrightarrow> row \<in> set (rollup_rows r db'))"
    using assms
  proof (induction cs arbitrary: db ns)
    case (Cons x cs)
    obtain q limit where x: "x = (q, limit)" by (cases x)
    let ?db1 = "db\<lparr>td_rollups := AList.update q (filter (\<lambda>r. \<not> rr_bucket_start r < limit) (rollup_rows q db)) (td_rollups db)\<rparr>"
    obtain ms where rest: "delete_all_rollups cs ?db1 = (db', ms)"
      using Cons.prems x by (auto simp: delete_rollup_rows_def Let_def split: prod.split_asm)
    have rr: "rollup_rows r ?db1 = (if r = q then filter (\<lambda>r. \<not> rr_bucket_start r < limit) (rollup_rows q db) else rollup_rows r db)"
      by (simp add: rollup_rows_def dict_get_def update_conv')
    note IH = Cons.IH[OF rest]
    show ?case
    proof (intro conjI ballI impI subsetI)
      show "td_processed db' = td_processed db" using IH by simp
    next
      fix row assume "row \<in> set (rollup_rows r db')"
      with IH have "row \<in> set (rollup_rows r ?db1)" by blast
      then show "row \<in> set (rollup_rows r db)" unfolding rr by (cases "r = q") simp_all
    next
      fix row assume row: "row \<in> set (rollup_rows r db)" and keep: "\<forall>limit. (r, limit) \<in> set (x # cs) \<longrightarrow> limit \<le> rr_bucket_start row"
      have "row \<in> set (rollup_rows r ?db1)" using row keep x unfolding rr by (cases "r = q") (simp_all add: not_less)
      with IH keep show "row \<in> set (rollup_rows r db')" by simp
    qed
  qed simp
  then show "td_processed db' = td_processed db" "row \<in> set (rollup_rows r db') \<Longrightarrow> row \<in> set (rollup_rows r db)"
    "row \<in> set (rollup_rows r db) \<Longrightarrow> (\<And>limit. (r, limit) \<in> set cs \<Longrightarrow> limit \<le> rr_bucket_start row) \<Longrightarrow> row \<in> set (rollup_rows r db')"
    by blast+
qed

lemma delete_raw_effect:
  assumes "delete_raw LONG_RANGE_ROLLUPS cutoff db = (db1, n)"
  shows "td_processed db1 = td_processed db" "td_rollups db1 = td_rollups db"
    and "x \<in> set (stored db) \<Longrightarrow> x \<in> set (stored db1)
      \<or> (\<forall>r \<in> fst ` set LONG_RANGE_ROLLUPS. \<exists>p. map_of (td_processed db) r = Some p \<and> sr_captured_at x < p)"
proof -
  have "td_processed db1 = td_processed db \<and> td_rollups db1 = td_rollups db \<and> (\<forall>x \<in> set (stored db). x \<in> set (stored db1)
      \<or> (\<forall>r \<in> fst ` set LONG_RANGE_ROLLUPS. \<exists>p. map_of (td_processed db) r = Some p \<and> sr_captured_at x < p))"
  proof (cases "list_all (\<lambda>(r, _). map_of (td_processed db) r \<noteq> None) LONG_RANGE_ROLLUPS")
    case False
    with assms show ?thesis by (simp add: delete_raw_def)
  next
    case True
    let ?P = "set (map (\<lambda>(r, _). the (map_of (td_processed db) r)) LONG_RANGE_ROLLUPS)"
    let ?limit = "min cutoff (Min ?P)"
    from assms True have db1: "db1 = db\<lparr>td_rows := filter (\<lambda>row. \<not> (tr_synced_at row \<noteq> None \<and> sr_captured_at (tr_sample row) < ?limit)) (td_rows db)\<rparr>"
      by (auto simp: delete_raw_def delete_synced_before_def Let_def)
    have passed: "\<exists>p. map_of (td_processed db) r = Some p \<and> c < p" if "c < ?limit" "r \<in> fst ` set LONG_RANGE_ROLLUPS" for c r
    proof -
      from that(2) obtain s where m: "(r, s) \<in> set LONG_RANGE_ROLLUPS" by auto
      with True obtain p where p: "map_of (td_processed db) r = Some p" by (auto simp: list_all_iff)
      have "p \<in> ?P" using m p by (force simp: image_iff)
      then have "Min ?P \<le> p" by (intro Min_le) auto
      with p that(1) show ?thesis by auto
    qed
    have "x \<in> set (stored db1) \<or> (\<forall>r \<in> fst ` set LONG_RANGE_ROLLUPS. \<exists>p. map_of (td_processed db) r = Some p \<and> sr_captured_at x < p)"
      if x: "x \<in> set (stored db)" for x
    proof (cases "sr_captured_at x < ?limit")
      case True
      with passed show ?thesis by blast
    next
      case False
      from x obtain row where "row \<in> set (td_rows db)" "tr_sample row = x" by auto
      with False have "x \<in> set (stored db1)" unfolding db1 by (auto simp: image_iff)
      then show ?thesis ..
    qed
    then show ?thesis unfolding db1 by simp
  qed
  then show "td_processed db1 = td_processed db" "td_rollups db1 = td_rollups db" "x \<in> set (stored db) \<Longrightarrow> x \<in> set (stored db1)
      \<or> (\<forall>r \<in> fst ` set LONG_RANGE_ROLLUPS. \<exists>p. map_of (td_processed db) r = Some p \<and> sr_captured_at x < p)" by blast+
qed

lemma prune_history_ok:
  assumes h: "history_ok rt C t db" and limits: "\<And>r limit. (r, limit) \<in> set cs \<Longrightarrow> limit \<le> t - kept_days rt r * DAY"
    and run: "prune LONG_RANGE_ROLLUPS cutoff cs db = Inr (db', ns)"
  shows "history_ok rt C t db'"
proof -
  obtain db1 n where raw: "delete_raw LONG_RANGE_ROLLUPS cutoff db = (db1, n)" by fastforce
  obtain ms where rest: "delete_all_rollups cs db1 = (db', ms)" using run raw by (auto simp: prune_def split: prod.split_asm)
  note d = delete_raw_effect[OF raw] and e = delete_rollups_effect[OF rest] and rows = delete_rollups_frame[OF rest]
  have rr: "rollup_rows r db1 = rollup_rows r db" for r by (simp add: rollup_rows_def d(2))
  have p: "td_processed db' = td_processed db" using d(1) e(1) by simp
  have "raw_ok C db'" unfolding raw_ok_def
  proof
    fix x assume "x \<in> set C"
    with h consider "x \<in> set (stored db)"
      | "\<forall>r \<in> fst ` set LONG_RANGE_ROLLUPS. \<exists>p. map_of (td_processed db) r = Some p \<and> sr_captured_at x < p"
      unfolding history_ok_def raw_ok_def by blast
    then show "x \<in> set (stored db') \<or> (\<forall>r \<in> fst ` set LONG_RANGE_ROLLUPS. \<exists>p. map_of (td_processed db') r = Some p \<and> sr_captured_at x < p)"
      using d(3)[of x] rows p by cases auto
  qed
  moreover have "resolution_ok C (s * MICROSECONDS) r (t - kept_days rt r * DAY) db'" if m: "(r, s) \<in> set LONG_RANGE_ROLLUPS" for r s
  proof -
    let ?w = "s * MICROSECONDS" and ?old = "t - kept_days rt r * DAY"
    have ok: "resolution_ok C ?w r ?old db" using h m unfolding history_ok_def by auto
    have sub: "set (rollup_rows r db') \<subseteq> set (rollup_rows r db)" using e(2)[of _ r] rr by auto
    show ?thesis
    proof (cases "map_of (td_processed db) r")
      case None
      with ok sub p show ?thesis by (simp add: resolution_ok_def)
    next
      case (Some q)
      with ok have dn: "done_until C ?w ?old q (set (rollup_rows r db))" by (simp add: resolution_ok_def)
      have "f < ?old \<or> summarised C f (f + ?w) (set (rollup_rows r db'))" if f: "?w dvd f" "f + ?w \<le> q" for f
      proof (cases "f < ?old")
        case False
        with dn f have s: "summarised C f (f + ?w) (set (rollup_rows r db))" unfolding done_until_def by blast
        have "row \<in> set (rollup_rows r db')" if "row \<in> set (rollup_rows r db)" "rr_bucket_start row = f" for row
          using e(3)[of row r] that rr limits False by fastforce
        with s show ?thesis unfolding summarised_def by blast
      qed simp
      with dn sub have "done_until C ?w ?old q (set (rollup_rows r db'))" unfolding done_until_def by blast
      with Some p show ?thesis by (simp add: resolution_ok_def)
    qed
  qed
  ultimately show ?thesis using h p unfolding history_ok_def by auto
qed

text \<open>What the history depends on.\<close>

definition same_history :: "telemetry_db \<Rightarrow> telemetry_db \<Rightarrow> bool" where
  "same_history db db' = (stored db' = stored db \<and> td_rollups db' = td_rollups db \<and> td_processed db' = td_processed db)"

lemma history_ok_cong:
  assumes "same_history db db'"
  shows "history_ok rt C t db' \<longleftrightarrow> history_ok rt C t db"
proof -
  have p: "stored db' = stored db" "td_processed db' = td_processed db" using assms by (simp_all add: same_history_def)
  have rr: "rollup_rows r db' = rollup_rows r db" for r using assms by (simp add: same_history_def rollup_rows_def)
  have "raw_ok C db' \<longleftrightarrow> raw_ok C db" unfolding raw_ok_def p ..
  moreover have "resolution_ok C w r old db' \<longleftrightarrow> resolution_ok C w r old db" for w r old unfolding resolution_ok_def p rr ..
  ultimately show ?thesis unfolding history_ok_def p by simp
qed

lemma same_history_update: "(\<And>row. tr_sample (f row) = tr_sample row) \<Longrightarrow> same_history db (update_batch b f db)"
  by (auto simp: same_history_def update_batch_def)

lemma reserve_history:
  assumes "on_history (reserve_batch i now limit) a = (a', res)"
  shows "same_history (agent_db a) (agent_db a')"
proof (cases "\<exists>b. res = Inr (Some b)")
  case True
  then obtain b where "res = Inr (Some b)" by blast
  from reserve_cases[OF assms[unfolded this]] show ?thesis
    by (elim disjE exE conjE) (simp_all add: same_history_def cong: map_cong)
next
  case False
  show ?thesis
  proof (cases "limit < 1")
    case True
    with assms show ?thesis by (auto simp: reserve_batch_def on_history_def same_history_def)
  next
    case lim: False
    from on_history_cases(2)[OF assms[unfolded reserve_batch_def if_not_P[OF lim]]] False show ?thesis
      by (auto simp: same_history_def Let_def split: option.split_asm if_split_asm)
  qed
qed

lemma batch_history:
  assumes "on_history (transaction (\<lambda>db. Inr (update_batch b f db, y db))) a = (a', res)" and "\<And>row. tr_sample (f row) = tr_sample row"
  shows "same_history (agent_db a) (agent_db a')"
  using on_history_cases(2)[OF assms(1)] same_history_update[OF assms(2), of "agent_db a" b] by (auto simp: same_history_def)

lemma step_history:
  assumes "\<nexists>i. e = CaptureEvent i" and "\<nexists>n n'. e = MaintainEvent n n'"
  shows "same_history (agent_db (tn_agent r)) (agent_db (tn_agent (telemetry_step c e r)))"
    and "tn_captured (telemetry_step c e r) = tn_captured r" and "tn_latest (telemetry_step c e r) = tn_latest r"
proof -
  have refl: "same_history db db" for db by (simp add: same_history_def)
  have reserve: "same_history (agent_db (tn_agent r)) (agent_db (tn_agent (reserve_step c sink i r)))" for sink i
    unfolding reserve_step_db using reserve_history by (metis prod.collapse)
  have attempt: "same_history (agent_db (tn_agent r)) (agent_db (tn_agent (attempt_step now b answer r)))" for now b answer
    unfolding attempt_step_db record_attempt_def by (rule batch_history[OF prod.collapse[symmetric]]) simp
  have ending: "same_history (agent_db (tn_agent r)) (agent_db (tn_agent (end_step now b delivered r)))" for now b delivered
  proof -
    let ?m = "if delivered then mark_batch_synced now (tb_batch_id b) else release_batch (tb_batch_id b)"
    have "agent_db (tn_agent (end_step now b delivered r)) = agent_db (fst (on_history ?m (tn_agent r)))"
      unfolding end_step_def by (auto split: prod.split sum.split)
    moreover have "same_history (agent_db (tn_agent r)) (agent_db (fst (on_history ?m (tn_agent r))))"
      by (cases delivered) (simp_all add: mark_batch_synced_def release_batch_def batch_history[OF prod.collapse[symmetric]])
    ultimately show ?thesis by simp
  qed
  have keep: "tn_captured (reserve_step c sink i r) = tn_captured r \<and> tn_latest (reserve_step c sink i r) = tn_latest r"
    "tn_captured (attempt_step now b answer r) = tn_captured r \<and> tn_latest (attempt_step now b answer r) = tn_latest r"
    "tn_captured (end_step now b delivered r) = tn_captured r \<and> tn_latest (end_step now b delivered r) = tn_latest r"
    for sink i now b answer delivered
    by (auto simp: reserve_step_def attempt_step_def end_step_def split: prod.split sum.split option.split)
  show "same_history (agent_db (tn_agent r)) (agent_db (tn_agent (telemetry_step c e r)))"
    using assms reserve attempt ending refl by (cases e) (auto simp: telemetry_step_def split: option.split sync_phase.split)
  show "tn_captured (telemetry_step c e r) = tn_captured r" "tn_latest (telemetry_step c e r) = tn_latest r"
    using assms keep by (cases e; auto simp: telemetry_step_def split: option.split sync_phase.split)+
qed

text \<open>The clock is never set back behind a maintenance.\<close>

fun times_forward :: "int \<Rightarrow> telemetry_event list \<Rightarrow> bool" where
  "times_forward t [] = True"
| "times_forward t (CaptureEvent i # es) = (t \<le> ci_now i \<and> times_forward t es)"
| "times_forward t (MaintainEvent now1 now2 # es) = (0 \<le> now1 \<and> times_forward (max t (max now1 now2)) es)"
| "times_forward t (e # es) = times_forward t es"

definition history_run_ok :: "telemetry_config \<Rightarrow> telemetry_run \<Rightarrow> bool" where
  "history_run_ok c r = (run_ok r \<and> 0 \<le> tn_latest r
     \<and> history_ok (tg_retention c) (tn_captured r) (tn_latest r) (agent_db (tn_agent r)))"

lemma bucket_append: "u \<le> sr_captured_at x \<Longrightarrow> bucket (C @ [x]) f u = bucket C f u"
  by (simp add: bucket_def)

lemma capture_history_ok:
  assumes h: "history_ok rt C t db" and now: "0 \<le> t" "t \<le> sr_captured_at x"
    and db': "stored db' = stored db @ [x]" "td_rollups db' = td_rollups db" "td_processed db' = td_processed db"
  shows "history_ok rt (C @ [x]) t db'"
proof -
  have rr: "rollup_rows r db' = rollup_rows r db" for r by (simp add: rollup_rows_def db')
  have "raw_ok (C @ [x]) db'" using h unfolding history_ok_def raw_ok_def db' by auto
  moreover have "resolution_ok (C @ [x]) w r old db'" if ok: "resolution_ok C w r old db" for w r old
  proof (cases "map_of (td_processed db) r")
    case (Some p)
    with h have p: "p \<le> t" unfolding history_ok_def by blast
    have "summarised (C @ [x]) f (f + w) R \<longleftrightarrow> summarised C f (f + w) R" if "f + w \<le> p" for f R
      using that p now(2) by (simp add: summarised_def bucket_append)
    with Some ok show ?thesis unfolding resolution_ok_def rr db' by (simp add: done_until_def)
  qed (use ok in \<open>simp add: resolution_ok_def rr db'\<close>)
  ultimately show ?thesis using h now unfolding history_ok_def db' captured_since_epoch_def by fastforce
qed

lemma maintain_history_ok:
  assumes q: "queue_ok C A (agent_db a)" and h: "history_ok (tg_retention c) C t (agent_db a)" and now: "0 \<le> now1" "now1 \<le> t" "now2 \<le> t"
    and run: "maintenance_once c now1 now2 a = (a', x)"
  shows "history_ok (tg_retention c) C t (agent_db a')"
proof -
  have built: "history_ok (tg_retention c) C t db1" if "build_all LONG_RANGE_ROLLUPS now1 (tg_max_buckets c) (agent_db a) = Inr (db1, ns)" for db1 ns
    by (rule build_all_ok[OF q h now(1,2) subset_refl that])
  from maintenance_db[OF run] show ?thesis
  proof (elim disjE exE conjE)
    fix db1 ns ns'
    assume b: "build_all LONG_RANGE_ROLLUPS now1 (tg_max_buckets c) (agent_db a) = Inr (db1, ns)"
      and p: "prune LONG_RANGE_ROLLUPS (now2 - rt_raw_days (tg_retention c) * DAY)
        [(''1m'', now2 - rt_minute_days (tg_retention c) * DAY), (''15m'', now2 - max (rt_quarter_days (tg_retention c)) QUARTER_RETENTION_DAYS * DAY),
         (''1h'', now2 - HOURLY_RETENTION_DAYS * DAY), (''1d'', now2 - DAILY_RETENTION_DAYS * DAY)] db1 = Inr (agent_db a', ns')"
    show ?thesis by (rule prune_history_ok[OF built[OF b] _ p]) (use now(3) in \<open>auto simp: kept_days_def\<close>)
  qed (use h built in auto)
qed

lemma history_step_ok:
  assumes ok: "history_run_ok c r" and t: "times_forward (tn_latest r) (e # es)"
  shows "history_run_ok c (telemetry_step c e r) \<and> times_forward (tn_latest (telemetry_step c e r)) es"
proof -
  let ?db = "agent_db (tn_agent r)" and ?rt = "tg_retention c"
  from ok have h: "run_ok r" "0 \<le> tn_latest r" "history_ok ?rt (tn_captured r) (tn_latest r) ?db" by (simp_all add: history_run_ok_def)
  then have q: "queue_ok (tn_captured r) (set (tn_accepted r)) ?db" by (simp add: run_ok_def)
  note step = telemetry_step_ok[OF h(1), of c e]
  consider (capture) i where "e = CaptureEvent i" | (maintain) now1 now2 where "e = MaintainEvent now1 now2"
    | (other) "\<nexists>i. e = CaptureEvent i" "\<nexists>n n'. e = MaintainEvent n n'" by blast
  then show ?thesis
  proof cases
    case (capture i)
    obtain a x where run: "capture_once c i (tn_agent r) = (a, x)" by fastforce
    note co = capture_ok[OF q run]
    show ?thesis
    proof (cases x)
      case (Inl e')
      with co have "agent_db a = ?db" by simp
      with Inl run capture h t step show ?thesis by (simp add: telemetry_step_def history_run_ok_def)
    next
      case (Inr y)
      with co obtain row where y: "sr_captured_at y = ci_now i" "tr_sample row = y" "agent_db a = ?db
        \<lparr>td_rows := td_rows ?db @ [row], td_last_sequence := td_last_sequence ?db + 1\<rparr>" by auto
      have "history_ok ?rt (tn_captured r @ [y]) (tn_latest r) (agent_db a)"
        by (rule capture_history_ok[OF h(3,2)]) (use y t capture in simp_all)
      with Inr run capture h t step show ?thesis by (simp add: telemetry_step_def history_run_ok_def)
    qed
  next
    case (maintain now1 now2)
    obtain a x where run: "maintenance_once c now1 now2 (tn_agent r) = (a, x)" by fastforce
    let ?t = "max (tn_latest r) (max now1 now2)"
    have "history_ok ?rt (tn_captured r) ?t (agent_db a)"
      by (rule maintain_history_ok[OF q history_ok_later[OF h(3)] _ _ _ run]) (use t maintain in auto)
    with run maintain h t step show ?thesis by (simp add: telemetry_step_def history_run_ok_def op_ignore_def)
  next
    case other
    note s = step_history[OF other, where c = c and r = r]
    from other t have "times_forward (tn_latest r) es" by (cases e) auto
    with s h step history_ok_cong[OF s(1)] show ?thesis by (simp add: history_run_ok_def)
  qed
qed

lemma history_steps_ok:
  "history_run_ok c r \<Longrightarrow> times_forward (tn_latest r) es \<Longrightarrow> history_run_ok c (telemetry_steps c es r)"
  unfolding telemetry_steps_def
proof (induction es arbitrary: r)
  case (Cons e es)
  from history_step_ok[OF Cons.prems] Cons.IH show ?case by simp
qed simp

lemma new_history_ok:
  assumes "new_telemetry_agent c (new_store f) = Inr a"
  shows "history_run_ok c (new_run a)"
proof -
  from assms have "agent_db a = empty_db" by (auto simp: new_telemetry_agent_def new_store_def split: if_split_asm)
  then have "history_ok (tg_retention c) [] 0 (agent_db a)"
    by (simp add: history_ok_def captured_since_epoch_def raw_ok_def resolution_ok_def empty_db_def rollup_rows_def dict_get_def case_prod_unfold)
  with new_run_ok[OF assms] show ?thesis by (simp add: history_run_ok_def new_run_def)
qed

text \<open>C39: The history has no holes while the clock goes forward. Whatever transactions fail, however the threads interleave and
  the agent restarts: every bucket of a resolution that lies before the point the resolution has come to and within its retention is
  either empty of captured samples or has a row whose count and summary are those of all samples captured in it.\<close>

theorem rollups_have_no_holes:
  assumes "new_telemetry_agent c (new_store f) = Inr a" and "times_forward 0 es" and "telemetry_steps c es (new_run a) = r"
    and "(resolution, seconds) \<in> set LONG_RANGE_ROLLUPS" and "map_of (td_processed (agent_db (tn_agent r))) resolution = Some reached"
    and "seconds * MICROSECONDS dvd from" and "from + seconds * MICROSECONDS \<le> reached"
    and "tn_latest r - kept_days (tg_retention c) resolution * DAY \<le> from"
    and "bucket (tn_captured r) from (from + seconds * MICROSECONDS) = samples" and "samples \<noteq> []"
  shows "\<exists>row \<in> set (rollup_rows resolution (agent_db (tn_agent r))).
    rr_bucket_start row = from \<and> rr_bucket_end row = from + seconds * MICROSECONDS \<and> rr_sample_count row = length samples
    \<and> summarize_metrics (map rollup_of samples) = Inr (rr_summary row)"
proof -
  let ?db = "agent_db (tn_agent r)" and ?old = "tn_latest r - kept_days (tg_retention c) resolution * DAY"
  have "times_forward (tn_latest (new_run a)) es" using assms(2) by (simp add: new_run_def)
  from history_steps_ok[OF new_history_ok[OF assms(1)] this] assms(3)
  have "history_ok (tg_retention c) (tn_captured r) (tn_latest r) ?db" by (simp add: history_run_ok_def)
  with assms(4) have "resolution_ok (tn_captured r) (seconds * MICROSECONDS) resolution ?old ?db" unfolding history_ok_def by auto
  with assms(5) have "done_until (tn_captured r) (seconds * MICROSECONDS) ?old reached (set (rollup_rows resolution ?db))"
    by (simp add: resolution_ok_def)
  with assms(6-8) have "summarised (tn_captured r) from (from + seconds * MICROSECONDS) (set (rollup_rows resolution ?db))"
    unfolding done_until_def by fastforce
  with assms(9,10) show ?thesis unfolding summarised_def by auto
qed


text \<open>Two samples in the first minute and a maintenance two minutes later.\<close>

definition demo_minute :: "telemetry_event list" where
  "demo_minute = [demo_capture ''s1'' 30, demo_capture ''s2'' 50, demo_maintain 120]"

lemma demo_minute_run:
  "times_forward 0 demo_minute"
  "map_of (td_processed (agent_db (tn_agent (telemetry_steps demo_telemetry demo_minute (new_run demo_historian))))) ''1m'' = Some (120 * MICROSECONDS)"
  "tn_latest (telemetry_steps demo_telemetry demo_minute (new_run demo_historian)) - kept_days (tg_retention demo_telemetry) ''1m'' * DAY \<le> 0"
  "bucket (tn_captured (telemetry_steps demo_telemetry demo_minute (new_run demo_historian))) 0 (0 + 60 * MICROSECONDS)
     = [demo_sample 1 ''s1'' 30, demo_sample 2 ''s2'' 50]"
  by code_simp+

lemma rollups_have_no_holes_witness:
  "\<exists>row \<in> set (rollup_rows ''1m'' (agent_db (tn_agent (telemetry_steps demo_telemetry demo_minute (new_run demo_historian))))).
    rr_bucket_start row = 0 \<and> rr_bucket_end row = 0 + 60 * MICROSECONDS \<and> rr_sample_count row = 2
    \<and> summarize_metrics (map rollup_of [demo_sample 1 ''s1'' 30, demo_sample 2 ''s2'' 50]) = Inr (rr_summary row)"
  using rollups_have_no_holes[OF demo_telemetry_agent demo_minute_run(1) refl _ demo_minute_run(2) _ _ demo_minute_run(3,4)]
  by (simp add: LONG_RANGE_ROLLUPS_def ROLLUPS_def MICROSECONDS_def numeral_2_eq_2)

text \<open>A clock that is set back leaves a hole: the second sample falls into a minute that has been passed, is acknowledged, and is
  deleted without a row of its minute.\<close>

definition demo_clock_back :: "telemetry_event list" where
  "demo_clock_back = [demo_capture ''s1'' 30, demo_maintain 120, demo_capture ''s2'' 70, demo_sync ''b1'' (SinkReply 200 ''ack''),
     AttemptEvent 0, EndEvent 0, demo_maintain (15 * 86400)]"

lemma clock_set_back_leaves_hole:
  "let r = telemetry_steps demo_telemetry demo_clock_back (new_run demo_historian); db = agent_db (tn_agent r) in
     bucket (tn_captured r) (60 * MICROSECONDS) (120 * MICROSECONDS) = [demo_sample 2 ''s2'' 70] \<and> td_rows db = []
     \<and> map rr_bucket_start (rollup_rows ''1m'' db) = [0] \<and> \<not> times_forward 0 demo_clock_back"
  by code_simp

end
