(* ===== verification/Spec2Isabelle.thy ===== *)
theory Spec2Isabelle
  imports Core Shadow AlertStores Supervision ServicePlane AlertPolicy ZigbeeReadings ZigbeeRegistry
    HeartbeatSafety ServerSafety HostPowerSafety ServiceOtaSafety ServiceAgentSafety TelemetryHistory
begin

text \<open>
  The verification development of the workshop ventilation controller. File names are relative to
  \<open>src/src/ventilation_core/\<close>.

  \<^bold>\<open>The program.\<close> A core process (\<open>main.py\<close>) runs two EC fans through a DAC, reads sensor nodes and a heat
  recovery unit (AERO) over two Modbus RTU buses, fan tachometers over GPIO and Zigbee thermometers over MQTT,
  keeps a weekly schedule and an alert journal in SQLite, proposes (without applying) automatic setpoints,
  and is commanded over a Unix socket. The DAC and each bus are owned by processes of their own that talk to
  the core through queues. Beside the core run a service agent, which receives the nodes' signed heartbeats and updates their firmware, an
  agent that switches the 12 V supply and powers the host off, and an agent that records the core's state and delivers the record.

  \<^bold>\<open>Theories.\<close> Each models the files named and holds the lemmas about them.
  \<^item> \<open>Prelude\<close>, \<open>Binary64\<close>, \<open>PyValue\<close>: exceptions, results and effectful calls (\<open>op\<close>), text functions; Python floats as
    exact binary64 values with rounding; JSON and TOML values. \<open>op_bind m f\<close> is a statement sequence, an
    exception leaves the state where it was raised, \<open>op_catch\<close>, \<open>op_finally\<close> and \<open>op_ignore\<close> are the \<open>try\<close> forms.
  \<^item> \<open>LatestQueue\<close>: the bounded queue between a worker and its owner that drops the oldest state.
  \<^item> \<open>Modbus\<close>, \<open>Sensors\<close>, \<open>SensorBus\<close>: \<open>infrastructure/modbus_rtu.py\<close>, \<open>domain/sensors.py\<close>, \<open>infrastructure/sen55_modbus.py\<close>,
    \<open>infrastructure/sensor_bus_worker.py\<close>. CRC and framing, decoding of a SEN55 node, polling, worker and owner.
  \<^item> \<open>Aero\<close>, \<open>AeroControl\<close>, \<open>AeroBus\<close>: \<open>domain/aero.py\<close>, \<open>domain/aero_control.py\<close>, \<open>infrastructure/aero4a2.py\<close>,
    \<open>infrastructure/aero_control_executor.py\<close>, \<open>infrastructure/aero_bus_worker.py\<close>. A control change with read-back,
    physical confirmation and restoration; requests matched to results through the queues.
  \<^item> \<open>Dac\<close>, \<open>Ports\<close>, \<open>ProcessActuator\<close>: \<open>domain/policy.py\<close>, \<open>infrastructure/gp8403.py\<close>, \<open>infrastructure/dfr0971_actuator.py\<close>,
    \<open>infrastructure/hardware_worker.py\<close>, \<open>infrastructure/process_actuator.py\<close>. The locale \<open>ventilation_actuator\<close>, the
    contract of \<open>application/ports.py\<close>, holds of the driver and of the process proxy in front of it.
  \<^item> \<open>Schedule\<close>, \<open>ScheduleManager\<close>: \<open>domain/schedule.py\<close>, \<open>infrastructure/sqlite_schedule_store.py\<close>,
    \<open>application/schedule_controller.py\<close>. Windows as intervals of the week; the store as rows with transactions.
  \<^item> \<open>Tacho\<close>: \<open>domain/tacho.py\<close>, \<open>infrastructure/tacho_monitor.py\<close>.
  \<^item> \<open>CoreState\<close>, \<open>Service\<close>, \<open>Core\<close>: \<open>domain/models.py\<close>, \<open>domain/alerts.py\<close>, \<open>domain/shadow.py\<close>, \<open>domain/zigbee.py\<close>,
    \<open>application/service.py\<close>, and the service on the modelled actuator, buses, tachometers and schedule, with every
    reachable state.
  \<^item> \<open>Shadow\<close>: \<open>domain/shadow_policy.py\<close>, \<open>application/shadow_controller.py\<close>.
  \<^item> \<open>Alerts\<close>, \<open>AlertStores\<close>, \<open>Alerting\<close>, \<open>Supervision\<close>: \<open>application/alert_registry.py\<close>, \<open>infrastructure/sqlite_alert_store.py\<close>,
    \<open>infrastructure/system_power_monitor.py\<close>, \<open>application/alerting_service.py\<close>, \<open>application/zigbee_service.py\<close>,
    \<open>application/shadow_service.py\<close>. The locale \<open>alert_journal\<close> is the store's contract, with both stores as interpretations.
  \<^item> \<open>ServicePlane\<close>, \<open>AlertPolicy\<close>: \<open>service_plane_monitor.py\<close>, \<open>application/service_plane_alert_registry.py\<close>;
    \<open>alert_policy.py\<close>, \<open>alert_policy_runtime.py\<close>, \<open>application/alert_v2_policy_service.py\<close>.
  \<^item> \<open>Zigbee\<close>, \<open>ZigbeeRoles\<close>, \<open>ZigbeeMonitor\<close>, \<open>ZigbeeInvariant\<close>, \<open>ZigbeeReadings\<close>, \<open>ZigbeeRegistry\<close>: the four
    \<open>infrastructure/zigbee_*_monitor.py\<close> and \<open>infrastructure/zigbee_role_store.py\<close>.
  \<^item> \<open>Heartbeat\<close>, \<open>HeartbeatSafety\<close>: \<open>service_heartbeat.py\<close>. Frames, keys, replay protection, expiry.
  \<^item> \<open>ServiceOta\<close>, \<open>ServiceOtaSafety\<close>: \<open>service_ota.py\<close>. Updates of a node: checks of the image, address, challenge, transfer
    and the observation of the restarted node.
  \<^item> \<open>ServiceAgent\<close>, \<open>ServiceAgentSafety\<close>: \<open>service_agent.py\<close>, \<open>service_agent_ota.py\<close>. The agent that composes both, with its counters and
    its requests.
  \<^item> \<open>HostPower\<close>, \<open>HostPowerSafety\<close>: \<open>host_power_agent.py\<close>, \<open>power_domain.py\<close>. A shutdown as the log of calls it makes.
  \<^item> \<open>Rollup\<close>, \<open>Telemetry\<close>, \<open>TelemetrySafety\<close>, \<open>TelemetryHistory\<close>: \<open>telemetry/rollup.py\<close>, \<open>telemetry/store.py\<close>,
    \<open>telemetry/long_range.py\<close>, \<open>telemetry/core_client.py\<close>, \<open>telemetry/http_client.py\<close>, \<open>telemetry/agent.py\<close>. Samples, batches, rollups and
    retention as transactions of one database, and the interleavings of the threads that share it.
  \<^item> \<open>Server\<close>, \<open>ServerSafety\<close>: \<open>runtime/server.py\<close>, on the composed service of \<open>Alerting\<close>.

  \<^bold>\<open>What the lemmas show.\<close> From the bottom up: only well-formed frames become registers, and registers become readings
  in range; an AERO change writes its own value, then at most the previous one, and its caller gets the result of its own
  command under every interleaving; the DAC holds what was applied, also across restarts of its process; in every reachable
  state of the core the reported mode, alarm, failures and outputs agree, a command either takes effect or puts the core
  in FAULT, and working hardware brings it back; the alert, Zigbee, power and SHADOW layers never change what the
  core does and publish exactly its fault; the journal keeps one active record per key whatever the database
  does; roles of Zigbee devices are exclusive; a policy that loads is typed; only authenticated, fresh heartbeats
  are accepted, and a node is reported online only on one that is not stale; an update ends, runs alone and succeeds
  only when the node runs the new image; the host is powered off only after the supply was; no captured sample is lost before it is
  delivered, and its history has no holes while the clock is not set back; requests change the core only through
  the commands that are meant to.

  \<^bold>\<open>Parameters.\<close> What is not under \<open>src/\<close> is an argument: what the serial line, the DAC chip, GPIO, the operating system's
  clocks and the MQTT broker answer; JSON, TOML, time zone, text conversion and HMAC functions; which statement,
  commit or file write fails. Properties that need something of them say so in a named hypothesis.

  \<^bold>\<open>Bounds and fuel.\<close> Loops over deadlines run with the list of clock values they read; a loop that
  would read past it returns no result, and the properties about returning show that a list that passes the
  deadline is enough. The queues hold four states as in the code. Registers are \<open>16 word\<close>, bytes \<open>8 word\<close>, Python's integers \<open>int\<close>.

  \<^bold>\<open>Not modelled.\<close> The wiring in \<open>main.py\<close>; clients that print one request (\<open>ctl.py\<close>, \<open>alertctl.py\<close>, \<open>service_ctl.py\<close>); the
  web backend, advisory, weather and Home Assistant processes, which only read the core's state or send it the
  requests modelled in \<open>Server\<close>, and reshape JSON for the most part; the queries of the telemetry history (\<open>telemetry/history.py\<close>,
  \<open>telemetry/long_range_history.py\<close>) and its start; \<open>hmi_power.py\<close>, one ADB command; acceptance
  runtimes and the scripts of \<open>src/tools/\<close>; the C++ firmware and the Java display. Logging, opening of
  databases and ports, and the schema statements are left out of the files that are modelled.
\<close>

end
